(* ===== verification/Salary_Prelude.thy ===== *)
theory Salary_Prelude
  imports Main
begin

text \<open>
  Generic material shared by every component: the result type of a request handler (an
  error or a value), state passing operations with transactions and error handlers, the
  fragment of JavaScript strings the services use, and list lemmas on keyed tables.

  The collections \<open>op_simps\<close> (equations of the operation combinators) and \<open>frame_intros\<close>
  (facts that an operation leaves part of the state alone) carry the component proofs.
\<close>

named_theorems op_simps "equations of the operation combinators"
named_theorems frame_intros "an operation leaves part of the state unchanged"

section \<open>Results and operations\<close>

text \<open>
  A handler either throws (\<open>Inl\<close>) or returns (\<open>Inr\<close>). An operation also passes the
  database along: writes made before a throw stay, as they do in the program, unless the
  operation runs inside a transaction.
\<close>

type_synonym ('e, 'a) result = "'e + 'a"
type_synonym ('s, 'e, 'a) operation = "'s \<Rightarrow> ('e, 'a) result \<times> 's"

definition bind_res :: "('e, 'a) result \<Rightarrow> ('a \<Rightarrow> ('e, 'b) result) \<Rightarrow> ('e, 'b) result" where
  "bind_res r f = (case r of Inl e \<Rightarrow> Inl e | Inr x \<Rightarrow> f x)"

definition op_return :: "'a \<Rightarrow> ('s, 'e, 'a) operation" where
  "op_return x s = (Inr x, s)"

definition op_throw :: "'e \<Rightarrow> ('s, 'e, 'a) operation" where
  "op_throw e s = (Inl e, s)"

definition op_bind :: "('s, 'e, 'a) operation \<Rightarrow> ('a \<Rightarrow> ('s, 'e, 'b) operation) \<Rightarrow> ('s, 'e, 'b) operation" where
  "op_bind m f s = (case m s of (Inl e, s') \<Rightarrow> (Inl e, s') | (Inr x, s') \<Rightarrow> f x s')"

definition op_lift :: "('e, 'a) result \<Rightarrow> ('s, 'e, 'a) operation" where
  "op_lift r s = (r, s)"

definition op_get :: "('s \<Rightarrow> 'a) \<Rightarrow> ('s, 'e, 'a) operation" where
  "op_get f s = (Inr (f s), s)"

definition op_modify :: "('s \<Rightarrow> 's) \<Rightarrow> ('s, 'e, unit) operation" where
  "op_modify f s = (Inr (), f s)"

definition op_assert :: "bool \<Rightarrow> 'e \<Rightarrow> ('s, 'e, unit) operation" where
  "op_assert b e s = ((if b then Inr () else Inl e), s)"

text \<open>\<open>prisma.$transaction\<close>: an error rolls every write of the body back.\<close>

definition op_transaction :: "('s, 'e, 'a) operation \<Rightarrow> ('s, 'e, 'a) operation" where
  "op_transaction m s = (case m s of (Inl e, _) \<Rightarrow> (Inl e, s) | (Inr x, s') \<Rightarrow> (Inr x, s'))"

text \<open>\<open>try { m } catch (error) { h(error) }\<close>\<close>

definition op_catch :: "('s, 'e, 'a) operation \<Rightarrow> ('e \<Rightarrow> ('s, 'e, 'a) operation) \<Rightarrow> ('s, 'e, 'a) operation" where
  "op_catch m h s = (case m s of (Inl e, s') \<Rightarrow> h e s' | (Inr x, s') \<Rightarrow> (Inr x, s'))"

text \<open>\<open>for (const x of xs) body(x)\<close>\<close>

fun op_iter :: "('a \<Rightarrow> ('s, 'e, unit) operation) \<Rightarrow> 'a list \<Rightarrow> ('s, 'e, unit) operation" where
  "op_iter f [] = op_return ()"
| "op_iter f (x # xs) = op_bind (f x) (\<lambda>_. op_iter f xs)"

text \<open>\<open>xs.map(f)\<close> where \<open>f\<close> may throw: the first error ends the loop.\<close>

fun res_map :: "('a \<Rightarrow> ('e, 'b) result) \<Rightarrow> 'a list \<Rightarrow> ('e, 'b list) result" where
  "res_map f [] = Inr []"
| "res_map f (x # xs) = bind_res (f x) (\<lambda>y. bind_res (res_map f xs) (\<lambda>ys. Inr (y # ys)))"

lemma bind_res_cong [fundef_cong]:
  "r = r' \<Longrightarrow> (\<And>x. r' = Inr x \<Longrightarrow> f x = g x) \<Longrightarrow> bind_res r f = bind_res r' g"
  by (cases r') (auto simp: bind_res_def)

lemma res_map_cong [fundef_cong]:
  "xs = ys \<Longrightarrow> (\<And>x. x \<in> set ys \<Longrightarrow> f x = g x) \<Longrightarrow> res_map f xs = res_map g ys"
  by (induction ys arbitrary: xs) auto

lemma res_map_length: "res_map f xs = Inr ys \<Longrightarrow> length ys = length xs"
  by (induction xs arbitrary: ys) (auto simp: bind_res_def split: sum.splits)

lemma res_map_in: "res_map f xs = Inr ys \<Longrightarrow> y \<in> set ys \<Longrightarrow> \<exists>x \<in> set xs. f x = Inr y"
  by (induction xs arbitrary: ys) (auto simp: bind_res_def split: sum.splits)

lemma bind_res_simps [simp, op_simps]:
  "bind_res (Inl e) f = Inl e"
  "bind_res (Inr x) f = f x"
  by (simp_all add: bind_res_def)

lemma bind_res_Inr_iff: "bind_res r f = Inr y \<longleftrightarrow> (\<exists>x. r = Inr x \<and> f x = Inr y)"
  by (cases r) auto

lemma bind_res_Inl_iff:
  "bind_res r f = Inl e \<longleftrightarrow> r = Inl e \<or> (\<exists>x. r = Inr x \<and> f x = Inl e)"
  by (cases r) auto

lemma op_basic_simps [simp, op_simps]:
  "op_return x s = (Inr x, s)"
  "op_throw e s = (Inl e, s)"
  "op_lift r s = (r, s)"
  "op_get g s = (Inr (g s), s)"
  "op_modify h s = (Inr (), h s)"
  by (simp_all add: op_return_def op_throw_def op_lift_def op_get_def op_modify_def)

lemma op_assert_simps [simp, op_simps]:
  "op_assert True e s = (Inr (), s)"
  "op_assert False e s = (Inl e, s)"
  by (simp_all add: op_assert_def)

lemma op_bind_return [simp, op_simps]: "op_bind (op_return x) f s = f x s"
  by (simp add: op_bind_def)

lemma op_bind_throw [simp, op_simps]: "op_bind (op_throw e) f s = (Inl e, s)"
  by (simp add: op_bind_def)

lemma op_bind_lift_Inl [simp, op_simps]: "op_bind (op_lift (Inl e)) f s = (Inl e, s)"
  by (simp add: op_bind_def)

lemma op_bind_lift_Inr [simp, op_simps]: "op_bind (op_lift (Inr x)) f s = f x s"
  by (simp add: op_bind_def)

lemma op_bind_get [simp, op_simps]: "op_bind (op_get g) f s = f (g s) s"
  by (simp add: op_bind_def)

lemma op_bind_modify [simp, op_simps]: "op_bind (op_modify h) f s = f () (h s)"
  by (simp add: op_bind_def)

lemma op_bind_assert [op_simps]:
  "op_bind (op_assert b e) f s = (if b then f () s else (Inl e, s))"
  by (simp add: op_bind_def op_assert_def)

lemma op_bind_Inr: "m s = (Inr x, s') \<Longrightarrow> op_bind m f s = f x s'"
  by (simp add: op_bind_def)

lemma op_bind_Inl: "m s = (Inl e, s') \<Longrightarrow> op_bind m f s = (Inl e, s')"
  by (simp add: op_bind_def)

lemma op_bind_eq_Inr:
  "op_bind m f s = (Inr y, t) \<longleftrightarrow> (\<exists>x s'. m s = (Inr x, s') \<and> f x s' = (Inr y, t))"
  by (auto simp: op_bind_def split: prod.splits sum.splits)

lemma op_transaction_eq_Inr:
  "op_transaction m s = (Inr y, t) \<longleftrightarrow> m s = (Inr y, t)"
  by (auto simp: op_transaction_def split: prod.splits sum.splits)

lemma op_transaction_Inl:
  "op_transaction m s = (Inl e, t) \<Longrightarrow> t = s"
  by (auto simp: op_transaction_def split: prod.splits sum.splits)

section \<open>Frames: what an operation preserves\<close>

text \<open>
  \<open>op_frame v m\<close>: whatever \<open>m\<close> does, returning or throwing, the view \<open>v\<close> of the state is
  the same afterwards. The rules below push the obligation down to the single writes.
\<close>

definition op_frame :: "('s \<Rightarrow> 'v) \<Rightarrow> 's set \<Rightarrow> ('s, 'e, 'a) operation \<Rightarrow> bool" where
  "op_frame v P m \<longleftrightarrow> (\<forall>s \<in> P. v (snd (m s)) = v s \<and> snd (m s) \<in> P)"

lemma op_frameD: "op_frame v P m \<Longrightarrow> s \<in> P \<Longrightarrow> v (snd (m s)) = v s"
  by (simp add: op_frame_def)

lemma op_frame_invD: "op_frame v P m \<Longrightarrow> s \<in> P \<Longrightarrow> snd (m s) \<in> P"
  by (simp add: op_frame_def)

lemma op_frame_pure [frame_intros]:
  "op_frame v P (op_return x)" "op_frame v P (op_throw e)" "op_frame v P (op_lift r)"
  "op_frame v P (op_get g)" "op_frame v P (op_assert b e)"
  by (simp_all add: op_frame_def op_assert_def)

lemma op_frame_modify:
  "(\<And>s. s \<in> P \<Longrightarrow> v (h s) = v s \<and> h s \<in> P) \<Longrightarrow> op_frame v P (op_modify h)"
  by (simp add: op_frame_def)

lemma op_frame_bind [frame_intros]:
  assumes "op_frame v P m" and "\<And>x. op_frame v P (f x)"
  shows "op_frame v P (op_bind m f)"
  using assms by (fastforce simp: op_frame_def op_bind_def split: prod.splits sum.splits)

text \<open>The continuation only has to keep the frame for the values \<open>m\<close> can return.\<close>

lemma op_frame_bind_strong:
  assumes "op_frame v P m"
    and "\<And>x s. s \<in> P \<Longrightarrow> fst (m s) = Inr x \<Longrightarrow>
           v (snd (f x (snd (m s)))) = v (snd (m s)) \<and> snd (f x (snd (m s))) \<in> P"
  shows "op_frame v P (op_bind m f)"
  using assms by (fastforce simp: op_frame_def op_bind_def split: prod.splits sum.splits)

lemma op_frame_transaction [frame_intros]:
  assumes "op_frame v P m"
  shows "op_frame v P (op_transaction m)"
  using assms by (fastforce simp: op_frame_def op_transaction_def split: prod.splits sum.splits)

lemma op_frame_catch [frame_intros]:
  assumes "op_frame v P m" and "\<And>e. op_frame v P (h e)"
  shows "op_frame v P (op_catch m h)"
  using assms by (fastforce simp: op_frame_def op_catch_def split: prod.splits sum.splits)

lemma op_frame_if [frame_intros]:
  "op_frame v P m \<Longrightarrow> op_frame v P n \<Longrightarrow> op_frame v P (if b then m else n)"
  by simp

lemma op_frame_iter [frame_intros]:
  "(\<And>x. op_frame v P (f x)) \<Longrightarrow> op_frame v P (op_iter f xs)"
  by (induction xs) (auto intro: frame_intros)

section \<open>JavaScript strings\<close>

text \<open>
  A string is the list of its code units, here those below 256. \<open>trim\<close> removes the
  white space and line terminators of ECMAScript in that range (TAB, LF, VT, FF, CR,
  SPACE, NO-BREAK SPACE); \<open>toLowerCase\<close> maps the Latin-1 capitals.
\<close>

definition is_js_space :: "char \<Rightarrow> bool" where
  "is_js_space c \<longleftrightarrow>
     (let n = (of_char c :: nat) in (9 \<le> n \<and> n \<le> 13) \<or> n = 32 \<or> n = 160)"

definition js_trim :: "string \<Rightarrow> string" where
  "js_trim s = rev (dropWhile is_js_space (rev (dropWhile is_js_space s)))"

definition js_lower_char :: "char \<Rightarrow> char" where
  "js_lower_char c =
     (let n = (of_char c :: nat)
      in if (65 \<le> n \<and> n \<le> 90) \<or> (192 \<le> n \<and> n \<le> 222 \<and> n \<noteq> 215) then char_of (n + 32) else c)"

definition js_lower :: "string \<Rightarrow> string" where
  "js_lower s = map js_lower_char s"

definition is_digit :: "char \<Rightarrow> bool" where
  "is_digit c \<longleftrightarrow> (let n = (of_char c :: nat) in 48 \<le> n \<and> n \<le> 57)"

definition digit_val :: "char \<Rightarrow> nat" where
  "digit_val c = of_char c - 48"

definition digit_char :: "nat \<Rightarrow> char" where
  "digit_char d = char_of (48 + d)"

text \<open>\<open>Number(s)\<close> on a non-empty string of decimal digits.\<close>

definition digits_to_nat :: "string \<Rightarrow> nat" where
  "digits_to_nat s = foldl (\<lambda>n c. 10 * n + digit_val c) 0 s"

text \<open>A number written with a fixed count of digits, as \<open>toISOString\<close> pads its fields.\<close>

fun pad_digits :: "nat \<Rightarrow> nat \<Rightarrow> string" where
  "pad_digits 0 n = []"
| "pad_digits (Suc k) n = pad_digits k (n div 10) @ [digit_char (n mod 10)]"

text \<open>\<open>s.slice(0, n)\<close> is \<open>take n s\<close>; \<open>xs.join(sep)\<close>:\<close>

fun js_join :: "string \<Rightarrow> string list \<Rightarrow> string" where
  "js_join sep [] = []"
| "js_join sep [x] = x"
| "js_join sep (x # y # ys) = x @ sep @ js_join sep (y # ys)"

text \<open>\<open>String(n)\<close> of a count.\<close>

fun nat_string :: "nat \<Rightarrow> string" where
  "nat_string n = (if n < 10 then [digit_char n] else nat_string (n div 10) @ [digit_char (n mod 10)])"

declare nat_string.simps [simp del]

text \<open>\<open>s.startsWith(p)\<close>, \<open>s.includes(p)\<close>, and the regular expression classes \<open>\s\<close> and \<open>\w\<close>.\<close>

definition js_starts_with :: "string \<Rightarrow> string \<Rightarrow> bool" where
  "js_starts_with s p \<longleftrightarrow> take (length p) s = p"

fun js_includes :: "string \<Rightarrow> string \<Rightarrow> bool" where
  "js_includes [] p = (p = [])"
| "js_includes (c # s) p = (js_starts_with (c # s) p \<or> js_includes s p)"

definition is_word_char :: "char \<Rightarrow> bool" where
  "is_word_char c \<longleftrightarrow>
     (let n = (of_char c :: nat)
      in (48 \<le> n \<and> n \<le> 57) \<or> (65 \<le> n \<and> n \<le> 90) \<or> n = 95 \<or> (97 \<le> n \<and> n \<le> 122))"

lemma digit_char_inv [simp]:
  assumes "d < 10"
  shows "is_digit (digit_char d)" and "digit_val (digit_char d) = d"
proof -
  have "of_char (char_of (48 + d) :: char) = 48 + d"
    using assms by simp
  then show "is_digit (digit_char d)" and "digit_val (digit_char d) = d"
    using assms by (simp_all add: is_digit_def digit_val_def digit_char_def Let_def del: of_char_of)
qed

lemma digit_val_inv [simp]: "is_digit c \<Longrightarrow> digit_char (digit_val c) = c"
  by (simp add: is_digit_def digit_val_def digit_char_def Let_def)

lemma digit_val_less: "is_digit c \<Longrightarrow> digit_val c < 10"
  by (auto simp: is_digit_def digit_val_def Let_def)

lemma length_pad_digits [simp]: "length (pad_digits k n) = k"
  by (induction k arbitrary: n) auto

lemma pad_digits_all_digits: "list_all is_digit (pad_digits k n)"
  by (induction k arbitrary: n) auto

lemma digits_to_nat_snoc: "digits_to_nat (s @ [c]) = 10 * digits_to_nat s + digit_val c"
  by (simp add: digits_to_nat_def)

lemma digits_to_nat_pad: "n < 10 ^ k \<Longrightarrow> digits_to_nat (pad_digits k n) = n"
proof (induction k arbitrary: n)
  case 0
  then show ?case by (simp add: digits_to_nat_def)
next
  case (Suc k)
  then have "n div 10 < 10 ^ k" by (simp add: less_mult_imp_div_less mult.commute)
  then show ?case using Suc.IH by (simp add: digits_to_nat_snoc)
qed

lemma digits_to_nat_bound: "list_all is_digit s \<Longrightarrow> digits_to_nat s < 10 ^ length s"
proof (induction s rule: rev_induct)
  case Nil
  then show ?case by (simp add: digits_to_nat_def)
next
  case (snoc c s)
  then have "digits_to_nat s < 10 ^ length s" and "digit_val c < 10"
    by (auto simp: digit_val_less)
  then show ?case by (simp add: digits_to_nat_snoc)
qed

lemma pad_digits_to_nat: "list_all is_digit s \<Longrightarrow> pad_digits (length s) (digits_to_nat s) = s"
proof (induction s rule: rev_induct)
  case Nil
  then show ?case by simp
next
  case (snoc c s)
  then have d: "digit_val c < 10" "is_digit c" by (auto simp: digit_val_less)
  then have "(10 * digits_to_nat s + digit_val c) div 10 = digits_to_nat s"
    and "(10 * digits_to_nat s + digit_val c) mod 10 = digit_val c" by auto
  with snoc d show ?case by (simp add: digits_to_nat_snoc)
qed

lemma dropWhile_idem: "dropWhile P (dropWhile P xs) = dropWhile P xs"
  by (induction xs) auto

lemma js_trim_nonspace_ends:
  "js_trim s \<noteq> [] \<Longrightarrow> \<not> is_js_space (hd (rev (js_trim s)))"
  unfolding js_trim_def by (simp add: hd_dropWhile)

section \<open>Sets kept in insertion order\<close>

text \<open>
  A JavaScript \<open>Set\<close> or \<open>Map\<close> iterates in insertion order. \<open>set_add\<close> is \<open>set.add\<close>;
  \<open>[...new Set(xs)]\<close> is \<open>js_dedup xs\<close>; a \<open>Map\<close> is an association list where \<open>map_set\<close>
  overwrites in place or appends.
\<close>

definition set_add :: "'a list \<Rightarrow> 'a \<Rightarrow> 'a list" where
  "set_add xs x = (if x \<in> set xs then xs else xs @ [x])"

definition js_dedup :: "'a list \<Rightarrow> 'a list" where
  "js_dedup xs = foldl set_add [] xs"

fun map_set :: "('k \<times> 'v) list \<Rightarrow> 'k \<Rightarrow> 'v \<Rightarrow> ('k \<times> 'v) list" where
  "map_set [] k v = [(k, v)]"
| "map_set ((k', v') # m) k v = (if k' = k then (k, v) # m else (k', v') # map_set m k v)"

lemma set_set_add [simp]: "set (set_add xs x) = insert x (set xs)"
  by (auto simp: set_add_def)

lemma distinct_set_add: "distinct xs \<Longrightarrow> distinct (set_add xs x)"
  by (auto simp: set_add_def)

lemma set_foldl_set_add: "set (foldl set_add acc xs) = set acc \<union> set xs"
  by (induction xs arbitrary: acc) auto

lemma distinct_foldl_set_add: "distinct acc \<Longrightarrow> distinct (foldl set_add acc xs)"
  by (induction xs arbitrary: acc) (auto simp: distinct_set_add)

lemma set_js_dedup [simp]: "set (js_dedup xs) = set xs"
  by (simp add: js_dedup_def set_foldl_set_add)

lemma distinct_js_dedup [simp]: "distinct (js_dedup xs)"
  by (simp add: js_dedup_def distinct_foldl_set_add)

lemma map_of_map_set: "map_of (map_set m k v) = (map_of m)(k \<mapsto> v)"
  by (induction m) (auto simp: fun_eq_iff)

lemma dom_map_set: "set (map fst (map_set m k v)) = insert k (set (map fst m))"
  by (induction m k v rule: map_set.induct) (simp_all add: insert_commute)

lemma distinct_map_set: "distinct (map fst m) \<Longrightarrow> distinct (map fst (map_set m k v))"
proof (induction m k v rule: map_set.induct)
  case (2 k' v' m k v)
  then show ?case using dom_map_set [of m k v] by auto
qed simp

section \<open>Keyed tables\<close>

text \<open>\<open>findUnique\<close>/\<open>findFirst\<close>, and \<open>update\<close> of the rows that satisfy a condition.\<close>

definition find_row :: "('r \<Rightarrow> bool) \<Rightarrow> 'r list \<Rightarrow> 'r option" where
  "find_row p rows = find p rows"

definition update_rows :: "('r \<Rightarrow> bool) \<Rightarrow> ('r \<Rightarrow> 'r) \<Rightarrow> 'r list \<Rightarrow> 'r list" where
  "update_rows p f rows = map (\<lambda>r. if p r then f r else r) rows"

text \<open>\<open>update({ where: { id } })\<close> on a primary key changes one row.\<close>

fun update_first :: "('r \<Rightarrow> bool) \<Rightarrow> ('r \<Rightarrow> 'r) \<Rightarrow> 'r list \<Rightarrow> 'r list" where
  "update_first p f [] = []"
| "update_first p f (r # rows) = (if p r then f r # rows else r # update_first p f rows)"

lemma find_row_Some: "find_row p rows = Some r \<Longrightarrow> r \<in> set rows \<and> p r"
  by (auto simp: find_row_def find_Some_iff)

lemma find_row_None: "find_row p rows = None \<longleftrightarrow> (\<forall>r \<in> set rows. \<not> p r)"
  by (auto simp: find_row_def find_None_iff)

lemma filter_update_rows_other:
  assumes "\<And>r. r \<in> set rows \<Longrightarrow> p r \<Longrightarrow> \<not> q r \<and> \<not> q (f r)"
  shows "filter q (update_rows p f rows) = filter q rows"
  using assms by (induction rows) (auto simp: update_rows_def)

lemma length_update_rows [simp]: "length (update_rows p f rows) = length rows"
  by (simp add: update_rows_def)

lemma find_row_simps [simp]:
  "find_row p [] = None"
  "find_row p (r # rows) = (if p r then Some r else find_row p rows)"
  by (simp_all add: find_row_def)

lemma find_row_append: "find_row p (xs @ ys) = (case find_row p xs of None \<Rightarrow> find_row p ys | Some r \<Rightarrow> Some r)"
  by (induction xs) auto

lemma filter_update_first_other:
  assumes "find_row p rows = Some r" and "\<not> q r" and "\<not> q (f r)"
  shows "filter q (update_first p f rows) = filter q rows"
  using assms by (induction rows) (auto split: if_splits)

lemma filter_update_first_le:
  assumes "\<And>r. find_row p rows = Some r \<Longrightarrow> \<not> q r \<and> \<not> q (f r)"
  shows "filter q (update_first p f rows) = filter q rows"
  using assms by (induction rows) (auto split: if_splits)

lemma find_row_update_first:
  assumes "find_row p rows = Some r" and "p (f r)"
  shows "find_row p (update_first p f rows) = Some (f r)"
  using assms by (induction rows) (auto split: if_splits)

lemma find_row_update_first_other:
  assumes "\<And>r. r \<in> set rows \<Longrightarrow> p r \<Longrightarrow> q (f r) = q r" and "\<And>r. p r \<Longrightarrow> \<not> q r"
  shows "find_row q (update_first p f rows) = find_row q rows"
  using assms by (induction rows) auto

lemma set_update_first_subset: "set (update_first p f rows) \<subseteq> set rows \<union> f ` {r \<in> set rows. p r}"
  by (induction rows) auto

lemma map_update_first_same:
  assumes "\<And>r. r \<in> set rows \<Longrightarrow> p r \<Longrightarrow> g (f r) = g r"
  shows "map g (update_first p f rows) = map g rows"
  using assms by (induction rows) auto

lemma list_all_filter: "list_all P (filter Q xs) = list_all (\<lambda>x. \<not> Q x \<or> P x) xs"
  by (induction xs) auto

end
