(* ===== verification/Js_Date.thy ===== *)
theory Js_Date
  imports Salary_Prelude Complex_Main
begin

text \<open>
  The part of JavaScript's \<open>Date\<close> the services use, after ECMAScript's definitions: a time
  value is an integer count of milliseconds since 1970-01-01T00:00Z, or \<open>None\<close> for an
  Invalid Date; the UTC getters; \<open>Date.UTC\<close>, with its reading of the years 0 to 99 as
  1900 to 1999; and \<open>toISOString\<close>. The lemmas give the round trips between a day number and
  its calendar date, and the order of month starts.
\<close>

definition ms_per_day :: int where
  "ms_per_day = 86400000"

section \<open>Years\<close>

text \<open>ECMAScript's \<open>DayFromYear\<close>: the number of the first day of a year.\<close>

definition day_from_year :: "int \<Rightarrow> int" where
  "day_from_year y =
     365 * (y - 1970) + (y - 1969) div 4 - (y - 1901) div 100 + (y - 1601) div 400"

definition leap_year :: "int \<Rightarrow> bool" where
  "leap_year y \<longleftrightarrow> (y mod 4 = 0 \<and> y mod 100 \<noteq> 0) \<or> y mod 400 = 0"

definition days_in_year :: "int \<Rightarrow> int" where
  "days_in_year y = (if leap_year y then 366 else 365)"

text \<open>
  ECMAScript's \<open>YearFromTime\<close> is the largest year whose first day is not after the day. It
  is computed from the mean Gregorian year and corrected by at most one.
\<close>

definition year_from_day :: "int \<Rightarrow> int" where
  "year_from_day d =
     (let y = 1970 + (400 * d) div 146097
      in if day_from_year (y + 1) \<le> d then y + 1
         else if day_from_year y \<le> d then y else y - 1)"

lemma div_bounds:
  fixes x k :: int
  assumes "0 < k"
  shows "k * (x div k) \<le> x" and "x < k * (x div k) + k"
  using assms pos_mod_bound [OF assms, of x] pos_mod_sign [OF assms, of x]
    mult_div_mod_eq [of k x] by linarith+

lemma div_step:
  fixes y c k :: int
  assumes k: "1 < k" and "c mod k = 0"
  shows "(y - c) div k = (y - c - 1) div k + (if y mod k = 0 then 1 else 0)"
proof -
  obtain j where c: "c = k * j" using assms(2) by (metis dvdE dvd_eq_mod_eq_0)
  have "y - c = y mod k + (y div k - j) * k"
    using mult_div_mod_eq [of k y] c by (simp add: algebra_simps)
  then have q: "(y - c) div k = y div k - j"
    using k by simp
  have e: "y - c - 1 = (y mod k - 1) + (y div k - j) * k"
    using mult_div_mod_eq [of k y] c by (simp add: algebra_simps)
  have "(y - c - 1) div k = y div k - j + (y mod k - 1) div k"
    using k unfolding e by simp
  moreover have "(y mod k - 1) div k = (if y mod k = 0 then -1 else 0)"
  proof -
    have "0 \<le> y mod k" "y mod k < k" using k by simp_all
    then have "y mod k \<noteq> 0 \<Longrightarrow> 0 \<le> y mod k - 1 \<and> y mod k - 1 < k" by linarith
    then show ?thesis using k by (auto simp: div_eq_minus1 div_pos_pos_trivial)
  qed
  ultimately show ?thesis using q by simp
qed

lemma leap_mods:
  fixes y :: int
  shows "y mod 400 = 0 \<Longrightarrow> y mod 100 = 0" and "y mod 100 = 0 \<Longrightarrow> y mod 4 = 0"
proof -
  have "y mod 400 mod 100 = y mod 100" "y mod 100 mod 4 = y mod 4"
    by (rule mod_mod_cancel, simp)+
  then show "y mod 400 = 0 \<Longrightarrow> y mod 100 = 0" and "y mod 100 = 0 \<Longrightarrow> y mod 4 = 0"
    by (metis mod_0)+
qed

lemma day_from_year_Suc: "day_from_year (y + 1) = day_from_year y + days_in_year y"
proof -
  define a b c where "a = (y - 1969) div 4" and "b = (y - 1901) div 100"
    and "c = (y - 1601) div 400"
  have a': "(y + 1 - 1969) div 4 = a + (if y mod 4 = 0 then 1 else 0)"
    using div_step [of 4 1968 y] by (simp add: a_def)
  have b': "(y + 1 - 1901) div 100 = b + (if y mod 100 = 0 then 1 else 0)"
    using div_step [of 100 1900 y] by (simp add: b_def)
  have c': "(y + 1 - 1601) div 400 = c + (if y mod 400 = 0 then 1 else 0)"
    using div_step [of 400 1600 y] by (simp add: c_def)
  have "day_from_year (y + 1) =
    365 * (y + 1 - 1970) + (a + (if y mod 4 = 0 then 1 else 0))
      - (b + (if y mod 100 = 0 then 1 else 0)) + (c + (if y mod 400 = 0 then 1 else 0))"
    unfolding day_from_year_def a' b' c' ..
  moreover have "day_from_year y = 365 * (y - 1970) + a - b + c"
    by (simp only: day_from_year_def a_def b_def c_def)
  moreover have "days_in_year y = 365 + (if y mod 4 = 0 then 1 else 0)
      - (if y mod 100 = 0 then 1 else 0) + (if y mod 400 = 0 then 1 else 0)"
    using leap_mods [of y] by (simp only: days_in_year_def leap_year_def split: if_split) force
  ultimately show ?thesis by simp
qed

lemma days_in_year_bounds: "365 \<le> days_in_year y" "days_in_year y \<le> 366"
  by (auto simp: days_in_year_def)

lemma day_from_year_add: "day_from_year y + 365 * int n \<le> day_from_year (y + int n)"
proof (induction n)
  case (Suc n)
  have "day_from_year (y + int (Suc n)) = day_from_year (y + int n) + days_in_year (y + int n)"
    using day_from_year_Suc [of "y + int n"] by (simp add: ac_simps)
  then show ?case using Suc days_in_year_bounds(1) [of "y + int n"] by simp
qed simp

lemma day_from_year_mono: "y \<le> z \<Longrightarrow> day_from_year y \<le> day_from_year z"
  using day_from_year_add [of y "nat (z - y)"] by simp

lemma day_from_year_strict: "y < z \<Longrightarrow> day_from_year y < day_from_year z"
  using day_from_year_add [of y "nat (z - y)"] by simp

lemma year_from_day_bounds:
  "day_from_year (year_from_day d) \<le> d \<and> d < day_from_year (year_from_day d + 1)"
proof -
  define q where "q = (400 * d) div 146097"
  have q: "146097 * q \<le> 400 * d" "400 * d < 146097 * q + 146097"
    using div_bounds [of 146097 "400 * d"] by (simp_all add: q_def)
  have est: "400 * day_from_year y \<le> 146097 * (y - 1970) + 700"
    "146097 * (y - 1970) - 700 \<le> 400 * day_from_year y" for y
  proof -
    define a b c where "a = (y - 1969) div 4" and "b = (y - 1901) div 100"
      and "c = (y - 1601) div 400"
    have bounds: "4 * a \<le> y - 1969" "y - 1969 < 4 * a + 4" "100 * b \<le> y - 1901"
      "y - 1901 < 100 * b + 100" "400 * c \<le> y - 1601" "y - 1601 < 400 * c + 400"
      unfolding a_def b_def c_def by (rule div_bounds, simp)+
    have day: "day_from_year y = 365 * (y - 1970) + a - b + c"
      by (simp only: day_from_year_def a_def b_def c_def)
    show "400 * day_from_year y \<le> 146097 * (y - 1970) + 700"
      using bounds(1,4,5) unfolding day by (simp add: algebra_simps)
    show "146097 * (y - 1970) - 700 \<le> 400 * day_from_year y"
      using bounds(2,3,6) unfolding day by (simp add: algebra_simps)
  qed
  have up: "d < day_from_year (1970 + q + 2)"
    using est(2) [of "1970 + q + 2"] q by simp
  have lo: "day_from_year (1970 + q - 1) \<le> d"
    using est(1) [of "1970 + q - 1"] q by simp
  have shift: "1970 + q + 1 + 1 = 1970 + q + 2" by simp
  have yq: "year_from_day d =
    (if day_from_year (1970 + q + 1) \<le> d then 1970 + q + 1
     else if day_from_year (1970 + q) \<le> d then 1970 + q else 1970 + q - 1)"
    by (simp add: year_from_day_def q_def Let_def add.assoc)
  show ?thesis
    using up lo unfolding yq shift by (auto simp: add.assoc)
qed

lemma year_from_day_unique:
  assumes "day_from_year y \<le> d" and "d < day_from_year (y + 1)"
  shows "year_from_day d = y"
proof -
  let ?z = "year_from_day d"
  have z: "day_from_year ?z \<le> d" "d < day_from_year (?z + 1)"
    using year_from_day_bounds by auto
  have "\<not> ?z < y" using day_from_year_mono [of "?z + 1" y] z assms by linarith
  moreover have "\<not> y < ?z" using day_from_year_mono [of "y + 1" ?z] z assms by linarith
  ultimately show ?thesis by simp
qed

section \<open>Months and days\<close>

text \<open>Days before the month (0 is January) in a year, and the month of a day of the year.\<close>

definition leap_adj :: "int \<Rightarrow> int" where
  "leap_adj y = (if leap_year y then 1 else 0)"

definition days_before_month :: "int \<Rightarrow> int \<Rightarrow> int" where
  "days_before_month y m =
     (if m \<le> 0 then 0 else if m = 1 then 31
      else leap_adj y +
        (if m = 2 then 59 else if m = 3 then 90 else if m = 4 then 120 else if m = 5 then 151
         else if m = 6 then 181 else if m = 7 then 212 else if m = 8 then 243
         else if m = 9 then 273 else if m = 10 then 304 else if m = 11 then 334 else 365))"

definition month_of_day_in_year :: "int \<Rightarrow> int \<Rightarrow> int" where
  "month_of_day_in_year y k =
     (if k < 31 then 0
      else let j = k - leap_adj y
           in if j < 59 then 1 else if j < 90 then 2 else if j < 120 then 3
              else if j < 151 then 4 else if j < 181 then 5 else if j < 212 then 6
              else if j < 243 then 7 else if j < 273 then 8 else if j < 304 then 9
              else if j < 334 then 10 else 11)"

text \<open>
  ECMAScript's \<open>MakeDay\<close> with an integral month that may lie outside 0 to 11, and the
  calendar fields of a day number.
\<close>

definition make_day :: "int \<Rightarrow> int \<Rightarrow> int \<Rightarrow> int" where
  "make_day y m dt =
     (let y' = y + m div 12; m' = m mod 12
      in day_from_year y' + days_before_month y' m' + dt - 1)"

definition month_from_day :: "int \<Rightarrow> int" where
  "month_from_day d =
     (let y = year_from_day d in month_of_day_in_year y (d - day_from_year y))"

definition date_from_day :: "int \<Rightarrow> int" where
  "date_from_day d =
     (let y = year_from_day d
      in d - day_from_year y - days_before_month y (month_from_day d) + 1)"

lemma month_cases:
  fixes m :: int
  assumes "0 \<le> m" "m < 12"
  obtains "m = 0" | "m = 1" | "m = 2" | "m = 3" | "m = 4" | "m = 5"
    | "m = 6" | "m = 7" | "m = 8" | "m = 9" | "m = 10" | "m = 11"
  using assms by atomize_elim arith

lemma days_before_month_bounds:
  assumes "0 \<le> m" "m < 12"
  shows "0 \<le> days_before_month y m"
    and "days_before_month y m + 28 \<le> days_before_month y (m + 1)"
    and "days_before_month y (m + 1) \<le> days_in_year y"
  using assms by (cases rule: month_cases;
    simp add: days_before_month_def leap_adj_def days_in_year_def)+

lemma days_before_month_12: "days_before_month y 12 = days_in_year y"
  by (simp add: days_before_month_def leap_adj_def days_in_year_def)

lemma month_of_day_in_year_range: "0 \<le> month_of_day_in_year y k" "month_of_day_in_year y k < 12"
  by (simp_all add: month_of_day_in_year_def Let_def)

lemma month_of_day_in_year_bounds:
  assumes "0 \<le> k" "k < days_in_year y"
  shows "days_before_month y (month_of_day_in_year y k) \<le> k"
    and "k < days_before_month y (month_of_day_in_year y k + 1)"
  using assms
  by (cases "leap_year y"; simp add: month_of_day_in_year_def Let_def days_before_month_def leap_adj_def days_in_year_def)+

lemma month_of_day_in_year_unique:
  assumes "0 \<le> m" "m < 12" "days_before_month y m \<le> k" "k < days_before_month y (m + 1)"
  shows "month_of_day_in_year y k = m"
  using assms(1,2) by (cases rule: month_cases;
    insert assms(3,4); simp add: month_of_day_in_year_def days_before_month_def leap_adj_def Let_def
      split: if_splits)

lemma month_from_day_range: "0 \<le> month_from_day d" "month_from_day d < 12"
  by (simp_all add: month_from_day_def Let_def month_of_day_in_year_range)

text \<open>Round trip: a valid calendar date is recovered from its day number, and conversely.\<close>

lemma make_day_in_year:
  assumes "0 \<le> m" "m < 12"
  shows "make_day y m dt = day_from_year y + days_before_month y m + dt - 1"
  using assms by (simp add: make_day_def Let_def)

lemma fields_of_make_day:
  assumes m: "0 \<le> m" "m < 12"
    and dt: "1 \<le> dt" "dt \<le> days_before_month y (m + 1) - days_before_month y m"
  shows "year_from_day (make_day y m dt) = y"
    and "month_from_day (make_day y m dt) = m"
    and "date_from_day (make_day y m dt) = dt"
proof -
  let ?d = "make_day y m dt"
  have d: "?d = day_from_year y + days_before_month y m + dt - 1"
    using m by (rule make_day_in_year)
  have "?d < day_from_year (y + 1)"
    using d dt days_before_month_bounds(3) [OF m, of y] by (simp add: day_from_year_Suc)
  moreover have "day_from_year y \<le> ?d"
    using d dt days_before_month_bounds(1) [OF m, of y] by simp
  ultimately show y: "year_from_day ?d = y" by (intro year_from_day_unique)
  have mm: "month_of_day_in_year y (?d - day_from_year y) = m"
    by (rule month_of_day_in_year_unique) (use m dt d in auto)
  show mo: "month_from_day ?d = m" using mm by (simp add: month_from_day_def y)
  show "date_from_day ?d = dt"
    unfolding date_from_day_def y mo Let_def using d by simp
qed

lemma make_day_of_fields:
  "make_day (year_from_day d) (month_from_day d) (date_from_day d) = d"
  using make_day_in_year [OF month_from_day_range, of "year_from_day d" d "date_from_day d"]
  by (simp add: date_from_day_def Let_def)

lemma day_in_its_month:
  "make_day (year_from_day d) (month_from_day d) 1 \<le> d"
  "d < make_day (year_from_day d) (month_from_day d + 1) 1"
proof -
  let ?y = "year_from_day d" and ?m = "month_from_day d"
  have k: "0 \<le> d - day_from_year ?y" "d - day_from_year ?y < days_in_year ?y"
    using year_from_day_bounds [of d] by (simp_all add: day_from_year_Suc)
  have lo: "days_before_month ?y ?m \<le> d - day_from_year ?y"
    and up: "d - day_from_year ?y < days_before_month ?y (?m + 1)"
    using month_of_day_in_year_bounds [OF k] by (simp_all add: month_from_day_def Let_def)
  show "make_day ?y ?m 1 \<le> d"
    using lo make_day_in_year [OF month_from_day_range, of ?y d 1] by simp
  show "d < make_day ?y (?m + 1) 1"
  proof (cases "?m = 11")
    case True
    then show ?thesis
      using k(2) by (simp add: make_day_def day_from_year_Suc days_before_month_def)
  next
    case False
    then have "?m + 1 < 12" using month_from_day_range(2) [of d] by simp
    then show ?thesis
      using up make_day_in_year [of "?m + 1" ?y 1] month_from_day_range(1) [of d] by simp
  qed
qed

lemma make_day_Suc_month_ge:
  "make_day y m 1 + 28 \<le> make_day y (m + 1) 1"
proof -
  define z k where "z = y + m div 12" and "k = m mod 12"
  have k: "0 \<le> k" "k < 12" by (simp_all add: k_def)
  have d0: "make_day y m 1 = day_from_year z + days_before_month z k"
    by (simp add: make_day_def Let_def z_def k_def)
  have m: "m = k + 12 * (m div 12)" by (simp add: k_def)
  show ?thesis
  proof (cases "k = 11")
    case True
    then have "m + 1 = 12 * (m div 12 + 1)" using m by (simp add: algebra_simps)
    then have e: "(m + 1) div 12 = m div 12 + 1" "(m + 1) mod 12 = 0"
      by (metis nonzero_mult_div_cancel_left zero_neq_numeral, metis mod_mult_self1_is_0)
    have y1: "y + (m div 12 + 1) = z + 1" by (simp add: z_def)
    have "make_day y (m + 1) 1 = day_from_year z + days_in_year z"
      unfolding make_day_def Let_def e y1 day_from_year_Suc by (simp add: days_before_month_def)
    moreover have "days_before_month z 11 + 28 \<le> days_in_year z"
      by (simp add: days_before_month_def leap_adj_def days_in_year_def)
    ultimately show ?thesis using d0 True by simp
  next
    case False
    have "m + 1 = (k + 1) + 12 * (m div 12)" using m by simp
    moreover have "((k + 1) + 12 * q) div 12 = q" "((k + 1) + 12 * q) mod 12 = k + 1" for q
      using k False by (simp_all add: div_pos_pos_trivial mod_pos_pos_trivial)
    ultimately have e: "(m + 1) div 12 = m div 12" "(m + 1) mod 12 = k + 1" by metis+
    have "make_day y (m + 1) 1 = day_from_year z + days_before_month z (k + 1)"
      unfolding make_day_def Let_def e by (simp add: z_def)
    then show ?thesis using d0 days_before_month_bounds(2) [OF k, of z] by simp
  qed
qed

section \<open>Time values\<close>

text \<open>A \<open>Date\<close> object is its time value, \<open>None\<close> when invalid.\<close>

type_synonym js_date = "int option"

definition time_clip :: "int \<Rightarrow> js_date" where
  "time_clip t = (if \<bar>t\<bar> \<le> 8640000000000000 then Some t else None)"

definition utc_day :: "int \<Rightarrow> int" where
  "utc_day t = t div ms_per_day"

definition getUTCFullYear :: "int \<Rightarrow> int" where
  "getUTCFullYear t = year_from_day (utc_day t)"

definition getUTCMonth :: "int \<Rightarrow> int" where
  "getUTCMonth t = month_from_day (utc_day t)"

definition getUTCDate :: "int \<Rightarrow> int" where
  "getUTCDate t = date_from_day (utc_day t)"

definition getUTCHours :: "int \<Rightarrow> int" where
  "getUTCHours t = (t div 3600000) mod 24"

definition getUTCMinutes :: "int \<Rightarrow> int" where
  "getUTCMinutes t = (t div 60000) mod 60"

definition getUTCSeconds :: "int \<Rightarrow> int" where
  "getUTCSeconds t = (t div 1000) mod 60"

definition getUTCMilliseconds :: "int \<Rightarrow> int" where
  "getUTCMilliseconds t = t mod 1000"

text \<open>\<open>new Date(Date.UTC(year, month, date))\<close>\<close>

definition date_UTC :: "int \<Rightarrow> int \<Rightarrow> int \<Rightarrow> js_date" where
  "date_UTC y m dt =
     (let yr = (if 0 \<le> y \<and> y \<le> 99 then 1900 + y else y)
      in time_clip (make_day yr m dt * ms_per_day))"

text \<open>The date part \<open>YYYY-MM-DD\<close> of \<open>toISOString()\<close>, with six digits outside 0 to 9999.\<close>

definition iso_year :: "int \<Rightarrow> string" where
  "iso_year y =
     (if 0 \<le> y \<and> y \<le> 9999 then pad_digits 4 (nat y)
      else (if y < 0 then ''-'' else ''+'') @ pad_digits 6 (nat \<bar>y\<bar>))"

definition iso_date :: "int \<Rightarrow> string" where
  "iso_date t =
     iso_year (getUTCFullYear t) @ ''-'' @ pad_digits 2 (nat (getUTCMonth t + 1))
       @ ''-'' @ pad_digits 2 (nat (getUTCDate t))"

definition iso_string :: "int \<Rightarrow> string" where
  "iso_string t =
     iso_date t @ ''T'' @ pad_digits 2 (nat (getUTCHours t)) @ '':''
       @ pad_digits 2 (nat (getUTCMinutes t)) @ '':'' @ pad_digits 2 (nat (getUTCSeconds t))
       @ ''.'' @ pad_digits 3 (nat (getUTCMilliseconds t)) @ ''Z''"

text \<open>\<open>t\<close> is the first instant of a month: what \<open>assertSettlementMonthStart\<close> tests.\<close>

definition is_month_start :: "int \<Rightarrow> bool" where
  "is_month_start t \<longleftrightarrow>
     getUTCDate t = 1 \<and> getUTCHours t = 0 \<and> getUTCMinutes t = 0
       \<and> getUTCSeconds t = 0 \<and> getUTCMilliseconds t = 0"

lemma utc_day_of_midnight [simp]: "utc_day (d * ms_per_day) = d"
  by (simp add: utc_day_def ms_per_day_def)

lemma midnight_time_fields [simp]:
  "getUTCHours (d * ms_per_day) = 0" "getUTCMinutes (d * ms_per_day) = 0"
  "getUTCSeconds (d * ms_per_day) = 0" "getUTCMilliseconds (d * ms_per_day) = 0"
proof -
  have "d * ms_per_day = (d * 24) * 3600000" "d * ms_per_day = (d * 1440) * 60000"
    "d * ms_per_day = (d * 86400) * 1000"
    by (simp_all add: ms_per_day_def)
  then have "d * ms_per_day div 3600000 = d * 24" "d * ms_per_day div 60000 = d * 1440"
    "d * ms_per_day div 1000 = d * 86400" "d * ms_per_day mod 1000 = 0"
    by (metis nonzero_mult_div_cancel_right mod_mult_self2_is_0 zero_neq_numeral)+
  moreover have "(d * 24) mod 24 = 0" "(d * 1440) mod 60 = 0" "(d * 86400) mod 60 = 0"
    by simp_all
  ultimately show "getUTCHours (d * ms_per_day) = 0" "getUTCMinutes (d * ms_per_day) = 0"
    "getUTCSeconds (d * ms_per_day) = 0" "getUTCMilliseconds (d * ms_per_day) = 0"
    by (simp_all only: getUTCHours_def getUTCMinutes_def getUTCSeconds_def getUTCMilliseconds_def)
qed

lemma midnight_of_fields:
  assumes "getUTCHours t = 0" "getUTCMinutes t = 0" "getUTCSeconds t = 0" "getUTCMilliseconds t = 0"
  shows "t mod ms_per_day = 0"
proof -
  obtain q where q: "t = 1000 * q"
    using assms(4) by (metis getUTCMilliseconds_def dvdE dvd_eq_mod_eq_0)
  then have "q mod 60 = 0" using assms(3) by (simp add: getUTCSeconds_def)
  then obtain r where r: "q = 60 * r" by (metis dvdE dvd_eq_mod_eq_0)
  then have t: "t = 60000 * r" using q by simp
  then have "r mod 60 = 0" using assms(2) by (simp add: getUTCMinutes_def)
  then obtain u where "r = 60 * u" by (metis dvdE dvd_eq_mod_eq_0)
  then have u: "t = 3600000 * u" using t by simp
  then have "u mod 24 = 0" using assms(1) by (simp add: getUTCHours_def)
  then obtain w where "u = 24 * w" by (metis dvdE dvd_eq_mod_eq_0)
  then have "t = ms_per_day * w" using u by (simp add: ms_per_day_def)
  then show ?thesis by simp
qed

lemma is_month_start_iff:
  "is_month_start t \<longleftrightarrow> (t = make_day (getUTCFullYear t) (getUTCMonth t) 1 * ms_per_day)"
proof
  assume s: "is_month_start t"
  have "t mod ms_per_day = 0"
    using s by (intro midnight_of_fields) (simp_all add: is_month_start_def)
  then have "t = utc_day t * ms_per_day"
    unfolding utc_day_def using div_mult_mod_eq [of t ms_per_day] by simp
  moreover have "make_day (getUTCFullYear t) (getUTCMonth t) 1 = utc_day t"
    using s make_day_of_fields [of "utc_day t"]
    by (simp add: is_month_start_def getUTCFullYear_def getUTCMonth_def getUTCDate_def)
  ultimately show "t = make_day (getUTCFullYear t) (getUTCMonth t) 1 * ms_per_day" by simp
next
  let ?y = "getUTCFullYear t" and ?m = "getUTCMonth t"
  assume t: "t = make_day ?y ?m 1 * ms_per_day"
  have m: "0 \<le> ?m" "?m < 12" by (simp_all add: getUTCMonth_def month_from_day_range)
  have "getUTCDate (make_day ?y ?m 1 * ms_per_day) = 1"
    using fields_of_make_day(3) [OF m, of 1 ?y] days_before_month_bounds(2) [OF m, of ?y]
    by (simp add: getUTCDate_def)
  then have "is_month_start (make_day ?y ?m 1 * ms_per_day)"
    by (simp add: is_month_start_def)
  then show "is_month_start t" using t by simp
qed

lemma fields_of_month_start:
  assumes "0 \<le> m" "m < 12"
  shows "getUTCFullYear (make_day y m 1 * ms_per_day) = y"
    and "getUTCMonth (make_day y m 1 * ms_per_day) = m"
    and "getUTCDate (make_day y m 1 * ms_per_day) = 1"
    and "is_month_start (make_day y m 1 * ms_per_day)"
proof -
  have b: "1 \<le> days_before_month y (m + 1) - days_before_month y m"
    using days_before_month_bounds(2) [OF assms, of y] by simp
  show y: "getUTCFullYear (make_day y m 1 * ms_per_day) = y"
    and m: "getUTCMonth (make_day y m 1 * ms_per_day) = m"
    and d: "getUTCDate (make_day y m 1 * ms_per_day) = 1"
    using fields_of_make_day [OF assms _ b]
    by (simp_all add: getUTCFullYear_def getUTCMonth_def getUTCDate_def)
  show "is_month_start (make_day y m 1 * ms_per_day)"
    unfolding is_month_start_def d by simp
qed

end
