(* ===== verification/Js_Value.thy ===== *)
theory Js_Value
  imports Js_Date
begin

text \<open>
  JavaScript values as they arrive in request bodies and as they are kept in JSON columns.
  A number is a rational: the values in play are counts and decimal literals. An object is
  the list of its entries, in insertion order.
\<close>

datatype jsval =
    JUndefined
  | JNull
  | JBool bool
  | JNum rat
  | JString string
  | JDate js_date
  | JArray "jsval list"
  | JObject "(string \<times> jsval) list"

text \<open>Property read \<open>value[key]\<close>: \<open>undefined\<close> for a missing key.\<close>

definition js_get :: "(string \<times> jsval) list \<Rightarrow> string \<Rightarrow> jsval" where
  "js_get kvs k = (case map_of (rev kvs) k of None \<Rightarrow> JUndefined | Some v \<Rightarrow> v)"

fun js_string_opt :: "jsval \<Rightarrow> string option" where
  "js_string_opt (JString s) = Some s"
| "js_string_opt _ = None"

definition is_js_string :: "jsval \<Rightarrow> bool" where
  "is_js_string v \<longleftrightarrow> js_string_opt v \<noteq> None"

fun jstr_or_null :: "string option \<Rightarrow> jsval" where
  "jstr_or_null None = JNull"
| "jstr_or_null (Some s) = JString s"

lemma js_string_opt_Some [simp]: "js_string_opt v = Some s \<longleftrightarrow> v = JString s"
  by (cases v) auto

end
