(* ===== verification/Decimal_Lib.thy ===== *)
theory Decimal_Lib
  imports Salary_Prelude Complex_Main
begin

text \<open>
  Decimal numbers. The services compute with the decimal library re-exported by the
  database client (\<open>Prisma.Decimal\<close>) and store the results in \<open>numeric(p, s)\<close> columns.
  Both are outside the repository, so the model takes two parameters:

  \<^item> \<open>rnd\<close>, the rounding the library applies to the exact result of \<open>plus\<close>, \<open>minus\<close> and
    \<open>times\<close> (20 significant digits by default);
  \<^item> \<open>col\<close>, the rounding of a stored value to the column's scale.

  The locales \<open>decimal_rounding\<close> and \<open>column_rounding\<close> state what the services rely on. They
  are interpreted on \<open>decimal_round 20\<close> and \<open>column_round\<close>, the documented behaviours of
  the library (round half up, away from zero on ties) and of the database.

  A decimal is its exact value, a rational number.
\<close>

section \<open>The interfaces\<close>

definition scaled :: "nat \<Rightarrow> rat \<Rightarrow> bool" where
  "scaled k x \<longleftrightarrow> (\<exists>m::int. x = of_int m / 10 ^ k)"

lemma scaled_0 [simp, intro]: "scaled k 0"
  unfolding scaled_def by (rule exI [of _ 0]) simp

lemma scaled_add [intro]: "scaled k x \<Longrightarrow> scaled k y \<Longrightarrow> scaled k (x + y)"
  unfolding scaled_def by (metis add_divide_distrib of_int_add)

lemma scaled_minus [intro]: "scaled k x \<Longrightarrow> scaled k (- x)"
  unfolding scaled_def by (metis minus_divide_left of_int_minus)

lemma scaled_diff [intro]: "scaled k x \<Longrightarrow> scaled k y \<Longrightarrow> scaled k (x - y)"
  using scaled_add [of k x "- y"] scaled_minus [of k y] by simp

lemma scaled_mult: "scaled j x \<Longrightarrow> scaled k y \<Longrightarrow> scaled (j + k) (x * y)"
  unfolding scaled_def by (metis of_int_mult power_add times_divide_times_eq)

lemma scaled_mono: "scaled j x \<Longrightarrow> j \<le> k \<Longrightarrow> scaled k x"
proof -
  assume "scaled j x" and "j \<le> k"
  then obtain m d where "x = of_int m / 10 ^ j" and "k = j + d"
    by (auto simp: scaled_def le_iff_add)
  then have "x = of_int (m * 10 ^ d) / 10 ^ k"
    by (simp add: power_add)
  then show "scaled k x" unfolding scaled_def by blast
qed

lemma scaled_sum_list [intro]: "list_all (scaled k) xs \<Longrightarrow> scaled k (sum_list xs)"
  by (induction xs) auto

lemma scaled_of_int [intro]: "scaled 0 (of_int m)"
  unfolding scaled_def by auto

definition dec_plus :: "(rat \<Rightarrow> rat) \<Rightarrow> rat \<Rightarrow> rat \<Rightarrow> rat" where
  "dec_plus rnd x y = rnd (x + y)"

definition dec_minus :: "(rat \<Rightarrow> rat) \<Rightarrow> rat \<Rightarrow> rat \<Rightarrow> rat" where
  "dec_minus rnd x y = rnd (x - y)"

definition dec_times :: "(rat \<Rightarrow> rat) \<Rightarrow> rat \<Rightarrow> rat \<Rightarrow> rat" where
  "dec_times rnd x y = rnd (x * y)"

text \<open>\<open>values.reduce((total, value) => total.plus(value), ZERO)\<close>\<close>

definition dec_sum :: "(rat \<Rightarrow> rat) \<Rightarrow> rat list \<Rightarrow> rat" where
  "dec_sum rnd xs = foldl (dec_plus rnd) 0 xs"

text \<open>
  \<open>digits\<close> is the precision: a value that needs no more significant digits is unchanged.
\<close>

locale decimal_rounding =
  fixes rnd :: "rat \<Rightarrow> rat" and digits :: nat
  assumes rnd_mono: "x \<le> y \<Longrightarrow> rnd x \<le> rnd y"
    and rnd_minus: "rnd (- x) = - rnd x"
    and rnd_idem: "rnd (rnd x) = rnd x"
    and rnd_exact: "scaled k x \<Longrightarrow> \<bar>x\<bar> * 10 ^ k < 10 ^ digits \<Longrightarrow> rnd x = x"
    and rnd_error: "\<bar>rnd x - x\<bar> * 10 ^ digits \<le> 5 * \<bar>x\<bar>"
    and digits_pos: "20 \<le> digits"
begin

lemma rnd_0 [simp]: "rnd 0 = 0"
  using rnd_minus [of 0] by simp

lemma rnd_nonneg: "0 \<le> x \<Longrightarrow> 0 \<le> rnd x"
  using rnd_mono [of 0 x] by simp

lemma rnd_nonpos: "x \<le> 0 \<Longrightarrow> rnd x \<le> 0"
  using rnd_mono [of x 0] by simp

lemma rnd_pos_imp: "0 < rnd x \<Longrightarrow> 0 < x"
  using rnd_nonpos [of x] by linarith

lemma rnd_neg_imp: "rnd x < 0 \<Longrightarrow> x < 0"
  using rnd_nonneg [of x] by linarith

lemma ten_digits: "(10::rat) ^ 20 \<le> 10 ^ digits"
  using digits_pos by (rule power_increasing) simp

lemma rnd_scaled: "scaled k x \<Longrightarrow> \<bar>x\<bar> * 10 ^ k < 10 ^ 20 \<Longrightarrow> rnd x = x"
  using rnd_exact ten_digits by force

lemma rnd_small_int: "\<bar>m\<bar> < 10 ^ 20 \<Longrightarrow> rnd (of_int m) = of_int m"
  using rnd_scaled [OF scaled_of_int, of m] by (metis mult.right_neutral of_int_abs of_int_less_iff
      of_int_numeral of_int_power power_0)

text \<open>Sums of amounts that share a scale are exact while their absolute values stay small.\<close>

lemma dec_sum_exact_from:
  assumes "list_all (scaled k) xs" "scaled k a"
    and "(\<bar>a\<bar> + sum_list (map abs xs)) * 10 ^ k < 10 ^ 20"
  shows "foldl (dec_plus rnd) a xs = a + sum_list xs"
  using assms
proof (induction xs arbitrary: a)
  case (Cons x xs)
  have nn: "0 \<le> sum_list (map abs xs)" by (rule sum_list_nonneg) auto
  have tri: "\<bar>a + x\<bar> \<le> \<bar>a\<bar> + \<bar>x\<bar>" by (rule abs_triangle_ineq)
  have "\<bar>a + x\<bar> * 10 ^ k \<le> (\<bar>a\<bar> + sum_list (map abs (x # xs))) * 10 ^ k"
    using nn tri by (intro mult_right_mono) simp_all
  then have small: "\<bar>a + x\<bar> * 10 ^ k < 10 ^ 20" using Cons.prems(3) by (rule le_less_trans)
  have sc: "scaled k (a + x)" using Cons.prems by auto
  have step: "dec_plus rnd a x = a + x"
    unfolding dec_plus_def using rnd_scaled [OF sc small] .
  have "(\<bar>a + x\<bar> + sum_list (map abs xs)) * 10 ^ k
      \<le> (\<bar>a\<bar> + sum_list (map abs (x # xs))) * 10 ^ k"
    using tri by (intro mult_right_mono) simp_all
  then have "(\<bar>a + x\<bar> + sum_list (map abs xs)) * 10 ^ k < 10 ^ 20"
    using Cons.prems(3) by (rule le_less_trans)
  then have "foldl (dec_plus rnd) (a + x) xs = a + x + sum_list xs"
    using Cons.IH [of "a + x"] Cons.prems(1) sc by simp
  then show ?case by (simp add: step)
qed simp

lemma dec_sum_exact:
  assumes "list_all (scaled k) xs" and "sum_list (map abs xs) * 10 ^ k < 10 ^ 20"
  shows "dec_sum rnd xs = sum_list xs"
  using dec_sum_exact_from [OF assms(1) scaled_0] assms(2) by (simp add: dec_sum_def)

end

text \<open>A \<open>numeric(p, s)\<close> column keeps \<open>s\<close> decimals.\<close>

locale column_rounding =
  fixes col :: "nat \<Rightarrow> rat \<Rightarrow> rat"
  assumes col_mono: "x \<le> y \<Longrightarrow> col s x \<le> col s y"
    and col_minus: "col s (- x) = - col s x"
    and col_exact: "scaled s x \<Longrightarrow> col s x = x"
    and col_scaled: "scaled s (col s x)"
begin

lemma col_0 [simp]: "col s 0 = 0"
  by (rule col_exact) simp

lemma col_nonneg: "0 \<le> x \<Longrightarrow> 0 \<le> col s x"
  using col_mono [of 0 x s] by simp

lemma col_pos_imp: "0 < col s x \<Longrightarrow> 0 < x"
  using col_mono [of x 0 s] by (metis col_0 linorder_not_less)

lemma col_idem: "col s (col s x) = col s x"
  by (rule col_exact) (rule col_scaled)

end

section \<open>Rounding half up to an integer\<close>

definition round_half_up :: "rat \<Rightarrow> int" where
  "round_half_up x = (if x < 0 then - \<lfloor>1 / 2 - x\<rfloor> else \<lfloor>x + 1 / 2\<rfloor>)"

lemma round_half_up_minus: "round_half_up (- x) = - round_half_up x"
proof -
  have "\<lfloor>1 / 2 :: rat\<rfloor> = 0" by (rule floor_unique) simp_all
  then show ?thesis by (auto simp: round_half_up_def add.commute not_less)
qed

lemma round_half_up_int [simp]: "round_half_up (of_int m) = m"
proof -
  have "\<lfloor>of_int m + (1 / 2 :: rat)\<rfloor> = m" for m by (simp add: floor_unique)
  from this [of m] this [of "- m"] show ?thesis
    by (auto simp: round_half_up_def algebra_simps)
qed

lemma round_half_up_nonneg: "0 \<le> x \<Longrightarrow> 0 \<le> round_half_up x"
  using floor_mono [of 0 "x + 1 / 2"] by (simp add: round_half_up_def)

lemma round_half_up_mono_nonneg: "0 \<le> x \<Longrightarrow> x \<le> y \<Longrightarrow> round_half_up x \<le> round_half_up y"
  using floor_mono [of "x + 1 / 2" "y + 1 / 2"] by (simp add: round_half_up_def)

lemma round_half_up_mono:
  assumes "x \<le> y"
  shows "round_half_up x \<le> round_half_up y"
proof -
  consider "0 \<le> x" | "x \<le> 0" "0 \<le> y" | "y \<le> 0" by linarith
  then show ?thesis
  proof cases
    case 1
    then show ?thesis using assms by (rule round_half_up_mono_nonneg)
  next
    case 2
    then show ?thesis
      using round_half_up_nonneg [of y] round_half_up_nonneg [of "- x"]
      by (simp add: round_half_up_minus)
  next
    case 3
    then show ?thesis
      using round_half_up_mono_nonneg [of "- y" "- x"] assms by (simp add: round_half_up_minus)
  qed
qed

section \<open>Column rounding\<close>

definition column_round :: "nat \<Rightarrow> rat \<Rightarrow> rat" where
  "column_round s x = of_int (round_half_up (x * 10 ^ s)) / 10 ^ s"

interpretation pg_column: column_rounding column_round
proof
  show "x \<le> y \<Longrightarrow> column_round s x \<le> column_round s y" for x y s
    unfolding column_round_def
    by (intro divide_right_mono) (simp_all add: round_half_up_mono mult_right_mono)
  show "column_round s (- x) = - column_round s x" for s x
    using round_half_up_minus [of "x * 10 ^ s"] by (simp add: column_round_def)
  show "scaled s x \<Longrightarrow> column_round s x = x" for s x
    by (auto simp: scaled_def column_round_def)
  show "scaled s (column_round s x)" for s x
    by (auto simp: scaled_def column_round_def)
qed

section \<open>Rounding to significant digits\<close>

text \<open>The exponent of the leading digit of a positive value.\<close>

function dec_exponent :: "rat \<Rightarrow> int" where
  "dec_exponent x =
     (if x \<le> 0 then 0
      else if 10 \<le> x then dec_exponent (x / 10) + 1
      else if x < 1 then dec_exponent (x * 10) - 1
      else 0)"
  by pat_completeness auto

lemma ceiling_div_10_less:
  fixes t :: rat
  assumes "1 < t"
  shows "\<lceil>t / 10\<rceil> < \<lceil>t\<rceil>"
proof (cases "t \<le> 10")
  case True
  then have "\<lceil>t / 10\<rceil> \<le> 1" by (simp add: ceiling_le_iff)
  moreover have "1 < \<lceil>t\<rceil>" using assms by (simp add: less_ceiling_iff)
  ultimately show ?thesis by linarith
next
  case False
  have "of_int \<lceil>t / 10\<rceil> < t / 10 + 1" using ceiling_correct [of "t / 10"] by linarith
  also have "\<dots> < t" using False by simp
  also have "t \<le> of_int \<lceil>t\<rceil>" by (rule le_of_int_ceiling)
  finally show ?thesis by simp
qed

definition exponent_measure :: "rat \<Rightarrow> nat" where
  "exponent_measure x = (if 10 \<le> x then nat \<lfloor>x\<rfloor> else nat \<lceil>1 / x\<rceil>)"

lemma exponent_measure_down: "10 \<le> x \<Longrightarrow> exponent_measure (x / 10) < exponent_measure x"
proof -
  assume x: "10 \<le> x"
  then have f: "10 \<le> \<lfloor>x\<rfloor>" by (simp add: le_floor_iff)
  show ?thesis
  proof (cases "10 \<le> x / 10")
    case True
    have "\<lfloor>x / 10\<rfloor> < \<lfloor>x\<rfloor>"
    proof -
      have "\<lfloor>x / 10\<rfloor> \<le> \<lfloor>x - 1\<rfloor>" using x by (intro floor_mono) simp
      then show ?thesis by simp
    qed
    then show ?thesis using x True f by (simp add: exponent_measure_def)
  next
    case False
    have "10 / x \<le> 1" using x by simp
    then have "\<lceil>10 / x\<rceil> \<le> 1" by (simp only: ceiling_le_one)
    then have "\<lceil>10 / x\<rceil> < \<lfloor>x\<rfloor>" using f by linarith
    then show ?thesis using x False f by (simp add: exponent_measure_def)
  qed
qed

lemma exponent_measure_up:
  "0 < x \<Longrightarrow> x < 1 \<Longrightarrow> exponent_measure (x * 10) < exponent_measure x"
proof -
  assume x: "0 < x" "x < 1"
  have t: "1 < 1 / x" using x by (simp add: less_divide_eq)
  have "1 / (x * 10) = (1 / x) / 10" by simp
  then have "\<lceil>1 / (x * 10)\<rceil> < \<lceil>1 / x\<rceil>" using ceiling_div_10_less [OF t] by simp
  moreover have "0 < \<lceil>1 / x\<rceil>" using x by (simp add: less_ceiling_iff)
  ultimately show ?thesis using x by (simp add: exponent_measure_def)
qed

termination dec_exponent
  by (relation "measure exponent_measure")
    (auto intro: exponent_measure_down exponent_measure_up)

declare dec_exponent.simps [simp del]

lemma dec_exponent_bounds:
  "0 < x \<Longrightarrow> 10 powi dec_exponent x \<le> x \<and> x < 10 powi (dec_exponent x + 1)"
proof (induction x rule: dec_exponent.induct)
  case (1 x)
  consider "10 \<le> x" | "x < 1" | "1 \<le> x" "x < 10" by linarith
  then show ?case
  proof cases
    case 1
    then have "10 powi dec_exponent (x / 10) \<le> x / 10 \<and>
        x / 10 < 10 powi (dec_exponent (x / 10) + 1)"
      using "1.IH"(1) "1.prems" by simp
    moreover have "dec_exponent x = dec_exponent (x / 10) + 1"
      using 1 "1.prems" by (simp add: dec_exponent.simps [of x])
    ultimately show ?thesis by (simp add: power_int_add field_simps)
  next
    case 2
    then have "10 powi dec_exponent (x * 10) \<le> x * 10 \<and>
        x * 10 < 10 powi (dec_exponent (x * 10) + 1)"
      using "1.IH"(2) "1.prems" by simp
    moreover have "dec_exponent (x * 10) = dec_exponent x + 1"
      using 2 "1.prems" by (simp add: dec_exponent.simps [of x])
    ultimately show ?thesis by (simp add: power_int_add)
  next
    case 3
    then show ?thesis by (simp add: dec_exponent.simps [of x])
  qed
qed

lemma powi_10_less_iff: "(10::rat) powi a < 10 powi b \<longleftrightarrow> a < b"
  using power_int_strict_increasing [of a b "10::rat"] power_int_increasing [of b a "10::rat"]
  by (auto simp: not_less [symmetric])

lemma dec_exponent_unique:
  assumes "10 powi e \<le> x" "x < 10 powi (e + 1)"
  shows "dec_exponent x = e"
proof -
  have "0 < x" using assms(1) by (rule less_le_trans [rotated]) simp
  then have b: "10 powi dec_exponent x \<le> x" "x < 10 powi (dec_exponent x + 1)"
    using dec_exponent_bounds by auto
  have "(10::rat) powi e < 10 powi (dec_exponent x + 1)" using assms(1) b(2) by linarith
  moreover have "(10::rat) powi dec_exponent x < 10 powi (e + 1)" using assms(2) b(1) by linarith
  ultimately show ?thesis unfolding powi_10_less_iff by simp
qed

definition decimal_round :: "nat \<Rightarrow> rat \<Rightarrow> rat" where
  "decimal_round p x =
     (if x = 0 then 0
      else let u = 10 powi (dec_exponent \<bar>x\<bar> - int p + 1)
           in of_int (round_half_up (x / u)) * u)"

lemma decimal_round_minus: "decimal_round p (- x) = - decimal_round p x"
  by (simp add: decimal_round_def Let_def round_half_up_minus)

lemma decimal_round_bounds:
  assumes x: "0 < x" and p: "0 < p"
  shows "10 powi dec_exponent x \<le> decimal_round p x"
    and "decimal_round p x \<le> 10 powi (dec_exponent x + 1)"
proof -
  define e u where "e = dec_exponent x" and "u = (10::rat) powi (e - int p + 1)"
  have u: "0 < u" by (simp add: u_def)
  have b: "10 powi e \<le> x" "x < 10 powi (e + 1)"
    using dec_exponent_bounds [OF x] by (simp_all add: e_def)
  have lo: "10 powi e = 10 ^ (p - 1) * u" and hi: "10 powi (e + 1) = 10 ^ p * u"
    using p by (simp_all add: u_def power_int_add [symmetric] of_nat_diff
        flip: power_int_of_nat)
  have r: "decimal_round p x = of_int (round_half_up (x / u)) * u"
    using x by (simp add: decimal_round_def Let_def u_def e_def)
  have "of_int (10 ^ (p - 1)) \<le> x / u" using b(1) u lo by (simp add: field_simps)
  then have "10 ^ (p - 1) \<le> round_half_up (x / u)"
    using round_half_up_mono by (metis round_half_up_int)
  then have "(10 ^ (p - 1) :: rat) \<le> of_int (round_half_up (x / u))"
    by (metis of_int_le_iff of_int_numeral of_int_power)
  then show "10 powi dec_exponent x \<le> decimal_round p x"
    using u by (simp add: r lo flip: e_def)
  have "x / u \<le> of_int (10 ^ p)" using b(2) u hi by (simp add: field_simps)
  then have "round_half_up (x / u) \<le> 10 ^ p"
    using round_half_up_mono by (metis round_half_up_int)
  then have "of_int (round_half_up (x / u)) \<le> (10 ^ p :: rat)"
    by (metis of_int_le_iff of_int_numeral of_int_power)
  then show "decimal_round p x \<le> 10 powi (dec_exponent x + 1)"
    using u by (simp add: r hi flip: e_def)
qed

lemma decimal_round_mono_pos:
  assumes "0 < x" "x \<le> y" and p: "0 < p"
  shows "decimal_round p x \<le> decimal_round p y"
proof -
  have y: "0 < y" using assms by simp
  note bx = dec_exponent_bounds [OF assms(1)] and by' = dec_exponent_bounds [OF y]
  show ?thesis
  proof (cases "dec_exponent x = dec_exponent y")
    case True
    let ?u = "(10::rat) powi (dec_exponent y - int p + 1)"
    have u: "0 < ?u" by simp
    have "round_half_up (x / ?u) \<le> round_half_up (y / ?u)"
      using assms(2) u by (intro round_half_up_mono divide_right_mono) auto
    then show ?thesis
      using assms(1) y u True by (simp add: decimal_round_def Let_def)
  next
    case False
    have "(10::rat) powi dec_exponent x < 10 powi (dec_exponent y + 1)"
      using bx by' assms(2) by linarith
    then have "dec_exponent x + 1 \<le> dec_exponent y" using False by (simp add: powi_10_less_iff)
    then have "(10::rat) powi (dec_exponent x + 1) \<le> 10 powi dec_exponent y"
      by (simp add: power_int_increasing)
    then show ?thesis
      using decimal_round_bounds(2) [OF assms(1) p] decimal_round_bounds(1) [OF y p] by linarith
  qed
qed

lemma decimal_round_nonneg: "0 \<le> x \<Longrightarrow> 0 < p \<Longrightarrow> 0 \<le> decimal_round p x"
proof (cases "x = 0")
  case False
  assume "0 \<le> x" "0 < p"
  then have "10 powi dec_exponent x \<le> decimal_round p x"
    using False by (intro decimal_round_bounds) simp_all
  moreover have "(0::rat) \<le> 10 powi dec_exponent x" by simp
  ultimately show ?thesis by linarith
qed (simp add: decimal_round_def)

lemma decimal_round_mono:
  assumes "x \<le> y" and p: "0 < p"
  shows "decimal_round p x \<le> decimal_round p y"
proof -
  consider "0 < x" | "x \<le> 0" "0 \<le> y" | "y < 0" by linarith
  then show ?thesis
  proof cases
    case 1
    then show ?thesis using decimal_round_mono_pos assms by blast
  next
    case 2
    have "0 \<le> decimal_round p (- x)" using 2 p by (intro decimal_round_nonneg) auto
    then have "decimal_round p x \<le> 0" by (simp add: decimal_round_minus)
    then show ?thesis using decimal_round_nonneg [of y p] 2 p by linarith
  next
    case 3
    then have "decimal_round p (- y) \<le> decimal_round p (- x)"
      using assms by (intro decimal_round_mono_pos) auto
    then show ?thesis by (simp add: decimal_round_minus)
  qed
qed

lemma decimal_round_exact_powi:
  assumes m: "\<bar>m\<bar> < 10 ^ p"
  shows "decimal_round p (of_int m * 10 powi k) = of_int m * 10 powi k"
proof (cases "m = 0")
  case False
  define x where "x = (of_int m :: rat) * 10 powi k"
  define e where "e = dec_exponent \<bar>x\<bar>"
  have ax: "\<bar>x\<bar> = of_int \<bar>m\<bar> * 10 powi k" by (simp add: x_def abs_mult)
  have pos: "0 < \<bar>x\<bar>" using False by (simp add: x_def)
  have "(of_int \<bar>m\<bar> :: rat) < 10 ^ p" using m by (metis of_int_less_iff of_int_numeral of_int_power)
  then have "\<bar>x\<bar> < 10 ^ p * 10 powi k" unfolding ax by (intro mult_strict_right_mono) simp_all
  also have "\<dots> = 10 powi (int p + k)" by (simp add: power_int_add)
  finally have "10 powi e < (10::rat) powi (int p + k)"
    using dec_exponent_bounds [OF pos] by (auto simp: e_def)
  then have le: "0 \<le> k - (e - int p + 1)" by (simp add: powi_10_less_iff)
  define u where "u = (10::rat) powi (e - int p + 1)"
  have "(10::rat) powi k / u = 10 powi (k - (e - int p + 1))"
    unfolding u_def by (rule power_int_diff [symmetric]) simp
  also have "\<dots> = 10 ^ nat (k - (e - int p + 1))"
    using le by (rule power_int_nonneg_exp)
  finally have "x / u = of_int (m * 10 ^ nat (k - (e - int p + 1)))"
    by (simp add: x_def flip: times_divide_eq_right)
  then have "of_int (round_half_up (x / u)) = x / u" by (metis round_half_up_int)
  moreover have "decimal_round p x = of_int (round_half_up (x / u)) * u"
    using pos by (simp add: decimal_round_def Let_def u_def e_def)
  moreover have "u \<noteq> 0" by (simp add: u_def)
  ultimately have "decimal_round p x = x" by simp
  then show ?thesis by (simp add: x_def)
qed (simp add: decimal_round_def)

lemma decimal_round_exact:
  assumes "scaled k x" and "\<bar>x\<bar> * 10 ^ k < 10 ^ p"
  shows "decimal_round p x = x"
proof -
  obtain m where x: "x = of_int m / 10 ^ k" using assms(1) by (auto simp: scaled_def)
  then have "\<bar>x\<bar> * 10 ^ k = of_int \<bar>m\<bar>" by simp
  then have "\<bar>m\<bar> < 10 ^ p" using assms(2) by (metis of_int_less_iff of_int_numeral of_int_power)
  moreover have "x = of_int m * 10 powi (- int k)" by (simp add: x power_int_minus divide_inverse)
  ultimately show ?thesis using decimal_round_exact_powi by metis
qed

lemma decimal_round_idem:
  assumes p: "0 < p"
  shows "decimal_round p (decimal_round p x) = decimal_round p x"
proof -
  have pos: "decimal_round p (decimal_round p x) = decimal_round p x" if x: "0 < x" for x
  proof -
    define u where "u = (10::rat) powi (dec_exponent x - int p + 1)"
    define m where "m = round_half_up (x / u)"
    have u: "0 < u" by (simp add: u_def)
    have r: "decimal_round p x = of_int m * u"
      using x by (simp add: decimal_round_def Let_def u_def m_def)
    have hi: "10 powi (dec_exponent x + 1) = 10 ^ p * u"
      by (simp add: u_def power_int_add [symmetric] flip: power_int_of_nat)
    have "of_int m * u \<le> 10 ^ p * u"
      using decimal_round_bounds(2) [OF x p] unfolding r hi .
    then have "m \<le> 10 ^ p" using u by (metis mult_le_cancel_right_pos of_int_le_iff
          of_int_numeral of_int_power)
    moreover have "0 \<le> m"
      using x u by (simp add: m_def round_half_up_nonneg)
    ultimately consider "\<bar>m\<bar> < 10 ^ p" | "m = 10 ^ p" by linarith
    then show ?thesis
    proof cases
      case 1
      then show ?thesis unfolding r u_def by (rule decimal_round_exact_powi)
    next
      case 2
      then have "of_int m * u = of_int 1 * 10 powi (dec_exponent x + 1)" by (simp add: hi)
      moreover have "\<bar>1::int\<bar> < 10 ^ p" using p by simp
      ultimately show ?thesis unfolding r by (metis decimal_round_exact_powi)
    qed
  qed
  consider "x = 0" | "0 < x" | "0 < - x" by linarith
  then show ?thesis
  proof cases
    case 3
    then show ?thesis using pos [of "- x"] by (simp add: decimal_round_minus)
  qed (simp_all add: pos, simp add: decimal_round_def)
qed

lemma round_half_up_error: "\<bar>of_int (round_half_up x) - x\<bar> \<le> 1 / 2"
proof (cases "x < 0")
  case True
  have "of_int \<lfloor>1 / 2 - x\<rfloor> \<le> 1 / 2 - x" "1 / 2 - x < of_int \<lfloor>1 / 2 - x\<rfloor> + 1" by linarith+
  then have "- of_int \<lfloor>1 / 2 - x\<rfloor> - x \<le> 1 / 2" "- (1 / 2) \<le> - of_int \<lfloor>1 / 2 - x\<rfloor> - x" by linarith+
  then show ?thesis using True unfolding round_half_up_def abs_le_iff by simp
next
  case False
  have "of_int \<lfloor>x + 1 / 2\<rfloor> \<le> x + 1 / 2" "x + 1 / 2 < of_int \<lfloor>x + 1 / 2\<rfloor> + 1" by linarith+
  then have "of_int \<lfloor>x + 1 / 2\<rfloor> - x \<le> 1 / 2" "- (1 / 2) \<le> of_int \<lfloor>x + 1 / 2\<rfloor> - x" by linarith+
  then show ?thesis using False unfolding round_half_up_def abs_le_iff by simp
qed

lemma decimal_round_error:
  assumes p: "0 < p"
  shows "\<bar>decimal_round p x - x\<bar> * 10 ^ p \<le> 5 * \<bar>x\<bar>"
proof -
  have pos: "\<bar>decimal_round p x - x\<bar> * 10 ^ p \<le> 5 * x" if x: "0 < x" for x
  proof -
    define e u where "e = dec_exponent x" and "u = (10::rat) powi (e - int p + 1)"
    have u: "0 < u" by (simp add: u_def)
    have hi: "u * 10 ^ p = 10 * 10 powi e"
      by (simp add: u_def power_int_add power_int_diff)
    have "10 powi e \<le> x" using dec_exponent_bounds [OF x] by (simp add: e_def)
    then have lo: "u * 10 ^ p \<le> 10 * x" unfolding hi by simp
    have "decimal_round p x - x = (of_int (round_half_up (x / u)) - x / u) * u"
      using x u by (simp add: decimal_round_def Let_def u_def e_def left_diff_distrib)
    then have "\<bar>decimal_round p x - x\<bar> = \<bar>of_int (round_half_up (x / u)) - x / u\<bar> * u"
      using u by (simp add: abs_mult)
    also have "\<dots> \<le> 1 / 2 * u"
      using round_half_up_error u by (intro mult_right_mono) simp_all
    finally have "\<bar>decimal_round p x - x\<bar> * 10 ^ p \<le> 1 / 2 * u * 10 ^ p"
      by (rule mult_right_mono) simp
    also have "\<dots> = 1 / 2 * (u * 10 ^ p)" by simp
    also have "\<dots> \<le> 1 / 2 * (10 * x)" using lo by (rule mult_left_mono) simp
    finally show ?thesis by simp
  qed
  consider "0 < x" | "x = 0" | "0 < - x" by linarith
  then show ?thesis
  proof cases
    case 3
    then show ?thesis using pos [OF 3] by (simp add: decimal_round_minus abs_minus_commute)
  qed (use pos in \<open>simp_all add: decimal_round_def\<close>)
qed

interpretation decimal20: decimal_rounding "decimal_round 20" 20
proof
  show "\<bar>decimal_round 20 x - x\<bar> * 10 ^ 20 \<le> 5 * \<bar>x\<bar>" for x
    by (rule decimal_round_error) simp
qed (auto intro: decimal_round_mono decimal_round_exact simp: decimal_round_minus decimal_round_idem)

text \<open>Exact arithmetic satisfies the laws as well.\<close>

definition exact_round :: "rat \<Rightarrow> rat" where
  "exact_round x = x"

interpretation exact_decimal: decimal_rounding exact_round 20
  by unfold_locales (simp_all add: exact_round_def)

end
