(* ===== verification/Schema.thy ===== *)
theory Schema
  imports Js_Value Decimal_Lib
begin

text \<open>
  The data model (\<open>prisma/schema.prisma\<close>): the enumerations, one record per table, and the
  database as the record of its tables. A table is the list of its rows. Columns the
  services never read (\<open>created_at\<close>, mostly \<open>updated_at\<close>, the id of a settlement detail) are left
  out. A \<open>@db.Date\<close> column holds the time value of a UTC midnight, a \<open>Decimal\<close> column the
  exact value.
\<close>

section \<open>Enumerations\<close>

datatype common_status = CS_draft | CS_confirmed | CS_locked | CS_active | CS_disabled
datatype settlement_status = SS_draft | SS_confirmed | SS_locked
datatype attendance_status =
  full_attendance | sick_leave | personal_leave | absent | other_attendance
datatype salary_item_type = SI_addition | SI_deduction
datatype salary_mode = SM_single | SM_group
datatype provider = airwallex | photonpay
datatype audit_result = AR_success | AR_failure
datatype sync_source_type = affiliate_income | card_spend
datatype sync_task_type = TT_affiliate_income | airwallex_card | photonpay_card
datatype sync_platform = P_everflow | P_cake | P_airwallex | P_photonpay
datatype sync_task_status =
  ST_not_implemented | ST_pending | ST_retry_wait | ST_running | ST_completed | ST_failed | ST_cancelled
datatype sync_trigger = TR_manual | TR_scheduled
datatype sync_error =
  EC_NETWORK_ERROR | EC_TIMEOUT | EC_RATE_LIMITED | EC_PROVIDER_5XX | EC_TEMPORARY_DATABASE_ERROR
  | EC_CREDENTIAL_MISSING | EC_CREDENTIAL_INVALID | EC_MONTH_LOCKED | EC_UNSUPPORTED_PLATFORM
  | EC_UNSUPPORTED_PROVIDER | EC_INVALID_CONFIGURATION | EC_VALIDATION_ERROR | EC_PERMISSION_ERROR
  | EC_BUSINESS_REJECTED
datatype planning_run_status = PR_running | PR_succeeded | PR_failed
datatype unmatched_status = UE_open | UE_ignored | UE_resolved
datatype card_match_status = CM_matched | CM_unmatched | CM_conflict | CM_excluded
datatype card_match_source = employee_primary_email | provider_email_alias
datatype exclusion_reason = admin_test_card

text \<open>The enumeration members as the strings the client library uses for them.\<close>

fun common_status_name :: "common_status \<Rightarrow> string" where
  "common_status_name CS_draft = ''draft''"
| "common_status_name CS_confirmed = ''confirmed''"
| "common_status_name CS_locked = ''locked''"
| "common_status_name CS_active = ''active''"
| "common_status_name CS_disabled = ''disabled''"

fun settlement_status_name :: "settlement_status \<Rightarrow> string" where
  "settlement_status_name SS_draft = ''draft''"
| "settlement_status_name SS_confirmed = ''confirmed''"
| "settlement_status_name SS_locked = ''locked''"

fun attendance_name :: "attendance_status \<Rightarrow> string" where
  "attendance_name full_attendance = ''full_attendance''"
| "attendance_name sick_leave = ''sick_leave''"
| "attendance_name personal_leave = ''personal_leave''"
| "attendance_name absent = ''absent''"
| "attendance_name other_attendance = ''other''"

fun salary_mode_name :: "salary_mode \<Rightarrow> string" where
  "salary_mode_name SM_single = ''single''"
| "salary_mode_name SM_group = ''group''"

section \<open>Tables\<close>

record settlement =
  ms_id :: string
  ms_month :: int
  ms_status :: settlement_status
  ms_generatedAt :: "int option"
  ms_generatedBy :: "string option"
  ms_confirmedAt :: "int option"
  ms_confirmedBy :: "string option"
  ms_lockedAt :: "int option"
  ms_lockedBy :: "string option"
  ms_lockReason :: "string option"

record settlement_detail =
  md_settlementId :: string
  md_employeeId :: string
  md_month :: int
  md_attendance :: "attendance_status option"
  md_incomeUsd :: rat
  md_cardSpendUsd :: rat
  md_grossProfitUsd :: rat
  md_grossProfitRmb :: rat
  md_commissionRmb :: rat
  md_manualAdditionRmb :: rat
  md_manualDeductionRmb :: rat
  md_finalSalaryRmb :: rat
  md_snapshot :: jsval

record income_record =
  ir_id :: string
  ir_month :: int
  ir_affiliateAccountId :: "string option"
  ir_employeeId :: "string option"
  ir_source :: string
  ir_externalRecordId :: "string option"
  ir_subField :: "string option"
  ir_subValue :: "string option"
  ir_incomeUsd :: rat
  ir_rawData :: jsval
  ir_status :: common_status
  ir_importedBy :: "string option"

record card_spend_event =
  ce_id :: string
  ce_month :: int
  ce_provider :: provider
  ce_cardId :: string
  ce_employeeId :: "string option"
  ce_externalEventId :: "string option"
  ce_transactionAt :: int
  ce_amount :: "rat option"
  ce_currency :: "string option"
  ce_spendUsd :: rat
  ce_settledAt :: "int option"
  ce_sourceStatus :: "string option"
  ce_sourceUpdatedAt :: "int option"
  ce_rawData :: jsval
  ce_status :: common_status
  ce_importedBy :: "string option"

record manual_card_spend =
  mc_id :: string
  mc_month :: int
  mc_providerName :: string
  mc_cardIdentifier :: "string option"
  mc_employeeId :: string
  mc_settledSpendUsd :: rat
  mc_feeRate :: rat
  mc_actualSpendUsd :: rat
  mc_reason :: "string option"
  mc_status :: settlement_status
  mc_createdBy :: string

record card_fee_rate =
  fr_id :: string
  fr_month :: int
  fr_provider :: provider
  fr_feeRate :: rat
  fr_status :: common_status
  fr_createdBy :: string

record exchange_rate =
  xr_id :: string
  xr_month :: int
  xr_usdToRmbRate :: rat
  xr_status :: common_status
  xr_createdBy :: string

record historical_negative_profit =
  hp_id :: string
  hp_month :: int
  hp_employeeId :: string
  hp_amountUsd :: rat
  hp_reason :: "string option"
  hp_status :: common_status
  hp_createdBy :: string

record performance_group =
  pg_id :: string
  pg_month :: int
  pg_name :: string
  pg_salaryMode :: salary_mode
  pg_status :: common_status
  pg_createdBy :: string

record group_member =
  gm_month :: int
  gm_groupId :: string
  gm_employeeId :: string
  gm_allocationRatio :: rat

record salary_item_config =
  sc_id :: string
  sc_code :: string
  sc_name :: string
  sc_itemType :: salary_item_type
  sc_status :: common_status
  sc_description :: "string option"
  sc_createdBy :: string

record salary_manual_item =
  si_id :: string
  si_month :: int
  si_employeeId :: string
  si_configId :: string
  si_amountRmb :: rat
  si_remark :: "string option"
  si_status :: common_status
  si_createdBy :: string

record sub_id_mapping =
  sm_id :: string
  sm_affiliateAccountId :: string
  sm_subField :: string
  sm_subValue :: string
  sm_effectiveMonth :: int
  sm_employeeId :: string
  sm_status :: common_status
  sm_createdBy :: "string option"

record card_binding =
  cb_id :: string
  cb_provider :: provider
  cb_cardId :: string
  cb_effectiveMonth :: int
  cb_employeeId :: string
  cb_status :: common_status
  cb_createdBy :: "string option"

record employee =
  em_id :: string
  em_employeeCode :: string
  em_name :: string
  em_email :: "string option"
  em_phone :: "string option"
  em_status :: common_status
  em_hiredAt :: "int option"
  em_leftAt :: "int option"

record affiliate_account =
  aa_id :: string
  aa_platform :: string
  aa_accountCode :: string
  aa_accountName :: "string option"
  aa_status :: common_status

record unmatched_event =
  ue_id :: string
  ue_month :: int
  ue_sourceType :: sync_source_type
  ue_taskType :: sync_task_type
  ue_platform :: "sync_platform option"
  ue_provider :: "provider option"
  ue_affiliateAccountId :: "string option"
  ue_syncTaskId :: "string option"
  ue_thirdPartyEventId :: "string option"
  ue_reasonCode :: string
  ue_reasonMessage :: "string option"
  ue_subField :: "string option"
  ue_subValue :: "string option"
  ue_cardId :: "string option"
  ue_cardLast4 :: "string option"
  ue_cardEmail :: "string option"
  ue_amountUsd :: "rat option"
  ue_currency :: "string option"
  ue_occurredAt :: "int option"
  ue_rawSafeData :: "jsval option"
  ue_status :: unmatched_status
  ue_resolvedEmployeeId :: "string option"
  ue_resolutionNote :: "string option"
  ue_resolvedAt :: "int option"
  ue_resolvedBy :: "string option"

record sync_task_row =
  tk_id :: string
  tk_sourceType :: sync_source_type
  tk_taskType :: sync_task_type
  tk_platform :: sync_platform
  tk_affiliateAccountId :: "string option"
  tk_provider :: "provider option"
  tk_month :: int
  tk_status :: sync_task_status
  tk_successCount :: nat
  tk_failedCount :: nat
  tk_message :: "string option"
  tk_errorMessage :: "string option"
  tk_requestedBy :: "string option"
  tk_triggerType :: sync_trigger
  tk_planningKey :: "string option"
  tk_attemptCount :: nat
  tk_nextAttemptAt :: "int option"
  tk_leaseOwner :: "string option"
  tk_leaseExpiresAt :: "int option"
  tk_lastAttemptAt :: "int option"
  tk_lastErrorCategory :: "sync_error option"
  tk_startedAt :: "int option"
  tk_finishedAt :: "int option"
  tk_updatedAt :: int
  tk_requestPayload :: jsval

record planning_run =
  pr_settlementMonth :: int
  pr_status :: planning_run_status
  pr_lastAttemptAt :: int
  pr_lastSuccessAt :: "int option"
  pr_attemptCount :: nat
  pr_createdCount :: nat
  pr_existingCount :: nat
  pr_blockedCount :: nat
  pr_blockerCodes :: "string list"
  pr_failureCode :: "string option"

record account_credential =
  lc_id :: string
  lc_affiliateAccountId :: string
  lc_encryptedPayload :: string
  lc_status :: common_status
  lc_updatedAt :: int

record provider_credential =
  pc_id :: string
  pc_provider :: provider
  pc_encryptedPayload :: string
  pc_status :: common_status

record provider_card =
  pv_id :: string
  pv_provider :: provider
  pv_cardId :: string
  pv_cardholderId :: "string option"
  pv_cardholderEmailNormalized :: "string option"
  pv_maskedCardNumber :: "string option"
  pv_nickname :: "string option"
  pv_providerStatus :: "string option"
  pv_employeeId :: "string option"
  pv_matchStatus :: card_match_status
  pv_matchSource :: "card_match_source option"
  pv_unmatchedReasonCode :: "string option"
  pv_lastCardSyncedAt :: "int option"
  pv_lastTransactionSyncedAt :: "int option"
  pv_lastTransactionSyncStatus :: "string option"
  pv_sourceCreatedAt :: "int option"
  pv_sourceUpdatedAt :: "int option"
  pv_updatedAt :: int

record email_alias =
  ea_id :: string
  ea_provider :: provider
  ea_aliasEmailNormalized :: string
  ea_employeeId :: string
  ea_status :: common_status
  ea_validFrom :: int
  ea_validTo :: "int option"
  ea_reason :: "string option"
  ea_createdBy :: string
  ea_updatedBy :: string
  ea_updatedAt :: int

record accounting_exclusion =
  ax_id :: string
  ax_providerCardId :: string
  ax_reason :: exclusion_reason
  ax_status :: common_status
  ax_effectiveFrom :: int
  ax_effectiveTo :: "int option"
  ax_note :: "string option"
  ax_createdBy :: string
  ax_updatedBy :: string
  ax_updatedAt :: int

record match_resolution =
  mx_id :: string
  mx_providerCardId :: string
  mx_resolutionType :: string
  mx_previousMatchStatus :: card_match_status
  mx_previousReasonCode :: "string option"
  mx_newMatchStatus :: card_match_status
  mx_newReasonCode :: "string option"
  mx_employeeId :: "string option"
  mx_aliasId :: "string option"
  mx_exclusionId :: "string option"
  mx_resolvedBy :: string
  mx_safeMetadata :: jsval

record audit_log =
  al_actorUserId :: "string option"
  al_actorRole :: "string option"
  al_action :: string
  al_objectType :: string
  al_objectId :: "string option"
  al_settlementMonth :: "int option"
  al_changedFields :: "string list"
  al_result :: audit_result
  al_failureReason :: "string option"
  al_errorMessage :: "string option"

text \<open>Administrators, their roles and sessions.\<close>

record admin_user =
  um_id :: string
  um_username :: string
  um_passwordHash :: string
  um_displayName :: string
  um_email :: "string option"
  um_employeeId :: "string option"
  um_status :: common_status
  um_lastLoginAt :: "int option"
  um_createdAt :: int
  um_updatedAt :: int

record admin_session =
  sx_id :: string
  sx_adminUserId :: string
  sx_tokenHash :: string
  sx_expiresAt :: int
  sx_revokedAt :: "int option"
  sx_lastUsedAt :: "int option"
  sx_ipAddress :: "string option"
  sx_userAgent :: "string option"
  sx_createdAt :: int

record role_row =
  rl_id :: string
  rl_code :: string
  rl_name :: string
  rl_description :: "string option"
  rl_status :: common_status
  rl_createdAt :: int
  rl_updatedAt :: int

record permission_row =
  pn_id :: string
  pn_code :: string
  pn_name :: string
  pn_description :: "string option"

section \<open>The database\<close>

record database =
  settlements :: "settlement list"
  settlement_details :: "settlement_detail list"
  income_records :: "income_record list"
  card_spend_events :: "card_spend_event list"
  manual_card_spends :: "manual_card_spend list"
  card_fee_rates :: "card_fee_rate list"
  exchange_rates :: "exchange_rate list"
  historical_profits :: "historical_negative_profit list"
  performance_groups :: "performance_group list"
  group_members :: "group_member list"
  salary_configs :: "salary_item_config list"
  salary_items :: "salary_manual_item list"
  sub_mappings :: "sub_id_mapping list"
  card_bindings :: "card_binding list"
  employees :: "employee list"
  affiliate_accounts :: "affiliate_account list"
  unmatched_events :: "unmatched_event list"
  sync_tasks :: "sync_task_row list"
  planning_runs :: "planning_run list"
  account_credentials :: "account_credential list"
  provider_credentials :: "provider_credential list"
  provider_cards :: "provider_card list"
  email_aliases :: "email_alias list"
  accounting_exclusions :: "accounting_exclusion list"
  match_resolutions :: "match_resolution list"
  admin_user_rows :: "admin_user list"
  admin_session_rows :: "admin_session list"
  role_rows :: "role_row list"
  permission_rows :: "permission_row list"
  user_role_rows :: "(string \<times> string) list"
  role_permission_rows :: "(string \<times> string) list"
  audit_logs :: "audit_log list"

definition empty_db :: database where
  "empty_db =
     \<lparr>settlements = [], settlement_details = [], income_records = [], card_spend_events = [],
      manual_card_spends = [], card_fee_rates = [], exchange_rates = [], historical_profits = [],
      performance_groups = [], group_members = [], salary_configs = [], salary_items = [],
      sub_mappings = [], card_bindings = [], employees = [], affiliate_accounts = [],
      unmatched_events = [], sync_tasks = [], planning_runs = [], account_credentials = [], provider_credentials = [],
      provider_cards = [], email_aliases = [], accounting_exclusions = [], match_resolutions = [],
      admin_user_rows = [], admin_session_rows = [], role_rows = [], permission_rows = [], user_role_rows = [],
      role_permission_rows = [],
      audit_logs = []\<rparr>"

section \<open>What the settlement of a month reads and produces\<close>

text \<open>
  \<open>month_inputs m db\<close> is every row that belongs to month \<open>m\<close> and enters its settlement;
  \<open>month_scope m db\<close> adds the settlement row itself, its details, and the versioned
  mappings and bindings of that month. A lock on \<open>m\<close> is meant to freeze the scope.
\<close>

record month_view =
  mv_settlements :: "settlement list"
  mv_details :: "settlement_detail list"
  mv_incomes :: "income_record list"
  mv_card_events :: "card_spend_event list"
  mv_manual_spends :: "manual_card_spend list"
  mv_fee_rates :: "card_fee_rate list"
  mv_exchange_rates :: "exchange_rate list"
  mv_historical :: "historical_negative_profit list"
  mv_groups :: "performance_group list"
  mv_members :: "group_member list"
  mv_salary_items :: "salary_manual_item list"
  mv_mappings :: "sub_id_mapping list"
  mv_bindings :: "card_binding list"

definition month_scope :: "int \<Rightarrow> database \<Rightarrow> month_view" where
  "month_scope m db =
     \<lparr>mv_settlements = filter (\<lambda>r. ms_month r = m) (settlements db),
      mv_details = filter (\<lambda>r. md_month r = m) (settlement_details db),
      mv_incomes = filter (\<lambda>r. ir_month r = m) (income_records db),
      mv_card_events = filter (\<lambda>r. ce_month r = m) (card_spend_events db),
      mv_manual_spends = filter (\<lambda>r. mc_month r = m) (manual_card_spends db),
      mv_fee_rates = filter (\<lambda>r. fr_month r = m) (card_fee_rates db),
      mv_exchange_rates = filter (\<lambda>r. xr_month r = m) (exchange_rates db),
      mv_historical = filter (\<lambda>r. hp_month r = m) (historical_profits db),
      mv_groups = filter (\<lambda>r. pg_month r = m) (performance_groups db),
      mv_members = filter (\<lambda>r. gm_month r = m) (group_members db),
      mv_salary_items = filter (\<lambda>r. si_month r = m) (salary_items db),
      mv_mappings = filter (\<lambda>r. sm_effectiveMonth r = m) (sub_mappings db),
      mv_bindings = filter (\<lambda>r. cb_effectiveMonth r = m) (card_bindings db)\<rparr>"

text \<open>The settlement row of a month (\<open>findUnique({ where: { settlementMonth } })\<close>) and its lock.\<close>

definition find_settlement :: "int \<Rightarrow> database \<Rightarrow> settlement option" where
  "find_settlement m db = find_row (\<lambda>r. ms_month r = m) (settlements db)"

definition month_locked :: "int \<Rightarrow> database \<Rightarrow> bool" where
  "month_locked m db =
     (case find_settlement m db of None \<Rightarrow> False | Some r \<Rightarrow> ms_status r = SS_locked)"

lemma find_settlement_view:
  "find_settlement m db =
     (case mv_settlements (month_scope m db) of [] \<Rightarrow> None | r # _ \<Rightarrow> Some r)"
proof -
  have "find p xs = (case filter p xs of [] \<Rightarrow> None | x # _ \<Rightarrow> Some x)" for p and xs :: "settlement list"
    by (induction xs) auto
  then show ?thesis by (simp add: find_settlement_def find_row_def month_scope_def)
qed

text \<open>The lock is itself part of the scope, so freezing the scope keeps the lock.\<close>

lemma month_locked_scope:
  "month_scope m db = month_scope m db' \<Longrightarrow> month_locked m db = month_locked m db'"
  by (simp add: month_locked_def find_settlement_view)

section \<open>Third-party behaviour\<close>

text \<open>
  What the services call outside the repository: the decimal library (\<open>rt_round\<close>, its
  parser \<open>rt_parse_decimal\<close> and printer \<open>rt_show_decimal\<close>), the database's column
  rounding (\<open>rt_column\<close>), the engine's date parser for strings (\<open>rt_parse_date\<close>), the clock
  (\<open>rt_now\<close>), the identifier the database gives a new row (\<open>rt_fresh_id\<close>, applied to the
  position of the row among those the operation creates) and the SHA-256 hex digest.

  A parsed decimal is finite with a sign bit and a value, or not finite.
\<close>

datatype parsed_decimal = DecFinite bool rat | DecNotFinite

record runtime =
  rt_round :: "rat \<Rightarrow> rat"
  rt_column :: "nat \<Rightarrow> rat \<Rightarrow> rat"
  rt_parse_decimal :: "string \<Rightarrow> parsed_decimal option"
  rt_show_decimal :: "rat \<Rightarrow> string"
  rt_parse_date :: "string \<Rightarrow> js_date"
  rt_now :: int
  rt_fresh_id :: "nat \<Rightarrow> string"
  rt_sha256_hex :: "string \<Rightarrow> string"

end
