(* ===== verification/App_Error.thy ===== *)
theory App_Error
  imports Schema
begin

text \<open>
  Errors (\<open>packages/shared/src/errors.ts\<close>, \<open>apps/api/src/common/app-error.ts\<close>): the error
  codes, the exceptions a handler can throw, and the HTTP status of a code. Messages are the
  source's; a message written in Chinese there stands here as its English translation in
  angle brackets.
\<close>

datatype error_code =
    VALIDATION_ERROR | UNAUTHORIZED | FORBIDDEN | PERMISSION_DENIED | MONTH_LOCKED
  | DUPLICATE_RESOURCE | CONFLICT | NOT_FOUND | SETTLEMENT_NOT_FOUND
  | SETTLEMENT_ALREADY_LOCKED | SETTLEMENT_PRECHECK_FAILED | SETTLEMENT_WARNING_ACK_REQUIRED
  | IMPORT_TEMPLATE_INVALID | IMPORT_ROW_INVALID | AUDIT_WRITE_FAILED

text \<open>
  \<open>PrismaKnownError\<close> is the client library's request error with its code; \<open>''P2002''\<close> is the
  violation of a unique constraint and \<open>''P2034''\<close> a write conflict. \<open>ProviderRequestError\<close> is a refused or failed
  request to a provider, \<open>HttpException\<close> the framework's error with its status.
\<close>

record provider_error =
  pe_category :: sync_error
  pe_message :: string
  pe_httpStatus :: "int option"
  pe_providerCode :: "string option"
  pe_providerMessage :: "string option"
  pe_requestId :: "string option"
  pe_apiVersion :: "string option"

datatype app_exception =
    AppError error_code string
  | JsError string
  | JsTypeError string
  | JsRangeError string
  | PrismaKnownError string
  | ProviderRequestError provider_error
  | HttpException nat string

fun error_code_name :: "error_code \<Rightarrow> string" where
  "error_code_name VALIDATION_ERROR = ''VALIDATION_ERROR''"
| "error_code_name UNAUTHORIZED = ''UNAUTHORIZED''"
| "error_code_name FORBIDDEN = ''FORBIDDEN''"
| "error_code_name PERMISSION_DENIED = ''PERMISSION_DENIED''"
| "error_code_name MONTH_LOCKED = ''MONTH_LOCKED''"
| "error_code_name DUPLICATE_RESOURCE = ''DUPLICATE_RESOURCE''"
| "error_code_name CONFLICT = ''CONFLICT''"
| "error_code_name NOT_FOUND = ''NOT_FOUND''"
| "error_code_name SETTLEMENT_NOT_FOUND = ''SETTLEMENT_NOT_FOUND''"
| "error_code_name SETTLEMENT_ALREADY_LOCKED = ''SETTLEMENT_ALREADY_LOCKED''"
| "error_code_name SETTLEMENT_PRECHECK_FAILED = ''SETTLEMENT_PRECHECK_FAILED''"
| "error_code_name SETTLEMENT_WARNING_ACK_REQUIRED = ''SETTLEMENT_WARNING_ACK_REQUIRED''"
| "error_code_name IMPORT_TEMPLATE_INVALID = ''IMPORT_TEMPLATE_INVALID''"
| "error_code_name IMPORT_ROW_INVALID = ''IMPORT_ROW_INVALID''"
| "error_code_name AUDIT_WRITE_FAILED = ''AUDIT_WRITE_FAILED''"

fun status_by_code :: "error_code \<Rightarrow> nat" where
  "status_by_code VALIDATION_ERROR = 400"
| "status_by_code UNAUTHORIZED = 401"
| "status_by_code FORBIDDEN = 403"
| "status_by_code PERMISSION_DENIED = 403"
| "status_by_code MONTH_LOCKED = 409"
| "status_by_code DUPLICATE_RESOURCE = 409"
| "status_by_code CONFLICT = 409"
| "status_by_code NOT_FOUND = 404"
| "status_by_code SETTLEMENT_NOT_FOUND = 404"
| "status_by_code SETTLEMENT_ALREADY_LOCKED = 409"
| "status_by_code SETTLEMENT_PRECHECK_FAILED = 400"
| "status_by_code SETTLEMENT_WARNING_ACK_REQUIRED = 400"
| "status_by_code IMPORT_TEMPLATE_INVALID = 400"
| "status_by_code IMPORT_ROW_INVALID = 400"
| "status_by_code AUDIT_WRITE_FAILED = 500"

fun exception_message :: "app_exception \<Rightarrow> string" where
  "exception_message (AppError c m) = m"
| "exception_message (JsError m) = m"
| "exception_message (JsTypeError m) = m"
| "exception_message (JsRangeError m) = m"
| "exception_message (PrismaKnownError c) = c"
| "exception_message (ProviderRequestError e) = pe_message e"
| "exception_message (HttpException n m) = m"

type_synonym 'a outcome = "(app_exception, 'a) result"
type_synonym 'a handler = "(database, app_exception, 'a) operation"

definition isDuplicateError :: "app_exception \<Rightarrow> bool" where
  "isDuplicateError e \<longleftrightarrow> e = PrismaKnownError ''P2002''"

definition duplicateResource :: "string \<Rightarrow> app_exception" where
  "duplicateResource message = AppError DUPLICATE_RESOURCE message"

definition notFound :: "string \<Rightarrow> app_exception" where
  "notFound objectType = AppError NOT_FOUND (objectType @ '' not found.'')"

definition validation_error :: "string \<Rightarrow> app_exception" where
  "validation_error message = AppError VALIDATION_ERROR message"

end
