(* ===== verification/Audit_Sanitizer.thy ===== *)
theory Audit_Sanitizer
  imports Js_Value App_Error
begin

text \<open>
  \<open>apps/api/src/audit/audit-sanitizer.ts\<close>: what happens to text and JSON on the way into
  \<open>audit_logs\<close>. Secrets in free text are replaced where one of three regular expressions
  matches; objects lose the name and the value of every sensitive key; nesting, arrays and
  objects are cut at fixed bounds.

  Rendering a number or a list of keys is all that is needed of the printer; numbers pass
  through unchanged.
\<close>

definition REDACTED :: string where "REDACTED = ''[REDACTED]''"
definition MAX_STRING_LENGTH :: nat where "MAX_STRING_LENGTH = 1000"
definition MAX_ARRAY_ITEMS :: nat where "MAX_ARRAY_ITEMS = 20"
definition MAX_OBJECT_KEYS :: nat where "MAX_OBJECT_KEYS = 50"
definition MAX_DEPTH :: nat where "MAX_DEPTH = 8"

definition SENSITIVE_KEY_PARTS :: "string list" where
  "SENSITIVE_KEY_PARTS =
    [''password'', ''passwordhash'', ''oldpassword'', ''newpassword'', ''token'', ''tokenhash'',
     ''refreshtoken'', ''sessiontoken'', ''apikey'', ''secret'', ''clientsecret'', ''merchantid'',
     ''authorization'', ''bearer'', ''encryptedpayload'', ''credentialpayload'', ''databaseurl'',
     ''cookie'', ''setcookie'', ''providerresponse'', ''rawresponse'', ''requestheaders'',
     ''responseheaders'', ''leaseowner'', ''fullthirdpartyresponse'', ''cardnumber'']"

section \<open>Text\<close>

definition truncate :: "string \<Rightarrow> nat \<Rightarrow> string" where
  "truncate value maxLength =
     (if length value > maxLength then take maxLength value @ ''...[TRUNCATED]'' else value)"

text \<open>
  A matcher looks at the character before the position and the text from it, and says how
  many characters it matches. \<open>replace_matches\<close> is \<open>text.replace(pattern, REDACTED)\<close> with the
  global flag: leftmost matches, left to right.
\<close>

type_synonym matcher = "char option \<Rightarrow> string \<Rightarrow> nat option"

function replace_matches :: "matcher \<Rightarrow> char option \<Rightarrow> string \<Rightarrow> string" where
  "replace_matches mt prev [] = []"
| "replace_matches mt prev (c # s) =
     (case mt prev (c # s) of
        Some (Suc n) \<Rightarrow>
          REDACTED @ replace_matches mt (Some (last (c # take n s))) (drop n s)
      | _ \<Rightarrow> c # replace_matches mt (Some c) s)"
  by pat_completeness auto
termination
  by (relation "measure (\<lambda>(_, _, s). length s)") (auto simp: less_Suc_eq_le)

definition word_boundary_before :: "char option \<Rightarrow> bool" where
  "word_boundary_before prev = (case prev of None \<Rightarrow> True | Some c \<Rightarrow> \<not> is_word_char c)"

definition starts_with_ci :: "string \<Rightarrow> string \<Rightarrow> bool" where
  "starts_with_ci s kw = (js_starts_with (js_lower s) (js_lower kw))"

definition is_bearer_char :: "char \<Rightarrow> bool" where
  "is_bearer_char c \<longleftrightarrow> is_word_char c \<or> c \<in> set ''.~+/=-''"

definition is_param_char :: "char \<Rightarrow> bool" where
  "is_param_char c \<longleftrightarrow> \<not> (c = CHR ''&'' \<or> is_js_space c \<or> c = CHR '','' \<or> c = CHR '';'')"

text \<open>\<open>/\bBearer\s+[A-Za-z0-9._~+/=-]+/gi\<close>\<close>

definition match_bearer :: matcher where
  "match_bearer prev s =
     (if word_boundary_before prev \<and> starts_with_ci s ''Bearer''
      then let rest = drop 6 s; sp = takeWhile is_js_space rest;
               tok = takeWhile is_bearer_char (drop (length sp) rest)
           in if sp \<noteq> [] \<and> tok \<noteq> [] then Some (6 + length sp + length tok) else None
      else None)"

text \<open>\<open>/\b(kw1|kw2|...)=([^&\s,;]+)/gi\<close>\<close>

definition match_assignment :: "string list \<Rightarrow> matcher" where
  "match_assignment kws prev s =
     (if word_boundary_before prev
      then (case find (\<lambda>kw. starts_with_ci s kw \<and> take 1 (drop (length kw) s) = ''='') kws of
              None \<Rightarrow> None
            | Some kw \<Rightarrow>
                (let v = takeWhile is_param_char (drop (Suc (length kw)) s)
                 in if v \<noteq> [] then Some (Suc (length kw) + length v) else None))
      else None)"

definition SENSITIVE_STRING_PATTERNS :: "matcher list" where
  "SENSITIVE_STRING_PATTERNS =
     [match_bearer,
      match_assignment [''token'', ''apiKey'', ''apikey'', ''clientSecret'', ''secret'',
        ''authorization'', ''password''],
      match_assignment [''DATABASE_URL'']]"

definition sanitizeString :: "string \<Rightarrow> string" where
  "sanitizeString value =
     foldl (\<lambda>text pattern. replace_matches pattern None text)
       (truncate value MAX_STRING_LENGTH) SENSITIVE_STRING_PATTERNS"

text \<open>\<open>sanitizeAuditText\<close> on a string.\<close>

definition sanitizeAuditText :: "string \<Rightarrow> nat \<Rightarrow> string" where
  "sanitizeAuditText value maxLength = truncate (sanitizeString value) maxLength"

section \<open>JSON\<close>

definition is_key_char :: "char \<Rightarrow> bool" where
  "is_key_char c \<longleftrightarrow> is_digit c \<or> (let n = (of_char c :: nat) in 97 \<le> n \<and> n \<le> 122)"

definition isSensitiveKey :: "string \<Rightarrow> bool" where
  "isSensitiveKey key =
     (let normalized = filter is_key_char (js_lower key)
      in list_ex (js_includes normalized) SENSITIVE_KEY_PARTS)"

text \<open>\<open>Object.fromEntries\<close>: a repeated key keeps its first position and its last value.\<close>

definition from_entries :: "(string \<times> jsval) list \<Rightarrow> (string \<times> jsval) list" where
  "from_entries es = foldl (\<lambda>m (k, v). map_set m k v) [] es"

definition redacted_name :: "nat \<Rightarrow> string" where
  "redacted_name index = ''redactedField'' @ nat_string (index + 1)"

text \<open>
  \<open>null\<close> stands for the \<open>null\<close> the code returns on \<open>undefined\<close> and \<open>null\<close>. \<open>toISOString\<close>
  throws a RangeError on an Invalid Date.
\<close>

function sanitizeAuditValue :: "nat \<Rightarrow> jsval \<Rightarrow> (app_exception, jsval) result" where
  "sanitizeAuditValue depth JUndefined = Inr JNull"
| "sanitizeAuditValue depth JNull = Inr JNull"
| "sanitizeAuditValue depth (JString s) = Inr (JString (sanitizeString s))"
| "sanitizeAuditValue depth (JNum n) = Inr (JNum n)"
| "sanitizeAuditValue depth (JBool b) = Inr (JBool b)"
| "sanitizeAuditValue depth (JDate d) =
     (case d of Some t \<Rightarrow> Inr (JString (iso_string t)) | None \<Rightarrow> Inl (JsRangeError ''Invalid time value''))"
| "sanitizeAuditValue depth (JArray vs) =
     (if depth \<ge> MAX_DEPTH then Inr (JString ''[TRUNCATED_DEPTH]'')
      else bind_res (res_map (sanitizeAuditValue (Suc depth)) (take MAX_ARRAY_ITEMS vs)) (\<lambda>items.
        Inr (JArray (items @
          (if length vs > MAX_ARRAY_ITEMS
           then [JString (''[TRUNCATED_'' @ nat_string (length vs - MAX_ARRAY_ITEMS) @ ''_ITEMS]'')]
           else [])))))"
| "sanitizeAuditValue depth (JObject kvs) =
     (if depth \<ge> MAX_DEPTH then Inr (JString ''[TRUNCATED_DEPTH]'')
      else bind_res
        (res_map
          (\<lambda>(index, kv).
             if isSensitiveKey (fst kv) then Inr (redacted_name index, JString REDACTED)
             else bind_res (sanitizeAuditValue (Suc depth) (snd kv)) (\<lambda>v. Inr (fst kv, v)))
          (enumerate 0 (take MAX_OBJECT_KEYS kvs)))
        (\<lambda>entries. Inr (JObject (from_entries (entries @
          (if length kvs > MAX_OBJECT_KEYS
           then [(''__truncatedKeys'', JString ''[TRUNCATED_KEYS]'')] else []))))))"
  by pat_completeness auto

lemma enumerate_take_mem:
  assumes "(i, kv) \<in> set (enumerate n (take k kvs))"
  shows "kv \<in> set kvs"
proof -
  have "kv \<in> snd ` set (enumerate n (take k kvs))" using assms by force
  then have "kv \<in> set (take k kvs)"
    by (metis list.set_map map_snd_enumerate)
  then show ?thesis by (rule in_set_takeD)
qed

lemma entry_size_less:
  "kv \<in> set kvs \<Longrightarrow> size (snd kv) < Suc (size_list (size_prod (\<lambda>x. 0) size) kvs)"
  by (induction kvs) (auto simp: less_Suc_eq)

termination sanitizeAuditValue
proof (relation "measure (\<lambda>(_, v). size v)", goal_cases)
  case (2 depth vs x)
  then have "x \<in> set vs" by (auto dest: in_set_takeD)
  then have "size x < Suc (size_list size vs)" by (induction vs) auto
  then show ?case by simp
next
  case (3 depth kvs p i kv)
  then have "(i, kv) \<in> set (enumerate 0 (take MAX_OBJECT_KEYS kvs))" by simp
  from entry_size_less [OF enumerate_take_mem [OF this]] show ?case by simp
qed simp


section \<open>CSV cells and modules\<close>

text \<open>\<open>csvSafeCell\<close> on text: the guard against formula injection, then quoting.\<close>

definition csv_quote :: "string \<Rightarrow> string" where
  "csv_quote text = CHR 0x22 # concat (map (\<lambda>c. if c = CHR 0x22 then [c, c] else [c]) text) @ [CHR 0x22]"

definition starts_formula :: "string \<Rightarrow> bool" where
  "starts_formula text =
     (list_ex (\<lambda>i. list_all is_js_space (take i text) \<and>
        (case drop i text of [] \<Rightarrow> False
         | c # _ \<Rightarrow> c \<in> set ''=+-@'' \<or> c = CHR 0x09 \<or> c = CHR 0x0D \<or> c = CHR 0x0A))
       [0..<length text])"

definition csvSafeCell :: "string \<Rightarrow> string" where
  "csvSafeCell value =
     (let text = sanitizeAuditText value MAX_STRING_LENGTH
      in csv_quote (if starts_formula text then CHR 0x27 # text else text))"

section \<open>What the sanitizer guarantees\<close>

text \<open>Every object key anywhere in a value satisfies \<open>P\<close>; and the nesting depth.\<close>

fun all_keys :: "(string \<Rightarrow> bool) \<Rightarrow> jsval \<Rightarrow> bool" where
  "all_keys P (JArray vs) = (\<forall>v \<in> set vs. all_keys P v)"
| "all_keys P (JObject kvs) = (\<forall>kv \<in> set kvs. P (fst kv) \<and> all_keys P (snd kv))"
| "all_keys P _ = True"

fun nesting :: "jsval \<Rightarrow> nat" where
  "nesting (JArray vs) = Suc (foldr max (map nesting vs) 0)"
| "nesting (JObject kvs) = Suc (foldr max (map (\<lambda>kv. nesting (snd kv)) kvs) 0)"
| "nesting _ = 0"

text \<open>The value with everything below a sensitive key forgotten.\<close>

fun forget_sensitive :: "jsval \<Rightarrow> jsval" where
  "forget_sensitive (JArray vs) = JArray (map forget_sensitive vs)"
| "forget_sensitive (JObject kvs) =
     JObject (map (\<lambda>kv. (fst kv, if isSensitiveKey (fst kv) then JNull else forget_sensitive (snd kv))) kvs)"
| "forget_sensitive v = v"

lemma set_from_entries: "set (from_entries es) \<subseteq> set es"
proof -
  have mem: "set (map_set m k v) \<subseteq> insert (k, v) (set m)" for m :: "(string \<times> jsval) list" and k v
    by (induction m k v rule: map_set.induct) auto
  have "set (foldl (\<lambda>m (k, v). map_set m k v) m es) \<subseteq> set m \<union> set es" for m
  proof (induction es arbitrary: m)
    case (Cons e es)
    obtain k v where e: "e = (k, v)" by (cases e)
    have "set (foldl (\<lambda>m (k, v). map_set m k v) m (e # es)) \<subseteq> set (map_set m k v) \<union> set es"
      using Cons.IH [of "map_set m k v"] by (simp add: e)
    also have "\<dots> \<subseteq> set m \<union> set (e # es)" using mem [of m k v] by (auto simp: e)
    finally show ?case .
  qed simp
  from this [of "[]"] show ?thesis by (simp add: from_entries_def)
qed

lemma foldr_max_le: "foldr max ns 0 \<le> (b::nat) \<longleftrightarrow> (\<forall>n \<in> set ns. n \<le> b)"
  by (induction ns) auto


lemma js_starts_with_append_digits:
  assumes "list_all is_digit ds" "list_all (\<lambda>c. \<not> is_digit c) p"
  shows "js_starts_with (s @ ds) p \<longleftrightarrow> js_starts_with s p"
proof (cases "length p \<le> length s")
  case True
  then show ?thesis by (simp add: js_starts_with_def)
next
  case False
  have "take (length p) (s @ ds) \<noteq> p"
  proof
    assume eq: "take (length p) (s @ ds) = p"
    then have len: "length s < length (take (length p) (s @ ds))" using False by simp
    then have "p ! length s = (s @ ds) ! length s" using eq by (metis nth_take length_take min_less_iff_conj)
    also have "\<dots> = ds ! 0" by (simp add: nth_append)
    finally have "p ! length s = ds ! 0" .
    moreover have "0 < length ds" using len by auto
    moreover have "length s < length p" using False by simp
    ultimately show False using assms by (metis list_all_length)
  qed
  moreover have "take (length p) s \<noteq> p" using False by (metis length_take min.cobounded1 nle_le)
  ultimately show ?thesis by (simp add: js_starts_with_def)
qed

lemma js_includes_append_digits:
  assumes "list_all is_digit ds" "list_all (\<lambda>c. \<not> is_digit c) p" "p \<noteq> []"
  shows "js_includes (s @ ds) p \<longleftrightarrow> js_includes s p"
proof (induction s)
  case Nil
  have "js_includes ds p = False" using assms(1)
  proof (induction ds)
    case (Cons d ds)
    then show ?case
      using js_starts_with_append_digits [OF Cons.prems assms(2), of "[]"] assms(3)
      by (simp add: js_starts_with_def)
  qed (simp add: assms(3))
  then show ?case using assms(3) by simp
next
  case (Cons c s)
  then show ?case
    using js_starts_with_append_digits [OF assms(1,2), of "c # s"] by simp
qed

lemma nat_string_digits: "list_all is_digit (nat_string n)"
  by (induction n rule: nat_string.induct) (subst nat_string.simps, auto)

lemma js_lower_digit: "is_digit c \<Longrightarrow> js_lower_char c = c"
  by (auto simp: is_digit_def js_lower_char_def Let_def)

lemma SENSITIVE_parts_ok:
  "list_all (\<lambda>p. p \<noteq> [] \<and> list_all (\<lambda>c. \<not> is_digit c) p \<and> \<not> js_includes ''redactedfield'' p
     \<and> \<not> js_includes ''truncatedkeys'' p) SENSITIVE_KEY_PARTS"
  by code_simp

lemma redacted_name_safe: "\<not> isSensitiveKey (redacted_name i)"
proof -
  let ?ds = "nat_string (i + 1)"
  have ds: "list_all is_digit ?ds" by (rule nat_string_digits)
  have "js_lower ?ds = ?ds" and "filter is_key_char ?ds = ?ds"
    using ds by (simp_all add: js_lower_def list_all_iff js_lower_digit map_idI filter_id_conv is_key_char_def)
  moreover have "filter is_key_char (js_lower ''redactedField'') = ''redactedfield''"
    by code_simp
  ultimately have norm: "filter is_key_char (js_lower (redacted_name i)) = ''redactedfield'' @ ?ds"
    unfolding redacted_name_def js_lower_def by (simp only: map_append filter_append)
  have "\<not> js_includes (''redactedfield'' @ ?ds) p" if p: "p \<in> set SENSITIVE_KEY_PARTS" for p
  proof -
    have "p \<noteq> []" "list_all (\<lambda>c. \<not> is_digit c) p" "\<not> js_includes ''redactedfield'' p"
      using SENSITIVE_parts_ok p unfolding list_all_iff [of _ SENSITIVE_KEY_PARTS] by metis+
    then show ?thesis using js_includes_append_digits [OF ds] by metis
  qed
  then show ?thesis
    unfolding isSensitiveKey_def Let_def norm list_ex_iff by blast
qed

lemma truncated_key_safe: "\<not> isSensitiveKey ''__truncatedKeys''"
  by code_simp

lemma sanitized_keys:
  "sanitizeAuditValue depth v = Inr w \<Longrightarrow> all_keys (\<lambda>k. \<not> isSensitiveKey k) w"
proof (induction depth v arbitrary: w rule: sanitizeAuditValue.induct)
  case (7 depth vs)
  show ?case
  proof (cases "MAX_DEPTH \<le> depth")
    case False
    with 7(2) obtain items where items: "res_map (sanitizeAuditValue (Suc depth)) (take MAX_ARRAY_ITEMS vs) = Inr items"
      and w: "w = JArray (items @ (if length vs > MAX_ARRAY_ITEMS
           then [JString (''[TRUNCATED_'' @ nat_string (length vs - MAX_ARRAY_ITEMS) @ ''_ITEMS]'')] else []))"
      by (auto simp: bind_res_Inr_iff)
    have "all_keys (\<lambda>k. \<not> isSensitiveKey k) i" if "i \<in> set items" for i
      using res_map_in [OF items that] 7(1) [OF False] by blast
    then show ?thesis by (auto simp: w)
  qed (use 7(2) in auto)
next
  case (8 depth kvs)
  show ?case
  proof (cases "MAX_DEPTH \<le> depth")
    case False
    with 8(2) obtain es where
      es: "res_map (\<lambda>(index, kv).
             if isSensitiveKey (fst kv) then Inr (redacted_name index, JString REDACTED)
             else bind_res (sanitizeAuditValue (Suc depth) (snd kv)) (\<lambda>v. Inr (fst kv, v)))
          (enumerate 0 (take MAX_OBJECT_KEYS kvs)) = Inr es"
      and w: "w = JObject (from_entries (es @ (if length kvs > MAX_OBJECT_KEYS
           then [(''__truncatedKeys'', JString ''[TRUNCATED_KEYS]'')] else [])))"
      by (auto simp: bind_res_Inr_iff)
    have ok: "\<not> isSensitiveKey (fst e) \<and> all_keys (\<lambda>k. \<not> isSensitiveKey k) (snd e)" if "e \<in> set es" for e
      using res_map_in [OF es that] 8(1) [OF False]
      by (fastforce simp: bind_res_Inr_iff redacted_name_safe split: if_splits)
    show ?thesis
      unfolding w using set_from_entries ok truncated_key_safe by (fastforce split: if_splits)
  qed (use 8(2) in auto)
qed (auto split: option.splits)

lemma sanitized_nesting:
  "sanitizeAuditValue depth v = Inr w \<Longrightarrow> nesting w \<le> MAX_DEPTH - depth"
proof (induction depth v arbitrary: w rule: sanitizeAuditValue.induct)
  case (7 depth vs)
  show ?case
  proof (cases "MAX_DEPTH \<le> depth")
    case False
    with 7(2) obtain items where items: "res_map (sanitizeAuditValue (Suc depth)) (take MAX_ARRAY_ITEMS vs) = Inr items"
      and w: "w = JArray (items @ (if length vs > MAX_ARRAY_ITEMS
           then [JString (''[TRUNCATED_'' @ nat_string (length vs - MAX_ARRAY_ITEMS) @ ''_ITEMS]'')] else []))"
      by (auto simp: bind_res_Inr_iff)
    have "nesting i \<le> MAX_DEPTH - Suc depth" if "i \<in> set items" for i
      using res_map_in [OF items that] 7(1) [OF False] by blast
    then have "foldr max (map nesting items) 0 \<le> MAX_DEPTH - Suc depth"
      by (simp add: foldr_max_le)
    moreover have "foldr max (map nesting (items @ [JString t])) 0 = foldr max (map nesting items) 0" for t
      by simp
    ultimately show ?thesis using False unfolding w nesting.simps by (auto split: if_split)
  qed (use 7(2) in auto)
next
  case (8 depth kvs)
  show ?case
  proof (cases "MAX_DEPTH \<le> depth")
    case False
    with 8(2) obtain es where
      es: "res_map (\<lambda>(index, kv).
             if isSensitiveKey (fst kv) then Inr (redacted_name index, JString REDACTED)
             else bind_res (sanitizeAuditValue (Suc depth) (snd kv)) (\<lambda>v. Inr (fst kv, v)))
          (enumerate 0 (take MAX_OBJECT_KEYS kvs)) = Inr es"
      and w: "w = JObject (from_entries (es @ (if length kvs > MAX_OBJECT_KEYS
           then [(''__truncatedKeys'', JString ''[TRUNCATED_KEYS]'')] else [])))"
      by (auto simp: bind_res_Inr_iff)
    have ok: "nesting (snd e) \<le> MAX_DEPTH - Suc depth" if "e \<in> set es" for e
      using res_map_in [OF es that] 8(1) [OF False]
      by (fastforce simp: bind_res_Inr_iff split: if_splits)
    have "nesting (snd e) \<le> MAX_DEPTH - Suc depth"
      if "e \<in> set (from_entries (es @ (if length kvs > MAX_OBJECT_KEYS
           then [(''__truncatedKeys'', JString ''[TRUNCATED_KEYS]'')] else [])))" for e
      using that set_from_entries ok by (fastforce split: if_splits)
    then have "foldr max (map (\<lambda>kv. nesting (snd kv)) (from_entries (es @ (if length kvs > MAX_OBJECT_KEYS
           then [(''__truncatedKeys'', JString ''[TRUNCATED_KEYS]'')] else [])))) 0 \<le> MAX_DEPTH - Suc depth"
      unfolding foldr_max_le by auto
    then show ?thesis using False unfolding w nesting.simps by linarith
  qed (use 8(2) in auto)
qed (auto split: option.splits)

lemma res_map_map: "res_map f (map g xs) = res_map (\<lambda>x. f (g x)) xs"
  by (induction xs) auto

lemma sanitize_forget: "sanitizeAuditValue depth (forget_sensitive v) = sanitizeAuditValue depth v"
proof (induction depth v rule: sanitizeAuditValue.induct)
  case (7 depth vs)
  have "res_map (\<lambda>x. sanitizeAuditValue (Suc depth) (forget_sensitive x)) (take MAX_ARRAY_ITEMS vs)
      = res_map (sanitizeAuditValue (Suc depth)) (take MAX_ARRAY_ITEMS vs)" if "\<not> MAX_DEPTH \<le> depth"
    by (rule res_map_cong [OF refl]) (use 7 that in auto)
  then show ?case by (simp add: take_map res_map_map)
next
  case (8 depth kvs)
  let ?g = "\<lambda>kv. (fst kv, if isSensitiveKey (fst kv) then JNull else forget_sensitive (snd kv))"
  have e: "enumerate 0 (take MAX_OBJECT_KEYS (map ?g kvs)) = map (\<lambda>(i, kv). (i, ?g kv)) (enumerate 0 (take MAX_OBJECT_KEYS kvs))"
    by (simp add: take_map enumerate_map_upt enumerate_eq_zip zip_map2 split_def)
  have "res_map (\<lambda>x. case (case x of (i, kv) \<Rightarrow> (i, ?g kv)) of (index, kv) \<Rightarrow>
             if isSensitiveKey (fst kv) then Inr (redacted_name index, JString REDACTED)
             else bind_res (sanitizeAuditValue (Suc depth) (snd kv)) (\<lambda>v. Inr (fst kv, v)))
          (enumerate 0 (take MAX_OBJECT_KEYS kvs))
     = res_map (\<lambda>(index, kv).
             if isSensitiveKey (fst kv) then Inr (redacted_name index, JString REDACTED)
             else bind_res (sanitizeAuditValue (Suc depth) (snd kv)) (\<lambda>v. Inr (fst kv, v)))
          (enumerate 0 (take MAX_OBJECT_KEYS kvs))" if "\<not> MAX_DEPTH \<le> depth"
    by (rule res_map_cong [OF refl]) (use 8 [OF that] in auto)
  then show ?case by (simp add: e res_map_map split_def)
qed auto

section \<open>Properties\<close>

text \<open>
  No JSON written to the audit log has a key that names a secret, at any depth: sensitive
  keys are renamed, and the names given to them and to the truncation marker are harmless.
\<close>

theorem audit_value_no_sensitive_key:
  assumes "sanitizeAuditValue 0 v = Inr w"
  shows "all_keys (\<lambda>k. \<not> isSensitiveKey k) w \<and> nesting w \<le> MAX_DEPTH"
  using sanitized_keys [OF assms] sanitized_nesting [OF assms] by simp

theorem audit_value_no_sensitive_key_witness:
  "sanitizeAuditValue 0 (JObject [(''apiKey'', JString ''k''), (''id'', JArray [JNum 1])])
     = Inr (JObject [(''redactedField1'', JString ''[REDACTED]''), (''id'', JArray [JNum 1])])
   \<and> all_keys (\<lambda>k. \<not> isSensitiveKey k)
       (JObject [(''redactedField1'', JString ''[REDACTED]''), (''id'', JArray [JNum 1])])"
proof -
  have e: "sanitizeAuditValue 0 (JObject [(''apiKey'', JString ''k''), (''id'', JArray [JNum 1])])
     = Inr (JObject [(''redactedField1'', JString ''[REDACTED]''), (''id'', JArray [JNum 1])])"
    by code_simp
  show ?thesis using e audit_value_no_sensitive_key [OF e] by blast
qed

text \<open>
  C22: The audit log learns nothing from the values below sensitive keys: two values that
  differ only there are written the same way.
\<close>

theorem audit_value_noninterference:
  assumes "forget_sensitive v = forget_sensitive v'"
  shows "sanitizeAuditValue depth v = sanitizeAuditValue depth v'"
  using sanitize_forget [of depth v] sanitize_forget [of depth v'] assms by simp

theorem audit_value_noninterference_witness:
  "sanitizeAuditValue 0 (JObject [(''password'', JString ''a'')])
     = sanitizeAuditValue 0 (JObject [(''password'', JNum 7)])"
proof (rule audit_value_noninterference)
  show "forget_sensitive (JObject [(''password'', JString ''a'')])
      = forget_sensitive (JObject [(''password'', JNum 7)])"
    by code_simp
qed

end
