(* ===== verification/Month_Lock.thy ===== *)
theory Month_Lock
  imports Audit_Sanitizer
begin

text \<open>
  \<open>audit.service.ts\<close> and \<open>month-lock.service.ts\<close>: appending to the audit log, and the lock
  of a settlement month that every write to a month must pass.

  The JSON columns of an audit row (the request payload, the row before and after) and the
  client's address and agent are not kept; the columns that identify the event are.
  A constraint violation or a lost connection of the audit insert is not modelled, so
  \<open>write\<close> always returns.
\<close>

section \<open>Actors and audit rows\<close>

record actor =
  ac_userId :: string
  ac_roleCode :: string
  ac_permissions :: "string list"

record audit_input =
  ai_actorUserId :: "string option"
  ai_actorRole :: "string option"
  ai_action :: string
  ai_objectType :: string
  ai_objectId :: "string option"
  ai_settlementMonth :: "int option"
  ai_changedFields :: "string list"
  ai_failureReason :: "string option"
  ai_errorMessage :: "string option"

definition REDACTED_FIELD_WORDS :: "string list" where
  "REDACTED_FIELD_WORDS =
     [''password'', ''token'', ''secret'', ''apikey'', ''api_key'', ''api-key'', ''authorization'',
      ''cookie'', ''encrypted'', ''credential'', ''hash'', ''bearer'']"

definition sanitize_changed_field :: "nat \<times> string \<Rightarrow> string" where
  "sanitize_changed_field ix =
     (let text = sanitizeAuditText (snd ix) 120
      in if list_ex (js_includes (js_lower text)) REDACTED_FIELD_WORDS
         then redacted_name (fst ix) else text)"

definition sanitize_optional :: "string option \<Rightarrow> string option" where
  "sanitize_optional v =
     (case v of None \<Rightarrow> None | Some s \<Rightarrow> Some (if s = [] then s else sanitizeAuditText s MAX_STRING_LENGTH))"

definition audit_row :: "audit_input \<Rightarrow> audit_result \<Rightarrow> audit_log" where
  "audit_row input result =
     \<lparr>al_actorUserId = ai_actorUserId input,
      al_actorRole = ai_actorRole input,
      al_action = ai_action input,
      al_objectType = ai_objectType input,
      al_objectId = ai_objectId input,
      al_settlementMonth = ai_settlementMonth input,
      al_changedFields = map sanitize_changed_field (enumerate 0 (ai_changedFields input)),
      al_result = result,
      al_failureReason = sanitize_optional (ai_failureReason input),
      al_errorMessage = sanitize_optional (ai_errorMessage input)\<rparr>"

definition audit_write :: "audit_input \<Rightarrow> audit_result \<Rightarrow> unit handler" where
  "audit_write input result =
     op_modify (\<lambda>db. db\<lparr>audit_logs := audit_logs db @ [audit_row input result]\<rparr>)"

definition audit_success :: "audit_input \<Rightarrow> unit handler" where
  "audit_success input = audit_write input AR_success"

definition audit_failure :: "audit_input \<Rightarrow> unit handler" where
  "audit_failure input = audit_write input AR_failure"

text \<open>The input the services build (\<open>auditInput\<close> of \<open>manual-entry.utils.ts\<close> and its copies).\<close>

definition auditInput :: "actor \<Rightarrow> string \<Rightarrow> string \<Rightarrow> string option \<Rightarrow> int option \<Rightarrow> string list \<Rightarrow> audit_input" where
  "auditInput actor action objectType objectId settlementMonth changedFields =
     \<lparr>ai_actorUserId = Some (ac_userId actor),
      ai_actorRole = Some (ac_roleCode actor),
      ai_action = action,
      ai_objectType = objectType,
      ai_objectId = objectId,
      ai_settlementMonth = settlementMonth,
      ai_changedFields = changedFields,
      ai_failureReason = None,
      ai_errorMessage = None\<rparr>"

section \<open>The month lock\<close>

record month_write =
  mw_settlementMonth :: int
  mw_action :: string
  mw_objectType :: string
  mw_objectId :: "string option"

definition isLocked :: "int \<Rightarrow> bool handler" where
  "isLocked settlementMonth = op_get (month_locked settlementMonth)"

definition MONTH_LOCKED_exception :: app_exception where
  "MONTH_LOCKED_exception =
     AppError MONTH_LOCKED
       ''<the settlement month is locked: no create, update or delete of data that affects salaries>''"

definition lock_failure_input :: "month_write \<Rightarrow> actor option \<Rightarrow> audit_input" where
  "lock_failure_input w actor =
     \<lparr>ai_actorUserId = map_option ac_userId actor,
      ai_actorRole = map_option ac_roleCode actor,
      ai_action = mw_action w,
      ai_objectType = mw_objectType w,
      ai_objectId = mw_objectId w,
      ai_settlementMonth = Some (mw_settlementMonth w),
      ai_changedFields = [],
      ai_failureReason = Some (error_code_name MONTH_LOCKED),
      ai_errorMessage = Some ''Settlement month is locked and cannot be modified.''\<rparr>"

definition assertWritable :: "month_write \<Rightarrow> actor option \<Rightarrow> unit handler" where
  "assertWritable w actor =
     op_bind (isLocked (mw_settlementMonth w)) (\<lambda>locked.
       if \<not> locked then op_return ()
       else op_bind (audit_failure (lock_failure_input w actor)) (\<lambda>_.
              op_throw MONTH_LOCKED_exception))"

definition settlement_upsert ::
  "int \<Rightarrow> settlement \<Rightarrow> (settlement \<Rightarrow> settlement) \<Rightarrow> settlement handler" where
  "settlement_upsert settlementMonth create update db =
     (case find_settlement settlementMonth db of
        None \<Rightarrow> (Inr create, db\<lparr>settlements := settlements db @ [create]\<rparr>)
      | Some r \<Rightarrow>
          (Inr (update r),
           db\<lparr>settlements := update_first (\<lambda>r. ms_month r = settlementMonth) update (settlements db)\<rparr>))"

definition lockMonth :: "runtime \<Rightarrow> int \<Rightarrow> actor \<Rightarrow> string \<Rightarrow> settlement handler" where
  "lockMonth rt settlementMonth actor lockReason =
     op_bind (op_get (find_settlement settlementMonth)) (\<lambda>existing.
     op_bind (op_assert (\<not> (case existing of None \<Rightarrow> False | Some r \<Rightarrow> ms_status r = SS_locked))
       (AppError SETTLEMENT_ALREADY_LOCKED ''<the settlement month is already locked>'')) (\<lambda>_.
     op_bind (settlement_upsert settlementMonth
       \<lparr>ms_id = rt_fresh_id rt 0, ms_month = settlementMonth, ms_status = SS_locked,
        ms_generatedAt = None, ms_generatedBy = None, ms_confirmedAt = None, ms_confirmedBy = None,
        ms_lockedAt = Some (rt_now rt), ms_lockedBy = Some (ac_userId actor),
        ms_lockReason = Some lockReason\<rparr>
       (\<lambda>r. r\<lparr>ms_status := SS_locked, ms_lockedAt := Some (rt_now rt),
              ms_lockedBy := Some (ac_userId actor), ms_lockReason := Some lockReason\<rparr>)) (\<lambda>settlement.
     op_bind (audit_success
       (auditInput actor ''settlement.lock'' ''monthly_settlement'' (Some (ms_id settlement))
          (Some settlementMonth) [''status'', ''lockedAt'', ''lockedBy'', ''lockReason''])) (\<lambda>_.
     op_return settlement))))"

definition unlockMonth :: "settlement handler" where
  "unlockMonth = op_throw (AppError PERMISSION_DENIED ''<unlocking is not open in the first version>'')"

section \<open>Facts\<close>

lemma audit_success_eq [simp]:
  "audit_success i db = (Inr (), db\<lparr>audit_logs := audit_logs db @ [audit_row i AR_success]\<rparr>)"
  by (simp add: audit_success_def audit_write_def)

lemma audit_failure_eq [simp]:
  "audit_failure i db = (Inr (), db\<lparr>audit_logs := audit_logs db @ [audit_row i AR_failure]\<rparr>)"
  by (simp add: audit_failure_def audit_write_def)

lemma op_bind_audit_success [simp]:
  "op_bind (audit_success i) f db = f () (db\<lparr>audit_logs := audit_logs db @ [audit_row i AR_success]\<rparr>)"
  by (simp add: op_bind_def)

lemma op_bind_audit_failure [simp]:
  "op_bind (audit_failure i) f db = f () (db\<lparr>audit_logs := audit_logs db @ [audit_row i AR_failure]\<rparr>)"
  by (simp add: op_bind_def)

lemma month_scope_audit [simp]: "month_scope m (db\<lparr>audit_logs := x\<rparr>) = month_scope m db"
  by (simp add: month_scope_def)

lemma find_settlement_audit [simp]: "find_settlement m (db\<lparr>audit_logs := x\<rparr>) = find_settlement m db"
  by (simp add: find_settlement_def)

lemma month_locked_audit [simp]: "month_locked m (db\<lparr>audit_logs := x\<rparr>) = month_locked m db"
  by (simp add: month_locked_def)

lemma assertWritable_eq:
  "assertWritable w actor db =
     (if month_locked (mw_settlementMonth w) db
      then (Inl MONTH_LOCKED_exception,
            db\<lparr>audit_logs := audit_logs db @ [audit_row (lock_failure_input w actor) AR_failure]\<rparr>)
      else (Inr (), db))"
  by (simp add: assertWritable_def isLocked_def)

section \<open>The lock as an interface\<close>

text \<open>
  What a service relies on when it calls the lock before a write: a locked month stops it
  with \<open>MONTH_LOCKED\<close>, an unlocked one lets it through unchanged, and the refusal only
  touches what is outside the month. \<open>freezes m op\<close> is the contract that follows for the
  service: on a database where \<open>m\<close> is locked, \<open>op\<close> leaves the scope of \<open>m\<close> alone.
\<close>

locale write_guard =
  fixes guard :: "month_write \<Rightarrow> actor option \<Rightarrow> unit handler"
    and locked :: "int \<Rightarrow> database \<Rightarrow> bool"
    and scope :: "int \<Rightarrow> database \<Rightarrow> 'v"
  assumes guard_open: "\<not> locked (mw_settlementMonth w) db \<Longrightarrow> guard w actor db = (Inr (), db)"
    and guard_closed: "locked (mw_settlementMonth w) db \<Longrightarrow> fst (guard w actor db) = Inl MONTH_LOCKED_exception"
    and guard_scope: "scope m (snd (guard w actor db)) = scope m db"
    and locked_scope: "scope m db = scope m db' \<Longrightarrow> locked m db = locked m db'"
begin

lemma bind_guard:
  "op_bind (guard w actor) f db =
     (if locked (mw_settlementMonth w) db
      then (Inl MONTH_LOCKED_exception, snd (guard w actor db)) else f () db)"
  using guard_open [of w db actor] guard_closed [of w db actor]
  by (cases "guard w actor db") (auto simp: op_bind_def split: sum.splits)

text \<open>A write behind the guard of its own month cannot touch a locked month.\<close>

lemma guarded_scope:
  assumes "locked m db"
    and "mw_settlementMonth w \<noteq> m \<Longrightarrow> \<not> locked (mw_settlementMonth w) db \<Longrightarrow>
           scope m (snd (f () db)) = scope m db"
  shows "scope m (snd (op_bind (guard w actor) f db)) = scope m db"
  using assms by (auto simp: bind_guard guard_scope)

text \<open>The lock itself survives whatever leaves the scope alone.\<close>

lemma lock_survives: "locked m db \<Longrightarrow> scope m db' = scope m db \<Longrightarrow> locked m db'"
  using locked_scope by blast

end

interpretation month_lock: write_guard assertWritable month_locked month_scope
  by unfold_locales (auto simp: assertWritable_eq dest: month_locked_scope)

text \<open>Two guarded months, as every update that may move a row makes them.\<close>

lemmas guarded_bind = month_lock.bind_guard
lemmas guarded_scope = month_lock.guarded_scope

definition freezes :: "int \<Rightarrow> 'a handler \<Rightarrow> bool" where
  "freezes m h \<longleftrightarrow> (\<forall>db. month_locked m db \<longrightarrow> month_scope m (snd (h db)) = month_scope m db)"

lemma freezesI:
  "(\<And>db. month_locked m db \<Longrightarrow> month_scope m (snd (h db)) = month_scope m db) \<Longrightarrow> freezes m h"
  by (simp add: freezes_def)

lemma freezesD: "freezes m h \<Longrightarrow> month_locked m db \<Longrightarrow> month_scope m (snd (h db)) = month_scope m db"
  by (simp add: freezes_def)

lemma freezes_keeps_lock: "freezes m h \<Longrightarrow> month_locked m db \<Longrightarrow> month_locked m (snd (h db))"
  using freezesD month_lock.lock_survives by blast

lemma freezes_transaction: "freezes m h \<Longrightarrow> freezes m (op_transaction h)"
  by (auto simp: freezes_def op_transaction_def split: prod.splits sum.splits)

lemma freezes_bind:
  assumes "freezes m h" and "\<And>x. freezes m (f x)"
  shows "freezes m (op_bind h f)"
proof (rule freezesI)
  fix db assume l: "month_locked m db"
  have s: "month_scope m (snd (h db)) = month_scope m db" using assms(1) l by (rule freezesD)
  have l': "month_locked m (snd (h db))" using assms(1) l by (rule freezes_keeps_lock)
  show "month_scope m (snd (op_bind h f db)) = month_scope m db"
    using freezesD [OF assms(2) l'] s
    by (cases "h db"; cases "fst (h db)") (auto simp: op_bind_def)
qed

lemma freezes_catch:
  assumes "freezes m h" and "\<And>e. freezes m (k e)"
  shows "freezes m (op_catch h k)"
proof (rule freezesI)
  fix db assume l: "month_locked m db"
  have s: "month_scope m (snd (h db)) = month_scope m db" using assms(1) l by (rule freezesD)
  have l': "month_locked m (snd (h db))" using assms(1) l by (rule freezes_keeps_lock)
  show "month_scope m (snd (op_catch h k db)) = month_scope m db"
    using freezesD [OF assms(2) l'] s
    by (cases "h db"; cases "fst (h db)") (auto simp: op_catch_def)
qed

lemma freezes_pure [simp]:
  "freezes m (op_return x)" "freezes m (op_throw e)" "freezes m (op_lift r)" "freezes m (op_get g)"
  "freezes m (op_assert b e)" "freezes m (audit_success i)" "freezes m (audit_failure i)"
  by (simp_all add: freezes_def op_assert_def)

lemma freezes_guard [simp]: "freezes m (assertWritable w actor)"
  by (simp add: freezes_def month_lock.guard_scope)

end
