(* ===== verification/Base_Data.thy ===== *)
theory Base_Data
  imports Month_Lock
begin

text \<open>
  \<open>base-data/base-data.utils.ts\<close> and \<open>base-data/manual-entry.utils.ts\<close>: the parsers every
  service applies to the fields of a request, the comparison that fills \<open>changedFields\<close> of
  an audit row, and the way the database client rejects values outside an enumeration.
\<close>

section \<open>Strings\<close>

definition requireNonBlank :: "jsval \<Rightarrow> string \<Rightarrow> string outcome" where
  "requireNonBlank value field =
     (case js_string_opt value of
        None \<Rightarrow> Inl (AppError VALIDATION_ERROR (field @ '' is required.''))
      | Some s \<Rightarrow>
          if js_trim s = [] then Inl (AppError VALIDATION_ERROR (field @ '' is required.''))
          else Inr (js_trim s))"

text \<open>\<open>value === undefined || value === null || value === ''\<close>\<close>

definition is_absent :: "jsval \<Rightarrow> bool" where
  "is_absent value = (case value of JUndefined \<Rightarrow> True | JNull \<Rightarrow> True | JString s \<Rightarrow> s = [] | _ \<Rightarrow> False)"

definition is_undefined :: "jsval \<Rightarrow> bool" where
  "is_undefined value = (case value of JUndefined \<Rightarrow> True | _ \<Rightarrow> False)"

text \<open>\<open>value ?? fallback\<close> falls back on null and undefined.\<close>

definition is_nullish :: "jsval \<Rightarrow> bool" where
  "is_nullish value = (case value of JUndefined \<Rightarrow> True | JNull \<Rightarrow> True | _ \<Rightarrow> False)"

definition optionalNonBlank :: "jsval \<Rightarrow> string \<Rightarrow> string option outcome" where
  "optionalNonBlank value field =
     (if is_absent value then Inr None
      else bind_res (requireNonBlank value field) (\<lambda>s. Inr (Some s)))"

section \<open>Dates\<close>

text \<open>
  \<open>Date.parse\<close> of \<open>YYYY-MM-DDT00:00:00.000Z\<close> is the midnight of that day when the day
  exists. Every other text (other formats, which ECMAScript leaves to the engine, and days
  such as February 30, on which engines differ) goes to the engine's parser.
\<close>

definition match_iso_day :: "string \<Rightarrow> (int \<times> int \<times> int) option" where
  "match_iso_day s =
     (if length s = 10 \<and> list_all is_digit (take 4 s) \<and> s ! 4 = CHR ''-''
         \<and> list_all is_digit (take 2 (drop 5 s)) \<and> s ! 7 = CHR ''-'' \<and> list_all is_digit (drop 8 s)
      then Some (int (digits_to_nat (take 4 s)), int (digits_to_nat (take 2 (drop 5 s))),
                 int (digits_to_nat (drop 8 s)))
      else None)"

definition MIDNIGHT_SUFFIX :: string where
  "MIDNIGHT_SUFFIX = ''T00:00:00.000Z''"

definition iso_midnight :: "string \<Rightarrow> int option" where
  "iso_midnight s =
     (if drop 10 s = MIDNIGHT_SUFFIX
      then (case match_iso_day (take 10 s) of
              None \<Rightarrow> None
            | Some (y, mo, d) \<Rightarrow>
                if 1 \<le> mo \<and> mo \<le> 12 \<and> 1 \<le> d \<and> make_day y (mo - 1) d < make_day y mo 1
                then Some (make_day y (mo - 1) d * ms_per_day) else None)
      else None)"

definition js_parse_date :: "runtime \<Rightarrow> string \<Rightarrow> js_date" where
  "js_parse_date rt s = (case iso_midnight s of Some t \<Rightarrow> Some t | None \<Rightarrow> rt_parse_date rt s)"

definition parseDate :: "runtime \<Rightarrow> jsval \<Rightarrow> string \<Rightarrow> int outcome" where
  "parseDate rt value field =
     (case value of
        JDate d \<Rightarrow>
          (case d of None \<Rightarrow> Inl (AppError VALIDATION_ERROR (field @ '' must be a valid date.'')) | Some t \<Rightarrow> Inr t)
      | JString s \<Rightarrow>
          (if js_trim s = [] then Inl (AppError VALIDATION_ERROR (field @ '' must be a date string.''))
           else let normalized = (if match_iso_day (js_trim s) \<noteq> None then js_trim s @ MIDNIGHT_SUFFIX else js_trim s)
                in case js_parse_date rt normalized of
                     None \<Rightarrow> Inl (AppError VALIDATION_ERROR (field @ '' must be a valid date.''))
                   | Some t \<Rightarrow> Inr t)
      | _ \<Rightarrow> Inl (AppError VALIDATION_ERROR (field @ '' must be a date string.'')))"

definition parseOptionalDate :: "runtime \<Rightarrow> jsval \<Rightarrow> string \<Rightarrow> int option outcome" where
  "parseOptionalDate rt value field =
     (if is_absent value then Inr None else bind_res (parseDate rt value field) (\<lambda>t. Inr (Some t)))"

definition parseMonthStart :: "runtime \<Rightarrow> jsval \<Rightarrow> string \<Rightarrow> int outcome" where
  "parseMonthStart rt value field =
     bind_res (parseDate rt value field) (\<lambda>date.
       if getUTCDate date \<noteq> 1 \<or> getUTCHours date \<noteq> 0 \<or> getUTCMinutes date \<noteq> 0
          \<or> getUTCSeconds date \<noteq> 0 \<or> getUTCMilliseconds date \<noteq> 0
       then Inl (AppError VALIDATION_ERROR (field @ '' must be the first day of the month.''))
       else Inr date)"

definition formatMonth :: "int \<Rightarrow> string" where
  "formatMonth date = take 10 (iso_string date)"

section \<open>Decimals and enumerations\<close>

definition parseDecimalString :: "runtime \<Rightarrow> jsval \<Rightarrow> string \<Rightarrow> bool \<Rightarrow> rat outcome" where
  "parseDecimalString rt value field gtZero =
     (case js_string_opt value of
        None \<Rightarrow> Inl (AppError VALIDATION_ERROR (field @ '' must be a decimal string.''))
      | Some s \<Rightarrow>
          (if js_trim s = [] then Inl (AppError VALIDATION_ERROR (field @ '' must be a decimal string.''))
           else case rt_parse_decimal rt (js_trim s) of
                  None \<Rightarrow> Inl (AppError VALIDATION_ERROR (field @ '' must be a valid decimal string.''))
                | Some DecNotFinite \<Rightarrow>
                    Inl (AppError VALIDATION_ERROR
                      (field @ '' must be '' @ (if gtZero then ''greater than 0'' else ''greater than or equal to 0'') @ ''.''))
                | Some (DecFinite _ decimal) \<Rightarrow>
                    (if (if gtZero then decimal \<le> 0 else decimal < 0)
                     then Inl (AppError VALIDATION_ERROR
                       (field @ '' must be '' @ (if gtZero then ''greater than 0'' else ''greater than or equal to 0'') @ ''.''))
                     else Inr decimal)))"

definition assertStatus :: "jsval \<Rightarrow> string list \<Rightarrow> string \<Rightarrow> string outcome" where
  "assertStatus value allowed field =
     (case js_string_opt value of
        None \<Rightarrow> Inl (AppError VALIDATION_ERROR (field @ '' must be one of: '' @ js_join '', '' allowed @ ''.''))
      | Some s \<Rightarrow>
          if s \<in> set allowed then Inr s
          else Inl (AppError VALIDATION_ERROR (field @ '' must be one of: '' @ js_join '', '' allowed @ ''.'')))"

definition assertOptionalStatus :: "jsval \<Rightarrow> string list \<Rightarrow> string \<Rightarrow> string option outcome" where
  "assertOptionalStatus value allowed field =
     (if is_undefined value then Inr None
      else bind_res (assertStatus value allowed field) (\<lambda>s. Inr (Some s)))"

definition assertDecimalEquals :: "runtime \<Rightarrow> rat \<Rightarrow> rat \<Rightarrow> string \<Rightarrow> unit outcome" where
  "assertDecimalEquals rt actual expected field =
     (if actual \<noteq> expected
      then Inl (AppError VALIDATION_ERROR (field @ '' must equal '' @ rt_show_decimal rt expected @ ''.''))
      else Inr ())"

text \<open>
  The client library checks the value of an enumeration column before it talks to the
  database and throws its validation error (an error the services do not translate).
\<close>

definition prisma_validation_error :: app_exception where
  "prisma_validation_error = JsError ''PrismaClientValidationError''"

definition all_common_status :: "common_status list" where
  "all_common_status = [CS_draft, CS_confirmed, CS_locked, CS_active, CS_disabled]"

definition common_status_of :: "string \<Rightarrow> common_status option" where
  "common_status_of s = find (\<lambda>c. common_status_name c = s) all_common_status"

fun provider_name :: "provider \<Rightarrow> string" where
  "provider_name airwallex = ''airwallex''"
| "provider_name photonpay = ''photonpay''"

definition provider_of :: "string \<Rightarrow> provider option" where
  "provider_of s = find (\<lambda>p. provider_name p = s) [airwallex, photonpay]"

text \<open>A status handed to the client: the member of that name, or the validation error.\<close>

definition prisma_status :: "jsval \<Rightarrow> common_status outcome" where
  "prisma_status value =
     (case js_string_opt value of
        None \<Rightarrow> Inl prisma_validation_error
      | Some s \<Rightarrow> (case common_status_of s of None \<Rightarrow> Inl prisma_validation_error | Some c \<Rightarrow> Inr c))"

section \<open>Audit diffs\<close>

text \<open>
  \<open>fields.filter((f) => JSON.stringify(before[f]) !== JSON.stringify(after[f]))\<close>: a column
  value and its JSON text determine each other, so the columns themselves are compared.
\<close>

definition changedFields :: "('r \<Rightarrow> string \<Rightarrow> jsval) \<Rightarrow> 'r \<Rightarrow> 'r \<Rightarrow> string list \<Rightarrow> string list" where
  "changedFields column before after fs = filter (\<lambda>f. column before f \<noteq> column after f) fs"

section \<open>Queries and partial updates\<close>

text \<open>A status filter of a query: absent, or checked by the client.\<close>

definition status_filter :: "jsval \<Rightarrow> (common_status \<Rightarrow> bool) outcome" where
  "status_filter v = (if is_undefined v then Inr (\<lambda>_. True) else bind_res (prisma_status v) (\<lambda>st. Inr (\<lambda>s. s = st)))"

text \<open>A month filter: \<open>query.settlementMonth ? parseMonthStart(...) : undefined\<close>.\<close>

definition month_filter :: "runtime \<Rightarrow> jsval \<Rightarrow> string \<Rightarrow> (int \<Rightarrow> bool) outcome" where
  "month_filter rt v field =
     (if is_absent v then Inr (\<lambda>_. True) else bind_res (parseMonthStart rt v field) (\<lambda>m. Inr (\<lambda>x. x = m)))"

text \<open>The status an update carries: none, or one the client accepts.\<close>

definition optional_status :: "jsval \<Rightarrow> common_status option outcome" where
  "optional_status v = (if is_undefined v then Inr None else bind_res (prisma_status v) (\<lambda>s. Inr (Some s)))"

definition or_keep :: "'a option \<Rightarrow> 'a \<Rightarrow> 'a" where
  "or_keep new old = (case new of None \<Rightarrow> old | Some x \<Rightarrow> x)"

text \<open>\<open>if (data.settlementMonth) await this.monthLock.assertWritable(...)\<close>\<close>

definition assertWritableIf :: "int option \<Rightarrow> (int \<Rightarrow> month_write) \<Rightarrow> actor \<Rightarrow> unit handler" where
  "assertWritableIf m w actor =
     (case m of None \<Rightarrow> op_return () | Some m' \<Rightarrow> assertWritable (w m') (Some actor))"

section \<open>Facts\<close>

lemma requireNonBlank_Inr:
  "requireNonBlank v f = Inr s \<longleftrightarrow> (\<exists>t. v = JString t \<and> s = js_trim t \<and> s \<noteq> [])"
  by (auto simp: requireNonBlank_def split: option.splits)

lemma common_status_of_name [simp]: "common_status_of (common_status_name c) = Some c"
  by (cases c) (simp_all add: common_status_of_def all_common_status_def)

lemma common_status_of_Some: "common_status_of s = Some c \<Longrightarrow> s = common_status_name c"
  by (auto simp: common_status_of_def all_common_status_def split: if_splits)

lemma parseDecimalString_Inr:
  assumes "parseDecimalString rt v f gt = Inr x"
  shows "0 \<le> x" and "gt \<Longrightarrow> 0 < x"
  using assms
  by (auto simp: parseDecimalString_def split: option.splits if_splits parsed_decimal.splits)

lemma parseMonthStart_month_start:
  assumes "parseMonthStart rt v f = Inr m"
  shows "is_month_start m"
  using assms by (auto simp: parseMonthStart_def bind_res_Inr_iff is_month_start_def split: if_splits)

lemma parseMonthStart_error:
  assumes "parseMonthStart rt v f = Inl e"
  shows "\<exists>msg. e = AppError VALIDATION_ERROR msg"
  using assms
  by (auto simp: parseMonthStart_def parseDate_def bind_res_Inl_iff Let_def
      split: if_splits jsval.splits option.splits)

lemma assertStatus_Inr: "assertStatus v allowed f = Inr s \<Longrightarrow> v = JString s \<and> s \<in> set allowed"
  by (auto simp: assertStatus_def split: option.splits if_splits)

text \<open>A guarded continuation only matters on months other than a locked one.\<close>

lemma freezes_guarded:
  assumes "mw_settlementMonth w \<noteq> m \<Longrightarrow> freezes m (f ())"
  shows "freezes m (op_bind (assertWritable w actor) f)"
proof (rule freezesI, rule guarded_scope)
  fix db assume l: "month_locked m db"
  then show "month_locked m db" .
  assume "mw_settlementMonth w \<noteq> m"
  then show "month_scope m (snd (f () db)) = month_scope m db" using assms l by (blast dest: freezesD)
qed

text \<open>Reading first: the continuation is judged on the state the read saw.\<close>

lemma freezes_reading:
  assumes "\<And>db. month_locked m db \<Longrightarrow> month_scope m (snd (f (g db) db)) = month_scope m db"
  shows "freezes m (op_bind (op_get g) f)"
  using assms by (simp add: freezes_def)

lemma freezes_bind_pure:
  assumes "\<And>x. r = Inr x \<Longrightarrow> freezes m (f x)"
  shows "freezes m (op_bind (op_lift r) f)"
  using assms by (cases r) (simp_all add: freezes_def)

lemma freezes_if: "freezes m a \<Longrightarrow> freezes m b \<Longrightarrow> freezes m (if c then a else b)"
  by simp

lemma freezes_iter: "(\<And>x. x \<in> set xs \<Longrightarrow> freezes m (f x)) \<Longrightarrow> freezes m (op_iter f xs)"
  by (induction xs) (auto intro: freezes_bind)

lemmas freezes_intros =
  freezes_guarded freezes_transaction freezes_catch freezes_if freezes_iter

lemma op_catch_simps [simp]:
  "op_catch (op_return x) h s = (Inr x, s)"
  "op_catch (op_throw e) h s = h e s"
  by (simp_all add: op_catch_def)

text \<open>
  The same contract at one state, for handlers whose later steps depend on what they read:
  \<open>freezes_at m db h\<close> is about running \<open>h\<close> on \<open>db\<close> only.
\<close>

definition freezes_at :: "int \<Rightarrow> database \<Rightarrow> 'a handler \<Rightarrow> bool" where
  "freezes_at m db h \<longleftrightarrow> (month_locked m db \<longrightarrow> month_scope m (snd (h db)) = month_scope m db)"

lemma freezes_eachI: "(\<And>db. freezes_at m db h) \<Longrightarrow> freezes m h"
  by (simp add: freezes_def freezes_at_def)

lemma freezes_at_freezes: "freezes m h \<Longrightarrow> freezes_at m db h"
  by (simp add: freezes_def freezes_at_def)

lemma freezes_at_get: "freezes_at m db (f (g db)) \<Longrightarrow> freezes_at m db (op_bind (op_get g) f)"
  by (simp add: freezes_at_def)

lemma freezes_at_lift: "(\<And>x. r = Inr x \<Longrightarrow> freezes_at m db (f x)) \<Longrightarrow> freezes_at m db (op_bind (op_lift r) f)"
  by (cases r) (simp_all add: freezes_at_def)

lemma freezes_at_assert: "(b \<Longrightarrow> freezes_at m db (f ())) \<Longrightarrow> freezes_at m db (op_bind (op_assert b e) f)"
  by (cases b) (simp_all add: freezes_at_def op_bind_def)

lemma freezes_at_pure [simp]:
  "freezes_at m db (op_return x)" "freezes_at m db (op_throw e)" "freezes_at m db (op_lift r)"
  "freezes_at m db (op_get g)"
  by (simp_all add: freezes_at_def)

lemma freezes_at_guard:
  "(mw_settlementMonth w \<noteq> m \<Longrightarrow> freezes_at m db (f ())) \<Longrightarrow> freezes_at m db (op_bind (assertWritable w actor) f)"
  unfolding freezes_at_def by (auto simp: guarded_bind month_lock.guard_scope)

lemma freezes_at_guard_if:
  "((\<And>x. k = Some x \<Longrightarrow> mw_settlementMonth (w x) \<noteq> m) \<Longrightarrow> freezes_at m db (f ())) \<Longrightarrow>
   freezes_at m db (op_bind (assertWritableIf k w actor) f)"
  by (cases k) (auto simp: assertWritableIf_def freezes_at_def guarded_bind month_lock.guard_scope)

lemma freezes_at_bind:
  assumes "freezes_at m db h" and "\<And>x. freezes m (f x)"
  shows "freezes_at m db (op_bind h f)"
  using assms month_lock.lock_survives [of m db "snd (h db)"]
  by (auto simp: freezes_at_def freezes_def op_bind_def split: prod.split sum.split)

lemma freezes_at_catch:
  assumes "freezes_at m db h" and "\<And>e. freezes m (k e)"
  shows "freezes_at m db (op_catch h k)"
  using assms month_lock.lock_survives [of m db "snd (h db)"]
  by (auto simp: freezes_at_def freezes_def op_catch_def split: prod.split sum.split)

lemma freezes_at_transaction: "freezes_at m db h \<Longrightarrow> freezes_at m db (op_transaction h)"
  by (auto simp: freezes_at_def op_transaction_def split: prod.split sum.split)

lemma freezes_at_if: "(c \<Longrightarrow> freezes_at m db a) \<Longrightarrow> (\<not> c \<Longrightarrow> freezes_at m db b) \<Longrightarrow> freezes_at m db (if c then a else b)"
  by simp

lemma freezes_audit [simp]:
  "(\<And>x. freezes m (f x)) \<Longrightarrow> freezes m (op_bind (audit_success i) f)"
  by (rule freezes_bind) simp_all

lemmas freezes_at_steps =
  freezes_at_get freezes_at_lift freezes_at_assert freezes_at_guard freezes_at_guard_if
  freezes_at_catch freezes_at_transaction freezes_at_bind freezes_at_if

section \<open>Keys\<close>

text \<open>An update by identifier keeps a second key distinct when the new key is free.\<close>

lemma distinct_update_key:
  assumes "distinct (map ident rows)" "distinct (map key rows)"
    and "find_row (\<lambda>r. ident r = i) rows = Some r" and "ident (f r) = ident r"
    and "\<not> list_ex (\<lambda>r'. ident r' \<noteq> i \<and> key r' = key (f r)) rows"
  shows "distinct (map key (update_first (\<lambda>r. ident r = i) f rows))
    \<and> distinct (map ident (update_first (\<lambda>r. ident r = i) f rows))"
  using assms
proof (induction rows)
  case (Cons a rows)
  show ?case
  proof (cases "ident a = i")
    case True
    then have ar: "a = r" using Cons.prems(3) by simp
    have "ident a \<notin> ident ` set rows" using Cons.prems(1) by simp
    then have other: "\<And>x. x \<in> set rows \<Longrightarrow> ident x \<noteq> i" using True by (metis imageI)
    then have "key (f r) \<notin> key ` set rows" using Cons.prems(5) by (auto simp: list_ex_iff)
    then show ?thesis using Cons.prems(1,2,4) True ar by simp
  next
    case False
    then have f: "find_row (\<lambda>r. ident r = i) rows = Some r" using Cons.prems(3) by simp
    then have r: "r \<in> set rows" "ident r = i" using find_row_Some by fastforce+
    have "key a \<noteq> key (f r)" using Cons.prems(5) False by simp
    then have k: "key a \<notin> key ` set (update_first (\<lambda>r. ident r = i) f rows)"
      and d: "ident a \<notin> ident ` set (update_first (\<lambda>r. ident r = i) f rows)"
      using set_update_first_subset [of "\<lambda>r. ident r = i" f rows] Cons.prems(1,2,4) r False
        distinct_map [of ident rows] by (force dest: inj_onD)+
    then show ?thesis using Cons.IH f Cons.prems False by auto
  qed
qed simp

end
