(* ===== verification/Settlement_Calculator.thy ===== *)
theory Settlement_Calculator
  imports Base_Data "HOL-Library.List_Lexorder" "HOL-Library.Char_ord"
begin

text \<open>
  \<open>settlement/settlement-calculator.service.ts\<close>: the salary of every employee from the
  confirmed rows of a month. Every amount is a decimal of the library, so each \<open>plus\<close>,
  \<open>minus\<close> and \<open>times\<close> rounds with \<open>rt_round\<close>. The inputs are the \<open>Decimal\<close> case of
  \<open>DecimalInput\<close>: the generation service, the only caller, passes columns of the database.
  Maps iterate in insertion order and are association lists; \<open>sort()\<close> compares strings by
  code units.
\<close>

section \<open>Inputs and results\<close>

record income_input =
  in_employeeId :: "string option"
  in_incomeUsd :: rat
  in_status :: common_status

record api_spend_input =
  as_employeeId :: "string option"
  as_provider :: provider
  as_spendUsd :: rat
  as_status :: common_status

record manual_spend_input =
  mi_employeeId :: string
  mi_actualSpendUsd :: rat
  mi_status :: settlement_status

record fee_rate_input =
  fi_provider :: provider
  fi_feeRate :: rat

record member_input =
  mb_groupId :: string
  mb_employeeId :: string
  mb_allocationRatio :: rat

record historical_input =
  hi_employeeId :: string
  hi_amountUsd :: rat
  hi_status :: common_status

record salary_item_input =
  st_employeeId :: string
  st_amountRmb :: rat
  st_status :: common_status
  st_itemType :: salary_item_type

record calculation_input =
  ci_settlementMonth :: int
  ci_exchangeRate :: rat
  ci_employeeIds :: "string list"
  ci_incomeRecords :: "income_input list"
  ci_apiCardSpendEvents :: "api_spend_input list"
  ci_cardProviderFeeRates :: "fee_rate_input list"
  ci_manualCardSpendEntries :: "manual_spend_input list"
  ci_groupMembers :: "member_input list"
  ci_historicalNegativeProfits :: "historical_input list"
  ci_salaryManualItems :: "salary_item_input list"
  ci_attendanceByEmployeeId :: "(string \<times> string) list"

record salary_tier =
  tr_baseSalaryRmb :: rat
  tr_starAllowanceRmb :: rat
  tr_commissionRate :: rat

record negative_carryover =
  nc_commissionProfitUsd :: rat
  nc_remainingNegativeProfitUsd :: rat

record employee_profit =
  ep_totalRevenueUsd :: rat
  ep_apiCardSpendUsd :: rat
  ep_apiCardFeeUsd :: rat
  ep_manualCardSpendUsd :: rat
  ep_finalCardSpendUsd :: rat
  ep_originalProfitUsd :: rat

record manual_amounts =
  ma_additionRmb :: rat
  ma_deductionRmb :: rat

record calculation_result =
  cr_employeeId :: string
  cr_settlementMonth :: int
  cr_salaryMode :: salary_mode
  cr_profit :: employee_profit
  cr_groupId :: "string option"
  cr_allocationRatio :: "rat option"
  cr_allocatedProfitUsd :: rat
  cr_historicalNegativeProfitUsd :: rat
  cr_commissionProfitUsd :: rat
  cr_remainingNegativeProfitUsd :: rat
  cr_baseSalaryRmb :: rat
  cr_starAllowanceRmb :: rat
  cr_commissionRate :: rat
  cr_commissionUsd :: rat
  cr_exchangeRate :: rat
  cr_commissionRmb :: rat
  cr_attendanceStatus :: string
  cr_attendanceBonusRmb :: rat
  cr_manualAdditionRmb :: rat
  cr_manualDeductionRmb :: rat
  cr_finalSalaryRmb :: rat

section \<open>Tiers, carryover, final salary\<close>

definition FULL_ATTENDANCE_BONUS_RMB :: rat where
  "FULL_ATTENDANCE_BONUS_RMB = 500"

definition assertPrecheck :: "bool \<Rightarrow> string \<Rightarrow> unit outcome" where
  "assertPrecheck cond message =
     (if \<not> cond then Inl (AppError SETTLEMENT_PRECHECK_FAILED message) else Inr ())"

definition calculateSalaryTier :: "rat \<Rightarrow> salary_mode \<Rightarrow> salary_tier" where
  "calculateSalaryTier profit salaryMode =
     (if profit < 3000 then
        \<lparr>tr_baseSalaryRmb = 2500, tr_starAllowanceRmb = 0, tr_commissionRate = 0\<rparr>
      else if profit < 5000 then
        \<lparr>tr_baseSalaryRmb = 3000,
         tr_starAllowanceRmb = (if salaryMode = SM_single then 300 else 0),
         tr_commissionRate = (if salaryMode = SM_single then 4 / 100 else 0)\<rparr>
      else if profit < 15000 then
        \<lparr>tr_baseSalaryRmb = 3000, tr_starAllowanceRmb = 500, tr_commissionRate = 6 / 100\<rparr>
      else if profit < 30000 then
        \<lparr>tr_baseSalaryRmb = 3000, tr_starAllowanceRmb = 1000, tr_commissionRate = 8 / 100\<rparr>
      else if profit < 50000 then
        \<lparr>tr_baseSalaryRmb = 3000, tr_starAllowanceRmb = 2000, tr_commissionRate = 10 / 100\<rparr>
      else if profit < 100000 then
        \<lparr>tr_baseSalaryRmb = 3000, tr_starAllowanceRmb = 3000, tr_commissionRate = 14 / 100\<rparr>
      else
        \<lparr>tr_baseSalaryRmb = 3000, tr_starAllowanceRmb = 4000, tr_commissionRate = 18 / 100\<rparr>)"

definition applyNegativeCarryover :: "(rat \<Rightarrow> rat) \<Rightarrow> rat \<Rightarrow> rat \<Rightarrow> negative_carryover" where
  "applyNegativeCarryover rnd allocatedProfitUsd historicalNegativeProfitUsd =
     (let profitAfterCarryover = dec_minus rnd allocatedProfitUsd historicalNegativeProfitUsd
      in if 0 \<le> profitAfterCarryover
         then \<lparr>nc_commissionProfitUsd = profitAfterCarryover, nc_remainingNegativeProfitUsd = 0\<rparr>
         else \<lparr>nc_commissionProfitUsd = 0, nc_remainingNegativeProfitUsd = \<bar>profitAfterCarryover\<bar>\<rparr>)"

definition calculateAttendanceBonus :: "string \<Rightarrow> rat" where
  "calculateAttendanceBonus attendanceStatus =
     (if attendanceStatus = ''full_attendance'' then FULL_ATTENDANCE_BONUS_RMB else 0)"

definition calculateFinalSalary ::
  "(rat \<Rightarrow> rat) \<Rightarrow> salary_tier \<Rightarrow> rat \<Rightarrow> rat \<Rightarrow> rat \<Rightarrow> rat \<Rightarrow> rat" where
  "calculateFinalSalary rnd tier attendanceBonusRmb commissionRmb manualAdditionRmb manualDeductionRmb =
     dec_minus rnd
       (dec_plus rnd
         (dec_plus rnd
           (dec_plus rnd
             (dec_plus rnd (tr_baseSalaryRmb tier) (tr_starAllowanceRmb tier))
             attendanceBonusRmb)
           commissionRmb)
         manualAdditionRmb)
       manualDeductionRmb"

section \<open>Prechecks\<close>

text \<open>\<open>!record.employeeId\<close> holds for null and for the empty string.\<close>

definition has_employee :: "string option \<Rightarrow> bool" where
  "has_employee employeeId = (case employeeId of None \<Rightarrow> False | Some s \<Rightarrow> s \<noteq> [])"

definition addToMap :: "(rat \<Rightarrow> rat) \<Rightarrow> ('k \<times> rat) list \<Rightarrow> 'k \<Rightarrow> rat \<Rightarrow> ('k \<times> rat) list" where
  "addToMap rnd m key value =
     map_set m key (dec_plus rnd (case map_of m key of None \<Rightarrow> 0 | Some v \<Rightarrow> v) value)"

fun precheck_members :: "string list \<Rightarrow> member_input list \<Rightarrow> unit outcome" where
  "precheck_members membersByEmployee [] = Inr ()"
| "precheck_members membersByEmployee (member # rest) =
     bind_res (assertPrecheck (mb_employeeId member \<notin> set membersByEmployee)
       ''Employee can only belong to one group per month.'') (\<lambda>_.
     precheck_members (set_add membersByEmployee (mb_employeeId member)) rest)"

fun precheck_ratios :: "(string \<times> rat) list \<Rightarrow> unit outcome" where
  "precheck_ratios [] = Inr ()"
| "precheck_ratios ((groupId, ratioSum) # rest) =
     bind_res (assertPrecheck (ratioSum = 1)
       ''Performance group allocation ratio sum must equal 1.'') (\<lambda>_.
     precheck_ratios rest)"

definition ratios_by_group :: "(rat \<Rightarrow> rat) \<Rightarrow> member_input list \<Rightarrow> (string \<times> rat) list" where
  "ratios_by_group rnd members =
     foldl (\<lambda>m member. addToMap rnd m (mb_groupId member) (mb_allocationRatio member)) [] members"

definition missing_fee_providers :: "api_spend_input list \<Rightarrow> fee_rate_input list \<Rightarrow> provider list" where
  "missing_fee_providers events rates =
     filter (\<lambda>p. p \<notin> set (js_dedup (map fi_provider rates)))
       (js_dedup (map as_provider (filter (\<lambda>e. as_status e = CS_confirmed) events)))"

definition precheck :: "(rat \<Rightarrow> rat) \<Rightarrow> calculation_input \<Rightarrow> unit outcome" where
  "precheck rnd input =
     bind_res (assertPrecheck
       (length (filter (\<lambda>r. in_status r = CS_confirmed \<and> \<not> has_employee (in_employeeId r))
          (ci_incomeRecords input)) = 0)
       ''Confirmed income records must belong to employees.'') (\<lambda>_.
     bind_res (assertPrecheck
       (length (filter (\<lambda>e. as_status e = CS_confirmed \<and> \<not> has_employee (as_employeeId e))
          (ci_apiCardSpendEvents input)) = 0)
       ''Confirmed API card spend events must belong to employees.'') (\<lambda>_.
     bind_res (assertPrecheck
       (length (missing_fee_providers (ci_apiCardSpendEvents input) (ci_cardProviderFeeRates input)) = 0)
       ''Monthly card provider fee rates are required for confirmed API card spend.'') (\<lambda>_.
     bind_res (precheck_members [] (ci_groupMembers input)) (\<lambda>_.
     precheck_ratios (ratios_by_group rnd (ci_groupMembers input))))))"

section \<open>Employees and their profits\<close>

definition counts_active :: "common_status \<Rightarrow> bool" where
  "counts_active s \<longleftrightarrow> s = CS_active \<or> s = CS_confirmed"

definition add_if :: "('a \<Rightarrow> bool) \<Rightarrow> ('a \<Rightarrow> string) \<Rightarrow> 'a list \<Rightarrow> string list \<Rightarrow> string list" where
  "add_if p f xs acc = foldl (\<lambda>ids x. if p x then set_add ids (f x) else ids) acc xs"

definition collectEmployeeIds :: "calculation_input \<Rightarrow> string list" where
  "collectEmployeeIds input =
     (let ids0 = js_dedup (ci_employeeIds input);
          ids1 = add_if (\<lambda>r. in_status r = CS_confirmed \<and> has_employee (in_employeeId r))
                   (\<lambda>r. the (in_employeeId r)) (ci_incomeRecords input) ids0;
          ids2 = add_if (\<lambda>e. as_status e = CS_confirmed \<and> has_employee (as_employeeId e))
                   (\<lambda>e. the (as_employeeId e)) (ci_apiCardSpendEvents input) ids1;
          ids3 = add_if (\<lambda>e. mi_status e = SS_confirmed) mi_employeeId (ci_manualCardSpendEntries input) ids2;
          ids4 = add_if (\<lambda>_. True) mb_employeeId (ci_groupMembers input) ids3;
          ids5 = add_if (\<lambda>h. counts_active (hi_status h)) hi_employeeId (ci_historicalNegativeProfits input) ids4
      in add_if (\<lambda>i. counts_active (st_status i)) st_employeeId (ci_salaryManualItems input) ids5)"

text \<open>\<open>map.get(key) ?? ZERO\<close>\<close>

definition get_or_zero :: "('k \<times> rat) list \<Rightarrow> 'k \<Rightarrow> rat" where
  "get_or_zero m k = (case map_of m k of None \<Rightarrow> 0 | Some v \<Rightarrow> v)"

text \<open>\<open>new Map(entries)\<close>: a later entry of the same key wins.\<close>

definition map_of_entries :: "('k \<times> 'v) list \<Rightarrow> ('k \<times> 'v) list" where
  "map_of_entries entries = foldl (\<lambda>m (k, v). map_set m k v) [] entries"

definition revenue_by_employee :: "(rat \<Rightarrow> rat) \<Rightarrow> income_input list \<Rightarrow> (string \<times> rat) list" where
  "revenue_by_employee rnd records =
     foldl (\<lambda>m r. if in_status r = CS_confirmed \<and> has_employee (in_employeeId r)
                  then addToMap rnd m (the (in_employeeId r)) (in_incomeUsd r) else m) [] records"

definition api_spend_by_employee ::
  "(rat \<Rightarrow> rat) \<Rightarrow> (api_spend_input \<Rightarrow> rat) \<Rightarrow> api_spend_input list \<Rightarrow> (string \<times> rat) list" where
  "api_spend_by_employee rnd amount events =
     foldl (\<lambda>m e. if as_status e \<noteq> CS_confirmed \<or> \<not> has_employee (as_employeeId e) then m
                  else addToMap rnd m (the (as_employeeId e)) (amount e)) [] events"

definition manual_spend_by_employee :: "(rat \<Rightarrow> rat) \<Rightarrow> manual_spend_input list \<Rightarrow> (string \<times> rat) list" where
  "manual_spend_by_employee rnd entries =
     foldl (\<lambda>m e. if mi_status e = SS_confirmed
                  then addToMap rnd m (mi_employeeId e) (mi_actualSpendUsd e) else m) [] entries"

definition calculateEmployeeProfits ::
  "(rat \<Rightarrow> rat) \<Rightarrow> calculation_input \<Rightarrow> string list \<Rightarrow> (string \<times> employee_profit) list" where
  "calculateEmployeeProfits rnd input employeeIds =
     (let feeRatesByProvider = map_of_entries (map (\<lambda>r. (fi_provider r, fi_feeRate r)) (ci_cardProviderFeeRates input));
          revenueByEmployee = revenue_by_employee rnd (ci_incomeRecords input);
          apiSpendByEmployee = api_spend_by_employee rnd as_spendUsd (ci_apiCardSpendEvents input);
          apiFeeByEmployee = api_spend_by_employee rnd
            (\<lambda>e. dec_times rnd (as_spendUsd e) (get_or_zero feeRatesByProvider (as_provider e)))
            (ci_apiCardSpendEvents input);
          manualSpendByEmployee = manual_spend_by_employee rnd (ci_manualCardSpendEntries input)
      in map_of_entries (map (\<lambda>employeeId.
           let totalRevenueUsd = get_or_zero revenueByEmployee employeeId;
               apiCardSpendUsd = get_or_zero apiSpendByEmployee employeeId;
               apiCardFeeUsd = get_or_zero apiFeeByEmployee employeeId;
               manualCardSpendUsd = get_or_zero manualSpendByEmployee employeeId;
               finalCardSpendUsd = dec_plus rnd (dec_plus rnd apiCardSpendUsd apiCardFeeUsd) manualCardSpendUsd;
               originalProfitUsd = dec_minus rnd totalRevenueUsd finalCardSpendUsd
           in (employeeId,
               \<lparr>ep_totalRevenueUsd = totalRevenueUsd, ep_apiCardSpendUsd = apiCardSpendUsd,
                ep_apiCardFeeUsd = apiCardFeeUsd, ep_manualCardSpendUsd = manualCardSpendUsd,
                ep_finalCardSpendUsd = finalCardSpendUsd, ep_originalProfitUsd = originalProfitUsd\<rparr>))
           employeeIds))"

definition emptyEmployeeProfit :: employee_profit where
  "emptyEmployeeProfit =
     \<lparr>ep_totalRevenueUsd = 0, ep_apiCardSpendUsd = 0, ep_apiCardFeeUsd = 0,
      ep_manualCardSpendUsd = 0, ep_finalCardSpendUsd = 0, ep_originalProfitUsd = 0\<rparr>"

definition buildGroupsByEmployee :: "member_input list \<Rightarrow> (string \<times> member_input) list" where
  "buildGroupsByEmployee groupMembers =
     map_of_entries (map (\<lambda>member. (mb_employeeId member, member)) groupMembers)"

definition original_profit_of :: "(string \<times> employee_profit) list \<Rightarrow> string \<Rightarrow> rat" where
  "original_profit_of profits e =
     (case map_of profits e of None \<Rightarrow> 0 | Some p \<Rightarrow> ep_originalProfitUsd p)"

definition calculateGroupTotals ::
  "(rat \<Rightarrow> rat) \<Rightarrow> member_input list \<Rightarrow> (string \<times> employee_profit) list \<Rightarrow> (string \<times> rat) list" where
  "calculateGroupTotals rnd groupMembers profits =
     foldl (\<lambda>m member. addToMap rnd m (mb_groupId member) (original_profit_of profits (mb_employeeId member)))
       [] groupMembers"

definition sumHistoricalNegativeProfits :: "(rat \<Rightarrow> rat) \<Rightarrow> historical_input list \<Rightarrow> (string \<times> rat) list" where
  "sumHistoricalNegativeProfits rnd rows =
     foldl (\<lambda>m h. if counts_active (hi_status h)
                  then addToMap rnd m (hi_employeeId h) (hi_amountUsd h) else m) [] rows"

definition no_manual_amounts :: manual_amounts where
  "no_manual_amounts = \<lparr>ma_additionRmb = 0, ma_deductionRmb = 0\<rparr>"

definition sumManualSalaryItems ::
  "(rat \<Rightarrow> rat) \<Rightarrow> salary_item_input list \<Rightarrow> (string \<times> manual_amounts) list" where
  "sumManualSalaryItems rnd items =
     foldl (\<lambda>m i.
       if \<not> counts_active (st_status i) then m
       else let current = (case map_of m (st_employeeId i) of None \<Rightarrow> no_manual_amounts | Some c \<Rightarrow> c);
                current' = (if st_itemType i = SI_addition
                  then current\<lparr>ma_additionRmb := dec_plus rnd (ma_additionRmb current) (st_amountRmb i)\<rparr>
                  else current\<lparr>ma_deductionRmb := dec_plus rnd (ma_deductionRmb current) (st_amountRmb i)\<rparr>)
            in map_set m (st_employeeId i) current') [] items"

section \<open>The calculation\<close>

definition calculate_employee ::
  "(rat \<Rightarrow> rat) \<Rightarrow> calculation_input \<Rightarrow> (string \<times> employee_profit) list \<Rightarrow> (string \<times> member_input) list
   \<Rightarrow> (string \<times> rat) list \<Rightarrow> (string \<times> rat) list \<Rightarrow> (string \<times> manual_amounts) list
   \<Rightarrow> string \<Rightarrow> calculation_result" where
  "calculate_employee rnd input profits groupsByEmployee groupTotals historicalNegativeProfits manualItems employeeId =
     (let profit = (case map_of profits employeeId of None \<Rightarrow> emptyEmployeeProfit | Some p \<Rightarrow> p);
          groupMember = map_of groupsByEmployee employeeId;
          salaryMode = (case groupMember of None \<Rightarrow> SM_single | Some _ \<Rightarrow> SM_group);
          allocationRatio = map_option mb_allocationRatio groupMember;
          allocatedProfitUsd = (case groupMember of
              None \<Rightarrow> ep_originalProfitUsd profit
            | Some member \<Rightarrow> dec_times rnd (get_or_zero groupTotals (mb_groupId member)) (mb_allocationRatio member));
          historicalNegativeProfitUsd = get_or_zero historicalNegativeProfits employeeId;
          carryover = applyNegativeCarryover rnd allocatedProfitUsd historicalNegativeProfitUsd;
          tier = calculateSalaryTier (nc_commissionProfitUsd carryover) salaryMode;
          commissionUsd = dec_times rnd (nc_commissionProfitUsd carryover) (tr_commissionRate tier);
          commissionRmb = dec_times rnd commissionUsd (ci_exchangeRate input);
          attendanceStatus = (case map_of (rev (ci_attendanceByEmployeeId input)) employeeId of
              None \<Rightarrow> ''full_attendance'' | Some a \<Rightarrow> a);
          attendanceBonusRmb = calculateAttendanceBonus attendanceStatus;
          manualSalaryItem = (case map_of manualItems employeeId of None \<Rightarrow> no_manual_amounts | Some c \<Rightarrow> c)
      in \<lparr>cr_employeeId = employeeId,
          cr_settlementMonth = ci_settlementMonth input,
          cr_salaryMode = salaryMode,
          cr_profit = profit,
          cr_groupId = map_option mb_groupId groupMember,
          cr_allocationRatio = allocationRatio,
          cr_allocatedProfitUsd = allocatedProfitUsd,
          cr_historicalNegativeProfitUsd = historicalNegativeProfitUsd,
          cr_commissionProfitUsd = nc_commissionProfitUsd carryover,
          cr_remainingNegativeProfitUsd = nc_remainingNegativeProfitUsd carryover,
          cr_baseSalaryRmb = tr_baseSalaryRmb tier,
          cr_starAllowanceRmb = tr_starAllowanceRmb tier,
          cr_commissionRate = tr_commissionRate tier,
          cr_commissionUsd = commissionUsd,
          cr_exchangeRate = ci_exchangeRate input,
          cr_commissionRmb = commissionRmb,
          cr_attendanceStatus = attendanceStatus,
          cr_attendanceBonusRmb = attendanceBonusRmb,
          cr_manualAdditionRmb = ma_additionRmb manualSalaryItem,
          cr_manualDeductionRmb = ma_deductionRmb manualSalaryItem,
          cr_finalSalaryRmb = calculateFinalSalary rnd tier attendanceBonusRmb commissionRmb
            (ma_additionRmb manualSalaryItem) (ma_deductionRmb manualSalaryItem)\<rparr>)"

definition calculate :: "(rat \<Rightarrow> rat) \<Rightarrow> calculation_input \<Rightarrow> calculation_result list outcome" where
  "calculate rnd input =
     bind_res (precheck rnd input) (\<lambda>_.
       let employeeIds = collectEmployeeIds input;
           profits = calculateEmployeeProfits rnd input employeeIds;
           groupsByEmployee = buildGroupsByEmployee (ci_groupMembers input);
           groupTotals = calculateGroupTotals rnd (ci_groupMembers input) profits;
           historicalNegativeProfits = sumHistoricalNegativeProfits rnd (ci_historicalNegativeProfits input);
           manualItems = sumManualSalaryItems rnd (ci_salaryManualItems input)
       in Inr (map (calculate_employee rnd input profits groupsByEmployee groupTotals
                      historicalNegativeProfits manualItems) (sort employeeIds)))"

section \<open>The snapshot of a result\<close>

definition decimalToString :: "runtime \<Rightarrow> rat option \<Rightarrow> jsval" where
  "decimalToString rt value = (case value of None \<Rightarrow> JNull | Some v \<Rightarrow> JString (rt_show_decimal rt v))"

definition buildSnapshot :: "runtime \<Rightarrow> calculation_result \<Rightarrow> (string \<times> jsval) list" where
  "buildSnapshot rt result =
     (let dec = (\<lambda>v. decimalToString rt (Some v)); p = cr_profit result
      in [(''employeeId'', JString (cr_employeeId result)),
          (''settlementMonth'', JString (take 10 (iso_string (cr_settlementMonth result)))),
          (''salaryMode'', JString (salary_mode_name (cr_salaryMode result))),
          (''revenue'', JObject [(''totalRevenueUsd'', dec (ep_totalRevenueUsd p))]),
          (''cardSpend'', JObject
            [(''apiCardSpendUsd'', dec (ep_apiCardSpendUsd p)),
             (''apiCardFeeUsd'', dec (ep_apiCardFeeUsd p)),
             (''manualCardSpendUsd'', dec (ep_manualCardSpendUsd p)),
             (''finalCardSpendUsd'', dec (ep_finalCardSpendUsd p))]),
          (''profit'', JObject
            [(''originalProfitUsd'', dec (ep_originalProfitUsd p)),
             (''groupId'', jstr_or_null (cr_groupId result)),
             (''allocationRatio'', decimalToString rt (cr_allocationRatio result)),
             (''allocatedProfitUsd'', dec (cr_allocatedProfitUsd result)),
             (''historicalNegativeProfitUsd'', dec (cr_historicalNegativeProfitUsd result)),
             (''commissionProfitUsd'', dec (cr_commissionProfitUsd result)),
             (''remainingNegativeProfitUsd'', dec (cr_remainingNegativeProfitUsd result))]),
          (''salary'', JObject
            [(''baseSalaryRmb'', dec (cr_baseSalaryRmb result)),
             (''starAllowanceRmb'', dec (cr_starAllowanceRmb result)),
             (''commissionRate'', dec (cr_commissionRate result)),
             (''commissionUsd'', dec (cr_commissionUsd result)),
             (''exchangeRate'', dec (cr_exchangeRate result)),
             (''commissionRmb'', dec (cr_commissionRmb result)),
             (''attendanceStatus'', JString (cr_attendanceStatus result)),
             (''attendanceBonusRmb'', dec (cr_attendanceBonusRmb result)),
             (''manualAdditionRmb'', dec (cr_manualAdditionRmb result)),
             (''manualDeductionRmb'', dec (cr_manualDeductionRmb result)),
             (''finalSalaryRmb'', dec (cr_finalSalaryRmb result))])])"

end
