(* ===== verification/Calculator_Properties.thy ===== *)
theory Calculator_Properties
  imports Settlement_Calculator
begin

text \<open>
  What the salary calculator computes: the maps it fills are sums over the rows of one
  employee, the prechecks accept exactly the consistent inputs, the results are one per
  employee with activity, in order; and the rules of the tiers, the carryover and the
  group allocation.
\<close>

section \<open>Accumulating maps\<close>

lemma get_or_zero_simps [simp]:
  "get_or_zero [] k = 0"
  "get_or_zero (addToMap rnd m k v) k' =
     (if k = k' then dec_plus rnd (get_or_zero m k) v else get_or_zero m k')"
  by (auto simp: get_or_zero_def addToMap_def map_of_map_set)

lemma dom_addToMap: "set (map fst (addToMap rnd m k v)) = insert k (set (map fst m))"
  unfolding addToMap_def by (rule dom_map_set)

lemma distinct_addToMap: "distinct (map fst m) \<Longrightarrow> distinct (map fst (addToMap rnd m k v))"
  unfolding addToMap_def by (rule distinct_map_set)

definition fold_add :: "(rat \<Rightarrow> rat) \<Rightarrow> ('a \<Rightarrow> bool) \<Rightarrow> ('a \<Rightarrow> 'k) \<Rightarrow> ('a \<Rightarrow> rat) \<Rightarrow> ('k \<times> rat) list \<Rightarrow> 'a list \<Rightarrow> ('k \<times> rat) list" where
  "fold_add rnd p key val m xs = foldl (\<lambda>m x. if p x then addToMap rnd m (key x) (val x) else m) m xs"

lemma get_fold_add:
  "get_or_zero (fold_add rnd p key val m xs) k =
     foldl (dec_plus rnd) (get_or_zero m k) (map val (filter (\<lambda>x. p x \<and> key x = k) xs))"
  unfolding fold_add_def by (induction xs arbitrary: m) auto

lemma keys_fold_add:
  "set (map fst (fold_add rnd p key val m xs)) = set (map fst m) \<union> key ` {x \<in> set xs. p x}"
  unfolding fold_add_def
proof (induction xs arbitrary: m)
  case (Cons x xs)
  then show ?case using dom_addToMap [of rnd m "key x" "val x"] by auto
qed simp

lemma distinct_fold_add:
  "distinct (map fst m) \<Longrightarrow> distinct (map fst (fold_add rnd p key val m xs))"
  unfolding fold_add_def by (induction xs arbitrary: m) (auto simp: distinct_addToMap)

lemma revenue_fold: "revenue_by_employee rnd records =
    fold_add rnd (\<lambda>r. in_status r = CS_confirmed \<and> has_employee (in_employeeId r))
      (\<lambda>r. the (in_employeeId r)) in_incomeUsd [] records"
  by (simp add: revenue_by_employee_def fold_add_def)

lemma api_spend_fold: "api_spend_by_employee rnd amount events =
    fold_add rnd (\<lambda>e. as_status e = CS_confirmed \<and> has_employee (as_employeeId e))
      (\<lambda>e. the (as_employeeId e)) amount [] events"
proof -
  have "(\<lambda>m e. if as_status e \<noteq> CS_confirmed \<or> \<not> has_employee (as_employeeId e) then m
               else addToMap rnd m (the (as_employeeId e)) (amount e)) =
        (\<lambda>m e. if as_status e = CS_confirmed \<and> has_employee (as_employeeId e)
               then addToMap rnd m (the (as_employeeId e)) (amount e) else m)"
    by (intro ext) simp
  then show ?thesis by (simp add: api_spend_by_employee_def fold_add_def)
qed

lemma manual_spend_fold: "manual_spend_by_employee rnd entries =
    fold_add rnd (\<lambda>e. mi_status e = SS_confirmed) mi_employeeId mi_actualSpendUsd [] entries"
  by (simp add: manual_spend_by_employee_def fold_add_def)

lemma historical_fold: "sumHistoricalNegativeProfits rnd rows =
    fold_add rnd (\<lambda>h. counts_active (hi_status h)) hi_employeeId hi_amountUsd [] rows"
  by (simp add: sumHistoricalNegativeProfits_def fold_add_def)

lemma ratios_fold: "ratios_by_group rnd members =
    fold_add rnd (\<lambda>_. True) mb_groupId mb_allocationRatio [] members"
  by (simp add: ratios_by_group_def fold_add_def)

lemma group_totals_fold: "calculateGroupTotals rnd members profits =
    fold_add rnd (\<lambda>_. True) mb_groupId (\<lambda>m. original_profit_of profits (mb_employeeId m)) [] members"
  by (simp add: calculateGroupTotals_def fold_add_def)

text \<open>The rows of one employee, the way each map selects them.\<close>

definition own_income :: "string \<Rightarrow> calculation_input \<Rightarrow> rat list" where
  "own_income e input = map in_incomeUsd
     (filter (\<lambda>r. in_status r = CS_confirmed \<and> in_employeeId r = Some e) (ci_incomeRecords input))"

definition own_api_events :: "string \<Rightarrow> calculation_input \<Rightarrow> api_spend_input list" where
  "own_api_events e input =
     filter (\<lambda>r. as_status r = CS_confirmed \<and> as_employeeId r = Some e) (ci_apiCardSpendEvents input)"

definition own_manual_spend :: "string \<Rightarrow> calculation_input \<Rightarrow> rat list" where
  "own_manual_spend e input = map mi_actualSpendUsd
     (filter (\<lambda>r. mi_status r = SS_confirmed \<and> mi_employeeId r = e) (ci_manualCardSpendEntries input))"

definition fee_rate_of :: "calculation_input \<Rightarrow> provider \<Rightarrow> rat" where
  "fee_rate_of input p =
     (case find (\<lambda>r. fi_provider r = p) (rev (ci_cardProviderFeeRates input)) of
        None \<Rightarrow> 0 | Some r \<Rightarrow> fi_feeRate r)"

lemma own_rows_filter:
  assumes "e \<noteq> []"
  shows "filter (\<lambda>x. q x \<and> has_employee (f x) \<and> the (f x) = e) xs = filter (\<lambda>x. q x \<and> f x = Some e) xs"
  using assms by (intro filter_cong) (auto simp: has_employee_def split: option.splits)

lemma map_of_foldl_map_set:
  "map_of (foldl (\<lambda>m (k, v). map_set m k v) acc es) k =
     (case map_of (rev es) k of None \<Rightarrow> map_of acc k | Some v \<Rightarrow> Some v)"
proof (induction es arbitrary: acc)
  case (Cons a es)
  then show ?case
    by (cases a) (auto simp: map_of_map_set map_add_def split: option.splits)
qed simp

lemma map_of_map_of_entries: "map_of (map_of_entries es) k = map_of (rev es) k"
  by (simp add: map_of_entries_def map_of_foldl_map_set split: option.splits)

lemma map_of_find:
  "map_of (map (\<lambda>x. (g x, h x)) xs) k = map_option h (find (\<lambda>x. g x = k) xs)"
  by (induction xs) auto

lemma fee_rate_lookup:
  "get_or_zero (map_of_entries (map (\<lambda>r. (fi_provider r, fi_feeRate r)) (ci_cardProviderFeeRates input))) p
   = fee_rate_of input p"
  by (simp add: get_or_zero_def map_of_map_of_entries rev_map map_of_find fee_rate_of_def
      split: option.splits)

lemma map_of_profits:
  "map_of (map_of_entries (map (\<lambda>e. (e, f e)) es)) e = (if e \<in> set es then Some (f e) else None)"
proof -
  have "map_of (map (\<lambda>e. (e, f e)) xs) e = (if e \<in> set xs then Some (f e) else None)" for xs
    by (induction xs) auto
  then show ?thesis by (simp add: map_of_map_of_entries rev_map)
qed

section \<open>The profit of one employee\<close>

lemma own_revenue:
  "e \<noteq> [] \<Longrightarrow> get_or_zero (revenue_by_employee rnd (ci_incomeRecords input)) e = dec_sum rnd (own_income e input)"
  by (simp add: revenue_fold get_fold_add own_rows_filter own_income_def dec_sum_def)

lemma own_api_spend:
  "e \<noteq> [] \<Longrightarrow> get_or_zero (api_spend_by_employee rnd amount (ci_apiCardSpendEvents input)) e =
     dec_sum rnd (map amount (own_api_events e input))"
  by (simp add: api_spend_fold get_fold_add own_rows_filter own_api_events_def dec_sum_def)

lemma own_manual:
  "get_or_zero (manual_spend_by_employee rnd (ci_manualCardSpendEntries input)) e =
     dec_sum rnd (own_manual_spend e input)"
  by (simp add: manual_spend_fold get_fold_add own_manual_spend_def dec_sum_def)

definition fee_of :: "(rat \<Rightarrow> rat) \<Rightarrow> calculation_input \<Rightarrow> api_spend_input \<Rightarrow> rat" where
  "fee_of rnd input x = dec_times rnd (as_spendUsd x) (fee_rate_of input (as_provider x))"

lemma profit_of_employee:
  fixes rnd :: "rat \<Rightarrow> rat"
  defines "api \<equiv> (\<lambda>e input. dec_sum rnd (map as_spendUsd (own_api_events e input)))"
    and "fee \<equiv> (\<lambda>e input. dec_sum rnd (map (fee_of rnd input) (own_api_events e input)))"
    and "man \<equiv> (\<lambda>e input. dec_sum rnd (own_manual_spend e input))"
  assumes "e \<in> set ids" and "e \<noteq> []"
  shows "map_of (calculateEmployeeProfits rnd input ids) e =
    Some \<lparr>ep_totalRevenueUsd = dec_sum rnd (own_income e input), ep_apiCardSpendUsd = api e input,
      ep_apiCardFeeUsd = fee e input, ep_manualCardSpendUsd = man e input,
      ep_finalCardSpendUsd = dec_plus rnd (dec_plus rnd (api e input) (fee e input)) (man e input),
      ep_originalProfitUsd = dec_minus rnd (dec_sum rnd (own_income e input))
        (dec_plus rnd (dec_plus rnd (api e input) (fee e input)) (man e input))\<rparr>"
  using assms(4,5)
  by (simp add: calculateEmployeeProfits_def Let_def map_of_profits own_revenue own_api_spend own_manual
      fee_rate_lookup fee_of_def [abs_def] api_def fee_def man_def)

section \<open>Prechecks\<close>

lemma assertPrecheck_Inr [simp]: "assertPrecheck c m = Inr u \<longleftrightarrow> c"
  by (simp add: assertPrecheck_def)

lemma assertPrecheck_Inl: "assertPrecheck c m = Inl e \<longleftrightarrow> \<not> c \<and> e = AppError SETTLEMENT_PRECHECK_FAILED m"
  by (auto simp: assertPrecheck_def)

lemma precheck_members_Inr:
  "precheck_members seen members = Inr u \<longleftrightarrow>
     distinct (map mb_employeeId members) \<and> set (map mb_employeeId members) \<inter> set seen = {}"
  by (induction members arbitrary: seen) (auto simp: bind_res_Inr_iff)

lemma precheck_members_Inl:
  "precheck_members seen members = Inl e \<Longrightarrow> \<exists>m. e = AppError SETTLEMENT_PRECHECK_FAILED m"
  by (induction members arbitrary: seen) (auto simp: bind_res_Inl_iff assertPrecheck_Inl)

lemma precheck_ratios_Inr: "precheck_ratios rs = Inr u \<longleftrightarrow> (\<forall>(g, x) \<in> set rs. x = 1)"
  by (induction rs) (auto simp: bind_res_Inr_iff)

lemma precheck_ratios_Inl:
  "precheck_ratios rs = Inl e \<Longrightarrow> \<exists>m. e = AppError SETTLEMENT_PRECHECK_FAILED m"
  by (induction rs) (auto simp: bind_res_Inl_iff assertPrecheck_Inl)

lemma missing_fee_providers_empty:
  "missing_fee_providers events rates = [] \<longleftrightarrow>
     (\<forall>e \<in> set events. as_status e = CS_confirmed \<longrightarrow> as_provider e \<in> fi_provider ` set rates)"
  by (auto simp: missing_fee_providers_def filter_empty_conv)

definition group_ratios :: "string \<Rightarrow> calculation_input \<Rightarrow> rat list" where
  "group_ratios g input = map mb_allocationRatio (filter (\<lambda>m. mb_groupId m = g) (ci_groupMembers input))"

lemma ratios_by_group_entries:
  "(\<forall>(g, x) \<in> set (ratios_by_group rnd members). x = 1) \<longleftrightarrow>
     (\<forall>m \<in> set members. get_or_zero (ratios_by_group rnd members) (mb_groupId m) = 1)"
proof -
  let ?m = "ratios_by_group rnd members"
  have d: "distinct (map fst ?m)" and k: "fst ` set ?m = mb_groupId ` set members"
    using distinct_fold_add [of "[]"] keys_fold_add [of rnd "\<lambda>_. True" mb_groupId mb_allocationRatio "[]" members]
    by (simp_all add: ratios_fold)
  have "get_or_zero ?m g = x" if "(g, x) \<in> set ?m" for g x
    using map_of_is_SomeI [OF d that] by (simp add: get_or_zero_def)
  then have "(\<forall>(g, x) \<in> set ?m. x = 1) \<longleftrightarrow> (\<forall>g \<in> fst ` set ?m. get_or_zero ?m g = 1)"
    by fastforce
  then show ?thesis using k by simp
qed

lemma precheck_Inr:
  "precheck rnd input = Inr () \<longleftrightarrow>
     (\<forall>r \<in> set (ci_incomeRecords input). in_status r = CS_confirmed \<longrightarrow> has_employee (in_employeeId r))
   \<and> (\<forall>e \<in> set (ci_apiCardSpendEvents input). as_status e = CS_confirmed \<longrightarrow>
        has_employee (as_employeeId e) \<and> as_provider e \<in> fi_provider ` set (ci_cardProviderFeeRates input))
   \<and> distinct (map mb_employeeId (ci_groupMembers input))
   \<and> (\<forall>m \<in> set (ci_groupMembers input). dec_sum rnd (group_ratios (mb_groupId m) input) = 1)"
proof -
  have r: "precheck_ratios (ratios_by_group rnd (ci_groupMembers input)) = Inr () \<longleftrightarrow>
      (\<forall>m \<in> set (ci_groupMembers input). dec_sum rnd (group_ratios (mb_groupId m) input) = 1)"
    unfolding precheck_ratios_Inr ratios_by_group_entries
    by (simp add: ratios_fold get_fold_add group_ratios_def dec_sum_def)
  show ?thesis
    unfolding precheck_def bind_res_Inr_iff assertPrecheck_Inr precheck_members_Inr r length_0_conv
      missing_fee_providers_empty filter_empty_conv by auto
qed

lemma precheck_Inl: "precheck rnd input = Inl e \<Longrightarrow> \<exists>m. e = AppError SETTLEMENT_PRECHECK_FAILED m"
  unfolding precheck_def bind_res_Inl_iff
  by (auto simp: assertPrecheck_Inl dest: precheck_members_Inl precheck_ratios_Inl)

section \<open>The employees\<close>

lemma set_add_if: "set (add_if p f xs acc) = set acc \<union> f ` {x \<in> set xs. p x}"
  unfolding add_if_def by (induction xs arbitrary: acc) auto

lemma distinct_add_if: "distinct acc \<Longrightarrow> distinct (add_if p f xs acc)"
  unfolding add_if_def by (induction xs arbitrary: acc) (auto simp: distinct_set_add)

definition has_activity :: "calculation_input \<Rightarrow> string \<Rightarrow> bool" where
  "has_activity input e \<longleftrightarrow>
     e \<in> set (ci_employeeIds input)
   \<or> list_ex (\<lambda>r. in_status r = CS_confirmed \<and> in_employeeId r = Some e \<and> e \<noteq> []) (ci_incomeRecords input)
   \<or> list_ex (\<lambda>r. as_status r = CS_confirmed \<and> as_employeeId r = Some e \<and> e \<noteq> []) (ci_apiCardSpendEvents input)
   \<or> list_ex (\<lambda>r. mi_status r = SS_confirmed \<and> mi_employeeId r = e) (ci_manualCardSpendEntries input)
   \<or> list_ex (\<lambda>r. mb_employeeId r = e) (ci_groupMembers input)
   \<or> list_ex (\<lambda>r. counts_active (hi_status r) \<and> hi_employeeId r = e) (ci_historicalNegativeProfits input)
   \<or> list_ex (\<lambda>r. counts_active (st_status r) \<and> st_employeeId r = e) (ci_salaryManualItems input)"

lemma set_collectEmployeeIds: "set (collectEmployeeIds input) = {e. has_activity input e}"
proof -
  have opt: "(\<lambda>x. the (f x)) ` {x \<in> set xs. q x \<and> has_employee (f x)} =
      {e. list_ex (\<lambda>x. q x \<and> f x = Some e \<and> e \<noteq> []) xs}" for f :: "'a \<Rightarrow> string option" and q xs
    by (force simp: list_ex_iff has_employee_def split: option.splits)
  have ids: "f ` {x \<in> set xs. q x} = {e. list_ex (\<lambda>x. q x \<and> f x = e) xs}" for f :: "'a \<Rightarrow> string" and q xs
    by (auto simp: list_ex_iff)
  have mem: "mb_employeeId ` {x \<in> set xs. True} = {e. list_ex (\<lambda>x. mb_employeeId x = e) xs}" for xs
    by (auto simp: list_ex_iff)
  show ?thesis
    unfolding collectEmployeeIds_def Let_def set_add_if opt mem ids set_js_dedup has_activity_def
    by (simp only: Collect_disj_eq Collect_mem_eq Un_assoc simp_thms)
qed

lemma distinct_collectEmployeeIds: "distinct (collectEmployeeIds input)"
  by (simp add: collectEmployeeIds_def Let_def distinct_add_if)

lemma calculate_Inr:
  "calculate rnd input = Inr rs \<Longrightarrow>
   precheck rnd input = Inr () \<and>
   rs = map (calculate_employee rnd input (calculateEmployeeProfits rnd input (collectEmployeeIds input))
     (buildGroupsByEmployee (ci_groupMembers input))
     (calculateGroupTotals rnd (ci_groupMembers input) (calculateEmployeeProfits rnd input (collectEmployeeIds input)))
     (sumHistoricalNegativeProfits rnd (ci_historicalNegativeProfits input))
     (sumManualSalaryItems rnd (ci_salaryManualItems input))) (sort (collectEmployeeIds input))"
  by (auto simp: calculate_def Let_def bind_res_Inr_iff)

lemma cr_employeeId_calculate_employee [simp]: "cr_employeeId (calculate_employee a b c d e f g x) = x"
  by (simp add: calculate_employee_def Let_def)

section \<open>Rounded sums and products\<close>

lemma sum_abs_nonneg: "0 \<le> sum_list (map abs (xs :: rat list))"
  by (rule sum_list_nonneg) auto

lemma scaled_12: "scaled 6 x \<Longrightarrow> scaled 12 x"
  using scaled_mono [of 6 x 12] by simp

text \<open>
  The amounts of one employee stay in the exact range: columns of six decimals, and together
  (in absolute value, fees included) below a hundred million dollars.
\<close>

definition amounts_in_range :: "string \<Rightarrow> calculation_input \<Rightarrow> bool" where
  "amounts_in_range e input \<longleftrightarrow>
     list_all (scaled 6) (own_income e input)
   \<and> list_all (\<lambda>x. scaled 6 (as_spendUsd x) \<and> scaled 6 (fee_rate_of input (as_provider x))) (own_api_events e input)
   \<and> list_all (scaled 6) (own_manual_spend e input)
   \<and> (sum_list (map abs (own_income e input))
      + sum_list (map abs (map as_spendUsd (own_api_events e input)))
      + sum_list (map abs (map (\<lambda>x. as_spendUsd x * fee_rate_of input (as_provider x)) (own_api_events e input)))
      + sum_list (map abs (own_manual_spend e input))) * 10 ^ 12 < 10 ^ 20"

definition exact_profit :: "string \<Rightarrow> calculation_input \<Rightarrow> rat" where
  "exact_profit e input =
     sum_list (own_income e input)
     - (\<Sum>x \<leftarrow> own_api_events e input. as_spendUsd x * (1 + fee_rate_of input (as_provider x)))
     - sum_list (own_manual_spend e input)"

context decimal_rounding
begin

lemma exact_sum12:
  assumes "list_all (scaled 12) xs" "sum_list (map abs xs) \<le> b" "b * 10 ^ 12 < 10 ^ 20"
  shows "dec_sum rnd xs = sum_list xs"
proof (rule dec_sum_exact)
  show "list_all (scaled 12) xs" by fact
  have "sum_list (map abs xs) * 10 ^ 12 \<le> b * 10 ^ 12"
    using assms(2) by (rule mult_right_mono) simp
  then show "sum_list (map abs xs) * 10 ^ 12 < 10 ^ 20" using assms(3) by (rule le_less_trans)
qed

lemma exact_rnd12:
  assumes "scaled 12 x" "\<bar>x\<bar> \<le> b" "b * 10 ^ 12 < 10 ^ 20"
  shows "rnd x = x"
proof (rule rnd_scaled)
  show "scaled 12 x" by fact
  have "\<bar>x\<bar> * 10 ^ 12 \<le> b * 10 ^ 12" using assms(2) by (rule mult_right_mono) simp
  then show "\<bar>x\<bar> * 10 ^ 12 < 10 ^ 20" using assms(3) by (rule le_less_trans)
qed

lemma abs_sum_list: "\<bar>sum_list xs\<bar> \<le> sum_list (map abs (xs :: rat list))"
  by (induction xs) auto

lemma fee_exact:
  assumes "x \<in> set (own_api_events e input)" and "amounts_in_range e input"
  shows "fee_of rnd input x = as_spendUsd x * fee_rate_of input (as_provider x)"
    and "scaled 12 (as_spendUsd x * fee_rate_of input (as_provider x))"
proof -
  let ?f = "\<lambda>x. as_spendUsd x * fee_rate_of input (as_provider x)"
  have "scaled 6 (as_spendUsd x)" "scaled 6 (fee_rate_of input (as_provider x))"
    using assms by (auto simp: amounts_in_range_def list_all_iff)
  then show s: "scaled 12 (?f x)" using scaled_mult [of 6 _ 6] by simp
  have "\<bar>?f x\<bar> \<in> set (map abs (map ?f (own_api_events e input)))" using assms(1) by simp
  then have "\<bar>?f x\<bar> \<le> sum_list (map abs (map ?f (own_api_events e input)))"
    by (rule member_le_sum_list) auto
  also have "\<dots> \<le> sum_list (map abs (own_income e input))
      + sum_list (map abs (map as_spendUsd (own_api_events e input)))
      + sum_list (map abs (map ?f (own_api_events e input)))
      + sum_list (map abs (own_manual_spend e input))"
    using sum_abs_nonneg [of "own_income e input"] sum_abs_nonneg [of "own_manual_spend e input"]
      sum_abs_nonneg [of "map as_spendUsd (own_api_events e input)"] by linarith
  finally have le: "\<bar>?f x\<bar> \<le> sum_list (map abs (own_income e input))
      + sum_list (map abs (map as_spendUsd (own_api_events e input)))
      + sum_list (map abs (map ?f (own_api_events e input)))
      + sum_list (map abs (own_manual_spend e input))" .
  show "fee_of rnd input x = ?f x"
    unfolding fee_of_def dec_times_def
    using assms(2) unfolding amounts_in_range_def by (blast intro: exact_rnd12 [OF s le])
qed

lemma original_profit_exact:
  assumes ids: "e \<in> set ids" "e \<noteq> []" and range: "amounts_in_range e input"
  shows "original_profit_of (calculateEmployeeProfits rnd input ids) e = exact_profit e input"
proof -
  let ?ev = "own_api_events e input" and ?f = "\<lambda>x. as_spendUsd x * fee_rate_of input (as_provider x)"
  let ?I = "own_income e input" and ?S = "map as_spendUsd ?ev" and ?F = "map ?f ?ev" and ?M = "own_manual_spend e input"
  let ?b = "sum_list (map abs ?I) + sum_list (map abs ?S) + sum_list (map abs ?F) + sum_list (map abs ?M)"
  have b: "?b * 10 ^ 12 < 10 ^ 20" using range by (simp only: amounts_in_range_def)
  note pos = sum_abs_nonneg [of ?I] sum_abs_nonneg [of ?S] sum_abs_nonneg [of ?F] sum_abs_nonneg [of ?M]
  have fees: "map (fee_of rnd input) ?ev = ?F" using fee_exact(1) [OF _ range] by simp
  have sc: "list_all (scaled 12) ?I" "list_all (scaled 12) ?S" "list_all (scaled 12) ?F" "list_all (scaled 12) ?M"
    using range fee_exact(2) [OF _ range]
    by (auto simp: amounts_in_range_def list_all_iff intro: scaled_12)
  have sums: "dec_sum rnd ?I = sum_list ?I" "dec_sum rnd ?S = sum_list ?S"
    "dec_sum rnd ?F = sum_list ?F" "dec_sum rnd ?M = sum_list ?M"
    using sc pos by (auto intro!: exact_sum12 [OF _ _ b])
  note sca = sc [THEN scaled_sum_list]
  note le = abs_sum_list [of ?I] abs_sum_list [of ?S] abs_sum_list [of ?F] abs_sum_list [of ?M]
  have p1: "rnd (sum_list ?S + sum_list ?F) = sum_list ?S + sum_list ?F"
    using sca le pos by (intro exact_rnd12 [OF _ _ b]) auto
  have p2: "rnd (sum_list ?S + sum_list ?F + sum_list ?M) = sum_list ?S + sum_list ?F + sum_list ?M"
    using sca le pos by (intro exact_rnd12 [OF _ _ b]) auto
  have p3: "rnd (sum_list ?I - (sum_list ?S + sum_list ?F + sum_list ?M)) =
      sum_list ?I - (sum_list ?S + sum_list ?F + sum_list ?M)"
    using sca le pos by (intro exact_rnd12 [OF _ _ b]) auto
  have dist: "(\<Sum>x \<leftarrow> ?ev. as_spendUsd x * (1 + fee_rate_of input (as_provider x))) = sum_list ?S + sum_list ?F"
    by (simp add: distrib_left flip: sum_list_addf)
  have "original_profit_of (calculateEmployeeProfits rnd input ids) e =
      sum_list ?I - (sum_list ?S + sum_list ?F + sum_list ?M)"
    unfolding original_profit_of_def profit_of_employee [OF ids]
    by (simp add: fees sums dec_plus_def dec_minus_def p1 p2 p3)
  then show ?thesis by (simp add: exact_profit_def dist)
qed

end

section \<open>Tiers\<close>

lemma tier_mono:
  assumes "p \<le> q"
  shows "tr_baseSalaryRmb (calculateSalaryTier p m) \<le> tr_baseSalaryRmb (calculateSalaryTier q m)"
    and "tr_starAllowanceRmb (calculateSalaryTier p m) \<le> tr_starAllowanceRmb (calculateSalaryTier q m)"
    and "tr_commissionRate (calculateSalaryTier p m) \<le> tr_commissionRate (calculateSalaryTier q m)"
proof -
  have c: "\<not> q < x" if "\<not> p < x" for x using that assms by simp
  show "tr_baseSalaryRmb (calculateSalaryTier p m) \<le> tr_baseSalaryRmb (calculateSalaryTier q m)"
    using c [of 3000] by (simp add: calculateSalaryTier_def)
  show "tr_starAllowanceRmb (calculateSalaryTier p m) \<le> tr_starAllowanceRmb (calculateSalaryTier q m)"
    using c by (simp add: calculateSalaryTier_def)
  show "tr_commissionRate (calculateSalaryTier p m) \<le> tr_commissionRate (calculateSalaryTier q m)"
    using c by (simp add: calculateSalaryTier_def)
qed

lemma tier_bounds:
  "2500 \<le> tr_baseSalaryRmb (calculateSalaryTier p m)"
  "0 \<le> tr_starAllowanceRmb (calculateSalaryTier p m)"
  "0 \<le> tr_commissionRate (calculateSalaryTier p m)"
  by (simp_all add: calculateSalaryTier_def)

lemma attendance_bonus_nonneg: "0 \<le> calculateAttendanceBonus a"
  by (simp add: calculateAttendanceBonus_def FULL_ATTENDANCE_BONUS_RMB_def)

text \<open>The pay of an employee as a function of the profit that earns commission.\<close>

definition salary_at :: "(rat \<Rightarrow> rat) \<Rightarrow> salary_mode \<Rightarrow> rat \<Rightarrow> rat \<Rightarrow> rat \<Rightarrow> rat \<Rightarrow> rat \<Rightarrow> rat" where
  "salary_at rnd m exchangeRate bonus addition deduction p =
     (let tier = calculateSalaryTier p m
      in calculateFinalSalary rnd tier bonus
           (dec_times rnd (dec_times rnd p (tr_commissionRate tier)) exchangeRate) addition deduction)"

context decimal_rounding
begin

lemma dec_plus_mono: "a \<le> b \<Longrightarrow> c \<le> d \<Longrightarrow> dec_plus rnd a c \<le> dec_plus rnd b d"
  by (simp add: dec_plus_def rnd_mono)

lemma dec_minus_mono: "a \<le> b \<Longrightarrow> d \<le> c \<Longrightarrow> dec_minus rnd a c \<le> dec_minus rnd b d"
  by (simp add: dec_minus_def rnd_mono)

lemma dec_times_mono:
  "0 \<le> a \<Longrightarrow> a \<le> b \<Longrightarrow> 0 \<le> c \<Longrightarrow> c \<le> d \<Longrightarrow> dec_times rnd a c \<le> dec_times rnd b d"
  by (simp add: dec_times_def rnd_mono mult_mono)

lemma dec_times_nonneg: "0 \<le> a \<Longrightarrow> 0 \<le> b \<Longrightarrow> 0 \<le> dec_times rnd a b"
  by (simp add: dec_times_def rnd_nonneg)

lemma final_salary_mono:
  assumes "tr_baseSalaryRmb t \<le> tr_baseSalaryRmb t'" "tr_starAllowanceRmb t \<le> tr_starAllowanceRmb t'"
    and "b \<le> b'" "c \<le> c'" "a \<le> a'" "d' \<le> d"
  shows "calculateFinalSalary rnd t b c a d \<le> calculateFinalSalary rnd t' b' c' a' d'"
  unfolding calculateFinalSalary_def using assms by (intro dec_minus_mono dec_plus_mono)

lemma salary_at_mono:
  assumes "0 \<le> p" "p \<le> q" "0 \<le> exchangeRate"
  shows "salary_at rnd m exchangeRate b a d p \<le> salary_at rnd m exchangeRate b a d q"
  unfolding salary_at_def Let_def using assms tier_mono [OF assms(2), of m] tier_bounds(3) [of p m]
  by (intro final_salary_mono dec_times_mono dec_times_nonneg order_refl)

lemma base_sum_ge: "x \<le> rnd y \<Longrightarrow> 0 \<le> z \<Longrightarrow> x \<le> dec_plus rnd (rnd y) z"
  using rnd_mono [of "rnd y" "rnd y + z"] by (simp add: dec_plus_def rnd_idem)

lemma final_salary_floor:
  assumes "2500 \<le> tr_baseSalaryRmb t" "0 \<le> tr_starAllowanceRmb t" "0 \<le> b" "0 \<le> c" "0 \<le> a"
  shows "dec_minus rnd 2500 d \<le> calculateFinalSalary rnd t b c a d"
proof -
  have "rnd 2500 = 2500" using rnd_small_int [of 2500] by simp
  then have "2500 \<le> dec_plus rnd (tr_baseSalaryRmb t) (tr_starAllowanceRmb t)"
    using rnd_mono [of 2500 "tr_baseSalaryRmb t + tr_starAllowanceRmb t"] assms(1,2) by (simp add: dec_plus_def)
  then have "2500 \<le> dec_plus rnd (dec_plus rnd (dec_plus rnd
      (dec_plus rnd (tr_baseSalaryRmb t) (tr_starAllowanceRmb t)) b) c) a"
    using assms(3-5) base_sum_ge unfolding dec_plus_def by metis
  then show ?thesis unfolding calculateFinalSalary_def by (rule dec_minus_mono) simp
qed

end

lemma carryover_rule:
  assumes "c = applyNegativeCarryover rnd p h"
  shows "0 \<le> nc_commissionProfitUsd c" "0 \<le> nc_remainingNegativeProfitUsd c"
    and "nc_commissionProfitUsd c = 0 \<or> nc_remainingNegativeProfitUsd c = 0"
    and "nc_commissionProfitUsd c - nc_remainingNegativeProfitUsd c = rnd (p - h)"
  using assms by (auto simp: applyNegativeCarryover_def Let_def dec_minus_def)

section \<open>Groups\<close>

lemma group_of_employee:
  assumes "distinct (map mb_employeeId ms)"
  shows "map_of (buildGroupsByEmployee ms) e = Some m \<longleftrightarrow> m \<in> set ms \<and> mb_employeeId m = e"
proof -
  have d: "distinct (map fst (rev (map (\<lambda>m. (mb_employeeId m, m)) ms)))"
  proof -
    have "map fst (rev (map (\<lambda>m. (mb_employeeId m, m)) ms)) = rev (map mb_employeeId ms)"
      by (simp add: rev_map comp_def)
    then show ?thesis using assms by (simp only: distinct_rev)
  qed
  show ?thesis
    unfolding buildGroupsByEmployee_def map_of_map_of_entries map_of_eq_Some_iff [OF d] by auto
qed

context decimal_rounding
begin

lemma allocation_error:
  "\<bar>sum_list (map (dec_times rnd t) xs) - t * sum_list xs\<bar> * 10 ^ digits \<le> 5 * \<bar>t\<bar> * sum_list (map abs xs)"
proof (induction xs)
  case (Cons x xs)
  let ?d = "sum_list (map (dec_times rnd t) xs) - t * sum_list xs"
  have "sum_list (map (dec_times rnd t) (x # xs)) - t * sum_list (x # xs) = (rnd (t * x) - t * x) + ?d"
    by (simp add: dec_times_def distrib_left)
  then have "\<bar>sum_list (map (dec_times rnd t) (x # xs)) - t * sum_list (x # xs)\<bar> * 10 ^ digits
      \<le> (\<bar>rnd (t * x) - t * x\<bar> + \<bar>?d\<bar>) * 10 ^ digits"
    by (simp add: mult_right_mono abs_triangle_ineq)
  also have "\<dots> \<le> 5 * \<bar>t * x\<bar> + 5 * \<bar>t\<bar> * sum_list (map abs xs)"
    using rnd_error [of "t * x"] Cons by (simp add: distrib_right)
  finally show ?case by (simp add: abs_mult distrib_left)
qed simp

text \<open>Ratios that pass the precheck really sum to one: their sum is in the exact range.\<close>

lemma ratios_sum_one:
  assumes "list_all (\<lambda>x. scaled 6 x \<and> 0 \<le> x) xs" "sum_list xs < 10 ^ 14" "dec_sum rnd xs = 1"
  shows "sum_list xs = 1" "sum_list (map abs xs) = 1"
proof -
  have abs: "sum_list (map abs xs) = sum_list xs"
    using assms(1) by (induction xs) auto
  have "sum_list xs * 10 ^ 6 < 10 ^ 14 * 10 ^ 6" using assms(2) by (rule mult_strict_right_mono) simp
  then have "sum_list (map abs xs) * 10 ^ 6 < 10 ^ 20" by (simp add: abs)
  moreover have "list_all (scaled 6) xs" using assms(1) by (auto simp: list_all_iff)
  ultimately have "dec_sum rnd xs = sum_list xs" by (rule dec_sum_exact [rotated])
  then show "sum_list xs = 1" "sum_list (map abs xs) = 1" using assms(3) abs by simp_all
qed

end

text \<open>The original profit the results record for an employee.\<close>

definition result_profit :: "calculation_result list \<Rightarrow> string \<Rightarrow> rat" where
  "result_profit rs e =
     (case find (\<lambda>r. cr_employeeId r = e) rs of None \<Rightarrow> 0 | Some r \<Rightarrow> ep_originalProfitUsd (cr_profit r))"

definition members_of :: "string \<Rightarrow> calculation_input \<Rightarrow> member_input list" where
  "members_of g input = filter (\<lambda>m. mb_groupId m = g) (ci_groupMembers input)"

definition allocated_to_group :: "string \<Rightarrow> calculation_result list \<Rightarrow> rat" where
  "allocated_to_group g rs = sum_list (map cr_allocatedProfitUsd (filter (\<lambda>r. cr_groupId r = Some g) rs))"

lemma result_of_employee:
  assumes "calculate rnd input = Inr rs"
  shows "\<exists>F. rs = map F (sort (collectEmployeeIds input)) \<and>
    (\<forall>e. cr_employeeId (F e) = e
       \<and> cr_groupId (F e) = map_option mb_groupId (map_of (buildGroupsByEmployee (ci_groupMembers input)) e)
       \<and> ep_originalProfitUsd (cr_profit (F e)) =
            original_profit_of (calculateEmployeeProfits rnd input (collectEmployeeIds input)) e
       \<and> (\<forall>m. map_of (buildGroupsByEmployee (ci_groupMembers input)) e = Some m \<longrightarrow>
            cr_allocatedProfitUsd (F e) = dec_times rnd
              (get_or_zero (calculateGroupTotals rnd (ci_groupMembers input)
                 (calculateEmployeeProfits rnd input (collectEmployeeIds input))) (mb_groupId m))
              (mb_allocationRatio m)))"
  using calculate_Inr [OF assms]
  by (intro exI conjI allI, blast)
    (auto simp: calculate_employee_def Let_def original_profit_of_def emptyEmployeeProfit_def split: option.splits)

lemma find_map_id:
  assumes "\<And>x. f (F x) = x"
  shows "find (\<lambda>r. f r = e) (map F xs) = (if e \<in> set xs then Some (F e) else None)"
  using assms by (induction xs) auto

lemma allocated_group_sum:
  fixes g :: string
  assumes calc: "calculate rnd input = Inr rs"
  defines "T \<equiv> dec_sum rnd (map (\<lambda>m. result_profit rs (mb_employeeId m)) (members_of g input))"
  shows "allocated_to_group g rs = sum_list (map (dec_times rnd T) (map mb_allocationRatio (members_of g input)))"
proof -
  let ?ms = "ci_groupMembers input" and ?ids = "collectEmployeeIds input"
  let ?P = "calculateEmployeeProfits rnd input ?ids"
  let ?grp = "map_of (buildGroupsByEmployee ?ms)"
  have d: "distinct (map mb_employeeId ?ms)"
    using calculate_Inr [OF calc] precheck_Inr by blast
  obtain F where rs: "rs = map F (sort ?ids)" and F: "\<And>e. cr_employeeId (F e) = e"
    "\<And>e. cr_groupId (F e) = map_option mb_groupId (?grp e)"
    "\<And>e. ep_originalProfitUsd (cr_profit (F e)) = original_profit_of ?P e"
    "\<And>e m. ?grp e = Some m \<Longrightarrow> cr_allocatedProfitUsd (F e) =
        dec_times rnd (get_or_zero (calculateGroupTotals rnd ?ms ?P) (mb_groupId m)) (mb_allocationRatio m)"
    using result_of_employee [OF calc] by blast
  have act: "has_activity input (mb_employeeId m)" if "m \<in> set ?ms" for m
    using that by (auto simp: has_activity_def list_ex_iff)
  have prof: "result_profit rs (mb_employeeId m) = original_profit_of ?P (mb_employeeId m)" if "m \<in> set ?ms" for m
    using act [OF that] F(3) by (simp add: result_profit_def rs find_map_id [of cr_employeeId F, OF F(1)] set_collectEmployeeIds)
  have T: "get_or_zero (calculateGroupTotals rnd ?ms ?P) g = T"
  proof -
    have "map (\<lambda>m. result_profit rs (mb_employeeId m)) (members_of g input) =
        map (\<lambda>m. original_profit_of ?P (mb_employeeId m)) (members_of g input)"
      by (rule map_cong) (auto simp: members_of_def prof)
    then have "T = dec_sum rnd (map (\<lambda>m. original_profit_of ?P (mb_employeeId m)) (members_of g input))"
      by (simp only: T_def)
    then show ?thesis by (simp add: group_totals_fold get_fold_add members_of_def dec_sum_def)
  qed
  define E where "E = {e \<in> set ?ids. cr_groupId (F e) = Some g}"
  have E: "E = mb_employeeId ` set (members_of g input)"
    using act by (auto simp: E_def F(2) members_of_def set_collectEmployeeIds group_of_employee [OF d])
  have inj: "inj_on mb_employeeId (set (members_of g input))"
    using d by (auto simp: distinct_map members_of_def intro: inj_on_subset)
  have "allocated_to_group g rs = (\<Sum>e\<in>E. cr_allocatedProfitUsd (F e))"
  proof -
    have "allocated_to_group g rs =
        sum_list (map (\<lambda>e. cr_allocatedProfitUsd (F e)) (filter (\<lambda>e. cr_groupId (F e) = Some g) (sort ?ids)))"
      by (simp add: allocated_to_group_def rs filter_map comp_def)
    also have "\<dots> = (\<Sum>e\<in>E. cr_allocatedProfitUsd (F e))"
      using distinct_collectEmployeeIds by (subst sum_list_distinct_conv_sum_set) (simp_all add: E_def)
    finally show ?thesis .
  qed
  also have "\<dots> = (\<Sum>m\<in>set (members_of g input). cr_allocatedProfitUsd (F (mb_employeeId m)))"
    unfolding E using inj by (simp add: sum.reindex)
  also have "\<dots> = (\<Sum>m\<in>set (members_of g input). dec_times rnd T (mb_allocationRatio m))"
  proof (rule sum.cong)
    fix m assume m: "m \<in> set (members_of g input)"
    then have "?grp (mb_employeeId m) = Some m" by (simp add: group_of_employee [OF d] members_of_def)
    then show "cr_allocatedProfitUsd (F (mb_employeeId m)) = dec_times rnd T (mb_allocationRatio m)"
      using F(4) m by (simp add: members_of_def flip: T)
  qed simp
  also have "\<dots> = sum_list (map (\<lambda>m. dec_times rnd T (mb_allocationRatio m)) (members_of g input))"
  proof -
    have "distinct ?ms" using d by (simp add: distinct_map)
    then show ?thesis by (subst sum_list_distinct_conv_sum_set) (simp_all add: members_of_def)
  qed
  finally show ?thesis by (simp add: comp_def)
qed

section \<open>Properties\<close>

text \<open>A small month: a group of two, one employee on his own with a historical loss.\<close>

definition sample_input :: calculation_input where
  "sample_input =
     \<lparr>ci_settlementMonth = 1769904000000, ci_exchangeRate = 7, ci_employeeIds = [''c''],
      ci_incomeRecords =
        [\<lparr>in_employeeId = Some ''b'', in_incomeUsd = 6000, in_status = CS_confirmed\<rparr>,
         \<lparr>in_employeeId = Some ''a'', in_incomeUsd = 3000, in_status = CS_confirmed\<rparr>,
         \<lparr>in_employeeId = None, in_incomeUsd = 90, in_status = CS_draft\<rparr>,
         \<lparr>in_employeeId = Some ''c'', in_incomeUsd = 400, in_status = CS_confirmed\<rparr>],
      ci_apiCardSpendEvents =
        [\<lparr>as_employeeId = Some ''a'', as_provider = airwallex, as_spendUsd = 1000, as_status = CS_confirmed\<rparr>],
      ci_cardProviderFeeRates = [\<lparr>fi_provider = airwallex, fi_feeRate = 1 / 100\<rparr>],
      ci_manualCardSpendEntries = [\<lparr>mi_employeeId = ''b'', mi_actualSpendUsd = 500, mi_status = SS_confirmed\<rparr>],
      ci_groupMembers =
        [\<lparr>mb_groupId = ''g'', mb_employeeId = ''a'', mb_allocationRatio = 1 / 4\<rparr>,
         \<lparr>mb_groupId = ''g'', mb_employeeId = ''b'', mb_allocationRatio = 3 / 4\<rparr>],
      ci_historicalNegativeProfits = [\<lparr>hi_employeeId = ''c'', hi_amountUsd = 1000, hi_status = CS_active\<rparr>],
      ci_salaryManualItems =
        [\<lparr>st_employeeId = ''c'', st_amountRmb = 120, st_status = CS_active, st_itemType = SI_deduction\<rparr>],
      ci_attendanceByEmployeeId = [(''c'', ''absent'')]\<rparr>"

definition sample_results :: "calculation_result list" where
  "sample_results = (case calculate exact_round sample_input of Inl _ \<Rightarrow> [] | Inr rs \<Rightarrow> rs)"

lemma sample_run:
  "case calculate exact_round sample_input of Inl _ \<Rightarrow> False
   | Inr rs \<Rightarrow> map (\<lambda>r. (cr_employeeId r, cr_groupId r, cr_commissionProfitUsd r, cr_manualDeductionRmb r, cr_finalSalaryRmb r)) rs =
     [(''a'', Some ''g'', 3745 / 2, 0, 3000), (''b'', Some ''g'', 11235 / 2, 0, 127187 / 20), (''c'', None, 0, 120, 2380)]"
  by code_simp

lemma sample_calculates: "calculate exact_round sample_input = Inr sample_results"
  using sample_run by (auto simp: sample_results_def split: sum.splits)

lemma sample_values:
  "map (\<lambda>r. (cr_employeeId r, cr_groupId r, cr_commissionProfitUsd r, cr_manualDeductionRmb r, cr_finalSalaryRmb r)) sample_results =
     [(''a'', Some ''g'', 3745 / 2, 0, 3000), (''b'', Some ''g'', 11235 / 2, 0, 127187 / 20), (''c'', None, 0, 120, 2380)]"
  using sample_run by (simp add: sample_calculates)

text \<open>
  The calculator accepts exactly the consistent inputs: every confirmed income and card
  event has an employee, every provider with confirmed spend has a fee rate, nobody is in
  two groups, and the ratios of every group sum to one. Any other input is refused with
  SETTLEMENT_PRECHECK_FAILED.
\<close>

theorem calculate_accepts_consistent_input:
  "(case calculate rnd input of
      Inl e \<Rightarrow> \<exists>msg. e = AppError SETTLEMENT_PRECHECK_FAILED msg
    | Inr rs \<Rightarrow> True)
   \<and> ((\<exists>rs. calculate rnd input = Inr rs) =
      (list_all (\<lambda>r. has_employee (in_employeeId r))
         (filter (\<lambda>r. in_status r = CS_confirmed) (ci_incomeRecords input))
       \<and> list_all (\<lambda>e. has_employee (as_employeeId e) \<and> as_provider e \<in> fi_provider ` set (ci_cardProviderFeeRates input))
           (filter (\<lambda>e. as_status e = CS_confirmed) (ci_apiCardSpendEvents input))
       \<and> distinct (map mb_employeeId (ci_groupMembers input))
       \<and> list_all (\<lambda>m. dec_sum rnd (group_ratios (mb_groupId m) input) = 1) (ci_groupMembers input)))"
proof (rule conjI)
  show "case calculate rnd input of
      Inl e \<Rightarrow> \<exists>msg. e = AppError SETTLEMENT_PRECHECK_FAILED msg | Inr rs \<Rightarrow> True"
    by (cases "precheck rnd input") (auto simp: calculate_def Let_def dest: precheck_Inl)
next
  have "(\<exists>rs. calculate rnd input = Inr rs) = (precheck rnd input = Inr ())"
    by (auto simp: calculate_def Let_def bind_res_Inr_iff)
  then show "(\<exists>rs. calculate rnd input = Inr rs) =
      (list_all (\<lambda>r. has_employee (in_employeeId r))
         (filter (\<lambda>r. in_status r = CS_confirmed) (ci_incomeRecords input))
       \<and> list_all (\<lambda>e. has_employee (as_employeeId e) \<and> as_provider e \<in> fi_provider ` set (ci_cardProviderFeeRates input))
           (filter (\<lambda>e. as_status e = CS_confirmed) (ci_apiCardSpendEvents input))
       \<and> distinct (map mb_employeeId (ci_groupMembers input))
       \<and> list_all (\<lambda>m. dec_sum rnd (group_ratios (mb_groupId m) input) = 1) (ci_groupMembers input))"
    unfolding precheck_Inr list_all_iff set_filter by blast
qed

text \<open>
  A calculation returns one result per employee with activity (named in the request,
  confirmed income or spend, a group membership, an active historical loss or salary item),
  no employee twice, in the order of the identifiers.
\<close>

theorem calculate_one_result_per_employee:
  assumes "calculate rnd input = Inr rs"
  shows "sorted (map cr_employeeId rs) \<and> distinct (map cr_employeeId rs)
    \<and> set (map cr_employeeId rs) = {e. has_activity input e}"
proof -
  have "map cr_employeeId rs = sort (collectEmployeeIds input)"
    using calculate_Inr [OF assms] by (simp add: comp_def)
  then show ?thesis using distinct_collectEmployeeIds by (simp add: set_collectEmployeeIds)
qed

theorem calculate_one_result_per_employee_witness:
  "sorted [''a'', ''b'', ''c''] \<and> {''a'', ''b'', ''c''} = {e. has_activity sample_input e}"
proof -
  have "map fst (map (\<lambda>r. (cr_employeeId r, cr_groupId r, cr_commissionProfitUsd r,
      cr_manualDeductionRmb r, cr_finalSalaryRmb r)) sample_results) = [''a'', ''b'', ''c'']"
    unfolding sample_values by simp
  then have "map cr_employeeId sample_results = [''a'', ''b'', ''c'']" by (simp add: comp_def)
  then show ?thesis
    using calculate_one_result_per_employee [OF sample_calculates] by simp
qed

text \<open>
  C5: While an employee's amounts stay in the exact range, the profit computed through the
  maps is the exact one: confirmed income, minus confirmed card spend with the fee of its
  provider on top, minus confirmed manual spend.
\<close>

theorem calculate_profit_exact:
  assumes "decimal_rounding rnd digits" and "calculate rnd input = Inr rs"
    and "has_activity input e" "e \<noteq> []" "amounts_in_range e input"
  shows "result_profit rs e = exact_profit e input"
proof -
  obtain F where rs: "rs = map F (sort (collectEmployeeIds input))" and F: "\<And>e. cr_employeeId (F e) = e"
    "\<And>e. ep_originalProfitUsd (cr_profit (F e)) =
        original_profit_of (calculateEmployeeProfits rnd input (collectEmployeeIds input)) e"
    using result_of_employee [OF assms(2)] by blast
  show ?thesis
    using decimal_rounding.original_profit_exact [OF assms(1), of e "collectEmployeeIds input" input] assms(3-5)
    by (simp add: result_profit_def rs find_map_id [of cr_employeeId F, OF F(1)] F(2) set_collectEmployeeIds)
qed

theorem calculate_profit_exact_witness: "result_profit sample_results ''a'' = 1990"
proof -
  have r: "amounts_in_range ''a'' sample_input" and x: "exact_profit ''a'' sample_input = 1990"
    and h: "has_activity sample_input ''a''"
  proof -
    have i: "own_income ''a'' sample_input = [3000]" "own_manual_spend ''a'' sample_input = []"
      and e: "own_api_events ''a'' sample_input =
        [\<lparr>as_employeeId = Some ''a'', as_provider = airwallex, as_spendUsd = 1000, as_status = CS_confirmed\<rparr>]"
      and f: "fee_rate_of sample_input airwallex = 1 / 100"
      by (simp_all add: own_income_def own_manual_spend_def own_api_events_def fee_rate_of_def sample_input_def)
    have s: "scaled 6 3000" "scaled 6 1000" "scaled 6 (1 / 100)"
      unfolding scaled_def by (rule exI [of _ 3000000000], simp, rule exI [of _ 1000000000], simp,
        rule exI [of _ 10000], simp)
    show "amounts_in_range ''a'' sample_input" "exact_profit ''a'' sample_input = 1990"
      using s by (simp_all add: amounts_in_range_def exact_profit_def i e f)
    show "has_activity sample_input ''a''" by (simp add: has_activity_def sample_input_def)
  qed
  show ?thesis
    using calculate_profit_exact [OF exact_decimal.decimal_rounding_axioms sample_calculates h _ r] x by simp
qed

text \<open>
  C3: Commission profit and remaining loss are the two halves of one number: neither is
  negative, at most one is not zero, and their difference is the allocated profit minus
  the historical loss, so no loss is dropped and none is charged twice.
\<close>

theorem carryover_keeps_every_loss:
  assumes "calculate rnd input = Inr rs" and "r \<in> set rs"
  shows "0 \<le> cr_commissionProfitUsd r \<and> 0 \<le> cr_remainingNegativeProfitUsd r
    \<and> (cr_commissionProfitUsd r = 0 \<or> cr_remainingNegativeProfitUsd r = 0)
    \<and> cr_commissionProfitUsd r - cr_remainingNegativeProfitUsd r =
        rnd (cr_allocatedProfitUsd r - dec_sum rnd (map hi_amountUsd
          (filter (\<lambda>h. counts_active (hi_status h) \<and> hi_employeeId h = cr_employeeId r)
             (ci_historicalNegativeProfits input))))"
proof -
  obtain e where r: "r = calculate_employee rnd input
      (calculateEmployeeProfits rnd input (collectEmployeeIds input))
      (buildGroupsByEmployee (ci_groupMembers input))
      (calculateGroupTotals rnd (ci_groupMembers input) (calculateEmployeeProfits rnd input (collectEmployeeIds input)))
      (sumHistoricalNegativeProfits rnd (ci_historicalNegativeProfits input))
      (sumManualSalaryItems rnd (ci_salaryManualItems input)) e"
    using calculate_Inr [OF assms(1)] assms(2) by auto
  define c where "c = applyNegativeCarryover rnd (cr_allocatedProfitUsd r) (dec_sum rnd (map hi_amountUsd
          (filter (\<lambda>h. counts_active (hi_status h) \<and> hi_employeeId h = cr_employeeId r)
             (ci_historicalNegativeProfits input))))"
  have "cr_commissionProfitUsd r = nc_commissionProfitUsd c"
    and "cr_remainingNegativeProfitUsd r = nc_remainingNegativeProfitUsd c"
    unfolding c_def r by (simp_all add: calculate_employee_def Let_def historical_fold get_fold_add dec_sum_def)
  then show ?thesis using carryover_rule [OF c_def] by simp
qed

theorem carryover_keeps_every_loss_witness:
  "list_all (\<lambda>r. cr_commissionProfitUsd r = 0 \<or> cr_remainingNegativeProfitUsd r = 0) sample_results"
  unfolding list_all_iff using carryover_keeps_every_loss [OF sample_calculates] by blast

text \<open>
  C15: Earning more never pays less: with the same mode, exchange rate, bonus and manual
  items, the final salary grows with the commission profit, across every tier boundary.
\<close>

theorem salary_grows_with_profit:
  assumes "decimal_rounding rnd digits" and "0 \<le> p" "p \<le> q" and "0 \<le> exchangeRate"
  shows "calculateFinalSalary rnd (calculateSalaryTier p m) bonus
      (dec_times rnd (dec_times rnd p (tr_commissionRate (calculateSalaryTier p m))) exchangeRate) addition deduction
    \<le> calculateFinalSalary rnd (calculateSalaryTier q m) bonus
      (dec_times rnd (dec_times rnd q (tr_commissionRate (calculateSalaryTier q m))) exchangeRate) addition deduction"
  using decimal_rounding.salary_at_mono [OF assms] by (simp add: salary_at_def Let_def)

theorem salary_grows_with_profit_witness:
  "calculateFinalSalary (decimal_round 20) (calculateSalaryTier 2999 SM_single) 500
      (dec_times (decimal_round 20)
        (dec_times (decimal_round 20) 2999 (tr_commissionRate (calculateSalaryTier 2999 SM_single))) 7) 0 0
    \<le> calculateFinalSalary (decimal_round 20) (calculateSalaryTier 5000 SM_single) 500
      (dec_times (decimal_round 20)
        (dec_times (decimal_round 20) 5000 (tr_commissionRate (calculateSalaryTier 5000 SM_single))) 7) 0 0"
  using salary_grows_with_profit [OF decimal20.decimal_rounding_axioms, of 2999 5000 7 SM_single 500 0 0] by simp

text \<open>
  Nobody falls below the base salary through commission, attendance or manual
  additions: the final salary is at least 2500 minus the employee's manual deductions.
\<close>

theorem final_salary_at_least_base:
  assumes "decimal_rounding rnd digits" and "calculate rnd input = Inr rs" and "r \<in> set rs"
    and "0 \<le> ci_exchangeRate input" and "0 \<le> cr_manualAdditionRmb r"
  shows "dec_minus rnd 2500 (cr_manualDeductionRmb r) \<le> cr_finalSalaryRmb r"
proof -
  obtain e where r: "r = calculate_employee rnd input
      (calculateEmployeeProfits rnd input (collectEmployeeIds input))
      (buildGroupsByEmployee (ci_groupMembers input))
      (calculateGroupTotals rnd (ci_groupMembers input) (calculateEmployeeProfits rnd input (collectEmployeeIds input)))
      (sumHistoricalNegativeProfits rnd (ci_historicalNegativeProfits input))
      (sumManualSalaryItems rnd (ci_salaryManualItems input)) e"
    using calculate_Inr [OF assms(2)] assms(3) by auto
  have p: "0 \<le> cr_commissionProfitUsd r"
    unfolding r by (simp add: calculate_employee_def Let_def carryover_rule)
  have c: "cr_commissionRmb r = dec_times rnd (dec_times rnd (cr_commissionProfitUsd r)
      (tr_commissionRate (calculateSalaryTier (cr_commissionProfitUsd r) (cr_salaryMode r)))) (ci_exchangeRate input)"
    and f: "cr_finalSalaryRmb r = calculateFinalSalary rnd
      (calculateSalaryTier (cr_commissionProfitUsd r) (cr_salaryMode r))
      (calculateAttendanceBonus (cr_attendanceStatus r)) (cr_commissionRmb r)
      (cr_manualAdditionRmb r) (cr_manualDeductionRmb r)"
    unfolding r by (simp_all add: calculate_employee_def Let_def)
  show ?thesis
    unfolding f c
    using p assms(4,5) tier_bounds attendance_bonus_nonneg
    by (intro decimal_rounding.final_salary_floor [OF assms(1)] decimal_rounding.dec_times_nonneg [OF assms(1)])
qed

lemma sample_c: "\<exists>r \<in> set sample_results. cr_employeeId r = ''c'' \<and> cr_manualAdditionRmb r = 0
    \<and> cr_manualDeductionRmb r = 120"
proof (rule bexI [of _ "sample_results ! 2"])
  show "sample_results ! 2 \<in> set sample_results"
  proof (rule nth_mem)
    show "2 < length sample_results" by code_simp
  qed
  show "cr_employeeId (sample_results ! 2) = ''c'' \<and> cr_manualAdditionRmb (sample_results ! 2) = 0
    \<and> cr_manualDeductionRmb (sample_results ! 2) = 120" by code_simp
qed

theorem final_salary_at_least_base_witness:
  "\<exists>r \<in> set sample_results. cr_employeeId r = ''c'' \<and> 2380 \<le> cr_finalSalaryRmb r"
proof -
  obtain r where r: "r \<in> set sample_results" "cr_employeeId r = ''c''" "cr_manualAdditionRmb r = 0"
      "cr_manualDeductionRmb r = 120"
    using sample_c by blast
  have "dec_minus exact_round 2500 (cr_manualDeductionRmb r) \<le> cr_finalSalaryRmb r"
    using r by (intro final_salary_at_least_base [OF exact_decimal.decimal_rounding_axioms sample_calculates])
      (simp_all add: sample_input_def)
  then show ?thesis using r by (auto simp: dec_minus_def exact_round_def)
qed

text \<open>
  C4: A group hands out what it earned. The members' allocated profits add up to the
  group's total profit but for the rounding of the products, whose sum is within five units
  of the last kept digit of the total; the bound does not grow with the group.
\<close>

theorem group_allocation_conserves_profit:
  assumes "decimal_rounding rnd digits" and calc: "calculate rnd input = Inr rs"
    and "members_of g input \<noteq> []"
    and "list_all (\<lambda>x. scaled 6 x \<and> 0 \<le> x) (group_ratios g input)" "sum_list (group_ratios g input) < 10 ^ 14"
  shows "let T = dec_sum rnd (map (\<lambda>m. result_profit rs (mb_employeeId m)) (members_of g input))
    in \<bar>allocated_to_group g rs - T\<bar> * 10 ^ digits \<le> 5 * \<bar>T\<bar>"
proof -
  define T where "T = dec_sum rnd (map (\<lambda>m. result_profit rs (mb_employeeId m)) (members_of g input))"
  have eq: "group_ratios g input = map mb_allocationRatio (members_of g input)"
    by (simp add: group_ratios_def members_of_def)
  obtain m where "m \<in> set (ci_groupMembers input)" "mb_groupId m = g"
    using assms(3) by (auto simp: members_of_def filter_empty_conv)
  then have "dec_sum rnd (group_ratios g input) = 1"
    using calculate_Inr [OF calc] precheck_Inr by blast
  then have one: "sum_list (group_ratios g input) = 1" "sum_list (map abs (group_ratios g input)) = 1"
    using decimal_rounding.ratios_sum_one [OF assms(1,4,5)] by auto
  have "allocated_to_group g rs = sum_list (map (dec_times rnd T) (group_ratios g input))"
    unfolding T_def eq by (rule allocated_group_sum [OF calc])
  then show ?thesis
    using decimal_rounding.allocation_error [OF assms(1), of T "group_ratios g input"] one
    by (simp flip: T_def)
qed

theorem group_allocation_conserves_profit_witness:
  "let T = dec_sum exact_round (map (\<lambda>m. result_profit sample_results (mb_employeeId m)) (members_of ''g'' sample_input))
    in \<bar>allocated_to_group ''g'' sample_results - T\<bar> * 10 ^ 20 \<le> 5 * \<bar>T\<bar>"
proof -
  have g: "group_ratios ''g'' sample_input = [1 / 4, 3 / 4]" and n: "members_of ''g'' sample_input \<noteq> []"
    by (simp_all add: group_ratios_def members_of_def sample_input_def)
  have s: "scaled 6 (1 / 4)" "scaled 6 (3 / 4)"
    unfolding scaled_def by (rule exI [of _ 250000], simp, rule exI [of _ 750000], simp)
  show ?thesis
    by (rule group_allocation_conserves_profit [OF exact_decimal.decimal_rounding_axioms sample_calculates n])
      (simp_all add: g s)
qed

end
