(* ===== verification/Cake_Metadata.thy ===== *)
theory Cake_Metadata
  imports Base_Data
begin

text \<open>
  \<open>cake-income-adjustments/cake-income-adjustment.utils.ts\<close>: the metadata a CAKE income
  adjustment keeps in the JSON column of its income record, its external identifier and the
  test whether it has gone stale. The SHA-256 digest is \<open>rt_sha256_hex\<close>.
\<close>

definition CAKE_BASE_SOURCE :: string where
  "CAKE_BASE_SOURCE = ''cake''"

definition CAKE_ADJUSTMENT_SOURCE :: string where
  "CAKE_ADJUSTMENT_SOURCE = ''cake_adjustment''"

definition CAKE_SUB_FIELD :: string where
  "CAKE_SUB_FIELD = ''sub1''"

record cake_metadata =
  cm_baseRevenueUsd :: string
  cm_targetRevenueUsd :: string
  cm_adjustmentUsd :: string
  cm_reason :: string
  cm_stale :: bool
  cm_staleReason :: jsval
  cm_previousBaseRevenueUsd :: jsval
  cm_currentBaseRevenueUsd :: jsval

definition cakeAdjustmentExternalRecordId :: "runtime \<Rightarrow> string \<Rightarrow> int \<Rightarrow> string \<Rightarrow> string" where
  "cakeAdjustmentExternalRecordId rt affiliateAccountId settlementMonth subValue =
     CAKE_ADJUSTMENT_SOURCE @ '':'' @
       rt_sha256_hex rt (affiliateAccountId @ ''|'' @ take 7 (iso_string settlementMonth) @ ''|'' @ subValue)"

definition buildCakeAdjustmentMetadata :: "runtime \<Rightarrow> rat \<Rightarrow> rat \<Rightarrow> rat \<Rightarrow> string \<Rightarrow> jsval" where
  "buildCakeAdjustmentMetadata rt baseRevenueUsd actualRevenueUsd adjustmentUsd reason =
     JObject
       [(''kind'', JString ''cake_sub_revenue_adjustment''),
        (''basis'', JString ''manual_china_standard_time''),
        (''providerTimezone'', JString ''cake_system_default''),
        (''settlementTimezone'', JString ''Asia/Shanghai''),
        (''baseRevenueUsd'', JString (rt_show_decimal rt baseRevenueUsd)),
        (''targetRevenueUsd'', JString (rt_show_decimal rt actualRevenueUsd)),
        (''adjustmentUsd'', JString (rt_show_decimal rt adjustmentUsd)),
        (''beforeRevenueUsd'', JString (rt_show_decimal rt baseRevenueUsd)),
        (''afterRevenueUsd'', JString (rt_show_decimal rt actualRevenueUsd)),
        (''reason'', JString reason),
        (''stale'', JBool False)]"

definition readCakeAdjustmentMetadata :: "jsval \<Rightarrow> cake_metadata option" where
  "readCakeAdjustmentMetadata rawData =
     (case rawData of
        JObject value \<Rightarrow>
          (if js_get value ''kind'' \<noteq> JString ''cake_sub_revenue_adjustment'' then None
           else case (js_string_opt (js_get value ''baseRevenueUsd''),
                      js_string_opt (js_get value ''targetRevenueUsd''),
                      js_string_opt (js_get value ''adjustmentUsd''),
                      js_string_opt (js_get value ''reason'')) of
                  (Some b, Some t, Some a, Some r) \<Rightarrow>
                    Some \<lparr>cm_baseRevenueUsd = b, cm_targetRevenueUsd = t, cm_adjustmentUsd = a,
                          cm_reason = r, cm_stale = (js_get value ''stale'' = JBool True),
                          cm_staleReason = js_get value ''staleReason'',
                          cm_previousBaseRevenueUsd = js_get value ''previousBaseRevenueUsd'',
                          cm_currentBaseRevenueUsd = js_get value ''currentBaseRevenueUsd''\<rparr>
                | _ \<Rightarrow> None)
      | _ \<Rightarrow> None)"

definition isStaleCakeAdjustment :: "jsval \<Rightarrow> bool" where
  "isStaleCakeAdjustment rawData =
     (case readCakeAdjustmentMetadata rawData of None \<Rightarrow> False | Some m \<Rightarrow> cm_stale m)"

text \<open>What is built can be read back, and is fresh.\<close>

lemma read_built_metadata:
  "\<exists>m. readCakeAdjustmentMetadata (buildCakeAdjustmentMetadata rt b t a r) = Some m
     \<and> cm_baseRevenueUsd m = rt_show_decimal rt b \<and> cm_targetRevenueUsd m = rt_show_decimal rt t
     \<and> cm_adjustmentUsd m = rt_show_decimal rt a \<and> cm_reason m = r \<and> \<not> cm_stale m"
  by (simp add: readCakeAdjustmentMetadata_def buildCakeAdjustmentMetadata_def js_get_def)

lemma built_metadata_fresh: "\<not> isStaleCakeAdjustment (buildCakeAdjustmentMetadata rt b t a r)"
  using read_built_metadata [of rt b t a r] by (auto simp: isStaleCakeAdjustment_def)

end
