(* ===== verification/Settlement_Preflight.thy ===== *)
theory Settlement_Preflight
  imports Cake_Metadata
begin

text \<open>
  \<open>settlement/settlement-preflight.service.ts\<close>: the checks a month must pass before its
  settlement is generated, and the gate \<open>assertCanGenerate\<close>. The \<open>details\<close> object a check
  carries for display is not kept; its code, severity, message, count and amount are.
\<close>

section \<open>Checks\<close>

datatype severity = SV_ok | SV_warning | SV_blocking

fun CHECK_SEVERITY_ORDER :: "severity \<Rightarrow> nat" where
  "CHECK_SEVERITY_ORDER SV_ok = 0"
| "CHECK_SEVERITY_ORDER SV_warning = 1"
| "CHECK_SEVERITY_ORDER SV_blocking = 2"

record preflight_check =
  pc_code :: string
  pc_severity :: severity
  pc_message :: string
  pc_count :: "nat option"
  pc_amountUsd :: "string option"

record preflight_summary =
  ps_openUnmatchedEventCount :: nat
  ps_missingProviderFeeRateCount :: nat
  ps_missingExchangeRate :: bool
  ps_draftManualRecordCount :: nat
  ps_runningOrPendingSyncTaskCount :: nat
  ps_staleCakeAdjustmentCount :: nat
  ps_isLocked :: bool

record preflight_result =
  pr_settlementMonth :: string
  pr_canGenerate :: bool
  pr_severity :: severity
  pr_checks :: "preflight_check list"
  pr_summary :: preflight_summary

definition rate_active :: "common_status \<Rightarrow> bool" where
  "rate_active s \<longleftrightarrow> s \<in> {CS_active, CS_confirmed}"

definition buildLockedCheck :: "bool \<Rightarrow> preflight_check" where
  "buildLockedCheck locked =
     (if \<not> locked
      then \<lparr>pc_code = ''MONTH_LOCKED'', pc_severity = SV_ok,
            pc_message = ''Settlement month is not locked.'', pc_count = None, pc_amountUsd = None\<rparr>
      else \<lparr>pc_code = ''MONTH_LOCKED'', pc_severity = SV_blocking,
            pc_message = ''Settlement month is locked and cannot be regenerated.'',
            pc_count = None, pc_amountUsd = None\<rparr>)"

definition buildUnmatchedCheck :: "runtime \<Rightarrow> nat \<Rightarrow> rat option \<Rightarrow> preflight_check" where
  "buildUnmatchedCheck rt count amountUsd =
     (if count = 0
      then \<lparr>pc_code = ''OPEN_UNMATCHED_EVENTS'', pc_severity = SV_ok,
            pc_message = ''No open unmatched sync events found.'', pc_count = Some count, pc_amountUsd = None\<rparr>
      else \<lparr>pc_code = ''OPEN_UNMATCHED_EVENTS'', pc_severity = SV_warning,
            pc_message = ''Open unmatched sync events may cause salary data to be understated.'',
            pc_count = Some count, pc_amountUsd = map_option (rt_show_decimal rt) amountUsd\<rparr>)"

definition buildExchangeRateCheck :: "bool \<Rightarrow> preflight_check" where
  "buildExchangeRateCheck missingExchangeRate =
     (if \<not> missingExchangeRate
      then \<lparr>pc_code = ''MISSING_USD_CNY_EXCHANGE_RATE'', pc_severity = SV_ok,
            pc_message = ''Monthly USD/CNY exchange rate is available.'', pc_count = None, pc_amountUsd = None\<rparr>
      else \<lparr>pc_code = ''MISSING_USD_CNY_EXCHANGE_RATE'', pc_severity = SV_blocking,
            pc_message = ''Monthly USD/CNY exchange rate is required before salary generation.'',
            pc_count = None, pc_amountUsd = None\<rparr>)"

definition buildProviderFeeRateCheck :: "provider list \<Rightarrow> preflight_check" where
  "buildProviderFeeRateCheck missingProviders =
     (if length missingProviders = 0
      then \<lparr>pc_code = ''MISSING_CARD_PROVIDER_FEE_RATE'', pc_severity = SV_ok,
            pc_message = ''Monthly provider fee rates are available for confirmed API card spend.'',
            pc_count = Some 0, pc_amountUsd = None\<rparr>
      else \<lparr>pc_code = ''MISSING_CARD_PROVIDER_FEE_RATE'', pc_severity = SV_blocking,
            pc_message = ''Monthly provider fee rates are required for confirmed API card spend.'',
            pc_count = Some (length missingProviders), pc_amountUsd = None\<rparr>)"

definition buildManualDraftCheck :: "nat \<Rightarrow> preflight_check" where
  "buildManualDraftCheck count =
     (if count = 0
      then \<lparr>pc_code = ''DRAFT_MANUAL_RECORDS'', pc_severity = SV_ok,
            pc_message = ''No draft or inactive manual salary inputs found.'', pc_count = Some count, pc_amountUsd = None\<rparr>
      else \<lparr>pc_code = ''DRAFT_MANUAL_RECORDS'', pc_severity = SV_warning,
            pc_message = ''Draft or inactive manual salary inputs should be confirmed or reviewed before generation.'',
            pc_count = Some count, pc_amountUsd = None\<rparr>)"

definition buildSyncTaskCheck :: "nat \<Rightarrow> nat \<Rightarrow> preflight_check" where
  "buildSyncTaskCheck runningOrPendingCount failedCount =
     (let count = runningOrPendingCount + failedCount
      in if count = 0
         then \<lparr>pc_code = ''SYNC_TASKS_IN_PROGRESS_OR_FAILED'', pc_severity = SV_ok,
               pc_message = ''No pending, running, or failed sync tasks found for this settlement month.'',
               pc_count = Some count, pc_amountUsd = None\<rparr>
         else \<lparr>pc_code = ''SYNC_TASKS_IN_PROGRESS_OR_FAILED'', pc_severity = SV_warning,
               pc_message = ''Pending, running, or failed sync tasks may mean source data still needs review.'',
               pc_count = Some count, pc_amountUsd = None\<rparr>)"

definition buildStaleCakeAdjustmentCheck :: "nat \<Rightarrow> preflight_check" where
  "buildStaleCakeAdjustmentCheck count =
     (if count = 0
      then \<lparr>pc_code = ''STALE_CAKE_INCOME_ADJUSTMENTS'', pc_severity = SV_ok,
            pc_message = ''No CAKE monthly SUB revenue adjustments require reconfirmation.'',
            pc_count = Some count, pc_amountUsd = None\<rparr>
      else \<lparr>pc_code = ''STALE_CAKE_INCOME_ADJUSTMENTS'', pc_severity = SV_blocking,
            pc_message = ''CAKE API base revenue changed; stale monthly SUB adjustments must be reconfirmed or disabled before settlement generation.'',
            pc_count = Some count, pc_amountUsd = None\<rparr>)"

definition maxSeverity :: "severity list \<Rightarrow> severity" where
  "maxSeverity severities =
     foldl (\<lambda>max current. if CHECK_SEVERITY_ORDER max < CHECK_SEVERITY_ORDER current then current else max)
       SV_ok severities"

section \<open>Reading the month\<close>

definition missing_provider_fee_rates :: "int \<Rightarrow> database \<Rightarrow> provider list" where
  "missing_provider_fee_rates m db =
     (let confirmedProviders = js_dedup (map ce_provider
            (filter (\<lambda>e. ce_month e = m \<and> ce_status e = CS_confirmed \<and> ce_provider e \<in> {airwallex, photonpay})
               (card_spend_events db)));
          providersWithRates = map fr_provider
            (filter (\<lambda>r. fr_month r = m \<and> fr_provider r \<in> {airwallex, photonpay} \<and> rate_active (fr_status r))
               (card_fee_rates db))
      in filter (\<lambda>p. p \<notin> set providersWithRates) confirmedProviders)"

definition active_exchange_rate :: "int \<Rightarrow> database \<Rightarrow> exchange_rate option" where
  "active_exchange_rate m db = find_row (\<lambda>r. xr_month r = m \<and> rate_active (xr_status r)) (exchange_rates db)"

definition open_unmatched :: "int \<Rightarrow> database \<Rightarrow> unmatched_event list" where
  "open_unmatched m db = filter (\<lambda>e. ue_month e = m \<and> ue_status e = UE_open) (unmatched_events db)"

text \<open>SQL \<open>SUM\<close> skips nulls and is null when nothing is left.\<close>

definition sql_sum :: "rat option list \<Rightarrow> rat option" where
  "sql_sum xs = (let vs = map the (filter (\<lambda>x. x \<noteq> None) xs) in if vs = [] then None else Some (sum_list vs))"

definition readManualDraftCounts :: "int \<Rightarrow> database \<Rightarrow> nat \<times> nat \<times> nat \<times> nat" where
  "readManualDraftCounts m db =
     (length (filter (\<lambda>r. ir_month r = m \<and> ir_status r \<noteq> CS_confirmed) (income_records db)),
      length (filter (\<lambda>r. mc_month r = m \<and> mc_status r \<noteq> SS_confirmed) (manual_card_spends db)),
      length (filter (\<lambda>r. si_month r = m \<and> \<not> rate_active (si_status r)) (salary_items db)),
      length (filter (\<lambda>r. hp_month r = m \<and> \<not> rate_active (hp_status r)) (historical_profits db)))"

definition sync_task_count :: "int \<Rightarrow> sync_task_status \<Rightarrow> database \<Rightarrow> nat" where
  "sync_task_count m st db = length (filter (\<lambda>t. tk_month t = m \<and> tk_status t = st) (sync_tasks db))"

definition stale_cake_adjustments :: "int \<Rightarrow> database \<Rightarrow> income_record list" where
  "stale_cake_adjustments m db =
     filter (\<lambda>r. isStaleCakeAdjustment (ir_rawData r))
       (filter (\<lambda>r. ir_month r = m \<and> ir_source r = CAKE_ADJUSTMENT_SOURCE \<and> ir_status r \<noteq> CS_disabled)
          (income_records db))"

definition preflightCheck :: "runtime \<Rightarrow> int \<Rightarrow> database \<Rightarrow> preflight_result" where
  "preflightCheck rt settlementMonth db =
     (let isLocked = (case find_settlement settlementMonth db of None \<Rightarrow> False | Some s \<Rightarrow> ms_status s = SS_locked);
          openUnmatchedEventCount = length (open_unmatched settlementMonth db);
          missingProviderFeeRates = missing_provider_fee_rates settlementMonth db;
          missingExchangeRate = (active_exchange_rate settlementMonth db = None);
          (manualIncome, manualCardSpend, salaryManualItem, historicalNegativeProfit) = readManualDraftCounts settlementMonth db;
          draftManualRecordCount = manualIncome + manualCardSpend + salaryManualItem + historicalNegativeProfit;
          runningOrPendingSyncTaskCount =
            sync_task_count settlementMonth ST_pending db + sync_task_count settlementMonth ST_running db;
          failedSyncTaskCount = sync_task_count settlementMonth ST_failed db;
          staleCakeAdjustmentCount = length (stale_cake_adjustments settlementMonth db);
          checks =
            [buildLockedCheck isLocked,
             buildUnmatchedCheck rt openUnmatchedEventCount (sql_sum (map ue_amountUsd (open_unmatched settlementMonth db))),
             buildExchangeRateCheck missingExchangeRate,
             buildProviderFeeRateCheck missingProviderFeeRates,
             buildManualDraftCheck draftManualRecordCount,
             buildSyncTaskCheck runningOrPendingSyncTaskCount failedSyncTaskCount,
             buildStaleCakeAdjustmentCheck staleCakeAdjustmentCount];
          severity = maxSeverity (map pc_severity checks)
      in \<lparr>pr_settlementMonth = take 10 (iso_string settlementMonth),
          pr_canGenerate = (severity \<noteq> SV_blocking),
          pr_severity = severity,
          pr_checks = checks,
          pr_summary =
            \<lparr>ps_openUnmatchedEventCount = openUnmatchedEventCount,
             ps_missingProviderFeeRateCount = length missingProviderFeeRates,
             ps_missingExchangeRate = missingExchangeRate,
             ps_draftManualRecordCount = draftManualRecordCount,
             ps_runningOrPendingSyncTaskCount = runningOrPendingSyncTaskCount,
             ps_staleCakeAdjustmentCount = staleCakeAdjustmentCount,
             ps_isLocked = isLocked\<rparr>\<rparr>)"

section \<open>The gate\<close>

definition codes_with :: "severity \<Rightarrow> preflight_check list \<Rightarrow> string list" where
  "codes_with s checks = map pc_code (filter (\<lambda>c. pc_severity c = s) checks)"

text \<open>\<open>Array.isArray\<close>, and the strings among the elements of an array.\<close>

fun js_array_elements :: "jsval \<Rightarrow> jsval list option" where
  "js_array_elements (JArray vs) = Some vs"
| "js_array_elements _ = None"

definition acknowledgement_rejected :: "string list \<Rightarrow> jsval \<Rightarrow> bool" where
  "acknowledgement_rejected requiredWarningCodes acknowledgedWarningCodes =
     (let elements = js_array_elements acknowledgedWarningCodes;
          acknowledgedCodes = (case elements of None \<Rightarrow> [] | Some vs \<Rightarrow> List.map_filter js_string_opt vs);
          hasInvalidShape = (acknowledgedWarningCodes \<noteq> JUndefined \<and> elements = None);
          hasInvalidCode = (list_ex (\<lambda>code. length (js_trim code) = 0) acknowledgedCodes
            \<or> (case elements of None \<Rightarrow> False | Some vs \<Rightarrow> length acknowledgedCodes \<noteq> length vs));
          hasDuplicate = (length (js_dedup acknowledgedCodes) \<noteq> length acknowledgedCodes);
          missingWarningCodes = filter (\<lambda>code. code \<notin> set acknowledgedCodes) requiredWarningCodes;
          unknownWarningCodes = filter (\<lambda>code. code \<notin> set requiredWarningCodes) acknowledgedCodes
      in hasInvalidShape \<or> hasInvalidCode \<or> hasDuplicate
         \<or> 0 < length missingWarningCodes \<or> 0 < length unknownWarningCodes)"

definition assertCanGenerate :: "runtime \<Rightarrow> int \<Rightarrow> jsval \<Rightarrow> preflight_result handler" where
  "assertCanGenerate rt settlementMonth acknowledgedWarningCodes =
     op_bind (op_get (preflightCheck rt settlementMonth)) (\<lambda>result.
       if \<not> pr_canGenerate result \<or> pr_severity result = SV_blocking
       then op_throw (AppError SETTLEMENT_PRECHECK_FAILED ''Settlement generation is blocked by preflight checks.'')
       else if acknowledgement_rejected (codes_with SV_warning (pr_checks result)) acknowledgedWarningCodes
       then op_throw (AppError SETTLEMENT_WARNING_ACK_REQUIRED
              ''Current settlement warnings must be acknowledged exactly before generation.'')
       else op_return result)"

section \<open>The month of a request\<close>

text \<open>\<open>/^(\d{4})-(\d{2})(?:-(\d{2}))?$/\<close>, with the third group required to be 01 when it is there.\<close>

definition parseSettlementMonth :: "jsval \<Rightarrow> js_date outcome" where
  "parseSettlementMonth value =
     (case js_string_opt value of
        None \<Rightarrow> Inl (AppError VALIDATION_ERROR ''settlementMonth is required.'')
      | Some s \<Rightarrow>
          (if js_trim s = [] then Inl (AppError VALIDATION_ERROR ''settlementMonth is required.'')
           else let t = js_trim s;
                    ym = take 7 t;
                    bad = Inl (AppError VALIDATION_ERROR ''settlementMonth must use YYYY-MM or YYYY-MM-01 format.'')
                in if length ym = 7 \<and> list_all is_digit (take 4 ym) \<and> ym ! 4 = CHR ''-''
                      \<and> list_all is_digit (drop 5 ym) \<and> (drop 7 t = [] \<or> drop 7 t = ''-01'')
                   then let monthIndex = int (digits_to_nat (drop 5 ym)) - 1
                        in if monthIndex < 0 \<or> 11 < monthIndex then bad
                           else Inr (date_UTC (int (digits_to_nat (take 4 ym))) monthIndex 1)
                   else bad))"

section \<open>Facts\<close>

text \<open>What an acceptable acknowledgement of the required codes is.\<close>

definition acknowledges :: "string list \<Rightarrow> jsval \<Rightarrow> bool" where
  "acknowledges required ack \<longleftrightarrow>
     (ack = JUndefined \<and> required = [])
     \<or> (\<exists>codes. ack = JArray (map JString codes) \<and> distinct codes \<and> set codes = set required)"

lemma length_js_dedup: "length (js_dedup xs) = length xs \<longleftrightarrow> distinct xs"
proof -
  have "length (js_dedup xs) = card (set xs)"
    using distinct_card [of "js_dedup xs"] by simp
  then show ?thesis using card_distinct [of xs] distinct_card [of xs] by auto
qed

lemma map_filter_js_string: "List.map_filter js_string_opt (map JString codes) = codes"
  by (induction codes) (simp_all add: map_filter_simps)

lemma length_map_filter_le: "length (List.map_filter f xs) \<le> length xs"
  by (induction xs) (auto simp: map_filter_simps split: option.splits)

lemma all_strings_iff:
  "length (List.map_filter js_string_opt vs) = length vs \<longleftrightarrow> vs = map JString (List.map_filter js_string_opt vs)"
proof (induction vs)
  case (Cons v vs)
  then show ?case
    using length_map_filter_le [of js_string_opt vs] by (cases v) (auto simp: map_filter_simps)
qed (simp add: map_filter_simps)

lemma acknowledgement_rejected_iff:
  assumes "\<And>c. c \<in> set required \<Longrightarrow> js_trim c \<noteq> []"
  shows "\<not> acknowledgement_rejected required ack \<longleftrightarrow> acknowledges required ack"
proof (cases "js_array_elements ack")
  case None
  then have "\<not> acknowledgement_rejected required ack \<longleftrightarrow> ack = JUndefined \<and> required = []"
    by (auto simp: acknowledgement_rejected_def Let_def filter_empty_conv js_dedup_def)
  moreover have "ack \<noteq> JArray vs" for vs using None by (cases ack) auto
  ultimately show ?thesis by (auto simp: acknowledges_def)
next
  case (Some vs)
  then have ack: "ack = JArray vs" by (cases ack) auto
  let ?codes = "List.map_filter js_string_opt vs"
  have "\<not> acknowledgement_rejected required ack \<longleftrightarrow>
      list_all (\<lambda>code. js_trim code \<noteq> []) ?codes \<and> vs = map JString ?codes \<and> distinct ?codes
      \<and> set required \<subseteq> set ?codes \<and> set ?codes \<subseteq> set required"
    by (auto simp: acknowledgement_rejected_def Let_def ack length_js_dedup list_ex_iff list_all_iff
        filter_empty_conv simp flip: all_strings_iff)
  also have "\<dots> \<longleftrightarrow> vs = map JString ?codes \<and> distinct ?codes \<and> set ?codes = set required"
    using assms by (auto simp: list_all_iff)
  also have "\<dots> \<longleftrightarrow> acknowledges required ack"
    unfolding acknowledges_def ack by (metis jsval.distinct(11) jsval.inject(5) map_filter_js_string)
  finally show ?thesis .
qed

lemma max_severity_blocking:
  "maxSeverity xs = SV_blocking \<longleftrightarrow> SV_blocking \<in> set xs"
proof -
  have "foldl (\<lambda>max current. if CHECK_SEVERITY_ORDER max < CHECK_SEVERITY_ORDER current then current else max) a xs
      = SV_blocking \<longleftrightarrow> a = SV_blocking \<or> SV_blocking \<in> set xs" for a
  proof (induction xs arbitrary: a)
    case (Cons x xs)
    show ?case by (cases a; cases x) (simp_all add: Cons.IH)
  qed simp
  then show ?thesis by (simp add: maxSeverity_def)
qed

definition warning_codes :: "int \<Rightarrow> database \<Rightarrow> string list" where
  "warning_codes m db =
     (if open_unmatched m db \<noteq> [] then [''OPEN_UNMATCHED_EVENTS''] else [])
     @ (if readManualDraftCounts m db \<noteq> (0, 0, 0, 0) then [''DRAFT_MANUAL_RECORDS''] else [])
     @ (if sync_task_count m ST_pending db = 0 \<and> sync_task_count m ST_running db = 0
           \<and> sync_task_count m ST_failed db = 0 then [] else [''SYNC_TASKS_IN_PROGRESS_OR_FAILED''])"

definition not_blocked :: "int \<Rightarrow> database \<Rightarrow> bool" where
  "not_blocked m db \<longleftrightarrow>
     \<not> month_locked m db
   \<and> list_ex (\<lambda>r. xr_month r = m \<and> rate_active (xr_status r)) (exchange_rates db)
   \<and> list_all (\<lambda>e. ce_month e \<noteq> m \<or> ce_status e \<noteq> CS_confirmed
        \<or> list_ex (\<lambda>r. fr_month r = m \<and> fr_provider r = ce_provider e \<and> rate_active (fr_status r)) (card_fee_rates db))
       (card_spend_events db)
   \<and> list_all (\<lambda>r. ir_month r \<noteq> m \<or> ir_source r \<noteq> CAKE_ADJUSTMENT_SOURCE \<or> ir_status r = CS_disabled
        \<or> \<not> isStaleCakeAdjustment (ir_rawData r)) (income_records db)"

lemmas check_builders =
  buildLockedCheck_def buildUnmatchedCheck_def buildExchangeRateCheck_def buildProviderFeeRateCheck_def
  buildManualDraftCheck_def buildSyncTaskCheck_def buildStaleCakeAdjustmentCheck_def

lemma missing_provider_fee_rates_empty:
  "missing_provider_fee_rates m db = [] \<longleftrightarrow>
     list_all (\<lambda>e. ce_month e \<noteq> m \<or> ce_status e \<noteq> CS_confirmed
        \<or> list_ex (\<lambda>r. fr_month r = m \<and> fr_provider r = ce_provider e \<and> rate_active (fr_status r)) (card_fee_rates db))
       (card_spend_events db)"
proof -
  have all: "p \<in> {airwallex, photonpay} \<longleftrightarrow> True" for p by (cases p) simp_all
  have ex: "list_ex (\<lambda>r. fr_month r = m \<and> fr_provider r = p \<and> rate_active (fr_status r)) xs \<longleftrightarrow>
      p \<in> fr_provider ` {r \<in> set xs. fr_month r = m \<and> rate_active (fr_status r)}" for p xs
    by (auto simp: list_ex_iff)
  show ?thesis
    unfolding missing_provider_fee_rates_def Let_def all ex filter_empty_conv list_all_iff simp_thms
    by auto
qed

lemma severity_blocking_iff:
  "pr_severity (preflightCheck rt m db) = SV_blocking \<longleftrightarrow> \<not> not_blocked m db"
proof -
  have "pr_severity (preflightCheck rt m db) = SV_blocking \<longleftrightarrow>
      month_locked m db \<or> active_exchange_rate m db = None \<or> missing_provider_fee_rates m db \<noteq> []
      \<or> stale_cake_adjustments m db \<noteq> []"
    unfolding preflightCheck_def Let_def
    by (simp add: case_prod_beta max_severity_blocking check_builders month_locked_def Let_def)
  then show ?thesis
    by (auto simp: not_blocked_def missing_provider_fee_rates_empty active_exchange_rate_def find_row_None
        stale_cake_adjustments_def filter_empty_conv list_all_iff list_ex_iff)
qed

lemma codes_with_simps:
  "codes_with s [] = []"
  "codes_with s (c # cs) = (if pc_severity c = s then [pc_code c] else []) @ codes_with s cs"
  by (simp_all add: codes_with_def)

text \<open>The contribution of each check to the warnings.\<close>

lemma warning_of_check:
  "(if pc_severity (buildLockedCheck b) = SV_warning then [pc_code (buildLockedCheck b)] else []) = []"
  "(if pc_severity (buildUnmatchedCheck rt n x) = SV_warning then [pc_code (buildUnmatchedCheck rt n x)] else []) =
     (if n = 0 then [] else [''OPEN_UNMATCHED_EVENTS''])"
  "(if pc_severity (buildExchangeRateCheck b) = SV_warning then [pc_code (buildExchangeRateCheck b)] else []) = []"
  "(if pc_severity (buildProviderFeeRateCheck ps) = SV_warning then [pc_code (buildProviderFeeRateCheck ps)] else []) = []"
  "(if pc_severity (buildManualDraftCheck n) = SV_warning then [pc_code (buildManualDraftCheck n)] else []) =
     (if n = 0 then [] else [''DRAFT_MANUAL_RECORDS''])"
  "(if pc_severity (buildSyncTaskCheck n k) = SV_warning then [pc_code (buildSyncTaskCheck n k)] else []) =
     (if n + k = 0 then [] else [''SYNC_TASKS_IN_PROGRESS_OR_FAILED''])"
  "(if pc_severity (buildStaleCakeAdjustmentCheck n) = SV_warning then [pc_code (buildStaleCakeAdjustmentCheck n)] else []) = []"
  by (simp_all add: check_builders Let_def)

lemma warning_codes_eq:
  "codes_with SV_warning (pr_checks (preflightCheck rt m db)) = warning_codes m db"
proof -
  obtain a b c d where r: "readManualDraftCounts m db = (a, b, c, d)"
    by (cases "readManualDraftCounts m db")
  have e: "codes_with SV_warning (pr_checks (preflightCheck rt m db)) =
      (if length (open_unmatched m db) = 0 then [] else [''OPEN_UNMATCHED_EVENTS''])
      @ (if a + b + c + d = 0 then [] else [''DRAFT_MANUAL_RECORDS''])
      @ (if sync_task_count m ST_pending db + sync_task_count m ST_running db + sync_task_count m ST_failed db = 0
         then [] else [''SYNC_TASKS_IN_PROGRESS_OR_FAILED''])"
    unfolding preflightCheck_def Let_def r prod.case preflight_result.simps codes_with_simps warning_of_check
    by (simp only: append_Nil append_Nil2)
  have "(a + b + c + d = 0) = (a = 0 \<and> b = 0 \<and> c = 0 \<and> d = 0)" by simp
  then show ?thesis
    unfolding e warning_codes_def r by (simp only: prod.inject length_0_conv add_is_0 if_not_P cong: if_cong) simp
qed

lemma warning_codes_nonblank: "c \<in> set (warning_codes m db) \<Longrightarrow> js_trim c \<noteq> []"
proof -
  have "js_trim ''OPEN_UNMATCHED_EVENTS'' \<noteq> []" "js_trim ''DRAFT_MANUAL_RECORDS'' \<noteq> []"
    "js_trim ''SYNC_TASKS_IN_PROGRESS_OR_FAILED'' \<noteq> []" by code_simp+
  then show "c \<in> set (warning_codes m db) \<Longrightarrow> js_trim c \<noteq> []"
    by (auto simp: warning_codes_def split: if_splits)
qed

lemma assertCanGenerate_eq:
  "assertCanGenerate rt m ack db =
     (if \<not> not_blocked m db
      then (Inl (AppError SETTLEMENT_PRECHECK_FAILED ''Settlement generation is blocked by preflight checks.''), db)
      else if \<not> acknowledges (warning_codes m db) ack
      then (Inl (AppError SETTLEMENT_WARNING_ACK_REQUIRED
              ''Current settlement warnings must be acknowledged exactly before generation.''), db)
      else (Inr (preflightCheck rt m db), db))"
proof -
  have "pr_canGenerate (preflightCheck rt m db) \<longleftrightarrow> pr_severity (preflightCheck rt m db) \<noteq> SV_blocking"
    by (simp add: preflightCheck_def Let_def case_prod_beta)
  moreover have "acknowledgement_rejected (warning_codes m db) ack \<longleftrightarrow> \<not> acknowledges (warning_codes m db) ack"
    using acknowledgement_rejected_iff [of "warning_codes m db" ack] warning_codes_nonblank by blast
  ultimately show ?thesis
    by (simp add: assertCanGenerate_def severity_blocking_iff warning_codes_eq)
qed

section \<open>Properties\<close>

text \<open>
  C9: The gate opens exactly when nothing blocks the month and the caller acknowledged
  exactly its warnings: the month is not locked, it has an active exchange rate, every
  provider with confirmed card spend has an active fee rate, no CAKE adjustment is stale,
  and the acknowledged codes are a duplicate-free list of just the current warnings. It
  never writes.
\<close>

theorem preflight_gate:
  "snd (assertCanGenerate rt m ack db) = db
   \<and> ((\<exists>r. fst (assertCanGenerate rt m ack db) = Inr r) =
      (\<not> month_locked m db
       \<and> list_ex (\<lambda>r. xr_month r = m \<and> rate_active (xr_status r)) (exchange_rates db)
       \<and> list_all (\<lambda>e. list_ex (\<lambda>r. fr_month r = m \<and> fr_provider r = ce_provider e \<and> rate_active (fr_status r)) (card_fee_rates db))
           (filter (\<lambda>e. ce_month e = m \<and> ce_status e = CS_confirmed) (card_spend_events db))
       \<and> list_all (\<lambda>r. \<not> isStaleCakeAdjustment (ir_rawData r))
           (filter (\<lambda>r. ir_month r = m \<and> ir_source r = CAKE_ADJUSTMENT_SOURCE \<and> ir_status r \<noteq> CS_disabled) (income_records db))
       \<and> (ack = JUndefined \<and> warning_codes m db = []
          \<or> (\<exists>codes. ack = JArray (map JString codes) \<and> distinct codes \<and> set codes = set (warning_codes m db)))))"
proof -
  have "(\<exists>r. fst (assertCanGenerate rt m ack db) = Inr r) =
      (not_blocked m db \<and> acknowledges (warning_codes m db) ack)"
    by (simp add: assertCanGenerate_eq)
  moreover have "snd (assertCanGenerate rt m ack db) = db" by (simp add: assertCanGenerate_eq)
  ultimately show ?thesis
    by (simp only: not_blocked_def acknowledges_def conj_assoc simp_thms list_all_filter de_Morgan_conj not_not disj_assoc)
qed

end
