(* ===== verification/Sample_Runtime.thy ===== *)
theory Sample_Runtime
  imports Base_Data
begin

text \<open>
  A concrete runtime, on which witnesses are evaluated: exact arithmetic, half-up column
  rounding, a decimal parser and printer for plain notation, a fixed clock, numbered
  identifiers and an injective stand-in for the digest. It also shows that the laws the
  development assumes of the runtime can hold together.
\<close>

fun fraction_digits :: "nat \<Rightarrow> rat \<Rightarrow> string" where
  "fraction_digits 0 f = []"
| "fraction_digits (Suc k) f =
     (if f = 0 then [] else digit_char (nat \<lfloor>10 * f\<rfloor>) # fraction_digits k (10 * f - of_int \<lfloor>10 * f\<rfloor>))"

definition show_plain_decimal :: "rat \<Rightarrow> string" where
  "show_plain_decimal x =
     (let a = \<bar>x\<bar>; n = \<lfloor>a\<rfloor>; f = a - of_int n
      in (if x < 0 then ''-'' else '''') @ nat_string (nat n)
         @ (if f = 0 then '''' else ''.'' @ fraction_digits 30 f))"

definition parse_plain_unsigned :: "string \<Rightarrow> rat option" where
  "parse_plain_unsigned s =
     (let i = takeWhile is_digit s; r = dropWhile is_digit s
      in if i = [] then None
         else if r = [] then Some (of_nat (digits_to_nat i))
         else if hd r = CHR ''.'' \<and> tl r \<noteq> [] \<and> list_all is_digit (tl r)
         then Some (of_nat (digits_to_nat i) + of_nat (digits_to_nat (tl r)) / 10 ^ length (tl r))
         else None)"

definition parse_plain_decimal :: "string \<Rightarrow> parsed_decimal option" where
  "parse_plain_decimal s =
     (if s = ''Infinity'' \<or> s = ''NaN'' then Some DecNotFinite
      else if s \<noteq> [] \<and> hd s = CHR ''-''
      then map_option (\<lambda>x. DecFinite True (- x)) (parse_plain_unsigned (tl s))
      else map_option (DecFinite False) (parse_plain_unsigned s))"

definition sample_rt :: runtime where
  "sample_rt =
     \<lparr>rt_round = exact_round, rt_column = column_round, rt_parse_decimal = parse_plain_decimal,
      rt_show_decimal = show_plain_decimal, rt_parse_date = (\<lambda>_. None), rt_now = 1772496000000,
      rt_fresh_id = (\<lambda>n. ''id-'' @ nat_string n), rt_sha256_hex = (\<lambda>s. s)\<rparr>"

lemma sample_rt_round: "decimal_rounding (rt_round sample_rt) 20"
  by (simp add: sample_rt_def exact_decimal.decimal_rounding_axioms)

lemma sample_rt_column: "column_rounding (rt_column sample_rt)"
  by (simp add: sample_rt_def pg_column.column_rounding_axioms)

definition sample_actor :: actor where
  "sample_actor = \<lparr>ac_userId = ''u1'', ac_roleCode = ''super_admin'', ac_permissions = [''income.import'']\<rparr>"

text \<open>February 2026 (\<open>2026-02-01T00:00Z\<close>) and the month after it.\<close>

definition FEB_2026 :: int where
  "FEB_2026 = 1769904000000"

definition MAR_2026 :: int where
  "MAR_2026 = 1772323200000"

lemma digits_to_nat_nat_string: "digits_to_nat (nat_string n) = n"
proof (induction n rule: nat_string.induct)
  case (1 n)
  then show ?case
  proof (cases "n < 10")
    case True
    then show ?thesis by (simp add: nat_string.simps [of n] digits_to_nat_def)
  next
    case False
    then show ?thesis using 1 by (simp add: nat_string.simps [of n] digits_to_nat_snoc)
  qed
qed

lemma sample_fresh_inj: "inj (rt_fresh_id sample_rt)"
proof (rule injI)
  fix x y assume "rt_fresh_id sample_rt x = rt_fresh_id sample_rt y"
  then have "nat_string x = nat_string y" by (simp add: sample_rt_def)
  then show "x = y" using digits_to_nat_nat_string by metis
qed

end
