(* ===== verification/Settlement_Generation.thy ===== *)
theory Settlement_Generation
  imports Settlement_Preflight Calculator_Properties Sample_Runtime
begin

text \<open>
  \<open>settlement/settlement-generation.service.ts\<close>: generating the settlement of a month. The
  gate, the lock, the reads, the calculation and the transaction that replaces the details
  run in this order inside one \<open>try\<close>; a failure other than the lock's is audited and thrown
  again.
\<close>

section \<open>Input and read model\<close>

record generate_input =
  gi_settlementMonth :: int
  gi_actor :: actor
  gi_attendanceByEmployeeId :: "(string \<times> string) list option"
  gi_acknowledgedWarningCodes :: jsval

record generation_result =
  gr_settlementId :: string
  gr_settlementMonth :: int
  gr_detailCount :: nat

record read_model =
  rm_exchangeRate :: rat
  rm_incomeRecords :: "income_input list"
  rm_apiCardSpendEvents :: "api_spend_input list"
  rm_manualCardSpendEntries :: "manual_spend_input list"
  rm_cardProviderFeeRates :: "fee_rate_input list"
  rm_groupMembers :: "member_input list"
  rm_historicalNegativeProfits :: "historical_input list"
  rm_salaryManualItems :: "salary_item_input list"

definition assertSettlementMonthStart :: "int \<Rightarrow> unit outcome" where
  "assertSettlementMonthStart settlementMonth =
     (if getUTCDate settlementMonth \<noteq> 1 \<or> getUTCHours settlementMonth \<noteq> 0
         \<or> getUTCMinutes settlementMonth \<noteq> 0 \<or> getUTCSeconds settlementMonth \<noteq> 0
         \<or> getUTCMilliseconds settlementMonth \<noteq> 0
      then Inl (AppError SETTLEMENT_PRECHECK_FAILED
             ''settlementMonth must be the first day of the month at 00:00:00 UTC.'')
      else Inr ())"

text \<open>
  The related configuration of a manual item. The foreign key makes it exist; without it the
  client throws.
\<close>

definition read_salary_item :: "database \<Rightarrow> salary_manual_item \<Rightarrow> salary_item_input outcome" where
  "read_salary_item db i =
     (case find_row (\<lambda>c. sc_id c = si_configId i) (salary_configs db) of
        None \<Rightarrow> Inl (JsError ''Inconsistent query result'')
      | Some c \<Rightarrow> Inr \<lparr>st_employeeId = si_employeeId i, st_amountRmb = si_amountRmb i,
                       st_status = si_status i, st_itemType = sc_itemType c\<rparr>)"

definition read_incomes :: "int \<Rightarrow> database \<Rightarrow> income_input list" where
  "read_incomes m db =
     map (\<lambda>r. \<lparr>in_employeeId = ir_employeeId r, in_incomeUsd = ir_incomeUsd r, in_status = ir_status r\<rparr>)
       (filter (\<lambda>r. ir_month r = m \<and> ir_status r = CS_confirmed) (income_records db))"

definition read_api_spend :: "int \<Rightarrow> database \<Rightarrow> api_spend_input list" where
  "read_api_spend m db =
     map (\<lambda>e. \<lparr>as_employeeId = ce_employeeId e, as_provider = ce_provider e,
               as_spendUsd = ce_spendUsd e, as_status = ce_status e\<rparr>)
       (filter (\<lambda>e. ce_month e = m \<and> ce_status e = CS_confirmed) (card_spend_events db))"

definition read_manual_spend :: "int \<Rightarrow> database \<Rightarrow> manual_spend_input list" where
  "read_manual_spend m db =
     map (\<lambda>e. \<lparr>mi_employeeId = mc_employeeId e, mi_actualSpendUsd = mc_actualSpendUsd e, mi_status = mc_status e\<rparr>)
       (filter (\<lambda>e. mc_month e = m \<and> mc_status e = SS_confirmed) (manual_card_spends db))"

definition read_fee_rates :: "int \<Rightarrow> database \<Rightarrow> fee_rate_input list" where
  "read_fee_rates m db =
     map (\<lambda>r. \<lparr>fi_provider = fr_provider r, fi_feeRate = fr_feeRate r\<rparr>)
       (filter (\<lambda>r. fr_month r = m \<and> rate_active (fr_status r)) (card_fee_rates db))"

definition read_members :: "int \<Rightarrow> database \<Rightarrow> member_input list" where
  "read_members m db =
     map (\<lambda>g. \<lparr>mb_groupId = gm_groupId g, mb_employeeId = gm_employeeId g, mb_allocationRatio = gm_allocationRatio g\<rparr>)
       (filter (\<lambda>g. gm_month g = m) (group_members db))"

definition read_historical :: "int \<Rightarrow> database \<Rightarrow> historical_input list" where
  "read_historical m db =
     map (\<lambda>h. \<lparr>hi_employeeId = hp_employeeId h, hi_amountUsd = hp_amountUsd h, hi_status = hp_status h\<rparr>)
       (filter (\<lambda>h. hp_month h = m \<and> rate_active (hp_status h)) (historical_profits db))"

definition readSettlementData :: "int \<Rightarrow> database \<Rightarrow> read_model outcome" where
  "readSettlementData m db =
     bind_res (res_map (read_salary_item db)
       (filter (\<lambda>i. si_month i = m \<and> rate_active (si_status i)) (salary_items db))) (\<lambda>items.
     case active_exchange_rate m db of
       None \<Rightarrow> Inl (AppError SETTLEMENT_PRECHECK_FAILED ''Monthly exchange rate is required.'')
     | Some exchangeRate \<Rightarrow>
         Inr \<lparr>rm_exchangeRate = xr_usdToRmbRate exchangeRate,
              rm_incomeRecords = read_incomes m db,
              rm_apiCardSpendEvents = read_api_spend m db,
              rm_manualCardSpendEntries = read_manual_spend m db,
              rm_cardProviderFeeRates = read_fee_rates m db,
              rm_groupMembers = read_members m db,
              rm_historicalNegativeProfits = read_historical m db,
              rm_salaryManualItems = items\<rparr>)"

definition precheckReadModel :: "read_model \<Rightarrow> unit outcome" where
  "precheckReadModel rm =
     (if 0 < length (filter (\<lambda>r. \<not> has_employee (in_employeeId r)) (rm_incomeRecords rm))
      then Inl (AppError SETTLEMENT_PRECHECK_FAILED ''Confirmed income records must belong to employees.'')
      else if 0 < length (filter (\<lambda>e. \<not> has_employee (as_employeeId e)) (rm_apiCardSpendEvents rm))
      then Inl (AppError SETTLEMENT_PRECHECK_FAILED ''Confirmed API card spend events must belong to employees.'')
      else if 0 < length (filter (\<lambda>p. p \<notin> set (map fi_provider (rm_cardProviderFeeRates rm)))
                     (js_dedup (map as_provider (rm_apiCardSpendEvents rm))))
      then Inl (AppError SETTLEMENT_PRECHECK_FAILED
             ''Monthly card provider fee rates are required for confirmed API card spend.'')
      else Inr ())"

definition collectGenerationEmployeeIds :: "read_model \<Rightarrow> (string \<times> string) list option \<Rightarrow> string list" where
  "collectGenerationEmployeeIds rm attendance =
     (let ids0 = js_dedup (map fst (case attendance of None \<Rightarrow> [] | Some a \<Rightarrow> a));
          ids1 = add_if (\<lambda>r. has_employee (in_employeeId r)) (\<lambda>r. the (in_employeeId r)) (rm_incomeRecords rm) ids0;
          ids2 = add_if (\<lambda>e. has_employee (as_employeeId e)) (\<lambda>e. the (as_employeeId e)) (rm_apiCardSpendEvents rm) ids1;
          ids3 = add_if (\<lambda>_. True) mi_employeeId (rm_manualCardSpendEntries rm) ids2;
          ids4 = add_if (\<lambda>_. True) hi_employeeId (rm_historicalNegativeProfits rm) ids3;
          ids5 = add_if (\<lambda>_. True) st_employeeId (rm_salaryManualItems rm) ids4
      in add_if (\<lambda>_. True) mb_employeeId (rm_groupMembers rm) ids5)"

definition buildCalculationInput :: "generate_input \<Rightarrow> read_model \<Rightarrow> calculation_input" where
  "buildCalculationInput input rm =
     \<lparr>ci_settlementMonth = gi_settlementMonth input,
      ci_exchangeRate = rm_exchangeRate rm,
      ci_employeeIds = collectGenerationEmployeeIds rm (gi_attendanceByEmployeeId input),
      ci_incomeRecords = rm_incomeRecords rm,
      ci_apiCardSpendEvents = rm_apiCardSpendEvents rm,
      ci_cardProviderFeeRates = rm_cardProviderFeeRates rm,
      ci_manualCardSpendEntries = rm_manualCardSpendEntries rm,
      ci_groupMembers = rm_groupMembers rm,
      ci_historicalNegativeProfits = rm_historicalNegativeProfits rm,
      ci_salaryManualItems = rm_salaryManualItems rm,
      ci_attendanceByEmployeeId = (case gi_attendanceByEmployeeId input of None \<Rightarrow> [] | Some a \<Rightarrow> a)\<rparr>"

section \<open>The detail rows\<close>

definition CARD_SPEND_SETTLEMENT_MONTH_RULE :: string where
  "CARD_SPEND_SETTLEMENT_MONTH_RULE =
     ''card_spend_events.settlement_month is based on transaction time in GMT+8, not settled_at''"

definition HISTORICAL_NEGATIVE_PROFIT_ROLL_FORWARD_RULE :: string where
  "HISTORICAL_NEGATIVE_PROFIT_ROLL_FORWARD_RULE =
     ''remainingNegativeProfitUsd is snapshotted here; creating next month historical_negative_profits is handled after confirmation/lock.''"

text \<open>An object literal that starts with a spread: later keys replace earlier ones in place.\<close>

definition object_assign :: "(string \<times> jsval) list \<Rightarrow> (string \<times> jsval) list \<Rightarrow> (string \<times> jsval) list" where
  "object_assign base kvs = foldl (\<lambda>m (k, v). map_set m k v) base kvs"

definition buildDetailSnapshot :: "runtime \<Rightarrow> calculation_result \<Rightarrow> (string \<times> jsval) list" where
  "buildDetailSnapshot rt result =
     (let dec = (\<lambda>v. decimalToString rt (Some v)); p = cr_profit result
      in object_assign (buildSnapshot rt result)
          [(''salaryMode'', JString (salary_mode_name (cr_salaryMode result))),
           (''groupId'', jstr_or_null (cr_groupId result)),
           (''allocationRatio'', decimalToString rt (cr_allocationRatio result)),
           (''allocatedProfitUsd'', dec (cr_allocatedProfitUsd result)),
           (''historicalNegativeProfitUsd'', dec (cr_historicalNegativeProfitUsd result)),
           (''commissionProfitUsd'', dec (cr_commissionProfitUsd result)),
           (''remainingNegativeProfitUsd'', dec (cr_remainingNegativeProfitUsd result)),
           (''baseSalaryRmb'', dec (cr_baseSalaryRmb result)),
           (''starAllowanceRmb'', dec (cr_starAllowanceRmb result)),
           (''commissionRate'', dec (cr_commissionRate result)),
           (''commissionUsd'', dec (cr_commissionUsd result)),
           (''exchangeRate'', dec (cr_exchangeRate result)),
           (''attendanceBonusRmb'', dec (cr_attendanceBonusRmb result)),
           (''apiCardSpendUsd'', dec (ep_apiCardSpendUsd p)),
           (''apiCardFeeUsd'', dec (ep_apiCardFeeUsd p)),
           (''manualCardSpendUsd'', dec (ep_manualCardSpendUsd p)),
           (''cardSpendSettlementMonthRule'', JString CARD_SPEND_SETTLEMENT_MONTH_RULE),
           (''historicalNegativeProfitRollForwardRule'', JString HISTORICAL_NEGATIVE_PROFIT_ROLL_FORWARD_RULE)])"

definition attendance_of :: "string \<Rightarrow> attendance_status option" where
  "attendance_of s =
     find (\<lambda>a. attendance_name a = s) [full_attendance, sick_leave, personal_leave, absent, other_attendance]"

text \<open>A row as the table stores it: the client checks the enumeration, the columns round.\<close>

definition toSettlementDetailCreateInput :: "runtime \<Rightarrow> string \<Rightarrow> calculation_result \<Rightarrow> settlement_detail outcome" where
  "toSettlementDetailCreateInput rt settlementId result =
     (case attendance_of (cr_attendanceStatus result) of
        None \<Rightarrow> Inl prisma_validation_error
      | Some attendance \<Rightarrow>
          Inr \<lparr>md_settlementId = settlementId,
               md_employeeId = cr_employeeId result,
               md_month = cr_settlementMonth result,
               md_attendance = Some attendance,
               md_incomeUsd = rt_column rt 6 (ep_totalRevenueUsd (cr_profit result)),
               md_cardSpendUsd = rt_column rt 6 (ep_finalCardSpendUsd (cr_profit result)),
               md_grossProfitUsd = rt_column rt 6 (ep_originalProfitUsd (cr_profit result)),
               md_grossProfitRmb = rt_column rt 2
                 (dec_times (rt_round rt) (ep_originalProfitUsd (cr_profit result)) (cr_exchangeRate result)),
               md_commissionRmb = rt_column rt 2 (cr_commissionRmb result),
               md_manualAdditionRmb = rt_column rt 2 (cr_manualAdditionRmb result),
               md_manualDeductionRmb = rt_column rt 2 (cr_manualDeductionRmb result),
               md_finalSalaryRmb = rt_column rt 2 (cr_finalSalaryRmb result),
               md_snapshot = JObject (buildDetailSnapshot rt result)\<rparr>)"

section \<open>Writing\<close>

definition details_deleteMany :: "string \<Rightarrow> unit handler" where
  "details_deleteMany settlementId =
     op_modify (\<lambda>db. db\<lparr>settlement_details := filter (\<lambda>d. md_settlementId d \<noteq> settlementId) (settlement_details db)\<rparr>)"

text \<open>\<open>@@unique([settlementId, employeeId])\<close>\<close>

definition detail_key :: "settlement_detail \<Rightarrow> string \<times> string" where
  "detail_key d = (md_settlementId d, md_employeeId d)"

text \<open>The range of the columns: \<open>@db.Decimal(18, 6)\<close> and \<open>@db.Decimal(18, 2)\<close>.\<close>

definition detail_in_range :: "settlement_detail \<Rightarrow> bool" where
  "detail_in_range d \<longleftrightarrow>
     list_all (\<lambda>x. \<bar>x\<bar> < 10 ^ 12) [md_incomeUsd d, md_cardSpendUsd d, md_grossProfitUsd d]
   \<and> list_all (\<lambda>x. \<bar>x\<bar> < 10 ^ 16) [md_grossProfitRmb d, md_commissionRmb d, md_manualAdditionRmb d, md_manualDeductionRmb d,
       md_finalSalaryRmb d]"

text \<open>The foreign key \<open>employee_id\<close>. The one of the settlement holds, its row was written just before.\<close>

definition employee_exists :: "database \<Rightarrow> string \<Rightarrow> bool" where
  "employee_exists db i \<longleftrightarrow> list_ex (\<lambda>e. em_id e = i) (employees db)"

text \<open>A value out of range is refused before the row is written, the unique index is asked on writing, the foreign keys after it.\<close>

definition details_createMany :: "settlement_detail list \<Rightarrow> unit handler" where
  "details_createMany rows db =
     (if \<not> list_all detail_in_range rows then (Inl (PrismaKnownError ''P2020''), db)
      else if \<not> (distinct (map detail_key rows) \<and> set (map detail_key rows) \<inter> set (map detail_key (settlement_details db)) = {})
      then (Inl (PrismaKnownError ''P2002''), db)
      else if \<not> list_all (\<lambda>d. employee_exists db (md_employeeId d)) rows then (Inl (PrismaKnownError ''P2003''), db)
      else (Inr (), db\<lparr>settlement_details := settlement_details db @ rows\<rparr>))"

definition buildPreflightAuditSnapshot :: "preflight_result \<Rightarrow> unit outcome" where
  "buildPreflightAuditSnapshot result =
     (if pr_severity result = SV_blocking \<or> \<not> pr_canGenerate result
      then Inl (AppError SETTLEMENT_PRECHECK_FAILED
             ''Blocking preflight results cannot be written to a successful generation audit.'')
      else Inr ())"

definition writeSettlement ::
  "runtime \<Rightarrow> generate_input \<Rightarrow> calculation_result list \<Rightarrow> preflight_result \<Rightarrow> generation_result handler" where
  "writeSettlement rt input calculationResults preflightResult =
     op_transaction (
       op_bind (op_get (find_settlement (gi_settlementMonth input))) (\<lambda>existing.
       op_bind (op_assert (\<not> (case existing of None \<Rightarrow> False | Some s \<Rightarrow> ms_status s = SS_locked))
         (AppError MONTH_LOCKED ''Settlement month is locked and cannot be regenerated.'')) (\<lambda>_.
       op_bind (settlement_upsert (gi_settlementMonth input)
         \<lparr>ms_id = rt_fresh_id rt 0, ms_month = gi_settlementMonth input, ms_status = SS_draft,
          ms_generatedAt = Some (rt_now rt), ms_generatedBy = Some (ac_userId (gi_actor input)),
          ms_confirmedAt = None, ms_confirmedBy = None, ms_lockedAt = None, ms_lockedBy = None,
          ms_lockReason = None\<rparr>
         (\<lambda>s. s\<lparr>ms_generatedAt := Some (rt_now rt), ms_generatedBy := Some (ac_userId (gi_actor input))\<rparr>)) (\<lambda>settlement.
       op_bind (details_deleteMany (ms_id settlement)) (\<lambda>_.
       op_bind (if 0 < length calculationResults
                then op_bind (op_lift (res_map (toSettlementDetailCreateInput rt (ms_id settlement)) calculationResults))
                       details_createMany
                else op_return ()) (\<lambda>_.
       op_bind (op_lift (buildPreflightAuditSnapshot preflightResult)) (\<lambda>_.
       op_bind (audit_success (auditInput (gi_actor input) ''settlement.generate'' ''monthly_settlement''
         (Some (ms_id settlement)) (Some (gi_settlementMonth input)) [''generatedAt'', ''generatedBy'', ''details''])) (\<lambda>_.
       op_return \<lparr>gr_settlementId = ms_id settlement, gr_settlementMonth = ms_month settlement,
                  gr_detailCount = length calculationResults\<rparr>))))))))"

definition isMonthLockedError :: "app_exception \<Rightarrow> bool" where
  "isMonthLockedError error = (case error of AppError c _ \<Rightarrow> c = MONTH_LOCKED | _ \<Rightarrow> False)"

definition failureReason :: "app_exception \<Rightarrow> string" where
  "failureReason error =
     (case error of AppError c _ \<Rightarrow> error_code_name c | _ \<Rightarrow> error_code_name SETTLEMENT_PRECHECK_FAILED)"

definition failure_input :: "generate_input \<Rightarrow> app_exception \<Rightarrow> audit_input" where
  "failure_input input error =
     \<lparr>ai_actorUserId = Some (ac_userId (gi_actor input)), ai_actorRole = Some (ac_roleCode (gi_actor input)),
       ai_action = ''settlement.generate'', ai_objectType = ''monthly_settlement'', ai_objectId = None,
       ai_settlementMonth = Some (gi_settlementMonth input), ai_changedFields = [],
       ai_failureReason = Some (failureReason error), ai_errorMessage = Some (exception_message error)\<rparr>"

definition writeFailureAudit :: "generate_input \<Rightarrow> app_exception \<Rightarrow> unit handler" where
  "writeFailureAudit input error = audit_failure (failure_input input error)"

text \<open>The body of the \<open>try\<close> block, then the whole handler.\<close>

definition generate_try :: "runtime \<Rightarrow> generate_input \<Rightarrow> generation_result handler" where
  "generate_try rt input =
       op_bind (op_lift (assertSettlementMonthStart (gi_settlementMonth input))) (\<lambda>_.
        op_bind (assertCanGenerate rt (gi_settlementMonth input) (gi_acknowledgedWarningCodes input)) (\<lambda>preflightResult.
        op_bind (assertWritable \<lparr>mw_settlementMonth = gi_settlementMonth input, mw_action = ''settlement.generate'',
          mw_objectType = ''monthly_settlements'', mw_objectId = None\<rparr> (Some (gi_actor input))) (\<lambda>_.
        op_bind (op_get (readSettlementData (gi_settlementMonth input))) (\<lambda>read.
        op_bind (op_lift read) (\<lambda>readModel.
        op_bind (op_lift (precheckReadModel readModel)) (\<lambda>_.
        op_bind (op_lift (calculate (rt_round rt) (buildCalculationInput input readModel))) (\<lambda>calculationResults.
        writeSettlement rt input calculationResults preflightResult)))))))"

definition generateSettlement :: "runtime \<Rightarrow> generate_input \<Rightarrow> generation_result handler" where
  "generateSettlement rt input =
     op_catch (generate_try rt input)
       (\<lambda>error.
          op_bind (if \<not> isMonthLockedError error then writeFailureAudit input error else op_return ()) (\<lambda>_.
          op_throw error))"

section \<open>Facts\<close>

text \<open>The settlement row after the upsert.\<close>

definition generated_row :: "runtime \<Rightarrow> generate_input \<Rightarrow> database \<Rightarrow> settlement" where
  "generated_row rt input db =
     (case find_settlement (gi_settlementMonth input) db of
        None \<Rightarrow> \<lparr>ms_id = rt_fresh_id rt 0, ms_month = gi_settlementMonth input, ms_status = SS_draft,
          ms_generatedAt = Some (rt_now rt), ms_generatedBy = Some (ac_userId (gi_actor input)),
          ms_confirmedAt = None, ms_confirmedBy = None, ms_lockedAt = None, ms_lockedBy = None,
          ms_lockReason = None\<rparr>
      | Some s \<Rightarrow> s\<lparr>ms_generatedAt := Some (rt_now rt), ms_generatedBy := Some (ac_userId (gi_actor input))\<rparr>)"

definition generated_settlements :: "runtime \<Rightarrow> generate_input \<Rightarrow> database \<Rightarrow> settlement list" where
  "generated_settlements rt input db =
     (case find_settlement (gi_settlementMonth input) db of
        None \<Rightarrow> settlements db @ [generated_row rt input db]
      | Some s \<Rightarrow> update_first (\<lambda>r. ms_month r = gi_settlementMonth input)
          (\<lambda>s. s\<lparr>ms_generatedAt := Some (rt_now rt), ms_generatedBy := Some (ac_userId (gi_actor input))\<rparr>) (settlements db))"

lemma find_settlement_month: "find_settlement m db = Some s \<Longrightarrow> ms_month s = m"
  by (auto simp: find_settlement_def dest: find_row_Some)

lemma upsert_generated:
  "settlement_upsert (gi_settlementMonth input)
         \<lparr>ms_id = rt_fresh_id rt 0, ms_month = gi_settlementMonth input, ms_status = SS_draft,
          ms_generatedAt = Some (rt_now rt), ms_generatedBy = Some (ac_userId (gi_actor input)),
          ms_confirmedAt = None, ms_confirmedBy = None, ms_lockedAt = None, ms_lockedBy = None,
          ms_lockReason = None\<rparr>
         (\<lambda>s. s\<lparr>ms_generatedAt := Some (rt_now rt), ms_generatedBy := Some (ac_userId (gi_actor input))\<rparr>) db =
   (Inr (generated_row rt input db), db\<lparr>settlements := generated_settlements rt input db\<rparr>)"
  by (simp add: settlement_upsert_def generated_row_def generated_settlements_def split: option.split)

lemma generated_row_found:
  assumes "settlements db' = generated_settlements rt input db"
  shows "find_settlement (gi_settlementMonth input) db' = Some (generated_row rt input db)"
proof (cases "find_settlement (gi_settlementMonth input) db")
  case None
  then have "find_row (\<lambda>r. ms_month r = gi_settlementMonth input) (settlements db) = None"
    by (simp add: find_settlement_def)
  moreover have "ms_month (generated_row rt input db) = gi_settlementMonth input"
    using None by (simp add: generated_row_def)
  ultimately show ?thesis using None by (simp add: assms find_settlement_def generated_settlements_def find_row_append)
next
  case (Some s)
  then have "find_row (\<lambda>r. ms_month r = gi_settlementMonth input) (settlements db) = Some s"
    by (simp add: find_settlement_def)
  then have "find_row (\<lambda>r. ms_month r = gi_settlementMonth input)
      (update_first (\<lambda>r. ms_month r = gi_settlementMonth input)
        (\<lambda>s. s\<lparr>ms_generatedAt := Some (rt_now rt), ms_generatedBy := Some (ac_userId (gi_actor input))\<rparr>) (settlements db))
      = Some (s\<lparr>ms_generatedAt := Some (rt_now rt), ms_generatedBy := Some (ac_userId (gi_actor input))\<rparr>)"
    using find_settlement_month [OF Some] by (intro find_row_update_first) simp_all
  with Some show ?thesis
    by (simp add: assms find_settlement_def [of _ db'] generated_settlements_def generated_row_def)
qed

lemma generated_other_months:
  "filter (\<lambda>s. ms_month s \<noteq> gi_settlementMonth input) (generated_settlements rt input db) =
   filter (\<lambda>s. ms_month s \<noteq> gi_settlementMonth input) (settlements db)"
proof (cases "find_settlement (gi_settlementMonth input) db")
  case None
  then show ?thesis by (simp add: generated_settlements_def generated_row_def)
next
  case (Some s)
  then show ?thesis
    by (auto simp: generated_settlements_def find_settlement_def intro!: filter_update_first_other [where r = s] dest: find_row_Some)
qed

lemma writeSettlement_Inr:
  assumes "writeSettlement rt input rs pf db = (Inr g, db')"
  shows "\<not> month_locked (gi_settlementMonth input) db
    \<and> (\<exists>rows logs. res_map (toSettlementDetailCreateInput rt (ms_id (generated_row rt input db))) rs = Inr rows
      \<and> g = \<lparr>gr_settlementId = ms_id (generated_row rt input db),
             gr_settlementMonth = ms_month (generated_row rt input db), gr_detailCount = length rs\<rparr>
      \<and> distinct (map detail_key rows) \<and> list_all detail_in_range rows \<and> list_all (\<lambda>d. employee_exists db (md_employeeId d)) rows
      \<and> db' = db\<lparr>settlements := generated_settlements rt input db,
          settlement_details :=
            filter (\<lambda>d. md_settlementId d \<noteq> ms_id (generated_row rt input db)) (settlement_details db) @ rows,
          audit_logs := audit_logs db @ logs\<rparr>)"
  using assms
  by (cases rs)
    (auto simp: writeSettlement_def op_transaction_eq_Inr op_bind_eq_Inr upsert_generated op_assert_def
      details_deleteMany_def details_createMany_def employee_exists_def month_locked_def split: if_splits option.splits)

lemma writeSettlement_Inl:
  assumes "writeSettlement rt input rs pf db = (Inl e, db')"
  shows "db' = db"
  using assms unfolding writeSettlement_def by (rule op_transaction_Inl)

lemma generate_try_Inr:
  assumes "generate_try rt input db = (Inr g, db')"
  shows "is_month_start (gi_settlementMonth input)
    \<and> not_blocked (gi_settlementMonth input) db
    \<and> acknowledges (warning_codes (gi_settlementMonth input) db) (gi_acknowledgedWarningCodes input)
    \<and> (\<exists>rm rs pf. readSettlementData (gi_settlementMonth input) db = Inr rm
        \<and> precheckReadModel rm = Inr ()
        \<and> calculate (rt_round rt) (buildCalculationInput input rm) = Inr rs
        \<and> writeSettlement rt input rs pf db = (Inr g, db'))"
  using assms
  by (auto simp: generate_try_def op_bind_eq_Inr assertCanGenerate_eq assertWritable_eq is_month_start_def
      assertSettlementMonthStart_def split: if_splits)

lemma generate_try_Inl:
  assumes "generate_try rt input db = (Inl e, db')"
  shows "db' = db"
proof -
  let ?m = "gi_settlementMonth input"
  have "not_blocked ?m db \<Longrightarrow> \<not> month_locked ?m db" by (simp add: not_blocked_def)
  with assms show ?thesis
    by (auto simp: generate_try_def op_bind_def assertCanGenerate_eq assertWritable_eq
        split: if_splits sum.splits prod.splits dest: writeSettlement_Inl)
qed

text \<open>No step behind the gate fails with the lock's error.\<close>

lemma res_map_Inl: "res_map f xs = Inl e \<Longrightarrow> \<exists>x \<in> set xs. f x = Inl e"
  by (induction xs) (auto simp: bind_res_Inl_iff)

lemma step_errors:
  "assertSettlementMonthStart m = Inl e \<Longrightarrow> \<not> isMonthLockedError e"
  "readSettlementData m db = Inl e \<Longrightarrow> \<not> isMonthLockedError e"
  "precheckReadModel rm = Inl e \<Longrightarrow> \<not> isMonthLockedError e"
  "calculate rnd ci = Inl e \<Longrightarrow> \<not> isMonthLockedError e"
  "buildPreflightAuditSnapshot pf = Inl e \<Longrightarrow> \<not> isMonthLockedError e"
  "res_map (toSettlementDetailCreateInput rt i) rs = Inl e \<Longrightarrow> \<not> isMonthLockedError e"
  by (auto simp: assertSettlementMonthStart_def readSettlementData_def bind_res_Inl_iff read_salary_item_def
      precheckReadModel_def calculate_def Let_def buildPreflightAuditSnapshot_def toSettlementDetailCreateInput_def
      prisma_validation_error_def isMonthLockedError_def
      split: if_splits option.splits dest!: res_map_Inl precheck_Inl)

lemma writeSettlement_error:
  assumes "writeSettlement rt input rs pf db = (Inl e, db')" "\<not> month_locked (gi_settlementMonth input) db"
  shows "\<not> isMonthLockedError e"
proof -
  have "\<not> (case find_settlement (gi_settlementMonth input) db of None \<Rightarrow> False | Some s \<Rightarrow> ms_status s = SS_locked)"
    using assms(2) by (simp add: month_locked_def)
  then show ?thesis
    using assms(1)
    by (auto simp: writeSettlement_def op_transaction_def op_bind_def upsert_generated details_deleteMany_def
        details_createMany_def isMonthLockedError_def
        split: if_splits sum.splits prod.splits dest!: step_errors)
qed

lemma op_bind_eq_Inl:
  "op_bind m f s = (Inl e, t) \<longleftrightarrow> m s = (Inl e, t) \<or> (\<exists>x s'. m s = (Inr x, s') \<and> f x s' = (Inl e, t))"
  by (auto simp: op_bind_def split: prod.splits sum.splits)

lemma generate_try_error:
  assumes "generate_try rt input db = (Inl e, db')"
  shows "\<not> isMonthLockedError e"
proof -
  let ?m = "gi_settlementMonth input"
  have nb: "not_blocked ?m db \<Longrightarrow> \<not> month_locked ?m db" by (simp add: not_blocked_def)
  have gate: "\<not> isMonthLockedError (AppError SETTLEMENT_PRECHECK_FAILED x)"
    "\<not> isMonthLockedError (AppError SETTLEMENT_WARNING_ACK_REQUIRED x)" for x
    by (simp_all add: isMonthLockedError_def)
  show ?thesis
    using assms unfolding generate_try_def op_bind_eq_Inl assertCanGenerate_eq assertWritable_eq
    by (auto simp: nb gate split: if_splits dest: step_errors writeSettlement_error [OF _ nb])
qed

lemma database_update3:
  assumes "db' = db\<lparr>settlements := a, settlement_details := b, audit_logs := c\<rparr>"
  shows "settlements db' = a" "settlement_details db' = b"
    and "db' = db\<lparr>settlements := settlements db', settlement_details := settlement_details db', audit_logs := c\<rparr>"
  unfolding assms by simp_all

text \<open>Conversely, a month that passes every check generates.\<close>

text \<open>A result the table accepts: a known attendance, an employee that exists, amounts in the range of their columns.\<close>

definition storable :: "runtime \<Rightarrow> database \<Rightarrow> calculation_result \<Rightarrow> bool" where
  "storable rt db r \<longleftrightarrow> employee_exists db (cr_employeeId r)
     \<and> (case toSettlementDetailCreateInput rt [] r of Inl e \<Rightarrow> False | Inr d \<Rightarrow> detail_in_range d)"

lemma storable_row:
  "storable rt db r \<longleftrightarrow> employee_exists db (cr_employeeId r)
     \<and> (\<exists>d. toSettlementDetailCreateInput rt i r = Inr d \<and> detail_in_range d)"
  by (auto simp: storable_def toSettlementDetailCreateInput_def detail_in_range_def split: option.split)

lemma created_row: "toSettlementDetailCreateInput rt i r = Inr d \<Longrightarrow> md_settlementId d = i \<and> md_employeeId d = cr_employeeId r"
  by (auto simp: toSettlementDetailCreateInput_def split: option.splits)

lemma storable_rows:
  "list_all (storable rt db) rs \<longleftrightarrow> (\<exists>rows. res_map (toSettlementDetailCreateInput rt i) rs = Inr rows
     \<and> list_all detail_in_range rows \<and> list_all (\<lambda>d. employee_exists db (md_employeeId d)) rows)"
proof (induction rs)
  case (Cons r rs)
  then show ?case
    by (auto simp: storable_row [of rt db r i] bind_res_Inr_iff created_row)
qed simp

lemma rows_keys: "res_map (toSettlementDetailCreateInput rt i) rs = Inr rows \<Longrightarrow> map detail_key rows = map (\<lambda>r. (i, cr_employeeId r)) rs"
  by (induction rs arbitrary: rows) (auto simp: bind_res_Inr_iff detail_key_def dest: created_row)

lemma calculate_distinct: "calculate rnd input = Inr rs \<Longrightarrow> distinct (map cr_employeeId rs)"
  using calculate_Inr [of rnd input rs] distinct_collectEmployeeIds by (auto simp: comp_def)

lemma writeSettlement_runs:
  assumes "\<not> month_locked (gi_settlementMonth input) db"
    and "list_all (storable rt db) rs" "distinct (map cr_employeeId rs)"
    and "buildPreflightAuditSnapshot pf = Inr ()"
  shows "\<exists>db'. writeSettlement rt input rs pf db =
    (Inr \<lparr>gr_settlementId = ms_id (generated_row rt input db),
          gr_settlementMonth = ms_month (generated_row rt input db), gr_detailCount = length rs\<rparr>, db')"
proof -
  let ?i = "ms_id (generated_row rt input db)"
  obtain rows where rows: "res_map (toSettlementDetailCreateInput rt ?i) rs = Inr rows" "list_all detail_in_range rows"
    "list_all (\<lambda>d. employee_exists db (md_employeeId d)) rows"
    using assms(2) unfolding storable_rows [of _ _ _ ?i] by blast
  have keys: "map detail_key rows = map (\<lambda>r. (?i, cr_employeeId r)) rs" using rows(1) by (rule rows_keys)
  have d: "distinct (map detail_key rows)"
    using assms(3) by (simp add: keys distinct_map inj_on_def)
  have k: "set (map detail_key rows) \<inter>
      set (map detail_key (filter (\<lambda>d. md_settlementId d \<noteq> ?i) (settlement_details db))) = {}"
    unfolding keys by (auto simp: detail_key_def)
  have l: "\<not> (case find_settlement (gi_settlementMonth input) db of None \<Rightarrow> False | Some s \<Rightarrow> ms_status s = SS_locked)"
    using assms(1) by (simp add: month_locked_def)
  let ?db1 = "db\<lparr>settlements := generated_settlements rt input db,
      settlement_details := filter (\<lambda>d. md_settlementId d \<noteq> ?i) (settlement_details db)\<rparr>"
  have "list_all (\<lambda>d. employee_exists ?db1 (md_employeeId d)) rows" using rows(3) by (simp add: employee_exists_def)
  then have "(if 0 < length rs then op_bind (op_lift (res_map (toSettlementDetailCreateInput rt ?i) rs)) details_createMany
         else op_return ()) ?db1 = (Inr (), ?db1\<lparr>settlement_details := settlement_details ?db1 @ rows\<rparr>)"
    using rows(1,2) d k by (cases rs) (simp_all add: details_createMany_def)
  then show ?thesis
    using l assms(4)
    by (simp add: writeSettlement_def op_transaction_def op_assert_def upsert_generated details_deleteMany_def
        op_bind_Inr)
qed

lemma generation_runs:
  assumes "is_month_start (gi_settlementMonth input)" and "not_blocked (gi_settlementMonth input) db"
    and "acknowledges (warning_codes (gi_settlementMonth input) db) (gi_acknowledgedWarningCodes input)"
    and "readSettlementData (gi_settlementMonth input) db = Inr rm" "precheckReadModel rm = Inr ()"
    and "calculate (rt_round rt) (buildCalculationInput input rm) = Inr rs"
    and "list_all (storable rt db) rs"
  shows "\<exists>g db'. generateSettlement rt input db = (Inr g, db') \<and> gr_detailCount g = length rs"
proof -
  let ?m = "gi_settlementMonth input"
  have l: "\<not> month_locked ?m db" using assms(2) by (simp add: not_blocked_def)
  have pf: "buildPreflightAuditSnapshot (preflightCheck rt ?m db) = Inr ()"
    using assms(2) severity_blocking_iff [of rt ?m db]
    by (simp add: buildPreflightAuditSnapshot_def preflightCheck_def Let_def case_prod_beta)
  obtain db' where w: "writeSettlement rt input rs (preflightCheck rt ?m db) db =
    (Inr \<lparr>gr_settlementId = ms_id (generated_row rt input db),
          gr_settlementMonth = ms_month (generated_row rt input db), gr_detailCount = length rs\<rparr>, db')"
    using writeSettlement_runs [OF l assms(7) calculate_distinct [OF assms(6)] pf] by blast
  have s: "assertSettlementMonthStart ?m = Inr ()"
    using assms(1) by (simp add: assertSettlementMonthStart_def is_month_start_def)
  have "generate_try rt input db = writeSettlement rt input rs (preflightCheck rt ?m db) db"
    using assms(2,3,5,6) l
    by (simp add: generate_try_def s assertCanGenerate_eq assertWritable_eq op_bind_Inr assms(4))
  then show ?thesis using w by (simp add: generateSettlement_def op_catch_def)
qed

text \<open>The rows of a month the gate does not look at: owners of incomes and events, configurations of salary items, shares of groups.\<close>

definition month_data_consistent :: "runtime \<Rightarrow> int \<Rightarrow> database \<Rightarrow> bool" where
  "month_data_consistent rt m db \<longleftrightarrow>
     list_all (\<lambda>r. has_employee (ir_employeeId r)) (filter (\<lambda>r. ir_month r = m \<and> ir_status r = CS_confirmed) (income_records db))
   \<and> list_all (\<lambda>e. has_employee (ce_employeeId e)) (filter (\<lambda>e. ce_month e = m \<and> ce_status e = CS_confirmed) (card_spend_events db))
   \<and> list_all (\<lambda>i. list_ex (\<lambda>c. sc_id c = si_configId i) (salary_configs db))
       (filter (\<lambda>i. si_month i = m \<and> rate_active (si_status i)) (salary_items db))
   \<and> distinct (map gm_employeeId (filter (\<lambda>g. gm_month g = m) (group_members db)))
   \<and> list_all (\<lambda>g. dec_sum (rt_round rt)
         (map gm_allocationRatio (filter (\<lambda>x. gm_groupId x = gm_groupId g) (filter (\<lambda>x. gm_month x = m) (group_members db)))) = 1)
       (filter (\<lambda>g. gm_month g = m) (group_members db))"

lemma read_items:
  "(\<exists>items. res_map (read_salary_item db) is = Inr items) \<longleftrightarrow> list_all (\<lambda>i. list_ex (\<lambda>c. sc_id c = si_configId i) (salary_configs db)) is"
proof (induction "is")
  case (Cons i "is")
  have "(\<exists>x. read_salary_item db i = Inr x) \<longleftrightarrow> list_ex (\<lambda>c. sc_id c = si_configId i) (salary_configs db)"
    by (auto simp: read_salary_item_def find_row_None list_ex_iff split: option.split dest!: find_row_Some)
  then show ?case using Cons by (auto simp: bind_res_Inr_iff)
qed simp

lemma rates_from_gate:
  assumes "not_blocked m db" "e \<in> set (read_api_spend m db)"
  shows "as_provider e \<in> fi_provider ` set (read_fee_rates m db)"
proof -
  obtain c where c: "c \<in> set (card_spend_events db)" "ce_month c = m" "ce_status c = CS_confirmed" "as_provider e = ce_provider c"
    using assms(2) by (auto simp: read_api_spend_def)
  then obtain r where "r \<in> set (card_fee_rates db)" "fr_month r = m" "fr_provider r = ce_provider c" "rate_active (fr_status r)"
    using assms(1) by (auto simp: not_blocked_def list_all_iff list_ex_iff)
  then show ?thesis using c(4) by (auto simp: read_fee_rates_def image_iff)
qed

lemma consistent_month_calculates:
  assumes "not_blocked m db" "gi_settlementMonth input = m"
  shows "month_data_consistent rt m db \<longleftrightarrow>
    (\<exists>rm rs. readSettlementData m db = Inr rm \<and> precheckReadModel rm = Inr ()
       \<and> calculate (rt_round rt) (buildCalculationInput input rm) = Inr rs)"
proof -
  let ?items = "filter (\<lambda>i. si_month i = m \<and> rate_active (si_status i)) (salary_items db)"
  obtain x where x: "active_exchange_rate m db = Some x"
    using assms(1) by (cases "active_exchange_rate m db") (auto simp: not_blocked_def active_exchange_rate_def find_row_None list_ex_iff)
  define rm where "rm items = \<lparr>rm_exchangeRate = xr_usdToRmbRate x, rm_incomeRecords = read_incomes m db,
      rm_apiCardSpendEvents = read_api_spend m db, rm_manualCardSpendEntries = read_manual_spend m db,
      rm_cardProviderFeeRates = read_fee_rates m db, rm_groupMembers = read_members m db,
      rm_historicalNegativeProfits = read_historical m db, rm_salaryManualItems = items\<rparr>" for items
  have read: "readSettlementData m db = Inr y \<longleftrightarrow> (\<exists>items. res_map (read_salary_item db) ?items = Inr items \<and> y = rm items)" for y
    using x by (auto simp: readSettlementData_def bind_res_Inr_iff rm_def)
  have rates: "as_provider ` set (read_api_spend m db) \<subseteq> fi_provider ` set (read_fee_rates m db)"
    using rates_from_gate [OF assms(1)] by blast
  have pre: "precheckReadModel (rm items) = Inr () \<longleftrightarrow>
      (\<forall>r \<in> set (read_incomes m db). has_employee (in_employeeId r)) \<and> (\<forall>e \<in> set (read_api_spend m db). has_employee (as_employeeId e))"
    for items
    using rates by (auto simp: precheckReadModel_def rm_def filter_empty_conv)
  have status: "\<forall>r \<in> set (read_incomes m db). in_status r = CS_confirmed" "\<forall>e \<in> set (read_api_spend m db). as_status e = CS_confirmed"
    by (auto simp: read_incomes_def read_api_spend_def)
  have calc: "(\<exists>rs. calculate (rt_round rt) (buildCalculationInput input (rm items)) = Inr rs) \<longleftrightarrow>
      (\<forall>r \<in> set (read_incomes m db). has_employee (in_employeeId r)) \<and> (\<forall>e \<in> set (read_api_spend m db). has_employee (as_employeeId e))
      \<and> distinct (map mb_employeeId (read_members m db))
      \<and> (\<forall>g \<in> set (read_members m db). dec_sum (rt_round rt)
           (map mb_allocationRatio (filter (\<lambda>x. mb_groupId x = mb_groupId g) (read_members m db))) = 1)" for items
  proof -
    have "(\<exists>rs. calculate (rt_round rt) (buildCalculationInput input (rm items)) = Inr rs) \<longleftrightarrow>
        precheck (rt_round rt) (buildCalculationInput input (rm items)) = Inr ()"
      by (auto simp: calculate_def Let_def bind_res_Inr_iff)
    then show ?thesis
      unfolding precheck_Inr using status rates by (auto simp: buildCalculationInput_def rm_def group_ratios_def)
  qed
  have incomes: "(\<forall>r \<in> set (read_incomes m db). has_employee (in_employeeId r)) \<longleftrightarrow>
      list_all (\<lambda>r. has_employee (ir_employeeId r)) (filter (\<lambda>r. ir_month r = m \<and> ir_status r = CS_confirmed) (income_records db))"
    and spends: "(\<forall>e \<in> set (read_api_spend m db). has_employee (as_employeeId e)) \<longleftrightarrow>
      list_all (\<lambda>e. has_employee (ce_employeeId e)) (filter (\<lambda>e. ce_month e = m \<and> ce_status e = CS_confirmed) (card_spend_events db))"
    by (auto simp: read_incomes_def read_api_spend_def list_all_iff)
  have members: "map mb_employeeId (read_members m db) = map gm_employeeId (filter (\<lambda>g. gm_month g = m) (group_members db))"
    "(\<forall>g \<in> set (read_members m db). dec_sum (rt_round rt)
           (map mb_allocationRatio (filter (\<lambda>x. mb_groupId x = mb_groupId g) (read_members m db))) = 1) \<longleftrightarrow>
      list_all (\<lambda>g. dec_sum (rt_round rt)
         (map gm_allocationRatio (filter (\<lambda>x. gm_groupId x = gm_groupId g) (filter (\<lambda>x. gm_month x = m) (group_members db)))) = 1)
       (filter (\<lambda>g. gm_month g = m) (group_members db))"
    by (auto simp: read_members_def list_all_iff filter_map comp_def)
  have "(\<exists>y rs. readSettlementData m db = Inr y \<and> precheckReadModel y = Inr () \<and> calculate (rt_round rt) (buildCalculationInput input y) = Inr rs)
      \<longleftrightarrow> (\<exists>items. res_map (read_salary_item db) ?items = Inr items \<and> precheckReadModel (rm items) = Inr ()
           \<and> (\<exists>rs. calculate (rt_round rt) (buildCalculationInput input (rm items)) = Inr rs))"
    unfolding read by iprover
  then show ?thesis
    unfolding month_data_consistent_def read_items [symmetric] incomes [symmetric] spends [symmetric] members [symmetric] pre calc
    by iprover
qed

definition month_results :: "runtime \<Rightarrow> generate_input \<Rightarrow> database \<Rightarrow> calculation_result list" where
  "month_results rt input db =
     (case readSettlementData (gi_settlementMonth input) db of
        Inl e \<Rightarrow> []
      | Inr rm \<Rightarrow> (case calculate (rt_round rt) (buildCalculationInput input rm) of Inl e \<Rightarrow> [] | Inr rs \<Rightarrow> rs))"

lemma generation_failure_entry:
  assumes "generateSettlement rt input db = (Inl e, db')"
  shows "\<exists>entry. al_result entry = AR_failure \<and> al_action entry = ''settlement.generate''
    \<and> db' = db\<lparr>audit_logs := audit_logs db @ [entry]\<rparr>"
proof -
  obtain r s where run: "generate_try rt input db = (r, s)" by (cases "generate_try rt input db")
  show ?thesis
  proof (cases r)
    case (Inl e')
    then have "s = db" "\<not> isMonthLockedError e'"
      using run generate_try_Inl generate_try_error by blast+
    then have "generateSettlement rt input db = op_bind (writeFailureAudit input e') (\<lambda>_. op_throw e') db"
      using run Inl by (simp add: generateSettlement_def op_catch_def)
    then have "db' = db\<lparr>audit_logs := audit_logs db @ [audit_row (failure_input input e') AR_failure]\<rparr>"
      using assms by (simp add: writeFailureAudit_def)
    then show ?thesis by (intro exI [of _ "audit_row (failure_input input e') AR_failure"])
        (simp add: audit_row_def failure_input_def)
  next
    case (Inr g)
    then show ?thesis using assms run by (simp add: generateSettlement_def op_catch_def)
  qed
qed

section \<open>Properties\<close>

text \<open>
  C6: Generation is all or nothing. When it throws, the database is the old one except for
  exactly one new audit row, a failure of \<open>settlement.generate\<close>; no detail, no settlement
  row and no input of the month has changed.
\<close>

theorem generation_failure_changes_nothing:
  assumes "generateSettlement rt input db = (Inl e, db')"
  shows "\<exists>entry. al_result entry = AR_failure \<and> al_action entry = ''settlement.generate''
    \<and> db' = db\<lparr>audit_logs := audit_logs db @ [entry]\<rparr>"
  using assms by (rule generation_failure_entry)

text \<open>
  C7: A successful generation replaces the details of its month by the calculation over the
  month's current rows, and nothing else: the settlement row keeps its status (a new one is
  a draft), the settlements of other months and their details stay, and every input table is untouched. It only
  happens on an unlocked month that passed the gate.
\<close>

theorem generation_replaces_details:
  assumes "generateSettlement rt input db = (Inr g, db')"
  shows "\<exists>s rm rs rows logs.
      \<not> month_locked (gi_settlementMonth input) db
    \<and> find_settlement (gi_settlementMonth input) db' = Some s \<and> gr_settlementId g = ms_id s
    \<and> ms_status s = (case find_settlement (gi_settlementMonth input) db of None \<Rightarrow> SS_draft | Some s0 \<Rightarrow> ms_status s0)
    \<and> readSettlementData (gi_settlementMonth input) db = Inr rm
    \<and> calculate (rt_round rt) (buildCalculationInput input rm) = Inr rs
    \<and> res_map (toSettlementDetailCreateInput rt (ms_id s)) rs = Inr rows
    \<and> settlement_details db' = filter (\<lambda>d. md_settlementId d \<noteq> ms_id s) (settlement_details db) @ rows
    \<and> filter (\<lambda>x. ms_month x \<noteq> gi_settlementMonth input) (settlements db') =
        filter (\<lambda>x. ms_month x \<noteq> gi_settlementMonth input) (settlements db)
    \<and> db' = db\<lparr>settlements := settlements db', settlement_details := settlement_details db',
               audit_logs := audit_logs db @ logs\<rparr>"
proof -
  have t: "generate_try rt input db = (Inr g, db')"
    using assms by (auto simp: generateSettlement_def op_catch_def op_bind_def split: prod.splits sum.splits if_splits)
  obtain rm rs pf where r: "readSettlementData (gi_settlementMonth input) db = Inr rm"
    "calculate (rt_round rt) (buildCalculationInput input rm) = Inr rs"
    "writeSettlement rt input rs pf db = (Inr g, db')"
    using generate_try_Inr [OF t] by blast
  obtain rows logs where w: "\<not> month_locked (gi_settlementMonth input) db"
    "res_map (toSettlementDetailCreateInput rt (ms_id (generated_row rt input db))) rs = Inr rows"
    "g = \<lparr>gr_settlementId = ms_id (generated_row rt input db),
             gr_settlementMonth = ms_month (generated_row rt input db), gr_detailCount = length rs\<rparr>"
    "distinct (map detail_key rows)"
    "db' = db\<lparr>settlements := generated_settlements rt input db,
          settlement_details :=
            filter (\<lambda>d. md_settlementId d \<noteq> ms_id (generated_row rt input db)) (settlement_details db) @ rows,
          audit_logs := audit_logs db @ logs\<rparr>"
    using writeSettlement_Inr [OF r(3)] by (elim conjE exE) (rule that)
  have id: "gr_settlementId g = ms_id (generated_row rt input db)" by (simp add: w(3))
  have found: "find_settlement (gi_settlementMonth input) db' = Some (generated_row rt input db)"
    by (rule generated_row_found) (rule database_update3(1) [OF w(5)])
  have status: "ms_status (generated_row rt input db) =
      (case find_settlement (gi_settlementMonth input) db of None \<Rightarrow> SS_draft | Some s0 \<Rightarrow> ms_status s0)"
    by (simp add: generated_row_def split: option.split)
  have others: "filter (\<lambda>x. ms_month x \<noteq> gi_settlementMonth input) (settlements db') =
      filter (\<lambda>x. ms_month x \<noteq> gi_settlementMonth input) (settlements db)"
    unfolding database_update3(1) [OF w(5)] by (rule generated_other_months)
  show ?thesis
    by (intro exI conjI, rule w(1), rule found, rule id, rule status, rule r(1), rule r(2), rule w(2),
        rule database_update3(2) [OF w(5)], rule others, rule database_update3(3) [OF w(5)])
qed

text \<open>
  C8: A month is generated exactly when nothing is wrong with it: the request names a month start, the gate is open and its warnings are
  acknowledged, the rows of the month are consistent (\<open>month_data_consistent\<close>: confirmed incomes and card events have an
  employee, salary items a configuration, nobody is in two groups and the shares of each group add up to 1), and every
  result of the calculation can be stored (\<open>storable\<close>: a known attendance, an employee that exists, amounts in the range
  of their columns). A month refused for any other reason, or generated in spite of one of these, would contradict it.
\<close>

theorem generation_succeeds:
  "(\<exists>g db'. generateSettlement rt input db = (Inr g, db')) \<longleftrightarrow>
     is_month_start (gi_settlementMonth input) \<and> not_blocked (gi_settlementMonth input) db
   \<and> acknowledges (warning_codes (gi_settlementMonth input) db) (gi_acknowledgedWarningCodes input)
   \<and> month_data_consistent rt (gi_settlementMonth input) db
   \<and> list_all (storable rt db) (month_results rt input db)"
proof
  assume "\<exists>g db'. generateSettlement rt input db = (Inr g, db')"
  then obtain g db' where "generate_try rt input db = (Inr g, db')"
    by (auto simp: generateSettlement_def op_catch_def op_bind_def split: prod.splits sum.splits if_splits)
  from generate_try_Inr [OF this] obtain rm rs pf where gate: "is_month_start (gi_settlementMonth input)"
      "not_blocked (gi_settlementMonth input) db"
      "acknowledges (warning_codes (gi_settlementMonth input) db) (gi_acknowledgedWarningCodes input)"
    and run: "readSettlementData (gi_settlementMonth input) db = Inr rm" "precheckReadModel rm = Inr ()"
      "calculate (rt_round rt) (buildCalculationInput input rm) = Inr rs" "writeSettlement rt input rs pf db = (Inr g, db')"
    by blast
  have "list_all (storable rt db) rs"
    using writeSettlement_Inr [OF run(4)] storable_rows by blast
  then show "is_month_start (gi_settlementMonth input) \<and> not_blocked (gi_settlementMonth input) db
   \<and> acknowledges (warning_codes (gi_settlementMonth input) db) (gi_acknowledgedWarningCodes input)
   \<and> month_data_consistent rt (gi_settlementMonth input) db \<and> list_all (storable rt db) (month_results rt input db)"
    using gate run consistent_month_calculates [OF gate(2) refl, of rt] by (auto simp: month_results_def)
next
  assume ok: "is_month_start (gi_settlementMonth input) \<and> not_blocked (gi_settlementMonth input) db
   \<and> acknowledges (warning_codes (gi_settlementMonth input) db) (gi_acknowledgedWarningCodes input)
   \<and> month_data_consistent rt (gi_settlementMonth input) db \<and> list_all (storable rt db) (month_results rt input db)"
  then obtain rm rs where "readSettlementData (gi_settlementMonth input) db = Inr rm" "precheckReadModel rm = Inr ()"
      "calculate (rt_round rt) (buildCalculationInput input rm) = Inr rs"
    using consistent_month_calculates [OF _ refl] by blast
  then show "\<exists>g db'. generateSettlement rt input db = (Inr g, db')"
    using ok generation_runs [of input db rm rt rs] by (auto simp: month_results_def)
qed

section \<open>Witnesses\<close>

definition sample_generate_input :: generate_input where
  "sample_generate_input =
     \<lparr>gi_settlementMonth = FEB_2026, gi_actor = sample_actor, gi_attendanceByEmployeeId = None,
      gi_acknowledgedWarningCodes = JUndefined\<rparr>"

text \<open>One employee who lost money in February.\<close>

definition sample_month_db :: database where
  "sample_month_db = empty_db
     \<lparr>employees := [\<lparr>em_id = ''e1'', em_employeeCode = ''E1'', em_name = ''n'', em_email = None, em_phone = None,
        em_status = CS_active, em_hiredAt = None, em_leftAt = None\<rparr>],
      exchange_rates := [\<lparr>xr_id = ''x1'', xr_month = FEB_2026, xr_usdToRmbRate = 7, xr_status = CS_active, xr_createdBy = ''u1''\<rparr>],
      income_records := [\<lparr>ir_id = ''i1'', ir_month = FEB_2026, ir_affiliateAccountId = None, ir_employeeId = Some ''e1'',
        ir_source = ''manual'', ir_externalRecordId = None, ir_subField = None, ir_subValue = None,
        ir_incomeUsd = 100, ir_rawData = JNull, ir_status = CS_confirmed, ir_importedBy = None\<rparr>],
      manual_card_spends := [\<lparr>mc_id = ''m1'', mc_month = FEB_2026, mc_providerName = ''p'', mc_cardIdentifier = None,
        mc_employeeId = ''e1'', mc_settledSpendUsd = 250, mc_feeRate = 0, mc_actualSpendUsd = 250,
        mc_reason = None, mc_status = SS_confirmed, mc_createdBy = ''u1''\<rparr>]\<rparr>"

lemma sample_month_facts:
  "is_month_start FEB_2026" "not_blocked FEB_2026 sample_month_db" "warning_codes FEB_2026 sample_month_db = []"
proof -
  show "is_month_start FEB_2026" by code_simp
  show "not_blocked FEB_2026 sample_month_db"
    by (simp add: not_blocked_def sample_month_db_def empty_db_def month_locked_def find_settlement_def
        rate_active_def CAKE_ADJUSTMENT_SOURCE_def)
  show "warning_codes FEB_2026 sample_month_db = []"
    by (simp add: warning_codes_def sample_month_db_def empty_db_def open_unmatched_def readManualDraftCounts_def
        sync_task_count_def)
qed

definition sample_read_model :: read_model where
  "sample_read_model =
     \<lparr>rm_exchangeRate = 7,
      rm_incomeRecords = [\<lparr>in_employeeId = Some ''e1'', in_incomeUsd = 100, in_status = CS_confirmed\<rparr>],
      rm_apiCardSpendEvents = [], rm_manualCardSpendEntries =
        [\<lparr>mi_employeeId = ''e1'', mi_actualSpendUsd = 250, mi_status = SS_confirmed\<rparr>],
      rm_cardProviderFeeRates = [], rm_groupMembers = [], rm_historicalNegativeProfits = [],
      rm_salaryManualItems = []\<rparr>"

lemma sample_read: "readSettlementData FEB_2026 sample_month_db = Inr sample_read_model"
  by (simp add: readSettlementData_def sample_month_db_def empty_db_def active_exchange_rate_def rate_active_def
      read_incomes_def read_api_spend_def read_manual_spend_def read_fee_rates_def read_members_def
      read_historical_def sample_read_model_def)

lemma sample_precheck: "precheckReadModel sample_read_model = Inr ()"
  by (simp add: precheckReadModel_def sample_read_model_def has_employee_def js_dedup_def)

definition sample_month_results :: "calculation_result list" where
  "sample_month_results =
     (case calculate exact_round (buildCalculationInput sample_generate_input sample_read_model) of
        Inl _ \<Rightarrow> [] | Inr rs \<Rightarrow> rs)"

lemma sample_month_run:
  "case calculate exact_round (buildCalculationInput sample_generate_input sample_read_model) of
     Inl _ \<Rightarrow> False
   | Inr rs \<Rightarrow> map (\<lambda>r. (cr_employeeId r, cr_attendanceStatus r, ep_originalProfitUsd (cr_profit r),
       cr_remainingNegativeProfitUsd r, cr_finalSalaryRmb r)) rs = [(''e1'', ''full_attendance'', -150, 150, 3000)]"
  by code_simp

lemma sample_month_amounts:
  "case calculate exact_round (buildCalculationInput sample_generate_input sample_read_model) of
     Inl _ \<Rightarrow> False
   | Inr rs \<Rightarrow> map (\<lambda>r. (ep_totalRevenueUsd (cr_profit r), ep_finalCardSpendUsd (cr_profit r), cr_exchangeRate r, cr_commissionRmb r,
       cr_manualAdditionRmb r, cr_manualDeductionRmb r)) rs = [(100, 250, 7, 0, 0, 0)]"
  by code_simp

lemma sample_month_calculates:
  "calculate (rt_round sample_rt) (buildCalculationInput sample_generate_input sample_read_model) = Inr sample_month_results"
  using sample_month_run by (auto simp: sample_month_results_def sample_rt_def split: sum.splits)

lemma sample_month_values:
  "map (\<lambda>r. (cr_employeeId r, cr_attendanceStatus r, ep_originalProfitUsd (cr_profit r),
       cr_remainingNegativeProfitUsd r, cr_finalSalaryRmb r)) sample_month_results =
     [(''e1'', ''full_attendance'', -150, 150, 3000)]"
  using sample_month_run by (auto simp: sample_month_results_def split: sum.splits)

lemma sample_columns: "column_round 6 (of_int n) = of_int n" "column_round 2 (of_int n) = of_int n"
proof -
  have "scaled 6 (of_int n :: rat)" "scaled 2 (of_int n :: rat)"
    by (auto simp: scaled_def intro: exI [of _ "n * 1000000"] exI [of _ "n * 100"])
  then show "column_round 6 (of_int n) = of_int n" "column_round 2 (of_int n) = of_int n"
    by (simp_all add: pg_column.col_exact)
qed

lemma sample_month_storable: "list_all (storable sample_rt sample_month_db) sample_month_results"
proof -
  obtain x where x: "sample_month_results = [x]" "cr_employeeId x = ''e1''" "cr_attendanceStatus x = ''full_attendance''"
    "ep_originalProfitUsd (cr_profit x) = -150" "cr_finalSalaryRmb x = 3000"
    using sample_month_values by (auto simp: map_eq_Cons_conv)
  then have y: "ep_totalRevenueUsd (cr_profit x) = 100" "ep_finalCardSpendUsd (cr_profit x) = 250" "cr_exchangeRate x = 7"
    "cr_commissionRmb x = 0" "cr_manualAdditionRmb x = 0" "cr_manualDeductionRmb x = 0"
    using sample_month_amounts by (auto simp: sample_month_results_def split: sum.splits)
  have "employee_exists sample_month_db ''e1''" by (simp add: employee_exists_def sample_month_db_def)
  moreover have "dec_times exact_round (-150) 7 = -1050" by code_simp
  ultimately show ?thesis
    using sample_columns [of 100] sample_columns [of 250] sample_columns [of "-150"] sample_columns [of "-1050"] sample_columns [of 0]
      sample_columns [of 3000]
    by (simp add: x y storable_def toSettlementDetailCreateInput_def attendance_of_def detail_in_range_def sample_rt_def)
qed

theorem generation_failure_changes_nothing_witness:
  "\<exists>entry. snd (generateSettlement sample_rt sample_generate_input empty_db) = empty_db\<lparr>audit_logs := [entry]\<rparr>"
proof -
  have "\<not> not_blocked FEB_2026 empty_db" by (simp add: not_blocked_def empty_db_def)
  then have "\<exists>e. fst (generateSettlement sample_rt sample_generate_input empty_db) = Inl e"
    using sample_month_facts(1)
    by (simp add: generateSettlement_def generate_try_def sample_generate_input_def assertSettlementMonthStart_def
        is_month_start_def assertCanGenerate_eq op_catch_def op_bind_Inl isMonthLockedError_def writeFailureAudit_def)
  then obtain e db' where run: "generateSettlement sample_rt sample_generate_input empty_db = (Inl e, db')"
    by (cases "generateSettlement sample_rt sample_generate_input empty_db") auto
  have "audit_logs empty_db = []" by (simp add: empty_db_def)
  then show ?thesis using generation_failure_changes_nothing [OF run] run by auto
qed

lemma sample_checks:
  "is_month_start (gi_settlementMonth sample_generate_input)"
  "not_blocked (gi_settlementMonth sample_generate_input) sample_month_db"
  "acknowledges (warning_codes (gi_settlementMonth sample_generate_input) sample_month_db)
     (gi_acknowledgedWarningCodes sample_generate_input)"
  "readSettlementData (gi_settlementMonth sample_generate_input) sample_month_db = Inr sample_read_model"
  using sample_month_facts sample_read by (simp_all add: sample_generate_input_def acknowledges_def)

theorem generation_succeeds_witness:
  "\<exists>g db'. generateSettlement sample_rt sample_generate_input sample_month_db = (Inr g, db')"
proof -
  have "month_data_consistent sample_rt (gi_settlementMonth sample_generate_input) sample_month_db"
    using consistent_month_calculates [OF sample_checks(2) refl] sample_checks(4) sample_precheck sample_month_calculates by blast
  moreover have "month_results sample_rt sample_generate_input sample_month_db = sample_month_results"
    using sample_checks(4) sample_month_calculates by (simp add: month_results_def)
  ultimately show ?thesis using generation_succeeds sample_checks(1-3) sample_month_storable by auto
qed

theorem generation_replaces_details_witness:
  "map (\<lambda>d. (md_employeeId d, md_grossProfitUsd d))
     (settlement_details (snd (generateSettlement sample_rt sample_generate_input sample_month_db))) = [(''e1'', -150)]"
proof -
  obtain g db' where run: "generateSettlement sample_rt sample_generate_input sample_month_db = (Inr g, db')"
    using generation_runs [OF sample_checks sample_precheck sample_month_calculates sample_month_storable] by blast
  obtain s :: settlement and rm rs rows where r: "readSettlementData (gi_settlementMonth sample_generate_input) sample_month_db = Inr rm"
    "calculate (rt_round sample_rt) (buildCalculationInput sample_generate_input rm) = Inr rs"
    "res_map (toSettlementDetailCreateInput sample_rt (ms_id s)) rs = Inr rows"
    "settlement_details db' = filter (\<lambda>d. md_settlementId d \<noteq> ms_id s) (settlement_details sample_month_db) @ rows"
    using generation_replaces_details [OF run] by (elim exE conjE) (rule that, assumption+)
  have "rs = sample_month_results" using r(1,2) sample_checks(4) sample_month_calculates by simp
  then obtain x where x: "rs = [x]" "cr_employeeId x = ''e1''" "ep_originalProfitUsd (cr_profit x) = -150"
    using sample_month_values by (auto simp: map_eq_Cons_conv)
  have "column_round 6 (-150) = -150" 
    by (rule pg_column.col_exact) (simp add: scaled_def, rule exI [of _ "-150000000"], simp)
  then have "map (\<lambda>d. (md_employeeId d, md_grossProfitUsd d)) rows = [(''e1'', -150)]"
    using r(3) x by (auto simp: toSettlementDetailCreateInput_def sample_rt_def split: option.splits)
  moreover have "settlement_details sample_month_db = []" by (simp add: sample_month_db_def empty_db_def)
  ultimately show ?thesis using r(4) run by simp
qed

end
