(* ===== verification/Settlement_Month.thy ===== *)
theory Settlement_Month
  imports App_Error
begin

text \<open>
  \<open>apps/api/src/settlement/settlement-month.util.ts\<close>: which settlement month a moment
  belongs to, and the textual form of a month. A month is the time value of its first
  instant in UTC; the attribution is made in GMT+8.
\<close>

definition GMT_PLUS_8_OFFSET_MS :: int where
  "GMT_PLUS_8_OFFSET_MS = 8 * 60 * 60 * 1000"

text \<open>
  \<open>new Date(t + offset)\<close> clips; the UTC getters of an Invalid Date are NaN and
  \<open>Date.UTC\<close> of NaN is invalid again.
\<close>

definition month_start_gmt8 :: "int \<Rightarrow> js_date" where
  "month_start_gmt8 t =
     (case time_clip (t + GMT_PLUS_8_OFFSET_MS) of
        None \<Rightarrow> None
      | Some gmt8Time \<Rightarrow> date_UTC (getUTCFullYear gmt8Time) (getUTCMonth gmt8Time) 1)"

definition getCurrentSettlementMonth :: "js_date \<Rightarrow> js_date outcome" where
  "getCurrentSettlementMonth now =
     (case now of
        None \<Rightarrow> Inl (JsTypeError ''now must be a valid Date.'')
      | Some t \<Rightarrow> Inr (month_start_gmt8 t))"

definition getSettlementMonthFromTransactionAt :: "js_date \<Rightarrow> js_date outcome" where
  "getSettlementMonthFromTransactionAt transactionAt =
     (case transactionAt of
        None \<Rightarrow> Inl (JsTypeError ''transactionAt must be a valid Date.'')
      | Some t \<Rightarrow> Inr (month_start_gmt8 t))"

text \<open>\<open>/^(\d{4})-(\d{2})$/\<close>: the two groups as numbers. \<open>$\<close> is the end of the input.\<close>

definition match_year_month :: "string \<Rightarrow> (int \<times> int) option" where
  "match_year_month s =
     (if length s = 7 \<and> list_all is_digit (take 4 s) \<and> s ! 4 = CHR ''-''
         \<and> list_all is_digit (drop 5 s)
      then Some (int (digits_to_nat (take 4 s)), int (digits_to_nat (drop 5 s)))
      else None)"

definition parseSettlementMonthParam :: "string \<Rightarrow> js_date outcome" where
  "parseSettlementMonthParam month =
     (case match_year_month month of
        None \<Rightarrow> Inl (AppError VALIDATION_ERROR ''month must use YYYY-MM format.'')
      | Some (year, mm) \<Rightarrow>
          (let monthIndex = mm - 1
           in if monthIndex < 0 \<or> monthIndex > 11
              then Inl (AppError VALIDATION_ERROR ''month must use YYYY-MM format.'')
              else Inr (date_UTC year monthIndex 1)))"

definition formatSettlementMonth :: "int \<Rightarrow> string" where
  "formatSettlementMonth month = take 7 (iso_string month)"

definition nextSettlementMonth :: "int \<Rightarrow> js_date" where
  "nextSettlementMonth month = date_UTC (getUTCFullYear month) (getUTCMonth month + 1) 1"

section \<open>Lemmas\<close>

lemma date_UTC_month_start:
  assumes "date_UTC y m 1 = Some t" "0 \<le> m" "m < 12"
  shows "is_month_start t" and "getUTCMonth t = m"
    and "getUTCFullYear t = (if 0 \<le> y \<and> y \<le> 99 then 1900 + y else y)"
  using assms fields_of_month_start
  by (auto simp: date_UTC_def time_clip_def Let_def split: if_splits)

lemma date_UTC_defined:
  assumes "0 \<le> m" "m < 12" and "0 \<le> y" "y \<le> 9999"
  shows "date_UTC y m 1 \<noteq> None"
proof -
  let ?y = "if 0 \<le> y \<and> y \<le> 99 then 1900 + y else y"
  have "make_day ?y m 1 = day_from_year ?y + days_before_month ?y m"
    using make_day_in_year [OF assms(1,2)] by simp
  moreover have "day_from_year 0 \<le> day_from_year ?y" "day_from_year ?y \<le> day_from_year 9999"
    using assms by (auto intro!: day_from_year_mono)
  moreover have "day_from_year 0 = -719528" "day_from_year 9999 = 2932532"
    by (simp_all add: day_from_year_def)
  moreover have "0 \<le> days_before_month ?y m" "days_before_month ?y m \<le> 366"
    using days_before_month_bounds [OF assms(1,2), of ?y] days_in_year_bounds [of ?y] by linarith+
  ultimately have "-719528 \<le> make_day ?y m 1" "make_day ?y m 1 \<le> 2932898" by linarith+
  then have "\<bar>make_day ?y m 1 * ms_per_day\<bar> \<le> 8640000000000000"
    by (simp add: ms_per_day_def abs_le_iff)
  then show ?thesis by (simp add: date_UTC_def time_clip_def Let_def)
qed

lemma take_iso_string:
  assumes "0 \<le> getUTCFullYear t" "getUTCFullYear t \<le> 9999"
  shows "formatSettlementMonth t =
    pad_digits 4 (nat (getUTCFullYear t)) @ ''-'' @ pad_digits 2 (nat (getUTCMonth t + 1))"
  using assms by (simp add: formatSettlementMonth_def iso_string_def iso_date_def iso_year_def)

lemma getUTCMonth_range: "0 \<le> getUTCMonth t" "getUTCMonth t < 12"
  by (simp_all add: getUTCMonth_def month_from_day_range)

lemma match_year_month_Some:
  assumes "match_year_month s = Some (y, mm)"
  shows "s = pad_digits 4 (nat y) @ ''-'' @ pad_digits 2 (nat mm)"
    and "0 \<le> y" "y \<le> 9999" "0 \<le> mm" "mm < 100"
proof -
  have len: "length s = 7" and d4: "list_all is_digit (take 4 s)" and dash: "s ! 4 = CHR ''-''"
    and d2: "list_all is_digit (drop 5 s)"
    and y: "y = int (digits_to_nat (take 4 s))" and mm: "mm = int (digits_to_nat (drop 5 s))"
    using assms by (auto simp: match_year_month_def split: if_splits)
  have "pad_digits 4 (nat y) = take 4 s" "pad_digits 2 (nat mm) = drop 5 s"
    using pad_digits_to_nat [OF d4] pad_digits_to_nat [OF d2] len by (simp_all add: y mm)
  moreover have "s = take 4 s @ [s ! 4] @ drop 5 s"
    using len by (metis append.assoc append_take_drop_id eval_nat_numeral(3) lessI less_trans
        numeral_less_iff take_Suc_conv_app_nth semiring_norm(76) semiring_norm(78) Suc_eq_plus1
        numeral_plus_one semiring_norm(4) semiring_norm(5) rel_simps(49))
  ultimately show "s = pad_digits 4 (nat y) @ ''-'' @ pad_digits 2 (nat mm)" using dash by simp
  have "digits_to_nat (take 4 s) < 10 ^ 4" "digits_to_nat (drop 5 s) < 10 ^ 2"
    using digits_to_nat_bound [OF d4] digits_to_nat_bound [OF d2] len by simp_all
  then show "0 \<le> y" "y \<le> 9999" "0 \<le> mm" "mm < 100" by (simp_all add: y mm)
qed

lemma next_month_start:
  assumes "is_month_start m" "nextSettlementMonth m = Some n" "100 \<le> getUTCFullYear m"
  shows "n = make_day (getUTCFullYear m) (getUTCMonth m + 1) 1 * ms_per_day"
    and "m + 28 * ms_per_day \<le> n"
proof -
  show n: "n = make_day (getUTCFullYear m) (getUTCMonth m + 1) 1 * ms_per_day"
    using assms(2,3) by (auto simp: nextSettlementMonth_def date_UTC_def Let_def time_clip_def split: if_splits)
  have "m = make_day (getUTCFullYear m) (getUTCMonth m) 1 * ms_per_day"
    using assms(1) is_month_start_iff by blast
  moreover have "(make_day (getUTCFullYear m) (getUTCMonth m) 1 + 28) * ms_per_day \<le> n"
    unfolding n by (intro mult_right_mono make_day_Suc_month_ge) (simp add: ms_per_day_def)
  ultimately show "m + 28 * ms_per_day \<le> n" by (simp add: distrib_right)
qed

lemma month_length_le_31:
  assumes k: "0 \<le> k" "k < 12"
  shows "make_day y (k + 1) 1 \<le> make_day y k 1 + 31"
proof (cases "k = 11")
  case True
  have "make_day y (k + 1) 1 = day_from_year y + days_in_year y"
    unfolding True by (simp add: make_day_def day_from_year_Suc days_before_month_def)
  moreover have "make_day y k 1 = day_from_year y + days_before_month y 11"
    unfolding True by (simp add: make_day_def)
  ultimately show ?thesis
    by (simp add: days_before_month_def leap_adj_def days_in_year_def)
next
  case False
  then have "days_before_month y (k + 1) \<le> days_before_month y k + 31"
    using k by (cases rule: month_cases [OF k]) (simp_all add: days_before_month_def leap_adj_def)
  then show ?thesis using k False by (simp add: make_day_in_year)
qed

lemma year_ge_1970:
  assumes "0 \<le> g"
  shows "1970 \<le> getUTCFullYear g"
proof (rule ccontr)
  assume "\<not> 1970 \<le> getUTCFullYear g"
  then have "day_from_year (getUTCFullYear g + 1) \<le> day_from_year 1970"
    by (intro day_from_year_mono) simp
  moreover have "utc_day g < day_from_year (getUTCFullYear g + 1)"
    using year_from_day_bounds [of "utc_day g"] by (simp add: getUTCFullYear_def)
  moreover have "0 \<le> utc_day g"
    using assms by (simp add: utc_day_def ms_per_day_def pos_imp_zdiv_nonneg_iff)
  ultimately show False by (simp add: day_from_year_def)
qed

lemma make_day_nonneg:
  assumes "1970 \<le> y" "0 \<le> k" "k < 12"
  shows "0 \<le> make_day y k 1"
proof -
  have "day_from_year 1970 \<le> day_from_year y" using assms(1) by (rule day_from_year_mono)
  then show ?thesis
    using make_day_in_year [OF assms(2,3), of y 1] days_before_month_bounds(1) [OF assms(2,3), of y]
    by (simp add: day_from_year_def [of 1970])
qed

text \<open>Any moment lies in the month its UTC fields name, and that month has at most 31 days.\<close>

lemma month_of_moment:
  fixes g :: int
  defines "m \<equiv> make_day (getUTCFullYear g) (getUTCMonth g) 1 * ms_per_day"
    and "n \<equiv> make_day (getUTCFullYear g) (getUTCMonth g + 1) 1 * ms_per_day"
  shows "m \<le> g" "g < n" "n \<le> m + 31 * ms_per_day"
proof -
  let ?y = "getUTCFullYear g" and ?k = "getUTCMonth g"
  have gd: "utc_day g * ms_per_day \<le> g" "g < (utc_day g + 1) * ms_per_day"
    using div_bounds [of ms_per_day g]
    by (simp_all add: utc_day_def ms_per_day_def mult.commute distrib_left)
  have in_month: "make_day ?y ?k 1 \<le> utc_day g" "utc_day g < make_day ?y (?k + 1) 1"
    using day_in_its_month [of "utc_day g"] by (simp_all add: getUTCFullYear_def getUTCMonth_def)
  show "m \<le> g"
    using mult_right_mono [OF in_month(1), of ms_per_day] gd(1) by (simp add: m_def ms_per_day_def)
  have "(utc_day g + 1) * ms_per_day \<le> n"
    unfolding n_def using in_month(2) by (intro mult_right_mono) (simp_all add: ms_per_day_def)
  then show "g < n" using gd(2) by simp
  have "n \<le> (make_day ?y ?k 1 + 31) * ms_per_day"
    unfolding n_def using month_length_le_31 [OF getUTCMonth_range, of ?y g]
    by (intro mult_right_mono) (simp_all add: ms_per_day_def)
  then show "n \<le> m + 31 * ms_per_day" by (simp add: m_def distrib_right)
qed

section \<open>Properties\<close>

text \<open>
  The settlement month of a transaction is the calendar month of GMT+8 that contains it:
  the answer is the first instant of a UTC month, the transaction falls between that
  instant and the next month's, both moved back by eight hours.
\<close>

theorem settlement_month_contains_transaction:
  assumes valid: "0 \<le> t" "t \<le> 8639000000000000"
  shows "\<exists>m n. getSettlementMonthFromTransactionAt (Some t) = Inr (Some m)
    \<and> is_month_start m \<and> nextSettlementMonth m = Some n
    \<and> m - GMT_PLUS_8_OFFSET_MS \<le> t \<and> t < n - GMT_PLUS_8_OFFSET_MS"
proof -
  define g y k where "g = t + GMT_PLUS_8_OFFSET_MS" and "y = getUTCFullYear g" and "k = getUTCMonth g"
  have g: "0 \<le> g" "g \<le> 8639000000000000 + 28800000"
    using valid by (simp_all add: g_def GMT_PLUS_8_OFFSET_MS_def)
  have k: "0 \<le> k" "k < 12" by (simp_all add: k_def getUTCMonth_range)
  define m n where "m = make_day y k 1 * ms_per_day" and "n = make_day y (k + 1) 1 * ms_per_day"
  have b: "m \<le> g" "g < n" "n \<le> m + 31 * ms_per_day"
    using month_of_moment [of g] by (simp_all add: m_def n_def y_def k_def)
  have y1970: "1970 \<le> y" using year_ge_1970 [OF g(1)] by (simp add: y_def)
  have m0: "0 \<le> m" using make_day_nonneg [OF y1970 k] by (simp add: m_def ms_per_day_def)
  have start: "is_month_start m" and ym: "getUTCFullYear m = y" "getUTCMonth m = k"
    using fields_of_month_start [OF k] by (simp_all add: m_def)
  have ms: "date_UTC y k 1 = Some m"
    using y1970 m0 b g by (simp add: date_UTC_def Let_def time_clip_def m_def)
  have nx: "nextSettlementMonth m = Some n"
    using y1970 m0 b g
    by (simp add: nextSettlementMonth_def ym date_UTC_def Let_def time_clip_def n_def ms_per_day_def)
  have "time_clip g = Some g" using g by (simp add: time_clip_def)
  then have "getSettlementMonthFromTransactionAt (Some t) = Inr (Some m)"
    using ms by (simp add: getSettlementMonthFromTransactionAt_def month_start_gmt8_def
        flip: g_def y_def k_def)
  moreover have "m - GMT_PLUS_8_OFFSET_MS \<le> t" using b(1) unfolding g_def by linarith
  moreover have "t < n - GMT_PLUS_8_OFFSET_MS" using b(2) unfolding g_def by linarith
  ultimately show ?thesis using start nx by blast
qed

text \<open>The example of the documentation: 2026-01-31T17:00Z is already February in GMT+8.\<close>

theorem settlement_month_contains_transaction_witness:
  "getSettlementMonthFromTransactionAt (Some 1769878800000) = Inr (Some 1769904000000)
   \<and> 1769904000000 - GMT_PLUS_8_OFFSET_MS \<le> 1769878800000"
proof -
  have e: "getSettlementMonthFromTransactionAt (Some 1769878800000) = Inr (Some 1769904000000)"
    by code_simp
  show ?thesis using settlement_month_contains_transaction [of 1769878800000] e by auto
qed

text \<open>
  A month parameter of the year 100 or later survives parsing and printing: what
  \<open>parseSettlementMonthParam\<close> accepts is a month start that \<open>formatSettlementMonth\<close>
  prints back as the same text.
\<close>

theorem parse_format_month_roundtrip:
  assumes "parseSettlementMonthParam s = Inr d" and "100 \<le> digits_to_nat (take 4 s)"
  shows "\<exists>m. d = Some m \<and> is_month_start m \<and> formatSettlementMonth m = s"
proof -
  obtain y mm where ym: "match_year_month s = Some (y, mm)" and mm: "1 \<le> mm" "mm \<le> 12"
    and d: "d = date_UTC y (mm - 1) 1"
    using assms(1) by (auto simp: parseSettlementMonthParam_def Let_def split: option.splits prod.splits if_splits)
  note s = match_year_month_Some [OF ym]
  have y: "100 \<le> y" using ym assms(2) by (auto simp: match_year_month_def split: if_splits)
  obtain m where m: "date_UTC y (mm - 1) 1 = Some m"
    using date_UTC_defined [of "mm - 1" y] mm s by auto
  have f: "is_month_start m" "getUTCMonth m = mm - 1" "getUTCFullYear m = y"
    using date_UTC_month_start [OF m] mm y by auto
  then have "formatSettlementMonth m = s"
    using take_iso_string [of m] s(1,2,3) by simp
  then show ?thesis using d m f by blast
qed

theorem parse_format_month_roundtrip_witness:
  "parseSettlementMonthParam ''2026-02'' = Inr (Some 1769904000000)
   \<and> formatSettlementMonth 1769904000000 = ''2026-02''"
proof -
  have e: "parseSettlementMonthParam ''2026-02'' = Inr (Some 1769904000000)" by code_simp
  have "100 \<le> digits_to_nat (take 4 ''2026-02'')" by code_simp
  then show ?thesis using parse_format_month_roundtrip [OF e] e by simp
qed

text \<open>
  The years 0 to 99 do not survive: \<open>Date.UTC\<close> reads them as 1900 to 1999, so a
  parameter such as 0050-01 is accepted and silently names January 1950.
\<close>

theorem parse_month_two_digit_years:
  "parseSettlementMonthParam ''0050-01'' = parseSettlementMonthParam ''1950-01''
   \<and> (\<exists>m. parseSettlementMonthParam ''0050-01'' = Inr (Some m) \<and> formatSettlementMonth m = ''1950-01'')"
proof -
  have a: "parseSettlementMonthParam ''0050-01'' = Inr (Some (-631152000000))" by code_simp
  have b: "parseSettlementMonthParam ''1950-01'' = Inr (Some (-631152000000))" by code_simp
  have c: "formatSettlementMonth (-631152000000) = ''1950-01''" by code_simp
  show ?thesis using a b c by simp
qed

end
