(* ===== verification/Settlement_Finalization.thy ===== *)
theory Settlement_Finalization
  imports Settlement_Generation Settlement_Month
begin

text \<open>
  \<open>settlement/settlement-finalization.service.ts\<close>: confirming and locking a settlement, the
  roll-forward of remaining losses into the next month, the summary, the paged details and
  the CSV export.
\<close>

section \<open>Reading a settlement with its details\<close>

text \<open>\<open>include: { details: true }\<close>\<close>

definition details_of :: "settlement \<Rightarrow> database \<Rightarrow> settlement_detail list" where
  "details_of s db = filter (\<lambda>d. md_settlementId d = ms_id s) (settlement_details db)"

definition assertConfirmable :: "settlement option \<Rightarrow> settlement_detail list \<Rightarrow> settlement outcome" where
  "assertConfirmable settlement details =
     (case settlement of
        None \<Rightarrow> Inl (AppError SETTLEMENT_NOT_FOUND ''Settlement not found.'')
      | Some s \<Rightarrow>
          (if ms_status s \<noteq> SS_draft then Inl (AppError CONFLICT ''Only draft settlement can be confirmed.'')
           else if length details = 0
           then Inl (AppError SETTLEMENT_PRECHECK_FAILED ''Settlement must have details before confirmation.'')
           else Inr s))"

definition assertLockable :: "settlement option \<Rightarrow> settlement_detail list \<Rightarrow> settlement outcome" where
  "assertLockable settlement details =
     (case settlement of
        None \<Rightarrow> Inl (AppError SETTLEMENT_NOT_FOUND ''Settlement not found.'')
      | Some s \<Rightarrow>
          (if ms_status s \<noteq> SS_confirmed
           then Inl (AppError SETTLEMENT_PRECHECK_FAILED ''Only confirmed settlement can be locked.'')
           else if length details = 0
           then Inl (AppError SETTLEMENT_PRECHECK_FAILED ''Settlement must have details before lock.'')
           else Inr s))"

definition details_if_found :: "settlement option \<Rightarrow> database \<Rightarrow> settlement_detail list" where
  "details_if_found settlement db = (case settlement of None \<Rightarrow> [] | Some s \<Rightarrow> details_of s db)"

section \<open>Confirming\<close>

definition settlement_update :: "string \<Rightarrow> (settlement \<Rightarrow> settlement) \<Rightarrow> settlement handler" where
  "settlement_update i f db =
     (case find_row (\<lambda>s. ms_id s = i) (settlements db) of
        None \<Rightarrow> (Inl (PrismaKnownError ''P2025''), db)
      | Some s \<Rightarrow> (Inr (f s), db\<lparr>settlements := update_first (\<lambda>s. ms_id s = i) f (settlements db)\<rparr>))"

definition confirmSettlement :: "runtime \<Rightarrow> int \<Rightarrow> actor \<Rightarrow> settlement handler" where
  "confirmSettlement rt settlementMonth actor =
     op_transaction (
       op_bind (op_get (find_settlement settlementMonth)) (\<lambda>found.
       op_bind (op_get (details_if_found found)) (\<lambda>details.
       op_bind (op_lift (assertConfirmable found details)) (\<lambda>settlement.
       op_bind (settlement_update (ms_id settlement)
         (\<lambda>s. s\<lparr>ms_status := SS_confirmed, ms_confirmedAt := Some (rt_now rt), ms_confirmedBy := Some (ac_userId actor)\<rparr>)) (\<lambda>after.
       op_bind (audit_success (auditInput actor ''settlement.confirm'' ''monthly_settlement'' (Some (ms_id settlement))
         (Some settlementMonth) [''status'', ''confirmedAt'', ''confirmedBy''])) (\<lambda>_.
       op_return after))))))"

section \<open>Snapshots\<close>

text \<open>\<open>(detail.snapshot ?? {}) as Record<string, unknown>\<close>\<close>

fun detail_snapshot :: "settlement_detail \<Rightarrow> (string \<times> jsval) list" where
  "detail_snapshot d = (case md_snapshot d of JObject kvs \<Rightarrow> kvs | _ \<Rightarrow> [])"

text \<open>\<open>String(value)\<close> of a JSON value.\<close>

fun js_text :: "runtime \<Rightarrow> jsval \<Rightarrow> string" where
  "js_text rt JUndefined = ''undefined''"
| "js_text rt JNull = ''null''"
| "js_text rt (JBool b) = (if b then ''true'' else ''false'')"
| "js_text rt (JNum x) = rt_show_decimal rt x"
| "js_text rt (JString s) = s"
| "js_text rt (JDate d) = ''[date]''"
| "js_text rt (JArray vs) =
     js_join '','' (map (\<lambda>v. case v of JUndefined \<Rightarrow> '''' | JNull \<Rightarrow> '''' | _ \<Rightarrow> js_text rt v) vs)"
| "js_text rt (JObject kvs) = ''[object Object]''"

definition snapshotValue :: "runtime \<Rightarrow> (string \<times> jsval) list \<Rightarrow> string \<Rightarrow> string" where
  "snapshotValue rt snapshot key =
     (let value = js_get snapshot key
      in if value = JNull \<or> value = JUndefined then '''' else js_text rt value)"

text \<open>
  \<open>value ? new Prisma.Decimal(value) : ZERO\<close>. The constructor throws on text that is no
  number; a value that is not finite would be refused by the client when it is written.
\<close>

definition remainingNegativeProfitUsd :: "runtime \<Rightarrow> settlement_detail \<Rightarrow> rat outcome" where
  "remainingNegativeProfitUsd rt detail =
     (let value = snapshotValue rt (detail_snapshot detail) ''remainingNegativeProfitUsd''
      in if value = [] then Inr 0
         else case rt_parse_decimal rt value of
                None \<Rightarrow> Inl (JsError (''[DecimalError] Invalid argument: '' @ value))
              | Some DecNotFinite \<Rightarrow> Inl prisma_validation_error
              | Some (DecFinite _ x) \<Rightarrow> Inr x)"

section \<open>Locking and the roll-forward\<close>

record roll_forward_result =
  rf_nextMonth :: int
  rf_createdCount :: nat
  rf_updatedCount :: nat

definition roll_forward_reason :: "settlement \<Rightarrow> string" where
  "roll_forward_reason s = ''Auto roll-forward from locked settlement '' @ formatSettlementMonth (ms_month s)"

definition rolled_row :: "int \<Rightarrow> string \<Rightarrow> string \<Rightarrow> historical_negative_profit \<Rightarrow> bool" where
  "rolled_row nextMonth employeeId reason h \<longleftrightarrow>
     hp_month h = nextMonth \<and> hp_employeeId h = employeeId \<and> hp_reason h = Some reason \<and> rate_active (hp_status h)"

definition historical_update_amount :: "string \<Rightarrow> rat \<Rightarrow> unit handler" where
  "historical_update_amount i x =
     op_modify (\<lambda>db. db\<lparr>historical_profits :=
       update_first (\<lambda>h. hp_id h = i) (\<lambda>h. h\<lparr>hp_amountUsd := x\<rparr>) (historical_profits db)\<rparr>)"

definition historical_create :: "historical_negative_profit \<Rightarrow> unit handler" where
  "historical_create h = op_modify (\<lambda>db. db\<lparr>historical_profits := historical_profits db @ [h]\<rparr>)"

text \<open>The loop over the details, with the two counters.\<close>

fun roll_forward_loop ::
  "runtime \<Rightarrow> actor \<Rightarrow> int \<Rightarrow> string \<Rightarrow> settlement_detail list \<Rightarrow> nat \<Rightarrow> nat \<Rightarrow> (nat \<times> nat) handler" where
  "roll_forward_loop rt actor nextMonth reason [] createdCount updatedCount = op_return (createdCount, updatedCount)"
| "roll_forward_loop rt actor nextMonth reason (detail # rest) createdCount updatedCount =
     op_bind (op_lift (remainingNegativeProfitUsd rt detail)) (\<lambda>amountUsd.
       if amountUsd \<le> 0 then roll_forward_loop rt actor nextMonth reason rest createdCount updatedCount
       else op_bind (op_get (\<lambda>db. find_row (rolled_row nextMonth (md_employeeId detail) reason) (historical_profits db)))
         (\<lambda>existing. case existing of
            Some h \<Rightarrow>
              op_bind (historical_update_amount (hp_id h) (rt_column rt 6 amountUsd)) (\<lambda>_.
              roll_forward_loop rt actor nextMonth reason rest createdCount (updatedCount + 1))
          | None \<Rightarrow>
              op_bind (historical_create
                \<lparr>hp_id = rt_fresh_id rt createdCount, hp_month = nextMonth, hp_employeeId = md_employeeId detail,
                 hp_amountUsd = rt_column rt 6 amountUsd, hp_reason = Some reason, hp_status = CS_active,
                 hp_createdBy = ac_userId actor\<rparr>) (\<lambda>_.
              roll_forward_loop rt actor nextMonth reason rest (createdCount + 1) updatedCount)))"

definition rollForwardNegativeProfits ::
  "runtime \<Rightarrow> settlement \<Rightarrow> settlement_detail list \<Rightarrow> actor \<Rightarrow> roll_forward_result handler" where
  "rollForwardNegativeProfits rt settlement details actor =
     (case nextSettlementMonth (ms_month settlement) of
        None \<Rightarrow> op_throw (JsRangeError ''Invalid time value'')
      | Some nextMonth \<Rightarrow>
          op_transaction (
            op_bind (roll_forward_loop rt actor nextMonth (roll_forward_reason settlement) details 0 0)
              (\<lambda>(createdCount, updatedCount).
            op_bind (audit_success (auditInput actor ''historical_negative_profit.roll_forward''
              ''historical_negative_profit'' (Some (ms_id settlement)) (Some (ms_month settlement)) [''amountUsd''])) (\<lambda>_.
            op_return \<lparr>rf_nextMonth = nextMonth, rf_createdCount = createdCount, rf_updatedCount = updatedCount\<rparr>))))"

text \<open>\<open>input.lockReason ?? ''\<close>\<close>

definition lockSettlement ::
  "runtime \<Rightarrow> int \<Rightarrow> actor \<Rightarrow> string option \<Rightarrow> (settlement \<times> roll_forward_result) handler" where
  "lockSettlement rt settlementMonth actor lockReason =
     op_bind (op_get (find_settlement settlementMonth)) (\<lambda>found.
     op_bind (op_get (details_if_found found)) (\<lambda>details.
     op_bind (op_lift (assertLockable found details)) (\<lambda>settlement.
     op_bind (lockMonth rt settlementMonth actor (case lockReason of None \<Rightarrow> '''' | Some r \<Rightarrow> r)) (\<lambda>locked.
     op_bind (rollForwardNegativeProfits rt settlement details actor) (\<lambda>rollForward.
     op_return (locked, rollForward))))))"

section \<open>Reports\<close>

record settlement_summary =
  su_settlement :: settlement
  su_detailCount :: nat
  su_totalFinalSalaryRmb :: string
  su_totalCommissionRmb :: string
  su_totalGrossProfitUsd :: string

definition getSettlementSummary :: "runtime \<Rightarrow> int \<Rightarrow> settlement_summary handler" where
  "getSettlementSummary rt settlementMonth =
     op_bind (op_get (find_settlement settlementMonth)) (\<lambda>found.
     case found of
       None \<Rightarrow> op_throw (AppError SETTLEMENT_NOT_FOUND ''Settlement not found.'')
     | Some s \<Rightarrow>
         op_bind (op_get (details_of s)) (\<lambda>details.
         op_return
           \<lparr>su_settlement = s, su_detailCount = length details,
            su_totalFinalSalaryRmb = rt_show_decimal rt (dec_sum (rt_round rt) (map md_finalSalaryRmb details)),
            su_totalCommissionRmb = rt_show_decimal rt (dec_sum (rt_round rt) (map md_commissionRmb details)),
            su_totalGrossProfitUsd = rt_show_decimal rt (dec_sum (rt_round rt) (map md_grossProfitUsd details))\<rparr>))"

text \<open>
  \<open>Number(value)\<close> of a query parameter. Only the texts of decimal integers are told apart;
  anything else (fractions, exponents, hexadecimal) goes through \<open>js_number\<close>, the engine's
  conversion, given as a parameter.
\<close>

definition parsePositiveInt :: "(string \<Rightarrow> rat option) \<Rightarrow> jsval \<Rightarrow> nat \<Rightarrow> string \<Rightarrow> nat outcome" where
  "parsePositiveInt js_number value fallback field =
     (if is_absent value then Inr fallback
      else let parsed = (case value of
                 JString s \<Rightarrow>
                   (if js_trim s \<noteq> [] \<and> list_all is_digit (js_trim s)
                    then Some (of_nat (digits_to_nat (js_trim s))) else js_number s)
               | JNum x \<Rightarrow> Some x
               | _ \<Rightarrow> None)
           in case parsed of
                None \<Rightarrow> Inl (AppError VALIDATION_ERROR (field @ '' must be a positive integer.''))
              | Some x \<Rightarrow>
                  (if of_int \<lfloor>x\<rfloor> \<noteq> x \<or> x < 1
                   then Inl (AppError VALIDATION_ERROR (field @ '' must be a positive integer.''))
                   else Inr (nat \<lfloor>x\<rfloor>)))"

record details_page =
  dp_page :: nat
  dp_pageSize :: nat
  dp_total :: nat
  dp_items :: "settlement_detail list"

definition getSettlementDetails ::
  "(string \<Rightarrow> rat option) \<Rightarrow> int \<Rightarrow> string option \<Rightarrow> jsval \<Rightarrow> jsval \<Rightarrow> details_page handler" where
  "getSettlementDetails js_number settlementMonth employeeId page pageSize =
     op_bind (op_get (find_settlement settlementMonth)) (\<lambda>found.
     case found of
       None \<Rightarrow> op_throw (AppError SETTLEMENT_NOT_FOUND ''Settlement not found.'')
     | Some s \<Rightarrow>
         op_bind (op_lift (parsePositiveInt js_number page 1 ''page'')) (\<lambda>page.
         op_bind (op_lift (parsePositiveInt js_number pageSize 50 ''pageSize'')) (\<lambda>pageSize.
         op_bind (op_get (\<lambda>db. filter (\<lambda>d. case employeeId of None \<Rightarrow> True
             | Some e \<Rightarrow> e = [] \<or> md_employeeId d = e) (details_of s db))) (\<lambda>matching.
         op_return
           \<lparr>dp_page = page, dp_pageSize = pageSize, dp_total = length matching,
            dp_items = take pageSize (drop ((page - 1) * pageSize) (sort_key md_employeeId matching))\<rparr>))))"

section \<open>The CSV export\<close>

definition csv_special :: "char \<Rightarrow> bool" where
  "csv_special c \<longleftrightarrow> c \<in> {CHR 0x22, CHR 0x2C, CHR 0x0D, CHR 0x0A}"

definition escapeCsv :: "string \<Rightarrow> string" where
  "escapeCsv text = (if list_ex csv_special text then csv_quote text else text)"

definition csv_text :: "string list list \<Rightarrow> string" where
  "csv_text rows = js_join [CHR 0x0A] (map (\<lambda>row. js_join '','' (map escapeCsv row)) rows)"

definition export_header :: "string list" where
  "export_header =
     [''settlement_month'', ''employee_id'', ''income_usd'', ''card_spend_usd'', ''gross_profit_usd'',
      ''commission_profit_usd'', ''remaining_negative_profit_usd'', ''base_salary_rmb'',
      ''star_allowance_rmb'', ''commission_rate'', ''commission_usd'', ''commission_rmb'',
      ''attendance_bonus_rmb'', ''manual_addition_rmb'', ''manual_deduction_rmb'', ''final_salary_rmb'',
      ''salary_mode'', ''group_id'']"

definition export_row :: "runtime \<Rightarrow> int \<Rightarrow> settlement_detail \<Rightarrow> string list" where
  "export_row rt settlementMonth detail =
     (let snapshot = detail_snapshot detail
      in [formatSettlementMonth settlementMonth,
          md_employeeId detail,
          rt_show_decimal rt (md_incomeUsd detail),
          rt_show_decimal rt (md_cardSpendUsd detail),
          rt_show_decimal rt (md_grossProfitUsd detail),
          snapshotValue rt snapshot ''commissionProfitUsd'',
          snapshotValue rt snapshot ''remainingNegativeProfitUsd'',
          snapshotValue rt snapshot ''baseSalaryRmb'',
          snapshotValue rt snapshot ''starAllowanceRmb'',
          snapshotValue rt snapshot ''commissionRate'',
          snapshotValue rt snapshot ''commissionUsd'',
          rt_show_decimal rt (md_commissionRmb detail),
          snapshotValue rt snapshot ''attendanceBonusRmb'',
          rt_show_decimal rt (md_manualAdditionRmb detail),
          rt_show_decimal rt (md_manualDeductionRmb detail),
          rt_show_decimal rt (md_finalSalaryRmb detail),
          snapshotValue rt snapshot ''salaryMode'',
          snapshotValue rt snapshot ''groupId''])"

definition exportSettlementCsv :: "runtime \<Rightarrow> int \<Rightarrow> actor \<Rightarrow> string handler" where
  "exportSettlementCsv rt settlementMonth actor =
     op_bind (op_get (find_settlement settlementMonth)) (\<lambda>found.
     case found of
       None \<Rightarrow> op_throw (AppError SETTLEMENT_NOT_FOUND ''Settlement not found.'')
     | Some s \<Rightarrow>
         op_bind (op_get (\<lambda>db. sort_key md_employeeId (details_of s db))) (\<lambda>details.
         op_bind (audit_success (auditInput actor ''salary.export'' ''monthly_settlement'' (Some (ms_id s))
           (Some settlementMonth) [])) (\<lambda>_.
         op_return (csv_text (export_header # map (export_row rt settlementMonth) details)))))"

end
