(* ===== verification/Finalization_Properties.thy ===== *)
theory Finalization_Properties
  imports Settlement_Finalization
begin

text \<open>
  What confirming, locking, rolling forward and exporting guarantee. The export is checked
  against a CSV reader (RFC 4180: quoted fields, doubled quotes, LF between records).
\<close>

section \<open>Reading CSV back\<close>

datatype csv_mode = CM_start | CM_plain | CM_quoted | CM_quote_seen

fun csv_scan :: "csv_mode \<Rightarrow> string \<Rightarrow> string list \<Rightarrow> string \<Rightarrow> string list list" where
  "csv_scan mode cur row [] = [row @ [cur]]"
| "csv_scan mode cur row (c # s) =
     (if mode = CM_quoted then
        (if c = CHR 0x22 then csv_scan CM_quote_seen cur row s else csv_scan CM_quoted (cur @ [c]) row s)
      else if mode = CM_quote_seen \<and> c = CHR 0x22 then csv_scan CM_quoted (cur @ [c]) row s
      else if c = CHR 0x2C then csv_scan CM_start [] (row @ [cur]) s
      else if c = CHR 0x0A then (row @ [cur]) # csv_scan CM_start [] [] s
      else if mode = CM_start \<and> c = CHR 0x22 then csv_scan CM_quoted [] row s
      else csv_scan CM_plain (cur @ [c]) row s)"

definition read_csv :: "string \<Rightarrow> string list list" where
  "read_csv s = csv_scan CM_start [] [] s"

text \<open>What follows a complete field.\<close>

definition field_end :: "string \<Rightarrow> string list \<Rightarrow> string \<Rightarrow> string list list" where
  "field_end x row rest =
     (case rest of [] \<Rightarrow> [row @ [x]]
      | c # s \<Rightarrow> if c = CHR 0x2C then csv_scan CM_start [] (row @ [x]) s
                else (row @ [x]) # csv_scan CM_start [] [] s)"

definition ends_field :: "string \<Rightarrow> bool" where
  "ends_field rest \<longleftrightarrow> (case rest of [] \<Rightarrow> True | c # s \<Rightarrow> c = CHR 0x2C \<or> c = CHR 0x0A)"

lemma scan_plain:
  assumes "\<not> list_ex csv_special x" "ends_field rest"
  shows "csv_scan CM_plain cur row (x @ rest) = field_end (cur @ x) row rest"
  using assms
proof (induction x arbitrary: cur)
  case Nil
  then show ?case by (cases rest) (auto simp: field_end_def ends_field_def)
next
  case (Cons c x)
  then show ?case by (simp add: csv_special_def)
qed

lemma scan_start_plain:
  assumes "\<not> list_ex csv_special x" "ends_field rest"
  shows "csv_scan CM_start [] row (x @ rest) = field_end x row rest"
proof (cases x)
  case Nil
  then show ?thesis using assms(2) by (cases rest) (auto simp: field_end_def ends_field_def)
next
  case (Cons c y)
  then show ?thesis
    using assms scan_plain [of y rest "[c]" row] by (simp add: csv_special_def)
qed

lemma scan_quote_end:
  "ends_field rest \<Longrightarrow> csv_scan CM_quote_seen cur row rest = field_end cur row rest"
  by (cases rest) (auto simp: field_end_def ends_field_def)

lemma scan_quoted:
  assumes "ends_field rest"
  shows "csv_scan CM_quoted cur row
    (concat (map (\<lambda>c. if c = CHR 0x22 then [c, c] else [c]) x) @ CHR 0x22 # rest) = field_end (cur @ x) row rest"
  by (induction x arbitrary: cur) (simp_all add: scan_quote_end [OF assms])

lemma scan_field:
  assumes "ends_field rest"
  shows "csv_scan CM_start [] row (escapeCsv x @ rest) = field_end x row rest"
proof (cases "list_ex csv_special x")
  case True
  have "escapeCsv x @ rest =
      CHR 0x22 # concat (map (\<lambda>c. if c = CHR 0x22 then [c, c] else [c]) x) @ CHR 0x22 # rest"
    using True by (simp add: escapeCsv_def csv_quote_def)
  then show ?thesis using scan_quoted [OF assms, of "[]" row x] by simp
next
  case False
  then show ?thesis using scan_start_plain [OF False assms] by (simp add: escapeCsv_def)
qed

lemma scan_row:
  assumes "fs \<noteq> []" and "rest = [] \<or> hd rest = CHR 0x0A"
  shows "csv_scan CM_start [] row (js_join '','' (map escapeCsv fs) @ rest) =
    (row @ fs) # (case rest of [] \<Rightarrow> [] | _ # s \<Rightarrow> csv_scan CM_start [] [] s)"
  using assms(1)
proof (induction fs arbitrary: row rule: induct_list012)
  case (2 x)
  then show ?case
    using assms(2) scan_field [of rest row x] by (cases rest) (auto simp: ends_field_def field_end_def)
next
  case (3 x y fs)
  then show ?case
    using scan_field [of "CHR 0x2C # js_join '','' (map escapeCsv (y # fs)) @ rest" row x]
    by (simp add: ends_field_def field_end_def)
qed simp

lemma read_csv_text:
  assumes "rows \<noteq> []" and "list_all (\<lambda>r. r \<noteq> []) rows"
  shows "read_csv (csv_text rows) = rows"
  unfolding read_csv_def csv_text_def using assms
proof (induction rows rule: induct_list012)
  case (2 r)
  then show ?case using scan_row [of r "[]" "[]"] by simp
next
  case (3 r r' rows)
  then show ?case
    using scan_row [of r "CHR 0x0A # js_join [CHR 0x0A] (map (\<lambda>row. js_join '','' (map escapeCsv row)) (r' # rows))" "[]"]
    by simp
qed simp

text \<open>
  C21: The salary export loses nothing: reading the CSV back gives the header and, for every
  detail in employee order, its eighteen fields, whatever commas, quotes or line breaks
  they contain. Apart from the audit row it writes nothing.
\<close>

theorem export_csv_reads_back:
  assumes "exportSettlementCsv rt m actor db = (Inr csv, db')"
  shows "\<exists>s. find_settlement m db = Some s
    \<and> read_csv csv = export_header # map (export_row rt m) (sort_key md_employeeId (details_of s db))
    \<and> (\<exists>entry. db' = db\<lparr>audit_logs := audit_logs db @ [entry]\<rparr>)"
proof -
  obtain s where s: "find_settlement m db = Some s"
    using assms by (auto simp: exportSettlementCsv_def split: option.splits)
  let ?rows = "export_header # map (export_row rt m) (sort_key md_employeeId (details_of s db))"
  have "csv = csv_text ?rows" and "\<exists>entry. db' = db\<lparr>audit_logs := audit_logs db @ [entry]\<rparr>"
    using assms s by (auto simp: exportSettlementCsv_def)
  moreover have "read_csv (csv_text ?rows) = ?rows"
    by (rule read_csv_text) (simp_all add: list_all_iff export_row_def export_header_def Let_def)
  ultimately show ?thesis using s by auto
qed

theorem export_csv_reads_back_witness:
  "read_csv (csv_text [[''a'', ''x,y''], [''q'', [CHR 0x22]]]) = [[''a'', ''x,y''], [''q'', [CHR 0x22]]]
   \<and> (\<exists>csv. read_csv csv = [export_header])"
proof
  show "read_csv (csv_text [[''a'', ''x,y''], [''q'', [CHR 0x22]]]) = [[''a'', ''x,y''], [''q'', [CHR 0x22]]]"
    by code_simp
  let ?s = "\<lparr>ms_id = ''s1'', ms_month = FEB_2026, ms_status = SS_draft, ms_generatedAt = None, ms_generatedBy = None,
    ms_confirmedAt = None, ms_confirmedBy = None, ms_lockedAt = None, ms_lockedBy = None, ms_lockReason = None\<rparr>"
  let ?db = "empty_db\<lparr>settlements := [?s]\<rparr>"
  obtain csv db' where run: "exportSettlementCsv sample_rt FEB_2026 sample_actor ?db = (Inr csv, db')"
    by (cases "exportSettlementCsv sample_rt FEB_2026 sample_actor ?db")
      (auto simp: exportSettlementCsv_def find_settlement_def)
  have "details_of ?s ?db = []" by (simp add: details_of_def empty_db_def)
  then show "\<exists>csv. read_csv csv = [export_header]"
    using export_csv_reads_back [OF run] by (auto simp: find_settlement_def)
qed

section \<open>The roll-forward\<close>

definition loss_of :: "runtime \<Rightarrow> settlement_detail \<Rightarrow> rat" where
  "loss_of rt d = (case remainingNegativeProfitUsd rt d of Inl _ \<Rightarrow> 0 | Inr x \<Rightarrow> x)"

definition ids_of :: "historical_negative_profit list \<Rightarrow> string list" where
  "ids_of hs = map hp_id hs"

lemma update_amount_ids [simp]:
  "ids_of (update_first p (\<lambda>h. h\<lparr>hp_amountUsd := x\<rparr>) hs) = ids_of hs"
  unfolding ids_of_def by (rule map_update_first_same) simp

lemma rolled_row_amount [simp]: "rolled_row n e r (h\<lparr>hp_amountUsd := x\<rparr>) = rolled_row n e r h"
  by (simp add: rolled_row_def)

lemma find_rolled_update:
  assumes d: "distinct (ids_of hs)" and f: "find_row (rolled_row n e r) hs = Some h"
  shows "find_row (rolled_row n e' r) (update_first (\<lambda>h'. hp_id h' = hp_id h) (\<lambda>h. h\<lparr>hp_amountUsd := x\<rparr>) hs) =
    (if e' = e then Some (h\<lparr>hp_amountUsd := x\<rparr>) else find_row (rolled_row n e' r) hs)"
  using assms
proof (induction hs)
  case (Cons a hs)
  show ?case
  proof (cases "rolled_row n e r a")
    case True
    then have h: "h = a" using Cons.prems(2) by simp
    show ?thesis using True by (auto simp: h rolled_row_def)
  next
    case False
    then have f: "find_row (rolled_row n e r) hs = Some h" using Cons.prems(2) by simp
    have "hp_id h \<in> set (ids_of hs)" using find_row_Some [OF f] by (auto simp: ids_of_def)
    then have "hp_id a \<noteq> hp_id h" using Cons.prems(1) by (auto simp: ids_of_def)
    then show ?thesis using Cons.IH [OF _ f] Cons.prems(1) False by (auto simp: ids_of_def)
  qed
qed simp

lemma update_amount_same:
  assumes "distinct (ids_of hs)" "h \<in> set hs" "hp_amountUsd h = x"
  shows "update_first (\<lambda>h'. hp_id h' = hp_id h) (\<lambda>h. h\<lparr>hp_amountUsd := x\<rparr>) hs = hs"
  using assms
proof (induction hs)
  case (Cons a hs)
  then show ?case by (cases "a = h") (auto simp: ids_of_def)
qed simp

text \<open>What the table holds for an employee after the loop: the rounded loss.\<close>

definition rolled :: "runtime \<Rightarrow> int \<Rightarrow> string \<Rightarrow> settlement_detail \<Rightarrow> historical_negative_profit list \<Rightarrow> bool" where
  "rolled rt n r d hs \<longleftrightarrow>
     (\<exists>h. find_row (rolled_row n (md_employeeId d) r) hs = Some h \<and> hp_amountUsd h = rt_column rt 6 (loss_of rt d))"

definition loop_post ::
  "runtime \<Rightarrow> int \<Rightarrow> string \<Rightarrow> settlement_detail list \<Rightarrow> nat \<Rightarrow> historical_negative_profit list
   \<Rightarrow> nat \<Rightarrow> nat \<Rightarrow> historical_negative_profit list \<Rightarrow> bool" where
  "loop_post rt n r ds base hs0 c u hs \<longleftrightarrow>
     distinct (ids_of hs)
   \<and> (\<forall>d \<in> set ds. 0 < loss_of rt d \<longrightarrow> rolled rt n r d hs)
   \<and> (\<forall>e. e \<notin> md_employeeId ` set ds \<longrightarrow> find_row (rolled_row n e r) hs = find_row (rolled_row n e r) hs0)
   \<and> c + u = base + length (filter (\<lambda>d. 0 < loss_of rt d) ds)"

lemma loop_post_skip:
  "loop_post rt n r ds base hs0 c u hs \<Longrightarrow> loss_of rt d \<le> 0 \<Longrightarrow> loop_post rt n r (d # ds) base hs0 c u hs"
  by (simp add: loop_post_def)

lemma loop_post_write:
  assumes "loop_post rt n r ds (base + 1) hs1 c u hs"
    and "\<And>e. find_row (rolled_row n e r) hs1 =
          (if e = md_employeeId d then Some h else find_row (rolled_row n e r) hs0)"
    and "hp_amountUsd h = rt_column rt 6 (loss_of rt d)" "0 < loss_of rt d"
    and "md_employeeId d \<notin> md_employeeId ` set ds"
  shows "loop_post rt n r (d # ds) base hs0 c u hs"
  using assms by (auto simp: loop_post_def rolled_def)

lemma roll_forward_loop_result:
  assumes "list_all (\<lambda>d. \<exists>x. remainingNegativeProfitUsd rt d = Inr x) ds"
    and "distinct (map md_employeeId ds)" and "distinct (ids_of (historical_profits db))"
    and "inj (rt_fresh_id rt)" and "\<And>k. c \<le> k \<Longrightarrow> rt_fresh_id rt k \<notin> set (ids_of (historical_profits db))"
  shows "\<exists>c' u' hs. roll_forward_loop rt actor n r ds c u db = (Inr (c', u'), db\<lparr>historical_profits := hs\<rparr>)
    \<and> loop_post rt n r ds (c + u) (historical_profits db) c' u' hs"
  using assms
proof (induction ds arbitrary: c u db)
  case Nil
  show ?case using Nil.prems(3)
    by (intro exI [of _ "historical_profits db"] exI) (simp add: loop_post_def)
next
  case (Cons d ds)
  obtain x where x: "remainingNegativeProfitUsd rt d = Inr x" using Cons.prems(1) by auto
  then have loss: "loss_of rt d = x" by (simp add: loss_of_def)
  have tl: "list_all (\<lambda>d. \<exists>x. remainingNegativeProfitUsd rt d = Inr x) ds" "distinct (map md_employeeId ds)"
    and notin: "md_employeeId d \<notin> md_employeeId ` set ds"
    using Cons.prems(1,2) by auto
  let ?hs = "historical_profits db"
  consider (skip) "x \<le> 0" | (upd) h where "0 < x" "find_row (rolled_row n (md_employeeId d) r) ?hs = Some h"
    | (new) "0 < x" "find_row (rolled_row n (md_employeeId d) r) ?hs = None"
    by (cases "find_row (rolled_row n (md_employeeId d) r) ?hs") force+
  then show ?case
  proof cases
    case skip
    then have "roll_forward_loop rt actor n r (d # ds) c u db = roll_forward_loop rt actor n r ds c u db"
      by (simp add: x)
    then show ?thesis
      using Cons.IH [OF tl Cons.prems(3,4,5), of c u] loop_post_skip skip loss by metis
  next
    case upd
    let ?db1 = "db\<lparr>historical_profits := update_first (\<lambda>h'. hp_id h' = hp_id h)
        (\<lambda>h. h\<lparr>hp_amountUsd := rt_column rt 6 x\<rparr>) ?hs\<rparr>"
    have step: "roll_forward_loop rt actor n r (d # ds) c u db = roll_forward_loop rt actor n r ds c (u + 1) ?db1"
      using upd by (simp add: x historical_update_amount_def)
    obtain c' u' hs where ih: "roll_forward_loop rt actor n r ds c (u + 1) ?db1 = (Inr (c', u'), ?db1\<lparr>historical_profits := hs\<rparr>)"
      "loop_post rt n r ds (c + (u + 1)) (historical_profits ?db1) c' u' hs"
      using Cons.IH [OF tl _ Cons.prems(4), of ?db1 c "u + 1"] Cons.prems(3,5) by auto
    have "loop_post rt n r (d # ds) (c + u) ?hs c' u' hs"
    proof (rule loop_post_write)
      show "loop_post rt n r ds (c + u + 1) (historical_profits ?db1) c' u' hs" using ih(2) by simp
      show "find_row (rolled_row n e r) (historical_profits ?db1) =
          (if e = md_employeeId d then Some (h\<lparr>hp_amountUsd := rt_column rt 6 x\<rparr>)
           else find_row (rolled_row n e r) ?hs)" for e
        using find_rolled_update [OF Cons.prems(3) upd(2)] by simp
    qed (use upd(1) loss notin in simp_all)
    then show ?thesis using step ih(1) by auto
  next
    case new
    let ?h = "\<lparr>hp_id = rt_fresh_id rt c, hp_month = n, hp_employeeId = md_employeeId d,
                 hp_amountUsd = rt_column rt 6 x, hp_reason = Some r, hp_status = CS_active, hp_createdBy = ac_userId actor\<rparr>"
    let ?db1 = "db\<lparr>historical_profits := ?hs @ [?h]\<rparr>"
    have step: "roll_forward_loop rt actor n r (d # ds) c u db = roll_forward_loop rt actor n r ds (c + 1) u ?db1"
      using new by (simp add: x historical_create_def)
    have "distinct (ids_of (historical_profits ?db1))"
      "\<And>k. c + 1 \<le> k \<Longrightarrow> rt_fresh_id rt k \<notin> set (ids_of (historical_profits ?db1))"
      using Cons.prems(3-5) by (auto simp: ids_of_def dest: injD)
    then obtain c' u' hs where ih: "roll_forward_loop rt actor n r ds (c + 1) u ?db1 = (Inr (c', u'), ?db1\<lparr>historical_profits := hs\<rparr>)"
      "loop_post rt n r ds ((c + 1) + u) (historical_profits ?db1) c' u' hs"
      using Cons.IH [OF tl _ Cons.prems(4), of ?db1 "c + 1" u] by auto
    have "loop_post rt n r (d # ds) (c + u) ?hs c' u' hs"
      by (rule loop_post_write [where h = ?h])
        (use ih(2) new loss notin in \<open>auto simp: find_row_append rolled_row_def rate_active_def split: option.split\<close>)
    then show ?thesis using step ih(1) by auto
  qed
qed

text \<open>Once every loss is there, another run finds and rewrites the same rows.\<close>

lemma roll_forward_loop_again:
  assumes "list_all (\<lambda>d. \<exists>x. remainingNegativeProfitUsd rt d = Inr x) ds"
    and "distinct (ids_of (historical_profits db))"
    and "\<forall>d \<in> set ds. 0 < loss_of rt d \<longrightarrow> rolled rt n r d (historical_profits db)"
  shows "roll_forward_loop rt actor n r ds c u db =
    (Inr (c, u + length (filter (\<lambda>d. 0 < loss_of rt d) ds)), db)"
  using assms
proof (induction ds arbitrary: u)
  case (Cons d ds)
  obtain x where x: "remainingNegativeProfitUsd rt d = Inr x" using Cons.prems(1) by auto
  then have loss: "loss_of rt d = x" by (simp add: loss_of_def)
  show ?case
  proof (cases "x \<le> 0")
    case True
    then show ?thesis using Cons by (simp add: x loss)
  next
    case False
    then obtain h where h: "find_row (rolled_row n (md_employeeId d) r) (historical_profits db) = Some h"
      "hp_amountUsd h = rt_column rt 6 x"
      using Cons.prems(3) by (auto simp: rolled_def loss)
    have "update_first (\<lambda>h'. hp_id h' = hp_id h) (\<lambda>h. h\<lparr>hp_amountUsd := rt_column rt 6 x\<rparr>) (historical_profits db)
        = historical_profits db"
      using update_amount_same [OF Cons.prems(2)] find_row_Some [OF h(1)] h(2) by blast
    then have "roll_forward_loop rt actor n r (d # ds) c u db = roll_forward_loop rt actor n r ds c (u + 1) db"
      using False h(1) by (simp add: x historical_update_amount_def)
    then show ?thesis using Cons False by (simp add: loss)
  qed
qed simp

lemma roll_forward_loop_parses:
  "roll_forward_loop rt actor n r ds c u db = (Inr y, db') \<Longrightarrow>
   list_all (\<lambda>d. \<exists>x. remainingNegativeProfitUsd rt d = Inr x) ds"
proof (induction ds arbitrary: c u db)
  case (Cons d ds)
  obtain x where x: "remainingNegativeProfitUsd rt d = Inr x"
    using Cons.prems by (cases "remainingNegativeProfitUsd rt d") simp_all
  then show ?case
    using Cons.prems by (auto split: if_splits option.splits simp: op_bind_eq_Inr intro: Cons.IH)
qed simp

definition fresh_profit_ids :: "runtime \<Rightarrow> database \<Rightarrow> bool" where
  "fresh_profit_ids rt db \<longleftrightarrow>
     distinct (ids_of (historical_profits db)) \<and> inj (rt_fresh_id rt)
     \<and> range (rt_fresh_id rt) \<inter> set (ids_of (historical_profits db)) = {}"

lemma roll_forward_result:
  assumes "rollForwardNegativeProfits rt s ds actor db = (Inr rf, db')"
    and "distinct (map md_employeeId ds)" and "fresh_profit_ids rt db"
  shows "\<exists>n hs logs. nextSettlementMonth (ms_month s) = Some n
    \<and> list_all (\<lambda>d. \<exists>x. remainingNegativeProfitUsd rt d = Inr x) ds
    \<and> db' = db\<lparr>historical_profits := hs, audit_logs := audit_logs db @ logs\<rparr>
    \<and> distinct (ids_of hs) \<and> (\<forall>d \<in> set ds. 0 < loss_of rt d \<longrightarrow> rolled rt n (roll_forward_reason s) d hs)
    \<and> rf_nextMonth rf = n
    \<and> rf_createdCount rf + rf_updatedCount rf = length (filter (\<lambda>d. 0 < loss_of rt d) ds)"
proof -
  obtain n where n: "nextSettlementMonth (ms_month s) = Some n"
    using assms(1) by (auto simp: rollForwardNegativeProfits_def split: option.splits)
  obtain y db1 where loop: "roll_forward_loop rt actor n (roll_forward_reason s) ds 0 0 db = (Inr y, db1)"
    using assms(1) n by (auto simp: rollForwardNegativeProfits_def op_transaction_eq_Inr op_bind_eq_Inr)
  have parse: "list_all (\<lambda>d. \<exists>x. remainingNegativeProfitUsd rt d = Inr x) ds"
    using roll_forward_loop_parses [OF loop] .
  have fresh: "distinct (ids_of (historical_profits db))" "inj (rt_fresh_id rt)"
    "\<And>k. 0 \<le> k \<Longrightarrow> rt_fresh_id rt k \<notin> set (ids_of (historical_profits db))"
    using assms(3) by (auto simp: fresh_profit_ids_def)
  obtain c' u' hs where res: "roll_forward_loop rt actor n (roll_forward_reason s) ds 0 0 db =
      (Inr (c', u'), db\<lparr>historical_profits := hs\<rparr>)"
    "distinct (ids_of hs)" "\<forall>d \<in> set ds. 0 < loss_of rt d \<longrightarrow> rolled rt n (roll_forward_reason s) d hs"
    "c' + u' = 0 + 0 + length (filter (\<lambda>d. 0 < loss_of rt d) ds)"
    using roll_forward_loop_result [OF parse assms(2) fresh, where actor = actor and n = n and r = "roll_forward_reason s" and c = 0 and u = 0]
    unfolding loop_post_def by auto
  have "rf = \<lparr>rf_nextMonth = n, rf_createdCount = c', rf_updatedCount = u'\<rparr>"
    "\<exists>logs. db' = db\<lparr>historical_profits := hs, audit_logs := audit_logs db @ logs\<rparr>"
    using assms(1) n res(1)
    by (auto simp: rollForwardNegativeProfits_def op_transaction_def op_bind_Inr)
  then show ?thesis using n parse res by auto
qed

text \<open>
  The roll-forward is idempotent: run again after it succeeded, it creates nothing,
  finds exactly the rows of the first run and leaves the table as it is.
\<close>

theorem roll_forward_idempotent:
  assumes "rollForwardNegativeProfits rt s ds actor db = (Inr r1, db1)"
    and "distinct (map md_employeeId ds)" and "fresh_profit_ids rt db"
  shows "\<exists>r2 db2. rollForwardNegativeProfits rt s ds actor db1 = (Inr r2, db2)
    \<and> historical_profits db2 = historical_profits db1
    \<and> rf_createdCount r2 = 0 \<and> rf_updatedCount r2 = rf_createdCount r1 + rf_updatedCount r1"
proof -
  obtain n hs logs where r: "nextSettlementMonth (ms_month s) = Some n"
    "list_all (\<lambda>d. \<exists>x. remainingNegativeProfitUsd rt d = Inr x) ds"
    "db1 = db\<lparr>historical_profits := hs, audit_logs := audit_logs db @ logs\<rparr>"
    "distinct (ids_of hs)" "\<forall>d \<in> set ds. 0 < loss_of rt d \<longrightarrow> rolled rt n (roll_forward_reason s) d hs"
    "rf_createdCount r1 + rf_updatedCount r1 = length (filter (\<lambda>d. 0 < loss_of rt d) ds)"
    using roll_forward_result [OF assms] by blast
  have h: "historical_profits db1 = hs" by (simp add: r(3))
  have "roll_forward_loop rt actor n (roll_forward_reason s) ds 0 0 db1 =
      (Inr (0, 0 + length (filter (\<lambda>d. 0 < loss_of rt d) ds)), db1)"
    using roll_forward_loop_again [OF r(2), of db1 n "roll_forward_reason s"] r(4,5) h by simp
  then show ?thesis
    by (simp add: rollForwardNegativeProfits_def r(1,6) op_transaction_def op_bind_Inr)
qed

section \<open>Locking\<close>

definition locked_row :: "runtime \<Rightarrow> actor \<Rightarrow> string \<Rightarrow> settlement \<Rightarrow> settlement" where
  "locked_row rt actor reason r = r\<lparr>ms_status := SS_locked, ms_lockedAt := Some (rt_now rt),
     ms_lockedBy := Some (ac_userId actor), ms_lockReason := Some reason\<rparr>"

lemma locked_row_fields [simp]:
  "ms_status (locked_row rt actor reason r) = SS_locked" "ms_month (locked_row rt actor reason r) = ms_month r"
  "ms_id (locked_row rt actor reason r) = ms_id r"
  by (simp_all add: locked_row_def)

definition lock_entry :: "actor \<Rightarrow> int \<Rightarrow> settlement \<Rightarrow> audit_log" where
  "lock_entry actor m s = audit_row (auditInput actor ''settlement.lock'' ''monthly_settlement'' (Some (ms_id s))
     (Some m) [''status'', ''lockedAt'', ''lockedBy'', ''lockReason'']) AR_success"

lemma lockMonth_found:
  assumes "find_settlement m db = Some s0" "ms_status s0 \<noteq> SS_locked"
  shows "lockMonth rt m actor reason db =
    (Inr (locked_row rt actor reason s0),
     db\<lparr>settlements := update_first (\<lambda>r. ms_month r = m) (locked_row rt actor reason) (settlements db),
        audit_logs := audit_logs db @ [lock_entry actor m s0]\<rparr>)"
  using assms by (simp add: lockMonth_def op_assert_def settlement_upsert_def op_bind_Inr locked_row_def [abs_def]
      lock_entry_def)

lemma assertLockable_Inr:
  "assertLockable found ds = Inr s \<longleftrightarrow> found = Some s \<and> ms_status s = SS_confirmed \<and> ds \<noteq> []"
  by (auto simp: assertLockable_def split: option.splits)

lemma lockSettlement_Inr:
  assumes "lockSettlement rt m actor reason db = (Inr (locked, rf), db')"
  shows "\<exists>s0 db1. find_settlement m db = Some s0 \<and> ms_status s0 = SS_confirmed \<and> details_of s0 db \<noteq> []
    \<and> lockMonth rt m actor (case reason of None \<Rightarrow> '''' | Some r \<Rightarrow> r) db = (Inr locked, db1)
    \<and> rollForwardNegativeProfits rt s0 (details_of s0 db) actor db1 = (Inr rf, db')"
  using assms
  by (auto simp: lockSettlement_def op_bind_eq_Inr details_if_found_def assertLockable_Inr)

lemma lock_found_after:
  assumes "find_settlement m db = Some s0" and "ms_month (f s0) = m"
    and "settlements db' = update_first (\<lambda>r. ms_month r = m) f (settlements db)"
  shows "find_settlement m db' = Some (f s0)"
  using assms unfolding find_settlement_def by (simp add: find_row_update_first)

lemma lock_carries_losses:
  assumes lock: "lockSettlement rt m actor reason db = (Inr (locked, rf), db')"
    and "distinct (map detail_key (settlement_details db))" and "fresh_profit_ids rt db"
  shows "\<exists>s0 n. find_settlement m db = Some s0 \<and> ms_status s0 = SS_confirmed
    \<and> month_locked m db' \<and> nextSettlementMonth m = Some n
    \<and> (\<forall>d \<in> set (details_of s0 db). 0 < loss_of rt d \<longrightarrow>
        (\<exists>h \<in> set (historical_profits db'). hp_month h = n \<and> hp_employeeId h = md_employeeId d
           \<and> rate_active (hp_status h) \<and> hp_amountUsd h = rt_column rt 6 (loss_of rt d)))"
proof -
  obtain s0 db1 where s0: "find_settlement m db = Some s0" "ms_status s0 = SS_confirmed"
    and lm: "lockMonth rt m actor (case reason of None \<Rightarrow> '''' | Some r \<Rightarrow> r) db = (Inr locked, db1)"
    and rf: "rollForwardNegativeProfits rt s0 (details_of s0 db) actor db1 = (Inr rf, db')"
    using lockSettlement_Inr [OF lock] by blast
  have m: "ms_month s0 = m" using s0(1) by (rule find_settlement_month)
  have db1: "db1 = db\<lparr>settlements := update_first (\<lambda>r. ms_month r = m)
        (locked_row rt actor (case reason of None \<Rightarrow> [] | Some r \<Rightarrow> r)) (settlements db),
      audit_logs := audit_logs db @ [lock_entry actor m s0]\<rparr>"
    using lm lockMonth_found [OF s0(1)] s0(2) by simp
  have l1: "historical_profits db1 = historical_profits db" by (simp add: db1)
  have f1: "find_settlement m db1 = Some (locked_row rt actor (case reason of None \<Rightarrow> [] | Some r \<Rightarrow> r) s0)"
    by (rule lock_found_after [OF s0(1)]) (simp_all add: m db1)
  have "distinct (map md_employeeId (details_of s0 db))"
    using assms(2) by (auto simp: details_of_def distinct_map inj_on_def detail_key_def)
  moreover have "fresh_profit_ids rt db1" using assms(3) by (simp add: fresh_profit_ids_def l1)
  ultimately obtain n hs logs where r: "nextSettlementMonth (ms_month s0) = Some n"
    "db' = db1\<lparr>historical_profits := hs, audit_logs := audit_logs db1 @ logs\<rparr>"
    "\<forall>d \<in> set (details_of s0 db). 0 < loss_of rt d \<longrightarrow> rolled rt n (roll_forward_reason s0) d hs"
    using roll_forward_result [OF rf] by blast
  have "find_settlement m db' = find_settlement m db1" by (simp add: r(2) find_settlement_def)
  then have "month_locked m db'" using f1 by (simp add: month_locked_def)
  moreover have "\<exists>h \<in> set (historical_profits db'). hp_month h = n \<and> hp_employeeId h = md_employeeId d
           \<and> rate_active (hp_status h) \<and> hp_amountUsd h = rt_column rt 6 (loss_of rt d)"
    if d: "d \<in> set (details_of s0 db)" "0 < loss_of rt d" for d
  proof -
    obtain h where h: "find_row (rolled_row n (md_employeeId d) (roll_forward_reason s0)) hs = Some h"
      "hp_amountUsd h = rt_column rt 6 (loss_of rt d)"
      using r(3) d unfolding rolled_def by blast
    then show ?thesis using find_row_Some [OF h(1)] r(2) by (auto simp: rolled_row_def)
  qed
  ultimately show ?thesis using s0 r(1) m by blast
qed

text \<open>
  C13: Locking carries every loss on: a successful lock starts from a confirmed settlement
  with details, leaves the month locked, and the next month then holds an active historical
  loss of each employee whose settlement detail kept one, of that amount.
\<close>

theorem lock_rolls_losses_forward:
  assumes lock: "lockSettlement rt m actor reason db = (Inr (locked, rf), db')"
    and "distinct (map detail_key (settlement_details db))" and "fresh_profit_ids rt db"
  shows "\<exists>s0 n. find_settlement m db = Some s0 \<and> ms_status s0 = SS_confirmed
    \<and> month_locked m db' \<and> nextSettlementMonth m = Some n
    \<and> (\<forall>d \<in> set (details_of s0 db). 0 < loss_of rt d \<longrightarrow>
        (\<exists>h \<in> set (historical_profits db'). hp_month h = n \<and> hp_employeeId h = md_employeeId d
           \<and> rate_active (hp_status h) \<and> hp_amountUsd h = rt_column rt 6 (loss_of rt d)))"
  using assms by (rule lock_carries_losses)

text \<open>
  A lock cannot be repeated, so a roll-forward that failed after the lock has no second
  chance: on a locked month the handler refuses with SETTLEMENT_PRECHECK_FAILED and changes
  nothing at all, not even the next month's losses.
\<close>

theorem locked_month_cannot_be_locked_again:
  assumes "month_locked m db"
  shows "lockSettlement rt m actor reason db =
    (Inl (AppError SETTLEMENT_PRECHECK_FAILED ''Only confirmed settlement can be locked.''), db)"
  using assms
  by (auto simp: lockSettlement_def month_locked_def assertLockable_def op_bind_Inl split: option.splits)

text \<open>The successful run, for the witnesses and for the liveness of the lock.\<close>

lemma rollForward_runs:
  assumes "nextSettlementMonth (ms_month s) = Some n"
    and "list_all (\<lambda>d. \<exists>x. remainingNegativeProfitUsd rt d = Inr x) ds"
    and "distinct (map md_employeeId ds)" "fresh_profit_ids rt db"
  shows "\<exists>rf db'. rollForwardNegativeProfits rt s ds actor db = (Inr rf, db')"
proof -
  have fresh: "distinct (ids_of (historical_profits db))" "inj (rt_fresh_id rt)"
    "\<And>k. 0 \<le> k \<Longrightarrow> rt_fresh_id rt k \<notin> set (ids_of (historical_profits db))"
    using assms(4) by (auto simp: fresh_profit_ids_def)
  obtain c u hs where "roll_forward_loop rt actor n (roll_forward_reason s) ds 0 0 db =
      (Inr (c, u), db\<lparr>historical_profits := hs\<rparr>)"
    using roll_forward_loop_result [OF assms(2,3) fresh, where actor = actor and n = n
        and r = "roll_forward_reason s" and u = 0] by blast
  then show ?thesis by (simp add: rollForwardNegativeProfits_def assms(1) op_transaction_def op_bind_Inr)
qed

lemma lock_runs:
  assumes "find_settlement m db = Some s0" "ms_status s0 = SS_confirmed" "details_of s0 db \<noteq> []"
    and "nextSettlementMonth m = Some n"
    and "list_all (\<lambda>d. \<exists>x. remainingNegativeProfitUsd rt d = Inr x) (details_of s0 db)"
    and "distinct (map md_employeeId (details_of s0 db))" "fresh_profit_ids rt db"
  shows "\<exists>locked rf db'. lockSettlement rt m actor reason db = (Inr (locked, rf), db')"
proof -
  let ?r = "case reason of None \<Rightarrow> [] | Some r \<Rightarrow> r"
  let ?db1 = "db\<lparr>settlements := update_first (\<lambda>r. ms_month r = m) (locked_row rt actor ?r) (settlements db),
        audit_logs := audit_logs db @ [lock_entry actor m s0]\<rparr>"
  have lm: "lockMonth rt m actor ?r db = (Inr (locked_row rt actor ?r s0), ?db1)"
    using assms(1,2) by (intro lockMonth_found) simp_all
  have "fresh_profit_ids rt ?db1" using assms(7) by (simp add: fresh_profit_ids_def)
  moreover have "nextSettlementMonth (ms_month s0) = Some n"
    using find_settlement_month [OF assms(1)] assms(4) by simp
  ultimately obtain rf db' where "rollForwardNegativeProfits rt s0 (details_of s0 db) actor ?db1 = (Inr rf, db')"
    using rollForward_runs [OF _ assms(5,6)] by blast
  then show ?thesis
    using assms(1-3) by (simp add: lockSettlement_def details_if_found_def assertLockable_Inr op_bind_Inr lm
        assertLockable_def)
qed

definition sample_settlement :: settlement where
  "sample_settlement =
     \<lparr>ms_id = ''s1'', ms_month = FEB_2026, ms_status = SS_confirmed, ms_generatedAt = None, ms_generatedBy = None,
      ms_confirmedAt = None, ms_confirmedBy = None, ms_lockedAt = None, ms_lockedBy = None, ms_lockReason = None\<rparr>"

definition sample_detail :: settlement_detail where
  "sample_detail =
     \<lparr>md_settlementId = ''s1'', md_employeeId = ''e1'', md_month = FEB_2026, md_attendance = Some full_attendance,
      md_incomeUsd = 100, md_cardSpendUsd = 250, md_grossProfitUsd = -150, md_grossProfitRmb = -1050,
      md_commissionRmb = 0, md_manualAdditionRmb = 0, md_manualDeductionRmb = 0, md_finalSalaryRmb = 3000,
      md_snapshot = JObject [(''remainingNegativeProfitUsd'', JString ''150'')]\<rparr>"

definition sample_confirmed_db :: database where
  "sample_confirmed_db = empty_db\<lparr>settlements := [sample_settlement], settlement_details := [sample_detail]\<rparr>"

lemma sample_confirmed_facts:
  "find_settlement FEB_2026 sample_confirmed_db = Some sample_settlement"
  "details_of sample_settlement sample_confirmed_db = [sample_detail]"
  "nextSettlementMonth FEB_2026 = Some MAR_2026"
  "remainingNegativeProfitUsd sample_rt sample_detail = Inr 150"
  "fresh_profit_ids sample_rt sample_confirmed_db"
proof -
  show "find_settlement FEB_2026 sample_confirmed_db = Some sample_settlement"
    by (simp add: find_settlement_def sample_confirmed_db_def sample_settlement_def)
  show "details_of sample_settlement sample_confirmed_db = [sample_detail]"
    by (simp add: details_of_def sample_confirmed_db_def sample_settlement_def sample_detail_def)
  show "nextSettlementMonth FEB_2026 = Some MAR_2026" by code_simp
  show "remainingNegativeProfitUsd sample_rt sample_detail = Inr 150" by code_simp
  show "fresh_profit_ids sample_rt sample_confirmed_db"
    using sample_fresh_inj by (simp add: fresh_profit_ids_def sample_confirmed_db_def empty_db_def ids_of_def)
qed

lemma sample_lock_runs:
  "\<exists>locked rf db'. lockSettlement sample_rt FEB_2026 sample_actor None sample_confirmed_db = (Inr (locked, rf), db')"
  by (rule lock_runs [OF sample_confirmed_facts(1)])
    (simp_all add: sample_confirmed_facts, simp add: sample_settlement_def)

theorem lock_rolls_losses_forward_witness:
  "\<exists>h \<in> set (historical_profits (snd (lockSettlement sample_rt FEB_2026 sample_actor None sample_confirmed_db))).
     hp_month h = MAR_2026 \<and> hp_employeeId h = ''e1'' \<and> hp_amountUsd h = 150"
proof -
  obtain locked rf db' where run:
    "lockSettlement sample_rt FEB_2026 sample_actor None sample_confirmed_db = (Inr (locked, rf), db')"
    using sample_lock_runs by blast
  have "distinct (map detail_key (settlement_details sample_confirmed_db))"
    by (simp add: sample_confirmed_db_def)
  moreover have l: "loss_of sample_rt sample_detail = 150" by (simp add: loss_of_def sample_confirmed_facts)
  moreover have "rt_column sample_rt 6 150 = 150"
    unfolding sample_rt_def runtime.simps
    by (rule pg_column.col_exact) (unfold scaled_def, rule exI [of _ 150000000], simp)
  ultimately have "\<exists>h \<in> set (historical_profits db'). hp_month h = MAR_2026
      \<and> hp_employeeId h = md_employeeId sample_detail \<and> hp_amountUsd h = 150"
    using lock_rolls_losses_forward [OF run _ sample_confirmed_facts(5)]
    by (auto simp: sample_confirmed_facts)
  then show ?thesis using run by (simp add: sample_detail_def)
qed

theorem roll_forward_idempotent_witness:
  "\<exists>db1. snd (rollForwardNegativeProfits sample_rt sample_settlement [sample_detail] sample_actor sample_confirmed_db) = db1
     \<and> historical_profits (snd (rollForwardNegativeProfits sample_rt sample_settlement [sample_detail] sample_actor db1))
       = historical_profits db1"
proof -
  have "nextSettlementMonth (ms_month sample_settlement) = Some MAR_2026"
    using sample_confirmed_facts(3) by (simp add: sample_settlement_def)
  then obtain r1 db1 where run:
    "rollForwardNegativeProfits sample_rt sample_settlement [sample_detail] sample_actor sample_confirmed_db = (Inr r1, db1)"
    using rollForward_runs [of sample_settlement MAR_2026 sample_rt "[sample_detail]" sample_confirmed_db sample_actor]
      sample_confirmed_facts(4,5) by auto
  then show ?thesis using roll_forward_idempotent [OF run _ sample_confirmed_facts(5)] by auto
qed

theorem locked_month_cannot_be_locked_again_witness:
  "snd (lockSettlement sample_rt FEB_2026 sample_actor None
      (sample_confirmed_db\<lparr>settlements := [sample_settlement\<lparr>ms_status := SS_locked\<rparr>]\<rparr>)) =
    sample_confirmed_db\<lparr>settlements := [sample_settlement\<lparr>ms_status := SS_locked\<rparr>]\<rparr>"
proof -
  have "month_locked FEB_2026 (sample_confirmed_db\<lparr>settlements := [sample_settlement\<lparr>ms_status := SS_locked\<rparr>]\<rparr>)"
    by (simp add: month_locked_def find_settlement_def sample_settlement_def)
  then show ?thesis
    using locked_month_cannot_be_locked_again [of FEB_2026 _ sample_rt sample_actor None] by simp
qed

end
