(* ===== verification/Settlement_Lifecycle.thy ===== *)
theory Settlement_Lifecycle
  imports Finalization_Properties
begin

text \<open>
  The life of a settlement as a state machine: the handlers of the settlement controllers as
  one step relation on the database, the invariant of the settlements table, and what a
  status can become. A month without a row is before draft.
\<close>

text \<open>
  One call of a settlement handler. Each call may see its own clock and identifiers; the
  identifier of a new row is one the table does not have.
\<close>

inductive settlement_step :: "database \<Rightarrow> database \<Rightarrow> bool" where
  generate: "rt_fresh_id rt 0 \<notin> ms_id ` set (settlements db) \<Longrightarrow>
     settlement_step db (snd (generateSettlement rt input db))"
| confirm: "settlement_step db (snd (confirmSettlement rt m actor db))"
| lock: "settlement_step db (snd (lockSettlement rt m actor reason db))"
| summary: "settlement_step db (snd (getSettlementSummary rt m db))"
| details: "settlement_step db (snd (getSettlementDetails js_number m employeeId page pageSize db))"
| export: "settlement_step db (snd (exportSettlementCsv rt m actor db))"

definition settlements_ok :: "database \<Rightarrow> bool" where
  "settlements_ok db \<longleftrightarrow> distinct (map ms_month (settlements db)) \<and> distinct (map ms_id (settlements db))"

fun status_rank :: "settlement_status \<Rightarrow> nat" where
  "status_rank SS_draft = 1"
| "status_rank SS_confirmed = 2"
| "status_rank SS_locked = 3"

definition month_rank :: "int \<Rightarrow> database \<Rightarrow> nat" where
  "month_rank m db = (case find_settlement m db of None \<Rightarrow> 0 | Some s \<Rightarrow> status_rank (ms_status s))"

section \<open>What each handler does to the settlements table\<close>

text \<open>Every successful write of a row keeps the keys and moves only the row it found.\<close>

lemma settlements_update:
  assumes "settlements_ok db" and "\<And>s. ms_id (f s) = ms_id s" "\<And>s. ms_month (f s) = ms_month s"
    and "settlements db' = update_first p f (settlements db)"
  shows "settlements_ok db'"
  using assms by (simp add: settlements_ok_def map_update_first_same)

lemma month_rank_other:
  assumes "settlements db' = settlements db"
  shows "month_rank m db' = month_rank m db" "settlements_ok db' = settlements_ok db"
  using assms by (simp_all add: month_rank_def find_settlement_def settlements_ok_def)

text \<open>Updating the row of a month, by its month or by its identifier.\<close>

lemma month_rank_update_month:
  assumes "find_settlement m db = Some s" and "\<And>s. ms_month (f s) = ms_month s"
    and "settlements db' = update_first (\<lambda>r. ms_month r = m) f (settlements db)"
  shows "month_rank k db' = (if k = m then status_rank (ms_status (f s)) else month_rank k db)"
proof (cases "k = m")
  case True
  have "find_settlement m db' = Some (f s)"
    by (rule lock_found_after [OF assms(1) _ assms(3)])
      (simp add: assms(2) find_settlement_month [OF assms(1)])
  then show ?thesis using True by (simp add: month_rank_def)
next
  case False
  then have "find_settlement k db' = find_settlement k db"
    unfolding find_settlement_def assms(3) by (intro find_row_update_first_other) (auto simp: assms(2))
  then show ?thesis using False by (simp add: month_rank_def)
qed

lemma update_by_id:
  assumes "settlements_ok db" "find_settlement m db = Some s"
  shows "find_row (\<lambda>r. ms_id r = ms_id s) (settlements db) = Some s"
    and "update_first (\<lambda>r. ms_id r = ms_id s) f (settlements db) = update_first (\<lambda>r. ms_month r = m) f (settlements db)"
proof -
  have "distinct (map ms_month xs) \<Longrightarrow> distinct (map ms_id xs) \<Longrightarrow> find_row (\<lambda>r. ms_month r = m) xs = Some s \<Longrightarrow>
      find_row (\<lambda>r. ms_id r = ms_id s) xs = Some s
      \<and> update_first (\<lambda>r. ms_id r = ms_id s) f xs = update_first (\<lambda>r. ms_month r = m) f xs" for xs
  proof (induction xs)
    case (Cons a xs)
    then show ?case
    proof (cases "ms_month a = m")
      case False
      then have f: "find_row (\<lambda>r. ms_month r = m) xs = Some s" using Cons.prems(3) by simp
      then have "ms_id a \<noteq> ms_id s" using find_row_Some [OF f] Cons.prems(2) by auto
      then show ?thesis using Cons False f by simp
    qed simp
  qed simp
  then show "find_row (\<lambda>r. ms_id r = ms_id s) (settlements db) = Some s"
    and "update_first (\<lambda>r. ms_id r = ms_id s) f (settlements db) = update_first (\<lambda>r. ms_month r = m) f (settlements db)"
    using assms by (simp_all add: settlements_ok_def find_settlement_def)
qed

text \<open>The four effects a call can have on the table.\<close>

definition moves :: "database \<Rightarrow> database \<Rightarrow> bool" where
  "moves db db' \<longleftrightarrow> settlements_ok db' \<and> (\<forall>m. month_rank m db \<le> month_rank m db' \<and> month_rank m db' \<le> month_rank m db + 1
     \<and> (month_rank m db = 3 \<longrightarrow> find_settlement m db' = find_settlement m db))"

lemma moves_same: "settlements_ok db \<Longrightarrow> settlements db' = settlements db \<Longrightarrow> moves db db'"
  using month_rank_other [of db' db] by (simp add: moves_def find_settlement_def)

lemma moves_update:
  assumes "settlements_ok db" "find_settlement m db = Some s" "ms_status s \<noteq> SS_locked"
    and "\<And>s. ms_id (f s) = ms_id s" "\<And>s. ms_month (f s) = ms_month s"
    and "settlements db' = update_first (\<lambda>r. ms_month r = m) f (settlements db)"
    and "status_rank (ms_status s) \<le> status_rank (ms_status (f s))"
      "status_rank (ms_status (f s)) \<le> status_rank (ms_status s) + 1"
  shows "moves db db'"
proof -
  have r: "month_rank k db' = (if k = m then status_rank (ms_status (f s)) else month_rank k db)" for k
    by (rule month_rank_update_month [OF assms(2,5,6)])
  have "month_rank m db = status_rank (ms_status s)" by (simp add: month_rank_def assms(2))
  moreover have "status_rank (ms_status s) \<noteq> 3" using assms(3) by (cases "ms_status s") auto
  moreover have "find_settlement k db' = find_settlement k db" if "k \<noteq> m" for k
    using that unfolding find_settlement_def assms(6) by (intro find_row_update_first_other) (auto simp: assms(5))
  ultimately show ?thesis
    using r assms(7,8) settlements_update [OF assms(1,4,5,6)] by (auto simp: moves_def)
qed

lemma generate_moves:
  assumes "settlements_ok db" "rt_fresh_id rt 0 \<notin> ms_id ` set (settlements db)"
  shows "moves db (snd (generateSettlement rt input db))"
proof (cases "generateSettlement rt input db")
  case (Pair r db')
  let ?m = "gi_settlementMonth input"
  show ?thesis
  proof (cases r)
    case (Inl e)
    then obtain entry where "db' = db\<lparr>audit_logs := audit_logs db @ [entry]\<rparr>"
      using generation_failure_entry Pair by blast
    then have "settlements db' = settlements db" by simp
    then show ?thesis using Pair moves_same [OF assms(1)] by simp
  next
    case (Inr g)
    then have "generate_try rt input db = (Inr g, db')"
      using Pair by (auto simp: generateSettlement_def op_catch_def op_bind_def split: prod.splits sum.splits if_splits)
    then obtain rs pf where "writeSettlement rt input rs pf db = (Inr g, db')" using generate_try_Inr by blast
    then have w: "\<not> month_locked ?m db" "settlements db' = generated_settlements rt input db"
      using writeSettlement_Inr by (blast, fastforce)
    show ?thesis
    proof (cases "find_settlement ?m db")
      case None
      have f: "find_settlement k db' = (if k = ?m then Some (generated_row rt input db) else find_settlement k db)" for k
        using None w(2)
        by (auto simp: find_settlement_def generated_settlements_def generated_row_def find_row_append split: option.splits)
      have "?m \<notin> ms_month ` set (settlements db)" using None by (auto simp: find_settlement_def find_row_None)
      then have "settlements_ok db'"
        using assms None w(2) by (auto simp: settlements_ok_def generated_settlements_def generated_row_def)
      moreover have "month_rank ?m db = 0" "status_rank (ms_status (generated_row rt input db)) = 1"
        using None by (simp_all add: month_rank_def generated_row_def)
      ultimately show ?thesis using Pair f by (auto simp: moves_def month_rank_def)
    next
      case (Some s)
      then have "moves db db'"
        using w by (intro moves_update [OF assms(1) Some, where
            f = "\<lambda>s. s\<lparr>ms_generatedAt := Some (rt_now rt), ms_generatedBy := Some (ac_userId (gi_actor input))\<rparr>"])
          (auto simp: generated_settlements_def month_locked_def)
      then show ?thesis using Pair by simp
    qed
  qed
qed

lemma confirm_moves:
  assumes "settlements_ok db"
  shows "moves db (snd (confirmSettlement rt m actor db))"
proof (cases "fst (confirmSettlement rt m actor db)")
  case (Inl e)
  then obtain db' where run: "confirmSettlement rt m actor db = (Inl e, db')"
    by (cases "confirmSettlement rt m actor db") simp
  then have "db' = db" unfolding confirmSettlement_def by (rule op_transaction_Inl)
  then show ?thesis using moves_same [OF assms] run by simp
next
  case (Inr s')
  let ?f = "\<lambda>s. s\<lparr>ms_status := SS_confirmed, ms_confirmedAt := Some (rt_now rt), ms_confirmedBy := Some (ac_userId actor)\<rparr>"
  obtain db' where run: "confirmSettlement rt m actor db = (Inr s', db')"
    using Inr by (cases "confirmSettlement rt m actor db") simp
  obtain s where s: "find_settlement m db = Some s" "ms_status s = SS_draft"
    using run by (auto simp: confirmSettlement_def op_transaction_eq_Inr op_bind_eq_Inr assertConfirmable_def
        split: option.splits if_splits)
  have "settlements db' = update_first (\<lambda>r. ms_month r = m) ?f (settlements db)"
    using run s update_by_id(1) [OF assms s(1)] update_by_id(2) [OF assms s(1), of ?f]
    by (auto simp: confirmSettlement_def op_transaction_eq_Inr op_bind_eq_Inr assertConfirmable_def
        settlement_update_def split: if_splits)
  then show ?thesis using s run by (auto intro: moves_update [OF assms s(1), where f = ?f])
qed

lemma roll_forward_keeps_settlements:
  "settlements (snd (rollForwardNegativeProfits rt s ds actor db)) = settlements db"
proof -
  have l: "settlements (snd (roll_forward_loop rt actor n r ds c u db)) = settlements db" for n r c u
    by (induction ds arbitrary: c u db)
      (simp_all add: op_bind_def historical_update_amount_def historical_create_def split: sum.split option.split)
  show ?thesis
    using l by (auto simp: rollForwardNegativeProfits_def op_transaction_def op_bind_def
        split: option.splits prod.splits sum.splits) (metis snd_conv)+
qed

lemma lock_moves:
  assumes "settlements_ok db"
  shows "moves db (snd (lockSettlement rt m actor reason db))"
proof (cases "\<exists>s. find_settlement m db = Some s \<and> ms_status s = SS_confirmed \<and> details_of s db \<noteq> []")
  case True
  then obtain s where s: "find_settlement m db = Some s" "ms_status s = SS_confirmed" "details_of s db \<noteq> []" by blast
  let ?r = "case reason of None \<Rightarrow> [] | Some r \<Rightarrow> r"
  let ?db1 = "db\<lparr>settlements := update_first (\<lambda>r. ms_month r = m) (locked_row rt actor ?r) (settlements db),
        audit_logs := audit_logs db @ [lock_entry actor m s]\<rparr>"
  have lm: "lockMonth rt m actor ?r db = (Inr (locked_row rt actor ?r s), ?db1)"
    using s by (intro lockMonth_found) simp_all
  have "snd (lockSettlement rt m actor reason db) = snd (rollForwardNegativeProfits rt s (details_of s db) actor ?db1)"
    using s by (simp add: lockSettlement_def details_if_found_def assertLockable_def op_bind_Inr lm)
      (simp add: op_bind_def split: prod.split sum.split)
  then have "settlements (snd (lockSettlement rt m actor reason db)) =
      update_first (\<lambda>r. ms_month r = m) (locked_row rt actor ?r) (settlements db)"
    by (simp add: roll_forward_keeps_settlements)
  then show ?thesis using s by (intro moves_update [OF assms s(1), where f = "locked_row rt actor ?r"]) auto
next
  case False
  then have "snd (lockSettlement rt m actor reason db) = db"
    by (auto simp: lockSettlement_def details_if_found_def assertLockable_def op_bind_Inl split: option.splits)
  then show ?thesis using moves_same [OF assms] by simp
qed

lemma reads_keep_settlements:
  "settlements (snd (getSettlementSummary rt m db)) = settlements db"
  "settlements (snd (getSettlementDetails js m e p ps db)) = settlements db"
  "settlements (snd (exportSettlementCsv rt m actor db)) = settlements db"
  by (simp_all add: getSettlementSummary_def getSettlementDetails_def exportSettlementCsv_def op_bind_def
      split: option.split sum.split)

lemma step_moves: "settlement_step db db' \<Longrightarrow> settlements_ok db \<Longrightarrow> moves db db'"
  by (induction rule: settlement_step.induct)
    (simp_all add: generate_moves confirm_moves lock_moves moves_same reads_keep_settlements)

lemma rank_locked: "month_rank m db = 3 \<longleftrightarrow> month_locked m db"
proof -
  have "status_rank s = 3 \<longleftrightarrow> s = SS_locked" for s by (cases s) auto
  then show ?thesis by (simp add: month_rank_def month_locked_def split: option.split)
qed

section \<open>Properties\<close>

text \<open>
  C14: One call of any settlement handler moves the settlement of a month at most one place
  along absent, draft, confirmed, locked, never back; and the table keeps one row per month
  and per identifier.
\<close>

theorem settlement_step_moves_forward:
  assumes "settlement_step db db'" and "settlements_ok db"
  shows "settlements_ok db' \<and> month_rank m db \<le> month_rank m db' \<and> month_rank m db' \<le> month_rank m db + 1"
  using step_moves [OF assms] by (simp add: moves_def)

text \<open>
  A lock is for ever: however the settlement handlers are called, in any number and
  order, the row of a locked month (status, time, person and reason of the lock) stays as
  it is.
\<close>

theorem locked_settlement_is_final:
  assumes "settlement_step\<^sup>*\<^sup>* db db'" and "settlements_ok db" and "month_locked m db"
  shows "find_settlement m db' = find_settlement m db \<and> month_locked m db'"
proof -
  have "settlements_ok db' \<and> find_settlement m db' = find_settlement m db"
    using assms(1)
  proof (induction rule: rtranclp_induct)
    case base
    then show ?case using assms(2) by simp
  next
    case (step y z)
    then have "month_rank m y = 3" using assms(3) by (simp add: rank_locked month_locked_def)
    then show ?case using step_moves [of y z] step by (simp add: moves_def)
  qed
  then show ?thesis using assms(3) by (simp add: month_locked_def)
qed

section \<open>Witnesses\<close>

lemma sample_confirmed_ok: "settlements_ok sample_confirmed_db"
  by (simp add: settlements_ok_def sample_confirmed_db_def)

lemma sample_rank: "month_rank FEB_2026 sample_confirmed_db = 2"
  by (simp add: month_rank_def sample_confirmed_facts) (simp add: sample_settlement_def)

theorem settlement_step_moves_forward_witness:
  "\<exists>db'. settlement_step sample_confirmed_db db' \<and> 2 \<le> month_rank FEB_2026 db' \<and> month_rank FEB_2026 db' \<le> 3"
proof -
  let ?db' = "snd (lockSettlement sample_rt FEB_2026 sample_actor None sample_confirmed_db)"
  have s: "settlement_step sample_confirmed_db ?db'" by (rule settlement_step.lock)
  show ?thesis
    using settlement_step_moves_forward [OF s sample_confirmed_ok, of FEB_2026] s sample_rank by auto
qed

definition sample_locked_db :: database where
  "sample_locked_db = sample_confirmed_db\<lparr>settlements := [sample_settlement\<lparr>ms_status := SS_locked\<rparr>]\<rparr>"

theorem locked_settlement_is_final_witness:
  "month_locked FEB_2026 (snd (confirmSettlement sample_rt FEB_2026 sample_actor sample_locked_db))"
proof -
  have "settlement_step\<^sup>*\<^sup>* sample_locked_db (snd (confirmSettlement sample_rt FEB_2026 sample_actor sample_locked_db))"
    by (rule r_into_rtranclp) (rule settlement_step.confirm)
  moreover have "settlements_ok sample_locked_db" "month_locked FEB_2026 sample_locked_db"
    by (simp_all add: settlements_ok_def sample_locked_db_def month_locked_def find_settlement_def sample_settlement_def)
  ultimately show ?thesis using locked_settlement_is_final by blast
qed

end
