(* ===== verification/Month_Table.thy ===== *)
theory Month_Table
  imports Sample_Runtime
begin

text \<open>
  The tables the entry services write: reading a row by its identifier (or \<open>NOT_FOUND\<close>),
  inserting a row and updating one under a unique constraint. Beside the operations stand
  the contracts the services share: an operation behind the month lock leaves locked months
  alone (\<open>freezes\<close>), and it preserves an invariant of the tables (\<open>preserves\<close>).
\<close>

section \<open>Operations on a table\<close>

text \<open>\<open>get\<close> and \<open>put\<close> select the table, \<open>clash\<close> is its unique constraint between two rows.\<close>

definition no_clash :: "'r \<Rightarrow> 'r \<Rightarrow> bool" where
  "no_clash r r' = False"

definition table_find :: "(database \<Rightarrow> 'r list) \<Rightarrow> ('r \<Rightarrow> string) \<Rightarrow> string \<Rightarrow> string \<Rightarrow> 'r handler" where
  "table_find get ident what i =
     op_bind (op_get (\<lambda>db. find_row (\<lambda>r. ident r = i) (get db))) (\<lambda>found.
     case found of None \<Rightarrow> op_throw (notFound what) | Some r \<Rightarrow> op_return r)"

definition table_insert ::
  "(database \<Rightarrow> 'r list) \<Rightarrow> ('r list \<Rightarrow> database \<Rightarrow> database) \<Rightarrow> ('r \<Rightarrow> 'r \<Rightarrow> bool) \<Rightarrow> 'r \<Rightarrow> 'r handler" where
  "table_insert get put clash row db =
     (if list_ex (\<lambda>r. clash r row) (get db)
      then (Inl (PrismaKnownError ''P2002''), db)
      else (Inr row, put (get db @ [row]) db))"

definition table_update ::
  "(database \<Rightarrow> 'r list) \<Rightarrow> ('r list \<Rightarrow> database \<Rightarrow> database) \<Rightarrow> ('r \<Rightarrow> 'r \<Rightarrow> bool) \<Rightarrow> ('r \<Rightarrow> string)
     \<Rightarrow> string \<Rightarrow> ('r \<Rightarrow> 'r) \<Rightarrow> 'r handler" where
  "table_update get put clash ident i f db =
     (case find_row (\<lambda>r. ident r = i) (get db) of
        None \<Rightarrow> (Inl (PrismaKnownError ''P2025''), db)
      | Some r \<Rightarrow>
          (if list_ex (\<lambda>r'. ident r' \<noteq> i \<and> clash r' (f r)) (get db)
           then (Inl (PrismaKnownError ''P2002''), db)
           else (Inr (f r), put (update_first (\<lambda>r. ident r = i) f (get db)) db)))"

text \<open>\<open>catch (error) { if (isDuplicateError(error)) throw duplicateResource(message); throw error; }\<close>\<close>

definition translate_duplicate :: "string \<Rightarrow> app_exception \<Rightarrow> 'a handler" where
  "translate_duplicate message e =
     (if isDuplicateError e then op_throw (duplicateResource message) else op_throw e)"

text \<open>
  \<open>findMany\<close> with filters, newest first: rows are kept in the order of their creation
  (two rows created in the same instant are not distinguished by the program either).
\<close>

definition newest_first :: "('r \<Rightarrow> bool) \<Rightarrow> 'r list \<Rightarrow> 'r list" where
  "newest_first p rows = rev (filter p rows)"

definition text_filter :: "string option \<Rightarrow> string \<Rightarrow> bool" where
  "text_filter q x = (case q of None \<Rightarrow> True | Some y \<Rightarrow> x = y)"

text \<open>\<open>const x = data.x ?? before.x; if (x.getTime() !== before.x.getTime()) await assertWritable(x)\<close>\<close>

definition guard_if_moved :: "int option \<Rightarrow> int \<Rightarrow> (int \<Rightarrow> month_write) \<Rightarrow> actor \<Rightarrow> unit handler" where
  "guard_if_moved next_month before w actor =
     (if or_keep next_month before \<noteq> before
      then assertWritable (w (or_keep next_month before)) (Some actor) else op_return ())"

section \<open>Fields of entries\<close>

text \<open>\<open>assertOptionalStatus(value, ALLOWED)\<close> for statuses of the schema.\<close>

definition entry_status :: "jsval \<Rightarrow> common_status list \<Rightarrow> common_status option outcome" where
  "entry_status v allowed =
     bind_res (assertOptionalStatus v (map common_status_name allowed) ''status'') (\<lambda>s.
     Inr (case s of None \<Rightarrow> None | Some n \<Rightarrow> common_status_of n))"

definition all_settlement_status :: "settlement_status list" where
  "all_settlement_status = [SS_draft, SS_confirmed, SS_locked]"

definition settlement_status_of :: "string \<Rightarrow> settlement_status option" where
  "settlement_status_of s = find (\<lambda>c. settlement_status_name c = s) all_settlement_status"

definition spend_status :: "jsval \<Rightarrow> settlement_status list \<Rightarrow> settlement_status option outcome" where
  "spend_status v allowed =
     bind_res (assertOptionalStatus v (map settlement_status_name allowed) ''status'') (\<lambda>s.
     Inr (case s of None \<Rightarrow> None | Some n \<Rightarrow> settlement_status_of n))"

text \<open>\<open>if (input.x !== undefined) data.x = p(input.x)\<close>\<close>

definition if_given :: "jsval \<Rightarrow> (jsval \<Rightarrow> 'a outcome) \<Rightarrow> 'a option outcome" where
  "if_given v p = (if is_undefined v then Inr None else bind_res (p v) (\<lambda>x. Inr (Some x)))"

text \<open>\<open>Object.keys(data)\<close> of a partial update: the names of the fields that are present.\<close>

definition keys_given :: "(string \<times> bool) list \<Rightarrow> string list" where
  "keys_given fs = map fst (filter snd fs)"

lemma entry_status_allowed: "entry_status v allowed = Inr (Some c) \<Longrightarrow> c \<in> set allowed"
  by (auto simp: entry_status_def assertOptionalStatus_def bind_res_Inr_iff split: if_splits
      dest!: assertStatus_Inr)

lemma settlement_status_of_name [simp]: "settlement_status_of (settlement_status_name c) = Some c"
  by (cases c) (simp_all add: settlement_status_of_def all_settlement_status_def)

lemma spend_status_allowed: "spend_status v allowed = Inr (Some c) \<Longrightarrow> c \<in> set allowed"
  by (auto simp: spend_status_def assertOptionalStatus_def bind_res_Inr_iff split: if_splits
      dest!: assertStatus_Inr)

lemma entry_status_or_default:
  "entry_status v allowed = Inr s \<Longrightarrow> d \<in> set allowed \<Longrightarrow> or_keep s d \<in> set allowed"
  by (cases s) (auto simp: or_keep_def entry_status_allowed)

lemma if_given_Inr: "if_given v p = Inr (Some x) \<Longrightarrow> p v = Inr x"
  by (auto simp: if_given_def bind_res_Inr_iff split: if_splits)

section \<open>Locked months\<close>

lemma table_find_bind:
  "op_bind (table_find get ident what i) f db =
     (case find_row (\<lambda>r. ident r = i) (get db) of None \<Rightarrow> (Inl (notFound what), db) | Some r \<Rightarrow> f r db)"
  by (simp add: table_find_def op_bind_def split: option.split)

lemma freezes_at_table_find:
  "(\<And>r. find_row (\<lambda>r. ident r = i) (get db) = Some r \<Longrightarrow> freezes_at m db (f r)) \<Longrightarrow>
   freezes_at m db (op_bind (table_find get ident what i) f)"
  by (simp add: freezes_at_def table_find_bind split: option.split)

lemma freezes_at_guard_if_moved:
  "((or_keep k b \<noteq> b \<Longrightarrow> mw_settlementMonth (w (or_keep k b)) \<noteq> m) \<Longrightarrow> freezes_at m db (f ())) \<Longrightarrow>
   freezes_at m db (op_bind (guard_if_moved k b w actor) f)"
  by (auto simp: guard_if_moved_def intro: freezes_at_guard) (simp add: freezes_at_def)

lemma freezes_translate_duplicate [simp]: "freezes m (translate_duplicate msg e)"
  by (simp add: translate_duplicate_def)

text \<open>A table of rows with identifiers, as the database keeps it.\<close>

locale keyed_table =
  fixes get :: "database \<Rightarrow> 'r list"
    and put :: "'r list \<Rightarrow> database \<Rightarrow> database"
    and ident :: "'r \<Rightarrow> string"
  assumes get_put: "get (put rows db) = rows"
    and put_audit: "put rows (db\<lparr>audit_logs := logs\<rparr>) = (put rows db)\<lparr>audit_logs := logs\<rparr>"
begin

lemma insert_rows:
  "get (snd (table_insert get put clash row db)) =
     (if list_ex (\<lambda>r. clash r row) (get db) then get db else get db @ [row])"
  by (simp add: table_insert_def get_put)

lemma update_rows_cases:
  "get (snd (table_update get put clash ident i f db)) = get db \<or>
   (\<exists>r. find_row (\<lambda>r. ident r = i) (get db) = Some r
      \<and> \<not> list_ex (\<lambda>r'. ident r' \<noteq> i \<and> clash r' (f r)) (get db)
      \<and> get (snd (table_update get put clash ident i f db)) = update_first (\<lambda>r. ident r = i) f (get db))"
  by (simp add: table_update_def get_put split: option.split)

text \<open>A property of every row survives when the new row has it.\<close>

lemma insert_all:
  "list_all P (get db) \<Longrightarrow> P row \<Longrightarrow> list_all P (get (snd (table_insert get put clash row db)))"
  by (simp add: insert_rows)

lemma update_all:
  assumes "list_all P (get db)" "\<And>r. find_row (\<lambda>r. ident r = i) (get db) = Some r \<Longrightarrow> P (f r)"
  shows "list_all P (get (snd (table_update get put clash ident i f db)))"
proof -
  have "list_all P (update_first (\<lambda>r. ident r = i) f rows)"
    if "list_all P rows" "\<And>r. find_row (\<lambda>r. ident r = i) rows = Some r \<Longrightarrow> P (f r)" for rows
    using that by (induction rows) (auto split: if_splits)
  then show ?thesis using assms update_rows_cases [of clash i f db] by metis
qed

text \<open>Keys stay unique when the constraint is on the key.\<close>

lemma insert_distinct:
  assumes "distinct (map key (get db))"
  shows "distinct (map key (get (snd (table_insert get put (\<lambda>r r'. key r = key r') row db))))"
  using assms by (auto simp: insert_rows list_ex_iff)

lemma update_distinct:
  assumes "distinct (map key (get db))" "distinct (map ident (get db))" "\<And>r. ident (f r) = ident r"
  shows "distinct (map key (get (snd (table_update get put (\<lambda>r r'. key r = key r') ident i f db))))
    \<and> distinct (map ident (get (snd (table_update get put (\<lambda>r r'. key r = key r') ident i f db))))"
  using assms update_rows_cases [of "\<lambda>r r'. key r = key r'" i f db]
    distinct_update_key [OF assms(2,1), of i _ f] by auto

lemma update_ident_distinct:
  assumes "distinct (map ident (get db))" "\<And>r. ident (f r) = ident r"
  shows "distinct (map ident (get (snd (table_update get put clash ident i f db))))"
  using assms update_rows_cases [of clash i f db] map_update_first_same [of "get db" "\<lambda>r. ident r = i" ident f]
  by auto

end

text \<open>
  A table some of whose rows belong to a month: writing it back with the same rows of the
  month leaves the scope of the month alone.
\<close>

locale month_table = keyed_table get put ident
  for get :: "database \<Rightarrow> 'r list" and put :: "'r list \<Rightarrow> database \<Rightarrow> database" and ident :: "'r \<Rightarrow> string" +
  fixes month :: "'r \<Rightarrow> int"
  assumes scope_put: "filter (\<lambda>r. month r = m) rows = filter (\<lambda>r. month r = m) (get db) \<Longrightarrow>
          month_scope m (put rows db) = month_scope m db"
begin

lemma insert_freezes: "month row \<noteq> m \<Longrightarrow> freezes m (table_insert get put clash row)"
  by (simp add: freezes_def table_insert_def scope_put)

lemma update_freezes_at:
  assumes "find_row (\<lambda>r. ident r = i) (get db) = Some r" "month r \<noteq> m" "month (f r) \<noteq> m"
  shows "freezes_at m db (table_update get put clash ident i f)"
  using assms filter_update_first_other [of "\<lambda>r. ident r = i" "get db" r "\<lambda>r. month r = m" f]
  by (simp add: freezes_at_def table_update_def scope_put)

end

lemma in_update_first_other: "x \<in> set rows \<Longrightarrow> \<not> p x \<Longrightarrow> x \<in> set (update_first p f rows)"
  by (induction rows) auto

lemma in_update_first_hit: "find_row p rows = Some r \<Longrightarrow> f r \<in> set (update_first p f rows)"
  by (induction rows) (auto split: if_splits)

lemma in_update_firstD:
  "x \<in> set (update_first p f rows) \<Longrightarrow> x \<in> set rows \<or> (\<exists>r. find_row p rows = Some r \<and> x = f r)"
  by (induction rows) (auto split: if_splits)

section \<open>Invariants\<close>

text \<open>\<open>preserves I db h\<close>: after running \<open>h\<close> on \<open>db\<close>, returning or throwing, \<open>I\<close> holds.\<close>

definition preserves :: "(database \<Rightarrow> bool) \<Rightarrow> database \<Rightarrow> 'a handler \<Rightarrow> bool" where
  "preserves I db h \<longleftrightarrow> I (snd (h db))"

definition audit_stable :: "(database \<Rightarrow> bool) \<Rightarrow> bool" where
  "audit_stable I \<longleftrightarrow> (\<forall>db logs. I (db\<lparr>audit_logs := logs\<rparr>) = I db)"

lemma preserves_pure [simp]:
  "preserves I db (op_return x) = I db" "preserves I db (op_throw e) = I db"
  "preserves I db (op_lift r) = I db" "preserves I db (op_get g) = I db"
  "preserves I db (translate_duplicate msg e) = I db"
  by (simp_all add: preserves_def translate_duplicate_def)

lemma preserves_get: "preserves I db (f (g db)) \<Longrightarrow> preserves I db (op_bind (op_get g) f)"
  by (simp add: preserves_def)

lemma preserves_lift: "I db \<Longrightarrow> (\<And>x. r = Inr x \<Longrightarrow> preserves I db (f x)) \<Longrightarrow> preserves I db (op_bind (op_lift r) f)"
  by (cases r) (simp_all add: preserves_def)

lemma preserves_assert: "I db \<Longrightarrow> (b \<Longrightarrow> preserves I db (f ())) \<Longrightarrow> preserves I db (op_bind (op_assert b e) f)"
  by (cases b) (simp_all add: preserves_def op_bind_def)

lemma preserves_guard:
  "audit_stable I \<Longrightarrow> I db \<Longrightarrow> preserves I db (f ()) \<Longrightarrow> preserves I db (op_bind (assertWritable w a) f)"
  by (auto simp: preserves_def op_bind_def assertWritable_eq audit_stable_def)

lemma preserves_guard_if:
  "audit_stable I \<Longrightarrow> I db \<Longrightarrow> preserves I db (f ()) \<Longrightarrow> preserves I db (op_bind (assertWritableIf k w a) f)"
  by (cases k) (auto simp: assertWritableIf_def preserves_def op_bind_def assertWritable_eq audit_stable_def)

lemma preserves_guard_if_moved:
  "audit_stable I \<Longrightarrow> I db \<Longrightarrow> preserves I db (f ()) \<Longrightarrow> preserves I db (op_bind (guard_if_moved k b w a) f)"
  by (auto simp: guard_if_moved_def intro: preserves_guard) (simp add: preserves_def)

lemma preserves_table_find:
  "I db \<Longrightarrow> (\<And>r. find_row (\<lambda>r. ident r = i) (get db) = Some r \<Longrightarrow> preserves I db (f r)) \<Longrightarrow>
   preserves I db (op_bind (table_find get ident what i) f)"
  by (simp add: preserves_def table_find_bind split: option.split)

lemma preserves_bind:
  assumes "preserves I db h" and "\<And>x db'. h db = (Inr x, db') \<Longrightarrow> I db' \<Longrightarrow> preserves I db' (f x)"
  shows "preserves I db (op_bind h f)"
  using assms by (cases "h db") (auto simp: preserves_def op_bind_def split: sum.split)

lemma preserves_audited:
  assumes "audit_stable I" "preserves I db h"
  shows "preserves I db (op_bind h (\<lambda>x. op_bind (audit_success (a x)) (\<lambda>_. op_return (g x))))"
  using assms by (cases "h db") (auto simp: preserves_def op_bind_def audit_stable_def split: sum.split)

lemma preserves_catch:
  assumes "preserves I db h" and "\<And>e db'. I db' \<Longrightarrow> preserves I db' (k e)"
  shows "preserves I db (op_catch h k)"
  using assms by (cases "h db") (auto simp: preserves_def op_catch_def split: sum.split)

text \<open>A transaction only has to keep the invariant when it commits.\<close>

lemma preserves_transaction_ok:
  "I db \<Longrightarrow> (\<And>x db'. h db = (Inr x, db') \<Longrightarrow> I db') \<Longrightarrow> preserves I db (op_transaction h)"
  by (cases "h db") (auto simp: preserves_def op_transaction_def split: sum.split)

lemma freezes_at_transaction_ok:
  "(\<And>x db'. h db = (Inr x, db') \<Longrightarrow> month_scope m db' = month_scope m db) \<Longrightarrow> freezes_at m db (op_transaction h)"
  by (cases "h db") (auto simp: freezes_at_def op_transaction_def split: sum.split)

lemma preserves_transaction: "I db \<Longrightarrow> preserves I db h \<Longrightarrow> preserves I db (op_transaction h)"
  by (cases "h db") (auto simp: preserves_def op_transaction_def split: sum.split)

lemmas preserves_steps =
  preserves_get preserves_lift preserves_assert preserves_guard preserves_guard_if preserves_guard_if_moved
  preserves_table_find preserves_catch preserves_transaction preserves_audited

text \<open>A table write leaves every view alone that does not look at the table.\<close>

lemma op_frame_table_insert [frame_intros]:
  "(\<And>rows db. v (put rows db) = v db) \<Longrightarrow> op_frame v UNIV (table_insert get put clash row)"
  by (simp add: op_frame_def table_insert_def)

lemma op_frame_table_update [frame_intros]:
  "(\<And>rows db. v (put rows db) = v db) \<Longrightarrow> op_frame v UNIV (table_update get put clash ident i f)"
  by (simp add: op_frame_def table_update_def split: option.split)

lemma op_frame_table_find [frame_intros]: "op_frame v UNIV (table_find get ident what i)"
  unfolding table_find_def by (auto intro!: frame_intros split: option.split)

lemma op_frame_translate_duplicate [frame_intros]: "op_frame v P (translate_duplicate msg e)"
  unfolding translate_duplicate_def by (auto intro!: frame_intros)

text \<open>\<open>looks_past_audit v\<close>: the view does not contain the audit log.\<close>

definition looks_past_audit :: "(database \<Rightarrow> 'v) \<Rightarrow> bool" where
  "looks_past_audit v \<longleftrightarrow> (\<forall>db logs. v (db\<lparr>audit_logs := logs\<rparr>) = v db)"

lemma op_frame_audit [frame_intros]:
  "looks_past_audit v \<Longrightarrow> op_frame v UNIV (audit_success i)"
  "looks_past_audit v \<Longrightarrow> op_frame v UNIV (audit_failure i)"
  by (simp_all add: op_frame_def looks_past_audit_def)

lemma op_frame_guards [frame_intros]:
  "looks_past_audit v \<Longrightarrow> op_frame v UNIV (assertWritable w a)"
  "looks_past_audit v \<Longrightarrow> op_frame v UNIV (assertWritableIf k ws actor)"
  "looks_past_audit v \<Longrightarrow> op_frame v UNIV (guard_if_moved k b ws actor)"
  unfolding assertWritable_def isLocked_def assertWritableIf_def guard_if_moved_def
  by (auto intro!: frame_intros split: option.split)

end
