(* ===== verification/Monthly_Rates.thy ===== *)
theory Monthly_Rates
  imports Month_Table
begin

text \<open>
  \<open>monthly-exchange-rates.service.ts\<close> and \<open>monthly-card-provider-fee-rates.service.ts\<close>: the
  exchange rate of a month and the fee rate of a card provider in a month, each unique by
  its key, written only while the month is open.
\<close>

section \<open>Exchange rates\<close>

record exchange_rate_input =
  xi_settlementMonth :: jsval
  xi_usdToRmbRate :: jsval
  xi_status :: jsval

record exchange_rate_data =
  xd_settlementMonth :: "int option"
  xd_usdToRmbRate :: "rat option"
  xd_status :: jsval

definition xr_write :: "int \<Rightarrow> string \<Rightarrow> string option \<Rightarrow> month_write" where
  "xr_write m action i = \<lparr>mw_settlementMonth = m, mw_action = action, mw_objectType = ''monthly_exchange_rates'', mw_objectId = i\<rparr>"

definition xr_audit :: "actor \<Rightarrow> string \<Rightarrow> string \<Rightarrow> int \<Rightarrow> string list \<Rightarrow> audit_input" where
  "xr_audit actor action i m changed = auditInput actor action ''monthly_exchange_rates'' (Some i) (Some m) changed"

text \<open>The column of a row as the value \<open>changedFields\<close> compares.\<close>

definition xr_column :: "exchange_rate \<Rightarrow> string \<Rightarrow> jsval" where
  "xr_column r k =
     (if k = ''settlementMonth'' then JDate (Some (xr_month r))
      else if k = ''usdToRmbRate'' then JNum (xr_usdToRmbRate r)
      else if k = ''status'' then JString (common_status_name (xr_status r)) else JUndefined)"

text \<open>\<open>monthlyExchangeRate.create\<close> and \<open>.update\<close> under \<open>@unique settlementMonth\<close>.\<close>

definition put_exchange_rates :: "exchange_rate list \<Rightarrow> database \<Rightarrow> database" where
  "put_exchange_rates rows db = db\<lparr>exchange_rates := rows\<rparr>"

definition exchange_rate_create :: "exchange_rate \<Rightarrow> exchange_rate handler" where
  "exchange_rate_create = table_insert exchange_rates put_exchange_rates (\<lambda>r r'. xr_month r = xr_month r')"

definition exchange_rate_update :: "string \<Rightarrow> (exchange_rate \<Rightarrow> exchange_rate) \<Rightarrow> exchange_rate handler" where
  "exchange_rate_update = table_update exchange_rates put_exchange_rates (\<lambda>r r'. xr_month r = xr_month r') xr_id"

definition validateCreateExchangeRate :: "runtime \<Rightarrow> exchange_rate_input \<Rightarrow> (int \<times> rat \<times> jsval) outcome" where
  "validateCreateExchangeRate rt input =
     bind_res (parseMonthStart rt (xi_settlementMonth input) ''settlementMonth'') (\<lambda>m.
     bind_res (parseDecimalString rt (xi_usdToRmbRate input) ''usdToRmbRate'' True) (\<lambda>rate.
     Inr (m, rate, if is_nullish (xi_status input) then JString ''active'' else xi_status input)))"

definition createExchangeRate :: "runtime \<Rightarrow> exchange_rate_input \<Rightarrow> actor \<Rightarrow> exchange_rate handler" where
  "createExchangeRate rt input actor =
     op_bind (op_lift (validateCreateExchangeRate rt input)) (\<lambda>(m, rate, status).
     op_bind (assertWritable (xr_write m ''monthly_exchange_rate.create'' None) (Some actor)) (\<lambda>_.
     op_catch
       (op_bind (op_lift (prisma_status status)) (\<lambda>st.
        op_bind (exchange_rate_create
          \<lparr>xr_id = rt_fresh_id rt 0, xr_month = m, xr_usdToRmbRate = rt_column rt 8 rate, xr_status = st,
           xr_createdBy = ac_userId actor\<rparr>) (\<lambda>row.
        op_bind (audit_success (xr_audit actor ''monthly_exchange_rate.create'' (xr_id row) m
          [''settlementMonth'', ''usdToRmbRate'', ''status''])) (\<lambda>_.
        op_return row))))
       (\<lambda>error. if isDuplicateError error then op_throw (duplicateResource ''settlementMonth already exists.'')
                else op_throw error)))"

definition listExchangeRates :: "runtime \<Rightarrow> jsval \<Rightarrow> jsval \<Rightarrow> exchange_rate list handler" where
  "listExchangeRates rt status settlementMonth =
     op_bind (op_lift (month_filter rt settlementMonth ''settlementMonth'')) (\<lambda>month_ok.
     op_bind (op_lift (status_filter status)) (\<lambda>status_ok.
     op_get (\<lambda>db. sort_key (\<lambda>r. - xr_month r)
       (filter (\<lambda>r. status_ok (xr_status r) \<and> month_ok (xr_month r)) (exchange_rates db)))))"

definition getExchangeRate :: "string \<Rightarrow> exchange_rate handler" where
  "getExchangeRate i = table_find exchange_rates xr_id ''Monthly exchange rate'' i"

definition validateUpdateExchangeRate :: "runtime \<Rightarrow> exchange_rate_input \<Rightarrow> exchange_rate_data outcome" where
  "validateUpdateExchangeRate rt input =
     bind_res (if is_undefined (xi_settlementMonth input) then Inr None
               else bind_res (parseMonthStart rt (xi_settlementMonth input) ''settlementMonth'') (\<lambda>m. Inr (Some m))) (\<lambda>m.
     bind_res (if is_undefined (xi_usdToRmbRate input) then Inr None
               else bind_res (parseDecimalString rt (xi_usdToRmbRate input) ''usdToRmbRate'' True) (\<lambda>x. Inr (Some x))) (\<lambda>rate.
     Inr \<lparr>xd_settlementMonth = m, xd_usdToRmbRate = rate, xd_status = xi_status input\<rparr>))"

definition xr_data_keys :: "exchange_rate_data \<Rightarrow> string list" where
  "xr_data_keys d =
     (if xd_settlementMonth d = None then [] else [''settlementMonth''])
     @ (if xd_usdToRmbRate d = None then [] else [''usdToRmbRate''])
     @ (if is_undefined (xd_status d) then [] else [''status''])"

definition xr_apply :: "runtime \<Rightarrow> exchange_rate_data \<Rightarrow> common_status option \<Rightarrow> exchange_rate \<Rightarrow> exchange_rate" where
  "xr_apply rt d st r =
     r\<lparr>xr_month := or_keep (xd_settlementMonth d) (xr_month r),
       xr_usdToRmbRate := or_keep (map_option (rt_column rt 8) (xd_usdToRmbRate d)) (xr_usdToRmbRate r),
       xr_status := or_keep st (xr_status r)\<rparr>"

definition updateExchangeRate :: "runtime \<Rightarrow> string \<Rightarrow> exchange_rate_input \<Rightarrow> actor \<Rightarrow> exchange_rate handler" where
  "updateExchangeRate rt i input actor =
     op_bind (getExchangeRate i) (\<lambda>before.
     op_bind (op_lift (validateUpdateExchangeRate rt input)) (\<lambda>data.
     op_bind (assertWritable (xr_write (xr_month before) ''monthly_exchange_rate.update'' (Some i)) (Some actor)) (\<lambda>_.
     op_bind (assertWritableIf (xd_settlementMonth data) (\<lambda>m. xr_write m ''monthly_exchange_rate.update'' (Some i)) actor) (\<lambda>_.
     op_catch
       (op_bind (op_lift (optional_status (xd_status data))) (\<lambda>st.
        op_bind (exchange_rate_update i (xr_apply rt data st)) (\<lambda>after.
        op_bind (audit_success (xr_audit actor ''monthly_exchange_rate.update'' i (xr_month after)
          (changedFields xr_column before after (xr_data_keys data)))) (\<lambda>_.
        op_return after))))
       (\<lambda>error. if isDuplicateError error then op_throw (duplicateResource ''settlementMonth already exists.'')
                else op_throw error)))))"

definition disableExchangeRate :: "string \<Rightarrow> actor \<Rightarrow> exchange_rate handler" where
  "disableExchangeRate i actor =
     op_bind (getExchangeRate i) (\<lambda>before.
     op_bind (assertWritable (xr_write (xr_month before) ''monthly_exchange_rate.disable'' (Some i)) (Some actor)) (\<lambda>_.
     op_bind (exchange_rate_update i (\<lambda>r. r\<lparr>xr_status := CS_disabled\<rparr>)) (\<lambda>after.
     op_bind (audit_success (xr_audit actor ''monthly_exchange_rate.disable'' i (xr_month before) [''status''])) (\<lambda>_.
     op_return after))))"

section \<open>Card provider fee rates\<close>

record fee_rate_request =
  fq_settlementMonth :: jsval
  fq_provider :: jsval
  fq_feeRate :: jsval
  fq_status :: jsval

record fee_rate_data =
  fd_settlementMonth :: "int option"
  fd_provider :: "provider option"
  fd_feeRate :: "rat option"
  fd_status :: jsval

definition fr_write :: "int \<Rightarrow> string \<Rightarrow> string option \<Rightarrow> month_write" where
  "fr_write m action i =
     \<lparr>mw_settlementMonth = m, mw_action = action, mw_objectType = ''monthly_card_provider_fee_rates'', mw_objectId = i\<rparr>"

definition fr_audit :: "actor \<Rightarrow> string \<Rightarrow> string \<Rightarrow> int \<Rightarrow> string list \<Rightarrow> audit_input" where
  "fr_audit actor action i m changed = auditInput actor action ''monthly_card_provider_fee_rates'' (Some i) (Some m) changed"

definition fr_column :: "card_fee_rate \<Rightarrow> string \<Rightarrow> jsval" where
  "fr_column r k =
     (if k = ''settlementMonth'' then JDate (Some (fr_month r))
      else if k = ''provider'' then JString (provider_name (fr_provider r))
      else if k = ''feeRate'' then JNum (fr_feeRate r)
      else if k = ''status'' then JString (common_status_name (fr_status r)) else JUndefined)"

text \<open>\<open>@@unique([settlementMonth, provider])\<close>\<close>

definition fr_key :: "card_fee_rate \<Rightarrow> int \<times> provider" where
  "fr_key r = (fr_month r, fr_provider r)"

definition put_fee_rates :: "card_fee_rate list \<Rightarrow> database \<Rightarrow> database" where
  "put_fee_rates rows db = db\<lparr>card_fee_rates := rows\<rparr>"

definition fee_rate_create :: "card_fee_rate \<Rightarrow> card_fee_rate handler" where
  "fee_rate_create = table_insert card_fee_rates put_fee_rates (\<lambda>r r'. fr_key r = fr_key r')"

definition fee_rate_update :: "string \<Rightarrow> (card_fee_rate \<Rightarrow> card_fee_rate) \<Rightarrow> card_fee_rate handler" where
  "fee_rate_update = table_update card_fee_rates put_fee_rates (\<lambda>r r'. fr_key r = fr_key r') fr_id"

definition validateProvider :: "jsval \<Rightarrow> provider outcome" where
  "validateProvider v =
     (if v = JString ''airwallex'' then Inr airwallex else if v = JString ''photonpay'' then Inr photonpay
      else Inl (AppError VALIDATION_ERROR ''provider must be airwallex or photonpay.''))"

definition validateCreateFeeRate :: "runtime \<Rightarrow> fee_rate_request \<Rightarrow> (int \<times> provider \<times> rat \<times> jsval) outcome" where
  "validateCreateFeeRate rt input =
     bind_res (parseMonthStart rt (fq_settlementMonth input) ''settlementMonth'') (\<lambda>m.
     bind_res (validateProvider (fq_provider input)) (\<lambda>p.
     bind_res (parseDecimalString rt (fq_feeRate input) ''feeRate'' False) (\<lambda>rate.
     Inr (m, p, rate, if is_nullish (fq_status input) then JString ''active'' else fq_status input))))"

definition createFeeRate :: "runtime \<Rightarrow> fee_rate_request \<Rightarrow> actor \<Rightarrow> card_fee_rate handler" where
  "createFeeRate rt input actor =
     op_bind (op_lift (validateCreateFeeRate rt input)) (\<lambda>(m, p, rate, status).
     op_bind (assertWritable (fr_write m ''monthly_card_provider_fee_rate.create'' None) (Some actor)) (\<lambda>_.
     op_catch
       (op_bind (op_lift (prisma_status status)) (\<lambda>st.
        op_bind (fee_rate_create
          \<lparr>fr_id = rt_fresh_id rt 0, fr_month = m, fr_provider = p, fr_feeRate = rt_column rt 6 rate, fr_status = st,
           fr_createdBy = ac_userId actor\<rparr>) (\<lambda>row.
        op_bind (audit_success (fr_audit actor ''monthly_card_provider_fee_rate.create'' (fr_id row) m
          [''settlementMonth'', ''provider'', ''feeRate'', ''status''])) (\<lambda>_.
        op_return row))))
       (\<lambda>error. if isDuplicateError error
                then op_throw (duplicateResource ''settlementMonth + provider already exists.'')
                else op_throw error)))"

text \<open>A provider filter of a query.\<close>

definition provider_filter :: "jsval \<Rightarrow> (provider \<Rightarrow> bool) outcome" where
  "provider_filter v =
     (if is_undefined v then Inr (\<lambda>_. True)
      else case js_string_opt v of
             None \<Rightarrow> Inl prisma_validation_error
           | Some s \<Rightarrow> (case provider_of s of None \<Rightarrow> Inl prisma_validation_error | Some p \<Rightarrow> Inr (\<lambda>x. x = p)))"

definition listFeeRates :: "runtime \<Rightarrow> jsval \<Rightarrow> jsval \<Rightarrow> jsval \<Rightarrow> card_fee_rate list handler" where
  "listFeeRates rt status provider settlementMonth =
     op_bind (op_lift (month_filter rt settlementMonth ''settlementMonth'')) (\<lambda>month_ok.
     op_bind (op_lift (status_filter status)) (\<lambda>status_ok.
     op_bind (op_lift (provider_filter provider)) (\<lambda>provider_ok.
     op_get (\<lambda>db. sort_key (\<lambda>r. - fr_month r)
       (filter (\<lambda>r. status_ok (fr_status r) \<and> provider_ok (fr_provider r) \<and> month_ok (fr_month r)) (card_fee_rates db))))))"

definition getFeeRate :: "string \<Rightarrow> card_fee_rate handler" where
  "getFeeRate i = table_find card_fee_rates fr_id ''Monthly card provider fee rate'' i"

definition validateUpdateFeeRate :: "runtime \<Rightarrow> fee_rate_request \<Rightarrow> fee_rate_data outcome" where
  "validateUpdateFeeRate rt input =
     bind_res (if is_undefined (fq_settlementMonth input) then Inr None
               else bind_res (parseMonthStart rt (fq_settlementMonth input) ''settlementMonth'') (\<lambda>m. Inr (Some m))) (\<lambda>m.
     bind_res (if is_undefined (fq_provider input) then Inr None
               else bind_res (validateProvider (fq_provider input)) (\<lambda>p. Inr (Some p))) (\<lambda>p.
     bind_res (if is_undefined (fq_feeRate input) then Inr None
               else bind_res (parseDecimalString rt (fq_feeRate input) ''feeRate'' False) (\<lambda>x. Inr (Some x))) (\<lambda>rate.
     Inr \<lparr>fd_settlementMonth = m, fd_provider = p, fd_feeRate = rate, fd_status = fq_status input\<rparr>)))"

definition fr_data_keys :: "fee_rate_data \<Rightarrow> string list" where
  "fr_data_keys d =
     (if fd_settlementMonth d = None then [] else [''settlementMonth''])
     @ (if fd_provider d = None then [] else [''provider''])
     @ (if fd_feeRate d = None then [] else [''feeRate''])
     @ (if is_undefined (fd_status d) then [] else [''status''])"

definition fr_apply :: "runtime \<Rightarrow> fee_rate_data \<Rightarrow> common_status option \<Rightarrow> card_fee_rate \<Rightarrow> card_fee_rate" where
  "fr_apply rt d st r =
     r\<lparr>fr_month := or_keep (fd_settlementMonth d) (fr_month r),
       fr_provider := or_keep (fd_provider d) (fr_provider r),
       fr_feeRate := or_keep (map_option (rt_column rt 6) (fd_feeRate d)) (fr_feeRate r),
       fr_status := or_keep st (fr_status r)\<rparr>"

definition updateFeeRate :: "runtime \<Rightarrow> string \<Rightarrow> fee_rate_request \<Rightarrow> actor \<Rightarrow> card_fee_rate handler" where
  "updateFeeRate rt i input actor =
     op_bind (getFeeRate i) (\<lambda>before.
     op_bind (op_lift (validateUpdateFeeRate rt input)) (\<lambda>data.
     op_bind (assertWritable (fr_write (fr_month before) ''monthly_card_provider_fee_rate.update'' (Some i)) (Some actor)) (\<lambda>_.
     op_bind (assertWritableIf (fd_settlementMonth data)
       (\<lambda>m. fr_write m ''monthly_card_provider_fee_rate.update'' (Some i)) actor) (\<lambda>_.
     op_catch
       (op_bind (op_lift (optional_status (fd_status data))) (\<lambda>st.
        op_bind (fee_rate_update i (fr_apply rt data st)) (\<lambda>after.
        op_bind (audit_success (fr_audit actor ''monthly_card_provider_fee_rate.update'' i (fr_month after)
          (changedFields fr_column before after (fr_data_keys data)))) (\<lambda>_.
        op_return after))))
       (\<lambda>error. if isDuplicateError error
                then op_throw (duplicateResource ''settlementMonth + provider already exists.'')
                else op_throw error)))))"

definition disableFeeRate :: "string \<Rightarrow> actor \<Rightarrow> card_fee_rate handler" where
  "disableFeeRate i actor =
     op_bind (getFeeRate i) (\<lambda>before.
     op_bind (assertWritable (fr_write (fr_month before) ''monthly_card_provider_fee_rate.disable'' (Some i)) (Some actor)) (\<lambda>_.
     op_bind (fee_rate_update i (\<lambda>r. r\<lparr>fr_status := CS_disabled\<rparr>)) (\<lambda>after.
     op_bind (audit_success (fr_audit actor ''monthly_card_provider_fee_rate.disable'' i (fr_month before) [''status''])) (\<lambda>_.
     op_return after))))"

section \<open>Locked months are left alone\<close>

interpretation exchange_table: month_table exchange_rates put_exchange_rates xr_id xr_month
  by unfold_locales (auto simp: put_exchange_rates_def month_scope_def)

interpretation fee_table: month_table card_fee_rates put_fee_rates fr_id fr_month
  by unfold_locales (auto simp: put_fee_rates_def month_scope_def)

lemmas rate_operations =
  exchange_rate_create_def exchange_rate_update_def getExchangeRate_def
  fee_rate_create_def fee_rate_update_def getFeeRate_def

lemma freezes_createExchangeRate: "freezes m (createExchangeRate rt input actor)"
  unfolding createExchangeRate_def rate_operations
  by (auto intro!: freezes_bind_pure freezes_guarded freezes_catch freezes_bind exchange_table.insert_freezes
      simp: xr_write_def split: prod.split)

lemma freezes_updateExchangeRate: "freezes m (updateExchangeRate rt i input actor)"
  unfolding updateExchangeRate_def rate_operations
  by (rule freezes_eachI)
    (auto intro!: freezes_at_table_find freezes_at_lift freezes_at_guard freezes_at_guard_if freezes_at_catch
      freezes_at_bind exchange_table.update_freezes_at simp: xr_write_def xr_apply_def or_keep_def
      split: option.splits)

lemma freezes_disableExchangeRate: "freezes m (disableExchangeRate i actor)"
  unfolding disableExchangeRate_def rate_operations
  by (rule freezes_eachI)
    (auto intro!: freezes_at_table_find freezes_at_guard freezes_at_bind exchange_table.update_freezes_at
      simp: xr_write_def)

lemma freezes_createFeeRate: "freezes m (createFeeRate rt input actor)"
  unfolding createFeeRate_def rate_operations
  by (auto intro!: freezes_bind_pure freezes_guarded freezes_catch freezes_bind fee_table.insert_freezes
      simp: fr_write_def split: prod.split)

lemma freezes_updateFeeRate: "freezes m (updateFeeRate rt i input actor)"
  unfolding updateFeeRate_def rate_operations
  by (rule freezes_eachI)
    (auto intro!: freezes_at_table_find freezes_at_lift freezes_at_guard freezes_at_guard_if freezes_at_catch
      freezes_at_bind fee_table.update_freezes_at simp: fr_write_def fr_apply_def or_keep_def
      split: option.splits)

lemma freezes_disableFeeRate: "freezes m (disableFeeRate i actor)"
  unfolding disableFeeRate_def rate_operations
  by (rule freezes_eachI)
    (auto intro!: freezes_at_table_find freezes_at_guard freezes_at_bind fee_table.update_freezes_at
      simp: fr_write_def)

section \<open>Uniqueness\<close>

text \<open>One call of a rate handler.\<close>

inductive rate_step :: "database \<Rightarrow> database \<Rightarrow> bool" where
  create_exchange: "rt_fresh_id rt 0 \<notin> xr_id ` set (exchange_rates db) \<Longrightarrow>
     rate_step db (snd (createExchangeRate rt xinput actor db))"
| update_exchange: "rate_step db (snd (updateExchangeRate rt i xinput actor db))"
| disable_exchange: "rate_step db (snd (disableExchangeRate i actor db))"
| create_fee: "rt_fresh_id rt 0 \<notin> fr_id ` set (card_fee_rates db) \<Longrightarrow>
     rate_step db (snd (createFeeRate rt finput actor db))"
| update_fee: "rate_step db (snd (updateFeeRate rt i finput actor db))"
| disable_fee: "rate_step db (snd (disableFeeRate i actor db))"

definition rates_ok :: "database \<Rightarrow> bool" where
  "rates_ok db \<longleftrightarrow> distinct (map xr_month (exchange_rates db)) \<and> distinct (map xr_id (exchange_rates db))
     \<and> distinct (map fr_key (card_fee_rates db)) \<and> distinct (map fr_id (card_fee_rates db))"

lemma audit_stable_rates_ok [simp]: "audit_stable rates_ok"
  by (simp add: audit_stable_def rates_ok_def)

lemma exchange_rate_create_ok:
  "rates_ok db \<Longrightarrow> xr_id row \<notin> xr_id ` set (exchange_rates db) \<Longrightarrow> preserves rates_ok db (exchange_rate_create row)"
  by (auto simp: preserves_def rates_ok_def exchange_rate_create_def table_insert_def list_ex_iff put_exchange_rates_def)

lemma fee_rate_create_ok:
  "rates_ok db \<Longrightarrow> fr_id row \<notin> fr_id ` set (card_fee_rates db) \<Longrightarrow> preserves rates_ok db (fee_rate_create row)"
  by (auto simp: preserves_def rates_ok_def fee_rate_create_def table_insert_def list_ex_iff put_fee_rates_def)

lemma exchange_rate_update_ok:
  assumes "rates_ok db" "\<And>r. xr_id (f r) = xr_id r"
  shows "preserves rates_ok db (exchange_rate_update i f)"
proof -
  have "card_fee_rates (snd (exchange_rate_update i f db)) = card_fee_rates db"
    by (simp add: exchange_rate_update_def table_update_def put_exchange_rates_def split: option.split)
  then show ?thesis
    using assms exchange_table.update_distinct [of xr_month db f i]
    by (simp add: preserves_def rates_ok_def exchange_rate_update_def)
qed

lemma fee_rate_update_ok:
  assumes "rates_ok db" "\<And>r. fr_id (f r) = fr_id r"
  shows "preserves rates_ok db (fee_rate_update i f)"
proof -
  have "exchange_rates (snd (fee_rate_update i f db)) = exchange_rates db"
    by (simp add: fee_rate_update_def table_update_def put_fee_rates_def split: option.split)
  then show ?thesis
    using assms fee_table.update_distinct [of fr_key db f i]
    by (simp add: preserves_def rates_ok_def fee_rate_update_def)
qed

lemma rate_handlers_ok:
  assumes "rates_ok db"
  shows "rt_fresh_id rt 0 \<notin> xr_id ` set (exchange_rates db) \<Longrightarrow> preserves rates_ok db (createExchangeRate rt xinput actor)"
    and "preserves rates_ok db (updateExchangeRate rt i xinput actor)"
    and "preserves rates_ok db (disableExchangeRate i actor)"
    and "rt_fresh_id rt 0 \<notin> fr_id ` set (card_fee_rates db) \<Longrightarrow> preserves rates_ok db (createFeeRate rt finput actor)"
    and "preserves rates_ok db (updateFeeRate rt i finput actor)"
    and "preserves rates_ok db (disableFeeRate i actor)"
  using assms
  unfolding createExchangeRate_def updateExchangeRate_def disableExchangeRate_def getExchangeRate_def
    createFeeRate_def updateFeeRate_def disableFeeRate_def getFeeRate_def
  by (auto intro!: preserves_steps exchange_rate_create_ok exchange_rate_update_ok fee_rate_create_ok fee_rate_update_ok
      simp: xr_apply_def fr_apply_def split: prod.split)

lemma rate_step_ok: "rate_step db db' \<Longrightarrow> rates_ok db \<Longrightarrow> rates_ok db'"
  by (erule rate_step.cases) (simp_all add: rate_handlers_ok [unfolded preserves_def])

section \<open>Properties\<close>

text \<open>
  Rates stay unique: however the rate handlers are called, a month has at most one
  exchange rate and a provider at most one fee rate in a month.
\<close>

theorem rates_stay_unique:
  assumes "rate_step\<^sup>*\<^sup>* db db'" and "rates_ok db"
  shows "distinct (map xr_month (exchange_rates db')) \<and> distinct (map fr_key (card_fee_rates db'))"
proof -
  have "rates_ok db'" using assms by (induction rule: rtranclp_induct) (auto intro: rate_step_ok)
  then show ?thesis by (simp add: rates_ok_def)
qed

text \<open>
  The check that an exchange rate is positive looks at the number of the request, the
  column keeps eight decimals of it: a rate below half of the last decimal is accepted and
  stored as zero, and the settlement of the month then multiplies by zero.
\<close>

theorem tiny_exchange_rate_is_stored_as_zero:
  "parseDecimalString sample_rt (JString ''0.000000001'') ''usdToRmbRate'' True = Inr (1 / 10 ^ 9)
   \<and> xr_usdToRmbRate (xr_apply sample_rt
       \<lparr>xd_settlementMonth = None, xd_usdToRmbRate = Some (1 / 10 ^ 9), xd_status = JUndefined\<rparr> None row) = 0
   \<and> (\<exists>row. fst (createExchangeRate sample_rt
        \<lparr>xi_settlementMonth = JDate (Some FEB_2026), xi_usdToRmbRate = JString ''0.000000001'', xi_status = JUndefined\<rparr>
        sample_actor empty_db) = Inr row \<and> xr_usdToRmbRate row = 0)"
proof -
  have p: "parseDecimalString sample_rt (JString ''0.000000001'') ''usdToRmbRate'' True = Inr (1 / 10 ^ 9)"
    by code_simp
  have c: "column_round 8 (1 / 10 ^ 9) = 0" by code_simp
  have m: "parseMonthStart sample_rt (JDate (Some FEB_2026)) ''settlementMonth'' = Inr FEB_2026" by code_simp
  have s: "prisma_status (JString ''active'') = Inr CS_active" by code_simp
  have e: "month_locked FEB_2026 empty_db = False" "exchange_rates empty_db = []"
    by (simp_all add: month_locked_def find_settlement_def empty_db_def)
  show ?thesis
    using p c m s e
    by (simp add: xr_apply_def or_keep_def createExchangeRate_def validateCreateExchangeRate_def assertWritable_eq
        op_catch_def op_bind_Inr xr_write_def exchange_rate_create_def table_insert_def put_exchange_rates_def is_nullish_def sample_rt_def)
qed

theorem rates_stay_unique_witness:
  "distinct (map xr_month (exchange_rates (snd (disableExchangeRate ''x'' sample_actor empty_db))))"
proof -
  have "rate_step\<^sup>*\<^sup>* empty_db (snd (disableExchangeRate ''x'' sample_actor empty_db))"
    by (rule r_into_rtranclp) (rule rate_step.disable_exchange)
  moreover have "rates_ok empty_db" by (simp add: rates_ok_def empty_db_def)
  ultimately show ?thesis using rates_stay_unique by blast
qed

end
