(* ===== verification/Historical_Profits.thy ===== *)
theory Historical_Profits
  imports Month_Table
begin

text \<open>
  \<open>historical-negative-profits.service.ts\<close>: the losses employees carry into a month, entered
  by hand (the roll-forward of \<open>Settlement_Finalization\<close> writes the same table).
\<close>

record profit_request =
  hq_settlementMonth :: jsval
  hq_employeeId :: jsval
  hq_amountUsd :: jsval
  hq_reason :: jsval
  hq_status :: jsval

record profit_update =
  hu_settlementMonth :: "int option"
  hu_employeeId :: "string option"
  hu_amountUsd :: "rat option"
  hu_reason :: "string option option"
  hu_status :: "common_status option"

definition HISTORICAL_NEGATIVE_PROFIT_STATUSES :: "common_status list" where
  "HISTORICAL_NEGATIVE_PROFIT_STATUSES = [CS_active, CS_disabled]"

definition hp_write :: "int \<Rightarrow> string \<Rightarrow> string option \<Rightarrow> month_write" where
  "hp_write m action i =
     \<lparr>mw_settlementMonth = m, mw_action = action, mw_objectType = ''historical_negative_profits'', mw_objectId = i\<rparr>"

definition hp_audit :: "actor \<Rightarrow> string \<Rightarrow> string \<Rightarrow> int \<Rightarrow> string list \<Rightarrow> audit_input" where
  "hp_audit actor action i m changed = auditInput actor action ''historical_negative_profits'' (Some i) (Some m) changed"

definition hp_column :: "historical_negative_profit \<Rightarrow> string \<Rightarrow> jsval" where
  "hp_column r k =
     (if k = ''settlementMonth'' then JDate (Some (hp_month r))
      else if k = ''employeeId'' then JString (hp_employeeId r)
      else if k = ''amountUsd'' then JNum (hp_amountUsd r)
      else if k = ''reason'' then jstr_or_null (hp_reason r)
      else if k = ''status'' then JString (common_status_name (hp_status r)) else JUndefined)"

definition put_profits :: "historical_negative_profit list \<Rightarrow> database \<Rightarrow> database" where
  "put_profits rows db = db\<lparr>historical_profits := rows\<rparr>"

definition profit_insert :: "historical_negative_profit \<Rightarrow> historical_negative_profit handler" where
  "profit_insert = table_insert historical_profits put_profits no_clash"

definition profit_set ::
  "string \<Rightarrow> (historical_negative_profit \<Rightarrow> historical_negative_profit) \<Rightarrow> historical_negative_profit handler" where
  "profit_set = table_update historical_profits put_profits no_clash hp_id"

definition validateCreateProfit ::
  "runtime \<Rightarrow> profit_request \<Rightarrow> (int \<times> string \<times> rat \<times> string option \<times> common_status) outcome" where
  "validateCreateProfit rt input =
     bind_res (parseMonthStart rt (hq_settlementMonth input) ''settlementMonth'') (\<lambda>m.
     bind_res (requireNonBlank (hq_employeeId input) ''employeeId'') (\<lambda>employee.
     bind_res (parseDecimalString rt (hq_amountUsd input) ''amountUsd'' False) (\<lambda>amount.
     bind_res (optionalNonBlank (hq_reason input) ''reason'') (\<lambda>reason.
     bind_res (entry_status (hq_status input) HISTORICAL_NEGATIVE_PROFIT_STATUSES) (\<lambda>status.
     Inr (m, employee, amount, reason, or_keep status CS_active))))))"

definition createProfit :: "runtime \<Rightarrow> profit_request \<Rightarrow> actor \<Rightarrow> historical_negative_profit handler" where
  "createProfit rt input actor =
     op_bind (op_lift (validateCreateProfit rt input)) (\<lambda>(m, employee, amount, reason, status).
     op_bind (assertWritable (hp_write m ''historical_negative_profit.create'' None) (Some actor)) (\<lambda>_.
     op_bind (profit_insert
       \<lparr>hp_id = rt_fresh_id rt 0, hp_month = m, hp_employeeId = employee, hp_amountUsd = rt_column rt 6 amount,
        hp_reason = reason, hp_status = status, hp_createdBy = ac_userId actor\<rparr>) (\<lambda>profit.
     op_bind (audit_success (hp_audit actor ''historical_negative_profit.create'' (hp_id profit) (hp_month profit)
       [''settlementMonth'', ''employeeId'', ''amountUsd'', ''reason'', ''status''])) (\<lambda>_.
     op_return profit))))"

definition listProfits :: "runtime \<Rightarrow> jsval \<Rightarrow> string option \<Rightarrow> jsval \<Rightarrow> historical_negative_profit list handler" where
  "listProfits rt status employeeId settlementMonth =
     op_bind (op_lift (month_filter rt settlementMonth ''settlementMonth'')) (\<lambda>month_ok.
     op_bind (op_lift (status_filter status)) (\<lambda>status_ok.
     op_get (\<lambda>db. newest_first
       (\<lambda>r. status_ok (hp_status r) \<and> text_filter employeeId (hp_employeeId r) \<and> month_ok (hp_month r))
       (historical_profits db))))"

definition getProfit :: "string \<Rightarrow> historical_negative_profit handler" where
  "getProfit i = table_find historical_profits hp_id ''Historical negative profit'' i"

definition validateUpdateProfit :: "runtime \<Rightarrow> profit_request \<Rightarrow> profit_update outcome" where
  "validateUpdateProfit rt input =
     bind_res (if_given (hq_settlementMonth input) (\<lambda>v. parseMonthStart rt v ''settlementMonth'')) (\<lambda>m.
     bind_res (if_given (hq_employeeId input) (\<lambda>v. requireNonBlank v ''employeeId'')) (\<lambda>employee.
     bind_res (if_given (hq_amountUsd input) (\<lambda>v. parseDecimalString rt v ''amountUsd'' False)) (\<lambda>amount.
     bind_res (if_given (hq_reason input) (\<lambda>v. optionalNonBlank v ''reason'')) (\<lambda>reason.
     bind_res (entry_status (hq_status input) HISTORICAL_NEGATIVE_PROFIT_STATUSES) (\<lambda>status.
     Inr \<lparr>hu_settlementMonth = m, hu_employeeId = employee, hu_amountUsd = amount, hu_reason = reason,
          hu_status = status\<rparr>)))))"

definition hu_keys :: "profit_update \<Rightarrow> string list" where
  "hu_keys d = keys_given
     [(''settlementMonth'', hu_settlementMonth d \<noteq> None), (''employeeId'', hu_employeeId d \<noteq> None),
      (''amountUsd'', hu_amountUsd d \<noteq> None), (''reason'', hu_reason d \<noteq> None), (''status'', hu_status d \<noteq> None)]"

definition hu_apply :: "runtime \<Rightarrow> profit_update \<Rightarrow> historical_negative_profit \<Rightarrow> historical_negative_profit" where
  "hu_apply rt d r =
     r\<lparr>hp_month := or_keep (hu_settlementMonth d) (hp_month r),
       hp_employeeId := or_keep (hu_employeeId d) (hp_employeeId r),
       hp_amountUsd := or_keep (map_option (rt_column rt 6) (hu_amountUsd d)) (hp_amountUsd r),
       hp_reason := or_keep (hu_reason d) (hp_reason r),
       hp_status := or_keep (hu_status d) (hp_status r)\<rparr>"

definition updateProfit :: "runtime \<Rightarrow> string \<Rightarrow> profit_request \<Rightarrow> actor \<Rightarrow> historical_negative_profit handler" where
  "updateProfit rt i input actor =
     op_bind (getProfit i) (\<lambda>before.
     op_bind (op_lift (validateUpdateProfit rt input)) (\<lambda>data.
     op_bind (assertWritable (hp_write (hp_month before) ''historical_negative_profit.update'' (Some i)) (Some actor)) (\<lambda>_.
     op_bind (guard_if_moved (hu_settlementMonth data) (hp_month before)
       (\<lambda>m. hp_write m ''historical_negative_profit.update'' (Some i)) actor) (\<lambda>_.
     op_bind (profit_set i (hu_apply rt data)) (\<lambda>after.
     op_bind (audit_success (hp_audit actor ''historical_negative_profit.update'' i (hp_month after)
       (changedFields hp_column before after (hu_keys data)))) (\<lambda>_.
     op_return after))))))"

definition disableProfit :: "string \<Rightarrow> actor \<Rightarrow> historical_negative_profit handler" where
  "disableProfit i actor =
     op_bind (getProfit i) (\<lambda>before.
     op_bind (assertWritable (hp_write (hp_month before) ''historical_negative_profit.disable'' (Some i)) (Some actor)) (\<lambda>_.
     op_bind (profit_set i (\<lambda>r. r\<lparr>hp_status := CS_disabled\<rparr>)) (\<lambda>after.
     op_bind (audit_success (hp_audit actor ''historical_negative_profit.disable'' i (hp_month before) [''status''])) (\<lambda>_.
     op_return after))))"

section \<open>Locked months are left alone\<close>

interpretation profit_table: month_table historical_profits put_profits hp_id hp_month
  by unfold_locales (auto simp: put_profits_def month_scope_def)

lemmas profit_operations = profit_insert_def profit_set_def getProfit_def

lemma freezes_createProfit: "freezes m (createProfit rt input actor)"
  unfolding createProfit_def profit_operations
  by (auto intro!: freezes_bind_pure freezes_guarded freezes_bind profit_table.insert_freezes
      simp: hp_write_def split: prod.split)

lemma freezes_updateProfit: "freezes m (updateProfit rt i input actor)"
  unfolding updateProfit_def profit_operations
  by (rule freezes_eachI)
    (auto intro!: freezes_at_table_find freezes_at_lift freezes_at_guard freezes_at_guard_if_moved
      freezes_at_bind profit_table.update_freezes_at simp: hp_write_def hu_apply_def)

lemma freezes_disableProfit: "freezes m (disableProfit i actor)"
  unfolding disableProfit_def profit_operations
  by (rule freezes_eachI)
    (auto intro!: freezes_at_table_find freezes_at_guard freezes_at_bind profit_table.update_freezes_at simp: hp_write_def)

section \<open>Losses are never negative\<close>

text \<open>What the calculator relies on when it subtracts the losses of a month.\<close>

definition losses_ok :: "database \<Rightarrow> bool" where
  "losses_ok db = list_all (\<lambda>r. 0 \<le> hp_amountUsd r) (historical_profits db)"

lemma audit_stable_losses_ok [simp]: "audit_stable losses_ok"
  by (simp add: audit_stable_def losses_ok_def)

lemma losses_insert: "losses_ok db \<Longrightarrow> 0 \<le> hp_amountUsd r \<Longrightarrow> preserves losses_ok db (profit_insert r)"
  by (simp add: preserves_def losses_ok_def profit_insert_def profit_table.insert_all)

lemma losses_set:
  "losses_ok db \<Longrightarrow> (\<And>r. 0 \<le> hp_amountUsd r \<Longrightarrow> 0 \<le> hp_amountUsd (f r)) \<Longrightarrow> preserves losses_ok db (profit_set i f)"
  unfolding preserves_def losses_ok_def profit_set_def
  by (rule profit_table.update_all) (auto simp: list_all_iff dest: find_row_Some)

inductive profit_step :: "runtime \<Rightarrow> database \<Rightarrow> database \<Rightarrow> bool" for rt where
  create: "profit_step rt db (snd (createProfit rt input actor db))"
| update: "profit_step rt db (snd (updateProfit rt i input actor db))"
| disable: "profit_step rt db (snd (disableProfit i actor db))"

lemma profit_handlers_ok:
  assumes "column_rounding (rt_column rt)" and "losses_ok db"
  shows "preserves losses_ok db (createProfit rt input actor)"
    and "preserves losses_ok db (updateProfit rt i input actor)"
    and "preserves losses_ok db (disableProfit i actor)"
  using assms column_rounding.col_nonneg [OF assms(1)]
  unfolding createProfit_def updateProfit_def disableProfit_def getProfit_def
  by (auto intro!: preserves_steps losses_insert losses_set split: prod.split
      simp: hu_apply_def or_keep_def validateCreateProfit_def validateUpdateProfit_def bind_res_Inr_iff
      dest!: if_given_Inr parseDecimalString_Inr(1) split: option.split)

lemma profit_step_ok:
  "profit_step rt db db' \<Longrightarrow> column_rounding (rt_column rt) \<Longrightarrow> losses_ok db \<Longrightarrow> losses_ok db'"
  by (erule profit_step.cases) (simp_all add: profit_handlers_ok [unfolded preserves_def])

end
