(* ===== verification/Manual_Card_Spend.thy ===== *)
theory Manual_Card_Spend
  imports Month_Table
begin

text \<open>
  \<open>manual-card-spend-entries.service.ts\<close>: card spend entered by hand. An entry counts once
  it is confirmed; disabling it makes it a draft again. The actual spend is the settled
  spend with the fee of the entry on top.
\<close>

record spend_request =
  mq_settlementMonth :: jsval
  mq_employeeId :: jsval
  mq_providerName :: jsval
  mq_cardIdentifier :: jsval
  mq_settledSpendUsd :: jsval
  mq_feeRate :: jsval
  mq_actualSpendUsd :: jsval
  mq_reason :: jsval
  mq_status :: jsval

record spend_data =
  md0_settlementMonth :: int
  md0_employeeId :: string
  md0_providerName :: string
  md0_cardIdentifier :: "string option"
  md0_settledSpendUsd :: rat
  md0_feeRate :: rat
  md0_actualSpendUsd :: rat
  md0_reason :: "string option"
  md0_status :: settlement_status

record spend_update =
  mu_settlementMonth :: "int option"
  mu_employeeId :: "string option"
  mu_providerName :: "string option"
  mu_cardIdentifier :: "string option option"
  mu_reason :: "string option option"
  mu_status :: "settlement_status option"
  mu_settledSpendUsd :: "rat option"
  mu_feeRate :: "rat option"
  mu_actualSpendUsd :: "rat option"

definition CARD_SPEND_STATUSES :: "settlement_status list" where
  "CARD_SPEND_STATUSES = [SS_draft, SS_confirmed]"

definition mc_write :: "int \<Rightarrow> string \<Rightarrow> string option \<Rightarrow> month_write" where
  "mc_write m action i =
     \<lparr>mw_settlementMonth = m, mw_action = action, mw_objectType = ''manual_card_spend_entries'', mw_objectId = i\<rparr>"

definition mc_audit :: "actor \<Rightarrow> string \<Rightarrow> string \<Rightarrow> int \<Rightarrow> string list \<Rightarrow> audit_input" where
  "mc_audit actor action i m changed = auditInput actor action ''manual_card_spend_entries'' (Some i) (Some m) changed"

definition mc_column :: "manual_card_spend \<Rightarrow> string \<Rightarrow> jsval" where
  "mc_column r k =
     (if k = ''settlementMonth'' then JDate (Some (mc_month r))
      else if k = ''employeeId'' then JString (mc_employeeId r)
      else if k = ''providerName'' then JString (mc_providerName r)
      else if k = ''cardIdentifier'' then jstr_or_null (mc_cardIdentifier r)
      else if k = ''settledSpendUsd'' then JNum (mc_settledSpendUsd r)
      else if k = ''feeRate'' then JNum (mc_feeRate r)
      else if k = ''actualSpendUsd'' then JNum (mc_actualSpendUsd r)
      else if k = ''reason'' then jstr_or_null (mc_reason r)
      else if k = ''status'' then JString (settlement_status_name (mc_status r)) else JUndefined)"

definition put_spends :: "manual_card_spend list \<Rightarrow> database \<Rightarrow> database" where
  "put_spends rows db = db\<lparr>manual_card_spends := rows\<rparr>"

definition spend_insert :: "manual_card_spend \<Rightarrow> manual_card_spend handler" where
  "spend_insert = table_insert manual_card_spends put_spends no_clash"

definition spend_set :: "string \<Rightarrow> (manual_card_spend \<Rightarrow> manual_card_spend) \<Rightarrow> manual_card_spend handler" where
  "spend_set = table_update manual_card_spends put_spends no_clash mc_id"

definition calculateActualSpend :: "runtime \<Rightarrow> rat \<Rightarrow> rat \<Rightarrow> rat" where
  "calculateActualSpend rt settledSpendUsd feeRate =
     dec_times (rt_round rt) settledSpendUsd (dec_plus (rt_round rt) 1 feeRate)"

text \<open>\<open>if (input.actualSpendUsd !== undefined) assertDecimalEquals(parse(...), actual, ...)\<close>\<close>

definition check_actual :: "runtime \<Rightarrow> jsval \<Rightarrow> rat \<Rightarrow> unit outcome" where
  "check_actual rt given actual =
     (if is_undefined given then Inr ()
      else bind_res (parseDecimalString rt given ''actualSpendUsd'' False) (\<lambda>x.
           assertDecimalEquals rt x actual ''actualSpendUsd''))"

definition validateCreateSpend :: "runtime \<Rightarrow> spend_request \<Rightarrow> spend_data outcome" where
  "validateCreateSpend rt input =
     bind_res (parseDecimalString rt (mq_settledSpendUsd input) ''settledSpendUsd'' False) (\<lambda>settled.
     bind_res (parseDecimalString rt (mq_feeRate input) ''feeRate'' False) (\<lambda>fee.
     bind_res (check_actual rt (mq_actualSpendUsd input) (calculateActualSpend rt settled fee)) (\<lambda>_.
     bind_res (parseMonthStart rt (mq_settlementMonth input) ''settlementMonth'') (\<lambda>m.
     bind_res (requireNonBlank (mq_employeeId input) ''employeeId'') (\<lambda>employee.
     bind_res (requireNonBlank (mq_providerName input) ''providerName'') (\<lambda>provider.
     bind_res (optionalNonBlank (mq_cardIdentifier input) ''cardIdentifier'') (\<lambda>card.
     bind_res (optionalNonBlank (mq_reason input) ''reason'') (\<lambda>reason.
     bind_res (spend_status (mq_status input) CARD_SPEND_STATUSES) (\<lambda>status.
     Inr \<lparr>md0_settlementMonth = m, md0_employeeId = employee, md0_providerName = provider, md0_cardIdentifier = card,
          md0_settledSpendUsd = settled, md0_feeRate = fee, md0_actualSpendUsd = calculateActualSpend rt settled fee,
          md0_reason = reason, md0_status = or_keep status SS_draft\<rparr>)))))))))"

definition createSpend :: "runtime \<Rightarrow> spend_request \<Rightarrow> actor \<Rightarrow> manual_card_spend handler" where
  "createSpend rt input actor =
     op_bind (op_lift (validateCreateSpend rt input)) (\<lambda>d.
     op_bind (assertWritable (mc_write (md0_settlementMonth d) ''manual_card_spend_entry.create'' None) (Some actor)) (\<lambda>_.
     op_bind (spend_insert
       \<lparr>mc_id = rt_fresh_id rt 0, mc_month = md0_settlementMonth d, mc_providerName = md0_providerName d,
        mc_cardIdentifier = md0_cardIdentifier d, mc_employeeId = md0_employeeId d,
        mc_settledSpendUsd = rt_column rt 6 (md0_settledSpendUsd d), mc_feeRate = rt_column rt 6 (md0_feeRate d),
        mc_actualSpendUsd = rt_column rt 6 (md0_actualSpendUsd d), mc_reason = md0_reason d,
        mc_status = md0_status d, mc_createdBy = ac_userId actor\<rparr>) (\<lambda>entry.
     op_bind (audit_success (mc_audit actor ''manual_card_spend_entry.create'' (mc_id entry) (mc_month entry)
       [''settlementMonth'', ''employeeId'', ''providerName'', ''cardIdentifier'', ''settledSpendUsd'', ''feeRate'',
        ''actualSpendUsd'', ''reason'', ''status''])) (\<lambda>_.
     op_return entry))))"

text \<open>A status filter the client library checks against the enumeration.\<close>

definition spend_status_filter :: "jsval \<Rightarrow> (settlement_status \<Rightarrow> bool) outcome" where
  "spend_status_filter v =
     (if is_undefined v then Inr (\<lambda>_. True)
      else case js_string_opt v of
             None \<Rightarrow> Inl prisma_validation_error
           | Some s \<Rightarrow> (case settlement_status_of s of
               None \<Rightarrow> Inl prisma_validation_error | Some st \<Rightarrow> Inr (\<lambda>x. x = st)))"

definition listSpends :: "runtime \<Rightarrow> jsval \<Rightarrow> string option \<Rightarrow> jsval \<Rightarrow> manual_card_spend list handler" where
  "listSpends rt status employeeId settlementMonth =
     op_bind (op_lift (month_filter rt settlementMonth ''settlementMonth'')) (\<lambda>month_ok.
     op_bind (op_lift (spend_status_filter status)) (\<lambda>status_ok.
     op_get (\<lambda>db. newest_first
       (\<lambda>r. status_ok (mc_status r) \<and> text_filter employeeId (mc_employeeId r) \<and> month_ok (mc_month r))
       (manual_card_spends db))))"

definition getSpend :: "string \<Rightarrow> manual_card_spend handler" where
  "getSpend i = table_find manual_card_spends mc_id ''Manual card spend entry'' i"

definition validateUpdateSpend :: "runtime \<Rightarrow> spend_request \<Rightarrow> manual_card_spend \<Rightarrow> spend_update outcome" where
  "validateUpdateSpend rt input before =
     bind_res (if_given (mq_settlementMonth input) (\<lambda>v. parseMonthStart rt v ''settlementMonth'')) (\<lambda>m.
     bind_res (if_given (mq_employeeId input) (\<lambda>v. requireNonBlank v ''employeeId'')) (\<lambda>employee.
     bind_res (if_given (mq_providerName input) (\<lambda>v. requireNonBlank v ''providerName'')) (\<lambda>provider.
     bind_res (if_given (mq_cardIdentifier input) (\<lambda>v. optionalNonBlank v ''cardIdentifier'')) (\<lambda>card.
     bind_res (if_given (mq_reason input) (\<lambda>v. optionalNonBlank v ''reason'')) (\<lambda>reason.
     bind_res (spend_status (mq_status input) CARD_SPEND_STATUSES) (\<lambda>status.
     bind_res (if_given (mq_settledSpendUsd input) (\<lambda>v. parseDecimalString rt v ''settledSpendUsd'' False)) (\<lambda>settled.
     bind_res (if_given (mq_feeRate input) (\<lambda>v. parseDecimalString rt v ''feeRate'' False)) (\<lambda>fee.
     let actual = calculateActualSpend rt (or_keep settled (mc_settledSpendUsd before)) (or_keep fee (mc_feeRate before));
         recalculated = \<not> is_undefined (mq_settledSpendUsd input) \<or> \<not> is_undefined (mq_feeRate input)
                          \<or> \<not> is_undefined (mq_actualSpendUsd input)
     in bind_res (check_actual rt (mq_actualSpendUsd input) actual) (\<lambda>_.
        Inr \<lparr>mu_settlementMonth = m, mu_employeeId = employee, mu_providerName = provider, mu_cardIdentifier = card,
             mu_reason = reason, mu_status = status, mu_settledSpendUsd = settled, mu_feeRate = fee,
             mu_actualSpendUsd = (if recalculated then Some actual else None)\<rparr>)))))))))"

definition mu_keys :: "spend_update \<Rightarrow> string list" where
  "mu_keys d = keys_given
     [(''settlementMonth'', mu_settlementMonth d \<noteq> None), (''employeeId'', mu_employeeId d \<noteq> None),
      (''providerName'', mu_providerName d \<noteq> None), (''cardIdentifier'', mu_cardIdentifier d \<noteq> None),
      (''reason'', mu_reason d \<noteq> None), (''status'', mu_status d \<noteq> None),
      (''settledSpendUsd'', mu_settledSpendUsd d \<noteq> None), (''feeRate'', mu_feeRate d \<noteq> None),
      (''actualSpendUsd'', mu_actualSpendUsd d \<noteq> None)]"

definition mu_apply :: "runtime \<Rightarrow> spend_update \<Rightarrow> manual_card_spend \<Rightarrow> manual_card_spend" where
  "mu_apply rt d r =
     r\<lparr>mc_month := or_keep (mu_settlementMonth d) (mc_month r),
       mc_employeeId := or_keep (mu_employeeId d) (mc_employeeId r),
       mc_providerName := or_keep (mu_providerName d) (mc_providerName r),
       mc_cardIdentifier := or_keep (mu_cardIdentifier d) (mc_cardIdentifier r),
       mc_reason := or_keep (mu_reason d) (mc_reason r),
       mc_status := or_keep (mu_status d) (mc_status r),
       mc_settledSpendUsd := or_keep (map_option (rt_column rt 6) (mu_settledSpendUsd d)) (mc_settledSpendUsd r),
       mc_feeRate := or_keep (map_option (rt_column rt 6) (mu_feeRate d)) (mc_feeRate r),
       mc_actualSpendUsd := or_keep (map_option (rt_column rt 6) (mu_actualSpendUsd d)) (mc_actualSpendUsd r)\<rparr>"

definition updateSpend :: "runtime \<Rightarrow> string \<Rightarrow> spend_request \<Rightarrow> actor \<Rightarrow> manual_card_spend handler" where
  "updateSpend rt i input actor =
     op_bind (getSpend i) (\<lambda>before.
     op_bind (op_lift (validateUpdateSpend rt input before)) (\<lambda>data.
     op_bind (assertWritable (mc_write (mc_month before) ''manual_card_spend_entry.update'' (Some i)) (Some actor)) (\<lambda>_.
     op_bind (guard_if_moved (mu_settlementMonth data) (mc_month before)
       (\<lambda>m. mc_write m ''manual_card_spend_entry.update'' (Some i)) actor) (\<lambda>_.
     op_bind (spend_set i (mu_apply rt data)) (\<lambda>after.
     op_bind (audit_success (mc_audit actor ''manual_card_spend_entry.update'' i (mc_month after)
       (changedFields mc_column before after (mu_keys data)))) (\<lambda>_.
     op_return after))))))"

definition set_spend_status :: "string \<Rightarrow> settlement_status \<Rightarrow> string \<Rightarrow> actor \<Rightarrow> manual_card_spend handler" where
  "set_spend_status action status i actor =
     op_bind (getSpend i) (\<lambda>before.
     op_bind (assertWritable (mc_write (mc_month before) action (Some i)) (Some actor)) (\<lambda>_.
     op_bind (spend_set i (\<lambda>r. r\<lparr>mc_status := status\<rparr>)) (\<lambda>after.
     op_bind (audit_success (mc_audit actor action i (mc_month before) [''status''])) (\<lambda>_.
     op_return after))))"

definition confirmSpend :: "string \<Rightarrow> actor \<Rightarrow> manual_card_spend handler" where
  "confirmSpend = set_spend_status ''manual_card_spend_entry.confirm'' SS_confirmed"

definition disableSpend :: "string \<Rightarrow> actor \<Rightarrow> manual_card_spend handler" where
  "disableSpend = set_spend_status ''manual_card_spend_entry.disable'' SS_draft"

section \<open>Locked months are left alone\<close>

interpretation spend_table: month_table manual_card_spends put_spends mc_id mc_month
  by unfold_locales (auto simp: put_spends_def month_scope_def)

lemmas spend_operations = spend_insert_def spend_set_def getSpend_def

lemma freezes_createSpend: "freezes m (createSpend rt input actor)"
  unfolding createSpend_def spend_operations
  by (auto intro!: freezes_bind_pure freezes_guarded freezes_bind spend_table.insert_freezes simp: mc_write_def)

lemma freezes_updateSpend: "freezes m (updateSpend rt i input actor)"
  unfolding updateSpend_def spend_operations
  by (rule freezes_eachI)
    (auto intro!: freezes_at_table_find freezes_at_lift freezes_at_guard freezes_at_guard_if_moved
      freezes_at_bind spend_table.update_freezes_at simp: mc_write_def mu_apply_def)

lemma freezes_set_spend_status: "freezes m (set_spend_status action status i actor)"
  unfolding set_spend_status_def spend_operations
  by (rule freezes_eachI)
    (auto intro!: freezes_at_table_find freezes_at_guard freezes_at_bind spend_table.update_freezes_at simp: mc_write_def)

lemma freezes_confirmSpend: "freezes m (confirmSpend i actor)"
  and freezes_disableSpend: "freezes m (disableSpend i actor)"
  by (simp_all add: confirmSpend_def disableSpend_def freezes_set_spend_status)

section \<open>Entries are drafts or confirmed, and never negative\<close>

definition spends_ok :: "database \<Rightarrow> bool" where
  "spends_ok db = list_all (\<lambda>r. 0 \<le> mc_settledSpendUsd r \<and> 0 \<le> mc_feeRate r \<and> 0 \<le> mc_actualSpendUsd r
      \<and> mc_status r \<in> {SS_draft, SS_confirmed}) (manual_card_spends db)"

lemma audit_stable_spends_ok [simp]: "audit_stable spends_ok"
  by (simp add: audit_stable_def spends_ok_def)

lemma spends_insert:
  "spends_ok db \<Longrightarrow> 0 \<le> mc_settledSpendUsd r \<Longrightarrow> 0 \<le> mc_feeRate r \<Longrightarrow> 0 \<le> mc_actualSpendUsd r \<Longrightarrow>
   mc_status r \<in> {SS_draft, SS_confirmed} \<Longrightarrow> preserves spends_ok db (spend_insert r)"
  unfolding preserves_def spends_ok_def spend_insert_def by (rule spend_table.insert_all) simp_all

lemma spends_set:
  assumes "spends_ok db"
    and "\<And>r. 0 \<le> mc_settledSpendUsd r \<Longrightarrow> 0 \<le> mc_feeRate r \<Longrightarrow> 0 \<le> mc_actualSpendUsd r \<Longrightarrow>
        mc_status r \<in> {SS_draft, SS_confirmed} \<Longrightarrow> find_row (\<lambda>r. mc_id r = i) (manual_card_spends db) = Some r \<Longrightarrow>
        0 \<le> mc_settledSpendUsd (f r) \<and> 0 \<le> mc_feeRate (f r) \<and> 0 \<le> mc_actualSpendUsd (f r)
        \<and> mc_status (f r) \<in> {SS_draft, SS_confirmed}"
  shows "preserves spends_ok db (spend_set i f)"
  using assms unfolding preserves_def spends_ok_def spend_set_def
  by (intro spend_table.update_all) (auto simp: list_all_iff dest!: find_row_Some)

lemma calculateActualSpend_nonneg:
  assumes "decimal_rounding (rt_round rt) digits" "0 \<le> s" "0 \<le> f"
  shows "0 \<le> calculateActualSpend rt s f"
proof -
  have r: "0 \<le> rt_round rt x" if "0 \<le> x" for x
    using decimal_rounding.rnd_mono [OF assms(1) that] decimal_rounding.rnd_minus [OF assms(1), of 0] by simp
  show ?thesis using assms(2,3) by (simp add: calculateActualSpend_def dec_times_def dec_plus_def r)
qed

lemma validateCreateSpend_ok:
  assumes "validateCreateSpend rt input = Inr d" "decimal_rounding (rt_round rt) digits"
  shows "0 \<le> md0_settledSpendUsd d" "0 \<le> md0_feeRate d" "0 \<le> md0_actualSpendUsd d"
    "md0_status d \<in> {SS_draft, SS_confirmed}"
  using assms(1) calculateActualSpend_nonneg [OF assms(2)]
  by (auto simp: validateCreateSpend_def bind_res_Inr_iff or_keep_def CARD_SPEND_STATUSES_def
      dest!: parseDecimalString_Inr(1) spend_status_allowed split: option.splits)

lemma validateUpdateSpend_ok:
  assumes "validateUpdateSpend rt input before = Inr d" "decimal_rounding (rt_round rt) digits"
    and "0 \<le> mc_settledSpendUsd before" "0 \<le> mc_feeRate before"
  shows "mu_settledSpendUsd d = Some x \<Longrightarrow> 0 \<le> x" "mu_feeRate d = Some x \<Longrightarrow> 0 \<le> x"
    "mu_actualSpendUsd d = Some x \<Longrightarrow> 0 \<le> x" "mu_status d = Some st \<Longrightarrow> st \<in> {SS_draft, SS_confirmed}"
proof -
  obtain settled fee where sf: "if_given (mq_settledSpendUsd input) (\<lambda>v. parseDecimalString rt v ''settledSpendUsd'' False) = Inr settled"
      "if_given (mq_feeRate input) (\<lambda>v. parseDecimalString rt v ''feeRate'' False) = Inr fee"
    and d: "mu_settledSpendUsd d = settled" "mu_feeRate d = fee"
      "mu_actualSpendUsd d \<in> {None, Some (calculateActualSpend rt (or_keep settled (mc_settledSpendUsd before))
        (or_keep fee (mc_feeRate before)))}"
      "spend_status (mq_status input) CARD_SPEND_STATUSES = Inr (mu_status d)"
    using assms(1) by (auto simp: validateUpdateSpend_def bind_res_Inr_iff Let_def)
  have s: "0 \<le> or_keep settled (mc_settledSpendUsd before)" and f: "0 \<le> or_keep fee (mc_feeRate before)"
    using sf assms(3,4) by (auto simp: or_keep_def dest!: if_given_Inr parseDecimalString_Inr(1) split: option.split)
  show "0 \<le> x" if "mu_settledSpendUsd d = Some x"
    using sf(1) d(1) that by (auto dest!: if_given_Inr parseDecimalString_Inr(1))
  show "0 \<le> x" if "mu_feeRate d = Some x"
    using sf(2) d(2) that by (auto dest!: if_given_Inr parseDecimalString_Inr(1))
  show "0 \<le> x" if "mu_actualSpendUsd d = Some x" using d(3) that calculateActualSpend_nonneg [OF assms(2) s f] by auto
  show "st \<in> {SS_draft, SS_confirmed}" if "mu_status d = Some st"
    using d that by (auto simp: CARD_SPEND_STATUSES_def dest!: spend_status_allowed)
qed

lemma spend_handlers_ok:
  assumes rnd: "decimal_rounding (rt_round rt) digits" and col: "column_rounding (rt_column rt)" and "spends_ok db"
  shows "preserves spends_ok db (createSpend rt input actor)"
    and "preserves spends_ok db (updateSpend rt i input actor)"
    and "status \<in> {SS_draft, SS_confirmed} \<Longrightarrow> preserves spends_ok db (set_spend_status action status i actor)"
proof -
  note nn = column_rounding.col_nonneg [OF col]
  show "preserves spends_ok db (createSpend rt input actor)"
    unfolding createSpend_def using assms(3)
    by (intro preserves_steps spends_insert) (simp_all add: nn validateCreateSpend_ok [OF _ rnd] del: insert_iff)
  have b: "0 \<le> mc_settledSpendUsd r \<and> 0 \<le> mc_feeRate r"
    if "find_row (\<lambda>r. mc_id r = i) (manual_card_spends db) = Some r" for r
    using that assms(3) by (auto simp: spends_ok_def list_all_iff dest!: find_row_Some)
  show "preserves spends_ok db (updateSpend rt i input actor)"
    unfolding updateSpend_def getSpend_def using assms(3)
  proof (intro preserves_steps spends_set)
    fix before and d and r :: manual_card_spend
    assume bf: "find_row (\<lambda>r. mc_id r = i) (manual_card_spends db) = Some before"
      and v: "validateUpdateSpend rt input before = Inr d"
      and r: "0 \<le> mc_settledSpendUsd r" "0 \<le> mc_feeRate r" "0 \<le> mc_actualSpendUsd r" "mc_status r \<in> {SS_draft, SS_confirmed}"
    note ok = validateUpdateSpend_ok [OF v rnd] b [OF bf]
    then show "0 \<le> mc_settledSpendUsd (mu_apply rt d r) \<and> 0 \<le> mc_feeRate (mu_apply rt d r)
        \<and> 0 \<le> mc_actualSpendUsd (mu_apply rt d r) \<and> mc_status (mu_apply rt d r) \<in> {SS_draft, SS_confirmed}"
      using r by (auto simp: mu_apply_def or_keep_def nn split: option.split)
  qed simp_all
  show "status \<in> {SS_draft, SS_confirmed} \<Longrightarrow> preserves spends_ok db (set_spend_status action status i actor)"
    unfolding set_spend_status_def getSpend_def using assms(3)
    by (intro preserves_steps spends_set) simp_all
qed

end
