(* ===== verification/Salary_Items.thy ===== *)
theory Salary_Items
  imports Month_Table
begin

text \<open>
  \<open>salary-item-configs.service.ts\<close> and \<open>monthly-salary-manual-items.service.ts\<close>: the kinds
  of salary items (additions and deductions, unique by code) and the items of employees in a
  month. A kind belongs to no month; an item is written only while its month is open.
\<close>

section \<open>Kinds of items\<close>

record config_request =
  cq_code :: jsval
  cq_name :: jsval
  cq_itemType :: jsval
  cq_description :: jsval
  cq_status :: jsval

record config_update =
  cu_code :: "string option"
  cu_name :: "string option"
  cu_itemType :: "salary_item_type option"
  cu_description :: "string option option"
  cu_status :: "common_status option"

definition CONFIG_STATUSES :: "common_status list" where
  "CONFIG_STATUSES = [CS_active, CS_disabled]"

fun item_type_name :: "salary_item_type \<Rightarrow> string" where
  "item_type_name SI_addition = ''addition''"
| "item_type_name SI_deduction = ''deduction''"

definition validateItemType :: "jsval \<Rightarrow> salary_item_type outcome" where
  "validateItemType v =
     (if v = JString ''addition'' then Inr SI_addition else if v = JString ''deduction'' then Inr SI_deduction
      else Inl (AppError VALIDATION_ERROR ''itemType must be addition or deduction.''))"

definition sc_audit :: "actor \<Rightarrow> string \<Rightarrow> string \<Rightarrow> string list \<Rightarrow> audit_input" where
  "sc_audit actor action i changed = auditInput actor action ''salary_item_configs'' (Some i) None changed"

definition sc_column :: "salary_item_config \<Rightarrow> string \<Rightarrow> jsval" where
  "sc_column r k =
     (if k = ''code'' then JString (sc_code r) else if k = ''name'' then JString (sc_name r)
      else if k = ''itemType'' then JString (item_type_name (sc_itemType r))
      else if k = ''description'' then jstr_or_null (sc_description r)
      else if k = ''status'' then JString (common_status_name (sc_status r)) else JUndefined)"

definition put_configs :: "salary_item_config list \<Rightarrow> database \<Rightarrow> database" where
  "put_configs rows db = db\<lparr>salary_configs := rows\<rparr>"

definition config_insert :: "salary_item_config \<Rightarrow> salary_item_config handler" where
  "config_insert = table_insert salary_configs put_configs (\<lambda>r r'. sc_code r = sc_code r')"

definition config_set :: "string \<Rightarrow> (salary_item_config \<Rightarrow> salary_item_config) \<Rightarrow> salary_item_config handler" where
  "config_set = table_update salary_configs put_configs (\<lambda>r r'. sc_code r = sc_code r') sc_id"

definition validateCreateConfig ::
  "config_request \<Rightarrow> (string \<times> string \<times> salary_item_type \<times> string option \<times> common_status) outcome" where
  "validateCreateConfig input =
     bind_res (requireNonBlank (cq_code input) ''code'') (\<lambda>code.
     bind_res (requireNonBlank (cq_name input) ''name'') (\<lambda>name.
     bind_res (validateItemType (cq_itemType input)) (\<lambda>itemType.
     bind_res (optionalNonBlank (cq_description input) ''description'') (\<lambda>description.
     bind_res (entry_status (cq_status input) CONFIG_STATUSES) (\<lambda>status.
     Inr (code, name, itemType, description, or_keep status CS_active))))))"

definition createConfig :: "runtime \<Rightarrow> config_request \<Rightarrow> actor \<Rightarrow> salary_item_config handler" where
  "createConfig rt input actor =
     op_bind (op_lift (validateCreateConfig input)) (\<lambda>(code, name, itemType, description, status).
     op_catch
       (op_bind (config_insert
          \<lparr>sc_id = rt_fresh_id rt 0, sc_code = code, sc_name = name, sc_itemType = itemType, sc_status = status,
           sc_description = description, sc_createdBy = ac_userId actor\<rparr>) (\<lambda>config.
        op_bind (audit_success (sc_audit actor ''salary_item_config.create'' (sc_id config)
          [''code'', ''name'', ''itemType'', ''description'', ''status''])) (\<lambda>_.
        op_return config)))
       (translate_duplicate ''code already exists.''))"

definition listConfigs :: "jsval \<Rightarrow> salary_item_config list handler" where
  "listConfigs status =
     op_bind (op_lift (status_filter status)) (\<lambda>status_ok.
     op_get (\<lambda>db. newest_first (\<lambda>r. status_ok (sc_status r)) (salary_configs db)))"

definition getConfig :: "string \<Rightarrow> salary_item_config handler" where
  "getConfig i = table_find salary_configs sc_id ''Salary item config'' i"

definition validateUpdateConfig :: "config_request \<Rightarrow> config_update outcome" where
  "validateUpdateConfig input =
     bind_res (if_given (cq_code input) (\<lambda>v. requireNonBlank v ''code'')) (\<lambda>code.
     bind_res (if_given (cq_name input) (\<lambda>v. requireNonBlank v ''name'')) (\<lambda>name.
     bind_res (if_given (cq_itemType input) validateItemType) (\<lambda>itemType.
     bind_res (if_given (cq_description input) (\<lambda>v. optionalNonBlank v ''description'')) (\<lambda>description.
     bind_res (entry_status (cq_status input) CONFIG_STATUSES) (\<lambda>status.
     Inr \<lparr>cu_code = code, cu_name = name, cu_itemType = itemType, cu_description = description, cu_status = status\<rparr>)))))"

definition cu_keys :: "config_update \<Rightarrow> string list" where
  "cu_keys d = keys_given
     [(''code'', cu_code d \<noteq> None), (''name'', cu_name d \<noteq> None), (''itemType'', cu_itemType d \<noteq> None),
      (''description'', cu_description d \<noteq> None), (''status'', cu_status d \<noteq> None)]"

definition cu_apply :: "config_update \<Rightarrow> salary_item_config \<Rightarrow> salary_item_config" where
  "cu_apply d r =
     r\<lparr>sc_code := or_keep (cu_code d) (sc_code r), sc_name := or_keep (cu_name d) (sc_name r),
       sc_itemType := or_keep (cu_itemType d) (sc_itemType r),
       sc_description := or_keep (cu_description d) (sc_description r),
       sc_status := or_keep (cu_status d) (sc_status r)\<rparr>"

definition updateConfig :: "string \<Rightarrow> config_request \<Rightarrow> actor \<Rightarrow> salary_item_config handler" where
  "updateConfig i input actor =
     op_bind (getConfig i) (\<lambda>before.
     op_bind (op_lift (validateUpdateConfig input)) (\<lambda>data.
     op_catch
       (op_bind (config_set i (cu_apply data)) (\<lambda>after.
        op_bind (audit_success (sc_audit actor ''salary_item_config.update'' i
          (changedFields sc_column before after (cu_keys data)))) (\<lambda>_.
        op_return after)))
       (translate_duplicate ''code already exists.'')))"

definition disableConfig :: "string \<Rightarrow> actor \<Rightarrow> salary_item_config handler" where
  "disableConfig i actor =
     op_bind (getConfig i) (\<lambda>before.
     op_bind (config_set i (\<lambda>r. r\<lparr>sc_status := CS_disabled\<rparr>)) (\<lambda>after.
     op_bind (audit_success (sc_audit actor ''salary_item_config.disable'' i [''status''])) (\<lambda>_.
     op_return after)))"

section \<open>Items of a month\<close>

record item_request =
  iq_settlementMonth :: jsval
  iq_employeeId :: jsval
  iq_configId :: jsval
  iq_amountRmb :: jsval
  iq_remark :: jsval
  iq_status :: jsval

record item_update =
  iu_settlementMonth :: "int option"
  iu_employeeId :: "string option"
  iu_configId :: "string option"
  iu_amountRmb :: "rat option"
  iu_remark :: "string option option"
  iu_status :: "common_status option"

definition MANUAL_ITEM_STATUSES :: "common_status list" where
  "MANUAL_ITEM_STATUSES = [CS_active, CS_confirmed, CS_disabled]"

definition si_write :: "int \<Rightarrow> string \<Rightarrow> string option \<Rightarrow> month_write" where
  "si_write m action i =
     \<lparr>mw_settlementMonth = m, mw_action = action, mw_objectType = ''monthly_salary_manual_items'', mw_objectId = i\<rparr>"

definition si_audit :: "actor \<Rightarrow> string \<Rightarrow> string \<Rightarrow> int \<Rightarrow> string list \<Rightarrow> audit_input" where
  "si_audit actor action i m changed = auditInput actor action ''monthly_salary_manual_items'' (Some i) (Some m) changed"

definition si_column :: "salary_manual_item \<Rightarrow> string \<Rightarrow> jsval" where
  "si_column r k =
     (if k = ''settlementMonth'' then JDate (Some (si_month r))
      else if k = ''employeeId'' then JString (si_employeeId r)
      else if k = ''configId'' then JString (si_configId r)
      else if k = ''amountRmb'' then JNum (si_amountRmb r)
      else if k = ''remark'' then jstr_or_null (si_remark r)
      else if k = ''status'' then JString (common_status_name (si_status r)) else JUndefined)"

definition put_items :: "salary_manual_item list \<Rightarrow> database \<Rightarrow> database" where
  "put_items rows db = db\<lparr>salary_items := rows\<rparr>"

definition item_insert :: "salary_manual_item \<Rightarrow> salary_manual_item handler" where
  "item_insert = table_insert salary_items put_items no_clash"

definition item_set :: "string \<Rightarrow> (salary_manual_item \<Rightarrow> salary_manual_item) \<Rightarrow> salary_manual_item handler" where
  "item_set = table_update salary_items put_items no_clash si_id"

definition validateCreateItem ::
  "runtime \<Rightarrow> item_request \<Rightarrow> (int \<times> string \<times> string \<times> rat \<times> string option \<times> common_status) outcome" where
  "validateCreateItem rt input =
     bind_res (parseMonthStart rt (iq_settlementMonth input) ''settlementMonth'') (\<lambda>m.
     bind_res (requireNonBlank (iq_employeeId input) ''employeeId'') (\<lambda>employee.
     bind_res (requireNonBlank (iq_configId input) ''configId'') (\<lambda>config.
     bind_res (parseDecimalString rt (iq_amountRmb input) ''amountRmb'' False) (\<lambda>amount.
     bind_res (optionalNonBlank (iq_remark input) ''remark'') (\<lambda>remark.
     bind_res (entry_status (iq_status input) MANUAL_ITEM_STATUSES) (\<lambda>status.
     Inr (m, employee, config, amount, remark, or_keep status CS_active)))))))"

definition createItem :: "runtime \<Rightarrow> item_request \<Rightarrow> actor \<Rightarrow> salary_manual_item handler" where
  "createItem rt input actor =
     op_bind (op_lift (validateCreateItem rt input)) (\<lambda>(m, employee, config, amount, remark, status).
     op_bind (assertWritable (si_write m ''monthly_salary_manual_item.create'' None) (Some actor)) (\<lambda>_.
     op_bind (item_insert
       \<lparr>si_id = rt_fresh_id rt 0, si_month = m, si_employeeId = employee, si_configId = config,
        si_amountRmb = rt_column rt 2 amount, si_remark = remark, si_status = status,
        si_createdBy = ac_userId actor\<rparr>) (\<lambda>item.
     op_bind (audit_success (si_audit actor ''monthly_salary_manual_item.create'' (si_id item) (si_month item)
       [''settlementMonth'', ''employeeId'', ''configId'', ''amountRmb'', ''remark'', ''status''])) (\<lambda>_.
     op_return item))))"

text \<open>Items are read together with their kind.\<close>

definition with_config :: "database \<Rightarrow> salary_manual_item \<Rightarrow> salary_manual_item \<times> salary_item_config option" where
  "with_config db r = (r, find_row (\<lambda>c. sc_id c = si_configId r) (salary_configs db))"

definition listItems ::
  "runtime \<Rightarrow> jsval \<Rightarrow> string option \<Rightarrow> jsval \<Rightarrow> (salary_manual_item \<times> salary_item_config option) list handler" where
  "listItems rt status employeeId settlementMonth =
     op_bind (op_lift (month_filter rt settlementMonth ''settlementMonth'')) (\<lambda>month_ok.
     op_bind (op_lift (status_filter status)) (\<lambda>status_ok.
     op_get (\<lambda>db. map (with_config db) (newest_first
       (\<lambda>r. status_ok (si_status r) \<and> text_filter employeeId (si_employeeId r) \<and> month_ok (si_month r))
       (salary_items db)))))"

definition getItem :: "string \<Rightarrow> salary_manual_item handler" where
  "getItem i = table_find salary_items si_id ''Monthly salary manual item'' i"

definition validateUpdateItem :: "runtime \<Rightarrow> item_request \<Rightarrow> item_update outcome" where
  "validateUpdateItem rt input =
     bind_res (if_given (iq_settlementMonth input) (\<lambda>v. parseMonthStart rt v ''settlementMonth'')) (\<lambda>m.
     bind_res (if_given (iq_employeeId input) (\<lambda>v. requireNonBlank v ''employeeId'')) (\<lambda>employee.
     bind_res (if_given (iq_configId input) (\<lambda>v. requireNonBlank v ''configId'')) (\<lambda>config.
     bind_res (if_given (iq_amountRmb input) (\<lambda>v. parseDecimalString rt v ''amountRmb'' False)) (\<lambda>amount.
     bind_res (if_given (iq_remark input) (\<lambda>v. optionalNonBlank v ''remark'')) (\<lambda>remark.
     bind_res (entry_status (iq_status input) MANUAL_ITEM_STATUSES) (\<lambda>status.
     Inr \<lparr>iu_settlementMonth = m, iu_employeeId = employee, iu_configId = config, iu_amountRmb = amount,
          iu_remark = remark, iu_status = status\<rparr>))))))"

definition iu_keys :: "item_update \<Rightarrow> string list" where
  "iu_keys d = keys_given
     [(''settlementMonth'', iu_settlementMonth d \<noteq> None), (''employeeId'', iu_employeeId d \<noteq> None),
      (''configId'', iu_configId d \<noteq> None), (''amountRmb'', iu_amountRmb d \<noteq> None),
      (''remark'', iu_remark d \<noteq> None), (''status'', iu_status d \<noteq> None)]"

definition iu_apply :: "runtime \<Rightarrow> item_update \<Rightarrow> salary_manual_item \<Rightarrow> salary_manual_item" where
  "iu_apply rt d r =
     r\<lparr>si_month := or_keep (iu_settlementMonth d) (si_month r),
       si_employeeId := or_keep (iu_employeeId d) (si_employeeId r),
       si_configId := or_keep (iu_configId d) (si_configId r),
       si_amountRmb := or_keep (map_option (rt_column rt 2) (iu_amountRmb d)) (si_amountRmb r),
       si_remark := or_keep (iu_remark d) (si_remark r),
       si_status := or_keep (iu_status d) (si_status r)\<rparr>"

definition updateItem :: "runtime \<Rightarrow> string \<Rightarrow> item_request \<Rightarrow> actor \<Rightarrow> salary_manual_item handler" where
  "updateItem rt i input actor =
     op_bind (getItem i) (\<lambda>before.
     op_bind (op_lift (validateUpdateItem rt input)) (\<lambda>data.
     op_bind (assertWritable (si_write (si_month before) ''monthly_salary_manual_item.update'' (Some i)) (Some actor)) (\<lambda>_.
     op_bind (guard_if_moved (iu_settlementMonth data) (si_month before)
       (\<lambda>m. si_write m ''monthly_salary_manual_item.update'' (Some i)) actor) (\<lambda>_.
     op_bind (item_set i (iu_apply rt data)) (\<lambda>after.
     op_bind (audit_success (si_audit actor ''monthly_salary_manual_item.update'' i (si_month after)
       (changedFields si_column before after (iu_keys data)))) (\<lambda>_.
     op_return after))))))"

definition disableItem :: "string \<Rightarrow> actor \<Rightarrow> salary_manual_item handler" where
  "disableItem i actor =
     op_bind (getItem i) (\<lambda>before.
     op_bind (assertWritable (si_write (si_month before) ''monthly_salary_manual_item.disable'' (Some i)) (Some actor)) (\<lambda>_.
     op_bind (item_set i (\<lambda>r. r\<lparr>si_status := CS_disabled\<rparr>)) (\<lambda>after.
     op_bind (audit_success (si_audit actor ''monthly_salary_manual_item.disable'' i (si_month before) [''status''])) (\<lambda>_.
     op_return after))))"

section \<open>Locked months are left alone\<close>

interpretation item_table: month_table salary_items put_items si_id si_month
  by unfold_locales (auto simp: put_items_def month_scope_def)

lemmas item_operations = item_insert_def item_set_def getItem_def

lemma freezes_createItem: "freezes m (createItem rt input actor)"
  unfolding createItem_def item_operations
  by (auto intro!: freezes_bind_pure freezes_guarded freezes_bind item_table.insert_freezes
      simp: si_write_def split: prod.split)

lemma freezes_updateItem: "freezes m (updateItem rt i input actor)"
  unfolding updateItem_def item_operations
  by (rule freezes_eachI)
    (auto intro!: freezes_at_table_find freezes_at_lift freezes_at_guard freezes_at_guard_if_moved
      freezes_at_bind item_table.update_freezes_at simp: si_write_def iu_apply_def)

lemma freezes_disableItem: "freezes m (disableItem i actor)"
  unfolding disableItem_def item_operations
  by (rule freezes_eachI)
    (auto intro!: freezes_at_table_find freezes_at_guard freezes_at_bind item_table.update_freezes_at simp: si_write_def)

text \<open>A kind of items belongs to no month, so its handlers touch no month at all.\<close>

lemma freezes_config_writes [simp]: "freezes m (config_insert row)" "freezes m (config_set i f)"
  by (simp_all add: freezes_def config_insert_def config_set_def table_insert_def table_update_def put_configs_def
      month_scope_def split: option.split)

lemma freezes_getConfig [simp]: "freezes m (getConfig i)"
  by (simp add: freezes_def getConfig_def table_find_def op_bind_def split: option.split)

lemma freezes_createConfig: "freezes m (createConfig rt input actor)"
  and freezes_updateConfig: "freezes m (updateConfig i input actor)"
  and freezes_disableConfig: "freezes m (disableConfig i actor)"
  unfolding createConfig_def updateConfig_def disableConfig_def
  by (auto intro!: freezes_bind_pure freezes_catch freezes_bind split: prod.split)

end
