(* ===== verification/Manual_Income.thy ===== *)
theory Manual_Income
  imports Month_Table Settlement_Calculator
begin

text \<open>
  \<open>manual-income-records.service.ts\<close>: income entered by hand. A record counts once it is
  confirmed, which needs an employee. The handlers find records by identifier only, so they
  also reach the records of imports and of the CAKE adjustments.
\<close>

record income_request =
  nq_settlementMonth :: jsval
  nq_source :: jsval
  nq_incomeUsd :: jsval
  nq_employeeId :: jsval
  nq_affiliateAccountId :: jsval
  nq_subField :: jsval
  nq_subValue :: jsval
  nq_externalRecordId :: jsval
  nq_rawData :: jsval
  nq_status :: jsval

record income_data =
  nd_settlementMonth :: int
  nd_source :: string
  nd_incomeUsd :: rat
  nd_employeeId :: "string option"
  nd_affiliateAccountId :: "string option"
  nd_subField :: "string option"
  nd_subValue :: "string option"
  nd_externalRecordId :: "string option"
  nd_rawData :: jsval
  nd_status :: common_status

record income_update =
  nu_settlementMonth :: "int option"
  nu_source :: "string option"
  nu_incomeUsd :: "rat option"
  nu_employeeId :: "string option option"
  nu_affiliateAccountId :: "string option option"
  nu_subField :: "string option option"
  nu_subValue :: "string option option"
  nu_externalRecordId :: "string option option"
  nu_rawData :: "jsval option"
  nu_status :: "common_status option"

definition INCOME_STATUSES :: "common_status list" where
  "INCOME_STATUSES = [CS_draft, CS_confirmed, CS_disabled]"

definition ir_write :: "int \<Rightarrow> string \<Rightarrow> string option \<Rightarrow> month_write" where
  "ir_write m action i =
     \<lparr>mw_settlementMonth = m, mw_action = action, mw_objectType = ''income_records'', mw_objectId = i\<rparr>"

definition ir_audit :: "actor \<Rightarrow> string \<Rightarrow> string \<Rightarrow> int \<Rightarrow> string list \<Rightarrow> audit_input" where
  "ir_audit actor action i m changed = auditInput actor action ''income_records'' (Some i) (Some m) changed"

definition ir_column :: "income_record \<Rightarrow> string \<Rightarrow> jsval" where
  "ir_column r k =
     (if k = ''settlementMonth'' then JDate (Some (ir_month r))
      else if k = ''source'' then JString (ir_source r)
      else if k = ''incomeUsd'' then JNum (ir_incomeUsd r)
      else if k = ''employeeId'' then jstr_or_null (ir_employeeId r)
      else if k = ''affiliateAccountId'' then jstr_or_null (ir_affiliateAccountId r)
      else if k = ''subField'' then jstr_or_null (ir_subField r)
      else if k = ''subValue'' then jstr_or_null (ir_subValue r)
      else if k = ''externalRecordId'' then jstr_or_null (ir_externalRecordId r)
      else if k = ''rawData'' then ir_rawData r
      else if k = ''status'' then JString (common_status_name (ir_status r)) else JUndefined)"

text \<open>\<open>@@unique([source, externalRecordId])\<close>: rows without an external identifier never clash.\<close>

definition income_clash :: "income_record \<Rightarrow> income_record \<Rightarrow> bool" where
  "income_clash r r' \<longleftrightarrow>
     ir_source r = ir_source r' \<and> ir_externalRecordId r = ir_externalRecordId r' \<and> ir_externalRecordId r \<noteq> None"

definition put_incomes :: "income_record list \<Rightarrow> database \<Rightarrow> database" where
  "put_incomes rows db = db\<lparr>income_records := rows\<rparr>"

definition income_insert :: "income_record \<Rightarrow> income_record handler" where
  "income_insert = table_insert income_records put_incomes income_clash"

definition income_set :: "string \<Rightarrow> (income_record \<Rightarrow> income_record) \<Rightarrow> income_record handler" where
  "income_set = table_update income_records put_incomes income_clash ir_id"

text \<open>\<open>Decimal.isNegative()\<close> looks at the sign, which zero has too.\<close>

definition assertNonNegativeIncome :: "runtime \<Rightarrow> jsval \<Rightarrow> unit outcome" where
  "assertNonNegativeIncome rt v =
     (case js_string_opt v of
        None \<Rightarrow> Inr ()
      | Some s \<Rightarrow>
          (case rt_parse_decimal rt (js_trim s) of
             Some (DecFinite negative x) \<Rightarrow>
               if negative
               then Inl (AppError VALIDATION_ERROR
                 ''<manual income cannot be negative; monthly CAKE SUB differences are entered as adjustments>'')
               else Inr ()
           | _ \<Rightarrow> Inr ()))"

definition parseIncome :: "runtime \<Rightarrow> jsval \<Rightarrow> rat outcome" where
  "parseIncome rt v =
     bind_res (parseDecimalString rt v ''incomeUsd'' False) (\<lambda>x.
     bind_res (assertNonNegativeIncome rt v) (\<lambda>_. Inr x))"

definition assertConfirmedHasEmployee :: "common_status \<Rightarrow> string option \<Rightarrow> unit outcome" where
  "assertConfirmedHasEmployee status employeeId =
     (if status = CS_confirmed \<and> \<not> has_employee employeeId
      then Inl (AppError VALIDATION_ERROR ''employeeId is required when status is confirmed.'') else Inr ())"

text \<open>A JSON column takes any value but a bare null, which the client library refuses.\<close>

definition json_column :: "jsval \<Rightarrow> jsval outcome" where
  "json_column v =
     (case v of JUndefined \<Rightarrow> Inr JNull | JNull \<Rightarrow> Inl prisma_validation_error | _ \<Rightarrow> Inr v)"

definition validateCreateIncome :: "runtime \<Rightarrow> income_request \<Rightarrow> income_data outcome" where
  "validateCreateIncome rt input =
     bind_res (parseIncome rt (nq_incomeUsd input)) (\<lambda>income.
     bind_res (parseMonthStart rt (nq_settlementMonth input) ''settlementMonth'') (\<lambda>m.
     bind_res (requireNonBlank (nq_source input) ''source'') (\<lambda>source.
     bind_res (optionalNonBlank (nq_employeeId input) ''employeeId'') (\<lambda>employee.
     bind_res (optionalNonBlank (nq_affiliateAccountId input) ''affiliateAccountId'') (\<lambda>account.
     bind_res (optionalNonBlank (nq_subField input) ''subField'') (\<lambda>subField.
     bind_res (optionalNonBlank (nq_subValue input) ''subValue'') (\<lambda>subValue.
     bind_res (optionalNonBlank (nq_externalRecordId input) ''externalRecordId'') (\<lambda>external.
     bind_res (entry_status (nq_status input) INCOME_STATUSES) (\<lambda>status.
     Inr \<lparr>nd_settlementMonth = m, nd_source = source, nd_incomeUsd = income, nd_employeeId = employee,
          nd_affiliateAccountId = account, nd_subField = subField, nd_subValue = subValue,
          nd_externalRecordId = external, nd_rawData = nq_rawData input,
          nd_status = or_keep status CS_draft\<rparr>)))))))))"

definition createIncome :: "runtime \<Rightarrow> income_request \<Rightarrow> actor \<Rightarrow> income_record handler" where
  "createIncome rt input actor =
     op_bind (op_lift (validateCreateIncome rt input)) (\<lambda>d.
     op_bind (op_lift (assertConfirmedHasEmployee (nd_status d) (nd_employeeId d))) (\<lambda>_.
     op_bind (assertWritable (ir_write (nd_settlementMonth d) ''manual_income_record.create'' None) (Some actor)) (\<lambda>_.
     op_catch
       (op_bind (op_lift (json_column (nd_rawData d))) (\<lambda>raw.
        op_bind (income_insert
          \<lparr>ir_id = rt_fresh_id rt 0, ir_month = nd_settlementMonth d, ir_affiliateAccountId = nd_affiliateAccountId d,
           ir_employeeId = nd_employeeId d, ir_source = nd_source d, ir_externalRecordId = nd_externalRecordId d,
           ir_subField = nd_subField d, ir_subValue = nd_subValue d, ir_incomeUsd = rt_column rt 6 (nd_incomeUsd d),
           ir_rawData = raw, ir_status = nd_status d, ir_importedBy = Some (ac_userId actor)\<rparr>) (\<lambda>r.
        op_bind (audit_success (ir_audit actor ''manual_income_record.create'' (ir_id r) (ir_month r)
          [''settlementMonth'', ''source'', ''incomeUsd'', ''employeeId'', ''affiliateAccountId'', ''subField'',
           ''subValue'', ''externalRecordId'', ''rawData'', ''status''])) (\<lambda>_.
        op_return r))))
       (translate_duplicate ''source + externalRecordId already exists.''))))"

definition listIncomes :: "runtime \<Rightarrow> jsval \<Rightarrow> string option \<Rightarrow> jsval \<Rightarrow> income_record list handler" where
  "listIncomes rt status employeeId settlementMonth =
     op_bind (op_lift (month_filter rt settlementMonth ''settlementMonth'')) (\<lambda>month_ok.
     op_bind (op_lift (status_filter status)) (\<lambda>status_ok.
     op_get (\<lambda>db. newest_first
       (\<lambda>r. status_ok (ir_status r) \<and> (employeeId = None \<or> ir_employeeId r = employeeId) \<and> month_ok (ir_month r))
       (income_records db))))"

definition getIncome :: "string \<Rightarrow> income_record handler" where
  "getIncome i = table_find income_records ir_id ''Manual income record'' i"

definition validateUpdateIncome :: "runtime \<Rightarrow> income_request \<Rightarrow> income_update outcome" where
  "validateUpdateIncome rt input =
     bind_res (if_given (nq_settlementMonth input) (\<lambda>v. parseMonthStart rt v ''settlementMonth'')) (\<lambda>m.
     bind_res (if_given (nq_source input) (\<lambda>v. requireNonBlank v ''source'')) (\<lambda>source.
     bind_res (if_given (nq_incomeUsd input) (parseIncome rt)) (\<lambda>income.
     bind_res (if_given (nq_employeeId input) (\<lambda>v. optionalNonBlank v ''employeeId'')) (\<lambda>employee.
     bind_res (if_given (nq_affiliateAccountId input) (\<lambda>v. optionalNonBlank v ''affiliateAccountId'')) (\<lambda>account.
     bind_res (if_given (nq_subField input) (\<lambda>v. optionalNonBlank v ''subField'')) (\<lambda>subField.
     bind_res (if_given (nq_subValue input) (\<lambda>v. optionalNonBlank v ''subValue'')) (\<lambda>subValue.
     bind_res (if_given (nq_externalRecordId input) (\<lambda>v. optionalNonBlank v ''externalRecordId'')) (\<lambda>external.
     bind_res (entry_status (nq_status input) INCOME_STATUSES) (\<lambda>status.
     Inr \<lparr>nu_settlementMonth = m, nu_source = source, nu_incomeUsd = income, nu_employeeId = employee,
          nu_affiliateAccountId = account, nu_subField = subField, nu_subValue = subValue,
          nu_externalRecordId = external,
          nu_rawData = (if is_undefined (nq_rawData input) then None else Some (nq_rawData input)),
          nu_status = status\<rparr>)))))))))"

definition nu_keys :: "income_update \<Rightarrow> string list" where
  "nu_keys d = keys_given
     [(''settlementMonth'', nu_settlementMonth d \<noteq> None), (''source'', nu_source d \<noteq> None),
      (''incomeUsd'', nu_incomeUsd d \<noteq> None), (''employeeId'', nu_employeeId d \<noteq> None),
      (''affiliateAccountId'', nu_affiliateAccountId d \<noteq> None), (''subField'', nu_subField d \<noteq> None),
      (''subValue'', nu_subValue d \<noteq> None), (''externalRecordId'', nu_externalRecordId d \<noteq> None),
      (''rawData'', nu_rawData d \<noteq> None), (''status'', nu_status d \<noteq> None)]"

definition nu_apply :: "runtime \<Rightarrow> income_update \<Rightarrow> jsval option \<Rightarrow> income_record \<Rightarrow> income_record" where
  "nu_apply rt d raw r =
     r\<lparr>ir_month := or_keep (nu_settlementMonth d) (ir_month r),
       ir_source := or_keep (nu_source d) (ir_source r),
       ir_incomeUsd := or_keep (map_option (rt_column rt 6) (nu_incomeUsd d)) (ir_incomeUsd r),
       ir_employeeId := or_keep (nu_employeeId d) (ir_employeeId r),
       ir_affiliateAccountId := or_keep (nu_affiliateAccountId d) (ir_affiliateAccountId r),
       ir_subField := or_keep (nu_subField d) (ir_subField r),
       ir_subValue := or_keep (nu_subValue d) (ir_subValue r),
       ir_externalRecordId := or_keep (nu_externalRecordId d) (ir_externalRecordId r),
       ir_rawData := or_keep raw (ir_rawData r),
       ir_status := or_keep (nu_status d) (ir_status r)\<rparr>"

definition updateIncome :: "runtime \<Rightarrow> string \<Rightarrow> income_request \<Rightarrow> actor \<Rightarrow> income_record handler" where
  "updateIncome rt i input actor =
     op_bind (getIncome i) (\<lambda>before.
     op_bind (op_lift (validateUpdateIncome rt input)) (\<lambda>data.
     op_bind (op_lift (assertConfirmedHasEmployee (or_keep (nu_status data) (ir_status before))
       (or_keep (nu_employeeId data) (ir_employeeId before)))) (\<lambda>_.
     op_bind (assertWritable (ir_write (ir_month before) ''manual_income_record.update'' (Some i)) (Some actor)) (\<lambda>_.
     op_bind (guard_if_moved (nu_settlementMonth data) (ir_month before)
       (\<lambda>m. ir_write m ''manual_income_record.update'' (Some i)) actor) (\<lambda>_.
     op_catch
       (op_bind (op_lift (case nu_rawData data of None \<Rightarrow> Inr None
          | Some v \<Rightarrow> bind_res (json_column v) (\<lambda>x. Inr (Some x)))) (\<lambda>raw.
        op_bind (income_set i (nu_apply rt data raw)) (\<lambda>after.
        op_bind (audit_success (ir_audit actor ''manual_income_record.update'' i (ir_month after)
          (changedFields ir_column before after (nu_keys data)))) (\<lambda>_.
        op_return after))))
       (translate_duplicate ''source + externalRecordId already exists.''))))))"

definition confirmIncome :: "string \<Rightarrow> actor \<Rightarrow> income_record handler" where
  "confirmIncome i actor =
     op_bind (getIncome i) (\<lambda>before.
     op_bind (op_lift (assertConfirmedHasEmployee CS_confirmed (ir_employeeId before))) (\<lambda>_.
     op_bind (assertWritable (ir_write (ir_month before) ''manual_income_record.confirm'' (Some i)) (Some actor)) (\<lambda>_.
     op_bind (income_set i (\<lambda>r. r\<lparr>ir_status := CS_confirmed\<rparr>)) (\<lambda>after.
     op_bind (audit_success (ir_audit actor ''manual_income_record.confirm'' i (ir_month before) [''status''])) (\<lambda>_.
     op_return after)))))"

definition disableIncome :: "string \<Rightarrow> actor \<Rightarrow> income_record handler" where
  "disableIncome i actor =
     op_bind (getIncome i) (\<lambda>before.
     op_bind (assertWritable (ir_write (ir_month before) ''manual_income_record.disable'' (Some i)) (Some actor)) (\<lambda>_.
     op_bind (income_set i (\<lambda>r. r\<lparr>ir_status := CS_disabled\<rparr>)) (\<lambda>after.
     op_bind (audit_success (ir_audit actor ''manual_income_record.disable'' i (ir_month before) [''status''])) (\<lambda>_.
     op_return after))))"

section \<open>Locked months are left alone\<close>

interpretation income_table: month_table income_records put_incomes ir_id ir_month
  by unfold_locales (auto simp: put_incomes_def month_scope_def)

lemmas income_operations = income_insert_def income_set_def getIncome_def

lemma freezes_createIncome: "freezes m (createIncome rt input actor)"
  unfolding createIncome_def income_operations
  by (auto intro!: freezes_bind_pure freezes_guarded freezes_catch freezes_bind income_table.insert_freezes
      simp: ir_write_def)

lemma freezes_updateIncome: "freezes m (updateIncome rt i input actor)"
  unfolding updateIncome_def income_operations
  by (rule freezes_eachI)
    (auto intro!: freezes_at_table_find freezes_at_lift freezes_at_guard freezes_at_guard_if_moved freezes_at_catch
      freezes_at_bind income_table.update_freezes_at simp: ir_write_def nu_apply_def)

lemma freezes_confirmIncome: "freezes m (confirmIncome i actor)"
  and freezes_disableIncome: "freezes m (disableIncome i actor)"
  unfolding confirmIncome_def disableIncome_def income_operations
  by (rule freezes_eachI,
      auto intro!: freezes_at_table_find freezes_at_lift freezes_at_guard freezes_at_bind income_table.update_freezes_at
      simp: ir_write_def)+

section \<open>Confirmed income has an employee\<close>

text \<open>What the generation of a settlement checks again before it calculates.\<close>

definition incomes_ok :: "database \<Rightarrow> bool" where
  "incomes_ok db =
     list_all (\<lambda>r. has_employee (ir_employeeId r)) (filter (\<lambda>r. ir_status r = CS_confirmed) (income_records db))"

lemma incomes_ok_all:
  "incomes_ok db = list_all (\<lambda>r. ir_status r = CS_confirmed \<longrightarrow> has_employee (ir_employeeId r)) (income_records db)"
  by (auto simp: incomes_ok_def list_all_iff)

lemma audit_stable_incomes_ok [simp]: "audit_stable incomes_ok"
  by (simp add: audit_stable_def incomes_ok_def)

lemma incomes_insert:
  "incomes_ok db \<Longrightarrow> (ir_status r = CS_confirmed \<Longrightarrow> has_employee (ir_employeeId r)) \<Longrightarrow>
   preserves incomes_ok db (income_insert r)"
  unfolding preserves_def incomes_ok_all income_insert_def by (rule income_table.insert_all) simp_all

lemma incomes_set:
  "incomes_ok db \<Longrightarrow>
   (\<And>r. find_row (\<lambda>r. ir_id r = i) (income_records db) = Some r \<Longrightarrow> ir_status (f r) = CS_confirmed \<Longrightarrow>
      has_employee (ir_employeeId (f r))) \<Longrightarrow> preserves incomes_ok db (income_set i f)"
  unfolding preserves_def incomes_ok_all income_set_def by (rule income_table.update_all) simp_all

lemma assertConfirmedHasEmployee_Inr:
  "assertConfirmedHasEmployee s e = Inr () \<Longrightarrow> s = CS_confirmed \<Longrightarrow> has_employee e"
  by (auto simp: assertConfirmedHasEmployee_def split: if_splits)

lemma income_handlers_ok:
  assumes "incomes_ok db"
  shows "preserves incomes_ok db (createIncome rt input actor)"
    and "preserves incomes_ok db (updateIncome rt i input actor)"
    and "preserves incomes_ok db (confirmIncome i actor)"
    and "preserves incomes_ok db (disableIncome i actor)"
  using assms
  unfolding createIncome_def updateIncome_def confirmIncome_def disableIncome_def getIncome_def
  by (auto intro!: preserves_steps incomes_insert incomes_set dest!: assertConfirmedHasEmployee_Inr simp: nu_apply_def)

end
