(* ===== verification/Performance_Groups.thy ===== *)
theory Performance_Groups
  imports Month_Table Calculator_Properties Settlement_Generation
begin

text \<open>
  \<open>performance-groups.service.ts\<close>: the groups of a month and the shares of their members. The
  shares of a request add up to one, and nobody is in two groups of a month; a group and its
  members are written in one transaction.

  The elements of a \<open>members\<close> array are objects; other elements are not modelled.
\<close>

section \<open>Requests\<close>

record member_request =
  pm_employeeId :: jsval
  pm_allocationRatio :: jsval

datatype members_request =
    MembersUndefined
  | MembersOther
  | MembersArray "member_request list"

record group_request =
  pq_settlementMonth :: jsval
  pq_name :: jsval
  pq_salaryMode :: jsval
  pq_members :: members_request
  pq_status :: jsval

record group_update =
  pu_settlementMonth :: "int option"
  pu_name :: "string option"
  pu_salaryMode :: "salary_mode option"
  pu_status :: "common_status option"
  pu_members :: "(string \<times> rat) list option"

type_synonym group_view = "performance_group \<times> (string \<times> rat) list"

definition GROUP_STATUSES :: "common_status list" where
  "GROUP_STATUSES = [CS_active, CS_disabled]"

fun read_member_requests :: "runtime \<Rightarrow> string list \<Rightarrow> member_request list \<Rightarrow> (string \<times> rat) list outcome" where
  "read_member_requests rt seen [] = Inr []"
| "read_member_requests rt seen (member # rest) =
     bind_res (requireNonBlank (pm_employeeId member) ''employeeId'') (\<lambda>employeeId.
     if employeeId \<in> set seen then Inl (AppError CONFLICT ''employeeId is duplicated in members.'')
     else bind_res (parseDecimalString rt (pm_allocationRatio member) ''allocationRatio'' True) (\<lambda>ratio.
          bind_res (read_member_requests rt (employeeId # seen) rest) (\<lambda>ms. Inr ((employeeId, ratio) # ms))))"

definition validateMembers :: "runtime \<Rightarrow> members_request \<Rightarrow> (string \<times> rat) list outcome" where
  "validateMembers rt input =
     (case input of
        MembersArray (m # ms) \<Rightarrow>
          bind_res (read_member_requests rt [] (m # ms)) (\<lambda>members.
          if dec_sum (rt_round rt) (map snd members) \<noteq> 1
          then Inl (AppError VALIDATION_ERROR ''allocationRatio sum must equal 1.'')
          else Inr members)
      | _ \<Rightarrow> Inl (AppError VALIDATION_ERROR ''members must not be empty.''))"

definition validateCreateGroup ::
  "runtime \<Rightarrow> group_request \<Rightarrow> (int \<times> string \<times> common_status \<times> (string \<times> rat) list) outcome" where
  "validateCreateGroup rt input =
     bind_res (parseMonthStart rt (pq_settlementMonth input) ''settlementMonth'') (\<lambda>m.
     bind_res (validateMembers rt (pq_members input)) (\<lambda>members.
     bind_res (requireNonBlank (pq_name input) ''name'') (\<lambda>name.
     bind_res (entry_status (pq_status input) GROUP_STATUSES) (\<lambda>status.
     Inr (m, name, or_keep status CS_active, members)))))"

definition validateUpdateGroup :: "runtime \<Rightarrow> group_request \<Rightarrow> group_update outcome" where
  "validateUpdateGroup rt input =
     (if \<not> is_undefined (pq_settlementMonth input) \<and> pq_members input = MembersUndefined
      then Inl (AppError VALIDATION_ERROR ''settlementMonth change requires members replacement.'')
      else
     bind_res (if_given (pq_settlementMonth input) (\<lambda>v. parseMonthStart rt v ''settlementMonth'')) (\<lambda>m.
     bind_res (if_given (pq_name input) (\<lambda>v. requireNonBlank v ''name'')) (\<lambda>name.
     if \<not> is_undefined (pq_salaryMode input) \<and> pq_salaryMode input \<noteq> JString ''group''
     then Inl (AppError VALIDATION_ERROR ''salaryMode must be group.'')
     else
     bind_res (entry_status (pq_status input) GROUP_STATUSES) (\<lambda>status.
     bind_res (if pq_members input = MembersUndefined then Inr None
               else bind_res (validateMembers rt (pq_members input)) (\<lambda>ms. Inr (Some ms))) (\<lambda>members.
     Inr \<lparr>pu_settlementMonth = m, pu_name = name,
          pu_salaryMode = (if is_undefined (pq_salaryMode input) then None else Some SM_group),
          pu_status = status, pu_members = members\<rparr>)))))"

section \<open>Tables\<close>

definition pg_write :: "int \<Rightarrow> string \<Rightarrow> string option \<Rightarrow> month_write" where
  "pg_write m action i =
     \<lparr>mw_settlementMonth = m, mw_action = action, mw_objectType = ''monthly_performance_groups'', mw_objectId = i\<rparr>"

definition pg_audit :: "actor \<Rightarrow> string \<Rightarrow> string \<Rightarrow> int \<Rightarrow> string list \<Rightarrow> audit_input" where
  "pg_audit actor action i m changed = auditInput actor action ''monthly_performance_groups'' (Some i) (Some m) changed"

definition pg_column :: "performance_group \<Rightarrow> string \<Rightarrow> jsval" where
  "pg_column r k =
     (if k = ''settlementMonth'' then JDate (Some (pg_month r))
      else if k = ''name'' then JString (pg_name r)
      else if k = ''salaryMode'' then JString (salary_mode_name (pg_salaryMode r))
      else if k = ''status'' then JString (common_status_name (pg_status r)) else JUndefined)"

text \<open>\<open>@@unique([settlementMonth, name])\<close>\<close>

definition pg_key :: "performance_group \<Rightarrow> int \<times> string" where
  "pg_key r = (pg_month r, pg_name r)"

definition put_groups :: "performance_group list \<Rightarrow> database \<Rightarrow> database" where
  "put_groups rows db = db\<lparr>performance_groups := rows\<rparr>"

definition group_insert :: "performance_group \<Rightarrow> performance_group handler" where
  "group_insert = table_insert performance_groups put_groups (\<lambda>r r'. pg_key r = pg_key r')"

definition group_set :: "string \<Rightarrow> (performance_group \<Rightarrow> performance_group) \<Rightarrow> performance_group handler" where
  "group_set = table_update performance_groups put_groups (\<lambda>r r'. pg_key r = pg_key r') pg_id"

text \<open>\<open>@@unique([settlementMonth, employeeId])\<close> and \<open>@@unique([groupId, employeeId])\<close>\<close>

definition gm_key :: "group_member \<Rightarrow> int \<times> string" where
  "gm_key r = (gm_month r, gm_employeeId r)"

definition gm_group_key :: "group_member \<Rightarrow> string \<times> string" where
  "gm_group_key r = (gm_groupId r, gm_employeeId r)"

definition member_rows :: "runtime \<Rightarrow> int \<Rightarrow> string \<Rightarrow> (string \<times> rat) list \<Rightarrow> group_member list" where
  "member_rows rt m groupId members =
     map (\<lambda>(e, x). \<lparr>gm_month = m, gm_groupId = groupId, gm_employeeId = e, gm_allocationRatio = rt_column rt 6 x\<rparr>) members"

definition members_createMany :: "group_member list \<Rightarrow> unit handler" where
  "members_createMany rows db =
     (if distinct (map gm_key (group_members db @ rows)) \<and> distinct (map gm_group_key (group_members db @ rows))
      then (Inr (), db\<lparr>group_members := group_members db @ rows\<rparr>)
      else (Inl (PrismaKnownError ''P2002''), db))"

definition members_deleteMany :: "string \<Rightarrow> unit handler" where
  "members_deleteMany groupId = op_modify (\<lambda>db. db\<lparr>group_members := filter (\<lambda>r. gm_groupId r \<noteq> groupId) (group_members db)\<rparr>)"

definition group_view_of :: "database \<Rightarrow> performance_group \<Rightarrow> group_view" where
  "group_view_of db g =
     (g, map (\<lambda>r. (gm_employeeId r, gm_allocationRatio r)) (filter (\<lambda>r. gm_groupId r = pg_id g) (group_members db)))"

lemma member_rows_month: "r \<in> set (member_rows rt m g members) \<Longrightarrow> gm_month r = m"
  by (auto simp: member_rows_def)

section \<open>Handlers\<close>

definition assertNoDuplicateEmployees :: "int \<Rightarrow> string list \<Rightarrow> string option \<Rightarrow> unit handler" where
  "assertNoDuplicateEmployees m employeeIds excludeGroupId =
     op_bind (op_get (\<lambda>db. find_row (\<lambda>r. gm_month r = m \<and> gm_employeeId r \<in> set employeeIds
         \<and> (case excludeGroupId of None \<Rightarrow> True | Some g \<Rightarrow> gm_groupId r \<noteq> g)) (group_members db))) (\<lambda>existing.
     op_assert (existing = None)
       (AppError CONFLICT ''employee already belongs to a performance group for this month.''))"

definition GROUP_DUPLICATE :: string where
  "GROUP_DUPLICATE = ''performance group name or employee membership already exists for this month.''"

text \<open>The bodies of the two transactions.\<close>

definition create_group_tx ::
  "runtime \<Rightarrow> int \<Rightarrow> string \<Rightarrow> common_status \<Rightarrow> (string \<times> rat) list \<Rightarrow> actor \<Rightarrow> group_view handler" where
  "create_group_tx rt m name status members actor =
     op_bind (assertNoDuplicateEmployees m (map fst members) None) (\<lambda>_.
     op_bind (group_insert
       \<lparr>pg_id = rt_fresh_id rt 0, pg_month = m, pg_name = name, pg_salaryMode = SM_group, pg_status = status,
        pg_createdBy = ac_userId actor\<rparr>) (\<lambda>g.
     op_bind (if members = [] then op_return () else members_createMany (member_rows rt m (pg_id g) members)) (\<lambda>_.
     op_bind (audit_success (pg_audit actor ''performance_group.create'' (pg_id g) (pg_month g)
       [''settlementMonth'', ''name'', ''salaryMode'', ''status'', ''members''])) (\<lambda>_.
     op_return (g, members)))))"

definition createGroup :: "runtime \<Rightarrow> group_request \<Rightarrow> actor \<Rightarrow> group_view handler" where
  "createGroup rt input actor =
     op_bind (op_lift (validateCreateGroup rt input)) (\<lambda>(m, name, status, members).
     op_bind (assertWritable (pg_write m ''performance_group.create'' None) (Some actor)) (\<lambda>_.
     op_catch (op_transaction (create_group_tx rt m name status members actor))
       (translate_duplicate GROUP_DUPLICATE)))"

definition listGroups :: "runtime \<Rightarrow> jsval \<Rightarrow> jsval \<Rightarrow> group_view list handler" where
  "listGroups rt status settlementMonth =
     op_bind (op_lift (month_filter rt settlementMonth ''settlementMonth'')) (\<lambda>month_ok.
     op_bind (op_lift (status_filter status)) (\<lambda>status_ok.
     op_get (\<lambda>db. map (group_view_of db)
       (newest_first (\<lambda>r. status_ok (pg_status r) \<and> month_ok (pg_month r)) (performance_groups db)))))"

definition getGroup :: "string \<Rightarrow> group_view handler" where
  "getGroup i =
     op_bind (table_find performance_groups pg_id ''Performance group'' i) (\<lambda>g.
     op_get (\<lambda>db. group_view_of db g))"

definition pu_keys :: "group_update \<Rightarrow> string list" where
  "pu_keys d = keys_given
     [(''settlementMonth'', pu_settlementMonth d \<noteq> None), (''name'', pu_name d \<noteq> None),
      (''salaryMode'', pu_salaryMode d \<noteq> None), (''status'', pu_status d \<noteq> None)]"

definition pu_apply :: "group_update \<Rightarrow> performance_group \<Rightarrow> performance_group" where
  "pu_apply d r =
     r\<lparr>pg_month := or_keep (pu_settlementMonth d) (pg_month r), pg_name := or_keep (pu_name d) (pg_name r),
       pg_salaryMode := or_keep (pu_salaryMode d) (pg_salaryMode r), pg_status := or_keep (pu_status d) (pg_status r)\<rparr>"

definition replace_members :: "runtime \<Rightarrow> int \<Rightarrow> string \<Rightarrow> (string \<times> rat) list \<Rightarrow> unit handler" where
  "replace_members rt m i members =
     op_bind (members_deleteMany i) (\<lambda>_. members_createMany (member_rows rt m i members))"

definition update_group_tx :: "runtime \<Rightarrow> string \<Rightarrow> group_update \<Rightarrow> group_view \<Rightarrow> actor \<Rightarrow> group_view handler" where
  "update_group_tx rt i data before actor =
     op_bind (case pu_members data of None \<Rightarrow> op_return ()
       | Some ms \<Rightarrow> assertNoDuplicateEmployees (or_keep (pu_settlementMonth data) (pg_month (fst before)))
           (map fst ms) (Some i)) (\<lambda>_.
     op_bind (group_set i (pu_apply data)) (\<lambda>g.
     op_bind (case pu_members data of None \<Rightarrow> op_return ()
       | Some ms \<Rightarrow> replace_members rt (pg_month g) i ms) (\<lambda>_.
     op_bind (audit_success (pg_audit actor ''performance_group.update'' i (pg_month g)
       (changedFields pg_column (fst before) g (pu_keys data)
        @ (if pu_members data = None then [] else [''members''])))) (\<lambda>_.
     op_return (g, or_keep (pu_members data) (snd before))))))"

definition updateGroup :: "runtime \<Rightarrow> string \<Rightarrow> group_request \<Rightarrow> actor \<Rightarrow> group_view handler" where
  "updateGroup rt i input actor =
     op_bind (getGroup i) (\<lambda>before.
     op_bind (op_lift (validateUpdateGroup rt input)) (\<lambda>data.
     op_bind (assertWritable (pg_write (pg_month (fst before)) ''performance_group.update'' (Some i)) (Some actor)) (\<lambda>_.
     op_bind (guard_if_moved (pu_settlementMonth data) (pg_month (fst before))
       (\<lambda>m. pg_write m ''performance_group.update'' (Some i)) actor) (\<lambda>_.
     op_catch (op_transaction (update_group_tx rt i data before actor))
       (translate_duplicate GROUP_DUPLICATE)))))"

definition disableGroup :: "string \<Rightarrow> actor \<Rightarrow> group_view handler" where
  "disableGroup i actor =
     op_bind (getGroup i) (\<lambda>(before, beforeMembers).
     op_bind (assertWritable (pg_write (pg_month before) ''performance_group.disable'' (Some i)) (Some actor)) (\<lambda>_.
     op_bind (group_set i (\<lambda>r. r\<lparr>pg_status := CS_disabled\<rparr>)) (\<lambda>g.
     op_bind (audit_success (pg_audit actor ''performance_group.disable'' i (pg_month before) [''status''])) (\<lambda>_.
     op_return (g, beforeMembers)))))"

section \<open>What the transactions write\<close>

lemma create_group_tx_eq:
  assumes "create_group_tx rt m name status members actor db = (Inr v, db')"
  shows "\<exists>g logs. g = \<lparr>pg_id = rt_fresh_id rt 0, pg_month = m, pg_name = name, pg_salaryMode = SM_group,
        pg_status = status, pg_createdBy = ac_userId actor\<rparr>
    \<and> db' = db\<lparr>performance_groups := performance_groups db @ [g],
               group_members := group_members db @ member_rows rt m (pg_id g) members, audit_logs := logs\<rparr>
    \<and> distinct (map gm_key (group_members db)) = distinct (map gm_key (group_members db'))"
  using assms
  by (auto simp: create_group_tx_def op_bind_eq_Inr assertNoDuplicateEmployees_def op_assert_def group_insert_def
      table_insert_def put_groups_def members_createMany_def member_rows_def split: if_splits)

lemma create_group_tx_writes:
  assumes "create_group_tx rt m name status members actor db = (Inr v, db')"
  obtains g :: performance_group and logs
  where "pg_id g = rt_fresh_id rt 0" "pg_month g = m"
    and "db' = db\<lparr>performance_groups := performance_groups db @ [g],
               group_members := group_members db @ member_rows rt m (pg_id g) members, audit_logs := logs\<rparr>"
    and "distinct (map gm_key (group_members db)) = distinct (map gm_key (group_members db'))"
proof -
  obtain g :: performance_group and logs where g: "g = \<lparr>pg_id = rt_fresh_id rt 0, pg_month = m, pg_name = name,
        pg_salaryMode = SM_group, pg_status = status, pg_createdBy = ac_userId actor\<rparr>"
    and "db' = db\<lparr>performance_groups := performance_groups db @ [g],
               group_members := group_members db @ member_rows rt m (pg_id g) members, audit_logs := logs\<rparr>"
    and "distinct (map gm_key (group_members db)) = distinct (map gm_key (group_members db'))"
    using create_group_tx_eq [OF assms] by (elim exE conjE) (rule that, assumption+)
  moreover have "pg_id g = rt_fresh_id rt 0" "pg_month g = m" using g by simp_all
  ultimately show ?thesis using that by blast
qed

lemma update_group_tx_writes:
  assumes "update_group_tx rt i data before actor db = (Inr v, db')"
  shows "\<exists>g logs. find_row (\<lambda>r. pg_id r = i) (performance_groups db) = Some g
    \<and> db' = db\<lparr>performance_groups := update_first (\<lambda>r. pg_id r = i) (pu_apply data) (performance_groups db),
               group_members := (case pu_members data of None \<Rightarrow> group_members db
                 | Some ms \<Rightarrow> filter (\<lambda>r. gm_groupId r \<noteq> i) (group_members db)
                     @ member_rows rt (pg_month (pu_apply data g)) i ms), audit_logs := logs\<rparr>
    \<and> (pu_members data = None \<or> distinct (map gm_key (group_members db')))"
proof -
  obtain g where g: "find_row (\<lambda>r. pg_id r = i) (performance_groups db) = Some g"
    using assms
    by (auto simp: update_group_tx_def op_bind_eq_Inr assertNoDuplicateEmployees_def op_assert_def group_set_def
        table_update_def split: option.splits if_splits)
  then show ?thesis
    using assms
    by (auto simp: update_group_tx_def op_bind_eq_Inr assertNoDuplicateEmployees_def op_assert_def group_set_def
        table_update_def put_groups_def replace_members_def members_deleteMany_def members_createMany_def
        split: option.splits if_splits)
qed

section \<open>Invariants\<close>

text \<open>Every member row belongs to a group of its month.\<close>

definition groups_linked :: "database \<Rightarrow> bool" where
  "groups_linked db \<longleftrightarrow> distinct (map pg_id (performance_groups db))
     \<and> list_all (\<lambda>r. list_ex (\<lambda>g. pg_id g = gm_groupId r \<and> pg_month g = gm_month r) (performance_groups db))
         (group_members db)"

definition shares :: "string \<Rightarrow> database \<Rightarrow> rat list" where
  "shares g db = map gm_allocationRatio (filter (\<lambda>r. gm_groupId r = g) (group_members db))"

text \<open>The shares of a group are non-negative, have six decimals and add up to exactly one.\<close>

definition shares_ok :: "rat list \<Rightarrow> bool" where
  "shares_ok xs \<longleftrightarrow> list_all (\<lambda>x. scaled 6 x \<and> 0 \<le> x) xs \<and> sum_list xs = 1"

definition groups_ok :: "database \<Rightarrow> bool" where
  "groups_ok db \<longleftrightarrow> groups_linked db \<and> distinct (map gm_key (group_members db))
     \<and> list_all (\<lambda>g. shares_ok (shares (pg_id g) db)) (performance_groups db)"

lemma linked_month:
  assumes "groups_linked db" "find_row (\<lambda>r. pg_id r = i) (performance_groups db) = Some g"
    and "r \<in> set (group_members db)" "gm_groupId r = i"
  shows "gm_month r = pg_month g"
proof -
  obtain g' where "g' \<in> set (performance_groups db)" "pg_id g' = i" "pg_month g' = gm_month r"
    using assms by (auto simp: groups_linked_def list_all_iff list_ex_iff)
  moreover have "g \<in> set (performance_groups db)" "pg_id g = i" using find_row_Some [OF assms(2)] by auto
  moreover have "inj_on pg_id (set (performance_groups db))" using assms(1) by (simp add: groups_linked_def distinct_map)
  ultimately show ?thesis by (metis inj_onD)
qed

lemma linked_group_exists:
  "groups_linked db \<Longrightarrow> r \<in> set (group_members db) \<Longrightarrow> gm_groupId r \<in> pg_id ` set (performance_groups db)"
  by (force simp: groups_linked_def list_all_iff list_ex_iff)

lemma validateUpdateGroup_month:
  "validateUpdateGroup rt input = Inr d \<Longrightarrow> pu_members d = None \<Longrightarrow> pu_settlementMonth d = None"
  by (auto simp: validateUpdateGroup_def bind_res_Inr_iff if_given_def split: if_splits)

text \<open>The transactions keep every member in a group of its month, returning or not.\<close>

lemma create_group_tx_linked:
  assumes h: "create_group_tx rt k name status members actor db = (Inr v, db')" and ok: "groups_linked db"
    and fresh: "rt_fresh_id rt 0 \<notin> pg_id ` set (performance_groups db)"
  shows "groups_linked db'"
  by (rule create_group_tx_writes [OF h])
    (use ok fresh in \<open>auto simp: groups_linked_def list_all_iff list_ex_iff member_rows_def\<close>)

lemma update_group_tx_linked:
  assumes v: "validateUpdateGroup rt input = Inr data" and ok: "groups_linked db"
    and h: "update_group_tx rt i data before actor db = (Inr v, db')"
  shows "groups_linked db'"
proof -
  obtain g :: performance_group and logs where g: "find_row (\<lambda>r. pg_id r = i) (performance_groups db) = Some g"
    and db': "db' = db\<lparr>performance_groups := update_first (\<lambda>r. pg_id r = i) (pu_apply data) (performance_groups db),
               group_members := (case pu_members data of None \<Rightarrow> group_members db
                 | Some ms \<Rightarrow> filter (\<lambda>r. gm_groupId r \<noteq> i) (group_members db)
                     @ member_rows rt (pg_month (pu_apply data g)) i ms), audit_logs := logs\<rparr>"
    using update_group_tx_writes [OF h] by (elim exE conjE) (rule that, assumption+)
  have gi: "pg_id g = i" using find_row_Some [OF g] by simp
  have in_db': "h \<in> set (performance_groups db) \<Longrightarrow> pg_id h \<noteq> i \<Longrightarrow> h \<in> set (performance_groups db')" for h
    by (simp add: db' in_update_first_other)
  have hit: "pu_apply data g \<in> set (performance_groups db')" by (simp add: db' in_update_first_hit [OF g])
  have linked: "\<exists>h \<in> set (performance_groups db'). pg_id h = gm_groupId r \<and> pg_month h = gm_month r"
    if r: "r \<in> set (group_members db')" for r
  proof (cases "gm_groupId r = i")
    case True
    have same: "pu_members data = None \<Longrightarrow> pg_month (pu_apply data g) = pg_month g"
      using validateUpdateGroup_month [OF v] by (simp add: pu_apply_def or_keep_def)
    have "r \<in> set (group_members db) \<and> pu_members data = None
        \<or> (\<exists>ms. r \<in> set (member_rows rt (pg_month (pu_apply data g)) i ms))"
      using r True by (auto simp: db' split: option.splits)
    then have "gm_month r = pg_month (pu_apply data g)"
      using linked_month [OF ok g, of r] same True member_rows_month by auto
    moreover have "pg_id (pu_apply data g) = pg_id g" by (simp add: pu_apply_def)
    ultimately show ?thesis using hit True gi by metis
  next
    case False
    then have "r \<in> set (group_members db)" using r by (auto simp: db' member_rows_def split: option.splits)
    then obtain h where "h \<in> set (performance_groups db)" "pg_id h = gm_groupId r" "pg_month h = gm_month r"
      using ok by (auto simp: groups_linked_def list_all_iff list_ex_iff)
    then show ?thesis using in_db' False by metis
  qed
  have "map pg_id (performance_groups db') = map pg_id (performance_groups db)"
    by (simp add: db' pu_apply_def map_update_first_same)
  then have "distinct (map pg_id (performance_groups db'))" using ok by (simp add: groups_linked_def)
  then show ?thesis using linked by (simp add: groups_linked_def list_all_iff list_ex_iff)
qed

text \<open>Updating a group in place, with its identifier and its month, keeps every link.\<close>

lemma put_groups_linked:
  assumes "groups_linked db" and "\<And>g. pg_id (f g) = pg_id g" "\<And>g. pg_month (f g) = pg_month g"
  shows "groups_linked (put_groups (update_first p f (performance_groups db)) db)"
proof -
  have ids: "map (\<lambda>g. (pg_id g, pg_month g)) (update_first p f rows) = map (\<lambda>g. (pg_id g, pg_month g)) rows" for rows
    using assms(2,3) by (simp add: map_update_first_same)
  have pids: "map pg_id (update_first p f rows) = map pg_id rows" for rows
    using assms(2) by (simp add: map_update_first_same)
  have key: "list_ex (\<lambda>g. pg_id g = j \<and> pg_month g = k) rows = ((j, k) \<in> set (map (\<lambda>g. (pg_id g, pg_month g)) rows))"
    for j k and rows :: "performance_group list"
    by (auto simp: list_ex_iff)
  show ?thesis using assms(1) unfolding groups_linked_def put_groups_def key by (simp add: ids pids del: set_map)
qed

section \<open>Locked months are left alone\<close>

text \<open>Replacing members deletes by group only, so this needs every member in the month of its group.\<close>

interpretation group_table: month_table performance_groups put_groups pg_id pg_month
  by unfold_locales (auto simp: put_groups_def month_scope_def)

lemma getGroup_bind:
  "op_bind (getGroup i) f db =
     (case find_row (\<lambda>r. pg_id r = i) (performance_groups db) of
        None \<Rightarrow> (Inl (notFound ''Performance group''), db) | Some g \<Rightarrow> f (group_view_of db g) db)"
  by (simp add: getGroup_def table_find_def op_bind_def split: option.split)

lemma fst_group_view [simp]: "fst (group_view_of db g) = g"
  by (simp add: group_view_of_def)

lemma freezes_at_getGroup:
  "(\<And>g. find_row (\<lambda>r. pg_id r = i) (performance_groups db) = Some g \<Longrightarrow> freezes_at m db (f (group_view_of db g))) \<Longrightarrow>
   freezes_at m db (op_bind (getGroup i) f)"
  by (simp add: freezes_at_def getGroup_bind split: option.split)

lemma preserves_getGroup:
  "I db \<Longrightarrow> (\<And>g. find_row (\<lambda>r. pg_id r = i) (performance_groups db) = Some g \<Longrightarrow> preserves I db (f (group_view_of db g))) \<Longrightarrow>
   preserves I db (op_bind (getGroup i) f)"
  by (simp add: preserves_def getGroup_bind split: option.split)

lemma scope_groups:
  assumes "filter (\<lambda>r. pg_month r = m) gs = filter (\<lambda>r. pg_month r = m) (performance_groups db)"
    and "filter (\<lambda>r. gm_month r = m) ms = filter (\<lambda>r. gm_month r = m) (group_members db)"
  shows "month_scope m (db\<lparr>performance_groups := gs, group_members := ms\<rparr>) = month_scope m db"
  using assms by (simp add: month_scope_def)

lemma filter_member_rows: "m \<noteq> n \<Longrightarrow> filter (\<lambda>r. gm_month r = m) (member_rows rt n g members) = []"
  by (auto simp: member_rows_def filter_empty_conv)

lemma freezes_createGroup: "freezes m (createGroup rt input actor)"
proof (rule freezes_eachI)
  fix db
  show "freezes_at m db (createGroup rt input actor)"
    unfolding createGroup_def
  proof (intro freezes_at_lift, clarsimp split: prod.split, intro freezes_at_guard freezes_at_catch freezes_at_transaction_ok)
    fix k name status members v db'
    assume k: "mw_settlementMonth (pg_write k ''performance_group.create'' None) \<noteq> m"
      and h: "create_group_tx rt k name status members actor db = (Inr v, db')"
    then have n: "k \<noteq> m" by (simp add: pg_write_def)
    show "month_scope m db' = month_scope m db"
      by (rule create_group_tx_writes [OF h]) (use n in \<open>simp add: scope_groups filter_member_rows\<close>)
  qed simp
qed

lemma update_group_tx_scope:
  assumes h: "update_group_tx rt i data before actor db = (Inr v, db')" and "groups_linked db"
    and g: "find_row (\<lambda>r. pg_id r = i) (performance_groups db) = Some g"
    and m: "pg_month g \<noteq> m" "or_keep (pu_settlementMonth data) (pg_month g) \<noteq> m"
  shows "month_scope m db' = month_scope m db"
proof -
  have other: "filter (\<lambda>r. gm_month r = m) (filter (\<lambda>r. gm_groupId r \<noteq> i) (group_members db))
      = filter (\<lambda>r. gm_month r = m) (group_members db)"
    using linked_month [OF assms(2) g] m(1) by (auto simp: filter_filter intro!: filter_cong)
  have "filter (\<lambda>r. pg_month r = m) (update_first (\<lambda>r. pg_id r = i) (pu_apply data) (performance_groups db))
      = filter (\<lambda>r. pg_month r = m) (performance_groups db)"
    using m by (intro filter_update_first_other [OF g]) (simp_all add: pu_apply_def)
  moreover have "filter (\<lambda>r. gm_month r = m) (member_rows rt (pg_month (pu_apply data g)) i ms) = []" for ms
    using m(2) by (intro filter_member_rows) (simp add: pu_apply_def)
  ultimately show ?thesis
    using update_group_tx_writes [OF h] g other by (auto simp: month_scope_def split: option.split)
qed

lemma freezes_at_updateGroup:
  assumes "groups_linked db"
  shows "freezes_at m db (updateGroup rt i input actor)"
  unfolding updateGroup_def
proof (intro freezes_at_getGroup freezes_at_lift freezes_at_guard freezes_at_guard_if_moved freezes_at_catch
      freezes_at_transaction_ok)
  fix g data v db'
  assume g: "find_row (\<lambda>r. pg_id r = i) (performance_groups db) = Some g"
    and m: "mw_settlementMonth (pg_write (pg_month (fst (group_view_of db g))) ''performance_group.update'' (Some i)) \<noteq> m"
    and k: "or_keep (pu_settlementMonth data) (pg_month (fst (group_view_of db g))) \<noteq> pg_month (fst (group_view_of db g)) \<Longrightarrow>
      mw_settlementMonth (pg_write (or_keep (pu_settlementMonth data) (pg_month (fst (group_view_of db g))))
        ''performance_group.update'' (Some i)) \<noteq> m"
    and h: "update_group_tx rt i data (group_view_of db g) actor db = (Inr v, db')"
  show "month_scope m db' = month_scope m db"
    by (rule update_group_tx_scope [OF h assms g]) (use m k in \<open>auto simp: pg_write_def\<close>)
qed simp

lemma freezes_disableGroup: "freezes m (disableGroup i actor)"
  unfolding disableGroup_def group_set_def
  by (rule freezes_eachI)
    (auto intro!: freezes_at_getGroup freezes_at_guard freezes_at_bind group_table.update_freezes_at
      simp: pg_write_def group_view_of_def)

section \<open>Shares stay exact\<close>

text \<open>Every share of the request has at most the six decimals the column keeps.\<close>

definition exact_shares :: "runtime \<Rightarrow> members_request \<Rightarrow> bool" where
  "exact_shares rt input =
     (case input of
        MembersArray ms \<Rightarrow>
          list_all (\<lambda>m. case parseDecimalString rt (pm_allocationRatio m) ''allocationRatio'' True of
            Inl e \<Rightarrow> True | Inr x \<Rightarrow> scaled 6 x) ms
      | _ \<Rightarrow> True)"

text \<open>A rounded sum of such shares that is one is the exact sum.\<close>

lemma dec_sum_one_exact:
  assumes rnd: "decimal_rounding rnd digits"
    and "list_all (\<lambda>x. scaled 6 x \<and> 0 \<le> x) xs" "dec_sum rnd xs \<le> 1"
  shows "dec_sum rnd xs = sum_list xs"
  using assms(2,3)
proof (induction xs rule: rev_induct)
  case (snoc x xs)
  let ?d = "dec_sum rnd xs"
  have x: "scaled 6 x" "0 \<le> x" and xs: "list_all (\<lambda>x. scaled 6 x \<and> 0 \<le> x) xs" using snoc.prems(1) by simp_all
  have s: "dec_sum rnd (xs @ [x]) = rnd (?d + x)" by (simp add: dec_sum_def dec_plus_def)
  have fix_d: "rnd ?d = ?d"
    using decimal_rounding.rnd_idem [OF rnd] decimal_rounding.rnd_minus [OF rnd, of 0]
    by (cases xs rule: rev_cases) (simp_all add: dec_sum_def dec_plus_def)
  have "rnd ?d \<le> rnd (?d + x)" using x(2) by (intro decimal_rounding.rnd_mono [OF rnd]) simp
  then have d: "?d \<le> 1" using snoc.prems(2) s fix_d by linarith
  then have IH: "?d = sum_list xs" using snoc.IH xs by blast
  have sum: "scaled 6 (sum_list xs)" "0 \<le> sum_list xs"
    using xs by (auto simp: list_all_iff intro!: scaled_sum_list sum_list_nonneg)
  have ten: "(10::rat) ^ 7 \<le> 10 ^ digits"
    using decimal_rounding.digits_pos [OF rnd] by (intro power_increasing) simp_all
  have small: "\<bar>y\<bar> * 10 ^ 6 < 10 ^ digits" if "\<bar>y\<bar> \<le> 3" for y :: rat
    using that ten by (auto intro: order_less_le_trans [of _ "10 ^ 7"])
  have "x \<le> 1"
  proof (rule ccontr)
    assume "\<not> x \<le> 1"
    moreover obtain k where k: "x = of_int k / 10 ^ 6" using x(1) unfolding scaled_def by blast
    ultimately have "(1000001::int) \<le> k" by (simp add: field_simps)
    then have "1000001 / 10 ^ 6 \<le> x" using k by (simp add: field_simps)
    then have "rnd (1000001 / 10 ^ 6) \<le> rnd (?d + x)"
      using sum(2) IH by (intro decimal_rounding.rnd_mono [OF rnd]) linarith
    moreover have "scaled 6 (1000001 / 10 ^ 6)" unfolding scaled_def by (rule exI [of _ 1000001]) simp
    then have "rnd (1000001 / 10 ^ 6) = 1000001 / 10 ^ 6"
      by (rule decimal_rounding.rnd_exact [OF rnd _ small]) simp
    ultimately show False using snoc.prems(2) s by simp
  qed
  then have "\<bar>?d + x\<bar> \<le> 3" using d sum(2) IH x(2) by simp
  then have "rnd (?d + x) = ?d + x"
    using IH sum(1) x(1) by (intro decimal_rounding.rnd_exact [OF rnd, of 6] small) auto
  then show ?case using s IH by simp
qed (simp add: dec_sum_def)

lemma read_member_requests_ok:
  assumes "read_member_requests rt seen ms = Inr members"
    and "list_all (\<lambda>m. case parseDecimalString rt (pm_allocationRatio m) ''allocationRatio'' True of
          Inl e \<Rightarrow> True | Inr x \<Rightarrow> scaled 6 x) ms"
  shows "list_all (\<lambda>x. scaled 6 x \<and> 0 \<le> x) (map snd members)"
  using assms
  by (induction rt seen ms arbitrary: members rule: read_member_requests.induct)
    (auto simp: bind_res_Inr_iff split: if_splits dest: parseDecimalString_Inr(1))

lemma validateMembers_shares:
  assumes rnd: "decimal_rounding (rt_round rt) digits" and col: "column_rounding (rt_column rt)"
    and v: "validateMembers rt input = Inr members" and e: "exact_shares rt input"
  shows "shares_ok (map gm_allocationRatio (member_rows rt m g members))"
proof -
  obtain ms where ms: "read_member_requests rt [] ms = Inr members" "dec_sum (rt_round rt) (map snd members) = 1"
      "input = MembersArray ms"
    using v by (auto simp: validateMembers_def bind_res_Inr_iff simp del: read_member_requests.simps
        split: members_request.splits list.splits if_splits)
  have s: "list_all (\<lambda>x. scaled 6 x \<and> 0 \<le> x) (map snd members)"
    using read_member_requests_ok [OF ms(1)] e ms(3) by (simp add: exact_shares_def)
  then have "sum_list (map snd members) = 1"
    using dec_sum_one_exact [OF rnd s] ms(2) by simp
  moreover have "map gm_allocationRatio (member_rows rt m g members) = map snd members"
    using s column_rounding.col_exact [OF col] by (auto simp: member_rows_def list_all_iff)
  ultimately show ?thesis using s by (simp add: shares_ok_def)
qed

inductive group_step :: "runtime \<Rightarrow> database \<Rightarrow> database \<Rightarrow> bool" for rt where
  create: "rt_fresh_id rt 0 \<notin> pg_id ` set (performance_groups db) \<Longrightarrow> exact_shares rt (pq_members input) \<Longrightarrow>
     group_step rt db (snd (createGroup rt input actor db))"
| update: "exact_shares rt (pq_members input) \<Longrightarrow> group_step rt db (snd (updateGroup rt i input actor db))"
| disable: "group_step rt db (snd (disableGroup i actor db))"

lemma audit_stable_groups_ok [simp]: "audit_stable groups_ok"
  by (simp add: audit_stable_def groups_ok_def groups_linked_def shares_def)

lemma create_group_ok:
  assumes rnd: "decimal_rounding (rt_round rt) digits" and col: "column_rounding (rt_column rt)" and ok: "groups_ok db"
    and fresh: "rt_fresh_id rt 0 \<notin> pg_id ` set (performance_groups db)" and e: "exact_shares rt (pq_members input)"
  shows "preserves groups_ok db (createGroup rt input actor)"
  unfolding createGroup_def
proof (intro preserves_lift ok, clarsimp split: prod.split,
    intro preserves_guard preserves_catch preserves_transaction_ok ok)
  fix k name status members v db'
  assume v: "validateCreateGroup rt input = Inr (k, name, status, members)"
    and h: "create_group_tx rt k name status members actor db = (Inr v, db')"
  obtain g :: performance_group and logs where g: "pg_id g = rt_fresh_id rt 0" "pg_month g = k"
    and db': "db' = db\<lparr>performance_groups := performance_groups db @ [g],
               group_members := group_members db @ member_rows rt k (pg_id g) members, audit_logs := logs\<rparr>"
    and d0: "distinct (map gm_key (group_members db)) = distinct (map gm_key (group_members db'))"
    using create_group_tx_writes [OF h] .
  have d: "distinct (map gm_key (group_members db'))"
    using d0 ok unfolding groups_ok_def by simp
  have "gm_groupId r \<noteq> pg_id g" if "r \<in> set (group_members db)" for r
    using linked_group_exists [OF _ that] ok fresh g(1) by (metis groups_ok_def)
  then have none: "filter (\<lambda>r. gm_groupId r = pg_id g) (group_members db) = []"
    by (simp add: filter_empty_conv)
  have "shares_ok (map gm_allocationRatio (member_rows rt k (pg_id g) members))"
    using v by (intro validateMembers_shares [OF rnd col _ e]) (auto simp: validateCreateGroup_def bind_res_Inr_iff)
  moreover have "filter (\<lambda>r. gm_groupId r = pg_id g) (member_rows rt k (pg_id g) members) = member_rows rt k (pg_id g) members"
    by (auto simp: member_rows_def filter_id_conv)
  ultimately have new: "shares_ok (shares (pg_id g) db')" using none by (simp add: shares_def db')
  have old: "shares (pg_id h) db' = shares (pg_id h) db" if "h \<in> set (performance_groups db)" for h :: performance_group
    using that fresh g by (auto simp: shares_def db' member_rows_def filter_empty_conv image_iff)
  show "groups_ok db'"
    unfolding groups_ok_def
  proof (intro conjI d)
    show "groups_linked db'" using create_group_tx_linked [OF h _ fresh] ok by (simp add: groups_ok_def)
    show "list_all (\<lambda>g. shares_ok (shares (pg_id g) db')) (performance_groups db')"
      using ok new old by (auto simp: groups_ok_def db' list_all_iff)
  qed
qed simp_all

lemma update_group_ok:
  assumes rnd: "decimal_rounding (rt_round rt) digits" and col: "column_rounding (rt_column rt)" and ok: "groups_ok db"
    and e: "exact_shares rt (pq_members input)"
  shows "preserves groups_ok db (updateGroup rt i input actor)"
  unfolding updateGroup_def
proof (intro preserves_getGroup preserves_lift preserves_guard preserves_guard_if_moved preserves_catch
    preserves_transaction_ok ok)
  fix g0 :: performance_group and data v db'
  assume v: "validateUpdateGroup rt input = Inr data"
    and h: "update_group_tx rt i data (group_view_of db g0) actor db = (Inr v, db')"
  obtain g :: performance_group and logs where g: "find_row (\<lambda>r. pg_id r = i) (performance_groups db) = Some g"
    and db': "db' = db\<lparr>performance_groups := update_first (\<lambda>r. pg_id r = i) (pu_apply data) (performance_groups db),
               group_members := (case pu_members data of None \<Rightarrow> group_members db
                 | Some ms \<Rightarrow> filter (\<lambda>r. gm_groupId r \<noteq> i) (group_members db)
                     @ member_rows rt (pg_month (pu_apply data g)) i ms), audit_logs := logs\<rparr>"
    and d: "pu_members data = None \<or> distinct (map gm_key (group_members db'))"
    using update_group_tx_writes [OF h] by (elim exE conjE) (rule that, assumption+)
  have gi: "pg_id g = i" "g \<in> set (performance_groups db)" using find_row_Some [OF g] by auto
  have others: "filter (\<lambda>r. gm_groupId r = j) (group_members db') = filter (\<lambda>r. gm_groupId r = j) (group_members db)"
    if "j \<noteq> i" for j
  proof -
    have "filter (\<lambda>r. gm_groupId r = j) (member_rows rt k i ms) = []" for k ms
      using that by (auto simp: member_rows_def filter_empty_conv)
    moreover have "filter (\<lambda>r. gm_groupId r \<noteq> i \<and> gm_groupId r = j) rows = filter (\<lambda>r. gm_groupId r = j) rows"
      for rows :: "group_member list"
      using that by (intro filter_cong) auto
    ultimately show ?thesis by (simp add: db' split: option.split)
  qed
  have own: "shares_ok (shares i db')"
  proof (cases "pu_members data")
    case None
    then show ?thesis using ok gi by (auto simp: groups_ok_def list_all_iff shares_def db')
  next
    case (Some ms)
    then have "validateMembers rt (pq_members input) = Inr ms"
      using v by (auto simp: validateUpdateGroup_def bind_res_Inr_iff split: if_splits)
    then have "shares_ok (map gm_allocationRatio (member_rows rt (pg_month (pu_apply data g)) i ms))"
      by (rule validateMembers_shares [OF rnd col _ e])
    moreover have "filter (\<lambda>r. gm_groupId r = i) (member_rows rt k i ms) = member_rows rt k i ms" for k
      by (auto simp: member_rows_def filter_id_conv)
    ultimately show ?thesis using Some by (simp add: shares_def db')
  qed
  have linked: "groups_linked db'" using update_group_tx_linked [OF v _ h] ok by (simp add: groups_ok_def)
  have sh: "shares_ok (shares (pg_id h) db')" if "h \<in> set (performance_groups db')" for h
  proof (cases "pg_id h = i")
    case False
    then have "h \<in> set (performance_groups db)"
      using that g gi(1) in_update_firstD [of h] by (force simp: db' pu_apply_def)
    then show ?thesis using ok others [OF False] by (simp add: groups_ok_def list_all_iff shares_def)
  qed (simp add: own)
  show "groups_ok db'"
    unfolding groups_ok_def
  proof (intro conjI linked)
    show "distinct (map gm_key (group_members db'))"
      using d ok by (auto simp: groups_ok_def db' split: option.splits)
    show "list_all (\<lambda>g. shares_ok (shares (pg_id g) db')) (performance_groups db')" using sh by (simp add: list_all_iff)
  qed
qed simp_all

lemma disable_group_ok:
  assumes "groups_ok db"
  shows "preserves groups_ok db (disableGroup i actor)"
proof -
  have "groups_ok (put_groups (update_first (\<lambda>r. pg_id r = i) (\<lambda>r. r\<lparr>pg_status := CS_disabled\<rparr>) (performance_groups db)) db)"
    (is "groups_ok ?db'")
  proof -
    have pids: "map pg_id (performance_groups ?db') = map pg_id (performance_groups db)"
      and mem: "group_members ?db' = group_members db"
      by (simp_all add: put_groups_def map_update_first_same)
    have "list_all (\<lambda>g. P (pg_id g)) (performance_groups ?db') = list_all (\<lambda>g. P (pg_id g)) (performance_groups db)" for P
      using arg_cong [OF pids, of "list_all P"] by (simp add: list_all_iff)
    from this [of "\<lambda>j. shares_ok (shares j db)"]
    have "list_all (\<lambda>g. shares_ok (shares (pg_id g) ?db')) (performance_groups ?db')"
      using assms by (simp add: groups_ok_def shares_def mem)
    moreover have "groups_linked ?db'"
      using assms by (intro put_groups_linked) (simp_all add: groups_ok_def)
    ultimately show ?thesis using assms by (simp add: groups_ok_def mem)
  qed
  then have "preserves groups_ok db (group_set i (\<lambda>r. r\<lparr>pg_status := CS_disabled\<rparr>))"
    using assms by (simp add: preserves_def group_set_def table_update_def split: option.split)
  then show ?thesis
    unfolding disableGroup_def using assms
    by (intro preserves_getGroup) (auto simp: group_view_of_def intro!: preserves_guard preserves_audited)
qed

lemma group_step_ok:
  assumes "decimal_rounding (rt_round rt) digits" "column_rounding (rt_column rt)"
    and "group_step rt db db'" "groups_ok db"
  shows "groups_ok db'"
  using assms(3,4)
proof (induction rule: group_step.induct)
  case (create db input actor)
  then show ?case using create_group_ok [OF assms(1,2)] by (simp add: preserves_def)
next
  case (update input db i actor)
  then show ?case using update_group_ok [OF assms(1,2)] by (simp add: preserves_def)
next
  case (disable db i actor)
  then show ?case using disable_group_ok by (simp add: preserves_def)
qed

lemma shares_sum_rounded:
  assumes "decimal_rounding rnd digits" "shares_ok xs"
  shows "dec_sum rnd xs = 1"
proof -
  have "sum_list (map abs xs) = 1"
    using assms(2) by (simp add: shares_ok_def list_all_iff map_idI)
  moreover have "(10::rat) ^ 6 < 10 ^ 20" by simp
  ultimately show ?thesis
    using decimal_rounding.dec_sum_exact [OF assms(1), of 6 xs] assms(2) by (auto simp: shares_ok_def list_all_iff)
qed

text \<open>A group of new employees under a new name, in an open month, is written.\<close>

lemma createGroup_runs:
  assumes v: "validateCreateGroup rt input = Inr (m, name, status, members)" and "members \<noteq> []"
    and open_month: "\<not> month_locked m db" and empty: "performance_groups db = []" "group_members db = []"
    and d: "distinct (map fst members)"
  obtains g logs where "g = \<lparr>pg_id = rt_fresh_id rt 0, pg_month = m, pg_name = name, pg_salaryMode = SM_group,
        pg_status = status, pg_createdBy = ac_userId actor\<rparr>"
    and "createGroup rt input actor db = (Inr (g, members),
      db\<lparr>performance_groups := [g], group_members := member_rows rt m (pg_id g) members, audit_logs := logs\<rparr>)"
proof -
  have k: "map gm_key (member_rows rt m i members) = map (\<lambda>e. (m, e)) (map fst members)"
    "map gm_group_key (member_rows rt m i members) = map (\<lambda>e. (i, e)) (map fst members)" for i
    by (simp_all add: member_rows_def gm_key_def gm_group_key_def comp_def case_prod_unfold)
  have d': "distinct (map gm_key (member_rows rt m i members))" "distinct (map gm_group_key (member_rows rt m i members))" for i
    unfolding k using d by (auto simp: distinct_map inj_on_def)
  define g where "g = \<lparr>pg_id = rt_fresh_id rt 0, pg_month = m, pg_name = name, pg_salaryMode = SM_group,
        pg_status = status, pg_createdBy = ac_userId actor\<rparr>"
  have "create_group_tx rt m name status members actor db = (Inr (g, members),
      db\<lparr>performance_groups := [g], group_members := member_rows rt m (pg_id g) members,
         audit_logs := audit_logs db @ [audit_row (pg_audit actor ''performance_group.create'' (pg_id g) (pg_month g)
       [''settlementMonth'', ''name'', ''salaryMode'', ''status'', ''members'']) AR_success]\<rparr>)"
    using assms(2) empty d'
    by (simp add: create_group_tx_def assertNoDuplicateEmployees_def op_bind_def op_assert_def group_insert_def
        table_insert_def put_groups_def members_createMany_def g_def [symmetric])
  then have "createGroup rt input actor db = (Inr (g, members),
      db\<lparr>performance_groups := [g], group_members := member_rows rt m (pg_id g) members,
         audit_logs := audit_logs db @ [audit_row (pg_audit actor ''performance_group.create'' (pg_id g) (pg_month g)
       [''settlementMonth'', ''name'', ''salaryMode'', ''status'', ''members'']) AR_success]\<rparr>)"
    using v open_month
    by (simp add: createGroup_def op_bind_Inr [OF assertWritable_eq [THEN trans]] pg_write_def op_catch_def op_transaction_def)
  then show ?thesis using that g_def by blast
qed

section \<open>Properties\<close>

text \<open>
  Groups never stop a settlement. As long as the shares of the requests have at most six
  decimals, whatever sequence of group handlers ran, the calculator accepts the members the
  generation reads: nobody is in two groups of the month and the shares of every group add up
  to one, as the calculator adds them.
\<close>

theorem groups_pass_the_calculator:
  assumes "decimal_rounding (rt_round rt) digits" and "column_rounding (rt_column rt)"
    and "(group_step rt)\<^sup>*\<^sup>* db db'" and "groups_ok db"
  shows "precheck_members [] (read_members m db') = Inr ()
    \<and> precheck_ratios (ratios_by_group (rt_round rt) (read_members m db')) = Inr ()"
proof -
  have ok: "groups_ok db'"
    using assms(3,4) by (induction rule: rtranclp_induct) (auto intro: group_step_ok [OF assms(1,2)])
  have d: "distinct (map mb_employeeId (read_members m db'))"
  proof -
    have "distinct (map gm_key (filter (\<lambda>g. gm_month g = m) (group_members db')))"
      using ok by (simp add: groups_ok_def distinct_map_filter)
    then have "distinct (map gm_employeeId (filter (\<lambda>g. gm_month g = m) (group_members db')))"
      by (auto simp: distinct_map gm_key_def inj_on_def)
    then show ?thesis by (simp add: read_members_def comp_def)
  qed
  have "dec_sum (rt_round rt) (map mb_allocationRatio (filter (\<lambda>y. mb_groupId y = mb_groupId x) (read_members m db'))) = 1"
    if x: "x \<in> set (read_members m db')" for x
  proof -
    obtain r where r: "r \<in> set (group_members db')" "gm_month r = m" "gm_groupId r = mb_groupId x"
      using x by (auto simp: read_members_def)
    then obtain g where g: "g \<in> set (performance_groups db')" "pg_id g = mb_groupId x" "pg_month g = m"
      using ok by (force simp: groups_ok_def groups_linked_def list_all_iff list_ex_iff)
    have "gm_month r' = m" if "r' \<in> set (group_members db')" "gm_groupId r' = mb_groupId x" for r'
      using ok g that unfolding groups_ok_def groups_linked_def list_all_iff list_ex_iff distinct_map
      by (metis inj_onD)
    then have "filter (\<lambda>r. gm_month r = m \<and> gm_groupId r = mb_groupId x) (group_members db')
        = filter (\<lambda>r. gm_groupId r = mb_groupId x) (group_members db')"
      by (intro filter_cong) auto
    then have "map mb_allocationRatio (filter (\<lambda>y. mb_groupId y = mb_groupId x) (read_members m db')) = shares (pg_id g) db'"
      unfolding shares_def read_members_def g(2) by (simp add: filter_map comp_def conj_commute)
    moreover have "shares_ok (shares (pg_id g) db')" using ok g(1) by (simp add: groups_ok_def list_all_iff)
    ultimately show ?thesis using shares_sum_rounded [OF assms(1)] by simp
  qed
  moreover have "get_or_zero [] k = 0" for k :: string by (simp add: get_or_zero_def)
  ultimately show ?thesis
    using d unfolding precheck_ratios_Inr ratios_by_group_entries
    by (simp add: precheck_members_Inr ratios_fold get_fold_add dec_sum_def)
qed

definition sample_group :: "string \<Rightarrow> string \<Rightarrow> group_request" where
  "sample_group x y =
     \<lparr>pq_settlementMonth = JDate (Some FEB_2026), pq_name = JString ''team'', pq_salaryMode = JUndefined,
      pq_members = MembersArray [\<lparr>pm_employeeId = JString ''a'', pm_allocationRatio = JString x\<rparr>,
        \<lparr>pm_employeeId = JString ''b'', pm_allocationRatio = JString y\<rparr>],
      pq_status = JUndefined\<rparr>"

theorem groups_pass_the_calculator_witness:
  "let members = read_members FEB_2026 (snd (createGroup sample_rt (sample_group ''0.25'' ''0.75'') sample_actor empty_db))
   in precheck_members [] members = Inr () \<and> precheck_ratios (ratios_by_group (rt_round sample_rt) members) = Inr ()"
proof -
  have p: "parseDecimalString sample_rt (JString ''0.25'') ''allocationRatio'' True = Inr (25 / 10 ^ 2)"
    "parseDecimalString sample_rt (JString ''0.75'') ''allocationRatio'' True = Inr (75 / 10 ^ 2)"
    by code_simp+
  have s: "scaled 6 (25 / 10 ^ 2)" "scaled 6 (75 / 10 ^ 2)"
    by (unfold scaled_def, rule exI [of _ 250000], simp) (rule exI [of _ 750000], simp)
  have "exact_shares sample_rt (pq_members (sample_group ''0.25'' ''0.75''))"
    unfolding exact_shares_def sample_group_def by (simp only: group_request.simps members_request.simps list.pred_inject
        member_request.simps p s sum.case simp_thms)
  then have "(group_step sample_rt)\<^sup>*\<^sup>* empty_db
      (snd (createGroup sample_rt (sample_group ''0.25'' ''0.75'') sample_actor empty_db))"
    by (intro r_into_rtranclp group_step.create) (simp_all add: empty_db_def)
  moreover have "groups_ok empty_db" by (simp add: groups_ok_def groups_linked_def empty_db_def)
  ultimately show ?thesis
    using groups_pass_the_calculator [OF sample_rt_round sample_rt_column] by (simp add: Let_def)
qed

text \<open>The two shares of the example, read digit by digit.\<close>

lemma long_share_digits:
  "digit_val CHR ''0'' = 0" "digit_val CHR ''3'' = 3" "digit_val CHR ''5'' = 5" "digit_val CHR ''6'' = 6"
  "is_digit CHR ''0''" "is_digit CHR ''3''" "is_digit CHR ''5''" "is_digit CHR ''6''" "\<not> is_digit CHR ''.''"
  "js_trim ''0.3333335'' = ''0.3333335''" "js_trim ''0.6666665'' = ''0.6666665''"
  by code_simp+

lemma long_shares_parse:
  "parseDecimalString sample_rt (JString ''0.3333335'') ''allocationRatio'' True = Inr (3333335 / 10 ^ 7)"
  "parseDecimalString sample_rt (JString ''0.6666665'') ''allocationRatio'' True = Inr (6666665 / 10 ^ 7)"
  by (simp_all add: parseDecimalString_def sample_rt_def parse_plain_decimal_def parse_plain_unsigned_def Let_def
      digits_to_nat_def long_share_digits)

text \<open>
  Shares of more than six decimals are accepted by their exact sum and stored rounded, each
  for itself. The stored shares may then add up to more than one, and every settlement of the
  month is refused although the group was entered without complaint.
\<close>

theorem long_shares_block_the_settlement:
  "let (r, db) = createGroup sample_rt (sample_group ''0.3333335'' ''0.6666665'') sample_actor empty_db
   in (\<exists>view. r = Inr view)
      \<and> map mb_allocationRatio (read_members FEB_2026 db) = [333334 / 10 ^ 6, 666667 / 10 ^ 6]
      \<and> precheck_ratios (ratios_by_group (rt_round sample_rt) (read_members FEB_2026 db)) =
          Inl (AppError SETTLEMENT_PRECHECK_FAILED ''Performance group allocation ratio sum must equal 1.'')"
proof -
  have v: "validateCreateGroup sample_rt (sample_group ''0.3333335'' ''0.6666665'') =
      Inr (FEB_2026, ''team'', CS_active, [(''a'', 3333335 / 10 ^ 7), (''b'', 6666665 / 10 ^ 7)])"
  proof -
    have q: "parseMonthStart sample_rt (JDate (Some FEB_2026)) ''settlementMonth'' = Inr FEB_2026"
      "requireNonBlank (JString ''team'') ''name'' = Inr ''team''"
      "requireNonBlank (JString ''a'') ''employeeId'' = Inr ''a''" "requireNonBlank (JString ''b'') ''employeeId'' = Inr ''b''"
      by code_simp+
    have s: "entry_status JUndefined GROUP_STATUSES = Inr None"
      by (simp add: entry_status_def assertOptionalStatus_def is_undefined_def)
    have sum: "dec_sum (rt_round sample_rt) [3333335 / 10 ^ 7, 6666665 / 10 ^ 7] = 1" by code_simp
    show ?thesis
      unfolding validateCreateGroup_def sample_group_def validateMembers_def group_request.simps members_request.case
        list.case q bind_res_simps read_member_requests.simps member_request.simps long_shares_parse s
      by (simp add: sum [simplified] or_keep_def)
  qed
  have c: "rt_column sample_rt 6 (3333335 / 10 ^ 7) = 333334 / 10 ^ 6"
    "rt_column sample_rt 6 (6666665 / 10 ^ 7) = 666667 / 10 ^ 6"
    by code_simp+
  have e: "\<not> month_locked FEB_2026 empty_db" "performance_groups empty_db = []" "group_members empty_db = []"
    by (simp_all add: month_locked_def find_settlement_def empty_db_def)
  obtain g :: performance_group and logs where g: "pg_id g = rt_fresh_id sample_rt 0"
    and run: "createGroup sample_rt (sample_group ''0.3333335'' ''0.6666665'') sample_actor empty_db =
     (Inr (g, [(''a'', 3333335 / 10 ^ 7), (''b'', 6666665 / 10 ^ 7)]),
      empty_db\<lparr>performance_groups := [g], group_members := member_rows sample_rt FEB_2026 (pg_id g)
         [(''a'', 3333335 / 10 ^ 7), (''b'', 6666665 / 10 ^ 7)], audit_logs := logs\<rparr>)"
  proof (rule createGroup_runs [OF v _ e, of sample_actor])
    fix g :: performance_group and logs
    assume g: "g = \<lparr>pg_id = rt_fresh_id sample_rt 0, pg_month = FEB_2026, pg_name = ''team'', pg_salaryMode = SM_group,
        pg_status = CS_active, pg_createdBy = ac_userId sample_actor\<rparr>"
      and run: "createGroup sample_rt (sample_group ''0.3333335'' ''0.6666665'') sample_actor empty_db =
     (Inr (g, [(''a'', 3333335 / 10 ^ 7), (''b'', 6666665 / 10 ^ 7)]),
      empty_db\<lparr>performance_groups := [g], group_members := member_rows sample_rt FEB_2026 (pg_id g)
         [(''a'', 3333335 / 10 ^ 7), (''b'', 6666665 / 10 ^ 7)], audit_logs := logs\<rparr>)"
    have "pg_id g = rt_fresh_id sample_rt 0" unfolding g by (simp only: performance_group.select_convs)
    then show thesis using run by (rule that)
  qed simp_all
  have rows: "read_members FEB_2026 (empty_db\<lparr>performance_groups := [g], group_members := member_rows sample_rt FEB_2026
        (pg_id g) [(''a'', 3333335 / 10 ^ 7), (''b'', 6666665 / 10 ^ 7)], audit_logs := logs\<rparr>) =
      [\<lparr>mb_groupId = rt_fresh_id sample_rt 0, mb_employeeId = ''a'', mb_allocationRatio = 333334 / 10 ^ 6\<rparr>,
       \<lparr>mb_groupId = rt_fresh_id sample_rt 0, mb_employeeId = ''b'', mb_allocationRatio = 666667 / 10 ^ 6\<rparr>]"
    unfolding read_members_def member_rows_def by (simp add: g) (simp only: c [simplified])
  moreover have "precheck_ratios (ratios_by_group exact_round
      [\<lparr>mb_groupId = rt_fresh_id sample_rt 0, mb_employeeId = ''a'', mb_allocationRatio = 333334 / 10 ^ 6\<rparr>,
       \<lparr>mb_groupId = rt_fresh_id sample_rt 0, mb_employeeId = ''b'', mb_allocationRatio = 666667 / 10 ^ 6\<rparr>]) =
    Inl (AppError SETTLEMENT_PRECHECK_FAILED ''Performance group allocation ratio sum must equal 1.'')"
    by code_simp
  moreover have "rt_round sample_rt = exact_round" by (simp add: sample_rt_def)
  ultimately show ?thesis unfolding run by (simp only: Let_def prod.case rows list.map member_input.simps) blast
qed

end
