(* ===== verification/Versioned_Rows.thy ===== *)
theory Versioned_Rows
  imports Month_Table
begin

text \<open>
  What the services of versioned rows share (a mapping or a binding that takes effect in a
  month): they compare two months by their printed form before they ask for the lock of the
  second one. Two month starts with the same printed form are the same month, as long as
  one of them has a year of four digits.
\<close>

definition four_digit_year :: "int \<Rightarrow> bool" where
  "four_digit_year t \<longleftrightarrow> 0 \<le> getUTCFullYear t \<and> getUTCFullYear t \<le> 9999"

lemma formatMonth_four_digits:
  "four_digit_year t \<Longrightarrow> formatMonth t =
     pad_digits 4 (nat (getUTCFullYear t)) @ ''-'' @ pad_digits 2 (nat (getUTCMonth t + 1))
     @ ''-'' @ pad_digits 2 (nat (getUTCDate t))"
  by (simp add: formatMonth_def iso_string_def iso_date_def iso_year_def four_digit_year_def)

lemma hd_iso_year: "\<not> four_digit_year t \<Longrightarrow> \<not> is_digit (hd (formatMonth t))"
  by (auto simp: formatMonth_def iso_string_def iso_date_def iso_year_def four_digit_year_def is_digit_def Let_def)

lemma hd_four_digits: "four_digit_year t \<Longrightarrow> is_digit (hd (formatMonth t))"
  using pad_digits_all_digits [of 4 "nat (getUTCFullYear t)"] length_pad_digits [of 4 "nat (getUTCFullYear t)"]
  by (cases "pad_digits 4 (nat (getUTCFullYear t))") (simp_all add: formatMonth_four_digits)

lemma pad_digits_inj: "pad_digits k a = pad_digits k b \<Longrightarrow> a < 10 ^ k \<Longrightarrow> b < 10 ^ k \<Longrightarrow> a = b"
  by (metis digits_to_nat_pad)

lemma formatMonth_inj:
  assumes eq: "formatMonth a = formatMonth b" and a: "four_digit_year a" "is_month_start a" and b: "is_month_start b"
  shows "a = b"
proof -
  have b4: "four_digit_year b" using hd_four_digits [OF a(1)] hd_iso_year [of b] eq by auto
  let ?f = "\<lambda>t. pad_digits 4 (nat (getUTCFullYear t))" and ?g = "\<lambda>t. pad_digits 2 (nat (getUTCMonth t + 1))"
  have "?f a = ?f b \<and> ?g a = ?g b"
    using eq unfolding formatMonth_four_digits [OF a(1)] formatMonth_four_digits [OF b4]
    by (simp add: append_eq_append_conv)
  then have "nat (getUTCFullYear a) = nat (getUTCFullYear b)" "nat (getUTCMonth a + 1) = nat (getUTCMonth b + 1)"
    using a(1) b4 month_from_day_range [of "utc_day a"] month_from_day_range [of "utc_day b"]
    by (auto simp: four_digit_year_def getUTCMonth_def intro!: pad_digits_inj)
  then have "getUTCFullYear a = getUTCFullYear b" "getUTCMonth a = getUTCMonth b"
    using a(1) b4 month_from_day_range [of "utc_day a"] month_from_day_range [of "utc_day b"]
    by (auto simp: four_digit_year_def getUTCMonth_def nat_eq_iff2)
  then show ?thesis using a(2) b by (metis is_month_start_iff)
qed

text \<open>\<open>if (data.effectiveMonth && formatMonth(data.effectiveMonth) !== formatMonth(before.effectiveMonth))\<close>\<close>

definition guard_if_renamed :: "int option \<Rightarrow> int \<Rightarrow> (int \<Rightarrow> month_write) \<Rightarrow> actor \<Rightarrow> unit handler" where
  "guard_if_renamed next_month before w actor =
     (case next_month of None \<Rightarrow> op_return ()
      | Some m \<Rightarrow> if formatMonth m \<noteq> formatMonth before then assertWritable (w m) (Some actor) else op_return ())"

lemma freezes_at_guard_if_renamed:
  assumes "four_digit_year m" "is_month_start b" "b \<noteq> m" "\<And>x. k = Some x \<Longrightarrow> is_month_start x"
    and "\<And>x. mw_settlementMonth (w x) = x" and "or_keep k b \<noteq> m \<Longrightarrow> freezes_at m db (f ())"
  shows "freezes_at m db (op_bind (guard_if_renamed k b w actor) f)"
proof (cases k)
  case None
  then show ?thesis using assms(3,6) by (simp add: guard_if_renamed_def freezes_at_def or_keep_def)
next
  case (Some x)
  have "x = m \<Longrightarrow> formatMonth x \<noteq> formatMonth b" using assms(1-4) Some formatMonth_inj by blast
  then show ?thesis
    using Some assms(5,6)
    by (auto simp: guard_if_renamed_def or_keep_def intro!: freezes_at_guard) (auto simp: freezes_at_def)
qed

lemma preserves_guard_if_renamed:
  "audit_stable I \<Longrightarrow> I db \<Longrightarrow> preserves I db (f ()) \<Longrightarrow> preserves I db (op_bind (guard_if_renamed k b w a) f)"
  by (auto simp: guard_if_renamed_def preserves_def op_bind_def assertWritable_eq audit_stable_def split: option.split)

lemma op_frame_guard_if_renamed [frame_intros]:
  "looks_past_audit v \<Longrightarrow> op_frame v UNIV (guard_if_renamed k b w a)"
  unfolding guard_if_renamed_def by (auto intro!: frame_intros split: option.split)

text \<open>The status of a new row: \<open>input.status ?? active\<close>, which the client then checks.\<close>

definition status_or_active :: "jsval \<Rightarrow> jsval" where
  "status_or_active v = (if is_nullish v then JString ''active'' else v)"

section \<open>Operations that only read\<close>

definition reads_only :: "'a handler \<Rightarrow> bool" where
  "reads_only h \<longleftrightarrow> (\<forall>db. snd (h db) = db)"

lemma reads_only_pure [simp]:
  "reads_only (op_return x)" "reads_only (op_throw e)" "reads_only (op_lift r)" "reads_only (op_get g)"
  "reads_only (op_assert b e)" "reads_only (isLocked m)"
  by (simp_all add: reads_only_def op_assert_def isLocked_def)

lemma reads_only_bind: "reads_only h \<Longrightarrow> (\<And>x. reads_only (f x)) \<Longrightarrow> reads_only (op_bind h f)"
  by (auto simp: reads_only_def op_bind_def split: prod.split sum.split) (metis snd_conv)+

lemma reads_only_result: "reads_only h \<Longrightarrow> h db = (fst (h db), db)"
  by (metis prod.collapse reads_only_def)

lemma freezes_at_reads:
  "reads_only h \<Longrightarrow> (\<And>x. h db = (Inr x, db) \<Longrightarrow> freezes_at m db (f x)) \<Longrightarrow> freezes_at m db (op_bind h f)"
  using reads_only_result [of h db] by (cases "fst (h db)") (auto simp: freezes_at_def op_bind_def)

lemma preserves_reads:
  "reads_only h \<Longrightarrow> I db \<Longrightarrow> (\<And>x. h db = (Inr x, db) \<Longrightarrow> preserves I db (f x)) \<Longrightarrow> preserves I db (op_bind h f)"
  using reads_only_result [of h db] by (cases "fst (h db)") (auto simp: preserves_def op_bind_def)

lemma op_frame_reads: "reads_only h \<Longrightarrow> op_frame v UNIV h"
  by (simp add: reads_only_def op_frame_def)

end
