(* ===== verification/Employees.thy ===== *)
theory Employees
  imports Versioned_Rows
begin

text \<open>
  \<open>employees.service.ts\<close> and \<open>affiliate-accounts.service.ts\<close>: the people who are paid and the
  accounts of the affiliate platforms their income comes from. Neither belongs to a month.
\<close>

section \<open>Employees\<close>

record employee_request =
  eq_employeeCode :: jsval
  eq_name :: jsval
  eq_email :: jsval
  eq_phone :: jsval
  eq_hiredAt :: jsval
  eq_leftAt :: jsval
  eq_status :: jsval

record employee_update =
  eu_employeeCode :: "string option"
  eu_name :: "string option"
  eu_email :: "string option option"
  eu_phone :: "string option option"
  eu_hiredAt :: "int option option"
  eu_leftAt :: "int option option"
  eu_status :: jsval

text \<open>A \<open>@db.Date\<close> column keeps the day of a moment.\<close>

definition date_column :: "int \<Rightarrow> int" where
  "date_column t = utc_day t * ms_per_day"

definition em_audit :: "actor \<Rightarrow> string \<Rightarrow> string option \<Rightarrow> string list \<Rightarrow> audit_input" where
  "em_audit actor action i changed = auditInput actor action ''employees'' i None changed"

fun jdate_or_null :: "int option \<Rightarrow> jsval" where
  "jdate_or_null None = JNull"
| "jdate_or_null (Some t) = JDate (Some t)"

definition em_column :: "employee \<Rightarrow> string \<Rightarrow> jsval" where
  "em_column r k =
     (if k = ''employeeCode'' then JString (em_employeeCode r)
      else if k = ''name'' then JString (em_name r)
      else if k = ''email'' then jstr_or_null (em_email r)
      else if k = ''phone'' then jstr_or_null (em_phone r)
      else if k = ''hiredAt'' then jdate_or_null (em_hiredAt r)
      else if k = ''leftAt'' then jdate_or_null (em_leftAt r)
      else if k = ''status'' then JString (common_status_name (em_status r)) else JUndefined)"

definition put_employees :: "employee list \<Rightarrow> database \<Rightarrow> database" where
  "put_employees rows db = db\<lparr>employees := rows\<rparr>"

definition employee_insert :: "employee \<Rightarrow> employee handler" where
  "employee_insert = table_insert employees put_employees (\<lambda>r r'. em_employeeCode r = em_employeeCode r')"

definition employee_set :: "string \<Rightarrow> (employee \<Rightarrow> employee) \<Rightarrow> employee handler" where
  "employee_set = table_update employees put_employees (\<lambda>r r'. em_employeeCode r = em_employeeCode r') em_id"

definition EMPLOYEE_DUPLICATE :: string where
  "EMPLOYEE_DUPLICATE = ''employeeCode already exists.''"

text \<open>The audit row of a refused creation carries the code of the error and its message.\<close>

definition duplicate_failure :: "audit_input \<Rightarrow> string \<Rightarrow> audit_input" where
  "duplicate_failure input message =
     input\<lparr>ai_failureReason := Some (error_code_name DUPLICATE_RESOURCE), ai_errorMessage := Some message\<rparr>"

definition record_duplicate :: "audit_input \<Rightarrow> string \<Rightarrow> app_exception \<Rightarrow> 'a handler" where
  "record_duplicate input message error =
     (if isDuplicateError error
      then op_bind (audit_failure (duplicate_failure input message)) (\<lambda>_. op_throw (duplicateResource message))
      else op_throw error)"

definition validateCreateEmployee ::
  "runtime \<Rightarrow> employee_request
     \<Rightarrow> (string \<times> string \<times> string option \<times> string option \<times> int option \<times> int option \<times> jsval) outcome" where
  "validateCreateEmployee rt input =
     bind_res (requireNonBlank (eq_employeeCode input) ''employeeCode'') (\<lambda>code.
     bind_res (requireNonBlank (eq_name input) ''name'') (\<lambda>name.
     bind_res (optionalNonBlank (eq_email input) ''email'') (\<lambda>email.
     bind_res (optionalNonBlank (eq_phone input) ''phone'') (\<lambda>phone.
     bind_res (parseOptionalDate rt (eq_hiredAt input) ''hiredAt'') (\<lambda>hired.
     bind_res (parseOptionalDate rt (eq_leftAt input) ''leftAt'') (\<lambda>left.
     Inr (code, name, email, phone, hired, left, status_or_active (eq_status input))))))))"

definition createEmployee :: "runtime \<Rightarrow> employee_request \<Rightarrow> actor \<Rightarrow> employee handler" where
  "createEmployee rt input actor =
     op_bind (op_lift (validateCreateEmployee rt input)) (\<lambda>(code, name, email, phone, hired, left, status).
     op_catch
       (op_bind (op_lift (prisma_status status)) (\<lambda>st.
        op_bind (employee_insert
          \<lparr>em_id = rt_fresh_id rt 0, em_employeeCode = code, em_name = name, em_email = email, em_phone = phone,
           em_status = st, em_hiredAt = map_option date_column hired, em_leftAt = map_option date_column left\<rparr>) (\<lambda>r.
        op_bind (audit_success (em_audit actor ''employee.create'' (Some (em_id r))
          [''employeeCode'', ''name'', ''email'', ''phone'', ''hiredAt'', ''leftAt'', ''status''])) (\<lambda>_.
        op_return r))))
       (record_duplicate (em_audit actor ''employee.create'' None []) EMPLOYEE_DUPLICATE))"

definition listEmployees :: "jsval \<Rightarrow> employee list handler" where
  "listEmployees status =
     op_bind (op_lift (status_filter status)) (\<lambda>status_ok.
     op_get (\<lambda>db. newest_first (\<lambda>r. status_ok (em_status r)) (employees db)))"

definition getEmployee :: "string \<Rightarrow> employee handler" where
  "getEmployee i = table_find employees em_id ''Employee'' i"

definition validateUpdateEmployee :: "runtime \<Rightarrow> employee_request \<Rightarrow> employee_update outcome" where
  "validateUpdateEmployee rt input =
     bind_res (if_given (eq_employeeCode input) (\<lambda>v. requireNonBlank v ''employeeCode'')) (\<lambda>code.
     bind_res (if_given (eq_name input) (\<lambda>v. requireNonBlank v ''name'')) (\<lambda>name.
     bind_res (if_given (eq_email input) (\<lambda>v. optionalNonBlank v ''email'')) (\<lambda>email.
     bind_res (if_given (eq_phone input) (\<lambda>v. optionalNonBlank v ''phone'')) (\<lambda>phone.
     bind_res (if_given (eq_hiredAt input) (\<lambda>v. parseOptionalDate rt v ''hiredAt'')) (\<lambda>hired.
     bind_res (if_given (eq_leftAt input) (\<lambda>v. parseOptionalDate rt v ''leftAt'')) (\<lambda>left.
     Inr \<lparr>eu_employeeCode = code, eu_name = name, eu_email = email, eu_phone = phone, eu_hiredAt = hired,
          eu_leftAt = left, eu_status = eq_status input\<rparr>))))))"

definition eu_keys :: "employee_update \<Rightarrow> string list" where
  "eu_keys d = keys_given
     [(''employeeCode'', eu_employeeCode d \<noteq> None), (''name'', eu_name d \<noteq> None), (''email'', eu_email d \<noteq> None),
      (''phone'', eu_phone d \<noteq> None), (''hiredAt'', eu_hiredAt d \<noteq> None), (''leftAt'', eu_leftAt d \<noteq> None),
      (''status'', \<not> is_undefined (eu_status d))]"

definition eu_apply :: "employee_update \<Rightarrow> common_status option \<Rightarrow> employee \<Rightarrow> employee" where
  "eu_apply d st r =
     r\<lparr>em_employeeCode := or_keep (eu_employeeCode d) (em_employeeCode r), em_name := or_keep (eu_name d) (em_name r),
       em_email := or_keep (eu_email d) (em_email r), em_phone := or_keep (eu_phone d) (em_phone r),
       em_status := or_keep st (em_status r),
       em_hiredAt := or_keep (map_option (map_option date_column) (eu_hiredAt d)) (em_hiredAt r),
       em_leftAt := or_keep (map_option (map_option date_column) (eu_leftAt d)) (em_leftAt r)\<rparr>"

definition updateEmployee :: "runtime \<Rightarrow> string \<Rightarrow> employee_request \<Rightarrow> actor \<Rightarrow> employee handler" where
  "updateEmployee rt i input actor =
     op_bind (getEmployee i) (\<lambda>before.
     op_bind (op_lift (validateUpdateEmployee rt input)) (\<lambda>data.
     op_catch
       (op_bind (op_lift (optional_status (eu_status data))) (\<lambda>st.
        op_bind (employee_set i (eu_apply data st)) (\<lambda>after.
        op_bind (audit_success (em_audit actor ''employee.update'' (Some i)
          (changedFields em_column before after (eu_keys data)))) (\<lambda>_.
        op_return after))))
       (translate_duplicate EMPLOYEE_DUPLICATE)))"

definition disableEmployee :: "string \<Rightarrow> actor \<Rightarrow> employee handler" where
  "disableEmployee i actor =
     op_bind (getEmployee i) (\<lambda>before.
     op_bind (op_assert (em_status before \<noteq> CS_disabled) (AppError CONFLICT ''Employee is already disabled.'')) (\<lambda>_.
     op_bind (employee_set i (\<lambda>r. r\<lparr>em_status := CS_disabled\<rparr>)) (\<lambda>after.
     op_bind (audit_success (em_audit actor ''employee.disable'' (Some i) [''status''])) (\<lambda>_.
     op_return after))))"

section \<open>Affiliate accounts\<close>

record account_request =
  cq_platform :: jsval
  cq_accountCode :: jsval
  cq_accountName :: jsval
  cq_accountStatus :: jsval

record account_update =
  cu_platform :: "string option"
  cu_accountCode :: "string option"
  cu_accountName :: "string option option"
  cu_accountStatus :: jsval

definition aa_audit :: "actor \<Rightarrow> string \<Rightarrow> string option \<Rightarrow> string list \<Rightarrow> audit_input" where
  "aa_audit actor action i changed = auditInput actor action ''affiliate_accounts'' i None changed"

definition aa_column :: "affiliate_account \<Rightarrow> string \<Rightarrow> jsval" where
  "aa_column r k =
     (if k = ''platform'' then JString (aa_platform r)
      else if k = ''accountCode'' then JString (aa_accountCode r)
      else if k = ''accountName'' then jstr_or_null (aa_accountName r)
      else if k = ''status'' then JString (common_status_name (aa_status r)) else JUndefined)"

text \<open>\<open>@@unique([platform, accountCode])\<close>\<close>

definition aa_key :: "affiliate_account \<Rightarrow> string \<times> string" where
  "aa_key r = (aa_platform r, aa_accountCode r)"

definition put_accounts :: "affiliate_account list \<Rightarrow> database \<Rightarrow> database" where
  "put_accounts rows db = db\<lparr>affiliate_accounts := rows\<rparr>"

definition account_insert :: "affiliate_account \<Rightarrow> affiliate_account handler" where
  "account_insert = table_insert affiliate_accounts put_accounts (\<lambda>r r'. aa_key r = aa_key r')"

definition account_set :: "string \<Rightarrow> (affiliate_account \<Rightarrow> affiliate_account) \<Rightarrow> affiliate_account handler" where
  "account_set = table_update affiliate_accounts put_accounts (\<lambda>r r'. aa_key r = aa_key r') aa_id"

definition ACCOUNT_DUPLICATE :: string where
  "ACCOUNT_DUPLICATE = ''platform + accountCode already exists.''"

definition validateAffiliatePlatform :: "jsval \<Rightarrow> string outcome" where
  "validateAffiliatePlatform v =
     (if v = JString ''cake'' then Inr ''cake'' else if v = JString ''everflow'' then Inr ''everflow''
      else Inl (AppError VALIDATION_ERROR ''platform must be exactly cake or everflow.''))"

definition validateCreateAccount :: "account_request \<Rightarrow> (string \<times> string \<times> string option \<times> jsval) outcome" where
  "validateCreateAccount input =
     bind_res (validateAffiliatePlatform (cq_platform input)) (\<lambda>platform.
     bind_res (requireNonBlank (cq_accountCode input) ''accountCode'') (\<lambda>code.
     bind_res (optionalNonBlank (cq_accountName input) ''accountName'') (\<lambda>name.
     Inr (platform, code, name, status_or_active (cq_accountStatus input)))))"

definition createAccount :: "runtime \<Rightarrow> account_request \<Rightarrow> actor \<Rightarrow> affiliate_account handler" where
  "createAccount rt input actor =
     op_bind (op_lift (validateCreateAccount input)) (\<lambda>(platform, code, name, status).
     op_catch
       (op_bind (op_lift (prisma_status status)) (\<lambda>st.
        op_bind (account_insert
          \<lparr>aa_id = rt_fresh_id rt 0, aa_platform = platform, aa_accountCode = code, aa_accountName = name,
           aa_status = st\<rparr>) (\<lambda>r.
        op_bind (audit_success (aa_audit actor ''affiliate_account.create'' (Some (aa_id r))
          [''platform'', ''accountCode'', ''accountName'', ''status''])) (\<lambda>_.
        op_return r))))
       (record_duplicate (aa_audit actor ''affiliate_account.create'' None []) ACCOUNT_DUPLICATE))"

definition listAccounts :: "jsval \<Rightarrow> affiliate_account list handler" where
  "listAccounts status =
     op_bind (op_lift (status_filter status)) (\<lambda>status_ok.
     op_get (\<lambda>db. newest_first (\<lambda>r. status_ok (aa_status r)) (affiliate_accounts db)))"

definition getAccount :: "string \<Rightarrow> affiliate_account handler" where
  "getAccount i = table_find affiliate_accounts aa_id ''Affiliate account'' i"

definition validateUpdateAccount :: "account_request \<Rightarrow> account_update outcome" where
  "validateUpdateAccount input =
     bind_res (if_given (cq_platform input) validateAffiliatePlatform) (\<lambda>platform.
     bind_res (if_given (cq_accountCode input) (\<lambda>v. requireNonBlank v ''accountCode'')) (\<lambda>code.
     bind_res (if_given (cq_accountName input) (\<lambda>v. optionalNonBlank v ''accountName'')) (\<lambda>name.
     Inr \<lparr>cu_platform = platform, cu_accountCode = code, cu_accountName = name,
          cu_accountStatus = cq_accountStatus input\<rparr>)))"

definition ca_keys :: "account_update \<Rightarrow> string list" where
  "ca_keys d = keys_given
     [(''platform'', cu_platform d \<noteq> None), (''accountCode'', cu_accountCode d \<noteq> None),
      (''accountName'', cu_accountName d \<noteq> None), (''status'', \<not> is_undefined (cu_accountStatus d))]"

definition ca_apply :: "account_update \<Rightarrow> common_status option \<Rightarrow> affiliate_account \<Rightarrow> affiliate_account" where
  "ca_apply d st r =
     r\<lparr>aa_platform := or_keep (cu_platform d) (aa_platform r),
       aa_accountCode := or_keep (cu_accountCode d) (aa_accountCode r),
       aa_accountName := or_keep (cu_accountName d) (aa_accountName r),
       aa_status := or_keep st (aa_status r)\<rparr>"

definition updateAccount :: "string \<Rightarrow> account_request \<Rightarrow> actor \<Rightarrow> affiliate_account handler" where
  "updateAccount i input actor =
     op_bind (getAccount i) (\<lambda>before.
     op_bind (op_lift (validateUpdateAccount input)) (\<lambda>data.
     op_catch
       (op_bind (op_lift (optional_status (cu_accountStatus data))) (\<lambda>st.
        op_bind (account_set i (ca_apply data st)) (\<lambda>after.
        op_bind (audit_success (aa_audit actor ''affiliate_account.update'' (Some i)
          (changedFields aa_column before after (ca_keys data)))) (\<lambda>_.
        op_return after))))
       (translate_duplicate ACCOUNT_DUPLICATE)))"

definition disableAccount :: "string \<Rightarrow> actor \<Rightarrow> affiliate_account handler" where
  "disableAccount i actor =
     op_bind (getAccount i) (\<lambda>before.
     op_bind (op_assert (aa_status before \<noteq> CS_disabled) (AppError CONFLICT ''Affiliate account is already disabled.'')) (\<lambda>_.
     op_bind (account_set i (\<lambda>r. r\<lparr>aa_status := CS_disabled\<rparr>)) (\<lambda>after.
     op_bind (audit_success (aa_audit actor ''affiliate_account.disable'' (Some i) [''status''])) (\<lambda>_.
     op_return after))))"

section \<open>Facts\<close>

lemma freezes_employee_writes [simp]: "freezes m (employee_insert row)" "freezes m (employee_set i f)"
  by (simp_all add: freezes_def employee_insert_def employee_set_def table_insert_def table_update_def
      put_employees_def month_scope_def split: option.split)

lemma freezes_account_writes [simp]: "freezes m (account_insert a)" "freezes m (account_set i g)"
  by (simp_all add: freezes_def account_insert_def account_set_def table_insert_def table_update_def
      put_accounts_def month_scope_def split: option.split)

lemma freezes_table_find [simp]: "freezes m (table_find get ident what i)"
  by (simp add: freezes_def table_find_def op_bind_def split: option.split)

lemma freezes_record_duplicate [simp]: "freezes m (record_duplicate input message e)"
  by (simp add: record_duplicate_def freezes_def)

lemma freezes_employee_handlers:
  "freezes m (createEmployee rt eq actor)" "freezes m (updateEmployee rt i eq actor)" "freezes m (disableEmployee i actor)"
  "freezes m (createAccount rt aq actor)" "freezes m (updateAccount i aq actor)" "freezes m (disableAccount i actor)"
  unfolding createEmployee_def updateEmployee_def disableEmployee_def createAccount_def updateAccount_def
    disableAccount_def getEmployee_def getAccount_def
  by (auto intro!: freezes_bind_pure freezes_catch freezes_bind split: prod.split)

lemma preserves_record_duplicate:
  "audit_stable I \<Longrightarrow> I db \<Longrightarrow> preserves I db (record_duplicate input message e)"
  by (simp add: record_duplicate_def preserves_def audit_stable_def)

definition known_platform :: "string \<Rightarrow> bool" where
  "known_platform p \<longleftrightarrow> p = ''cake'' \<or> p = ''everflow''"

definition people_ok :: "database \<Rightarrow> bool" where
  "people_ok db \<longleftrightarrow> distinct (map em_employeeCode (employees db)) \<and> distinct (map em_id (employees db))
     \<and> distinct (map aa_key (affiliate_accounts db)) \<and> distinct (map aa_id (affiliate_accounts db))
     \<and> list_all (\<lambda>a. known_platform (aa_platform a)) (affiliate_accounts db)"

lemma audit_stable_people_ok [simp]: "audit_stable people_ok"
  by (simp add: audit_stable_def people_ok_def)

interpretation employee_table: keyed_table employees put_employees em_id
  by unfold_locales (simp_all add: put_employees_def)

interpretation account_table: keyed_table affiliate_accounts put_accounts aa_id
  by unfold_locales (simp_all add: put_accounts_def)

lemma employee_insert_ok:
  "people_ok db \<Longrightarrow> em_id r \<notin> em_id ` set (employees db) \<Longrightarrow> preserves people_ok db (employee_insert r)"
  by (auto simp: preserves_def people_ok_def employee_insert_def table_insert_def list_ex_iff put_employees_def)

lemma account_insert_ok:
  "people_ok db \<Longrightarrow> aa_id r \<notin> aa_id ` set (affiliate_accounts db) \<Longrightarrow> known_platform (aa_platform r) \<Longrightarrow>
   preserves people_ok db (account_insert r)"
  by (auto simp: preserves_def people_ok_def account_insert_def table_insert_def list_ex_iff put_accounts_def)

lemma employee_set_ok:
  assumes "people_ok db" "\<And>r. em_id (f r) = em_id r"
  shows "preserves people_ok db (employee_set i f)"
proof -
  have "affiliate_accounts (snd (employee_set i f db)) = affiliate_accounts db"
    by (simp add: employee_set_def table_update_def put_employees_def split: option.split)
  then show ?thesis
    using assms employee_table.update_distinct [of em_employeeCode db f i]
    by (simp add: preserves_def people_ok_def employee_set_def)
qed

lemma account_set_ok:
  assumes "people_ok db" "\<And>r. aa_id (f r) = aa_id r"
    and "\<And>r. known_platform (aa_platform r) \<Longrightarrow> known_platform (aa_platform (f r))"
  shows "preserves people_ok db (account_set i f)"
proof -
  have "employees (snd (account_set i f db)) = employees db"
    by (simp add: account_set_def table_update_def put_accounts_def split: option.split)
  moreover have "list_all (\<lambda>a. known_platform (aa_platform a)) (affiliate_accounts (snd (account_set i f db)))"
    unfolding account_set_def using assms(1,3) find_row_Some
    by (intro account_table.update_all) (fastforce simp: people_ok_def list_all_iff dest!: find_row_Some)+
  ultimately show ?thesis
    using assms(1,2) account_table.update_distinct [of aa_key db f i]
    by (simp add: preserves_def people_ok_def account_set_def)
qed

lemma validateAffiliatePlatform_Inr: "validateAffiliatePlatform v = Inr p \<Longrightarrow> known_platform p"
  by (auto simp: validateAffiliatePlatform_def known_platform_def split: if_splits)

lemma validateCreateAccount_platform: "validateCreateAccount input = Inr (p, c, n, s) \<Longrightarrow> known_platform p"
  unfolding validateCreateAccount_def bind_res_Inr_iff using validateAffiliatePlatform_Inr by blast

lemma ca_apply_platform:
  assumes "validateUpdateAccount input = Inr d" "known_platform (aa_platform r)"
  shows "known_platform (aa_platform (ca_apply d st r))"
proof (cases "cu_platform d")
  case None
  then show ?thesis using assms(2) by (simp add: ca_apply_def or_keep_def)
next
  case (Some p)
  then have "validateAffiliatePlatform (cq_platform input) = Inr p"
    using assms(1) by (auto simp: validateUpdateAccount_def bind_res_Inr_iff dest!: if_given_Inr)
  then show ?thesis using Some validateAffiliatePlatform_Inr by (simp add: ca_apply_def or_keep_def)
qed

lemma people_ids [simp]: "em_id (eu_apply d st r) = em_id r" "aa_id (ca_apply e st a) = aa_id a"
  by (simp_all add: eu_apply_def ca_apply_def)

lemma people_handlers_ok:
  assumes "people_ok db"
  shows "rt_fresh_id rt 0 \<notin> em_id ` set (employees db) \<Longrightarrow> preserves people_ok db (createEmployee rt eq actor)"
    and "preserves people_ok db (updateEmployee rt i eq actor)"
    and "preserves people_ok db (disableEmployee i actor)"
    and "rt_fresh_id rt 0 \<notin> aa_id ` set (affiliate_accounts db) \<Longrightarrow> preserves people_ok db (createAccount rt aq actor)"
    and "preserves people_ok db (updateAccount i aq actor)"
    and "preserves people_ok db (disableAccount i actor)"
  using assms
  unfolding createEmployee_def updateEmployee_def disableEmployee_def createAccount_def updateAccount_def
    disableAccount_def getEmployee_def getAccount_def
  by (auto intro!: preserves_steps preserves_record_duplicate employee_insert_ok account_insert_ok employee_set_ok account_set_ok
      dest: validateCreateAccount_platform intro: ca_apply_platform split: prod.split)

section \<open>Properties\<close>

text \<open>One call of a handler of employees or accounts.\<close>

inductive people_step :: "database \<Rightarrow> database \<Rightarrow> bool" where
  create_employee: "rt_fresh_id rt 0 \<notin> em_id ` set (employees db) \<Longrightarrow>
     people_step db (snd (createEmployee rt eq actor db))"
| update_employee: "people_step db (snd (updateEmployee rt i eq actor db))"
| disable_employee: "people_step db (snd (disableEmployee i actor db))"
| create_account: "rt_fresh_id rt 0 \<notin> aa_id ` set (affiliate_accounts db) \<Longrightarrow>
     people_step db (snd (createAccount rt aq actor db))"
| update_account: "people_step db (snd (updateAccount i aq actor db))"
| disable_account: "people_step db (snd (disableAccount i actor db))"

lemma people_step_ok: "people_step db db' \<Longrightarrow> people_ok db \<Longrightarrow> people_ok db'"
  by (erule people_step.cases) (simp_all add: people_handlers_ok [unfolded preserves_def])

text \<open>
  Codes identify. However the handlers are called, no two employees have the same code, no
  two accounts the same platform and code, and every account is one of Cake or Everflow.
\<close>

theorem people_stay_identified:
  assumes "people_step\<^sup>*\<^sup>* db db'" and "people_ok db"
  shows "distinct (map em_employeeCode (employees db')) \<and> distinct (map aa_key (affiliate_accounts db'))
    \<and> filter (\<lambda>a. aa_platform a \<noteq> ''cake'' \<and> aa_platform a \<noteq> ''everflow'') (affiliate_accounts db') = []"
proof -
  have "people_ok db'" using assms by (induction rule: rtranclp_induct) (auto intro: people_step_ok)
  then show ?thesis by (auto simp: people_ok_def known_platform_def filter_empty_conv list_all_iff)
qed

theorem people_stay_identified_witness:
  "distinct (map em_employeeCode (employees (snd (disableEmployee ''x'' sample_actor empty_db))))"
proof -
  have "people_step\<^sup>*\<^sup>* empty_db (snd (disableEmployee ''x'' sample_actor empty_db))"
    by (rule r_into_rtranclp) (rule people_step.disable_employee)
  moreover have "people_ok empty_db" by (simp add: people_ok_def empty_db_def)
  ultimately show ?thesis using people_stay_identified by blast
qed

text \<open>
  A code in use is refused and the attempt is recorded: creating an employee with the code
  of another one fails with \<open>DUPLICATE_RESOURCE\<close> and changes nothing but one audit row, which
  names the actor and the failure.
\<close>

theorem duplicate_employee_code_is_refused:
  assumes "validateCreateEmployee rt input = Inr (code, name, email, phone, hired, left, status)"
    and "prisma_status status = Inr st" and "find_row (\<lambda>e. em_employeeCode e = code) (employees db) = Some e"
  shows "\<exists>row. createEmployee rt input actor db =
      (Inl (AppError DUPLICATE_RESOURCE ''employeeCode already exists.''), db\<lparr>audit_logs := audit_logs db @ [row]\<rparr>)
    \<and> al_result row = AR_failure \<and> al_actorUserId row = Some (ac_userId actor) \<and> al_action row = ''employee.create''"
proof -
  have clash: "list_ex (\<lambda>r. em_employeeCode r = code) (employees db)"
    using find_row_Some [OF assms(3)] by (auto simp: list_ex_iff)
  show ?thesis
    using assms(1,2) clash
    by (intro exI [of _ "audit_row (duplicate_failure (em_audit actor ''employee.create'' None []) EMPLOYEE_DUPLICATE) AR_failure"])
      (simp add: createEmployee_def employee_insert_def table_insert_def op_catch_def op_bind_Inl record_duplicate_def
        isDuplicateError_def duplicateResource_def EMPLOYEE_DUPLICATE_def duplicate_failure_def audit_row_def
        em_audit_def auditInput_def)
qed

definition sample_employee_request :: employee_request where
  "sample_employee_request =
     \<lparr>eq_employeeCode = JString '' E1 '', eq_name = JString ''Ann'', eq_email = JUndefined, eq_phone = JNull,
      eq_hiredAt = JUndefined, eq_leftAt = JUndefined, eq_status = JUndefined\<rparr>"

theorem duplicate_employee_code_is_refused_witness:
  "fst (createEmployee sample_rt sample_employee_request sample_actor
     (snd (createEmployee sample_rt sample_employee_request sample_actor empty_db)))
   = Inl (AppError DUPLICATE_RESOURCE ''employeeCode already exists.'')"
proof -
  have v: "validateCreateEmployee sample_rt sample_employee_request
      = Inr (''E1'', ''Ann'', None, None, None, None, JString ''active'')"
    and s: "prisma_status (JString ''active'') = Inr CS_active"
    by code_simp+
  have "employees empty_db = []" by (simp add: empty_db_def)
  then have "find_row (\<lambda>e. em_employeeCode e = ''E1'')
      (employees (snd (createEmployee sample_rt sample_employee_request sample_actor empty_db)))
    = Some \<lparr>em_id = rt_fresh_id sample_rt 0, em_employeeCode = ''E1'', em_name = ''Ann'', em_email = None,
        em_phone = None, em_status = CS_active, em_hiredAt = None, em_leftAt = None\<rparr>"
    using v s by (simp add: createEmployee_def employee_insert_def table_insert_def put_employees_def op_catch_def op_bind_Inr)
  from duplicate_employee_code_is_refused [OF v s this, of sample_actor] show ?thesis by (elim exE conjE) simp
qed

end
