(* ===== verification/Card_Bindings.thy ===== *)
theory Card_Bindings
  imports Versioned_Rows Monthly_Rates
begin

text \<open>
  \<open>card-bindings.service.ts\<close>: which employee uses a card of a provider from a month on.
\<close>

record binding_request =
  bq_provider :: jsval
  bq_cardId :: jsval
  bq_effectiveMonth :: jsval
  bq_employeeId :: jsval
  bq_status :: jsval

record binding_update =
  bu_provider :: "provider option"
  bu_cardId :: "string option"
  bu_effectiveMonth :: "int option"
  bu_employeeId :: "string option"
  bu_status :: jsval

definition cb_write :: "int \<Rightarrow> string \<Rightarrow> string option \<Rightarrow> month_write" where
  "cb_write m action i =
     \<lparr>mw_settlementMonth = m, mw_action = action, mw_objectType = ''card_bindings'', mw_objectId = i\<rparr>"

definition cb_audit :: "actor \<Rightarrow> string \<Rightarrow> string \<Rightarrow> int \<Rightarrow> string list \<Rightarrow> audit_input" where
  "cb_audit actor action i m changed = auditInput actor action ''card_bindings'' (Some i) (Some m) changed"

definition cb_column :: "card_binding \<Rightarrow> string \<Rightarrow> jsval" where
  "cb_column r k =
     (if k = ''provider'' then JString (provider_name (cb_provider r))
      else if k = ''cardId'' then JString (cb_cardId r)
      else if k = ''effectiveMonth'' then JDate (Some (cb_effectiveMonth r))
      else if k = ''employeeId'' then JString (cb_employeeId r)
      else if k = ''status'' then JString (common_status_name (cb_status r)) else JUndefined)"

text \<open>\<open>@@unique([provider, cardId, effectiveMonth])\<close>\<close>

definition cb_key :: "card_binding \<Rightarrow> provider \<times> string \<times> int" where
  "cb_key r = (cb_provider r, cb_cardId r, cb_effectiveMonth r)"

definition put_bindings :: "card_binding list \<Rightarrow> database \<Rightarrow> database" where
  "put_bindings rows db = db\<lparr>card_bindings := rows\<rparr>"

definition binding_insert :: "card_binding \<Rightarrow> card_binding handler" where
  "binding_insert = table_insert card_bindings put_bindings (\<lambda>r r'. cb_key r = cb_key r')"

definition binding_set :: "string \<Rightarrow> (card_binding \<Rightarrow> card_binding) \<Rightarrow> card_binding handler" where
  "binding_set = table_update card_bindings put_bindings (\<lambda>r r'. cb_key r = cb_key r') cb_id"

section \<open>Handlers\<close>

definition BINDING_DUPLICATE :: string where
  "BINDING_DUPLICATE = ''provider + cardId + effectiveMonth already exists.''"

text \<open>The check of the provider is the one of the fee rates, written again in this service.\<close>

definition validateBindingProvider :: "jsval \<Rightarrow> provider outcome" where
  "validateBindingProvider v =
     (if v = JString ''airwallex'' then Inr airwallex else if v = JString ''photonpay'' then Inr photonpay
      else Inl (AppError VALIDATION_ERROR ''provider must be airwallex or photonpay.''))"

definition validateCreateBinding :: "runtime \<Rightarrow> binding_request \<Rightarrow> (provider \<times> string \<times> int \<times> string \<times> jsval) outcome" where
  "validateCreateBinding rt input =
     bind_res (validateBindingProvider (bq_provider input)) (\<lambda>provider.
     bind_res (requireNonBlank (bq_cardId input) ''cardId'') (\<lambda>card.
     bind_res (parseMonthStart rt (bq_effectiveMonth input) ''effectiveMonth'') (\<lambda>m.
     bind_res (requireNonBlank (bq_employeeId input) ''employeeId'') (\<lambda>employee.
     Inr (provider, card, m, employee, status_or_active (bq_status input))))))"

definition createBinding :: "runtime \<Rightarrow> binding_request \<Rightarrow> actor \<Rightarrow> card_binding handler" where
  "createBinding rt input actor =
     op_bind (op_lift (validateCreateBinding rt input)) (\<lambda>(provider, card, m, employee, status).
     op_bind (assertWritable (cb_write m ''card_binding.create'' None) (Some actor)) (\<lambda>_.
     op_catch
       (op_bind (op_lift (prisma_status status)) (\<lambda>st.
        op_bind (binding_insert
          \<lparr>cb_id = rt_fresh_id rt 0, cb_provider = provider, cb_cardId = card, cb_effectiveMonth = m,
           cb_employeeId = employee, cb_status = st, cb_createdBy = Some (ac_userId actor)\<rparr>) (\<lambda>r.
        op_bind (audit_success (cb_audit actor ''card_binding.create'' (cb_id r) m
          [''provider'', ''cardId'', ''effectiveMonth'', ''employeeId'', ''status''])) (\<lambda>_.
        op_return r))))
       (translate_duplicate BINDING_DUPLICATE)))"

definition listBindings :: "runtime \<Rightarrow> jsval \<Rightarrow> string option \<Rightarrow> jsval \<Rightarrow> jsval \<Rightarrow> card_binding list handler" where
  "listBindings rt status employeeId provider effectiveMonth =
     op_bind (op_lift (month_filter rt effectiveMonth ''effectiveMonth'')) (\<lambda>month_ok.
     op_bind (op_lift (status_filter status)) (\<lambda>status_ok.
     op_bind (op_lift (provider_filter provider)) (\<lambda>provider_ok.
     op_get (\<lambda>db. newest_first
       (\<lambda>r. status_ok (cb_status r) \<and> text_filter employeeId (cb_employeeId r) \<and> provider_ok (cb_provider r)
          \<and> month_ok (cb_effectiveMonth r))
       (card_bindings db)))))"

definition getBinding :: "string \<Rightarrow> card_binding handler" where
  "getBinding i = table_find card_bindings cb_id ''Card binding'' i"

definition validateUpdateBinding :: "runtime \<Rightarrow> binding_request \<Rightarrow> binding_update outcome" where
  "validateUpdateBinding rt input =
     bind_res (if_given (bq_provider input) validateBindingProvider) (\<lambda>provider.
     bind_res (if_given (bq_cardId input) (\<lambda>v. requireNonBlank v ''cardId'')) (\<lambda>card.
     bind_res (if_given (bq_effectiveMonth input) (\<lambda>v. parseMonthStart rt v ''effectiveMonth'')) (\<lambda>m.
     bind_res (if_given (bq_employeeId input) (\<lambda>v. requireNonBlank v ''employeeId'')) (\<lambda>employee.
     Inr \<lparr>bu_provider = provider, bu_cardId = card, bu_effectiveMonth = m, bu_employeeId = employee,
          bu_status = bq_status input\<rparr>))))"

definition bu_keys :: "binding_update \<Rightarrow> string list" where
  "bu_keys d = keys_given
     [(''provider'', bu_provider d \<noteq> None), (''cardId'', bu_cardId d \<noteq> None),
      (''effectiveMonth'', bu_effectiveMonth d \<noteq> None), (''employeeId'', bu_employeeId d \<noteq> None),
      (''status'', \<not> is_undefined (bu_status d))]"

definition bu_apply :: "binding_update \<Rightarrow> common_status option \<Rightarrow> card_binding \<Rightarrow> card_binding" where
  "bu_apply d st r =
     r\<lparr>cb_provider := or_keep (bu_provider d) (cb_provider r), cb_cardId := or_keep (bu_cardId d) (cb_cardId r),
       cb_effectiveMonth := or_keep (bu_effectiveMonth d) (cb_effectiveMonth r),
       cb_employeeId := or_keep (bu_employeeId d) (cb_employeeId r), cb_status := or_keep st (cb_status r)\<rparr>"

definition updateBinding :: "runtime \<Rightarrow> string \<Rightarrow> binding_request \<Rightarrow> actor \<Rightarrow> card_binding handler" where
  "updateBinding rt i input actor =
     op_bind (getBinding i) (\<lambda>before.
     op_bind (op_lift (validateUpdateBinding rt input)) (\<lambda>data.
     op_bind (assertWritable (cb_write (cb_effectiveMonth before) ''card_binding.update'' (Some i)) (Some actor)) (\<lambda>_.
     op_bind (guard_if_renamed (bu_effectiveMonth data) (cb_effectiveMonth before)
       (\<lambda>m. cb_write m ''card_binding.update'' (Some i)) actor) (\<lambda>_.
     op_catch
       (op_bind (op_lift (optional_status (bu_status data))) (\<lambda>st.
        op_bind (binding_set i (bu_apply data st)) (\<lambda>after.
        op_bind (audit_success (cb_audit actor ''card_binding.update'' i (cb_effectiveMonth after)
          (changedFields cb_column before after (bu_keys data)))) (\<lambda>_.
        op_return after))))
       (translate_duplicate BINDING_DUPLICATE)))))"

definition disableBinding :: "string \<Rightarrow> actor \<Rightarrow> card_binding handler" where
  "disableBinding i actor =
     op_bind (getBinding i) (\<lambda>before.
     op_bind (assertWritable (cb_write (cb_effectiveMonth before) ''card_binding.disable'' (Some i)) (Some actor)) (\<lambda>_.
     op_bind (binding_set i (\<lambda>r. r\<lparr>cb_status := CS_disabled\<rparr>)) (\<lambda>after.
     op_bind (audit_success (cb_audit actor ''card_binding.disable'' i (cb_effectiveMonth before) [''status''])) (\<lambda>_.
     op_return after))))"

section \<open>Invariant\<close>

definition bindings_ok :: "database \<Rightarrow> bool" where
  "bindings_ok db \<longleftrightarrow> distinct (map cb_key (card_bindings db)) \<and> distinct (map cb_id (card_bindings db))
     \<and> list_all (\<lambda>r. is_month_start (cb_effectiveMonth r)) (card_bindings db)"

lemma audit_stable_bindings_ok [simp]: "audit_stable bindings_ok"
  by (simp add: audit_stable_def bindings_ok_def)

interpretation binding_table: month_table card_bindings put_bindings cb_id cb_effectiveMonth
  by unfold_locales (auto simp: put_bindings_def month_scope_def)

lemma binding_insert_ok:
  "bindings_ok db \<Longrightarrow> cb_id r \<notin> cb_id ` set (card_bindings db) \<Longrightarrow> is_month_start (cb_effectiveMonth r) \<Longrightarrow>
   preserves bindings_ok db (binding_insert r)"
  by (auto simp: preserves_def bindings_ok_def binding_insert_def table_insert_def list_ex_iff put_bindings_def)

lemma binding_set_ok:
  assumes "bindings_ok db" "\<And>r. cb_id (f r) = cb_id r"
    and "\<And>r. is_month_start (cb_effectiveMonth r) \<Longrightarrow> is_month_start (cb_effectiveMonth (f r))"
  shows "preserves bindings_ok db (binding_set i f)"
proof -
  have "list_all (\<lambda>r. is_month_start (cb_effectiveMonth r)) (card_bindings db)"
    using assms(1) by (simp add: bindings_ok_def)
  then have "list_all (\<lambda>r. is_month_start (cb_effectiveMonth r)) (card_bindings (snd (binding_set i f db)))"
    unfolding binding_set_def using assms(3) find_row_Some
    by (intro binding_table.update_all) (auto simp: list_all_iff dest!: find_row_Some)
  then show ?thesis
    using assms binding_table.update_distinct [of cb_key db f i]
    by (simp add: preserves_def bindings_ok_def binding_set_def)
qed

lemma validateUpdateBinding_month:
  "validateUpdateBinding rt input = Inr d \<Longrightarrow> bu_effectiveMonth d = Some m \<Longrightarrow> is_month_start m"
  by (auto simp: validateUpdateBinding_def bind_res_Inr_iff dest!: if_given_Inr parseMonthStart_month_start)

lemma validateCreateBinding_month:
  "validateCreateBinding rt input = Inr (p, c, m, e, s) \<Longrightarrow> is_month_start m"
  by (auto simp: validateCreateBinding_def bind_res_Inr_iff dest: parseMonthStart_month_start)

lemma bu_apply_month:
  "validateUpdateBinding rt input = Inr d \<Longrightarrow> is_month_start (cb_effectiveMonth r) \<Longrightarrow>
   is_month_start (cb_effectiveMonth (bu_apply d st r))"
  using validateUpdateBinding_month
  by (cases "bu_effectiveMonth d") (auto simp: bu_apply_def or_keep_def)

lemma bu_apply_id [simp]: "cb_id (bu_apply d st r) = cb_id r"
  by (simp add: bu_apply_def)

lemma binding_handlers_ok:
  assumes "bindings_ok db"
  shows "rt_fresh_id rt 0 \<notin> cb_id ` set (card_bindings db) \<Longrightarrow> preserves bindings_ok db (createBinding rt input actor)"
    and "preserves bindings_ok db (updateBinding rt i input actor)"
    and "preserves bindings_ok db (disableBinding i actor)"
  using assms
  unfolding createBinding_def updateBinding_def disableBinding_def getBinding_def
  by (auto intro!: preserves_steps preserves_guard_if_renamed binding_insert_ok binding_set_ok
      dest: validateCreateBinding_month intro: bu_apply_month split: prod.split)

section \<open>Locked months are left alone\<close>

lemma bindings_ok_month:
  "bindings_ok db \<Longrightarrow> find_row (\<lambda>r. cb_id r = i) (card_bindings db) = Some r \<Longrightarrow> is_month_start (cb_effectiveMonth r)"
  by (auto simp: bindings_ok_def list_all_iff dest!: find_row_Some)

lemmas binding_operations = binding_insert_def binding_set_def getBinding_def

lemma freezes_createBinding: "freezes m (createBinding rt input actor)"
  unfolding createBinding_def binding_operations
  by (auto intro!: freezes_bind_pure freezes_guarded freezes_catch freezes_bind binding_table.insert_freezes
      simp: cb_write_def split: prod.split)

lemma freezes_at_updateBinding:
  "bindings_ok db \<Longrightarrow> four_digit_year m \<Longrightarrow> freezes_at m db (updateBinding rt i input actor)"
  unfolding updateBinding_def binding_operations
  by (intro freezes_at_table_find freezes_at_lift freezes_at_guard freezes_at_guard_if_renamed freezes_at_catch
      freezes_at_bind binding_table.update_freezes_at)
    (auto simp: cb_write_def bu_apply_def bindings_ok_month dest: validateUpdateBinding_month)

lemma freezes_disableBinding: "freezes m (disableBinding i actor)"
  unfolding disableBinding_def binding_operations
  by (rule freezes_eachI)
    (auto intro!: freezes_at_table_find freezes_at_guard freezes_at_bind binding_table.update_freezes_at
      simp: cb_write_def)

end
