(* ===== verification/Card_Matching.thy ===== *)
theory Card_Matching
  imports Sample_Runtime
begin

text \<open>
  \<open>provider-card-matching.ts\<close>: finding the employee a provider's card belongs to by the email
  of its holder, and the masked form of an email that may be shown and logged.
\<close>

section \<open>Emails\<close>

definition normalizeEmail :: "string option \<Rightarrow> string option" where
  "normalizeEmail value =
     (case value of None \<Rightarrow> None
      | Some s \<Rightarrow> (let email = js_lower (js_trim s) in if email = [] then None else Some (take 255 email)))"

text \<open>\<open>/^[^\s@]+@[^\s@]+\.[^\s@]+$/\<close>: one at sign, no white space, a dot inside the domain.\<close>

definition is_email_char :: "char \<Rightarrow> bool" where
  "is_email_char c \<longleftrightarrow> \<not> is_js_space c \<and> c \<noteq> CHR ''@''"

definition before_at :: "string \<Rightarrow> string" where
  "before_at s = takeWhile (\<lambda>c. c \<noteq> CHR ''@'') s"

definition after_at :: "string \<Rightarrow> string" where
  "after_at s = tl (dropWhile (\<lambda>c. c \<noteq> CHR ''@'') s)"

definition isValidEmail :: "string \<Rightarrow> bool" where
  "isValidEmail s \<longleftrightarrow>
     length s \<le> 255 \<and> CHR ''@'' \<in> set s \<and> before_at s \<noteq> [] \<and> list_all is_email_char (before_at s)
     \<and> list_all is_email_char (after_at s) \<and> CHR ''.'' \<in> set (butlast (tl (after_at s)))"

text \<open>\<open>s.split('.')\<close>\<close>

fun js_split :: "char \<Rightarrow> string \<Rightarrow> string list" where
  "js_split d [] = [[]]"
| "js_split d (c # s) =
     (if c = d then [] # js_split d s
      else case js_split d s of [] \<Rightarrow> [[c]] | p # ps \<Rightarrow> (c # p) # ps)"

definition maskEmail :: "string option \<Rightarrow> string option" where
  "maskEmail value =
     (case normalizeEmail value of None \<Rightarrow> None
      | Some normalized \<Rightarrow>
          Some (if CHR ''@'' \<notin> set normalized \<or> before_at normalized = [] then ''[invalid-email]''
            else let local = before_at normalized;
                     parts = js_split CHR ''.'' (after_at normalized);
                     name = hd parts; rest = tl parts;
                     maskedLocal = (if length local \<le> 2 then [hd local] @ ''*'' else take 2 local @ ''***'');
                     first = (if name = [] then ''*'' else take 1 name);
                     maskedDomain = first @ ''***'' @ (if rest = [] then [] else ''.'' @ js_join ''.'' rest)
                 in maskedLocal @ ''@'' @ maskedDomain))"

section \<open>Matching\<close>

record card_match =
  pm_employeeId :: "string option"
  pm_status :: card_match_status
  pm_source :: "card_match_source option"
  pm_reasonCode :: "string option"
  pm_aliasId :: "string option"

record match_input =
  pi_provider :: provider
  pi_email :: "string option"
  pi_forcedReasonCode :: "string option"
  pi_employees :: "employee list"
  pi_aliases :: "email_alias list option"
  pi_subMappedEmployeeIds :: "string list option"
  pi_matchingAt :: "int option"

definition unmatched :: "card_match_status \<Rightarrow> string \<Rightarrow> card_match" where
  "unmatched status reason =
     \<lparr>pm_employeeId = None, pm_status = status, pm_source = None, pm_reasonCode = Some reason, pm_aliasId = None\<rparr>"

definition validateEmployeeMatch ::
  "employee \<Rightarrow> card_match_source \<Rightarrow> string option \<Rightarrow> provider \<Rightarrow> string list option \<Rightarrow> card_match" where
  "validateEmployeeMatch employee source aliasId provider subMapped =
     (if em_status employee \<noteq> CS_active then unmatched CM_unmatched ''EMPLOYEE_DISABLED''
      else if provider = photonpay \<and> \<not> (case subMapped of None \<Rightarrow> False | Some ids \<Rightarrow> em_id employee \<in> set ids)
      then unmatched CM_unmatched ''EMPLOYEE_WITHOUT_SUB''
      else \<lparr>pm_employeeId = Some (em_id employee), pm_status = CM_matched, pm_source = Some source,
            pm_reasonCode = None, pm_aliasId = aliasId\<rparr>)"

definition has_primary_email :: "string \<Rightarrow> employee \<Rightarrow> bool" where
  "has_primary_email email e \<longleftrightarrow> normalizeEmail (em_email e) = Some email"

definition alias_applies :: "string \<Rightarrow> int \<Rightarrow> email_alias \<Rightarrow> bool" where
  "alias_applies email moment a \<longleftrightarrow>
     ea_provider a = photonpay \<and> ea_status a = CS_active \<and> ea_aliasEmailNormalized a = email
     \<and> ea_validFrom a \<le> moment \<and> (case ea_validTo a of None \<Rightarrow> True | Some to \<Rightarrow> moment < to)"

definition alias_matches :: "runtime \<Rightarrow> match_input \<Rightarrow> string \<Rightarrow> email_alias list" where
  "alias_matches rt input email =
     (if pi_provider input = photonpay
      then filter (alias_applies email (case pi_matchingAt input of None \<Rightarrow> rt_now rt | Some t \<Rightarrow> t))
             (case pi_aliases input of None \<Rightarrow> [] | Some xs \<Rightarrow> xs)
      else [])"

text \<open>The part after the holder's email was found to be well-formed.\<close>

definition match_by_email :: "runtime \<Rightarrow> match_input \<Rightarrow> string \<Rightarrow> card_match" where
  "match_by_email rt input email =
     (let primaryMatches = filter (has_primary_email email) (pi_employees input);
          aliasMatches = alias_matches rt input email
      in if length primaryMatches > 1 then unmatched CM_conflict ''EMPLOYEE_EMAIL_AMBIGUOUS''
         else if length aliasMatches > 1 then unmatched CM_conflict ''PROVIDER_EMAIL_ALIAS_AMBIGUOUS''
         else case (primaryMatches, aliasMatches) of
                (p # _, a # _) \<Rightarrow>
                  if em_id p \<noteq> ea_employeeId a then unmatched CM_conflict ''PRIMARY_EMAIL_ALIAS_CONFLICT''
                  else validateEmployeeMatch p employee_primary_email None (pi_provider input) (pi_subMappedEmployeeIds input)
              | (p # _, []) \<Rightarrow>
                  validateEmployeeMatch p employee_primary_email None (pi_provider input) (pi_subMappedEmployeeIds input)
              | ([], a # _) \<Rightarrow>
                  (case find_row (\<lambda>e. em_id e = ea_employeeId a) (pi_employees input) of
                     None \<Rightarrow> unmatched CM_unmatched ''EMPLOYEE_NOT_FOUND''
                   | Some e \<Rightarrow> validateEmployeeMatch e provider_email_alias (Some (ea_id a)) (pi_provider input)
                       (pi_subMappedEmployeeIds input))
              | ([], []) \<Rightarrow> unmatched CM_unmatched ''EMPLOYEE_NOT_FOUND'')"

definition matchProviderCard :: "runtime \<Rightarrow> match_input \<Rightarrow> card_match" where
  "matchProviderCard rt input =
     (case pi_forcedReasonCode input of
        Some (c # code) \<Rightarrow>
          unmatched (if c # code = ''MULTIPLE_CARDHOLDERS'' then CM_conflict else CM_unmatched) (c # code)
      | _ \<Rightarrow>
          (case normalizeEmail (pi_email input) of
             None \<Rightarrow> unmatched CM_unmatched ''CARDHOLDER_EMAIL_MISSING''
           | Some email \<Rightarrow>
               if \<not> isValidEmail email then unmatched CM_unmatched ''CARDHOLDER_EMAIL_INVALID''
               else match_by_email rt input email))"

section \<open>Facts\<close>

lemma unmatched_fields [simp]:
  "pm_employeeId (unmatched s r) = None" "pm_status (unmatched s r) = s" "pm_reasonCode (unmatched s r) = Some r"
  by (simp_all add: unmatched_def)

text \<open>A match that names nobody is never a match, and names the reason.\<close>

definition consistent_match :: "card_match \<Rightarrow> bool" where
  "consistent_match m \<longleftrightarrow> (pm_employeeId m = None) = (pm_status m \<noteq> CM_matched)
     \<and> (pm_reasonCode m = None) = (pm_status m = CM_matched)"

lemma consistent_unmatched: "s \<noteq> CM_matched \<Longrightarrow> consistent_match (unmatched s r)"
  by (simp add: consistent_match_def)

lemma consistent_validate: "consistent_match (validateEmployeeMatch e s a p ids)"
  by (auto simp: validateEmployeeMatch_def consistent_match_def)

lemma consistent_matchProviderCard: "consistent_match (matchProviderCard rt input)"
  by (auto simp: matchProviderCard_def match_by_email_def Let_def consistent_unmatched consistent_validate
      split: option.split list.split)

lemma validate_matched:
  "pm_status (validateEmployeeMatch e s a p ids) = CM_matched \<longleftrightarrow>
     em_status e = CS_active \<and> (p = photonpay \<longrightarrow> (\<exists>xs. ids = Some xs \<and> em_id e \<in> set xs))"
  by (auto simp: validateEmployeeMatch_def split: option.split)

lemma validate_employee:
  "pm_employeeId (validateEmployeeMatch e s a p ids) = Some i \<Longrightarrow>
     i = em_id e \<and> em_status e = CS_active \<and> (p = photonpay \<longrightarrow> (\<exists>xs. ids = Some xs \<and> em_id e \<in> set xs))"
  by (auto simp: validateEmployeeMatch_def split: if_splits option.splits)

lemma length_le_1: "\<not> 1 < length xs \<longleftrightarrow> xs = [] \<or> (\<exists>x. xs = [x])"
  by (cases xs; cases "tl xs") auto

lemma before_at_append: "CHR ''@'' \<notin> set l \<Longrightarrow> before_at (l @ CHR ''@'' # d) = l"
  by (induction l) (auto simp: before_at_def)

lemma after_at_append: "CHR ''@'' \<notin> set l \<Longrightarrow> after_at (l @ CHR ''@'' # d) = d"
  by (induction l) (auto simp: after_at_def)

lemma js_split_nonempty: "js_split c s \<noteq> []"
  by (cases "(c, s)" rule: js_split.cases) (auto split: list.split)

lemma js_split_append: "c \<notin> set p \<Longrightarrow> js_split c (p @ c # s) = p # js_split c s"
  by (induction p) (auto split: list.split)

section \<open>Properties\<close>

text \<open>
  C27: A card is only given to the employee its holder's email names. When a match names an
  employee, the email is well-formed, the employee is active (and has a sub id when the provider
  is PhotonPay), and the email names nobody else: either this is the only employee with that
  email and no alias says otherwise, or nobody has it and exactly one alias in force names the
  employee.
\<close>

theorem card_match_names_the_holder:
  assumes "pm_employeeId (matchProviderCard rt input) = Some i"
  shows "\<exists>email e. normalizeEmail (pi_email input) = Some email \<and> isValidEmail email
    \<and> e \<in> set (pi_employees input) \<and> em_id e = i \<and> em_status e = CS_active
    \<and> (pi_provider input = photonpay \<longrightarrow> (\<exists>ids. pi_subMappedEmployeeIds input = Some ids \<and> i \<in> set ids))
    \<and> (filter (has_primary_email email) (pi_employees input) = [e]
         \<and> list_all (\<lambda>a. ea_employeeId a = i) (alias_matches rt input email)
       \<or> filter (has_primary_email email) (pi_employees input) = []
         \<and> (\<exists>a. alias_matches rt input email = [a] \<and> ea_employeeId a = i))"
proof -
  obtain email where email: "normalizeEmail (pi_email input) = Some email" "isValidEmail email"
    and m: "pm_employeeId (match_by_email rt input email) = Some i"
    using assms by (auto simp: matchProviderCard_def split: option.splits list.splits if_splits)
  let ?p = "filter (has_primary_email email) (pi_employees input)" and ?a = "alias_matches rt input email"
  have len: "?p = [] \<or> (\<exists>x. ?p = [x])" "?a = [] \<or> (\<exists>x. ?a = [x])"
    using m unfolding length_le_1 [symmetric] by (auto simp: match_by_email_def Let_def split: if_splits)
  from len(1) show ?thesis
  proof
    assume p: "?p = []"
    then obtain a e where a: "?a = [a]" "find_row (\<lambda>e. em_id e = ea_employeeId a) (pi_employees input) = Some e"
      and "pm_employeeId (validateEmployeeMatch e provider_email_alias (Some (ea_id a)) (pi_provider input)
             (pi_subMappedEmployeeIds input)) = Some i"
      using m len(2) by (auto simp: match_by_email_def Let_def split: option.splits)
    then show ?thesis
      using email p validate_employee find_row_Some [OF a(2)] by (intro exI [of _ email] exI [of _ e]) (auto dest!: validate_employee)
  next
    assume "\<exists>x. ?p = [x]"
    then obtain e where p: "?p = [e]" by blast
    have "e \<in> set ?p" by (simp add: p)
    then have e: "e \<in> set (pi_employees input)" by simp
    have v: "pm_employeeId (validateEmployeeMatch e employee_primary_email None (pi_provider input)
             (pi_subMappedEmployeeIds input)) = Some i" and "list_all (\<lambda>a. ea_employeeId a = em_id e) ?a"
      using m len(2) p by (auto simp: match_by_email_def Let_def split: if_splits)
    then show ?thesis
      using email p e by (intro exI [of _ email] exI [of _ e]) (auto dest!: validate_employee)
  qed
qed

text \<open>
  The result of a match is never half one: it names an employee exactly when its status is
  matched, and gives a reason exactly when it is not.
\<close>

theorem card_match_result_is_consistent:
  "(pm_employeeId (matchProviderCard rt input) = None) = (pm_status (matchProviderCard rt input) \<noteq> CM_matched)
   \<and> (pm_reasonCode (matchProviderCard rt input) = None) = (pm_status (matchProviderCard rt input) = CM_matched)"
  using consistent_matchProviderCard by (simp add: consistent_match_def)

text \<open>
  A masked email hides its holder: two addresses at domains that agree from the first dot
  on, and that agree in the first two characters before the at sign (when there are more) and in
  the first of the domain, have the same mask.
\<close>

theorem mask_hides_the_holder:
  assumes "normalizeEmail v = Some (l @ CHR ''@'' # x # n @ CHR ''.'' # rest)"
    and "normalizeEmail w = Some (l' @ CHR ''@'' # x # n' @ CHR ''.'' # rest)"
    and "CHR ''@'' \<notin> set l" and "CHR ''@'' \<notin> set l'" and "CHR ''.'' \<notin> set (x # n)" and "CHR ''.'' \<notin> set (x # n')"
    and "2 < length l" and "2 < length l'" and "take 2 l = take 2 l'"
  shows "maskEmail v = maskEmail w"
proof -
  have s: "js_split CHR ''.'' (x # n @ CHR ''.'' # rest) = (x # n) # js_split CHR ''.'' rest"
    "js_split CHR ''.'' (x # n' @ CHR ''.'' # rest) = (x # n') # js_split CHR ''.'' rest"
    using js_split_append [OF assms(5)] js_split_append [OF assms(6)] by simp_all
  have "l \<noteq> []" "l' \<noteq> []" using assms(7,8) by auto
  then show ?thesis
    using assms(7-9)
    by (simp add: maskEmail_def assms(1,2) before_at_append [OF assms(3)] before_at_append [OF assms(4)]
        after_at_append [OF assms(3)] after_at_append [OF assms(4)] s Let_def del: js_split.simps)
qed

section \<open>Examples\<close>

definition sample_holder :: employee where
  "sample_holder =
     \<lparr>em_id = ''e1'', em_employeeCode = ''E1'', em_name = ''Ann'', em_email = Some '' Ann@Acme.io'', em_phone = None,
      em_status = CS_active, em_hiredAt = None, em_leftAt = None\<rparr>"

definition sample_match :: match_input where
  "sample_match =
     \<lparr>pi_provider = photonpay, pi_email = Some ''ann@acme.io'', pi_forcedReasonCode = None,
      pi_employees = [sample_holder], pi_aliases = None, pi_subMappedEmployeeIds = Some [''e1''], pi_matchingAt = Some 0\<rparr>"

theorem card_match_names_the_holder_witness:
  "pm_employeeId (matchProviderCard sample_rt sample_match) = Some ''e1''
   \<and> (\<exists>email e. normalizeEmail (pi_email sample_match) = Some email \<and> e \<in> set (pi_employees sample_match) \<and> em_id e = ''e1'')"
proof -
  have m: "pm_employeeId (matchProviderCard sample_rt sample_match) = Some ''e1''" by code_simp
  from card_match_names_the_holder [OF m] m show ?thesis by blast
qed

theorem mask_hides_the_holder_witness:
  "maskEmail (Some ''Anna@acme.io'') = maskEmail (Some ''andrew@apple.io'')"
proof -
  have "normalizeEmail (Some ''Anna@acme.io'') = Some (''anna'' @ CHR ''@'' # CHR ''a'' # ''cme'' @ CHR ''.'' # ''io'')"
    "normalizeEmail (Some ''andrew@apple.io'') = Some (''andrew'' @ CHR ''@'' # CHR ''a'' # ''pple'' @ CHR ''.'' # ''io'')"
    by code_simp+
  then show ?thesis by (rule mask_hides_the_holder) simp_all
qed

end
