(* ===== verification/Sub_Id_Mappings.thy ===== *)
theory Sub_Id_Mappings
  imports Versioned_Rows
begin

text \<open>
  \<open>sub-id-mappings.service.ts\<close> and \<open>effective-sub-id-mappings.ts\<close>: which employee earns the
  income of a sub id from a month on, and the resolution of the version in effect in a month.
\<close>

section \<open>The table\<close>

record mapping_request =
  aq_affiliateAccountId :: jsval
  aq_subField :: jsval
  aq_subValue :: jsval
  aq_effectiveMonth :: jsval
  aq_employeeId :: jsval
  aq_status :: jsval

record mapping_update =
  au_affiliateAccountId :: "string option"
  au_subField :: "string option"
  au_subValue :: "string option"
  au_effectiveMonth :: "int option"
  au_employeeId :: "string option"
  au_status :: jsval

definition sm_write :: "int \<Rightarrow> string \<Rightarrow> string option \<Rightarrow> month_write" where
  "sm_write m action i =
     \<lparr>mw_settlementMonth = m, mw_action = action, mw_objectType = ''sub_id_mappings'', mw_objectId = i\<rparr>"

definition sm_audit :: "actor \<Rightarrow> string \<Rightarrow> string \<Rightarrow> int \<Rightarrow> string list \<Rightarrow> audit_input" where
  "sm_audit actor action i m changed = auditInput actor action ''sub_id_mappings'' (Some i) (Some m) changed"

definition sm_column :: "sub_id_mapping \<Rightarrow> string \<Rightarrow> jsval" where
  "sm_column r k =
     (if k = ''affiliateAccountId'' then JString (sm_affiliateAccountId r)
      else if k = ''subField'' then JString (sm_subField r)
      else if k = ''subValue'' then JString (sm_subValue r)
      else if k = ''effectiveMonth'' then JDate (Some (sm_effectiveMonth r))
      else if k = ''employeeId'' then JString (sm_employeeId r)
      else if k = ''status'' then JString (common_status_name (sm_status r)) else JUndefined)"

text \<open>
  The business key of a mapping, which \<open>mappingBusinessKey\<close> prints as a JSON array of the
  three strings (an injective text), and the key with the version, which is unique.
\<close>

definition mappingBusinessKey :: "sub_id_mapping \<Rightarrow> string \<times> string \<times> string" where
  "mappingBusinessKey r = (sm_affiliateAccountId r, sm_subField r, sm_subValue r)"

definition sm_key :: "sub_id_mapping \<Rightarrow> (string \<times> string \<times> string) \<times> int" where
  "sm_key r = (mappingBusinessKey r, sm_effectiveMonth r)"

definition put_mappings :: "sub_id_mapping list \<Rightarrow> database \<Rightarrow> database" where
  "put_mappings rows db = db\<lparr>sub_mappings := rows\<rparr>"

definition mapping_insert :: "sub_id_mapping \<Rightarrow> sub_id_mapping handler" where
  "mapping_insert = table_insert sub_mappings put_mappings (\<lambda>r r'. sm_key r = sm_key r')"

definition mapping_set :: "string \<Rightarrow> (sub_id_mapping \<Rightarrow> sub_id_mapping) \<Rightarrow> sub_id_mapping handler" where
  "mapping_set = table_update sub_mappings put_mappings (\<lambda>r r'. sm_key r = sm_key r') sm_id"

section \<open>Handlers\<close>

definition MAPPING_DUPLICATE :: string where
  "MAPPING_DUPLICATE = ''affiliateAccountId + subField + subValue + effectiveMonth already exists.''"

definition validateCreateMapping ::
  "runtime \<Rightarrow> mapping_request \<Rightarrow> (string \<times> string \<times> string \<times> int \<times> string \<times> jsval) outcome" where
  "validateCreateMapping rt input =
     bind_res (requireNonBlank (aq_affiliateAccountId input) ''affiliateAccountId'') (\<lambda>account.
     bind_res (requireNonBlank (aq_subField input) ''subField'') (\<lambda>subField.
     bind_res (requireNonBlank (aq_subValue input) ''subValue'') (\<lambda>subValue.
     bind_res (parseMonthStart rt (aq_effectiveMonth input) ''effectiveMonth'') (\<lambda>m.
     bind_res (requireNonBlank (aq_employeeId input) ''employeeId'') (\<lambda>employee.
     Inr (account, subField, subValue, m, employee, status_or_active (aq_status input)))))))"

definition createMapping :: "runtime \<Rightarrow> mapping_request \<Rightarrow> actor \<Rightarrow> sub_id_mapping handler" where
  "createMapping rt input actor =
     op_bind (op_lift (validateCreateMapping rt input)) (\<lambda>(account, subField, subValue, m, employee, status).
     op_bind (assertWritable (sm_write m ''sub_id_mapping.create'' None) (Some actor)) (\<lambda>_.
     op_catch
       (op_bind (op_lift (prisma_status status)) (\<lambda>st.
        op_bind (mapping_insert
          \<lparr>sm_id = rt_fresh_id rt 0, sm_affiliateAccountId = account, sm_subField = subField, sm_subValue = subValue,
           sm_effectiveMonth = m, sm_employeeId = employee, sm_status = st,
           sm_createdBy = Some (ac_userId actor)\<rparr>) (\<lambda>r.
        op_bind (audit_success (sm_audit actor ''sub_id_mapping.create'' (sm_id r) m
          [''affiliateAccountId'', ''subField'', ''subValue'', ''effectiveMonth'', ''employeeId'', ''status''])) (\<lambda>_.
        op_return r))))
       (translate_duplicate MAPPING_DUPLICATE)))"

definition listMappings :: "runtime \<Rightarrow> jsval \<Rightarrow> string option \<Rightarrow> jsval \<Rightarrow> sub_id_mapping list handler" where
  "listMappings rt status employeeId effectiveMonth =
     op_bind (op_lift (month_filter rt effectiveMonth ''effectiveMonth'')) (\<lambda>month_ok.
     op_bind (op_lift (status_filter status)) (\<lambda>status_ok.
     op_get (\<lambda>db. newest_first
       (\<lambda>r. status_ok (sm_status r) \<and> text_filter employeeId (sm_employeeId r) \<and> month_ok (sm_effectiveMonth r))
       (sub_mappings db))))"

definition getMapping :: "string \<Rightarrow> sub_id_mapping handler" where
  "getMapping i = table_find sub_mappings sm_id ''SUB ID mapping'' i"

definition validateUpdateMapping :: "runtime \<Rightarrow> mapping_request \<Rightarrow> mapping_update outcome" where
  "validateUpdateMapping rt input =
     bind_res (if_given (aq_affiliateAccountId input) (\<lambda>v. requireNonBlank v ''affiliateAccountId'')) (\<lambda>account.
     bind_res (if_given (aq_subField input) (\<lambda>v. requireNonBlank v ''subField'')) (\<lambda>subField.
     bind_res (if_given (aq_subValue input) (\<lambda>v. requireNonBlank v ''subValue'')) (\<lambda>subValue.
     bind_res (if_given (aq_effectiveMonth input) (\<lambda>v. parseMonthStart rt v ''effectiveMonth'')) (\<lambda>m.
     bind_res (if_given (aq_employeeId input) (\<lambda>v. requireNonBlank v ''employeeId'')) (\<lambda>employee.
     Inr \<lparr>au_affiliateAccountId = account, au_subField = subField, au_subValue = subValue,
          au_effectiveMonth = m, au_employeeId = employee, au_status = aq_status input\<rparr>)))))"

definition au_keys :: "mapping_update \<Rightarrow> string list" where
  "au_keys d = keys_given
     [(''affiliateAccountId'', au_affiliateAccountId d \<noteq> None), (''subField'', au_subField d \<noteq> None),
      (''subValue'', au_subValue d \<noteq> None), (''effectiveMonth'', au_effectiveMonth d \<noteq> None),
      (''employeeId'', au_employeeId d \<noteq> None), (''status'', \<not> is_undefined (au_status d))]"

definition au_apply :: "mapping_update \<Rightarrow> common_status option \<Rightarrow> sub_id_mapping \<Rightarrow> sub_id_mapping" where
  "au_apply d st r =
     r\<lparr>sm_affiliateAccountId := or_keep (au_affiliateAccountId d) (sm_affiliateAccountId r),
       sm_subField := or_keep (au_subField d) (sm_subField r),
       sm_subValue := or_keep (au_subValue d) (sm_subValue r),
       sm_effectiveMonth := or_keep (au_effectiveMonth d) (sm_effectiveMonth r),
       sm_employeeId := or_keep (au_employeeId d) (sm_employeeId r),
       sm_status := or_keep st (sm_status r)\<rparr>"

definition updateMapping :: "runtime \<Rightarrow> string \<Rightarrow> mapping_request \<Rightarrow> actor \<Rightarrow> sub_id_mapping handler" where
  "updateMapping rt i input actor =
     op_bind (getMapping i) (\<lambda>before.
     op_bind (op_lift (validateUpdateMapping rt input)) (\<lambda>data.
     op_bind (assertWritable (sm_write (sm_effectiveMonth before) ''sub_id_mapping.update'' (Some i)) (Some actor)) (\<lambda>_.
     op_bind (guard_if_renamed (au_effectiveMonth data) (sm_effectiveMonth before)
       (\<lambda>m. sm_write m ''sub_id_mapping.update'' (Some i)) actor) (\<lambda>_.
     op_catch
       (op_bind (op_lift (optional_status (au_status data))) (\<lambda>st.
        op_bind (mapping_set i (au_apply data st)) (\<lambda>after.
        op_bind (audit_success (sm_audit actor ''sub_id_mapping.update'' i (sm_effectiveMonth after)
          (changedFields sm_column before after (au_keys data)))) (\<lambda>_.
        op_return after))))
       (translate_duplicate MAPPING_DUPLICATE)))))"

definition disableMapping :: "string \<Rightarrow> actor \<Rightarrow> sub_id_mapping handler" where
  "disableMapping i actor =
     op_bind (getMapping i) (\<lambda>before.
     op_bind (assertWritable (sm_write (sm_effectiveMonth before) ''sub_id_mapping.disable'' (Some i)) (Some actor)) (\<lambda>_.
     op_bind (mapping_set i (\<lambda>r. r\<lparr>sm_status := CS_disabled\<rparr>)) (\<lambda>after.
     op_bind (audit_success (sm_audit actor ''sub_id_mapping.disable'' i (sm_effectiveMonth before) [''status''])) (\<lambda>_.
     op_return after))))"

section \<open>The version in effect\<close>

text \<open>A mapping with the columns of its employee the resolver selects.\<close>

type_synonym effective_mapping = "sub_id_mapping \<times> employee option"

record resolve_input =
  rv_settlementMonth :: int
  rv_affiliateAccountId :: "string option"
  rv_subField :: "string option"
  rv_subValue :: "string option"
  rv_subValues :: "string list option"
  rv_employeeId :: "string option"

text \<open>An entry of the map: the business key, the latest month seen and its rows.\<close>

type_synonym latest_entry = "(string \<times> string \<times> string) \<times> int \<times> sub_id_mapping list"

fun put_latest :: "sub_id_mapping \<Rightarrow> latest_entry list \<Rightarrow> latest_entry list" where
  "put_latest row [] = [(mappingBusinessKey row, sm_effectiveMonth row, [row])]"
| "put_latest row ((k, t, rows) # es) =
     (if k = mappingBusinessKey row
      then (if sm_effectiveMonth row > t then (k, sm_effectiveMonth row, [row]) # es
            else if t = sm_effectiveMonth row then (k, t, rows @ [row]) # es
            else (k, t, rows) # es)
      else (k, t, rows) # put_latest row es)"

definition latest_by_key :: "sub_id_mapping list \<Rightarrow> latest_entry list" where
  "latest_by_key rows = fold put_latest rows []"

text \<open>The rows of the query, newest version first.\<close>

definition mapping_wanted :: "resolve_input \<Rightarrow> sub_id_mapping \<Rightarrow> bool" where
  "mapping_wanted input r \<longleftrightarrow>
     text_filter (rv_affiliateAccountId input) (sm_affiliateAccountId r)
     \<and> text_filter (rv_subField input) (sm_subField r)
     \<and> (case rv_subValue input of Some v \<Rightarrow> sm_subValue r = v
        | None \<Rightarrow> (case rv_subValues input of Some vs \<Rightarrow> sm_subValue r \<in> set vs | None \<Rightarrow> True))
     \<and> sm_effectiveMonth r \<le> rv_settlementMonth input"

definition with_employee :: "database \<Rightarrow> sub_id_mapping \<Rightarrow> effective_mapping" where
  "with_employee db r = (r, find_row (\<lambda>e. em_id e = sm_employeeId r) (employees db))"

definition effective_rows :: "resolve_input \<Rightarrow> sub_id_mapping list \<Rightarrow> sub_id_mapping list" where
  "effective_rows input table =
     (let rows = sort_key (\<lambda>r. - sm_effectiveMonth r) (filter (mapping_wanted input) table);
          effective = concat (map (\<lambda>(k, t, rows). rows) (latest_by_key rows))
      in case rv_employeeId input of
           None \<Rightarrow> effective
         | Some e \<Rightarrow> if e = [] then effective else filter (\<lambda>r. sm_employeeId r = e) effective)"

definition resolveEffectiveSubIdMappings :: "resolve_input \<Rightarrow> effective_mapping list handler" where
  "resolveEffectiveSubIdMappings input =
     (if rv_subValue input \<noteq> None \<and> rv_subValues input \<noteq> None
      then op_throw (JsError ''subValue and subValues cannot be used together.'')
      else if rv_subValues input = Some [] then op_return []
      else op_get (\<lambda>db. map (with_employee db) (effective_rows input (sub_mappings db))))"

definition isActiveEffectiveSubIdMapping :: "effective_mapping \<Rightarrow> bool" where
  "isActiveEffectiveSubIdMapping x \<longleftrightarrow> sm_status (fst x) = CS_active"

definition isUsableEffectiveSubIdMapping :: "effective_mapping \<Rightarrow> bool" where
  "isUsableEffectiveSubIdMapping x \<longleftrightarrow>
     isActiveEffectiveSubIdMapping x \<and> (case snd x of None \<Rightarrow> False | Some e \<Rightarrow> em_status e = CS_active)"

section \<open>Invariant\<close>

text \<open>
  A version of a mapping is unique; every version starts at the start of a month and names
  an employee.
\<close>

definition mapping_row_ok :: "sub_id_mapping \<Rightarrow> bool" where
  "mapping_row_ok r \<longleftrightarrow> is_month_start (sm_effectiveMonth r) \<and> sm_employeeId r \<noteq> []"

definition mappings_ok :: "database \<Rightarrow> bool" where
  "mappings_ok db \<longleftrightarrow> distinct (map sm_key (sub_mappings db)) \<and> distinct (map sm_id (sub_mappings db))
     \<and> list_all mapping_row_ok (sub_mappings db)"

lemma audit_stable_mappings_ok [simp]: "audit_stable mappings_ok"
  by (simp add: audit_stable_def mappings_ok_def)

interpretation mapping_table: month_table sub_mappings put_mappings sm_id sm_effectiveMonth
  by unfold_locales (auto simp: put_mappings_def month_scope_def)

lemma mapping_insert_ok:
  "mappings_ok db \<Longrightarrow> sm_id r \<notin> sm_id ` set (sub_mappings db) \<Longrightarrow> mapping_row_ok r \<Longrightarrow>
   preserves mappings_ok db (mapping_insert r)"
  by (auto simp: preserves_def mappings_ok_def mapping_insert_def table_insert_def list_ex_iff put_mappings_def)

lemma mapping_set_ok:
  assumes "mappings_ok db" "\<And>r. sm_id (f r) = sm_id r"
    and "\<And>r. mapping_row_ok r \<Longrightarrow> mapping_row_ok (f r)"
  shows "preserves mappings_ok db (mapping_set i f)"
proof -
  have all: "list_all mapping_row_ok (sub_mappings db)"
    using assms(1) by (simp add: mappings_ok_def)
  then have "list_all mapping_row_ok (sub_mappings (snd (mapping_set i f db)))"
    unfolding mapping_set_def using assms(3) find_row_Some
    by (intro mapping_table.update_all) (auto simp: list_all_iff dest!: find_row_Some)
  then show ?thesis
    using assms mapping_table.update_distinct [of sm_key db f i]
    by (simp add: preserves_def mappings_ok_def mapping_set_def)
qed

lemma validateUpdateMapping_month:
  "validateUpdateMapping rt input = Inr d \<Longrightarrow> au_effectiveMonth d = Some m \<Longrightarrow> is_month_start m"
  by (auto simp: validateUpdateMapping_def bind_res_Inr_iff dest!: if_given_Inr parseMonthStart_month_start)

lemma validateUpdateMapping_employee:
  "validateUpdateMapping rt input = Inr d \<Longrightarrow> au_employeeId d = Some e \<Longrightarrow> e \<noteq> []"
  by (auto simp: validateUpdateMapping_def bind_res_Inr_iff requireNonBlank_Inr dest!: if_given_Inr)

lemma validateCreateMapping_row:
  "validateCreateMapping rt input = Inr (a, f, v, m, e, s) \<Longrightarrow> is_month_start m \<and> e \<noteq> []"
  by (auto simp: validateCreateMapping_def bind_res_Inr_iff requireNonBlank_Inr dest: parseMonthStart_month_start)

lemma au_apply_row:
  "validateUpdateMapping rt input = Inr d \<Longrightarrow> mapping_row_ok r \<Longrightarrow> mapping_row_ok (au_apply d st r)"
  using validateUpdateMapping_month validateUpdateMapping_employee
  by (cases "au_effectiveMonth d"; cases "au_employeeId d") (auto simp: au_apply_def or_keep_def mapping_row_ok_def)

lemma au_apply_id [simp]: "sm_id (au_apply d st r) = sm_id r"
  by (simp add: au_apply_def)

lemma mapping_handlers_ok:
  assumes "mappings_ok db"
  shows "rt_fresh_id rt 0 \<notin> sm_id ` set (sub_mappings db) \<Longrightarrow> preserves mappings_ok db (createMapping rt input actor)"
    and "preserves mappings_ok db (updateMapping rt i input actor)"
    and "preserves mappings_ok db (disableMapping i actor)"
  using assms
  unfolding createMapping_def updateMapping_def disableMapping_def getMapping_def
  by (auto intro!: preserves_steps preserves_guard_if_renamed mapping_insert_ok mapping_set_ok
      dest!: validateCreateMapping_row simp: mapping_row_ok_def intro: au_apply_row split: prod.split)

inductive mapping_step :: "database \<Rightarrow> database \<Rightarrow> bool" where
  create: "rt_fresh_id rt 0 \<notin> sm_id ` set (sub_mappings db) \<Longrightarrow>
     mapping_step db (snd (createMapping rt input actor db))"
| update: "mapping_step db (snd (updateMapping rt i input actor db))"
| disable: "mapping_step db (snd (disableMapping i actor db))"

lemma mapping_step_ok: "mapping_step db db' \<Longrightarrow> mappings_ok db \<Longrightarrow> mappings_ok db'"
  by (erule mapping_step.cases) (simp_all add: mapping_handlers_ok [unfolded preserves_def])

section \<open>Locked months are left alone\<close>

lemma mappings_ok_month:
  "mappings_ok db \<Longrightarrow> find_row (\<lambda>r. sm_id r = i) (sub_mappings db) = Some r \<Longrightarrow> is_month_start (sm_effectiveMonth r)"
  by (auto simp: mappings_ok_def mapping_row_ok_def list_all_iff dest!: find_row_Some)

lemmas mapping_operations = mapping_insert_def mapping_set_def getMapping_def

lemma freezes_createMapping: "freezes m (createMapping rt input actor)"
  unfolding createMapping_def mapping_operations
  by (auto intro!: freezes_bind_pure freezes_guarded freezes_catch freezes_bind mapping_table.insert_freezes
      simp: sm_write_def split: prod.split)

lemma freezes_at_updateMapping:
  "mappings_ok db \<Longrightarrow> four_digit_year m \<Longrightarrow> freezes_at m db (updateMapping rt i input actor)"
  unfolding updateMapping_def mapping_operations
  by (intro freezes_at_table_find freezes_at_lift freezes_at_guard freezes_at_guard_if_renamed freezes_at_catch
      freezes_at_bind mapping_table.update_freezes_at)
    (auto simp: sm_write_def au_apply_def mappings_ok_month dest: validateUpdateMapping_month)

lemma freezes_disableMapping: "freezes m (disableMapping i actor)"
  unfolding disableMapping_def mapping_operations
  by (rule freezes_eachI)
    (auto intro!: freezes_at_table_find freezes_at_guard freezes_at_bind mapping_table.update_freezes_at
      simp: sm_write_def)

section \<open>What the resolver returns\<close>

text \<open>The map is correct at every moment of the loop: each key has its latest month and all rows of it.\<close>

lemma put_latest_lookup:
  "map_of (put_latest row es) k =
     (if k = mappingBusinessKey row
      then Some (case map_of es k of None \<Rightarrow> (sm_effectiveMonth row, [row])
        | Some (t, rows) \<Rightarrow> if t < sm_effectiveMonth row then (sm_effectiveMonth row, [row])
            else if t = sm_effectiveMonth row then (t, rows @ [row]) else (t, rows))
      else map_of es k)"
  by (induction row es rule: put_latest.induct) auto

lemma put_latest_keys: "fst ` set (put_latest row es) = insert (mappingBusinessKey row) (fst ` set es)"
  by (induction row es rule: put_latest.induct) auto

lemma put_latest_distinct: "distinct (map fst es) \<Longrightarrow> distinct (map fst (put_latest row es))"
proof (induction row es rule: put_latest.induct)
  case (2 row k t rows es)
  then show ?case using put_latest_keys [of row es] by (auto simp: image_iff)
qed simp

lemma latest_by_key_snoc: "latest_by_key (xs @ [x]) = put_latest x (latest_by_key xs)"
  by (simp add: latest_by_key_def)

lemma latest_by_key_distinct: "distinct (map fst (latest_by_key xs))"
  by (induction xs rule: rev_induct) (simp_all add: latest_by_key_snoc put_latest_distinct latest_by_key_def)

definition latest_month :: "sub_id_mapping list \<Rightarrow> int" where
  "latest_month rows = Max (sm_effectiveMonth ` set rows)"

lemma latest_month_snoc: "rows \<noteq> [] \<Longrightarrow> latest_month (rows @ [x]) = max (sm_effectiveMonth x) (latest_month rows)"
  by (simp add: latest_month_def)

lemma latest_month_single [simp]: "latest_month [x] = sm_effectiveMonth x"
  by (simp add: latest_month_def)

lemma latest_month_ge: "r \<in> set rows \<Longrightarrow> sm_effectiveMonth r \<le> latest_month rows"
  by (simp add: latest_month_def)

lemma latest_month_attained: "rows \<noteq> [] \<Longrightarrow> \<exists>r \<in> set rows. sm_effectiveMonth r = latest_month rows"
proof -
  assume "rows \<noteq> []"
  then have "latest_month rows \<in> sm_effectiveMonth ` set rows"
    unfolding latest_month_def by (intro Max_in) simp_all
  then show ?thesis by auto
qed

definition latest_rows :: "sub_id_mapping list \<Rightarrow> sub_id_mapping list" where
  "latest_rows rows = filter (\<lambda>r. sm_effectiveMonth r = latest_month rows) rows"

lemma latest_rows_single [simp]: "latest_rows [x] = [x]"
  by (simp add: latest_rows_def)

lemma latest_rows_snoc:
  assumes "rows \<noteq> []"
  shows "latest_rows (rows @ [x]) =
    (if latest_month rows < sm_effectiveMonth x then [x]
     else if latest_month rows = sm_effectiveMonth x then latest_rows rows @ [x] else latest_rows rows)"
proof -
  have "filter (\<lambda>r. sm_effectiveMonth r = t) rows = []" if "latest_month rows < t" for t
    using latest_month_ge that by (fastforce simp: filter_empty_conv)
  then show ?thesis by (simp add: latest_rows_def latest_month_snoc [OF assms] max_def)
qed

lemma latest_by_key_lookup:
  "map_of (latest_by_key xs) k =
     (let rows = filter (\<lambda>r. mappingBusinessKey r = k) xs
      in if rows = [] then None else Some (latest_month rows, latest_rows rows))"
proof (induction xs rule: rev_induct)
  case Nil
  then show ?case by (simp add: latest_by_key_def)
next
  case (snoc x xs)
  define rows where "rows = filter (\<lambda>r. mappingBusinessKey r = k) xs"
  have f: "filter (\<lambda>r. mappingBusinessKey r = k) (xs @ [x]) = (if mappingBusinessKey x = k then rows @ [x] else rows)"
    by (simp add: rows_def)
  have ih: "map_of (latest_by_key xs) k = (if rows = [] then None else Some (latest_month rows, latest_rows rows))"
    using snoc by (simp add: rows_def Let_def)
  show ?case
    unfolding f latest_by_key_snoc put_latest_lookup ih Let_def
    by (cases "rows = []") (auto simp: latest_month_snoc latest_rows_snoc max_def)
qed

lemma in_latest_by_key:
  "r \<in> set (concat (map (\<lambda>(k, t, rows). rows) (latest_by_key xs))) \<longleftrightarrow>
     r \<in> set xs \<and> (\<forall>r' \<in> set xs. mappingBusinessKey r' = mappingBusinessKey r \<longrightarrow> sm_effectiveMonth r' \<le> sm_effectiveMonth r)"
  (is "?L \<longleftrightarrow> ?R")
proof -
  let ?rows = "\<lambda>k. filter (\<lambda>r. mappingBusinessKey r = k) xs"
  have "?L \<longleftrightarrow> (\<exists>k t rows. map_of (latest_by_key xs) k = Some (t, rows) \<and> r \<in> set rows)"
    using latest_by_key_distinct [of xs] by (force simp: map_of_eq_Some_iff)
  also have "\<dots> \<longleftrightarrow> (\<exists>k. r \<in> set (latest_rows (?rows k)))"
  proof (rule ex_cong1)
    show "(\<exists>t rows. map_of (latest_by_key xs) k = Some (t, rows) \<and> r \<in> set rows) = (r \<in> set (latest_rows (?rows k)))" for k
      by (cases "?rows k = []") (auto simp: latest_by_key_lookup latest_rows_def Let_def)
  qed
  also have "\<dots> \<longleftrightarrow> r \<in> set xs \<and> sm_effectiveMonth r = latest_month (?rows (mappingBusinessKey r))"
    by (auto simp: latest_rows_def)
  also have "\<dots> \<longleftrightarrow> ?R"
  proof
    assume "r \<in> set xs \<and> sm_effectiveMonth r = latest_month (?rows (mappingBusinessKey r))"
    then show ?R using latest_month_ge [of _ "?rows (mappingBusinessKey r)"] by auto
  next
    assume ?R
    then have "r \<in> set (?rows (mappingBusinessKey r))" by simp
    then obtain r' where "r' \<in> set (?rows (mappingBusinessKey r))"
      "sm_effectiveMonth r' = latest_month (?rows (mappingBusinessKey r))"
      using latest_month_attained [of "?rows (mappingBusinessKey r)"] by (metis empty_iff list.set(1))
    then show "r \<in> set xs \<and> sm_effectiveMonth r = latest_month (?rows (mappingBusinessKey r))"
      using \<open>?R\<close> latest_month_ge [of r "?rows (mappingBusinessKey r)"] by (auto intro: antisym)
  qed
  finally show ?thesis .
qed

lemma in_effective_rows:
  "r \<in> set (effective_rows input table) \<longleftrightarrow>
     r \<in> set table \<and> mapping_wanted input r
     \<and> (\<forall>r' \<in> set table. mapping_wanted input r' \<longrightarrow> mappingBusinessKey r' = mappingBusinessKey r \<longrightarrow>
          sm_effectiveMonth r' \<le> sm_effectiveMonth r)
     \<and> rv_employeeId input \<in> {None, Some [], Some (sm_employeeId r)}"
  unfolding effective_rows_def Let_def
  by (cases "rv_employeeId input") (auto simp: in_latest_by_key simp del: set_concat set_map)

text \<open>Whether a version is wanted depends on the query, the key and the month only.\<close>

lemma mapping_wanted_key:
  "mappingBusinessKey r' = mappingBusinessKey r \<Longrightarrow> sm_effectiveMonth r' \<le> sm_effectiveMonth r \<Longrightarrow>
   mapping_wanted input r \<Longrightarrow> mapping_wanted input r'"
  by (auto simp: mapping_wanted_def mappingBusinessKey_def split: option.splits)

lemma resolve_rows:
  "resolveEffectiveSubIdMappings input db = (Inr found, db') \<Longrightarrow>
   db' = db \<and> map fst found = (if rv_subValues input = Some [] then [] else effective_rows input (sub_mappings db))"
  by (auto simp: resolveEffectiveSubIdMappings_def with_employee_def comp_def split: if_splits)

lemma resolve_in:
  assumes "resolveEffectiveSubIdMappings input db = (Inr found, db')"
  shows "r \<in> fst ` set found \<longleftrightarrow> r \<in> set (effective_rows input (sub_mappings db))"
proof -
  have "rv_subValues input = Some [] \<Longrightarrow> rv_subValue input = None"
    using assms by (cases "rv_subValue input") (auto simp: resolveEffectiveSubIdMappings_def)
  then have "rv_subValues input = Some [] \<Longrightarrow> r \<notin> set (effective_rows input (sub_mappings db))"
    by (auto simp: in_effective_rows mapping_wanted_def)
  then show ?thesis using resolve_rows [OF assms] by (metis empty_iff list.set(1) list.set_map)
qed

lemma latest_groups:
  assumes "distinct (map sm_key xs)" "(k, t, rows) \<in> set (latest_by_key xs)"
  shows "\<exists>r. rows = [r] \<and> mappingBusinessKey r = k"
proof -
  let ?rows = "filter (\<lambda>r. mappingBusinessKey r = k) xs"
  have "map_of (latest_by_key xs) k = Some (t, rows)"
    using assms(2) latest_by_key_distinct [of xs] by simp
  then have ne: "?rows \<noteq> []" and rows: "rows = latest_rows ?rows" and t: "t = latest_month ?rows"
    by (auto simp: latest_by_key_lookup Let_def split: if_splits)
  have same: "sm_key r = (k, t)" if "r \<in> set rows" for r
    using that by (auto simp: rows t latest_rows_def sm_key_def)
  have "distinct (map sm_key rows)"
    unfolding rows latest_rows_def using assms(1) by (simp add: distinct_map_filter)
  moreover have "rows \<noteq> []"
    using latest_month_attained [OF ne] by (auto simp: rows latest_rows_def filter_empty_conv)
  ultimately show ?thesis using same by (cases rows; cases "tl rows") (auto simp: sm_key_def)
qed

lemma groups_distinct:
  assumes "distinct (map fst es)" "\<And>k t rows. (k, t, rows) \<in> set es \<Longrightarrow> \<exists>r. rows = [r] \<and> mappingBusinessKey r = k"
  shows "map mappingBusinessKey (concat (map (\<lambda>(k, t, rows). rows) es)) = map fst es"
  using assms(2)
proof (induction es)
  case (Cons e es)
  obtain k t rows where e: "e = (k, t, rows)" by (cases e)
  then obtain r where r: "rows = [r]" "mappingBusinessKey r = k" using Cons.prems [of k t rows] by auto
  have "map mappingBusinessKey (concat (map (\<lambda>(k, t, rows). rows) es)) = map fst es"
    using Cons.prems by (intro Cons.IH) (meson list.set_intros(2))
  then show ?case using e r by simp
qed simp

lemma effective_rows_distinct:
  assumes "distinct (map sm_key table)"
  shows "distinct (map mappingBusinessKey (effective_rows input table))"
proof -
  let ?xs = "sort_key (\<lambda>r. - sm_effectiveMonth r) (filter (mapping_wanted input) table)"
  have "distinct (map sm_key (filter (mapping_wanted input) table))" using assms by (rule distinct_map_filter)
  then have d: "distinct (map sm_key ?xs)" by (simp add: distinct_map)
  have "map mappingBusinessKey (concat (map (\<lambda>(k, t, rows). rows) (latest_by_key ?xs))) = map fst (latest_by_key ?xs)"
    by (rule groups_distinct [OF latest_by_key_distinct latest_groups [OF d]])
  then have "distinct (map mappingBusinessKey (concat (map (\<lambda>(k, t, rows). rows) (latest_by_key ?xs))))"
    using latest_by_key_distinct [of ?xs] by simp
  then show ?thesis by (auto simp: effective_rows_def Let_def intro: distinct_map_filter split: option.split)
qed

section \<open>Properties\<close>

text \<open>
  C25: The resolver returns the versions in effect. A mapping is found for a query exactly when
  it matches the query, has taken effect by the month, no other version of the same key that
  has taken effect is later (whatever its status), and it belongs to the employee asked for.
\<close>

theorem resolver_finds_versions_in_effect:
  assumes "resolveEffectiveSubIdMappings input db = (Inr found, db')"
  shows "r \<in> fst ` set found \<longleftrightarrow>
     r \<in> set (sub_mappings db) \<and> mapping_wanted input r
     \<and> filter (\<lambda>r'. mapping_wanted input r' \<and> mappingBusinessKey r' = mappingBusinessKey r
          \<and> sm_effectiveMonth r < sm_effectiveMonth r') (sub_mappings db) = []
     \<and> rv_employeeId input \<in> {None, Some [], Some (sm_employeeId r)}"
  unfolding resolve_in [OF assms] in_effective_rows filter_empty_conv by (auto simp: not_less)

text \<open>
  C26: A sub id resolves to at most one mapping, and so to at most one employee. However the mapping handlers were called, the
  mappings the resolver finds for any query differ in account, field or value.
\<close>

theorem sub_id_resolves_to_one_mapping:
  assumes "mapping_step\<^sup>*\<^sup>* db db'" and "mappings_ok db"
    and "resolveEffectiveSubIdMappings input db' = (Inr found, db'')"
  shows "distinct (map (\<lambda>x. mappingBusinessKey (fst x)) found)"
proof -
  have "mappings_ok db'" using assms(1,2) by (induction rule: rtranclp_induct) (auto intro: mapping_step_ok)
  then have "distinct (map mappingBusinessKey (effective_rows input (sub_mappings db')))"
    by (intro effective_rows_distinct) (simp add: mappings_ok_def)
  moreover have "map (\<lambda>x. mappingBusinessKey (fst x)) found = map mappingBusinessKey (map fst found)" by simp
  ultimately show ?thesis using resolve_rows [OF assms(3)] by (simp split: if_splits)
qed

text \<open>
  Disabling the latest version of a mapping ends it: no earlier version of the same sub id
  comes back, in that month or any later one, until a newer version is entered.
\<close>

theorem disabled_version_blocks_fallback:
  assumes "mappings_ok db" and "disableMapping i actor db = (Inr r, db')"
    and "filter (\<lambda>r'. mappingBusinessKey r' = mappingBusinessKey r \<and> sm_effectiveMonth r < sm_effectiveMonth r')
          (sub_mappings db') = []"
    and "sm_effectiveMonth r \<le> rv_settlementMonth input"
    and "resolveEffectiveSubIdMappings input db' = (Inr found, db'')"
  shows "filter (\<lambda>x. mappingBusinessKey (fst x) = mappingBusinessKey r \<and> isActiveEffectiveSubIdMapping x) found = []"
proof -
  have ok: "mappings_ok db'"
    using mapping_handlers_ok(3) [OF assms(1), of i actor] assms(2) by (simp add: preserves_def)
  have r: "r \<in> set (sub_mappings db')" "sm_status r = CS_disabled"
    using assms(2)
    by (auto simp: disableMapping_def getMapping_def table_find_bind op_bind_eq_Inr mapping_set_def table_update_def
        put_mappings_def assertWritable_eq in_update_first_hit split: option.splits if_splits)
  have "x = r"
    if "x \<in> set (effective_rows input (sub_mappings db'))" and k: "mappingBusinessKey x = mappingBusinessKey r" for x
  proof -
    have x: "x \<in> set (sub_mappings db')" "mapping_wanted input x"
      and latest: "\<And>r'. r' \<in> set (sub_mappings db') \<Longrightarrow> mapping_wanted input r' \<Longrightarrow>
        mappingBusinessKey r' = mappingBusinessKey x \<Longrightarrow> sm_effectiveMonth r' \<le> sm_effectiveMonth x"
      using that(1) by (auto simp: in_effective_rows)
    have "mapping_wanted input r"
      using x(2) k assms(4) by (auto simp: mapping_wanted_def mappingBusinessKey_def split: option.splits)
    then have "sm_effectiveMonth r \<le> sm_effectiveMonth x" using latest r(1) k by simp
    moreover have "sm_effectiveMonth x \<le> sm_effectiveMonth r"
      using assms(3) x(1) k by (auto simp: filter_empty_conv not_less)
    ultimately have "sm_key x = sm_key r" using k by (simp add: sm_key_def)
    then show ?thesis using ok x(1) r(1) by (auto simp: mappings_ok_def distinct_map dest: inj_onD)
  qed
  then show ?thesis
    using resolve_in [OF assms(5)] r(2)
    by (fastforce simp: filter_empty_conv isActiveEffectiveSubIdMapping_def)
qed

section \<open>Examples\<close>

text \<open>A sub id given to employee a from February on and to employee b from March on.\<close>

definition sample_mapping :: "string \<Rightarrow> int \<Rightarrow> string \<Rightarrow> common_status \<Rightarrow> sub_id_mapping" where
  "sample_mapping i m e st =
     \<lparr>sm_id = i, sm_affiliateAccountId = ''cake'', sm_subField = ''sub1'', sm_subValue = ''7'', sm_effectiveMonth = m,
      sm_employeeId = e, sm_status = st, sm_createdBy = None\<rparr>"

definition sample_mappings_db :: database where
  "sample_mappings_db = empty_db\<lparr>sub_mappings :=
     [sample_mapping ''m1'' FEB_2026 ''a'' CS_active, sample_mapping ''m2'' MAR_2026 ''b'' CS_active]\<rparr>"

definition sample_query :: "int \<Rightarrow> resolve_input" where
  "sample_query m =
     \<lparr>rv_settlementMonth = m, rv_affiliateAccountId = Some ''cake'', rv_subField = None, rv_subValue = Some ''7'',
      rv_subValues = None, rv_employeeId = None\<rparr>"

lemma sample_mappings_ok: "mappings_ok sample_mappings_db"
  unfolding mappings_ok_def by code_simp

lemma sample_resolved:
  "resolveEffectiveSubIdMappings (sample_query MAR_2026) sample_mappings_db =
     (Inr [(sample_mapping ''m2'' MAR_2026 ''b'' CS_active, None)], sample_mappings_db)"
proof -
  have "sub_mappings sample_mappings_db = [sample_mapping ''m1'' FEB_2026 ''a'' CS_active, sample_mapping ''m2'' MAR_2026 ''b'' CS_active]"
    by (simp add: sample_mappings_db_def)
  moreover have "effective_rows (sample_query MAR_2026)
      [sample_mapping ''m1'' FEB_2026 ''a'' CS_active, sample_mapping ''m2'' MAR_2026 ''b'' CS_active]
    = [sample_mapping ''m2'' MAR_2026 ''b'' CS_active]"
    by code_simp
  moreover have "employees sample_mappings_db = []" by (simp add: sample_mappings_db_def empty_db_def)
  ultimately show ?thesis
    by (simp add: resolveEffectiveSubIdMappings_def with_employee_def sample_query_def)
qed

theorem resolver_finds_versions_in_effect_witness:
  "\<exists>found. resolveEffectiveSubIdMappings (sample_query MAR_2026) sample_mappings_db = (Inr found, sample_mappings_db)
     \<and> sample_mapping ''m1'' FEB_2026 ''a'' CS_active \<notin> fst ` set found"
proof -
  have "mapping_wanted (sample_query MAR_2026) (sample_mapping ''m2'' MAR_2026 ''b'' CS_active)"
    "mappingBusinessKey (sample_mapping ''m2'' MAR_2026 ''b'' CS_active) = mappingBusinessKey (sample_mapping ''m1'' FEB_2026 ''a'' CS_active)"
    "sm_effectiveMonth (sample_mapping ''m1'' FEB_2026 ''a'' CS_active) < sm_effectiveMonth (sample_mapping ''m2'' MAR_2026 ''b'' CS_active)"
    by code_simp+
  moreover have "sample_mapping ''m2'' MAR_2026 ''b'' CS_active \<in> set (sub_mappings sample_mappings_db)"
    by (simp add: sample_mappings_db_def)
  ultimately have "filter (\<lambda>r'. mapping_wanted (sample_query MAR_2026) r'
      \<and> mappingBusinessKey r' = mappingBusinessKey (sample_mapping ''m1'' FEB_2026 ''a'' CS_active)
      \<and> sm_effectiveMonth (sample_mapping ''m1'' FEB_2026 ''a'' CS_active) < sm_effectiveMonth r')
      (sub_mappings sample_mappings_db) \<noteq> []"
    unfolding filter_empty_conv by blast
  then show ?thesis
    using resolver_finds_versions_in_effect [OF sample_resolved, of "sample_mapping ''m1'' FEB_2026 ''a'' CS_active"] sample_resolved
    by blast
qed

text \<open>The same two versions, entered one after the other.\<close>

definition sample_request :: "string \<Rightarrow> string \<Rightarrow> mapping_request" where
  "sample_request month employee =
     \<lparr>aq_affiliateAccountId = JString ''cake'', aq_subField = JString ''sub1'', aq_subValue = JString ''7'',
      aq_effectiveMonth = JString month, aq_employeeId = JString employee, aq_status = JUndefined\<rparr>"

definition with_ids :: "string \<Rightarrow> runtime" where
  "with_ids i = sample_rt\<lparr>rt_fresh_id := \<lambda>n. i @ nat_string n\<rparr>"

definition mapped_db :: database where
  "mapped_db = snd (createMapping (with_ids ''m'') (sample_request ''2026-02-01'' ''a'') sample_actor empty_db)"

definition remapped_db :: database where
  "remapped_db = snd (createMapping (with_ids ''n'') (sample_request ''2026-03-01'' ''b'') sample_actor mapped_db)"

lemma sample_requests_valid:
  "validateCreateMapping (with_ids ''m'') (sample_request ''2026-02-01'' ''a'') = Inr (''cake'', ''sub1'', ''7'', FEB_2026, ''a'', JString ''active'')"
  "validateCreateMapping (with_ids ''n'') (sample_request ''2026-03-01'' ''b'') = Inr (''cake'', ''sub1'', ''7'', MAR_2026, ''b'', JString ''active'')"
  by code_simp+

definition entered :: "string \<Rightarrow> int \<Rightarrow> string \<Rightarrow> sub_id_mapping" where
  "entered i m e = (sample_mapping i m e CS_active)\<lparr>sm_createdBy := Some ''u1''\<rparr>"

lemma sample_created:
  assumes "validateCreateMapping rt input = Inr (''cake'', ''sub1'', ''7'', m, e, JString ''active'')" "settlements db = []"
    and "list_all (\<lambda>r. sm_key r \<noteq> ((''cake'', ''sub1'', ''7''), m)) (sub_mappings db)"
  shows "\<exists>logs. snd (createMapping rt input sample_actor db) =
    db\<lparr>sub_mappings := sub_mappings db @ [entered (rt_fresh_id rt 0) m e], audit_logs := logs\<rparr>"
proof -
  have "prisma_status (JString ''active'') = Inr CS_active" by code_simp
  moreover have "\<not> list_ex (\<lambda>r. sm_key r = sm_key (entered (rt_fresh_id rt 0) m e)) (sub_mappings db)"
    using assms(3) by (auto simp: list_ex_iff list_all_iff entered_def sample_mapping_def sm_key_def mappingBusinessKey_def)
  ultimately show ?thesis
    using assms(1,2)
    by (simp add: createMapping_def assertWritable_eq month_locked_def find_settlement_def sm_write_def op_catch_def op_bind_Inr mapping_insert_def
        table_insert_def put_mappings_def entered_def sample_mapping_def sample_actor_def) blast
qed

lemma sample_ids: "rt_fresh_id (with_ids ''m'') 0 = ''m0''" "rt_fresh_id (with_ids ''n'') 0 = ''n0''"
  by code_simp+

lemma mapped_rows: "sub_mappings mapped_db = [entered ''m0'' FEB_2026 ''a'']" "settlements mapped_db = []"
proof -
  obtain logs where e: "mapped_db = empty_db\<lparr>sub_mappings := sub_mappings empty_db @ [entered ''m0'' FEB_2026 ''a''], audit_logs := logs\<rparr>"
    using sample_created [OF sample_requests_valid(1), of empty_db] by (auto simp: empty_db_def mapped_db_def sample_ids)
  show "sub_mappings mapped_db = [entered ''m0'' FEB_2026 ''a'']" "settlements mapped_db = []"
    unfolding e by (simp_all add: empty_db_def)
qed

lemma remapped_rows: "sub_mappings remapped_db = [entered ''m0'' FEB_2026 ''a'', entered ''n0'' MAR_2026 ''b'']"
proof -
  have "list_all (\<lambda>r. sm_key r \<noteq> ((''cake'', ''sub1'', ''7''), MAR_2026)) [entered ''m0'' FEB_2026 ''a'']" by code_simp
  then obtain logs where e: "remapped_db = mapped_db\<lparr>sub_mappings := sub_mappings mapped_db @ [entered ''n0'' MAR_2026 ''b''], audit_logs := logs\<rparr>"
    using sample_created [OF sample_requests_valid(2), of mapped_db] by (auto simp: remapped_db_def sample_ids mapped_rows)
  show ?thesis unfolding e by (simp add: mapped_rows)
qed

lemma remapped_steps: "mapping_step\<^sup>*\<^sup>* empty_db remapped_db"
proof -
  have "mapping_step empty_db mapped_db"
    unfolding mapped_db_def by (rule mapping_step.create) (simp add: empty_db_def)
  moreover have "mapping_step mapped_db remapped_db"
    unfolding remapped_db_def by (rule mapping_step.create) (simp add: mapped_rows sample_ids entered_def sample_mapping_def)
  ultimately show ?thesis by simp
qed

lemma remapped_found:
  "resolveEffectiveSubIdMappings (sample_query MAR_2026) remapped_db =
     (Inr [with_employee remapped_db (entered ''n0'' MAR_2026 ''b'')], remapped_db)"
proof -
  have "effective_rows (sample_query MAR_2026) [entered ''m0'' FEB_2026 ''a'', entered ''n0'' MAR_2026 ''b''] = [entered ''n0'' MAR_2026 ''b'']"
    by code_simp
  then show ?thesis by (simp add: resolveEffectiveSubIdMappings_def remapped_rows) (simp add: sample_query_def)
qed

theorem sub_id_resolves_to_one_mapping_witness:
  "\<exists>found. resolveEffectiveSubIdMappings (sample_query MAR_2026) remapped_db = (Inr found, remapped_db)
     \<and> length (filter (\<lambda>r. mappingBusinessKey r = (''cake'', ''sub1'', ''7'')) (sub_mappings remapped_db)) = 2
     \<and> map (\<lambda>x. sm_employeeId (fst x)) found = [''b''] \<and> distinct (map (\<lambda>x. mappingBusinessKey (fst x)) found)"
proof -
  have "mappings_ok empty_db" by (simp add: mappings_ok_def empty_db_def)
  note one = sub_id_resolves_to_one_mapping [OF remapped_steps this remapped_found]
  show ?thesis
    using one remapped_found
    by (simp add: remapped_rows entered_def sample_mapping_def with_employee_def mappingBusinessKey_def)
qed

lemma sample_disabled:
  "\<exists>logs. disableMapping ''m2'' sample_actor sample_mappings_db =
     (Inr (sample_mapping ''m2'' MAR_2026 ''b'' CS_disabled),
      sample_mappings_db\<lparr>sub_mappings := [sample_mapping ''m1'' FEB_2026 ''a'' CS_active,
        sample_mapping ''m2'' MAR_2026 ''b'' CS_disabled], audit_logs := logs\<rparr>)"
proof -
  have "month_locked (sm_effectiveMonth (sample_mapping ''m2'' MAR_2026 ''b'' CS_active)) sample_mappings_db = False"
    by (simp add: month_locked_def find_settlement_def sample_mappings_db_def empty_db_def)
  moreover have "sub_mappings sample_mappings_db
      = [sample_mapping ''m1'' FEB_2026 ''a'' CS_active, sample_mapping ''m2'' MAR_2026 ''b'' CS_active]"
    by (simp add: sample_mappings_db_def)
  moreover have "list_ex (\<lambda>r'. sm_id r' \<noteq> ''m2'' \<and> sm_key r' = sm_key (sample_mapping ''m2'' MAR_2026 ''b'' CS_disabled))
      [sample_mapping ''m1'' FEB_2026 ''a'' CS_active, sample_mapping ''m2'' MAR_2026 ''b'' CS_active] = False"
    by code_simp
  ultimately show ?thesis
    by (intro exI) (simp add: disableMapping_def getMapping_def table_find_bind op_bind_Inr mapping_set_def table_update_def
        put_mappings_def assertWritable_eq sm_write_def sample_mapping_def)
qed

theorem disabled_version_blocks_fallback_witness:
  "\<exists>found. fst (resolveEffectiveSubIdMappings (sample_query MAR_2026)
       (snd (disableMapping ''m2'' sample_actor sample_mappings_db))) = Inr found
     \<and> filter (\<lambda>x. mappingBusinessKey (fst x) = (''cake'', ''sub1'', ''7'') \<and> isActiveEffectiveSubIdMapping x) found = []"
proof -
  obtain logs where d: "disableMapping ''m2'' sample_actor sample_mappings_db =
     (Inr (sample_mapping ''m2'' MAR_2026 ''b'' CS_disabled),
      sample_mappings_db\<lparr>sub_mappings := [sample_mapping ''m1'' FEB_2026 ''a'' CS_active,
        sample_mapping ''m2'' MAR_2026 ''b'' CS_disabled], audit_logs := logs\<rparr>)" (is "_ = (_, ?db)")
    using sample_disabled by blast
  obtain found where f: "resolveEffectiveSubIdMappings (sample_query MAR_2026) ?db = (Inr found, ?db)"
    by (simp add: resolveEffectiveSubIdMappings_def sample_query_def)
  have "filter (\<lambda>r'. mappingBusinessKey r' = mappingBusinessKey (sample_mapping ''m2'' MAR_2026 ''b'' CS_disabled)
      \<and> sm_effectiveMonth (sample_mapping ''m2'' MAR_2026 ''b'' CS_disabled) < sm_effectiveMonth r')
      [sample_mapping ''m1'' FEB_2026 ''a'' CS_active, sample_mapping ''m2'' MAR_2026 ''b'' CS_disabled] = []"
    by code_simp
  then have "filter (\<lambda>x. mappingBusinessKey (fst x) = mappingBusinessKey (sample_mapping ''m2'' MAR_2026 ''b'' CS_disabled)
      \<and> isActiveEffectiveSubIdMapping x) found = []"
    by (intro disabled_version_blocks_fallback [OF sample_mappings_ok d _ _ f])
      (simp_all add: sample_query_def sample_mapping_def)
  then show ?thesis using d f by (simp add: mappingBusinessKey_def sample_mapping_def)
qed

end
