(* ===== verification/Cake_Adjustments.thy ===== *)
theory Cake_Adjustments
  imports Sub_Id_Mappings Manual_Income Cake_Metadata Settlement_Generation
begin

text \<open>
  \<open>cake-income-adjustments.service.ts\<close>: the monthly correction of the income of a CAKE sub id
  to the revenue an administrator enters. An adjustment is an income record of its own source;
  it is saved as a draft, confirmed against the current base income, and disabled.

  Messages written in Chinese stand here as English in angle brackets. The byte order mark in
  front of the exported text is left out.
\<close>

section \<open>Resolving an adjustment\<close>

record cake_request =
  kq_affiliateAccountId :: jsval
  kq_settlementMonth :: jsval
  kq_subValue :: jsval
  kq_actualRevenueUsd :: jsval
  kq_reason :: jsval

record cake_resolved =
  kr_affiliateAccountId :: string
  kr_settlementMonth :: int
  kr_subValue :: string
  kr_employeeId :: string
  kr_baseRevenueUsd :: rat
  kr_actualRevenueUsd :: rat
  kr_adjustmentUsd :: rat
  kr_reason :: string

definition MAX_REASON_LENGTH :: nat where
  "MAX_REASON_LENGTH = 1000"

definition assertSuperAdmin :: "actor \<Rightarrow> unit handler" where
  "assertSuperAdmin actor =
     op_assert (ac_roleCode actor = ''super_admin'' \<and> ''income.import'' \<in> set (ac_permissions actor))
       (AppError FORBIDDEN ''<only a super_admin with the income import permission can manage CAKE income adjustments>'')"

definition getCakeAccount :: "string \<Rightarrow> affiliate_account handler" where
  "getCakeAccount i =
     op_bind (op_get (\<lambda>db. find_row (\<lambda>a. aa_id a = i) (affiliate_accounts db))) (\<lambda>account.
     case account of
       None \<Rightarrow> op_throw (AppError NOT_FOUND ''<the affiliate account does not exist>'')
     | Some a \<Rightarrow>
         if aa_platform a \<noteq> ''cake''
         then op_throw (AppError VALIDATION_ERROR ''<income adjustments support CAKE accounts only>'') else op_return a)"

definition getAdjustment :: "string \<Rightarrow> income_record handler" where
  "getAdjustment i =
     op_bind (op_get (\<lambda>db. find_row (\<lambda>r. ir_id r = i) (income_records db))) (\<lambda>record.
     case record of
       None \<Rightarrow> op_throw (AppError NOT_FOUND ''<the CAKE income adjustment does not exist>'')
     | Some r \<Rightarrow>
         if ir_source r \<noteq> CAKE_ADJUSTMENT_SOURCE
         then op_throw (AppError NOT_FOUND ''<the CAKE income adjustment does not exist>'') else op_return r)"

text \<open>The confirmed API income of a sub id in a month.\<close>

definition is_cake_base :: "string \<Rightarrow> int \<Rightarrow> income_record \<Rightarrow> bool" where
  "is_cake_base account m r \<longleftrightarrow>
     ir_affiliateAccountId r = Some account \<and> ir_month r = m \<and> ir_source r = CAKE_BASE_SOURCE
     \<and> ir_status r = CS_confirmed \<and> ir_subField r = Some CAKE_SUB_FIELD"

definition cake_base_rows :: "string \<Rightarrow> int \<Rightarrow> string \<Rightarrow> database \<Rightarrow> income_record list" where
  "cake_base_rows account m subValue db =
     filter (\<lambda>r. is_cake_base account m r \<and> ir_subValue r = Some subValue) (income_records db)"

definition sum_income :: "runtime \<Rightarrow> income_record list \<Rightarrow> rat" where
  "sum_income rt rows = dec_sum (rt_round rt) (map ir_incomeUsd rows)"

text \<open>The checks of the mappings and base rows that were read.\<close>

definition check_adjustment ::
  "runtime \<Rightarrow> string \<Rightarrow> int \<Rightarrow> string \<Rightarrow> rat \<Rightarrow> string \<Rightarrow> effective_mapping list \<Rightarrow> income_record list
     \<Rightarrow> cake_resolved outcome" where
  "check_adjustment rt account m subValue actual reason mappings baseRows =
     (let activeMappings = filter isActiveEffectiveSubIdMapping mappings;
          employeeIds = js_dedup (map (\<lambda>x. sm_employeeId (fst x)) activeMappings)
      in if baseRows = [] then Inl (AppError CONFLICT ''<the SUB has no confirmed CAKE API base income>'')
         else if mappings = [] \<or> length activeMappings \<noteq> length mappings \<or> employeeIds = []
         then Inl (AppError CONFLICT ''<the SUB has no valid employee mapping>'')
         else if length employeeIds > 1
         then Inl (AppError CONFLICT ''<the SUB is mapped to several employees>'')
         else if list_ex (\<lambda>x. \<not> isUsableEffectiveSubIdMapping x) activeMappings
         then Inl (AppError CONFLICT ''<the mapped employee is not active>'')
         else let employeeId = hd employeeIds;
                  baseRevenueUsd = sum_income rt baseRows;
                  adjustmentUsd = dec_minus (rt_round rt) actual baseRevenueUsd
              in if list_ex (\<lambda>r. has_employee (ir_employeeId r) \<and> ir_employeeId r \<noteq> Some employeeId) baseRows
                 then Inl (AppError CONFLICT ''<the API income does not agree with the mapping>'')
                 else if dec_plus (rt_round rt) baseRevenueUsd adjustmentUsd < 0
                 then Inl (AppError VALIDATION_ERROR ''<the adjusted revenue cannot be negative>'')
                 else Inr \<lparr>kr_affiliateAccountId = account, kr_settlementMonth = m, kr_subValue = subValue,
                           kr_employeeId = employeeId, kr_baseRevenueUsd = baseRevenueUsd,
                           kr_actualRevenueUsd = actual, kr_adjustmentUsd = adjustmentUsd, kr_reason = reason\<rparr>)"

definition sub_query :: "string \<Rightarrow> int \<Rightarrow> string option \<Rightarrow> resolve_input" where
  "sub_query account m subValue =
     \<lparr>rv_settlementMonth = m, rv_affiliateAccountId = Some account, rv_subField = Some CAKE_SUB_FIELD,
      rv_subValue = subValue, rv_subValues = None, rv_employeeId = None\<rparr>"

definition parseCakeRequest :: "runtime \<Rightarrow> cake_request \<Rightarrow> (string \<times> int \<times> string \<times> rat \<times> string) outcome" where
  "parseCakeRequest rt input =
     bind_res (requireNonBlank (kq_affiliateAccountId input) ''affiliateAccountId'') (\<lambda>account.
     bind_res (parseMonthStart rt (kq_settlementMonth input) ''settlementMonth'') (\<lambda>m.
     bind_res (requireNonBlank (kq_subValue input) ''subValue'') (\<lambda>subValue.
     bind_res (parseDecimalString rt (kq_actualRevenueUsd input) ''actualRevenueUsd'' False) (\<lambda>actual.
     bind_res (requireNonBlank (kq_reason input) ''reason'') (\<lambda>reason.
     if length reason > MAX_REASON_LENGTH
     then Inl (AppError VALIDATION_ERROR (''reason must be at most '' @ nat_string MAX_REASON_LENGTH @ '' characters.''))
     else Inr (account, m, subValue, actual, reason))))))"

definition resolveInput :: "runtime \<Rightarrow> cake_request \<Rightarrow> cake_resolved handler" where
  "resolveInput rt input =
     op_bind (op_lift (parseCakeRequest rt input)) (\<lambda>(account, m, subValue, actual, reason).
     op_bind (getCakeAccount account) (\<lambda>_.
     op_bind (resolveEffectiveSubIdMappings (sub_query account m (Some subValue))) (\<lambda>mappings.
     op_bind (op_get (cake_base_rows account m subValue)) (\<lambda>baseRows.
     op_lift (check_adjustment rt account m subValue actual reason mappings baseRows)))))"

section \<open>Saving, confirming, disabling\<close>

definition kw_write :: "int \<Rightarrow> string \<Rightarrow> string option \<Rightarrow> month_write" where
  "kw_write m action i =
     \<lparr>mw_settlementMonth = m, mw_action = action, mw_objectType = ''income_records'', mw_objectId = i\<rparr>"

definition kw_audit :: "actor \<Rightarrow> string \<Rightarrow> string \<Rightarrow> int \<Rightarrow> string list \<Rightarrow> audit_input" where
  "kw_audit actor action i m changed = auditInput actor action ''income_records'' (Some i) (Some m) changed"

definition cake_metadata_of :: "runtime \<Rightarrow> cake_resolved \<Rightarrow> jsval" where
  "cake_metadata_of rt k =
     buildCakeAdjustmentMetadata rt (kr_baseRevenueUsd k) (kr_actualRevenueUsd k) (kr_adjustmentUsd k) (kr_reason k)"

text \<open>
  \<open>incomeRecord.upsert\<close> by source and external identifier: the row with that key is
  rewritten, otherwise one is created.
\<close>

definition income_upsert ::
  "string \<Rightarrow> string \<Rightarrow> income_record \<Rightarrow> (income_record \<Rightarrow> income_record) \<Rightarrow> income_record handler" where
  "income_upsert source external create update db =
     (let key = (\<lambda>r. ir_source r = source \<and> ir_externalRecordId r = Some external)
      in case find_row key (income_records db) of
           None \<Rightarrow> (Inr create, put_incomes (income_records db @ [create]) db)
         | Some r \<Rightarrow> (Inr (update r), put_incomes (update_first key update (income_records db)) db))"

definition draft_fields :: "runtime \<Rightarrow> cake_resolved \<Rightarrow> string \<Rightarrow> actor \<Rightarrow> income_record \<Rightarrow> income_record" where
  "draft_fields rt k external actor r =
     r\<lparr>ir_month := kr_settlementMonth k, ir_affiliateAccountId := Some (kr_affiliateAccountId k),
       ir_employeeId := Some (kr_employeeId k), ir_source := CAKE_ADJUSTMENT_SOURCE,
       ir_externalRecordId := Some external, ir_subField := Some CAKE_SUB_FIELD,
       ir_subValue := Some (kr_subValue k), ir_incomeUsd := rt_column rt 6 (kr_adjustmentUsd k),
       ir_rawData := cake_metadata_of rt k, ir_status := CS_draft, ir_importedBy := Some (ac_userId actor)\<rparr>"

definition new_draft :: "runtime \<Rightarrow> cake_resolved \<Rightarrow> string \<Rightarrow> actor \<Rightarrow> income_record" where
  "new_draft rt k external actor =
     \<lparr>ir_id = rt_fresh_id rt 0, ir_month = kr_settlementMonth k, ir_affiliateAccountId = Some (kr_affiliateAccountId k),
      ir_employeeId = Some (kr_employeeId k), ir_source = CAKE_ADJUSTMENT_SOURCE,
      ir_externalRecordId = Some external, ir_subField = Some CAKE_SUB_FIELD,
      ir_subValue = Some (kr_subValue k), ir_incomeUsd = rt_column rt 6 (kr_adjustmentUsd k),
      ir_rawData = cake_metadata_of rt k, ir_status = CS_draft, ir_importedBy = Some (ac_userId actor)\<rparr>"

definition saveDraft :: "runtime \<Rightarrow> cake_request \<Rightarrow> actor \<Rightarrow> income_record handler" where
  "saveDraft rt input actor =
     op_bind (assertSuperAdmin actor) (\<lambda>_.
     op_bind (resolveInput rt input) (\<lambda>k.
     op_bind (assertWritable (kw_write (kr_settlementMonth k) ''cake_income_adjustment.save_draft'' None) (Some actor)) (\<lambda>_.
     let external = cakeAdjustmentExternalRecordId rt (kr_affiliateAccountId k) (kr_settlementMonth k) (kr_subValue k)
     in op_bind (op_get (\<lambda>db. find_row
            (\<lambda>r. ir_source r = CAKE_ADJUSTMENT_SOURCE \<and> ir_externalRecordId r = Some external) (income_records db)))
          (\<lambda>existing.
        op_bind (op_assert (\<not> (case existing of None \<Rightarrow> False | Some r \<Rightarrow> ir_status r = CS_confirmed))
          (AppError CONFLICT ''<a confirmed adjustment cannot be edited; disable it first>'')) (\<lambda>_.
        op_bind (op_assert (kr_adjustmentUsd k \<noteq> 0)
          (AppError VALIDATION_ERROR ''<the actual revenue equals the API base, no adjustment is needed>'')) (\<lambda>_.
        op_bind (income_upsert CAKE_ADJUSTMENT_SOURCE external (new_draft rt k external actor)
          (draft_fields rt k external actor)) (\<lambda>after.
        op_bind (audit_success (kw_audit actor ''cake_income_adjustment.save_draft'' (ir_id after)
          (kr_settlementMonth k) [''employeeId'', ''incomeUsd'', ''rawData'', ''status''])) (\<lambda>_.
        op_return after)))))))) "

definition confirmed_fields :: "runtime \<Rightarrow> cake_resolved \<Rightarrow> actor \<Rightarrow> income_record \<Rightarrow> income_record" where
  "confirmed_fields rt k actor r =
     r\<lparr>ir_employeeId := Some (kr_employeeId k), ir_incomeUsd := rt_column rt 6 (kr_adjustmentUsd k),
       ir_rawData := cake_metadata_of rt k, ir_status := CS_confirmed, ir_importedBy := Some (ac_userId actor)\<rparr>"

text \<open>The request a confirmation resolves again, from the columns of the draft.\<close>

definition confirmation_request :: "income_record \<Rightarrow> cake_request outcome" where
  "confirmation_request r =
     (case (readCakeAdjustmentMetadata (ir_rawData r), ir_affiliateAccountId r, ir_subValue r) of
        (Some metadata, Some account, Some subValue) \<Rightarrow>
          if account = [] \<or> subValue = []
          then Inl (AppError CONFLICT ''<the adjustment has no base data to verify>'')
          else Inr \<lparr>kq_affiliateAccountId = JString account, kq_settlementMonth = JDate (Some (ir_month r)),
                    kq_subValue = JString subValue, kq_actualRevenueUsd = JString (cm_targetRevenueUsd metadata),
                    kq_reason = JString (cm_reason metadata)\<rparr>
      | _ \<Rightarrow> Inl (AppError CONFLICT ''<the adjustment has no base data to verify>''))"

definition confirmAdjustment :: "runtime \<Rightarrow> string \<Rightarrow> actor \<Rightarrow> income_record handler" where
  "confirmAdjustment rt i actor =
     op_bind (assertSuperAdmin actor) (\<lambda>_.
     op_bind (getAdjustment i) (\<lambda>before.
     op_bind (assertWritable (kw_write (ir_month before) ''cake_income_adjustment.confirm'' (Some i)) (Some actor)) (\<lambda>_.
     op_bind (op_assert (ir_status before = CS_draft)
       (AppError CONFLICT ''<only a draft CAKE income adjustment can be confirmed>'')) (\<lambda>_.
     op_bind (op_lift (confirmation_request before)) (\<lambda>input.
     op_bind (resolveInput rt input) (\<lambda>k.
     op_bind (op_assert (kr_adjustmentUsd k \<noteq> 0)
       (AppError CONFLICT ''<the API base already equals the actual revenue>'')) (\<lambda>_.
     op_bind (income_set i (confirmed_fields rt k actor)) (\<lambda>after.
     op_bind (audit_success (kw_audit actor ''cake_income_adjustment.confirm'' i (ir_month before)
       [''employeeId'', ''incomeUsd'', ''rawData'', ''status''])) (\<lambda>_.
     op_return after)))))))))"

definition disableAdjustment :: "string \<Rightarrow> actor \<Rightarrow> income_record handler" where
  "disableAdjustment i actor =
     op_bind (assertSuperAdmin actor) (\<lambda>_.
     op_bind (getAdjustment i) (\<lambda>before.
     op_bind (assertWritable (kw_write (ir_month before) ''cake_income_adjustment.disable'' (Some i)) (Some actor)) (\<lambda>_.
     if ir_status before = CS_disabled then op_return before
     else op_bind (income_set i (\<lambda>r. r\<lparr>ir_status := CS_disabled\<rparr>)) (\<lambda>after.
          op_bind (audit_success (kw_audit actor ''cake_income_adjustment.disable'' i (ir_month before) [''status''])) (\<lambda>_.
          op_return after)))))"

section \<open>Listing\<close>

datatype mapping_status = MS_missing | MS_conflict | MS_matched

record cake_item =
  ki_id :: "string option"
  ki_subValue :: string
  ki_employeeId :: "string option"
  ki_employee :: "employee option"
  ki_mappingStatus :: mapping_status
  ki_employeeMismatch :: bool
  ki_baseRecordPresent :: bool
  ki_baseRevenueUsd :: rat
  ki_adjustmentUsd :: rat
  ki_confirmedAdjustmentUsd :: rat
  ki_finalRevenueUsd :: rat
  ki_previewRevenueUsd :: rat
  ki_metadata :: "cake_metadata option"
  ki_status :: "common_status option"
  ki_importedBy :: "string option"
  ki_editable :: bool

record cake_list =
  kl_account :: affiliate_account
  kl_settlementMonth :: string
  kl_locked :: bool
  kl_items :: "cake_item list"
  kl_baseRevenueUsd :: rat
  kl_confirmedAdjustmentUsd :: rat
  kl_finalRevenueUsd :: rat
  kl_confirmedAdjustmentCount :: nat
  kl_draftAdjustmentCount :: nat

definition add_key :: "string option \<Rightarrow> string list \<Rightarrow> string list" where
  "add_key v keys = (case v of None \<Rightarrow> keys | Some s \<Rightarrow> if js_trim s = [] then keys else set_add keys (js_trim s))"

definition cake_keys :: "income_record list \<Rightarrow> effective_mapping list \<Rightarrow> income_record list \<Rightarrow> string list" where
  "cake_keys baseRows mappings adjustments =
     fold (\<lambda>r. add_key (ir_subValue r)) adjustments
       (fold (\<lambda>x. add_key (Some (sm_subValue (fst x)))) mappings
         (fold (\<lambda>r. add_key (ir_subValue r)) baseRows []))"

definition cake_item_of ::
  "runtime \<Rightarrow> bool \<Rightarrow> income_record list \<Rightarrow> effective_mapping list \<Rightarrow> income_record list \<Rightarrow> string \<Rightarrow> cake_item" where
  "cake_item_of rt locked baseRows mappings adjustments subValue =
     (let subBaseRows = filter (\<lambda>r. ir_subValue r = Some subValue) baseRows;
          baseRevenue = sum_income rt subBaseRows;
          mappingRows = filter (\<lambda>x. sm_subValue (fst x) = subValue \<and> isActiveEffectiveSubIdMapping x) mappings;
          employeeIds = js_dedup (map (\<lambda>x. sm_employeeId (fst x)) mappingRows);
          adjustment = find_row (\<lambda>r. ir_subValue r = Some subValue) adjustments;
          status = (if employeeIds = [] then MS_missing else if length employeeIds > 1 then MS_conflict else MS_matched);
          matched = (status = MS_matched);
          employee = (if matched then Option.bind (find_row (\<lambda>x. sm_employeeId (fst x) = hd employeeIds) mappingRows) snd
                      else None);
          mismatch = (matched \<and> list_ex (\<lambda>r. has_employee (ir_employeeId r) \<and> ir_employeeId r \<noteq> Some (hd employeeIds)) subBaseRows);
          preview = (case adjustment of None \<Rightarrow> 0 | Some r \<Rightarrow> ir_incomeUsd r);
          confirmed = (case adjustment of None \<Rightarrow> 0 | Some r \<Rightarrow> if ir_status r = CS_confirmed then ir_incomeUsd r else 0)
      in \<lparr>ki_id = map_option ir_id adjustment, ki_subValue = subValue,
          ki_employeeId = (if matched then Some (hd employeeIds) else None), ki_employee = employee,
          ki_mappingStatus = status, ki_employeeMismatch = mismatch, ki_baseRecordPresent = (subBaseRows \<noteq> []),
          ki_baseRevenueUsd = baseRevenue, ki_adjustmentUsd = preview, ki_confirmedAdjustmentUsd = confirmed,
          ki_finalRevenueUsd = dec_plus (rt_round rt) baseRevenue confirmed,
          ki_previewRevenueUsd = dec_plus (rt_round rt) baseRevenue preview,
          ki_metadata = Option.bind adjustment (\<lambda>r. readCakeAdjustmentMetadata (ir_rawData r)),
          ki_status = map_option ir_status adjustment,
          ki_importedBy = Option.bind adjustment ir_importedBy,
          ki_editable = (\<not> locked \<and> subBaseRows \<noteq> [] \<and> matched \<and> \<not> mismatch
            \<and> (case employee of None \<Rightarrow> False | Some e \<Rightarrow> em_status e = CS_active))\<rparr>)"

definition cake_adjustments :: "string \<Rightarrow> int \<Rightarrow> database \<Rightarrow> income_record list" where
  "cake_adjustments account m db =
     filter (\<lambda>r. ir_affiliateAccountId r = Some account \<and> ir_month r = m \<and> ir_source r = CAKE_ADJUSTMENT_SOURCE
       \<and> ir_subField r = Some CAKE_SUB_FIELD) (income_records db)"

definition listAdjustments :: "runtime \<Rightarrow> jsval \<Rightarrow> jsval \<Rightarrow> actor \<Rightarrow> cake_list handler" where
  "listAdjustments rt account_query month_query actor =
     op_bind (assertSuperAdmin actor) (\<lambda>_.
     op_bind (op_lift (requireNonBlank account_query ''affiliateAccountId'')) (\<lambda>affiliateAccountId.
     op_bind (op_lift (parseMonthStart rt month_query ''settlementMonth'')) (\<lambda>m.
     op_bind (getCakeAccount affiliateAccountId) (\<lambda>account.
     op_bind (op_get (\<lambda>db. filter (is_cake_base affiliateAccountId m) (income_records db))) (\<lambda>baseRows.
     op_bind (op_get (cake_adjustments affiliateAccountId m)) (\<lambda>adjustments.
     op_bind (resolveEffectiveSubIdMappings (sub_query affiliateAccountId m None)) (\<lambda>mappings.
     op_bind (isLocked m) (\<lambda>locked.
     let confirmed = filter (\<lambda>r. ir_status r = CS_confirmed) adjustments;
         baseTotal = sum_income rt baseRows;
         confirmedTotal = sum_income rt confirmed
     in op_return
       \<lparr>kl_account = account, kl_settlementMonth = take 7 (iso_string m), kl_locked = locked,
        kl_items = map (cake_item_of rt locked baseRows mappings adjustments)
          (sort (cake_keys baseRows mappings adjustments)),
        kl_baseRevenueUsd = baseTotal, kl_confirmedAdjustmentUsd = confirmedTotal,
        kl_finalRevenueUsd = dec_plus (rt_round rt) baseTotal confirmedTotal,
        kl_confirmedAdjustmentCount = length confirmed,
        kl_draftAdjustmentCount = length (filter (\<lambda>r. ir_status r = CS_draft) adjustments)\<rparr>))))))))"

text \<open>
  The exported table. The time an adjustment was last written is a column the client library
  maintains; it is a parameter, by the identifier of the record.
\<close>

definition cake_csv_cell :: "string \<Rightarrow> string" where
  "cake_csv_cell text =
     (if list_ex (\<lambda>c. c = CHR 0x22 \<or> c = CHR '','' \<or> c = CHR 0x0D \<or> c = CHR 0x0A) text then csv_quote text else text)"

definition cake_csv_header :: "string list" where
  "cake_csv_header =
     [''Platform'', ''Affiliate Account'', ''Affiliate ID'', ''Settlement Month'', ''SUB Field'', ''SUB Value'',
      ''API Default Timezone Revenue USD'', ''China Standard Time Actual Revenue USD'',
      ''Proposed Adjustment USD'', ''Confirmed Adjustment USD'',
      ''Preview Final Revenue USD'', ''Settlement Final Revenue USD'', ''Employee Code'',
      ''Employee Name'', ''Status'', ''Reason'', ''Updated At'']"

definition option_text :: "string option \<Rightarrow> string" where
  "option_text v = (case v of None \<Rightarrow> [] | Some s \<Rightarrow> s)"

definition cake_csv_row :: "runtime \<Rightarrow> (string \<Rightarrow> string) \<Rightarrow> cake_list \<Rightarrow> cake_item \<Rightarrow> string list" where
  "cake_csv_row rt updated_at payload item =
     [''cake'', option_text (aa_accountName (kl_account payload)), aa_accountCode (kl_account payload),
      kl_settlementMonth payload, CAKE_SUB_FIELD, ki_subValue item,
      rt_show_decimal rt (ki_baseRevenueUsd item),
      (case ki_metadata item of None \<Rightarrow> rt_show_decimal rt (ki_baseRevenueUsd item) | Some md \<Rightarrow> cm_targetRevenueUsd md),
      rt_show_decimal rt (ki_adjustmentUsd item), rt_show_decimal rt (ki_confirmedAdjustmentUsd item),
      rt_show_decimal rt (ki_previewRevenueUsd item), rt_show_decimal rt (ki_finalRevenueUsd item),
      option_text (map_option em_employeeCode (ki_employee item)), option_text (map_option em_name (ki_employee item)),
      (case ki_status item of None \<Rightarrow> ''none'' | Some st \<Rightarrow> common_status_name st),
      option_text (map_option cm_reason (ki_metadata item)), option_text (map_option updated_at (ki_id item))]"

definition exportAdjustments ::
  "runtime \<Rightarrow> (string \<Rightarrow> string) \<Rightarrow> jsval \<Rightarrow> jsval \<Rightarrow> actor \<Rightarrow> (string \<times> string) handler" where
  "exportAdjustments rt updated_at account_query month_query actor =
     op_bind (listAdjustments rt account_query month_query actor) (\<lambda>payload.
     op_return
       (''cake-sub-revenue-adjustments-'' @ aa_accountCode (kl_account payload) @ ''-'' @ kl_settlementMonth payload @ ''.csv'',
        js_join [CHR 0x0D, CHR 0x0A] (map (\<lambda>row. js_join '','' (map cake_csv_cell row))
          (cake_csv_header # map (cake_csv_row rt updated_at payload) (kl_items payload)))))"

section \<open>Facts\<close>

lemma reads_only_getCakeAccount: "reads_only (getCakeAccount i)"
  unfolding getCakeAccount_def by (intro reads_only_bind) (simp_all split: option.split)

lemma reads_only_getAdjustment: "reads_only (getAdjustment i)"
  unfolding getAdjustment_def by (intro reads_only_bind) (simp_all split: option.split)

lemma reads_only_resolver: "reads_only (resolveEffectiveSubIdMappings input)"
  by (simp add: resolveEffectiveSubIdMappings_def)

lemma reads_only_assertSuperAdmin: "reads_only (assertSuperAdmin actor)"
  by (simp add: assertSuperAdmin_def)

lemma reads_only_resolveInput: "reads_only (resolveInput rt input)"
  unfolding resolveInput_def
  by (auto intro!: reads_only_bind reads_only_getCakeAccount reads_only_resolver split: prod.split)

lemma reads_only_listAdjustments: "reads_only (listAdjustments rt a q actor)"
  unfolding listAdjustments_def Let_def
  by (intro reads_only_bind reads_only_assertSuperAdmin reads_only_getCakeAccount reads_only_resolver) simp_all

lemmas cake_reads =
  reads_only_getAdjustment reads_only_assertSuperAdmin reads_only_resolveInput

lemmas freezes_at_cake_reads = cake_reads [THEN freezes_at_reads]
lemmas preserves_cake_reads = cake_reads [THEN preserves_reads]

lemma getAdjustment_Inr:
  "getAdjustment i db = (Inr r, db') \<Longrightarrow>
   db' = db \<and> find_row (\<lambda>r. ir_id r = i) (income_records db) = Some r \<and> ir_source r = CAKE_ADJUSTMENT_SOURCE"
  by (auto simp: getAdjustment_def split: option.splits if_splits)

lemma js_dedup_hd: "js_dedup xs \<noteq> [] \<Longrightarrow> hd (js_dedup xs) \<in> set xs"
  using hd_in_set [of "js_dedup xs"] by simp

text \<open>What an accepted adjustment is made of.\<close>

lemma check_adjustment_Inr:
  assumes "check_adjustment rt account m subValue actual reason mappings baseRows = Inr k"
  shows "\<exists>x. x \<in> set mappings \<and> isUsableEffectiveSubIdMapping x \<and> sm_employeeId (fst x) = kr_employeeId k"
    and "kr_affiliateAccountId k = account \<and> kr_settlementMonth k = m \<and> kr_subValue k = subValue \<and> kr_actualRevenueUsd k = actual"
    and "kr_baseRevenueUsd k = sum_income rt baseRows"
    and "kr_adjustmentUsd k = dec_minus (rt_round rt) actual (sum_income rt baseRows)"
proof -
  show "\<exists>x. x \<in> set mappings \<and> isUsableEffectiveSubIdMapping x \<and> sm_employeeId (fst x) = kr_employeeId k"
    using assms js_dedup_hd [of "map (\<lambda>x. sm_employeeId (fst x)) (filter isActiveEffectiveSubIdMapping mappings)"]
    by (fastforce simp: check_adjustment_def Let_def list_ex_iff split: if_splits)
qed (use assms in \<open>auto simp: check_adjustment_def Let_def split: if_splits\<close>)

lemma resolveInput_Inr:
  assumes "resolveInput rt input db = (Inr k, db')"
  shows "db' = db"
    and "\<exists>account m subValue actual reason mappings. parseCakeRequest rt input = Inr (account, m, subValue, actual, reason)
      \<and> resolveEffectiveSubIdMappings (sub_query account m (Some subValue)) db = (Inr mappings, db)
      \<and> check_adjustment rt account m subValue actual reason mappings (cake_base_rows account m subValue db) = Inr k"
proof -
  show "db' = db" using reads_only_result [OF reads_only_resolveInput] assms by (metis snd_conv)
  obtain account m subValue actual reason a db1 mappings db2
    where p: "parseCakeRequest rt input = Inr (account, m, subValue, actual, reason)"
      and a: "getCakeAccount account db = (Inr a, db1)"
      and q: "resolveEffectiveSubIdMappings (sub_query account m (Some subValue)) db1 = (Inr mappings, db2)"
      and c: "check_adjustment rt account m subValue actual reason mappings (cake_base_rows account m subValue db2) = Inr k"
    using assms by (auto simp: resolveInput_def op_bind_eq_Inr)
  moreover have "db1 = db" using reads_only_result [OF reads_only_getCakeAccount] a by (metis snd_conv)
  moreover have "db2 = db1" using resolve_rows [OF q] by simp
  ultimately show "\<exists>account m subValue actual reason mappings. parseCakeRequest rt input = Inr (account, m, subValue, actual, reason)
      \<and> resolveEffectiveSubIdMappings (sub_query account m (Some subValue)) db = (Inr mappings, db)
      \<and> check_adjustment rt account m subValue actual reason mappings (cake_base_rows account m subValue db) = Inr k"
    by blast
qed

lemma resolved_employee:
  assumes "mappings_ok db" "resolveInput rt input db = (Inr k, db')"
  shows "kr_employeeId k \<noteq> []"
proof -
  obtain account m subValue actual reason mappings
    where q: "resolveEffectiveSubIdMappings (sub_query account m (Some subValue)) db = (Inr mappings, db)"
      and c: "check_adjustment rt account m subValue actual reason mappings (cake_base_rows account m subValue db) = Inr k"
    using resolveInput_Inr(2) [OF assms(2)] by blast
  obtain x where x: "x \<in> set mappings" "sm_employeeId (fst x) = kr_employeeId k"
    using check_adjustment_Inr(1) [OF c] by blast
  then have "fst x \<in> set (sub_mappings db)" using resolve_in [OF q, of "fst x"] by (auto simp: in_effective_rows)
  then show ?thesis using assms(1) x(2) by (auto simp: mappings_ok_def mapping_row_ok_def list_all_iff)
qed

section \<open>Locked months are left alone\<close>

text \<open>
  A confirmation and a deactivation write the row of the month they asked the lock for. A draft
  is written by its external identifier: it stays in its month as long as the record with that
  identifier has not been moved to another month.
\<close>

lemma freezes_at_saveDraft:
  assumes "\<And>k r. resolveInput rt input db = (Inr k, db) \<Longrightarrow> r \<in> set (income_records db) \<Longrightarrow>
      ir_source r = CAKE_ADJUSTMENT_SOURCE \<Longrightarrow>
      ir_externalRecordId r = Some (cakeAdjustmentExternalRecordId rt (kr_affiliateAccountId k) (kr_settlementMonth k) (kr_subValue k)) \<Longrightarrow>
      ir_month r = kr_settlementMonth k"
  shows "freezes_at m db (saveDraft rt input actor)"
proof -
  have up: "freezes_at m db (income_upsert CAKE_ADJUSTMENT_SOURCE ext (new_draft rt k ext actor) (draft_fields rt k ext actor))"
    if k: "resolveInput rt input db = (Inr k, db)" and o: "kr_settlementMonth k \<noteq> m"
      and ext: "ext = cakeAdjustmentExternalRecordId rt (kr_affiliateAccountId k) (kr_settlementMonth k) (kr_subValue k)" for k ext
  proof -
    let ?key = "\<lambda>r. ir_source r = CAKE_ADJUSTMENT_SOURCE \<and> ir_externalRecordId r = Some ext"
    have "filter (\<lambda>r. ir_month r = m) (update_first ?key (draft_fields rt k ext actor) (income_records db))
        = filter (\<lambda>r. ir_month r = m) (income_records db)"
      using assms [OF k] o ext by (intro filter_update_first_le) (auto simp: draft_fields_def dest!: find_row_Some)
    then show ?thesis
      using o by (simp add: freezes_at_def income_upsert_def Let_def income_table.scope_put new_draft_def split: option.split)
  qed
  show ?thesis
    unfolding saveDraft_def Let_def
    by (auto intro!: freezes_at_bind freezes_at_cake_reads freezes_at_guard freezes_at_get freezes_at_assert
        up simp: kw_write_def)
qed

lemma freezes_confirmAdjustment: "freezes m (confirmAdjustment rt i actor)"
  unfolding confirmAdjustment_def income_set_def
  by (rule freezes_eachI)
    (auto intro!: freezes_at_bind freezes_at_cake_reads freezes_at_guard freezes_at_lift freezes_at_assert
      income_table.update_freezes_at simp: kw_write_def confirmed_fields_def dest!: getAdjustment_Inr)

lemma freezes_disableAdjustment: "freezes m (disableAdjustment i actor)"
  unfolding disableAdjustment_def income_set_def
  by (rule freezes_eachI)
    (auto intro!: freezes_at_bind freezes_at_cake_reads freezes_at_guard
      income_table.update_freezes_at simp: kw_write_def dest!: getAdjustment_Inr)

section \<open>Confirmed income has an employee\<close>

definition earnings_ok :: "database \<Rightarrow> bool" where
  "earnings_ok db \<longleftrightarrow> incomes_ok db \<and> mappings_ok db"

lemma audit_stable_earnings_ok [simp]: "audit_stable earnings_ok"
  using audit_stable_incomes_ok audit_stable_mappings_ok by (simp add: audit_stable_def earnings_ok_def)

lemma looks_past_audit_tables [simp]:
  "looks_past_audit income_records" "looks_past_audit sub_mappings"
  by (simp_all add: looks_past_audit_def)

text \<open>The handlers of incomes leave the mappings alone, and conversely.\<close>

lemma income_writes_frame [frame_intros]:
  assumes "\<And>rows db. v (put_incomes rows db) = v db"
  shows "op_frame v UNIV (income_insert r)" "op_frame v UNIV (income_set i f)" "op_frame v UNIV (income_upsert s e c u)"
  using assms unfolding income_insert_def income_set_def
  by (auto intro!: frame_intros) (simp add: op_frame_def income_upsert_def Let_def split: option.split)

lemma mapping_writes_frame [frame_intros]:
  assumes "\<And>rows db. v (put_mappings rows db) = v db"
  shows "op_frame v UNIV (mapping_insert s)" "op_frame v UNIV (mapping_set i g)"
  using assms unfolding mapping_insert_def mapping_set_def by (auto intro!: frame_intros)

lemma cake_reads_frame [frame_intros]:
  "op_frame v UNIV (resolveInput rt input)" "op_frame v UNIV (getAdjustment i)" "op_frame v UNIV (assertSuperAdmin actor)"
  by (rule op_frame_reads, rule cake_reads)+

lemma income_handlers_frame:
  assumes "looks_past_audit v" and "\<And>rows db. v (put_incomes rows db) = v db"
  shows "op_frame v UNIV (createIncome rt ni actor)" "op_frame v UNIV (updateIncome rt i ni actor)"
    "op_frame v UNIV (confirmIncome i actor)" "op_frame v UNIV (disableIncome i actor)"
    "op_frame v UNIV (saveDraft rt ki actor)" "op_frame v UNIV (confirmAdjustment rt i actor)"
    "op_frame v UNIV (disableAdjustment i actor)"
  using assms unfolding createIncome_def updateIncome_def confirmIncome_def disableIncome_def getIncome_def saveDraft_def
    confirmAdjustment_def disableAdjustment_def Let_def
  by (auto intro!: frame_intros)

lemma mapping_handlers_frame:
  assumes "looks_past_audit v" and "\<And>rows db. v (put_mappings rows db) = v db"
  shows "op_frame v UNIV (createMapping rt mi actor)" "op_frame v UNIV (updateMapping rt i mi actor)"
    "op_frame v UNIV (disableMapping i actor)"
  using assms unfolding createMapping_def updateMapping_def disableMapping_def getMapping_def
  by (auto intro!: frame_intros split: prod.split)

lemma beside_tables [simp]:
  "sub_mappings (put_incomes rows db) = sub_mappings db" "income_records (put_mappings rows' db) = income_records db"
  by (simp_all add: put_incomes_def put_mappings_def)

lemma mappings_ok_view: "sub_mappings db' = sub_mappings db \<Longrightarrow> mappings_ok db' = mappings_ok db"
  by (simp add: mappings_ok_def)

lemma incomes_ok_view: "income_records db' = income_records db \<Longrightarrow> incomes_ok db' = incomes_ok db"
  by (simp add: incomes_ok_def)

lemma earnings_income:
  "earnings_ok db \<Longrightarrow> preserves incomes_ok db h \<Longrightarrow> op_frame sub_mappings UNIV h \<Longrightarrow> earnings_ok (snd (h db))"
  using mappings_ok_view [of "snd (h db)" db] by (simp add: earnings_ok_def preserves_def op_frame_def)

lemma earnings_mapping:
  "earnings_ok db \<Longrightarrow> preserves mappings_ok db h \<Longrightarrow> op_frame income_records UNIV h \<Longrightarrow> earnings_ok (snd (h db))"
  using incomes_ok_view [of "snd (h db)" db] by (simp add: earnings_ok_def preserves_def op_frame_def)

lemma upsert_draft_ok:
  assumes "incomes_ok db"
  shows "preserves incomes_ok db (income_upsert s e (new_draft rt k ext actor) (draft_fields rt k ext actor))"
proof -
  have "list_all (\<lambda>r. ir_status r = CS_confirmed \<longrightarrow> has_employee (ir_employeeId r)) (update_first p (draft_fields rt k ext actor) rows)"
    if "list_all (\<lambda>r. ir_status r = CS_confirmed \<longrightarrow> has_employee (ir_employeeId r)) rows" for p rows
    using that by (induction rows) (auto simp: draft_fields_def)
  then show ?thesis
    using assms unfolding preserves_def incomes_ok_all
    by (simp add: income_upsert_def Let_def put_incomes_def new_draft_def split: option.split)
qed

lemma cake_handlers_ok:
  assumes "earnings_ok db"
  shows "preserves incomes_ok db (saveDraft rt input actor)"
    and "preserves incomes_ok db (confirmAdjustment rt i actor)"
    and "preserves incomes_ok db (disableAdjustment i actor)"
proof -
  have i: "incomes_ok db" and m: "mappings_ok db" using assms by (simp_all add: earnings_ok_def)
  show "preserves incomes_ok db (saveDraft rt input actor)"
    unfolding saveDraft_def Let_def
    by (auto intro!: preserves_cake_reads preserves_guard preserves_get preserves_assert preserves_audited i
        upsert_draft_ok)
  show "preserves incomes_ok db (confirmAdjustment rt i actor)"
    unfolding confirmAdjustment_def
    by (auto intro!: preserves_cake_reads preserves_guard preserves_lift preserves_assert preserves_audited i
        incomes_set simp: confirmed_fields_def has_employee_def dest: resolved_employee [OF m])
  show "preserves incomes_ok db (disableAdjustment i actor)"
    unfolding disableAdjustment_def
    by (auto intro!: preserves_cake_reads preserves_guard preserves_audited i incomes_set)
qed

text \<open>One call of a handler of incomes, mappings or adjustments.\<close>

inductive earnings_step :: "database \<Rightarrow> database \<Rightarrow> bool" where
  create_income: "earnings_step db (snd (createIncome rt ni actor db))"
| update_income: "earnings_step db (snd (updateIncome rt i ni actor db))"
| confirm_income: "earnings_step db (snd (confirmIncome i actor db))"
| disable_income: "earnings_step db (snd (disableIncome i actor db))"
| create_mapping: "rt_fresh_id rt 0 \<notin> sm_id ` set (sub_mappings db) \<Longrightarrow>
     earnings_step db (snd (createMapping rt mi actor db))"
| update_mapping: "earnings_step db (snd (updateMapping rt i mi actor db))"
| disable_mapping: "earnings_step db (snd (disableMapping i actor db))"
| save_draft: "earnings_step db (snd (saveDraft rt ki actor db))"
| confirm_adjustment: "earnings_step db (snd (confirmAdjustment rt i actor db))"
| disable_adjustment: "earnings_step db (snd (disableAdjustment i actor db))"

lemma earnings_step_ok:
  assumes "earnings_step db db'" "earnings_ok db"
  shows "earnings_ok db'"
proof -
  have i: "incomes_ok db" and m: "mappings_ok db" using assms(2) by (simp_all add: earnings_ok_def)
  note beside_incomes = income_handlers_frame [of sub_mappings, simplified]
    and beside_mappings = mapping_handlers_frame [of income_records, simplified]
  note income = income_handlers_ok [OF i, THEN earnings_income [OF assms(2)]] beside_incomes
    and cake = cake_handlers_ok [OF assms(2), THEN earnings_income [OF assms(2)]]
    and mapping = mapping_handlers_ok(2,3) [OF m, THEN earnings_mapping [OF assms(2)]] beside_mappings
      mapping_handlers_ok(1) [OF m, THEN earnings_mapping [OF assms(2)]]
  from assms(1) show ?thesis by cases (simp_all add: income cake mapping)
qed

section \<open>Properties\<close>

lemma cake_base_rows_confirmed:
  assumes "find_row (\<lambda>r. ir_id r = i) (income_records db) = Some before" "ir_source before = CAKE_ADJUSTMENT_SOURCE"
    and "income_set i (confirmed_fields rt k actor) db = (Inr r, db')"
  shows "cake_base_rows account m subValue db' = cake_base_rows account m subValue db"
proof -
  have "filter (\<lambda>r. is_cake_base account m r \<and> ir_subValue r = Some subValue)
      (update_first (\<lambda>r. ir_id r = i) (confirmed_fields rt k actor) (income_records db))
    = filter (\<lambda>r. is_cake_base account m r \<and> ir_subValue r = Some subValue) (income_records db)"
    using assms(1,2)
    by (intro filter_update_first_le)
      (auto simp: is_cake_base_def confirmed_fields_def CAKE_ADJUSTMENT_SOURCE_def CAKE_BASE_SOURCE_def)
  then show ?thesis
    using assms(1,3)
    by (auto simp: cake_base_rows_def income_set_def table_update_def put_incomes_def split: if_splits)
qed

text \<open>Amounts of the same scale are subtracted exactly while they are small.\<close>

lemma exact_difference:
  assumes "decimal_rounding rnd digits" and s: "scaled k x" "list_all (scaled k) xs" and x: "0 \<le> x"
    and b: "(x + sum_list (map abs xs)) * 10 ^ k < 10 ^ 20"
  shows "dec_minus rnd x (dec_sum rnd xs) = x - sum_list xs" and "scaled k (x - sum_list xs)"
proof -
  have nn: "0 \<le> sum_list (map abs xs)" by (rule sum_list_nonneg) auto
  have "sum_list (map abs xs) * 10 ^ k \<le> (x + sum_list (map abs xs)) * 10 ^ k" using x by (intro mult_right_mono) simp_all
  then have "sum_list (map abs xs) * 10 ^ k < 10 ^ 20" using b by (rule le_less_trans)
  with s(2) have "dec_sum rnd xs = sum_list xs" by (rule decimal_rounding.dec_sum_exact [OF assms(1)])
  moreover show sc: "scaled k (x - sum_list xs)" using s by auto
  moreover have "rnd (x - sum_list xs) = x - sum_list xs"
  proof (rule decimal_rounding.rnd_scaled [OF assms(1) sc])
    have "\<bar>x - sum_list xs\<bar> * 10 ^ k \<le> (x + sum_list (map abs xs)) * 10 ^ k"
      using x sum_list_abs [of xs] by (intro mult_right_mono) (linarith, simp)
    then show "\<bar>x - sum_list xs\<bar> * 10 ^ k < 10 ^ 20" using b by (rule le_less_trans)
  qed
  ultimately show "dec_minus rnd x (dec_sum rnd xs) = x - sum_list xs" by (simp add: dec_minus_def)
qed

text \<open>The steps of a successful confirmation.\<close>

lemma confirmAdjustment_Inr:
  assumes "confirmAdjustment rt i actor db = (Inr r, db')"
    and "find_row (\<lambda>r. ir_id r = i) (income_records db) = Some before"
  obtains input k where "ir_source before = CAKE_ADJUSTMENT_SOURCE" and "confirmation_request before = Inr input"
    and "resolveInput rt input db = (Inr k, db)" and "r = confirmed_fields rt k actor before"
    and "\<And>account m subValue. cake_base_rows account m subValue db' = cake_base_rows account m subValue db"
proof -
  obtain input k db1 db2 where req: "confirmation_request before = Inr input" and k: "resolveInput rt input db = (Inr k, db2)"
    and set: "income_set i (confirmed_fields rt k actor) db2 = (Inr r, db1)"
    and audit: "income_records db' = income_records db1" and src: "ir_source before = CAKE_ADJUSTMENT_SOURCE"
    using assms
    by (auto simp: confirmAdjustment_def op_bind_eq_Inr assertSuperAdmin_def op_assert_def assertWritable_eq
        dest!: getAdjustment_Inr split: if_splits)
  have "db2 = db" using resolveInput_Inr(1) [OF k] .
  note k = k [unfolded this] and set = set [unfolded this]
  have "r = confirmed_fields rt k actor before"
    using set assms(2) by (auto simp: income_set_def table_update_def split: if_splits)
  moreover have "cake_base_rows account m subValue db' = cake_base_rows account m subValue db" for account m subValue
    using cake_base_rows_confirmed [OF assms(2) src set] audit by (simp add: cake_base_rows_def)
  ultimately show ?thesis using that src req k by blast
qed

lemma resolved_active_employee:
  assumes "resolveEffectiveSubIdMappings query db = (Inr mappings, db')"
    and "check_adjustment rt account m subValue actual reason mappings baseRows = Inr k"
  shows "\<exists>e \<in> set (employees db). em_id e = kr_employeeId k \<and> em_status e = CS_active"
proof -
  obtain x where x: "x \<in> set mappings" "isUsableEffectiveSubIdMapping x" "sm_employeeId (fst x) = kr_employeeId k"
    using check_adjustment_Inr(1) [OF assms(2)] by blast
  then obtain e where e: "snd x = Some e" "em_status e = CS_active"
    by (auto simp: isUsableEffectiveSubIdMapping_def split: option.splits)
  then have "find_row (\<lambda>e. em_id e = sm_employeeId (fst x)) (employees db) = Some e"
    using assms(1) x(1) by (auto simp: resolveEffectiveSubIdMappings_def with_employee_def split: if_splits)
  from find_row_Some [OF this] show ?thesis using e(2) x(3) by auto
qed

text \<open>
  C23: A confirmed adjustment brings the income of the sub id to the revenue the administrator
  entered: after a successful confirmation the base income of the sub id in the month plus the
  adjustment is exactly the target of the draft, as long as the amounts have at most six decimals
  and stay in the exact range; and the adjustment belongs to an active employee.
\<close>

theorem confirmation_reaches_target:
  assumes "decimal_rounding (rt_round rt) digits" and "column_rounding (rt_column rt)"
    and "confirmAdjustment rt i actor db = (Inr r, db')"
    and "find_row (\<lambda>r. ir_id r = i) (income_records db) = Some before"
    and "ir_affiliateAccountId before = Some account" and "ir_subValue before = Some subValue"
    and "readCakeAdjustmentMetadata (ir_rawData before) = Some md"
    and "parseDecimalString rt (JString (cm_targetRevenueUsd md)) ''actualRevenueUsd'' False = Inr target"
    and "scaled 6 target" and "list_all (scaled 6) (map ir_incomeUsd (cake_base_rows (js_trim account) (ir_month before) (js_trim subValue) db))"
    and "(target + sum_list (map abs (map ir_incomeUsd (cake_base_rows (js_trim account) (ir_month before) (js_trim subValue) db))))
          * 10 ^ 6 < 10 ^ 20"
  shows "ir_status r = CS_confirmed
    \<and> sum_list (map ir_incomeUsd (cake_base_rows (js_trim account) (ir_month before) (js_trim subValue) db')) + ir_incomeUsd r = target
    \<and> (\<exists>e \<in> set (employees db). ir_employeeId r = Some (em_id e) \<and> em_status e = CS_active)"
proof -
  let ?xs = "map ir_incomeUsd (cake_base_rows (js_trim account) (ir_month before) (js_trim subValue) db)"
  obtain input k where req: "confirmation_request before = Inr input" and k: "resolveInput rt input db = (Inr k, db)"
    and r: "r = confirmed_fields rt k actor before"
    and rows: "\<And>account m subValue. cake_base_rows account m subValue db' = cake_base_rows account m subValue db"
    using confirmAdjustment_Inr [OF assms(3,4)] by metis
  have input: "kq_affiliateAccountId input = JString account" "kq_settlementMonth input = JDate (Some (ir_month before))"
    "kq_subValue input = JString subValue" "kq_actualRevenueUsd input = JString (cm_targetRevenueUsd md)"
    using req assms(5-7) by (auto simp: confirmation_request_def split: if_splits)
  obtain mappings reason
    where q: "resolveEffectiveSubIdMappings (sub_query (js_trim account) (ir_month before) (Some (js_trim subValue))) db = (Inr mappings, db)"
    and c: "check_adjustment rt (js_trim account) (ir_month before) (js_trim subValue) target reason mappings
        (cake_base_rows (js_trim account) (ir_month before) (js_trim subValue) db) = Inr k"
    using resolveInput_Inr(2) [OF k] assms(8)
    by (auto simp: parseCakeRequest_def input bind_res_Inr_iff requireNonBlank_Inr parseMonthStart_def parseDate_def split: if_splits)
  note exact = exact_difference [OF assms(1,9,10) parseDecimalString_Inr(1) [OF assms(8)] assms(11)]
  have "kr_adjustmentUsd k = target - sum_list ?xs"
    using check_adjustment_Inr(4) [OF c] exact(1) by (simp add: sum_income_def)
  then have "ir_incomeUsd r = target - sum_list ?xs" by (simp add: r confirmed_fields_def column_rounding.col_exact [OF assms(2) exact(2)])
  then show ?thesis using resolved_active_employee [OF q c] by (force simp: r rows confirmed_fields_def)
qed

text \<open>
  C24: Confirmed income always has an employee, so the check of a settlement generation for
  income without one never fails: whatever sequence of handlers of incomes, mappings and
  adjustments ran, the generation reads no income without an employee.
\<close>

theorem confirmed_income_has_employee:
  assumes "earnings_step\<^sup>*\<^sup>* db db'" and "earnings_ok db"
  shows "filter (\<lambda>r. \<not> has_employee (in_employeeId r)) (read_incomes m db') = []"
proof -
  have "earnings_ok db'" using assms by (induction rule: rtranclp_induct) (auto intro: earnings_step_ok)
  then show ?thesis by (auto simp: earnings_ok_def incomes_ok_def read_incomes_def list_all_iff filter_empty_conv)
qed

section \<open>Examples\<close>

text \<open>A sub id with a base income of 100, mapped to an active employee, and a draft for 150.\<close>

definition sample_base :: income_record where
  "sample_base =
     \<lparr>ir_id = ''b'', ir_month = FEB_2026, ir_affiliateAccountId = Some ''acc'', ir_employeeId = Some ''a'',
      ir_source = ''cake'', ir_externalRecordId = Some ''x'', ir_subField = Some ''sub1'', ir_subValue = Some ''7'',
      ir_incomeUsd = 100, ir_rawData = JNull, ir_status = CS_confirmed, ir_importedBy = None\<rparr>"

definition sample_adjustment :: "common_status \<Rightarrow> income_record" where
  "sample_adjustment st =
     \<lparr>ir_id = ''k'', ir_month = FEB_2026, ir_affiliateAccountId = Some ''acc'', ir_employeeId = Some ''a'',
      ir_source = ''cake_adjustment'', ir_externalRecordId = Some ''y'', ir_subField = Some ''sub1'', ir_subValue = Some ''7'',
      ir_incomeUsd = 50, ir_rawData = buildCakeAdjustmentMetadata sample_rt 100 150 50 ''why'', ir_status = st,
      ir_importedBy = None\<rparr>"

definition sample_cake_db :: "common_status \<Rightarrow> database" where
  "sample_cake_db st = empty_db
     \<lparr>income_records := [sample_base, sample_adjustment st],
      sub_mappings := [\<lparr>sm_id = ''m1'', sm_affiliateAccountId = ''acc'', sm_subField = ''sub1'', sm_subValue = ''7'',
        sm_effectiveMonth = FEB_2026, sm_employeeId = ''a'', sm_status = CS_active, sm_createdBy = None\<rparr>],
      employees := [\<lparr>em_id = ''a'', em_employeeCode = ''E1'', em_name = ''Ann'', em_email = None, em_phone = None,
        em_status = CS_active, em_hiredAt = None, em_leftAt = None\<rparr>],
      affiliate_accounts := [\<lparr>aa_id = ''acc'', aa_platform = ''cake'', aa_accountCode = ''1'', aa_accountName = None,
        aa_status = CS_active\<rparr>]\<rparr>"

definition sample_resolved_adjustment :: cake_resolved where
  "sample_resolved_adjustment =
     \<lparr>kr_affiliateAccountId = ''acc'', kr_settlementMonth = FEB_2026, kr_subValue = ''7'', kr_employeeId = ''a'',
      kr_baseRevenueUsd = 100, kr_actualRevenueUsd = 150, kr_adjustmentUsd = 50, kr_reason = ''why''\<rparr>"

definition sample_cake_request :: cake_request where
  "sample_cake_request =
     \<lparr>kq_affiliateAccountId = JString ''acc'', kq_settlementMonth = JDate (Some FEB_2026), kq_subValue = JString ''7'',
      kq_actualRevenueUsd = JString ''150'', kq_reason = JString ''why''\<rparr>"

lemma sample_confirmation_request: "confirmation_request (sample_adjustment CS_draft) = Inr sample_cake_request"
  by code_simp

lemma sample_resolved_input: "fst (resolveInput sample_rt sample_cake_request (sample_cake_db st)) = Inr sample_resolved_adjustment"
  by (cases st) code_simp+

lemma sample_cake_open: "month_locked m (sample_cake_db st) = False"
  by (simp add: month_locked_def find_settlement_def sample_cake_db_def empty_db_def)

lemma sample_cake_find:
  "find_row (\<lambda>r. ir_id r = ''k'') (income_records (sample_cake_db st)) = Some (sample_adjustment st)"
  by (simp add: sample_cake_db_def sample_base_def sample_adjustment_def)

lemma sample_confirmation:
  "\<exists>r db'. confirmAdjustment sample_rt ''k'' sample_actor (sample_cake_db CS_draft) = (Inr r, db')"
proof -
  have "resolveInput sample_rt sample_cake_request (sample_cake_db CS_draft) = (Inr sample_resolved_adjustment, sample_cake_db CS_draft)"
    using reads_only_result [OF reads_only_resolveInput] sample_resolved_input by metis
  moreover have "getAdjustment ''k'' (sample_cake_db CS_draft) = (Inr (sample_adjustment CS_draft), sample_cake_db CS_draft)"
    using sample_cake_find [of CS_draft]
    by (simp add: getAdjustment_def sample_adjustment_def CAKE_ADJUSTMENT_SOURCE_def)
  moreover have "ir_status (sample_adjustment CS_draft) = CS_draft" "kr_adjustmentUsd sample_resolved_adjustment = 50"
    by (simp_all add: sample_adjustment_def sample_resolved_adjustment_def)
  moreover have "assertSuperAdmin sample_actor (sample_cake_db CS_draft) = (Inr (), sample_cake_db CS_draft)"
    by (simp add: assertSuperAdmin_def sample_actor_def)
  moreover have "list_ex (\<lambda>r'. ir_id r' \<noteq> ''k'' \<and> income_clash r'
      (confirmed_fields sample_rt sample_resolved_adjustment sample_actor (sample_adjustment CS_draft)))
      (income_records (sample_cake_db CS_draft)) = False"
    by (simp add: sample_cake_db_def sample_base_def sample_adjustment_def income_clash_def confirmed_fields_def)
  ultimately show ?thesis
    by (simp add: confirmAdjustment_def op_bind_Inr sample_confirmation_request assertWritable_eq sample_cake_open
        income_set_def table_update_def sample_cake_find)
qed

lemma sample_base_fields: "ir_month sample_base = FEB_2026" "ir_status sample_base = CS_confirmed"
  by (simp_all add: sample_base_def)

lemma sample_earnings_ok: "earnings_ok (sample_cake_db st)"
proof -
  have "is_month_start FEB_2026" by code_simp
  then show ?thesis
    by (cases st) (simp_all add: earnings_ok_def incomes_ok_def mappings_ok_def mapping_row_ok_def sample_cake_db_def
        sample_base_def sample_adjustment_def empty_db_def has_employee_def)
qed

lemma sample_base_rows:
  "cake_base_rows (js_trim ''acc'') FEB_2026 (js_trim ''7'') (sample_cake_db CS_draft) = [sample_base]"
proof -
  have "js_trim ''acc'' = ''acc''" "js_trim ''7'' = ''7''" by code_simp+
  then show ?thesis
    by (simp add: cake_base_rows_def sample_cake_db_def sample_base_def sample_adjustment_def is_cake_base_def
        CAKE_BASE_SOURCE_def CAKE_SUB_FIELD_def)
qed

theorem confirmed_income_has_employee_witness:
  "let db' = snd (confirmAdjustment sample_rt ''k'' sample_actor (sample_cake_db CS_draft))
   in read_incomes FEB_2026 db' \<noteq> []
      \<and> filter (\<lambda>r. \<not> has_employee (in_employeeId r)) (read_incomes FEB_2026 db') = []"
proof -
  obtain r db' where c: "confirmAdjustment sample_rt ''k'' sample_actor (sample_cake_db CS_draft) = (Inr r, db')"
    using sample_confirmation by blast
  have "sample_base \<in> set (income_records db')"
    using confirmAdjustment_Inr [OF c sample_cake_find] sample_base_rows
    by (metis cake_base_rows_def filter_is_subset insert_iff list.set(2) subsetD)
  then have "read_incomes FEB_2026 db' \<noteq> []"
    using sample_base_fields by (auto simp: read_incomes_def filter_empty_conv)
  moreover have "earnings_step\<^sup>*\<^sup>* (sample_cake_db CS_draft) db'"
    using earnings_step.confirm_adjustment [of "sample_cake_db CS_draft" sample_rt "''k''" sample_actor] c by auto
  note confirmed_income_has_employee [OF this sample_earnings_ok]
  ultimately show ?thesis using c by (simp add: Let_def)
qed

theorem confirmation_reaches_target_witness:
  "\<exists>r. fst (confirmAdjustment sample_rt ''k'' sample_actor (sample_cake_db CS_draft)) = Inr r
     \<and> ir_status r = CS_confirmed \<and> 100 + ir_incomeUsd r = 150"
proof -
  obtain r db' where c: "confirmAdjustment sample_rt ''k'' sample_actor (sample_cake_db CS_draft) = (Inr r, db')"
    using sample_confirmation by blast
  let ?base = "cake_base_rows (js_trim ''acc'') (ir_month (sample_adjustment CS_draft)) (js_trim ''7'')"
  have t: "js_trim ''acc'' = ''acc''" "js_trim ''7'' = ''7''" by code_simp+
  have base: "?base (sample_cake_db CS_draft) = [sample_base]"
    by (simp add: t cake_base_rows_def sample_cake_db_def sample_base_def sample_adjustment_def is_cake_base_def
        CAKE_BASE_SOURCE_def CAKE_SUB_FIELD_def)
  obtain md where md: "readCakeAdjustmentMetadata (ir_rawData (sample_adjustment CS_draft)) = Some md"
    and tgt: "cm_targetRevenueUsd md = rt_show_decimal sample_rt 150"
    using read_built_metadata [of sample_rt 100 150 50 "''why''"] by (auto simp: sample_adjustment_def)
  have p: "parseDecimalString sample_rt (JString (cm_targetRevenueUsd md)) ''actualRevenueUsd'' False = Inr 150"
    unfolding tgt by code_simp
  have s: "scaled 6 150" "scaled 6 100"
    by (unfold scaled_def, rule exI [of _ 150000000], simp) (rule exI [of _ 100000000], simp)
  have "ir_status r = CS_confirmed \<and> sum_list (map ir_incomeUsd (?base db')) + ir_incomeUsd r = 150"
    using confirmation_reaches_target [OF sample_rt_round sample_rt_column c sample_cake_find _ _ md p s(1)] base s
    by (simp add: sample_adjustment_def sample_base_def)
  moreover have "?base db' = [sample_base]"
    using confirmAdjustment_Inr [OF c sample_cake_find] base by metis
  ultimately show ?thesis using c by (simp add: sample_base_def)
qed

definition sample_clerk :: actor where
  "sample_clerk = \<lparr>ac_userId = ''u2'', ac_roleCode = ''finance'', ac_permissions = [''income.import'']\<rparr>"

definition sample_income_change :: income_request where
  "sample_income_change =
     \<lparr>nq_settlementMonth = JUndefined, nq_source = JUndefined, nq_incomeUsd = JString ''999'', nq_employeeId = JUndefined,
      nq_affiliateAccountId = JUndefined, nq_subField = JUndefined, nq_subValue = JUndefined,
      nq_externalRecordId = JUndefined, nq_rawData = JUndefined, nq_status = JUndefined\<rparr>"

text \<open>
  The rules of the adjustments can be bypassed. The service of manual income finds records by
  identifier only, so somebody who may enter income but is no super administrator, and whom this
  service refuses, can change the amount of a confirmed adjustment there; the metadata of the
  adjustment keeps the target the amount no longer reaches.
\<close>

theorem manual_income_bypasses_adjustment_rules:
  "(\<exists>msg. fst (disableAdjustment ''k'' sample_clerk (sample_cake_db CS_confirmed)) = Inl (AppError FORBIDDEN msg))
   \<and> (\<exists>r. fst (updateIncome sample_rt ''k'' sample_income_change sample_clerk (sample_cake_db CS_confirmed)) = Inr r
        \<and> ir_source r = CAKE_ADJUSTMENT_SOURCE \<and> ir_status r = CS_confirmed \<and> ir_incomeUsd r = 999
        \<and> ir_rawData r = ir_rawData (sample_adjustment CS_confirmed))"
proof
  show "\<exists>msg. fst (disableAdjustment ''k'' sample_clerk (sample_cake_db CS_confirmed)) = Inl (AppError FORBIDDEN msg)"
    by (simp add: disableAdjustment_def assertSuperAdmin_def sample_clerk_def op_bind_def op_assert_def)
  have p: "parseIncome sample_rt (JString ''999'') = Inr 999" by code_simp
  have c: "rt_column sample_rt 6 999 = 999"
    using column_rounding.col_exact [OF sample_rt_column, of 6 999] by (simp add: scaled_def)
  have v: "validateUpdateIncome sample_rt sample_income_change = Inr
      \<lparr>nu_settlementMonth = None, nu_source = None, nu_incomeUsd = Some 999, nu_employeeId = None,
       nu_affiliateAccountId = None, nu_subField = None, nu_subValue = None, nu_externalRecordId = None,
       nu_rawData = None, nu_status = None\<rparr>"
    by (simp add: validateUpdateIncome_def sample_income_change_def if_given_def is_undefined_def p entry_status_def
        assertOptionalStatus_def)
  have f: "ir_source (sample_adjustment st) = CAKE_ADJUSTMENT_SOURCE" "ir_status (sample_adjustment st) = st"
    "ir_employeeId (sample_adjustment st) = Some ''a''" for st
    by (simp_all add: sample_adjustment_def CAKE_ADJUSTMENT_SOURCE_def)
  have n: "list_ex (\<lambda>r'. ir_id r' \<noteq> ''k'' \<and> income_clash r' (nu_apply sample_rt
      \<lparr>nu_settlementMonth = None, nu_source = None, nu_incomeUsd = Some 999, nu_employeeId = None,
       nu_affiliateAccountId = None, nu_subField = None, nu_subValue = None, nu_externalRecordId = None,
       nu_rawData = None, nu_status = None\<rparr> None (sample_adjustment CS_confirmed)))
      (income_records (sample_cake_db CS_confirmed)) = False"
    by (simp add: sample_cake_db_def sample_base_def sample_adjustment_def income_clash_def nu_apply_def or_keep_def)
  show "\<exists>r. fst (updateIncome sample_rt ''k'' sample_income_change sample_clerk (sample_cake_db CS_confirmed)) = Inr r
        \<and> ir_source r = CAKE_ADJUSTMENT_SOURCE \<and> ir_status r = CS_confirmed \<and> ir_incomeUsd r = 999
        \<and> ir_rawData r = ir_rawData (sample_adjustment CS_confirmed)"
    by (simp add: updateIncome_def getIncome_def table_find_bind sample_cake_find v or_keep_def
        assertConfirmedHasEmployee_def has_employee_def assertWritable_eq op_bind_Inr sample_cake_open guard_if_moved_def
        op_catch_def income_set_def table_update_def n f) (simp add: nu_apply_def or_keep_def c f)
qed

end
