(* ===== verification/Office_Frames.thy ===== *)
theory Office_Frames
  imports Settlement_Lifecycle Monthly_Rates Historical_Profits Manual_Card_Spend Salary_Items Performance_Groups
    Employees Card_Bindings Cake_Adjustments
begin

text \<open>
  What the handlers leave alone: a handler of a table changes no view of the database that
  looks past that table and the audit log. With these facts an invariant of one component
  survives the handlers of the others.
\<close>

locale audit_blind =
  fixes v :: "database \<Rightarrow> 'v"
  assumes past: "looks_past_audit v"
begin

lemma rate_handlers_frame:
  assumes "\<And>rows db. v (put_exchange_rates rows db) = v db"
  shows "op_frame v UNIV (createExchangeRate rt xi actor)" "op_frame v UNIV (updateExchangeRate rt i xi actor)"
    "op_frame v UNIV (disableExchangeRate i actor)"
  using assms past unfolding createExchangeRate_def updateExchangeRate_def disableExchangeRate_def rate_operations
  by (auto intro!: frame_intros split: prod.split)

lemma fee_handlers_frame:
  assumes "\<And>rows db. v (put_fee_rates rows db) = v db"
  shows "op_frame v UNIV (createFeeRate rt fi actor)" "op_frame v UNIV (updateFeeRate rt i fi actor)"
    "op_frame v UNIV (disableFeeRate i actor)"
  using assms past unfolding createFeeRate_def updateFeeRate_def disableFeeRate_def rate_operations
  by (auto intro!: frame_intros split: prod.split option.split)

lemma profit_handlers_frame:
  assumes "\<And>rows db. v (put_profits rows db) = v db"
  shows "op_frame v UNIV (createProfit rt hi actor)" "op_frame v UNIV (updateProfit rt i hi actor)"
    "op_frame v UNIV (disableProfit i actor)"
  using assms past unfolding createProfit_def updateProfit_def disableProfit_def profit_operations
  by (auto intro!: frame_intros split: prod.split)

lemma spend_handlers_frame:
  assumes "\<And>rows db. v (put_spends rows db) = v db"
  shows "op_frame v UNIV (createSpend rt ci actor)" "op_frame v UNIV (updateSpend rt i ci actor)"
    "op_frame v UNIV (confirmSpend i actor)" "op_frame v UNIV (disableSpend i actor)"
  using assms past unfolding createSpend_def updateSpend_def confirmSpend_def disableSpend_def set_spend_status_def spend_operations
  by (auto intro!: frame_intros)

lemma item_handlers_frame:
  assumes "\<And>rows db. v (put_items rows db) = v db"
  shows "op_frame v UNIV (createItem rt ii actor)" "op_frame v UNIV (updateItem rt i ii actor)"
    "op_frame v UNIV (disableItem i actor)"
  using assms past unfolding createItem_def updateItem_def disableItem_def item_operations
  by (auto intro!: frame_intros split: prod.split)

lemma config_handlers_frame:
  assumes "\<And>rows db. v (put_configs rows db) = v db"
  shows "op_frame v UNIV (createConfig rt gi actor)" "op_frame v UNIV (updateConfig i gi actor)"
    "op_frame v UNIV (disableConfig i actor)"
  using assms past unfolding createConfig_def updateConfig_def disableConfig_def config_insert_def config_set_def getConfig_def
  by (auto intro!: frame_intros split: prod.split)

lemma record_duplicate_frame [frame_intros]: "op_frame v UNIV (record_duplicate input message e)"
  using past unfolding record_duplicate_def by (auto intro!: frame_intros)

lemma employee_handlers_frame:
  assumes "\<And>rows db. v (put_employees rows db) = v db"
  shows "op_frame v UNIV (createEmployee rt eq actor)" "op_frame v UNIV (updateEmployee rt i eq actor)"
    "op_frame v UNIV (disableEmployee i actor)"
  using assms past unfolding createEmployee_def updateEmployee_def disableEmployee_def getEmployee_def employee_insert_def
    employee_set_def
  by (auto intro!: frame_intros split: prod.split)

lemma account_handlers_frame:
  assumes "\<And>rows db. v (put_accounts rows db) = v db"
  shows "op_frame v UNIV (createAccount rt aq actor)" "op_frame v UNIV (updateAccount i aq actor)"
    "op_frame v UNIV (disableAccount i actor)"
  using assms past unfolding createAccount_def updateAccount_def disableAccount_def getAccount_def account_insert_def
    account_set_def
  by (auto intro!: frame_intros split: prod.split)

lemma binding_handlers_frame:
  assumes "\<And>rows db. v (put_bindings rows db) = v db"
  shows "op_frame v UNIV (createBinding rt bi actor)" "op_frame v UNIV (updateBinding rt i bi actor)"
    "op_frame v UNIV (disableBinding i actor)"
  using assms past unfolding createBinding_def updateBinding_def disableBinding_def binding_operations
  by (auto intro!: frame_intros split: prod.split)

lemma group_handlers_frame:
  assumes "\<And>gs db. v (db\<lparr>performance_groups := gs\<rparr>) = v db" "\<And>ms db. v (db\<lparr>group_members := ms\<rparr>) = v db"
  shows "op_frame v UNIV (createGroup rt qi actor)" "op_frame v UNIV (updateGroup rt i qi actor)"
    "op_frame v UNIV (disableGroup i actor)"
proof -
  have groups: "op_frame v UNIV (group_insert g)" "op_frame v UNIV (group_set i f)" "op_frame v UNIV (getGroup i)" for g i f
    using assms unfolding group_insert_def group_set_def getGroup_def
    by (auto intro!: frame_intros simp: put_groups_def)
  have members: "op_frame v UNIV (members_createMany ms)" "op_frame v UNIV (members_deleteMany i)"
    "op_frame v UNIV (assertNoDuplicateEmployees k es x)" for ms i k es x
    using assms by (simp_all add: op_frame_def members_createMany_def members_deleteMany_def assertNoDuplicateEmployees_def
        op_assert_def op_bind_def)
  show "op_frame v UNIV (createGroup rt qi actor)" "op_frame v UNIV (updateGroup rt i qi actor)"
    "op_frame v UNIV (disableGroup i actor)"
    using past unfolding createGroup_def updateGroup_def disableGroup_def create_group_tx_def update_group_tx_def
      replace_members_def
    by (auto intro!: frame_intros groups members split: prod.split option.split)
qed

end

end
