(* ===== verification/Locked_Months.thy ===== *)
theory Locked_Months
  imports Office_Frames
begin

text \<open>
  What the handlers of the office keep of a locked month: each of them, with two exceptions that
  \<open>office_step\<close> leaves out, leaves its scope as it is. \<open>Month_Safety\<close> adds the exceptions and the
  other services. The invariant the proof rests on links details to settlements and members to
  groups, and keeps the months of versioned rows and the identifiers of losses in order.
\<close>

section \<open>Invariant\<close>

definition settlement_keys :: "database \<Rightarrow> (string \<times> int) list" where
  "settlement_keys db = map (\<lambda>s. (ms_id s, ms_month s)) (settlements db)"

definition details_linked :: "database \<Rightarrow> bool" where
  "details_linked db \<longleftrightarrow> list_all (\<lambda>d. (md_settlementId d, md_month d) \<in> set (settlement_keys db)) (settlement_details db)"

definition losses_identified :: "database \<Rightarrow> bool" where
  "losses_identified db \<longleftrightarrow> distinct (ids_of (historical_profits db))"

definition settled :: "database \<Rightarrow> bool" where
  "settled db \<longleftrightarrow> settlements_ok db \<and> details_linked db"

definition office_ok :: "database \<Rightarrow> bool" where
  "office_ok db \<longleftrightarrow> settled db \<and> losses_identified db \<and> groups_linked db \<and> mappings_ok db \<and> bindings_ok db"

text \<open>\<open>safe m db h\<close>: on \<open>db\<close> the handler keeps the invariant, and month \<open>m\<close> if it is locked.\<close>

definition safe :: "int \<Rightarrow> database \<Rightarrow> 'a handler \<Rightarrow> bool" where
  "safe m db h \<longleftrightarrow> preserves office_ok db h \<and> freezes_at m db h"

lemma safe_same_rows:
  assumes "office_ok db" "settled (snd (h db))" "month_scope m (snd (h db)) = month_scope m db"
    and "losses_identified (snd (h db))" "group_members (snd (h db)) = group_members db"
    "performance_groups (snd (h db)) = performance_groups db"
    "sub_mappings (snd (h db)) = sub_mappings db" "card_bindings (snd (h db)) = card_bindings db"
  shows "safe m db h"
  using assms
  by (simp add: safe_def preserves_def freezes_at_def office_ok_def groups_linked_def mappings_ok_def bindings_ok_def)

section \<open>The settlement handlers\<close>

lemma keys_of_month:
  assumes "settlements_ok db" "find_settlement k db = Some s" "(ms_id s, j) \<in> set (settlement_keys db)"
  shows "j = k"
proof -
  obtain s' where s': "s' \<in> set (settlements db)" "ms_id s' = ms_id s" "ms_month s' = j"
    using assms(3) by (auto simp: settlement_keys_def)
  moreover have "s \<in> set (settlements db)" "ms_month s = k"
    using assms(2) by (auto simp: find_settlement_def dest: find_row_Some)
  moreover have "inj_on ms_id (set (settlements db))" using assms(1) by (simp add: settlements_ok_def distinct_map)
  ultimately show ?thesis by (metis inj_onD)
qed

lemma settlement_keys_update:
  assumes "settlements db' = update_first p f (settlements db)" and "\<And>s. ms_id (f s) = ms_id s" "\<And>s. ms_month (f s) = ms_month s"
  shows "settlement_keys db' = settlement_keys db"
  using assms by (simp add: settlement_keys_def map_update_first_same)

lemma settled_update:
  assumes "settled db" "settlement_details db' = settlement_details db"
    and "settlements db' = update_first p f (settlements db)" and "\<And>s. ms_id (f s) = ms_id s" "\<And>s. ms_month (f s) = ms_month s"
  shows "settled db'"
  using assms settlements_update [OF _ assms(4,5,3)] settlement_keys_update [OF assms(3-5)]
  by (simp add: settled_def details_linked_def)

lemma generated_keys:
  "settlements db' = generated_settlements rt input db \<Longrightarrow>
   set (settlement_keys db) \<subseteq> set (settlement_keys db')
   \<and> (ms_id (generated_row rt input db), gi_settlementMonth input) \<in> set (settlement_keys db')"
proof (cases "find_settlement (gi_settlementMonth input) db")
  case (Some s)
  assume "settlements db' = generated_settlements rt input db"
  then have "settlement_keys db' = settlement_keys db"
    using Some by (intro settlement_keys_update [where p = "\<lambda>r. ms_month r = gi_settlementMonth input" and
        f = "\<lambda>s. s\<lparr>ms_generatedAt := Some (rt_now rt), ms_generatedBy := Some (ac_userId (gi_actor input))\<rparr>"])
      (simp_all add: generated_settlements_def)
  then show ?thesis
    using Some find_settlement_month [OF Some]
    by (auto simp: generated_row_def settlement_keys_def find_settlement_def dest!: find_row_Some)
qed (auto simp: settlement_keys_def generated_settlements_def generated_row_def)

text \<open>The details of the replaced settlement are those of its month.\<close>

lemma replaced_details_month:
  assumes "settled db" "rt_fresh_id rt 0 \<notin> ms_id ` set (settlements db)"
    and "d \<in> set (settlement_details db)" "md_settlementId d = ms_id (generated_row rt input db)"
  shows "md_month d = gi_settlementMonth input"
proof -
  have link: "(ms_id (generated_row rt input db), md_month d) \<in> set (settlement_keys db)"
    using assms by (auto simp: settled_def details_linked_def list_all_iff)
  show ?thesis
  proof (cases "find_settlement (gi_settlementMonth input) db")
    case None
    then have "ms_id (generated_row rt input db) = rt_fresh_id rt 0" by (simp add: generated_row_def)
    then show ?thesis using link assms(2) by (auto simp: settlement_keys_def)
  next
    case (Some s)
    then have "ms_id (generated_row rt input db) = ms_id s" by (simp add: generated_row_def)
    then show ?thesis using keys_of_month [OF _ Some] link assms(1) by (simp add: settled_def)
  qed
qed

lemma new_details:
  assumes "calculate rnd (buildCalculationInput input rm) = Inr rs"
    and "res_map (toSettlementDetailCreateInput rt i) rs = Inr rows"
  shows "list_all (\<lambda>d. md_settlementId d = i \<and> md_month d = gi_settlementMonth input) rows"
proof -
  have "list_all (\<lambda>r. cr_settlementMonth r = gi_settlementMonth input) rs"
    using calculate_Inr [OF assms(1)] by (simp add: list_all_iff calculate_employee_def buildCalculationInput_def Let_def)
  then show ?thesis
    using assms(2)
    by (induction rs arbitrary: rows) (auto simp: bind_res_Inr_iff toSettlementDetailCreateInput_def split: option.splits)
qed

lemma generated_month_rows:
  "m \<noteq> gi_settlementMonth input \<Longrightarrow>
   filter (\<lambda>s. ms_month s = m) (generated_settlements rt input db) = filter (\<lambda>s. ms_month s = m) (settlements db)"
  by (cases "find_settlement (gi_settlementMonth input) db")
    (auto simp: generated_settlements_def generated_row_def find_settlement_def dest: find_row_Some
      intro!: filter_update_first_le)

lemma safe_generate:
  assumes ok: "office_ok db" and fresh: "rt_fresh_id rt 0 \<notin> ms_id ` set (settlements db)" and l: "month_locked m db"
  shows "safe m db (generateSettlement rt input)"
proof (cases "generateSettlement rt input db")
  case (Pair r db')
  let ?k = "gi_settlementMonth input" and ?i = "ms_id (generated_row rt input db)"
  have st: "settled db" using ok by (simp add: office_ok_def)
  show ?thesis
  proof (cases r)
    case (Inl e)
    then obtain entry where "db' = db\<lparr>audit_logs := audit_logs db @ [entry]\<rparr>"
      using generation_failure_entry Pair by blast
    then show ?thesis
      using ok Pair by (intro safe_same_rows)
        (simp_all add: office_ok_def settled_def settlements_ok_def details_linked_def settlement_keys_def losses_identified_def)
  next
    case (Inr g)
    then have "generate_try rt input db = (Inr g, db')"
      using Pair by (auto simp: generateSettlement_def op_catch_def op_bind_def split: prod.splits sum.splits if_splits)
    then obtain rm rs pf where rs: "calculate (rt_round rt) (buildCalculationInput input rm) = Inr rs"
      and w: "writeSettlement rt input rs pf db = (Inr g, db')"
      using generate_try_Inr by blast
    obtain rows logs where nl: "\<not> month_locked ?k db"
      and rows: "res_map (toSettlementDetailCreateInput rt ?i) rs = Inr rows"
      and db': "db' = db\<lparr>settlements := generated_settlements rt input db,
          settlement_details := filter (\<lambda>d. md_settlementId d \<noteq> ?i) (settlement_details db) @ rows,
          audit_logs := audit_logs db @ logs\<rparr>"
      using writeSettlement_Inr [OF w] by blast
    have mk: "m \<noteq> ?k" using nl l by auto
    note new = new_details [OF rs rows]
    have "settlements db' = generated_settlements rt input db" by (simp add: db')
    note keys = generated_keys [OF this]
    have "details_linked db'"
      using st new keys by (auto simp: db' settled_def details_linked_def list_all_iff)
    moreover have "settlements_ok db'"
      using generate_moves [OF _ fresh, of input] st Pair by (auto simp: settled_def moves_def)
    moreover have "filter (\<lambda>d. md_month d = m) (filter (\<lambda>d. md_settlementId d \<noteq> ?i) (settlement_details db))
        = filter (\<lambda>d. md_month d = m) (settlement_details db)"
      using replaced_details_month [OF st fresh] mk by (auto simp: filter_filter intro!: filter_cong)
    moreover have "filter (\<lambda>d. md_month d = m) rows = []"
      using new mk by (auto simp: list_all_iff filter_empty_conv)
    ultimately show ?thesis
      using ok Pair generated_month_rows [OF mk]
      by (intro safe_same_rows) (simp_all add: db' settled_def office_ok_def losses_identified_def month_scope_def)
  qed
qed

lemma safe_confirm:
  assumes ok: "office_ok db" and l: "month_locked m db"
  shows "safe m db (confirmSettlement rt k actor)"
proof (cases "fst (confirmSettlement rt k actor db)")
  case (Inl e)
  then obtain db' where run: "confirmSettlement rt k actor db = (Inl e, db')"
    by (cases "confirmSettlement rt k actor db") simp
  then have "db' = db" unfolding confirmSettlement_def by (rule op_transaction_Inl)
  then show ?thesis using ok run by (simp add: safe_def preserves_def freezes_at_def)
next
  case (Inr s')
  let ?f = "\<lambda>s. s\<lparr>ms_status := SS_confirmed, ms_confirmedAt := Some (rt_now rt), ms_confirmedBy := Some (ac_userId actor)\<rparr>"
  have st: "settled db" using ok by (simp add: office_ok_def)
  obtain db' where run: "confirmSettlement rt k actor db = (Inr s', db')"
    using Inr by (cases "confirmSettlement rt k actor db") simp
  obtain s where s: "find_settlement k db = Some s" "ms_status s = SS_draft"
    using run by (auto simp: confirmSettlement_def op_transaction_eq_Inr op_bind_eq_Inr assertConfirmable_def
        split: option.splits if_splits)
  have mk: "ms_month s \<noteq> m"
    using l s find_settlement_month [OF s(1)] by (auto simp: month_locked_def)
  have found: "find_row (\<lambda>r. ms_id r = ms_id s) (settlements db) = Some s"
    using update_by_id(1) [OF _ s(1)] st by (simp add: settled_def)
  obtain logs where db': "db' = db\<lparr>settlements := update_first (\<lambda>r. ms_id r = ms_id s) ?f (settlements db), audit_logs := logs\<rparr>"
    using run s found by (auto simp: confirmSettlement_def op_transaction_eq_Inr op_bind_eq_Inr assertConfirmable_def
        settlement_update_def split: if_splits)
  have "settled db'" using settled_update [OF st, of db' "\<lambda>r. ms_id r = ms_id s" ?f] by (simp add: db')
  moreover have "filter (\<lambda>s. ms_month s = m) (settlements db') = filter (\<lambda>s. ms_month s = m) (settlements db)"
    unfolding db' using mk by (simp add: filter_update_first_other [OF found])
  ultimately show ?thesis
    using ok run by (intro safe_same_rows) (simp_all add: db' office_ok_def losses_identified_def month_scope_def)
qed

text \<open>The roll-forward writes losses of the next month only, under new identifiers.\<close>

definition month_losses :: "int \<Rightarrow> historical_negative_profit list \<Rightarrow> historical_negative_profit list" where
  "month_losses m hs = filter (\<lambda>h. hp_month h = m) hs"

lemma roll_forward_loop_scope:
  assumes "distinct (ids_of (historical_profits db))" "inj (rt_fresh_id rt)"
    and "\<And>k. c \<le> k \<Longrightarrow> rt_fresh_id rt k \<notin> set (ids_of (historical_profits db))"
  shows "\<exists>hs. snd (roll_forward_loop rt actor n r ds c u db) = db\<lparr>historical_profits := hs\<rparr> \<and> distinct (ids_of hs)
    \<and> (\<forall>m. n \<noteq> m \<longrightarrow> month_losses m hs = month_losses m (historical_profits db))"
  using assms(1,3)
proof (induction ds arbitrary: c u db)
  case Nil
  then show ?case by (auto intro: exI [of _ "historical_profits db"])
next
  case (Cons d ds)
  let ?hs = "historical_profits db"
  show ?case
  proof (cases "remainingNegativeProfitUsd rt d")
    case (Inl e)
    then show ?thesis using Cons.prems by (auto intro!: exI [of _ ?hs])
  next
    case x: (Inr x)
    consider (skip) "x \<le> 0" | (upd) h where "0 < x" "find_row (rolled_row n (md_employeeId d) r) ?hs = Some h"
      | (new) "0 < x" "find_row (rolled_row n (md_employeeId d) r) ?hs = None"
      by (cases "find_row (rolled_row n (md_employeeId d) r) ?hs") force+
    then show ?thesis
    proof cases
      case skip
      then show ?thesis using x Cons.IH [OF Cons.prems] by simp
    next
      case upd
      let ?f = "\<lambda>h. h\<lparr>hp_amountUsd := rt_column rt 6 x\<rparr>"
      let ?db1 = "db\<lparr>historical_profits := update_first (\<lambda>h'. hp_id h' = hp_id h) ?f ?hs\<rparr>"
      have h: "h \<in> set ?hs" "hp_month h = n" using find_row_Some [OF upd(2)] by (auto simp: rolled_row_def)
      have "inj_on hp_id (set ?hs)" using Cons.prems(1) by (simp add: ids_of_def distinct_map)
      then have "h' = h" if "find_row (\<lambda>h'. hp_id h' = hp_id h) ?hs = Some h'" for h'
        using find_row_Some [OF that] h(1) by (auto dest: inj_onD)
      then have "n \<noteq> m \<longrightarrow> month_losses m (update_first (\<lambda>h'. hp_id h' = hp_id h) ?f ?hs) = month_losses m ?hs" for m
        unfolding month_losses_def using h(2) by (intro impI filter_update_first_le) auto
      then show ?thesis
        using upd x Cons.IH [of ?db1 c "u + 1"] Cons.prems by (simp add: historical_update_amount_def)
    next
      case new
      let ?h = "\<lparr>hp_id = rt_fresh_id rt c, hp_month = n, hp_employeeId = md_employeeId d,
                 hp_amountUsd = rt_column rt 6 x, hp_reason = Some r, hp_status = CS_active, hp_createdBy = ac_userId actor\<rparr>"
      let ?db1 = "db\<lparr>historical_profits := ?hs @ [?h]\<rparr>"
      have "distinct (ids_of (historical_profits ?db1))"
        "\<And>k. c + 1 \<le> k \<Longrightarrow> rt_fresh_id rt k \<notin> set (ids_of (historical_profits ?db1))"
        using Cons.prems assms(2) by (auto simp: ids_of_def dest: injD)
      then show ?thesis
        using new x Cons.IH [of ?db1 "c + 1" u] by (simp add: historical_create_def month_losses_def)
    qed
  qed
qed

lemma roll_forward_scope:
  assumes "fresh_profit_ids rt db"
  shows "\<exists>hs logs. snd (rollForwardNegativeProfits rt s ds actor db) = db\<lparr>historical_profits := hs, audit_logs := logs\<rparr>
    \<and> distinct (ids_of hs)
    \<and> (\<forall>m. nextSettlementMonth (ms_month s) \<noteq> Some m \<longrightarrow> month_losses m hs = month_losses m (historical_profits db))"
proof -
  let ?ok = "\<lambda>db'. \<exists>hs logs. db' = db\<lparr>historical_profits := hs, audit_logs := logs\<rparr>
    \<and> distinct (ids_of hs)
    \<and> (\<forall>m. nextSettlementMonth (ms_month s) \<noteq> Some m \<longrightarrow> month_losses m hs = month_losses m (historical_profits db))"
  have d: "distinct (ids_of (historical_profits db))" using assms(1) by (simp add: fresh_profit_ids_def)
  then have same: "?ok db" by (intro exI [of _ "historical_profits db"] exI [of _ "audit_logs db"]) simp
  show "?ok (snd (rollForwardNegativeProfits rt s ds actor db))"
  proof (cases "nextSettlementMonth (ms_month s)")
    case None
    then show ?thesis using same by (simp add: rollForwardNegativeProfits_def)
  next
    case (Some n)
    have "inj (rt_fresh_id rt)" "\<And>k. 0 \<le> k \<Longrightarrow> rt_fresh_id rt k \<notin> set (ids_of (historical_profits db))"
      using assms Some by (auto simp: fresh_profit_ids_def)
    note loop = roll_forward_loop_scope [OF d this, where actor = actor and r = "roll_forward_reason s" and ds = ds and u = 0]
    obtain res db1 where run: "roll_forward_loop rt actor n (roll_forward_reason s) ds 0 0 db = (res, db1)"
      by (cases "roll_forward_loop rt actor n (roll_forward_reason s) ds 0 0 db")
    obtain hs where hs: "db1 = db\<lparr>historical_profits := hs\<rparr>" "distinct (ids_of hs)"
      "\<And>m. n \<noteq> m \<Longrightarrow> month_losses m hs = month_losses m (historical_profits db)"
      using loop [of 0 n] run by auto
    have "?ok (db1\<lparr>audit_logs := logs\<rparr>)" for logs
      using hs Some by (intro exI [of _ hs] exI [of _ logs]) simp
    then show ?thesis
      using same
      by (cases res) (simp_all add: rollForwardNegativeProfits_def Some op_transaction_def op_bind_def run split: prod.split)
  qed
qed

text \<open>
  The lock of month \<open>k\<close> writes the row of \<open>k\<close> and losses of the month after it; a month that is
  locked already is not \<open>k\<close>.
\<close>

lemma lock_rows:
  assumes ok: "office_ok db" and fresh: "fresh_profit_ids rt db"
  shows "\<exists>ss hs logs. snd (lockSettlement rt k actor reason db) = db\<lparr>settlements := ss, historical_profits := hs, audit_logs := logs\<rparr>
    \<and> distinct (ids_of hs) \<and> settled (db\<lparr>settlements := ss\<rparr>)
    \<and> (\<forall>m. month_locked m db \<longrightarrow> filter (\<lambda>s. ms_month s = m) ss = filter (\<lambda>s. ms_month s = m) (settlements db))
    \<and> (\<forall>m. nextSettlementMonth k \<noteq> Some m \<longrightarrow> month_losses m hs = month_losses m (historical_profits db))"
proof (cases "\<exists>s. find_settlement k db = Some s \<and> ms_status s = SS_confirmed \<and> details_of s db \<noteq> []")
  case True
  then obtain s where s: "find_settlement k db = Some s" "ms_status s = SS_confirmed" "details_of s db \<noteq> []" by blast
  let ?r = "case reason of None \<Rightarrow> [] | Some r \<Rightarrow> r"
  let ?ss = "update_first (\<lambda>r. ms_month r = k) (locked_row rt actor ?r) (settlements db)"
  let ?db1 = "db\<lparr>settlements := ?ss, audit_logs := audit_logs db @ [lock_entry actor k s]\<rparr>"
  have lm: "lockMonth rt k actor ?r db = (Inr (locked_row rt actor ?r s), ?db1)"
    using s by (intro lockMonth_found) simp_all
  have run: "snd (lockSettlement rt k actor reason db) = snd (rollForwardNegativeProfits rt s (details_of s db) actor ?db1)"
    using s by (simp add: lockSettlement_def details_if_found_def assertLockable_def op_bind_Inr lm)
      (simp add: op_bind_def split: prod.split sum.split)
  have k: "ms_month s = k" using s(1) by (rule find_settlement_month)
  have "fresh_profit_ids rt ?db1" using fresh by (simp add: fresh_profit_ids_def)
  then obtain hs logs where "snd (lockSettlement rt k actor reason db) = ?db1\<lparr>historical_profits := hs, audit_logs := logs\<rparr>"
    and "distinct (ids_of hs)"
    and "\<And>m. nextSettlementMonth k \<noteq> Some m \<Longrightarrow> month_losses m hs = month_losses m (historical_profits db)"
    using roll_forward_scope [of rt ?db1 s "details_of s db" actor] k run by auto
  moreover have "filter (\<lambda>s. ms_month s = m) ?ss = filter (\<lambda>s. ms_month s = m) (settlements db)" if "month_locked m db" for m
    using that s by (intro filter_update_first_le) (auto simp: month_locked_def dest: find_row_Some)
  moreover have "settled (db\<lparr>settlements := ?ss\<rparr>)"
    by (rule settled_update [where db = db and p = "\<lambda>r. ms_month r = k" and f = "locked_row rt actor ?r"])
      (use ok in \<open>simp_all add: office_ok_def\<close>)
  ultimately show ?thesis by (intro exI [of _ ?ss] exI [of _ hs] exI [of _ logs]) simp
next
  case False
  then have "snd (lockSettlement rt k actor reason db) = db"
    by (auto simp: lockSettlement_def details_if_found_def assertLockable_def op_bind_Inl split: option.splits)
  then show ?thesis
    using ok
    by (intro exI [of _ "settlements db"] exI [of _ "historical_profits db"] exI [of _ "audit_logs db"])
      (simp add: office_ok_def losses_identified_def)
qed

lemma settled_settlements:
  "settled (db\<lparr>settlements := ss\<rparr>) \<Longrightarrow> settled (db\<lparr>settlements := ss, historical_profits := hs, audit_logs := logs\<rparr>)"
  by (simp add: settled_def settlements_ok_def details_linked_def settlement_keys_def)

lemma lock_keeps_office:
  assumes "office_ok db" "fresh_profit_ids rt db"
  shows "office_ok (snd (lockSettlement rt k actor reason db))"
proof -
  obtain ss hs logs where "snd (lockSettlement rt k actor reason db) = db\<lparr>settlements := ss, historical_profits := hs, audit_logs := logs\<rparr>"
    "distinct (ids_of hs)" "settled (db\<lparr>settlements := ss\<rparr>)"
    using lock_rows [OF assms, of k actor reason] by auto
  then show ?thesis
    using assms(1) settled_settlements
    by (simp add: office_ok_def losses_identified_def groups_linked_def mappings_ok_def bindings_ok_def)
qed

lemma safe_lock:
  assumes "office_ok db" "month_locked m db" "fresh_profit_ids rt db" "nextSettlementMonth k \<noteq> Some m"
  shows "safe m db (lockSettlement rt k actor reason)"
  using lock_keeps_office [OF assms(1,3), of k actor reason] lock_rows [OF assms(1,3), of k actor reason] assms(2,4)
  by (auto simp: safe_def preserves_def freezes_at_def month_scope_def month_losses_def)

section \<open>The other handlers\<close>

text \<open>The rows of the invariant, and what is left of them beside one table.\<close>

definition settled_rows :: "database \<Rightarrow> settlement list \<times> settlement_detail list" where
  "settled_rows db = (settlements db, settlement_details db)"

definition group_rows :: "database \<Rightarrow> performance_group list \<times> group_member list" where
  "group_rows db = (performance_groups db, group_members db)"

definition office_rows where
  "office_rows db = (settled_rows db, ids_of (historical_profits db), group_rows db, sub_mappings db, card_bindings db)"

definition beside_losses where
  "beside_losses db = (settled_rows db, group_rows db, sub_mappings db, card_bindings db)"

definition beside_groups where
  "beside_groups db = (settled_rows db, ids_of (historical_profits db), sub_mappings db, card_bindings db)"

definition beside_mappings where
  "beside_mappings db = (settled_rows db, ids_of (historical_profits db), group_rows db, card_bindings db)"

definition beside_bindings where
  "beside_bindings db = (settled_rows db, ids_of (historical_profits db), group_rows db, sub_mappings db)"

lemmas office_parts = settled_rows_def group_rows_def office_rows_def beside_losses_def beside_groups_def
  beside_mappings_def beside_bindings_def

interpretation office: audit_blind office_rows
  by unfold_locales (simp add: looks_past_audit_def office_parts)

interpretation losses_view: audit_blind beside_losses
  by unfold_locales (simp add: looks_past_audit_def office_parts)

interpretation groups_view: audit_blind beside_groups
  by unfold_locales (simp add: looks_past_audit_def office_parts)

interpretation bindings_view: audit_blind beside_bindings
  by unfold_locales (simp add: looks_past_audit_def office_parts)

lemma blind_rows: "looks_past_audit office_rows" "looks_past_audit beside_mappings"
  by (simp_all add: looks_past_audit_def office_parts)

lemmas row_writes = put_exchange_rates_def put_fee_rates_def put_profits_def put_spends_def put_items_def put_configs_def
  put_employees_def put_accounts_def put_bindings_def put_incomes_def put_mappings_def

text \<open>Every part of the invariant is about its own rows.\<close>

lemma invariant_rows:
  "settled_rows db' = settled_rows db \<Longrightarrow> settled db' = settled db"
  "ids_of (historical_profits db') = ids_of (historical_profits db) \<Longrightarrow> losses_identified db' = losses_identified db"
  "group_rows db' = group_rows db \<Longrightarrow> groups_linked db' = groups_linked db"
  "sub_mappings db' = sub_mappings db \<Longrightarrow> mappings_ok db' = mappings_ok db"
  "card_bindings db' = card_bindings db \<Longrightarrow> bindings_ok db' = bindings_ok db"
  by (simp_all add: office_parts settled_def settlements_ok_def details_linked_def settlement_keys_def losses_identified_def
      groups_linked_def mappings_ok_def bindings_ok_def)

lemma safe_framed:
  assumes "office_ok db" "freezes_at m db h"
  shows "op_frame office_rows UNIV h \<Longrightarrow> safe m db h"
    and "op_frame beside_losses UNIV h \<Longrightarrow> preserves losses_identified db h \<Longrightarrow> safe m db h"
    and "op_frame beside_groups UNIV h \<Longrightarrow> preserves groups_linked db h \<Longrightarrow> safe m db h"
    and "op_frame beside_mappings UNIV h \<Longrightarrow> preserves mappings_ok db h \<Longrightarrow> safe m db h"
    and "op_frame beside_bindings UNIV h \<Longrightarrow> preserves bindings_ok db h \<Longrightarrow> safe m db h"
  using assms invariant_rows [of "snd (h db)" db]
  by (simp_all add: safe_def preserves_def office_ok_def op_frame_def office_rows_def beside_losses_def beside_groups_def
      beside_mappings_def beside_bindings_def)

text \<open>What the handlers of losses and of groups do to their own part.\<close>

lemma audit_stable_parts [simp]: "audit_stable losses_identified" "audit_stable groups_linked"
  by (simp_all add: audit_stable_def losses_identified_def groups_linked_def)

lemma loss_handlers_identified:
  assumes "losses_identified db"
  shows "rt_fresh_id rt 0 \<notin> hp_id ` set (historical_profits db) \<Longrightarrow> preserves losses_identified db (createProfit rt input actor)"
    and "preserves losses_identified db (updateProfit rt i input actor)"
    and "preserves losses_identified db (disableProfit i actor)"
proof -
  have insert: "preserves losses_identified db (profit_insert r)" if "hp_id r \<notin> hp_id ` set (historical_profits db)" for r
    using assms that profit_table.insert_rows [of _ r db]
    by (auto simp: preserves_def losses_identified_def profit_insert_def ids_of_def)
  have set: "preserves losses_identified db (profit_set i f)" if "\<And>r. hp_id (f r) = hp_id r" for f
    using assms that profit_table.update_ident_distinct [of db f _ i]
    by (simp add: preserves_def losses_identified_def profit_set_def ids_of_def)
  show "rt_fresh_id rt 0 \<notin> hp_id ` set (historical_profits db) \<Longrightarrow> preserves losses_identified db (createProfit rt input actor)"
    using assms unfolding createProfit_def by (auto intro!: preserves_steps insert split: prod.split)
  show "preserves losses_identified db (updateProfit rt i input actor)"
    using assms unfolding updateProfit_def getProfit_def by (auto intro!: preserves_steps set simp: hu_apply_def)
  show "preserves losses_identified db (disableProfit i actor)"
    using assms unfolding disableProfit_def getProfit_def by (auto intro!: preserves_steps set)
qed

lemma group_handlers_linked:
  assumes ok: "groups_linked db"
  shows "rt_fresh_id rt 0 \<notin> pg_id ` set (performance_groups db) \<Longrightarrow> preserves groups_linked db (createGroup rt input actor)"
    and "preserves groups_linked db (updateGroup rt i input actor)"
    and "preserves groups_linked db (disableGroup i actor)"
proof -
  show "preserves groups_linked db (createGroup rt input actor)" if "rt_fresh_id rt 0 \<notin> pg_id ` set (performance_groups db)"
    unfolding createGroup_def
    by (intro preserves_lift ok, clarsimp split: prod.split)
      (intro preserves_guard preserves_catch preserves_transaction_ok ok, auto dest: create_group_tx_linked [OF _ ok that])
  show "preserves groups_linked db (updateGroup rt i input actor)"
    unfolding updateGroup_def
    by (intro preserves_getGroup preserves_lift preserves_guard preserves_guard_if_moved preserves_catch
        preserves_transaction_ok ok) (auto dest: update_group_tx_linked [OF _ ok])
  show "preserves groups_linked db (disableGroup i actor)"
  proof -
    have "preserves groups_linked db (group_set i (\<lambda>r. r\<lparr>pg_status := CS_disabled\<rparr>))"
      using ok by (auto simp: preserves_def group_set_def table_update_def split: option.split intro!: put_groups_linked)
    then show ?thesis
      unfolding disableGroup_def using ok
      by (intro preserves_getGroup) (auto simp: group_view_of_def intro!: preserves_guard preserves_audited)
  qed
qed

section \<open>One call of any handler\<close>

text \<open>
  A draft of an adjustment is stored under its external identifier; the record found there is
  one of the draft's month unless the service of manual income moved it.
\<close>

definition draft_unmoved :: "runtime \<Rightarrow> cake_request \<Rightarrow> database \<Rightarrow> bool" where
  "draft_unmoved rt input db \<longleftrightarrow>
     (\<forall>k r. resolveInput rt input db = (Inr k, db) \<and> r \<in> set (income_records db) \<and> ir_source r = CAKE_ADJUSTMENT_SOURCE
        \<and> ir_externalRecordId r = Some (cakeAdjustmentExternalRecordId rt (kr_affiliateAccountId k) (kr_settlementMonth k) (kr_subValue k))
        \<longrightarrow> ir_month r = kr_settlementMonth k)"

text \<open>
  \<open>office_step m\<close>: one call of a handler, with whatever clock and identifiers. Two calls are
  left out, which do write into \<open>m\<close> when it is locked: the lock of the month before \<open>m\<close>, and the
  draft of an adjustment whose record was moved to \<open>m\<close>.
\<close>

inductive office_step :: "int \<Rightarrow> database \<Rightarrow> database \<Rightarrow> bool" for m where
  generate: "rt_fresh_id rt 0 \<notin> ms_id ` set (settlements db) \<Longrightarrow> office_step m db (snd (generateSettlement rt ginput db))"
| confirm: "office_step m db (snd (confirmSettlement rt k actor db))"
| lock: "fresh_profit_ids rt db \<Longrightarrow> nextSettlementMonth k \<noteq> Some m \<Longrightarrow>
     office_step m db (snd (lockSettlement rt k actor reason db))"
| export: "office_step m db (snd (exportSettlementCsv rt k actor db))"
| create_exchange: "office_step m db (snd (createExchangeRate rt xi actor db))"
| update_exchange: "office_step m db (snd (updateExchangeRate rt i xi actor db))"
| disable_exchange: "office_step m db (snd (disableExchangeRate i actor db))"
| create_fee: "office_step m db (snd (createFeeRate rt fi actor db))"
| update_fee: "office_step m db (snd (updateFeeRate rt i fi actor db))"
| disable_fee: "office_step m db (snd (disableFeeRate i actor db))"
| create_loss: "rt_fresh_id rt 0 \<notin> hp_id ` set (historical_profits db) \<Longrightarrow> office_step m db (snd (createProfit rt hi actor db))"
| update_loss: "office_step m db (snd (updateProfit rt i hi actor db))"
| disable_loss: "office_step m db (snd (disableProfit i actor db))"
| create_spend: "office_step m db (snd (createSpend rt ci actor db))"
| update_spend: "office_step m db (snd (updateSpend rt i ci actor db))"
| confirm_spend: "office_step m db (snd (confirmSpend i actor db))"
| disable_spend: "office_step m db (snd (disableSpend i actor db))"
| create_item: "office_step m db (snd (createItem rt ii actor db))"
| update_item: "office_step m db (snd (updateItem rt i ii actor db))"
| disable_item: "office_step m db (snd (disableItem i actor db))"
| create_config: "office_step m db (snd (createConfig rt ki actor db))"
| update_config: "office_step m db (snd (updateConfig i ki actor db))"
| disable_config: "office_step m db (snd (disableConfig i actor db))"
| create_income: "office_step m db (snd (createIncome rt ni actor db))"
| update_income: "office_step m db (snd (updateIncome rt i ni actor db))"
| confirm_income: "office_step m db (snd (confirmIncome i actor db))"
| disable_income: "office_step m db (snd (disableIncome i actor db))"
| save_draft: "draft_unmoved rt ai db \<Longrightarrow> office_step m db (snd (saveDraft rt ai actor db))"
| confirm_adjustment: "office_step m db (snd (confirmAdjustment rt i actor db))"
| disable_adjustment: "office_step m db (snd (disableAdjustment i actor db))"
| create_group: "rt_fresh_id rt 0 \<notin> pg_id ` set (performance_groups db) \<Longrightarrow> office_step m db (snd (createGroup rt qi actor db))"
| update_group: "office_step m db (snd (updateGroup rt i qi actor db))"
| disable_group: "office_step m db (snd (disableGroup i actor db))"
| create_mapping: "rt_fresh_id rt 0 \<notin> sm_id ` set (sub_mappings db) \<Longrightarrow> office_step m db (snd (createMapping rt mi actor db))"
| update_mapping: "office_step m db (snd (updateMapping rt i mi actor db))"
| disable_mapping: "office_step m db (snd (disableMapping i actor db))"
| create_binding: "rt_fresh_id rt 0 \<notin> cb_id ` set (card_bindings db) \<Longrightarrow> office_step m db (snd (createBinding rt bi actor db))"
| update_binding: "office_step m db (snd (updateBinding rt i bi actor db))"
| disable_binding: "office_step m db (snd (disableBinding i actor db))"
| create_employee: "office_step m db (snd (createEmployee rt ei actor db))"
| update_employee: "office_step m db (snd (updateEmployee rt i ei actor db))"
| disable_employee: "office_step m db (snd (disableEmployee i actor db))"
| create_account: "office_step m db (snd (createAccount rt oi actor db))"
| update_account: "office_step m db (snd (updateAccount i oi actor db))"
| disable_account: "office_step m db (snd (disableAccount i actor db))"

text \<open>The tables of entries are none of the rows of the invariant.\<close>

lemma rows_blind [simp]:
  "office_rows (put_exchange_rates r1 db) = office_rows db" "office_rows (put_fee_rates r2 db) = office_rows db"
  "office_rows (put_spends r3 db) = office_rows db" "office_rows (put_items r4 db) = office_rows db"
  "office_rows (put_configs r5 db) = office_rows db" "office_rows (put_incomes r6 db) = office_rows db"
  "office_rows (put_employees r7 db) = office_rows db" "office_rows (put_accounts r8 db) = office_rows db"
  "beside_losses (put_profits r9 db) = beside_losses db" "beside_mappings (put_mappings r10 db) = beside_mappings db"
  "beside_bindings (put_bindings r11 db) = beside_bindings db"
  "beside_groups (db\<lparr>performance_groups := r12\<rparr>) = beside_groups db"
  "beside_groups (db\<lparr>group_members := r13\<rparr>) = beside_groups db"
  by (simp_all add: office_parts row_writes)

lemmas entry_frames =
  office.rate_handlers_frame [simplified] office.fee_handlers_frame [simplified] office.spend_handlers_frame [simplified]
  office.item_handlers_frame [simplified] office.config_handlers_frame [simplified]
  office.employee_handlers_frame [simplified] office.account_handlers_frame [simplified]
  income_handlers_frame [OF blind_rows(1), simplified]

lemmas entry_freezes =
  freezes_createExchangeRate freezes_updateExchangeRate freezes_disableExchangeRate
  freezes_createFeeRate freezes_updateFeeRate freezes_disableFeeRate
  freezes_createSpend freezes_updateSpend freezes_confirmSpend freezes_disableSpend
  freezes_createItem freezes_updateItem freezes_disableItem
  freezes_createConfig freezes_updateConfig freezes_disableConfig
  freezes_createIncome freezes_updateIncome freezes_confirmIncome freezes_disableIncome
  freezes_confirmAdjustment freezes_disableAdjustment freezes_employee_handlers

lemma entry_handlers_safe:
  assumes "office_ok db"
  shows "safe m db (createExchangeRate rt xi actor)" "safe m db (updateExchangeRate rt i xi actor)"
    "safe m db (disableExchangeRate i actor)"
    "safe m db (createFeeRate rt fi actor)" "safe m db (updateFeeRate rt i fi actor)" "safe m db (disableFeeRate i actor)"
    "safe m db (createSpend rt ci actor)" "safe m db (updateSpend rt i ci actor)" "safe m db (confirmSpend i actor)"
    "safe m db (disableSpend i actor)"
    "safe m db (createItem rt ii actor)" "safe m db (updateItem rt i ii actor)" "safe m db (disableItem i actor)"
    "safe m db (createConfig rt ki actor)" "safe m db (updateConfig i ki actor)" "safe m db (disableConfig i actor)"
    "safe m db (createIncome rt ni actor)" "safe m db (updateIncome rt i ni actor)" "safe m db (confirmIncome i actor)"
    "safe m db (disableIncome i actor)" "safe m db (confirmAdjustment rt i actor)" "safe m db (disableAdjustment i actor)"
    "safe m db (createEmployee rt ei actor)" "safe m db (updateEmployee rt i ei actor)" "safe m db (disableEmployee i actor)"
    "safe m db (createAccount rt oi actor)" "safe m db (updateAccount i oi actor)" "safe m db (disableAccount i actor)"
  by (rule safe_framed(1) [OF assms freezes_at_freezes]; rule entry_freezes entry_frames)+

lemma versioned_handlers_safe:
  assumes ok: "office_ok db" and year: "four_digit_year m"
  shows "rt_fresh_id rt 0 \<notin> sm_id ` set (sub_mappings db) \<Longrightarrow> safe m db (createMapping rt mi actor)"
    and "safe m db (updateMapping rt i mi actor)" and "safe m db (disableMapping i actor)"
    and "rt_fresh_id rt 0 \<notin> cb_id ` set (card_bindings db) \<Longrightarrow> safe m db (createBinding rt bi actor)"
    and "safe m db (updateBinding rt i bi actor)" and "safe m db (disableBinding i actor)"
proof -
  have ms: "mappings_ok db" and bs: "bindings_ok db" using ok by (simp_all add: office_ok_def)
  note mf = mapping_handlers_frame [OF blind_rows(2), simplified] and bf = bindings_view.binding_handlers_frame [simplified]
  note mk = safe_framed(4) [OF ok _ _ mapping_handlers_ok(1) [OF ms]] safe_framed(4) [OF ok _ _ mapping_handlers_ok(2) [OF ms]]
      safe_framed(4) [OF ok _ _ mapping_handlers_ok(3) [OF ms]]
    and bk = safe_framed(5) [OF ok _ _ binding_handlers_ok(1) [OF bs]] safe_framed(5) [OF ok _ _ binding_handlers_ok(2) [OF bs]]
      safe_framed(5) [OF ok _ _ binding_handlers_ok(3) [OF bs]]
  show "rt_fresh_id rt 0 \<notin> sm_id ` set (sub_mappings db) \<Longrightarrow> safe m db (createMapping rt mi actor)"
    by (rule mk(1) [OF freezes_at_freezes [OF freezes_createMapping] mf(1)])
  show "safe m db (updateMapping rt i mi actor)"
    by (rule mk(2) [OF freezes_at_updateMapping [OF ms year] mf(2)])
  show "safe m db (disableMapping i actor)"
    by (rule mk(3) [OF freezes_at_freezes [OF freezes_disableMapping] mf(3)])
  show "rt_fresh_id rt 0 \<notin> cb_id ` set (card_bindings db) \<Longrightarrow> safe m db (createBinding rt bi actor)"
    by (rule bk(1) [OF freezes_at_freezes [OF freezes_createBinding] bf(1)])
  show "safe m db (updateBinding rt i bi actor)"
    by (rule bk(2) [OF freezes_at_updateBinding [OF bs year] bf(2)])
  show "safe m db (disableBinding i actor)"
    by (rule bk(3) [OF freezes_at_freezes [OF freezes_disableBinding] bf(3)])
qed

lemma loss_handlers_safe:
  assumes ok: "office_ok db"
  shows "rt_fresh_id rt 0 \<notin> hp_id ` set (historical_profits db) \<Longrightarrow> safe m db (createProfit rt hi actor)"
    and "safe m db (updateProfit rt i hi actor)" and "safe m db (disableProfit i actor)"
proof -
  have l: "losses_identified db" using ok by (simp add: office_ok_def)
  note frame = losses_view.profit_handlers_frame [simplified] and s = safe_framed(2) [OF ok]
  show "rt_fresh_id rt 0 \<notin> hp_id ` set (historical_profits db) \<Longrightarrow> safe m db (createProfit rt hi actor)"
    by (rule s [OF freezes_at_freezes [OF freezes_createProfit] frame(1) loss_handlers_identified(1) [OF l]])
  show "safe m db (updateProfit rt i hi actor)"
    by (rule s [OF freezes_at_freezes [OF freezes_updateProfit] frame(2) loss_handlers_identified(2) [OF l]])
  show "safe m db (disableProfit i actor)"
    by (rule s [OF freezes_at_freezes [OF freezes_disableProfit] frame(3) loss_handlers_identified(3) [OF l]])
qed

lemma group_handlers_safe:
  assumes ok: "office_ok db"
  shows "rt_fresh_id rt 0 \<notin> pg_id ` set (performance_groups db) \<Longrightarrow> safe m db (createGroup rt qi actor)"
    and "safe m db (updateGroup rt i qi actor)" and "safe m db (disableGroup i actor)"
proof -
  have l: "groups_linked db" using ok by (simp add: office_ok_def)
  note frame = groups_view.group_handlers_frame [simplified] and s = safe_framed(3) [OF ok]
  show "rt_fresh_id rt 0 \<notin> pg_id ` set (performance_groups db) \<Longrightarrow> safe m db (createGroup rt qi actor)"
    by (rule s [OF freezes_at_freezes [OF freezes_createGroup] frame(1) group_handlers_linked(1) [OF l]])
  show "safe m db (updateGroup rt i qi actor)"
    by (rule s [OF freezes_at_updateGroup [OF l] frame(2) group_handlers_linked(2) [OF l]])
  show "safe m db (disableGroup i actor)"
    by (rule s [OF freezes_at_freezes [OF freezes_disableGroup] frame(3) group_handlers_linked(3) [OF l]])
qed

lemma safe_draft:
  assumes "office_ok db" "draft_unmoved rt ai db"
  shows "safe m db (saveDraft rt ai actor)"
  by (rule safe_framed(1) [OF assms(1) freezes_at_saveDraft entry_frames(27)])
    (use assms(2) in \<open>auto simp: draft_unmoved_def\<close>)

lemma safe_export: "office_ok db \<Longrightarrow> safe m db (exportSettlementCsv rt k actor)"
  by (rule safe_same_rows)
    (auto simp: exportSettlementCsv_def op_bind_def office_ok_def settled_def settlements_ok_def details_linked_def
      settlement_keys_def losses_identified_def split: option.split)

lemma step_safe:
  assumes "office_step m db db'" "office_ok db" "four_digit_year m" "month_locked m db"
  shows "office_ok db' \<and> month_scope m db' = month_scope m db"
proof -
  note handlers = safe_generate safe_confirm safe_lock safe_export entry_handlers_safe versioned_handlers_safe
    loss_handlers_safe group_handlers_safe safe_draft
  from assms show ?thesis
    by cases (simp_all add: handlers [unfolded safe_def preserves_def freezes_at_def])
qed

section \<open>The lock of the month before\<close>

text \<open>
  A lock whose next month is locked already succeeds, and the losses it keeps are then losses of
  the locked month: the roll-forward does not ask for the lock of the month it writes to.
\<close>

theorem lock_writes_into_locked_next_month:
  assumes "lockSettlement rt k actor reason db = (Inr (locked, rf), db')"
    and "settlements_ok db" "distinct (map detail_key (settlement_details db))" "fresh_profit_ids rt db"
    and "nextSettlementMonth k = Some m" "month_locked m db"
    and "find_settlement k db = Some s" "d \<in> set (details_of s db)" "0 < loss_of rt d"
  shows "month_locked m db' \<and> (\<exists>h \<in> set (mv_historical (month_scope m db')). hp_employeeId h = md_employeeId d
    \<and> rate_active (hp_status h) \<and> hp_amountUsd h = rt_column rt 6 (loss_of rt d))"
proof
  have "month_rank m db = 3" using assms(6) by (simp add: rank_locked)
  then have "find_settlement m db' = find_settlement m db"
    using lock_moves [OF assms(2), of rt k actor reason] assms(1) by (simp add: moves_def)
  then show "month_locked m db'" using assms(6) by (simp add: month_locked_def)
  show "\<exists>h \<in> set (mv_historical (month_scope m db')). hp_employeeId h = md_employeeId d
    \<and> rate_active (hp_status h) \<and> hp_amountUsd h = rt_column rt 6 (loss_of rt d)"
    using lock_carries_losses [OF assms(1,3,4)] assms(5,7-9) by (auto simp: month_scope_def)
qed

section \<open>A concrete office\<close>

text \<open>February is confirmed with a loss of 150, March is locked.\<close>

definition sample_march :: settlement where
  "sample_march = sample_settlement\<lparr>ms_id := ''s2'', ms_month := MAR_2026, ms_status := SS_locked\<rparr>"

definition sample_office_db :: "historical_negative_profit list \<Rightarrow> database" where
  "sample_office_db hs = sample_confirmed_db\<lparr>settlements := [sample_settlement, sample_march], historical_profits := hs\<rparr>"

lemma sample_months: "MAR_2026 \<noteq> FEB_2026" "four_digit_year MAR_2026"
  by (code_simp, code_simp)

lemma sample_office_settlements:
  "find_settlement FEB_2026 (sample_office_db hs) = Some sample_settlement" "month_locked MAR_2026 (sample_office_db hs)"
  "settlements_ok (sample_office_db hs)"
  using sample_months
  by (simp_all add: find_settlement_def month_locked_def settlements_ok_def sample_office_db_def sample_march_def sample_settlement_def)

lemma sample_office_details:
  "details_of sample_settlement (sample_office_db hs) = [sample_detail]"
  "settlement_details (sample_office_db hs) = [sample_detail]"
  by (simp_all add: details_of_def sample_office_db_def sample_confirmed_db_def sample_settlement_def sample_detail_def)

lemma sample_office_ok: "office_ok (sample_office_db [])"
proof -
  have "details_linked (sample_office_db [])"
    by (simp add: details_linked_def sample_office_details settlement_keys_def)
      (simp add: sample_office_db_def sample_settlement_def sample_detail_def)
  then show ?thesis
    using sample_office_settlements(3)
    by (simp add: office_ok_def settled_def)
      (simp add: losses_identified_def groups_linked_def mappings_ok_def bindings_ok_def ids_of_def sample_office_db_def
        sample_confirmed_db_def empty_db_def)
qed

text \<open>The lock of February adds the loss of 150 to the locked March, which had none.\<close>

theorem lock_writes_into_locked_next_month_witness:
  "\<exists>h \<in> set (mv_historical (month_scope MAR_2026 (snd (lockSettlement sample_rt FEB_2026 sample_actor None (sample_office_db []))))).
     hp_employeeId h = md_employeeId sample_detail"
proof -
  have fresh: "fresh_profit_ids sample_rt (sample_office_db [])"
    using sample_fresh_inj by (simp add: fresh_profit_ids_def sample_office_db_def ids_of_def)
  have status: "ms_status sample_settlement = SS_confirmed" by (simp add: sample_settlement_def)
  have "\<exists>locked rf db'. lockSettlement sample_rt FEB_2026 sample_actor None (sample_office_db []) = (Inr (locked, rf), db')"
    by (rule lock_runs [OF sample_office_settlements(1) status _ sample_confirmed_facts(3) _ _ fresh])
      (simp_all add: sample_office_details sample_confirmed_facts)
  then obtain locked rf db' where run:
    "lockSettlement sample_rt FEB_2026 sample_actor None (sample_office_db []) = (Inr (locked, rf), db')" by blast
  have "distinct (map detail_key (settlement_details (sample_office_db [])))" "0 < loss_of sample_rt sample_detail"
    by (simp_all add: sample_office_details loss_of_def sample_confirmed_facts)
  then show ?thesis
    using lock_writes_into_locked_next_month [OF run sample_office_settlements(3) _ fresh sample_confirmed_facts(3)
        sample_office_settlements(2) sample_office_settlements(1), of sample_detail] run
    by (auto simp: sample_office_details)
qed

end
