(* ===== verification/Unmatched_Events.thy ===== *)
theory Unmatched_Events
  imports Month_Table Settlement_Month Audit_Sanitizer "HOL-Library.List_Lexorder" "HOL-Library.Char_ord"
begin

text \<open>
  \<open>sync-unmatched-events.service.ts\<close>: rows of a provider the synchronisation could not attribute
  to an employee. The adapters record them and resolve them when a later run succeeds; people
  ignore or resolve them. Text fields of the adapters' inputs that may be missing are options.
\<close>

section \<open>Parsers\<close>

definition all_source_types :: "sync_source_type list" where
  "all_source_types = [affiliate_income, card_spend]"

fun source_type_name :: "sync_source_type \<Rightarrow> string" where
  "source_type_name affiliate_income = ''affiliate_income''"
| "source_type_name card_spend = ''card_spend''"

definition all_task_types :: "sync_task_type list" where
  "all_task_types = [TT_affiliate_income, airwallex_card, photonpay_card]"

fun task_type_name :: "sync_task_type \<Rightarrow> string" where
  "task_type_name TT_affiliate_income = ''affiliate_income''"
| "task_type_name airwallex_card = ''airwallex_card''"
| "task_type_name photonpay_card = ''photonpay_card''"

fun unmatched_status_name :: "unmatched_status \<Rightarrow> string" where
  "unmatched_status_name UE_open = ''open''"
| "unmatched_status_name UE_ignored = ''ignored''"
| "unmatched_status_name UE_resolved = ''resolved''"

definition REASON_CODES :: "string list" where
  "REASON_CODES =
     [''SUB_ID_MISSING'', ''SUB_ID_NOT_MAPPED'', ''SUB_ID_EMPLOYEE_CONFLICT'', ''CARD_ID_MISSING'', ''CARD_NOT_MAPPED'',
      ''EMPLOYEE_DISABLED'', ''INVALID_CURRENCY'', ''OUTSIDE_SETTLEMENT_WINDOW'', ''DUPLICATE_SKIPPED'', ''UNKNOWN'']"

definition enumValue :: "('e \<Rightarrow> string) \<Rightarrow> 'e list \<Rightarrow> string \<Rightarrow> string \<Rightarrow> 'e outcome" where
  "enumValue name all value field =
     (case find (\<lambda>e. name e = value) all of
        None \<Rightarrow> Inl (AppError VALIDATION_ERROR (field @ '' is invalid.'')) | Some e \<Rightarrow> Inr e)"

text \<open>\<open>value ? parse(value) : undefined\<close>: the empty text counts as missing.\<close>

definition if_text :: "string option \<Rightarrow> (string \<Rightarrow> 'a outcome) \<Rightarrow> 'a option outcome" where
  "if_text value p =
     (case value of None \<Rightarrow> Inr None | Some s \<Rightarrow> if s = [] then Inr None else bind_res (p s) (\<lambda>x. Inr (Some x)))"

definition parseAffiliatePlatform :: "string \<Rightarrow> sync_platform outcome" where
  "parseAffiliatePlatform value =
     (let platform = js_lower (js_trim value)
      in if platform = ''everflow'' then Inr P_everflow
         else if platform = ''cake'' then Inr P_cake
         else Inl (AppError VALIDATION_ERROR ''platform must be everflow or cake.''))"

definition parseProvider :: "string \<Rightarrow> provider outcome" where
  "parseProvider value =
     (case provider_of (js_lower (js_trim value)) of
        None \<Rightarrow> Inl (AppError VALIDATION_ERROR ''provider must be airwallex or photonpay.'') | Some p \<Rightarrow> Inr p)"

text \<open>
  \<open>toUpperCase\<close> on Latin-1, where one letter has a capital of two letters. (Two letters have a
  capital outside Latin-1; they stay as they are, which no comparison here can tell.)
\<close>

definition js_upper_char :: "char \<Rightarrow> string" where
  "js_upper_char c =
     (let n = (of_char c :: nat)
      in if n = 223 then ''SS''
         else if (97 \<le> n \<and> n \<le> 122) \<or> (224 \<le> n \<and> n \<le> 254 \<and> n \<noteq> 247) then [char_of (n - 32)] else [c])"

definition js_upper :: "string \<Rightarrow> string" where
  "js_upper s = concat (map js_upper_char s)"

definition parseReasonCode :: "string \<Rightarrow> string outcome" where
  "parseReasonCode value =
     bind_res (requireNonBlank (JString value) ''reasonCode'') (\<lambda>s.
     if js_upper s \<in> set REASON_CODES then Inr (js_upper s)
     else Inl (AppError VALIDATION_ERROR ''reasonCode is invalid.''))"

definition optional_text :: "string option \<Rightarrow> string \<Rightarrow> string option outcome" where
  "optional_text value field = optionalNonBlank (jstr_or_null value) field"

text \<open>\<open>/^(\d{4})-(\d{2})(?:-(\d{2}))?$/\<close> with a third group of \<open>01\<close>.\<close>

definition match_month_text :: "string \<Rightarrow> (int \<times> int) option" where
  "match_month_text s =
     (if length s = 10 \<and> drop 7 s = ''-01'' then match_year_month (take 7 s) else match_year_month s)"

definition parse_unmatched_month :: "jsval \<Rightarrow> string \<Rightarrow> js_date outcome" where
  "parse_unmatched_month value field =
     (case value of
        JDate None \<Rightarrow> Inl (AppError VALIDATION_ERROR (field @ '' must be a valid date.''))
      | JDate (Some t) \<Rightarrow> Inr (date_UTC (getUTCFullYear t) (getUTCMonth t) 1)
      | JString s \<Rightarrow>
          (if js_trim s = [] then Inl (AppError VALIDATION_ERROR (field @ '' is required.''))
           else case match_month_text (js_trim s) of
                  None \<Rightarrow> Inl (AppError VALIDATION_ERROR (field @ '' must use YYYY-MM or YYYY-MM-01 format.''))
                | Some (year, mm) \<Rightarrow>
                    (if mm - 1 < 0 \<or> mm - 1 > 11
                     then Inl (AppError VALIDATION_ERROR (field @ '' must use YYYY-MM or YYYY-MM-01 format.''))
                     else Inr (date_UTC year (mm - 1) 1)))
      | _ \<Rightarrow> Inl (AppError VALIDATION_ERROR (field @ '' is required.'')))"

definition parse_moment :: "js_date option \<Rightarrow> string \<Rightarrow> int option outcome" where
  "parse_moment value field =
     (case value of None \<Rightarrow> Inr None
      | Some None \<Rightarrow> Inl (AppError VALIDATION_ERROR (field @ '' must be a valid date.''))
      | Some (Some t) \<Rightarrow> Inr (Some t))"

section \<open>The safe part of the raw data\<close>

text \<open>\<open>/apiKey|token|.../i\<close>, and the top-level keys that may be kept.\<close>

definition SECRET_FIELD_PARTS :: "string list" where
  "SECRET_FIELD_PARTS =
     [''apikey'', ''token'', ''secret'', ''clientid'', ''merchantid'', ''authorization'', ''signature'', ''password'',
      ''encryptedpayload'']"

definition is_secret_field :: "string \<Rightarrow> bool" where
  "is_secret_field key = list_ex (js_includes (js_lower key)) SECRET_FIELD_PARTS"

definition RAW_SAFE_KEYS :: "string list" where
  "RAW_SAFE_KEYS =
     [''id'', ''eventId'', ''conversionId'', ''transactionId'', ''status'', ''conversionStatus'', ''sourceStatus'',
      ''settleStatus'', ''transactionType'', ''fundDirection'', ''affiliateAccountId'', ''sub1'', ''sub2'', ''sub3'',
      ''sub4'', ''sub5'', ''subField'', ''subValue'', ''cardId'', ''cardLast4'', ''cardEmail'', ''amount'', ''amountUsd'',
      ''currency'', ''occurredAt'', ''conversionTime'', ''transactionAt'', ''settledAt'', ''error'', ''message'', ''reason'']"

text \<open>
  \<open>undefined\<close> is \<open>None\<close>. A Date is an object without entries of its own. Keys of an object are
  distinct, so assigning them one by one keeps their order.
\<close>

lemma map_filter_cong [fundef_cong]:
  "xs = ys \<Longrightarrow> (\<And>x. x \<in> set ys \<Longrightarrow> f x = g x) \<Longrightarrow> List.map_filter f xs = List.map_filter g ys"
  by (induction ys arbitrary: xs) (auto simp: List.map_filter_simps split: option.split)

function sanitizeJsonValue :: "bool \<Rightarrow> jsval \<Rightarrow> jsval option" where
  "sanitizeJsonValue outer JUndefined = None"
| "sanitizeJsonValue outer JNull = Some JNull"
| "sanitizeJsonValue outer (JBool b) = Some (JBool b)"
| "sanitizeJsonValue outer (JNum n) = Some (JNum n)"
| "sanitizeJsonValue outer (JString s) = Some (JString s)"
| "sanitizeJsonValue outer (JDate d) = Some (JObject [])"
| "sanitizeJsonValue outer (JArray vs) =
     (let items = List.map_filter (sanitizeJsonValue False) vs in if items = [] then None else Some (JArray items))"
| "sanitizeJsonValue outer (JObject kvs) =
     Some (JObject (List.map_filter (\<lambda>kv.
       if is_secret_field (fst kv) then None
       else if outer \<and> fst kv \<notin> set RAW_SAFE_KEYS then None
       else map_option (Pair (fst kv)) (sanitizeJsonValue False (snd kv))) kvs))"
  by pat_completeness auto

lemma value_size_less: "v \<in> set vs \<Longrightarrow> size v < Suc (size_list size vs)"
  by (induction vs) (auto simp: less_Suc_eq)

lemma entry_value_size_less: "kv \<in> set kvs \<Longrightarrow> size (snd kv) < Suc (size_list (size_prod (\<lambda>x. 0) size) kvs)"
  by (induction kvs) (auto simp: less_Suc_eq)

termination sanitizeJsonValue
  by (relation "measure (\<lambda>(_, v). size v)") (auto simp: value_size_less dest: entry_value_size_less)

definition sanitizeRawSafeData :: "jsval \<Rightarrow> jsval option" where
  "sanitizeRawSafeData value =
     (if is_nullish value then None
      else case sanitizeJsonValue True value of
             Some (JObject []) \<Rightarrow> None
           | sanitized \<Rightarrow> sanitized)"

section \<open>Recording\<close>

record unmatched_input =
  un_settlementMonth :: jsval
  un_sourceType :: string
  un_taskType :: string
  un_platform :: "string option"
  un_provider :: "string option"
  un_affiliateAccountId :: "string option"
  un_syncTaskId :: "string option"
  un_thirdPartyEventId :: "string option"
  un_reasonCode :: string
  un_reasonMessage :: "string option"
  un_subField :: "string option"
  un_subValue :: "string option"
  un_cardId :: "string option"
  un_cardLast4 :: "string option"
  un_cardEmail :: "string option"
  un_amountUsd :: "rat option"
  un_currency :: "string option"
  un_occurredAt :: "js_date option"
  un_rawSafeData :: jsval
  un_rawData :: jsval

text \<open>The checks of \<open>validateRecordInput\<close> on the kinds, then the data as an open row without an identifier.\<close>

definition check_kinds :: "unmatched_input \<Rightarrow> (sync_source_type \<times> sync_task_type \<times> provider option \<times> sync_platform option) outcome" where
  "check_kinds input =
     bind_res (enumValue source_type_name all_source_types (un_sourceType input) ''sourceType'') (\<lambda>sourceType.
     bind_res (enumValue task_type_name all_task_types (un_taskType input) ''taskType'') (\<lambda>taskType.
     if sourceType = affiliate_income \<and> taskType \<noteq> TT_affiliate_income
     then Inl (AppError VALIDATION_ERROR ''affiliate_income sourceType requires affiliate_income taskType.'')
     else if sourceType = card_spend \<and> taskType = TT_affiliate_income
     then Inl (AppError VALIDATION_ERROR ''card_spend sourceType requires a card taskType.'')
     else
       bind_res (if_text (un_provider input) parseProvider) (\<lambda>provider.
       if sourceType = card_spend \<and> provider = None
       then Inl (AppError VALIDATION_ERROR ''provider is required for card_spend unmatched events.'')
       else
         bind_res (if_text (un_platform input) parseAffiliatePlatform) (\<lambda>platform.
         if sourceType = affiliate_income \<and> platform = None
         then Inl (AppError VALIDATION_ERROR ''platform is required for affiliate_income unmatched events.'')
         else Inr (sourceType, taskType, provider, platform)))))"

text \<open>A month that overflows the range of dates is rejected by the client.\<close>

definition stored_month :: "js_date \<Rightarrow> int outcome" where
  "stored_month d = (case d of None \<Rightarrow> Inl prisma_validation_error | Some t \<Rightarrow> Inr t)"

definition validateRecordInput :: "runtime \<Rightarrow> unmatched_input \<Rightarrow> unmatched_event outcome" where
  "validateRecordInput rt input =
     bind_res (check_kinds input) (\<lambda>(sourceType, taskType, provider, platform).
     bind_res (parse_unmatched_month (un_settlementMonth input) ''settlementMonth'') (\<lambda>settlementMonth.
     bind_res (optional_text (un_affiliateAccountId input) ''id'') (\<lambda>affiliateAccountId.
     bind_res (optional_text (un_syncTaskId input) ''id'') (\<lambda>syncTaskId.
     bind_res (optional_text (un_thirdPartyEventId input) ''thirdPartyEventId'') (\<lambda>thirdPartyEventId.
     bind_res (parseReasonCode (un_reasonCode input)) (\<lambda>reasonCode.
     bind_res (optional_text (un_reasonMessage input) ''reasonMessage'') (\<lambda>reasonMessage.
     bind_res (optional_text (un_subField input) ''subField'') (\<lambda>subField.
     bind_res (optional_text (un_subValue input) ''subValue'') (\<lambda>subValue.
     bind_res (optional_text (un_cardId input) ''cardId'') (\<lambda>cardId.
     bind_res (optional_text (un_cardLast4 input) ''cardLast4'') (\<lambda>cardLast4.
     bind_res (optional_text (un_cardEmail input) ''cardEmail'') (\<lambda>cardEmail.
     bind_res (optional_text (un_currency input) ''currency'') (\<lambda>currency.
     bind_res (parse_moment (un_occurredAt input) ''occurredAt'') (\<lambda>occurredAt.
     bind_res (stored_month settlementMonth) (\<lambda>m.
     Inr \<lparr>ue_id = rt_fresh_id rt 0, ue_month = m, ue_sourceType = sourceType, ue_taskType = taskType,
          ue_platform = platform, ue_provider = provider, ue_affiliateAccountId = affiliateAccountId,
          ue_syncTaskId = syncTaskId, ue_thirdPartyEventId = thirdPartyEventId, ue_reasonCode = reasonCode,
          ue_reasonMessage = reasonMessage, ue_subField = subField, ue_subValue = subValue, ue_cardId = cardId,
          ue_cardLast4 = cardLast4, ue_cardEmail = cardEmail,
          ue_amountUsd = map_option (rt_column rt 6) (un_amountUsd input), ue_currency = currency,
          ue_occurredAt = occurredAt,
          ue_rawSafeData = sanitizeRawSafeData (if is_nullish (un_rawSafeData input) then un_rawData input else un_rawSafeData input),
          ue_status = UE_open, ue_resolvedEmployeeId = None, ue_resolutionNote = None, ue_resolvedAt = None,
          ue_resolvedBy = None\<rparr>)))))))))))))))"

text \<open>The unique constraint; missing event identifiers never clash.\<close>

definition event_key :: "unmatched_event \<Rightarrow> sync_source_type \<times> sync_task_type \<times> string option" where
  "event_key e = (ue_sourceType e, ue_taskType e, ue_thirdPartyEventId e)"

definition event_clash :: "unmatched_event \<Rightarrow> unmatched_event \<Rightarrow> bool" where
  "event_clash e e' \<longleftrightarrow> event_key e = event_key e' \<and> ue_thirdPartyEventId e \<noteq> None"

definition put_unmatched :: "unmatched_event list \<Rightarrow> database \<Rightarrow> database" where
  "put_unmatched rows db = db\<lparr>unmatched_events := rows\<rparr>"

definition unmatched_insert :: "unmatched_event \<Rightarrow> unmatched_event handler" where
  "unmatched_insert = table_insert unmatched_events put_unmatched event_clash"

definition unmatched_set :: "string \<Rightarrow> (unmatched_event \<Rightarrow> unmatched_event) \<Rightarrow> unmatched_event handler" where
  "unmatched_set = table_update unmatched_events put_unmatched event_clash ue_id"

text \<open>\<open>update({ data })\<close>: fields that are \<open>undefined\<close> in the data keep their value.\<close>

definition given_or :: "'a option \<Rightarrow> 'a option \<Rightarrow> 'a option" where
  "given_or new old = (case new of None \<Rightarrow> old | Some x \<Rightarrow> Some x)"

definition record_over :: "unmatched_event \<Rightarrow> unmatched_event \<Rightarrow> unmatched_event" where
  "record_over data e =
     e\<lparr>ue_month := ue_month data, ue_sourceType := ue_sourceType data, ue_taskType := ue_taskType data,
       ue_platform := given_or (ue_platform data) (ue_platform e),
       ue_provider := given_or (ue_provider data) (ue_provider e),
       ue_affiliateAccountId := given_or (ue_affiliateAccountId data) (ue_affiliateAccountId e),
       ue_syncTaskId := given_or (ue_syncTaskId data) (ue_syncTaskId e),
       ue_thirdPartyEventId := given_or (ue_thirdPartyEventId data) (ue_thirdPartyEventId e),
       ue_reasonCode := ue_reasonCode data,
       ue_reasonMessage := given_or (ue_reasonMessage data) (ue_reasonMessage e),
       ue_subField := given_or (ue_subField data) (ue_subField e),
       ue_subValue := given_or (ue_subValue data) (ue_subValue e),
       ue_cardId := given_or (ue_cardId data) (ue_cardId e),
       ue_cardLast4 := given_or (ue_cardLast4 data) (ue_cardLast4 e),
       ue_cardEmail := given_or (ue_cardEmail data) (ue_cardEmail e),
       ue_amountUsd := given_or (ue_amountUsd data) (ue_amountUsd e),
       ue_currency := given_or (ue_currency data) (ue_currency e),
       ue_occurredAt := given_or (ue_occurredAt data) (ue_occurredAt e),
       ue_rawSafeData := given_or (ue_rawSafeData data) (ue_rawSafeData e), ue_status := UE_open\<rparr>"

definition find_event :: "sync_source_type \<Rightarrow> sync_task_type \<Rightarrow> string \<Rightarrow> database \<Rightarrow> unmatched_event option" where
  "find_event sourceType taskType external db =
     find_row (\<lambda>e. event_key e = (sourceType, taskType, Some external)) (unmatched_events db)"

definition recordUnmatchedEvent :: "runtime \<Rightarrow> unmatched_input \<Rightarrow> unmatched_event handler" where
  "recordUnmatchedEvent rt input =
     op_bind (op_lift (validateRecordInput rt input)) (\<lambda>data.
     case ue_thirdPartyEventId data of
       None \<Rightarrow> unmatched_insert data
     | Some external \<Rightarrow>
         op_bind (op_get (find_event (ue_sourceType data) (ue_taskType data) external)) (\<lambda>existing.
         case existing of
           None \<Rightarrow> unmatched_insert data
         | Some e \<Rightarrow> if ue_status e \<noteq> UE_open then op_return e else unmatched_set (ue_id e) (record_over data)))"

section \<open>Resolving and ignoring\<close>

text \<open>What a successful import reports: income of a sub id or spend of a card.\<close>

datatype import_target =
    Income_import sync_platform string string string
  | Card_import sync_task_type provider string

record import_report =
  mt_settlementMonth :: jsval
  mt_thirdPartyEventId :: string
  mt_employeeId :: string
  mt_resolvedBy :: "string option"
  mt_target :: import_target

definition report_kind :: "import_target \<Rightarrow> sync_source_type \<times> sync_task_type" where
  "report_kind t = (case t of Income_import _ _ _ _ \<Rightarrow> (affiliate_income, TT_affiliate_income)
     | Card_import taskType _ _ \<Rightarrow> (card_spend, taskType))"

definition matchesSuccessfulImport :: "unmatched_event \<Rightarrow> import_report \<Rightarrow> bool outcome" where
  "matchesSuccessfulImport e input =
     bind_res (parse_unmatched_month (mt_settlementMonth input) ''settlementMonth'') (\<lambda>m.
     Inr (if Some (ue_month e) \<noteq> m then False
          else case mt_target input of
            Income_import platform account subField subValue \<Rightarrow>
              ue_platform e = Some platform \<and> ue_provider e = None \<and> ue_affiliateAccountId e = Some account
              \<and> ue_subField e = Some subField \<and> ue_subValue e = Some subValue \<and> ue_cardId e = None
          | Card_import _ provider cardId \<Rightarrow>
              ue_provider e = Some provider \<and> ue_platform e = None \<and> ue_affiliateAccountId e = None
              \<and> ue_cardId e = Some cardId \<and> ue_subField e = None \<and> ue_subValue e = None))"

definition AUTO_RESOLVED :: string where
  "AUTO_RESOLVED = ''Automatically resolved after a successful idempotent re-sync.''"

definition resolveAfterSuccessfulImport :: "runtime \<Rightarrow> import_report \<Rightarrow> bool handler" where
  "resolveAfterSuccessfulImport rt input =
     op_bind (op_get (find_event (fst (report_kind (mt_target input))) (snd (report_kind (mt_target input)))
       (mt_thirdPartyEventId input))) (\<lambda>existing.
     case existing of
       None \<Rightarrow> op_return False
     | Some e \<Rightarrow>
         if ue_status e \<noteq> UE_open then op_return False
         else op_bind (op_lift (matchesSuccessfulImport e input)) (\<lambda>matches.
           if \<not> matches then op_return False
           else op_bind (unmatched_set (ue_id e) (\<lambda>e. e\<lparr>ue_status := UE_resolved,
                  ue_resolvedEmployeeId := Some (mt_employeeId input), ue_resolvedAt := Some (rt_now rt),
                  ue_resolvedBy := mt_resolvedBy input, ue_resolutionNote := Some AUTO_RESOLVED\<rparr>)) (\<lambda>_.
                op_return True)))"

definition getForUpdate :: "string \<Rightarrow> unmatched_event handler" where
  "getForUpdate i = table_find unmatched_events ue_id ''Sync unmatched event'' i"

definition ue_audit :: "actor \<Rightarrow> string \<Rightarrow> string \<Rightarrow> int \<Rightarrow> string list \<Rightarrow> audit_input" where
  "ue_audit actor action i m changed = auditInput actor action ''sync_unmatched_events'' (Some i) (Some m) changed"

definition ignoreEvent :: "runtime \<Rightarrow> string \<Rightarrow> jsval \<Rightarrow> actor \<Rightarrow> unmatched_event handler" where
  "ignoreEvent rt i note actor =
     op_bind (getForUpdate i) (\<lambda>before.
     op_bind (op_lift (optionalNonBlank note ''resolutionNote'')) (\<lambda>resolutionNote.
     op_bind (unmatched_set i (\<lambda>e. e\<lparr>ue_status := UE_ignored, ue_resolvedAt := Some (rt_now rt),
       ue_resolvedBy := Some (ac_userId actor), ue_resolutionNote := resolutionNote\<rparr>)) (\<lambda>after.
     op_bind (audit_success (ue_audit actor ''sync_unmatched_event.ignore'' i (ue_month before)
       [''status'', ''resolvedAt'', ''resolvedBy'', ''resolutionNote''])) (\<lambda>_.
     op_return after))))"

definition resolveEvent :: "runtime \<Rightarrow> string \<Rightarrow> jsval \<Rightarrow> jsval \<Rightarrow> actor \<Rightarrow> unmatched_event handler" where
  "resolveEvent rt i employeeId note actor =
     op_bind (getForUpdate i) (\<lambda>before.
     op_bind (op_lift (requireNonBlank employeeId ''resolvedEmployeeId'')) (\<lambda>resolvedEmployeeId.
     op_bind (table_find employees em_id ''Employee'' resolvedEmployeeId) (\<lambda>_.
     op_bind (op_lift (optionalNonBlank note ''resolutionNote'')) (\<lambda>resolutionNote.
     op_bind (unmatched_set i (\<lambda>e. e\<lparr>ue_status := UE_resolved, ue_resolvedEmployeeId := Some resolvedEmployeeId,
       ue_resolvedAt := Some (rt_now rt), ue_resolvedBy := Some (ac_userId actor), ue_resolutionNote := resolutionNote\<rparr>)) (\<lambda>after.
     op_bind (audit_success (ue_audit actor ''sync_unmatched_event.resolve'' i (ue_month before)
       [''status'', ''resolvedEmployeeId'', ''resolvedAt'', ''resolvedBy'', ''resolutionNote''])) (\<lambda>_.
     op_return after))))))"

section \<open>The list\<close>

record unmatched_query =
  uq_settlementMonth :: jsval
  uq_sourceType :: "string option"
  uq_status :: "string option"
  uq_platform :: "string option"
  uq_provider :: "string option"
  uq_affiliateAccountId :: "string option"
  uq_reasonCode :: "string option"
  uq_page :: jsval
  uq_pageSize :: jsval

record unmatched_page =
  up_items :: "unmatched_event list"
  up_total :: nat
  up_page :: nat
  up_pageSize :: nat
  up_openCount :: nat
  up_ignoredCount :: nat
  up_resolvedCount :: nat
  up_totalAmountUsd :: "rat option"
  up_byReasonCode :: "(string \<times> nat) list"
  up_bySourceType :: "(string \<times> nat) list"

text \<open>\<open>Number(value)\<close> of a query parameter within bounds; the engine's conversion is a parameter.\<close>

definition parse_bounded_int :: "(string \<Rightarrow> rat option) \<Rightarrow> jsval \<Rightarrow> string \<Rightarrow> nat \<Rightarrow> nat \<Rightarrow> nat \<Rightarrow> nat outcome" where
  "parse_bounded_int js_number value field fallback lo hi =
     (if is_absent value then Inr fallback
      else let parsed = (case value of
                 JString s \<Rightarrow>
                   (if js_trim s \<noteq> [] \<and> list_all is_digit (js_trim s)
                    then Some (of_nat (digits_to_nat (js_trim s))) else js_number s)
               | JNum x \<Rightarrow> Some x
               | _ \<Rightarrow> None)
           in case parsed of
                Some x \<Rightarrow>
                  if of_int \<lfloor>x\<rfloor> = x \<and> of_nat lo \<le> x \<and> x \<le> of_nat hi then Inr (nat \<lfloor>x\<rfloor>)
                  else Inl (AppError VALIDATION_ERROR (field @ '' must be an integer between the bounds.''))
              | None \<Rightarrow> Inl (AppError VALIDATION_ERROR (field @ '' must be an integer between the bounds.'')))"

definition matches :: "'a option \<Rightarrow> 'a \<Rightarrow> bool" where
  "matches wanted x = (case wanted of None \<Rightarrow> True | Some y \<Rightarrow> x = y)"

definition all_unmatched_status :: "unmatched_status list" where
  "all_unmatched_status = [UE_open, UE_ignored, UE_resolved]"

text \<open>\<open>groupBy\<close> in the order of the values: each value that occurs with its number of rows.\<close>

definition group_counts :: "('r \<Rightarrow> string) \<Rightarrow> string list \<Rightarrow> 'r list \<Rightarrow> (string \<times> nat) list" where
  "group_counts f values rows =
     filter (\<lambda>(_, n). 0 < n) (map (\<lambda>x. (x, length (filter (\<lambda>r. f r = x) rows))) values)"

definition unmatched_where :: "int \<Rightarrow> unmatched_query \<Rightarrow> (unmatched_event \<Rightarrow> bool) outcome" where
  "unmatched_where m query =
     bind_res (if_text (uq_sourceType query) (\<lambda>s. enumValue source_type_name all_source_types s ''sourceType'')) (\<lambda>sourceType.
     bind_res (if_text (uq_status query) (\<lambda>s. enumValue unmatched_status_name all_unmatched_status s ''status'')) (\<lambda>status.
     bind_res (if_text (uq_platform query) parseAffiliatePlatform) (\<lambda>platform.
     bind_res (if_text (uq_provider query) parseProvider) (\<lambda>provider.
     bind_res (optional_text (uq_affiliateAccountId query) ''affiliateAccountId'') (\<lambda>account.
     bind_res (if_text (uq_reasonCode query) parseReasonCode) (\<lambda>reason.
     Inr (\<lambda>e. ue_month e = m \<and> matches sourceType (ue_sourceType e) \<and> matches status (ue_status e)
       \<and> matches (map_option Some platform) (ue_platform e) \<and> matches (map_option Some provider) (ue_provider e)
       \<and> matches (map_option Some account) (ue_affiliateAccountId e) \<and> matches reason (ue_reasonCode e))))))))"

definition sum_amounts :: "rat option list \<Rightarrow> rat option" where
  "sum_amounts xs = (let ys = List.map_filter id xs in if ys = [] then None else Some (sum_list ys))"

definition status_count :: "unmatched_status \<Rightarrow> unmatched_event list \<Rightarrow> nat" where
  "status_count st rows = length (filter (\<lambda>e. ue_status e = st) rows)"

text \<open>The newest rows first; the summary is over all rows of the filter, not over the page.\<close>

definition listUnmatched :: "(string \<Rightarrow> rat option) \<Rightarrow> unmatched_query \<Rightarrow> unmatched_page handler" where
  "listUnmatched js_number query =
     op_bind (op_lift (parse_unmatched_month (uq_settlementMonth query) ''settlementMonth'')) (\<lambda>settlementMonth.
     op_bind (op_lift (parse_bounded_int js_number (uq_page query) ''page'' 1 1 100000)) (\<lambda>page.
     op_bind (op_lift (parse_bounded_int js_number (uq_pageSize query) ''pageSize'' 50 1 500)) (\<lambda>pageSize.
     op_bind (op_lift (stored_month settlementMonth)) (\<lambda>m.
     op_bind (op_lift (unmatched_where m query)) (\<lambda>ok.
     op_bind (op_get (\<lambda>db. newest_first ok (unmatched_events db))) (\<lambda>rows.
     op_return
       \<lparr>up_items = take pageSize (drop ((page - 1) * pageSize) rows), up_total = length rows, up_page = page,
        up_pageSize = pageSize, up_openCount = status_count UE_open rows, up_ignoredCount = status_count UE_ignored rows,
        up_resolvedCount = status_count UE_resolved rows, up_totalAmountUsd = sum_amounts (map ue_amountUsd rows),
        up_byReasonCode = group_counts ue_reasonCode (sort REASON_CODES) rows,
        up_bySourceType = group_counts (\<lambda>e. source_type_name (ue_sourceType e)) (map source_type_name all_source_types) rows\<rparr>))))))"

section \<open>Invariant\<close>

interpretation unmatched_table: keyed_table unmatched_events put_unmatched ue_id
  by unfold_locales (simp_all add: put_unmatched_def)

definition event_ids :: "unmatched_event list \<Rightarrow> (sync_source_type \<times> sync_task_type \<times> string option) list" where
  "event_ids rows = map event_key (filter (\<lambda>e. ue_thirdPartyEventId e \<noteq> None) rows)"

definition unmatched_ok :: "database \<Rightarrow> bool" where
  "unmatched_ok db \<longleftrightarrow> distinct (map ue_id (unmatched_events db)) \<and> distinct (event_ids (unmatched_events db))"

text \<open>\<open>keeps_decisions db h\<close>: the invariant survives, and so does every row that is not open.\<close>

definition keeps_decisions :: "database \<Rightarrow> 'a handler \<Rightarrow> bool" where
  "keeps_decisions db h \<longleftrightarrow> unmatched_ok (snd (h db))
     \<and> (\<forall>e \<in> set (unmatched_events db). ue_status e \<noteq> UE_open \<longrightarrow> e \<in> set (unmatched_events (snd (h db))))"

lemma keeps_decisions_insert:
  assumes "unmatched_ok db" "ue_id row \<notin> ue_id ` set (unmatched_events db)"
  shows "keeps_decisions db (unmatched_insert row)"
  using assms
  by (auto simp: keeps_decisions_def unmatched_ok_def unmatched_insert_def table_insert_def put_unmatched_def event_ids_def
      event_clash_def list_ex_iff)

lemma distinct_event_ids_update:
  assumes "distinct (map ue_id rows)" "distinct (event_ids rows)" "find_row (\<lambda>e. ue_id e = i) rows = Some r"
    and "\<not> list_ex (\<lambda>e. ue_id e \<noteq> i \<and> event_clash e (f r)) rows" "ue_id (f r) = ue_id r"
  shows "distinct (event_ids (update_first (\<lambda>e. ue_id e = i) f rows))"
  using assms
proof (induction rows)
  case (Cons a rows)
  show ?case
  proof (cases "ue_id a = i")
    case True
    then have other: "\<And>x. x \<in> set rows \<Longrightarrow> ue_id x \<noteq> i" using Cons.prems(1) by (auto simp: image_iff)
    have "distinct (event_ids rows)" using Cons.prems(2) by (simp add: event_ids_def split: if_splits)
    then show ?thesis using Cons.prems(3-5) True other by (auto simp: event_ids_def list_ex_iff event_clash_def)
  next
    case False
    have r: "r \<in> set rows" "ue_id r = i" using Cons.prems(3) False by (auto dest: find_row_Some)
    have IH: "distinct (event_ids (update_first (\<lambda>e. ue_id e = i) f rows))"
      using Cons False by (auto simp: event_ids_def split: if_splits)
    have "event_key a \<notin> set (event_ids (update_first (\<lambda>e. ue_id e = i) f rows))" if "ue_thirdPartyEventId a \<noteq> None"
    proof
      assume "event_key a \<in> set (event_ids (update_first (\<lambda>e. ue_id e = i) f rows))"
      then obtain x where x: "x \<in> set (update_first (\<lambda>e. ue_id e = i) f rows)" "ue_thirdPartyEventId x \<noteq> None"
        "event_key x = event_key a" by (auto simp: event_ids_def)
      then consider "x \<in> set rows" | "x = f r"
        using in_update_firstD [of x] Cons.prems(3) False by fastforce
      then show False
      proof cases
        case 1
        then have "event_key x \<in> set (event_ids rows)" using x(2) by (simp add: event_ids_def)
        moreover have "event_key a \<notin> set (event_ids rows)" using Cons.prems(2) that by (simp add: event_ids_def)
        ultimately show False using x(3) by simp
      next
        case 2
        then show False using Cons.prems(4) False x(2,3) that by (auto simp: list_ex_iff event_clash_def event_key_def)
      qed
    qed
    then show ?thesis using False IH by (auto simp: event_ids_def)
  qed
qed simp

lemma keeps_decisions_set:
  assumes ok: "unmatched_ok db" and e: "e \<in> set (unmatched_events db)" "ue_status e = UE_open"
    and f: "\<And>x. ue_id (f x) = ue_id x"
  shows "keeps_decisions db (unmatched_set (ue_id e) f)"
proof -
  have inj: "inj_on ue_id (set (unmatched_events db))" using ok by (simp add: unmatched_ok_def distinct_map)
  let ?p = "\<lambda>x. ue_id x = ue_id e"
  have kept: "x \<in> set (update_first ?p f (unmatched_events db))"
    if "x \<in> set (unmatched_events db)" "ue_status x \<noteq> UE_open" for x
  proof (rule in_update_first_other [OF that(1)])
    show "ue_id x \<noteq> ue_id e" using that e inj by (metis inj_onD)
  qed
  show ?thesis
    using ok kept distinct_event_ids_update [of "unmatched_events db" "ue_id e" _ f] f
    by (auto simp: keeps_decisions_def unmatched_ok_def unmatched_set_def table_update_def put_unmatched_def
        map_update_first_same split: option.split)
qed

lemma keeps_decisions_lift:
  "unmatched_ok db \<Longrightarrow> (\<And>x. r = Inr x \<Longrightarrow> keeps_decisions db (f x)) \<Longrightarrow> keeps_decisions db (op_bind (op_lift r) f)"
  by (cases r) (simp_all add: keeps_decisions_def)

lemma keeps_decisions_pure [simp]: "keeps_decisions db (op_return x) = unmatched_ok db"
  by (simp add: keeps_decisions_def)

lemma keeps_decisions_then:
  "keeps_decisions db h \<Longrightarrow> keeps_decisions db (op_bind h (\<lambda>x. op_return (g x)))"
  by (cases "h db") (auto simp: keeps_decisions_def op_bind_def split: sum.split)

lemma find_event_Some: "find_event s t x db = Some e \<Longrightarrow> e \<in> set (unmatched_events db)"
  by (auto simp: find_event_def dest: find_row_Some)

lemma validateRecordInput_id: "validateRecordInput rt input = Inr data \<Longrightarrow> ue_id data = rt_fresh_id rt 0"
  by (auto simp: validateRecordInput_def bind_res_Inr_iff)

lemma record_keeps_decisions:
  assumes ok: "unmatched_ok db" and fresh: "rt_fresh_id rt 0 \<notin> ue_id ` set (unmatched_events db)"
  shows "keeps_decisions db (recordUnmatchedEvent rt input)"
  unfolding recordUnmatchedEvent_def
proof (rule keeps_decisions_lift [OF ok])
  fix data assume v: "validateRecordInput rt input = Inr data"
  have new: "keeps_decisions db (unmatched_insert data)"
    using validateRecordInput_id [OF v] fresh by (intro keeps_decisions_insert [OF ok]) simp
  have over: "keeps_decisions db (unmatched_set (ue_id e) (record_over data))"
    if "e \<in> set (unmatched_events db)" "ue_status e = UE_open" for e
    by (rule keeps_decisions_set [OF ok that]) (simp add: record_over_def)
  show "keeps_decisions db (case ue_thirdPartyEventId data of None \<Rightarrow> unmatched_insert data
     | Some external \<Rightarrow>
         op_bind (op_get (find_event (ue_sourceType data) (ue_taskType data) external)) (\<lambda>existing.
         case existing of
           None \<Rightarrow> unmatched_insert data
         | Some e \<Rightarrow> if ue_status e \<noteq> UE_open then op_return e else unmatched_set (ue_id e) (record_over data)))"
    using new over ok by (auto simp: keeps_decisions_def dest: find_event_Some split: option.split)
qed

lemma auto_resolve_keeps_decisions:
  assumes ok: "unmatched_ok db"
  shows "keeps_decisions db (resolveAfterSuccessfulImport rt input)"
proof (cases "find_event (fst (report_kind (mt_target input))) (snd (report_kind (mt_target input)))
    (mt_thirdPartyEventId input) db")
  case None
  then show ?thesis using ok by (simp add: resolveAfterSuccessfulImport_def keeps_decisions_def)
next
  case (Some e)
  let ?f = "\<lambda>e. e\<lparr>ue_status := UE_resolved, ue_resolvedEmployeeId := Some (mt_employeeId input),
    ue_resolvedAt := Some (rt_now rt), ue_resolvedBy := mt_resolvedBy input, ue_resolutionNote := Some AUTO_RESOLVED\<rparr>"
  have set: "keeps_decisions db (op_bind (unmatched_set (ue_id e) ?f) (\<lambda>_. op_return True))" if "ue_status e = UE_open"
    using keeps_decisions_set [OF ok find_event_Some [OF Some] that, of ?f] by (intro keeps_decisions_then) simp
  have "keeps_decisions db (op_bind (op_lift (matchesSuccessfulImport e input)) (\<lambda>matches. if \<not> matches then op_return False
      else op_bind (unmatched_set (ue_id e) ?f) (\<lambda>_. op_return True)))" if "ue_status e = UE_open"
    using ok set [OF that] by (intro keeps_decisions_lift) auto
  then show ?thesis
    using ok Some by (simp add: resolveAfterSuccessfulImport_def keeps_decisions_def)
qed

text \<open>What the synchronisation does to the table, in any order and number.\<close>

inductive import_event_step :: "database \<Rightarrow> database \<Rightarrow> bool" where
  record_event: "rt_fresh_id rt 0 \<notin> ue_id ` set (unmatched_events db) \<Longrightarrow>
     import_event_step db (snd (recordUnmatchedEvent rt input db))"
| auto_resolve: "import_event_step db (snd (resolveAfterSuccessfulImport rt report db))"

section \<open>Properties\<close>

text \<open>
  C28: A decision about an unmatched row is kept. However often the synchronisation sees the row
  again, records it again or imports it successfully, an event that was ignored or resolved stays
  in the table exactly as it was decided.
\<close>

theorem decided_event_is_kept:
  assumes "import_event_step\<^sup>*\<^sup>* db db'" and "unmatched_ok db"
    and "e \<in> set (unmatched_events db)" and "ue_status e \<noteq> UE_open"
  shows "e \<in> set (unmatched_events db')"
proof -
  have "unmatched_ok db' \<and> e \<in> set (unmatched_events db')"
    using assms(1)
  proof (induction rule: rtranclp_induct)
    case (step y z)
    have rec: "keeps_decisions y (recordUnmatchedEvent rt input)"
      if "rt_fresh_id rt 0 \<notin> ue_id ` set (unmatched_events y)" for rt input
      using record_keeps_decisions step.IH that by blast
    have auto: "keeps_decisions y (resolveAfterSuccessfulImport rt report)" for rt report
      using auto_resolve_keeps_decisions step.IH by blast
    from step.hyps(2) show ?case
      by cases (use rec auto step.IH assms(4) in \<open>auto simp: keeps_decisions_def\<close>)
  qed (use assms in simp)
  then show ?thesis by simp
qed

lemma sanitized_value_keys:
  "sanitizeJsonValue outer v = Some w \<Longrightarrow> all_keys (\<lambda>k. \<not> is_secret_field k) w"
proof (induction outer v arbitrary: w rule: sanitizeJsonValue.induct)
  case (7 outer vs)
  then show ?case by (auto simp: Let_def List.map_filter_def split: if_splits)
next
  case (8 outer kvs)
  then show ?case by (fastforce simp: List.map_filter_def split: if_splits)
qed auto

text \<open>
  What is stored of a provider's row names no secret: no key at any depth of the stored data
  looks like a credential, and a top-level object keeps only the listed keys. (Nested objects and
  the objects of a top-level array are not limited to the list.)
\<close>

theorem stored_raw_data_is_safe:
  assumes "sanitizeRawSafeData value = Some stored"
  shows "all_keys (\<lambda>k. \<not> is_secret_field k) stored
    \<and> (\<forall>kvs kept. value = JObject kvs \<longrightarrow> stored = JObject kept \<longrightarrow> fst ` set kept \<subseteq> fst ` set kvs \<inter> set RAW_SAFE_KEYS)"
proof
  have s: "sanitizeJsonValue True value = Some stored"
    using assms by (auto simp: sanitizeRawSafeData_def split: if_splits option.splits jsval.splits list.splits)
  then show "all_keys (\<lambda>k. \<not> is_secret_field k) stored" by (rule sanitized_value_keys)
  show "\<forall>kvs kept. value = JObject kvs \<longrightarrow> stored = JObject kept \<longrightarrow> fst ` set kept \<subseteq> fst ` set kvs \<inter> set RAW_SAFE_KEYS"
    using s by (force simp: List.map_filter_def split: if_splits)
qed

section \<open>Witnesses\<close>

definition sample_event_input :: unmatched_input where
  "sample_event_input =
     \<lparr>un_settlementMonth = JDate (Some FEB_2026), un_sourceType = ''affiliate_income'', un_taskType = ''affiliate_income'',
      un_platform = Some ''cake'', un_provider = None, un_affiliateAccountId = Some ''acc'', un_syncTaskId = Some ''t1'',
      un_thirdPartyEventId = Some ''x1'', un_reasonCode = ''SUB_ID_NOT_MAPPED'', un_reasonMessage = None,
      un_subField = Some ''sub1'', un_subValue = Some ''7'', un_cardId = None, un_cardLast4 = None, un_cardEmail = None,
      un_amountUsd = Some 10, un_currency = Some ''USD'', un_occurredAt = None,
      un_rawSafeData = JObject [(''subValue'', JString ''7''), (''apiKey'', JString ''k''), (''other'', JNull)],
      un_rawData = JUndefined\<rparr>"

definition sample_event :: unmatched_event where
  "sample_event =
     \<lparr>ue_id = ''u1'', ue_month = FEB_2026, ue_sourceType = affiliate_income, ue_taskType = TT_affiliate_income,
      ue_platform = Some P_cake, ue_provider = None, ue_affiliateAccountId = Some ''acc'', ue_syncTaskId = None,
      ue_thirdPartyEventId = Some ''x1'', ue_reasonCode = ''SUB_ID_NOT_MAPPED'', ue_reasonMessage = None,
      ue_subField = Some ''sub1'', ue_subValue = Some ''7'', ue_cardId = None, ue_cardLast4 = None, ue_cardEmail = None,
      ue_amountUsd = Some 10, ue_currency = Some ''USD'', ue_occurredAt = None, ue_rawSafeData = None,
      ue_status = UE_ignored, ue_resolvedEmployeeId = None, ue_resolutionNote = Some ''test row'', ue_resolvedAt = None,
      ue_resolvedBy = Some ''admin''\<rparr>"

theorem decided_event_is_kept_witness:
  "sample_event \<in> set (unmatched_events
     (snd (recordUnmatchedEvent sample_rt sample_event_input (empty_db\<lparr>unmatched_events := [sample_event]\<rparr>))))"
proof (rule decided_event_is_kept)
  let ?db = "empty_db\<lparr>unmatched_events := [sample_event]\<rparr>"
  have "rt_fresh_id sample_rt 0 \<notin> ue_id ` set (unmatched_events ?db)"
    by (simp add: sample_rt_def sample_event_def)
  then show "import_event_step\<^sup>*\<^sup>* ?db (snd (recordUnmatchedEvent sample_rt sample_event_input ?db))"
    by (intro r_into_rtranclp import_event_step.record_event)
  show "unmatched_ok ?db" by (simp add: unmatched_ok_def event_ids_def)
qed (simp_all add: sample_event_def)

theorem stored_raw_data_is_safe_witness:
  "sanitizeRawSafeData (un_rawSafeData sample_event_input) = Some (JObject [(''subValue'', JString ''7'')])
   \<and> \<not> is_secret_field ''subValue''"
proof
  show s: "sanitizeRawSafeData (un_rawSafeData sample_event_input) = Some (JObject [(''subValue'', JString ''7'')])"
    by code_simp
  show "\<not> is_secret_field ''subValue''" using stored_raw_data_is_safe [OF s] by simp
qed

end
