(* ===== verification/Photonpay_Windows.thy ===== *)
theory Photonpay_Windows
  imports Month_Table Settlement_Month
begin

text \<open>
  The time windows of the PhotonPay card synchronisation
  (\<open>sync-tasks/photonpay/photonpay-card-sync.adapter.ts\<close>): the settlement month in GMT+8, the
  checks on the two special windows an administrator may ask for, and the division of a window
  into queries of at most seven days.
\<close>

section \<open>Definitions\<close>

definition DEFAULT_SETTLEMENT_DELAY_DAYS :: int where
  "DEFAULT_SETTLEMENT_DELAY_DAYS = 10"

definition MAX_PROVIDER_QUERY_WINDOW_DAYS :: int where
  "MAX_PROVIDER_QUERY_WINDOW_DAYS = 7"

definition DAY_MS :: int where
  "DAY_MS = 24 * 60 * 60 * 1000"

text \<open>\<open>new Date('2026-06-30T16:00:00.000Z')\<close>\<close>

definition HISTORICAL_BACKFILL_START :: int where
  "HISTORICAL_BACKFILL_START = 1782835200000"

text \<open>\<open>new Date(Date.UTC(year, month, date, hours))\<close>\<close>

definition date_UTC_hours :: "int \<Rightarrow> int \<Rightarrow> int \<Rightarrow> int \<Rightarrow> js_date" where
  "date_UTC_hours y m dt h =
     (let yr = (if 0 \<le> y \<and> y \<le> 99 then 1900 + y else y)
      in time_clip (make_day yr m dt * ms_per_day + h * 3600000))"

text \<open>\<open>a < b\<close> on dates: false when one is invalid.\<close>

definition date_less :: "js_date \<Rightarrow> js_date \<Rightarrow> bool" where
  "date_less a b = (case (a, b) of (Some x, Some y) \<Rightarrow> x < y | _ \<Rightarrow> False)"

record settlement_windows =
  sw_settlementStart :: js_date
  sw_settlementEnd :: js_date
  sw_requestFrom :: js_date
  sw_requestTo :: js_date
  sw_settlementDelayDays :: int

definition getPhotonPayRequestAndSettlementWindows :: "int \<Rightarrow> int \<Rightarrow> settlement_windows" where
  "getPhotonPayRequestAndSettlementWindows settlementMonth settlementDelayDays =
     (let start = date_UTC_hours (getUTCFullYear settlementMonth) (getUTCMonth settlementMonth) 1 (- 8);
          end = date_UTC_hours (getUTCFullYear settlementMonth) (getUTCMonth settlementMonth + 1) 1 (- 8)
      in \<lparr>sw_settlementStart = start, sw_settlementEnd = end, sw_requestFrom = start,
          sw_requestTo = (case end of None \<Rightarrow> None | Some t \<Rightarrow> time_clip (t + settlementDelayDays * 24 * 60 * 60 * 1000)),
          sw_settlementDelayDays = settlementDelayDays\<rparr>)"

definition getPhotonPayGmt8SettlementMonthWindow :: "int \<Rightarrow> settlement_windows" where
  "getPhotonPayGmt8SettlementMonthWindow settlementMonth =
     getPhotonPayRequestAndSettlementWindows settlementMonth DEFAULT_SETTLEMENT_DELAY_DAYS"

definition isShanghaiMidnight :: "int \<Rightarrow> bool" where
  "isShanghaiMidnight t \<longleftrightarrow> (t + 8 * 60 * 60 * 1000) mod DAY_MS = 0"

definition shanghaiDayStartUtc :: "int \<Rightarrow> js_date" where
  "shanghaiDayStartUtc t =
     (case time_clip (t + 8 * 60 * 60 * 1000) of
        None \<Rightarrow> None
      | Some shifted \<Rightarrow>
          date_UTC_hours (getUTCFullYear shifted) (getUTCMonth shifted) (getUTCDate shifted) (- 8))"

text \<open>\<open>asRecord\<close>: the entries of an object; a Date has none of its own.\<close>

definition asRecord :: "jsval \<Rightarrow> (string \<times> jsval) list option" where
  "asRecord v = (case v of JObject kvs \<Rightarrow> Some kvs | JDate _ \<Rightarrow> Some [] | _ \<Rightarrow> None)"

record query_window =
  qw_from :: int
  qw_to :: int

record backfill_window = query_window +
  bw_durationDays :: int
  bw_previewOnly :: bool

text \<open>\<open>new Date(from)\<close>, \<open>new Date(to)\<close>, valid and increasing, at midnights of Shanghai.\<close>

definition parse_interval :: "runtime \<Rightarrow> string \<Rightarrow> string \<Rightarrow> string \<Rightarrow> (int \<times> int) outcome" where
  "parse_interval rt name from_text to_text =
     (case (js_parse_date rt from_text, js_parse_date rt to_text) of
        (Some from, Some to) \<Rightarrow>
          (if from \<ge> to then Inl (AppError VALIDATION_ERROR (name @ '' must be a valid increasing interval.''))
           else if \<not> isShanghaiMidnight from \<or> \<not> isShanghaiMidnight to
           then Inl (AppError VALIDATION_ERROR (name @ '' boundaries must be Asia/Shanghai natural-day midnights.''))
           else Inr (from, to))
      | _ \<Rightarrow> Inl (AppError VALIDATION_ERROR (name @ '' must be a valid increasing interval.'')))"

text \<open>The window must stay inside the GMT+8 settlement month.\<close>

definition check_in_month :: "string \<Rightarrow> int \<Rightarrow> int \<Rightarrow> int \<Rightarrow> unit outcome" where
  "check_in_month name settlementMonth from to =
     (let w = getPhotonPayRequestAndSettlementWindows settlementMonth 0
      in if date_less (Some from) (sw_settlementStart w) \<or> date_less (sw_settlementEnd w) (Some to)
         then Inl (AppError VALIDATION_ERROR (name @ '' must stay inside the selected GMT+8 settlement month.''))
         else Inr ())"

definition parsePhotonPayHistoricalBackfillWindow :: "runtime \<Rightarrow> jsval \<Rightarrow> int \<Rightarrow> backfill_window outcome" where
  "parsePhotonPayHistoricalBackfillWindow rt input settlementMonth =
     (case asRecord input of
        None \<Rightarrow> Inl (AppError VALIDATION_ERROR
          ''historicalBackfill.from, historicalBackfill.to and historicalBackfill.previewOnly are required.'')
      | Some kvs \<Rightarrow>
          (case (js_get kvs ''from'', js_get kvs ''to'', js_get kvs ''previewOnly'') of
             (JString from_text, JString to_text, JBool previewOnly) \<Rightarrow>
               (let unexpected = filter (\<lambda>k. k \<notin> set [''from'', ''to'', ''previewOnly'']) (map fst kvs)
                in if unexpected \<noteq> []
                   then Inl (AppError VALIDATION_ERROR
                          (''Unexpected historicalBackfill fields: '' @ js_join '', '' unexpected @ ''.''))
                   else
                     bind_res (parse_interval rt ''historicalBackfill'' from_text to_text) (\<lambda>(from, to).
                     if (to - from) mod DAY_MS \<noteq> 0 \<or> (to - from) div DAY_MS < 1 \<or> (to - from) div DAY_MS > 7
                     then Inl (AppError VALIDATION_ERROR ''historicalBackfill must contain between 1 and 7 complete natural days.'')
                     else if from < HISTORICAL_BACKFILL_START
                     then Inl (AppError VALIDATION_ERROR
                            ''historicalBackfill cannot query transactions before 2026-07-01 Asia/Shanghai.'')
                     else if date_less (shanghaiDayStartUtc (rt_now rt)) (Some to)
                     then Inl (AppError VALIDATION_ERROR
                            ''historicalBackfill cannot include the current incomplete Asia/Shanghai day.'')
                     else bind_res (check_in_month ''historicalBackfill'' settlementMonth from to) (\<lambda>_.
                       Inr \<lparr>qw_from = from, qw_to = to, bw_durationDays = (to - from) div DAY_MS,
                            bw_previewOnly = previewOnly\<rparr>)))
           | _ \<Rightarrow> Inl (AppError VALIDATION_ERROR
               ''historicalBackfill.from, historicalBackfill.to and historicalBackfill.previewOnly are required.'')))"

text \<open>\<open>to.getTime() !== currentDayStart.getTime()\<close> also holds when the clock is invalid.\<close>

definition parsePhotonPayVerificationWindow :: "runtime \<Rightarrow> jsval \<Rightarrow> int \<Rightarrow> bool \<Rightarrow> query_window outcome" where
  "parsePhotonPayVerificationWindow rt input settlementMonth requirePreviousCompleteDays =
     (case asRecord input of
        None \<Rightarrow> Inl (AppError VALIDATION_ERROR ''verificationWindow.from and verificationWindow.to are required ISO timestamps.'')
      | Some kvs \<Rightarrow>
          (case (js_get kvs ''from'', js_get kvs ''to'') of
             (JString from_text, JString to_text) \<Rightarrow>
               bind_res (parse_interval rt ''verificationWindow'' from_text to_text) (\<lambda>(from, to).
               if to - from \<noteq> DAY_MS \<and> to - from \<noteq> 7 * DAY_MS
               then Inl (AppError VALIDATION_ERROR ''verificationWindow must contain exactly 1 or 7 complete natural days.'')
               else bind_res (check_in_month ''verificationWindow'' settlementMonth from to) (\<lambda>_.
                 if requirePreviousCompleteDays
                    \<and> (Some to \<noteq> shanghaiDayStartUtc (rt_now rt) \<or> from \<noteq> to - ((to - from) div DAY_MS) * DAY_MS)
                 then Inl (AppError VALIDATION_ERROR
                        ''verificationWindow must end at today 00:00 Asia/Shanghai and cover the previous 1 or 7 complete days.'')
                 else Inr \<lparr>qw_from = from, qw_to = to\<rparr>))
           | _ \<Rightarrow> Inl (AppError VALIDATION_ERROR
               ''verificationWindow.from and verificationWindow.to are required ISO timestamps.'')))"

function splitPhotonPayQueryWindow :: "int \<Rightarrow> int \<Rightarrow> query_window list" where
  "splitPhotonPayQueryWindow cursor to =
     (if cursor < to
      then let end = min (cursor + MAX_PROVIDER_QUERY_WINDOW_DAYS * DAY_MS) to
           in \<lparr>qw_from = cursor, qw_to = end\<rparr> # splitPhotonPayQueryWindow end to
      else [])"
  by pat_completeness auto

termination splitPhotonPayQueryWindow
  by (relation "measure (\<lambda>(cursor, to). nat (to - cursor))")
    (auto simp: MAX_PROVIDER_QUERY_WINDOW_DAYS_def DAY_MS_def)

declare splitPhotonPayQueryWindow.simps [simp del]

section \<open>Lemmas\<close>

lemma next_month_days: "0 \<le> k \<Longrightarrow> k < 12 \<Longrightarrow> make_day y (k + 1) 1 = make_day y k 1 + (days_before_month y (k + 1) - days_before_month y k)"
  by (cases "k = 11") (simp_all add: make_day_def day_from_year_Suc days_before_month_12 days_before_month_def leap_adj_def days_in_year_def)

text \<open>A day between the first days of a month and the next has the year and month of the former.\<close>

lemma month_of_day_between:
  assumes k: "0 \<le> k" "k < 12" and d: "make_day y k 1 \<le> d" "d < make_day y (k + 1) 1"
  shows "year_from_day d = y" "month_from_day d = k"
proof -
  let ?dt = "d - make_day y k 1 + 1"
  have "make_day y k ?dt = d" using make_day_in_year [OF k] by simp
  moreover have "1 \<le> ?dt" "?dt \<le> days_before_month y (k + 1) - days_before_month y k"
    using d next_month_days [OF k, of y] by simp_all
  ultimately show "year_from_day d = y" "month_from_day d = k" using fields_of_make_day [OF k, of ?dt y] by simp_all
qed

lemma month_of_moment_between:
  assumes k: "0 \<le> k" "k < 12" and t: "make_day y k 1 * ms_per_day \<le> t" "t < make_day y (k + 1) 1 * ms_per_day"
  shows "getUTCFullYear t = y" "getUTCMonth t = k"
proof -
  have "make_day y k 1 \<le> utc_day t" "utc_day t < make_day y (k + 1) 1"
    using t div_bounds [of ms_per_day t] unfolding utc_day_def ms_per_day_def by linarith+
  then show "getUTCFullYear t = y" "getUTCMonth t = k"
    using month_of_day_between [OF k] by (simp_all add: getUTCFullYear_def getUTCMonth_def)
qed

text \<open>Months of four-digit years are far inside the range of dates, with their windows.\<close>

lemma month_day_bounds:
  assumes "0 \<le> y" "y \<le> 9999" "0 \<le> k" "k < 12"
  shows "\<bar>make_day y k 1\<bar> \<le> 3000000" "\<bar>make_day y (k + 1) 1\<bar> \<le> 3000031"
proof -
  have "day_from_year 0 \<le> day_from_year y" "day_from_year y \<le> day_from_year 9999"
    using assms by (auto intro!: day_from_year_mono)
  then have y: "- 719528 \<le> day_from_year y" "day_from_year y \<le> 2932532" by (simp_all add: day_from_year_def)
  have d: "0 \<le> days_before_month y k" "days_before_month y k \<le> 366"
    using days_before_month_bounds [OF assms(3,4), of y] days_in_year_bounds [of y] by linarith+
  have next_month: "make_day y k 1 \<le> make_day y (k + 1) 1" "make_day y (k + 1) 1 \<le> make_day y k 1 + 31"
    using next_month_days [OF assms(3,4), of y] days_before_month_bounds(2) [OF assms(3,4), of y]
      month_length_le_31 [OF assms(3,4), of y] by linarith+
  show "\<bar>make_day y k 1\<bar> \<le> 3000000" using y d make_day_in_year [OF assms(3,4), of y 1] by linarith
  then show "\<bar>make_day y (k + 1) 1\<bar> \<le> 3000031" using next_month by linarith
qed

lemma settlement_window_bounds:
  assumes m: "is_month_start m" "100 \<le> getUTCFullYear m" "getUTCFullYear m \<le> 9999"
  shows "sw_settlementStart (getPhotonPayRequestAndSettlementWindows m d) = Some (m - GMT_PLUS_8_OFFSET_MS)"
    and "sw_settlementEnd (getPhotonPayRequestAndSettlementWindows m d)
           = Some (make_day (getUTCFullYear m) (getUTCMonth m + 1) 1 * ms_per_day - GMT_PLUS_8_OFFSET_MS)"
proof -
  have mk: "m = make_day (getUTCFullYear m) (getUTCMonth m) 1 * ms_per_day" using m(1) is_month_start_iff by blast
  note b = month_day_bounds [OF _ m(3) getUTCMonth_range, of m]
  show "sw_settlementStart (getPhotonPayRequestAndSettlementWindows m d) = Some (m - GMT_PLUS_8_OFFSET_MS)"
    using b(1) m(2) mk
    by (simp add: getPhotonPayRequestAndSettlementWindows_def Let_def date_UTC_hours_def time_clip_def
        ms_per_day_def GMT_PLUS_8_OFFSET_MS_def)
  show "sw_settlementEnd (getPhotonPayRequestAndSettlementWindows m d)
      = Some (make_day (getUTCFullYear m) (getUTCMonth m + 1) 1 * ms_per_day - GMT_PLUS_8_OFFSET_MS)"
    using b(2) m(2)
    by (simp add: getPhotonPayRequestAndSettlementWindows_def Let_def date_UTC_hours_def time_clip_def
        ms_per_day_def GMT_PLUS_8_OFFSET_MS_def)
qed

text \<open>A moment of the GMT+8 month of \<open>m\<close> is attributed to \<open>m\<close>.\<close>

lemma attributed_month:
  assumes m: "is_month_start m" "100 \<le> getUTCFullYear m" "getUTCFullYear m \<le> 9999"
    and t: "m - GMT_PLUS_8_OFFSET_MS \<le> t"
      "t < make_day (getUTCFullYear m) (getUTCMonth m + 1) 1 * ms_per_day - GMT_PLUS_8_OFFSET_MS"
  shows "getSettlementMonthFromTransactionAt (Some t) = Inr (Some m)"
proof -
  let ?y = "getUTCFullYear m" and ?k = "getUTCMonth m" and ?g = "t + GMT_PLUS_8_OFFSET_MS"
  have mk: "m = make_day ?y ?k 1 * ms_per_day" using m(1) is_month_start_iff by blast
  have g: "make_day ?y ?k 1 * ms_per_day \<le> ?g" "?g < make_day ?y (?k + 1) 1 * ms_per_day"
    using t mk by linarith+
  have "\<bar>make_day ?y ?k 1\<bar> \<le> 3000000" "\<bar>make_day ?y (?k + 1) 1\<bar> \<le> 3000031"
    using month_day_bounds [OF _ m(3) getUTCMonth_range, of m] m(2) by linarith+
  then have "time_clip ?g = Some ?g" "time_clip m = Some m"
    using g mk unfolding time_clip_def ms_per_day_def by (auto split: if_splits)
  then show ?thesis
    using month_of_moment_between [OF getUTCMonth_range g] m(2) mk
    by (simp add: getSettlementMonthFromTransactionAt_def month_start_gmt8_def date_UTC_def Let_def)
qed

lemma checked_window_in_month:
  assumes "check_in_month name m a b = Inr ()" "is_month_start m" "100 \<le> getUTCFullYear m" "getUTCFullYear m \<le> 9999"
    and "a \<le> t" "t < b"
  shows "getSettlementMonthFromTransactionAt (Some t) = Inr (Some m)"
  using assms(1) settlement_window_bounds [OF assms(2-4), of 0] assms(5,6)
  by (intro attributed_month [OF assms(2-4)])
    (auto simp: check_in_month_def Let_def date_less_def split: if_splits)

lemma query_windows_count:
  "length (filter (\<lambda>w. qw_from w \<le> t \<and> t < qw_to w) (splitPhotonPayQueryWindow start to)) = (if start \<le> t \<and> t < to then 1 else 0)"
proof (induction start to rule: splitPhotonPayQueryWindow.induct)
  case (1 cursor to)
  let ?stop = "min (cursor + MAX_PROVIDER_QUERY_WINDOW_DAYS * DAY_MS) to"
  show ?case
  proof (cases "cursor < to")
    case True
    have "cursor < ?stop" using True by (simp add: MAX_PROVIDER_QUERY_WINDOW_DAYS_def DAY_MS_def)
    then show ?thesis
      using "1.IH" [OF True refl] True by (subst splitPhotonPayQueryWindow.simps) (auto simp: Let_def)
  qed (simp add: splitPhotonPayQueryWindow.simps)
qed

lemma query_windows_size:
  "list_all (\<lambda>w. start \<le> qw_from w \<and> qw_from w < qw_to w \<and> qw_to w \<le> to \<and> qw_to w - qw_from w \<le> 7 * DAY_MS)
     (splitPhotonPayQueryWindow start to)"
proof (induction start to rule: splitPhotonPayQueryWindow.induct)
  case (1 cursor to)
  let ?stop = "min (cursor + MAX_PROVIDER_QUERY_WINDOW_DAYS * DAY_MS) to"
  show ?case
  proof (cases "cursor < to")
    case True
    have "cursor < ?stop" "?stop \<le> to" "?stop - cursor \<le> 7 * DAY_MS"
      using True by (auto simp: MAX_PROVIDER_QUERY_WINDOW_DAYS_def DAY_MS_def)
    then show ?thesis
      using "1.IH" [OF True refl] True by (subst splitPhotonPayQueryWindow.simps) (auto simp: Let_def list_all_iff)
  qed (simp add: splitPhotonPayQueryWindow.simps)
qed

lemma no_query: "b \<le> a \<Longrightarrow> splitPhotonPayQueryWindow a b = []"
  by (subst splitPhotonPayQueryWindow.simps) simp

lemma single_query:
  assumes "a < b" "b \<le> a + 7 * DAY_MS"
  shows "splitPhotonPayQueryWindow a b = [\<lparr>qw_from = a, qw_to = b\<rparr>]"
proof -
  have "min (a + MAX_PROVIDER_QUERY_WINDOW_DAYS * DAY_MS) b = b"
    using assms(2) by (simp add: MAX_PROVIDER_QUERY_WINDOW_DAYS_def)
  then show ?thesis
    using assms(1) by (subst splitPhotonPayQueryWindow.simps) (simp add: Let_def no_query)
qed

section \<open>Properties\<close>

text \<open>
  C2: The queries sent to the provider cover a window exactly: every moment of the window falls
  into one query, no moment outside falls into any, and each query is a non-empty part of the
  window of at most seven days, the provider's limit.
\<close>

theorem query_windows_partition:
  "length (filter (\<lambda>w. qw_from w \<le> t \<and> t < qw_to w) (splitPhotonPayQueryWindow start to)) = (if start \<le> t \<and> t < to then 1 else 0)
   \<and> list_all (\<lambda>w. start \<le> qw_from w \<and> qw_from w < qw_to w \<and> qw_to w \<le> to
        \<and> qw_to w - qw_from w \<le> MAX_PROVIDER_QUERY_WINDOW_DAYS * DAY_MS) (splitPhotonPayQueryWindow start to)"
  using query_windows_count query_windows_size by (simp add: MAX_PROVIDER_QUERY_WINDOW_DAYS_def)

text \<open>
  A historical backfill asks for one to seven whole days of Shanghai that are over, and only
  for transactions of its settlement month: every moment of an accepted window is attributed to
  the month of the task, so the backfill never brings in spend of another month; and the window
  needs one query.
\<close>

theorem backfill_window_is_complete_days_of_month:
  assumes "parsePhotonPayHistoricalBackfillWindow rt input m = Inr w"
    and "is_month_start m" "100 \<le> getUTCFullYear m" "getUTCFullYear m \<le> 9999"
    and "qw_from w \<le> t" "t < qw_to w"
  shows "getSettlementMonthFromTransactionAt (Some t) = Inr (Some m)
    \<and> HISTORICAL_BACKFILL_START \<le> qw_from w \<and> isShanghaiMidnight (qw_from w) \<and> isShanghaiMidnight (qw_to w)
    \<and> qw_to w = qw_from w + bw_durationDays w * DAY_MS \<and> 1 \<le> bw_durationDays w \<and> bw_durationDays w \<le> 7
    \<and> (case shanghaiDayStartUtc (rt_now rt) of None \<Rightarrow> True | Some today \<Rightarrow> qw_to w \<le> today)
    \<and> length (splitPhotonPayQueryWindow (qw_from w) (qw_to w)) = 1"
proof -
  have w: "check_in_month ''historicalBackfill'' m (qw_from w) (qw_to w) = Inr ()"
    "(qw_to w - qw_from w) mod DAY_MS = 0" "bw_durationDays w = (qw_to w - qw_from w) div DAY_MS"
    "1 \<le> bw_durationDays w" "bw_durationDays w \<le> 7" "HISTORICAL_BACKFILL_START \<le> qw_from w"
    "isShanghaiMidnight (qw_from w)" "isShanghaiMidnight (qw_to w)"
    "\<not> date_less (shanghaiDayStartUtc (rt_now rt)) (Some (qw_to w))"
    using assms(1)
    by (auto simp: parsePhotonPayHistoricalBackfillWindow_def parse_interval_def bind_res_Inr_iff Let_def
        split: option.splits jsval.splits if_splits)
  have days: "qw_to w = qw_from w + bw_durationDays w * DAY_MS"
    using div_mult_mod_eq [of "qw_to w - qw_from w" DAY_MS] w(2,3) by simp
  then have "qw_from w < qw_to w" "qw_to w \<le> qw_from w + 7 * DAY_MS"
    using w(4,5) by (simp_all add: DAY_MS_def)
  then have "length (splitPhotonPayQueryWindow (qw_from w) (qw_to w)) = 1"
    by (simp add: single_query)
  moreover have "case shanghaiDayStartUtc (rt_now rt) of None \<Rightarrow> True | Some today \<Rightarrow> qw_to w \<le> today"
    using w(9) by (simp add: date_less_def split: option.splits)
  moreover have "getSettlementMonthFromTransactionAt (Some t) = Inr (Some m)"
    using checked_window_in_month [OF w(1) assms(2-6)] .
  ultimately show ?thesis using w(4-8) days by blast
qed

section \<open>Witness\<close>

definition JUL_2026 :: int where
  "JUL_2026 = 1782864000000"

definition july_rt :: runtime where
  "july_rt = sample_rt\<lparr>rt_now := 1784505600000,
     rt_parse_date := (\<lambda>s. if s = ''2026-06-30T16:00:00.000Z'' then Some 1782835200000
                         else if s = ''2026-07-02T16:00:00.000Z'' then Some 1783008000000 else None)\<rparr>"

definition july_request :: jsval where
  "july_request = JObject [(''from'', JString ''2026-06-30T16:00:00.000Z''), (''to'', JString ''2026-07-02T16:00:00.000Z''),
     (''previewOnly'', JBool True)]"

definition july_window :: backfill_window where
  "july_window = \<lparr>qw_from = 1782835200000, qw_to = 1783008000000, bw_durationDays = 2, bw_previewOnly = True\<rparr>"

theorem backfill_window_is_complete_days_of_month_witness:
  "parsePhotonPayHistoricalBackfillWindow july_rt july_request JUL_2026 = Inr july_window
   \<and> getSettlementMonthFromTransactionAt (Some 1782900000000) = Inr (Some JUL_2026)"
proof -
  have p: "parsePhotonPayHistoricalBackfillWindow july_rt july_request JUL_2026 = Inr july_window"
    by code_simp
  have "is_month_start JUL_2026" "100 \<le> getUTCFullYear JUL_2026" "getUTCFullYear JUL_2026 \<le> 9999"
    by code_simp+
  then show ?thesis
    using backfill_window_is_complete_days_of_month [OF p, of 1782900000000] p by (simp add: july_window_def)
qed

end
