(* ===== verification/Sync_Tasks.thy ===== *)
theory Sync_Tasks
  imports Unmatched_Events Photonpay_Windows
begin

text \<open>
  \<open>sync-tasks.service.ts\<close>: creating a synchronisation task by hand for the income of an affiliate
  account or for the spend of a card provider, and the list of tasks. The request body is its
  JSON value; the answer is the stored row with the flag the service adds to it.
\<close>

section \<open>Names and parsers\<close>

definition all_task_status :: "sync_task_status list" where
  "all_task_status =
     [ST_not_implemented, ST_pending, ST_retry_wait, ST_running, ST_completed, ST_failed, ST_cancelled]"

fun task_status_name :: "sync_task_status \<Rightarrow> string" where
  "task_status_name ST_not_implemented = ''not_implemented''"
| "task_status_name ST_pending = ''pending''"
| "task_status_name ST_retry_wait = ''retry_wait''"
| "task_status_name ST_running = ''running''"
| "task_status_name ST_completed = ''completed''"
| "task_status_name ST_failed = ''failed''"
| "task_status_name ST_cancelled = ''cancelled''"

definition all_platforms :: "sync_platform list" where
  "all_platforms = [P_everflow, P_cake, P_airwallex, P_photonpay]"

fun platform_name :: "sync_platform \<Rightarrow> string" where
  "platform_name P_everflow = ''everflow''"
| "platform_name P_cake = ''cake''"
| "platform_name P_airwallex = ''airwallex''"
| "platform_name P_photonpay = ''photonpay''"

text \<open>Truth of a JSON value.\<close>

definition js_truthy :: "jsval \<Rightarrow> bool" where
  "js_truthy v = (case v of JUndefined \<Rightarrow> False | JNull \<Rightarrow> False | JBool b \<Rightarrow> b | JNum x \<Rightarrow> x \<noteq> 0
     | JString s \<Rightarrow> s \<noteq> [] | _ \<Rightarrow> True)"

text \<open>\<open>/^(\d{4})-(\d{2})(?:-\d{2})?$/\<close>: the digits of a day are matched but not looked at.\<close>

definition match_month_or_day :: "string \<Rightarrow> (int \<times> int) option" where
  "match_month_or_day s =
     (if length s = 10 \<and> s ! 7 = CHR ''-'' \<and> list_all is_digit (drop 8 s)
      then match_year_month (take 7 s) else match_year_month s)"

text \<open>
  The month of a task. A Date whose month starts before the first representable instant (no
  request can carry one) is refused here and not at the first query.
\<close>

definition parse_text_month :: "string \<Rightarrow> string \<Rightarrow> int outcome" where
  "parse_text_month value field =
     (if js_trim value = [] then Inl (AppError VALIDATION_ERROR (field @ '' is required.''))
      else case match_month_or_day (js_trim value) of
             None \<Rightarrow> Inl (AppError VALIDATION_ERROR (field @ '' must use YYYY-MM or YYYY-MM-DD format.''))
           | Some (year, mm) \<Rightarrow>
               (if mm - 1 < 0 \<or> mm - 1 > 11
                then Inl (AppError VALIDATION_ERROR (field @ '' must use YYYY-MM or YYYY-MM-DD format.''))
                else stored_month (date_UTC year (mm - 1) 1)))"

definition parse_task_month :: "jsval \<Rightarrow> string \<Rightarrow> int outcome" where
  "parse_task_month value field =
     (case value of
        JDate None \<Rightarrow> Inl (AppError VALIDATION_ERROR (field @ '' must be a valid date.''))
      | JDate (Some t) \<Rightarrow> stored_month (date_UTC (getUTCFullYear t) (getUTCMonth t) 1)
      | JString s \<Rightarrow> parse_text_month s field
      | _ \<Rightarrow> Inl (AppError VALIDATION_ERROR (field @ '' is required.'')))"

definition normalizeAffiliatePlatform :: "string \<Rightarrow> sync_platform outcome" where
  "normalizeAffiliatePlatform platform =
     (let normalized = js_lower (js_trim platform)
      in if normalized = ''everflow'' then Inr P_everflow
         else if normalized = ''cake'' then Inr P_cake
         else Inl (AppError VALIDATION_ERROR ''affiliateAccount.platform must be everflow or cake.''))"

text \<open>\<open>Number(value)\<close>, a whole number from 1; the engine's conversion of other texts is a parameter.\<close>

definition parse_positive_int :: "(string \<Rightarrow> rat option) \<Rightarrow> string option \<Rightarrow> string \<Rightarrow> nat \<Rightarrow> nat outcome" where
  "parse_positive_int js_number value field fallback =
     (case value of
        None \<Rightarrow> Inr fallback
      | Some s \<Rightarrow>
          if s = [] then Inr fallback
          else (let parsed = (if js_trim s \<noteq> [] \<and> list_all is_digit (js_trim s)
                              then Some (of_nat (digits_to_nat (js_trim s))) else js_number s)
                in case parsed of
                     Some x \<Rightarrow> if of_int \<lfloor>x\<rfloor> = x \<and> 1 \<le> x then Inr (nat \<lfloor>x\<rfloor>)
                               else Inl (AppError VALIDATION_ERROR (field @ '' must be a positive integer.''))
                   | None \<Rightarrow> Inl (AppError VALIDATION_ERROR (field @ '' must be a positive integer.''))))"

section \<open>Rows\<close>

definition put_tasks :: "sync_task_row list \<Rightarrow> database \<Rightarrow> database" where
  "put_tasks rows db = db\<lparr>sync_tasks := rows\<rparr>"

text \<open>The unique planning key; tasks without one never clash.\<close>

definition task_clash :: "sync_task_row \<Rightarrow> sync_task_row \<Rightarrow> bool" where
  "task_clash r r' \<longleftrightarrow> tk_planningKey r = tk_planningKey r' \<and> tk_planningKey r \<noteq> None"

definition task_insert :: "sync_task_row \<Rightarrow> sync_task_row handler" where
  "task_insert = table_insert sync_tasks put_tasks task_clash"

text \<open>\<open>updateMany({ where, data })\<close> returns how many rows it changed.\<close>

definition task_update_many :: "(sync_task_row \<Rightarrow> bool) \<Rightarrow> (sync_task_row \<Rightarrow> sync_task_row) \<Rightarrow> nat handler" where
  "task_update_many p f db =
     (Inr (length (filter p (sync_tasks db))), put_tasks (update_rows p f (sync_tasks db)) db)"

text \<open>\<open>update({ where: { id, ... }, data })\<close> fails when no row satisfies the condition.\<close>

definition task_update :: "(sync_task_row \<Rightarrow> bool) \<Rightarrow> (sync_task_row \<Rightarrow> sync_task_row) \<Rightarrow> sync_task_row handler" where
  "task_update p f db =
     (case find_row p (sync_tasks db) of
        None \<Rightarrow> (Inl (PrismaKnownError ''P2025''), db)
      | Some r \<Rightarrow> (Inr (f r), put_tasks (update_first p f (sync_tasks db)) db))"

definition find_task :: "string \<Rightarrow> database \<Rightarrow> sync_task_row option" where
  "find_task i db = find_row (\<lambda>r. tk_id r = i) (sync_tasks db)"

text \<open>A created row: what the data names and the defaults of the schema.\<close>

definition new_task ::
  "runtime \<Rightarrow> nat \<Rightarrow> sync_source_type \<Rightarrow> sync_task_type \<Rightarrow> sync_platform \<Rightarrow> string option \<Rightarrow> provider option \<Rightarrow> int
     \<Rightarrow> string option \<Rightarrow> sync_trigger \<Rightarrow> string option \<Rightarrow> jsval \<Rightarrow> sync_task_row" where
  "new_task rt n sourceType taskType platform account provider m requestedBy trigger planningKey payload =
     \<lparr>tk_id = rt_fresh_id rt n, tk_sourceType = sourceType, tk_taskType = taskType, tk_platform = platform,
      tk_affiliateAccountId = account, tk_provider = provider, tk_month = m, tk_status = ST_pending,
      tk_successCount = 0, tk_failedCount = 0, tk_message = None, tk_errorMessage = None,
      tk_requestedBy = requestedBy, tk_triggerType = trigger, tk_planningKey = planningKey,
      tk_attemptCount = 0, tk_nextAttemptAt = None, tk_leaseOwner = None, tk_leaseExpiresAt = None,
      tk_lastAttemptAt = None, tk_lastErrorCategory = None, tk_startedAt = None, tk_finishedAt = None,
      tk_updatedAt = rt_now rt, tk_requestPayload = payload\<rparr>"

section \<open>Creating tasks\<close>

definition task_audit :: "actor \<Rightarrow> string \<Rightarrow> string \<Rightarrow> int \<Rightarrow> audit_input" where
  "task_audit actor action i m =
     auditInput actor action ''sync_tasks'' (Some i) (Some m) [''sourceType'', ''taskType'', ''platform'', ''status'']"

definition task_write :: "int \<Rightarrow> string \<Rightarrow> month_write" where
  "task_write m action =
     \<lparr>mw_settlementMonth = m, mw_action = action, mw_objectType = ''sync_tasks'', mw_objectId = None\<rparr>"

definition auditFailureUnlessMonthLocked :: "actor \<Rightarrow> string \<Rightarrow> app_exception \<Rightarrow> 'a handler" where
  "auditFailureUnlessMonthLocked actor action e =
     (case e of
        AppError code message \<Rightarrow>
          if code = MONTH_LOCKED then op_throw e
          else op_bind (audit_failure ((auditInput actor action ''sync_tasks'' None None [])
                 \<lparr>ai_failureReason := Some (error_code_name code), ai_errorMessage := Some message\<rparr>)) (\<lambda>_. op_throw e)
      | _ \<Rightarrow> op_throw e)"

definition createAffiliateIncome :: "runtime \<Rightarrow> (string \<times> jsval) list \<Rightarrow> actor \<Rightarrow> sync_task_row handler" where
  "createAffiliateIncome rt input actor =
     (let action = ''sync_task.create.affiliate_income''
      in op_catch
        (op_bind (op_lift (parse_task_month (js_get input ''settlementMonth'') ''settlementMonth'')) (\<lambda>settlementMonth.
         op_bind (op_lift (requireNonBlank (js_get input ''affiliateAccountId'') ''affiliateAccountId'')) (\<lambda>affiliateAccountId.
         op_bind (table_find affiliate_accounts aa_id ''Affiliate account'' affiliateAccountId) (\<lambda>account.
         op_bind (op_lift (normalizeAffiliatePlatform (aa_platform account))) (\<lambda>platform.
         op_bind (assertWritable (task_write settlementMonth action) (Some actor)) (\<lambda>_.
         op_bind (task_insert (new_task rt 0 affiliate_income TT_affiliate_income platform (Some affiliateAccountId) None
           settlementMonth (Some (ac_userId actor)) TR_manual None (JObject input))) (\<lambda>task.
         op_bind (audit_success (task_audit actor action (tk_id task) settlementMonth)) (\<lambda>_.
         op_return task))))))))
        (auditFailureUnlessMonthLocked actor action))"

text \<open>The windows of a card task, normalised for the stored request.\<close>

definition assertCardSpendInputKeys :: "jsval \<Rightarrow> (string \<times> jsval) list outcome" where
  "assertCardSpendInputKeys input =
     (case asRecord input of
        None \<Rightarrow> Inl (AppError VALIDATION_ERROR ''card spend sync input is required.'')
      | Some kvs \<Rightarrow>
          (let unexpected = filter (\<lambda>k. k \<notin> set [''settlementMonth'', ''verificationWindow'', ''historicalBackfill'']) (map fst kvs)
           in if unexpected \<noteq> []
              then Inl (AppError VALIDATION_ERROR (''Unexpected card spend sync fields: '' @ js_join '', '' unexpected @ ''.''))
              else Inr kvs))"

definition card_request ::
  "runtime \<Rightarrow> provider \<Rightarrow> (string \<times> jsval) list \<Rightarrow> int \<Rightarrow> ((string \<times> jsval) list) outcome" where
  "card_request rt provider input settlementMonth =
     (let window = js_get input ''verificationWindow''; backfill = js_get input ''historicalBackfill''
      in if js_truthy window \<and> provider \<noteq> photonpay
         then Inl (AppError VALIDATION_ERROR ''verificationWindow is supported only for PhotonPay production verification.'')
         else if js_truthy backfill \<and> provider \<noteq> photonpay
         then Inl (AppError VALIDATION_ERROR ''historicalBackfill is supported only for PhotonPay.'')
         else if js_truthy window \<and> js_truthy backfill
         then Inl (AppError VALIDATION_ERROR ''verificationWindow and historicalBackfill are mutually exclusive.'')
         else
           bind_res (if js_truthy window
                     then bind_res (parsePhotonPayVerificationWindow rt window settlementMonth True) (\<lambda>w.
                       Inr [(''verificationWindow'', JObject [(''from'', JString (iso_string (qw_from w))),
                              (''to'', JString (iso_string (qw_to w)))])])
                     else Inr []) (\<lambda>verification.
           bind_res (if js_truthy backfill
                     then bind_res (parsePhotonPayHistoricalBackfillWindow rt backfill settlementMonth) (\<lambda>w.
                       Inr [(''historicalBackfill'', JObject [(''from'', JString (iso_string (qw_from w))),
                              (''to'', JString (iso_string (qw_to w))), (''previewOnly'', JBool (bw_previewOnly w))])])
                     else Inr []) (\<lambda>historical.
           Inr ([(''provider'', JString (provider_name provider)), (''settlementMonth'', js_get input ''settlementMonth'')]
                @ verification @ historical))))"

definition card_kind :: "provider \<Rightarrow> sync_task_type \<times> sync_platform" where
  "card_kind provider = (if provider = airwallex then (airwallex_card, P_airwallex) else (photonpay_card, P_photonpay))"

definition create_card_task :: "runtime \<Rightarrow> provider \<Rightarrow> jsval \<Rightarrow> string \<Rightarrow> actor \<Rightarrow> sync_task_row handler" where
  "create_card_task rt provider input action actor =
     op_bind (op_lift (assertCardSpendInputKeys input)) (\<lambda>kvs.
     op_bind (op_lift (parse_task_month (js_get kvs ''settlementMonth'') ''settlementMonth'')) (\<lambda>settlementMonth.
     op_bind (op_lift (card_request rt provider kvs settlementMonth)) (\<lambda>payload.
     op_bind (assertWritable (task_write settlementMonth action) (Some actor)) (\<lambda>_.
     op_bind (task_insert (new_task rt 0 card_spend (fst (card_kind provider)) (snd (card_kind provider)) None (Some provider)
       settlementMonth (Some (ac_userId actor)) TR_manual None (JObject payload))) (\<lambda>task.
     op_bind (audit_success (task_audit actor action (tk_id task) settlementMonth)) (\<lambda>_.
     op_return task))))))"

definition createCardSpend :: "runtime \<Rightarrow> string \<Rightarrow> jsval \<Rightarrow> actor \<Rightarrow> sync_task_row handler" where
  "createCardSpend rt providerInput input actor =
     (case provider_of (js_lower (js_trim providerInput)) of
        None \<Rightarrow> auditFailureUnlessMonthLocked actor ''sync_task.create.card_spend''
          (AppError VALIDATION_ERROR ''provider must be airwallex or photonpay.'')
      | Some provider \<Rightarrow>
          (let action = ''sync_task.create.'' @ provider_name provider @ ''_card''
           in op_catch (create_card_task rt provider input action actor) (auditFailureUnlessMonthLocked actor action)))"

section \<open>The list\<close>

record tasks_query =
  tq_settlementMonth :: "string option"
  tq_taskType :: "string option"
  tq_platform :: "string option"
  tq_affiliateAccountId :: "string option"
  tq_status :: "string option"
  tq_page :: "string option"
  tq_pageSize :: "string option"

record task_page =
  tp_items :: "(sync_task_row \<times> bool) list"
  tp_total :: nat
  tp_page :: nat
  tp_pageSize :: nat

text \<open>What \<open>toDto\<close> adds to the row: whether an automatic execution holds it.\<close>

definition task_executing :: "sync_task_row \<Rightarrow> bool" where
  "task_executing task \<longleftrightarrow> tk_status task = ST_running \<and> tk_leaseExpiresAt task \<noteq> None"

definition page_of :: "nat \<Rightarrow> nat \<Rightarrow> 'r list \<Rightarrow> 'r list" where
  "page_of page pageSize rows = take pageSize (drop ((page - 1) * pageSize) rows)"

definition tasks_where :: "tasks_query \<Rightarrow> (sync_task_row \<Rightarrow> bool) outcome" where
  "tasks_where query =
     bind_res (if_text (tq_settlementMonth query) (\<lambda>s. parse_text_month s ''settlementMonth'')) (\<lambda>m.
     bind_res (if_text (tq_taskType query) (\<lambda>s. enumValue task_type_name all_task_types s ''taskType'')) (\<lambda>taskType.
     bind_res (if_text (tq_platform query) (\<lambda>s. enumValue platform_name all_platforms s ''platform'')) (\<lambda>platform.
     bind_res (optional_text (tq_affiliateAccountId query) ''affiliateAccountId'') (\<lambda>account.
     bind_res (if_text (tq_status query) (\<lambda>s. enumValue task_status_name all_task_status s ''status'')) (\<lambda>status.
     Inr (\<lambda>r. matches m (tk_month r) \<and> matches taskType (tk_taskType r) \<and> matches platform (tk_platform r)
       \<and> matches (map_option Some account) (tk_affiliateAccountId r) \<and> matches status (tk_status r)))))))"

definition listTasks :: "(string \<Rightarrow> rat option) \<Rightarrow> tasks_query \<Rightarrow> task_page handler" where
  "listTasks js_number query =
     op_bind (op_lift (parse_positive_int js_number (tq_page query) ''page'' 1)) (\<lambda>page.
     op_bind (op_lift (parse_positive_int js_number (tq_pageSize query) ''pageSize'' 20)) (\<lambda>size_given.
     let pageSize = min size_given 100 in
     op_bind (op_lift (tasks_where query)) (\<lambda>ok.
     op_bind (op_get (\<lambda>db. newest_first ok (sync_tasks db))) (\<lambda>rows.
     op_return \<lparr>tp_items = map (\<lambda>r. (r, task_executing r)) (page_of page pageSize rows), tp_total = length rows,
       tp_page = page, tp_pageSize = pageSize\<rparr>))))"

end
