(* ===== verification/Sync_Operations.thy ===== *)
theory Sync_Operations
  imports Sync_Tasks
begin

text \<open>
  \<open>sync-task-operations.service.ts\<close>: what an administrator sees of the tasks and may ask for, a
  retry or a cancellation. Each write is one conditional update in a transaction of its own,
  after checks on a row read before; it stands here as a definition of its own
  (\<open>retry_update\<close>, \<open>cancel_update\<close>), which other calls may run in between. The result payload
  of a task and the payloads of its audit rows are not kept.
\<close>

section \<open>Parsers and texts\<close>

definition ACTIVE_RETRY_STATUSES :: "sync_task_status list" where
  "ACTIVE_RETRY_STATUSES = [ST_failed, ST_retry_wait]"

definition CANCELABLE_STATUSES :: "sync_task_status list" where
  "CANCELABLE_STATUSES = [ST_pending, ST_retry_wait, ST_failed]"

fun trigger_name :: "sync_trigger \<Rightarrow> string" where
  "trigger_name TR_manual = ''manual''"
| "trigger_name TR_scheduled = ''scheduled''"

fun sync_error_name :: "sync_error \<Rightarrow> string" where
  "sync_error_name EC_NETWORK_ERROR = ''NETWORK_ERROR''"
| "sync_error_name EC_TIMEOUT = ''TIMEOUT''"
| "sync_error_name EC_RATE_LIMITED = ''RATE_LIMITED''"
| "sync_error_name EC_PROVIDER_5XX = ''PROVIDER_5XX''"
| "sync_error_name EC_TEMPORARY_DATABASE_ERROR = ''TEMPORARY_DATABASE_ERROR''"
| "sync_error_name EC_CREDENTIAL_MISSING = ''CREDENTIAL_MISSING''"
| "sync_error_name EC_CREDENTIAL_INVALID = ''CREDENTIAL_INVALID''"
| "sync_error_name EC_MONTH_LOCKED = ''MONTH_LOCKED''"
| "sync_error_name EC_UNSUPPORTED_PLATFORM = ''UNSUPPORTED_PLATFORM''"
| "sync_error_name EC_UNSUPPORTED_PROVIDER = ''UNSUPPORTED_PROVIDER''"
| "sync_error_name EC_INVALID_CONFIGURATION = ''INVALID_CONFIGURATION''"
| "sync_error_name EC_VALIDATION_ERROR = ''VALIDATION_ERROR''"
| "sync_error_name EC_PERMISSION_ERROR = ''PERMISSION_ERROR''"
| "sync_error_name EC_BUSINESS_REJECTED = ''BUSINESS_REJECTED''"

definition isRetryable :: "sync_error option \<Rightarrow> bool" where
  "isRetryable category \<longleftrightarrow>
     category \<in> Some ` {EC_NETWORK_ERROR, EC_TIMEOUT, EC_RATE_LIMITED, EC_PROVIDER_5XX, EC_TEMPORARY_DATABASE_ERROR}"

definition suggestedAction :: "sync_error option \<Rightarrow> string" where
  "suggestedAction category =
     (if category \<in> Some ` {EC_CREDENTIAL_MISSING, EC_CREDENTIAL_INVALID}
      then ''<check and repair the API credential before asking for a retry>''
      else if category = Some EC_MONTH_LOCKED
      then ''<decide whether to unlock the settlement month, or create the task again in the next month>''
      else if category \<in> Some ` {EC_RATE_LIMITED, EC_PROVIDER_5XX, EC_TIMEOUT, EC_NETWORK_ERROR}
      then ''<wait for the automatic retry, or ask for a retry once the service has recovered>''
      else if category \<in> Some ` {EC_BUSINESS_REJECTED, EC_VALIDATION_ERROR}
      then ''<check the business data and the configuration of the task by hand>''
      else ''<read the safe error summary and follow the synchronisation rules>'')"

definition parseReason :: "jsval \<Rightarrow> string option outcome" where
  "parseReason value =
     (if value \<in> {JUndefined, JNull, JString []} then Inr None
      else case value of
             JString s \<Rightarrow> (let text = take 500 (js_trim s) in Inr (if text = [] then None else Some text))
           | _ \<Rightarrow> Inl (AppError VALIDATION_ERROR ''reason must be a string.''))"

text \<open>
  \<open>/(keyword|...)\s*[:=]\s*[^\s,;]+/gi\<close>: no two of the keywords start alike where the pattern
  could go on, so the first that fits is the one that matches.
\<close>

definition SECRET_KEYWORDS :: "string list" where
  "SECRET_KEYWORDS =
     [''api_key'', ''api-key'', ''apikey'', ''secret'', ''token'', ''password'', ''authorization'',
      ''client_id'', ''client-id'', ''clientid'', ''merchant_id'', ''merchant-id'', ''merchantid'']"

definition is_value_char :: "char \<Rightarrow> bool" where
  "is_value_char c \<longleftrightarrow> \<not> is_js_space c \<and> c \<noteq> CHR '','' \<and> c \<noteq> CHR '';''"

definition match_secret :: "string list \<Rightarrow> matcher" where
  "match_secret keywords prev s =
     (case find (starts_with_ci s) keywords of
        None \<Rightarrow> None
      | Some kw \<Rightarrow>
          (let rest = drop (length kw) s; gap = takeWhile is_js_space rest; sep = drop (length gap) rest
           in if sep = [] \<or> hd sep \<notin> {CHR '':'', CHR ''=''} then None
              else let gap' = takeWhile is_js_space (tl sep); value = takeWhile is_value_char (drop (length gap') (tl sep))
                   in if value = [] then None
                      else Some (length kw + length gap + 1 + length gap' + length value)))"

definition OPERATION_KEYWORDS :: "string list" where
  "OPERATION_KEYWORDS = SECRET_KEYWORDS @ [''encrypted_payload'', ''encrypted-payload'', ''encryptedpayload'']"

definition redactText :: "string option \<Rightarrow> string option" where
  "redactText value = map_option (\<lambda>s. take 1000 (replace_matches (match_secret OPERATION_KEYWORDS) None s)) value"

section \<open>What is shown of a task\<close>

datatype lease_state = LS_none | LS_active | LS_expired

definition leaseState :: "sync_task_row \<Rightarrow> int \<Rightarrow> lease_state" where
  "leaseState task now =
     (if tk_status task \<noteq> ST_running then LS_none
      else case tk_leaseExpiresAt task of None \<Rightarrow> LS_none | Some t \<Rightarrow> if t > now then LS_active else LS_expired)"

record operation_dto =
  od_task :: sync_task_row
  od_maxAttempts :: nat
  od_lastErrorSafeMessage :: "string option"
  od_safeMessage :: "string option"
  od_leaseState :: lease_state
  od_executing :: bool
  od_actorType :: string

definition toOperationDto :: "sync_task_row \<Rightarrow> int \<Rightarrow> nat \<Rightarrow> operation_dto" where
  "toOperationDto task now maxAttempts =
     \<lparr>od_task = task, od_maxAttempts = maxAttempts, od_lastErrorSafeMessage = redactText (tk_errorMessage task),
      od_safeMessage = redactText (tk_message task), od_leaseState = leaseState task now,
      od_executing = (tk_status task = ST_running \<and> leaseState task now = LS_active),
      od_actorType = (if tk_requestedBy task \<noteq> None \<and> tk_requestedBy task \<noteq> Some [] then ''manual'' else ''system'')\<rparr>"

record operations_query =
  oq_settlementMonth :: "string option"
  oq_status :: "string option"
  oq_sourceType :: "string option"
  oq_provider :: "string option"
  oq_triggerType :: "string option"
  oq_abnormalOnly :: "string option"
  oq_page :: "string option"
  oq_pageSize :: "string option"

definition lease_over :: "sync_task_row \<Rightarrow> int \<Rightarrow> bool" where
  "lease_over r now = (case tk_leaseExpiresAt r of None \<Rightarrow> False | Some t \<Rightarrow> t \<le> now)"

definition abnormal_task :: "int \<Rightarrow> sync_task_row \<Rightarrow> bool" where
  "abnormal_task now r \<longleftrightarrow>
     tk_status r = ST_failed \<or> tk_status r = ST_retry_wait \<or> (tk_status r = ST_running \<and> lease_over r now)"

definition buildWhere :: "operations_query \<Rightarrow> int \<Rightarrow> (sync_task_row \<Rightarrow> bool) outcome" where
  "buildWhere query now =
     bind_res (if_text (oq_settlementMonth query) (\<lambda>s. parse_text_month s ''settlementMonth'')) (\<lambda>m.
     bind_res (if_text (oq_status query) (\<lambda>s. enumValue task_status_name all_task_status s ''status'')) (\<lambda>status.
     bind_res (if_text (oq_sourceType query) (\<lambda>s. enumValue source_type_name all_source_types s ''sourceType'')) (\<lambda>sourceType.
     bind_res (if_text (oq_provider query) (\<lambda>s. enumValue provider_name [airwallex, photonpay] s ''provider'')) (\<lambda>provider.
     bind_res (if_text (oq_triggerType query) (\<lambda>s. enumValue trigger_name [TR_manual, TR_scheduled] s ''triggerType'')) (\<lambda>trigger.
     Inr (\<lambda>r. matches m (tk_month r) \<and> matches status (tk_status r) \<and> matches sourceType (tk_sourceType r)
       \<and> matches (map_option Some provider) (tk_provider r) \<and> matches trigger (tk_triggerType r)
       \<and> (oq_abnormalOnly query = Some ''true'' \<longrightarrow> abnormal_task now r)))))))"

record operations_page =
  op_items :: "operation_dto list"
  op_total :: nat
  op_page :: nat
  op_pageSize :: nat

text \<open>\<open>orderBy: [{ updatedAt: 'desc' }, { id: 'desc' }]\<close>\<close>

definition latest_updated :: "sync_task_row list \<Rightarrow> sync_task_row list" where
  "latest_updated rows = rev (sort_key tk_updatedAt (sort_key tk_id rows))"

definition listOperations :: "runtime \<Rightarrow> nat \<Rightarrow> (string \<Rightarrow> rat option) \<Rightarrow> operations_query \<Rightarrow> operations_page handler" where
  "listOperations rt maxAttempts js_number query =
     op_bind (op_lift (parse_positive_int js_number (oq_page query) ''page'' 1)) (\<lambda>page.
     op_bind (op_lift (parse_positive_int js_number (oq_pageSize query) ''pageSize'' 20)) (\<lambda>size_given.
     let pageSize = min size_given 100 in
     op_bind (op_lift (buildWhere query (rt_now rt))) (\<lambda>ok.
     op_bind (op_get (\<lambda>db. latest_updated (filter ok (sync_tasks db)))) (\<lambda>rows.
     op_return \<lparr>op_items = map (\<lambda>r. toOperationDto r (rt_now rt) maxAttempts) (page_of page pageSize rows),
       op_total = length rows, op_page = page, op_pageSize = pageSize\<rparr>))))"

definition loadTaskOrThrow :: "string \<Rightarrow> sync_task_row handler" where
  "loadTaskOrThrow i = table_find sync_tasks tk_id ''Sync task'' i"

record task_detail =
  dt_task :: operation_dto
  dt_retryable :: bool
  dt_suggestedAction :: string
  dt_recentEvents :: "audit_log list"

text \<open>The ten latest audit rows of the task, with their error messages redacted.\<close>

definition taskDetail :: "runtime \<Rightarrow> nat \<Rightarrow> string \<Rightarrow> task_detail handler" where
  "taskDetail rt maxAttempts i =
     op_bind (loadTaskOrThrow i) (\<lambda>task.
     op_bind (op_get (\<lambda>db. take 10 (newest_first (\<lambda>a. al_objectType a = ''sync_tasks'' \<and> al_objectId a = Some (tk_id task))
       (audit_logs db)))) (\<lambda>logs.
     op_return \<lparr>dt_task = toOperationDto task (rt_now rt) maxAttempts,
       dt_retryable = isRetryable (tk_lastErrorCategory task), dt_suggestedAction = suggestedAction (tk_lastErrorCategory task),
       dt_recentEvents = map (\<lambda>a. a\<lparr>al_errorMessage := redactText (al_errorMessage a)\<rparr>) logs\<rparr>))"

section \<open>Retry and cancellation\<close>

definition required_permission :: "sync_source_type \<Rightarrow> string" where
  "required_permission sourceType =
     (if sourceType = affiliate_income then ''income.import'' else ''manual_card_spend.manage'')"

definition assertActionPermission :: "sync_task_row \<Rightarrow> actor \<Rightarrow> unit outcome" where
  "assertActionPermission task actor =
     (if required_permission (tk_sourceType task) \<in> set (ac_permissions actor) then Inr ()
      else Inl (AppError PERMISSION_DENIED ''Permission denied.''))"

definition operation_audit :: "actor \<Rightarrow> string \<Rightarrow> sync_task_row \<Rightarrow> string list \<Rightarrow> audit_input" where
  "operation_audit actor action task changed =
     auditInput actor action ''sync_tasks'' (Some (tk_id task)) (Some (tk_month task)) changed"

definition assertUnlocked :: "sync_task_row \<Rightarrow> actor \<Rightarrow> unit handler" where
  "assertUnlocked task actor =
     op_bind (op_get (month_locked (tk_month task))) (\<lambda>locked.
     if \<not> locked then op_return ()
     else op_bind (audit_failure ((operation_audit actor ''sync_task.retry_rejected_locked_month'' task [])
            \<lparr>ai_failureReason := Some (sync_error_name EC_MONTH_LOCKED),
             ai_errorMessage := Some ''The settlement month is locked.''\<rparr>)) (\<lambda>_.
          op_throw (AppError MONTH_LOCKED ''The settlement month is locked.'')))"

definition account_credential_active :: "string \<Rightarrow> database \<Rightarrow> bool" where
  "account_credential_active account db =
     list_ex (\<lambda>c. lc_affiliateAccountId c = account \<and> lc_status c = CS_active) (account_credentials db)"

definition provider_credential_active :: "provider \<Rightarrow> database \<Rightarrow> bool" where
  "provider_credential_active provider db =
     list_ex (\<lambda>c. pc_provider c = provider \<and> pc_status c = CS_active) (provider_credentials db)"

text \<open>The check with the four messages of the service that makes it.\<close>

definition credential_check :: "string \<Rightarrow> string \<Rightarrow> string \<Rightarrow> string \<Rightarrow> sync_task_row \<Rightarrow> unit handler" where
  "credential_check no_account no_account_credential no_provider no_provider_credential task =
     (if tk_sourceType task = affiliate_income
      then case tk_affiliateAccountId task of
             None \<Rightarrow> op_throw (AppError VALIDATION_ERROR no_account)
           | Some account \<Rightarrow>
               op_bind (op_get (account_credential_active account)) (\<lambda>ok.
               op_assert ok (AppError VALIDATION_ERROR no_account_credential))
      else case tk_provider task of
             None \<Rightarrow> op_throw (AppError VALIDATION_ERROR no_provider)
           | Some provider \<Rightarrow>
               op_bind (op_get (provider_credential_active provider)) (\<lambda>ok.
               op_assert ok (AppError VALIDATION_ERROR no_provider_credential)))"

definition assertHasActiveCredential :: "sync_task_row \<Rightarrow> unit handler" where
  "assertHasActiveCredential task =
     credential_check ''affiliateAccountId is required.'' ''Active affiliate account credential is required.''
       ''provider is required.'' ''Active card provider credential is required.'' task"

definition retryable_row :: "string \<Rightarrow> sync_task_row \<Rightarrow> bool" where
  "retryable_row i r \<longleftrightarrow> tk_id r = i \<and> tk_status r \<in> set ACTIVE_RETRY_STATUSES"

definition retried :: "int \<Rightarrow> sync_task_row \<Rightarrow> sync_task_row" where
  "retried now r = r\<lparr>tk_status := ST_pending, tk_nextAttemptAt := None, tk_leaseOwner := None, tk_leaseExpiresAt := None,
     tk_finishedAt := None, tk_updatedAt := now\<rparr>"

definition retry_update :: "runtime \<Rightarrow> sync_task_row \<Rightarrow> actor \<Rightarrow> sync_task_row option handler" where
  "retry_update rt task actor =
     op_transaction
       (op_bind (task_update_many (retryable_row (tk_id task)) (retried (rt_now rt))) (\<lambda>count.
        if count = 0 then op_return None
        else op_bind (audit_success (operation_audit actor ''sync_task.manual_retry_requested'' task
               [''status'', ''nextAttemptAt'', ''leaseOwner'', ''leaseExpiresAt''])) (\<lambda>_.
             op_get (find_task (tk_id task)))))"

definition requestRetry :: "runtime \<Rightarrow> nat \<Rightarrow> string \<Rightarrow> jsval \<Rightarrow> actor \<Rightarrow> operation_dto handler" where
  "requestRetry rt maxAttempts i reason actor =
     op_bind (op_lift (parseReason reason)) (\<lambda>_.
     op_bind (loadTaskOrThrow i) (\<lambda>task.
     op_bind (op_lift (assertActionPermission task actor)) (\<lambda>_.
     op_bind (op_assert (tk_status task \<in> set ACTIVE_RETRY_STATUSES)
       (AppError CONFLICT ''Only failed or retry_wait sync tasks can request retry.'')) (\<lambda>_.
     op_bind (assertUnlocked task actor) (\<lambda>_.
     op_bind (assertHasActiveCredential task) (\<lambda>_.
     op_bind (retry_update rt task actor) (\<lambda>updated.
     case updated of
       None \<Rightarrow> op_throw (AppError CONFLICT ''Sync task status changed before retry request was applied.'')
     | Some r \<Rightarrow> op_return (toOperationDto r (rt_now rt) maxAttempts))))))))"

definition cancelable_row :: "bool \<Rightarrow> int \<Rightarrow> string \<Rightarrow> sync_task_row \<Rightarrow> bool" where
  "cancelable_row canCancelRunning now i r \<longleftrightarrow> tk_id r = i
     \<and> (if canCancelRunning then tk_status r = ST_running \<and> lease_over r now
        else tk_status r \<in> set CANCELABLE_STATUSES)"

definition cancelled :: "int \<Rightarrow> sync_task_row \<Rightarrow> sync_task_row" where
  "cancelled now r = r\<lparr>tk_status := ST_cancelled, tk_leaseOwner := None, tk_leaseExpiresAt := None, tk_nextAttemptAt := None,
     tk_finishedAt := Some now, tk_message := Some ''Sync task cancelled by administrator.'', tk_updatedAt := now\<rparr>"

definition cancel_update :: "runtime \<Rightarrow> bool \<Rightarrow> sync_task_row \<Rightarrow> actor \<Rightarrow> sync_task_row option handler" where
  "cancel_update rt canCancelRunning task actor =
     op_transaction
       (op_bind (task_update_many (cancelable_row canCancelRunning (rt_now rt) (tk_id task)) (cancelled (rt_now rt))) (\<lambda>count.
        if count = 0 then op_return None
        else op_bind (audit_success (operation_audit actor ''sync_task.cancelled'' task
               [''status'', ''leaseOwner'', ''leaseExpiresAt'', ''nextAttemptAt'', ''finishedAt''])) (\<lambda>_.
             op_get (find_task (tk_id task)))))"

definition cancelTask :: "runtime \<Rightarrow> nat \<Rightarrow> string \<Rightarrow> jsval \<Rightarrow> actor \<Rightarrow> operation_dto handler" where
  "cancelTask rt maxAttempts i reason actor =
     op_bind (op_lift (parseReason reason)) (\<lambda>_.
     op_bind (loadTaskOrThrow i) (\<lambda>task.
     op_bind (op_lift (assertActionPermission task actor)) (\<lambda>_.
     op_bind (op_assert (tk_status task \<noteq> ST_completed \<and> tk_status task \<noteq> ST_cancelled)
       (AppError CONFLICT ''Completed or cancelled sync tasks cannot be cancelled.'')) (\<lambda>_.
     let canCancelRunning = (tk_status task = ST_running \<and> lease_over task (rt_now rt)) in
     if tk_status task = ST_running \<and> \<not> canCancelRunning
     then op_bind (audit_failure ((operation_audit actor ''sync_task.cancel_rejected_running_active_lease'' task [])
            \<lparr>ai_failureReason := Some ''RUNNING_ACTIVE_LEASE'',
             ai_errorMessage := Some ''Running sync task has an active lease.''\<rparr>)) (\<lambda>_.
          op_throw (AppError CONFLICT ''Running sync task has an active lease.''))
     else
       op_bind (op_assert (tk_status task \<in> set CANCELABLE_STATUSES \<or> canCancelRunning)
         (AppError CONFLICT ''Sync task cannot be cancelled in its current status.'')) (\<lambda>_.
       op_bind (cancel_update rt canCancelRunning task actor) (\<lambda>updated.
       case updated of
         None \<Rightarrow> op_throw (AppError CONFLICT ''Sync task status changed before cancel was applied.'')
       | Some r \<Rightarrow> op_return (toOperationDto r (rt_now rt) maxAttempts)))))))"

end
