(* ===== verification/Sync_Execution.thy ===== *)
theory Sync_Execution
  imports Sync_Operations
begin

text \<open>
  \<open>sync-task-execution.service.ts\<close>, \<open>credential-reader.service.ts\<close> and \<open>sync-adapter-resolver.ts\<close>:
  running a task by hand. The adapter that fetches and stores the provider's data is a
  parameter, an operation on the database that returns a result or throws; so is the
  decryption of credentials. The row is marked running by one conditional update before the
  adapter runs (\<open>start_update\<close>) and finished by another after it (\<open>finish_update\<close>).
\<close>

section \<open>Adapters\<close>

record adapter_result =
  ad_completed :: bool
  ad_successCount :: nat
  ad_failedCount :: nat
  ad_message :: "string option"
  ad_errorMessage :: "string option"
  ad_errorCategory :: "sync_error option"

record adapter_context =
  cx_task :: sync_task_row
  cx_affiliateAccountCode :: "string option"
  cx_credentialId :: string
  cx_payload :: jsval

datatype adapter_key = everflowIncome | cakeIncome | airwallexCard | photonpayCard

type_synonym adapters = "adapter_key \<Rightarrow> adapter_context \<Rightarrow> adapter_result handler"

definition resolve_adapter :: "sync_source_type \<Rightarrow> string option \<Rightarrow> provider option \<Rightarrow> adapter_key outcome" where
  "resolve_adapter sourceType platform provider =
     (if sourceType = affiliate_income
      then (case map_option (\<lambda>s. js_lower (js_trim s)) platform of
              Some ''everflow'' \<Rightarrow> Inr everflowIncome
            | Some ''cake'' \<Rightarrow> Inr cakeIncome
            | _ \<Rightarrow> Inl (AppError VALIDATION_ERROR ''affiliateAccount.platform must be everflow or cake.''))
      else (case provider of
              Some airwallex \<Rightarrow> Inr airwallexCard
            | Some photonpay \<Rightarrow> Inr photonpayCard
            | None \<Rightarrow> Inl (AppError VALIDATION_ERROR ''No sync adapter is configured for this task.'')))"

section \<open>Credentials\<close>

record credential_payload =
  cp_credentialId :: string
  cp_payload :: jsval
  cp_affiliateAccountCode :: "string option"

definition find_account :: "string \<Rightarrow> database \<Rightarrow> affiliate_account option" where
  "find_account i db = find_row (\<lambda>a. aa_id a = i) (affiliate_accounts db)"

definition find_account_credential :: "string \<Rightarrow> database \<Rightarrow> account_credential option" where
  "find_account_credential account db = find_row (\<lambda>c. lc_affiliateAccountId c = account) (account_credentials db)"

text \<open>The optional text of \<open>payload.affiliateId ?? payload.affiliate_id\<close>.\<close>

definition legacy_affiliate_id :: "(string \<times> jsval) list \<Rightarrow> string option" where
  "legacy_affiliate_id payload =
     (case (if is_nullish (js_get payload ''affiliateId'') then js_get payload ''affiliate_id'' else js_get payload ''affiliateId'') of
        JString s \<Rightarrow> if js_trim s = [] then None else Some (js_trim s)
      | _ \<Rightarrow> None)"

definition NO_ACCOUNT_CREDENTIAL :: app_exception where
  "NO_ACCOUNT_CREDENTIAL = AppError VALIDATION_ERROR ''Active affiliate account credential is required.''"

definition getAffiliateAccountCredentialPayload ::
  "(string \<Rightarrow> jsval outcome) \<Rightarrow> string \<Rightarrow> credential_payload handler" where
  "getAffiliateAccountCredentialPayload decrypt affiliateAccountId =
     op_bind (op_get (\<lambda>db. (find_account affiliateAccountId db, find_account_credential affiliateAccountId db))) (\<lambda>found.
     case found of
       (Some account, Some credential) \<Rightarrow>
         (if lc_status credential \<noteq> CS_active then op_throw NO_ACCOUNT_CREDENTIAL
          else
            op_bind (op_lift (decrypt (lc_encryptedPayload credential))) (\<lambda>payload.
            if js_lower (aa_platform account) \<noteq> ''cake''
            then op_return \<lparr>cp_credentialId = lc_id credential, cp_payload = payload, cp_affiliateAccountCode = None\<rparr>
            else case asRecord payload of
                   None \<Rightarrow> op_throw (AppError VALIDATION_ERROR ''Affiliate credential payload is invalid.'')
                 | Some kvs \<Rightarrow>
                     (if legacy_affiliate_id kvs \<noteq> None \<and> legacy_affiliate_id kvs \<noteq> Some (aa_accountCode account)
                      then op_throw (AppError VALIDATION_ERROR
                             ''<the Affiliate ID of the account differs from the one in the credential>'')
                      else op_return \<lparr>cp_credentialId = lc_id credential,
                             cp_payload = JObject (filter (\<lambda>kv. fst kv \<notin> {''affiliateId'', ''affiliate_id''}) kvs),
                             cp_affiliateAccountCode = Some (aa_accountCode account)\<rparr>)))
     | _ \<Rightarrow> op_throw NO_ACCOUNT_CREDENTIAL)"

definition getCardProviderCredentialPayload :: "(string \<Rightarrow> jsval outcome) \<Rightarrow> provider \<Rightarrow> credential_payload handler" where
  "getCardProviderCredentialPayload decrypt provider =
     op_bind (op_get (\<lambda>db. find_row (\<lambda>c. pc_provider c = provider \<and> pc_status c = CS_active) (provider_credentials db))) (\<lambda>found.
     case found of
       None \<Rightarrow> op_throw (AppError VALIDATION_ERROR ''Active card provider credential is required.'')
     | Some credential \<Rightarrow>
         op_bind (op_lift (decrypt (pc_encryptedPayload credential))) (\<lambda>payload.
         op_return \<lparr>cp_credentialId = pc_id credential, cp_payload = payload, cp_affiliateAccountCode = None\<rparr>))"

text \<open>\<open>affiliateAccountId as string\<close>: a missing one matches no account.\<close>

definition getCredentialPayload :: "(string \<Rightarrow> jsval outcome) \<Rightarrow> sync_task_row \<Rightarrow> credential_payload handler" where
  "getCredentialPayload decrypt task =
     (if tk_sourceType task = affiliate_income
      then (case tk_affiliateAccountId task of
              None \<Rightarrow> op_throw NO_ACCOUNT_CREDENTIAL
            | Some account \<Rightarrow> getAffiliateAccountCredentialPayload decrypt account)
      else (case tk_provider task of
              None \<Rightarrow> op_throw (AppError VALIDATION_ERROR ''Active card provider credential is required.'')
            | Some provider \<Rightarrow> getCardProviderCredentialPayload decrypt provider))"

section \<open>Running a task by hand\<close>

definition assertPermission :: "sync_task_row \<Rightarrow> actor \<Rightarrow> unit outcome" where
  "assertPermission task actor =
     (if required_permission (tk_sourceType task) \<in> set (ac_permissions actor) then Inr ()
      else Inl (AppError PERMISSION_DENIED ''Permission denied.''))"

definition assertExecutableStatus :: "sync_task_row \<Rightarrow> unit outcome" where
  "assertExecutableStatus task =
     (if tk_status task = ST_running then Inl (AppError CONFLICT ''Sync task is already running.'')
      else if tk_status task = ST_completed then Inl (AppError CONFLICT ''Completed sync task cannot be executed again.'')
      else if tk_status task = ST_cancelled then Inl (AppError CONFLICT ''Cancelled sync task cannot be executed.'')
      else Inr ())"

definition requireActiveCredential :: "sync_task_row \<Rightarrow> unit handler" where
  "requireActiveCredential task =
     credential_check ''affiliateAccountId is required for affiliate_income sync task.''
       ''Active affiliate account credential is required before executing sync task.''
       ''provider is required for card_spend sync task.''
       ''Active card provider credential is required before executing sync task.'' task"

definition task_account :: "sync_task_row \<Rightarrow> database \<Rightarrow> affiliate_account option" where
  "task_account task db = (case tk_affiliateAccountId task of None \<Rightarrow> None | Some i \<Rightarrow> find_account i db)"

definition task_adapter :: "sync_task_row \<Rightarrow> affiliate_account option \<Rightarrow> adapter_key outcome" where
  "task_adapter task account =
     resolve_adapter (tk_sourceType task)
       (if tk_sourceType task = affiliate_income then map_option aa_platform account else Some (platform_name (tk_platform task)))
       (tk_provider task)"

definition startable_row :: "sync_task_row \<Rightarrow> sync_task_row \<Rightarrow> bool" where
  "startable_row task r \<longleftrightarrow> tk_id r = tk_id task \<and> tk_status r = tk_status task \<and> tk_leaseOwner r = None"

definition started :: "runtime \<Rightarrow> sync_task_row \<Rightarrow> sync_task_row" where
  "started rt r = r\<lparr>tk_status := ST_running, tk_startedAt := Some (rt_now rt), tk_finishedAt := None, tk_message := None,
     tk_errorMessage := None, tk_updatedAt := rt_now rt\<rparr>"

definition start_update :: "runtime \<Rightarrow> sync_task_row \<Rightarrow> sync_task_row handler" where
  "start_update rt task =
     op_catch (task_update (startable_row task) (started rt))
       (\<lambda>e. op_throw (if e = PrismaKnownError ''P2025'' then AppError CONFLICT ''Sync task was already claimed or changed.'' else e))"

definition hand_run_row :: "string \<Rightarrow> sync_task_row \<Rightarrow> bool" where
  "hand_run_row i r \<longleftrightarrow> tk_id r = i \<and> tk_status r = ST_running \<and> tk_leaseOwner r = None"

definition finished :: "runtime \<Rightarrow> adapter_result \<Rightarrow> sync_task_row \<Rightarrow> sync_task_row" where
  "finished rt result r =
     r\<lparr>tk_status := (if ad_completed result then ST_completed else ST_failed), tk_finishedAt := Some (rt_now rt),
       tk_successCount := ad_successCount result, tk_failedCount := ad_failedCount result, tk_message := ad_message result,
       tk_errorMessage := ad_errorMessage result, tk_lastErrorCategory := ad_errorCategory result, tk_updatedAt := rt_now rt\<rparr>"

definition finish_update :: "runtime \<Rightarrow> string \<Rightarrow> adapter_result \<Rightarrow> sync_task_row handler" where
  "finish_update rt i result = task_update (hand_run_row i) (finished rt result)"

definition EXECUTE :: string where
  "EXECUTE = ''sync_task.execute''"

definition execute_audit :: "actor \<Rightarrow> string \<Rightarrow> int option \<Rightarrow> string list \<Rightarrow> audit_input" where
  "execute_audit actor i m changed = auditInput actor EXECUTE ''sync_tasks'' (Some i) m changed"

definition execute_failure :: "actor \<Rightarrow> string \<Rightarrow> int option \<Rightarrow> app_exception \<Rightarrow> 'a handler" where
  "execute_failure actor i m e =
     (case e of
        AppError code message \<Rightarrow>
          if code = MONTH_LOCKED then op_throw e
          else op_bind (audit_failure ((execute_audit actor i m [])
                 \<lparr>ai_failureReason := Some (error_code_name code), ai_errorMessage := Some message\<rparr>)) (\<lambda>_. op_throw e)
      | _ \<Rightarrow> op_throw e)"

definition execute_body ::
  "runtime \<Rightarrow> (string \<Rightarrow> jsval outcome) \<Rightarrow> adapters \<Rightarrow> sync_task_row \<Rightarrow> actor \<Rightarrow> sync_task_row handler" where
  "execute_body rt decrypt adapters task actor =
     op_bind (op_lift (assertPermission task actor)) (\<lambda>_.
     op_bind (op_lift (assertExecutableStatus task)) (\<lambda>_.
     op_bind (assertWritable \<lparr>mw_settlementMonth = tk_month task, mw_action = EXECUTE, mw_objectType = ''sync_tasks'',
       mw_objectId = Some (tk_id task)\<rparr> (Some actor)) (\<lambda>_.
     op_bind (requireActiveCredential task) (\<lambda>_.
     op_bind (getCredentialPayload decrypt task) (\<lambda>credential.
     op_bind (op_get (task_account task)) (\<lambda>account.
     op_bind (op_lift (task_adapter task account)) (\<lambda>key.
     op_bind (start_update rt task) (\<lambda>runningTask.
     op_bind (adapters key
       \<lparr>cx_task = runningTask,
        cx_affiliateAccountCode =
          (case account of None \<Rightarrow> cp_affiliateAccountCode credential | Some a \<Rightarrow> Some (aa_accountCode a)),
        cx_credentialId = cp_credentialId credential, cx_payload = cp_payload credential\<rparr>) (\<lambda>result.
     op_bind (finish_update rt (tk_id task) result) (\<lambda>finishedTask.
     op_bind (audit_success (execute_audit actor (tk_id task) (Some (tk_month finishedTask))
       [''status'', ''startedAt'', ''finishedAt'', ''successCount'', ''failedCount'', ''message'', ''errorMessage'',
        ''lastErrorCategory''])) (\<lambda>_.
     op_return finishedTask)))))))))))"

definition executeTask ::
  "runtime \<Rightarrow> (string \<Rightarrow> jsval outcome) \<Rightarrow> adapters \<Rightarrow> string \<Rightarrow> actor \<Rightarrow> sync_task_row handler" where
  "executeTask rt decrypt adapters i actor =
     op_bind (op_get (find_task i)) (\<lambda>found.
     case found of
       None \<Rightarrow> execute_failure actor i None (AppError NOT_FOUND ''Sync task not found.'')
     | Some task \<Rightarrow>
         op_catch (execute_body rt decrypt adapters task actor) (execute_failure actor i (Some (tk_month task))))"

end
