(* ===== verification/Sync_Auto_Execution.thy ===== *)
theory Sync_Auto_Execution
  imports Sync_Execution
begin

text \<open>
  \<open>sync-auto-execution.service.ts\<close> and its configuration: the executor every instance of the
  program runs on a timer. One transaction claims a batch of planned tasks under a lease; each
  claimed task is then run by an adapter (a parameter, as in \<open>Sync_Execution\<close>) and finished by a
  conditional update that succeeds only for the holder of the lease.
\<close>

section \<open>Configuration\<close>

record auto_config =
  au_enabled :: bool
  au_pollSeconds :: nat
  au_batchSize :: nat
  au_maxAttempts :: nat
  au_leaseSeconds :: nat
  au_retryBaseSeconds :: nat

type_synonym environment = "string \<Rightarrow> string option"

definition parseInteger :: "string \<Rightarrow> string \<Rightarrow> nat \<Rightarrow> nat \<Rightarrow> nat outcome" where
  "parseInteger value name lo hi =
     (if value = [] \<or> \<not> list_all is_digit value \<or> digits_to_nat value < lo \<or> hi < digits_to_nat value
      then Inl (JsError (name @ '' must be an integer between '' @ nat_string lo @ '' and '' @ nat_string hi @ ''.''))
      else Inr (digits_to_nat value))"

definition env_integer :: "environment \<Rightarrow> string \<Rightarrow> string \<Rightarrow> nat \<Rightarrow> nat \<Rightarrow> nat outcome" where
  "env_integer env name fallback lo hi = parseInteger (or_keep (env name) fallback) name lo hi"

definition env_flag :: "environment \<Rightarrow> string \<Rightarrow> bool outcome" where
  "env_flag env name =
     (let text = or_keep (env name) ''false''
      in if text = ''true'' then Inr True else if text = ''false'' then Inr False
         else Inl (JsError (name @ '' must be true or false.'')))"

definition readSyncAutoExecutionConfig :: "environment \<Rightarrow> auto_config outcome" where
  "readSyncAutoExecutionConfig env =
     bind_res (env_flag env ''SYNC_AUTO_EXECUTION_ENABLED'') (\<lambda>enabled.
     bind_res (env_integer env ''SYNC_AUTO_EXECUTION_POLL_SECONDS'' ''60'' 1 3600) (\<lambda>pollSeconds.
     bind_res (env_integer env ''SYNC_AUTO_EXECUTION_BATCH_SIZE'' ''2'' 1 10) (\<lambda>batchSize.
     bind_res (env_integer env ''SYNC_AUTO_EXECUTION_MAX_ATTEMPTS'' ''3'' 1 5) (\<lambda>maxAttempts.
     bind_res (env_integer env ''SYNC_AUTO_EXECUTION_LEASE_SECONDS'' ''900'' 2 86400) (\<lambda>leaseSeconds.
     bind_res (env_integer env ''SYNC_AUTO_EXECUTION_RETRY_BASE_SECONDS'' ''300'' 1 86400) (\<lambda>retryBaseSeconds.
     if leaseSeconds \<le> pollSeconds
     then Inl (JsError ''SYNC_AUTO_EXECUTION_LEASE_SECONDS must be greater than SYNC_AUTO_EXECUTION_POLL_SECONDS.'')
     else Inr \<lparr>au_enabled = enabled, au_pollSeconds = pollSeconds, au_batchSize = batchSize, au_maxAttempts = maxAttempts,
            au_leaseSeconds = leaseSeconds, au_retryBaseSeconds = retryBaseSeconds\<rparr>))))))"

text \<open>\<open>2 ** Math.max(0, attemptCount - 1)\<close>: subtraction of naturals stops at zero.\<close>

definition retryDelaySeconds :: "nat \<Rightarrow> nat \<Rightarrow> nat" where
  "retryDelaySeconds baseSeconds attemptCount = min (baseSeconds * 2 ^ (attemptCount - 1)) 86400"

section \<open>Claiming\<close>

record claimed_task =
  ct_id :: string
  ct_month :: int
  ct_attemptCount :: nat
  ct_recovered :: bool

text \<open>The two joins: an active account of a supported platform, and an active credential.\<close>

definition runnable_kind :: "database \<Rightarrow> sync_task_row \<Rightarrow> bool" where
  "runnable_kind db r \<longleftrightarrow>
     (if tk_sourceType r = affiliate_income
      then (case task_account r db of
              None \<Rightarrow> False
            | Some a \<Rightarrow> aa_status a = CS_active \<and> js_lower (aa_platform a) \<in> {''everflow'', ''cake''}
                \<and> account_credential_active (aa_id a) db)
      else (case tk_provider r of None \<Rightarrow> False | Some p \<Rightarrow> provider_credential_active p db))"

definition due_status :: "int \<Rightarrow> sync_task_row \<Rightarrow> bool" where
  "due_status now r \<longleftrightarrow>
     tk_status r = ST_pending
     \<or> (tk_status r = ST_retry_wait \<and> (case tk_nextAttemptAt r of None \<Rightarrow> True | Some t \<Rightarrow> t \<le> now))
     \<or> (tk_status r = ST_running \<and> lease_over r now)"

definition claimable :: "auto_config \<Rightarrow> int \<Rightarrow> database \<Rightarrow> sync_task_row \<Rightarrow> bool" where
  "claimable config now db r \<longleftrightarrow>
     tk_triggerType r = TR_scheduled \<and> tk_planningKey r \<noteq> None \<and> tk_attemptCount r < au_maxAttempts config
     \<and> due_status now r \<and> \<not> month_locked (tk_month r) db \<and> runnable_kind db r"

definition claim_row :: "auto_config \<Rightarrow> int \<Rightarrow> string \<Rightarrow> sync_task_row \<Rightarrow> sync_task_row" where
  "claim_row config now instance_id r =
     r\<lparr>tk_status := ST_running, tk_leaseOwner := Some instance_id,
       tk_leaseExpiresAt := Some (now + int (au_leaseSeconds config) * 1000), tk_attemptCount := tk_attemptCount r + 1,
       tk_lastAttemptAt := Some now, tk_nextAttemptAt := None,
       tk_startedAt := Some (or_keep (tk_startedAt r) now), tk_finishedAt := None, tk_updatedAt := now\<rparr>"

text \<open>
  \<open>ORDER BY created_at, id FOR UPDATE SKIP LOCKED LIMIT\<close>: rows another transaction holds at this
  moment are passed over; which they are is a parameter.
\<close>

definition claim_candidates :: "auto_config \<Rightarrow> int \<Rightarrow> (string \<Rightarrow> bool) \<Rightarrow> database \<Rightarrow> sync_task_row list" where
  "claim_candidates config now held db =
     take (au_batchSize config) (filter (\<lambda>r. claimable config now db r \<and> \<not> held (tk_id r)) (sync_tasks db))"

definition auto_audit :: "string \<Rightarrow> string \<Rightarrow> int \<Rightarrow> string list \<Rightarrow> audit_input" where
  "auto_audit action i m changed =
     \<lparr>ai_actorUserId = None, ai_actorRole = None, ai_action = action, ai_objectType = ''sync_tasks'', ai_objectId = Some i,
      ai_settlementMonth = Some m, ai_changedFields = changed, ai_failureReason = None, ai_errorMessage = None\<rparr>"

definition claim_audit :: "claimed_task \<Rightarrow> unit handler" where
  "claim_audit task =
     audit_success (auto_audit (if ct_recovered task then ''sync_task.auto.lease_recovered'' else ''sync_task.auto.claimed'')
       (ct_id task) (ct_month task) [''status'', ''attemptCount'', ''lastAttemptAt''])"

definition claimed_of :: "sync_task_row \<Rightarrow> claimed_task" where
  "claimed_of r = \<lparr>ct_id = tk_id r, ct_month = tk_month r, ct_attemptCount = tk_attemptCount r + 1,
     ct_recovered = (tk_status r = ST_running)\<rparr>"

definition claimTasks :: "auto_config \<Rightarrow> int \<Rightarrow> string \<Rightarrow> (string \<Rightarrow> bool) \<Rightarrow> claimed_task list handler" where
  "claimTasks config now instance_id held =
     op_transaction
       (op_bind (op_get (claim_candidates config now held)) (\<lambda>rows.
        op_bind (op_modify (\<lambda>db. put_tasks (update_rows (\<lambda>r. tk_id r \<in> tk_id ` set rows)
          (claim_row config now instance_id) (sync_tasks db)) db)) (\<lambda>_.
        op_bind (op_iter claim_audit (map claimed_of rows)) (\<lambda>_.
        op_return (map claimed_of rows)))))"

section \<open>Finishing\<close>

definition owned_row :: "string \<Rightarrow> string \<Rightarrow> sync_task_row \<Rightarrow> bool" where
  "owned_row i instance_id r \<longleftrightarrow> tk_id r = i \<and> tk_status r = ST_running \<and> tk_leaseOwner r = Some instance_id"

definition succeeded :: "runtime \<Rightarrow> adapter_result \<Rightarrow> sync_task_row \<Rightarrow> sync_task_row" where
  "succeeded rt result r =
     r\<lparr>tk_status := ST_completed, tk_leaseOwner := None, tk_leaseExpiresAt := None, tk_nextAttemptAt := None,
       tk_lastErrorCategory := None, tk_finishedAt := Some (rt_now rt), tk_successCount := ad_successCount result,
       tk_failedCount := ad_failedCount result, tk_message := ad_message result, tk_errorMessage := None,
       tk_updatedAt := rt_now rt\<rparr>"

definition finishSuccess :: "runtime \<Rightarrow> string \<Rightarrow> claimed_task \<Rightarrow> adapter_result \<Rightarrow> unit handler" where
  "finishSuccess rt instance_id claim result =
     op_transaction
       (op_bind (task_update_many (owned_row (ct_id claim) instance_id) (succeeded rt result)) (\<lambda>count.
        if count = 0 then op_return ()
        else audit_success (auto_audit ''sync_task.auto.succeeded'' (ct_id claim) (ct_month claim) [''status'', ''finishedAt''])))"

definition RETRYABLE :: "sync_error set" where
  "RETRYABLE = {EC_NETWORK_ERROR, EC_TIMEOUT, EC_RATE_LIMITED, EC_PROVIDER_5XX, EC_TEMPORARY_DATABASE_ERROR}"

text \<open>\<open>message.replace(/(keyword|...)\s*[:=]\s*[^\s,;]+/gi, '$1=[REDACTED]').slice(0, 1000)\<close>\<close>

function replace_secrets :: "string \<Rightarrow> string" where
  "replace_secrets [] = []"
| "replace_secrets (c # s) =
     (case match_secret SECRET_KEYWORDS None (c # s) of
        Some (Suc n) \<Rightarrow>
          (case find (starts_with_ci (c # s)) SECRET_KEYWORDS of
             Some kw \<Rightarrow> take (length kw) (c # s) @ ''='' @ REDACTED @ replace_secrets (drop n s)
           | None \<Rightarrow> c # replace_secrets s)
      | _ \<Rightarrow> c # replace_secrets s)"
  by pat_completeness auto
termination
  by (relation "measure length") (auto simp: less_Suc_eq_le)

definition redact :: "string \<Rightarrow> string" where
  "redact message = take 1000 (replace_secrets message)"

definition retries :: "auto_config \<Rightarrow> claimed_task \<Rightarrow> sync_error \<Rightarrow> bool" where
  "retries config claim category \<longleftrightarrow> category \<in> RETRYABLE \<and> ct_attemptCount claim < au_maxAttempts config"

definition failed_row ::
  "auto_config \<Rightarrow> runtime \<Rightarrow> claimed_task \<Rightarrow> sync_error \<Rightarrow> string \<Rightarrow> adapter_result option \<Rightarrow> sync_task_row \<Rightarrow> sync_task_row" where
  "failed_row config rt claim category message result r =
     (let retry = retries config claim category
      in r\<lparr>tk_status := (if retry then ST_retry_wait else ST_failed), tk_leaseOwner := None, tk_leaseExpiresAt := None,
           tk_nextAttemptAt := (if retry
             then Some (rt_now rt + int (retryDelaySeconds (au_retryBaseSeconds config) (ct_attemptCount claim)) * 1000)
             else None),
           tk_lastErrorCategory := Some category, tk_finishedAt := (if retry then None else Some (rt_now rt)),
           tk_successCount := (case result of None \<Rightarrow> 0 | Some x \<Rightarrow> ad_successCount x),
           tk_failedCount := (case result of None \<Rightarrow> 1 | Some x \<Rightarrow> ad_failedCount x),
           tk_message := Some (if retry then ''Automatic sync will retry after a temporary failure.''
             else ''Automatic sync stopped after a non-retryable or final failure.''),
           tk_errorMessage := Some (redact message), tk_updatedAt := rt_now rt\<rparr>)"

definition finishFailure ::
  "auto_config \<Rightarrow> runtime \<Rightarrow> string \<Rightarrow> claimed_task \<Rightarrow> sync_error \<Rightarrow> string \<Rightarrow> adapter_result option \<Rightarrow> unit handler" where
  "finishFailure config rt instance_id claim category message result =
     op_transaction
       (op_bind (task_update_many (owned_row (ct_id claim) instance_id) (failed_row config rt claim category message result)) (\<lambda>count.
        if count = 0 then op_return ()
        else
          let retry = retries config claim category;
              input = (auto_audit (if retry then ''sync_task.auto.retry_scheduled'' else ''sync_task.auto.failed'')
                (ct_id claim) (ct_month claim) [''status'', ''nextAttemptAt'', ''lastErrorCategory''])
                \<lparr>ai_failureReason := Some (sync_error_name category), ai_errorMessage := Some (redact message)\<rparr>
          in if retry then audit_success input else audit_failure input))"

section \<open>Running a claimed task\<close>

definition blockerMessage :: "sync_error \<Rightarrow> string" where
  "blockerMessage category =
     (case category of
        EC_CREDENTIAL_MISSING \<Rightarrow> ''An active credential is required.''
      | EC_CREDENTIAL_INVALID \<Rightarrow> ''The provider rejected the configured credential.''
      | EC_MONTH_LOCKED \<Rightarrow> ''The settlement month is locked.''
      | EC_UNSUPPORTED_PLATFORM \<Rightarrow> ''The affiliate platform is not supported.''
      | EC_UNSUPPORTED_PROVIDER \<Rightarrow> ''The card provider is not supported.''
      | EC_BUSINESS_REJECTED \<Rightarrow> ''The task is no longer eligible for automatic execution.''
      | _ \<Rightarrow> ''Automatic sync execution failed.'')"

definition classifyUnexpected :: "app_exception \<Rightarrow> sync_error" where
  "classifyUnexpected e =
     (if e \<in> PrismaKnownError ` {''P1001'', ''P1002'', ''P2024'', ''P2034''} then EC_TEMPORARY_DATABASE_ERROR
      else EC_VALIDATION_ERROR)"

text \<open>The message of an error; the one of the client library's errors is a parameter.\<close>

definition error_text :: "(string \<Rightarrow> string) \<Rightarrow> app_exception \<Rightarrow> string" where
  "error_text prisma_message e = (case e of PrismaKnownError code \<Rightarrow> prisma_message code | _ \<Rightarrow> exception_message e)"

definition safeErrorMessage :: "(string \<Rightarrow> string) \<Rightarrow> app_exception \<Rightarrow> sync_error \<Rightarrow> string" where
  "safeErrorMessage prisma_message e category =
     (let message = error_text prisma_message e
      in if \<not> list_ex (js_includes (js_lower message)) [''credential'', ''decrypt'', ''secret'', ''token'', ''password'', ''key'']
         then redact message else blockerMessage category)"

definition preExecutionBlocker :: "sync_task_row \<Rightarrow> database \<Rightarrow> sync_error option" where
  "preExecutionBlocker task db =
     (if month_locked (tk_month task) db then Some EC_MONTH_LOCKED
      else if tk_sourceType task = affiliate_income
      then (case task_account task db of
              None \<Rightarrow> Some EC_BUSINESS_REJECTED
            | Some a \<Rightarrow>
                if aa_status a \<noteq> CS_active then Some EC_BUSINESS_REJECTED
                else if js_lower (aa_platform a) \<notin> {''everflow'', ''cake''} then Some EC_UNSUPPORTED_PLATFORM
                else if account_credential_active (aa_id a) db then None else Some EC_CREDENTIAL_MISSING)
      else (case tk_provider task of
              None \<Rightarrow> Some EC_UNSUPPORTED_PROVIDER
            | Some p \<Rightarrow> if provider_credential_active p db then None else Some EC_CREDENTIAL_MISSING))"

definition run_claim ::
  "auto_config \<Rightarrow> runtime \<Rightarrow> string \<Rightarrow> (string \<Rightarrow> jsval outcome) \<Rightarrow> adapters \<Rightarrow> claimed_task \<Rightarrow> unit handler" where
  "run_claim config rt instance_id decrypt adapters claim =
     op_bind (op_get (find_task (ct_id claim))) (\<lambda>found.
     case found of
       None \<Rightarrow> op_return ()
     | Some task \<Rightarrow>
         (if tk_status task \<noteq> ST_running \<or> tk_leaseOwner task \<noteq> Some instance_id then op_return ()
          else
            op_bind (op_get (preExecutionBlocker task)) (\<lambda>blocked.
            case blocked of
              Some blocker \<Rightarrow> finishFailure config rt instance_id claim blocker (blockerMessage blocker) None
            | None \<Rightarrow>
                op_bind (getCredentialPayload decrypt task) (\<lambda>credential.
                op_bind (op_get (task_account task)) (\<lambda>account.
                op_bind (op_lift (task_adapter task account)) (\<lambda>key.
                op_bind (adapters key
                  \<lparr>cx_task = task\<lparr>tk_requestedBy := None, tk_requestPayload := JUndefined\<rparr>,
                   cx_affiliateAccountCode =
                     (case account of None \<Rightarrow> cp_affiliateAccountCode credential | Some a \<Rightarrow> Some (aa_accountCode a)),
                   cx_credentialId = cp_credentialId credential, cx_payload = cp_payload credential\<rparr>) (\<lambda>result.
                if ad_completed result then finishSuccess rt instance_id claim result
                else finishFailure config rt instance_id claim (or_keep (ad_errorCategory result) EC_BUSINESS_REJECTED)
                       (or_keep (ad_errorMessage result) ''Provider sync failed.'') (Some result))))))))"

definition executeClaim ::
  "auto_config \<Rightarrow> runtime \<Rightarrow> string \<Rightarrow> (string \<Rightarrow> jsval outcome) \<Rightarrow> adapters \<Rightarrow> (string \<Rightarrow> string) \<Rightarrow> claimed_task \<Rightarrow> unit handler" where
  "executeClaim config rt instance_id decrypt adapters prisma_message claim =
     op_catch (run_claim config rt instance_id decrypt adapters claim)
       (\<lambda>e. finishFailure config rt instance_id claim (classifyUnexpected e)
              (safeErrorMessage prisma_message e (classifyUnexpected e)) None)"

text \<open>
  The claimed tasks run concurrently; here one after the other, which is one of the orders. The
  step relation of \<open>Sync_Lifecycle\<close> allows any order of their database transactions.
\<close>

definition poll ::
  "auto_config \<Rightarrow> runtime \<Rightarrow> string \<Rightarrow> (string \<Rightarrow> bool) \<Rightarrow> (string \<Rightarrow> jsval outcome) \<Rightarrow> adapters \<Rightarrow> (string \<Rightarrow> string) \<Rightarrow> nat handler" where
  "poll config rt instance_id held decrypt adapters prisma_message =
     (if \<not> au_enabled config then op_return 0
      else
        op_bind (claimTasks config (rt_now rt) instance_id held) (\<lambda>tasks.
        op_bind (op_iter (executeClaim config rt instance_id decrypt adapters prisma_message) tasks) (\<lambda>_.
        op_return (length tasks))))"

section \<open>Status\<close>

record auto_status =
  as_activeLeaseCount :: nat
  as_pendingEligibleCount :: nat
  as_retryWaitingCount :: nat
  as_permanentlyFailedCount :: nat

definition count_tasks :: "(sync_task_row \<Rightarrow> bool) \<Rightarrow> database \<Rightarrow> nat" where
  "count_tasks p db = length (filter p (sync_tasks db))"

definition after :: "int option \<Rightarrow> int \<Rightarrow> bool" where
  "after t now = (case t of None \<Rightarrow> False | Some x \<Rightarrow> x > now)"

definition autoStatus :: "auto_config \<Rightarrow> int \<Rightarrow> auto_status handler" where
  "autoStatus config now =
     op_get (\<lambda>db. \<lparr>
       as_activeLeaseCount = count_tasks (\<lambda>r. tk_status r = ST_running \<and> after (tk_leaseExpiresAt r) now) db,
       as_pendingEligibleCount = count_tasks (\<lambda>r. tk_triggerType r = TR_scheduled \<and> tk_planningKey r \<noteq> None
         \<and> tk_status r = ST_pending \<and> tk_attemptCount r < au_maxAttempts config
         \<and> \<not> month_locked (tk_month r) db \<and> runnable_kind db r) db,
       as_retryWaitingCount = count_tasks (\<lambda>r. tk_triggerType r = TR_scheduled \<and> tk_status r = ST_retry_wait
         \<and> after (tk_nextAttemptAt r) now) db,
       as_permanentlyFailedCount = count_tasks (\<lambda>r. tk_triggerType r = TR_scheduled \<and> tk_status r = ST_failed) db\<rparr>)"

end
