(* ===== verification/Sub_Revenue.thy ===== *)
theory Sub_Revenue
  imports Cake_Adjustments Sync_Auto_Execution
begin

text \<open>
  What the two adapters of affiliate income have in common: the reports are rows of a sub id and
  its revenue, which are added up by sub id, attributed to an employee by the mappings in effect,
  and written as one income record per sub id and month. The provider's client is a parameter, the
  result of one request; so are the printing of numbers by the engine and the time at which the
  database wrote a row of the audit log.
\<close>

section \<open>Parameters\<close>

record ('req, 'res) income_env =
  ie_client :: "'req \<Rightarrow> 'res outcome"
  ie_number_text :: "rat \<Rightarrow> string"
  ie_log_time :: "nat \<Rightarrow> int"
  ie_prisma_message :: "string \<Rightarrow> string"

section \<open>Fields\<close>

text \<open>\<open>String(value)\<close> of a number, the trimmed text of a string that is not blank.\<close>

definition asNonBlank :: "(rat \<Rightarrow> string) \<Rightarrow> jsval \<Rightarrow> string option" where
  "asNonBlank number_text v =
     (case v of
        JNum x \<Rightarrow> Some (number_text x)
      | JString s \<Rightarrow> if js_trim s = [] then None else Some (js_trim s)
      | _ \<Rightarrow> None)"

fun firstNonBlank :: "(rat \<Rightarrow> string) \<Rightarrow> jsval list \<Rightarrow> string option" where
  "firstNonBlank number_text [] = None"
| "firstNonBlank number_text (v # vs) =
     (case asNonBlank number_text v of Some s \<Rightarrow> Some s | None \<Rightarrow> firstNonBlank number_text vs)"

text \<open>\<open>a ?? b\<close>\<close>

definition js_coalesce :: "jsval \<Rightarrow> jsval \<Rightarrow> jsval" where
  "js_coalesce a b = (if is_nullish a then b else a)"

definition number_of_int :: "int \<Rightarrow> string" where
  "number_of_int n = (if n < 0 then CHR ''-'' # nat_string (nat (- n)) else nat_string (nat n))"

text \<open>\<open>String(n).padStart(k, '0')\<close>\<close>

definition pad_start :: "nat \<Rightarrow> int \<Rightarrow> string" where
  "pad_start k n = replicate (k - length (number_of_int n)) (CHR ''0'') @ number_of_int n"

record month_row =
  mr_subValue :: "string option"
  mr_revenueUsd :: rat

definition parse_revenue :: "runtime \<Rightarrow> string \<Rightarrow> string \<Rightarrow> jsval \<Rightarrow> rat outcome" where
  "parse_revenue rt is_missing is_invalid raw =
     (case raw of
        JNum x \<Rightarrow> Inr x
      | JString s \<Rightarrow>
          (if js_trim s = [] then Inl (AppError VALIDATION_ERROR is_missing)
           else case rt_parse_decimal rt s of
                  Some (DecFinite _ x) \<Rightarrow> Inr x
                | _ \<Rightarrow> Inl (AppError VALIDATION_ERROR is_invalid))
      | _ \<Rightarrow> Inl (AppError VALIDATION_ERROR is_missing))"

text \<open>\<open>totals.set(key, current ? { ...row, revenueUsd: current.plus(row) } : row)\<close>, in the order of the first rows.\<close>

definition row_key :: "month_row \<Rightarrow> string" where
  "row_key row = or_keep (mr_subValue row) []"

fun add_month_row :: "(rat \<Rightarrow> rat) \<Rightarrow> month_row \<Rightarrow> month_row list \<Rightarrow> month_row list" where
  "add_month_row rnd row [] = [row]"
| "add_month_row rnd row (current # rest) =
     (if row_key current = row_key row
      then row\<lparr>mr_revenueUsd := dec_plus rnd (mr_revenueUsd current) (mr_revenueUsd row)\<rparr> # rest
      else current # add_month_row rnd row rest)"

definition total_rows :: "runtime \<Rightarrow> month_row list \<Rightarrow> month_row list" where
  "total_rows rt rows = fold (add_month_row (rt_round rt)) rows []"

definition monthlyExternalRecordId :: "runtime \<Rightarrow> string \<Rightarrow> string \<Rightarrow> int \<Rightarrow> string option \<Rightarrow> string" where
  "monthlyExternalRecordId rt source account m subValue =
     source @ '':sub-month:'' @ account @ '':'' @ take 7 (iso_string m) @ '':''
       @ take 24 (rt_sha256_hex rt (or_keep subValue ''(blank)''))"

section \<open>Attribution\<close>

text \<open>The decision the adapters take on the mappings in effect; the employee is a required relation.\<close>

datatype row_attribution = Unattributed string string | Attributed string

definition attribution :: "string \<Rightarrow> effective_mapping list \<Rightarrow> row_attribution" where
  "attribution provider mappings =
     (let activeMappings = filter isActiveEffectiveSubIdMapping mappings;
          employeeIds = js_dedup (map (\<lambda>x. sm_employeeId (fst x)) activeMappings)
      in if mappings = [] \<or> length activeMappings \<noteq> length mappings
         then Unattributed ''SUB_ID_NOT_MAPPED'' (provider @ '' SUB1 is not mapped to an employee.'')
         else if length employeeIds \<noteq> 1
         then Unattributed ''SUB_ID_EMPLOYEE_CONFLICT'' (provider @ '' SUB1 maps to multiple employees.'')
         else if list_ex (\<lambda>x. case snd x of None \<Rightarrow> True | Some e \<Rightarrow> em_status e \<noteq> CS_active) activeMappings
         then Unattributed ''EMPLOYEE_DISABLED'' (provider @ '' SUB1 maps to a disabled employee.'')
         else Attributed (hd employeeIds))"

datatype row_outcome = Row_zero | Row_unmatched | Row_attributed

text \<open>\<open>deleteMany({ where: { source, externalRecordId } })\<close>\<close>

definition has_key :: "string \<Rightarrow> string \<Rightarrow> income_record \<Rightarrow> bool" where
  "has_key source external r \<longleftrightarrow> ir_source r = source \<and> ir_externalRecordId r = Some external"

definition income_delete :: "string \<Rightarrow> string \<Rightarrow> unit handler" where
  "income_delete source external =
     op_modify (\<lambda>db. put_incomes (filter (\<lambda>r. \<not> has_key source external r) (income_records db)) db)"

definition imported_fields :: "runtime \<Rightarrow> sync_task_row \<Rightarrow> string \<Rightarrow> string \<Rightarrow> string \<Rightarrow> string \<Rightarrow> month_row \<Rightarrow> jsval \<Rightarrow> income_record \<Rightarrow> income_record" where
  "imported_fields rt task account employee source external row raw r =
     r\<lparr>ir_month := tk_month task, ir_affiliateAccountId := Some account, ir_employeeId := Some employee,
       ir_source := source, ir_externalRecordId := Some external, ir_subField := Some CAKE_SUB_FIELD,
       ir_subValue := mr_subValue row, ir_incomeUsd := rt_column rt 6 (mr_revenueUsd row), ir_rawData := raw,
       ir_status := CS_confirmed, ir_importedBy := tk_requestedBy task\<rparr>"

definition imported_income :: "runtime \<Rightarrow> sync_task_row \<Rightarrow> string \<Rightarrow> string \<Rightarrow> string \<Rightarrow> string \<Rightarrow> month_row \<Rightarrow> jsval \<Rightarrow> income_record" where
  "imported_income rt task account employee source external row raw =
     \<lparr>ir_id = rt_fresh_id rt 0, ir_month = tk_month task, ir_affiliateAccountId = Some account, ir_employeeId = Some employee,
      ir_source = source, ir_externalRecordId = Some external, ir_subField = Some CAKE_SUB_FIELD,
      ir_subValue = mr_subValue row, ir_incomeUsd = rt_column rt 6 (mr_revenueUsd row), ir_rawData = raw,
      ir_status = CS_confirmed, ir_importedBy = tk_requestedBy task\<rparr>"

definition unmatched_row :: "runtime \<Rightarrow> sync_task_row \<Rightarrow> string \<Rightarrow> string \<Rightarrow> month_row \<Rightarrow> string \<Rightarrow> string \<Rightarrow> unmatched_input" where
  "unmatched_row rt task platform external row reasonCode reasonMessage =
     \<lparr>un_settlementMonth = JDate (Some (tk_month task)), un_sourceType = ''affiliate_income'',
      un_taskType = ''affiliate_income'', un_platform = Some platform, un_provider = None,
      un_affiliateAccountId = tk_affiliateAccountId task, un_syncTaskId = Some (tk_id task),
      un_thirdPartyEventId = Some external, un_reasonCode = reasonCode, un_reasonMessage = Some reasonMessage,
      un_subField = Some CAKE_SUB_FIELD, un_subValue = mr_subValue row, un_cardId = None, un_cardLast4 = None,
      un_cardEmail = None, un_amountUsd = Some (mr_revenueUsd row), un_currency = None, un_occurredAt = None,
      un_rawSafeData = JObject
        [(''subField'', JString CAKE_SUB_FIELD), (''subValue'', jstr_or_null (mr_subValue row)),
         (''amount'', JString (rt_show_decimal rt (mr_revenueUsd row))), (''currency'', JString ''USD'')],
      un_rawData = JUndefined\<rparr>"

definition income_report :: "sync_task_row \<Rightarrow> sync_platform \<Rightarrow> string \<Rightarrow> string \<Rightarrow> string \<Rightarrow> string \<Rightarrow> import_report" where
  "income_report task platform account external subValue employee =
     \<lparr>mt_settlementMonth = JDate (Some (tk_month task)), mt_thirdPartyEventId = external, mt_employeeId = employee,
      mt_resolvedBy = tk_requestedBy task, mt_target = Income_import platform account CAKE_SUB_FIELD subValue\<rparr>"

section \<open>The loop over the rows\<close>

text \<open>Each row creates at most one record; the identifiers of the rows of a loop are different.\<close>

definition ids_from :: "nat \<Rightarrow> runtime \<Rightarrow> runtime" where
  "ids_from n rt = rt\<lparr>rt_fresh_id := \<lambda>k. rt_fresh_id rt (n + k)\<rparr>"

fun import_rows :: "(runtime \<Rightarrow> month_row \<Rightarrow> row_outcome handler) \<Rightarrow> runtime \<Rightarrow> month_row list \<Rightarrow> row_outcome list handler" where
  "import_rows f rt [] = op_return []"
| "import_rows f rt (row # rows) =
     op_bind (f rt row) (\<lambda>x. op_bind (import_rows f (ids_from 1 rt) rows) (\<lambda>xs. op_return (x # xs)))"

section \<open>Calibration\<close>

text \<open>
  The latest calibration entry of the account since its credential was last written; of entries
  with the same time the database may return either, here the later one.
\<close>

definition calibration_entry :: "string \<Rightarrow> string \<Rightarrow> string \<Rightarrow> audit_log \<Rightarrow> bool" where
  "calibration_entry pass_action read_action account a \<longleftrightarrow>
     al_action a \<in> {pass_action, read_action} \<and> al_objectType a = ''affiliate_accounts''
     \<and> al_objectId a = Some account \<and> al_result a = AR_success"

definition hasCurrentCalibration :: "string \<Rightarrow> string \<Rightarrow> (nat \<Rightarrow> int) \<Rightarrow> string \<Rightarrow> database \<Rightarrow> bool" where
  "hasCurrentCalibration pass_action read_action log_time account db =
     (case find_account_credential account db of
        None \<Rightarrow> False
      | Some credential \<Rightarrow>
          (case rev (sort_key (\<lambda>(n, a). log_time n)
              (filter (\<lambda>(n, a). calibration_entry pass_action read_action account a \<and> lc_updatedAt credential \<le> log_time n)
                (enumerate 0 (audit_logs db)))) of
             [] \<Rightarrow> False
           | (n, a) # _ \<Rightarrow> al_action a = pass_action))"

section \<open>Results\<close>

definition providerErrorCategory :: "app_exception \<Rightarrow> sync_error" where
  "providerErrorCategory e =
     (case e of ProviderRequestError p \<Rightarrow> pe_category p | _ \<Rightarrow>
      if e \<in> PrismaKnownError ` {''P1001'', ''P1002'', ''P2024'', ''P2034''} then EC_TEMPORARY_DATABASE_ERROR
      else EC_BUSINESS_REJECTED)"

definition failed_result :: "string \<Rightarrow> sync_error \<Rightarrow> adapter_result" where
  "failed_result message category =
     \<lparr>ad_completed = False, ad_successCount = 0, ad_failedCount = 1, ad_message = Some message,
      ad_errorMessage = Some message, ad_errorCategory = Some category\<rparr>"

definition count_outcome :: "row_outcome \<Rightarrow> row_outcome list \<Rightarrow> nat" where
  "count_outcome x xs = length (filter (\<lambda>y. y = x) xs)"

definition completed_result :: "string \<Rightarrow> nat \<Rightarrow> row_outcome list \<Rightarrow> adapter_result" where
  "completed_result title pulled xs =
     (let attributed = count_outcome Row_attributed xs; unmatched = count_outcome Row_unmatched xs;
          zero = count_outcome Row_zero xs
      in \<lparr>ad_completed = True, ad_successCount = attributed, ad_failedCount = unmatched,
          ad_message = Some (title @ '' completed: pulled='' @ nat_string pulled @ '', positive='' @ nat_string (attributed + unmatched)
            @ '', attributed='' @ nat_string attributed @ '', unmatched='' @ nat_string unmatched @ '', zero='' @ nat_string zero @ ''.''),
          ad_errorMessage = None, ad_errorCategory = None\<rparr>)"

definition caught_failure :: "(string \<Rightarrow> string) \<Rightarrow> app_exception \<Rightarrow> adapter_result" where
  "caught_failure prisma_message e = failed_result (error_text prisma_message e) (providerErrorCategory e)"

end
