(* ===== verification/Cake_Sync.thy ===== *)
theory Cake_Sync
  imports Sub_Revenue
begin

text \<open>
  \<open>cake-income-sync.adapter.ts\<close> and the parsing of the responses of \<open>cake-client.ts\<close>: the monthly
  revenue per sub id of a CAKE account, imported in one transaction. A row whose base income
  changes or goes away makes the adjustment of its sub id a stale draft again.
\<close>

section \<open>Response\<close>

record summary_response =
  sr_rows :: "(string \<times> jsval) list list"
  sr_rowCount :: "rat option"

definition only_records :: "jsval list \<Rightarrow> (string \<times> jsval) list list" where
  "only_records vs = concat (map (\<lambda>v. case asRecord v of Some kvs \<Rightarrow> [kvs] | None \<Rightarrow> []) vs)"

fun first_rows :: "jsval list \<Rightarrow> (string \<times> jsval) list list" where
  "first_rows [] = []"
| "first_rows (c # cs) =
     (case c of JArray vs \<Rightarrow> only_records vs
      | _ \<Rightarrow> (case asRecord c of Some kvs \<Rightarrow> [kvs] | None \<Rightarrow> first_rows cs))"

definition extractRows :: "jsval \<Rightarrow> (string \<times> jsval) list list" where
  "extractRows raw =
     (case raw of
        JArray vs \<Rightarrow> only_records vs
      | _ \<Rightarrow>
          (case asRecord raw of
             None \<Rightarrow> []
           | Some r \<Rightarrow>
               (let nested = (\<lambda>k. case asRecord (js_get r ''data'') of None \<Rightarrow> JUndefined | Some d \<Rightarrow> js_get d k)
                in first_rows
                  [js_get r ''subAffiliates'', js_get r ''SubAffiliates'', js_get r ''sub_affiliates'', js_get r ''SubAffiliate'',
                   js_get r ''rows'', js_get r ''Rows'', nested ''subAffiliates'', nested ''SubAffiliate'', nested ''rows'',
                   js_get r ''data''])))"

definition extractRowCount :: "jsval \<Rightarrow> rat option" where
  "extractRowCount raw =
     (case asRecord raw of
        None \<Rightarrow> None
      | Some r \<Rightarrow> (case js_coalesce (js_get r ''row_count'') (js_get r ''rowCount'') of JNum x \<Rightarrow> Some x | _ \<Rightarrow> None))"

text \<open>The part of \<open>getSubAffiliateSummary\<close> after the request: the parsed body of the response.\<close>

definition summary_of_body :: "jsval \<Rightarrow> summary_response" where
  "summary_of_body raw = \<lparr>sr_rows = extractRows raw, sr_rowCount = extractRowCount raw\<rparr>"

definition normalizeCakeSummaryRow :: "runtime \<Rightarrow> (rat \<Rightarrow> string) \<Rightarrow> (string \<times> jsval) list \<Rightarrow> month_row outcome" where
  "normalizeCakeSummaryRow rt number_text raw =
     bind_res (parse_revenue rt ''CAKE SubAffiliateSummary row is missing revenue.''
       ''CAKE SubAffiliateSummary row has invalid revenue.'' (js_coalesce (js_get raw ''revenue'') (js_get raw ''Revenue''))) (\<lambda>x.
     Inr \<lparr>mr_subValue = firstNonBlank number_text [js_get raw ''sub_id'', js_get raw ''SubId'', js_get raw ''subid'', js_get raw ''SubID''],
          mr_revenueUsd = x\<rparr>)"

definition cake_aggregateRows :: "runtime \<Rightarrow> (rat \<Rightarrow> string) \<Rightarrow> (string \<times> jsval) list list \<Rightarrow> month_row list outcome" where
  "cake_aggregateRows rt number_text rawRows =
     bind_res (res_map (normalizeCakeSummaryRow rt number_text) rawRows) (\<lambda>rows. Inr (total_rows rt rows))"

section \<open>Request\<close>

record cake_credential =
  kc_apiKey :: string
  kc_baseUrl :: string
  kc_conversionsPath :: "string option"

definition cake_parseCredentialPayload :: "(rat \<Rightarrow> string) \<Rightarrow> jsval \<Rightarrow> cake_credential outcome" where
  "cake_parseCredentialPayload number_text payload =
     (case asRecord payload of
        None \<Rightarrow> Inl (AppError VALIDATION_ERROR ''CAKE credential payload is required.'')
      | Some r \<Rightarrow>
          (case firstNonBlank number_text [js_get r ''apiKey''] of
             None \<Rightarrow> Inl (AppError VALIDATION_ERROR ''CAKE credential apiKey is required.'')
           | Some apiKey \<Rightarrow>
               (case firstNonBlank number_text [js_get r ''baseUrl''] of
                  None \<Rightarrow> Inl (AppError VALIDATION_ERROR ''CAKE credential baseUrl is required.'')
                | Some baseUrl \<Rightarrow>
                    Inr \<lparr>kc_apiKey = apiKey, kc_baseUrl = baseUrl,
                         kc_conversionsPath = firstNonBlank number_text [js_get r ''conversionsPath'']\<rparr>)))"

text \<open>\<open>`${year}-${pad2(month)}-${pad2(day)}`\<close> of a date that is not valid prints NaN.\<close>

definition cake_formatDate :: "int \<Rightarrow> int \<Rightarrow> int \<Rightarrow> string" where
  "cake_formatDate year month day =
     (case date_UTC year (month - 1) day of
        None \<Rightarrow> ''NaN-NaN-NaN''
      | Some t \<Rightarrow> number_of_int (getUTCFullYear t) @ ''-'' @ pad_start 2 (getUTCMonth t + 1) @ ''-'' @ pad_start 2 (getUTCDate t))"

definition getCakeProviderDefaultSettlementMonthWindow :: "int \<Rightarrow> string \<times> string" where
  "getCakeProviderDefaultSettlementMonthWindow settlementMonth =
     (let year = getUTCFullYear settlementMonth; month = getUTCMonth settlementMonth
      in (cake_formatDate year (month + 1) 1 @ ''T00:00:00'', cake_formatDate year (month + 2) 1 @ ''T00:00:00''))"

record summary_request =
  sq_credential :: cake_credential
  sq_affiliateId :: string
  sq_startDate :: string
  sq_endDate :: string

type_synonym cake_env = "(summary_request, summary_response) income_env"

definition cake_assertContext :: "adapter_context \<Rightarrow> (string \<times> string) outcome" where
  "cake_assertContext cx =
     (let task = cx_task cx
      in if tk_sourceType task \<noteq> affiliate_income \<or> tk_taskType task \<noteq> TT_affiliate_income
         then Inl (AppError VALIDATION_ERROR ''CAKE adapter only supports affiliate_income sync tasks.'')
         else if tk_platform task \<noteq> P_cake then Inl (AppError VALIDATION_ERROR ''affiliateAccount.platform must be cake.'')
         else if or_keep (tk_affiliateAccountId task) [] = []
         then Inl (AppError VALIDATION_ERROR ''affiliateAccountId is required for CAKE income sync.'')
         else if js_trim (or_keep (cx_affiliateAccountCode cx) []) = []
         then Inl (AppError VALIDATION_ERROR ''CAKE affiliate_id must come from affiliateAccount.accountCode.'')
         else Inr (or_keep (tk_affiliateAccountId task) [], or_keep (cx_affiliateAccountCode cx) []))"

section \<open>Adjustments\<close>

text \<open>\<open>{ ...kvs, ...changes }\<close>: a key that is there keeps its place.\<close>

definition js_put :: "string \<times> jsval \<Rightarrow> (string \<times> jsval) list \<Rightarrow> (string \<times> jsval) list" where
  "js_put kv kvs = (if fst kv \<in> fst ` set kvs then map (\<lambda>x. if fst x = fst kv then kv else x) kvs else kvs @ [kv])"

definition js_spread :: "(string \<times> jsval) list \<Rightarrow> (string \<times> jsval) list \<Rightarrow> (string \<times> jsval) list" where
  "js_spread kvs changes = fold js_put changes kvs"

text \<open>
  A decimal in the metadata of an adjustment. One that is not finite, which no service writes,
  prints itself as a previous base and is refused by the database as part of an amount.
\<close>

definition metadata_decimal :: "runtime \<Rightarrow> string \<Rightarrow> parsed_decimal outcome" where
  "metadata_decimal rt s =
     (case rt_parse_decimal rt s of None \<Rightarrow> Inl (JsError (''[DecimalError] Invalid argument: '' @ s)) | Some d \<Rightarrow> Inr d)"

definition stale_metadata :: "runtime \<Rightarrow> bool \<Rightarrow> string \<Rightarrow> rat \<Rightarrow> rat \<Rightarrow> jsval \<Rightarrow> jsval" where
  "stale_metadata rt baseUnavailable previous_text revenue targetRevenue rawData =
     JObject (js_spread (case rawData of JObject kvs \<Rightarrow> kvs | _ \<Rightarrow> [])
       [(''baseRevenueUsd'', JString (rt_show_decimal rt revenue)),
        (''adjustmentUsd'', JString (rt_show_decimal rt (dec_minus (rt_round rt) targetRevenue revenue))),
        (''beforeRevenueUsd'', JString (rt_show_decimal rt revenue)),
        (''afterRevenueUsd'', JString (rt_show_decimal rt targetRevenue)),
        (''stale'', JBool True),
        (''staleReason'', JString (if baseUnavailable then ''cake_base_unavailable'' else ''cake_base_revenue_changed'')),
        (''previousBaseRevenueUsd'', JString previous_text),
        (''currentBaseRevenueUsd'', JString (rt_show_decimal rt revenue))])"

definition stale_audit :: "sync_task_row \<Rightarrow> bool \<Rightarrow> string \<Rightarrow> audit_input" where
  "stale_audit task baseUnavailable i =
     \<lparr>ai_actorUserId = tk_requestedBy task, ai_actorRole = None,
      ai_action = (if baseUnavailable then ''cake_income_adjustment.base_unavailable_stale''
        else ''cake_income_adjustment.base_changed_stale''),
      ai_objectType = ''income_records'', ai_objectId = Some i, ai_settlementMonth = Some (tk_month task),
      ai_changedFields = [''incomeUsd'', ''rawData'', ''status''], ai_failureReason = None, ai_errorMessage = None\<rparr>"

definition find_adjustment :: "runtime \<Rightarrow> string \<Rightarrow> int \<Rightarrow> string \<Rightarrow> database \<Rightarrow> income_record option" where
  "find_adjustment rt account m subValue db =
     find_row (has_key CAKE_ADJUSTMENT_SOURCE (cakeAdjustmentExternalRecordId rt account m subValue)) (income_records db)"

definition markAdjustmentStaleWhenBaseChanges :: "runtime \<Rightarrow> sync_task_row \<Rightarrow> string \<Rightarrow> month_row \<Rightarrow> bool \<Rightarrow> unit handler" where
  "markAdjustmentStaleWhenBaseChanges rt task account row baseUnavailable =
     (case mr_subValue row of
        None \<Rightarrow> op_return ()
      | Some subValue \<Rightarrow>
          op_bind (op_get (find_adjustment rt account (tk_month task) subValue)) (\<lambda>found.
          case found of
            None \<Rightarrow> op_return ()
          | Some adjustment \<Rightarrow>
              if ir_status adjustment = CS_disabled then op_return ()
              else
                (case readCakeAdjustmentMetadata (ir_rawData adjustment) of
                   None \<Rightarrow> op_return ()
                 | Some metadata \<Rightarrow>
                     op_bind (op_lift (metadata_decimal rt (cm_baseRevenueUsd metadata))) (\<lambda>previousBase.
                     if \<not> baseUnavailable \<and> (case previousBase of DecFinite _ x \<Rightarrow> x = mr_revenueUsd row | DecNotFinite \<Rightarrow> False)
                     then op_return ()
                     else
                       op_bind (op_lift (metadata_decimal rt (cm_targetRevenueUsd metadata))) (\<lambda>target.
                       case target of
                         DecNotFinite \<Rightarrow> op_throw prisma_validation_error
                       | DecFinite _ targetRevenue \<Rightarrow>
                           op_bind (income_set (ir_id adjustment) (\<lambda>r. r
                             \<lparr>ir_incomeUsd := rt_column rt 6 (dec_minus (rt_round rt) targetRevenue (mr_revenueUsd row)),
                              ir_rawData := stale_metadata rt baseUnavailable
                                (case previousBase of DecFinite _ x \<Rightarrow> rt_show_decimal rt x | DecNotFinite \<Rightarrow> cm_baseRevenueUsd metadata)
                                (mr_revenueUsd row) targetRevenue (ir_rawData adjustment),
                              ir_status := CS_draft, ir_importedBy := tk_requestedBy task\<rparr>)) (\<lambda>_.
                           audit_success (stale_audit task baseUnavailable (ir_id adjustment))))))))"

section \<open>One row\<close>

definition cake_safeRawData :: "runtime \<Rightarrow> sync_task_row \<Rightarrow> month_row \<Rightarrow> jsval" where
  "cake_safeRawData rt task row =
     JObject
       [(''report'', JString ''monthly_revenue_by_sub1''), (''settlementMonth'', JString (take 7 (iso_string (tk_month task)))),
        (''subField'', JString CAKE_SUB_FIELD), (''subValue'', jstr_or_null (mr_subValue row)),
        (''revenueUsd'', JString (rt_show_decimal rt (mr_revenueUsd row))), (''providerTimezone'', JString ''cake_system_default''),
        (''requestedSettlementTimezone'', JString ''Asia/Shanghai''), (''explicitTimezoneSupported'', JBool False),
        (''manualCstAdjustmentRequired'', JBool True)]"

definition cake_unmatched :: "runtime \<Rightarrow> sync_task_row \<Rightarrow> string \<Rightarrow> month_row \<Rightarrow> string \<Rightarrow> string \<Rightarrow> row_outcome handler" where
  "cake_unmatched rt task external row reasonCode reasonMessage =
     op_bind (recordUnmatchedEvent rt (unmatched_row rt task ''cake'' external row reasonCode reasonMessage)) (\<lambda>_.
     op_return Row_unmatched)"

definition cake_row :: "sync_task_row \<Rightarrow> string \<Rightarrow> runtime \<Rightarrow> month_row \<Rightarrow> row_outcome handler" where
  "cake_row task account rt row =
     (let external = monthlyExternalRecordId rt CAKE_BASE_SOURCE account (tk_month task) (mr_subValue row);
          stale = markAdjustmentStaleWhenBaseChanges rt task account row
      in if mr_revenueUsd row = 0
         then op_bind (income_delete CAKE_BASE_SOURCE external) (\<lambda>_. op_bind (stale True) (\<lambda>_. op_return Row_zero))
         else case mr_subValue row of
           None \<Rightarrow>
             op_bind (income_delete CAKE_BASE_SOURCE external) (\<lambda>_.
             cake_unmatched rt task external row ''SUB_ID_MISSING'' ''CAKE SubAffiliateSummary revenue row has no SUB1 value.'')
         | Some subValue \<Rightarrow>
             op_bind (resolveEffectiveSubIdMappings (sub_query account (tk_month task) (Some subValue))) (\<lambda>mappings.
             case attribution ''CAKE'' mappings of
               Unattributed reasonCode reasonMessage \<Rightarrow>
                 op_bind (income_delete CAKE_BASE_SOURCE external) (\<lambda>_.
                 op_bind (stale True) (\<lambda>_.
                 cake_unmatched rt task external row reasonCode reasonMessage))
             | Attributed employee \<Rightarrow>
                 op_bind (income_upsert CAKE_BASE_SOURCE external
                   (imported_income rt task account employee CAKE_BASE_SOURCE external row (cake_safeRawData rt task row))
                   (imported_fields rt task account employee CAKE_BASE_SOURCE external row (cake_safeRawData rt task row))) (\<lambda>_.
                 op_bind (stale False) (\<lambda>_.
                 op_bind (resolveAfterSuccessfulImport rt (income_report task P_cake account external subValue employee)) (\<lambda>_.
                 op_return Row_attributed)))))"

section \<open>The adapter\<close>

definition CAKE_CALIBRATION_PASS :: string where
  "CAKE_CALIBRATION_PASS = ''cake.monthly_sub_revenue.default_timezone.calibration.pass''"

definition CAKE_CALIBRATION_READ :: string where
  "CAKE_CALIBRATION_READ = ''cake.monthly_sub_revenue.calibration.read''"

definition cake_hasCurrentCalibration :: "(nat \<Rightarrow> int) \<Rightarrow> string \<Rightarrow> database \<Rightarrow> bool" where
  "cake_hasCurrentCalibration = hasCurrentCalibration CAKE_CALIBRATION_PASS CAKE_CALIBRATION_READ"

definition cake_import :: "cake_env \<Rightarrow> runtime \<Rightarrow> sync_task_row \<Rightarrow> string \<Rightarrow> summary_response \<Rightarrow> adapter_result handler" where
  "cake_import env rt task account response =
     (if (case sr_rowCount response of None \<Rightarrow> False | Some n \<Rightarrow> n > of_nat (length (sr_rows response)))
      then op_return (failed_result ''CAKE returned an incomplete SubAffiliateSummary; no income was written.'' EC_BUSINESS_REJECTED)
      else
        op_bind (op_lift (cake_aggregateRows rt (ie_number_text env) (sr_rows response))) (\<lambda>rows.
        op_bind (op_transaction (import_rows (cake_row task account) rt rows)) (\<lambda>xs.
        op_return (completed_result ''CAKE monthly SubAffiliate revenue sync'' (length (sr_rows response)) xs))))"

definition cake_execute :: "cake_env \<Rightarrow> runtime \<Rightarrow> adapter_context \<Rightarrow> adapter_result handler" where
  "cake_execute env rt cx =
     op_bind (op_lift (cake_assertContext cx)) (\<lambda>(account, affiliateId).
     op_bind (op_lift (cake_parseCredentialPayload (ie_number_text env) (cx_payload cx))) (\<lambda>credential.
     op_bind (op_get (cake_hasCurrentCalibration (ie_log_time env) account)) (\<lambda>ok.
     if \<not> ok
     then op_return (failed_result
            ''CAKE monthly SubAffiliate revenue sync is blocked until current credentials pass read-only calibration.'' EC_BUSINESS_REJECTED)
     else
       (let window = getCakeProviderDefaultSettlementMonthWindow (tk_month (cx_task cx))
        in case ie_client env \<lparr>sq_credential = credential, sq_affiliateId = affiliateId,
               sq_startDate = fst window, sq_endDate = snd window\<rparr> of
             Inl e \<Rightarrow> op_return (caught_failure (ie_prisma_message env) e)
           | Inr response \<Rightarrow>
               op_catch (cake_import env rt (cx_task cx) account response)
                 (\<lambda>e. op_return (caught_failure (ie_prisma_message env) e))))))"

end
