(* ===== verification/Everflow_Sync.thy ===== *)
theory Everflow_Sync
  imports Sub_Revenue
begin

text \<open>
  \<open>everflow-income-sync.adapter.ts\<close>: the monthly revenue per sub id of an Everflow account. The
  report is asked for in a GMT+8 timezone of the provider's list; its rows are written one by one,
  outside a transaction. What the responses hold has the types the client declares; conversion
  of texts to numbers and the time zone data of the engine are parameters.
\<close>

section \<open>Timezone\<close>

record everflow_timezone =
  tz_timezone_id :: "rat option"
  tz_timezone_name :: "string option"
  tz_timezone :: "string option"
  tz_utc_offset :: "string option"

record engine =
  en_number :: "string \<Rightarrow> rat option"
  en_stable_gmt8 :: "string \<Rightarrow> bool"

record timezone_choice =
  tc_timezoneId :: rat
  tc_name :: string
  tc_utcOffset :: string

text \<open>\<open>/^([+-]?)(\d{1,2}):(\d{2})(?::\d{2})?$/\<close> and \<open>/^([+-]?)(0\d)(\d{2})$/\<close>\<close>

definition split_sign :: "string \<Rightarrow> rat \<times> string" where
  "split_sign s =
     (case s of [] \<Rightarrow> (1, [])
      | c # r \<Rightarrow> if c = CHR ''-'' then (- 1, r) else if c = CHR ''+'' then (1, r) else (1, s))"

definition clock_minutes :: "string \<Rightarrow> string \<Rightarrow> rat" where
  "clock_minutes hours minutes = of_nat (digits_to_nat hours * 60 + digits_to_nat minutes)"

definition match_clock :: "string \<Rightarrow> rat option" where
  "match_clock s =
     (let (sign, r) = split_sign s; h = takeWhile is_digit r; rest = dropWhile is_digit r;
          m = take 2 (tl rest); seconds = drop 3 rest
      in if length h \<in> {1, 2} \<and> rest \<noteq> [] \<and> hd rest = CHR '':'' \<and> length m = 2 \<and> list_all is_digit m
           \<and> (seconds = [] \<or> (length seconds = 3 \<and> hd seconds = CHR '':'' \<and> list_all is_digit (tl seconds)))
         then Some (sign * clock_minutes h m) else None)"

definition match_compact_clock :: "string \<Rightarrow> rat option" where
  "match_compact_clock s =
     (let (sign, r) = split_sign s
      in if length r = 4 \<and> list_all is_digit r \<and> hd r = CHR ''0''
         then Some (sign * clock_minutes (take 2 r) (drop 2 r)) else None)"

definition strip_zone_name :: "string \<Rightarrow> string" where
  "strip_zone_name s = (if take 3 s = ''UTC'' \<or> take 3 s = ''GMT'' then drop 3 s else s)"

definition parseUtcOffsetMinutes :: "engine \<Rightarrow> string \<Rightarrow> rat option" where
  "parseUtcOffsetMinutes en value =
     (let normalized = strip_zone_name (js_upper (filter (\<lambda>c. \<not> is_js_space c) value))
      in if normalized = [] then None
         else case match_clock normalized of
           Some x \<Rightarrow> Some x
         | None \<Rightarrow>
             (case match_compact_clock normalized of
                Some x \<Rightarrow> Some x
              | None \<Rightarrow>
                  (case en_number en normalized of
                     None \<Rightarrow> None
                   | Some n \<Rightarrow>
                       if \<bar>n\<bar> \<le> 24 then Some (n * 60)
                       else if \<bar>n\<bar> \<le> 24 * 60 then Some n
                       else if \<bar>n\<bar> \<le> 24 * 60 * 60 then Some (n / 60)
                       else None)))"

definition timezonePriority :: "string \<Rightarrow> nat" where
  "timezonePriority name =
     (let has = js_includes (js_lower name)
      in if has ''asia/shanghai'' then 0
         else if has ''china standard time'' then 1
         else if has ''china'' \<or> has ''beijing'' \<or> has ''chongqing'' then 2
         else if has ''hong kong'' then 3
         else 4)"

text \<open>\<open>[a, b].filter(Boolean).join(' / ').trim()\<close>\<close>

definition joined_names :: "string option \<Rightarrow> string option \<Rightarrow> string" where
  "joined_names a b =
     (let names = filter (\<lambda>s. s \<noteq> []) [or_keep a [], or_keep b []]
      in js_trim (case names of [x, y] \<Rightarrow> x @ '' / '' @ y | [x] \<Rightarrow> x | _ \<Rightarrow> []))"

definition timezone_candidate :: "engine \<Rightarrow> (rat \<Rightarrow> string) \<Rightarrow> everflow_timezone \<Rightarrow> timezone_choice list" where
  "timezone_candidate en number_text tz =
     (let name = joined_names (tz_timezone_name tz) (tz_timezone tz);
          utcOffset = js_trim (or_keep (tz_utc_offset tz) []);
          offsetMinutes = parseUtcOffsetMinutes en utcOffset;
          ianaGmt8 = (case tz_timezone tz of None \<Rightarrow> False | Some s \<Rightarrow> s \<noteq> [] \<and> en_stable_gmt8 en s);
          gmt8Confirmed = (offsetMinutes = Some 480 \<or> (offsetMinutes = None \<and> ianaGmt8))
      in case tz_timezone_id tz of
           None \<Rightarrow> []
         | Some i \<Rightarrow>
             if i = of_int \<lfloor>i\<rfloor> \<and> gmt8Confirmed
             then [\<lparr>tc_timezoneId = i, tc_name = (if name = [] then ''timezone:'' @ number_text i else name), tc_utcOffset = utcOffset\<rparr>]
             else [])"

definition resolveEverflowGmt8Timezone :: "engine \<Rightarrow> (rat \<Rightarrow> string) \<Rightarrow> everflow_timezone list \<Rightarrow> timezone_choice option" where
  "resolveEverflowGmt8Timezone en number_text timezones =
     (case sort_key (\<lambda>c. timezonePriority (tc_name c)) (sort_key tc_timezoneId (concat (map (timezone_candidate en number_text) timezones))) of
        [] \<Rightarrow> None | c # _ \<Rightarrow> Some c)"

section \<open>Report\<close>

record reporting_column =
  rc_column_type :: "string option"
  rc_id :: jsval
  rc_label :: jsval

record revenue_row =
  rw_columns :: "reporting_column list option"
  rw_reporting :: "(string \<times> jsval) list option"

record revenue_response =
  rr_table :: "revenue_row list option"
  rr_incomplete_results :: bool

definition revenue_column :: "revenue_row \<Rightarrow> reporting_column option" where
  "revenue_column row =
     (let columns = or_keep (rw_columns row) []
      in case find (\<lambda>c. map_option js_lower (rc_column_type c) = Some ''sub1'') columns of
           Some c \<Rightarrow> Some c
         | None \<Rightarrow> (case columns of [] \<Rightarrow> None | c # _ \<Rightarrow> Some c))"

definition normalizeEverflowSummaryRow :: "runtime \<Rightarrow> (rat \<Rightarrow> string) \<Rightarrow> revenue_row \<Rightarrow> month_row outcome" where
  "normalizeEverflowSummaryRow rt number_text row =
     bind_res (parse_revenue rt ''Everflow aggregate row is missing reporting.revenue.''
       ''Everflow aggregate row has invalid reporting.revenue.''
       (case rw_reporting row of None \<Rightarrow> JUndefined | Some kvs \<Rightarrow> js_get kvs ''revenue'')) (\<lambda>x.
     Inr \<lparr>mr_subValue = (case revenue_column row of None \<Rightarrow> None | Some c \<Rightarrow> firstNonBlank number_text [rc_id c, rc_label c]),
          mr_revenueUsd = x\<rparr>)"

definition everflow_aggregateRows :: "runtime \<Rightarrow> (rat \<Rightarrow> string) \<Rightarrow> revenue_row list \<Rightarrow> month_row list outcome" where
  "everflow_aggregateRows rt number_text rawRows =
     bind_res (res_map (normalizeEverflowSummaryRow rt number_text) rawRows) (\<lambda>rows. Inr (total_rows rt rows))"

section \<open>Request\<close>

record everflow_credential =
  fc_apiKey :: string
  fc_baseUrl :: "string option"

definition everflow_parseCredentialPayload :: "(rat \<Rightarrow> string) \<Rightarrow> jsval \<Rightarrow> everflow_credential outcome" where
  "everflow_parseCredentialPayload number_text payload =
     (case asRecord payload of
        None \<Rightarrow> Inl (AppError VALIDATION_ERROR ''Everflow credential payload is required.'')
      | Some r \<Rightarrow>
          (case asNonBlank number_text (js_get r ''apiKey'') of
             None \<Rightarrow> Inl (AppError VALIDATION_ERROR ''Everflow credential apiKey is required.'')
           | Some apiKey \<Rightarrow> Inr \<lparr>fc_apiKey = apiKey, fc_baseUrl = asNonBlank number_text (js_get r ''baseUrl'')\<rparr>))"

definition everflow_formatDate :: "int \<Rightarrow> int \<Rightarrow> int \<Rightarrow> string" where
  "everflow_formatDate year month day = pad_start 4 year @ ''-'' @ pad_start 2 month @ ''-'' @ pad_start 2 day"

record settlement_window =
  sw_startInclusiveUtc :: js_date
  sw_endExclusiveUtc :: js_date
  sw_from :: string
  sw_to :: string

text \<open>\<open>Date.UTC(year, month, 1, -8)\<close>\<close>

definition gmt8_month_start :: "int \<Rightarrow> int \<Rightarrow> js_date" where
  "gmt8_month_start year month =
     (let y = (if 0 \<le> year \<and> year \<le> 99 then 1900 + year else year)
      in time_clip (make_day y month 1 * ms_per_day - 8 * 60 * 60 * 1000))"

definition getGmt8SettlementMonthWindow :: "int \<Rightarrow> settlement_window" where
  "getGmt8SettlementMonthWindow settlementMonth =
     (let year = getUTCFullYear settlementMonth; month = getUTCMonth settlementMonth
      in \<lparr>sw_startInclusiveUtc = gmt8_month_start year month, sw_endExclusiveUtc = gmt8_month_start year (month + 1),
          sw_from = everflow_formatDate year (month + 1) 1,
          sw_to = (case date_UTC year (month + 1) 0 of
             None \<Rightarrow> pad_start 4 year @ ''-'' @ pad_start 2 (month + 1) @ ''-NaN''
           | Some t \<Rightarrow> everflow_formatDate year (month + 1) (getUTCDate t))\<rparr>)"

definition everflow_assertContext :: "adapter_context \<Rightarrow> string outcome" where
  "everflow_assertContext cx =
     (let task = cx_task cx
      in if tk_sourceType task \<noteq> affiliate_income \<or> tk_taskType task \<noteq> TT_affiliate_income
         then Inl (AppError VALIDATION_ERROR ''Everflow adapter only supports affiliate_income sync tasks.'')
         else if tk_platform task \<noteq> P_everflow then Inl (AppError VALIDATION_ERROR ''affiliateAccount.platform must be everflow.'')
         else if or_keep (tk_affiliateAccountId task) [] = []
         then Inl (AppError VALIDATION_ERROR ''affiliateAccountId is required for Everflow income sync.'')
         else Inr (or_keep (tk_affiliateAccountId task) []))"

section \<open>One row\<close>

definition EVERFLOW_SOURCE :: string where
  "EVERFLOW_SOURCE = ''everflow''"

definition everflow_safeRawData :: "runtime \<Rightarrow> sync_task_row \<Rightarrow> month_row \<Rightarrow> jsval" where
  "everflow_safeRawData rt task row =
     JObject
       [(''report'', JString ''monthly_revenue_by_sub1''), (''settlementMonth'', JString (take 7 (iso_string (tk_month task)))),
        (''subField'', JString CAKE_SUB_FIELD), (''subValue'', jstr_or_null (mr_subValue row)),
        (''revenueUsd'', JString (rt_show_decimal rt (mr_revenueUsd row))), (''timezone'', JString ''Asia/Shanghai'')]"

definition everflow_unmatched :: "runtime \<Rightarrow> sync_task_row \<Rightarrow> string \<Rightarrow> month_row \<Rightarrow> string \<Rightarrow> string \<Rightarrow> row_outcome handler" where
  "everflow_unmatched rt task external row reasonCode reasonMessage =
     op_bind (recordUnmatchedEvent rt (unmatched_row rt task ''everflow'' external row reasonCode reasonMessage)) (\<lambda>_.
     op_return Row_unmatched)"

definition everflow_row :: "sync_task_row \<Rightarrow> string \<Rightarrow> runtime \<Rightarrow> month_row \<Rightarrow> row_outcome handler" where
  "everflow_row task account rt row =
     (let external = monthlyExternalRecordId rt EVERFLOW_SOURCE account (tk_month task) (mr_subValue row)
      in if mr_revenueUsd row = 0
         then op_bind (income_delete EVERFLOW_SOURCE external) (\<lambda>_. op_return Row_zero)
         else case mr_subValue row of
           None \<Rightarrow>
             op_bind (income_delete EVERFLOW_SOURCE external) (\<lambda>_.
             everflow_unmatched rt task external row ''SUB_ID_MISSING'' ''Everflow monthly revenue row has no SUB1 value.'')
         | Some subValue \<Rightarrow>
             op_bind (resolveEffectiveSubIdMappings (sub_query account (tk_month task) (Some subValue))) (\<lambda>mappings.
             case attribution ''Everflow'' mappings of
               Unattributed reasonCode reasonMessage \<Rightarrow>
                 op_bind (income_delete EVERFLOW_SOURCE external) (\<lambda>_.
                 everflow_unmatched rt task external row reasonCode reasonMessage)
             | Attributed employee \<Rightarrow>
                 op_bind (income_upsert EVERFLOW_SOURCE external
                   (imported_income rt task account employee EVERFLOW_SOURCE external row (everflow_safeRawData rt task row))
                   (imported_fields rt task account employee EVERFLOW_SOURCE external row (everflow_safeRawData rt task row))) (\<lambda>_.
                 op_bind (resolveAfterSuccessfulImport rt (income_report task P_everflow account external subValue employee)) (\<lambda>_.
                 op_return Row_attributed))))"

section \<open>The adapter\<close>

datatype everflow_request =
    Get_timezones everflow_credential
  | Get_revenue everflow_credential string string rat

datatype everflow_answer =
    Timezones "everflow_timezone list option"
  | Revenue revenue_response

type_synonym everflow_env = "(everflow_request, everflow_answer) income_env"

definition EVERFLOW_CALIBRATION_PASS :: string where
  "EVERFLOW_CALIBRATION_PASS = ''everflow.monthly_sub_revenue.calibration.pass''"

definition EVERFLOW_CALIBRATION_READ :: string where
  "EVERFLOW_CALIBRATION_READ = ''everflow.monthly_sub_revenue.calibration.read''"

definition everflow_hasCurrentCalibration :: "(nat \<Rightarrow> int) \<Rightarrow> string \<Rightarrow> database \<Rightarrow> bool" where
  "everflow_hasCurrentCalibration = hasCurrentCalibration EVERFLOW_CALIBRATION_PASS EVERFLOW_CALIBRATION_READ"

definition everflow_import :: "everflow_env \<Rightarrow> runtime \<Rightarrow> sync_task_row \<Rightarrow> string \<Rightarrow> revenue_response \<Rightarrow> adapter_result handler" where
  "everflow_import env rt task account response =
     (if rr_incomplete_results response
      then op_return (failed_result ''Everflow returned incomplete aggregate results; no income was written.'' EC_BUSINESS_REJECTED)
      else
        op_bind (op_lift (everflow_aggregateRows rt (ie_number_text env) (or_keep (rr_table response) []))) (\<lambda>rows.
        op_bind (import_rows (everflow_row task account) rt rows) (\<lambda>xs.
        op_return (completed_result ''Everflow monthly SUB revenue sync'' (length (or_keep (rr_table response) [])) xs))))"

text \<open>An answer of the other kind stands for a response without the fields that are read.\<close>

definition timezones_of :: "everflow_answer \<Rightarrow> everflow_timezone list" where
  "timezones_of a = (case a of Timezones t \<Rightarrow> or_keep t [] | Revenue _ \<Rightarrow> [])"

definition revenue_of :: "everflow_answer \<Rightarrow> revenue_response" where
  "revenue_of a = (case a of Revenue r \<Rightarrow> r | Timezones _ \<Rightarrow> \<lparr>rr_table = None, rr_incomplete_results = False\<rparr>)"

definition everflow_execute :: "engine \<Rightarrow> everflow_env \<Rightarrow> runtime \<Rightarrow> adapter_context \<Rightarrow> adapter_result handler" where
  "everflow_execute en env rt cx =
     op_bind (op_lift (everflow_assertContext cx)) (\<lambda>account.
     op_bind (op_lift (everflow_parseCredentialPayload (ie_number_text env) (cx_payload cx))) (\<lambda>credential.
     op_bind (op_get (everflow_hasCurrentCalibration (ie_log_time env) account)) (\<lambda>ok.
     if \<not> ok
     then op_return (failed_result
            ''Everflow monthly SUB revenue sync is blocked until current credentials pass read-only calibration.'' EC_BUSINESS_REJECTED)
     else
       case ie_client env (Get_timezones credential) of
         Inl e \<Rightarrow> op_return (caught_failure (ie_prisma_message env) e)
       | Inr answer \<Rightarrow>
           (case resolveEverflowGmt8Timezone en (ie_number_text env) (timezones_of answer) of
              None \<Rightarrow> op_return (failed_result
                ''Everflow metadata did not provide an unambiguous GMT+8 timezone; no income was written.'' EC_BUSINESS_REJECTED)
            | Some timezone \<Rightarrow>
                (let window = getGmt8SettlementMonthWindow (tk_month (cx_task cx))
                 in case ie_client env (Get_revenue credential (sw_from window) (sw_to window) (tc_timezoneId timezone)) of
                      Inl e \<Rightarrow> op_return (caught_failure (ie_prisma_message env) e)
                    | Inr answer' \<Rightarrow>
                        op_catch (everflow_import env rt (cx_task cx) account (revenue_of answer'))
                          (\<lambda>e. op_return (caught_failure (ie_prisma_message env) e)))))))"

end
