(* ===== verification/Import_Effect.thy ===== *)
theory Import_Effect
  imports Cake_Sync Everflow_Sync
begin

text \<open>
  What an import of monthly income leaves: the interface both adapters share (\<open>month_import\<close>),
  what it implies for the loop over the rows, and its interpretation for CAKE and for Everflow.
\<close>

section \<open>Income rows by key\<close>

definition income_at :: "string \<Rightarrow> string \<Rightarrow> database \<Rightarrow> income_record list" where
  "income_at source k db = filter (has_key source k) (income_records db)"

definition row_keys :: "income_record list \<Rightarrow> (string \<times> string option) list" where
  "row_keys rows = map (\<lambda>r. (ir_source r, ir_externalRecordId r)) (filter (\<lambda>r. ir_externalRecordId r \<noteq> None) rows)"

definition incomes_keyed :: "database \<Rightarrow> bool" where
  "incomes_keyed db \<longleftrightarrow> distinct (map ir_id (income_records db)) \<and> distinct (row_keys (income_records db))"

text \<open>Unique keys, and identifiers for new rows that are new.\<close>

definition import_ready :: "runtime \<Rightarrow> database \<Rightarrow> bool" where
  "import_ready rt db \<longleftrightarrow> incomes_keyed db \<and> inj (rt_fresh_id rt) \<and> range (rt_fresh_id rt) \<inter> ir_id ` set (income_records db) = {}"

lemma has_key_unique: "distinct (row_keys rows) \<Longrightarrow> filter (has_key s k) rows = [] \<or> (\<exists>r. filter (has_key s k) rows = [r])"
proof (induction rows)
  case (Cons r rows)
  have "filter (has_key s k) rows = []" if "has_key s k r" "distinct (row_keys (r # rows))"
  proof -
    have "(s, Some k) \<notin> set (row_keys rows)" using that by (auto simp: row_keys_def has_key_def)
    then have "\<not> has_key s k x" if "x \<in> set rows" for x
      using that image_eqI [of "(s, Some k)" "\<lambda>r. (ir_source r, ir_externalRecordId r)" x] by (auto simp: row_keys_def has_key_def)
    then show ?thesis by (simp add: filter_empty_conv)
  qed
  then show ?case using Cons by (auto simp: row_keys_def split: if_splits)
qed simp

lemma income_at_audit [simp]: "income_at s k (db\<lparr>audit_logs := l\<rparr>) = income_at s k db"
  by (simp add: income_at_def)

lemma income_at_put [simp]: "income_at s k (put_incomes rows db) = filter (has_key s k) rows"
  by (simp add: income_at_def put_incomes_def)

lemma income_records_put [simp]: "income_records (put_incomes rows db) = rows"
  by (simp add: put_incomes_def)

lemma filter_has_key_other: "(s, k) \<noteq> (s', k') \<Longrightarrow> filter (has_key s k) (filter (\<lambda>r. \<not> has_key s' k' r) rows) = filter (has_key s k) rows"
  by (induction rows) (auto simp: has_key_def)

lemma row_keys_filter: "distinct (row_keys rows) \<Longrightarrow> distinct (row_keys (filter p rows))"
  unfolding row_keys_def using distinct_map_filter [of _ "filter (\<lambda>r. ir_externalRecordId r \<noteq> None) rows" p]
  by (simp add: filter_filter conj_commute)

lemma update_first_map: "(\<And>r. g (f r) = g r) \<Longrightarrow> map g (update_first p f rows) = map g rows"
  by (induction rows) auto

lemma update_first_row_keys:
  "(\<And>r. p r \<Longrightarrow> ir_source (f r) = ir_source r \<and> ir_externalRecordId (f r) = ir_externalRecordId r) \<Longrightarrow>
   row_keys (update_first p f rows) = row_keys rows"
  by (induction rows) (auto simp: row_keys_def)

lemma filter_first_unique:
  "find_row p rows = Some r \<Longrightarrow> p (f r) \<Longrightarrow> filter p rows = [r] \<Longrightarrow> filter p (update_first p f rows) = [f r]"
  by (induction rows) (auto split: if_splits)

lemma find_row_filter: "find_row p rows = (case filter p rows of [] \<Rightarrow> None | r # _ \<Rightarrow> Some r)"
  by (induction rows) auto

section \<open>The two writes\<close>

lemma ready_shift:
  assumes "import_ready rt db" "incomes_keyed db'" "ir_id ` set (income_records db') \<subseteq> insert (rt_fresh_id rt 0) (ir_id ` set (income_records db))"
  shows "import_ready (ids_from 1 rt) db'"
proof -
  have "rt_fresh_id rt (1 + n) \<notin> ir_id ` set (income_records db')" for n
  proof -
    have "rt_fresh_id rt (1 + n) \<noteq> rt_fresh_id rt 0" using assms(1) by (auto simp: import_ready_def dest: injD)
    moreover have "rt_fresh_id rt (1 + n) \<notin> ir_id ` set (income_records db)" using assms(1) by (auto simp: import_ready_def)
    ultimately show ?thesis using assms(3) by blast
  qed
  moreover have "inj (\<lambda>n. rt_fresh_id rt (1 + n))" using assms(1) by (auto simp: import_ready_def inj_def)
  ultimately show ?thesis using assms(2) by (auto simp: import_ready_def ids_from_def)
qed

text \<open>\<open>written s k rs db db'\<close>: the rows of the key are now \<open>rs\<close>, every other key and \<open>q\<close>-row is as before.\<close>

definition written :: "(income_record \<Rightarrow> bool) \<Rightarrow> string \<Rightarrow> string \<Rightarrow> income_record list \<Rightarrow> database \<Rightarrow> database \<Rightarrow> bool" where
  "written q s k rs db db' \<longleftrightarrow> income_at s k db' = rs \<and> (\<forall>k'. k' \<noteq> k \<longrightarrow> income_at s k' db' = income_at s k' db)
     \<and> filter q (income_records db') = filter q (income_records db)"

lemma delete_effect:
  assumes "import_ready rt db" "\<And>r. q r \<Longrightarrow> ir_source r \<noteq> s"
  shows "\<exists>db'. income_delete s k db = (Inr (), db') \<and> db' = put_incomes (filter (\<lambda>r. \<not> has_key s k r) (income_records db)) db
    \<and> import_ready (ids_from 1 rt) db' \<and> written q s k [] db db'"
proof -
  let ?rows = "filter (\<lambda>r. \<not> has_key s k r) (income_records db)"
  have "incomes_keyed (put_incomes ?rows db)"
    using assms(1) by (simp add: import_ready_def incomes_keyed_def row_keys_filter distinct_map_filter)
  moreover have "filter q ?rows = filter q (income_records db)"
    using assms(2) by (induction "income_records db" rule: list.induct) (auto simp: has_key_def intro: filter_cong)
  ultimately show ?thesis
    using ready_shift [OF assms(1), of "put_incomes ?rows db"]
    by (auto simp: income_delete_def written_def income_at_def conj_commute intro!: filter_cong) (auto simp: has_key_def)
qed

text \<open>Upserting the row of a key: the fields are those of the import, the identifier the old one if there was one.\<close>

lemma upsert_effect:
  assumes ready: "import_ready rt db" and q: "\<And>r. q r \<Longrightarrow> ir_source r \<noteq> s"
    and new: "ir_id create = rt_fresh_id rt 0" "has_key s k create"
    and update: "\<And>r. ir_id (update r) = ir_id r" "\<And>r. has_key s k (update r)" "\<And>r. update r = create\<lparr>ir_id := ir_id r\<rparr>"
  shows "\<exists>x r db'. income_upsert s k create update db = (Inr x, db') \<and> import_ready (ids_from 1 rt) db'
    \<and> written q s k [r] db db' \<and> r = create\<lparr>ir_id := ir_id r\<rparr>
    \<and> (\<exists>rows. db' = put_incomes rows db)"
proof -
  have keyed: "distinct (map ir_id (income_records db))" "distinct (row_keys (income_records db))"
    using ready by (simp_all add: import_ready_def incomes_keyed_def)
  have key_eq: "(\<lambda>r. ir_source r = s \<and> ir_externalRecordId r = Some k) = has_key s k" by (simp add: fun_eq_iff has_key_def)
  have no_q: "\<not> q r" if "has_key s k r" for r using q that by (auto simp: has_key_def)
  have apart: "\<not> has_key s k' r" if "has_key s k r" "k' \<noteq> k" for k' r using that by (auto simp: has_key_def)
  show ?thesis
  proof (cases "find_row (has_key s k) (income_records db)")
    case None
    let ?db = "put_incomes (income_records db @ [create]) db"
    have none: "filter (has_key s k) (income_records db) = []" using None by (auto simp: find_row_None filter_empty_conv)
    have "(s, Some k) \<notin> set (row_keys (income_records db))" using None by (auto simp: find_row_None row_keys_def has_key_def)
    then have "incomes_keyed ?db"
      using keyed ready new by (auto simp: incomes_keyed_def import_ready_def row_keys_def has_key_def)
    then have "import_ready (ids_from 1 rt) ?db" using new(1) by (intro ready_shift [OF ready]) auto
    moreover have "written q s k [create] db ?db"
      using none new(2) no_q [OF new(2)] apart [OF new(2)] by (simp add: written_def income_at_def)
    moreover have "create = create\<lparr>ir_id := ir_id create\<rparr>" by simp
    ultimately show ?thesis using None by (auto simp: income_upsert_def Let_def key_eq)
  next
    case (Some r)
    let ?rows = "update_first (has_key s k) update (income_records db)" let ?db = "put_incomes ?rows db"
    have r: "filter (has_key s k) (income_records db) = [r]"
      using has_key_unique [OF keyed(2), of s k] Some by (auto simp: find_row_filter)
    have "row_keys ?rows = row_keys (income_records db)"
      using update(2) by (intro update_first_row_keys) (auto simp: has_key_def)
    moreover have ids: "map ir_id ?rows = map ir_id (income_records db)" using update(1) by (rule update_first_map)
    ultimately have "incomes_keyed ?db" using keyed by (simp add: incomes_keyed_def)
    moreover have "ir_id ` set ?rows = ir_id ` set (income_records db)" using ids by (metis list.set_map)
    ultimately have "import_ready (ids_from 1 rt) ?db" by (intro ready_shift [OF ready]) auto
    moreover have "written q s k [update r] db ?db"
    proof -
      have "filter (has_key s k) ?rows = [update r]" using filter_first_unique [of "has_key s k" "income_records db" r update] Some r update(2) by simp
      moreover have "filter (has_key s k') ?rows = filter (has_key s k') (income_records db)" if "k' \<noteq> k" for k'
        using that apart update(2) by (intro filter_update_first_le) (auto dest: find_row_Some)
      moreover have "filter q ?rows = filter q (income_records db)"
        using no_q update(2) by (intro filter_update_first_le) (auto dest: find_row_Some)
      ultimately show ?thesis by (simp add: written_def income_at_def)
    qed
    moreover have "update r = create\<lparr>ir_id := ir_id (update r)\<rparr>" using update by metis
    ultimately show ?thesis using Some by (auto simp: income_upsert_def Let_def key_eq)
  qed
qed

text \<open>Rewriting a row of another source by its identifier.\<close>

lemma set_effect:
  assumes ready: "import_ready rt db" and r: "r \<in> set (income_records db)" "ir_source r \<noteq> s" "\<not> q r"
    and f: "\<And>r. ir_id (f r) = ir_id r \<and> ir_source (f r) = ir_source r \<and> ir_externalRecordId (f r) = ir_externalRecordId r"
      "\<not> q (f r)"
  shows "import_ready rt (snd (income_set (ir_id r) f db)) \<and> (\<forall>k. income_at s k (snd (income_set (ir_id r) f db)) = income_at s k db)
    \<and> filter q (income_records (snd (income_set (ir_id r) f db))) = filter q (income_records db)"
proof -
  let ?p = "\<lambda>x. ir_id x = ir_id r" let ?rows = "update_first ?p f (income_records db)"
  have keyed: "distinct (map ir_id (income_records db))" "distinct (row_keys (income_records db))"
    using ready by (simp_all add: import_ready_def incomes_keyed_def)
  have hit: "x = r" if "find_row ?p (income_records db) = Some x" for x
    using find_row_Some [OF that] r(1) keyed(1) by (auto simp: distinct_map dest: inj_onD)
  have "row_keys ?rows = row_keys (income_records db)" using f(1) by (intro update_first_row_keys) simp
  moreover have ids: "map ir_id ?rows = map ir_id (income_records db)" using f(1) by (intro update_first_map) simp
  moreover have "ir_id ` set ?rows = ir_id ` set (income_records db)" using ids by (metis list.set_map)
  ultimately have "import_ready rt (put_incomes ?rows db)" using ready by (simp add: import_ready_def incomes_keyed_def)
  moreover have "filter (has_key s k) ?rows = filter (has_key s k) (income_records db)" for k
    using f(1) r(2) hit by (intro filter_update_first_le) (auto simp: has_key_def)
  moreover have "filter q ?rows = filter q (income_records db)"
    using f(2) r(3) hit by (intro filter_update_first_le) auto
  ultimately show ?thesis
    using ready by (auto simp: income_set_def table_update_def income_at_def split: option.split)
qed

section \<open>The interface of an import\<close>

text \<open>Rows may share a key (a row without sub id and one with the text \<open>(blank)\<close> do): the last one decides.\<close>

definition deciding_row :: "(month_row \<Rightarrow> string) \<Rightarrow> string \<Rightarrow> month_row list \<Rightarrow> month_row option" where
  "deciding_row key k rows = find_row (\<lambda>row. key row = k) (rev rows)"

lemma deciding_row_Cons:
  "deciding_row key k (row # rows) =
     (case deciding_row key k rows of None \<Rightarrow> if key row = k then Some row else None | Some r \<Rightarrow> Some r)"
  by (simp add: deciding_row_def find_row_append split: option.split)

text \<open>
  A step imports one row of the report: it decides on an employee from the tables of the office,
  which no step changes, and leaves exactly the record of that decision under the key of the row.
\<close>

locale month_import =
  fixes source :: string and step :: "runtime \<Rightarrow> month_row \<Rightarrow> row_outcome handler" and key :: "runtime \<Rightarrow> month_row \<Rightarrow> string"
    and employee_of :: "database \<Rightarrow> month_row \<Rightarrow> string option"
    and stored :: "runtime \<Rightarrow> month_row \<Rightarrow> string \<Rightarrow> income_record \<Rightarrow> bool" and foreign :: "income_record \<Rightarrow> bool"
  assumes key_ids: "key (ids_from n rt) = key rt" and stored_ids: "stored (ids_from n rt) = stored rt"
    and step_effect: "import_ready rt db \<Longrightarrow> step rt row db = (Inr x, db') \<Longrightarrow>
      import_ready (ids_from 1 rt) db' \<and> employee_of db' = employee_of db
      \<and> (\<exists>rs. written foreign source (key rt row) rs db db' \<and> (x = Row_attributed \<longleftrightarrow> employee_of db row \<noteq> None)
           \<and> (case employee_of db row of None \<Rightarrow> rs = [] | Some e \<Rightarrow> \<exists>r. rs = [r] \<and> stored rt row e r))"
begin

text \<open>After the loop every key of a row has the decision on its last row, and nothing else was touched.\<close>

lemma rows_effect:
  assumes "import_rows step rt rows db = (Inr xs, db')" "import_ready rt db"
  shows "(\<forall>k. case deciding_row (key rt) k rows of
          None \<Rightarrow> income_at source k db' = income_at source k db
        | Some row \<Rightarrow> (case employee_of db row of None \<Rightarrow> income_at source k db' = []
            | Some e \<Rightarrow> \<exists>r. income_at source k db' = [r] \<and> stored rt row e r))
    \<and> filter foreign (income_records db') = filter foreign (income_records db)
    \<and> map (\<lambda>x. x = Row_attributed) xs = map (\<lambda>row. employee_of db row \<noteq> None) rows"
  using assms
proof (induction rows arbitrary: rt db xs)
  case Nil
  then show ?case by (simp add: deciding_row_def)
next
  case (Cons row rows)
  obtain x ys db1 where s: "step rt row db = (Inr x, db1)" "import_rows step (ids_from 1 rt) rows db1 = (Inr ys, db')" "xs = x # ys"
    using Cons.prems(1) by (auto simp: op_bind_eq_Inr)
  obtain rs where e: "import_ready (ids_from 1 rt) db1" "employee_of db1 = employee_of db"
    "written foreign source (key rt row) rs db db1" "x = Row_attributed \<longleftrightarrow> employee_of db row \<noteq> None"
    "case employee_of db row of None \<Rightarrow> rs = [] | Some e \<Rightarrow> \<exists>r. rs = [r] \<and> stored rt row e r"
    using step_effect [OF Cons.prems(2) s(1)] by blast
  note rest = Cons.IH [OF s(2) e(1), unfolded key_ids stored_ids e(2)]
  have "case deciding_row (key rt) k (row # rows) of
          None \<Rightarrow> income_at source k db' = income_at source k db
        | Some row \<Rightarrow> (case employee_of db row of None \<Rightarrow> income_at source k db' = []
            | Some e \<Rightarrow> \<exists>r. income_at source k db' = [r] \<and> stored rt row e r)" for k
  proof (cases "deciding_row (key rt) k rows")
    case None
    then have same: "income_at source k db' = income_at source k db1" using rest [THEN conjunct1, rule_format, of k] by simp
    show ?thesis
    proof (cases "key rt row = k")
      case True
      then have "income_at source k db' = rs" using same e(3) by (simp add: written_def)
      then show ?thesis using None True e(5) by (simp add: deciding_row_Cons) (simp split: option.splits)
    next
      case False
      then show ?thesis using None same e(3) by (simp add: deciding_row_Cons written_def)
    qed
  next
    case (Some last_row)
    then show ?thesis using rest [THEN conjunct1, rule_format, of k] by (simp add: deciding_row_Cons)
  qed
  moreover have "filter foreign (income_records db') = filter foreign (income_records db)"
    using rest e(3) by (simp add: written_def)
  ultimately show ?case using rest e(4) s(3) by simp
qed

end

section \<open>The decision on a row\<close>

definition mappings_of :: "sync_task_row \<Rightarrow> string \<Rightarrow> string \<Rightarrow> database \<Rightarrow> effective_mapping list" where
  "mappings_of task account subValue db =
     map (with_employee db) (effective_rows (sub_query account (tk_month task) (Some subValue)) (sub_mappings db))"

definition attributed_employee :: "sync_task_row \<Rightarrow> string \<Rightarrow> database \<Rightarrow> month_row \<Rightarrow> string option" where
  "attributed_employee task account db row =
     (if mr_revenueUsd row = 0 then None
      else case mr_subValue row of
             None \<Rightarrow> None
           | Some subValue \<Rightarrow>
               (case attribution [] (mappings_of task account subValue db) of Attributed e \<Rightarrow> Some e | Unattributed _ _ \<Rightarrow> None))"

lemma attribution_provider: "attribution p ms = Attributed e \<longleftrightarrow> attribution [] ms = Attributed e"
  by (simp add: attribution_def Let_def)

lemma attribution_fails: "attribution p ms = Unattributed code message \<Longrightarrow> attribution [] ms \<noteq> Attributed e"
  using attribution_provider [of p ms e] by auto

lemma mappings_bind: "op_bind (resolveEffectiveSubIdMappings (sub_query account (tk_month task) (Some subValue))) f db =
    f (mappings_of task account subValue db) db"
  by (simp add: resolveEffectiveSubIdMappings_def sub_query_def mappings_of_def)

text \<open>The tables a decision and its record rest on.\<close>

definition offices :: "database \<Rightarrow> income_record list \<times> sub_id_mapping list \<times> employee list" where
  "offices db = (income_records db, sub_mappings db, employees db)"

lemma event_frames:
  "op_frame offices UNIV (recordUnmatchedEvent rt input)" "op_frame offices UNIV (resolveAfterSuccessfulImport rt report)"
  unfolding recordUnmatchedEvent_def resolveAfterSuccessfulImport_def unmatched_insert_def unmatched_set_def
  by (auto intro!: frame_intros split: option.split) (simp_all add: offices_def put_unmatched_def)

text \<open>One row done: ready for the next, the rows of its key are \<open>rs\<close>, the tables of the office as before.\<close>

definition row_done :: "(income_record \<Rightarrow> bool) \<Rightarrow> string \<Rightarrow> string \<Rightarrow> income_record list \<Rightarrow> runtime \<Rightarrow> database \<Rightarrow> database \<Rightarrow> bool" where
  "row_done q s k rs rt db db' \<longleftrightarrow> import_ready (ids_from 1 rt) db' \<and> written q s k rs db db'
     \<and> sub_mappings db' = sub_mappings db \<and> employees db' = employees db"

lemma row_done_offices: "row_done q s k rs rt db db1 \<Longrightarrow> offices db' = offices db1 \<Longrightarrow> row_done q s k rs rt db db'"
  by (simp add: row_done_def offices_def import_ready_def incomes_keyed_def written_def income_at_def)

lemma row_done_frame:
  assumes "row_done q s k rs rt db db1" "op_frame offices UNIV h" "h db1 = (x, db')"
  shows "row_done q s k rs rt db db'"
  using row_done_offices [OF assms(1)] op_frameD [OF assms(2), of db1] assms(3) by simp

lemma delete_done:
  assumes "import_ready rt db" "\<And>r. q r \<Longrightarrow> ir_source r \<noteq> s" "income_delete s k db = (x, db')"
  shows "row_done q s k [] rt db db'"
  using delete_effect [where rt = rt and db = db and q = q and s = s and k = k] assms by (auto simp: row_done_def put_incomes_def)

lemma decision_same: "sub_mappings db' = sub_mappings db \<Longrightarrow> employees db' = employees db \<Longrightarrow>
    attributed_employee task account db' = attributed_employee task account db"
proof -
  assume "sub_mappings db' = sub_mappings db" "employees db' = employees db"
  then have "mappings_of task account s db' = mappings_of task account s db" for s
    by (simp add: mappings_of_def with_employee_def [abs_def])
  then show ?thesis by (simp add: fun_eq_iff attributed_employee_def split: option.split)
qed

lemma upsert_done:
  assumes "import_ready rt db" "\<And>r. q r \<Longrightarrow> ir_source r \<noteq> s"
    and "income_upsert s k (imported_income rt task account e s k row raw) (imported_fields rt task account e s k row raw) db = (x, db')"
  shows "\<exists>r. row_done q s k [r] rt db db' \<and> r = (imported_income rt task account e s k row raw)\<lparr>ir_id := ir_id r\<rparr>"
proof -
  let ?c = "imported_income rt task account e s k row raw" and ?u = "imported_fields rt task account e s k row raw"
  have "ir_id ?c = rt_fresh_id rt 0" "has_key s k ?c" "\<And>r. ir_id (?u r) = ir_id r" "\<And>r. has_key s k (?u r)"
    "\<And>r. ?u r = ?c\<lparr>ir_id := ir_id r\<rparr>"
    by (simp_all add: imported_income_def imported_fields_def has_key_def)
  note facts = this
  from upsert_effect [where rt = rt and db = db and q = q and s = s and k = k and create = ?c and update = ?u, OF assms(1,2) facts] assms(3)
  show ?thesis by (auto simp: row_done_def put_incomes_def)
qed

section \<open>Everflow\<close>

definition everflow_key :: "sync_task_row \<Rightarrow> string \<Rightarrow> runtime \<Rightarrow> month_row \<Rightarrow> string" where
  "everflow_key task account rt row = monthlyExternalRecordId rt EVERFLOW_SOURCE account (tk_month task) (mr_subValue row)"

definition everflow_stored :: "sync_task_row \<Rightarrow> string \<Rightarrow> runtime \<Rightarrow> month_row \<Rightarrow> string \<Rightarrow> income_record \<Rightarrow> bool" where
  "everflow_stored task account rt row e r \<longleftrightarrow>
     r = (imported_income rt task account e EVERFLOW_SOURCE (everflow_key task account rt row) row
       (everflow_safeRawData rt task row))\<lparr>ir_id := ir_id r\<rparr>"

lemma everflow_row_done:
  assumes "import_ready rt db" "everflow_row task account rt row db = (Inr x, db')"
  shows "\<exists>rs. row_done (\<lambda>r. ir_source r \<noteq> EVERFLOW_SOURCE) EVERFLOW_SOURCE (everflow_key task account rt row) rs rt db db'
    \<and> (x = Row_attributed \<longleftrightarrow> attributed_employee task account db row \<noteq> None)
    \<and> (case attributed_employee task account db row of None \<Rightarrow> rs = []
       | Some e \<Rightarrow> \<exists>r. rs = [r] \<and> everflow_stored task account rt row e r)"
proof -
  let ?q = "\<lambda>r. ir_source r \<noteq> EVERFLOW_SOURCE" and ?k = "everflow_key task account rt row"
  note delete = delete_done [OF assms(1), of ?q EVERFLOW_SOURCE]
  note upsert = upsert_done [OF assms(1), of ?q EVERFLOW_SOURCE]
  consider (zero) "mr_revenueUsd row = 0" | (blank) "mr_revenueUsd row \<noteq> 0" "mr_subValue row = None"
    | (sub) subValue where "mr_revenueUsd row \<noteq> 0" "mr_subValue row = Some subValue"
    by blast
  then show ?thesis
  proof cases
    case zero
    then show ?thesis using assms(2) delete
      by (auto simp: everflow_row_def Let_def op_bind_eq_Inr everflow_key_def attributed_employee_def)
  next
    case blank
    then show ?thesis using assms(2) delete
      by (auto simp: everflow_row_def Let_def op_bind_eq_Inr everflow_key_def attributed_employee_def everflow_unmatched_def
          intro: row_done_frame [OF _ event_frames(1)])
  next
    case sub
    show ?thesis
    proof (cases "attribution ''Everflow'' (mappings_of task account subValue db)")
      case (Unattributed code message)
      then have "attribution [] (mappings_of task account subValue db) \<noteq> Attributed e" for e
        by (rule attribution_fails)
      then have "attributed_employee task account db row = None"
        using sub by (auto simp: attributed_employee_def split: row_attribution.split)
      then show ?thesis using assms(2) sub Unattributed delete
        by (auto simp: everflow_row_def Let_def mappings_bind op_bind_eq_Inr everflow_key_def everflow_unmatched_def
            intro: row_done_frame [OF _ event_frames(1)])
    next
      case (Attributed e)
      then have "attributed_employee task account db row = Some e"
        using sub attribution_provider [of "''Everflow''"] by (simp add: attributed_employee_def)
      moreover obtain y db1 z where s: "income_upsert EVERFLOW_SOURCE ?k
          (imported_income rt task account e EVERFLOW_SOURCE ?k row (everflow_safeRawData rt task row))
          (imported_fields rt task account e EVERFLOW_SOURCE ?k row (everflow_safeRawData rt task row)) db = (Inr y, db1)"
        "resolveAfterSuccessfulImport rt (income_report task P_everflow account ?k subValue e) db1 = (Inr z, db')" "x = Row_attributed"
        using assms(2) sub Attributed by (auto simp: everflow_row_def Let_def mappings_bind op_bind_eq_Inr everflow_key_def)
      obtain r where "row_done ?q EVERFLOW_SOURCE ?k [r] rt db db1" "everflow_stored task account rt row e r"
        using upsert [OF _ s(1)] by (auto simp: everflow_stored_def)
      moreover from row_done_frame [OF this(1) event_frames(2) s(2)]
      have "row_done ?q EVERFLOW_SOURCE ?k [r] rt db db'" .
      ultimately show ?thesis using s(3) by auto
    qed
  qed
qed

interpretation everflow_month: month_import EVERFLOW_SOURCE "everflow_row task account" "everflow_key task account"
  "attributed_employee task account" "everflow_stored task account" "\<lambda>r. ir_source r \<noteq> EVERFLOW_SOURCE"
  for task account
proof unfold_locales
  show "everflow_key task account (ids_from n rt) = everflow_key task account rt" for n rt
    by (simp add: fun_eq_iff everflow_key_def monthlyExternalRecordId_def ids_from_def)
  then show "everflow_stored task account (ids_from n rt) = everflow_stored task account rt" for n rt
    by (simp add: fun_eq_iff everflow_stored_def imported_income_def everflow_safeRawData_def) (simp add: ids_from_def)
next
  fix rt db row x db'
  assume "import_ready rt db" "everflow_row task account rt row db = (Inr x, db')"
  from everflow_row_done [OF this] show "import_ready (ids_from 1 rt) db'
      \<and> attributed_employee task account db' = attributed_employee task account db
      \<and> (\<exists>rs. written (\<lambda>r. ir_source r \<noteq> EVERFLOW_SOURCE) EVERFLOW_SOURCE (everflow_key task account rt row) rs db db'
           \<and> (x = Row_attributed \<longleftrightarrow> attributed_employee task account db row \<noteq> None)
           \<and> (case attributed_employee task account db row of None \<Rightarrow> rs = []
              | Some e \<Rightarrow> \<exists>r. rs = [r] \<and> everflow_stored task account rt row e r))"
    using decision_same unfolding row_done_def by blast
qed

section \<open>CAKE\<close>

definition cake_key :: "sync_task_row \<Rightarrow> string \<Rightarrow> runtime \<Rightarrow> month_row \<Rightarrow> string" where
  "cake_key task account rt row = monthlyExternalRecordId rt CAKE_BASE_SOURCE account (tk_month task) (mr_subValue row)"

definition cake_stored :: "sync_task_row \<Rightarrow> string \<Rightarrow> runtime \<Rightarrow> month_row \<Rightarrow> string \<Rightarrow> income_record \<Rightarrow> bool" where
  "cake_stored task account rt row e r \<longleftrightarrow>
     r = (imported_income rt task account e CAKE_BASE_SOURCE (cake_key task account rt row) row
       (cake_safeRawData rt task row))\<lparr>ir_id := ir_id r\<rparr>"

definition cake_foreign :: "income_record \<Rightarrow> bool" where
  "cake_foreign r \<longleftrightarrow> ir_source r \<notin> {CAKE_BASE_SOURCE, CAKE_ADJUSTMENT_SOURCE}"

definition keeps_key :: "(income_record \<Rightarrow> income_record) \<Rightarrow> bool" where
  "keeps_key f \<longleftrightarrow> (\<forall>r. ir_id (f r) = ir_id r \<and> ir_source (f r) = ir_source r \<and> ir_externalRecordId (f r) = ir_externalRecordId r)"

text \<open>A stale adjustment is one row of its source rewritten, or nothing.\<close>

lemma stale_writes:
  assumes "markAdjustmentStaleWhenBaseChanges rt task account row b db = (Inr u, db')"
  shows "db' = db \<or> (\<exists>r f y db1 logs. r \<in> set (income_records db) \<and> ir_source r = CAKE_ADJUSTMENT_SOURCE \<and> keeps_key f
    \<and> income_set (ir_id r) f db = (y, db1) \<and> db' = db1\<lparr>audit_logs := logs\<rparr>)"
proof -
  have keeps: "keeps_key (\<lambda>r. r\<lparr>ir_incomeUsd := a, ir_rawData := d, ir_status := st, ir_importedBy := i\<rparr>)" for a d st i
    by (simp add: keeps_key_def)
  have found: "r \<in> set (income_records db) \<and> ir_source r = CAKE_ADJUSTMENT_SOURCE"
    if "find_adjustment rt account m s db = Some r" for m s r
    using that by (auto simp: find_adjustment_def has_key_def dest: find_row_Some)
  show ?thesis
  proof (cases "\<exists>s r m. mr_subValue row = Some s \<and> find_adjustment rt account (tk_month task) s db = Some r
      \<and> ir_status r \<noteq> CS_disabled \<and> readCakeAdjustmentMetadata (ir_rawData r) = Some m")
    case False
    then show ?thesis
      using assms unfolding markAdjustmentStaleWhenBaseChanges_def by (auto split: option.splits if_splits)
  next
    case True
    then obtain s r m where r: "mr_subValue row = Some s" "find_adjustment rt account (tk_month task) s db = Some r"
      "ir_status r \<noteq> CS_disabled" "readCakeAdjustmentMetadata (ir_rawData r) = Some m" by blast
    note step = assms [unfolded markAdjustmentStaleWhenBaseChanges_def]
    from step r obtain d where d: "metadata_decimal rt (cm_baseRevenueUsd m) = Inr d"
      by (cases "metadata_decimal rt (cm_baseRevenueUsd m)") simp_all
    show ?thesis
    proof (cases "\<not> b \<and> (case d of DecFinite _ x \<Rightarrow> x = mr_revenueUsd row | DecNotFinite \<Rightarrow> False)")
      case True
      then show ?thesis using step r d by simp
    next
      case False
      from step r d False obtain g where g: "metadata_decimal rt (cm_targetRevenueUsd m) = Inr g"
        by (cases "metadata_decimal rt (cm_targetRevenueUsd m)") simp_all
      from step r d False g obtain neg t where t: "g = DecFinite neg t" by (cases g) simp_all
      from step r d False g t keeps found [OF r(2)] show ?thesis by (simp add: op_bind_eq_Inr) blast
    qed
  qed
qed

lemma stale_done:
  assumes "row_done cake_foreign CAKE_BASE_SOURCE k rs rt db db1"
    and "markAdjustmentStaleWhenBaseChanges rt' task account row b db1 = (Inr u, db')"
  shows "row_done cake_foreign CAKE_BASE_SOURCE k rs rt db db'"
  using stale_writes [OF assms(2)]
proof
  assume "\<exists>r f y db2 logs. r \<in> set (income_records db1) \<and> ir_source r = CAKE_ADJUSTMENT_SOURCE \<and> keeps_key f
    \<and> income_set (ir_id r) f db1 = (y, db2) \<and> db' = db2\<lparr>audit_logs := logs\<rparr>"
  then obtain r f y db2 logs where r: "r \<in> set (income_records db1)" "ir_source r = CAKE_ADJUSTMENT_SOURCE" "keeps_key f"
    "income_set (ir_id r) f db1 = (y, db2)" "db' = db2\<lparr>audit_logs := logs\<rparr>" by blast
  have ne: "CAKE_ADJUSTMENT_SOURCE \<noteq> CAKE_BASE_SOURCE" by (simp add: CAKE_ADJUSTMENT_SOURCE_def CAKE_BASE_SOURCE_def)
  have "import_ready (ids_from 1 rt) db2 \<and> (\<forall>k. income_at CAKE_BASE_SOURCE k db2 = income_at CAKE_BASE_SOURCE k db1)
      \<and> filter cake_foreign (income_records db2) = filter cake_foreign (income_records db1)"
    using set_effect [where rt = "ids_from 1 rt" and db = db1 and r = r and s = CAKE_BASE_SOURCE and q = cake_foreign and f = f]
      assms(1) r ne by (simp add: row_done_def keeps_key_def cake_foreign_def)
  moreover have "sub_mappings db2 = sub_mappings db1" "employees db2 = employees db1"
    using r(4) by (auto simp: income_set_def table_update_def put_incomes_def split: option.splits if_splits)
  moreover have "offices db' = offices db2" by (simp add: r(5) offices_def)
  ultimately show ?thesis
    using assms(1) row_done_offices [of cake_foreign CAKE_BASE_SOURCE k rs rt db db2 db'] by (simp add: row_done_def written_def)
qed (use assms(1) in simp)

lemma cake_row_done:
  assumes "import_ready rt db" "cake_row task account rt row db = (Inr x, db')"
  shows "\<exists>rs. row_done cake_foreign CAKE_BASE_SOURCE (cake_key task account rt row) rs rt db db'
    \<and> (x = Row_attributed \<longleftrightarrow> attributed_employee task account db row \<noteq> None)
    \<and> (case attributed_employee task account db row of None \<Rightarrow> rs = []
       | Some e \<Rightarrow> \<exists>r. rs = [r] \<and> cake_stored task account rt row e r)"
proof -
  let ?k = "cake_key task account rt row"
  have apart: "cake_foreign r \<Longrightarrow> ir_source r \<noteq> CAKE_BASE_SOURCE" for r by (simp add: cake_foreign_def)
  have delete: "income_delete CAKE_BASE_SOURCE ?k db = (y, db1) \<Longrightarrow> row_done cake_foreign CAKE_BASE_SOURCE ?k [] rt db db1" for y db1
    using delete_done [where q = cake_foreign, OF assms(1) apart] .
  note event = row_done_frame [OF _ event_frames(1)] row_done_frame [OF _ event_frames(2)]
  consider (zero) "mr_revenueUsd row = 0" | (blank) "mr_revenueUsd row \<noteq> 0" "mr_subValue row = None"
    | (sub) subValue where "mr_revenueUsd row \<noteq> 0" "mr_subValue row = Some subValue"
    by blast
  then show ?thesis
  proof cases
    case zero
    then show ?thesis using assms(2) delete
      by (auto simp: cake_row_def Let_def op_bind_eq_Inr attributed_employee_def simp flip: cake_key_def dest!: delete intro: stale_done)
  next
    case blank
    have k: "monthlyExternalRecordId rt CAKE_BASE_SOURCE account (tk_month task) None = ?k"
      using blank by (simp add: cake_key_def)
    show ?thesis using assms(2) blank
      by (auto simp: cake_row_def Let_def op_bind_eq_Inr attributed_employee_def cake_unmatched_def k dest!: delete intro: event)
  next
    case sub
    have k: "monthlyExternalRecordId rt CAKE_BASE_SOURCE account (tk_month task) (Some subValue) = ?k"
      using sub by (simp add: cake_key_def)
    show ?thesis
    proof (cases "attribution ''CAKE'' (mappings_of task account subValue db)")
      case (Unattributed code message)
      then have "attribution [] (mappings_of task account subValue db) \<noteq> Attributed e" for e
        by (rule attribution_fails)
      then have "attributed_employee task account db row = None"
        using sub by (auto simp: attributed_employee_def split: row_attribution.split)
      then show ?thesis using assms(2) sub Unattributed
        by (auto simp: cake_row_def Let_def mappings_bind op_bind_eq_Inr cake_unmatched_def k dest!: delete intro: event stale_done)
    next
      case (Attributed e)
      then have a: "attributed_employee task account db row = Some e"
        using sub attribution_provider [of "''CAKE''"] by (simp add: attributed_employee_def)
      obtain y db1 db2 z where s: "income_upsert CAKE_BASE_SOURCE ?k
          (imported_income rt task account e CAKE_BASE_SOURCE ?k row (cake_safeRawData rt task row))
          (imported_fields rt task account e CAKE_BASE_SOURCE ?k row (cake_safeRawData rt task row)) db = (Inr y, db1)"
        "markAdjustmentStaleWhenBaseChanges rt task account row False db1 = (Inr (), db2)"
        "resolveAfterSuccessfulImport rt (income_report task P_cake account ?k subValue e) db2 = (Inr z, db')" "x = Row_attributed"
        using assms(2) sub Attributed by (auto simp: cake_row_def Let_def mappings_bind op_bind_eq_Inr k)
      obtain r where r: "row_done cake_foreign CAKE_BASE_SOURCE ?k [r] rt db db1" "cake_stored task account rt row e r"
        using upsert_done [where q = cake_foreign, OF assms(1) apart s(1)] by (auto simp: cake_stored_def)
      have "row_done cake_foreign CAKE_BASE_SOURCE ?k [r] rt db db'"
        by (rule event(2) [OF stale_done [OF r(1) s(2)] s(3)])
      then show ?thesis using s(4) r(2) a by auto
    qed
  qed
qed

interpretation cake_month: month_import CAKE_BASE_SOURCE "cake_row task account" "cake_key task account"
  "attributed_employee task account" "cake_stored task account" cake_foreign
  for task account
proof unfold_locales
  show "cake_key task account (ids_from n rt) = cake_key task account rt" for n rt
    by (simp add: fun_eq_iff cake_key_def monthlyExternalRecordId_def ids_from_def)
  then show "cake_stored task account (ids_from n rt) = cake_stored task account rt" for n rt
    by (simp add: fun_eq_iff cake_stored_def imported_income_def cake_safeRawData_def) (simp add: ids_from_def)
next
  fix rt db row x db'
  assume "import_ready rt db" "cake_row task account rt row db = (Inr x, db')"
  from cake_row_done [OF this] show "import_ready (ids_from 1 rt) db'
      \<and> attributed_employee task account db' = attributed_employee task account db
      \<and> (\<exists>rs. written cake_foreign CAKE_BASE_SOURCE (cake_key task account rt row) rs db db'
           \<and> (x = Row_attributed \<longleftrightarrow> attributed_employee task account db row \<noteq> None)
           \<and> (case attributed_employee task account db row of None \<Rightarrow> rs = []
              | Some e \<Rightarrow> \<exists>r. rs = [r] \<and> cake_stored task account rt row e r))"
    using decision_same unfolding row_done_def by blast
qed

end
