(* ===== verification/Sync_Planning.thy ===== *)
theory Sync_Planning
  imports Sync_Auto_Execution
begin

text \<open>
  \<open>sync-planning.service.ts\<close>, \<open>sync-planner-config.ts\<close> and \<open>sync-planner.scheduler.ts\<close>: which
  tasks a month needs, their creation in one transaction, and the timer that plans the previous
  month once a month. The advisory locks of the database serialise the transactions of a month;
  the model's transactions are atomic.
\<close>

section \<open>Configuration and months\<close>

record planner_config =
  pf_enabled :: bool
  pf_day :: nat
  pf_hour :: nat

definition readSyncPlannerConfig :: "environment \<Rightarrow> planner_config outcome" where
  "readSyncPlannerConfig env =
     bind_res (env_flag env ''SYNC_PLANNER_ENABLED'') (\<lambda>enabled.
     bind_res (env_integer env ''SYNC_PLANNER_DAY'' ''10'' 1 28) (\<lambda>day.
     bind_res (env_integer env ''SYNC_PLANNER_HOUR'' ''9'' 0 23) (\<lambda>hour.
     if or_keep (env ''SYNC_PLANNER_TIMEZONE'') ''Asia/Shanghai'' \<noteq> ''Asia/Shanghai''
     then Inl (JsError ''SYNC_PLANNER_TIMEZONE must be Asia/Shanghai.'')
     else Inr \<lparr>pf_enabled = enabled, pf_day = day, pf_hour = hour\<rparr>)))"

definition getPreviousGmt8Month :: "int \<Rightarrow> js_date" where
  "getPreviousGmt8Month now =
     (case time_clip (now + 8 * 60 * 60 * 1000) of
        None \<Rightarrow> None
      | Some local \<Rightarrow> date_UTC (getUTCFullYear local) (getUTCMonth local - 1) 1)"

definition isPlannerDue :: "planner_config \<Rightarrow> int \<Rightarrow> bool" where
  "isPlannerDue config now =
     (pf_enabled config \<and>
      (case time_clip (now + 8 * 60 * 60 * 1000) of
         None \<Rightarrow> False
       | Some local \<Rightarrow>
           getUTCDate local > int (pf_day config)
           \<or> (getUTCDate local = int (pf_day config) \<and> getUTCHours local \<ge> int (pf_hour config))))"

definition monthText :: "int \<Rightarrow> string" where
  "monthText month = take 7 (iso_string month)"

definition parseMonth :: "string \<Rightarrow> int outcome" where
  "parseMonth value =
     (case match_year_month value of
        Some (year, month) \<Rightarrow>
          (if month < 1 \<or> month > 12
           then Inl (AppError VALIDATION_ERROR ''settlementMonth must use YYYY-MM format.'')
           else stored_month (date_UTC year (month - 1) 1))
      | None \<Rightarrow> Inl (AppError VALIDATION_ERROR ''settlementMonth must use YYYY-MM format.''))"

section \<open>Candidates\<close>

datatype planning_blocker =
  BL_MONTH_LOCKED | BL_CREDENTIAL_MISSING | BL_ACCOUNT_DISABLED | BL_TASK_ALREADY_EXISTS
  | BL_UNSUPPORTED_PLATFORM | BL_UNSUPPORTED_PROVIDER

record planning_candidate =
  pl_sourceType :: sync_source_type
  pl_taskType :: sync_task_type
  pl_affiliateAccountId :: "string option"
  pl_affiliateAccountName :: "string option"
  pl_platform :: string
  pl_provider :: "provider option"
  pl_credentialId :: "string option"
  pl_existingTaskId :: "string option"
  pl_blockerCodes :: "planning_blocker list"
  pl_planningKey :: string

definition canCreate :: "planning_candidate \<Rightarrow> bool" where
  "canCreate c \<longleftrightarrow> pl_blockerCodes c = []"

definition month_tasks :: "int \<Rightarrow> database \<Rightarrow> sync_task_row list" where
  "month_tasks m db = filter (\<lambda>r. tk_month r = m) (sync_tasks db)"

definition existing_income_task :: "int \<Rightarrow> string \<Rightarrow> database \<Rightarrow> sync_task_row option" where
  "existing_income_task m account db =
     find_row (\<lambda>r. tk_sourceType r = affiliate_income \<and> tk_affiliateAccountId r = Some account) (month_tasks m db)"

definition existing_card_task :: "int \<Rightarrow> provider \<Rightarrow> database \<Rightarrow> sync_task_row option" where
  "existing_card_task m provider db =
     find_row (\<lambda>r. tk_sourceType r = card_spend \<and> tk_provider r = Some provider) (month_tasks m db)"

definition active_account_credential :: "string \<Rightarrow> database \<Rightarrow> account_credential option" where
  "active_account_credential account db =
     (case find_account_credential account db of
        None \<Rightarrow> None | Some c \<Rightarrow> if lc_status c = CS_active then Some c else None)"

text \<open>The blockers in the order the code pushes them.\<close>

definition push_blockers :: "(bool \<times> planning_blocker) list \<Rightarrow> planning_blocker list" where
  "push_blockers bs = map snd (filter fst bs)"

definition account_candidate :: "int \<Rightarrow> database \<Rightarrow> affiliate_account \<Rightarrow> planning_candidate" where
  "account_candidate m db account =
     (let platform = js_lower (js_trim (aa_platform account));
          credential = active_account_credential (aa_id account) db;
          existing = existing_income_task m (aa_id account) db
      in \<lparr>pl_sourceType = affiliate_income, pl_taskType = TT_affiliate_income, pl_affiliateAccountId = Some (aa_id account),
          pl_affiliateAccountName = Some (or_keep (aa_accountName account) (aa_accountCode account)),
          pl_platform = platform, pl_provider = None, pl_credentialId = map_option lc_id credential,
          pl_existingTaskId = map_option tk_id existing,
          pl_blockerCodes = push_blockers
            [(month_locked m db, BL_MONTH_LOCKED), (platform \<notin> {''everflow'', ''cake''}, BL_UNSUPPORTED_PLATFORM),
             (credential = None, BL_CREDENTIAL_MISSING), (existing \<noteq> None, BL_TASK_ALREADY_EXISTS)],
          pl_planningKey = ''sync-plan:'' @ monthText m @ '':affiliate:'' @ aa_id account\<rparr>)"

definition provider_candidate :: "int \<Rightarrow> database \<Rightarrow> provider \<Rightarrow> planning_candidate" where
  "provider_candidate m db provider =
     (let credential = find_row (\<lambda>c. pc_provider c = provider \<and> pc_status c = CS_active) (provider_credentials db);
          existing = existing_card_task m provider db
      in \<lparr>pl_sourceType = card_spend, pl_taskType = fst (card_kind provider), pl_affiliateAccountId = None,
          pl_affiliateAccountName = None, pl_platform = provider_name provider, pl_provider = Some provider,
          pl_credentialId = map_option pc_id credential, pl_existingTaskId = map_option tk_id existing,
          pl_blockerCodes = push_blockers
            [(month_locked m db, BL_MONTH_LOCKED), (credential = None, BL_CREDENTIAL_MISSING),
             (existing \<noteq> None, BL_TASK_ALREADY_EXISTS)],
          pl_planningKey = ''sync-plan:'' @ monthText m @ '':card:'' @ provider_name provider\<rparr>)"

text \<open>Accounts in the order of their creation, then the two card providers.\<close>

definition candidates :: "int \<Rightarrow> database \<Rightarrow> planning_candidate list" where
  "candidates m db =
     map (account_candidate m db) (filter (\<lambda>a. aa_status a = CS_active) (affiliate_accounts db))
     @ map (provider_candidate m db) [airwallex, photonpay]"

record planning_preview =
  pv_locked :: bool
  pv_candidates :: "planning_candidate list"
  pv_existing :: "planning_candidate list"
  pv_blocked :: "planning_candidate list"

definition buildPreview :: "int \<Rightarrow> database \<Rightarrow> planning_preview" where
  "buildPreview m db =
     (let cs = candidates m db
      in \<lparr>pv_locked = month_locked m db, pv_candidates = cs,
          pv_existing = filter (\<lambda>c. pl_existingTaskId c \<noteq> None) cs,
          pv_blocked = filter (\<lambda>c. \<not> canCreate c \<and> pl_existingTaskId c = None) cs\<rparr>)"

definition previewPlan :: "string \<Rightarrow> planning_preview handler" where
  "previewPlan settlementMonthInput =
     op_bind (op_lift (parseMonth settlementMonthInput)) (\<lambda>m. op_get (buildPreview m))"

section \<open>Generating the tasks of a month\<close>

definition planned_platform :: "string \<Rightarrow> sync_platform outcome" where
  "planned_platform name =
     (case find (\<lambda>p. platform_name p = name) all_platforms of
        None \<Rightarrow> Inl prisma_validation_error | Some p \<Rightarrow> Inr p)"

definition planned_payload :: "int \<Rightarrow> planning_candidate \<Rightarrow> jsval" where
  "planned_payload m c =
     JObject [(''settlementMonth'', JString (monthText m)), (''credentialId'', jstr_or_null (pl_credentialId c))]"

fun create_candidates ::
  "runtime \<Rightarrow> int \<Rightarrow> actor option \<Rightarrow> sync_trigger \<Rightarrow> (nat \<times> planning_candidate) list \<Rightarrow> (string \<times> string) list handler" where
  "create_candidates rt m actor trigger [] = op_return []"
| "create_candidates rt m actor trigger ((n, c) # rest) =
     op_bind (op_lift (planned_platform (pl_platform c))) (\<lambda>platform.
     op_bind (task_insert (new_task rt n (pl_sourceType c) (pl_taskType c) platform (pl_affiliateAccountId c) (pl_provider c)
       m (map_option ac_userId actor) trigger (Some (pl_planningKey c)) (planned_payload m c))) (\<lambda>task.
     op_bind (create_candidates rt m actor trigger rest) (\<lambda>created.
     op_return ((tk_id task, pl_planningKey c) # created))))"

record plan_result =
  pn_created :: "(string \<times> string) list"
  pn_existing :: "planning_candidate list"
  pn_blocked :: "planning_candidate list"
  pn_blockerCodes :: "planning_blocker list"

definition plan_audit :: "actor option \<Rightarrow> int \<Rightarrow> string list \<Rightarrow> audit_input" where
  "plan_audit actor m changed =
     \<lparr>ai_actorUserId = map_option ac_userId actor,
      ai_actorRole = Some (case actor of None \<Rightarrow> ''system'' | Some a \<Rightarrow> ac_roleCode a),
      ai_action = ''sync_planning.generate'', ai_objectType = ''sync_planning'', ai_objectId = Some (monthText m),
      ai_settlementMonth = Some m, ai_changedFields = changed, ai_failureReason = None, ai_errorMessage = None\<rparr>"

definition plan_month :: "runtime \<Rightarrow> int \<Rightarrow> actor option \<Rightarrow> sync_trigger \<Rightarrow> plan_result handler" where
  "plan_month rt m actor trigger =
     op_bind (op_get (buildPreview m)) (\<lambda>preview.
     op_bind (op_assert (\<not> (pv_locked preview \<and> trigger = TR_manual))
       (AppError MONTH_LOCKED ''Settlement month is locked and cannot be planned.'')) (\<lambda>_.
     op_bind (create_candidates rt m actor trigger (enumerate 0 (filter canCreate (pv_candidates preview)))) (\<lambda>created.
     let existing = filter (\<lambda>c. BL_TASK_ALREADY_EXISTS \<in> set (pl_blockerCodes c)) (pv_candidates preview);
         blocked = filter (\<lambda>c. \<not> canCreate c \<and> BL_TASK_ALREADY_EXISTS \<notin> set (pl_blockerCodes c)) (pv_candidates preview)
     in op_bind (audit_success (plan_audit actor m [''createdCount''])) (\<lambda>_.
        op_return \<lparr>pn_created = created, pn_existing = existing, pn_blocked = blocked,
          pn_blockerCodes = js_dedup (concat (map pl_blockerCodes blocked))\<rparr>))))"

definition generatePlan :: "runtime \<Rightarrow> string \<Rightarrow> actor option \<Rightarrow> sync_trigger \<Rightarrow> plan_result handler" where
  "generatePlan rt settlementMonthInput actor trigger =
     op_bind (op_lift (parseMonth settlementMonthInput)) (\<lambda>m.
     op_catch (op_transaction (plan_month rt m actor trigger))
       (\<lambda>e. case e of
          AppError code _ \<Rightarrow>
            if code = MONTH_LOCKED
            then op_bind (audit_failure ((plan_audit actor m [])
                   \<lparr>ai_failureReason := Some ''MONTH_LOCKED'', ai_errorMessage := Some ''Settlement month is locked.''\<rparr>)) (\<lambda>_.
                 op_throw e)
            else op_throw e
        | _ \<Rightarrow> op_throw e))"

section \<open>The monthly timer\<close>

definition find_run :: "int \<Rightarrow> database \<Rightarrow> planning_run option" where
  "find_run m db = find_row (\<lambda>r. pr_settlementMonth r = m) (planning_runs db)"

definition run_upsert :: "planning_run \<Rightarrow> (planning_run \<Rightarrow> planning_run) \<Rightarrow> unit handler" where
  "run_upsert new f db =
     (case find_run (pr_settlementMonth new) db of
        None \<Rightarrow> (Inr (), db\<lparr>planning_runs := planning_runs db @ [new]\<rparr>)
      | Some _ \<Rightarrow>
          (Inr (), db\<lparr>planning_runs :=
             update_first (\<lambda>r. pr_settlementMonth r = pr_settlementMonth new) f (planning_runs db)\<rparr>))"

definition run_update :: "int \<Rightarrow> (planning_run \<Rightarrow> planning_run) \<Rightarrow> unit handler" where
  "run_update m f db =
     (case find_run m db of
        None \<Rightarrow> (Inl (PrismaKnownError ''P2025''), db)
      | Some _ \<Rightarrow> (Inr (), db\<lparr>planning_runs := update_first (\<lambda>r. pr_settlementMonth r = m) f (planning_runs db)\<rparr>))"

definition claimRun :: "int \<Rightarrow> int \<Rightarrow> bool handler" where
  "claimRun m now =
     op_transaction
       (op_bind (op_get (find_run m)) (\<lambda>run.
        if (case run of None \<Rightarrow> False | Some r \<Rightarrow> pr_status r = PR_succeeded) then op_return False
        else if (case run of None \<Rightarrow> False | Some r \<Rightarrow> pr_status r = PR_running \<and> now - pr_lastAttemptAt r < 10 * 60 * 1000)
        then op_return False
        else
          op_bind (run_upsert
            \<lparr>pr_settlementMonth = m, pr_status = PR_running, pr_lastAttemptAt = now, pr_lastSuccessAt = None, pr_attemptCount = 1,
             pr_createdCount = 0, pr_existingCount = 0, pr_blockedCount = 0, pr_blockerCodes = [], pr_failureCode = None\<rparr>
            (\<lambda>r. r\<lparr>pr_status := PR_running, pr_lastAttemptAt := now, pr_attemptCount := pr_attemptCount r + 1,
                   pr_failureCode := None\<rparr>)) (\<lambda>_.
          op_return True)))"

fun blocker_name :: "planning_blocker \<Rightarrow> string" where
  "blocker_name BL_MONTH_LOCKED = ''MONTH_LOCKED''"
| "blocker_name BL_CREDENTIAL_MISSING = ''CREDENTIAL_MISSING''"
| "blocker_name BL_ACCOUNT_DISABLED = ''ACCOUNT_DISABLED''"
| "blocker_name BL_TASK_ALREADY_EXISTS = ''TASK_ALREADY_EXISTS''"
| "blocker_name BL_UNSUPPORTED_PLATFORM = ''UNSUPPORTED_PLATFORM''"
| "blocker_name BL_UNSUPPORTED_PROVIDER = ''UNSUPPORTED_PROVIDER''"

definition run_succeeded :: "runtime \<Rightarrow> plan_result \<Rightarrow> planning_run \<Rightarrow> planning_run" where
  "run_succeeded rt result r =
     r\<lparr>pr_status := PR_succeeded, pr_lastSuccessAt := Some (rt_now rt), pr_createdCount := length (pn_created result),
       pr_existingCount := length (pn_existing result), pr_blockedCount := length (pn_blocked result),
       pr_blockerCodes := map blocker_name (pn_blockerCodes result), pr_failureCode := None\<rparr>"

datatype planner_outcome = Not_due | Already_succeeded_or_running | Planned plan_result | Planning_failed

text \<open>A month outside the range of dates, which no clock gives, ends the check like any other error of it.\<close>

definition checkPlanner :: "planner_config \<Rightarrow> runtime \<Rightarrow> planner_outcome handler" where
  "checkPlanner config rt =
     (if \<not> isPlannerDue config (rt_now rt) then op_return Not_due
      else
        op_bind (op_lift (stored_month (getPreviousGmt8Month (rt_now rt)))) (\<lambda>m.
        op_bind (claimRun m (rt_now rt)) (\<lambda>is_claimed.
        if \<not> is_claimed then op_return Already_succeeded_or_running
        else
          op_catch
            (op_bind (generatePlan rt (monthText m) None TR_scheduled) (\<lambda>result.
             op_bind (run_update m (run_succeeded rt result)) (\<lambda>_.
             op_return (Planned result))))
            (\<lambda>e. op_bind (op_catch (run_update m (\<lambda>r. r\<lparr>pr_status := PR_failed, pr_failureCode := Some ''PLANNING_FAILED''\<rparr>))
                     (\<lambda>_. op_return ())) (\<lambda>_.
                 op_return Planning_failed)))))"

section \<open>Status\<close>

record planner_status =
  ps_config :: planner_config
  ps_currentTargetMonth :: "string option"
  ps_latest :: "planning_run option"

definition plannerStatus :: "planner_config \<Rightarrow> runtime \<Rightarrow> planner_status handler" where
  "plannerStatus config rt =
     op_get (\<lambda>db. \<lparr>ps_config = config, ps_currentTargetMonth = map_option monthText (getPreviousGmt8Month (rt_now rt)),
       ps_latest = (case rev (sort_key pr_lastAttemptAt (planning_runs db)) of [] \<Rightarrow> None | r # _ \<Rightarrow> Some r)\<rparr>)"

end
