(* ===== verification/Sync_Lifecycle.thy ===== *)
theory Sync_Lifecycle
  imports Sync_Planning
begin

text \<open>
  The life of a synchronisation task over all services: an abstract machine of its status, its
  lease and its attempts (\<open>lifecycle_move\<close>), the steps of the program at the granularity of its
  database transactions (\<open>sync_step\<close>), and the proof that every step is a move of the machine on
  each task. The arguments of a step come from earlier reads, so they may be out of date: the
  steps of several instances, of administrators and of the timers interleave in any order.
\<close>

section \<open>The abstract machine\<close>

record lifecycle =
  lf_status :: sync_task_status
  lf_lease :: "(string \<times> int) option"
  lf_attempts :: nat

text \<open>What happens, with the task (first) and, where it matters, the instance and the time.\<close>

datatype sync_event =
    Created
  | Retry_asked string
  | Cancel_asked string int
  | Hand_started string
  | Hand_finished string
  | Claimed string int
  | Lease_finished string string
  | Elsewhere

definition lease_ended :: "(string \<times> int) option \<Rightarrow> int \<Rightarrow> bool" where
  "lease_ended l now \<longleftrightarrow> (case l of None \<Rightarrow> False | Some (_, t) \<Rightarrow> t \<le> now)"

inductive lifecycle_move :: "nat \<Rightarrow> sync_event \<Rightarrow> string \<Rightarrow> lifecycle \<Rightarrow> lifecycle \<Rightarrow> bool" for k where
  ask_retry: "st \<in> {ST_failed, ST_retry_wait} \<Longrightarrow>
     lifecycle_move k (Retry_asked i) i \<lparr>lf_status = st, lf_lease = l, lf_attempts = n\<rparr>
       \<lparr>lf_status = ST_pending, lf_lease = None, lf_attempts = n\<rparr>"
| cancel: "st \<in> {ST_pending, ST_retry_wait, ST_failed} \<or> (st = ST_running \<and> lease_ended l now) \<Longrightarrow>
     lifecycle_move k (Cancel_asked i now) i \<lparr>lf_status = st, lf_lease = l, lf_attempts = n\<rparr>
       \<lparr>lf_status = ST_cancelled, lf_lease = None, lf_attempts = n\<rparr>"
| hand_start: "st \<notin> {ST_running, ST_completed, ST_cancelled} \<Longrightarrow>
     lifecycle_move k (Hand_started i) i \<lparr>lf_status = st, lf_lease = None, lf_attempts = n\<rparr>
       \<lparr>lf_status = ST_running, lf_lease = None, lf_attempts = n\<rparr>"
| hand_finish: "st \<in> {ST_completed, ST_failed} \<Longrightarrow>
     lifecycle_move k (Hand_finished i) i \<lparr>lf_status = ST_running, lf_lease = None, lf_attempts = n\<rparr>
       \<lparr>lf_status = st, lf_lease = None, lf_attempts = n\<rparr>"
| claim: "n < k \<Longrightarrow> st \<in> {ST_pending, ST_retry_wait} \<or> (st = ST_running \<and> lease_ended l now) \<Longrightarrow>
     lifecycle_move k (Claimed owner now) i \<lparr>lf_status = st, lf_lease = l, lf_attempts = n\<rparr>
       \<lparr>lf_status = ST_running, lf_lease = Some (owner, t), lf_attempts = n + 1\<rparr>"
| finish: "st \<in> {ST_completed, ST_failed, ST_retry_wait} \<Longrightarrow>
     lifecycle_move k (Lease_finished i owner) i \<lparr>lf_status = ST_running, lf_lease = Some (owner, t), lf_attempts = n\<rparr>
       \<lparr>lf_status = st, lf_lease = None, lf_attempts = n\<rparr>"

inductive_simps retry_move: "lifecycle_move k (Retry_asked j) i a b"
inductive_simps cancel_move: "lifecycle_move k (Cancel_asked j now) i a b"
inductive_simps start_move: "lifecycle_move k (Hand_started j) i a b"
inductive_simps hand_finish_move: "lifecycle_move k (Hand_finished j) i a b"
inductive_simps claim_move: "lifecycle_move k (Claimed owner now) i a b"
inductive_simps finish_move: "lifecycle_move k (Lease_finished j owner) i a b"

lemmas moves = retry_move cancel_move start_move hand_finish_move claim_move finish_move

definition lifecycle_of :: "sync_task_row \<Rightarrow> lifecycle" where
  "lifecycle_of r =
     \<lparr>lf_status = tk_status r,
      lf_lease = (case (tk_leaseOwner r, tk_leaseExpiresAt r) of (Some owner, Some t) \<Rightarrow> Some (owner, t) | _ \<Rightarrow> None),
      lf_attempts = tk_attemptCount r\<rparr>"

section \<open>Rows and tables\<close>

text \<open>A lease has an owner and an end, is held only while the task runs, and attempts are bounded.\<close>

definition row_ok :: "nat \<Rightarrow> sync_task_row \<Rightarrow> bool" where
  "row_ok k r \<longleftrightarrow> (tk_leaseOwner r = None \<longleftrightarrow> tk_leaseExpiresAt r = None)
     \<and> (tk_leaseOwner r \<noteq> None \<longrightarrow> tk_status r = ST_running) \<and> tk_attemptCount r \<le> k"

definition tasks_ok :: "nat \<Rightarrow> database \<Rightarrow> bool" where
  "tasks_ok k db \<longleftrightarrow> distinct (map tk_id (sync_tasks db)) \<and> list_all (row_ok k) (sync_tasks db)"

definition row_step :: "nat \<Rightarrow> sync_event \<Rightarrow> sync_task_row \<Rightarrow> sync_task_row \<Rightarrow> bool" where
  "row_step k ev r r' \<longleftrightarrow> r' = r
     \<or> (tk_id r' = tk_id r \<and> row_ok k r' \<and> lifecycle_move k ev (tk_id r) (lifecycle_of r) (lifecycle_of r'))"

definition new_row :: "sync_task_row \<Rightarrow> bool" where
  "new_row r \<longleftrightarrow> tk_status r = ST_pending \<and> tk_leaseOwner r = None \<and> tk_leaseExpiresAt r = None \<and> tk_attemptCount r = 0"

text \<open>Every row of before makes at most one move; rows are added at the end, never removed.\<close>

definition advance :: "nat \<Rightarrow> sync_event \<Rightarrow> sync_task_row list \<Rightarrow> sync_task_row list \<Rightarrow> bool" where
  "advance k ev rows rows' \<longleftrightarrow>
     (\<exists>changed added. rows' = changed @ added \<and> list_all2 (row_step k ev) rows changed
        \<and> list_all new_row added \<and> distinct (map tk_id added) \<and> tk_id ` set added \<inter> tk_id ` set rows = {})"

lemma row_step_same [simp]: "row_step k ev r r"
  by (simp add: row_step_def)

lemma row_step_id: "row_step k ev r r' \<Longrightarrow> tk_id r' = tk_id r"
  by (auto simp: row_step_def)

lemma list_all2_same: "(\<And>x. x \<in> set xs \<Longrightarrow> P x x) \<Longrightarrow> list_all2 P xs xs"
  by (induction xs) auto

lemma advance_refl [simp]: "advance k ev rows rows"
  unfolding advance_def by (rule exI [of _ rows], rule exI [of _ "[]"]) (simp add: list_all2_same)

lemma advance_changed: "list_all2 (row_step k ev) rows rows' \<Longrightarrow> advance k ev rows rows'"
  unfolding advance_def by (rule exI [of _ rows'], rule exI [of _ "[]"]) simp

lemma advance_added:
  "list_all new_row added \<Longrightarrow> distinct (map tk_id added) \<Longrightarrow> tk_id ` set added \<inter> tk_id ` set rows = {} \<Longrightarrow>
   advance k ev rows (rows @ added)"
  unfolding advance_def by (rule exI [of _ rows], rule exI [of _ added]) (simp add: list_all2_same)

lemma advance_update_rows:
  assumes "\<And>r. r \<in> set rows \<Longrightarrow> p r \<Longrightarrow> row_step k ev r (f r)"
  shows "advance k ev rows (update_rows p f rows)"
proof (rule advance_changed)
  show "list_all2 (row_step k ev) rows (update_rows p f rows)"
    using assms by (induction rows) (auto simp: update_rows_def)
qed

lemma advance_update_first:
  assumes "\<And>r. r \<in> set rows \<Longrightarrow> p r \<Longrightarrow> row_step k ev r (f r)"
  shows "advance k ev rows (update_first p f rows)"
proof (rule advance_changed)
  show "list_all2 (row_step k ev) rows (update_first p f rows)"
    using assms by (induction rows) (auto intro: list_all2_same)
qed

lemma advance_row:
  assumes "advance k ev rows rows'" "r \<in> set rows"
  obtains r' where "r' \<in> set rows'" "row_step k ev r r'"
proof -
  obtain changed added where "rows' = changed @ added" "list_all2 (row_step k ev) rows changed"
    using assms(1) by (auto simp: advance_def)
  moreover obtain n where "n < length rows" "r = rows ! n" using assms(2) by (metis in_set_conv_nth)
  ultimately have "changed ! n \<in> set rows'" "row_step k ev r (changed ! n)"
    by (auto simp: list_all2_conv_all_nth)
  then show thesis by (rule that)
qed

lemma new_row_ok: "new_row r \<Longrightarrow> row_ok k r"
  by (simp add: new_row_def row_ok_def)

lemma advance_tasks_ok:
  assumes "advance k ev (sync_tasks db) (sync_tasks db')" "tasks_ok k db"
  shows "tasks_ok k db'"
proof -
  obtain changed added where a: "sync_tasks db' = changed @ added" "list_all2 (row_step k ev) (sync_tasks db) changed"
    "list_all new_row added" "distinct (map tk_id added)" "tk_id ` set added \<inter> tk_id ` set (sync_tasks db) = {}"
    using assms(1) by (auto simp: advance_def)
  have ids: "map tk_id changed = map tk_id (sync_tasks db)"
    using a(2) by (induction rule: list_all2_induct) (auto simp: row_step_id)
  have "list_all (row_ok k) changed"
    using a(2) assms(2) unfolding tasks_ok_def
    by (auto simp: list_all2_conv_all_nth list_all_length row_step_def)
  moreover have "list_all (row_ok k) added" using a(3) by (auto simp: list_all_iff new_row_ok)
  moreover have "distinct (map tk_id (changed @ added))"
    using a(4,5) assms(2) ids by (auto simp: tasks_ok_def simp flip: set_map)
  ultimately show ?thesis by (simp add: tasks_ok_def a(1))
qed

section \<open>The moves of the updates\<close>

lemmas step_defs = row_step_def row_ok_def lifecycle_of_def

lemma retried_step: "retryable_row i r \<Longrightarrow> row_ok k r \<Longrightarrow> row_step k (Retry_asked i) r (retried now r)"
  by (simp add: step_defs retry_move retryable_row_def retried_def ACTIVE_RETRY_STATUSES_def)

lemma cancelled_step: "cancelable_row b now i r \<Longrightarrow> row_ok k r \<Longrightarrow> row_step k (Cancel_asked i now) r (cancelled now r)"
  by (auto simp: step_defs cancel_move cancelable_row_def cancelled_def CANCELABLE_STATUSES_def
      lease_over_def lease_ended_def split: if_splits option.splits)

lemma executable_status:
  "assertExecutableStatus task = Inr () \<longleftrightarrow> tk_status task \<notin> {ST_running, ST_completed, ST_cancelled}"
  by (simp add: assertExecutableStatus_def)

lemma started_step:
  assumes "startable_row task r" "assertExecutableStatus task = Inr ()" "row_ok k r"
  shows "row_step k (Hand_started (tk_id task)) r (started rt r)"
proof -
  have "tk_status r \<notin> {ST_running, ST_completed, ST_cancelled}" "tk_leaseOwner r = None" "tk_id r = tk_id task"
    using assms(1,2) by (auto simp: startable_row_def executable_status)
  then show ?thesis using assms(3) by (simp add: step_defs start_move started_def)
qed

lemma finished_step: "hand_run_row i r \<Longrightarrow> row_ok k r \<Longrightarrow> row_step k (Hand_finished i) r (finished rt result r)"
  by (simp add: step_defs hand_finish_move hand_run_row_def finished_def)

lemma claimed_step:
  assumes "claimable config now db r" "row_ok (au_maxAttempts config) r"
  shows "row_step (au_maxAttempts config) (Claimed owner now) r (claim_row config now owner r)"
proof -
  let ?l = "lf_lease (lifecycle_of r)"
  have n: "tk_attemptCount r < au_maxAttempts config" and due: "due_status now r"
    using assms(1) by (simp_all add: claimable_def)
  have "tk_status r \<in> {ST_pending, ST_retry_wait} \<or> (tk_status r = ST_running \<and> lease_ended ?l now)"
    using due assms(2)
    by (cases "tk_leaseOwner r"; cases "tk_leaseExpiresAt r")
      (auto simp: due_status_def lease_over_def lease_ended_def lifecycle_of_def row_ok_def)
  moreover have "lifecycle_of (claim_row config now owner r) = \<lparr>lf_status = ST_running,
      lf_lease = Some (owner, now + int (au_leaseSeconds config) * 1000), lf_attempts = tk_attemptCount r + 1\<rparr>"
    "lifecycle_of r = \<lparr>lf_status = tk_status r, lf_lease = ?l, lf_attempts = tk_attemptCount r\<rparr>"
    by (simp_all add: lifecycle_of_def claim_row_def)
  ultimately have "lifecycle_move (au_maxAttempts config) (Claimed owner now) (tk_id r) (lifecycle_of r)
      (lifecycle_of (claim_row config now owner r))"
    using n lifecycle_move.claim by metis
  then show ?thesis using n by (simp add: row_step_def row_ok_def claim_row_def)
qed

lemma succeeded_step:
  "owned_row i owner r \<Longrightarrow> row_ok k r \<Longrightarrow> row_step k (Lease_finished i owner) r (succeeded rt result r)"
  by (auto simp: step_defs finish_move owned_row_def succeeded_def)

lemma failed_step:
  "owned_row i owner r \<Longrightarrow> row_ok k r \<Longrightarrow>
   row_step k (Lease_finished i owner) r (failed_row config rt claim category message result r)"
  by (auto simp: step_defs finish_move owned_row_def failed_row_def Let_def)

section \<open>The steps of the program\<close>

text \<open>
  One rule per database transaction that writes tasks; everything else the program does leaves
  the table alone. Identifiers of new rows are new.
\<close>

definition fresh_ids :: "runtime \<Rightarrow> database \<Rightarrow> bool" where
  "fresh_ids rt db \<longleftrightarrow> inj (rt_fresh_id rt) \<and> range (rt_fresh_id rt) \<inter> tk_id ` set (sync_tasks db) = {}"

inductive sync_step :: "nat \<Rightarrow> sync_event \<Rightarrow> database \<Rightarrow> database \<Rightarrow> bool" for k where
  income_created: "fresh_ids rt db \<Longrightarrow> sync_step k Created db (snd (createAffiliateIncome rt input actor db))"
| card_created: "fresh_ids rt db \<Longrightarrow> sync_step k Created db (snd (createCardSpend rt provider body actor db))"
| month_planned: "fresh_ids rt db \<Longrightarrow> sync_step k Created db (snd (generatePlan rt month_text planner trigger db))"
| retry_asked: "sync_step k (Retry_asked (tk_id task)) db (snd (retry_update rt task actor db))"
| cancel_asked: "sync_step k (Cancel_asked (tk_id task) (rt_now rt)) db (snd (cancel_update rt b task actor db))"
| hand_started: "assertExecutableStatus task = Inr () \<Longrightarrow> sync_step k (Hand_started (tk_id task)) db (snd (start_update rt task db))"
| hand_finished: "sync_step k (Hand_finished i) db (snd (finish_update rt i result db))"
| tasks_claimed: "au_maxAttempts config = k \<Longrightarrow> sync_step k (Claimed owner now) db (snd (claimTasks config now owner held db))"
| lease_succeeded: "sync_step k (Lease_finished (ct_id claim) owner) db (snd (finishSuccess rt owner claim result db))"
| lease_failed: "sync_step k (Lease_finished (ct_id claim) owner) db (snd (finishFailure config rt owner claim category message result' db))"
| elsewhere: "sync_tasks db' = sync_tasks db \<Longrightarrow> sync_step k Elsewhere db db'"

inductive sync_trace :: "nat \<Rightarrow> sync_event list \<Rightarrow> database \<Rightarrow> database \<Rightarrow> bool" for k where
  trace_nil: "sync_trace k [] db db"
| trace_cons: "sync_step k ev db db1 \<Longrightarrow> sync_trace k es db1 db2 \<Longrightarrow> sync_trace k (ev # es) db db2"

lemma looks_past_audit_tasks [simp]: "looks_past_audit sync_tasks"
  by (simp add: looks_past_audit_def)

lemma sync_tasks_put [simp]: "sync_tasks (put_tasks rows db) = rows"
  by (simp add: put_tasks_def)

lemma update_rows_none: "length (filter p rows) = 0 \<Longrightarrow> update_rows p f rows = rows"
  by (induction rows) (auto simp: update_rows_def split: if_splits)

text \<open>The tasks after each update.\<close>

lemma tasks_after_retry:
  "sync_tasks (snd (retry_update rt task actor db)) =
     update_rows (retryable_row (tk_id task)) (retried (rt_now rt)) (sync_tasks db)"
  by (simp add: retry_update_def op_transaction_def op_bind_def task_update_many_def)

lemma tasks_after_cancel:
  "sync_tasks (snd (cancel_update rt b task actor db)) =
     update_rows (cancelable_row b (rt_now rt) (tk_id task)) (cancelled (rt_now rt)) (sync_tasks db)"
  by (simp add: cancel_update_def op_transaction_def op_bind_def task_update_many_def)

lemma tasks_after_success:
  "sync_tasks (snd (finishSuccess rt owner claim result db)) =
     update_rows (owned_row (ct_id claim) owner) (succeeded rt result) (sync_tasks db)"
  by (simp add: finishSuccess_def op_transaction_def op_bind_def task_update_many_def)

lemma tasks_after_failure:
  "sync_tasks (snd (finishFailure config rt owner claim category message result db)) =
     update_rows (owned_row (ct_id claim) owner) (failed_row config rt claim category message result) (sync_tasks db)"
  by (simp add: finishFailure_def op_transaction_def op_bind_def task_update_many_def Let_def)

lemma tasks_after_start:
  "sync_tasks (snd (start_update rt task db)) = update_first (startable_row task) (started rt) (sync_tasks db)"
proof -
  have "update_first p f rows = rows" if "find_row p rows = None" for p f and rows :: "sync_task_row list"
    using that by (induction rows) (auto split: if_splits)
  then show ?thesis by (auto simp: start_update_def op_catch_def task_update_def split: option.split)
qed

lemma tasks_after_finish:
  "sync_tasks (snd (finish_update rt i result db)) = update_first (hand_run_row i) (finished rt result) (sync_tasks db)"
proof -
  have "update_first p f rows = rows" if "find_row p rows = None" for p f and rows :: "sync_task_row list"
    using that by (induction rows) (auto split: if_splits)
  then show ?thesis by (auto simp: finish_update_def task_update_def split: option.split)
qed

lemma claim_audits:
  "fst (op_iter claim_audit cs db) = Inr () \<and> sync_tasks (snd (op_iter claim_audit cs db)) = sync_tasks db"
  by (induction cs arbitrary: db) (simp_all add: claim_audit_def)

lemma tasks_after_claim:
  "sync_tasks (snd (claimTasks config now owner held db)) =
     update_rows (\<lambda>r. tk_id r \<in> tk_id ` set (claim_candidates config now held db)) (claim_row config now owner) (sync_tasks db)"
proof -
  define rows where "rows = claim_candidates config now held db"
  define db1 where "db1 = put_tasks (update_rows (\<lambda>r. tk_id r \<in> tk_id ` set rows) (claim_row config now owner) (sync_tasks db)) db"
  have "fst (op_iter claim_audit (map claimed_of rows) db1) = Inr ()"
    "sync_tasks (snd (op_iter claim_audit (map claimed_of rows) db1)) = sync_tasks db1"
    using claim_audits by auto
  then show ?thesis
    by (cases "op_iter claim_audit (map claimed_of rows) db1")
      (simp add: claimTasks_def op_transaction_def op_bind_def flip: rows_def db1_def, simp add: db1_def)
qed

section \<open>Every step is a move of the machine\<close>

lemma new_task_new_row [simp]: "new_row (new_task rt n st tt p a pr m u tr key payload)"
  by (simp add: new_task_def new_row_def)

lemma new_task_id [simp]: "tk_id (new_task rt n st tt p a pr m u tr key payload) = rt_fresh_id rt n"
  by (simp add: new_task_def)

text \<open>\<open>advanced k ev rows db\<close>: the table of \<open>db\<close> is one step after \<open>rows\<close>.\<close>

definition advanced :: "nat \<Rightarrow> sync_event \<Rightarrow> sync_task_row list \<Rightarrow> database \<Rightarrow> bool" where
  "advanced k ev rows db \<longleftrightarrow> advance k ev rows (sync_tasks db)"

lemma audit_stable_advanced [simp]: "audit_stable (advanced k ev rows)"
  by (simp add: audit_stable_def advanced_def)

lemma advanced_refl [simp]: "advanced k ev (sync_tasks db) db"
  by (simp add: advanced_def)

lemma inserted_advances:
  assumes "new_row row" "tk_id row \<notin> tk_id ` set (sync_tasks db)"
  shows "preserves (advanced k ev (sync_tasks db)) db (task_insert row)"
  using assms advance_added [of "[row]" "sync_tasks db"]
  by (simp add: preserves_def advanced_def task_insert_def table_insert_def)

lemma preserves_failure_audit:
  "I db \<Longrightarrow> audit_stable I \<Longrightarrow> preserves I db (auditFailureUnlessMonthLocked actor action e)"
  by (cases e) (simp_all add: auditFailureUnlessMonthLocked_def preserves_def audit_stable_def)

lemma audited_insert:
  assumes "new_row row" "tk_id row \<notin> tk_id ` set (sync_tasks db)"
  shows "preserves (advanced k ev (sync_tasks db)) db
    (op_bind (task_insert row) (\<lambda>x. op_bind (audit_success (a x)) (\<lambda>_. op_return x)))"
  by (rule preserves_audited [OF audit_stable_advanced inserted_advances [OF assms]])

lemma income_advances:
  assumes "rt_fresh_id rt 0 \<notin> tk_id ` set (sync_tasks db)"
  shows "preserves (advanced k ev (sync_tasks db)) db (createAffiliateIncome rt input actor)"
  unfolding createAffiliateIncome_def Let_def
  by (intro preserves_catch preserves_lift preserves_table_find preserves_guard preserves_failure_audit
      audited_insert audit_stable_advanced advanced_refl) (use assms in simp_all)

lemma card_advances:
  assumes "rt_fresh_id rt 0 \<notin> tk_id ` set (sync_tasks db)"
  shows "preserves (advanced k ev (sync_tasks db)) db (createCardSpend rt provider body actor)"
proof -
  have "preserves (advanced k ev (sync_tasks db)) db (create_card_task rt p body action actor)" for p action
    unfolding create_card_task_def
    by (intro preserves_lift preserves_guard audited_insert audit_stable_advanced advanced_refl) (use assms in simp_all)
  then show ?thesis
    unfolding createCardSpend_def Let_def
    by (auto intro!: preserves_catch preserves_failure_audit split: option.split)
qed

text \<open>The rows a plan adds, whether it ends or fails on the way.\<close>

lemma created_rows:
  "\<exists>added n. snd (create_candidates rt m actor trigger ncs db) = put_tasks (sync_tasks db @ added) db
     \<and> list_all new_row added \<and> map tk_id added = take n (map (\<lambda>nc. rt_fresh_id rt (fst nc)) ncs)"
proof (induction rt m actor trigger ncs arbitrary: db rule: create_candidates.induct)
  case (1 rt m actor trigger)
  show ?case by (rule exI [of _ "[]"], rule exI [of _ 0]) (simp add: put_tasks_def)
next
  case (2 rt m actor trigger n c rest)
  show ?case
  proof (cases "planned_platform (pl_platform c)")
    case (Inl e)
    show ?thesis by (rule exI [of _ "[]"], rule exI [of _ 0]) (simp add: Inl put_tasks_def)
  next
    case (Inr platform)
    define row where "row = new_task rt n (pl_sourceType c) (pl_taskType c) platform (pl_affiliateAccountId c)
      (pl_provider c) m (map_option ac_userId actor) trigger (Some (pl_planningKey c)) (planned_payload m c)"
    show ?thesis
    proof (cases "list_ex (\<lambda>r. task_clash r row) (sync_tasks db)")
      case True
      show ?thesis
        by (rule exI [of _ "[]"], rule exI [of _ 0])
          (simp add: Inr task_insert_def table_insert_def op_bind_def True put_tasks_def flip: row_def)
    next
      case False
      let ?db = "put_tasks (sync_tasks db @ [row]) db"
      obtain added k where a: "snd (create_candidates rt m actor trigger rest ?db) = put_tasks (sync_tasks ?db @ added) ?db"
        "list_all new_row added" "map tk_id added = take k (map (\<lambda>nc. rt_fresh_id rt (fst nc)) rest)"
        using "2.IH" by metis
      have "snd (create_candidates rt m actor trigger ((n, c) # rest) db) = snd (create_candidates rt m actor trigger rest ?db)"
        by (cases "create_candidates rt m actor trigger rest ?db")
          (auto simp: Inr task_insert_def table_insert_def op_bind_def False simp flip: row_def split: sum.split)
      moreover have "new_row row" "tk_id row = rt_fresh_id rt n" by (simp_all add: row_def)
      ultimately show ?thesis
        using a by (intro exI [of _ "row # added"] exI [of _ "Suc k"]) (simp add: put_tasks_def)
    qed
  qed
qed

lemma created_rows_advance:
  assumes "fresh_ids rt db"
  shows "preserves (advanced k ev (sync_tasks db)) db (create_candidates rt m actor trigger (enumerate 0 cs))"
proof -
  obtain added n where a: "snd (create_candidates rt m actor trigger (enumerate 0 cs) db) = put_tasks (sync_tasks db @ added) db"
    "list_all new_row added" "map tk_id added = take n (map (\<lambda>nc. rt_fresh_id rt (fst nc)) (enumerate 0 cs))"
    using created_rows by metis
  have "map (\<lambda>nc. rt_fresh_id rt (fst nc)) (enumerate 0 cs) = map (rt_fresh_id rt) [0..<length cs]"
  proof -
    have "map (\<lambda>nc. rt_fresh_id rt (fst nc)) (enumerate 0 cs) = map (rt_fresh_id rt) (map fst (enumerate 0 cs))"
      by (simp only: map_map comp_def)
    then show ?thesis by (simp only: map_fst_enumerate add_0)
  qed
  then have ids: "map tk_id added = take n (map (rt_fresh_id rt) [0..<length cs])" using a(3) by simp
  have "distinct (map (rt_fresh_id rt) [0..<length cs])"
    using assms by (simp add: distinct_map fresh_ids_def inj_on_subset [OF _ subset_UNIV])
  then have "distinct (map tk_id added)" using ids by (metis distinct_take)
  moreover have "tk_id ` set added \<subseteq> range (rt_fresh_id rt)"
    using arg_cong [OF ids, of set] by (auto simp: take_map)
  then have "tk_id ` set added \<inter> tk_id ` set (sync_tasks db) = {}" using assms by (auto simp: fresh_ids_def)
  ultimately show ?thesis
    using a(1,2) by (simp add: preserves_def advanced_def advance_added)
qed

lemma plan_advances:
  assumes "fresh_ids rt db"
  shows "preserves (advanced k ev (sync_tasks db)) db (generatePlan rt month_text planner trigger)"
proof -
  let ?I = "advanced k ev (sync_tasks db)"
  have "preserves ?I db (plan_month rt m planner trigger)" for m
    unfolding plan_month_def Let_def
    by (rule preserves_get, rule preserves_assert, simp, rule preserves_audited, simp,
        rule created_rows_advance [OF assms])
  then show ?thesis
    unfolding generatePlan_def
    by (auto intro!: preserves_lift preserves_catch preserves_transaction split: app_exception.split)
      (simp add: preserves_def advanced_def)
qed

lemma sync_step_advance:
  assumes "sync_step k ev db db'" "tasks_ok k db"
  shows "advance k ev (sync_tasks db) (sync_tasks db')"
proof -
  have row: "row_ok k r" if "r \<in> set (sync_tasks db)" for r
    using that assms(2) by (auto simp: tasks_ok_def list_all_iff)
  have fresh: "rt_fresh_id rt 0 \<notin> tk_id ` set (sync_tasks db)" if "fresh_ids rt db" for rt
    using that by (auto simp: fresh_ids_def)
  have same: "r' = r" if "r \<in> set (sync_tasks db)" "r' \<in> set (sync_tasks db)" "tk_id r' = tk_id r" for r r'
    using that assms(2) by (auto simp: tasks_ok_def distinct_map dest: inj_onD)
  from assms(1) show ?thesis
  proof cases
    case (tasks_claimed config owner now held)
    have "claimable config now db r"
      if r: "r \<in> set (sync_tasks db)" and c: "tk_id r \<in> tk_id ` set (claim_candidates config now held db)" for r
    proof -
      obtain r' where "r' \<in> set (claim_candidates config now held db)" "tk_id r' = tk_id r" using c by auto
      moreover from this have "r' \<in> set (sync_tasks db)" "claimable config now db r'"
        by (auto simp: claim_candidates_def dest: in_set_takeD)
      ultimately show ?thesis using same r by metis
    qed
    then have "row_step k (Claimed owner now) r (claim_row config now owner r)"
      if "r \<in> set (sync_tasks db)" "tk_id r \<in> tk_id ` set (claim_candidates config now held db)" for r
      using claimed_step [of config now db r owner] row [of r] that tasks_claimed(3) by simp
    then show ?thesis
      unfolding tasks_claimed(1,2) tasks_after_claim by (intro advance_update_rows)
  qed (use income_advances [OF fresh, of _ k ev] card_advances [OF fresh, of _ k ev] plan_advances [of _ db k ev] row in
      \<open>auto simp: preserves_def advanced_def tasks_after_retry tasks_after_cancel tasks_after_start tasks_after_finish
         tasks_after_success tasks_after_failure
       intro!: advance_update_rows advance_update_first retried_step cancelled_step started_step finished_step
         succeeded_step failed_step\<close>)
qed

end
