(* ===== verification/Sync_Properties.thy ===== *)
theory Sync_Properties
  imports Sync_Lifecycle Employees
begin

text \<open>
  What holds of synchronisation tasks over any run of the program: the calls of the services
  are runs of \<open>sync_step\<close>, so every task follows the abstract machine; which tasks are final,
  which are exclusive to the holder of a lease, and which no later step can move on.
\<close>

section \<open>Runs\<close>

lemma sync_step_ok: "sync_step k ev db db' \<Longrightarrow> tasks_ok k db \<Longrightarrow> tasks_ok k db'"
  using advance_tasks_ok sync_step_advance by blast

lemma sync_trace_append:
  "sync_trace k es db db1 \<Longrightarrow> sync_trace k es' db1 db2 \<Longrightarrow> sync_trace k (es @ es') db db2"
  by (induction rule: sync_trace.induct) (auto intro: sync_trace.intros)

lemma sync_trace_single: "sync_step k ev db db' \<Longrightarrow> sync_trace k [ev] db db'"
  by (blast intro: sync_trace.intros)

text \<open>A predicate of a row that every move of the run keeps still holds of the row at the end.\<close>

lemma trace_row:
  assumes "sync_trace k es db db'" "tasks_ok k db" "r \<in> set (sync_tasks db)" "Q r"
    and keep: "\<And>ev x x'. ev \<in> set es \<Longrightarrow> Q x \<Longrightarrow> row_ok k x \<Longrightarrow> tk_id x = tk_id r \<Longrightarrow> row_step k ev x x' \<Longrightarrow> Q x'"
  shows "tasks_ok k db' \<and> (\<exists>r' \<in> set (sync_tasks db'). tk_id r' = tk_id r \<and> Q r')"
  using assms
proof (induction arbitrary: r rule: sync_trace.induct)
  case (trace_cons ev db db1 es db2)
  obtain r1 where r1: "r1 \<in> set (sync_tasks db1)" "row_step k ev r r1"
    using advance_row [OF sync_step_advance [OF trace_cons.hyps(1) trace_cons.prems(1)] trace_cons.prems(2)] .
  have "row_ok k r" using trace_cons.prems(1,2) by (auto simp: tasks_ok_def list_all_iff)
  then have "Q r1" "tk_id r1 = tk_id r"
    using trace_cons.prems(3,4) r1(2) row_step_id by (force, force)
  then show ?case
    using trace_cons.IH [OF sync_step_ok [OF trace_cons.hyps(1) trace_cons.prems(1)] r1(1)] trace_cons.prems(4)
    by (metis list.set_intros(2))
qed auto

lemma trace_tasks_ok: "sync_trace k es db db' \<Longrightarrow> tasks_ok k db \<Longrightarrow> tasks_ok k db'"
  by (induction rule: sync_trace.induct) (auto intro: sync_step_ok)

section \<open>Service calls as runs\<close>

text \<open>\<open>runs E k db h\<close>: what \<open>h\<close> does to \<open>db\<close> is a run of the program's steps, with events of \<open>E\<close>.\<close>

definition runs :: "sync_event set \<Rightarrow> nat \<Rightarrow> database \<Rightarrow> 'a handler \<Rightarrow> bool" where
  "runs E k db h \<longleftrightarrow> (\<exists>es. set es \<subseteq> E \<and> sync_trace k es db (snd (h db)))"

lemma runs_nil: "snd (h db) = db \<Longrightarrow> runs E k db h"
  unfolding runs_def by (rule exI [of _ "[]"]) (simp add: sync_trace.intros)

lemma runs_step: "sync_step k ev db (snd (h db)) \<Longrightarrow> ev \<in> E \<Longrightarrow> runs E k db h"
  unfolding runs_def by (rule exI [of _ "[ev]"]) (simp add: sync_trace_single)

lemma runs_frame: "op_frame sync_tasks UNIV h \<Longrightarrow> Elsewhere \<in> E \<Longrightarrow> runs E k db h"
  by (rule runs_step [where ev = Elsewhere], rule sync_step.elsewhere) (simp_all add: op_frameD)

lemma runs_joined:
  "\<exists>es. set es \<subseteq> E \<and> sync_trace k es db db1 \<Longrightarrow> \<exists>es. set es \<subseteq> E \<and> sync_trace k es db1 db2 \<Longrightarrow>
   \<exists>es. set es \<subseteq> E \<and> sync_trace k es db db2"
  by (metis set_append sync_trace_append Un_least)

lemma runs_bind:
  assumes "runs E k db h" "\<And>x db'. h db = (Inr x, db') \<Longrightarrow> runs E k db' (f x)"
  shows "runs E k db (op_bind h f)"
proof (cases "h db")
  case (Pair r db1)
  have first: "\<exists>es. set es \<subseteq> E \<and> sync_trace k es db db1" using assms(1) Pair by (simp add: runs_def)
  show ?thesis
  proof (cases r)
    case (Inr x)
    then have "\<exists>es. set es \<subseteq> E \<and> sync_trace k es db1 (snd (f x db1))" using assms(2) Pair by (simp add: runs_def)
    from runs_joined [OF first this] show ?thesis by (simp add: runs_def op_bind_def Pair Inr)
  qed (use first Pair in \<open>simp add: runs_def op_bind_def\<close>)
qed

lemma runs_catch:
  assumes "runs E k db h" "\<And>e db'. runs E k db' (g e)"
  shows "runs E k db (op_catch h g)"
proof (cases "h db")
  case (Pair r db1)
  have first: "\<exists>es. set es \<subseteq> E \<and> sync_trace k es db db1" using assms(1) Pair by (simp add: runs_def)
  show ?thesis
  proof (cases r)
    case (Inl e)
    from runs_joined [OF first] assms(2) [of db1 e] show ?thesis by (simp add: runs_def op_catch_def Pair Inl)
  qed (use first Pair in \<open>simp add: runs_def op_catch_def\<close>)
qed

lemma runs_iter: "Elsewhere \<in> E \<Longrightarrow> (\<And>x db'. runs E k db' (f x)) \<Longrightarrow> runs E k db (op_iter f xs)"
proof (induction xs arbitrary: db)
  case (Cons x xs)
  then show ?case by (auto intro: runs_bind)
qed (auto intro!: runs_frame frame_intros)

text \<open>The operations that leave the tasks alone.\<close>

lemma tasks_frames [frame_intros]:
  "op_frame sync_tasks UNIV (assertUnlocked task actor)"
  "op_frame sync_tasks UNIV (credential_check a b c d task)"
  "op_frame sync_tasks UNIV (loadTaskOrThrow i)"
  "op_frame sync_tasks UNIV (execute_failure actor i m e)"
  unfolding assertUnlocked_def credential_check_def loadTaskOrThrow_def execute_failure_def
  by (auto intro!: frame_intros split: option.split app_exception.split)

lemma credential_frames [frame_intros]: "op_frame sync_tasks UNIV (getCredentialPayload decrypt task)"
  unfolding getCredentialPayload_def getAffiliateAccountCredentialPayload_def getCardProviderCredentialPayload_def
  by (auto intro!: frame_intros split: option.split)

lemma planning_run_frames [frame_intros]:
  "op_frame sync_tasks UNIV (claimRun m now)" "op_frame sync_tasks UNIV (run_update m f)"
  unfolding claimRun_def run_upsert_def run_update_def
  by (auto intro!: frame_intros split: option.split) (auto simp: op_frame_def split: option.split)

lemma runs_retry: "runs UNIV k db (requestRetry rt n i reason actor)"
  unfolding requestRetry_def assertHasActiveCredential_def
  by (intro runs_bind runs_step [OF sync_step.retry_asked UNIV_I])
    (auto intro!: runs_frame frame_intros split: option.split)

lemma runs_cancel: "runs UNIV k db (cancelTask rt n i reason actor)"
  unfolding cancelTask_def Let_def
  by (auto intro!: runs_bind runs_step [OF sync_step.cancel_asked UNIV_I])
    (auto intro!: runs_frame frame_intros split: option.split)

text \<open>The adapters write incomes, card events and unmatched events, never tasks.\<close>

definition adapters_spare_tasks :: "adapters \<Rightarrow> bool" where
  "adapters_spare_tasks adapters \<longleftrightarrow> (\<forall>key cx. op_frame sync_tasks UNIV (adapters key cx))"

lemma runs_execute:
  assumes "adapters_spare_tasks adapters"
  shows "runs {Elsewhere, Hand_started i, Hand_finished i} k db (executeTask rt decrypt adapters i actor)"
proof -
  let ?E = "{Elsewhere, Hand_started i, Hand_finished i}"
  have body: "runs ?E k db (execute_body rt decrypt adapters task actor)" if i: "tk_id task = i" for task db
  proof (cases "assertExecutableStatus task")
    case (Inl e)
    show ?thesis unfolding execute_body_def Inl
      by (intro runs_bind) (auto intro!: runs_frame frame_intros)
  next
    case (Inr u)
    then have start: "runs ?E k db (start_update rt task)" for db
      using i by (intro runs_step [OF sync_step.hand_started]) simp_all
    have finish: "runs ?E k db (finish_update rt (tk_id task) result)" for result db
      using i by (intro runs_step [OF sync_step.hand_finished]) simp
    show ?thesis
      unfolding execute_body_def requireActiveCredential_def
      by (intro runs_bind start finish)
        (use assms in \<open>auto intro!: runs_frame frame_intros simp: adapters_spare_tasks_def\<close>)
  qed
  have fail: "runs ?E k db (execute_failure actor i m e :: sync_task_row handler)" for m e db
    by (intro runs_frame frame_intros) simp
  have "tk_id task = i" if "find_task i db = Some task" for task
    using that by (auto simp: find_task_def dest: find_row_Some)
  then show ?thesis
    unfolding executeTask_def
    by (intro runs_bind [OF runs_frame [OF op_frame_pure(4)]])
      (auto intro!: runs_catch [OF body fail] fail split: option.split)
qed

lemma runs_claim:
  assumes "adapters_spare_tasks adapters"
  shows "runs UNIV k db (executeClaim config rt owner decrypt adapters prisma_message claim)"
proof -
  have fail: "runs UNIV k db (finishFailure config rt owner claim c m x)" for c m x db
    by (rule runs_step [OF sync_step.lease_failed UNIV_I])
  have success: "runs UNIV k db (finishSuccess rt owner claim x)" for x db
    by (rule runs_step [OF sync_step.lease_succeeded UNIV_I])
  have adapter: "runs UNIV k db (adapters key cx)" for key cx db
    using assms by (auto intro: runs_frame simp: adapters_spare_tasks_def)
  have pure: "runs UNIV k db (op_get g)" "runs UNIV k db (op_lift r)" "runs UNIV k db (op_return x)" for g r x db
    by (auto intro!: runs_frame frame_intros)
  have "runs UNIV k db (run_claim config rt owner decrypt adapters claim)"
    unfolding run_claim_def
    by (auto intro!: runs_bind pure fail success adapter runs_frame [OF credential_frames] split: option.split)
  then show ?thesis
    unfolding executeClaim_def by (intro runs_catch fail)
qed

lemma runs_poll:
  assumes "adapters_spare_tasks adapters" "au_maxAttempts config = k"
  shows "runs UNIV k db (poll config rt owner held decrypt adapters prisma_message)"
proof -
  have pure: "runs UNIV k db (op_return x)" for x :: nat and db by (intro runs_frame frame_intros) simp_all
  have claiming: "runs UNIV k db (claimTasks config (rt_now rt) owner held)" for db
    by (rule runs_step [OF sync_step.tasks_claimed [OF assms(2)] UNIV_I])
  show ?thesis
    unfolding poll_def by (auto intro!: runs_bind [OF claiming] runs_bind [OF runs_iter] runs_claim [OF assms(1)] pure)
qed

lemma runs_planner:
  assumes "fresh_ids rt db"
  shows "runs UNIV k db (checkPlanner config rt)"
proof -
  have month_plan: "runs UNIV k db' (generatePlan rt s None TR_scheduled)" if "sync_tasks db' = sync_tasks db" for s db'
    using assms that by (intro runs_step [OF sync_step.month_planned]) (simp_all add: fresh_ids_def)
  have claiming: "sync_tasks db' = sync_tasks db" if "claimRun m now db = (r, db')" for m now r db'
    using op_frameD [OF planning_run_frames(1), of db m now] that by simp
  have pure: "runs UNIV k db (op_return x)" for x :: planner_outcome and db by (intro runs_frame frame_intros) simp_all
  have update: "runs UNIV k db (run_update m f)" for m f db by (intro runs_frame frame_intros) simp_all
  have mark_failed: "runs UNIV k db (op_bind (op_catch (run_update m f) (\<lambda>_. op_return ())) (\<lambda>_. op_return Planning_failed))" for m f db
    by (intro runs_frame frame_intros) simp_all
  have attempt: "runs UNIV k db' (op_catch (op_bind (generatePlan rt s None TR_scheduled) (\<lambda>result.
      op_bind (run_update m (f result)) (\<lambda>_. op_return (Planned result)))) (\<lambda>e. op_bind (op_catch (run_update m g)
      (\<lambda>_. op_return ())) (\<lambda>_. op_return Planning_failed)))" if "sync_tasks db' = sync_tasks db" for s m f g db'
    by (intro runs_catch runs_bind month_plan [OF that] update pure mark_failed)
  have lift: "op_lift r db = (Inr x, db') \<Longrightarrow> db' = db" for r :: "int outcome" and x db db' by simp
  show ?thesis
    unfolding checkPlanner_def
    by (auto intro!: runs_bind [OF runs_frame [OF op_frame_pure(3)]] runs_bind [OF runs_frame [OF planning_run_frames(1)]]
        pure attempt dest!: claiming)
qed

text \<open>Any call of a service, and whatever else the program does without writing tasks.\<close>

inductive service_call :: "nat \<Rightarrow> database \<Rightarrow> database \<Rightarrow> bool" for k where
  call_income: "fresh_ids rt db \<Longrightarrow> service_call k db (snd (createAffiliateIncome rt input actor db))"
| call_card: "fresh_ids rt db \<Longrightarrow> service_call k db (snd (createCardSpend rt provider body actor db))"
| call_plan: "fresh_ids rt db \<Longrightarrow> service_call k db (snd (generatePlan rt month_text planner trigger db))"
| call_planner: "fresh_ids rt db \<Longrightarrow> service_call k db (snd (checkPlanner planner_conf rt db))"
| call_retry: "service_call k db (snd (requestRetry rt n i reason actor db))"
| call_cancel: "service_call k db (snd (cancelTask rt n i reason actor db))"
| call_execute: "adapters_spare_tasks adapters \<Longrightarrow> service_call k db (snd (executeTask rt decrypt adapters i actor db))"
| call_poll: "adapters_spare_tasks adapters \<Longrightarrow> au_maxAttempts config = k \<Longrightarrow>
     service_call k db (snd (poll config rt owner held decrypt adapters prisma_message db))"
| call_other: "sync_tasks db' = sync_tasks db \<Longrightarrow> service_call k db db'"

lemma service_call_trace: "service_call k db db' \<Longrightarrow> \<exists>es. sync_trace k es db db'"
proof (induction rule: service_call.induct)
  case (call_execute adapters db rt decrypt i actor)
  then show ?case using runs_execute [of adapters i k db rt decrypt actor] by (auto simp: runs_def)
qed (use runs_retry runs_cancel runs_poll runs_planner in
    \<open>fastforce simp: runs_def intro: sync_trace_single sync_step.intros\<close>)+

lemma service_calls_trace: "(service_call k)\<^sup>*\<^sup>* db db' \<Longrightarrow> \<exists>es. sync_trace k es db db'"
  by (induction rule: rtranclp_induct) (auto intro: sync_trace.intros, meson service_call_trace sync_trace_append)

section \<open>Moves that cannot happen\<close>

lemma final_row_stays:
  "row_step k ev r r' \<Longrightarrow> tk_status r \<in> {ST_completed, ST_cancelled} \<Longrightarrow> r' = r"
  by (auto simp: row_step_def lifecycle_of_def elim!: lifecycle_move.cases)

lemma hand_run_stays:
  "row_step k ev r r' \<Longrightarrow> tk_status r = ST_running \<Longrightarrow> tk_leaseOwner r = None \<Longrightarrow> ev \<noteq> Hand_finished (tk_id r) \<Longrightarrow> r' = r"
  by (auto simp: row_step_def lifecycle_of_def lease_ended_def elim!: lifecycle_move.cases)

text \<open>\<open>spares_lease i owner t ev\<close>: the event is not the holder's finish, and it is before \<open>t\<close> if it asks the time.\<close>

definition spares_lease :: "string \<Rightarrow> string \<Rightarrow> int \<Rightarrow> sync_event \<Rightarrow> bool" where
  "spares_lease i owner t ev =
     (case ev of Claimed _ now \<Rightarrow> now < t | Cancel_asked _ now \<Rightarrow> now < t
      | Lease_finished j owner' \<Rightarrow> (j, owner') \<noteq> (i, owner) | _ \<Rightarrow> True)"

lemma leased_row_stays:
  "row_step k ev r r' \<Longrightarrow> tk_status r = ST_running \<Longrightarrow> tk_leaseOwner r = Some owner \<Longrightarrow> tk_leaseExpiresAt r = Some t \<Longrightarrow>
   spares_lease (tk_id r) owner t ev \<Longrightarrow> r' = r"
  by (auto simp: row_step_def lifecycle_of_def lease_ended_def spares_lease_def elim!: lifecycle_move.cases)

lemma exhausted_row_unleased:
  "row_step k ev r r' \<Longrightarrow> row_ok k r \<Longrightarrow> k \<le> tk_attemptCount r \<Longrightarrow> tk_leaseOwner r = None \<Longrightarrow>
   k \<le> tk_attemptCount r' \<and> tk_leaseOwner r' = None"
  by (auto simp: row_step_def row_ok_def lifecycle_of_def elim!: lifecycle_move.cases split: option.splits)

text \<open>From a row without a lease, running by hand gives none.\<close>

lemma hand_events_no_lease:
  "row_step k ev r r' \<Longrightarrow> ev \<in> {Elsewhere, Hand_started i, Hand_finished i} \<Longrightarrow> tk_leaseOwner r = None \<Longrightarrow> row_ok k r \<Longrightarrow>
   tk_leaseOwner r' = None"
  by (auto simp: row_step_def row_ok_def lifecycle_of_def elim!: lifecycle_move.cases split: option.splits)

text \<open>What a retry that is granted leaves: the row, pending and without a lease.\<close>

lemma retry_update_granted:
  assumes "tasks_ok k db" "retry_update rt task actor db = (Inr (Some r), db1)"
  shows "r \<in> set (sync_tasks db1) \<and> tk_id r = tk_id task \<and> tk_status r = ST_pending \<and> tk_leaseOwner r = None"
proof -
  let ?p = "retryable_row (tk_id task)" let ?f = "retried (rt_now rt)"
  have rows: "sync_tasks db1 = update_rows ?p ?f (sync_tasks db)" using tasks_after_retry assms(2) by (metis snd_conv)
  have res: "filter ?p (sync_tasks db) \<noteq> [] \<and> find_task (tk_id task) db1 = Some r"
    using assms(2) by (auto simp: retry_update_def op_transaction_eq_Inr op_bind_eq_Inr task_update_many_def split: if_splits)
  then obtain x where x: "x \<in> set (sync_tasks db)" "?p x" by (auto simp: filter_empty_conv)
  have r: "r \<in> set (sync_tasks db1)" "tk_id r = tk_id task" using res by (auto simp: find_task_def dest: find_row_Some)
  obtain y where y: "y \<in> set (sync_tasks db)" "r = (if ?p y then ?f y else y)"
    using r(1) by (auto simp: rows update_rows_def)
  then have "tk_id y = tk_id x" using r(2) x(2) by (auto simp: retried_def retryable_row_def split: if_splits)
  moreover have "inj_on tk_id (set (sync_tasks db))" using assms(1) by (simp add: tasks_ok_def distinct_map)
  ultimately have "y = x" using x(1) y(1) by (metis inj_onD)
  then show ?thesis using r x(2) y(2) by (simp add: retried_def)
qed

lemma retry_granted:
  assumes "tasks_ok k db" "requestRetry rt n i reason actor db = (Inr dto, db1)"
  shows "od_task dto \<in> set (sync_tasks db1) \<and> tk_id (od_task dto) = i \<and> tk_status (od_task dto) = ST_pending
    \<and> tk_leaseOwner (od_task dto) = None"
proof -
  have load: "loadTaskOrThrow i db = (Inr task, db') \<Longrightarrow> tk_id task = i \<and> db' = db" for task db'
    using table_find_bind [of sync_tasks tk_id _ i op_return db]
    by (auto simp: loadTaskOrThrow_def table_find_def dest: find_row_Some split: option.splits)
  have check: "op_assert b e db' = (Inr u, db'') \<Longrightarrow> db'' = db'" for b e u and db' db'' :: database
    by (cases b) simp_all
  have same: "h db' = (Inr u, db'') \<Longrightarrow> op_frame sync_tasks UNIV h \<Longrightarrow> sync_tasks db'' = sync_tasks db'"
    for h :: "unit handler" and u db' db'' using op_frameD [of sync_tasks UNIV h db'] by simp
  obtain task db1' db2' db0 r where s: "loadTaskOrThrow i db = (Inr task, db1')"
    "assertUnlocked task actor db1' = (Inr (), db2')" "assertHasActiveCredential task db2' = (Inr (), db0)"
    "retry_update rt task actor db0 = (Inr (Some r), db1)" "dto = toOperationDto r (rt_now rt) n"
    using assms(2) unfolding requestRetry_def by (auto simp: op_bind_eq_Inr split: option.splits dest!: check)
  have "op_frame sync_tasks UNIV (assertHasActiveCredential task)"
    unfolding assertHasActiveCredential_def by (rule tasks_frames)
  then have "sync_tasks db0 = sync_tasks db"
    using same [of "assertUnlocked task actor"] same [of "assertHasActiveCredential task"] tasks_frames(1) s(2,3) load [OF s(1)]
    by metis
  then have t: "tk_id task = i" "sync_tasks db0 = sync_tasks db" "retry_update rt task actor db0 = (Inr (Some r), db1)"
    "od_task dto = r" using s(4,5) load [OF s(1)] by (simp_all add: toOperationDto_def)
  have "tasks_ok k db0" using assms(1) t(2) by (simp add: tasks_ok_def)
  from retry_update_granted [OF this t(3)] show ?thesis using t(1,4) by simp
qed

lemma claims_of_rows:
  assumes "claimTasks config now owner held db = (Inr claims, db')"
  shows "claims = map claimed_of (claim_candidates config now held db)"
  using assms by (auto simp: claimTasks_def op_transaction_eq_Inr op_bind_eq_Inr)

lemma claimed_row:
  assumes "claimTasks config now owner held db = (Inr claims, db')" "i \<in> ct_id ` set claims"
  shows "\<exists>x \<in> set (sync_tasks db). tk_id x = i \<and> claimable config now db x"
  using assms(2) unfolding claims_of_rows [OF assms(1)]
  by (auto simp: claimed_of_def claim_candidates_def dest!: in_set_takeD)

section \<open>Planning a month\<close>

text \<open>The row a candidate becomes.\<close>

definition planned_as :: "runtime \<Rightarrow> int \<Rightarrow> actor option \<Rightarrow> sync_trigger \<Rightarrow> nat \<times> planning_candidate \<Rightarrow> sync_task_row \<Rightarrow> bool" where
  "planned_as rt m planner trigger nc r \<longleftrightarrow>
     (\<exists>p. r = new_task rt (fst nc) (pl_sourceType (snd nc)) (pl_taskType (snd nc)) p (pl_affiliateAccountId (snd nc))
        (pl_provider (snd nc)) m (map_option ac_userId planner) trigger (Some (pl_planningKey (snd nc)))
        (planned_payload m (snd nc)))"

lemma created_exactly:
  assumes "create_candidates rt m planner trigger ncs db = (Inr created, db')"
  shows "\<exists>rows. db' = put_tasks (sync_tasks db @ rows) db \<and> list_all2 (planned_as rt m planner trigger) ncs rows
    \<and> created = map (\<lambda>(n, c). (rt_fresh_id rt n, pl_planningKey c)) ncs"
  using assms
proof (induction rt m planner trigger ncs arbitrary: db created rule: create_candidates.induct)
  case (1 rt m planner trigger)
  then show ?case by (simp add: put_tasks_def)
next
  case (2 rt m planner trigger n c rest)
  obtain p row x db1 created' where s: "task_insert row db = (Inr x, db1)"
    "row = new_task rt n (pl_sourceType c) (pl_taskType c) p (pl_affiliateAccountId c) (pl_provider c) m
       (map_option ac_userId planner) trigger (Some (pl_planningKey c)) (planned_payload m c)"
    "create_candidates rt m planner trigger rest db1 = (Inr created', db')"
    "created = (tk_id x, pl_planningKey c) # created'"
    using "2.prems" by (auto simp: op_bind_eq_Inr)
  have db1: "x = row" "db1 = put_tasks (sync_tasks db @ [row]) db"
    using s(1) by (auto simp: task_insert_def table_insert_def split: if_splits)
  obtain rows where rows: "db' = put_tasks (sync_tasks db1 @ rows) db1" "list_all2 (planned_as rt m planner trigger) rest rows"
    "created' = map (\<lambda>(n, c). (rt_fresh_id rt n, pl_planningKey c)) rest"
    using "2.IH" [OF s(3)] by blast
  have "planned_as rt m planner trigger (n, c) row" using s(2) by (auto simp: planned_as_def)
  then show ?case
    using rows s(2,4) db1 by (intro exI [of _ "row # rows"]) (simp add: put_tasks_def)
qed

lemma plan_success:
  assumes "generatePlan rt month_text planner trigger db = (Inr res, db1)"
  shows "\<exists>m rows logs. parseMonth month_text = Inr m \<and> db1 = (put_tasks (sync_tasks db @ rows) db)\<lparr>audit_logs := logs\<rparr>
    \<and> list_all2 (planned_as rt m planner trigger) (enumerate 0 (filter canCreate (candidates m db))) rows
    \<and> pn_created res = map (\<lambda>(n, c). (rt_fresh_id rt n, pl_planningKey c)) (enumerate 0 (filter canCreate (candidates m db)))"
proof -
  obtain m where m: "parseMonth month_text = Inr m" "plan_month rt m planner trigger db = (Inr res, db1)"
    using assms by (auto simp: generatePlan_def op_bind_eq_Inr op_catch_def op_transaction_def
        split: prod.splits sum.splits app_exception.splits if_splits)
  have cs: "pv_candidates (buildPreview m db) = candidates m db" by (simp add: buildPreview_def Let_def)
  define made where "made = create_candidates rt m planner trigger (enumerate 0 (filter canCreate (candidates m db))) db"
  have "\<exists>created. fst made = Inr created \<and> pn_created res = created \<and> (\<exists>logs. db1 = (snd made)\<lparr>audit_logs := logs\<rparr>)"
  proof (cases made)
    case (Pair r db')
    note run = Pair [unfolded made_def]
    show ?thesis
    proof (cases r)
      case (Inl e)
      then show ?thesis
        using m(2) run by (simp add: plan_month_def op_bind_assert cs op_bind_Inl split: if_splits)
    next
      case (Inr created)
      then have "plan_month rt m planner trigger db = (Inr res, db1) \<Longrightarrow> pn_created res = created \<and>
          db1 = db'\<lparr>audit_logs := audit_logs db' @ [audit_row (plan_audit planner m [''createdCount'']) AR_success]\<rparr>"
        using run by (auto simp: plan_month_def op_bind_assert cs op_bind_Inr Let_def split: if_splits)
      then show ?thesis using m(2) Pair Inr by auto
    qed
  qed
  then obtain created db' logs where c: "create_candidates rt m planner trigger (enumerate 0 (filter canCreate (candidates m db))) db = (Inr created, db')"
    "pn_created res = created" "db1 = db'\<lparr>audit_logs := logs\<rparr>"
    unfolding made_def by (metis prod.collapse)
  from created_exactly [OF c(1)] c(2,3) m(1) show ?thesis by blast
qed

text \<open>The tables a plan reads, before and after one.\<close>

definition same_sources :: "database \<Rightarrow> database \<Rightarrow> bool" where
  "same_sources db db' \<longleftrightarrow> affiliate_accounts db' = affiliate_accounts db \<and> account_credentials db' = account_credentials db
     \<and> provider_credentials db' = provider_credentials db \<and> settlements db' = settlements db"

lemma credential_same: "same_sources db db' \<Longrightarrow> active_account_credential a db' = active_account_credential a db"
  by (simp add: same_sources_def active_account_credential_def find_account_credential_def cong: option.case_cong)

lemma locked_same: "same_sources db db' \<Longrightarrow> month_locked m db' = month_locked m db"
  by (simp add: same_sources_def month_locked_def find_settlement_def)

lemma existing_iff:
  "existing_income_task m a db \<noteq> None \<longleftrightarrow>
     (\<exists>r \<in> set (sync_tasks db). tk_month r = m \<and> tk_sourceType r = affiliate_income \<and> tk_affiliateAccountId r = Some a)"
  "existing_card_task m p db \<noteq> None \<longleftrightarrow>
     (\<exists>r \<in> set (sync_tasks db). tk_month r = m \<and> tk_sourceType r = card_spend \<and> tk_provider r = Some p)"
  by (auto simp: existing_income_task_def existing_card_task_def month_tasks_def find_row_None)

lemma account_canCreate:
  "canCreate (account_candidate m db a) \<longleftrightarrow> \<not> month_locked m db \<and> js_lower (js_trim (aa_platform a)) \<in> {''everflow'', ''cake''}
     \<and> active_account_credential (aa_id a) db \<noteq> None \<and> existing_income_task m (aa_id a) db = None"
  by (auto simp: canCreate_def account_candidate_def Let_def push_blockers_def)

lemma provider_canCreate:
  "canCreate (provider_candidate m db p) \<longleftrightarrow> \<not> month_locked m db
     \<and> find_row (\<lambda>c. pc_provider c = p \<and> pc_status c = CS_active) (provider_credentials db) \<noteq> None \<and> existing_card_task m p db = None"
  by (auto simp: canCreate_def provider_candidate_def Let_def push_blockers_def)

text \<open>What a plan leaves: the sources unchanged, and one task for every candidate that could be created.\<close>

lemma plan_leaves:
  assumes "generatePlan rt month_text planner trigger db = (Inr res, db1)"
  obtains m where "parseMonth month_text = Inr m" "same_sources db db1" "set (sync_tasks db) \<subseteq> set (sync_tasks db1)"
    "\<And>c. c \<in> set (candidates m db) \<Longrightarrow> canCreate c \<Longrightarrow>
       \<exists>n. \<exists>r \<in> set (sync_tasks db1). planned_as rt m planner trigger (n, c) r"
    "\<And>i key. (i, key) \<in> set (pn_created res) \<Longrightarrow> \<exists>n c. \<exists>r \<in> set (sync_tasks db1). tk_id r = i \<and> c \<in> set (candidates m db)
       \<and> canCreate c \<and> planned_as rt m planner trigger (n, c) r"
proof -
  obtain m rows logs where m: "parseMonth month_text = Inr m" "db1 = (put_tasks (sync_tasks db @ rows) db)\<lparr>audit_logs := logs\<rparr>"
    and rows: "list_all2 (planned_as rt m planner trigger) (enumerate 0 (filter canCreate (candidates m db))) rows"
    and made: "pn_created res = map (\<lambda>(n, c). (rt_fresh_id rt n, pl_planningKey c)) (enumerate 0 (filter canCreate (candidates m db)))"
    using plan_success [OF assms] by blast
  have tasks: "sync_tasks db1 = sync_tasks db @ rows" by (simp add: m(2))
  have row: "\<exists>r \<in> set (sync_tasks db1). planned_as rt m planner trigger nc r"
    if "nc \<in> set (enumerate 0 (filter canCreate (candidates m db)))" for nc
    using rows that unfolding tasks by (metis in_set_conv_nth list_all2_conv_all_nth Un_iff set_append)
  show thesis
  proof (rule that [OF m(1)])
    show "same_sources db db1" by (simp add: m(2) same_sources_def put_tasks_def)
    show "set (sync_tasks db) \<subseteq> set (sync_tasks db1)" by (simp add: tasks)
  next
    fix c assume "c \<in> set (candidates m db)" "canCreate c"
    then have "c \<in> set (filter canCreate (candidates m db))" by simp
    then have "c \<in> snd ` set (enumerate 0 (filter canCreate (candidates m db)))" by (metis image_set map_snd_enumerate)
    then show "\<exists>n. \<exists>r \<in> set (sync_tasks db1). planned_as rt m planner trigger (n, c) r" using row by fastforce
  next
    fix i key assume "(i, key) \<in> set (pn_created res)"
    then obtain n c where nc: "(n, c) \<in> set (enumerate 0 (filter canCreate (candidates m db)))" "i = rt_fresh_id rt n"
      unfolding made by auto
    have "c \<in> snd ` set (enumerate 0 (filter canCreate (candidates m db)))" using nc(1) by force
    then have "c \<in> set (filter canCreate (candidates m db))" by (metis image_set map_snd_enumerate)
    moreover obtain r where r: "r \<in> set (sync_tasks db1)" "planned_as rt m planner trigger (n, c) r" using row nc(1) by blast
    moreover from r(2) have "tk_id r = i" using nc(2) by (auto simp: planned_as_def)
    ultimately show "\<exists>n c. \<exists>r \<in> set (sync_tasks db1). tk_id r = i \<and> c \<in> set (candidates m db)
       \<and> canCreate c \<and> planned_as rt m planner trigger (n, c) r" by auto
  qed
qed

lemma planned_fields:
  "planned_as rt m planner trigger (n, c) r \<Longrightarrow> tk_month r = m \<and> tk_sourceType r = pl_sourceType c
     \<and> tk_affiliateAccountId r = pl_affiliateAccountId c \<and> tk_provider r = pl_provider c \<and> tk_status r = ST_pending
     \<and> tk_triggerType r = trigger \<and> tk_planningKey r = Some (pl_planningKey c) \<and> tk_attemptCount r = 0"
  by (auto simp: planned_as_def new_task_def)

text \<open>After a plan no candidate of the month can be created.\<close>

lemma nothing_left:
  assumes "generatePlan rt month_text planner trigger db = (Inr res, db1)" "parseMonth month_text = Inr m"
  shows "filter canCreate (candidates m db1) = []"
proof -
  have src: "same_sources db db1" and old: "set (sync_tasks db) \<subseteq> set (sync_tasks db1)"
    and new: "\<And>c. c \<in> set (candidates m db) \<Longrightarrow> canCreate c \<Longrightarrow>
       \<exists>n. \<exists>r \<in> set (sync_tasks db1). planned_as rt m planner trigger (n, c) r"
    using plan_leaves [OF assms(1)] assms(2) by (metis sum.inject(2))+
  have "\<not> canCreate (account_candidate m db1 a)" if a: "a \<in> set (affiliate_accounts db)" "aa_status a = CS_active" for a
  proof (cases "canCreate (account_candidate m db a)")
    case True
    moreover have "account_candidate m db a \<in> set (candidates m db)" using a by (simp add: candidates_def)
    ultimately obtain n r where "r \<in> set (sync_tasks db1)" "planned_as rt m planner trigger (n, account_candidate m db a) r"
      using new by blast
    then have "existing_income_task m (aa_id a) db1 \<noteq> None"
      unfolding existing_iff by (auto dest!: planned_fields simp: account_candidate_def Let_def intro!: bexI [of _ r])
    then show ?thesis by (simp add: account_canCreate)
  next
    case False
    moreover have "existing_income_task m (aa_id a) db \<noteq> None \<Longrightarrow> existing_income_task m (aa_id a) db1 \<noteq> None"
      using old unfolding existing_iff by blast
    ultimately show ?thesis using src by (auto simp: account_canCreate credential_same locked_same)
  qed
  moreover have "\<not> canCreate (provider_candidate m db1 p)" if p: "p \<in> {airwallex, photonpay}" for p
  proof (cases "canCreate (provider_candidate m db p)")
    case True
    moreover have "provider_candidate m db p \<in> set (candidates m db)" using p by (auto simp: candidates_def)
    ultimately obtain n r where "r \<in> set (sync_tasks db1)" "planned_as rt m planner trigger (n, provider_candidate m db p) r"
      using new by blast
    then have "existing_card_task m p db1 \<noteq> None"
      unfolding existing_iff by (auto dest!: planned_fields simp: provider_candidate_def Let_def intro!: bexI [of _ r])
    then show ?thesis by (simp add: provider_canCreate)
  next
    case False
    moreover have "existing_card_task m p db \<noteq> None \<Longrightarrow> existing_card_task m p db1 \<noteq> None"
      using old unfolding existing_iff by blast
    ultimately show ?thesis using src locked_same [OF src] by (auto simp: provider_canCreate same_sources_def)
  qed
  ultimately show ?thesis using src by (auto simp: filter_empty_conv candidates_def same_sources_def)
qed

text \<open>The executor finds the account and the credential the planner saw.\<close>

lemma planned_account:
  "people_ok db \<Longrightarrow> same_sources db db1 \<Longrightarrow> a \<in> set (affiliate_accounts db) \<Longrightarrow> find_account (aa_id a) db1 = Some a"
  unfolding find_account_def same_sources_def people_ok_def
  by (cases "find_row (\<lambda>b. aa_id b = aa_id a) (affiliate_accounts db)")
    (auto simp: find_row_None distinct_map dest!: find_row_Some dest: inj_onD)

lemma planned_platform_kept:
  "people_ok db \<Longrightarrow> a \<in> set (affiliate_accounts db) \<Longrightarrow> js_lower (aa_platform a) \<in> {''everflow'', ''cake''}"
proof -
  have "js_lower ''cake'' = ''cake''" "js_lower ''everflow'' = ''everflow''" by code_simp+
  moreover assume "people_ok db" "a \<in> set (affiliate_accounts db)"
  ultimately show ?thesis by (auto simp: people_ok_def list_all_iff known_platform_def)
qed

lemma active_credential_found:
  "same_sources db db1 \<Longrightarrow> active_account_credential a db \<noteq> None \<Longrightarrow> account_credential_active a db1"
  by (auto simp: active_account_credential_def find_account_credential_def account_credential_active_def same_sources_def list_ex_iff
      split: option.splits if_splits dest!: find_row_Some)

lemma candidate_fields [simp]:
  "pl_sourceType (account_candidate m db a) = affiliate_income" "pl_affiliateAccountId (account_candidate m db a) = Some (aa_id a)"
  "pl_sourceType (provider_candidate m db p) = card_spend" "pl_provider (provider_candidate m db p) = Some p"
  by (simp_all add: account_candidate_def provider_candidate_def Let_def)

section \<open>Properties\<close>

text \<open>
  C29: Every service call follows the state machine of tasks. However the services are called, a
  task is never removed and its status, lease and attempts change only by moves of
  \<open>lifecycle_move\<close>; identifiers stay unique, a lease is held only while the task runs and always
  has an end, and no task is attempted more often than allowed.
\<close>

theorem service_calls_follow_lifecycle:
  assumes "(service_call k)\<^sup>*\<^sup>* db db'" "tasks_ok k db" "r \<in> set (sync_tasks db)"
  shows "tasks_ok k db' \<and> (\<exists>r' \<in> set (sync_tasks db'). tk_id r' = tk_id r
    \<and> (\<lambda>a b. \<exists>ev. lifecycle_move k ev (tk_id r) a b)\<^sup>*\<^sup>* (lifecycle_of r) (lifecycle_of r'))"
proof -
  let ?path = "(\<lambda>a b. \<exists>ev. lifecycle_move k ev (tk_id r) a b)\<^sup>*\<^sup>*"
  obtain es where "sync_trace k es db db'" using service_calls_trace assms(1) by blast
  from trace_row [OF this assms(2,3), of "\<lambda>x. ?path (lifecycle_of r) (lifecycle_of x)"]
  show ?thesis by (auto simp: row_step_def intro: rtranclp.rtrancl_into_rtrancl)
qed

text \<open>
  A completed or cancelled task is final: no run of the program, in whatever order the
  transactions of its instances, timers and administrators interleave, changes anything of it.
\<close>

theorem finished_task_is_final:
  assumes "sync_trace k es db db'" "tasks_ok k db" "r \<in> set (sync_tasks db)"
    and "tk_status r \<in> {ST_completed, ST_cancelled}"
  shows "r \<in> set (sync_tasks db')"
  using trace_row [OF assms(1-3), of "\<lambda>x. x = r"] final_row_stays assms(4) by metis

text \<open>
  C31: A lease is exclusive. While the lease of a running task has not ended, nobody but its
  holder changes the task: not another instance, claiming or finishing, not an administrator.
\<close>

theorem lease_is_exclusive:
  assumes "sync_trace k es db db'" "tasks_ok k db" "r \<in> set (sync_tasks db)"
    and "tk_status r = ST_running" "tk_leaseOwner r = Some owner" "tk_leaseExpiresAt r = Some t"
    and "list_all (spares_lease (tk_id r) owner t) es"
  shows "r \<in> set (sync_tasks db')"
  using trace_row [OF assms(1-3), of "\<lambda>x. x = r"] leased_row_stays [OF _ assms(4-6)] assms(7)
  by (metis list_all_iff)

text \<open>
  C33: A run by hand that breaks off leaves its task stuck. When the call throws after the task
  was marked running, the task has no lease; from then on no retry, no cancellation, no second run and
  no automatic executor ever changes it.
\<close>

theorem broken_hand_run_is_stuck:
  assumes ok: "tasks_ok k db" "adapters_spare_tasks adapters"
    and call: "executeTask rt decrypt adapters (tk_id r0) actor db = (Inl e, db1)"
    and before: "r0 \<in> set (sync_tasks db)" "tk_status r0 \<noteq> ST_running"
    and left: "r \<in> set (sync_tasks db1)" "tk_id r = tk_id r0" "tk_status r = ST_running"
    and later: "sync_trace k es db1 db2" "Hand_finished (tk_id r) \<notin> set es"
  shows "r \<in> set (sync_tasks db2)"
proof -
  have "row_ok k r0" using ok(1) before(1) by (auto simp: tasks_ok_def list_all_iff)
  then have "tk_leaseOwner r0 = None" using before(2) by (auto simp: row_ok_def)
  moreover obtain es1 where es1: "set es1 \<subseteq> {Elsewhere, Hand_started (tk_id r0), Hand_finished (tk_id r0)}" "sync_trace k es1 db db1"
    using runs_execute [OF ok(2), of "tk_id r0" k db rt decrypt actor] call by (auto simp: runs_def)
  ultimately obtain r1 where r1: "tasks_ok k db1" "r1 \<in> set (sync_tasks db1)" "tk_id r1 = tk_id r0" "tk_leaseOwner r1 = None"
    using trace_row [OF es1(2) ok(1) before(1), of "\<lambda>x. tk_leaseOwner x = None"] hand_events_no_lease
    by (metis (no_types, lifting) subset_iff)
  moreover have "inj_on tk_id (set (sync_tasks db1))" using r1(1) by (simp add: tasks_ok_def distinct_map)
  ultimately have "r1 = r" using left(1,2) by (metis inj_onD)
  then show ?thesis
    using trace_row [OF later(1) r1(1) left(1), of "\<lambda>x. x = r"] hand_run_stays [OF _ left(3)] r1(4) later(2) by metis
qed

text \<open>
  A retry does not renew the attempts. A task whose attempts are used up goes back to pending
  when an administrator asks for a retry, and no later claim of any instance ever picks it up.
\<close>

theorem exhausted_task_is_never_claimed:
  assumes "tasks_ok k db" and "requestRetry rt n i reason actor db = (Inr dto, db1)"
    and "k \<le> tk_attemptCount (od_task dto)"
    and "sync_trace k es db1 db2" and "au_maxAttempts config = k"
    and "claimTasks config now owner held db2 = (Inr claims, db3)"
  shows "tk_status (od_task dto) = ST_pending \<and> i \<notin> ct_id ` set claims"
proof -
  let ?Q = "\<lambda>x. k \<le> tk_attemptCount x \<and> tk_leaseOwner x = None"
  have r: "od_task dto \<in> set (sync_tasks db1)" "tk_id (od_task dto) = i" "tk_status (od_task dto) = ST_pending" "?Q (od_task dto)"
    using retry_granted [OF assms(1,2)] assms(3) by simp_all
  obtain es0 where "sync_trace k es0 db db1" using runs_retry [of k db rt n i reason actor] assms(2) by (auto simp: runs_def)
  from trace_tasks_ok [OF this assms(1)] have ok1: "tasks_ok k db1" .
  obtain x where x: "tasks_ok k db2" "x \<in> set (sync_tasks db2)" "tk_id x = i" "?Q x"
    using trace_row [OF assms(4) ok1 r(1), of ?Q] exhausted_row_unleased r(2,4) by metis
  have "i \<notin> ct_id ` set claims"
  proof
    assume "i \<in> ct_id ` set claims"
    from claimed_row [OF assms(6) this] obtain y where
      "y \<in> set (sync_tasks db2)" "tk_id y = i" "tk_attemptCount y < k" using assms(5) by (auto simp: claimable_def)
    moreover have "inj_on tk_id (set (sync_tasks db2))" using x(1) by (simp add: tasks_ok_def distinct_map)
    ultimately show False using x(2-4) by (metis inj_onD not_le)
  qed
  then show ?thesis using r(3) by simp
qed

text \<open>
  Planning a month twice creates nothing twice. When a plan of a month has been generated,
  generating the month again, by hand or by the timer and whoever asks, creates no task and
  returns; only a plan by hand of a month that is locked is refused, and changes no task either.
\<close>

theorem planning_again_creates_nothing:
  assumes "generatePlan rt month_text planner trigger db = (Inr res, db1)"
  shows "case generatePlan rt' month_text planner' trigger' db1 of
      (Inr res', db2) \<Rightarrow> pn_created res' = [] \<and> sync_tasks db2 = sync_tasks db1
    | (Inl e, db2) \<Rightarrow> trigger' = TR_manual \<and> (\<exists>message. e = AppError MONTH_LOCKED message) \<and> sync_tasks db2 = sync_tasks db1"
proof -
  obtain m where m: "parseMonth month_text = Inr m" using plan_leaves [OF assms] by metis
  show ?thesis
    using nothing_left [OF assms m] m
    by (cases trigger'; cases "month_locked m db1")
      (simp_all add: generatePlan_def op_catch_def op_transaction_def plan_month_def op_bind_assert buildPreview_def Let_def)
qed

text \<open>
  C30: What the timer plans the executor can run. Every task the scheduled plan of a month creates
  can be claimed by the automatic executor of any instance at once: planner and executor agree on
  platforms, credentials, locks and attempts.
\<close>

theorem planned_task_is_claimable:
  assumes "generatePlan rt month_text planner TR_scheduled db = (Inr res, db1)" "people_ok db"
    and "(i, key) \<in> set (pn_created res)" "0 < au_maxAttempts config"
  shows "\<exists>r \<in> set (sync_tasks db1). tk_id r = i \<and> claimable config now db1 r"
proof -
  obtain m where src: "same_sources db db1" and
    new: "\<And>i key. (i, key) \<in> set (pn_created res) \<Longrightarrow> \<exists>n c. \<exists>r \<in> set (sync_tasks db1). tk_id r = i \<and> c \<in> set (candidates m db)
       \<and> canCreate c \<and> planned_as rt m planner TR_scheduled (n, c) r"
    using plan_leaves [OF assms(1)] by metis
  obtain n c r where r: "r \<in> set (sync_tasks db1)" "tk_id r = i" "c \<in> set (candidates m db)" "canCreate c"
    "planned_as rt m planner TR_scheduled (n, c) r" using new [OF assms(3)] by blast
  have "runnable_kind db1 r \<and> \<not> month_locked m db1"
  proof (cases "c \<in> account_candidate m db ` {a \<in> set (affiliate_accounts db). aa_status a = CS_active}")
    case True
    then obtain a where a: "a \<in> set (affiliate_accounts db)" "aa_status a = CS_active" "c = account_candidate m db a" by auto
    have "find_account (aa_id a) db1 = Some a" using planned_account [OF assms(2) src a(1)] .
    moreover have "account_credential_active (aa_id a) db1" "\<not> month_locked m db1"
      using r(4) active_credential_found [OF src] locked_same [OF src] by (auto simp: a(3) account_canCreate)
    ultimately show ?thesis
      using planned_fields [OF r(5)] planned_platform_kept [OF assms(2) a(1)] a(2,3)
      by (auto simp: runnable_kind_def task_account_def)
  next
    case False
    then obtain p where "c = provider_candidate m db p" using r(3) by (auto simp: candidates_def)
    moreover from this have "provider_credential_active p db1" "\<not> month_locked m db1"
      using r(4) src locked_same [OF src]
      by (auto simp: provider_canCreate provider_credential_active_def same_sources_def list_ex_iff dest!: find_row_Some)
    ultimately show ?thesis using planned_fields [OF r(5)] by (simp add: runnable_kind_def)
  qed
  then have "claimable config now db1 r"
    using planned_fields [OF r(5)] assms(4) by (simp add: claimable_def due_status_def)
  then show ?thesis using r(1,2) by blast
qed

section \<open>A concrete run\<close>

text \<open>An account and its credential, the month they give tasks for, and tasks in several states.\<close>

definition sample_sources :: database where
  "sample_sources = empty_db
     \<lparr>affiliate_accounts := [\<lparr>aa_id = ''a1'', aa_platform = ''cake'', aa_accountCode = ''c1'', aa_accountName = None, aa_status = CS_active\<rparr>],
      account_credentials := [\<lparr>lc_id = ''l1'', lc_affiliateAccountId = ''a1'', lc_encryptedPayload = ''x'', lc_status = CS_active, lc_updatedAt = 0\<rparr>]\<rparr>"

definition sample_task :: sync_task_row where
  "sample_task = new_task sample_rt 0 affiliate_income TT_affiliate_income P_cake (Some ''a1'') None FEB_2026 None TR_scheduled
     (Some ''k1'') JNull"

definition with_task :: "sync_task_row \<Rightarrow> database" where
  "with_task r = sample_sources\<lparr>sync_tasks := [r]\<rparr>"

definition sample_config :: auto_config where
  "sample_config = \<lparr>au_enabled = True, au_pollSeconds = 60, au_batchSize = 2, au_maxAttempts = 3, au_leaseSeconds = 900,
     au_retryBaseSeconds = 300\<rparr>"





lemma feb_text: "monthText FEB_2026 = ''2026-02''" by code_simp
lemma feb_plan: "parseMonth ''2026-02'' = Inr FEB_2026" by code_simp
lemma cake_lower: "js_lower (js_trim ''cake'') = ''cake''" by code_simp

definition sample_candidate :: planning_candidate where
  "sample_candidate = account_candidate FEB_2026 sample_sources (hd (affiliate_accounts sample_sources))"

lemma sample_candidates: "filter canCreate (candidates FEB_2026 sample_sources) = [sample_candidate]"
  unfolding candidates_def by (simp add: account_canCreate provider_canCreate sample_sources_def empty_db_def
    month_locked_def find_settlement_def cake_lower existing_income_task_def existing_card_task_def month_tasks_def
    active_account_credential_def find_account_credential_def sample_candidate_def)

lemma sample_plan: "\<exists>res db1. generatePlan sample_rt ''2026-02'' None TR_scheduled sample_sources = (Inr res, db1)"
proof -
  have c: "pl_platform sample_candidate = ''cake''" "planned_platform ''cake'' = Inr P_cake"
   by (simp add: sample_candidate_def sample_sources_def account_candidate_def Let_def cake_lower) code_simp
  have "sync_tasks sample_sources = []" by (simp add: sample_sources_def empty_db_def)
  then show ?thesis by (simp add: generatePlan_def feb_plan op_catch_def op_transaction_def plan_month_def op_bind_assert
     buildPreview_def sample_candidates Let_def enumerate_eq_zip c task_insert_def table_insert_def op_bind_def)
qed

lemma sample_people: "people_ok sample_sources"
  by (simp add: people_ok_def sample_sources_def empty_db_def known_platform_def)

lemma with_task_ok: "row_ok k r \<Longrightarrow> tasks_ok k (with_task r)"
  by (simp add: tasks_ok_def with_task_def)

theorem planned_task_is_claimable_witness:
  "\<exists>r \<in> set (sync_tasks (snd (generatePlan sample_rt ''2026-02'' None TR_scheduled sample_sources))).
     claimable sample_config 0 (snd (generatePlan sample_rt ''2026-02'' None TR_scheduled sample_sources)) r"
proof -
  obtain res db1 where run: "generatePlan sample_rt ''2026-02'' None TR_scheduled sample_sources = (Inr res, db1)"
    using sample_plan by blast
  then obtain m where m: "parseMonth ''2026-02'' = Inr m" 
    "pn_created res = map (\<lambda>(n, c). (rt_fresh_id sample_rt n, pl_planningKey c)) (enumerate 0 (filter canCreate (candidates m sample_sources)))"
    using plan_success by blast
  then have "(rt_fresh_id sample_rt 0, pl_planningKey sample_candidate) \<in> set (pn_created res)"
    using feb_plan by (simp add: sample_candidates enumerate_eq_zip)
  from planned_task_is_claimable [OF run sample_people this, of sample_config 0]
  show ?thesis using run by (auto simp: sample_config_def)
qed

theorem planning_again_witness:
  "sync_tasks (snd (generatePlan sample_rt ''2026-02'' None TR_manual
       (snd (generatePlan sample_rt ''2026-02'' None TR_scheduled sample_sources)))) =
     sync_tasks (snd (generatePlan sample_rt ''2026-02'' None TR_scheduled sample_sources))"
proof -
  obtain res db1 where run: "generatePlan sample_rt ''2026-02'' None TR_scheduled sample_sources = (Inr res, db1)"
    using sample_plan by blast
  then show ?thesis
    using planning_again_creates_nothing [OF run, where rt' = sample_rt and planner' = None and trigger' = TR_manual] by (auto split: prod.splits sum.splits)
qed

theorem finished_task_witness:
  "sample_task\<lparr>tk_status := ST_completed\<rparr> \<in> set (sync_tasks (snd (cancel_update sample_rt False sample_task sample_actor
     (with_task (sample_task\<lparr>tk_status := ST_completed\<rparr>)))))"
proof (rule finished_task_is_final [OF sync_trace_single [OF sync_step.cancel_asked]])
  show "tasks_ok 3 (with_task (sample_task\<lparr>tk_status := ST_completed\<rparr>))"
    by (rule with_task_ok) (simp add: row_ok_def sample_task_def new_task_def)
qed (simp_all add: with_task_def)

definition leased_task :: sync_task_row where
  "leased_task = sample_task\<lparr>tk_status := ST_running, tk_leaseOwner := Some ''A'', tk_leaseExpiresAt := Some 1000, tk_attemptCount := 1\<rparr>"

theorem lease_is_exclusive_witness:
  "leased_task \<in> set (sync_tasks (snd (claimTasks sample_config 999 ''B'' (\<lambda>_. False) (with_task leased_task))))"
proof (rule lease_is_exclusive [where owner = "''A''" and t = 1000, OF sync_trace_single [OF sync_step.tasks_claimed [OF refl]]])
  show "tasks_ok (au_maxAttempts sample_config) (with_task leased_task)"
    by (rule with_task_ok) (simp add: row_ok_def leased_task_def sample_task_def new_task_def sample_config_def)
qed (simp_all add: with_task_def leased_task_def spares_lease_def)

theorem service_calls_witness:
  "tasks_ok 3 (snd (requestRetry sample_rt 3 (tk_id sample_task) JUndefined sample_actor (with_task (sample_task\<lparr>tk_status := ST_failed\<rparr>))))"
proof -
  have "tasks_ok 3 (with_task (sample_task\<lparr>tk_status := ST_failed\<rparr>))"
    by (rule with_task_ok) (simp add: row_ok_def sample_task_def new_task_def)
  moreover have "(service_call 3)\<^sup>*\<^sup>* (with_task (sample_task\<lparr>tk_status := ST_failed\<rparr>))
      (snd (requestRetry sample_rt 3 (tk_id sample_task) JUndefined sample_actor (with_task (sample_task\<lparr>tk_status := ST_failed\<rparr>))))"
    by (rule r_into_rtranclp) (rule service_call.call_retry)
  ultimately show ?thesis
    using service_calls_follow_lifecycle [of 3 _ _ "sample_task\<lparr>tk_status := ST_failed\<rparr>"] by (auto simp: with_task_def)
qed

definition failing_adapter :: adapters where
  "failing_adapter key cx = op_throw (AppError VALIDATION_ERROR ''CAKE credential baseUrl is required.'')"

lemma failing_adapter_spares: "adapters_spare_tasks failing_adapter"
  by (simp add: adapters_spare_tasks_def failing_adapter_def op_frame_pure)

definition exhausted_task :: sync_task_row where
  "exhausted_task = sample_task\<lparr>tk_status := ST_failed, tk_attemptCount := 3\<rparr>"

lemma sample_facts [simp]:
  "month_locked m (with_task r) = False" "account_credential_active ''a1'' (with_task r)"
  "sync_tasks (with_task r) = [r]"
  by (simp_all add: with_task_def sample_sources_def empty_db_def month_locked_def find_settlement_def account_credential_active_def)

lemma bind_update_many:
  "op_bind (task_update_many p f) g db = g (length (filter p (sync_tasks db))) (put_tasks (update_rows p f (sync_tasks db)) db)"
  by (simp add: op_bind_def task_update_many_def)

lemma bind_nested: "op_bind (op_bind h f) g = op_bind h (\<lambda>x. op_bind (f x) g)"
  by (rule ext) (simp add: op_bind_def split: prod.split sum.split)

lemma claim_returns: "\<exists>claims db'. claimTasks config now owner held db = (Inr claims, db')"
proof -
  define rows where "rows = claim_candidates config now held db"
  define db1 where "db1 = put_tasks (update_rows (\<lambda>r. tk_id r \<in> tk_id ` set rows) (claim_row config now owner) (sync_tasks db)) db"
  have "fst (op_iter claim_audit (map claimed_of rows) db1) = Inr ()" using claim_audits by auto
  then show ?thesis
    by (cases "op_iter claim_audit (map claimed_of rows) db1")
      (simp add: claimTasks_def op_transaction_def op_bind_def flip: rows_def db1_def)
qed

lemma exhausted_retry:
  "\<exists>dto db1. requestRetry sample_rt 3 (tk_id exhausted_task) JUndefined sample_actor (with_task exhausted_task) = (Inr dto, db1)
     \<and> tk_attemptCount (od_task dto) = 3"
  by (simp add: requestRetry_def parseReason_def loadTaskOrThrow_def table_find_bind find_row_def exhausted_task_def sample_task_def
    new_task_def assertActionPermission_def required_permission_def sample_actor_def ACTIVE_RETRY_STATUSES_def assertUnlocked_def
    assertHasActiveCredential_def credential_check_def op_bind_assert retry_update_def op_transaction_def bind_update_many
    bind_nested op_bind_Inr retryable_row_def find_task_def update_rows_def retried_def toOperationDto_def)

theorem exhausted_task_witness:
  "tk_id exhausted_task \<notin> ct_id ` set (projr (fst (claimTasks sample_config 0 ''A'' (\<lambda>_. False)
     (snd (requestRetry sample_rt 3 (tk_id exhausted_task) JUndefined sample_actor (with_task exhausted_task))))))"
proof -
  have ok: "tasks_ok 3 (with_task exhausted_task)"
    by (rule with_task_ok) (simp add: row_ok_def exhausted_task_def sample_task_def new_task_def)
  obtain dto db1 where run: "requestRetry sample_rt 3 (tk_id exhausted_task) JUndefined sample_actor (with_task exhausted_task) = (Inr dto, db1)"
    "tk_attemptCount (od_task dto) = 3" using exhausted_retry by blast
  obtain claims db' where c: "claimTasks sample_config 0 ''A'' (\<lambda>_. False) db1 = (Inr claims, db')"
    using claim_returns by blast
  from exhausted_task_is_never_claimed [OF ok run(1) _ trace_nil _ c] show ?thesis
    using run c by (simp add: sample_config_def)
qed

definition broken_run :: "sync_task_row outcome \<times> database" where
  "broken_run = executeTask sample_rt (\<lambda>_. Inr (JObject [])) failing_adapter (tk_id sample_task) sample_actor (with_task sample_task)"

lemma sample_found [simp]:
  "find_account ''a1'' (with_task r) = Some \<lparr>aa_id = ''a1'', aa_platform = ''cake'', aa_accountCode = ''c1'', aa_accountName = None, aa_status = CS_active\<rparr>"
  "find_account_credential ''a1'' (with_task r) = Some \<lparr>lc_id = ''l1'', lc_affiliateAccountId = ''a1'', lc_encryptedPayload = ''x'', lc_status = CS_active, lc_updatedAt = 0\<rparr>"
  by (simp_all add: with_task_def sample_sources_def find_account_def find_account_credential_def)

lemma broken_run_leaves: "\<exists>e. fst broken_run = Inl e \<and> sync_tasks (snd broken_run) = [started sample_rt sample_task]"
proof -
  have legacy: "legacy_affiliate_id [] = None" by code_simp
  have lower: "js_lower ''cake'' = ''cake''" "js_lower (js_trim ''cake'') = ''cake''" by code_simp+
  have fields: "tk_sourceType sample_task = affiliate_income" "tk_affiliateAccountId sample_task = Some ''a1''"
    "tk_status sample_task = ST_pending" "tk_leaseOwner sample_task = None"
    by (simp_all add: sample_task_def new_task_def)
  have allowed: "''income.import'' \<in> set (ac_permissions sample_actor)" by (simp add: sample_actor_def)
  have start: "start_update sample_rt sample_task (with_task sample_task) =
      (Inr (started sample_rt sample_task), put_tasks [started sample_rt sample_task] (with_task sample_task))"
    by (simp add: start_update_def op_catch_def task_update_def startable_row_def fields)
  have go: "op_bind (start_update sample_rt sample_task) g (with_task sample_task)
      = g (started sample_rt sample_task) (put_tasks [started sample_rt sample_task] (with_task sample_task))"
    for g :: "sync_task_row \<Rightarrow> sync_task_row handler" by (rule op_bind_Inr) (rule start)
  have "execute_body sample_rt (\<lambda>_. Inr (JObject [])) failing_adapter sample_task sample_actor (with_task sample_task) =
      (Inl (AppError VALIDATION_ERROR ''CAKE credential baseUrl is required.''), put_tasks [started sample_rt sample_task] (with_task sample_task))"
    by (simp add: execute_body_def assertPermission_def required_permission_def fields allowed
      assertExecutableStatus_def assertWritable_def isLocked_def requireActiveCredential_def credential_check_def op_bind_assert bind_nested
      getCredentialPayload_def getAffiliateAccountCredentialPayload_def lower asRecord_def legacy
      task_account_def task_adapter_def resolve_adapter_def failing_adapter_def go)
  then show ?thesis
    by (simp add: broken_run_def executeTask_def find_task_def op_catch_def execute_failure_def)
qed

theorem broken_hand_run_witness:
  "started sample_rt sample_task \<in> set (sync_tasks (snd (cancel_update sample_rt True sample_task sample_actor (snd broken_run))))"
proof -
  have ok: "tasks_ok 3 (with_task sample_task)"
    by (rule with_task_ok) (simp add: row_ok_def sample_task_def new_task_def)
  obtain e where run: "executeTask sample_rt (\<lambda>_. Inr (JObject [])) failing_adapter (tk_id sample_task) sample_actor (with_task sample_task)
      = (Inl e, snd broken_run)" "sync_tasks (snd broken_run) = [started sample_rt sample_task]"
    using broken_run_leaves unfolding broken_run_def by (metis prod.collapse)
  show ?thesis
    by (rule broken_hand_run_is_stuck [OF ok failing_adapter_spares run(1) _ _ _ _ _ sync_trace_single [OF sync_step.cancel_asked]])
      (simp_all add: run(2) started_def sample_task_def new_task_def)
qed

end
