(* ===== verification/Import_Properties.thy ===== *)
theory Import_Properties
  imports Import_Effect Sync_Properties
begin

text \<open>
  What the import of affiliate income guarantees: the records of a month after it, its failures,
  and that the adapters fit the executor of \<open>Sync_Execution\<close> and \<open>Sync_Auto_Execution\<close>.
\<close>

section \<open>Aggregation\<close>

lemma add_month_row_keys:
  "distinct (map row_key rows) \<Longrightarrow> distinct (map row_key (add_month_row rnd row rows))
     \<and> set (map row_key (add_month_row rnd row rows)) = insert (row_key row) (set (map row_key rows))"
  by (induction rnd row rows rule: add_month_row.induct) (auto simp: row_key_def)

lemma total_rows_keys: "distinct (map row_key (total_rows rt rows))"
proof -
  have "distinct (map row_key (fold (add_month_row rnd) rows acc))" if "distinct (map row_key acc)" for rnd acc
    using that by (induction rows arbitrary: acc) (simp_all add: add_month_row_keys)
  then show ?thesis by (simp add: total_rows_def)
qed

lemma total_rows_subs: "distinct (map mr_subValue (total_rows rt rows))"
proof -
  have "map row_key (total_rows rt rows) = map (\<lambda>s. or_keep s []) (map mr_subValue (total_rows rt rows))"
    by (simp add: row_key_def [abs_def])
  then show ?thesis using total_rows_keys [of rt rows] by (metis distinct_map)
qed

lemma count_attributed: "map (\<lambda>x. x = Row_attributed) xs = map p rows \<Longrightarrow> count_outcome Row_attributed xs = length (filter p rows)"
  by (induction xs arbitrary: rows) (auto simp: count_outcome_def Cons_eq_map_conv)

section \<open>The adapters and the executor\<close>

lemma import_rows_frame: "(\<And>rt row. op_frame v UNIV (f rt row)) \<Longrightarrow> op_frame v UNIV (import_rows f rt rows)"
  by (induction rows arbitrary: rt) (auto intro!: frame_intros)

text \<open>
  The imports write incomes, unmatched rows and the audit log, and change no view that looks past
  those.
\<close>

locale unmatched_blind =
  fixes v :: "database \<Rightarrow> 'v"
  assumes unmatched: "v (put_unmatched rows db) = v db"
begin

lemma unmatched_frames:
  "op_frame v UNIV (recordUnmatchedEvent rt input)" "op_frame v UNIV (resolveAfterSuccessfulImport rt report)"
  using unmatched unfolding recordUnmatchedEvent_def resolveAfterSuccessfulImport_def unmatched_insert_def unmatched_set_def
  by (auto intro!: frame_intros split: option.split)

end

locale income_import_blind = unmatched_blind v for v :: "database \<Rightarrow> 'v" +
  assumes past: "looks_past_audit v" and incomes: "v (put_incomes rows db) = v db"
begin

lemma import_row_frames:
  "op_frame v UNIV (cake_row task account rt row)" "op_frame v UNIV (everflow_row task account rt row)"
proof -
  have writes: "op_frame v UNIV (income_delete s k)" for s k
    using incomes by (simp add: op_frame_def income_delete_def)
  have reads: "op_frame v UNIV (resolveEffectiveSubIdMappings query)" for query
    unfolding resolveEffectiveSubIdMappings_def by (auto intro!: frame_intros split: option.split)
  have stale: "op_frame v UNIV (markAdjustmentStaleWhenBaseChanges rt task account row b)" for b
    using incomes past unfolding markAdjustmentStaleWhenBaseChanges_def
    by (auto intro!: frame_intros split: option.split parsed_decimal.split)
  show "op_frame v UNIV (cake_row task account rt row)" "op_frame v UNIV (everflow_row task account rt row)"
    using incomes unfolding cake_row_def cake_unmatched_def everflow_row_def everflow_unmatched_def Let_def
    by (auto intro!: frame_intros writes reads stale unmatched_frames split: option.split row_attribution.split)
qed

lemma income_adapters_frame:
  "op_frame v UNIV (cake_execute env rt cx)" "op_frame v UNIV (everflow_execute en env' rt cx)"
  unfolding cake_execute_def cake_import_def everflow_execute_def everflow_import_def Let_def
  by (auto intro!: frame_intros import_rows_frame import_row_frames split: sum.split option.split)

end

interpretation income_tasks: income_import_blind sync_tasks
  by unfold_locales (simp_all add: put_incomes_def put_unmatched_def)

text \<open>The table of adapters the program registers, with those of the card providers left open.\<close>

fun income_adapters :: "engine \<Rightarrow> everflow_env \<Rightarrow> cake_env \<Rightarrow> runtime \<Rightarrow> adapters \<Rightarrow> adapters" where
  "income_adapters en everflow_env cake_env rt cards everflowIncome = everflow_execute en everflow_env rt"
| "income_adapters en everflow_env cake_env rt cards cakeIncome = cake_execute cake_env rt"
| "income_adapters en everflow_env cake_env rt cards key = cards key"

lemma income_adapters_spare_tasks:
  "adapters_spare_tasks cards \<Longrightarrow> adapters_spare_tasks (income_adapters en everflow_env cake_env rt cards)"
  unfolding adapters_spare_tasks_def
proof (intro allI)
  fix key cx assume "\<forall>key cx. op_frame sync_tasks UNIV (cards key cx)"
  then show "op_frame sync_tasks UNIV (income_adapters en everflow_env cake_env rt cards key cx)"
    by (cases key) (simp_all add: income_tasks.income_adapters_frame)
qed

section \<open>Properties\<close>


text \<open>
  C20: A CAKE import that does not complete changes nothing: whether the context, the credential,
  the calibration, the client, a row of the report or a write of the transaction fails.
\<close>

theorem cake_import_all_or_nothing:
  assumes "cake_execute env rt cx db = (r, db')" "case r of Inr result \<Rightarrow> \<not> ad_completed result | Inl e \<Rightarrow> True"
  shows "db' = db"
proof -
  have "db2 = db1" if "cake_import env rt task account response db1 = (x, db2)"
    "case x of Inr result \<Rightarrow> \<not> ad_completed result | Inl e \<Rightarrow> True" for task account response db1 x db2
    using that by (auto simp: cake_import_def op_bind_def op_transaction_def completed_result_def Let_def
        split: if_splits sum.splits prod.splits)
  note body = this
  show ?thesis
    using assms unfolding cake_execute_def
    by (auto simp: op_bind_def op_catch_def Let_def caught_failure_def failed_result_def
        split: if_splits sum.splits prod.splits dest!: body)
qed

text \<open>
  C32: A completed Everflow import makes the month what the report says, by the same contract: for every key of a
  total the last total decides, one confirmed record or none; every other record of the table stays as it was, and the result
  counts the attributed totals.
\<close>

theorem everflow_import_rewrites_month:
  assumes run: "everflow_import env rt task account response db = (Inr result, db')" "ad_completed result"
    and ready: "import_ready rt db"
  shows "\<exists>rows. everflow_aggregateRows rt (ie_number_text env) (or_keep (rr_table response) []) = Inr rows \<and> distinct (map mr_subValue rows)
    \<and> (\<forall>k. case deciding_row (everflow_key task account rt) k rows of
          None \<Rightarrow> income_at EVERFLOW_SOURCE k db' = income_at EVERFLOW_SOURCE k db
        | Some row \<Rightarrow> (case attributed_employee task account db row of
            None \<Rightarrow> income_at EVERFLOW_SOURCE k db' = []
          | Some e \<Rightarrow> \<exists>r. income_at EVERFLOW_SOURCE k db' = [r] \<and> everflow_stored task account rt row e r))
    \<and> filter (\<lambda>r. ir_source r \<noteq> EVERFLOW_SOURCE) (income_records db') = filter (\<lambda>r. ir_source r \<noteq> EVERFLOW_SOURCE) (income_records db)
    \<and> ad_successCount result = length (filter (\<lambda>row. attributed_employee task account db row \<noteq> None) rows)"
proof -
  obtain rows xs where xs: "everflow_aggregateRows rt (ie_number_text env) (or_keep (rr_table response) []) = Inr rows" "import_rows (everflow_row task account) rt rows db = (Inr xs, db')"
    "result = completed_result ''Everflow monthly SUB revenue sync'' (length (or_keep (rr_table response) [])) xs"
    using run by (auto simp: everflow_import_def failed_result_def op_bind_eq_Inr op_transaction_eq_Inr split: if_splits)
  have "distinct (map mr_subValue rows)"
    using xs(1) total_rows_subs by (auto simp: everflow_aggregateRows_def bind_res_Inr_iff)
  then show ?thesis
    using everflow_month.rows_effect [OF xs(2) ready] xs(1,3) by (auto simp: completed_result_def Let_def dest: count_attributed)
qed

text \<open>A row without a sub id has the key of a sub id whose text is \<open>(blank)\<close>, and deletes its record.\<close>

theorem missing_sub_deletes_blank_sub:
  assumes "everflow_row task account rt row db = (Inr x, db')" "import_ready rt db" "mr_subValue row = None"
  shows "income_at EVERFLOW_SOURCE (everflow_key task account rt \<lparr>mr_subValue = Some ''(blank)'', mr_revenueUsd = revenue\<rparr>) db' = []"
proof -
  have "everflow_key task account rt \<lparr>mr_subValue = Some ''(blank)'', mr_revenueUsd = revenue\<rparr> = everflow_key task account rt row"
    using assms(3) by (simp add: everflow_key_def monthlyExternalRecordId_def or_keep_def)
  moreover have "attributed_employee task account db row = None" using assms(3) by (simp add: attributed_employee_def)
  ultimately show ?thesis using everflow_row_done [OF assms(2,1)] by (auto simp: row_done_def written_def)
qed

section \<open>A concrete import\<close>

text \<open>Two sub ids: one mapped to an active employee, one unknown; and a month with an older record of each.\<close>

definition sample_office :: database where
  "sample_office = sample_sources
     \<lparr>employees := [\<lparr>em_id = ''e1'', em_employeeCode = ''E1'', em_name = ''n'', em_email = None, em_phone = None,
        em_status = CS_active, em_hiredAt = None, em_leftAt = None\<rparr>],
      sub_mappings := [\<lparr>sm_id = ''m1'', sm_affiliateAccountId = ''a1'', sm_subField = ''sub1'', sm_subValue = ''s1'',
        sm_effectiveMonth = FEB_2026, sm_employeeId = ''e1'', sm_status = CS_active, sm_createdBy = None\<rparr>]\<rparr>"

definition sample_report :: summary_response where
  "sample_report = \<lparr>sr_rows = [[(''sub_id'', JString ''s1''), (''revenue'', JNum 10)], [(''sub_id'', JString ''s1''), (''revenue'', JNum 5)]],
     sr_rowCount = None\<rparr>"

definition sample_env :: cake_env where
  "sample_env = \<lparr>ie_client = \<lambda>_. Inr sample_report, ie_number_text = show_plain_decimal, ie_log_time = int, ie_prisma_message = id\<rparr>"

definition sample_total :: month_row where
  "sample_total = \<lparr>mr_subValue = Some ''s1'', mr_revenueUsd = 15\<rparr>"


lemma sample_attributed: "attribution p (mappings_of sample_task ''a1'' ''s1'' sample_office) = Attributed ''e1''"
  by code_simp



lemma sample_ready: "import_ready sample_rt sample_office"
  using sample_fresh_inj by (simp add: import_ready_def incomes_keyed_def row_keys_def sample_office_def sample_sources_def empty_db_def)

lemma stored_income:
  "cake_stored task account rt row e r \<Longrightarrow> ir_incomeUsd r = rt_column rt 6 (mr_revenueUsd row)"
  "everflow_stored task account rt row e r \<Longrightarrow> ir_incomeUsd r = rt_column rt 6 (mr_revenueUsd row)"
  unfolding cake_stored_def everflow_stored_def
  by (drule arg_cong [where f = ir_incomeUsd], simp add: imported_income_def)+


theorem cake_import_all_or_nothing_witness:
  "snd (cake_execute sample_env sample_rt \<lparr>cx_task = sample_task, cx_affiliateAccountCode = Some ''c1'', cx_credentialId = ''l1'',
     cx_payload = JObject [(''apiKey'', JString ''k'')]\<rparr> sample_office) = sample_office"
proof -
  let ?cx = "\<lparr>cx_task = sample_task, cx_affiliateAccountCode = Some ''c1'', cx_credentialId = ''l1'',
     cx_payload = JObject [(''apiKey'', JString ''k'')]\<rparr>"
  have "cake_assertContext ?cx = Inr (''a1'', ''c1'')" by code_simp
  moreover have "cake_parseCredentialPayload show_plain_decimal (JObject [(''apiKey'', JString ''k'')]) =
      Inl (AppError VALIDATION_ERROR ''CAKE credential baseUrl is required.'')" by code_simp
  ultimately have "cake_execute sample_env sample_rt ?cx sample_office =
      (Inl (AppError VALIDATION_ERROR ''CAKE credential baseUrl is required.''), sample_office)"
    by (simp add: cake_execute_def sample_env_def)
  from cake_import_all_or_nothing [OF this] show ?thesis by (simp add: \<open>cake_execute _ _ _ _ = _\<close>)
qed

definition sample_revenue :: revenue_response where
  "sample_revenue = \<lparr>rr_table = Some
     [\<lparr>rw_columns = Some [\<lparr>rc_column_type = Some ''sub1'', rc_id = JString ''s1'', rc_label = JNull\<rparr>],
       rw_reporting = Some [(''revenue'', JNum 15)]\<rparr>], rr_incomplete_results = False\<rparr>"

definition sample_everflow_env :: everflow_env where
  "sample_everflow_env = \<lparr>ie_client = \<lambda>_. Inr (Revenue sample_revenue), ie_number_text = show_plain_decimal, ie_log_time = int,
     ie_prisma_message = id\<rparr>"

lemma everflow_aggregates:
  "everflow_aggregateRows sample_rt show_plain_decimal (or_keep (rr_table sample_revenue) []) = Inr [sample_total]"
  by code_simp

lemma everflow_import_runs: "\<exists>result db'. everflow_import sample_everflow_env sample_rt sample_task ''a1'' sample_revenue sample_office
    = (Inr result, db') \<and> ad_completed result"
proof -
  have row: "mr_subValue sample_total = Some ''s1''" "mr_revenueUsd sample_total = 15" by (simp_all add: sample_total_def)
  have none: "income_records sample_office = []" "unmatched_events sample_office = []"
    by (simp_all add: sample_office_def sample_sources_def empty_db_def)
  have upsert: "op_bind (income_upsert s k c u) f sample_office = f c (put_incomes [c] sample_office)" for s k c u f
    by (simp add: op_bind_def income_upsert_def Let_def none)
  have env: "ie_number_text sample_everflow_env = show_plain_decimal" "\<not> rr_incomplete_results sample_revenue"
    by (simp_all add: sample_everflow_env_def sample_revenue_def)
  show ?thesis
    by (simp add: everflow_import_def env everflow_aggregates everflow_row_def row mappings_bind sample_attributed Let_def upsert none
        resolveAfterSuccessfulImport_def find_event_def put_incomes_def bind_nested completed_result_def)
qed

theorem everflow_import_witness:
  "\<exists>r. income_at EVERFLOW_SOURCE (everflow_key sample_task ''a1'' sample_rt sample_total)
     (snd (everflow_import sample_everflow_env sample_rt sample_task ''a1'' sample_revenue sample_office)) = [r] \<and> ir_incomeUsd r = 15"
proof -
  obtain result db' where run: "everflow_import sample_everflow_env sample_rt sample_task ''a1'' sample_revenue sample_office = (Inr result, db')"
    "ad_completed result" using everflow_import_runs by blast
  have report: "everflow_aggregateRows sample_rt (ie_number_text sample_everflow_env) (or_keep (rr_table sample_revenue) []) = Inr [sample_total]"
    using everflow_aggregates by (simp add: sample_everflow_env_def)
  have "attributed_employee sample_task ''a1'' sample_office sample_total = Some ''e1''"
    by (simp add: attributed_employee_def sample_total_def sample_attributed)
  moreover have "rt_column sample_rt 6 15 = 15" by code_simp
  moreover have revenue: "mr_revenueUsd sample_total = 15" by (simp add: sample_total_def)
  moreover have "deciding_row (everflow_key sample_task ''a1'' sample_rt) (everflow_key sample_task ''a1'' sample_rt sample_total) [sample_total] = Some sample_total"
    by (simp add: deciding_row_def)
  moreover obtain rows where "rows = [sample_total]"
    "\<forall>k. case deciding_row (everflow_key sample_task ''a1'' sample_rt) k rows of
          None \<Rightarrow> income_at EVERFLOW_SOURCE k db' = income_at EVERFLOW_SOURCE k sample_office
        | Some row \<Rightarrow> (case attributed_employee sample_task ''a1'' sample_office row of
            None \<Rightarrow> income_at EVERFLOW_SOURCE k db' = []
          | Some e \<Rightarrow> \<exists>r. income_at EVERFLOW_SOURCE k db' = [r] \<and> everflow_stored sample_task ''a1'' sample_rt row e r)"
    using everflow_import_rewrites_month [OF run sample_ready] report by auto
  ultimately show ?thesis
    using run(1) by (auto simp: revenue dest!: spec [of _ "everflow_key sample_task ''a1'' sample_rt sample_total"] stored_income)
qed

end
