(* ===== verification/Provider_Errors.thy ===== *)
theory Provider_Errors
  imports Sub_Revenue
begin

text \<open>
  \<open>provider-request-error.ts\<close> and the error helpers of \<open>provider-card-inventory.service.ts\<close>: how a
  request to a provider fails, which of the answer's details are kept, and how secrets are cut out
  of a message before it is stored or shown. The network (\<open>fetch\<close>) is a parameter: what it threw
  or answered.
\<close>

section \<open>Requests\<close>

text \<open>
  \<open>Fetch_throws aborted name\<close>: \<open>fetch\<close> threw an error of that name, \<open>aborted\<close> when the 30 seconds
  of the request had passed. The body is \<open>None\<close> when it is not JSON.
\<close>

record http_response =
  hr_status :: int
  hr_headers :: "string \<Rightarrow> string option"
  hr_json :: "jsval option"

datatype fetch_result =
    Fetch_throws bool string
  | Fetch_provider_error provider_error
  | Fetched http_response

record http_details =
  hd_code :: "string option"
  hd_message :: "string option"
  hd_requestId :: "string option"
  hd_apiVersion :: "string option"

definition response_ok :: "http_response \<Rightarrow> bool" where
  "response_ok response \<longleftrightarrow> 200 \<le> hr_status response \<and> hr_status response \<le> 299"

text \<open>\<open>text.replace(/[\r\n\t]+/g, ' ')\<close>\<close>

definition is_line_char :: "char \<Rightarrow> bool" where
  "is_line_char c \<longleftrightarrow> (of_char c :: nat) \<in> {9, 10, 13}"

function one_line :: "string \<Rightarrow> string" where
  "one_line [] = []"
| "one_line (c # s) = (if is_line_char c then CHR '' '' # one_line (dropWhile is_line_char s) else c # one_line s)"
  by pat_completeness auto
termination
  by (relation "measure length") (auto simp: less_Suc_eq_le length_dropWhile_le)

definition nonempty :: "string \<Rightarrow> string option" where
  "nonempty s = (if s = [] then None else Some s)"

definition safeScalar :: "(rat \<Rightarrow> string) \<Rightarrow> jsval \<Rightarrow> string option" where
  "safeScalar number_text v =
     (case v of
        JString s \<Rightarrow> map_option (take 500) (nonempty (one_line (js_trim s)))
      | JNum x \<Rightarrow> map_option (take 500) (nonempty (one_line (js_trim (number_text x))))
      | _ \<Rightarrow> None)"

fun firstHeader :: "(string \<Rightarrow> string option) \<Rightarrow> string list \<Rightarrow> string option" where
  "firstHeader headers [] = None"
| "firstHeader headers (name # names) =
     (case headers name of
        None \<Rightarrow> firstHeader headers names
      | Some value \<Rightarrow> if js_trim value = [] then firstHeader headers names else Some (take 255 (js_trim value)))"

text \<open>\<open>typeof value === 'object' && value !== null && !Array.isArray(value)\<close> is \<open>asRecord\<close>; \<open>nested?.k\<close>.\<close>

definition field_of :: "(string \<times> jsval) list option \<Rightarrow> string \<Rightarrow> jsval" where
  "field_of r k = (case r of None \<Rightarrow> JUndefined | Some kvs \<Rightarrow> js_get kvs k)"

definition readProviderErrorDetails :: "(rat \<Rightarrow> string) \<Rightarrow> http_response \<Rightarrow> http_details" where
  "readProviderErrorDetails number_text response =
     (let requestId = firstHeader (hr_headers response) [''x-request-id'', ''request-id'', ''x-airwallex-request-id'', ''trace-id''];
          apiVersion = firstHeader (hr_headers response) [''x-api-version'', ''api-version'']
      in case Option.bind (hr_json response) asRecord of
           None \<Rightarrow> \<lparr>hd_code = None, hd_message = None, hd_requestId = requestId, hd_apiVersion = apiVersion\<rparr>
         | Some r \<Rightarrow>
             (let nested = asRecord (js_get r ''error'')
              in \<lparr>hd_code = safeScalar number_text
                    (js_coalesce (js_coalesce (js_get r ''code'') (js_get r ''error_code'')) (field_of nested ''code'')),
                  hd_message = safeScalar number_text
                    (js_coalesce (js_coalesce (js_coalesce (js_get r ''message'') (js_get r ''msg''))
                      (js_get r ''error_message'')) (field_of nested ''message'')),
                  hd_requestId = (case requestId of Some i \<Rightarrow> Some i
                    | None \<Rightarrow> safeScalar number_text (js_coalesce (js_get r ''request_id'') (js_get r ''requestId''))),
                  hd_apiVersion = apiVersion\<rparr>))"

definition status_message :: "string \<Rightarrow> int \<Rightarrow> string" where
  "status_message provider status =
     provider @ (if status = 429 then '' request was rate limited.''
       else if status \<ge> 500 then '' service is temporarily unavailable.''
       else if status = 401 \<or> status = 403 then '' rejected the configured credential.''
       else '' rejected the request.'')"

definition status_category :: "int \<Rightarrow> sync_error" where
  "status_category status =
     (if status = 429 then EC_RATE_LIMITED
      else if status \<ge> 500 then EC_PROVIDER_5XX
      else if status = 401 \<or> status = 403 then EC_CREDENTIAL_INVALID
      else EC_BUSINESS_REJECTED)"

definition providerHttpError :: "string \<Rightarrow> int \<Rightarrow> http_details \<Rightarrow> provider_error" where
  "providerHttpError provider status details =
     (let suffix = js_join '': '' (filter (\<lambda>s. s \<noteq> []) [or_keep (hd_code details) [], or_keep (hd_message details) []]);
          message = status_message provider status
      in \<lparr>pe_category = status_category status,
          pe_message = (if suffix = [] then message else message @ '' '' @ suffix),
          pe_httpStatus = Some status, pe_providerCode = hd_code details, pe_providerMessage = hd_message details,
          pe_requestId = hd_requestId details, pe_apiVersion = hd_apiVersion details\<rparr>)"

definition plain_provider_error :: "sync_error \<Rightarrow> string \<Rightarrow> provider_error" where
  "plain_provider_error category message =
     \<lparr>pe_category = category, pe_message = message, pe_httpStatus = None, pe_providerCode = None,
      pe_providerMessage = None, pe_requestId = None, pe_apiVersion = None\<rparr>"

definition providerFetch :: "(rat \<Rightarrow> string) \<Rightarrow> string \<Rightarrow> fetch_result \<Rightarrow> http_response outcome" where
  "providerFetch number_text provider result =
     (case result of
        Fetch_provider_error e \<Rightarrow> Inl (ProviderRequestError e)
      | Fetch_throws aborted name \<Rightarrow>
          Inl (ProviderRequestError
            (if aborted \<or> name = ''AbortError'' \<or> name = ''TimeoutError''
             then plain_provider_error EC_TIMEOUT (provider @ '' request timed out.'')
             else plain_provider_error EC_NETWORK_ERROR (provider @ '' network request failed.'')))
      | Fetched response \<Rightarrow>
          (if response_ok response then Inr response
           else Inl (ProviderRequestError
             (providerHttpError provider (hr_status response) (readProviderErrorDetails number_text response)))))"

section \<open>Errors that may be shown\<close>

text \<open>\<open>text.split(secret).join('[REDACTED]')\<close> for a secret that is not empty.\<close>

function replace_text :: "string \<Rightarrow> string \<Rightarrow> string \<Rightarrow> string" where
  "replace_text secret by [] = []"
| "replace_text secret by (c # s) =
     (if secret \<noteq> [] \<and> js_starts_with (c # s) secret
      then by @ replace_text secret by (drop (length secret) (c # s))
      else c # replace_text secret by s)"
  by pat_completeness auto
termination
  by (relation "measure (\<lambda>(secret, by, s). length s)") (auto simp: Suc_diff_le neq_Nil_conv)

definition redactCredentialValues :: "string \<Rightarrow> string list \<Rightarrow> string" where
  "redactCredentialValues message values = foldl (\<lambda>s v. if v = [] then s else replace_text v ''[REDACTED]'' s) message values"

text \<open>The category \<open>None\<close> is \<open>UNKNOWN\<close>; the message of the client library's errors is a parameter.\<close>

record safe_error =
  se_category :: "sync_error option"
  se_httpStatus :: "int option"
  se_code :: "string option"
  se_message :: string
  se_requestId :: "string option"
  se_apiVersion :: "string option"

definition safeProviderError :: "(string \<Rightarrow> string) \<Rightarrow> app_exception \<Rightarrow> string option \<Rightarrow> safe_error" where
  "safeProviderError prisma_message e apiVersion =
     (case e of
        ProviderRequestError p \<Rightarrow>
          \<lparr>se_category = Some (pe_category p), se_httpStatus = pe_httpStatus p, se_code = pe_providerCode p,
           se_message = or_keep (pe_providerMessage p) (pe_message p), se_requestId = pe_requestId p,
           se_apiVersion = (case pe_apiVersion p of Some v \<Rightarrow> Some v | None \<Rightarrow> apiVersion)\<rparr>
      | _ \<Rightarrow>
          \<lparr>se_category = None, se_httpStatus = None, se_code = None, se_message = error_text prisma_message e,
           se_requestId = None, se_apiVersion = apiVersion\<rparr>)"

text \<open>\<open>Object.values(payload)\<close> that are texts and not empty.\<close>

definition credentialStrings :: "jsval \<Rightarrow> string list" where
  "credentialStrings payload =
     (case asRecord payload of
        None \<Rightarrow> []
      | Some kvs \<Rightarrow> filter (\<lambda>s. s \<noteq> []) (List.map_filter (\<lambda>kv. js_string_opt (snd kv)) (from_entries kvs)))"

end
