(* ===== verification/Provider_Cards.thy ===== *)
theory Provider_Cards
  imports Provider_Errors Card_Matching
begin

text \<open>
  \<open>provider-card-inventory.service.ts\<close>, first part: what the two card providers answer and how
  their cards are brought into one form. The providers' clients are parameters, functions from a
  request to an answer or an error; the second argument of a repeated request is its number.
  Delays between requests are left out.
\<close>

section \<open>Values of an answer\<close>

type_synonym json_record = "(string \<times> jsval) list"

fun firstString :: "jsval list \<Rightarrow> string option" where
  "firstString [] = None"
| "firstString (v # vs) =
     (case v of JString s \<Rightarrow> (if js_trim s = [] then firstString vs else Some (js_trim s)) | _ \<Rightarrow> firstString vs)"

definition objectField :: "jsval \<Rightarrow> string \<Rightarrow> jsval" where
  "objectField v k = field_of (asRecord v) k"

definition parse_provider_date :: "runtime \<Rightarrow> jsval \<Rightarrow> js_date" where
  "parse_provider_date rt v = (case v of JString s \<Rightarrow> js_parse_date rt s | JDate d \<Rightarrow> d | _ \<Rightarrow> None)"

text \<open>\<open>'****' + digits.slice(-4)\<close>\<close>

definition last_four :: "string \<Rightarrow> string" where
  "last_four s = drop (length s - 4) s"

definition maskOnly :: "string option \<Rightarrow> string option" where
  "maskOnly value =
     (case value of None \<Rightarrow> None
      | Some s \<Rightarrow> (let digits = filter is_digit s in if 4 \<le> length digits then Some (''****'' @ last_four digits) else None))"

text \<open>\<open>Number(value)\<close> of the engine is a parameter.\<close>

definition settlementDelay :: "(string \<Rightarrow> rat option) \<Rightarrow> jsval \<Rightarrow> int option" where
  "settlementDelay js_number v =
     (case (case v of JNum x \<Rightarrow> Some x | JString s \<Rightarrow> if js_trim s = [] then None else js_number s | _ \<Rightarrow> None) of
        None \<Rightarrow> None
      | Some x \<Rightarrow> if x = of_int \<lfloor>x\<rfloor> \<and> 0 \<le> x \<and> x \<le> 31 then Some \<lfloor>x\<rfloor> else None)"

section \<open>Credentials and clients\<close>

text \<open>The version is \<open>undefined\<close>, \<open>null\<close> or a text.\<close>

record airwallex_credential =
  wc_clientId :: string
  wc_apiKey :: string
  wc_baseUrl :: "string option"
  wc_transactionsPath :: "string option"
  wc_cardsPath :: "string option"
  wc_cardholdersPath :: "string option"
  wc_apiVersion :: "string option option"
  wc_settlementDelayDays :: "int option"

record photonpay_credential =
  yc_appId :: string
  yc_appSecret :: string
  yc_baseUrl :: "string option"
  yc_tokenPath :: "string option"
  yc_cardsPath :: "string option"
  yc_cardDetailPath :: "string option"
  yc_transactionsPath :: "string option"
  yc_settlementDelayDays :: "int option"

record photonpay_card =
  yd_cardId :: "string option"
  yd_cardholderId :: "string option"
  yd_email :: "string option"
  yd_maskCardNo :: "string option"
  yd_nickname :: "string option"
  yd_cardStatus :: "string option"
  yd_cardOrganization :: "string option"
  yd_createdAt :: "string option"
  yd_updatedAt :: "string option"

type_synonym 'a paged = "('a list \<times> bool) outcome"

record airwallex_client =
  wk_listCards :: "airwallex_credential \<Rightarrow> nat \<Rightarrow> nat \<Rightarrow> (int \<times> int) option \<Rightarrow> json_record paged"
  wk_listCardholders :: "airwallex_credential \<Rightarrow> nat \<Rightarrow> nat \<Rightarrow> json_record paged"
  wk_listCardTransactions :: "airwallex_credential \<Rightarrow> js_date \<Rightarrow> js_date \<Rightarrow> nat \<Rightarrow> nat \<Rightarrow> (json_record list \<times> bool \<times> nat option) outcome"

record photonpay_client =
  yk_listCards :: "photonpay_credential \<Rightarrow> nat \<Rightarrow> nat \<Rightarrow> photonpay_card paged"
  yk_getCardDetail :: "photonpay_credential \<Rightarrow> string \<Rightarrow> nat \<Rightarrow> photonpay_card outcome"
  yk_listCardTransactions :: "photonpay_credential \<Rightarrow> int \<Rightarrow> int \<Rightarrow> nat \<Rightarrow> nat \<Rightarrow> json_record paged"

definition objectPayload :: "jsval \<Rightarrow> string \<Rightarrow> json_record outcome" where
  "objectPayload payload provider =
     (case asRecord payload of
        None \<Rightarrow> Inl (JsError (provider @ '' credential payload is invalid.'')) | Some r \<Rightarrow> Inr r)"

definition parseAirwallexCredential :: "(string \<Rightarrow> rat option) \<Rightarrow> jsval \<Rightarrow> airwallex_credential outcome" where
  "parseAirwallexCredential js_number payload =
     bind_res (objectPayload payload ''Airwallex'') (\<lambda>r.
     case (firstString [js_get r ''clientId'', js_get r ''client_id''],
           firstString [js_get r ''apiKey'', js_get r ''api_key'', js_get r ''secret'']) of
       (Some clientId, Some apiKey) \<Rightarrow>
         Inr \<lparr>wc_clientId = clientId, wc_apiKey = apiKey,
              wc_baseUrl = firstString [js_get r ''baseUrl'', js_get r ''base_url''],
              wc_transactionsPath = firstString [js_get r ''transactionsPath'', js_get r ''transactions_path''],
              wc_cardsPath = firstString [js_get r ''cardsPath'', js_get r ''cards_path''],
              wc_cardholdersPath = firstString [js_get r ''cardholdersPath'', js_get r ''cardholders_path''],
              wc_apiVersion = map_option Some (firstString [js_get r ''apiVersion'', js_get r ''api_version'']),
              wc_settlementDelayDays = settlementDelay js_number (js_get r ''settlementDelayDays'')\<rparr>
     | _ \<Rightarrow> Inl (JsError ''Airwallex credential requires clientId and apiKey.''))"

definition parsePhotonPayCredential :: "(string \<Rightarrow> rat option) \<Rightarrow> jsval \<Rightarrow> photonpay_credential outcome" where
  "parsePhotonPayCredential js_number payload =
     bind_res (objectPayload payload ''PhotonPay'') (\<lambda>r.
     case (firstString [js_get r ''appId'', js_get r ''app_id'', js_get r ''apiKey''],
           firstString [js_get r ''appSecret'', js_get r ''app_secret'', js_get r ''secret'']) of
       (Some appId, Some appSecret) \<Rightarrow>
         Inr \<lparr>yc_appId = appId, yc_appSecret = appSecret,
              yc_baseUrl = firstString [js_get r ''baseUrl'', js_get r ''base_url''],
              yc_tokenPath = firstString [js_get r ''tokenPath'', js_get r ''token_path''],
              yc_cardsPath = firstString [js_get r ''cardsPath'', js_get r ''cards_path''],
              yc_cardDetailPath = firstString [js_get r ''cardDetailPath'', js_get r ''card_detail_path''],
              yc_transactionsPath = firstString [js_get r ''transactionsPath'', js_get r ''transactions_path''],
              yc_settlementDelayDays = settlementDelay js_number (js_get r ''settlementDelayDays'')\<rparr>
     | _ \<Rightarrow> Inl (JsError ''PhotonPay credential requires appId and appSecret.''))"

section \<open>Pages\<close>

text \<open>
  The pages of a list, one after the other, until one is the last or empty. The pages before an
  error are kept beside it; \<open>limit\<close> is the error when no page within the bound was the last.
\<close>

definition MAX_PAGES :: nat where
  "MAX_PAGES = 10000"

definition INVENTORY_PAGE_SIZE :: nat where
  "INVENTORY_PAGE_SIZE = 200"

fun read_pages :: "(nat \<Rightarrow> 'a paged) \<Rightarrow> app_exception option \<Rightarrow> nat \<Rightarrow> nat \<Rightarrow> 'a list list \<times> app_exception option" where
  "read_pages get limit 0 page = ([], limit)"
| "read_pages get limit (Suc n) page =
     (case get page of
        Inl e \<Rightarrow> ([], Some e)
      | Inr (items, has_more) \<Rightarrow>
          if \<not> has_more \<or> items = [] then ([items], None)
          else case read_pages get limit n (page + 1) of (pages, e) \<Rightarrow> (items # pages, e))"

text \<open>An error that is not caught drops the pages.\<close>

definition all_pages :: "'a list list \<times> app_exception option \<Rightarrow> 'a list list outcome" where
  "all_pages r = (case r of (pages, None) \<Rightarrow> Inr pages | (_, Some e) \<Rightarrow> Inl e)"

section \<open>Cards of Airwallex\<close>

record safe_card =
  sc_cardId :: string
  sc_cardholderId :: "string option"
  sc_email :: "string option"
  sc_maskedCardNumber :: "string option"
  sc_nickname :: "string option"
  sc_providerStatus :: "string option"
  sc_sourceCreatedAt :: js_date
  sc_sourceUpdatedAt :: js_date
  sc_forcedReasonCode :: "string option"

definition AIRWALLEX_BUSINESS_ACCOUNT_API_VERSION :: string where
  "AIRWALLEX_BUSINESS_ACCOUNT_API_VERSION = ''2024-02-22''"

text \<open>\<open>new Date('2018-01-01T00:00:00.000Z')\<close>\<close>

definition AIRWALLEX_FIRST_CARD_DATE :: int where
  "AIRWALLEX_FIRST_CARD_DATE = 1514764800000"

definition AIRWALLEX_WINDOW_DAYS :: int where
  "AIRWALLEX_WINDOW_DAYS = 30"

definition uniqueVersions :: "string option \<Rightarrow> string option list" where
  "uniqueVersions configured =
     (case configured of
        Some (c # v) \<Rightarrow> js_dedup [Some (c # v), Some AIRWALLEX_BUSINESS_ACCOUNT_API_VERSION, None]
      | _ \<Rightarrow> [Some AIRWALLEX_BUSINESS_ACCOUNT_API_VERSION, None])"

definition is_bad_request :: "app_exception \<Rightarrow> bool" where
  "is_bad_request e = (case e of ProviderRequestError p \<Rightarrow> pe_httpStatus p = Some 400 | _ \<Rightarrow> False)"

text \<open>The first version the provider does not refuse; the list is not empty.\<close>

fun select_version :: "airwallex_client \<Rightarrow> airwallex_credential \<Rightarrow> string option list \<Rightarrow> airwallex_credential outcome" where
  "select_version client credential [] = Inl (JsError [])"
| "select_version client credential (version # versions) =
     (let candidate = credential\<lparr>wc_apiVersion := Some version\<rparr>
      in case wk_listCards client candidate 0 10 None of
           Inr _ \<Rightarrow> Inr candidate
         | Inl e \<Rightarrow> if is_bad_request e \<and> versions \<noteq> [] then select_version client credential versions else Inl e)"

text \<open>The intervals of creation times that are asked for, 30 days each, up to now.\<close>

function creation_windows :: "int \<Rightarrow> int \<Rightarrow> (int \<times> int) list" where
  "creation_windows start finalTo =
     (if start \<le> finalTo
      then let to = min finalTo (start + AIRWALLEX_WINDOW_DAYS * 86400000 - 1)
           in (start, to) # creation_windows (to + 1) finalTo
      else [])"
  by pat_completeness auto

termination creation_windows
  by (relation "measure (\<lambda>(start, finalTo). nat (finalTo + 1 - start))") (auto simp: AIRWALLEX_WINDOW_DAYS_def)

declare creation_windows.simps [simp del]

definition PAGE_LIMIT_ERROR :: app_exception where
  "PAGE_LIMIT_ERROR = JsError ''Airwallex card pagination exceeded the safety limit.''"

definition created_cards :: "airwallex_client \<Rightarrow> airwallex_credential \<Rightarrow> int \<times> int \<Rightarrow> json_record list outcome" where
  "created_cards client credential window =
     bind_res (all_pages (read_pages (\<lambda>page. wk_listCards client credential page INVENTORY_PAGE_SIZE (Some window))
       (Some PAGE_LIMIT_ERROR) MAX_PAGES 0)) (\<lambda>pages. Inr (concat pages))"

definition card_id_of :: "json_record \<Rightarrow> string option" where
  "card_id_of item = firstString [js_get item ''card_id'', js_get item ''id'']"

definition holder_id_of :: "json_record \<Rightarrow> string option" where
  "holder_id_of holder = firstString [js_get holder ''cardholder_id'', js_get holder ''id'']"

text \<open>\<open>if (id) map.set(id, record)\<close>\<close>

definition set_by_id :: "(json_record \<Rightarrow> string option) \<Rightarrow> json_record \<Rightarrow> (string \<times> json_record) list \<Rightarrow> (string \<times> json_record) list" where
  "set_by_id ident r m = (case ident r of None \<Rightarrow> m | Some i \<Rightarrow> map_set m i r)"

definition additional_holders :: "json_record \<Rightarrow> string list" where
  "additional_holders item =
     (case js_get item ''additional_cardholder_ids'' of
        JArray vs \<Rightarrow> filter (\<lambda>s. js_trim s \<noteq> []) (List.map_filter js_string_opt vs) | _ \<Rightarrow> [])"

definition normalizeAirwallexCard ::
  "runtime \<Rightarrow> json_record \<Rightarrow> (string \<times> json_record) list \<Rightarrow> bool \<Rightarrow> safe_card option" where
  "normalizeAirwallexCard rt item holders holderLookupFailed =
     (case card_id_of item of
        None \<Rightarrow> None
      | Some cardId \<Rightarrow>
          (let cardholder = js_get item ''cardholder'';
               cardholderId = firstString [js_get item ''cardholder_id'', objectField cardholder ''cardholder_id'', objectField cardholder ''id''];
               holder = Option.bind cardholderId (map_of holders)
           in Some \<lparr>sc_cardId = cardId, sc_cardholderId = cardholderId,
                sc_email = firstString [field_of holder ''email'', objectField cardholder ''email''],
                sc_maskedCardNumber = maskOnly (firstString [js_get item ''card_number'', js_get item ''masked_card_number'', js_get item ''last4'']),
                sc_nickname = firstString [js_get item ''nick_name'', js_get item ''nickname''],
                sc_providerStatus = firstString [js_get item ''card_status'', js_get item ''status''],
                sc_sourceCreatedAt = parse_provider_date rt (js_get item ''created_at''),
                sc_sourceUpdatedAt = parse_provider_date rt (js_get item ''updated_at''),
                sc_forcedReasonCode =
                  (if list_ex (\<lambda>i. Some i \<noteq> cardholderId) (additional_holders item) then Some ''MULTIPLE_CARDHOLDERS''
                   else if holderLookupFailed then Some ''CARDHOLDER_LOOKUP_FAILED'' else None)\<rparr>))"

text \<open>What loading the cards of a provider gives.\<close>

record loaded_cards =
  ld_cards :: "safe_card list"
  ld_apiVersion :: "string option"
  ld_partialError :: "safe_error option"
  ld_invalidCardCount :: nat
  ld_detailDeferredCount :: nat
  ld_reusedCardDetailCount :: nat
  ld_cardPages :: nat
  ld_cardStatusCounts :: "(string \<times> nat) list"
  ld_cardOrganizationCounts :: "(string \<times> nat) list"

definition loadAirwallex ::
  "airwallex_client \<Rightarrow> (string \<Rightarrow> string) \<Rightarrow> runtime \<Rightarrow> airwallex_credential \<Rightarrow> loaded_cards outcome" where
  "loadAirwallex client prisma_message rt given =
     bind_res (select_version client given (uniqueVersions (Option.bind (wc_apiVersion given) id))) (\<lambda>credential.
     bind_res (res_map (created_cards client credential) (creation_windows AIRWALLEX_FIRST_CARD_DATE (rt_now rt))) (\<lambda>found.
     let cards = concat found;
         cardsById = fold (set_by_id card_id_of) cards [];
         (pages, failure) = read_pages (\<lambda>page. wk_listCardholders client credential page INVENTORY_PAGE_SIZE) None MAX_PAGES 0;
         holders = fold (set_by_id holder_id_of) (concat pages) [];
         version = Option.bind (wc_apiVersion credential) id
     in Inr \<lparr>ld_cards = List.map_filter (\<lambda>(i, r). normalizeAirwallexCard rt r holders (failure \<noteq> None)) cardsById,
             ld_apiVersion = Some (or_keep version ''default''),
             ld_partialError = map_option (\<lambda>e.
               let s = safeProviderError prisma_message e version
               in s\<lparr>se_message := redactCredentialValues (se_message s) [wc_clientId credential, wc_apiKey credential]\<rparr>) failure,
             ld_invalidCardCount = length (filter (\<lambda>r. card_id_of r = None) cards),
             ld_detailDeferredCount = 0, ld_reusedCardDetailCount = 0, ld_cardPages = 0,
             ld_cardStatusCounts = [], ld_cardOrganizationCounts = []\<rparr>))"

end
