(* ===== verification/Access_Model.thy ===== *)
theory Access_Model
  imports Month_Table Card_Matching Provider_Cards
begin

text \<open>
  What the services of administrators, roles and sessions share: their tables, the checks of the
  fields of a request, the serializable transaction with its retries, and passwords
  (\<open>password-hash.service.ts\<close>). The environment holds what the platform provides: the key derivation and the text
  coding of bytes, the random bytes of a request, Unicode normalisation and letters, which unique key the
  client library names in an error, and how many transactions of the request the database aborts with a write conflict.

  A column of type \<open>uuid\<close> holds the lower-case text of its value, and a lookup by an identifier reads the text of the
  request in either case, as the database does.
\<close>

record access_env =
  xe_derive :: "string \<Rightarrow> string \<Rightarrow> string option"
  xe_encode :: "string \<Rightarrow> string"
  xe_decode :: "string \<Rightarrow> string"
  xe_salt :: string
  xe_token :: string
  xe_nfkc :: "string \<Rightarrow> string"
  xe_letter_or_number :: "char \<Rightarrow> bool"
  xe_unique_target :: string
  xe_conflicts :: nat

section \<open>Tables\<close>

definition put_admins :: "admin_user list \<Rightarrow> database \<Rightarrow> database" where
  "put_admins rows db = db\<lparr>admin_user_rows := rows\<rparr>"

definition put_sessions :: "admin_session list \<Rightarrow> database \<Rightarrow> database" where
  "put_sessions rows db = db\<lparr>admin_session_rows := rows\<rparr>"

definition put_roles :: "role_row list \<Rightarrow> database \<Rightarrow> database" where
  "put_roles rows db = db\<lparr>role_rows := rows\<rparr>"

definition put_user_roles :: "(string \<times> string) list \<Rightarrow> database \<Rightarrow> database" where
  "put_user_roles rows db = db\<lparr>user_role_rows := rows\<rparr>"

definition put_role_permissions :: "(string \<times> string) list \<Rightarrow> database \<Rightarrow> database" where
  "put_role_permissions rows db = db\<lparr>role_permission_rows := rows\<rparr>"

text \<open>The unique constraints: the primary key, the name, and the email when there is one; the code of a role.\<close>

definition same_admin :: "admin_user \<Rightarrow> admin_user \<Rightarrow> bool" where
  "same_admin a b \<longleftrightarrow>
     um_id a = um_id b \<or> um_username a = um_username b \<or> (um_email a = um_email b \<and> um_email a \<noteq> None)"

definition same_role :: "role_row \<Rightarrow> role_row \<Rightarrow> bool" where
  "same_role a b \<longleftrightarrow> rl_id a = rl_id b \<or> rl_code a = rl_code b"

definition admin_insert :: "admin_user \<Rightarrow> admin_user handler" where
  "admin_insert = table_insert admin_user_rows put_admins same_admin"

definition admin_set :: "string \<Rightarrow> (admin_user \<Rightarrow> admin_user) \<Rightarrow> admin_user handler" where
  "admin_set = table_update admin_user_rows put_admins same_admin um_id"

definition role_insert :: "role_row \<Rightarrow> role_row handler" where
  "role_insert = table_insert role_rows put_roles same_role"

definition role_set :: "string \<Rightarrow> (role_row \<Rightarrow> role_row) \<Rightarrow> role_row handler" where
  "role_set = table_update role_rows put_roles same_role rl_id"

definition find_admin :: "string \<Rightarrow> database \<Rightarrow> admin_user option" where
  "find_admin i db = find_row (\<lambda>u. um_id u = js_lower i) (admin_user_rows db)"

definition find_role :: "string \<Rightarrow> database \<Rightarrow> role_row option" where
  "find_role i db = find_row (\<lambda>r. rl_id r = js_lower i) (role_rows db)"

text \<open>The roles of an administrator in the order they were given; the permissions of a role.\<close>

definition role_ids_of :: "string \<Rightarrow> database \<Rightarrow> string list" where
  "role_ids_of userId db = map snd (filter (\<lambda>x. fst x = userId) (user_role_rows db))"

definition roles_of :: "string \<Rightarrow> database \<Rightarrow> role_row list" where
  "roles_of userId db = List.map_filter (\<lambda>i. find_role i db) (role_ids_of userId db)"

definition permission_ids_of :: "string \<Rightarrow> database \<Rightarrow> string list" where
  "permission_ids_of roleId db = map snd (filter (\<lambda>x. fst x = roleId) (role_permission_rows db))"

definition permissions_of :: "string \<Rightarrow> database \<Rightarrow> permission_row list" where
  "permissions_of roleId db =
     List.map_filter (\<lambda>i. find_row (\<lambda>p. pn_id p = i) (permission_rows db)) (permission_ids_of roleId db)"

definition revoke_where :: "int \<Rightarrow> (admin_session \<Rightarrow> bool) \<Rightarrow> nat handler" where
  "revoke_where now p =
     op_bind (op_get (\<lambda>db. length (filter (\<lambda>s. p s \<and> sx_revokedAt s = None) (admin_session_rows db)))) (\<lambda>n.
     op_bind (op_modify (\<lambda>db. put_sessions
       (update_rows (\<lambda>s. p s \<and> sx_revokedAt s = None) (\<lambda>s. s\<lparr>sx_revokedAt := Some now\<rparr>) (admin_session_rows db)) db)) (\<lambda>_.
     op_return n))"

section \<open>Fields of a request\<close>

definition is_hex_digit :: "char \<Rightarrow> bool" where
  "is_hex_digit c \<longleftrightarrow> c \<in> set ''0123456789abcdefABCDEF''"

text \<open>Eight, four, four, four and twelve hexadecimal digits.\<close>

definition is_uuid_shape :: "string \<Rightarrow> bool" where
  "is_uuid_shape s \<longleftrightarrow>
     length s = 36 \<and> list_all (\<lambda>i. s ! i = CHR ''-'') [8, 13, 18, 23]
     \<and> list_all (\<lambda>i. i \<in> set [8, 13, 18, 23] \<or> is_hex_digit (s ! i)) [0..<36]"

text \<open>A version of 1 to 8 and the variant bits of RFC 4122.\<close>

definition is_uuid :: "string \<Rightarrow> bool" where
  "is_uuid s \<longleftrightarrow> is_uuid_shape s \<and> s ! 14 \<in> set ''12345678'' \<and> s ! 19 \<in> set ''89abAB''"

definition parse_uuid :: "(string \<Rightarrow> bool) \<Rightarrow> jsval \<Rightarrow> string \<Rightarrow> string outcome" where
  "parse_uuid ok v field =
     (case v of
        JString s \<Rightarrow> if ok s then Inr s else Inl (AppError VALIDATION_ERROR (field @ '' must contain valid UUID values.''))
      | _ \<Rightarrow> Inl (AppError VALIDATION_ERROR (field @ '' must contain valid UUID values.'')))"

definition parse_active_status :: "jsval \<Rightarrow> string \<Rightarrow> common_status outcome" where
  "parse_active_status v field =
     (if v = JString ''active'' then Inr CS_active else if v = JString ''disabled'' then Inr CS_disabled
      else Inl (AppError VALIDATION_ERROR (field @ '' must be active or disabled.'')))"

definition if_defined :: "jsval \<Rightarrow> (jsval \<Rightarrow> 'a outcome) \<Rightarrow> 'a option outcome" where
  "if_defined v p = (if is_undefined v then Inr None else bind_res (p v) (\<lambda>x. Inr (Some x)))"

definition rejectUnknownKeys :: "json_record \<Rightarrow> string list \<Rightarrow> string \<Rightarrow> unit outcome" where
  "rejectUnknownKeys kvs allowed location =
     (let unknown = filter (\<lambda>k. k \<notin> set allowed) (map fst kvs)
      in if unknown = [] then Inr ()
         else Inl (AppError VALIDATION_ERROR (''Unknown '' @ location @ '' fields: '' @ js_join '', '' unknown @ ''.'')))"

definition distinct_ids :: "(string \<Rightarrow> bool) \<Rightarrow> jsval list \<Rightarrow> string \<Rightarrow> string list outcome" where
  "distinct_ids ok vs field =
     bind_res (res_map (\<lambda>v. parse_uuid ok v field) vs) (\<lambda>ids.
     if distinct ids then Inr ids else Inl (AppError VALIDATION_ERROR (field @ '' must not contain duplicates.'')))"

text \<open>Pages of lists: the texts of the query, with the greatest safe integer as the limit of the page.\<close>

definition MAX_SAFE_INTEGER :: nat where
  "MAX_SAFE_INTEGER = 2 ^ 53 - 1"

definition positiveInteger :: "jsval \<Rightarrow> string \<Rightarrow> nat \<Rightarrow> nat \<Rightarrow> nat outcome" where
  "positiveInteger v field fallback limit =
     (let bad = Inl (AppError VALIDATION_ERROR (field @ '' must be an integer between 1 and '' @ nat_string limit @ ''.''))
      in case v of
           JUndefined \<Rightarrow> Inr fallback
         | JString s \<Rightarrow>
             (if s = [] \<or> \<not> list_all is_digit s then bad
              else let n = digits_to_nat s in if n < 1 \<or> limit < n then bad else Inr n)
         | _ \<Rightarrow> bad)"

definition search_text :: "jsval \<Rightarrow> string \<Rightarrow> nat \<Rightarrow> string option outcome" where
  "search_text v field limit =
     (case v of
        JUndefined \<Rightarrow> Inr None
      | JString s \<Rightarrow>
          (if js_trim s = [] \<or> limit < length (js_trim s)
           then Inl (AppError VALIDATION_ERROR (field @ '' must be 1-'' @ nat_string limit @ '' characters.''))
           else Inr (Some (js_trim s)))
      | _ \<Rightarrow> Inl (AppError VALIDATION_ERROR (field @ '' must be a string.'')))"

definition rows_of_page :: "nat \<Rightarrow> nat \<Rightarrow> 'a list \<Rightarrow> 'a list" where
  "rows_of_page page pageSize rows = take pageSize (drop ((page - 1) * pageSize) rows)"

definition contains_insensitive :: "string option \<Rightarrow> string \<Rightarrow> bool" where
  "contains_insensitive search s \<longleftrightarrow> (case search of None \<Rightarrow> True | Some t \<Rightarrow> js_includes (js_lower s) (js_lower t))"

definition sameSet :: "string list \<Rightarrow> string list \<Rightarrow> bool" where
  "sameSet a b \<longleftrightarrow> length a = length b \<and> list_all (\<lambda>x. x \<in> set b) a"

section \<open>Serializable transactions\<close>

definition MAX_TRANSACTION_ATTEMPTS :: nat where
  "MAX_TRANSACTION_ATTEMPTS = 3"

definition isTransactionConflict :: "app_exception \<Rightarrow> bool" where
  "isTransactionConflict e \<longleftrightarrow> e = PrismaKnownError ''P2034''"

text \<open>
  The work is tried again while it fails with a write conflict, \<open>n\<close> times at most; the database aborts the next
  \<open>conflicts\<close> transactions, and one it aborts has no effect.
\<close>

fun attempt_serializable :: "nat \<Rightarrow> nat \<Rightarrow> string \<Rightarrow> 'a handler \<Rightarrow> 'a handler" where
  "attempt_serializable 0 conflicts message work = op_throw (AppError CONFLICT message)"
| "attempt_serializable (Suc n) conflicts message work =
     op_catch
       (if conflicts = 0 then op_transaction work else op_throw (PrismaKnownError ''P2034''))
       (\<lambda>e. if \<not> isTransactionConflict e then op_throw e
            else if n = 0 then op_throw (AppError CONFLICT message)
            else attempt_serializable n (conflicts - 1) message work)"

definition serializable :: "access_env \<Rightarrow> string \<Rightarrow> 'a handler \<Rightarrow> 'a handler" where
  "serializable env message work = attempt_serializable MAX_TRANSACTION_ATTEMPTS (xe_conflicts env) message work"

section \<open>Passwords\<close>

definition is_letter :: "char \<Rightarrow> bool" where
  "is_letter c \<longleftrightarrow> (let n = (of_char c :: nat) in (65 \<le> n \<and> n \<le> 90) \<or> (97 \<le> n \<and> n \<le> 122))"

definition MAX_PASSWORD_LENGTH :: nat where
  "MAX_PASSWORD_LENGTH = 256"

definition validatePassword :: "string \<Rightarrow> unit outcome" where
  "validatePassword p =
     (if length p < 12 \<or> length p > MAX_PASSWORD_LENGTH \<or> \<not> list_ex is_letter p \<or> \<not> list_ex is_digit p
      then Inl (JsError (''Password must be 12-'' @ nat_string MAX_PASSWORD_LENGTH
             @ '' characters and contain at least one letter and one digit.''))
      else Inr ())"

definition PASSWORD_VERSION :: string where
  "PASSWORD_VERSION = ''scrypt-v1''"

definition PASSWORD_PARAMETERS :: string where
  "PASSWORD_PARAMETERS = ''N=16384,r=8,p=1''"

definition hashPassword :: "access_env \<Rightarrow> string \<Rightarrow> string outcome" where
  "hashPassword env p =
     bind_res (validatePassword p) (\<lambda>_.
     case xe_derive env p (xe_salt env) of
       None \<Rightarrow> Inl (JsError ''scrypt'')
     | Some derived \<Rightarrow> Inr (js_join ''$'' [PASSWORD_VERSION, PASSWORD_PARAMETERS, xe_encode env (xe_salt env), xe_encode env derived]))"

text \<open>
  The numbers are read from \<open>/^N=(\d+),r=(\d+),p=(\d+)$/\<close> and compared with the constants, so they may
  have leading zeros.
\<close>

definition number_after :: "string \<Rightarrow> string \<Rightarrow> nat option" where
  "number_after name s =
     (if js_starts_with s name \<and> drop (length name) s \<noteq> [] \<and> list_all is_digit (drop (length name) s)
      then Some (digits_to_nat (drop (length name) s)) else None)"

definition parameters_ok :: "string \<Rightarrow> bool" where
  "parameters_ok s \<longleftrightarrow>
     (case js_split CHR '','' s of
        [n, r, p] \<Rightarrow> number_after ''N='' n = Some 16384 \<and> number_after ''r='' r = Some 8 \<and> number_after ''p='' p = Some 1
      | _ \<Rightarrow> False)"

definition verifyPassword :: "access_env \<Rightarrow> string \<Rightarrow> string \<Rightarrow> bool" where
  "verifyPassword env p encoded =
     (if length p > MAX_PASSWORD_LENGTH then False
      else case js_split CHR ''$'' encoded of
             [version, parameters, salt, hash] \<Rightarrow>
               version = PASSWORD_VERSION \<and> salt \<noteq> [] \<and> hash \<noteq> [] \<and> parameters_ok parameters
               \<and> length (xe_decode env salt) = 16 \<and> length (xe_decode env hash) = 64
               \<and> xe_derive env p (xe_decode env salt) = Some (xe_decode env hash)
           | _ \<Rightarrow> False)"

end
