(* ===== verification/Admin_Users.thy ===== *)
theory Admin_Users
  imports Access_Model
begin

text \<open>
  \<open>admin-users.service.ts\<close>: administrators, their roles, passwords and status. Every change runs in a serializable
  transaction, keeps an enabled \<open>super_admin\<close>, and ends the sessions of the administrator it concerns.
\<close>

definition SUPER_ADMIN_CODE :: string where
  "SUPER_ADMIN_CODE = ''super_admin''"

definition ADMIN_CONFLICT :: string where
  "ADMIN_CONFLICT = ''Administrator changed concurrently; retry the request.''"

section \<open>What a caller sees of an administrator\<close>

record safe_role =
  so_id :: string
  so_code :: string
  so_name :: string
  so_status :: common_status

record safe_admin =
  sa_id :: string
  sa_username :: string
  sa_email :: "string option"
  sa_status :: common_status
  sa_roles :: "safe_role list"
  sa_createdAt :: int
  sa_updatedAt :: int
  sa_lastLoginAt :: "int option"
  sa_lastSessionActivityAt :: "int option"

definition safeRole :: "role_row \<Rightarrow> safe_role" where
  "safeRole r = \<lparr>so_id = rl_id r, so_code = rl_code r, so_name = rl_name r, so_status = rl_status r\<rparr>"

text \<open>The session that was created last; its last use, or its creation when it was never used.\<close>

definition last_activity :: "string \<Rightarrow> database \<Rightarrow> int option" where
  "last_activity userId db =
     (case rev (filter (\<lambda>s. sx_adminUserId s = userId) (admin_session_rows db)) of
        [] \<Rightarrow> None
      | s # _ \<Rightarrow> (case sx_lastUsedAt s of None \<Rightarrow> Some (sx_createdAt s) | Some t \<Rightarrow> Some t))"

definition toSafeDto :: "database \<Rightarrow> admin_user \<Rightarrow> safe_admin" where
  "toSafeDto db u =
     \<lparr>sa_id = um_id u, sa_username = um_username u, sa_email = um_email u, sa_status = um_status u,
      sa_roles = map safeRole (roles_of (um_id u) db), sa_createdAt = um_createdAt u, sa_updatedAt = um_updatedAt u,
      sa_lastLoginAt = um_lastLoginAt u, sa_lastSessionActivityAt = last_activity (um_id u) db\<rparr>"

section \<open>Fields of a request\<close>

definition is_username_char :: "char \<Rightarrow> bool" where
  "is_username_char c \<longleftrightarrow> is_letter c \<or> is_digit c \<or> c \<in> set ''._-''"

definition requiredUsername :: "jsval \<Rightarrow> string outcome" where
  "requiredUsername v =
     (case v of
        JString s \<Rightarrow>
          (let username = js_trim s
           in if length username < 3 \<or> length username > 64 \<or> \<not> list_all is_username_char username
              then Inl (AppError VALIDATION_ERROR
                ''username must be 3-64 characters using letters, digits, dot, underscore, or hyphen.'')
              else Inr username)
      | _ \<Rightarrow> Inl (AppError VALIDATION_ERROR ''username must be a string.''))"

definition admin_email :: "jsval \<Rightarrow> string outcome" where
  "admin_email v =
     (case v of
        JString s \<Rightarrow>
          (let email = js_lower (js_trim s)
           in if isValidEmail email then Inr email
              else Inl (AppError VALIDATION_ERROR ''email must be a valid email address.''))
      | _ \<Rightarrow> Inl (AppError VALIDATION_ERROR ''email must be a string.''))"

definition requiredPassword :: "jsval \<Rightarrow> string outcome" where
  "requiredPassword v =
     (case v of JString s \<Rightarrow> Inr s | _ \<Rightarrow> Inl (AppError VALIDATION_ERROR ''password must be a string.''))"

definition uniqueRoleIds :: "jsval \<Rightarrow> string list outcome" where
  "uniqueRoleIds v =
     (case v of
        JArray vs \<Rightarrow>
          (if vs = [] then Inl (AppError VALIDATION_ERROR ''At least one role must be assigned.'')
           else distinct_ids is_uuid vs ''roleIds'')
      | _ \<Rightarrow> Inl (AppError VALIDATION_ERROR ''At least one role must be assigned.''))"

definition hash_admin_password :: "access_env \<Rightarrow> string \<Rightarrow> string outcome" where
  "hash_admin_password env p =
     (case hashPassword env p of Inr h \<Rightarrow> Inr h | Inl e \<Rightarrow> Inl (AppError VALIDATION_ERROR (exception_message e)))"

definition translateWriteError :: "access_env \<Rightarrow> app_exception \<Rightarrow> app_exception" where
  "translateWriteError env e =
     (if e = PrismaKnownError ''P2002''
      then if js_includes (xe_unique_target env) ''email''
           then AppError DUPLICATE_RESOURCE ''Email is already used by another administrator.''
           else if js_includes (xe_unique_target env) ''username''
           then AppError DUPLICATE_RESOURCE ''Username already exists.''
           else AppError DUPLICATE_RESOURCE ''Administrator already exists.''
      else e)"

definition admin_audit :: "actor \<Rightarrow> string \<Rightarrow> string \<Rightarrow> string list \<Rightarrow> audit_input" where
  "admin_audit actor action i changed = auditInput actor action ''admin_user'' (Some i) None changed"

section \<open>Reading\<close>

definition admin_wanted :: "database \<Rightarrow> string option \<Rightarrow> common_status option \<Rightarrow> string option \<Rightarrow> admin_user \<Rightarrow> bool" where
  "admin_wanted db search status roleId u \<longleftrightarrow>
     (case status of None \<Rightarrow> True | Some s \<Rightarrow> um_status u = s)
     \<and> (case roleId of None \<Rightarrow> True | Some r \<Rightarrow> (um_id u, js_lower r) \<in> set (user_role_rows db))
     \<and> (search = None \<or> contains_insensitive search (um_username u)
        \<or> (case um_email u of None \<Rightarrow> False | Some e \<Rightarrow> contains_insensitive search e))"

definition listAdmins :: "json_record \<Rightarrow> (nat \<times> nat \<times> nat \<times> safe_admin list) handler" where
  "listAdmins query =
     op_bind (op_lift (rejectUnknownKeys query [''page'', ''pageSize'', ''search'', ''status'', ''roleId''] ''query'')) (\<lambda>_.
     op_bind (op_lift (positiveInteger (js_get query ''page'') ''page'' 1 MAX_SAFE_INTEGER)) (\<lambda>page.
     op_bind (op_lift (positiveInteger (js_get query ''pageSize'') ''pageSize'' 20 100)) (\<lambda>pageSize.
     op_bind (op_lift (search_text (js_get query ''search'') ''search'' 255)) (\<lambda>search.
     op_bind (op_lift (if_defined (js_get query ''status'') (\<lambda>v. parse_active_status v ''status''))) (\<lambda>status.
     op_bind (op_lift (if_defined (js_get query ''roleId'') (\<lambda>v. parse_uuid is_uuid v ''roleId''))) (\<lambda>roleId.
     op_get (\<lambda>db.
       let records = newest_first (admin_wanted db search status roleId) (admin_user_rows db)
       in (length records, page, pageSize, map (toSafeDto db) (rows_of_page page pageSize records)))))))))"

definition listRoles :: "role_row list handler" where
  "listRoles = op_get (\<lambda>db. sort_key rl_code (filter (\<lambda>r. rl_status r = CS_active) (role_rows db)))"

definition ADMIN_NOT_FOUND :: app_exception where
  "ADMIN_NOT_FOUND = AppError NOT_FOUND ''Administrator not found.''"

definition require_admin :: "string \<Rightarrow> admin_user handler" where
  "require_admin i =
     op_bind (op_get (find_admin i)) (\<lambda>found.
     case found of None \<Rightarrow> op_throw ADMIN_NOT_FOUND | Some u \<Rightarrow> op_return u)"

definition getAdmin :: "string \<Rightarrow> safe_admin handler" where
  "getAdmin idInput =
     op_bind (op_lift (parse_uuid is_uuid (JString idInput) ''id'')) (\<lambda>i.
     op_bind (require_admin i) (\<lambda>u.
     op_get (\<lambda>db. toSafeDto db u)))"

section \<open>Guards\<close>

definition requireActiveRoles :: "string list \<Rightarrow> role_row list handler" where
  "requireActiveRoles roleIds =
     op_bind (op_get (\<lambda>db. filter (\<lambda>r. rl_id r \<in> set (map js_lower roleIds)) (role_rows db))) (\<lambda>roles.
     op_bind (op_assert (length roles = length roleIds)
       (AppError VALIDATION_ERROR ''One or more roles do not exist.'')) (\<lambda>_.
     op_bind (op_assert (list_all (\<lambda>r. rl_status r = CS_active) roles)
       (AppError CONFLICT ''Disabled roles cannot be assigned.'')) (\<lambda>_.
     op_return roles)))"

definition requireSuperAdminRole :: "role_row handler" where
  "requireSuperAdminRole =
     op_bind (op_get (\<lambda>db. find_row (\<lambda>r. rl_code r = SUPER_ADMIN_CODE) (role_rows db))) (\<lambda>found.
     case found of
       None \<Rightarrow> op_throw (AppError CONFLICT ''The stable super_admin role is missing.'')
     | Some r \<Rightarrow> op_return r)"

definition assertSelfProtection ::
  "actor \<Rightarrow> string \<Rightarrow> bool \<Rightarrow> common_status \<Rightarrow> string list \<Rightarrow> string \<Rightarrow> unit outcome" where
  "assertSelfProtection actor targetId currentlySuper nextStatus nextRoleIds superRoleId =
     (if ac_userId actor \<noteq> targetId then Inr ()
      else if nextStatus = CS_disabled
      then Inl (AppError CONFLICT ''You cannot disable your current administrator account.'')
      else if currentlySuper \<and> superRoleId \<notin> set nextRoleIds
      then Inl (AppError CONFLICT ''You cannot remove your own super_admin role.'')
      else Inr ())"

definition role_is_active :: "string \<Rightarrow> database \<Rightarrow> bool" where
  "role_is_active i db \<longleftrightarrow> list_ex (\<lambda>r. rl_id r = i \<and> rl_status r = CS_active) (role_rows db)"

definition enabled_with_role :: "string \<Rightarrow> database \<Rightarrow> admin_user list" where
  "enabled_with_role roleId db =
     filter (\<lambda>u. um_status u = CS_active \<and> (um_id u, roleId) \<in> set (user_role_rows db) \<and> role_is_active roleId db)
       (admin_user_rows db)"

definition assertAnotherEnabledSuperAdmin :: "string \<Rightarrow> string \<Rightarrow> unit handler" where
  "assertAnotherEnabledSuperAdmin excludedUserId superRoleId =
     op_bind (op_get (\<lambda>db. length (filter (\<lambda>u. um_id u \<noteq> js_lower excludedUserId) (enabled_with_role superRoleId db)))) (\<lambda>count.
     op_assert (\<not> count < 1) (AppError CONFLICT ''At least one enabled super_admin must remain.''))"

section \<open>Writing\<close>

definition revokeSessions :: "runtime \<Rightarrow> string \<Rightarrow> nat handler" where
  "revokeSessions rt userId = revoke_where (rt_now rt) (\<lambda>s. sx_adminUserId s = js_lower userId)"

text \<open>\<open>adminUserRole.createMany\<close> under the primary key of the pair.\<close>

definition user_roles_createMany :: "string \<Rightarrow> string list \<Rightarrow> unit handler" where
  "user_roles_createMany userId roleIds =
     op_bind (op_get user_role_rows) (\<lambda>rows.
     op_bind (op_assert (distinct (map js_lower roleIds)
         \<and> list_all (\<lambda>i. (js_lower userId, js_lower i) \<notin> set rows) roleIds) (PrismaKnownError ''P2002'')) (\<lambda>_.
     op_modify (\<lambda>db. put_user_roles (user_role_rows db @ map (\<lambda>i. (js_lower userId, js_lower i)) roleIds) db)))"

definition user_roles_deleteMany :: "string \<Rightarrow> unit handler" where
  "user_roles_deleteMany userId =
     op_modify (\<lambda>db. put_user_roles (filter (\<lambda>x. fst x \<noteq> js_lower userId) (user_role_rows db)) db)"

definition new_admin :: "runtime \<Rightarrow> string \<Rightarrow> string \<Rightarrow> string \<Rightarrow> common_status \<Rightarrow> admin_user" where
  "new_admin rt username email passwordHash status =
     \<lparr>um_id = rt_fresh_id rt 0, um_username = username, um_passwordHash = passwordHash, um_displayName = username,
      um_email = Some email, um_employeeId = None, um_status = status, um_lastLoginAt = None,
      um_createdAt = rt_now rt, um_updatedAt = rt_now rt\<rparr>"

definition create_admin_row ::
  "runtime \<Rightarrow> string \<Rightarrow> string \<Rightarrow> string \<Rightarrow> string list \<Rightarrow> common_status \<Rightarrow> actor \<Rightarrow> safe_admin handler" where
  "create_admin_row rt username email passwordHash roleIds status actor =
     op_bind (requireActiveRoles roleIds) (\<lambda>roles.
     op_bind (admin_insert (new_admin rt username email passwordHash status)) (\<lambda>created.
     op_bind (user_roles_createMany (um_id created) roleIds) (\<lambda>_.
     op_bind (op_get (\<lambda>db. toSafeDto db created)) (\<lambda>dto.
     op_bind (audit_success (admin_audit actor ''admin_user.create'' (um_id created)
       [''username'', ''email'', ''status'', ''roles''])) (\<lambda>_.
     op_return (dto\<lparr>sa_roles := map safeRole roles\<rparr>))))))"

definition createAdmin :: "access_env \<Rightarrow> runtime \<Rightarrow> json_record \<Rightarrow> actor \<Rightarrow> safe_admin handler" where
  "createAdmin env rt input actor =
     op_bind (op_lift (rejectUnknownKeys input [''username'', ''email'', ''password'', ''roleIds'', ''status''] ''body'')) (\<lambda>_.
     op_bind (op_lift (requiredUsername (js_get input ''username''))) (\<lambda>username.
     op_bind (op_lift (admin_email (js_get input ''email''))) (\<lambda>email.
     op_bind (op_lift (requiredPassword (js_get input ''password''))) (\<lambda>password.
     op_bind (op_lift (uniqueRoleIds (js_get input ''roleIds''))) (\<lambda>roleIds.
     op_bind (op_lift (if_defined (js_get input ''status'') (\<lambda>v. parse_active_status v ''status''))) (\<lambda>status.
     op_bind (op_lift (hash_admin_password env password)) (\<lambda>passwordHash.
     op_catch
       (serializable env ADMIN_CONFLICT
         (create_admin_row rt username email passwordHash roleIds (or_keep status CS_active) actor))
       (\<lambda>e. op_throw (translateWriteError env e)))))))))"

definition changedAdminFields :: "safe_admin \<Rightarrow> safe_admin \<Rightarrow> string list" where
  "changedAdminFields before updated = keys_given
     [(''email'', sa_email before \<noteq> sa_email updated), (''status'', sa_status before \<noteq> sa_status updated),
      (''roles'', \<not> sameSet (map so_id (sa_roles before)) (map so_id (sa_roles updated)))]"

text \<open>The roles are replaced as a whole, and only when they are not the ones the administrator has.\<close>

definition replace_roles :: "string \<Rightarrow> string list \<Rightarrow> unit handler" where
  "replace_roles i nextRoleIds =
     op_bind (user_roles_deleteMany i) (\<lambda>_. user_roles_createMany i nextRoleIds)"

definition write_admin ::
  "runtime \<Rightarrow> string \<Rightarrow> string option \<Rightarrow> common_status option \<Rightarrow> bool \<Rightarrow> safe_admin \<Rightarrow> actor \<Rightarrow> safe_admin handler" where
  "write_admin rt i email status roleChanged before actor =
     op_bind (admin_set (js_lower i) (\<lambda>u. u\<lparr>um_email := (case email of None \<Rightarrow> um_email u | Some e \<Rightarrow> Some e),
       um_status := or_keep status (um_status u), um_updatedAt := rt_now rt\<rparr>)) (\<lambda>changed.
     op_bind (if roleChanged \<or> (sa_status before = CS_active \<and> or_keep status (sa_status before) = CS_disabled)
              then revokeSessions rt i else op_return 0) (\<lambda>_.
     op_bind (op_get (\<lambda>db. toSafeDto db changed)) (\<lambda>updated.
     op_bind (op_assert (changedAdminFields before updated \<noteq> [])
       (AppError CONFLICT ''Administrator already has the requested values.'')) (\<lambda>_.
     op_bind (audit_success (admin_audit actor ''admin_user.update'' i (changedAdminFields before updated))) (\<lambda>_.
     op_return updated)))))"

definition update_admin_row ::
  "runtime \<Rightarrow> string \<Rightarrow> string option \<Rightarrow> string list option \<Rightarrow> common_status option \<Rightarrow> actor \<Rightarrow> safe_admin handler" where
  "update_admin_row rt i email roleIds status actor =
     op_bind (require_admin i) (\<lambda>user.
     op_bind (op_get (\<lambda>db. toSafeDto db user)) (\<lambda>before.
     op_bind (case roleIds of None \<Rightarrow> op_return [] | Some ids \<Rightarrow> requireActiveRoles ids) (\<lambda>_.
     op_bind requireSuperAdminRole (\<lambda>superRole.
     let currentRoleIds = map so_id (sa_roles before);
         nextRoleIds = or_keep roleIds currentRoleIds;
         roleChanged = (\<not> sameSet currentRoleIds nextRoleIds);
         nextStatus = or_keep status (sa_status before);
         currentlySuper = rl_id superRole \<in> set currentRoleIds;
         remainsEnabledSuper = (nextStatus = CS_active \<and> rl_id superRole \<in> set nextRoleIds)
     in op_bind (op_lift (assertSelfProtection actor (sa_id before) currentlySuper nextStatus nextRoleIds (rl_id superRole))) (\<lambda>_.
        op_bind (if sa_status before = CS_active \<and> currentlySuper \<and> \<not> remainsEnabledSuper
                 then assertAnotherEnabledSuperAdmin (sa_id before) (rl_id superRole) else op_return ()) (\<lambda>_.
        op_bind (if roleChanged then replace_roles i nextRoleIds else op_return ()) (\<lambda>_.
        write_admin rt i email status roleChanged before actor)))))))"

definition updateAdmin :: "access_env \<Rightarrow> runtime \<Rightarrow> string \<Rightarrow> json_record \<Rightarrow> actor \<Rightarrow> safe_admin handler" where
  "updateAdmin env rt idInput input actor =
     op_bind (op_lift (parse_uuid is_uuid (JString idInput) ''id'')) (\<lambda>i.
     op_bind (op_lift (rejectUnknownKeys input [''email'', ''roleIds'', ''status''] ''body'')) (\<lambda>_.
     op_bind (op_assert (\<not> (is_undefined (js_get input ''email'') \<and> is_undefined (js_get input ''roleIds'')
         \<and> is_undefined (js_get input ''status'')))
       (AppError VALIDATION_ERROR ''At least one of email, roleIds, or status is required.'')) (\<lambda>_.
     op_bind (op_lift (if_defined (js_get input ''email'') admin_email)) (\<lambda>email.
     op_bind (op_lift (if_defined (js_get input ''roleIds'') uniqueRoleIds)) (\<lambda>roleIds.
     op_bind (op_lift (if_defined (js_get input ''status'') (\<lambda>v. parse_active_status v ''status''))) (\<lambda>status.
     op_catch
       (serializable env ADMIN_CONFLICT (update_admin_row rt i email roleIds status actor))
       (\<lambda>e. op_throw (translateWriteError env e))))))))"

definition reset_password_row :: "runtime \<Rightarrow> string \<Rightarrow> string \<Rightarrow> actor \<Rightarrow> unit handler" where
  "reset_password_row rt i passwordHash actor =
     op_bind (require_admin i) (\<lambda>before.
     op_bind (admin_set (js_lower i) (\<lambda>u. u\<lparr>um_passwordHash := passwordHash, um_updatedAt := rt_now rt\<rparr>)) (\<lambda>_.
     op_bind (revokeSessions rt i) (\<lambda>_.
     audit_success (admin_audit actor ''admin_user.reset_password'' i [''password'']))))"

definition resetPassword :: "access_env \<Rightarrow> runtime \<Rightarrow> string \<Rightarrow> json_record \<Rightarrow> actor \<Rightarrow> unit handler" where
  "resetPassword env rt idInput input actor =
     op_bind (op_lift (parse_uuid is_uuid (JString idInput) ''id'')) (\<lambda>i.
     op_bind (op_lift (rejectUnknownKeys input [''password'', ''confirmPassword''] ''body'')) (\<lambda>_.
     op_bind (op_lift (requiredPassword (js_get input ''password''))) (\<lambda>password.
     op_bind (op_assert (js_get input ''confirmPassword'' = JString password)
       (AppError VALIDATION_ERROR ''Password confirmation does not match.'')) (\<lambda>_.
     op_bind (op_lift (hash_admin_password env password)) (\<lambda>passwordHash.
     serializable env ADMIN_CONFLICT (reset_password_row rt i passwordHash actor))))))"

definition set_enabled_row :: "runtime \<Rightarrow> string \<Rightarrow> bool \<Rightarrow> actor \<Rightarrow> safe_admin handler" where
  "set_enabled_row rt i enabled actor =
     (let nextStatus = (if enabled then CS_active else CS_disabled)
      in op_bind (require_admin i) (\<lambda>before.
         op_bind (op_assert (um_status before \<noteq> nextStatus)
           (AppError CONFLICT (''Administrator is already '' @ (if enabled then ''enabled'' else ''disabled'') @ ''.''))) (\<lambda>_.
         op_bind (op_assert (enabled \<or> ac_userId actor \<noteq> i)
           (AppError CONFLICT ''You cannot disable your current administrator account.'')) (\<lambda>_.
         op_bind requireSuperAdminRole (\<lambda>superRole.
         op_bind (op_get (\<lambda>db. rl_id superRole \<in> set (map rl_id (roles_of (um_id before) db)))) (\<lambda>currentlySuper.
         op_bind (if \<not> enabled \<and> currentlySuper then assertAnotherEnabledSuperAdmin i (rl_id superRole) else op_return ()) (\<lambda>_.
         op_bind (admin_set (js_lower i) (\<lambda>u. u\<lparr>um_status := nextStatus, um_updatedAt := rt_now rt\<rparr>)) (\<lambda>changed.
         op_bind (if \<not> enabled then revokeSessions rt i else op_return 0) (\<lambda>_.
         op_bind (op_get (\<lambda>db. toSafeDto db changed)) (\<lambda>updated.
         op_bind (audit_success (admin_audit actor (if enabled then ''admin_user.enable'' else ''admin_user.disable'') i [''status''])) (\<lambda>_.
         op_return updated)))))))))))"

definition setAdminEnabled :: "access_env \<Rightarrow> runtime \<Rightarrow> string \<Rightarrow> bool \<Rightarrow> actor \<Rightarrow> safe_admin handler" where
  "setAdminEnabled env rt idInput enabled actor =
     op_bind (op_lift (parse_uuid is_uuid (JString idInput) ''id'')) (\<lambda>i.
     serializable env ADMIN_CONFLICT (set_enabled_row rt i enabled actor))"

end
