(* ===== verification/Access_Roles.thy ===== *)
theory Access_Roles
  imports Admin_Users
begin

text \<open>
  \<open>roles.service.ts\<close>: roles and the permissions they grant. The role \<open>super_admin\<close> can neither be disabled nor lose its
  core permissions, and a change of permissions ends the sessions of everybody who has the role.
\<close>

definition CORE_SUPER_PERMISSIONS :: "string list" where
  "CORE_SUPER_PERMISSIONS = [''role.read'', ''role.manage'', ''admin_users.read'', ''admin_users.manage'']"

definition ROLE_CONFLICT :: string where
  "ROLE_CONFLICT = ''Role changed concurrently; retry the request.''"

section \<open>What a caller sees of a role\<close>

record permission_view =
  pw_permission :: permission_row
  pw_module :: string

record role_view =
  rw_role :: role_row
  rw_system :: bool
  rw_permissionCount :: nat
  rw_adminCount :: nat
  rw_permissions :: "permission_view list"

text \<open>\<open>code.split('.')[0] || 'other'\<close>\<close>

definition permissionDto :: "permission_row \<Rightarrow> permission_view" where
  "permissionDto p =
     (let module = hd (js_split CHR ''.'' (pn_code p))
      in \<lparr>pw_permission = p, pw_module = (if module = [] then ''other'' else module)\<rparr>)"

definition user_count :: "string \<Rightarrow> database \<Rightarrow> nat" where
  "user_count roleId db = length (filter (\<lambda>x. snd x = roleId) (user_role_rows db))"

definition role_dto :: "database \<Rightarrow> role_row \<Rightarrow> role_view" where
  "role_dto db r =
     \<lparr>rw_role = r, rw_system = (rl_code r = SUPER_ADMIN_CODE),
      rw_permissionCount = length (permission_ids_of (rl_id r) db), rw_adminCount = user_count (rl_id r) db,
      rw_permissions = map permissionDto (sort_key pn_code (permissions_of (rl_id r) db))\<rparr>"

section \<open>Fields of a request\<close>

text \<open>\<open>s.replace(/[p]+/g, d)\<close>: a run of characters of the class becomes one character.\<close>

fun replace_runs :: "(char \<Rightarrow> bool) \<Rightarrow> char \<Rightarrow> string \<Rightarrow> string" where
  "replace_runs p d [] = []"
| "replace_runs p d (c # s) =
     (if \<not> p c then c # replace_runs p d s
      else if s \<noteq> [] \<and> p (hd s) then replace_runs p d s
      else d # replace_runs p d s)"

definition roleName :: "access_env \<Rightarrow> jsval \<Rightarrow> string outcome" where
  "roleName env v =
     (case v of
        JString s \<Rightarrow>
          (let name = replace_runs is_js_space CHR '' '' (js_trim s)
           in if length name < 2 \<or> length name > 64
                 \<or> \<not> list_all (\<lambda>c. xe_letter_or_number env c \<or> c \<in> set '' _-'') name
              then Inl (AppError VALIDATION_ERROR ''name must be 2-64 letters, digits, spaces, underscores, or hyphens.'')
              else Inr name)
      | _ \<Rightarrow> Inl (AppError VALIDATION_ERROR ''name must be a string.''))"

definition normalizeName :: "access_env \<Rightarrow> string \<Rightarrow> string" where
  "normalizeName env name = js_lower (xe_nfkc env name)"

definition assertNotReservedName :: "access_env \<Rightarrow> string \<Rightarrow> unit outcome" where
  "assertNotReservedName env name =
     (if replace_runs (\<lambda>c. c \<in> set '' -'') CHR ''_'' (normalizeName env name) = SUPER_ADMIN_CODE
      then Inl (AppError VALIDATION_ERROR ''super_admin is a reserved role name.'') else Inr ())"

definition descriptionValue :: "jsval \<Rightarrow> string option outcome" where
  "descriptionValue v =
     (case v of
        JUndefined \<Rightarrow> Inr None
      | JNull \<Rightarrow> Inr None
      | JString s \<Rightarrow>
          (if length (js_trim s) > 1000
           then Inl (AppError VALIDATION_ERROR ''description must not exceed 1000 characters.'')
           else Inr (if js_trim s = [] then None else Some (js_trim s)))
      | _ \<Rightarrow> Inl (AppError VALIDATION_ERROR ''description must be a string or null.''))"

definition permissionIdsValue :: "jsval \<Rightarrow> string list outcome" where
  "permissionIdsValue v =
     (case v of
        JArray vs \<Rightarrow>
          (if length vs < 1 \<or> length vs > 500
           then Inl (AppError VALIDATION_ERROR ''permissionIds must contain 1-500 items.'')
           else distinct_ids is_uuid_shape vs ''permissionIds'')
      | _ \<Rightarrow> Inl (AppError VALIDATION_ERROR ''permissionIds must contain 1-500 items.''))"

definition role_code_of :: "access_env \<Rightarrow> runtime \<Rightarrow> string \<Rightarrow> string" where
  "role_code_of env rt name = ''custom_'' @ take 24 (rt_sha256_hex rt (normalizeName env name))"

definition translate_role_error :: "app_exception \<Rightarrow> app_exception" where
  "translate_role_error e =
     (if e = PrismaKnownError ''P2002'' then AppError DUPLICATE_RESOURCE ''Role name already exists.'' else e)"

definition role_audit :: "actor \<Rightarrow> string \<Rightarrow> string \<Rightarrow> string list \<Rightarrow> audit_input" where
  "role_audit actor action i changed = auditInput actor action ''role'' (Some i) None changed"

section \<open>Reading\<close>

definition listRoleViews :: "json_record \<Rightarrow> (nat \<times> nat \<times> nat \<times> role_view list) handler" where
  "listRoleViews query =
     op_bind (op_lift (rejectUnknownKeys query [''page'', ''pageSize'', ''search'', ''status''] ''query'')) (\<lambda>_.
     op_bind (op_lift (positiveInteger (js_get query ''page'') ''page'' 1 MAX_SAFE_INTEGER)) (\<lambda>page.
     op_bind (op_lift (positiveInteger (js_get query ''pageSize'') ''pageSize'' 20 100)) (\<lambda>pageSize.
     op_bind (op_lift (search_text (js_get query ''search'') ''search'' 128)) (\<lambda>search.
     op_bind (op_lift (if_defined (js_get query ''status'') (\<lambda>v. parse_active_status v ''status''))) (\<lambda>status.
     op_get (\<lambda>db.
       let rows = newest_first (\<lambda>r. (status = None \<or> status = Some (rl_status r)) \<and> contains_insensitive search (rl_name r))
                    (role_rows db)
       in (length rows, page, pageSize, map (role_dto db) (rows_of_page page pageSize rows))))))))"

definition list_permissions :: "permission_view list handler" where
  "list_permissions = op_get (\<lambda>db. map permissionDto (sort_key pn_code (permission_rows db)))"

definition require_role :: "string \<Rightarrow> role_row handler" where
  "require_role i =
     op_bind (op_get (find_role i)) (\<lambda>found.
     case found of None \<Rightarrow> op_throw (AppError NOT_FOUND ''Role not found.'') | Some r \<Rightarrow> op_return r)"

definition getRole :: "string \<Rightarrow> role_view handler" where
  "getRole idInput =
     op_bind (op_lift (parse_uuid is_uuid_shape (JString idInput) ''id'')) (\<lambda>i.
     op_bind (require_role i) (\<lambda>r.
     op_get (\<lambda>db. role_dto db r)))"

section \<open>Guards\<close>

definition assertUniqueName :: "string \<Rightarrow> string option \<Rightarrow> unit handler" where
  "assertUniqueName name excludeId =
     op_bind (op_get (\<lambda>db. list_ex (\<lambda>r. excludeId \<noteq> Some (rl_id r) \<and> js_lower (rl_name r) = js_lower name) (role_rows db))) (\<lambda>taken.
     op_assert (\<not> taken) (AppError DUPLICATE_RESOURCE ''Role name already exists.''))"

definition requirePermissions :: "string list \<Rightarrow> permission_row list handler" where
  "requirePermissions ids =
     op_bind (op_get (\<lambda>db. filter (\<lambda>p. pn_id p \<in> set (map js_lower ids)) (permission_rows db))) (\<lambda>rows.
     op_bind (op_assert (length rows = length ids)
       (AppError VALIDATION_ERROR ''One or more permissions do not exist.'')) (\<lambda>_.
     op_return rows))"

definition assertCorePermissions :: "string list \<Rightarrow> unit outcome" where
  "assertCorePermissions codes =
     (let missing = filter (\<lambda>c. c \<notin> set codes) CORE_SUPER_PERMISSIONS
      in if missing = [] then Inr ()
         else Inl (AppError CONFLICT (''super_admin core permissions cannot be removed: '' @ js_join '', '' missing @ ''.'')))"

section \<open>Writing\<close>

definition revokeRoleSessions :: "runtime \<Rightarrow> string \<Rightarrow> nat handler" where
  "revokeRoleSessions rt roleId =
     op_bind (op_get (\<lambda>db. map fst (filter (\<lambda>x. snd x = js_lower roleId) (user_role_rows db)))) (\<lambda>users.
     revoke_where (rt_now rt) (\<lambda>s. sx_adminUserId s \<in> set users))"

definition role_permissions_createMany :: "string \<Rightarrow> string list \<Rightarrow> unit handler" where
  "role_permissions_createMany roleId permissionIds =
     op_bind (op_get role_permission_rows) (\<lambda>rows.
     op_bind (op_assert (distinct (map js_lower permissionIds)
         \<and> list_all (\<lambda>i. (js_lower roleId, js_lower i) \<notin> set rows) permissionIds) (PrismaKnownError ''P2002'')) (\<lambda>_.
     op_modify (\<lambda>db. put_role_permissions
       (role_permission_rows db @ map (\<lambda>i. (js_lower roleId, js_lower i)) permissionIds) db)))"

definition role_permissions_deleteMany :: "string \<Rightarrow> unit handler" where
  "role_permissions_deleteMany roleId =
     op_modify (\<lambda>db. put_role_permissions (filter (\<lambda>x. fst x \<noteq> js_lower roleId) (role_permission_rows db)) db)"

definition new_role ::
  "access_env \<Rightarrow> runtime \<Rightarrow> string \<Rightarrow> string option \<Rightarrow> common_status \<Rightarrow> role_row" where
  "new_role env rt name description status =
     \<lparr>rl_id = rt_fresh_id rt 0, rl_code = role_code_of env rt name, rl_name = name, rl_description = description,
      rl_status = status, rl_createdAt = rt_now rt, rl_updatedAt = rt_now rt\<rparr>"

definition create_role_row ::
  "access_env \<Rightarrow> runtime \<Rightarrow> string \<Rightarrow> string option \<Rightarrow> common_status \<Rightarrow> string list \<Rightarrow> actor \<Rightarrow> role_view handler" where
  "create_role_row env rt name description status permissionIds actor =
     op_bind (assertUniqueName name None) (\<lambda>_.
     op_bind (requirePermissions permissionIds) (\<lambda>permissions.
     op_bind (role_insert (new_role env rt name description status)) (\<lambda>created.
     op_bind (role_permissions_createMany (rl_id created) permissionIds) (\<lambda>_.
     op_bind (op_get (\<lambda>db. role_dto db created)) (\<lambda>dto.
     op_bind (audit_success (role_audit actor ''role.create'' (rl_id created)
       [''name'', ''description'', ''status'', ''permissions''])) (\<lambda>_.
     op_return (dto\<lparr>rw_permissions := map permissionDto permissions\<rparr>)))))))"

definition createRole :: "access_env \<Rightarrow> runtime \<Rightarrow> json_record \<Rightarrow> actor \<Rightarrow> role_view handler" where
  "createRole env rt input actor =
     op_bind (op_lift (rejectUnknownKeys input [''name'', ''description'', ''status'', ''permissionIds''] ''body'')) (\<lambda>_.
     op_bind (op_lift (roleName env (js_get input ''name''))) (\<lambda>name.
     op_bind (op_lift (assertNotReservedName env name)) (\<lambda>_.
     op_bind (op_lift (descriptionValue (js_get input ''description''))) (\<lambda>description.
     op_bind (op_lift (if_defined (js_get input ''status'') (\<lambda>v. parse_active_status v ''status''))) (\<lambda>status.
     op_bind (op_lift (permissionIdsValue (js_get input ''permissionIds''))) (\<lambda>permissionIds.
     op_catch
       (serializable env ROLE_CONFLICT
         (create_role_row env rt name description (or_keep status CS_active) permissionIds actor))
       (\<lambda>e. op_throw (translate_role_error e))))))))"

definition changed_role_fields :: "role_view \<Rightarrow> role_view \<Rightarrow> string list" where
  "changed_role_fields a b = keys_given
     [(''name'', rl_name (rw_role a) \<noteq> rl_name (rw_role b)),
      (''description'', rl_description (rw_role a) \<noteq> rl_description (rw_role b)),
      (''status'', rl_status (rw_role a) \<noteq> rl_status (rw_role b)),
      (''permissions'', \<not> sameSet (map (\<lambda>p. pn_id (pw_permission p)) (rw_permissions a))
         (map (\<lambda>p. pn_id (pw_permission p)) (rw_permissions b)))]"

text \<open>New permissions are checked when they are given; the role \<open>super_admin\<close> keeps the core ones.\<close>

definition checked_permissions :: "role_row \<Rightarrow> string list option \<Rightarrow> unit handler" where
  "checked_permissions before permissionIds =
     (case permissionIds of
        None \<Rightarrow> op_return ()
      | Some ids \<Rightarrow>
          op_bind (requirePermissions ids) (\<lambda>next_permissions.
          if rl_code before = SUPER_ADMIN_CODE
          then op_lift (assertCorePermissions (map pn_code next_permissions)) else op_return ()))"

definition replace_permissions :: "runtime \<Rightarrow> string \<Rightarrow> string list \<Rightarrow> unit handler" where
  "replace_permissions rt i ids =
     op_bind (role_permissions_deleteMany i) (\<lambda>_.
     op_bind (role_permissions_createMany i ids) (\<lambda>_.
     op_bind (revokeRoleSessions rt i) (\<lambda>_.
     op_return ())))"

text \<open>\<open>if (permissionChanged) \<dots>\<close>: the permissions are replaced when they are not the ones the role has.\<close>

definition apply_permissions :: "runtime \<Rightarrow> string \<Rightarrow> role_view \<Rightarrow> string list option \<Rightarrow> unit handler" where
  "apply_permissions rt i before permissionIds =
     (case permissionIds of
        None \<Rightarrow> op_return ()
      | Some ids \<Rightarrow>
          (if sameSet (map (\<lambda>p. pn_id (pw_permission p)) (rw_permissions before)) ids then op_return ()
           else replace_permissions rt i ids))"

definition write_role ::
  "runtime \<Rightarrow> string \<Rightarrow> string option \<Rightarrow> string option option \<Rightarrow> common_status option \<Rightarrow> role_view \<Rightarrow> actor \<Rightarrow> role_view handler" where
  "write_role rt i name description status before actor =
     op_bind (role_set (js_lower i) (\<lambda>r. r\<lparr>rl_name := or_keep name (rl_name r), rl_description := or_keep description (rl_description r),
       rl_status := or_keep status (rl_status r), rl_updatedAt := rt_now rt\<rparr>)) (\<lambda>changed.
     op_bind (op_get (\<lambda>db. role_dto db changed)) (\<lambda>updated.
     op_bind (op_assert (changed_role_fields before updated \<noteq> [])
       (AppError CONFLICT ''Role already has the requested values.'')) (\<lambda>_.
     op_bind (audit_success (role_audit actor ''role.update'' i (changed_role_fields before updated))) (\<lambda>_.
     op_return updated))))"

definition free_name :: "access_env \<Rightarrow> string \<Rightarrow> role_row \<Rightarrow> string option \<Rightarrow> unit handler" where
  "free_name env i role name =
     (case name of
        None \<Rightarrow> op_return ()
      | Some n \<Rightarrow>
          (if n = rl_name role then op_return ()
           else op_bind (op_lift (assertNotReservedName env n)) (\<lambda>_. assertUniqueName n (Some (js_lower i)))))"

definition update_role_row ::
  "access_env \<Rightarrow> runtime \<Rightarrow> string \<Rightarrow> string option \<Rightarrow> string option option \<Rightarrow> common_status option
     \<Rightarrow> string list option \<Rightarrow> actor \<Rightarrow> role_view handler" where
  "update_role_row env rt i name description status permissionIds actor =
     op_bind (require_role i) (\<lambda>role.
     op_bind (op_get (\<lambda>db. role_dto db role)) (\<lambda>before.
     op_bind (free_name env i role name) (\<lambda>_.
     op_bind (op_assert (\<not> (rl_code role = SUPER_ADMIN_CODE \<and> status = Some CS_disabled))
       (AppError CONFLICT ''super_admin cannot be disabled.'')) (\<lambda>_.
     op_bind (op_assert (\<not> (status = Some CS_disabled \<and> rl_status role \<noteq> CS_disabled \<and> rw_adminCount before > 0))
       (AppError CONFLICT ''Role is still assigned to administrators.'')) (\<lambda>_.
     op_bind (checked_permissions role permissionIds) (\<lambda>_.
     op_bind (apply_permissions rt i before permissionIds) (\<lambda>_.
     write_role rt i name description status before actor)))))))"

definition updateRole :: "access_env \<Rightarrow> runtime \<Rightarrow> string \<Rightarrow> json_record \<Rightarrow> actor \<Rightarrow> role_view handler" where
  "updateRole env rt idInput input actor =
     op_bind (op_lift (parse_uuid is_uuid_shape (JString idInput) ''id'')) (\<lambda>i.
     op_bind (op_lift (rejectUnknownKeys input [''name'', ''description'', ''status'', ''permissionIds''] ''body'')) (\<lambda>_.
     op_bind (op_assert (input \<noteq> []) (AppError VALIDATION_ERROR ''At least one editable field is required.'')) (\<lambda>_.
     op_bind (op_lift (if_defined (js_get input ''name'') (roleName env))) (\<lambda>name.
     op_bind (op_lift (if_defined (js_get input ''description'') descriptionValue)) (\<lambda>description.
     op_bind (op_lift (if_defined (js_get input ''status'') (\<lambda>v. parse_active_status v ''status''))) (\<lambda>status.
     op_bind (op_lift (if_defined (js_get input ''permissionIds'') permissionIdsValue)) (\<lambda>permissionIds.
     serializable env ROLE_CONFLICT (update_role_row env rt i name description status permissionIds actor))))))))"

definition set_role_enabled_row :: "runtime \<Rightarrow> string \<Rightarrow> bool \<Rightarrow> actor \<Rightarrow> role_view handler" where
  "set_role_enabled_row rt i enabled actor =
     (let next_status = (if enabled then CS_active else CS_disabled)
      in op_bind (require_role i) (\<lambda>before.
         op_bind (op_assert (enabled \<or> rl_code before \<noteq> SUPER_ADMIN_CODE)
           (AppError CONFLICT ''super_admin cannot be disabled.'')) (\<lambda>_.
         op_bind (op_get (user_count (rl_id before))) (\<lambda>users.
         op_bind (op_assert (enabled \<or> \<not> users > 0)
           (AppError CONFLICT ''Role is still assigned to administrators.'')) (\<lambda>_.
         op_bind (op_assert (rl_status before \<noteq> next_status)
           (AppError CONFLICT (''Role is already '' @ common_status_name next_status @ ''.''))) (\<lambda>_.
         op_bind (role_set (js_lower i) (\<lambda>r. r\<lparr>rl_status := next_status, rl_updatedAt := rt_now rt\<rparr>)) (\<lambda>changed.
         op_bind (if \<not> enabled then revokeRoleSessions rt i else op_return 0) (\<lambda>_.
         op_bind (op_get (\<lambda>db. role_dto db changed)) (\<lambda>updated.
         op_bind (audit_success (role_audit actor (if enabled then ''role.enable'' else ''role.disable'') i [''status''])) (\<lambda>_.
         op_return updated))))))))))"

definition setRoleEnabled :: "access_env \<Rightarrow> runtime \<Rightarrow> string \<Rightarrow> bool \<Rightarrow> actor \<Rightarrow> role_view handler" where
  "setRoleEnabled env rt idInput enabled actor =
     op_bind (op_lift (parse_uuid is_uuid_shape (JString idInput) ''id'')) (\<lambda>i.
     serializable env ROLE_CONFLICT (set_role_enabled_row rt i enabled actor))"

end
