(* ===== verification/Auth_Service.thy ===== *)
theory Auth_Service
  imports Access_Roles
begin

text \<open>
  \<open>auth.service.ts\<close>, \<open>auth.controller.ts\<close>, the two guards, the two rate limiters, \<open>auth-config.service.ts\<close> and
  \<open>admin-provisioning.ts\<close>: signing in with a password, sessions, and what a request may do.

  The limiters live in the memory of the server, beside the database. The address and agent of a request are not part of
  the actor here, since the audit rows do not keep them. The write of \<open>lastUsedAt\<close>, which the guard does not wait for,
  happens at once.
\<close>

section \<open>Configuration\<close>

definition DEFAULT_SESSION_TTL_HOURS :: nat where
  "DEFAULT_SESSION_TTL_HOURS = 12"

definition DEFAULT_SESSION_TTL_SECONDS :: nat where
  "DEFAULT_SESSION_TTL_SECONDS = DEFAULT_SESSION_TTL_HOURS * 60 * 60"

definition parse_ttl :: "nat \<Rightarrow> nat \<Rightarrow> nat \<Rightarrow> string \<Rightarrow> string option \<Rightarrow> nat outcome" where
  "parse_ttl fallback low high message v =
     (case v of
        None \<Rightarrow> Inr fallback
      | Some s \<Rightarrow>
          (if s = [] then Inr fallback
           else if \<not> list_all is_digit s then Inl (JsError message)
           else if digits_to_nat s < low \<or> digits_to_nat s > high then Inl (JsError message)
           else Inr (digits_to_nat s)))"

definition parseSessionTtlSeconds :: "string option \<Rightarrow> nat outcome" where
  "parseSessionTtlSeconds v =
     parse_ttl DEFAULT_SESSION_TTL_SECONDS 60 604800 ''ADMIN_SESSION_TTL_SECONDS must be an integer between 60 and 604800.'' v"

definition parseSessionTtlHours :: "string option \<Rightarrow> nat outcome" where
  "parseSessionTtlHours v =
     parse_ttl DEFAULT_SESSION_TTL_HOURS 1 168 ''AUTH_SESSION_TTL_HOURS must be an integer between 1 and 168.'' v"

text \<open>
  The lifetime of a session in milliseconds. The program goes through hours as a double, which may lose the
  last millisecond; the product is exact here.
\<close>

definition session_ttl_ms :: "string option \<Rightarrow> string option \<Rightarrow> int outcome" where
  "session_ttl_ms seconds hours =
     (if seconds = None then bind_res (parseSessionTtlHours hours) (\<lambda>h. Inr (int h * 60 * 60 * 1000))
      else bind_res (parseSessionTtlSeconds seconds) (\<lambda>s. Inr (int s * 1000)))"

section \<open>Rate limits\<close>

type_synonym attempt_log = "(string \<times> int list) list"

definition log_at :: "attempt_log \<Rightarrow> string \<Rightarrow> int list" where
  "log_at attempts key = (case map_of attempts key of None \<Rightarrow> [] | Some ts \<Rightarrow> ts)"

definition LOGIN_WINDOW_MS :: int where
  "LOGIN_WINDOW_MS = 60000"

definition MAX_LOGIN_ATTEMPTS :: nat where
  "MAX_LOGIN_ATTEMPTS = 5"

definition login_check :: "int \<Rightarrow> string \<Rightarrow> (attempt_log, app_exception, unit) operation" where
  "login_check now ip attempts =
     (let recent = filter (\<lambda>t. t > now - LOGIN_WINDOW_MS) (log_at attempts ip)
      in if length recent \<ge> MAX_LOGIN_ATTEMPTS
         then (Inl (HttpException 429 ''Too many login attempts.''), map_set attempts ip recent)
         else (Inr (), map_set attempts ip (recent @ [now])))"

definition PASSWORD_WINDOW_MS :: int where
  "PASSWORD_WINDOW_MS = 10 * 60000"

definition MAX_FAILURES :: nat where
  "MAX_FAILURES = 5"

definition failure_key :: "string \<Rightarrow> string \<Rightarrow> string" where
  "failure_key adminUserId ip = adminUserId @ '':'' @ ip"

definition forget_key :: "string \<Rightarrow> attempt_log \<Rightarrow> attempt_log" where
  "forget_key key attempts = filter (\<lambda>x. fst x \<noteq> key) attempts"

definition recent_failures :: "int \<Rightarrow> string \<Rightarrow> (attempt_log, app_exception, int list) operation" where
  "recent_failures now key attempts =
     (let recent = filter (\<lambda>t. t > now - PASSWORD_WINDOW_MS) (log_at attempts key)
      in (Inr recent, if recent \<noteq> [] then map_set attempts key recent else forget_key key attempts))"

definition password_check :: "int \<Rightarrow> string \<Rightarrow> string \<Rightarrow> (attempt_log, app_exception, unit) operation" where
  "password_check now adminUserId ip =
     op_bind (recent_failures now (failure_key adminUserId ip)) (\<lambda>recent.
     op_assert (\<not> length recent \<ge> MAX_FAILURES)
       (HttpException 429 ''Too many password verification attempts. Try again later.''))"

definition recordFailure :: "int \<Rightarrow> string \<Rightarrow> string \<Rightarrow> (attempt_log, app_exception, unit) operation" where
  "recordFailure now adminUserId ip =
     op_bind (recent_failures now (failure_key adminUserId ip)) (\<lambda>recent.
     op_modify (\<lambda>attempts. map_set attempts (failure_key adminUserId ip) (recent @ [now])))"

definition reset_failures :: "string \<Rightarrow> string \<Rightarrow> (attempt_log, app_exception, unit) operation" where
  "reset_failures adminUserId ip = op_modify (forget_key (failure_key adminUserId ip))"

section \<open>Signing in\<close>

record client_context =
  cx_ipAddress :: "string option"
  cx_userAgent :: "string option"

record login_answer =
  lo_token :: string
  lo_expiresAt :: int
  lo_actor :: actor

definition USER_AGENT_LIMIT :: nat where
  "USER_AGENT_LIMIT = 512"

definition SESSION_LIMIT :: nat where
  "SESSION_LIMIT = 100"

definition hashSessionToken :: "runtime \<Rightarrow> string \<Rightarrow> string" where
  "hashSessionToken rt token = rt_sha256_hex rt token"

definition DUMMY_PASSWORD_HASH :: "access_env \<Rightarrow> string" where
  "DUMMY_PASSWORD_HASH env =
     js_join ''$'' [PASSWORD_VERSION, PASSWORD_PARAMETERS, xe_encode env (replicate 16 CHR 0x00),
       xe_encode env (replicate 64 CHR 0x00)]"

definition active_roles_of :: "string \<Rightarrow> database \<Rightarrow> role_row list" where
  "active_roles_of userId db = filter (\<lambda>r. rl_status r = CS_active) (roles_of userId db)"

text \<open>\<open>Array.from(new Set(codes)).sort()\<close>; the first active role names the actor.\<close>

definition granted_permissions :: "role_row list \<Rightarrow> database \<Rightarrow> string list" where
  "granted_permissions roles db = sort (js_dedup (concat (map (\<lambda>r. map pn_code (permissions_of (rl_id r) db)) roles)))"

definition toActor :: "database \<Rightarrow> admin_user \<Rightarrow> role_row list \<Rightarrow> actor" where
  "toActor db user activeRoles =
     \<lparr>ac_userId = um_id user, ac_roleCode = rl_code (hd activeRoles), ac_permissions = granted_permissions activeRoles db\<rparr>"

definition text_field :: "json_record \<Rightarrow> string \<Rightarrow> string" where
  "text_field input k = (case js_get input k of JString s \<Rightarrow> s | _ \<Rightarrow> [])"

definition login_failure :: "admin_user option \<Rightarrow> role_row list \<Rightarrow> audit_input" where
  "login_failure user roles =
     \<lparr>ai_actorUserId = map_option um_id user, ai_actorRole = (case roles of [] \<Rightarrow> None | r # _ \<Rightarrow> Some (rl_code r)),
      ai_action = ''auth.login'', ai_objectType = ''admin_session'', ai_objectId = None, ai_settlementMonth = None,
      ai_changedFields = [], ai_failureReason = Some ''invalid_credentials'', ai_errorMessage = None\<rparr>"

definition session_insert :: "admin_session \<Rightarrow> admin_session handler" where
  "session_insert = table_insert admin_session_rows put_sessions
     (\<lambda>a b. sx_id a = sx_id b \<or> sx_tokenHash a = sx_tokenHash b)"

definition new_session :: "runtime \<Rightarrow> string \<Rightarrow> string \<Rightarrow> int \<Rightarrow> client_context \<Rightarrow> admin_session" where
  "new_session rt userId tokenHash expiresAt context =
     \<lparr>sx_id = rt_fresh_id rt 0, sx_adminUserId = userId, sx_tokenHash = tokenHash, sx_expiresAt = expiresAt,
      sx_revokedAt = None, sx_lastUsedAt = None, sx_ipAddress = map_option (take 64) (cx_ipAddress context),
      sx_userAgent = map_option (take USER_AGENT_LIMIT) (cx_userAgent context), sx_createdAt = rt_now rt\<rparr>"

definition open_session :: "runtime \<Rightarrow> admin_user \<Rightarrow> actor \<Rightarrow> string \<Rightarrow> int \<Rightarrow> client_context \<Rightarrow> unit handler" where
  "open_session rt user actor tokenHash expiresAt context =
     op_bind (session_insert (new_session rt (um_id user) tokenHash expiresAt context)) (\<lambda>session.
     op_bind (admin_set (um_id user) (\<lambda>u. u\<lparr>um_lastLoginAt := Some (rt_now rt), um_updatedAt := rt_now rt\<rparr>)) (\<lambda>_.
     audit_success (auditInput actor ''auth.login'' ''admin_session'' (Some (sx_id session)) None [])))"

text \<open>The password is checked against some hash in every case, so that an unknown name takes as long as a known one.\<close>

definition login :: "access_env \<Rightarrow> runtime \<Rightarrow> int \<Rightarrow> json_record \<Rightarrow> client_context \<Rightarrow> login_answer handler" where
  "login env rt ttl input context =
     (let username = js_trim (text_field input ''username'');
          password = text_field input ''password''
      in op_bind (op_get (\<lambda>db.
           if username \<noteq> [] \<and> length username \<le> 64 \<and> length password \<le> 256
           then find_row (\<lambda>u. um_username u = username) (admin_user_rows db) else None)) (\<lambda>found.
         let verified = verifyPassword env password
               (case found of None \<Rightarrow> DUMMY_PASSWORD_HASH env | Some u \<Rightarrow> um_passwordHash u)
         in op_bind (op_get (\<lambda>db. case found of None \<Rightarrow> [] | Some u \<Rightarrow> active_roles_of (um_id u) db)) (\<lambda>activeRoles.
            case found of
              Some user \<Rightarrow>
                (if \<not> verified \<or> um_status user \<noteq> CS_active \<or> activeRoles = []
                 then op_bind (audit_failure (login_failure found activeRoles)) (\<lambda>_.
                      op_throw (AppError UNAUTHORIZED ''Invalid username or password.''))
                 else op_bind (op_get (\<lambda>db. toActor db user activeRoles)) (\<lambda>actor.
                      let token = xe_token env; expiresAt = rt_now rt + ttl
                      in op_bind (op_transaction (open_session rt user actor (hashSessionToken rt token) expiresAt context)) (\<lambda>_.
                         op_return \<lparr>lo_token = token, lo_expiresAt = expiresAt, lo_actor = actor\<rparr>)))
            | None \<Rightarrow>
                op_bind (audit_failure (login_failure found activeRoles)) (\<lambda>_.
                op_throw (AppError UNAUTHORIZED ''Invalid username or password.'')))))"

definition logout :: "runtime \<Rightarrow> string \<Rightarrow> actor \<Rightarrow> unit handler" where
  "logout rt sessionId actor =
     op_transaction
       (op_bind (revoke_where (rt_now rt) (\<lambda>s. sx_id s = sessionId)) (\<lambda>_.
        audit_success (auditInput actor ''auth.logout'' ''admin_session'' (Some sessionId) None [])))"

record security_view =
  se_username :: string
  se_email :: "string option"
  se_status :: common_status
  se_lastLoginAt :: "int option"
  se_roles :: "safe_role list"

definition getSecurity :: "string \<Rightarrow> security_view handler" where
  "getSecurity adminUserId =
     op_bind (op_get (\<lambda>db. map_option (\<lambda>u. \<lparr>se_username = um_username u, se_email = um_email u, se_status = um_status u,
        se_lastLoginAt = um_lastLoginAt u, se_roles = map safeRole (roles_of (um_id u) db)\<rparr>) (find_admin adminUserId db))) (\<lambda>found.
     case found of
       None \<Rightarrow> op_throw (AppError UNAUTHORIZED ''Invalid authorization token.'')
     | Some view \<Rightarrow> op_return view)"

section \<open>Passwords and sessions of the actor\<close>

definition CURRENT_PASSWORD_ERROR :: string where
  "CURRENT_PASSWORD_ERROR = ''Current password is incorrect.''"

definition requirePasswordString :: "jsval \<Rightarrow> string \<Rightarrow> string outcome" where
  "requirePasswordString v field =
     (case v of
        JString s \<Rightarrow>
          (if length s > 256
           then Inl (AppError VALIDATION_ERROR (field @ '' must be a string no longer than 256 characters.''))
           else Inr s)
      | _ \<Rightarrow> Inl (AppError VALIDATION_ERROR (field @ '' must be a string no longer than 256 characters.'')))"

text \<open>The sessions of the actor that are neither revoked nor over.\<close>

definition revoke_live_sessions :: "runtime \<Rightarrow> string \<Rightarrow> nat handler" where
  "revoke_live_sessions rt userId =
     revoke_where (rt_now rt) (\<lambda>s. sx_adminUserId s = js_lower userId \<and> sx_expiresAt s > rt_now rt)"

definition store_password :: "runtime \<Rightarrow> string \<Rightarrow> string \<Rightarrow> actor \<Rightarrow> unit handler" where
  "store_password rt oldHash passwordHash actor =
     op_bind (op_get (\<lambda>db. length (filter (\<lambda>u. um_id u = js_lower (ac_userId actor) \<and> um_passwordHash u = oldHash)
        (admin_user_rows db)))) (\<lambda>count.
     op_bind (op_modify (\<lambda>db. put_admins
        (update_rows (\<lambda>u. um_id u = js_lower (ac_userId actor) \<and> um_passwordHash u = oldHash)
           (\<lambda>u. u\<lparr>um_passwordHash := passwordHash, um_updatedAt := rt_now rt\<rparr>) (admin_user_rows db)) db)) (\<lambda>_.
     op_bind (op_assert (count = 1) (AppError CONFLICT ''Password changed concurrently. Retry the request.'')) (\<lambda>_.
     op_bind (revoke_live_sessions rt (ac_userId actor)) (\<lambda>_.
     audit_success (auditInput actor ''auth.change_password'' ''admin_user'' (Some (ac_userId actor)) None [''password''])))))"

definition changePassword :: "access_env \<Rightarrow> runtime \<Rightarrow> json_record \<Rightarrow> actor \<Rightarrow> unit handler" where
  "changePassword env rt input actor =
     op_bind (op_lift (rejectUnknownKeys input [''currentPassword'', ''newPassword'', ''confirmPassword''] ''body'')) (\<lambda>_.
     op_bind (op_lift (requirePasswordString (js_get input ''currentPassword'') ''currentPassword'')) (\<lambda>currentPassword.
     op_bind (op_lift (requirePasswordString (js_get input ''newPassword'') ''newPassword'')) (\<lambda>newPassword.
     op_bind (op_assert (js_get input ''confirmPassword'' = JString newPassword)
       (AppError VALIDATION_ERROR ''Password confirmation does not match.'')) (\<lambda>_.
     op_bind (op_lift (case validatePassword newPassword of
         Inl e \<Rightarrow> Inl (AppError VALIDATION_ERROR (exception_message e)) | Inr u \<Rightarrow> Inr u)) (\<lambda>_.
     op_bind (op_get (\<lambda>db. map_option um_passwordHash (find_admin (ac_userId actor) db))) (\<lambda>found.
     case found of
       None \<Rightarrow> op_throw (AppError UNAUTHORIZED CURRENT_PASSWORD_ERROR)
     | Some oldHash \<Rightarrow>
         op_bind (op_assert (verifyPassword env currentPassword oldHash) (AppError UNAUTHORIZED CURRENT_PASSWORD_ERROR)) (\<lambda>_.
         op_bind (op_assert (\<not> verifyPassword env newPassword oldHash)
           (AppError VALIDATION_ERROR ''New password must be different from the current password.'')) (\<lambda>_.
         op_bind (op_lift (hashPassword env newPassword)) (\<lambda>passwordHash.
         op_transaction (store_password rt oldHash passwordHash actor))))))))))"

definition isCurrentPasswordError :: "app_exception \<Rightarrow> bool" where
  "isCurrentPasswordError e \<longleftrightarrow> (case e of AppError code message \<Rightarrow> message = CURRENT_PASSWORD_ERROR | _ \<Rightarrow> False)"

definition maskIpAddress :: "string option \<Rightarrow> string option" where
  "maskIpAddress v =
     (case v of
        None \<Rightarrow> None
      | Some s \<Rightarrow>
          (if s = [] then None
           else let parts = js_split CHR ''.'' s
                in if length parts = 4 \<and> list_all (\<lambda>p. p \<noteq> [] \<and> length p \<le> 3 \<and> list_all is_digit p) parts
                   then Some (parts ! 0 @ ''.'' @ parts ! 1 @ ''.*.*'')
                   else if CHR '':'' \<in> set s then Some (js_join '':'' (take 3 (js_split CHR '':'' s)) @ '':*'')
                   else Some (take 64 s)))"

record session_view =
  sv_id :: string
  sv_createdAt :: int
  sv_expiresAt :: int
  sv_lastUsedAt :: "int option"
  sv_ipAddress :: "string option"
  sv_userAgent :: "string option"
  sv_isCurrent :: bool

definition session_dto :: "string \<Rightarrow> admin_session \<Rightarrow> session_view" where
  "session_dto currentSessionId s =
     \<lparr>sv_id = sx_id s, sv_createdAt = sx_createdAt s, sv_expiresAt = sx_expiresAt s, sv_lastUsedAt = sx_lastUsedAt s,
      sv_ipAddress = maskIpAddress (sx_ipAddress s), sv_userAgent = map_option (take USER_AGENT_LIMIT) (sx_userAgent s),
      sv_isCurrent = (sx_id s = currentSessionId)\<rparr>"

text \<open>The latest use first, sessions never used last; the latest creation first among equals.\<close>

definition listSessions :: "runtime \<Rightarrow> string \<Rightarrow> string \<Rightarrow> session_view list handler" where
  "listSessions rt adminUserId currentSessionId =
     op_get (\<lambda>db.
       let live = filter (\<lambda>s. sx_adminUserId s = js_lower adminUserId \<and> sx_revokedAt s = None \<and> sx_expiresAt s > rt_now rt)
                    (admin_session_rows db);
           newest = sort_key (\<lambda>s. - sx_createdAt s) live;
           used = sort_key (\<lambda>s. - or_keep (sx_lastUsedAt s) 0) (filter (\<lambda>s. sx_lastUsedAt s \<noteq> None) newest)
       in map (session_dto currentSessionId) (take SESSION_LIMIT (used @ filter (\<lambda>s. sx_lastUsedAt s = None) newest)))"

definition foreign_session :: "runtime \<Rightarrow> actor \<Rightarrow> admin_session \<Rightarrow> bool" where
  "foreign_session rt actor s \<longleftrightarrow>
     sx_adminUserId s \<noteq> ac_userId actor \<and> sx_revokedAt s = None \<and> sx_expiresAt s > rt_now rt"

definition revoke_denied :: "actor \<Rightarrow> string \<Rightarrow> audit_input" where
  "revoke_denied actor i =
     (auditInput actor ''auth.session_revoke_denied'' ''admin_session'' (Some i) None [])
       \<lparr>ai_failureReason := Some (error_code_name PERMISSION_DENIED),
        ai_errorMessage := Some ''Cannot revoke another administrator session.''\<rparr>"

text \<open>Answers whether the current session was revoked.\<close>

definition revokeSession :: "runtime \<Rightarrow> string \<Rightarrow> string \<Rightarrow> actor \<Rightarrow> bool handler" where
  "revokeSession rt i currentSessionId actor =
     (if \<not> is_uuid i then op_return False
      else op_bind (op_get (\<lambda>db. find_row (\<lambda>s. sx_id s = js_lower i) (admin_session_rows db))) (\<lambda>session.
           if (case session of None \<Rightarrow> False | Some s \<Rightarrow> foreign_session rt actor s)
           then op_bind (audit_failure (revoke_denied actor i)) (\<lambda>_.
                op_throw (AppError PERMISSION_DENIED ''Permission denied.''))
           else op_transaction
             (op_bind (revoke_where (rt_now rt) (\<lambda>s. sx_id s = js_lower i \<and> sx_adminUserId s = js_lower (ac_userId actor)
                 \<and> sx_expiresAt s > rt_now rt)) (\<lambda>count.
              op_bind (if count > 0
                       then audit_success (auditInput actor ''auth.session_revoke'' ''admin_session'' (Some i) None [])
                       else op_return ()) (\<lambda>_.
              op_return (count > 0 \<and> i = currentSessionId))))))"

definition logoutAll :: "runtime \<Rightarrow> actor \<Rightarrow> unit handler" where
  "logoutAll rt actor =
     op_transaction
       (op_bind (revoke_live_sessions rt (ac_userId actor)) (\<lambda>_.
        audit_success (auditInput actor ''auth.logout_all'' ''admin_user'' (Some (ac_userId actor)) None [])))"

section \<open>The guards of a request\<close>

text \<open>\<open>/^Bearer\s+(.+)$/i\<close>, trimmed.\<close>

definition extractBearerToken :: "string option \<Rightarrow> string option" where
  "extractBearerToken header =
     (case header of
        None \<Rightarrow> None
      | Some h \<Rightarrow>
          (if js_lower (take 6 h) = ''bearer'' \<and> length h > 6 \<and> is_js_space (h ! 6) \<and> js_trim (drop 7 h) \<noteq> []
           then Some (js_trim (drop 7 h)) else None))"

definition INVALID_TOKEN :: app_exception where
  "INVALID_TOKEN = AppError UNAUTHORIZED ''Invalid authorization token.''"

definition live_session :: "runtime \<Rightarrow> string \<Rightarrow> database \<Rightarrow> admin_session option" where
  "live_session rt token db =
     find_row (\<lambda>s. sx_tokenHash s = hashSessionToken rt token \<and> sx_revokedAt s = None \<and> sx_expiresAt s > rt_now rt)
       (admin_session_rows db)"

definition LAST_USED_PERIOD :: int where
  "LAST_USED_PERIOD = 5 * 60 * 1000"

definition unused_since :: "int \<Rightarrow> admin_session \<Rightarrow> bool" where
  "unused_since cutoff s \<longleftrightarrow> (case sx_lastUsedAt s of None \<Rightarrow> True | Some t \<Rightarrow> t < cutoff)"

definition touch_session :: "runtime \<Rightarrow> admin_session \<Rightarrow> unit handler" where
  "touch_session rt session =
     (let cutoff = rt_now rt - LAST_USED_PERIOD
      in if unused_since cutoff session
         then op_modify (\<lambda>db. put_sessions
                (update_rows (\<lambda>s. sx_id s = sx_id session \<and> sx_revokedAt s = None \<and> unused_since cutoff s)
                   (\<lambda>s. s\<lparr>sx_lastUsedAt := Some (rt_now rt)\<rparr>) (admin_session_rows db)) db)
         else op_return ())"

text \<open>Who makes the request, and with which session; \<open>None\<close> on a public route.\<close>

definition authenticate :: "runtime \<Rightarrow> bool \<Rightarrow> string option \<Rightarrow> (actor \<times> string) option handler" where
  "authenticate rt public authorization =
     (if public then op_return None
      else case extractBearerToken authorization of
             None \<Rightarrow> op_throw (AppError UNAUTHORIZED ''Authorization bearer token is required.'')
           | Some token \<Rightarrow>
               op_bind (op_get (live_session rt token)) (\<lambda>found.
               case found of
                 None \<Rightarrow> op_throw INVALID_TOKEN
               | Some session \<Rightarrow>
                   op_bind (op_get (find_admin (sx_adminUserId session))) (\<lambda>owner.
                   case owner of
                     None \<Rightarrow> op_throw INVALID_TOKEN
                   | Some user \<Rightarrow>
                       op_bind (op_assert (um_status user = CS_active) INVALID_TOKEN) (\<lambda>_.
                       op_bind (op_get (active_roles_of (um_id user))) (\<lambda>activeRoles.
                       op_bind (op_assert (activeRoles \<noteq> []) INVALID_TOKEN) (\<lambda>_.
                       op_bind (op_get (\<lambda>db. toActor db user activeRoles)) (\<lambda>actor.
                       op_bind (touch_session rt session) (\<lambda>_.
                       op_return (Some (actor, sx_id session))))))))))"

definition missing_permissions :: "string list \<Rightarrow> string list \<Rightarrow> string list" where
  "missing_permissions granted required = filter (\<lambda>p. p \<notin> set granted) required"

definition denied_audit :: "actor option \<Rightarrow> string list \<Rightarrow> audit_input" where
  "denied_audit actor missing =
     \<lparr>ai_actorUserId = map_option ac_userId actor, ai_actorRole = map_option ac_roleCode actor,
      ai_action = ''permission.denied'', ai_objectType = ''route'', ai_objectId = None, ai_settlementMonth = None,
      ai_changedFields = [], ai_failureReason = Some (error_code_name PERMISSION_DENIED),
      ai_errorMessage = Some (''Missing permissions: '' @ js_join '', '' missing)\<rparr>"

definition check_permissions :: "string list \<Rightarrow> string list \<Rightarrow> actor option \<Rightarrow> unit handler" where
  "check_permissions required requiredAny actor =
     (if required = [] \<and> requiredAny = [] then op_return ()
      else let granted = (case actor of None \<Rightarrow> [] | Some a \<Rightarrow> ac_permissions a);
               missing = missing_permissions granted required;
               hasAny = (requiredAny = [] \<or> list_ex (\<lambda>p. p \<in> set granted) requiredAny)
           in if missing = [] \<and> hasAny then op_return ()
              else op_bind (audit_failure (denied_audit actor (missing @ (if hasAny then [] else requiredAny)))) (\<lambda>_.
                   op_throw (AppError PERMISSION_DENIED ''Permission denied.'')))"

section \<open>The endpoints\<close>

record server =
  sr_db :: database
  sr_logins :: attempt_log
  sr_failures :: attempt_log

definition on_db :: "'a handler \<Rightarrow> (server, app_exception, 'a) operation" where
  "on_db h s = (case h (sr_db s) of (r, db) \<Rightarrow> (r, s\<lparr>sr_db := db\<rparr>))"

definition on_logins :: "(attempt_log, app_exception, 'a) operation \<Rightarrow> (server, app_exception, 'a) operation" where
  "on_logins h s = (case h (sr_logins s) of (r, l) \<Rightarrow> (r, s\<lparr>sr_logins := l\<rparr>))"

definition on_failures :: "(attempt_log, app_exception, 'a) operation \<Rightarrow> (server, app_exception, 'a) operation" where
  "on_failures h s = (case h (sr_failures s) of (r, l) \<Rightarrow> (r, s\<lparr>sr_failures := l\<rparr>))"

definition request_ip :: "string option \<Rightarrow> string" where
  "request_ip ip = (case ip of None \<Rightarrow> ''unknown'' | Some s \<Rightarrow> (if s = [] then ''unknown'' else s))"

definition post_login ::
  "access_env \<Rightarrow> runtime \<Rightarrow> int \<Rightarrow> json_record \<Rightarrow> string option \<Rightarrow> string option \<Rightarrow> (server, app_exception, login_answer) operation" where
  "post_login env rt ttl input ip userAgent =
     op_bind (on_logins (login_check (rt_now rt) (request_ip ip))) (\<lambda>_.
     on_db (login env rt ttl input \<lparr>cx_ipAddress = Some (request_ip ip), cx_userAgent = userAgent\<rparr>))"

definition post_change_password ::
  "access_env \<Rightarrow> runtime \<Rightarrow> json_record \<Rightarrow> actor \<Rightarrow> string option \<Rightarrow> (server, app_exception, unit) operation" where
  "post_change_password env rt input actor ip =
     op_bind (on_failures (password_check (rt_now rt) (ac_userId actor) (request_ip ip))) (\<lambda>_.
     op_catch
       (op_bind (on_db (changePassword env rt input actor)) (\<lambda>result.
        op_bind (on_failures (reset_failures (ac_userId actor) (request_ip ip))) (\<lambda>_.
        op_return result)))
       (\<lambda>e. op_bind (if isCurrentPasswordError e
                    then on_failures (recordFailure (rt_now rt) (ac_userId actor) (request_ip ip)) else op_return ()) (\<lambda>_.
            op_throw e)))"

section \<open>Provisioning from the command line\<close>

record provision_input =
  pj_username :: string
  pj_email :: string
  pj_password :: string
  pj_roleCode :: string
  pj_updateMode :: bool

definition validateAdminProvisionInput :: "provision_input \<Rightarrow> unit outcome" where
  "validateAdminProvisionInput input =
     (if pj_username input = [] \<or> length (pj_username input) > 64
      then Inl (JsError ''ADMIN_USERNAME is required and must not exceed 64 characters.'')
      else if pj_email input = [] \<or> \<not> isValidEmail (pj_email input)
      then Inl (JsError ''ADMIN_EMAIL must be a valid email address.'')
      else if pj_roleCode input = [] then Inl (JsError ''ADMIN_ROLE must not be empty.'') else Inr ())"

definition quoted :: "string \<Rightarrow> string" where
  "quoted s = CHR 0x27 # s @ [CHR 0x27]"

definition keep_only_role :: "string \<Rightarrow> string \<Rightarrow> unit handler" where
  "keep_only_role userId roleId =
     op_modify (\<lambda>db.
       let kept = filter (\<lambda>x. \<not> (fst x = userId \<and> snd x \<noteq> roleId)) (user_role_rows db)
       in put_user_roles (if (userId, roleId) \<in> set kept then kept else kept @ [(userId, roleId)]) db)"

definition provision_row :: "runtime \<Rightarrow> provision_input \<Rightarrow> string \<Rightarrow> (string \<times> string \<times> bool) handler" where
  "provision_row rt input passwordHash =
     op_bind (op_get (\<lambda>db. find_row (\<lambda>r. rl_code r = pj_roleCode input) (role_rows db))) (\<lambda>found.
     case found of
       None \<Rightarrow> op_throw (JsError (''Active role '' @ quoted (pj_roleCode input) @ '' does not exist. Run pnpm prisma:seed first.''))
     | Some role \<Rightarrow>
         op_bind (op_assert (rl_status role = CS_active)
           (JsError (''Active role '' @ quoted (pj_roleCode input) @ '' does not exist. Run pnpm prisma:seed first.''))) (\<lambda>_.
         op_bind (op_get (\<lambda>db. find_row (\<lambda>u. um_username u = pj_username input) (admin_user_rows db))) (\<lambda>byUsername.
         op_bind (op_get (\<lambda>db. find_row (\<lambda>u. um_email u = Some (pj_email input)) (admin_user_rows db))) (\<lambda>byEmail.
         op_bind (op_assert (byEmail = None \<or> map_option um_id byEmail = map_option um_id byUsername)
           (JsError (''ADMIN_EMAIL '' @ quoted (pj_email input) @ '' is already used by another user.''))) (\<lambda>_.
         op_bind (op_assert (byUsername = None \<or> pj_updateMode input)
           (JsError (''ADMIN_USERNAME '' @ quoted (pj_username input) @ '' already exists. Set ADMIN_UPDATE=true for an explicit update.''))) (\<lambda>_.
         case byUsername of
           None \<Rightarrow>
             op_bind (admin_insert (new_admin rt (pj_username input) (pj_email input) passwordHash CS_active)) (\<lambda>user.
             op_bind (user_roles_createMany (um_id user) [rl_id role]) (\<lambda>_.
             op_return (um_id user, um_username user, False)))
         | Some existing \<Rightarrow>
             op_bind (admin_set (um_id existing) (\<lambda>u. u\<lparr>um_email := Some (pj_email input), um_passwordHash := passwordHash,
               um_status := CS_active, um_updatedAt := rt_now rt\<rparr>)) (\<lambda>user.
             op_bind (keep_only_role (um_id user) (rl_id role)) (\<lambda>_.
             op_bind (revoke_where (rt_now rt) (\<lambda>s. sx_adminUserId s = um_id user)) (\<lambda>_.
             op_return (um_id user, um_username user, True))))))))))"

definition provisionAdmin :: "access_env \<Rightarrow> runtime \<Rightarrow> provision_input \<Rightarrow> (string \<times> string \<times> bool) handler" where
  "provisionAdmin env rt input =
     op_bind (op_lift (validateAdminProvisionInput input)) (\<lambda>_.
     op_bind (op_lift (hashPassword env (pj_password input))) (\<lambda>passwordHash.
     op_transaction (provision_row rt input passwordHash)))"

end
