(* ===== verification/Card_Inventory.thy ===== *)
theory Card_Inventory
  imports Provider_Cards
begin

text \<open>
  \<open>provider-card-inventory.service.ts\<close>, second part: the cards of PhotonPay, matching the cards of
  a provider with employees and storing them, the list, whom a spend belongs to, and the marks of
  the transaction syncs. The environment holds the clients, the mode of the process, the text of
  the client library's errors and \<open>Number\<close>.
\<close>

record inventory_env =
  nv_airwallex :: airwallex_client
  nv_photonpay :: photonpay_client
  nv_production :: bool
  nv_prisma_message :: "string \<Rightarrow> string"
  nv_number :: "string \<Rightarrow> rat option"

section \<open>Cards of PhotonPay\<close>

definition PHOTONPAY_PRODUCTION_CARD_DETAIL_BATCH_SIZE :: nat where
  "PHOTONPAY_PRODUCTION_CARD_DETAIL_BATCH_SIZE = 150"

definition first_of :: "'a option \<Rightarrow> 'a option \<Rightarrow> 'a option" where
  "first_of a b = (case a of Some x \<Rightarrow> Some x | None \<Rightarrow> b)"

text \<open>\<open>a && ...\<close> on a text that may be missing.\<close>

definition truthy :: "string option \<Rightarrow> bool" where
  "truthy s \<longleftrightarrow> (case s of None \<Rightarrow> False | Some x \<Rightarrow> x \<noteq> [])"

definition isPhotonPayRateLimit :: "app_exception \<Rightarrow> bool" where
  "isPhotonPayRateLimit e =
     (case e of
        ProviderRequestError p \<Rightarrow>
          pe_httpStatus p = Some 429 \<or> pe_providerCode p = Some ''1008''
          \<or> (let message = js_lower (pe_message p @ '' '' @ or_keep (pe_providerMessage p) [])
             in js_includes message ''too many requests'' \<or> js_includes message ''rate limit'')
      | _ \<Rightarrow> False)"

definition incrementCount :: "(string \<times> nat) list \<Rightarrow> string \<Rightarrow> (string \<times> nat) list" where
  "incrementCount counts value =
     (let key = (if js_trim value = [] then ''UNKNOWN'' else js_trim value)
      in map_set counts key (case map_of counts key of None \<Rightarrow> 1 | Some n \<Rightarrow> n + 1))"

record photonpay_load =
  yl_cards :: "safe_card list"
  yl_invalidCardCount :: nat
  yl_partialError :: "safe_error option"
  yl_cardDetailBatchCount :: nat
  yl_reusedCardDetailCount :: nat
  yl_detailDeferredCount :: nat
  yl_cardStatusCounts :: "(string \<times> nat) list"
  yl_cardOrganizationCounts :: "(string \<times> nat) list"

text \<open>The details of a card that is already known with its holder's email.\<close>

definition known_detail :: "photonpay_card \<Rightarrow> provider_card \<Rightarrow> photonpay_card" where
  "known_detail listed existing =
     listed\<lparr>yd_cardholderId := first_of (pv_cardholderId existing) (yd_cardholderId listed),
       yd_email := pv_cardholderEmailNormalized existing,
       yd_maskCardNo := first_of (pv_maskedCardNumber existing) (yd_maskCardNo listed),
       yd_nickname := first_of (yd_nickname listed) (pv_nickname existing),
       yd_cardStatus := first_of (yd_cardStatus listed) (pv_providerStatus existing),
       yd_createdAt := first_of (yd_createdAt listed) (map_option iso_string (pv_sourceCreatedAt existing)),
       yd_updatedAt := first_of (yd_updatedAt listed) (map_option iso_string (pv_sourceUpdatedAt existing))\<rparr>"

definition lookup_detail :: "inventory_env \<Rightarrow> photonpay_credential \<Rightarrow> string \<Rightarrow> photonpay_card outcome" where
  "lookup_detail env credential cardId =
     (case yk_getCardDetail (nv_photonpay env) credential cardId 0 of
        Inr detail \<Rightarrow> Inr detail
      | Inl e \<Rightarrow>
          if \<not> nv_production env \<or> \<not> isPhotonPayRateLimit e then Inl e
          else yk_getCardDetail (nv_photonpay env) credential cardId 1)"

text \<open>\<open>partialError ??= safeProviderError(error)\<close>, and its message without the secrets.\<close>

definition note_failure :: "inventory_env \<Rightarrow> photonpay_credential \<Rightarrow> app_exception \<Rightarrow> safe_error option \<Rightarrow> safe_error" where
  "note_failure env credential e partial =
     (let s = (case partial of Some s \<Rightarrow> s | None \<Rightarrow> safeProviderError (nv_prisma_message env) e None)
      in s\<lparr>se_message := redactCredentialValues (se_message s) [yc_appId credential, yc_appSecret credential]\<rparr>)"

text \<open>The detail of a card that is not known, the reason it forces, and the counters.\<close>

definition requested_detail ::
  "inventory_env \<Rightarrow> photonpay_credential \<Rightarrow> photonpay_card \<Rightarrow> string \<Rightarrow> photonpay_load
     \<Rightarrow> photonpay_card \<times> string option \<times> photonpay_load" where
  "requested_detail env credential listed cardId st =
     (if nv_production env \<and> PHOTONPAY_PRODUCTION_CARD_DETAIL_BATCH_SIZE \<le> yl_cardDetailBatchCount st
      then (listed\<lparr>yd_email := None\<rparr>, Some ''CARDHOLDER_LOOKUP_DEFERRED'',
            st\<lparr>yl_detailDeferredCount := yl_detailDeferredCount st + 1\<rparr>)
      else
        let st1 = st\<lparr>yl_cardDetailBatchCount := yl_cardDetailBatchCount st + 1\<rparr>
        in case lookup_detail env credential cardId of
             Inr detail \<Rightarrow> (detail, None, st1)
           | Inl e \<Rightarrow> (listed\<lparr>yd_email := None\<rparr>, None,
               st1\<lparr>yl_partialError := Some (note_failure env credential e (yl_partialError st1))\<rparr>))"

definition card_detail ::
  "inventory_env \<Rightarrow> photonpay_credential \<Rightarrow> provider_card list \<Rightarrow> photonpay_card \<Rightarrow> string \<Rightarrow> photonpay_load
     \<Rightarrow> photonpay_card \<times> string option \<times> photonpay_load" where
  "card_detail env credential known listed cardId st =
     (case find_row (\<lambda>c. pv_cardId c = cardId \<and> truthy (pv_cardholderEmailNormalized c)) known of
        Some c \<Rightarrow> (known_detail listed c, None, st\<lparr>yl_reusedCardDetailCount := yl_reusedCardDetailCount st + 1\<rparr>)
      | None \<Rightarrow> requested_detail env credential listed cardId st)"

definition text_date :: "runtime \<Rightarrow> string option \<Rightarrow> js_date" where
  "text_date rt s = Option.bind s (js_parse_date rt)"

definition load_listed ::
  "inventory_env \<Rightarrow> runtime \<Rightarrow> photonpay_credential \<Rightarrow> provider_card list \<Rightarrow> photonpay_card \<Rightarrow> photonpay_load \<Rightarrow> photonpay_load" where
  "load_listed env rt credential known listed st =
     (if \<not> truthy (yd_cardId listed) then st\<lparr>yl_invalidCardCount := yl_invalidCardCount st + 1\<rparr>
      else
        let cardId = or_keep (yd_cardId listed) [];
            (detail, forced, st1) = card_detail env credential known listed cardId st;
            status = first_of (yd_cardStatus detail) (yd_cardStatus listed);
            organization = first_of (yd_cardOrganization detail) (yd_cardOrganization listed);
            safe = \<lparr>sc_cardId = cardId, sc_cardholderId = yd_cardholderId detail, sc_email = yd_email detail,
              sc_maskedCardNumber = first_of (yd_maskCardNo detail) (yd_maskCardNo listed),
              sc_nickname = first_of (yd_nickname detail) (yd_nickname listed), sc_providerStatus = status,
              sc_sourceCreatedAt = text_date rt (first_of (yd_createdAt detail) (yd_createdAt listed)),
              sc_sourceUpdatedAt = text_date rt (first_of (yd_updatedAt detail) (yd_updatedAt listed)),
              sc_forcedReasonCode =
                (if truthy (yd_email detail) then None
                 else first_of forced (if yl_partialError st1 = None then None else Some ''CARDHOLDER_LOOKUP_FAILED''))\<rparr>
        in st1\<lparr>yl_cards := yl_cards st1 @ [safe],
             yl_cardStatusCounts := incrementCount (yl_cardStatusCounts st1) (or_keep status ''UNKNOWN''),
             yl_cardOrganizationCounts := incrementCount (yl_cardOrganizationCounts st1) (or_keep organization ''UNKNOWN'')\<rparr>)"

definition empty_load :: photonpay_load where
  "empty_load =
     \<lparr>yl_cards = [], yl_invalidCardCount = 0, yl_partialError = None, yl_cardDetailBatchCount = 0,
      yl_reusedCardDetailCount = 0, yl_detailDeferredCount = 0, yl_cardStatusCounts = [], yl_cardOrganizationCounts = []\<rparr>"

definition loadPhotonPay :: "inventory_env \<Rightarrow> runtime \<Rightarrow> photonpay_credential \<Rightarrow> loaded_cards handler" where
  "loadPhotonPay env rt credential =
     op_bind (op_get (\<lambda>db. filter (\<lambda>c. pv_provider c = photonpay) (provider_cards db))) (\<lambda>known.
     op_bind (op_lift (all_pages (read_pages (\<lambda>page. yk_listCards (nv_photonpay env) credential page INVENTORY_PAGE_SIZE)
       (Some (JsError ''PhotonPay card pagination exceeded the safety limit.'')) (MAX_PAGES - 1) 1))) (\<lambda>pages.
     let st = fold (load_listed env rt credential known) (concat pages) empty_load
     in op_return \<lparr>ld_cards = yl_cards st, ld_apiVersion = None, ld_partialError = yl_partialError st,
          ld_invalidCardCount = yl_invalidCardCount st, ld_detailDeferredCount = yl_detailDeferredCount st,
          ld_reusedCardDetailCount = yl_reusedCardDetailCount st, ld_cardPages = length pages,
          ld_cardStatusCounts = yl_cardStatusCounts st, ld_cardOrganizationCounts = yl_cardOrganizationCounts st\<rparr>))"

section \<open>The table of cards\<close>

text \<open>The unique constraint is \<open>(provider, cardId)\<close>; every update stamps the row.\<close>

definition card_key :: "provider_card \<Rightarrow> provider \<times> string" where
  "card_key c = (pv_provider c, pv_cardId c)"

definition find_card :: "provider \<Rightarrow> string \<Rightarrow> database \<Rightarrow> provider_card option" where
  "find_card provider cardId db = find_row (\<lambda>c. card_key c = (provider, cardId)) (provider_cards db)"

definition put_cards :: "provider_card list \<Rightarrow> database \<Rightarrow> database" where
  "put_cards rows db = db\<lparr>provider_cards := rows\<rparr>"

definition card_upsert :: "provider \<Rightarrow> string \<Rightarrow> provider_card \<Rightarrow> (provider_card \<Rightarrow> provider_card) \<Rightarrow> unit handler" where
  "card_upsert provider cardId create update =
     op_modify (\<lambda>db.
       case find_card provider cardId db of
         None \<Rightarrow> put_cards (provider_cards db @ [create]) db
       | Some _ \<Rightarrow> put_cards (update_first (\<lambda>c. card_key c = (provider, cardId)) update (provider_cards db)) db)"

definition cards_update_many :: "(provider_card \<Rightarrow> bool) \<Rightarrow> (provider_card \<Rightarrow> provider_card) \<Rightarrow> unit handler" where
  "cards_update_many wanted f = op_modify (\<lambda>db. put_cards (update_rows wanted f (provider_cards db)) db)"

section \<open>Matching and storing\<close>

definition in_force :: "int \<Rightarrow> int option \<Rightarrow> int \<Rightarrow> bool" where
  "in_force start end_time t \<longleftrightarrow> start \<le> t \<and> (case end_time of None \<Rightarrow> True | Some e \<Rightarrow> t < e)"

definition alias_in_force :: "int \<Rightarrow> email_alias \<Rightarrow> bool" where
  "alias_in_force t a \<longleftrightarrow> ea_provider a = photonpay \<and> ea_status a = CS_active \<and> in_force (ea_validFrom a) (ea_validTo a) t"

definition exclusion_in_force :: "int \<Rightarrow> accounting_exclusion \<Rightarrow> bool" where
  "exclusion_in_force t x \<longleftrightarrow> ax_status x = CS_active \<and> in_force (ax_effectiveFrom x) (ax_effectiveTo x) t"

definition excluded_card_ids :: "provider \<Rightarrow> int \<Rightarrow> database \<Rightarrow> string list" where
  "excluded_card_ids provider t db =
     map pv_cardId (filter (\<lambda>c. pv_provider c = provider \<and>
       list_ex (\<lambda>x. ax_providerCardId x = pv_id c \<and> exclusion_in_force t x) (accounting_exclusions db)) (provider_cards db))"

definition excluded_match :: card_match where
  "excluded_match =
     \<lparr>pm_employeeId = None, pm_status = CM_excluded, pm_source = None, pm_reasonCode = Some ''ADMIN_TEST_CARD'', pm_aliasId = None\<rparr>"

definition stored_fields :: "runtime \<Rightarrow> safe_card \<Rightarrow> card_match \<Rightarrow> provider_card \<Rightarrow> provider_card" where
  "stored_fields rt safe m r =
     r\<lparr>pv_cardholderId := sc_cardholderId safe, pv_cardholderEmailNormalized := normalizeEmail (sc_email safe),
       pv_maskedCardNumber := maskOnly (sc_maskedCardNumber safe), pv_nickname := sc_nickname safe,
       pv_providerStatus := sc_providerStatus safe, pv_employeeId := pm_employeeId m, pv_matchStatus := pm_status m,
       pv_matchSource := pm_source m, pv_unmatchedReasonCode := pm_reasonCode m, pv_lastCardSyncedAt := Some (rt_now rt),
       pv_sourceCreatedAt := sc_sourceCreatedAt safe, pv_sourceUpdatedAt := sc_sourceUpdatedAt safe,
       pv_updatedAt := rt_now rt\<rparr>"

definition new_card :: "runtime \<Rightarrow> provider \<Rightarrow> safe_card \<Rightarrow> card_match \<Rightarrow> provider_card" where
  "new_card rt provider safe m =
     \<lparr>pv_id = rt_fresh_id rt 0, pv_provider = provider, pv_cardId = sc_cardId safe,
      pv_cardholderId = sc_cardholderId safe, pv_cardholderEmailNormalized = normalizeEmail (sc_email safe),
      pv_maskedCardNumber = maskOnly (sc_maskedCardNumber safe), pv_nickname = sc_nickname safe,
      pv_providerStatus = sc_providerStatus safe, pv_employeeId = pm_employeeId m, pv_matchStatus = pm_status m,
      pv_matchSource = pm_source m, pv_unmatchedReasonCode = pm_reasonCode m, pv_lastCardSyncedAt = Some (rt_now rt),
      pv_lastTransactionSyncedAt = None, pv_lastTransactionSyncStatus = None,
      pv_sourceCreatedAt = sc_sourceCreatedAt safe, pv_sourceUpdatedAt = sc_sourceUpdatedAt safe, pv_updatedAt = rt_now rt\<rparr>"

definition store_card :: "provider \<Rightarrow> (safe_card \<Rightarrow> card_match) \<Rightarrow> runtime \<Rightarrow> safe_card \<Rightarrow> card_match handler" where
  "store_card provider decide rt safe =
     (let m = decide safe
      in op_bind (card_upsert provider (sc_cardId safe) (new_card rt provider safe m) (stored_fields rt safe m)) (\<lambda>_.
         op_return m))"

fun store_cards :: "provider \<Rightarrow> (safe_card \<Rightarrow> card_match) \<Rightarrow> runtime \<Rightarrow> safe_card list \<Rightarrow> card_match list handler" where
  "store_cards provider decide rt [] = op_return []"
| "store_cards provider decide rt (safe # rest) =
     op_bind (store_card provider decide rt safe) (\<lambda>m.
     op_bind (store_cards provider decide (ids_from 1 rt) rest) (\<lambda>ms. op_return (m # ms)))"

text \<open>What the matching of a run rests on, read before any card is stored.\<close>

record match_basis =
  mb_employees :: "employee list"
  mb_mappings :: "effective_mapping list"
  mb_aliases :: "email_alias list"
  mb_excluded :: "string list"

definition decide_card :: "provider \<Rightarrow> runtime \<Rightarrow> match_basis \<Rightarrow> safe_card \<Rightarrow> card_match" where
  "decide_card provider rt basis safe =
     (if sc_cardId safe \<in> set (mb_excluded basis) then excluded_match
      else matchProviderCard rt
        \<lparr>pi_provider = provider, pi_email = sc_email safe, pi_forcedReasonCode = sc_forcedReasonCode safe,
         pi_employees = mb_employees basis, pi_aliases = Some (mb_aliases basis),
         pi_subMappedEmployeeIds = (if provider = photonpay then Some (map (\<lambda>x. sm_employeeId (fst x)) (mb_mappings basis)) else None),
         pi_matchingAt = Some (rt_now rt)\<rparr>)"

definition month_query :: "int \<Rightarrow> resolve_input" where
  "month_query m =
     \<lparr>rv_settlementMonth = m, rv_affiliateAccountId = None, rv_subField = None, rv_subValue = None,
      rv_subValues = None, rv_employeeId = None\<rparr>"

text \<open>A query with an Invalid Date is refused by the client library.\<close>

definition read_basis :: "provider \<Rightarrow> runtime \<Rightarrow> js_date \<Rightarrow> match_basis handler" where
  "read_basis provider rt settlementMonth =
     op_bind (op_get employees) (\<lambda>es.
     op_bind (if provider = photonpay
              then case settlementMonth of None \<Rightarrow> op_throw prisma_validation_error
                   | Some m \<Rightarrow> resolveEffectiveSubIdMappings (month_query m)
              else op_return []) (\<lambda>mappings.
     op_bind (op_get (\<lambda>db. if provider = photonpay then filter (alias_in_force (rt_now rt)) (email_aliases db) else [])) (\<lambda>aliases.
     op_bind (op_get (excluded_card_ids provider (rt_now rt))) (\<lambda>excluded.
     op_return \<lparr>mb_employees = es, mb_mappings = filter isUsableEffectiveSubIdMapping mappings, mb_aliases = aliases,
       mb_excluded = excluded\<rparr>))))"

datatype inventory_status = Inventory_completed | Inventory_partial | Inventory_external_blocked | Inventory_failed

record mapping_diagnostics =
  dg_employeeNotFound :: nat
  dg_employeeDisabled :: nat
  dg_employeeWithoutSub :: nat
  dg_multipleEmployeeEmail :: nat
  dg_multipleBusinessSubValues :: nat

record inventory_result =
  iv_provider :: provider
  iv_status :: inventory_status
  iv_discoveredCount :: nat
  iv_matchedCount :: nat
  iv_unmatchedCount :: nat
  iv_conflictCount :: nat
  iv_excludedCount :: nat
  iv_invalidCardCount :: nat
  iv_apiVersion :: "string option"
  iv_mappingDiagnostics :: "mapping_diagnostics option"
  iv_error :: "safe_error option"

definition count_status :: "card_match_status \<Rightarrow> card_match list \<Rightarrow> nat" where
  "count_status s ms = length (filter (\<lambda>m. pm_status m = s) ms)"

definition count_reason :: "string \<Rightarrow> card_match list \<Rightarrow> nat" where
  "count_reason code ms = length (filter (\<lambda>m. pm_reasonCode m = Some code) ms)"

text \<open>\<open>new Set(...).size > 1\<close> over the trimmed sub ids of an employee that are not blank.\<close>

definition several_sub_values :: "effective_mapping list \<Rightarrow> string \<Rightarrow> bool" where
  "several_sub_values mappings e \<longleftrightarrow>
     1 < length (js_dedup (filter (\<lambda>s. s \<noteq> []) (map (\<lambda>x. js_trim (sm_subValue (fst x)))
       (filter (\<lambda>x. sm_employeeId (fst x) = e) mappings))))"

definition diagnostics :: "match_basis \<Rightarrow> card_match list \<Rightarrow> mapping_diagnostics" where
  "diagnostics basis ms =
     \<lparr>dg_employeeNotFound = count_reason ''EMPLOYEE_NOT_FOUND'' ms,
      dg_employeeDisabled = count_reason ''EMPLOYEE_DISABLED'' ms,
      dg_employeeWithoutSub = count_reason ''EMPLOYEE_WITHOUT_SUB'' ms,
      dg_multipleEmployeeEmail = count_reason ''EMPLOYEE_EMAIL_AMBIGUOUS'' ms,
      dg_multipleBusinessSubValues = length (filter (\<lambda>m. case pm_employeeId m of None \<Rightarrow> False
        | Some e \<Rightarrow> e \<noteq> [] \<and> several_sub_values (mb_mappings basis) e) ms)\<rparr>"

definition inventory_summary :: "provider \<Rightarrow> loaded_cards \<Rightarrow> match_basis \<Rightarrow> card_match list \<Rightarrow> inventory_result" where
  "inventory_summary provider loaded basis ms =
     \<lparr>iv_provider = provider,
      iv_status = (if ld_partialError loaded \<noteq> None \<or> 0 < ld_invalidCardCount loaded \<or> 0 < ld_detailDeferredCount loaded
        then Inventory_partial else Inventory_completed),
      iv_discoveredCount = length (ld_cards loaded) + ld_invalidCardCount loaded,
      iv_matchedCount = count_status CM_matched ms,
      iv_unmatchedCount = count_status CM_unmatched ms + ld_invalidCardCount loaded,
      iv_conflictCount = count_status CM_conflict ms, iv_excludedCount = count_status CM_excluded ms,
      iv_invalidCardCount = ld_invalidCardCount loaded, iv_apiVersion = ld_apiVersion loaded,
      iv_mappingDiagnostics = (if provider = photonpay then Some (diagnostics basis ms) else None),
      iv_error = ld_partialError loaded\<rparr>"

definition load_cards :: "inventory_env \<Rightarrow> runtime \<Rightarrow> provider \<Rightarrow> jsval \<Rightarrow> loaded_cards handler" where
  "load_cards env rt provider payload =
     (if provider = airwallex
      then op_lift (bind_res (parseAirwallexCredential (nv_number env) payload)
             (loadAirwallex (nv_airwallex env) (nv_prisma_message env) rt))
      else op_bind (op_lift (parsePhotonPayCredential (nv_number env) payload)) (loadPhotonPay env rt))"

definition syncProviderWithPayload :: "inventory_env \<Rightarrow> runtime \<Rightarrow> provider \<Rightarrow> jsval \<Rightarrow> js_date \<Rightarrow> inventory_result handler" where
  "syncProviderWithPayload env rt provider payload settlementMonth =
     op_bind (load_cards env rt provider payload) (\<lambda>loaded.
     op_bind (read_basis provider rt settlementMonth) (\<lambda>basis.
     op_bind (store_cards provider (decide_card provider rt basis) rt (ld_cards loaded)) (\<lambda>ms.
     op_return (inventory_summary provider loaded basis ms))))"

section \<open>Owner of a spend, marks of the syncs\<close>

datatype spend_owner = Spend_owner string | Excluded_spend string string | No_owner string string

definition excluded_at :: "int \<Rightarrow> provider_card \<Rightarrow> database \<Rightarrow> bool" where
  "excluded_at t c db \<longleftrightarrow> list_ex (\<lambda>x. ax_providerCardId x = pv_id c \<and> exclusion_in_force t x) (accounting_exclusions db)"

definition spend_owner_of :: "provider \<Rightarrow> string \<Rightarrow> int \<Rightarrow> database \<Rightarrow> spend_owner" where
  "spend_owner_of provider cardId transactionAt db =
     (let not_mapped = No_owner ''CARD_NOT_MAPPED'' (provider_name provider @ '' card is not uniquely mapped to an employee.'')
      in case find_card provider cardId db of
           None \<Rightarrow> not_mapped
         | Some c \<Rightarrow>
             if excluded_at transactionAt c db
             then Excluded_spend ''ADMIN_TEST_CARD'' ''The provider card is excluded from accounting.''
             else case (pv_employeeId c, Option.bind (pv_employeeId c) (\<lambda>i. find_row (\<lambda>e. em_id e = i) (employees db))) of
               (Some i, Some e) \<Rightarrow>
                 (if pv_matchStatus c \<noteq> CM_matched \<or> i = [] then not_mapped
                  else if em_status e \<noteq> CS_active then No_owner ''EMPLOYEE_DISABLED'' ''The matched employee is disabled.''
                  else Spend_owner i)
             | _ \<Rightarrow> not_mapped)"

definition resolveSpendOwner :: "provider \<Rightarrow> string \<Rightarrow> int \<Rightarrow> spend_owner handler" where
  "resolveSpendOwner provider cardId transactionAt = op_get (spend_owner_of provider cardId transactionAt)"

definition sync_mark :: "runtime \<Rightarrow> string \<Rightarrow> provider_card \<Rightarrow> provider_card" where
  "sync_mark rt status c =
     c\<lparr>pv_lastTransactionSyncedAt := Some (rt_now rt), pv_lastTransactionSyncStatus := Some (take 64 status),
       pv_updatedAt := rt_now rt\<rparr>"

definition markTransactionSync :: "runtime \<Rightarrow> provider \<Rightarrow> string \<Rightarrow> string \<Rightarrow> unit handler" where
  "markTransactionSync rt provider cardId status =
     cards_update_many (\<lambda>c. card_key c = (provider, cardId)) (sync_mark rt status)"

definition markUntouchedTransactionSync :: "runtime \<Rightarrow> provider \<Rightarrow> int \<Rightarrow> string \<Rightarrow> unit handler" where
  "markUntouchedTransactionSync rt provider startedAt status =
     cards_update_many (\<lambda>c. pv_provider c = provider
         \<and> (case pv_lastTransactionSyncedAt c of None \<Rightarrow> True | Some t \<Rightarrow> t < startedAt)) (sync_mark rt status)"

section \<open>The handlers\<close>

definition failedResult :: "(string \<Rightarrow> string) \<Rightarrow> provider \<Rightarrow> app_exception \<Rightarrow> jsval \<Rightarrow> inventory_result" where
  "failedResult prisma_message provider e payload =
     (let details = safeProviderError prisma_message e None;
          blocked = (case e of ProviderRequestError p \<Rightarrow> pe_category p \<in> {EC_CREDENTIAL_INVALID, EC_BUSINESS_REJECTED} | _ \<Rightarrow> False)
      in \<lparr>iv_provider = provider, iv_status = (if blocked then Inventory_external_blocked else Inventory_failed),
          iv_discoveredCount = 0, iv_matchedCount = 0, iv_unmatchedCount = 0, iv_conflictCount = 0,
          iv_excludedCount = 0, iv_invalidCardCount = 0, iv_apiVersion = None, iv_mappingDiagnostics = None,
          iv_error = Some (details\<lparr>se_message := redactCredentialValues (se_message details) (credentialStrings payload)\<rparr>)\<rparr>)"

definition currentShanghaiSettlementMonth :: "runtime \<Rightarrow> js_date" where
  "currentShanghaiSettlementMonth rt = month_start_gmt8 (rt_now rt)"

definition sync_with_credential :: "inventory_env \<Rightarrow> (string \<Rightarrow> jsval outcome) \<Rightarrow> runtime \<Rightarrow> provider \<Rightarrow> inventory_result handler" where
  "sync_with_credential env decrypt rt provider =
     op_catch
       (op_bind (getCardProviderCredentialPayload decrypt provider) (\<lambda>credential.
        op_catch (syncProviderWithPayload env rt provider (cp_payload credential) (currentShanghaiSettlementMonth rt))
          (\<lambda>e. op_return (failedResult (nv_prisma_message env) provider e (cp_payload credential)))))
       (\<lambda>e. op_return (failedResult (nv_prisma_message env) provider e JUndefined))"

definition syncProvider :: "inventory_env \<Rightarrow> (string \<Rightarrow> jsval outcome) \<Rightarrow> runtime \<Rightarrow> provider \<Rightarrow> actor \<Rightarrow> inventory_result handler" where
  "syncProvider env decrypt rt provider actor =
     op_bind (sync_with_credential env decrypt rt provider) (\<lambda>result.
     op_bind (audit_success (auditInput actor ''provider_card.inventory.sync'' ''provider_cards'' None None [''providerCards''])) (\<lambda>_.
     op_return result))"

text \<open>The runs of the two providers create different rows.\<close>

definition syncAll :: "inventory_env \<Rightarrow> (string \<Rightarrow> jsval outcome) \<Rightarrow> runtime \<Rightarrow> runtime \<Rightarrow> actor \<Rightarrow> (bool \<times> inventory_result list) handler" where
  "syncAll env decrypt rt rt' actor =
     op_bind (sync_with_credential env decrypt rt airwallex) (\<lambda>a.
     op_bind (sync_with_credential env decrypt rt' photonpay) (\<lambda>p.
     op_bind (audit_success (auditInput actor ''provider_card.inventory.sync_all'' ''provider_cards'' None None [''providerCards''])) (\<lambda>_.
     op_return (iv_status a = Inventory_completed \<and> iv_status p = Inventory_completed, [a, p]))))"

section \<open>The list\<close>

text \<open>A field a reader may not see and a missing one are both \<open>None\<close>.\<close>

record card_view =
  cw_id :: string
  cw_provider :: provider
  cw_cardId :: "string option"
  cw_maskedCardNumber :: "string option"
  cw_nickname :: "string option"
  cw_providerStatus :: "string option"
  cw_cardholderId :: "string option"
  cw_cardholderEmail :: "string option"
  cw_employeeId :: "string option"
  cw_employeeCode :: "string option"
  cw_employeeName :: "string option"
  cw_matchStatus :: card_match_status
  cw_matchSource :: "card_match_source option"
  cw_unmatchedReasonCode :: "string option"
  cw_lastCardSyncedAt :: "int option"
  cw_lastTransactionSyncedAt :: "int option"
  cw_lastTransactionSyncStatus :: "string option"
  cw_updatedAt :: int

definition all_match_status :: "card_match_status list" where
  "all_match_status = [CM_matched, CM_unmatched, CM_conflict, CM_excluded]"

fun match_status_name :: "card_match_status \<Rightarrow> string" where
  "match_status_name CM_matched = ''matched''"
| "match_status_name CM_unmatched = ''unmatched''"
| "match_status_name CM_conflict = ''conflict''"
| "match_status_name CM_excluded = ''excluded''"

definition parse_card_provider :: "string option \<Rightarrow> provider option outcome" where
  "parse_card_provider value =
     (if \<not> truthy value then Inr None
      else case provider_of (or_keep value []) of
             None \<Rightarrow> Inl (AppError VALIDATION_ERROR ''provider must be airwallex or photonpay.'') | Some p \<Rightarrow> Inr (Some p))"

definition parseMatchStatus :: "string option \<Rightarrow> card_match_status option outcome" where
  "parseMatchStatus value =
     (if \<not> truthy value then Inr None
      else case find (\<lambda>s. Some (match_status_name s) = value) all_match_status of
             None \<Rightarrow> Inl (AppError VALIDATION_ERROR ''matchStatus is invalid.'') | Some s \<Rightarrow> Inr (Some s))"

definition may :: "actor option \<Rightarrow> string \<Rightarrow> bool" where
  "may actor permission \<longleftrightarrow> (case actor of None \<Rightarrow> False | Some a \<Rightarrow> permission \<in> set (ac_permissions a))"

definition view_card :: "actor option \<Rightarrow> database \<Rightarrow> provider_card \<Rightarrow> card_view" where
  "view_card actor db c =
     (let manages = may actor ''card_binding.manage'';
          employee = Option.bind (pv_employeeId c) (\<lambda>i. find_row (\<lambda>e. em_id e = i) (employees db))
      in \<lparr>cw_id = pv_id c, cw_provider = pv_provider c, cw_cardId = (if manages then Some (pv_cardId c) else None),
          cw_maskedCardNumber = pv_maskedCardNumber c, cw_nickname = pv_nickname c, cw_providerStatus = pv_providerStatus c,
          cw_cardholderId = (if manages then pv_cardholderId c else None),
          cw_cardholderEmail = (if may actor ''photonpay_unmatched.read'' then pv_cardholderEmailNormalized c
            else maskEmail (pv_cardholderEmailNormalized c)),
          cw_employeeId = pv_employeeId c, cw_employeeCode = map_option em_employeeCode employee,
          cw_employeeName = map_option em_name employee, cw_matchStatus = pv_matchStatus c,
          cw_matchSource = pv_matchSource c, cw_unmatchedReasonCode = pv_unmatchedReasonCode c,
          cw_lastCardSyncedAt = pv_lastCardSyncedAt c, cw_lastTransactionSyncedAt = pv_lastTransactionSyncedAt c,
          cw_lastTransactionSyncStatus = pv_lastTransactionSyncStatus c, cw_updatedAt = pv_updatedAt c\<rparr>)"

definition provider_order :: "provider \<Rightarrow> nat" where
  "provider_order p = (if p = airwallex then 0 else 1)"

text \<open>\<open>orderBy: [{ provider: 'asc' }, { updatedAt: 'desc' }, { cardId: 'asc' }]\<close>\<close>

definition ordered_cards :: "provider_card list \<Rightarrow> provider_card list" where
  "ordered_cards cs =
     sort_key (\<lambda>c. provider_order (pv_provider c)) (sort_key (\<lambda>c. - pv_updatedAt c) (sort_key pv_cardId cs))"

definition card_counts :: "provider_card list \<Rightarrow> (string \<times> nat) list" where
  "card_counts cs =
     filter (\<lambda>(k, n). 0 < n)
       (concat (map (\<lambda>p. map (\<lambda>s. (provider_name p @ ''.'' @ match_status_name s,
          length (filter (\<lambda>c. pv_provider c = p \<and> pv_matchStatus c = s) cs))) all_match_status) [airwallex, photonpay]))"

definition listCards :: "string option \<Rightarrow> string option \<Rightarrow> actor option \<Rightarrow> (card_view list \<times> (string \<times> nat) list) handler" where
  "listCards provider matchStatus actor =
     op_bind (op_lift (parse_card_provider provider)) (\<lambda>p.
     op_bind (op_lift (parseMatchStatus matchStatus)) (\<lambda>s.
     op_get (\<lambda>db.
       let of_provider = filter (\<lambda>c. case p of None \<Rightarrow> True | Some q \<Rightarrow> pv_provider c = q) (provider_cards db);
           wanted = filter (\<lambda>c. case s of None \<Rightarrow> True | Some q \<Rightarrow> pv_matchStatus c = q) of_provider
       in (map (view_card actor db) (ordered_cards wanted), card_counts of_provider))))"

end
