(* ===== verification/Card_Spend.thy ===== *)
theory Card_Spend
  imports Card_Inventory
begin

text \<open>
  What the two adapters of card spend share: the table of spend events, the loop over the
  transactions of the provider, page after page, and what is counted. An error ends the loop with
  the writes made so far and the counts up to it. How many pages a provider has is not known to the
  program, so the loop has fuel; \<open>None\<close> is a run that has not ended within it.
\<close>

section \<open>Events\<close>

definition event_of :: "provider \<Rightarrow> string \<Rightarrow> card_spend_event \<Rightarrow> bool" where
  "event_of provider external e \<longleftrightarrow> ce_provider e = provider \<and> ce_externalEventId e = Some external"

definition find_spend :: "provider \<Rightarrow> string \<Rightarrow> database \<Rightarrow> card_spend_event option" where
  "find_spend provider external db = find_row (event_of provider external) (card_spend_events db)"

definition put_spends :: "card_spend_event list \<Rightarrow> database \<Rightarrow> database" where
  "put_spends rows db = db\<lparr>card_spend_events := rows\<rparr>"

text \<open>The unique constraint is \<open>(provider, externalEventId)\<close>; a missing identifier never clashes.\<close>

definition spend_clash :: "card_spend_event \<Rightarrow> card_spend_event \<Rightarrow> bool" where
  "spend_clash e e' \<longleftrightarrow> ce_provider e = ce_provider e' \<and> ce_externalEventId e = ce_externalEventId e'
     \<and> ce_externalEventId e \<noteq> None"

definition event_insert :: "card_spend_event \<Rightarrow> card_spend_event handler" where
  "event_insert = table_insert card_spend_events put_spends spend_clash"

definition spend_upsert :: "provider \<Rightarrow> string \<Rightarrow> card_spend_event \<Rightarrow> (card_spend_event \<Rightarrow> card_spend_event) \<Rightarrow> unit handler" where
  "spend_upsert provider external create update =
     op_modify (\<lambda>db.
       case find_spend provider external db of
         None \<Rightarrow> put_spends (card_spend_events db @ [create]) db
       | Some _ \<Rightarrow> put_spends (update_first (event_of provider external) update (card_spend_events db)) db)"

section \<open>Values of a transaction\<close>

text \<open>\<open>values.find((value) => value !== undefined && value !== null)\<close>\<close>

fun firstValue :: "jsval list \<Rightarrow> jsval" where
  "firstValue [] = JUndefined"
| "firstValue (v # vs) = (if is_nullish v then firstValue vs else v)"

text \<open>
  \<open>new Prisma.Decimal(value).abs()\<close> of a number or text, 0 for anything else. \<open>None\<close> is an amount
  that is not finite, which the library accepts and the database does not.
\<close>

definition unsigned_amount :: "runtime \<Rightarrow> jsval \<Rightarrow> rat option outcome" where
  "unsigned_amount rt v =
     (case v of
        JNum x \<Rightarrow> Inr (Some \<bar>x\<bar>)
      | JString s \<Rightarrow>
          (case rt_parse_decimal rt s of
             None \<Rightarrow> Inl (JsError (''[DecimalError] Invalid argument: '' @ s))
           | Some (DecFinite _ x) \<Rightarrow> Inr (Some \<bar>x\<bar>)
           | Some DecNotFinite \<Rightarrow> Inr None)
      | _ \<Rightarrow> Inr (Some 0))"

text \<open>The text of an amount; the two texts of amounts that are not finite are one here.\<close>

definition amount_text :: "runtime \<Rightarrow> rat option \<Rightarrow> string" where
  "amount_text rt a = (case a of None \<Rightarrow> ''NaN'' | Some x \<Rightarrow> rt_show_decimal rt x)"

definition trimmed_upper :: "string \<Rightarrow> string" where
  "trimmed_upper s = js_upper (js_trim s)"

text \<open>\<open>date?.toISOString()\<close> as an entry of a JSON object; an entry that is \<open>undefined\<close> is dropped.\<close>

definition date_entry :: "string \<Rightarrow> js_date \<Rightarrow> (string \<times> jsval) list" where
  "date_entry k d = (case d of None \<Rightarrow> [] | Some t \<Rightarrow> [(k, JString (iso_string t))])"

text \<open>
  Recording an unmatched event whose amount the database does not accept: the checks come first, and
  an event that was already ignored or resolved is not written.
\<close>

definition refuse_write :: "runtime \<Rightarrow> unmatched_input \<Rightarrow> unit handler" where
  "refuse_write rt input =
     op_bind (op_lift (validateRecordInput rt input)) (\<lambda>data.
     op_bind (op_get (\<lambda>db. Option.bind (ue_thirdPartyEventId data) (\<lambda>i. find_event (ue_sourceType data) (ue_taskType data) i db))) (\<lambda>existing.
     op_assert (case existing of None \<Rightarrow> False | Some e \<Rightarrow> ue_status e \<noteq> UE_open) prisma_validation_error))"

section \<open>The loop over the transactions\<close>

text \<open>\<open>try { x = await m; } catch (error) { ... }\<close>: an error becomes a value.\<close>

definition op_try :: "'a handler \<Rightarrow> 'a outcome handler" where
  "op_try m db = (case m db of (r, db') \<Rightarrow> (Inr r, db'))"

datatype tx_outcome = Tx_ignored | Tx_succeeded | Tx_failed

record import_state =
  im_success :: nat
  im_failed :: nat
  im_seen :: "string list"

definition count_tx :: "tx_outcome \<Rightarrow> import_state \<Rightarrow> import_state" where
  "count_tx x st =
     (case x of
        Tx_ignored \<Rightarrow> st
      | Tx_succeeded \<Rightarrow> st\<lparr>im_success := im_success st + 1\<rparr>
      | Tx_failed \<Rightarrow> st\<lparr>im_failed := im_failed st + 1\<rparr>)"

type_synonym tx_step = "runtime \<Rightarrow> string list \<Rightarrow> json_record \<Rightarrow> (tx_outcome \<times> string list) handler"

fun import_batch :: "tx_step \<Rightarrow> runtime \<Rightarrow> import_state \<Rightarrow> json_record list \<Rightarrow> (import_state \<times> app_exception option) handler" where
  "import_batch step rt st [] = op_return (st, None)"
| "import_batch step rt st (raw # rest) =
     op_bind (op_try (step rt (im_seen st) raw)) (\<lambda>x.
     case x of
       Inl e \<Rightarrow> op_return (st, Some e)
     | Inr (outcome, seen) \<Rightarrow> import_batch step (ids_from 1 rt) ((count_tx outcome st)\<lparr>im_seen := seen\<rparr>) rest)"

text \<open>A page has its transactions and the number of the next page, if there is one.\<close>

type_synonym tx_pages = "nat \<Rightarrow> (json_record list \<times> nat option) outcome"

fun import_pages ::
  "tx_pages \<Rightarrow> tx_step \<Rightarrow> nat \<Rightarrow> runtime \<Rightarrow> import_state \<Rightarrow> nat \<Rightarrow> (import_state \<times> app_exception option \<times> runtime) option handler" where
  "import_pages fetch step 0 rt st page = op_return None"
| "import_pages fetch step (Suc fuel) rt st page =
     (case fetch page of
        Inl e \<Rightarrow> op_return (Some (st, Some e, rt))
      | Inr (raws, next_page) \<Rightarrow>
          op_bind (import_batch step rt st raws) (\<lambda>(st', failure).
          let rt' = ids_from (length raws) rt
          in case (failure, next_page) of
               (None, Some p) \<Rightarrow> import_pages fetch step fuel rt' st' p
             | _ \<Rightarrow> op_return (Some (st', failure, rt'))))"

section \<open>Results\<close>

definition error_mark :: "app_exception \<Rightarrow> string" where
  "error_mark e = ''failed:'' @ sync_error_name (providerErrorCategory e)"

definition spend_message :: "string \<Rightarrow> import_state \<Rightarrow> string" where
  "spend_message title st =
     title @ '' card spend sync finished: successCount='' @ nat_string (im_success st)
       @ '', failedCount='' @ nat_string (im_failed st) @ ''.''"

text \<open>What the adapters answer after the loop, and after an error of it.\<close>

definition spend_result :: "string \<Rightarrow> import_state \<Rightarrow> adapter_result" where
  "spend_result title st =
     \<lparr>ad_completed = (im_failed st = 0), ad_successCount = im_success st, ad_failedCount = im_failed st,
      ad_message = Some (spend_message title st),
      ad_errorMessage = (if im_failed st = 0 then None else Some (spend_message title st)), ad_errorCategory = None\<rparr>"

definition spend_failure :: "(string \<Rightarrow> string) \<Rightarrow> string list \<Rightarrow> import_state \<Rightarrow> app_exception \<Rightarrow> adapter_result" where
  "spend_failure prisma_message secrets st e =
     (let message = redactCredentialValues (error_text prisma_message e) secrets
      in \<lparr>ad_completed = False, ad_successCount = im_success st, ad_failedCount = im_failed st + 1,
          ad_message = Some message, ad_errorMessage = Some message,
          ad_errorCategory = Some (providerErrorCategory e)\<rparr>)"

end
