(* ===== verification/Airwallex_Sync.thy ===== *)
theory Airwallex_Sync
  imports Card_Spend
begin

text \<open>
  \<open>airwallex-card-sync.adapter.ts\<close>: the settled card transactions of Airwallex in a GMT+8 month
  become spend events of the employees their cards are matched with; what cannot be attributed is
  recorded as an unmatched event.
\<close>

section \<open>Windows\<close>

definition getAirwallexRequestAndSettlementWindows :: "int \<Rightarrow> int \<Rightarrow> settlement_windows" where
  "getAirwallexRequestAndSettlementWindows settlementMonth settlementDelayDays =
     (let start = date_UTC_hours (getUTCFullYear settlementMonth) (getUTCMonth settlementMonth) 1 (- 8);
          end = date_UTC_hours (getUTCFullYear settlementMonth) (getUTCMonth settlementMonth + 1) 1 (- 8)
      in \<lparr>sw_settlementStart = start, sw_settlementEnd = end, sw_requestFrom = start,
          sw_requestTo = (case end of None \<Rightarrow> None | Some t \<Rightarrow> time_clip (t + settlementDelayDays * 24 * 60 * 60 * 1000)),
          sw_settlementDelayDays = settlementDelayDays\<rparr>)"

definition getAirwallexGmt8SettlementMonthWindow :: "int \<Rightarrow> settlement_windows" where
  "getAirwallexGmt8SettlementMonthWindow settlementMonth =
     getAirwallexRequestAndSettlementWindows settlementMonth DEFAULT_SETTLEMENT_DELAY_DAYS"

definition isInsideSettlementWindow :: "int \<Rightarrow> settlement_windows \<Rightarrow> bool" where
  "isInsideSettlementWindow t w \<longleftrightarrow>
     (case (sw_settlementStart w, sw_settlementEnd w) of (Some a, Some b) \<Rightarrow> a \<le> t \<and> t < b | _ \<Rightarrow> False)"

section \<open>Credential\<close>

text \<open>\<open>typeof payload === 'object'\<close>, lists included: they have none of the fields.\<close>

definition any_object :: "jsval \<Rightarrow> json_record option" where
  "any_object v = (case v of JArray _ \<Rightarrow> Some [] | _ \<Rightarrow> asRecord v)"

definition airwallex_settlementDelayDays :: "(string \<Rightarrow> rat option) \<Rightarrow> jsval \<Rightarrow> int" where
  "airwallex_settlementDelayDays js_number v = or_keep (settlementDelay js_number v) DEFAULT_SETTLEMENT_DELAY_DAYS"

definition airwallex_parseCredentialPayload :: "(string \<Rightarrow> rat option) \<Rightarrow> jsval \<Rightarrow> airwallex_credential outcome" where
  "airwallex_parseCredentialPayload js_number payload =
     (case any_object payload of
        None \<Rightarrow> Inl (AppError VALIDATION_ERROR ''Airwallex credential payload is required.'')
      | Some r \<Rightarrow>
          (case firstString [js_get r ''clientId'', js_get r ''client_id''] of
             None \<Rightarrow> Inl (AppError VALIDATION_ERROR ''Airwallex credential clientId is required.'')
           | Some clientId \<Rightarrow>
               (case firstString [js_get r ''apiKey'', js_get r ''api_key'', js_get r ''secret''] of
                  None \<Rightarrow> Inl (AppError VALIDATION_ERROR ''Airwallex credential apiKey is required.'')
                | Some apiKey \<Rightarrow>
                    Inr \<lparr>wc_clientId = clientId, wc_apiKey = apiKey,
                      wc_baseUrl = firstString [js_get r ''baseUrl'', js_get r ''base_url''],
                      wc_transactionsPath = firstString [js_get r ''transactionsPath'', js_get r ''transactions_path''],
                      wc_cardsPath = firstString [js_get r ''cardsPath'', js_get r ''cards_path''],
                      wc_cardholdersPath = firstString [js_get r ''cardholdersPath'', js_get r ''cardholders_path''],
                      wc_apiVersion = map_option Some (firstString [js_get r ''apiVersion'', js_get r ''api_version'']),
                      wc_settlementDelayDays = Some (airwallex_settlementDelayDays js_number (js_get r ''settlementDelayDays''))\<rparr>)))"

definition airwallex_assertContext :: "adapter_context \<Rightarrow> unit outcome" where
  "airwallex_assertContext cx =
     (let task = cx_task cx
      in if tk_sourceType task \<noteq> card_spend \<or> tk_taskType task \<noteq> airwallex_card
         then Inl (AppError VALIDATION_ERROR ''Airwallex adapter only supports airwallex_card sync tasks.'')
         else if tk_platform task \<noteq> P_airwallex \<or> tk_provider task \<noteq> Some airwallex
         then Inl (AppError VALIDATION_ERROR ''card_spend provider/platform must be airwallex.'')
         else Inr ())"

section \<open>A transaction\<close>

record airwallex_tx =
  nx_externalEventId :: "string option"
  nx_cardId :: "string option"
  nx_cardLast4 :: "string option"
  nx_cardEmail :: "string option"
  nx_transactionAt :: js_date
  nx_amount :: "rat option"
  nx_currency :: "string option"
  nx_settledAt :: js_date
  nx_sourceStatus :: "string option"
  nx_transactionType :: "string option"
  nx_fundDirection :: "string option"
  nx_sourceUpdatedAt :: js_date

definition is_credit :: "string option \<Rightarrow> string option \<Rightarrow> bool" where
  "is_credit fundDirection transactionType \<longleftrightarrow>
     map_option trimmed_upper fundDirection = Some ''CREDIT''
     \<or> or_keep (map_option trimmed_upper transactionType) [] \<in> set [''REFUND'', ''REVERSAL'', ''REVERSED'']"

definition normalizeAirwallexTransaction :: "runtime \<Rightarrow> json_record \<Rightarrow> airwallex_tx outcome" where
  "normalizeAirwallexTransaction rt raw =
     (let g = js_get raw; of_card = objectField (g ''card'');
          transactionType = firstString [g ''transaction_type'', g ''transactionType''];
          fundDirection = firstString [g ''fund_direction'', g ''fundDirection'']
      in bind_res (unsigned_amount rt (firstValue [g ''billing_amount'', g ''transaction_amount'', g ''amount'', g ''settlement_amount''])) (\<lambda>amount.
         Inr \<lparr>nx_externalEventId = firstString [g ''id'', g ''transaction_id'', g ''transactionId''],
              nx_cardId = firstString [g ''card_id'', g ''cardId'', of_card ''id'', of_card ''card_id''],
              nx_cardLast4 = firstString [g ''cardLast4'', g ''card_last4'', g ''last4'', of_card ''last4'', of_card ''cardLast4'', of_card ''card_last4''],
              nx_cardEmail = firstString [g ''cardEmail'', g ''card_email'', g ''email'', of_card ''email'', of_card ''cardEmail'', of_card ''card_email''],
              nx_transactionAt = parse_provider_date rt (firstValue [g ''transaction_date'', g ''transactionDate'', g ''transaction_at'', g ''transactionAt'']),
              nx_amount = (if is_credit fundDirection transactionType then map_option uminus amount else amount),
              nx_currency = map_option js_upper (firstString [g ''billing_currency'', g ''transaction_currency'', g ''currency'', g ''settlement_currency'']),
              nx_settledAt = parse_provider_date rt (firstValue [g ''settled_at'', g ''settledAt'', g ''posted_date'', g ''postedDate'']),
              nx_sourceStatus = firstString [g ''status'', g ''transaction_status'', g ''transactionStatus''],
              nx_transactionType = transactionType, nx_fundDirection = fundDirection,
              nx_sourceUpdatedAt = parse_provider_date rt (firstValue [g ''updated_at'', g ''updatedAt''])\<rparr>))"

definition isSettled :: "airwallex_tx \<Rightarrow> bool" where
  "isSettled r \<longleftrightarrow>
     map_option trimmed_upper (nx_sourceStatus r) = Some ''CLEARED''
     \<or> map_option trimmed_upper (nx_transactionType r) \<in> {Some ''CLEARING'', Some ''REFUND''}"

definition buildAirwallexRawSafeData :: "runtime \<Rightarrow> airwallex_tx \<Rightarrow> jsval" where
  "buildAirwallexRawSafeData rt r =
     JObject
       ([(''transactionId'', jstr_or_null (nx_externalEventId r)), (''cardId'', jstr_or_null (nx_cardId r)),
         (''cardLast4'', jstr_or_null (nx_cardLast4 r)), (''cardEmail'', jstr_or_null (nx_cardEmail r)),
         (''status'', jstr_or_null (nx_sourceStatus r)), (''sourceStatus'', jstr_or_null (nx_transactionType r)),
         (''fundDirection'', jstr_or_null (nx_fundDirection r)), (''amount'', JString (amount_text rt (nx_amount r))),
         (''currency'', jstr_or_null (nx_currency r))]
        @ date_entry ''transactionAt'' (nx_transactionAt r) @ date_entry ''settledAt'' (nx_settledAt r))"

definition airwallex_unmatched :: "runtime \<Rightarrow> sync_task_row \<Rightarrow> airwallex_tx \<Rightarrow> string \<Rightarrow> string \<Rightarrow> unmatched_input" where
  "airwallex_unmatched rt task r reasonCode reasonMessage =
     \<lparr>un_settlementMonth = JDate (Some (tk_month task)), un_sourceType = ''card_spend'',
      un_taskType = ''airwallex_card'', un_platform = None, un_provider = Some ''airwallex'',
      un_affiliateAccountId = None, un_syncTaskId = Some (tk_id task),
      un_thirdPartyEventId = nx_externalEventId r, un_reasonCode = reasonCode, un_reasonMessage = Some reasonMessage,
      un_subField = None, un_subValue = None, un_cardId = nx_cardId r, un_cardLast4 = nx_cardLast4 r,
      un_cardEmail = nx_cardEmail r, un_amountUsd = (if nx_currency r = Some ''USD'' then nx_amount r else None),
      un_currency = nx_currency r, un_occurredAt = map_option Some (nx_transactionAt r),
      un_rawSafeData = buildAirwallexRawSafeData rt r, un_rawData = JUndefined\<rparr>"

text \<open>An amount in USD that is not finite cannot be written.\<close>

definition airwallex_recordUnmatched :: "runtime \<Rightarrow> sync_task_row \<Rightarrow> airwallex_tx \<Rightarrow> string \<Rightarrow> string \<Rightarrow> unit handler" where
  "airwallex_recordUnmatched rt task r reasonCode reasonMessage =
     (if nx_currency r = Some ''USD'' \<and> nx_amount r = None
      then refuse_write rt (airwallex_unmatched rt task r reasonCode reasonMessage)
      else op_bind (recordUnmatchedEvent rt (airwallex_unmatched rt task r reasonCode reasonMessage)) (\<lambda>_. op_return ()))"

definition airwallex_event :: "runtime \<Rightarrow> sync_task_row \<Rightarrow> airwallex_tx \<Rightarrow> string \<Rightarrow> string \<Rightarrow> string \<Rightarrow> int \<Rightarrow> rat \<Rightarrow> card_spend_event" where
  "airwallex_event rt task r external cardId employee t amount =
     \<lparr>ce_id = rt_fresh_id rt 0, ce_month = tk_month task, ce_provider = airwallex, ce_cardId = cardId,
      ce_employeeId = Some employee, ce_externalEventId = Some external, ce_transactionAt = t,
      ce_amount = Some (rt_column rt 6 amount), ce_currency = nx_currency r, ce_spendUsd = rt_column rt 6 amount,
      ce_settledAt = nx_settledAt r, ce_sourceStatus = nx_sourceStatus r, ce_sourceUpdatedAt = nx_sourceUpdatedAt r,
      ce_rawData = buildAirwallexRawSafeData rt r, ce_status = CS_confirmed, ce_importedBy = tk_requestedBy task\<rparr>"

definition airwallex_update :: "runtime \<Rightarrow> sync_task_row \<Rightarrow> airwallex_tx \<Rightarrow> string \<Rightarrow> string \<Rightarrow> int \<Rightarrow> rat \<Rightarrow> card_spend_event \<Rightarrow> card_spend_event" where
  "airwallex_update rt task r cardId employee t amount e =
     e\<lparr>ce_month := tk_month task, ce_cardId := cardId, ce_employeeId := Some employee, ce_transactionAt := t,
       ce_amount := Some (rt_column rt 6 amount), ce_currency := nx_currency r, ce_spendUsd := rt_column rt 6 amount,
       ce_settledAt := nx_settledAt r, ce_sourceStatus := nx_sourceStatus r, ce_sourceUpdatedAt := nx_sourceUpdatedAt r,
       ce_rawData := buildAirwallexRawSafeData rt r, ce_status := CS_confirmed, ce_importedBy := tk_requestedBy task\<rparr>"

definition spend_report :: "sync_task_row \<Rightarrow> sync_task_type \<Rightarrow> provider \<Rightarrow> string \<Rightarrow> string \<Rightarrow> string \<Rightarrow> import_report" where
  "spend_report task taskType provider external cardId employee =
     \<lparr>mt_settlementMonth = JDate (Some (tk_month task)), mt_thirdPartyEventId = external, mt_employeeId = employee,
      mt_resolvedBy = tk_requestedBy task, mt_target = Card_import taskType provider cardId\<rparr>"

definition airwallex_store :: "runtime \<Rightarrow> sync_task_row \<Rightarrow> airwallex_tx \<Rightarrow> string \<Rightarrow> string \<Rightarrow> string \<Rightarrow> int \<Rightarrow> bool handler" where
  "airwallex_store rt task r external cardId employee t =
     (case nx_amount r of
        None \<Rightarrow> op_throw prisma_validation_error
      | Some amount \<Rightarrow>
          op_bind (spend_upsert airwallex external (airwallex_event rt task r external cardId employee t amount)
            (airwallex_update rt task r cardId employee t amount)) (\<lambda>_.
          op_bind (resolveAfterSuccessfulImport rt (spend_report task airwallex_card airwallex external cardId employee)) (\<lambda>_.
          op_bind (markTransactionSync rt airwallex cardId ''completed'') (\<lambda>_.
          op_return True))))"

text \<open>The owner is looked up for the present (\<open>transactionAt\<close> is not passed).\<close>

definition airwallex_upsertCardSpendEvent :: "runtime \<Rightarrow> sync_task_row \<Rightarrow> airwallex_tx \<Rightarrow> bool handler" where
  "airwallex_upsertCardSpendEvent rt task r =
     (let unmatched = (\<lambda>code message. op_bind (airwallex_recordUnmatched rt task r code message) (\<lambda>_. op_return False))
      in case nx_externalEventId r of
           None \<Rightarrow> unmatched ''UNKNOWN'' ''Airwallex settled card transaction is missing external event id.''
         | Some external \<Rightarrow>
             (case nx_cardId r of
                None \<Rightarrow> unmatched ''CARD_ID_MISSING'' ''Airwallex settled card transaction is missing cardId.''
              | Some cardId \<Rightarrow>
                  (case nx_transactionAt r of
                     None \<Rightarrow> unmatched ''UNKNOWN'' ''Airwallex settled card transaction is missing transactionAt.''
                   | Some t \<Rightarrow>
                       if nx_currency r \<noteq> Some ''USD''
                       then unmatched ''INVALID_CURRENCY'' ''Airwallex settled card transaction currency is not USD.''
                       else
                         op_bind (resolveSpendOwner airwallex cardId (rt_now rt)) (\<lambda>ownership.
                         let refuse = (\<lambda>code message.
                           op_bind (airwallex_recordUnmatched rt task r code message) (\<lambda>_.
                           op_bind (markTransactionSync rt airwallex cardId (''unmatched:'' @ code)) (\<lambda>_.
                           op_return False)))
                         in case ownership of
                              Excluded_spend code message \<Rightarrow> refuse code message
                            | No_owner code message \<Rightarrow> refuse code message
                            | Spend_owner employee \<Rightarrow> airwallex_store rt task r external cardId employee t))))"

definition airwallex_step :: "sync_task_row \<Rightarrow> settlement_windows \<Rightarrow> tx_step" where
  "airwallex_step task window rt seen raw =
     op_bind (op_lift (normalizeAirwallexTransaction rt raw)) (\<lambda>r.
     if \<not> isSettled r then op_return (Tx_ignored, seen)
     else case nx_transactionAt r of
            None \<Rightarrow>
              op_bind (airwallex_recordUnmatched rt task r ''UNKNOWN'' ''Airwallex settled card transaction is missing transactionAt.'') (\<lambda>_.
              op_return (Tx_failed, seen))
          | Some t \<Rightarrow>
              if \<not> isInsideSettlementWindow t window then op_return (Tx_ignored, seen)
              else op_bind (airwallex_upsertCardSpendEvent rt task r) (\<lambda>done.
                   op_return (if done then Tx_succeeded else Tx_failed, seen)))"

section \<open>The adapter\<close>

definition AIRWALLEX_PAGE_SIZE :: nat where
  "AIRWALLEX_PAGE_SIZE = 100"

definition airwallex_pages :: "airwallex_client \<Rightarrow> airwallex_credential \<Rightarrow> settlement_windows \<Rightarrow> tx_pages" where
  "airwallex_pages client credential window page =
     bind_res (wk_listCardTransactions client credential (sw_requestFrom window) (sw_requestTo window) page AIRWALLEX_PAGE_SIZE)
       (\<lambda>(raws, has_more, next_page). Inr (raws, if \<not> has_more \<or> raws = [] then None else next_page))"

definition airwallex_run ::
  "inventory_env \<Rightarrow> nat \<Rightarrow> runtime \<Rightarrow> adapter_context \<Rightarrow> airwallex_credential \<Rightarrow> settlement_windows
     \<Rightarrow> (import_state \<times> app_exception option \<times> runtime) option handler" where
  "airwallex_run env fuel rt cx credential window =
     (let start = \<lparr>im_success = 0, im_failed = 0, im_seen = []\<rparr>; task = cx_task cx
      in op_bind (op_try (syncProviderWithPayload env rt airwallex (cx_payload cx) (currentShanghaiSettlementMonth rt))) (\<lambda>inventory.
         case inventory of
           Inl e \<Rightarrow> op_return (Some (start, Some e, rt))
         | Inr _ \<Rightarrow>
             import_pages (airwallex_pages (nv_airwallex env) credential window) (airwallex_step task window) fuel rt start 0))"

definition airwallex_execute :: "inventory_env \<Rightarrow> nat \<Rightarrow> runtime \<Rightarrow> adapter_context \<Rightarrow> adapter_result option handler" where
  "airwallex_execute env fuel rt cx =
     op_bind (op_lift (airwallex_assertContext cx)) (\<lambda>_.
     op_bind (op_lift (airwallex_parseCredentialPayload (nv_number env) (cx_payload cx))) (\<lambda>credential.
     let window = getAirwallexRequestAndSettlementWindows (tk_month (cx_task cx))
           (or_keep (wc_settlementDelayDays credential) DEFAULT_SETTLEMENT_DELAY_DAYS)
     in op_bind (airwallex_run env fuel rt cx credential window) (\<lambda>ended.
        case ended of
          None \<Rightarrow> op_return None
        | Some (st, failure, _) \<Rightarrow>
            (case failure of
               Some e \<Rightarrow>
                 op_bind (markUntouchedTransactionSync rt airwallex (rt_now rt) (error_mark e)) (\<lambda>_.
                 op_return (Some (spend_failure (nv_prisma_message env) [wc_clientId credential, wc_apiKey credential] st e)))
             | None \<Rightarrow>
                 op_bind (markUntouchedTransactionSync rt airwallex (rt_now rt) ''completed:no_transactions'') (\<lambda>_.
                 op_return (Some (spend_result ''Airwallex'' st)))))))"

end
