(* ===== verification/Photonpay_Sync.thy ===== *)
theory Photonpay_Sync
  imports Card_Spend
begin

text \<open>
  \<open>photonpay-card-sync.adapter.ts\<close>: the settled authorisations of PhotonPay in the requested part of
  a GMT+8 month become spend events with the provider's debit in USD. An event that is already there
  is never overwritten. A backfill is restricted to the cards matched by an alias, and a preview
  writes nothing. The statistics of the result payload are left out.
\<close>

section \<open>A transaction\<close>

text \<open>\<open>value.trim().replace(/[\s-]+/g, '_').toUpperCase()\<close>\<close>

definition is_separator :: "char \<Rightarrow> bool" where
  "is_separator c \<longleftrightarrow> is_js_space c \<or> c = CHR ''-''"

function underscored :: "string \<Rightarrow> string" where
  "underscored [] = []"
| "underscored (c # s) = (if is_separator c then CHR ''_'' # underscored (dropWhile is_separator s) else c # underscored s)"
  by pat_completeness auto
termination
  by (relation "measure length") (auto simp: less_Suc_eq_le length_dropWhile_le)

definition normalizeStatus :: "string option \<Rightarrow> string option" where
  "normalizeStatus value =
     (case value of None \<Rightarrow> None | Some s \<Rightarrow> if s = [] then None else Some (js_upper (underscored (js_trim s))))"

definition lastFour :: "string option \<Rightarrow> string option" where
  "lastFour value =
     (case value of None \<Rightarrow> None
      | Some s \<Rightarrow> (let digits = filter is_digit s in if 4 \<le> length digits then Some (last_four digits) else None))"

text \<open>\<open>/^\d{4}-\d{2}-\d{2}[T ]\d{2}:\d{2}:\d{2}(?:\.\d+)?$/\<close>: a local time without a zone is read as UTC.\<close>

definition digits_at :: "string \<Rightarrow> nat list \<Rightarrow> bool" where
  "digits_at s positions = list_all (\<lambda>i. is_digit (s ! i)) positions"

definition is_local_time :: "string \<Rightarrow> bool" where
  "is_local_time s \<longleftrightarrow>
     19 \<le> length s \<and> digits_at s [0, 1, 2, 3, 5, 6, 8, 9, 11, 12, 14, 15, 17, 18]
     \<and> s ! 4 = CHR ''-'' \<and> s ! 7 = CHR ''-'' \<and> (s ! 10 = CHR ''T'' \<or> s ! 10 = CHR '' '')
     \<and> s ! 13 = CHR '':'' \<and> s ! 16 = CHR '':''
     \<and> (let rest = drop 19 s in rest = [] \<or> (hd rest = CHR ''.'' \<and> tl rest \<noteq> [] \<and> list_all is_digit (tl rest)))"

definition photonpay_parseDate :: "runtime \<Rightarrow> jsval \<Rightarrow> js_date" where
  "photonpay_parseDate rt v =
     (case v of
        JString s \<Rightarrow> js_parse_date rt (if is_local_time s then take 10 s @ ''T'' @ drop 11 s @ ''Z'' else s)
      | JDate d \<Rightarrow> d
      | _ \<Rightarrow> None)"

text \<open>\<open>/^-\d{1,12}(?:\.\d{1,6})?$/\<close>, and the number such a text stands for.\<close>

definition is_debit_text :: "string \<Rightarrow> bool" where
  "is_debit_text s \<longleftrightarrow>
     s \<noteq> [] \<and> hd s = CHR ''-''
     \<and> (let whole = takeWhile is_digit (tl s); rest = dropWhile is_digit (tl s)
        in 1 \<le> length whole \<and> length whole \<le> 12
           \<and> (rest = [] \<or> (hd rest = CHR ''.'' \<and> 1 \<le> length (tl rest) \<and> length (tl rest) \<le> 6 \<and> list_all is_digit (tl rest))))"

definition debit_value :: "string \<Rightarrow> rat" where
  "debit_value s =
     (let whole = takeWhile is_digit (tl s); rest = tl (dropWhile is_digit (tl s))
      in - (of_nat (digits_to_nat whole) + of_nat (digits_to_nat rest) / 10 ^ length rest))"

datatype debit_issue = Debit_missing | Debit_invalid

record usd_debit =
  ud_amount :: "rat option"
  ud_signedAmount :: "rat option"
  ud_currency :: "string option"
  ud_issue :: "debit_issue option"

definition debit_of :: "jsval \<Rightarrow> string option \<Rightarrow> usd_debit" where
  "debit_of rawAmount currency =
     (let issue = (\<lambda>signed i. \<lparr>ud_amount = None, ud_signedAmount = signed, ud_currency = currency, ud_issue = Some i\<rparr>)
      in if is_nullish rawAmount \<or> rawAmount = JString [] then issue None Debit_missing
         else case rawAmount of
           JString s \<Rightarrow>
             (if \<not> is_debit_text (js_trim s) \<or> currency \<noteq> Some ''USD'' then issue None Debit_invalid
              else let signed = debit_value (js_trim s)
                   in if signed \<ge> 0 then issue (Some signed) Debit_invalid
                      else \<lparr>ud_amount = Some \<bar>signed\<bar>, ud_signedAmount = Some signed, ud_currency = currency, ud_issue = None\<rparr>)
         | _ \<Rightarrow> issue None Debit_invalid)"

definition parseProviderUsdDebit :: "json_record \<Rightarrow> usd_debit" where
  "parseProviderUsdDebit raw =
     debit_of (firstValue [js_get raw ''txnPrincipalChangeSettledAmount'', js_get raw ''txn_principal_change_settled_amount''])
       (map_option js_upper (firstString [js_get raw ''txnPrincipalChangeCurrency'', js_get raw ''txn_principal_change_currency'']))"

record photonpay_tx =
  px_externalEventId :: "string option"
  px_cardId :: "string option"
  px_cardLast4 :: "string option"
  px_transactionAt :: js_date
  px_amount :: "rat option"
  px_currency :: "string option"
  px_debit :: usd_debit
  px_settledAt :: js_date
  px_sourceStatus :: "string option"
  px_settleStatus :: "string option"
  px_transactionStatus :: "string option"
  px_transactionType :: "string option"
  px_sourceUpdatedAt :: js_date

definition normalizePhotonPayTransaction :: "runtime \<Rightarrow> json_record \<Rightarrow> photonpay_tx outcome" where
  "normalizePhotonPayTransaction rt raw =
     (let g = js_get raw;
          transactionType = firstString [g ''transactionType'', g ''transaction_type''];
          settleStatus = firstString [g ''settleStatus'', g ''settle_status''];
          credit = or_keep (normalizeStatus transactionType) [] \<in> set [''REFUND'', ''CORRECTIVE_REFUND'']
      in bind_res (unsigned_amount rt (firstValue [g ''transactionAmount'', g ''transaction_amount'', g ''amount''])) (\<lambda>amount.
         Inr \<lparr>px_externalEventId = firstString [g ''transactionId'', g ''transaction_id'', g ''id''],
              px_cardId = firstString [g ''cardId'', g ''card_id''],
              px_cardLast4 = lastFour (firstString [g ''maskCardNo'', g ''mask_card_no'', g ''cardLast4'']),
              px_transactionAt = photonpay_parseDate rt (firstValue [g ''txnDate'', g ''txn_date'']),
              px_amount = (if credit then map_option uminus amount else amount),
              px_currency = map_option js_upper (firstString [g ''transactionCurrency'', g ''transaction_currency'', g ''currency'']),
              px_debit = parseProviderUsdDebit raw,
              px_settledAt = photonpay_parseDate rt (firstValue [g ''settlementDate'', g ''settlement_date'']),
              px_sourceStatus = nonempty (js_join ''|'' (filter (\<lambda>s. s \<noteq> [])
                [or_keep settleStatus [], or_keep (firstString [g ''status'']) [], or_keep transactionType []])),
              px_settleStatus = settleStatus, px_transactionStatus = firstString [g ''status''],
              px_transactionType = transactionType,
              px_sourceUpdatedAt = photonpay_parseDate rt (firstValue [g ''createdAt'', g ''created_at'', g ''settlementDate'', g ''settlement_date''])\<rparr>))"

definition isSettledStatus :: "photonpay_tx \<Rightarrow> bool" where
  "isSettledStatus r \<longleftrightarrow>
     normalizeStatus (px_settleStatus r) = Some ''SETTLED'' \<and> normalizeStatus (px_transactionStatus r) = Some ''SUCCEED''"

definition isAllowedSpendType :: "photonpay_tx \<Rightarrow> bool" where
  "isAllowedSpendType r \<longleftrightarrow> or_keep (normalizeStatus (px_transactionType r)) [] \<in> set [''AUTH'', ''CORRECTIVE_AUTH'']"

text \<open>\<open>[a, b, ...].join('|')\<close> with an empty text for what is missing.\<close>

definition transaction_key :: "runtime \<Rightarrow> photonpay_tx \<Rightarrow> string" where
  "transaction_key rt r =
     (case px_externalEventId r of
        Some i \<Rightarrow> i
      | None \<Rightarrow> js_join ''|'' [or_keep (px_cardId r) [], or_keep (map_option iso_string (px_transactionAt r)) [],
          amount_text rt (px_amount r), or_keep (px_currency r) [], or_keep (px_transactionType r) []])"

definition decimal_or_null :: "runtime \<Rightarrow> rat option \<Rightarrow> jsval" where
  "decimal_or_null rt a = jstr_or_null (map_option (rt_show_decimal rt) a)"

definition buildPhotonPayRawSafeData :: "runtime \<Rightarrow> photonpay_tx \<Rightarrow> jsval" where
  "buildPhotonPayRawSafeData rt r =
     JObject
       ([(''settleStatus'', jstr_or_null (px_settleStatus r)), (''status'', jstr_or_null (px_transactionStatus r)),
         (''transactionType'', jstr_or_null (px_transactionType r)),
         (''originalTransactionAmount'', JString (amount_text rt (px_amount r))),
         (''originalTransactionCurrency'', jstr_or_null (px_currency r)),
         (''providerUsdDebitSourceField'', JString ''txnPrincipalChangeSettledAmount''),
         (''providerUsdDebitSignedAmount'', decimal_or_null rt (ud_signedAmount (px_debit r))),
         (''providerUsdDebitCurrency'', jstr_or_null (ud_currency (px_debit r))),
         (''providerUsdDebitAmount'', decimal_or_null rt (ud_amount (px_debit r)))]
        @ date_entry ''transactionAt'' (px_transactionAt r) @ date_entry ''settledAt'' (px_settledAt r))"

section \<open>The window of a run\<close>

record execution_window = settlement_windows +
  xw_verificationMode :: bool
  xw_historicalBackfillMode :: bool
  xw_previewOnly :: bool

definition with_modes :: "settlement_windows \<Rightarrow> js_date \<Rightarrow> js_date \<Rightarrow> int \<Rightarrow> bool \<Rightarrow> bool \<Rightarrow> bool \<Rightarrow> execution_window" where
  "with_modes w requestFrom requestTo delay verification backfill preview =
     \<lparr>sw_settlementStart = sw_settlementStart w, sw_settlementEnd = sw_settlementEnd w, sw_requestFrom = requestFrom,
      sw_requestTo = requestTo, sw_settlementDelayDays = delay, xw_verificationMode = verification,
      xw_historicalBackfillMode = backfill, xw_previewOnly = preview\<rparr>"

definition getPhotonPayExecutionWindow :: "runtime \<Rightarrow> sync_task_row \<Rightarrow> photonpay_credential \<Rightarrow> execution_window outcome" where
  "getPhotonPayExecutionWindow rt task credential =
     (let standard = getPhotonPayRequestAndSettlementWindows (tk_month task)
            (or_keep (yc_settlementDelayDays credential) DEFAULT_SETTLEMENT_DELAY_DAYS);
          backfill = field_of (asRecord (tk_requestPayload task)) ''historicalBackfill'';
          verification = field_of (asRecord (tk_requestPayload task)) ''verificationWindow''
      in if js_truthy backfill
         then bind_res (parsePhotonPayHistoricalBackfillWindow rt backfill (tk_month task)) (\<lambda>b.
              Inr (with_modes standard (Some (qw_from b)) (Some (qw_to b)) 0 False True (bw_previewOnly b)))
         else if \<not> js_truthy verification
         then Inr (with_modes standard (sw_requestFrom standard) (sw_requestTo standard) (sw_settlementDelayDays standard) False False False)
         else bind_res (parsePhotonPayVerificationWindow rt verification (tk_month task) False) (\<lambda>v.
              Inr (with_modes standard (Some (qw_from v)) (Some (qw_to v)) 0 True False False)))"

definition inside :: "int \<Rightarrow> js_date \<Rightarrow> js_date \<Rightarrow> bool" where
  "inside t start end_time \<longleftrightarrow> (case (start, end_time) of (Some a, Some b) \<Rightarrow> a \<le> t \<and> t < b | _ \<Rightarrow> False)"

definition isInsideRequestAndSettlementWindow :: "int \<Rightarrow> execution_window \<Rightarrow> bool" where
  "isInsideRequestAndSettlementWindow t w \<longleftrightarrow>
     inside t (sw_requestFrom w) (sw_requestTo w) \<and> inside t (sw_settlementStart w) (sw_settlementEnd w)"

section \<open>One transaction\<close>

datatype import_outcome = Import_created | Import_skipped | Import_excluded | Import_failed | Import_preview_created

definition photonpay_unmatched :: "runtime \<Rightarrow> sync_task_row \<Rightarrow> photonpay_tx \<Rightarrow> string \<Rightarrow> string \<Rightarrow> unmatched_input" where
  "photonpay_unmatched rt task r reasonCode reasonMessage =
     \<lparr>un_settlementMonth = JDate (Some (tk_month task)), un_sourceType = ''card_spend'',
      un_taskType = ''photonpay_card'', un_platform = None, un_provider = Some ''photonpay'',
      un_affiliateAccountId = None, un_syncTaskId = Some (tk_id task),
      un_thirdPartyEventId = px_externalEventId r, un_reasonCode = reasonCode, un_reasonMessage = Some reasonMessage,
      un_subField = None, un_subValue = None, un_cardId = px_cardId r, un_cardLast4 = px_cardLast4 r,
      un_cardEmail = None, un_amountUsd = ud_amount (px_debit r), un_currency = px_currency r,
      un_occurredAt = map_option Some (px_transactionAt r),
      un_rawSafeData = buildPhotonPayRawSafeData rt r, un_rawData = JUndefined\<rparr>"

definition photonpay_recordUnmatched :: "runtime \<Rightarrow> sync_task_row \<Rightarrow> photonpay_tx \<Rightarrow> string \<Rightarrow> string \<Rightarrow> unit handler" where
  "photonpay_recordUnmatched rt task r reasonCode reasonMessage =
     op_bind (recordUnmatchedEvent rt (photonpay_unmatched rt task r reasonCode reasonMessage)) (\<lambda>_. op_return ())"

definition recordFailureUnlessPreview :: "bool \<Rightarrow> runtime \<Rightarrow> sync_task_row \<Rightarrow> photonpay_tx \<Rightarrow> string \<Rightarrow> string \<Rightarrow> unit handler" where
  "recordFailureUnlessPreview preview rt task r reasonCode reasonMessage =
     (if preview then op_return () else photonpay_recordUnmatched rt task r reasonCode reasonMessage)"

definition unless_preview :: "bool \<Rightarrow> unit handler \<Rightarrow> unit handler" where
  "unless_preview preview m = (if preview then op_return () else m)"

definition failing :: "unit handler \<Rightarrow> import_outcome handler" where
  "failing m = op_bind m (\<lambda>_. op_return Import_failed)"

text \<open>
  The stored amounts are columns of six decimals. The original amount must be there and equal;
  an amount that is not finite equals none.
\<close>

definition sameImportedTransaction :: "card_spend_event \<Rightarrow> photonpay_tx \<Rightarrow> string \<Rightarrow> bool" where
  "sameImportedTransaction existing r employeeId \<longleftrightarrow>
     Some (ce_cardId existing) = px_cardId r \<and> ce_employeeId existing = Some employeeId
     \<and> Some (ce_transactionAt existing) = px_transactionAt r
     \<and> ce_amount existing \<noteq> None \<and> ce_amount existing = px_amount r
     \<and> ce_currency existing = px_currency r
     \<and> ud_amount (px_debit r) = Some (ce_spendUsd existing)
     \<and> ce_status existing = CS_confirmed"

definition photonpay_event :: "runtime \<Rightarrow> sync_task_row \<Rightarrow> photonpay_tx \<Rightarrow> string \<Rightarrow> string \<Rightarrow> string \<Rightarrow> int \<Rightarrow> rat \<Rightarrow> rat \<Rightarrow> card_spend_event" where
  "photonpay_event rt task r external cardId employee t amount debit =
     \<lparr>ce_id = rt_fresh_id rt 0, ce_month = tk_month task, ce_provider = photonpay, ce_cardId = cardId,
      ce_employeeId = Some employee, ce_externalEventId = Some external, ce_transactionAt = t,
      ce_amount = Some (rt_column rt 6 amount), ce_currency = px_currency r, ce_spendUsd = rt_column rt 6 debit,
      ce_settledAt = px_settledAt r, ce_sourceStatus = px_sourceStatus r, ce_sourceUpdatedAt = px_sourceUpdatedAt r,
      ce_rawData = buildPhotonPayRawSafeData rt r, ce_status = CS_confirmed, ce_importedBy = tk_requestedBy task\<rparr>"

definition photonpay_create :: "runtime \<Rightarrow> sync_task_row \<Rightarrow> photonpay_tx \<Rightarrow> string \<Rightarrow> string \<Rightarrow> string \<Rightarrow> int \<Rightarrow> rat \<Rightarrow> card_spend_event handler" where
  "photonpay_create rt task r external cardId employee t debit =
     (case px_amount r of
        None \<Rightarrow> op_throw prisma_validation_error
      | Some amount \<Rightarrow> event_insert (photonpay_event rt task r external cardId employee t amount debit))"

definition photonpay_store :: "runtime \<Rightarrow> sync_task_row \<Rightarrow> photonpay_tx \<Rightarrow> string \<Rightarrow> string \<Rightarrow> string \<Rightarrow> int \<Rightarrow> rat \<Rightarrow> import_outcome handler" where
  "photonpay_store rt task r external cardId employee t debit =
     op_bind (op_try (photonpay_create rt task r external cardId employee t debit)) (\<lambda>x.
     case x of
       Inl e \<Rightarrow>
         if \<not> isDuplicateError e then op_throw e
         else
           op_bind (op_get (find_spend photonpay external)) (\<lambda>raced.
           if (case raced of None \<Rightarrow> False | Some ev \<Rightarrow> sameImportedTransaction ev r employee) then op_return Import_skipped
           else failing (photonpay_recordUnmatched rt task r ''PROVIDER_USD_DEBIT_AMOUNT_MISMATCH''
             ''Concurrent PhotonPay event financial values do not match the provider USD debit; no overwrite was performed.''))
     | Inr _ \<Rightarrow>
         op_bind (resolveAfterSuccessfulImport rt
           \<lparr>mt_settlementMonth = JDate (Some (tk_month task)), mt_thirdPartyEventId = external, mt_employeeId = employee,
            mt_resolvedBy = tk_requestedBy task, mt_target = Card_import photonpay_card photonpay cardId\<rparr>) (\<lambda>_.
         op_bind (markTransactionSync rt photonpay cardId ''completed'') (\<lambda>_.
         op_return Import_created)))"

definition photonpay_owned :: "bool \<Rightarrow> runtime \<Rightarrow> sync_task_row \<Rightarrow> photonpay_tx \<Rightarrow> string \<Rightarrow> string \<Rightarrow> string \<Rightarrow> int \<Rightarrow> import_outcome handler" where
  "photonpay_owned preview rt task r external cardId employee t =
     (let fail = (\<lambda>code message. failing (recordFailureUnlessPreview preview rt task r code message))
      in if ud_issue (px_debit r) = Some Debit_missing
         then fail ''PROVIDER_USD_DEBIT_AMOUNT_MISSING'' ''PhotonPay settled transaction is missing txnPrincipalChangeSettledAmount.''
         else case (ud_issue (px_debit r), ud_amount (px_debit r)) of
           (None, Some debit) \<Rightarrow>
             op_bind (op_get (find_spend photonpay external)) (\<lambda>existing.
             case existing of
               Some ev \<Rightarrow>
                 if sameImportedTransaction ev r employee then op_return Import_skipped
                 else fail ''PROVIDER_USD_DEBIT_AMOUNT_MISMATCH''
                   ''Existing PhotonPay event financial values do not match the provider USD debit; no overwrite was performed.''
             | None \<Rightarrow>
                 if preview then op_return Import_preview_created
                 else photonpay_store rt task r external cardId employee t debit)
         | _ \<Rightarrow> fail ''PROVIDER_USD_DEBIT_AMOUNT_INVALID''
             ''PhotonPay txnPrincipalChangeSettledAmount must be a non-zero USD debit with at most 6 decimal places.'')"

definition photonpay_upsertCardSpendEvent :: "bool \<Rightarrow> runtime \<Rightarrow> sync_task_row \<Rightarrow> photonpay_tx \<Rightarrow> import_outcome handler" where
  "photonpay_upsertCardSpendEvent preview rt task r =
     (let fail = (\<lambda>code message. failing (recordFailureUnlessPreview preview rt task r code message))
      in case px_externalEventId r of
           None \<Rightarrow> fail ''EXTERNAL_EVENT_ID_MISSING'' ''PhotonPay settled transaction is missing external event id.''
         | Some external \<Rightarrow>
             (case px_cardId r of
                None \<Rightarrow> fail ''CARD_ID_MISSING'' ''PhotonPay settled transaction is missing cardId.''
              | Some cardId \<Rightarrow>
                  (case px_transactionAt r of
                     None \<Rightarrow> fail ''TRANSACTION_AT_MISSING'' ''PhotonPay settled transaction is missing transactionAt.''
                   | Some t \<Rightarrow>
                       op_bind (resolveSpendOwner photonpay cardId t) (\<lambda>ownership.
                       case ownership of
                         Excluded_spend code message \<Rightarrow>
                           op_bind (unless_preview preview (markTransactionSync rt photonpay cardId ''excluded:admin_test_card'')) (\<lambda>_.
                           op_return Import_excluded)
                       | No_owner code message \<Rightarrow>
                           op_bind (recordFailureUnlessPreview preview rt task r code message) (\<lambda>_.
                           op_bind (unless_preview preview (markTransactionSync rt photonpay cardId (''unmatched:'' @ code))) (\<lambda>_.
                           op_return Import_failed))
                       | Spend_owner employee \<Rightarrow> photonpay_owned preview rt task r external cardId employee t))))"

fun outcome_tx :: "import_outcome \<Rightarrow> tx_outcome" where
  "outcome_tx Import_failed = Tx_failed"
| "outcome_tx Import_excluded = Tx_ignored"
| "outcome_tx Import_created = Tx_succeeded"
| "outcome_tx Import_skipped = Tx_succeeded"
| "outcome_tx Import_preview_created = Tx_succeeded"

text \<open>The cards of a backfill: those matched by an alias, and those excluded.\<close>

record backfill_cards =
  bc_targetCardIds :: "string list"
  bc_excludedCardIds :: "string list"

definition spared_by_backfill :: "backfill_cards option \<Rightarrow> photonpay_tx \<Rightarrow> bool" where
  "spared_by_backfill targets r \<longleftrightarrow>
     (case targets of None \<Rightarrow> False
      | Some b \<Rightarrow> (case px_cardId r of None \<Rightarrow> True | Some c \<Rightarrow> c \<in> set (bc_excludedCardIds b) \<or> c \<notin> set (bc_targetCardIds b)))"

definition photonpay_step :: "sync_task_row \<Rightarrow> execution_window \<Rightarrow> backfill_cards option \<Rightarrow> tx_step" where
  "photonpay_step task window targets rt seen raw =
     op_bind (op_lift (normalizePhotonPayTransaction rt raw)) (\<lambda>r.
     let key = transaction_key rt r; preview = xw_previewOnly window
     in if key \<in> set seen then op_return (Tx_ignored, seen)
        else if \<not> isSettledStatus r \<or> \<not> isAllowedSpendType r then op_return (Tx_ignored, key # seen)
        else case px_transactionAt r of
          None \<Rightarrow>
            op_bind (recordFailureUnlessPreview preview rt task r ''TRANSACTION_AT_MISSING''
              ''PhotonPay settled transaction is missing transactionAt.'') (\<lambda>_.
            op_return (Tx_failed, key # seen))
        | Some t \<Rightarrow>
            if \<not> isInsideRequestAndSettlementWindow t window \<or> spared_by_backfill targets r
            then op_return (Tx_ignored, key # seen)
            else op_bind (photonpay_upsertCardSpendEvent preview rt task r) (\<lambda>outcome.
                 op_return (outcome_tx outcome, key # seen)))"

section \<open>The adapter\<close>

definition PHOTONPAY_PAGE_SIZE :: nat where
  "PHOTONPAY_PAGE_SIZE = 200"

definition HISTORICAL_BACKFILL_EXPECTED_CARD_COUNT :: nat where
  "HISTORICAL_BACKFILL_EXPECTED_CARD_COUNT = 60"

definition loadHistoricalBackfillCardSets :: "backfill_cards handler" where
  "loadHistoricalBackfillCardSets =
     op_bind (op_get (\<lambda>db. filter (\<lambda>c. pv_provider c = photonpay) (provider_cards db))) (\<lambda>cs.
     let targets = js_dedup (map pv_cardId (filter (\<lambda>c. pv_matchStatus c = CM_matched \<and> pv_matchSource c = Some provider_email_alias) cs))
     in if length targets \<noteq> HISTORICAL_BACKFILL_EXPECTED_CARD_COUNT
        then op_throw (AppError VALIDATION_ERROR
               (''PhotonPay historical backfill target set must contain exactly '' @ nat_string HISTORICAL_BACKFILL_EXPECTED_CARD_COUNT
                @ '' alias-matched cards; found '' @ nat_string (length targets) @ ''.''))
        else op_return \<lparr>bc_targetCardIds = targets,
               bc_excludedCardIds = js_dedup (map pv_cardId (filter (\<lambda>c. pv_matchStatus c = CM_excluded) cs))\<rparr>)"

definition photonpay_pages :: "photonpay_client \<Rightarrow> photonpay_credential \<Rightarrow> query_window \<Rightarrow> tx_pages" where
  "photonpay_pages client credential q page =
     bind_res (yk_listCardTransactions client credential (qw_from q) (qw_to q) page PHOTONPAY_PAGE_SIZE)
       (\<lambda>(raws, has_more). Inr (raws, if \<not> has_more \<or> raws = [] then None else Some (page + 1)))"

fun import_windows ::
  "(query_window \<Rightarrow> tx_pages) \<Rightarrow> tx_step \<Rightarrow> nat \<Rightarrow> runtime \<Rightarrow> import_state \<Rightarrow> query_window list
     \<Rightarrow> (import_state \<times> app_exception option) option handler" where
  "import_windows pages step fuel rt st [] = op_return (Some (st, None))"
| "import_windows pages step fuel rt st (q # qs) =
     op_bind (import_pages (pages q) step fuel rt st 1) (\<lambda>ended.
     case ended of
       None \<Rightarrow> op_return None
     | Some (st', Some e, _) \<Rightarrow> op_return (Some (st', Some e))
     | Some (st', None, rt') \<Rightarrow> import_windows pages step fuel rt' st' qs)"

definition query_windows :: "execution_window \<Rightarrow> query_window list" where
  "query_windows w =
     (case (sw_requestFrom w, sw_requestTo w) of
        (Some a, Some b) \<Rightarrow> splitPhotonPayQueryWindow a b | _ \<Rightarrow> [])"

text \<open>The part before the loop: the inventory, unless it is a preview, and the cards of a backfill.\<close>

definition photonpay_prepare :: "inventory_env \<Rightarrow> runtime \<Rightarrow> adapter_context \<Rightarrow> execution_window \<Rightarrow> backfill_cards option handler" where
  "photonpay_prepare env rt cx window =
     op_bind (unless_preview (xw_previewOnly window)
       (op_bind (syncProviderWithPayload env rt photonpay (cx_payload cx) (Some (tk_month (cx_task cx)))) (\<lambda>_. op_return ()))) (\<lambda>_.
     if xw_historicalBackfillMode window
     then op_bind loadHistoricalBackfillCardSets (\<lambda>b. op_return (Some b))
     else op_return None)"

definition photonpay_run ::
  "inventory_env \<Rightarrow> nat \<Rightarrow> runtime \<Rightarrow> adapter_context \<Rightarrow> photonpay_credential \<Rightarrow> execution_window
     \<Rightarrow> (import_state \<times> app_exception option) option handler" where
  "photonpay_run env fuel rt cx credential window =
     (let start = \<lparr>im_success = 0, im_failed = 0, im_seen = []\<rparr>
      in op_bind (op_try (photonpay_prepare env rt cx window)) (\<lambda>x.
         case x of
           Inl e \<Rightarrow> op_return (Some (start, Some e))
         | Inr targets \<Rightarrow>
             import_windows (photonpay_pages (nv_photonpay env) credential) (photonpay_step (cx_task cx) window targets)
               fuel rt start (query_windows window)))"

definition photonpay_assertContext :: "adapter_context \<Rightarrow> unit outcome" where
  "photonpay_assertContext cx =
     (let task = cx_task cx
      in if tk_sourceType task \<noteq> card_spend \<or> tk_taskType task \<noteq> photonpay_card
         then Inl (AppError VALIDATION_ERROR ''PhotonPay adapter only supports photonpay_card sync tasks.'')
         else if tk_platform task \<noteq> P_photonpay \<or> tk_provider task \<noteq> Some photonpay
         then Inl (AppError VALIDATION_ERROR ''card_spend provider/platform must be photonpay.'')
         else Inr ())"

definition photonpay_execute :: "inventory_env \<Rightarrow> nat \<Rightarrow> runtime \<Rightarrow> adapter_context \<Rightarrow> adapter_result option handler" where
  "photonpay_execute env fuel rt cx =
     op_bind (op_lift (photonpay_assertContext cx)) (\<lambda>_.
     op_bind (op_lift (parsePhotonPayCredential (nv_number env) (cx_payload cx))) (\<lambda>credential.
     op_bind (op_lift (getPhotonPayExecutionWindow rt (cx_task cx) credential)) (\<lambda>window.
     let spared = (xw_previewOnly window \<or> xw_historicalBackfillMode window)
     in op_bind (photonpay_run env fuel rt cx credential window) (\<lambda>ended.
        case ended of
          None \<Rightarrow> op_return None
        | Some (st, failure) \<Rightarrow>
            (case failure of
               Some e \<Rightarrow>
                 op_bind (unless_preview spared (markUntouchedTransactionSync rt photonpay (rt_now rt) (error_mark e))) (\<lambda>_.
                 op_return (Some (spend_failure (nv_prisma_message env) [yc_appId credential, yc_appSecret credential] st e)))
             | None \<Rightarrow>
                 op_bind (unless_preview spared (markUntouchedTransactionSync rt photonpay (rt_now rt) ''completed:no_transactions'')) (\<lambda>_.
                 op_return (Some (spend_result ''PhotonPay'' st))))))))"

end
