(* ===== verification/Card_Effects.thy ===== *)
theory Card_Effects
  imports Sync_Properties Airwallex_Sync Photonpay_Sync
begin

text \<open>
  What the card adapters do to the database, as a relation between the database before and after:
  a reflexive and transitive effect that every step has is an effect of the whole run (the locales
  \<open>write_effect\<close> and \<open>import_effect\<close>). The runs are interpreted with what they may write:
  PhotonPay appends events, Airwallex writes its own, and a preview writes nothing.
\<close>

section \<open>Effects\<close>

definition has_effect :: "(database \<Rightarrow> database \<Rightarrow> bool) \<Rightarrow> database \<Rightarrow> 'a handler \<Rightarrow> bool" where
  "has_effect R db m \<longleftrightarrow> R db (snd (m db))"

locale write_effect =
  fixes R :: "database \<Rightarrow> database \<Rightarrow> bool"
  assumes refl: "R db db" and trans: "R a b \<Longrightarrow> R b c \<Longrightarrow> R a c"
begin

lemma pure: "has_effect R db (op_return x)" "has_effect R db (op_throw e)" "has_effect R db (op_lift r)"
  "has_effect R db (op_get g)" "has_effect R db (op_assert b e)"
  by (simp_all add: has_effect_def refl op_assert_def)

lemma bind: "has_effect R db m \<Longrightarrow> (\<And>x db'. m db = (Inr x, db') \<Longrightarrow> has_effect R db' (f x)) \<Longrightarrow> has_effect R db (op_bind m f)"
  using trans by (fastforce simp: has_effect_def op_bind_def split: prod.split sum.split)

lemma get: "has_effect R db (f (g db)) \<Longrightarrow> has_effect R db (op_bind (op_get g) f)"
  by (simp add: has_effect_def)

lemma lift: "(\<And>x. r = Inr x \<Longrightarrow> has_effect R db (f x)) \<Longrightarrow> has_effect R db (op_bind (op_lift r) f)"
  by (cases r) (simp_all add: has_effect_def refl)

lemma attempt: "has_effect R db m \<Longrightarrow> has_effect R db (op_try m)"
  by (cases "m db") (simp add: has_effect_def op_try_def)

lemma if_else: "(c \<Longrightarrow> has_effect R db a) \<Longrightarrow> (\<not> c \<Longrightarrow> has_effect R db b) \<Longrightarrow> has_effect R db (if c then a else b)"
  by simp

lemma option_case:
  "(x = None \<Longrightarrow> has_effect R db a) \<Longrightarrow> (\<And>y. x = Some y \<Longrightarrow> has_effect R db (f y)) \<Longrightarrow>
     has_effect R db (case x of None \<Rightarrow> a | Some y \<Rightarrow> f y)"
  by (cases x) simp_all

lemma sum_case:
  "(\<And>y. x = Inl y \<Longrightarrow> has_effect R db (f y)) \<Longrightarrow> (\<And>y. x = Inr y \<Longrightarrow> has_effect R db (g y)) \<Longrightarrow>
     has_effect R db (case x of Inl y \<Rightarrow> f y | Inr y \<Rightarrow> g y)"
  by (cases x) simp_all

lemma owner_case:
  "(\<And>i. x = Spend_owner i \<Longrightarrow> has_effect R db (f i)) \<Longrightarrow> (\<And>c d. x = Excluded_spend c d \<Longrightarrow> has_effect R db (g c d)) \<Longrightarrow>
     (\<And>c d. x = No_owner c d \<Longrightarrow> has_effect R db (h c d)) \<Longrightarrow>
     has_effect R db (case x of Spend_owner i \<Rightarrow> f i | Excluded_spend c d \<Rightarrow> g c d | No_owner c d \<Rightarrow> h c d)"
  by (cases x) simp_all

lemmas steps = get lift if_else option_case sum_case owner_case pure bind

lemma transaction: "has_effect R db m \<Longrightarrow> has_effect R db (op_transaction m)"
  by (auto simp: has_effect_def op_transaction_def refl split: prod.split sum.split)

lemma catch: "has_effect R db m \<Longrightarrow> (\<And>e db'. m db = (Inl e, db') \<Longrightarrow> has_effect R db' (h e)) \<Longrightarrow> has_effect R db (op_catch m h)"
  using trans by (fastforce simp: has_effect_def op_catch_def split: prod.split sum.split)

lemma framed: "op_frame v UNIV m \<Longrightarrow> (\<And>db'. v db' = v db \<Longrightarrow> R db db') \<Longrightarrow> has_effect R db m"
  by (simp add: has_effect_def op_frame_def)

end

locale import_effect = write_effect R for R :: "database \<Rightarrow> database \<Rightarrow> bool" +
  fixes step :: tx_step and suits :: "runtime \<Rightarrow> bool"
  assumes step: "suits rt \<Longrightarrow> has_effect R db (step rt seen raw)"
    and suits_ids: "suits rt \<Longrightarrow> suits (ids_from n rt)"
begin

lemma batch: "suits rt \<Longrightarrow> has_effect R db (import_batch step rt st raws)"
proof (induction raws arbitrary: rt st db)
  case Nil
  show ?case using pure(1) by (simp only: import_batch.simps)
next
  case (Cons raw raws)
  show ?case
    by (auto intro!: bind attempt step Cons.prems pure Cons.IH suits_ids split: sum.split)
qed

lemma pages: "suits rt \<Longrightarrow> has_effect R db (import_pages fetch step fuel rt st page)"
proof (induction fuel arbitrary: rt st page db)
  case 0
  show ?case using pure(1) by (simp only: import_pages.simps)
next
  case (Suc fuel)
  show ?case
    by (auto intro!: bind batch pure Suc suits_ids simp: Let_def split: sum.split option.split)
qed

lemma pages_suit: "import_pages fetch step fuel rt st page db = (Inr (Some (st', failure, rt')), db') \<Longrightarrow> suits rt \<Longrightarrow> suits rt'"
proof (induction fuel arbitrary: rt st page db)
  case 0
  then show ?case by simp
next
  case (Suc fuel)
  then show ?case
    by (auto simp: op_bind_eq_Inr Let_def suits_ids split: sum.splits option.splits)
qed

lemma windows: "suits rt \<Longrightarrow> has_effect R db (import_windows fetches step fuel rt st qs)"
proof (induction qs arbitrary: rt st db)
  case Nil
  show ?case using pure(1) by (simp only: import_windows.simps)
next
  case (Cons q qs)
  show ?case
    by (auto intro!: bind pages pure Cons dest: pages_suit split: option.split)
qed

end

section \<open>Owners of spends\<close>

definition owners :: "database \<Rightarrow> provider \<Rightarrow> string \<Rightarrow> int \<Rightarrow> spend_owner" where
  "owners db = (\<lambda>p c t. spend_owner_of p c t db)"

lemma owner_cong:
  assumes "provider_cards a = provider_cards b" "employees a = employees b" "accounting_exclusions a = accounting_exclusions b"
  shows "owners a = owners b"
proof -
  have ex: "excluded_at t c a = excluded_at t c b" for t c by (simp add: excluded_at_def assms)
  show ?thesis unfolding owners_def spend_owner_of_def find_card_def ex assms by (rule refl)
qed

lemma find_row_update_rows:
  "(\<And>r. p (f r) = p r) \<Longrightarrow> find_row p (update_rows w f rows) = map_option (\<lambda>r. if w r then f r else r) (find_row p rows)"
  by (induction rows) (auto simp: update_rows_def)

lemma sync_mark_fields [simp]:
  "card_key (sync_mark rt s c) = card_key c" "pv_id (sync_mark rt s c) = pv_id c" "pv_employeeId (sync_mark rt s c) = pv_employeeId c"
  "pv_matchStatus (sync_mark rt s c) = pv_matchStatus c"
  by (simp_all add: sync_mark_def card_key_def)

lemma owners_mark: "owners (put_cards (update_rows w (sync_mark rt s) (provider_cards db)) db) = owners db"
  by (auto simp: owners_def fun_eq_iff spend_owner_of_def find_card_def put_cards_def find_row_update_rows excluded_at_def
      Let_def split: option.split)

text \<open>The tables a card run leaves alone: all but events, unmatched events and cards.\<close>

definition core :: "database \<Rightarrow> database" where
  "core db = db\<lparr>card_spend_events := [], unmatched_events := [], provider_cards := []\<rparr>"

lemma core_puts [simp]:
  "core (put_cards rows db) = core db" "core (put_unmatched us db) = core db" "core (put_spends es db) = core db"
  by (simp_all add: core_def put_cards_def put_unmatched_def put_spends_def)

text \<open>What a mark or an unmatched event leaves: the core, the owners and the events.\<close>

definition kept :: "database \<Rightarrow> database \<times> (provider \<Rightarrow> string \<Rightarrow> int \<Rightarrow> spend_owner) \<times> card_spend_event list" where
  "kept db = (core db, owners db, card_spend_events db)"

lemma kept_unmatched: "kept (put_unmatched us db) = kept db"
  using owner_cong [of "put_unmatched us db" db] by (simp add: kept_def put_unmatched_def core_def)

lemma kept_mark: "kept (put_cards (update_rows w (sync_mark rt s) (provider_cards db)) db) = kept db"
  by (simp add: kept_def owners_mark) (simp add: put_cards_def)

lemma kept_frames:
  "op_frame kept UNIV (recordUnmatchedEvent rt input)" "op_frame kept UNIV (resolveAfterSuccessfulImport rt report)"
  "op_frame kept UNIV (markTransactionSync rt p c s)" "op_frame kept UNIV (markUntouchedTransactionSync rt p t s)"
  unfolding recordUnmatchedEvent_def resolveAfterSuccessfulImport_def unmatched_insert_def unmatched_set_def
    markTransactionSync_def markUntouchedTransactionSync_def cards_update_many_def
  by (auto intro!: frame_intros op_frame_modify split: option.split)
    (simp_all add: kept_unmatched kept_mark)

lemma owners_spends [simp]: "owners (put_spends es db) = owners db"
  by (rule owner_cong) (simp_all add: put_spends_def)

lemma events_put [simp]: "card_spend_events (put_spends es db) = es"
  by (simp add: put_spends_def)

lemma ids_column [simp]: "rt_column (ids_from n rt) = rt_column rt"
  by (simp add: ids_from_def)

section \<open>PhotonPay appends\<close>

definition in_settlement_month :: "int \<Rightarrow> int \<Rightarrow> bool" where
  "in_settlement_month m t \<longleftrightarrow>
     (let w = getPhotonPayGmt8SettlementMonthWindow m in inside t (sw_settlementStart w) (sw_settlementEnd w))"

definition month_window :: "int \<Rightarrow> execution_window \<Rightarrow> bool" where
  "month_window m w \<longleftrightarrow>
     sw_settlementStart w = sw_settlementStart (getPhotonPayGmt8SettlementMonthWindow m)
     \<and> sw_settlementEnd w = sw_settlementEnd (getPhotonPayGmt8SettlementMonthWindow m)"

text \<open>A spend event as a PhotonPay run makes it, given who owns which card when.\<close>

definition photonpay_spend ::
  "(nat \<Rightarrow> rat \<Rightarrow> rat) \<Rightarrow> int \<Rightarrow> (provider \<Rightarrow> string \<Rightarrow> int \<Rightarrow> spend_owner) \<Rightarrow> card_spend_event \<Rightarrow> bool" where
  "photonpay_spend column m own e \<longleftrightarrow>
     ce_provider e = photonpay \<and> ce_month e = m \<and> ce_status e = CS_confirmed \<and> ce_externalEventId e \<noteq> None
     \<and> in_settlement_month m (ce_transactionAt e)
     \<and> (\<exists>i. ce_employeeId e = Some i \<and> own photonpay (ce_cardId e) (ce_transactionAt e) = Spend_owner i)
     \<and> (\<exists>debit > 0. ce_spendUsd e = column 6 debit)"

definition spend_keys :: "card_spend_event list \<Rightarrow> (provider \<times> string option) list" where
  "spend_keys es = map (\<lambda>e. (ce_provider e, ce_externalEventId e)) (filter (\<lambda>e. ce_externalEventId e \<noteq> None) es)"

definition spends_keyed :: "database \<Rightarrow> bool" where
  "spends_keyed db \<longleftrightarrow> distinct (spend_keys (card_spend_events db))"

definition appended :: "(nat \<Rightarrow> rat \<Rightarrow> rat) \<Rightarrow> int \<Rightarrow> database \<Rightarrow> database \<Rightarrow> bool" where
  "appended column m db db' \<longleftrightarrow> core db' = core db \<and> owners db' = owners db
     \<and> (\<exists>new. card_spend_events db' = card_spend_events db @ new \<and> list_all (photonpay_spend column m (owners db)) new
          \<and> (spends_keyed db \<longrightarrow> spends_keyed db'))"

interpretation photonpay_writes: write_effect "appended column m" for column m
proof unfold_locales
  show "appended column m db db" for db by (simp add: appended_def)
  show "appended column m a c" if "appended column m a b" "appended column m b c" for a b c
    using that by (auto simp: appended_def)
qed

lemma kept_appended: "op_frame kept UNIV h \<Longrightarrow> has_effect (appended column m) db h"
  by (erule photonpay_writes.framed) (auto simp: kept_def appended_def spends_keyed_def)

lemma record_effect: "has_effect (appended column m) db (recordFailureUnlessPreview preview rt task r code message)"
  unfolding recordFailureUnlessPreview_def photonpay_recordUnmatched_def
  by (intro photonpay_writes.if_else photonpay_writes.pure photonpay_writes.bind kept_appended kept_frames)

lemma mark_effect: "has_effect (appended column m) db (unless_preview preview (markTransactionSync rt p c s))"
  unfolding unless_preview_def by (intro photonpay_writes.if_else photonpay_writes.pure kept_appended kept_frames)

lemma spend_keys_append: "distinct (spend_keys es) \<Longrightarrow> \<not> list_ex (\<lambda>x. spend_clash x e) es \<Longrightarrow> distinct (spend_keys (es @ [e]))"
  by (auto simp: spend_keys_def spend_clash_def list_ex_iff)

text \<open>A debit without an issue is positive.\<close>

definition sound_debit :: "photonpay_tx \<Rightarrow> bool" where
  "sound_debit r \<longleftrightarrow> (case (ud_issue (px_debit r), ud_amount (px_debit r)) of (None, Some d) \<Rightarrow> 0 < d | _ \<Rightarrow> True)"

lemma sound_debitD: "sound_debit r \<Longrightarrow> ud_issue (px_debit r) = None \<Longrightarrow> ud_amount (px_debit r) = Some d \<Longrightarrow> 0 < d"
  by (simp add: sound_debit_def)

lemma parsed_debit:
  "case (ud_issue (debit_of v c), ud_amount (debit_of v c)) of (None, Some d) \<Rightarrow> 0 < d | _ \<Rightarrow> True"
  by (simp add: debit_of_def Let_def split: jsval.split)

lemma normalize_debit:
  assumes "normalizePhotonPayTransaction rt raw = Inr r"
  shows "px_debit r = parseProviderUsdDebit raw"
  using assms unfolding normalizePhotonPayTransaction_def Let_def bind_res_Inr_iff
  by (elim exE conjE) (simp only: sum.inject, drule sym, simp only: photonpay_tx.simps)

lemma normalize_sound: "normalizePhotonPayTransaction rt raw = Inr r \<Longrightarrow> sound_debit r"
  unfolding sound_debit_def by (simp only: normalize_debit parseProviderUsdDebit_def parsed_debit)

lemma create_effect:
  assumes "rt_column rt = column" "in_settlement_month (tk_month task) t" "0 < debit"
    and "spend_owner_of photonpay cardId t db = Spend_owner employee"
  shows "has_effect (appended column (tk_month task)) db (photonpay_create rt task r external cardId employee t debit)"
proof (cases "px_amount r")
  case None
  then show ?thesis using photonpay_writes.pure(2) by (simp add: photonpay_create_def)
next
  case (Some amount)
  let ?e = "photonpay_event rt task r external cardId employee t amount debit"
  have good: "photonpay_spend column (tk_month task) (owners db) ?e"
    using assms by (auto simp: photonpay_spend_def photonpay_event_def owners_def)
  show ?thesis
  proof (cases "list_ex (\<lambda>x. spend_clash x ?e) (card_spend_events db)")
    case True
    then show ?thesis using Some
      by (simp add: photonpay_create_def has_effect_def event_insert_def table_insert_def photonpay_writes.refl)
  next
    case False
    have "appended column (tk_month task) db (put_spends (card_spend_events db @ [?e]) db)"
      using good spend_keys_append [OF _ False] by (auto simp: appended_def spends_keyed_def)
    then show ?thesis using Some False by (simp add: photonpay_create_def has_effect_def event_insert_def table_insert_def)
  qed
qed

lemma store_effect:
  assumes "rt_column rt = column" "in_settlement_month (tk_month task) t" "0 < debit"
    and "spend_owner_of photonpay cardId t db = Spend_owner employee"
  shows "has_effect (appended column (tk_month task)) db (photonpay_store rt task r external cardId employee t debit)"
  unfolding photonpay_store_def failing_def photonpay_recordUnmatched_def
  by (rule photonpay_writes.bind [OF photonpay_writes.attempt [OF create_effect [OF assms]]])
    (intro photonpay_writes.steps kept_appended kept_frames)

lemma fail_effect: "has_effect (appended column m) db (failing (recordFailureUnlessPreview preview rt task r code message))"
  unfolding failing_def by (intro photonpay_writes.bind photonpay_writes.pure record_effect)

lemma owned_effect:
  assumes "rt_column rt = column" "in_settlement_month (tk_month task) t" "sound_debit r"
    and "spend_owner_of photonpay cardId t db = Spend_owner employee"
  shows "has_effect (appended column (tk_month task)) db (photonpay_owned preview rt task r external cardId employee t)"
proof -
  have store: "has_effect (appended column (tk_month task)) db (photonpay_store rt task r external cardId employee t debit)"
    if "ud_issue (px_debit r) = None" "ud_amount (px_debit r) = Some debit" for debit
    using that assms by (intro store_effect) (auto dest: sound_debitD)
  show ?thesis
    unfolding photonpay_owned_def Let_def prod.case
    by (intro photonpay_writes.steps fail_effect store)
qed

lemma spend_upsert_effect:
  assumes "rt_column rt = column" "sound_debit r"
    and month: "\<And>t. px_transactionAt r = Some t \<Longrightarrow> in_settlement_month (tk_month task) t"
  shows "has_effect (appended column (tk_month task)) db (photonpay_upsertCardSpendEvent preview rt task r)"
proof -
  have owned: "has_effect (appended column (tk_month task)) db (photonpay_owned preview rt task r external cardId employee t)"
    if "px_transactionAt r = Some t" "spend_owner_of photonpay cardId t db = Spend_owner employee" for external cardId employee t
    by (rule owned_effect [OF assms(1) month [OF that(1)] assms(2) that(2)])
  show ?thesis
    unfolding photonpay_upsertCardSpendEvent_def Let_def resolveSpendOwner_def
    apply (intro photonpay_writes.get photonpay_writes.if_else photonpay_writes.option_case photonpay_writes.owner_case fail_effect)
    apply (rule owned, assumption, assumption)
    apply (rule photonpay_writes.bind [OF mark_effect])
    apply (rule photonpay_writes.pure)
    apply (rule photonpay_writes.bind [OF record_effect])
    apply (rule photonpay_writes.bind [OF mark_effect])
    apply (rule photonpay_writes.pure)
    done
qed

lemma photonpay_step_effect:
  assumes "rt_column rt = column" "month_window (tk_month task) window"
  shows "has_effect (appended column (tk_month task)) db (photonpay_step task window targets rt seen raw)"
proof -
  have inside: "in_settlement_month (tk_month task) t" if "isInsideRequestAndSettlementWindow t window" for t
    using that assms(2) by (simp add: isInsideRequestAndSettlementWindow_def month_window_def in_settlement_month_def Let_def)
  have upsert: "has_effect (appended column (tk_month task)) db
      (op_bind (photonpay_upsertCardSpendEvent preview rt task r) (\<lambda>outcome. op_return (outcome_tx outcome, seen)))"
    if "normalizePhotonPayTransaction rt raw = Inr r" "px_transactionAt r = Some t"
      "\<not> (\<not> isInsideRequestAndSettlementWindow t window \<or> spared_by_backfill targets r)" for r t preview seen
    using that inside
    by (intro photonpay_writes.bind photonpay_writes.pure spend_upsert_effect [OF assms(1) normalize_sound [OF that(1)]]) simp
  show ?thesis
    unfolding photonpay_step_def Let_def
    apply (intro photonpay_writes.lift photonpay_writes.if_else photonpay_writes.option_case photonpay_writes.pure)
     apply (rule photonpay_writes.bind [OF record_effect])
     apply (rule photonpay_writes.pure)
    apply (rule upsert, assumption, assumption, assumption)
    done
qed

interpretation photonpay_imports: import_effect "appended (rt_column rt0) (tk_month task)" "photonpay_step task window targets"
  "\<lambda>rt. rt_column rt = rt_column rt0 \<and> month_window (tk_month task) window"
  for rt0 task window targets
  by unfold_locales (simp_all add: photonpay_step_effect)

text \<open>
  A run has two phases: the inventory, which writes cards only, and the import.
\<close>

definition inventory_only :: "database \<Rightarrow> database \<Rightarrow> bool" where
  "inventory_only db db' \<longleftrightarrow> db'\<lparr>provider_cards := []\<rparr> = db\<lparr>provider_cards := []\<rparr>"

interpretation inventory_writes: write_effect inventory_only
  by unfold_locales (simp_all add: inventory_only_def)

lemma card_upsert_effect: "has_effect inventory_only db (card_upsert p c create update)"
  by (simp add: has_effect_def card_upsert_def inventory_only_def put_cards_def split: option.split)

lemma store_cards_effect: "has_effect inventory_only db (store_cards p decide rt cards)"
proof (induction cards arbitrary: rt db)
  case Nil
  show ?case using inventory_writes.pure(1) by (simp only: store_cards.simps)
next
  case (Cons safe cards)
  show ?case
    unfolding store_cards.simps store_card_def Let_def
    by (intro inventory_writes.bind inventory_writes.pure card_upsert_effect Cons)
qed

lemma load_cards_effect: "has_effect inventory_only db (load_cards env rt p payload)"
  unfolding load_cards_def loadPhotonPay_def Let_def
  by (intro inventory_writes.if_else inventory_writes.lift inventory_writes.get inventory_writes.pure inventory_writes.bind)

lemma read_basis_effect: "has_effect inventory_only db (read_basis p rt m)"
  unfolding read_basis_def resolveEffectiveSubIdMappings_def
  by (intro inventory_writes.get inventory_writes.bind inventory_writes.if_else inventory_writes.option_case inventory_writes.pure)

lemma inventory_effect: "has_effect inventory_only db (syncProviderWithPayload env rt p payload m)"
  unfolding syncProviderWithPayload_def
  by (intro inventory_writes.bind inventory_writes.pure load_cards_effect read_basis_effect store_cards_effect)

lemma effect_seq:
  assumes "has_effect R db m" "\<And>x db'. m db = (Inr x, db') \<Longrightarrow> has_effect S db' (f x)"
    and "\<And>e db'. m db \<noteq> (Inl e, db')" "\<And>b c. R db b \<Longrightarrow> S b c \<Longrightarrow> T db c"
  shows "has_effect T db (op_bind m f)"
proof (cases "m db")
  case (Pair r db')
  then obtain x where "r = Inr x" using assms(3) by (cases r) auto
  then show ?thesis using assms(1,2,4) Pair by (simp add: has_effect_def op_bind_def)
qed

lemma effect_mono: "has_effect R db m \<Longrightarrow> (\<And>c. R db c \<Longrightarrow> T db c) \<Longrightarrow> has_effect T db m"
  by (simp add: has_effect_def)

lemma try_returns: "op_try m db \<noteq> (Inl e, db')"
  by (simp add: op_try_def split: prod.split)

text \<open>What a run as a whole does: it appends events whose cards are owned as the database then has it.\<close>

definition imported :: "(nat \<Rightarrow> rat \<Rightarrow> rat) \<Rightarrow> int \<Rightarrow> database \<Rightarrow> database \<Rightarrow> bool" where
  "imported column m db db' \<longleftrightarrow> core db' = core db
     \<and> (\<exists>new. card_spend_events db' = card_spend_events db @ new \<and> list_all (photonpay_spend column m (owners db')) new)
     \<and> (spends_keyed db \<longrightarrow> spends_keyed db')"

lemma inventory_then_appended: "inventory_only a b \<Longrightarrow> appended column m b c \<Longrightarrow> imported column m a c"
  by (cases a; cases b) (auto simp: inventory_only_def appended_def imported_def core_def spends_keyed_def)

lemma inventory_imported: "inventory_only a b \<Longrightarrow> imported column m a b"
  by (rule inventory_then_appended [OF _ photonpay_writes.refl])

lemma with_modes_month:
  "month_window m (with_modes (getPhotonPayRequestAndSettlementWindows m d) f t delay v b p)"
  by (simp add: month_window_def with_modes_def getPhotonPayGmt8SettlementMonthWindow_def
      getPhotonPayRequestAndSettlementWindows_def Let_def)

lemma execution_window_month: "getPhotonPayExecutionWindow rt task credential = Inr w \<Longrightarrow> month_window (tk_month task) w"
  by (auto simp: getPhotonPayExecutionWindow_def Let_def bind_res_Inr_iff with_modes_month split: if_splits)

lemma backfill_effect: "has_effect inventory_only db loadHistoricalBackfillCardSets"
  unfolding loadHistoricalBackfillCardSets_def Let_def
  by (intro inventory_writes.get inventory_writes.if_else inventory_writes.pure)

lemma prepare_effect: "has_effect inventory_only db (photonpay_prepare env rt cx window)"
  unfolding photonpay_prepare_def unless_preview_def
  by (intro inventory_writes.bind inventory_writes.if_else inventory_writes.pure inventory_effect backfill_effect)

lemma untouched_effect: "has_effect (appended column m) db (unless_preview preview (markUntouchedTransactionSync rt p t s))"
  unfolding unless_preview_def by (intro photonpay_writes.if_else photonpay_writes.pure kept_appended kept_frames)

text \<open>The run and what follows it, in the order of the effects.\<close>

lemma photonpay_run_effect:
  assumes "month_window (tk_month (cx_task cx)) window"
    and "\<And>ended db'. has_effect (appended (rt_column rt) (tk_month (cx_task cx))) db' (f ended)"
  shows "has_effect (imported (rt_column rt) (tk_month (cx_task cx))) db (op_bind (photonpay_run env fuel rt cx credential window) f)"
  unfolding photonpay_run_def Let_def bind_nested
proof (rule effect_seq [where R = inventory_only and S = "appended (rt_column rt) (tk_month (cx_task cx))"])
  show "has_effect inventory_only db (op_try (photonpay_prepare env rt cx window))"
    by (rule inventory_writes.attempt [OF prepare_effect])
qed (auto intro!: photonpay_writes.bind photonpay_writes.pure assms photonpay_imports.windows
    simp: try_returns inventory_then_appended split: sum.split)

lemma imported_nothing: "imported column m db db"
  by (rule inventory_imported [OF inventory_writes.refl])

lemma imported_lift:
  assumes "\<And>x. r = Inr x \<Longrightarrow> has_effect (imported column m) db (f x)"
  shows "has_effect (imported column m) db (op_bind (op_lift r) f)"
proof (cases r)
  case (Inl e)
  then show ?thesis using imported_nothing [of column m db] by (simp add: has_effect_def)
next
  case (Inr x)
  then show ?thesis using assms by (simp add: has_effect_def)
qed

lemma photonpay_execute_effect:
  "has_effect (imported (rt_column rt) (tk_month (cx_task cx))) db (photonpay_execute env fuel rt cx)"
proof -
  show ?thesis
    unfolding photonpay_execute_def Let_def
    by (intro imported_lift photonpay_run_effect execution_window_month photonpay_writes.option_case photonpay_writes.pure)
      (auto intro!: photonpay_writes.bind photonpay_writes.pure untouched_effect split: option.split)
qed

section \<open>A preview writes nothing\<close>

interpretation preview_writes: write_effect "(=) :: database \<Rightarrow> database \<Rightarrow> bool"
  by unfold_locales simp_all

lemma preview_reads:
  "has_effect (=) db (recordFailureUnlessPreview True rt task r code message)" "has_effect (=) db (unless_preview True m)"
  by (simp_all add: recordFailureUnlessPreview_def unless_preview_def has_effect_def)

lemma preview_owned: "has_effect (=) db (photonpay_owned True rt task r external cardId employee t)"
  unfolding photonpay_owned_def Let_def prod.case failing_def if_True
  by (intro preview_writes.get preview_writes.if_else preview_writes.option_case preview_writes.pure
      preview_writes.bind [OF preview_reads(1)])

lemma preview_upsert: "has_effect (=) db (photonpay_upsertCardSpendEvent True rt task r)"
  unfolding photonpay_upsertCardSpendEvent_def Let_def resolveSpendOwner_def failing_def
  by (intro preview_writes.get preview_writes.option_case preview_writes.owner_case preview_writes.pure preview_owned
      preview_writes.bind [OF preview_reads(1)] preview_writes.bind [OF preview_reads(2)])

lemma preview_step:
  assumes "xw_previewOnly window"
  shows "has_effect (=) db (photonpay_step task window targets rt seen raw)"
  unfolding photonpay_step_def Let_def assms [THEN eqTrueI]
  by (intro preview_writes.lift preview_writes.if_else preview_writes.option_case preview_writes.pure
      preview_writes.bind [OF preview_reads(1)] preview_writes.bind [OF preview_upsert])

interpretation preview_imports: import_effect "(=) :: database \<Rightarrow> database \<Rightarrow> bool" "photonpay_step task window targets"
  "\<lambda>_. xw_previewOnly window" for task window targets
  by unfold_locales (simp_all add: preview_step)

lemma preview_prepare: "xw_previewOnly window \<Longrightarrow> has_effect (=) db (photonpay_prepare env rt cx window)"
  unfolding photonpay_prepare_def loadHistoricalBackfillCardSets_def Let_def
  by (simp add: unless_preview_def)
    (intro conjI impI preview_writes.get preview_writes.bind preview_writes.if_else preview_writes.pure)

lemma preview_run:
  assumes "xw_previewOnly window"
  shows "has_effect (=) db (photonpay_run env fuel rt cx credential window)"
  unfolding photonpay_run_def Let_def
  by (intro preview_writes.bind preview_writes.attempt preview_prepare [OF assms] preview_writes.sum_case
      preview_writes.pure preview_imports.windows [OF assms])

lemma preview_execute:
  assumes "\<And>credential window. parsePhotonPayCredential (nv_number env) (cx_payload cx) = Inr credential \<Longrightarrow>
      getPhotonPayExecutionWindow rt (cx_task cx) credential = Inr window \<Longrightarrow> xw_previewOnly window"
  shows "has_effect (=) db (photonpay_execute env fuel rt cx)"
  unfolding photonpay_execute_def Let_def
  apply (intro preview_writes.lift)
  apply (rule preview_writes.bind [OF preview_run [OF assms]], assumption, assumption)
  apply (auto simp: assms unless_preview_def has_effect_def split: option.split)
  done

section \<open>Runs end\<close>

lemma batch_returns: "\<exists>x db'. import_batch step rt st raws db = (Inr x, db')"
proof (induction raws arbitrary: rt st db)
  case Nil
  show ?case by simp
next
  case (Cons raw raws)
  then show ?case by (auto simp: op_bind_def op_try_def split: prod.split sum.split)
qed

text \<open>The pages end: one after the other, at most \<open>n\<close> of them, until an error or the last.\<close>

fun pages_end :: "tx_pages \<Rightarrow> nat \<Rightarrow> nat \<Rightarrow> bool" where
  "pages_end fetch 0 page = False"
| "pages_end fetch (Suc n) page =
     (case fetch page of Inl e \<Rightarrow> True | Inr (raws, next_page) \<Rightarrow>
        (case next_page of None \<Rightarrow> True | Some p \<Rightarrow> pages_end fetch n p))"

lemma pages_return: "pages_end fetch fuel page \<Longrightarrow> \<exists>x db'. import_pages fetch step fuel rt st page db = (Inr (Some x), db')"
proof (induction fuel arbitrary: rt st page db)
  case 0
  then show ?case by simp
next
  case (Suc fuel)
  show ?case
  proof (cases "fetch page")
    case (Inl e)
    then show ?thesis by simp
  next
    case (Inr r)
    obtain raws next_page where r: "r = (raws, next_page)" by (cases r)
    obtain st' failure db' where b: "import_batch step rt st raws db = (Inr (st', failure), db')"
      using batch_returns [of step rt st raws db] by auto
    show ?thesis using Inr r b Suc by (auto simp: op_bind_def Let_def split: option.split)
  qed
qed

lemma windows_return:
  "list_all (\<lambda>q. pages_end (fetches q) fuel 1) qs \<Longrightarrow> \<exists>x db'. import_windows fetches step fuel rt st qs db = (Inr (Some x), db')"
proof (induction qs arbitrary: rt st db)
  case Nil
  show ?case by simp
next
  case (Cons q qs)
  then obtain st' failure rt' db' where "import_pages (fetches q) step fuel rt st 1 db = (Inr (Some (st', failure, rt')), db')"
    using pages_return [of "fetches q" fuel 1 step rt st db] by auto
  then show ?case using Cons by (auto simp: op_bind_def split: option.split)
qed

text \<open>More fuel than the pages need changes nothing.\<close>

lemma import_pages_more:
  "pages_end fetch fuel page \<Longrightarrow> fuel \<le> larger \<Longrightarrow> import_pages fetch step larger rt st page = import_pages fetch step fuel rt st page"
proof (induction fuel arbitrary: larger rt st page)
  case 0
  then show ?case by simp
next
  case (Suc fuel)
  obtain k where larger: "larger = Suc k" "fuel \<le> k" using Suc.prems(2) by (cases larger) auto
  show ?case
  proof (cases "fetch page")
    case (Inr r)
    then show ?thesis using Suc.prems(1) Suc.IH [OF _ larger(2)] larger(1)
      by (cases r; cases "snd r") (auto simp: Let_def op_bind_def fun_eq_iff split: prod.split sum.split option.split)
  qed (simp add: larger(1))
qed

lemma import_windows_more:
  "list_all (\<lambda>q. pages_end (fetches q) fuel 1) qs \<Longrightarrow> fuel \<le> larger \<Longrightarrow>
     import_windows fetches step larger rt st qs = import_windows fetches step fuel rt st qs"
proof (induction qs arbitrary: rt st)
  case (Cons q qs)
  then show ?case
    by (simp add: import_pages_more [where fuel = fuel and larger = larger] cong: option.case_cong)
qed simp

end
