(* ===== verification/Access_Sessions.thy ===== *)
theory Access_Sessions
  imports Auth_Service Card_Effects
begin

text \<open>
  The requests of access control as one step relation, and what they do to sessions: token hashes stay unique and a
  revoked session stays revoked (an interpretation of \<open>write_effect\<close>, \<open>steps_grow\<close>), so that its token is
  refused. Before that, the retries of a serializable transaction.
\<close>

section \<open>Serializable transactions\<close>

lemma attempt_outcome:
  "attempt_serializable n c message work db = op_transaction work db \<or> (\<exists>e. attempt_serializable n c message work db = (Inl e, db))"
proof (induction n arbitrary: c)
  case (Suc n)
  have roll: "op_transaction work db = (r, db') \<Longrightarrow> (\<exists>e. r = Inl e \<and> db' = db) \<or> (\<exists>x. r = Inr x)" for r db'
    by (auto simp: op_transaction_def split: prod.splits sum.splits)
  show ?case
  proof (cases "op_transaction work db")
    case (Pair r db')
    show ?thesis
    proof (cases "c = 0")
      case True
      then show ?thesis using Pair roll [OF Pair] Suc.IH [of 0]
        by (cases "\<exists>e. r = Inl e \<and> isTransactionConflict e") (auto simp: op_catch_def op_throw_def)
    next
      case False
      then show ?thesis using Suc.IH [of "c - 1"] by (auto simp: op_catch_def op_throw_def)
    qed
  qed
qed (simp add: op_throw_def)

lemma serializable_Inr: "serializable env message work db = (Inr x, db') \<Longrightarrow> work db = (Inr x, db')"
  using attempt_outcome [of MAX_TRANSACTION_ATTEMPTS "xe_conflicts env" message work db] op_transaction_eq_Inr [of work db x db']
  by (auto simp: serializable_def)

lemma serializable_Inl: "serializable env message work db = (Inl e, db') \<Longrightarrow> db' = db"
  using attempt_outcome [of MAX_TRANSACTION_ATTEMPTS "xe_conflicts env" message work db]
  by (auto simp: serializable_def op_transaction_def split: prod.splits sum.splits)

text \<open>Fewer than three conflicts are not seen by the caller; with three the request fails and has no effect.\<close>

lemma serializable_few:
  assumes "xe_conflicts env < 3" "\<And>db'. work db \<noteq> (Inl (PrismaKnownError ''P2034''), db')"
  shows "serializable env message work db = op_transaction work db"
proof -
  have catch: "op_catch (op_transaction work) (\<lambda>e. if \<not> isTransactionConflict e then op_throw e else h e) db = op_transaction work db" for h
    using assms(2) by (auto simp: op_catch_def op_transaction_def op_throw_def isTransactionConflict_def split: prod.splits sum.splits)
  have "xe_conflicts env = 0 \<or> xe_conflicts env = 1 \<or> xe_conflicts env = 2" using assms(1) by auto
  then show ?thesis
    by (auto simp: serializable_def MAX_TRANSACTION_ATTEMPTS_def eval_nat_numeral catch)
      (simp_all add: op_catch_def op_throw_def isTransactionConflict_def catch [unfolded op_catch_def isTransactionConflict_def])
qed

lemma serializable_many:
  "xe_conflicts env \<ge> 3 \<Longrightarrow> serializable env message work db = (Inl (AppError CONFLICT message), db)"
  by (simp add: serializable_def MAX_TRANSACTION_ATTEMPTS_def eval_nat_numeral op_catch_def op_throw_def isTransactionConflict_def)

section \<open>Sessions\<close>

text \<open>Token hashes stay unique, and the ones that are revoked stay revoked.\<close>

definition revoked_hashes :: "database \<Rightarrow> string set" where
  "revoked_hashes db = sx_tokenHash ` {s \<in> set (admin_session_rows db). sx_revokedAt s \<noteq> None}"

definition session_hashes :: "database \<Rightarrow> string list" where
  "session_hashes db = map sx_tokenHash (admin_session_rows db)"

definition sessions_grow :: "database \<Rightarrow> database \<Rightarrow> bool" where
  "sessions_grow a b \<longleftrightarrow>
     (distinct (session_hashes a) \<longrightarrow> distinct (session_hashes b)) \<and> revoked_hashes a \<subseteq> revoked_hashes b"

interpretation session_log: write_effect sessions_grow
  by unfold_locales (auto simp: sessions_grow_def)

lemma sessions_same: "admin_session_rows b = admin_session_rows a \<Longrightarrow> sessions_grow a b"
  by (simp add: sessions_grow_def session_hashes_def revoked_hashes_def)

lemma revoked_updated:
  assumes "\<And>s. sx_tokenHash (f s) = sx_tokenHash s" "\<And>s. sx_revokedAt s \<noteq> None \<Longrightarrow> sx_revokedAt (f s) \<noteq> None"
  shows "sx_tokenHash ` {s \<in> set rows. sx_revokedAt s \<noteq> None} \<subseteq>
         sx_tokenHash ` {s \<in> set (update_rows p f rows). sx_revokedAt s \<noteq> None}"
proof (rule image_subsetI)
  fix s assume s: "s \<in> {s \<in> set rows. sx_revokedAt s \<noteq> None}"
  let ?s = "if p s then f s else s"
  have "?s \<in> {s \<in> set (update_rows p f rows). sx_revokedAt s \<noteq> None}"
    using s assms(2) [of s] by (simp add: update_rows_def)
  moreover have "sx_tokenHash s = sx_tokenHash ?s" using assms(1) by simp
  ultimately show "sx_tokenHash s \<in> sx_tokenHash ` {s \<in> set (update_rows p f rows). sx_revokedAt s \<noteq> None}"
    by (rule rev_image_eqI)
qed

lemma sessions_updated:
  assumes "\<And>s. sx_tokenHash (f s) = sx_tokenHash s" "\<And>s. sx_revokedAt s \<noteq> None \<Longrightarrow> sx_revokedAt (f s) \<noteq> None"
  shows "sessions_grow db (put_sessions (update_rows p f (admin_session_rows db)) db)"
proof -
  have "map sx_tokenHash (update_rows p f rows) = map sx_tokenHash rows" for rows
    using assms(1) by (auto simp: update_rows_def)
  moreover have "revoked_hashes db \<subseteq> revoked_hashes (put_sessions (update_rows p f (admin_session_rows db)) db)"
    using revoked_updated [of f "admin_session_rows db" p] assms by (simp only: revoked_hashes_def put_sessions_def) simp
  ultimately show ?thesis by (simp add: sessions_grow_def session_hashes_def put_sessions_def)
qed

lemma grow_revoke: "has_effect sessions_grow db (revoke_where now p)"
  unfolding revoke_where_def
  by (intro session_log.steps) (simp add: has_effect_def sessions_updated)

lemma grow_touch: "has_effect sessions_grow db (touch_session rt session)"
  unfolding touch_session_def Let_def
  by (intro session_log.steps) (simp add: has_effect_def sessions_updated)

lemma grow_insert: "has_effect sessions_grow db (session_insert s)"
  by (auto simp: has_effect_def session_insert_def table_insert_def sessions_grow_def session_hashes_def revoked_hashes_def
      put_sessions_def list_ex_iff)

text \<open>Operations that do not write sessions.\<close>

lemma session_frames [frame_intros]:
  "looks_past_audit admin_session_rows" "op_frame admin_session_rows UNIV (admin_insert u)"
  "op_frame admin_session_rows UNIV (admin_set i f)" "op_frame admin_session_rows UNIV (role_insert r)"
  "op_frame admin_session_rows UNIV (role_set i g)"
  by (simp add: looks_past_audit_def)
     (auto intro!: frame_intros simp: admin_insert_def admin_set_def role_insert_def role_set_def put_admins_def put_roles_def)

lemma grow_framed: "op_frame admin_session_rows UNIV m \<Longrightarrow> has_effect sessions_grow db m"
  by (erule session_log.framed) (erule sessions_same)

lemma grow_basics:
  "has_effect sessions_grow db (admin_insert u)" "has_effect sessions_grow db (admin_set i f)"
  "has_effect sessions_grow db (role_insert r)" "has_effect sessions_grow db (role_set i g)"
  "has_effect sessions_grow db (audit_success a)" "has_effect sessions_grow db (audit_failure a)"
  by (auto intro!: grow_framed frame_intros)

lemma grow_modify: "(\<And>d. admin_session_rows (g d) = admin_session_rows d) \<Longrightarrow> has_effect sessions_grow db (op_modify g)"
  by (simp add: has_effect_def sessions_same)

lemma grow_serializable: "has_effect sessions_grow db work \<Longrightarrow> has_effect sessions_grow db (serializable env message work)"
  using attempt_outcome [of MAX_TRANSACTION_ATTEMPTS "xe_conflicts env" message work db] session_log.transaction [of db work]
  by (auto simp: has_effect_def serializable_def session_log.refl)

lemmas grow_steps = session_log.get session_log.lift session_log.if_else session_log.option_case session_log.pure
  grow_basics grow_revoke grow_touch grow_insert session_log.transaction grow_serializable session_log.catch session_log.bind

lemma grow_parts:
  "has_effect sessions_grow db (requireActiveRoles ids)" "has_effect sessions_grow db requireSuperAdminRole"
  "has_effect sessions_grow db (require_admin i)" "has_effect sessions_grow db (assertAnotherEnabledSuperAdmin i r)"
  "has_effect sessions_grow db (revokeSessions rt i)" "has_effect sessions_grow db (replace_roles i ids)"
  "has_effect sessions_grow db (user_roles_createMany i ids)"
  unfolding requireActiveRoles_def requireSuperAdminRole_def require_admin_def assertAnotherEnabledSuperAdmin_def
    revokeSessions_def replace_roles_def user_roles_deleteMany_def user_roles_createMany_def
  by (intro grow_steps grow_modify; simp add: put_user_roles_def)+

lemma grow_role_parts:
  "has_effect sessions_grow db (assertUniqueName n x)" "has_effect sessions_grow db (requirePermissions ids)"
  "has_effect sessions_grow db (require_role i)" "has_effect sessions_grow db (revokeRoleSessions rt i)"
  "has_effect sessions_grow db (role_permissions_createMany i ids)" "has_effect sessions_grow db (checked_permissions r p)"
  "has_effect sessions_grow db (replace_permissions rt i ids)" "has_effect sessions_grow db (apply_permissions rt i before p)"
  "has_effect sessions_grow db (free_name env i r name)"
  unfolding assertUniqueName_def requirePermissions_def require_role_def revokeRoleSessions_def replace_permissions_def
    role_permissions_deleteMany_def role_permissions_createMany_def checked_permissions_def apply_permissions_def free_name_def
  by (intro grow_steps grow_modify; simp add: put_role_permissions_def)+

lemma grow_admins:
  "has_effect sessions_grow db (createAdmin env rt input actor)"
  "has_effect sessions_grow db (updateAdmin env rt i input actor)"
  "has_effect sessions_grow db (resetPassword env rt i input actor)"
  "has_effect sessions_grow db (setAdminEnabled env rt i enabled actor)"
  unfolding createAdmin_def create_admin_row_def updateAdmin_def update_admin_row_def write_admin_def resetPassword_def reset_password_row_def
    setAdminEnabled_def set_enabled_row_def Let_def
  by (intro grow_steps grow_parts)+

lemma grow_roles:
  "has_effect sessions_grow db (createRole env rt input actor)"
  "has_effect sessions_grow db (updateRole env rt i input actor)"
  "has_effect sessions_grow db (setRoleEnabled env rt i enabled actor)"
  unfolding createRole_def create_role_row_def updateRole_def update_role_row_def write_role_def setRoleEnabled_def set_role_enabled_row_def Let_def
  by (intro grow_steps grow_role_parts)+

lemma grow_auth:
  "has_effect sessions_grow db (login env rt ttl input cx)" "has_effect sessions_grow db (logout rt i actor)"
  "has_effect sessions_grow db (changePassword env rt input actor)" "has_effect sessions_grow db (revokeSession rt i c actor)"
  "has_effect sessions_grow db (logoutAll rt actor)" "has_effect sessions_grow db (authenticate rt public h)"
  "has_effect sessions_grow db (check_permissions required anyOf who)"
  unfolding login_def open_session_def logout_def changePassword_def store_password_def revoke_live_sessions_def revokeSession_def
    logoutAll_def authenticate_def check_permissions_def Let_def
  by (intro grow_steps grow_modify; simp add: put_admins_def)+

section \<open>Requests\<close>

text \<open>Every request of the three services, with any input, by any actor, at any time.\<close>

inductive access_step :: "database \<Rightarrow> database \<Rightarrow> bool" where
  create_admin: "access_step db (snd (createAdmin env rt input actor db))"
| update_admin: "access_step db (snd (updateAdmin env rt i input actor db))"
| reset_password: "access_step db (snd (resetPassword env rt i input actor db))"
| set_admin_enabled: "access_step db (snd (setAdminEnabled env rt i enabled actor db))"
| create_role: "access_step db (snd (createRole env rt input actor db))"
| update_role: "access_step db (snd (updateRole env rt i input actor db))"
| set_role_enabled: "access_step db (snd (setRoleEnabled env rt i enabled actor db))"
| sign_in: "access_step db (snd (login env rt ttl input context db))"
| sign_out: "access_step db (snd (logout rt i actor db))"
| change_password: "access_step db (snd (changePassword env rt input actor db))"
| revoke_session: "access_step db (snd (revokeSession rt i current actor db))"
| sign_out_all: "access_step db (snd (logoutAll rt actor db))"
| admit: "access_step db (snd (authenticate rt public header db))"
| permit: "access_step db (snd (check_permissions required anyOf who db))"

lemmas grow_requests = grow_admins grow_roles grow_auth

lemma step_grows: "access_step a b \<Longrightarrow> sessions_grow a b"
  by (induction rule: access_step.induct) (simp_all add: grow_requests [unfolded has_effect_def])

lemma steps_grow: "access_step\<^sup>*\<^sup>* a b \<Longrightarrow> sessions_grow a b"
  by (induction rule: rtranclp_induct) (auto intro: session_log.refl session_log.trans step_grows)

lemma refused_when_revoked:
  assumes "distinct (session_hashes db)" "hashSessionToken rt token \<in> revoked_hashes db"
  shows "live_session rt token db = None"
proof -
  obtain s where s: "s \<in> set (admin_session_rows db)" "sx_revokedAt s \<noteq> None" "sx_tokenHash s = hashSessionToken rt token"
    using assms(2) by (auto simp: revoked_hashes_def)
  have "x = s" if "x \<in> set (admin_session_rows db)" "sx_tokenHash x = hashSessionToken rt token" for x
    using assms(1) s that by (simp add: session_hashes_def distinct_map inj_on_def)
  then show ?thesis using s(2) by (auto simp: live_session_def find_row_None)
qed

lemma revoked_token_refused:
  assumes "sessions_grow db db'" "distinct (session_hashes db)" "s \<in> set (admin_session_rows db)" "sx_revokedAt s \<noteq> None"
    and "extractBearerToken header = Some token" "hashSessionToken rt token = sx_tokenHash s"
  shows "authenticate rt False header db' = (Inl INVALID_TOKEN, db')"
proof -
  have "hashSessionToken rt token \<in> revoked_hashes db'" "distinct (session_hashes db')"
    using assms by (auto simp: sessions_grow_def revoked_hashes_def)
  then show ?thesis using assms(5) by (simp add: authenticate_def refused_when_revoked op_throw_def)
qed

section \<open>Ending sessions\<close>

lemma revoke_where_rows:
  assumes "revoke_where now p db = (Inr n, db')" "\<And>s r. p (s\<lparr>sx_revokedAt := r\<rparr>) = p s"
    and "s \<in> set (admin_session_rows db')" "p s"
  shows "sx_revokedAt s \<noteq> None"
  using assms by (auto simp: revoke_where_def op_bind_eq_Inr update_rows_def put_sessions_def)

end
