(* ===== verification/Card_Governance.thy ===== *)
theory Card_Governance
  imports Card_Inventory
begin

text \<open>
  \<open>photonpay-card-governance.service.ts\<close>: an administrator gives the emails of PhotonPay cards to
  employees (aliases), takes cards out of accounting (exclusions) and matches again the cards that
  have no owner. The three tables have triggers (migration \<open>20260821010000\<close>): the active aliases
  of an email do not overlap, neither do the active exclusions of a card, exclusions are for
  PhotonPay cards, and resolutions are only appended. The payloads of the audit rows are left out.
\<close>

section \<open>Fields of a request\<close>

text \<open>
  A date may be a text or a Date; \<open>new Date\<close> of a number or a truth value is a number of milliseconds. Any
  other value, which the type of the input excludes, is taken as invalid.
\<close>

definition new_Date :: "runtime \<Rightarrow> jsval \<Rightarrow> js_date" where
  "new_Date rt v =
     (case v of
        JDate d \<Rightarrow> d
      | JString s \<Rightarrow> js_parse_date rt s
      | JNum x \<Rightarrow> time_clip (if x < 0 then \<lceil>x\<rceil> else \<lfloor>x\<rfloor>)
      | JBool b \<Rightarrow> Some (if b then 1 else 0)
      | _ \<Rightarrow> None)"

definition governance_parseDate :: "runtime \<Rightarrow> jsval \<Rightarrow> string \<Rightarrow> int option \<Rightarrow> int outcome" where
  "governance_parseDate rt v field fallback =
     (if is_absent v
      then case fallback of Some t \<Rightarrow> Inr t | None \<Rightarrow> Inl (AppError VALIDATION_ERROR (field @ '' is required.''))
      else case new_Date rt v of Some t \<Rightarrow> Inr t
           | None \<Rightarrow> Inl (AppError VALIDATION_ERROR (field @ '' must be a valid date.'')))"

definition governance_optionalDate :: "runtime \<Rightarrow> jsval \<Rightarrow> string \<Rightarrow> int option outcome" where
  "governance_optionalDate rt v field =
     (if is_absent v then Inr None else bind_res (governance_parseDate rt v field None) (\<lambda>t. Inr (Some t)))"

definition assertPeriod :: "int \<Rightarrow> int option \<Rightarrow> unit outcome" where
  "assertPeriod start end_time =
     (case end_time of
        Some e \<Rightarrow> if e \<le> start then Inl (AppError VALIDATION_ERROR ''The effective end must be after the start.'') else Inr ()
      | None \<Rightarrow> Inr ())"

definition assertConfirmed :: "jsval \<Rightarrow> unit outcome" where
  "assertConfirmed v =
     (if v = JBool True then Inr () else Inl (AppError VALIDATION_ERROR ''Explicit confirmation is required.''))"

definition requireText :: "jsval \<Rightarrow> string \<Rightarrow> nat \<Rightarrow> string outcome" where
  "requireText v field limit =
     (case v of
        JString s \<Rightarrow>
          (if js_trim s = [] \<or> limit < length (js_trim s) then Inl (AppError VALIDATION_ERROR (field @ '' is invalid.''))
           else Inr (js_trim s))
      | _ \<Rightarrow> Inl (AppError VALIDATION_ERROR (field @ '' is invalid.'')))"

definition optionalText :: "jsval \<Rightarrow> string \<Rightarrow> nat \<Rightarrow> string option outcome" where
  "optionalText v field limit =
     (if is_absent v then Inr None else bind_res (requireText v field limit) (\<lambda>s. Inr (Some s)))"

definition read_period :: "runtime \<Rightarrow> jsval \<Rightarrow> jsval \<Rightarrow> string \<Rightarrow> string \<Rightarrow> int option \<Rightarrow> (int \<times> int option) outcome" where
  "read_period rt start end_time start_field end_field fallback =
     bind_res (governance_parseDate rt start start_field fallback) (\<lambda>a.
     bind_res (governance_optionalDate rt end_time end_field) (\<lambda>b.
     bind_res (assertPeriod a b) (\<lambda>_. Inr (a, b))))"

definition emailDigest :: "runtime \<Rightarrow> string \<Rightarrow> string" where
  "emailDigest rt value = rt_sha256_hex rt value"

definition idDigest :: "runtime \<Rightarrow> string \<Rightarrow> string" where
  "idDigest rt value = emailDigest rt (''provider-card:'' @ value)"

section \<open>Tables\<close>

text \<open>\<open>tsrange(a, b, '[)') && tsrange(c, d, '[)')\<close> with no end as infinity\<close>

definition periods_overlap :: "int \<times> int option \<Rightarrow> int \<times> int option \<Rightarrow> bool" where
  "periods_overlap p q \<longleftrightarrow>
     (case snd q of None \<Rightarrow> True | Some e \<Rightarrow> fst p < e) \<and> (case snd p of None \<Rightarrow> True | Some e \<Rightarrow> fst q < e)"

definition alias_period :: "email_alias \<Rightarrow> int \<times> int option" where
  "alias_period a = (ea_validFrom a, ea_validTo a)"

definition exclusion_period :: "accounting_exclusion \<Rightarrow> int \<times> int option" where
  "exclusion_period x = (ax_effectiveFrom x, ax_effectiveTo x)"

definition aliases_overlap :: "email_alias \<Rightarrow> email_alias \<Rightarrow> bool" where
  "aliases_overlap a b \<longleftrightarrow>
     ea_status a = CS_active \<and> ea_status b = CS_active \<and> ea_provider a = ea_provider b
     \<and> ea_aliasEmailNormalized a = ea_aliasEmailNormalized b \<and> periods_overlap (alias_period a) (alias_period b)"

definition exclusions_overlap :: "accounting_exclusion \<Rightarrow> accounting_exclusion \<Rightarrow> bool" where
  "exclusions_overlap x y \<longleftrightarrow>
     ax_status x = CS_active \<and> ax_status y = CS_active \<and> ax_providerCardId x = ax_providerCardId y
     \<and> periods_overlap (exclusion_period x) (exclusion_period y)"

definition alias_key :: "email_alias \<Rightarrow> provider \<times> string \<times> int" where
  "alias_key a = (ea_provider a, ea_aliasEmailNormalized a, ea_validFrom a)"

definition exclusion_key :: "accounting_exclusion \<Rightarrow> string \<times> int" where
  "exclusion_key x = (ax_providerCardId x, ax_effectiveFrom x)"

definition put_aliases :: "email_alias list \<Rightarrow> database \<Rightarrow> database" where
  "put_aliases rows db = db\<lparr>email_aliases := rows\<rparr>"

definition put_exclusions :: "accounting_exclusion list \<Rightarrow> database \<Rightarrow> database" where
  "put_exclusions rows db = db\<lparr>accounting_exclusions := rows\<rparr>"

definition put_resolutions :: "match_resolution list \<Rightarrow> database \<Rightarrow> database" where
  "put_resolutions rows db = db\<lparr>match_resolutions := rows\<rparr>"

definition ALIAS_OVERLAP :: app_exception where
  "ALIAS_OVERLAP = JsError ''provider email alias effective period overlaps an active alias''"

definition EXCLUSION_OVERLAP :: app_exception where
  "EXCLUSION_OVERLAP = JsError ''provider card exclusion effective period overlaps an active exclusion''"

text \<open>The trigger runs before the constraints; an alias refers to an employee.\<close>

definition alias_guard :: "email_alias \<Rightarrow> unit handler" where
  "alias_guard row =
     op_bind (op_get (\<lambda>db. list_ex (\<lambda>a. ea_id a \<noteq> ea_id row \<and> aliases_overlap a row) (email_aliases db))) (\<lambda>overlap.
     op_bind (op_assert (\<not> overlap) ALIAS_OVERLAP) (\<lambda>_.
     op_bind (op_get (\<lambda>db. list_ex (\<lambda>e. em_id e = ea_employeeId row) (employees db))) (\<lambda>known.
     op_assert known (PrismaKnownError ''P2003''))))"

text \<open>The unique constraints: the primary key and \<open>(provider, alias email, valid from)\<close>, \<open>(card, effective from)\<close>.\<close>

definition same_alias_key :: "email_alias \<Rightarrow> email_alias \<Rightarrow> bool" where
  "same_alias_key a b \<longleftrightarrow> ea_id a = ea_id b \<or> alias_key a = alias_key b"

definition alias_insert :: "email_alias \<Rightarrow> email_alias handler" where
  "alias_insert row = op_bind (alias_guard row) (\<lambda>_. table_insert email_aliases put_aliases same_alias_key row)"

definition alias_set :: "string \<Rightarrow> (email_alias \<Rightarrow> email_alias) \<Rightarrow> email_alias handler" where
  "alias_set i f =
     op_bind (op_get (\<lambda>db. find_row (\<lambda>a. ea_id a = i) (email_aliases db))) (\<lambda>found.
     case found of
       None \<Rightarrow> op_throw (PrismaKnownError ''P2025'')
     | Some a \<Rightarrow> op_bind (alias_guard (f a)) (\<lambda>_. table_update email_aliases put_aliases same_alias_key ea_id i f))"

definition exclusion_guard :: "accounting_exclusion \<Rightarrow> unit handler" where
  "exclusion_guard row =
     op_bind (op_get (\<lambda>db. list_ex (\<lambda>c. pv_id c = ax_providerCardId row \<and> pv_provider c = photonpay) (provider_cards db))) (\<lambda>ours.
     op_bind (op_assert ours (JsError ''provider card accounting exclusions are restricted to PhotonPay cards'')) (\<lambda>_.
     op_bind (op_get (\<lambda>db. list_ex (\<lambda>x. ax_id x \<noteq> ax_id row \<and> exclusions_overlap x row) (accounting_exclusions db))) (\<lambda>overlap.
     op_assert (\<not> overlap) EXCLUSION_OVERLAP)))"

definition same_exclusion_key :: "accounting_exclusion \<Rightarrow> accounting_exclusion \<Rightarrow> bool" where
  "same_exclusion_key x y \<longleftrightarrow> ax_id x = ax_id y \<or> exclusion_key x = exclusion_key y"

definition exclusion_insert :: "accounting_exclusion \<Rightarrow> accounting_exclusion handler" where
  "exclusion_insert row =
     op_bind (exclusion_guard row) (\<lambda>_. table_insert accounting_exclusions put_exclusions same_exclusion_key row)"

definition exclusion_set :: "string \<Rightarrow> (accounting_exclusion \<Rightarrow> accounting_exclusion) \<Rightarrow> accounting_exclusion handler" where
  "exclusion_set i f =
     op_bind (op_get (\<lambda>db. find_row (\<lambda>x. ax_id x = i) (accounting_exclusions db))) (\<lambda>found.
     case found of
       None \<Rightarrow> op_throw (PrismaKnownError ''P2025'')
     | Some x \<Rightarrow> op_bind (exclusion_guard (f x)) (\<lambda>_.
         table_update accounting_exclusions put_exclusions same_exclusion_key ax_id i f))"

definition same_card_key :: "provider_card \<Rightarrow> provider_card \<Rightarrow> bool" where
  "same_card_key c d \<longleftrightarrow> card_key c = card_key d"

text \<open>\<open>providerCard.update\<close> of the four columns of a match\<close>

definition rematched :: "runtime \<Rightarrow> string option \<Rightarrow> card_match_status \<Rightarrow> card_match_source option \<Rightarrow> string option \<Rightarrow> provider_card \<Rightarrow> provider_card" where
  "rematched rt employee status source reason c =
     c\<lparr>pv_employeeId := employee, pv_matchStatus := status, pv_matchSource := source, pv_unmatchedReasonCode := reason,
       pv_updatedAt := rt_now rt\<rparr>"

definition card_set :: "string \<Rightarrow> (provider_card \<Rightarrow> provider_card) \<Rightarrow> provider_card handler" where
  "card_set i f = table_update provider_cards put_cards same_card_key pv_id i f"

definition resolution_insert :: "match_resolution \<Rightarrow> unit handler" where
  "resolution_insert row = op_modify (\<lambda>db. put_resolutions (match_resolutions db @ [row]) db)"

section \<open>Matching again\<close>

record rematch_stats =
  rs_matchedByPrimaryEmail :: nat
  rs_matchedByAlias :: nat
  rs_excluded :: nat
  rs_remainingUnmatched :: nat
  rs_conflict :: nat
  rs_employeeDisabled :: nat
  rs_employeeWithoutSub :: nat
  rs_missingId :: nat
  rs_resolvedExceptionCount :: nat
  rs_processedCount :: nat
  rs_changedCount :: nat

definition emptyRematchResult :: rematch_stats where
  "emptyRematchResult =
     \<lparr>rs_matchedByPrimaryEmail = 0, rs_matchedByAlias = 0, rs_excluded = 0, rs_remainingUnmatched = 0, rs_conflict = 0,
      rs_employeeDisabled = 0, rs_employeeWithoutSub = 0, rs_missingId = 0, rs_resolvedExceptionCount = 0,
      rs_processedCount = 0, rs_changedCount = 0\<rparr>"

definition count_match :: "card_match \<Rightarrow> rematch_stats \<Rightarrow> rematch_stats" where
  "count_match m s =
     (if pm_status m = CM_excluded then s\<lparr>rs_excluded := rs_excluded s + 1\<rparr>
      else if pm_status m = CM_conflict then s\<lparr>rs_conflict := rs_conflict s + 1\<rparr>
      else if pm_status m = CM_matched \<and> pm_source m = Some employee_primary_email
      then s\<lparr>rs_matchedByPrimaryEmail := rs_matchedByPrimaryEmail s + 1\<rparr>
      else if pm_status m = CM_matched \<and> pm_source m = Some provider_email_alias
      then s\<lparr>rs_matchedByAlias := rs_matchedByAlias s + 1\<rparr>
      else s\<lparr>rs_remainingUnmatched := rs_remainingUnmatched s + 1\<rparr>)"

definition count_match_reason :: "string option \<Rightarrow> rematch_stats \<Rightarrow> rematch_stats" where
  "count_match_reason reason s =
     (if reason = Some ''EMPLOYEE_DISABLED'' then s\<lparr>rs_employeeDisabled := rs_employeeDisabled s + 1\<rparr>
      else if reason = Some ''EMPLOYEE_WITHOUT_SUB'' then s\<lparr>rs_employeeWithoutSub := rs_employeeWithoutSub s + 1\<rparr>
      else if reason = Some ''CARD_ID_MISSING'' then s\<lparr>rs_missingId := rs_missingId s + 1\<rparr>
      else s)"

definition incrementRematchStats :: "card_match \<Rightarrow> rematch_stats \<Rightarrow> rematch_stats" where
  "incrementRematchStats m s = count_match_reason (pm_reasonCode m) (count_match m s)"

record rematch_options =
  ro_emails :: "string list option"
  ro_cardIds :: "string list option"
  ro_preview :: bool

definition rematch_wanted :: "rematch_options \<Rightarrow> provider_card \<Rightarrow> bool" where
  "rematch_wanted options c \<longleftrightarrow>
     pv_provider c = photonpay \<and> pv_matchStatus c = CM_unmatched
     \<and> (case ro_emails options of None \<Rightarrow> True | Some es \<Rightarrow> (\<exists>e \<in> set es. pv_cardholderEmailNormalized c = Some e))
     \<and> (case ro_cardIds options of None \<Rightarrow> True | Some is \<Rightarrow> pv_id c \<in> set is)"

definition rematch_cards :: "rematch_options \<Rightarrow> database \<Rightarrow> provider_card list" where
  "rematch_cards options db = sort_key pv_id (filter (rematch_wanted options) (provider_cards db))"

text \<open>The exclusion in force of a card; a map keeps the last of several.\<close>

definition exclusion_of :: "int \<Rightarrow> database \<Rightarrow> string \<Rightarrow> accounting_exclusion option" where
  "exclusion_of t db i = find (\<lambda>x. ax_providerCardId x = i \<and> exclusion_in_force t x) (rev (accounting_exclusions db))"

definition rematch_decision :: "runtime \<Rightarrow> match_basis \<Rightarrow> (string \<Rightarrow> accounting_exclusion option) \<Rightarrow> provider_card \<Rightarrow> card_match" where
  "rematch_decision rt basis exclusions c =
     (case exclusions (pv_id c) of
        Some x \<Rightarrow> excluded_match
      | None \<Rightarrow> matchProviderCard rt
          \<lparr>pi_provider = photonpay, pi_email = pv_cardholderEmailNormalized c, pi_forcedReasonCode = None,
           pi_employees = mb_employees basis, pi_aliases = Some (mb_aliases basis),
           pi_subMappedEmployeeIds = Some (map (\<lambda>x. sm_employeeId (fst x)) (mb_mappings basis)),
           pi_matchingAt = Some (rt_now rt)\<rparr>)"

definition match_differs :: "provider_card \<Rightarrow> card_match \<Rightarrow> bool" where
  "match_differs c m \<longleftrightarrow>
     pv_employeeId c \<noteq> pm_employeeId m \<or> pv_matchStatus c \<noteq> pm_status m \<or> pv_matchSource c \<noteq> pm_source m
     \<or> pv_unmatchedReasonCode c \<noteq> pm_reasonCode m"

fun match_source_name :: "card_match_source \<Rightarrow> string" where
  "match_source_name employee_primary_email = ''employee_primary_email''"
| "match_source_name provider_email_alias = ''provider_email_alias''"

definition safe_metadata :: "runtime \<Rightarrow> string \<Rightarrow> (string \<times> jsval) list \<Rightarrow> jsval" where
  "safe_metadata rt cardId more_entries =
     JObject ([(''provider'', JString ''photonpay''), (''providerCardDigest'', JString (idDigest rt cardId))] @ more_entries)"

definition rematch_resolution :: "runtime \<Rightarrow> string \<Rightarrow> accounting_exclusion option \<Rightarrow> provider_card \<Rightarrow> card_match \<Rightarrow> match_resolution" where
  "rematch_resolution rt userId exclusion c m =
     \<lparr>mx_id = rt_fresh_id rt 0, mx_providerCardId = pv_id c,
      mx_resolutionType = (if pm_status m = CM_excluded then ''admin_test_card''
        else case pm_source m of Some s \<Rightarrow> match_source_name s | None \<Rightarrow> []),
      mx_previousMatchStatus = pv_matchStatus c, mx_previousReasonCode = pv_unmatchedReasonCode c,
      mx_newMatchStatus = pm_status m, mx_newReasonCode = pm_reasonCode m, mx_employeeId = pm_employeeId m,
      mx_aliasId = pm_aliasId m, mx_exclusionId = map_option ax_id exclusion, mx_resolvedBy = userId,
      mx_safeMetadata = safe_metadata rt (pv_id c)
        [(''emailDigest'', if truthy (pv_cardholderEmailNormalized c)
          then JString (emailDigest rt (or_keep (pv_cardholderEmailNormalized c) [])) else JNull)]\<rparr>"

text \<open>\<open>if (actor && (matched || excluded))\<close> a resolution is written.\<close>

definition resolve_match :: "runtime \<Rightarrow> actor option \<Rightarrow> accounting_exclusion option \<Rightarrow> provider_card \<Rightarrow> card_match \<Rightarrow> rematch_stats \<Rightarrow> rematch_stats handler" where
  "resolve_match rt actor exclusion c m s =
     (case actor of
        Some a \<Rightarrow>
          (if pm_status m = CM_matched \<or> pm_status m = CM_excluded
           then op_bind (resolution_insert (rematch_resolution rt (ac_userId a) exclusion c m)) (\<lambda>_.
                op_return (s\<lparr>rs_resolvedExceptionCount := rs_resolvedExceptionCount s + 1\<rparr>))
           else op_return s)
      | None \<Rightarrow> op_return s)"

definition rematch_card :: "runtime \<Rightarrow> actor option \<Rightarrow> bool \<Rightarrow> accounting_exclusion option \<Rightarrow> card_match \<Rightarrow> provider_card \<Rightarrow> rematch_stats \<Rightarrow> rematch_stats handler" where
  "rematch_card rt actor preview exclusion m c s0 =
     (let s = incrementRematchStats m (s0\<lparr>rs_processedCount := rs_processedCount s0 + 1\<rparr>)
      in if preview \<or> \<not> match_differs c m then op_return s
         else op_bind (card_set (pv_id c) (rematched rt (pm_employeeId m) (pm_status m) (pm_source m) (pm_reasonCode m))) (\<lambda>_.
              resolve_match rt actor exclusion c m (s\<lparr>rs_changedCount := rs_changedCount s + 1\<rparr>)))"

fun rematch_each ::
  "actor option \<Rightarrow> bool \<Rightarrow> (string \<Rightarrow> accounting_exclusion option) \<Rightarrow> (provider_card \<Rightarrow> card_match) \<Rightarrow> runtime
     \<Rightarrow> provider_card list \<Rightarrow> rematch_stats \<Rightarrow> rematch_stats handler" where
  "rematch_each actor preview exclusions decide rt [] s = op_return s"
| "rematch_each actor preview exclusions decide rt (c # cs) s =
     op_bind (rematch_card rt actor preview (exclusions (pv_id c)) (decide c) c s)
       (rematch_each actor preview exclusions decide (ids_from 1 rt) cs)"

definition rematchUnmatched :: "runtime \<Rightarrow> actor option \<Rightarrow> rematch_options \<Rightarrow> rematch_stats handler" where
  "rematchUnmatched rt actor options =
     op_bind (op_get (rematch_cards options)) (\<lambda>cards.
     op_bind (read_basis photonpay rt (currentShanghaiSettlementMonth rt)) (\<lambda>basis.
     op_bind (op_get (exclusion_of (rt_now rt))) (\<lambda>exclusions.
     rematch_each actor (ro_preview options) exclusions (rematch_decision rt basis exclusions) rt cards emptyRematchResult)))"

definition of_emails :: "string list \<Rightarrow> rematch_options" where
  "of_emails emails = \<lparr>ro_emails = Some emails, ro_cardIds = None, ro_preview = False\<rparr>"

definition of_card_ids :: "string list \<Rightarrow> rematch_options" where
  "of_card_ids is = \<lparr>ro_emails = None, ro_cardIds = Some is, ro_preview = False\<rparr>"

definition previewRematch :: "runtime \<Rightarrow> rematch_stats handler" where
  "previewRematch rt = rematchUnmatched rt None \<lparr>ro_emails = None, ro_cardIds = None, ro_preview = True\<rparr>"

definition executeRematch :: "runtime \<Rightarrow> jsval \<Rightarrow> actor \<Rightarrow> rematch_stats handler" where
  "executeRematch rt confirm actor =
     op_bind (op_lift (assertConfirmed confirm)) (\<lambda>_.
     op_transaction
       (op_bind (rematchUnmatched rt (Some actor) \<lparr>ro_emails = None, ro_cardIds = None, ro_preview = False\<rparr>) (\<lambda>s.
        op_bind (if rs_changedCount s > 0
                 then audit_success (auditInput actor ''photonpay_provider_card.rematch'' ''provider_cards'' None None
                        [''matchStatus'', ''matchSource'', ''employeeId'', ''unmatchedReasonCode''])
                 else op_return ()) (\<lambda>_.
        op_return s))))"

section \<open>Cards of an alias\<close>

definition matched_by_alias :: "string \<Rightarrow> provider_card \<Rightarrow> bool" where
  "matched_by_alias email c \<longleftrightarrow>
     pv_provider c = photonpay \<and> pv_cardholderEmailNormalized c = Some email \<and> pv_matchStatus c = CM_matched
     \<and> pv_matchSource c = Some provider_email_alias"

definition unmatch_resolution :: "runtime \<Rightarrow> string \<Rightarrow> string \<Rightarrow> string \<Rightarrow> provider_card \<Rightarrow> match_resolution" where
  "unmatch_resolution rt userId resolutionType email c =
     \<lparr>mx_id = rt_fresh_id rt 0, mx_providerCardId = pv_id c, mx_resolutionType = resolutionType,
      mx_previousMatchStatus = pv_matchStatus c, mx_previousReasonCode = pv_unmatchedReasonCode c,
      mx_newMatchStatus = CM_unmatched, mx_newReasonCode = Some (js_upper resolutionType), mx_employeeId = None,
      mx_aliasId = None, mx_exclusionId = None, mx_resolvedBy = userId,
      mx_safeMetadata = safe_metadata rt (pv_id c) [(''emailDigest'', JString (emailDigest rt email))]\<rparr>"

fun unmatch_each :: "runtime \<Rightarrow> string \<Rightarrow> actor \<Rightarrow> string \<Rightarrow> provider_card list \<Rightarrow> unit handler" where
  "unmatch_each rt email actor resolutionType [] = op_return ()"
| "unmatch_each rt email actor resolutionType (c # cs) =
     op_bind (card_set (pv_id c) (rematched rt None CM_unmatched None (Some (js_upper resolutionType)))) (\<lambda>_.
     op_bind (resolution_insert (unmatch_resolution rt (ac_userId actor) resolutionType email c)) (\<lambda>_.
     unmatch_each (ids_from 1 rt) email actor resolutionType cs))"

definition unmatchAliasCards :: "runtime \<Rightarrow> string \<Rightarrow> actor \<Rightarrow> string \<Rightarrow> nat handler" where
  "unmatchAliasCards rt email actor resolutionType =
     op_bind (op_get (\<lambda>db. filter (matched_by_alias email) (provider_cards db))) (\<lambda>cards.
     op_bind (unmatch_each rt email actor resolutionType cards) (\<lambda>_.
     op_return (length cards)))"

section \<open>Reading\<close>

definition normalizeProviderStatus :: "string option \<Rightarrow> string" where
  "normalizeProviderStatus value =
     (let s = (case value of None \<Rightarrow> ''unknown'' | Some x \<Rightarrow> js_lower (js_trim x))
      in if s = ''closed'' then ''cancelled'' else if s = ''active'' then ''normal'' else if s = [] then ''unknown'' else s)"

definition count_statuses :: "provider_card list \<Rightarrow> (string \<times> nat) list" where
  "count_statuses cs =
     foldl (\<lambda>counts c. let s = normalizeProviderStatus (pv_providerStatus c)
        in map_set counts s (or_keep (map_of counts s) 0 + 1)) [] cs"

record email_group =
  eg_email :: string
  eg_cards :: "provider_card list"
  eg_statusCounts :: "(string \<times> nat) list"

definition is_digest :: "string \<Rightarrow> bool" where
  "is_digest s \<longleftrightarrow> length s = 64 \<and> list_all (\<lambda>c. c \<in> set ''0123456789abcdef'') s"

definition findUnmatchedGroup :: "runtime \<Rightarrow> jsval \<Rightarrow> email_group handler" where
  "findUnmatchedGroup rt groupKey =
     op_bind (op_lift (bind_res (requireText groupKey ''groupKey'' 64) (\<lambda>s. Inr (js_lower s)))) (\<lambda>key.
     op_bind (op_assert (is_digest key) (AppError VALIDATION_ERROR ''groupKey is invalid.'')) (\<lambda>_.
     op_bind (op_get (\<lambda>db. filter (\<lambda>c. pv_provider c = photonpay \<and> truthy (pv_cardholderEmailNormalized c)
         \<and> emailDigest rt (or_keep (pv_cardholderEmailNormalized c) []) = key) (provider_cards db))) (\<lambda>cs.
     case cs of
       [] \<Rightarrow> op_throw (AppError NOT_FOUND ''PhotonPay email group not found.'')
     | c # _ \<Rightarrow>
         (let open_cards = filter (\<lambda>c. pv_matchStatus c = CM_unmatched) cs
          in op_return \<lparr>eg_email = or_keep (normalizeEmail (pv_cardholderEmailNormalized c)) [], eg_cards = open_cards,
               eg_statusCounts = count_statuses open_cards\<rparr>))))"

definition find_employee_by :: "jsval \<Rightarrow> employee handler" where
  "find_employee_by v =
     op_bind (op_lift (requireText v ''employeeId'' 64)) (\<lambda>i.
     op_bind (op_get (\<lambda>db. find_row (\<lambda>e. em_id e = i) (employees db))) (\<lambda>found.
     case found of None \<Rightarrow> op_throw (AppError NOT_FOUND ''Employee not found.'') | Some e \<Rightarrow> op_return e))"

definition getAlias :: "string \<Rightarrow> email_alias handler" where
  "getAlias i =
     op_bind (op_lift (requireText (JString i) ''id'' 64)) (\<lambda>key.
     op_bind (op_get (\<lambda>db. find_row (\<lambda>a. ea_id a = key) (email_aliases db))) (\<lambda>found.
     case found of
       None \<Rightarrow> op_throw (AppError NOT_FOUND ''PhotonPay email alias not found.'')
     | Some a \<Rightarrow> if ea_provider a = photonpay then op_return a
                 else op_throw (AppError NOT_FOUND ''PhotonPay email alias not found.'')))"

definition overlappingAliasesForEmail :: "string \<Rightarrow> int \<Rightarrow> int option \<Rightarrow> database \<Rightarrow> email_alias list" where
  "overlappingAliasesForEmail email start end_time db =
     filter (\<lambda>a. ea_provider a = photonpay \<and> ea_aliasEmailNormalized a = email \<and> ea_status a = CS_active
       \<and> (case end_time of None \<Rightarrow> True | Some e \<Rightarrow> ea_validFrom a < e)
       \<and> (case ea_validTo a of None \<Rightarrow> True | Some e \<Rightarrow> start < e)) (email_aliases db)"

definition subMappedEmployeeIds :: "runtime \<Rightarrow> string list handler" where
  "subMappedEmployeeIds rt =
     (case currentShanghaiSettlementMonth rt of
        None \<Rightarrow> op_throw prisma_validation_error
      | Some m \<Rightarrow> op_bind (resolveEffectiveSubIdMappings (month_query m)) (\<lambda>ms.
          op_return (map (\<lambda>x. sm_employeeId (fst x)) (filter isUsableEffectiveSubIdMapping ms))))"

definition count_alias_cards :: "string \<Rightarrow> database \<Rightarrow> nat" where
  "count_alias_cards email db = length (filter (matched_by_alias email) (provider_cards db))"

section \<open>Aliases\<close>

record alias_request =
  aq_groupKey :: jsval
  aq_employeeId :: jsval
  aq_validFrom :: jsval
  aq_validTo :: jsval
  aq_reason :: jsval
  aq_confirm :: jsval

record alias_preview =
  ap_maskedEmail :: "string option"
  ap_affectedCardCount :: nat
  ap_statusCounts :: "(string \<times> nat) list"
  ap_employee :: employee
  ap_currentSubMappingActive :: bool
  ap_blockers :: "string list"
  ap_idempotent :: bool
  ap_validFrom :: int
  ap_validTo :: "int option"

definition isEffective :: "int \<Rightarrow> int option \<Rightarrow> int \<Rightarrow> bool" where
  "isEffective start end_time t \<longleftrightarrow> start \<le> t \<and> (case end_time of None \<Rightarrow> True | Some e \<Rightarrow> t < e)"

text \<open>\<open>[...new Set(blockers)]\<close> of the blockers whose condition holds\<close>

definition blockers_of :: "(bool \<times> string) list \<Rightarrow> string list" where
  "blockers_of conditions = js_dedup (map snd (filter fst conditions))"

definition primary_matches :: "string \<Rightarrow> database \<Rightarrow> employee list" where
  "primary_matches email db = filter (has_primary_email email) (employees db)"

definition email_blockers :: "string \<Rightarrow> string \<Rightarrow> database \<Rightarrow> (bool \<times> string) list" where
  "email_blockers email employeeId db =
     (let ps = primary_matches email db
      in [(length ps > 1, ''EMPLOYEE_EMAIL_AMBIGUOUS''),
          (length ps = 1 \<and> em_id (hd ps) \<noteq> employeeId, ''PRIMARY_EMAIL_ALIAS_CONFLICT'')])"

text \<open>An alias of the same employee that makes the request one that was already granted.\<close>

definition alias_already :: "runtime \<Rightarrow> jsval \<Rightarrow> int \<times> int option \<Rightarrow> string \<Rightarrow> email_alias \<Rightarrow> bool" where
  "alias_already rt validFrom p employeeId a \<longleftrightarrow>
     ea_employeeId a = employeeId
     \<and> (if is_absent validFrom then isEffective (ea_validFrom a) (ea_validTo a) (rt_now rt) else alias_period a = p)"

definition alias_blockers ::
  "email_group \<Rightarrow> employee \<Rightarrow> string list \<Rightarrow> email_alias list \<Rightarrow> bool \<Rightarrow> database \<Rightarrow> string list" where
  "alias_blockers grp employee subIds overlapping already db =
     blockers_of
       ([(em_status employee \<noteq> CS_active, ''EMPLOYEE_DISABLED''),
         (em_id employee \<notin> set subIds, ''EMPLOYEE_WITHOUT_SUB''),
         (\<not> isValidEmail (eg_email grp), ''CARDHOLDER_EMAIL_INVALID''),
         (list_ex (\<lambda>a. ea_employeeId a \<noteq> em_id employee) overlapping, ''ALIAS_ASSIGNED_TO_DIFFERENT_EMPLOYEE''),
         (overlapping \<noteq> [] \<and> \<not> already, ''ALIAS_PERIOD_OVERLAP''),
         (length overlapping > 1, ''PROVIDER_EMAIL_ALIAS_AMBIGUOUS'')]
        @ email_blockers (eg_email grp) (em_id employee) db)"

definition previewAlias :: "runtime \<Rightarrow> alias_request \<Rightarrow> alias_preview handler" where
  "previewAlias rt input =
     op_bind (findUnmatchedGroup rt (aq_groupKey input)) (\<lambda>grp.
     op_bind (find_employee_by (aq_employeeId input)) (\<lambda>employee.
     op_bind (op_lift (read_period rt (aq_validFrom input) (aq_validTo input) ''validFrom'' ''validTo'' (Some (rt_now rt)))) (\<lambda>p.
     op_bind (op_get (overlappingAliasesForEmail (eg_email grp) (fst p) (snd p))) (\<lambda>overlapping.
     op_bind (subMappedEmployeeIds rt) (\<lambda>subIds.
     let already = list_ex (alias_already rt (aq_validFrom input) p (em_id employee)) overlapping
     in op_get (\<lambda>db.
       \<lparr>ap_maskedEmail = maskEmail (Some (eg_email grp)), ap_affectedCardCount = length (eg_cards grp),
        ap_statusCounts = eg_statusCounts grp, ap_employee = employee,
        ap_currentSubMappingActive = (em_id employee \<in> set subIds),
        ap_blockers = alias_blockers grp employee subIds overlapping already db,
        ap_idempotent = already, ap_validFrom = fst p, ap_validTo = snd p\<rparr>))))))"

text \<open>\<open>throwAliasConflict\<close>, \<open>throwExclusionConflict\<close>\<close>

definition is_known_or :: "string \<Rightarrow> app_exception \<Rightarrow> bool" where
  "is_known_or message e =
     (case e of PrismaKnownError _ \<Rightarrow> True | JsError s \<Rightarrow> js_includes s message | _ \<Rightarrow> False)"

definition throwAliasConflict :: "app_exception \<Rightarrow> 'a handler" where
  "throwAliasConflict e =
     op_throw (if is_known_or ''overlaps an active alias'' e
       then AppError CONFLICT ''PhotonPay alias overlaps an existing active alias.'' else e)"

definition throwExclusionConflict :: "app_exception \<Rightarrow> 'a handler" where
  "throwExclusionConflict e =
     op_throw (if is_known_or ''overlaps an active exclusion'' e
       then AppError CONFLICT ''Card exclusion overlaps an existing active exclusion.'' else e)"

definition alias_audit :: "actor \<Rightarrow> string \<Rightarrow> string \<Rightarrow> string list \<Rightarrow> unit handler" where
  "alias_audit actor action i changed =
     audit_success (auditInput actor action ''provider_email_aliases'' (Some i) None changed)"

text \<open>\<open>input.employeeId\<close> is the text of the request as it came, not trimmed.\<close>

definition request_text :: "jsval \<Rightarrow> string" where
  "request_text v = (case v of JString s \<Rightarrow> s | _ \<Rightarrow> [])"

definition granted_alias :: "runtime \<Rightarrow> jsval \<Rightarrow> int \<times> int option \<Rightarrow> string \<Rightarrow> string \<Rightarrow> email_alias \<Rightarrow> bool" where
  "granted_alias rt validFrom p email employeeId a \<longleftrightarrow>
     ea_provider a = photonpay \<and> ea_aliasEmailNormalized a = email \<and> ea_status a = CS_active
     \<and> alias_already rt validFrom p employeeId a"

definition alias_row :: "runtime \<Rightarrow> actor \<Rightarrow> string \<Rightarrow> string \<Rightarrow> int \<times> int option \<Rightarrow> string option \<Rightarrow> email_alias" where
  "alias_row rt actor email employeeId p reason =
     \<lparr>ea_id = rt_fresh_id rt 0, ea_provider = photonpay, ea_aliasEmailNormalized = email, ea_employeeId = employeeId,
      ea_status = CS_active, ea_validFrom = fst p, ea_validTo = snd p, ea_reason = reason,
      ea_createdBy = ac_userId actor, ea_updatedBy = ac_userId actor, ea_updatedAt = rt_now rt\<rparr>"

definition create_alias_row :: "runtime \<Rightarrow> actor \<Rightarrow> string \<Rightarrow> string \<Rightarrow> int \<times> int option \<Rightarrow> string option \<Rightarrow> (email_alias \<times> rematch_stats \<times> bool) handler" where
  "create_alias_row rt actor email employeeId p reason =
     op_bind (op_catch (alias_insert (alias_row rt actor email employeeId p reason)) throwAliasConflict) (\<lambda>a.
     op_bind (rematchUnmatched (ids_from 1 rt) (Some actor) (of_emails [email])) (\<lambda>rematch.
     op_bind (alias_audit actor ''photonpay_email_alias.create'' (ea_id a)
       [''provider'', ''aliasEmailDigest'', ''employeeId'', ''status'', ''validFrom'', ''validTo'', ''reason'']) (\<lambda>_.
     op_return (a, rematch, False))))"

definition createAlias :: "runtime \<Rightarrow> alias_request \<Rightarrow> actor \<Rightarrow> (email_alias \<times> rematch_stats \<times> bool) handler" where
  "createAlias rt input actor =
     op_bind (op_lift (assertConfirmed (aq_confirm input))) (\<lambda>_.
     op_bind (previewAlias rt input) (\<lambda>preview.
     op_bind (op_assert (ap_blockers preview = []) (AppError CONFLICT ''PhotonPay alias preview contains blockers.'')) (\<lambda>_.
     op_bind (findUnmatchedGroup rt (aq_groupKey input)) (\<lambda>grp.
     op_bind (op_lift (optionalText (aq_reason input) ''reason'' 2000)) (\<lambda>reason.
     let email = eg_email grp; employeeId = request_text (aq_employeeId input);
         p = (ap_validFrom preview, ap_validTo preview)
     in op_transaction
          (op_bind (op_get (\<lambda>db. find_row (granted_alias rt (aq_validFrom input) p email employeeId) (email_aliases db))) (\<lambda>existing.
           case existing of
             Some a \<Rightarrow>
               op_bind (rematchUnmatched rt (Some actor) (of_emails [email])) (\<lambda>rematch. op_return (a, rematch, True))
           | None \<Rightarrow> create_alias_row rt actor email employeeId p reason)))))))"

definition correction_blockers :: "email_alias \<Rightarrow> employee \<Rightarrow> string list \<Rightarrow> email_alias list \<Rightarrow> database \<Rightarrow> string list" where
  "correction_blockers before employee subIds overlapping db =
     blockers_of
       ([(em_status employee \<noteq> CS_active, ''EMPLOYEE_DISABLED''),
         (em_id employee \<notin> set subIds, ''EMPLOYEE_WITHOUT_SUB''),
         (list_ex (\<lambda>a. ea_id a \<noteq> ea_id before) overlapping, ''ALIAS_PERIOD_OVERLAP'')]
        @ email_blockers (ea_aliasEmailNormalized before) (em_id employee) db)"

text \<open>The group key of a correction is not read.\<close>

definition previewAliasCorrection :: "runtime \<Rightarrow> string \<Rightarrow> alias_request \<Rightarrow> alias_preview handler" where
  "previewAliasCorrection rt i input =
     op_bind (getAlias i) (\<lambda>before.
     op_bind (find_employee_by (aq_employeeId input)) (\<lambda>employee.
     op_bind (op_lift (read_period rt (aq_validFrom input) (aq_validTo input) ''validFrom'' ''validTo'' None)) (\<lambda>p.
     op_bind (op_lift (optionalText (aq_reason input) ''reason'' 2000)) (\<lambda>reason.
     op_bind (subMappedEmployeeIds rt) (\<lambda>subIds.
     op_bind (op_get (overlappingAliasesForEmail (ea_aliasEmailNormalized before) (fst p) (snd p))) (\<lambda>overlapping.
     op_get (\<lambda>db.
       \<lparr>ap_maskedEmail = maskEmail (Some (ea_aliasEmailNormalized before)),
        ap_affectedCardCount = count_alias_cards (ea_aliasEmailNormalized before) db, ap_statusCounts = [],
        ap_employee = employee, ap_currentSubMappingActive = (em_id employee \<in> set subIds),
        ap_blockers = correction_blockers before employee subIds overlapping db,
        ap_idempotent = (ea_status before = CS_active \<and> ea_employeeId before = em_id employee \<and> alias_period before = p
          \<and> ea_reason before = reason),
        ap_validFrom = fst p, ap_validTo = snd p\<rparr>)))))))"

definition corrected_alias :: "runtime \<Rightarrow> actor \<Rightarrow> string \<Rightarrow> int \<times> int option \<Rightarrow> string option \<Rightarrow> email_alias \<Rightarrow> email_alias" where
  "corrected_alias rt actor employeeId p reason a =
     a\<lparr>ea_employeeId := employeeId, ea_validFrom := fst p, ea_validTo := snd p, ea_reason := reason,
       ea_status := CS_active, ea_updatedBy := ac_userId actor, ea_updatedAt := rt_now rt\<rparr>"

text \<open>
  Changing an alias: the cards matched by an alias of its email lose their owner, the alias changes, and
  the cards of the email are matched again. The resolutions written before the rematch are one for each
  card; the rematch takes identifiers after them.
\<close>

definition change_alias ::
  "runtime \<Rightarrow> actor \<Rightarrow> string \<Rightarrow> string \<Rightarrow> string \<Rightarrow> (app_exception \<Rightarrow> email_alias handler) \<Rightarrow> (email_alias \<Rightarrow> email_alias)
     \<Rightarrow> string \<Rightarrow> string list \<Rightarrow> (email_alias \<times> rematch_stats) handler" where
  "change_alias rt actor i email resolutionType on_error f action changed =
     op_bind (unmatchAliasCards rt email actor resolutionType) (\<lambda>n.
     op_bind (op_catch (alias_set i f) on_error) (\<lambda>a.
     op_bind (rematchUnmatched (ids_from n rt) (Some actor) (of_emails [email])) (\<lambda>rematch.
     op_bind (alias_audit actor action i changed) (\<lambda>_.
     op_return (a, rematch)))))"

definition correctAlias :: "runtime \<Rightarrow> string \<Rightarrow> alias_request \<Rightarrow> actor \<Rightarrow> (email_alias \<times> rematch_stats \<times> bool) handler" where
  "correctAlias rt i input actor =
     op_bind (op_lift (assertConfirmed (aq_confirm input))) (\<lambda>_.
     op_bind (previewAliasCorrection rt i input) (\<lambda>preview.
     op_bind (op_assert (ap_blockers preview = []) (AppError CONFLICT ''PhotonPay alias correction preview contains blockers.'')) (\<lambda>_.
     op_bind (getAlias i) (\<lambda>before.
     if ap_idempotent preview then op_return (before, emptyRematchResult, True)
     else
       op_bind (op_lift (optionalText (aq_reason input) ''reason'' 2000)) (\<lambda>reason.
       op_bind (op_transaction
         (change_alias rt actor i (ea_aliasEmailNormalized before) ''alias_corrected'' throwAliasConflict
           (corrected_alias rt actor (em_id (ap_employee preview)) (ap_validFrom preview, ap_validTo preview) reason)
           ''photonpay_email_alias.correct'' [''employeeId'', ''validFrom'', ''validTo'', ''reason'', ''status''])) (\<lambda>(a, rematch).
       op_return (a, rematch, False)))))))"

definition previewDisableAlias :: "string \<Rightarrow> (string option \<times> nat \<times> common_status) handler" where
  "previewDisableAlias i =
     op_bind (getAlias i) (\<lambda>a.
     op_get (\<lambda>db. (maskEmail (Some (ea_aliasEmailNormalized a)), count_alias_cards (ea_aliasEmailNormalized a) db, ea_status a)))"

definition disabled_alias :: "runtime \<Rightarrow> actor \<Rightarrow> email_alias \<Rightarrow> email_alias" where
  "disabled_alias rt actor a =
     a\<lparr>ea_status := CS_disabled, ea_updatedBy := ac_userId actor, ea_updatedAt := rt_now rt\<rparr>"

text \<open>The answer: whether nothing was to do, the count of affected cards, and the rematch.\<close>

definition disableAlias :: "runtime \<Rightarrow> string \<Rightarrow> jsval \<Rightarrow> actor \<Rightarrow> (bool \<times> nat \<times> rematch_stats option) handler" where
  "disableAlias rt i confirm actor =
     op_bind (op_lift (assertConfirmed confirm)) (\<lambda>_.
     op_bind (getAlias i) (\<lambda>before.
     if ea_status before = CS_disabled then op_return (True, 0, None)
     else
       op_bind (previewDisableAlias i) (\<lambda>(_, affected, _).
       op_bind (op_transaction
         (change_alias rt actor i (ea_aliasEmailNormalized before) ''alias_disabled'' op_throw (disabled_alias rt actor)
           ''photonpay_email_alias.disable'' [''status''])) (\<lambda>(_, rematch).
       op_return (False, affected, Some rematch)))))"

section \<open>Exclusions\<close>

record exclusion_request =
  xq_providerCardId :: jsval
  xq_effectiveFrom :: jsval
  xq_effectiveTo :: jsval
  xq_note :: jsval
  xq_confirm :: jsval

record exclusion_preview =
  xp_card :: provider_card
  xp_effectiveFrom :: int
  xp_effectiveTo :: "int option"
  xp_existingCardSpendEventCount :: nat
  xp_existingSpendUsd :: rat
  xp_existingMonths :: "(string \<times> nat) list"

definition spends_of :: "string \<Rightarrow> database \<Rightarrow> card_spend_event list" where
  "spends_of cardId db = filter (\<lambda>e. ce_provider e = photonpay \<and> ce_cardId e = cardId) (card_spend_events db)"

definition months_of :: "card_spend_event list \<Rightarrow> (string \<times> nat) list" where
  "months_of es =
     map (\<lambda>m. (take 7 (iso_string m), length (filter (\<lambda>e. ce_month e = m) es))) (sort (js_dedup (map ce_month es)))"

definition previewExclusion :: "runtime \<Rightarrow> exclusion_request \<Rightarrow> exclusion_preview handler" where
  "previewExclusion rt input =
     op_bind (op_lift (read_period rt (xq_effectiveFrom input) (xq_effectiveTo input) ''effectiveFrom'' ''effectiveTo'' (Some (rt_now rt)))) (\<lambda>p.
     op_bind (op_lift (requireText (xq_providerCardId input) ''providerCardId'' 64)) (\<lambda>i.
     op_bind (op_get (\<lambda>db. find_row (\<lambda>c. pv_id c = i) (provider_cards db))) (\<lambda>found.
     case found of
       None \<Rightarrow> op_throw (AppError NOT_FOUND ''A discovered PhotonPay card was not found.'')
     | Some c \<Rightarrow>
         if pv_provider c \<noteq> photonpay then op_throw (AppError NOT_FOUND ''A discovered PhotonPay card was not found.'')
         else op_get (\<lambda>db. let es = spends_of (pv_cardId c) db
           in \<lparr>xp_card = c, xp_effectiveFrom = fst p, xp_effectiveTo = snd p, xp_existingCardSpendEventCount = length es,
               xp_existingSpendUsd = sum_list (map ce_spendUsd es), xp_existingMonths = months_of es\<rparr>))))"

definition granted_exclusion :: "runtime \<Rightarrow> jsval \<Rightarrow> int \<times> int option \<Rightarrow> string \<Rightarrow> accounting_exclusion \<Rightarrow> bool" where
  "granted_exclusion rt effectiveFrom p cardId x \<longleftrightarrow>
     ax_providerCardId x = cardId \<and> ax_reason x = admin_test_card \<and> ax_status x = CS_active
     \<and> (if is_absent effectiveFrom then isEffective (ax_effectiveFrom x) (ax_effectiveTo x) (rt_now rt)
        else exclusion_period x = p)"

definition exclusion_row :: "runtime \<Rightarrow> actor \<Rightarrow> string \<Rightarrow> int \<times> int option \<Rightarrow> string option \<Rightarrow> accounting_exclusion" where
  "exclusion_row rt actor cardId p note =
     \<lparr>ax_id = rt_fresh_id rt 0, ax_providerCardId = cardId, ax_reason = admin_test_card, ax_status = CS_active,
      ax_effectiveFrom = fst p, ax_effectiveTo = snd p, ax_note = note, ax_createdBy = ac_userId actor,
      ax_updatedBy = ac_userId actor, ax_updatedAt = rt_now rt\<rparr>"

definition exclusion_resolution :: "runtime \<Rightarrow> actor \<Rightarrow> string \<Rightarrow> card_match_status \<Rightarrow> string \<Rightarrow> accounting_exclusion \<Rightarrow> provider_card \<Rightarrow> match_resolution" where
  "exclusion_resolution rt actor resolutionType status reason x c =
     \<lparr>mx_id = rt_fresh_id rt 0, mx_providerCardId = pv_id c, mx_resolutionType = resolutionType,
      mx_previousMatchStatus = pv_matchStatus c, mx_previousReasonCode = pv_unmatchedReasonCode c,
      mx_newMatchStatus = status, mx_newReasonCode = Some reason, mx_employeeId = None, mx_aliasId = None,
      mx_exclusionId = Some (ax_id x), mx_resolvedBy = ac_userId actor,
      mx_safeMetadata = safe_metadata rt (pv_id c) []\<rparr>"

definition find_card_or_throw :: "string \<Rightarrow> provider_card handler" where
  "find_card_or_throw i =
     op_bind (op_get (\<lambda>db. find_row (\<lambda>c. pv_id c = i) (provider_cards db))) (\<lambda>found.
     case found of None \<Rightarrow> op_throw (PrismaKnownError ''P2025'') | Some c \<Rightarrow> op_return c)"

text \<open>A card leaves accounting at once when the exclusion is in force.\<close>

definition apply_exclusion :: "runtime \<Rightarrow> actor \<Rightarrow> accounting_exclusion \<Rightarrow> provider_card \<Rightarrow> unit handler" where
  "apply_exclusion rt actor x c =
     (if isEffective (ax_effectiveFrom x) (ax_effectiveTo x) (rt_now rt)
      then op_bind (card_set (pv_id c) (rematched rt None CM_excluded None (Some ''ADMIN_TEST_CARD''))) (\<lambda>_.
           resolution_insert (exclusion_resolution rt actor ''admin_test_card'' CM_excluded ''ADMIN_TEST_CARD'' x c))
      else op_return ())"

definition exclusion_audit :: "actor \<Rightarrow> string \<Rightarrow> string \<Rightarrow> string list \<Rightarrow> unit handler" where
  "exclusion_audit actor action i changed =
     audit_success (auditInput actor action ''provider_card_accounting_exclusions'' (Some i) None changed)"

definition grant_exclusion :: "runtime \<Rightarrow> jsval \<Rightarrow> actor \<Rightarrow> string \<Rightarrow> int \<times> int option \<Rightarrow> string option \<Rightarrow> (accounting_exclusion \<times> bool) handler" where
  "grant_exclusion rt effectiveFrom actor cardId p remark =
     op_bind (op_get (\<lambda>db. find_row (granted_exclusion rt effectiveFrom p cardId) (accounting_exclusions db))) (\<lambda>existing.
     case existing of
       Some x \<Rightarrow> op_return (x, True)
     | None \<Rightarrow>
         op_bind (op_catch (exclusion_insert (exclusion_row rt actor cardId p remark)) throwExclusionConflict) (\<lambda>x.
         op_bind (find_card_or_throw cardId) (\<lambda>before.
         op_bind (apply_exclusion (ids_from 1 rt) actor x before) (\<lambda>_.
         op_bind (exclusion_audit actor ''provider_card_accounting_exclusion.create'' (ax_id x)
           [''providerCardDigest'', ''reason'', ''status'', ''effectiveFrom'', ''effectiveTo'', ''note'']) (\<lambda>_.
         op_return (x, False))))))"

definition createExclusion :: "runtime \<Rightarrow> exclusion_request \<Rightarrow> actor \<Rightarrow> (accounting_exclusion \<times> bool \<times> exclusion_preview) handler" where
  "createExclusion rt input actor =
     op_bind (op_lift (assertConfirmed (xq_confirm input))) (\<lambda>_.
     op_bind (previewExclusion rt input) (\<lambda>preview.
     op_bind (op_assert (xp_existingCardSpendEventCount preview = 0)
       (AppError CONFLICT ''Existing card spend events require a product decision before exclusion.'')) (\<lambda>_.
     op_bind (op_lift (optionalText (xq_note input) ''note'' 2000)) (\<lambda>remark.
     op_bind (op_transaction (grant_exclusion rt (xq_effectiveFrom input) actor (pv_id (xp_card preview))
       (xp_effectiveFrom preview, xp_effectiveTo preview) remark)) (\<lambda>(x, idempotent).
     op_return (x, idempotent, preview))))))"

definition disabled_exclusion :: "runtime \<Rightarrow> actor \<Rightarrow> accounting_exclusion \<Rightarrow> accounting_exclusion" where
  "disabled_exclusion rt actor x =
     x\<lparr>ax_status := CS_disabled, ax_updatedBy := ac_userId actor, ax_updatedAt := rt_now rt\<rparr>"

text \<open>The card of a disabled exclusion is matched again when it was out of accounting.\<close>

definition readmit_card :: "runtime \<Rightarrow> actor \<Rightarrow> accounting_exclusion \<Rightarrow> provider_card \<Rightarrow> rematch_stats handler" where
  "readmit_card rt actor before c =
     (if pv_matchStatus c = CM_excluded
      then op_bind (card_set (pv_id c) (rematched rt None CM_unmatched None (Some ''EXCLUSION_DISABLED''))) (\<lambda>_.
           op_bind (resolution_insert (exclusion_resolution rt actor ''exclusion_disabled'' CM_unmatched ''EXCLUSION_DISABLED'' before c)) (\<lambda>_.
           rematchUnmatched (ids_from 1 rt) (Some actor) (of_card_ids [pv_id c])))
      else op_return emptyRematchResult)"

definition disableExclusion :: "runtime \<Rightarrow> string \<Rightarrow> jsval \<Rightarrow> actor \<Rightarrow> (bool \<times> rematch_stats option) handler" where
  "disableExclusion rt i confirm actor =
     op_bind (op_lift (assertConfirmed confirm)) (\<lambda>_.
     op_bind (op_get (\<lambda>db. find_row (\<lambda>x. ax_id x = i) (accounting_exclusions db))) (\<lambda>found.
     case found of
       None \<Rightarrow> op_throw (AppError NOT_FOUND ''Card accounting exclusion not found.'')
     | Some before \<Rightarrow>
         if ax_status before = CS_disabled then op_return (True, None)
         else op_transaction
           (op_bind (exclusion_set i (disabled_exclusion rt actor)) (\<lambda>_.
            op_bind (find_card_or_throw (ax_providerCardId before)) (\<lambda>c.
            op_bind (readmit_card rt actor before c) (\<lambda>rematch.
            op_bind (exclusion_audit actor ''provider_card_accounting_exclusion.disable'' i [''status'']) (\<lambda>_.
            op_return (False, Some rematch))))))))"

section \<open>Lists\<close>

record group_view =
  gw_groupKey :: string
  gw_cardholderEmail :: string
  gw_maskedEmail :: "string option"
  gw_cardCount :: nat
  gw_statusCounts :: "(string \<times> nat) list"

definition add_to_group :: "(string \<times> (string \<times> nat) list) list \<Rightarrow> provider_card \<Rightarrow> (string \<times> (string \<times> nat) list) list" where
  "add_to_group groups c =
     (case normalizeEmail (pv_cardholderEmailNormalized c) of
        None \<Rightarrow> groups
      | Some email \<Rightarrow>
          let counts = or_keep (map_of groups email) []; s = normalizeProviderStatus (pv_providerStatus c)
          in map_set groups email (map_set counts s (or_keep (map_of counts s) 0 + 1)))"

text \<open>\<open>orderBy: [{ cardholderEmailNormalized: 'asc' }, { providerStatus: 'asc' }]\<close>, missing values last.\<close>

definition by_email_and_status :: "provider_card list \<Rightarrow> provider_card list" where
  "by_email_and_status cs =
     sort_key (\<lambda>c. or_keep (pv_cardholderEmailNormalized c) [])
       (sort_key (\<lambda>c. pv_providerStatus c = None) (sort_key (\<lambda>c. or_keep (pv_providerStatus c) []) cs))"

definition listUnmatchedGroups :: "runtime \<Rightarrow> (group_view list \<times> nat) handler" where
  "listUnmatchedGroups rt =
     op_get (\<lambda>db.
       let cs = by_email_and_status (filter (\<lambda>c. pv_provider c = photonpay \<and> pv_matchStatus c = CM_unmatched
             \<and> pv_cardholderEmailNormalized c \<noteq> None) (provider_cards db))
       in (map (\<lambda>(email, counts). \<lparr>gw_groupKey = emailDigest rt email, gw_cardholderEmail = email,
               gw_maskedEmail = maskEmail (Some email), gw_cardCount = sum_list (map snd counts), gw_statusCounts = counts\<rparr>)
             (foldl add_to_group [] cs), length cs))"

record safe_summary =
  zs_totalCards :: nat
  zs_matched :: nat
  zs_unmatched :: nat
  zs_conflict :: nat
  zs_excluded :: nat
  zs_matchedByAlias :: nat
  zs_activeAliasCount :: nat
  zs_activeExclusionCount :: nat
  zs_excludedCardHistoricalEventCount :: nat
  zs_excludedCardHistoricalMonthCount :: nat

definition excluded_now :: "int \<Rightarrow> database \<Rightarrow> string list" where
  "excluded_now t db =
     concat (map (\<lambda>x. map pv_cardId (filter (\<lambda>c. pv_id c = ax_providerCardId x \<and> pv_provider c = photonpay) (provider_cards db)))
       (filter (exclusion_in_force t) (accounting_exclusions db)))"

definition safeSummary :: "runtime \<Rightarrow> safe_summary handler" where
  "safeSummary rt =
     op_get (\<lambda>db.
       let cs = filter (\<lambda>c. pv_provider c = photonpay) (provider_cards db);
           count = (\<lambda>s. length (filter (\<lambda>c. pv_matchStatus c = s) cs));
           excluded = excluded_now (rt_now rt) db;
           es = filter (\<lambda>e. ce_provider e = photonpay \<and> ce_cardId e \<in> set excluded) (card_spend_events db)
       in \<lparr>zs_totalCards = length cs, zs_matched = count CM_matched, zs_unmatched = count CM_unmatched,
           zs_conflict = count CM_conflict, zs_excluded = count CM_excluded,
           zs_matchedByAlias = length (filter (\<lambda>c. pv_matchSource c = Some provider_email_alias) cs),
           zs_activeAliasCount = length (filter (alias_in_force (rt_now rt)) (email_aliases db)),
           zs_activeExclusionCount = length excluded, zs_excludedCardHistoricalEventCount = length es,
           zs_excludedCardHistoricalMonthCount = length (js_dedup (map (\<lambda>e. take 7 (iso_string (ce_month e))) es))\<rparr>)"

definition listEmployeeOptions :: "employee list handler" where
  "listEmployeeOptions =
     op_get (\<lambda>db. sort_key em_employeeCode (sort_key em_name (filter (\<lambda>e. em_status e = CS_active) (employees db))))"

definition common_status_order :: "common_status \<Rightarrow> nat" where
  "common_status_order s = length (takeWhile (\<lambda>c. c \<noteq> s) all_common_status)"

text \<open>An alias with its masked email and its employee.\<close>

definition listAliases :: "(email_alias \<times> string option \<times> employee option) list handler" where
  "listAliases =
     op_get (\<lambda>db.
       map (\<lambda>a. (a, maskEmail (Some (ea_aliasEmailNormalized a)), find_row (\<lambda>e. em_id e = ea_employeeId a) (employees db)))
         (sort_key (\<lambda>a. common_status_order (ea_status a)) (sort_key (\<lambda>a. - ea_updatedAt a)
           (filter (\<lambda>a. ea_provider a = photonpay) (email_aliases db)))))"

definition listExclusions :: "(accounting_exclusion \<times> provider_card option) list handler" where
  "listExclusions =
     op_get (\<lambda>db.
       map (\<lambda>x. (x, find_row (\<lambda>c. pv_id c = ax_providerCardId x) (provider_cards db)))
         (sort_key (\<lambda>x. common_status_order (ax_status x)) (sort_key (\<lambda>x. - ax_updatedAt x) (accounting_exclusions db))))"

end
