(* ===== verification/Card_Properties.thy ===== *)
theory Card_Properties
  imports Card_Effects
begin

text \<open>
  What the runs of the card adapters guarantee.
\<close>

section \<open>A sample\<close>

definition card_rt :: runtime where
  "card_rt = sample_rt\<lparr>rt_parse_date := (\<lambda>s. if s = ''2026-02-10T08:00:00Z'' then Some 1770710400000 else None)\<rparr>"

definition card_tx :: json_record where
  "card_tx =
     [(''transactionId'', JString ''tx-1''), (''cardId'', JString ''c-1''), (''txnDate'', JString ''2026-02-10 08:00:00''),
      (''transactionAmount'', JString ''9.5''), (''transactionCurrency'', JString ''eur''),
      (''txnPrincipalChangeSettledAmount'', JString ''-10.25''), (''txnPrincipalChangeCurrency'', JString ''usd''),
      (''settleStatus'', JString ''settled''), (''status'', JString ''succeed''), (''transactionType'', JString ''auth'')]"

definition card_env :: "json_record list \<Rightarrow> inventory_env" where
  "card_env raws =
     \<lparr>nv_airwallex = \<lparr>wk_listCards = (\<lambda>_ _ _ _. Inr ([], False)), wk_listCardholders = (\<lambda>_ _ _. Inr ([], False)),
        wk_listCardTransactions = (\<lambda>_ _ _ _ _. Inr ([], False, None))\<rparr>,
      nv_photonpay = \<lparr>yk_listCards = (\<lambda>_ _ _. Inr ([], False)), yk_getCardDetail = (\<lambda>_ _ _. Inl (JsError ''none'')),
        yk_listCardTransactions = (\<lambda>_ _ _ _ _. Inr (raws, False))\<rparr>,
      nv_production = True, nv_prisma_message = (\<lambda>_. ''''), nv_number = (\<lambda>_. None)\<rparr>"

definition card_task :: "jsval \<Rightarrow> sync_task_row" where
  "card_task payload =
     \<lparr>tk_id = ''t-1'', tk_sourceType = card_spend, tk_taskType = photonpay_card, tk_platform = P_photonpay,
      tk_affiliateAccountId = None, tk_provider = Some photonpay, tk_month = FEB_2026, tk_status = ST_running,
      tk_successCount = 0, tk_failedCount = 0, tk_message = None, tk_errorMessage = None, tk_requestedBy = None,
      tk_triggerType = TR_manual, tk_planningKey = None, tk_attemptCount = 1, tk_nextAttemptAt = None,
      tk_leaseOwner = None, tk_leaseExpiresAt = None, tk_lastAttemptAt = None, tk_lastErrorCategory = None,
      tk_startedAt = None, tk_finishedAt = None, tk_updatedAt = 0, tk_requestPayload = payload\<rparr>"

definition card_context :: "jsval \<Rightarrow> adapter_context" where
  "card_context payload =
     \<lparr>cx_task = card_task payload, cx_affiliateAccountCode = None, cx_credentialId = ''cr-1'',
      cx_payload = JObject [(''appId'', JString ''app''), (''appSecret'', JString ''sec'')]\<rparr>"

definition matched_card :: provider_card where
  "matched_card =
     \<lparr>pv_id = ''pc-1'', pv_provider = photonpay, pv_cardId = ''c-1'', pv_cardholderId = None,
      pv_cardholderEmailNormalized = Some ''a@x.io'', pv_maskedCardNumber = None, pv_nickname = None,
      pv_providerStatus = None, pv_employeeId = Some ''e-1'', pv_matchStatus = CM_matched, pv_matchSource = Some employee_primary_email,
      pv_unmatchedReasonCode = None, pv_lastCardSyncedAt = None, pv_lastTransactionSyncedAt = None,
      pv_lastTransactionSyncStatus = None, pv_sourceCreatedAt = None, pv_sourceUpdatedAt = None, pv_updatedAt = 0\<rparr>"

definition card_db :: database where
  "card_db = empty_db\<lparr>provider_cards := [matched_card],
     employees := [\<lparr>em_id = ''e-1'', em_employeeCode = ''E1'', em_name = ''Ann'', em_email = Some ''a@x.io'', em_phone = None,
       em_status = CS_active, em_hiredAt = None, em_leftAt = None\<rparr>]\<rparr>"


definition card_window :: execution_window where
  "card_window =
     \<lparr>sw_settlementStart = Some 1769875200000, sw_settlementEnd = Some 1772294400000, sw_requestFrom = Some 1769875200000,
      sw_requestTo = Some 1773158400000, sw_settlementDelayDays = 10, xw_verificationMode = False,
      xw_historicalBackfillMode = False, xw_previewOnly = False\<rparr>"

lemma card_db_keyed: "spends_keyed card_db"
  by (simp add: spends_keyed_def spend_keys_def card_db_def empty_db_def)

section \<open>Imports append\<close>

text \<open>
  C16: a PhotonPay run appends spend events and changes no event that is there; each new one is a confirmed PhotonPay event of the task's
  month, dated inside that month in GMT+8, with the stored value of a positive debit, and belongs to the
  employee whom its card has at its time; (provider, event) pairs stay unique; apart from
  cards, events and unmatched events no table changes. This holds however the run ends.
\<close>

theorem photonpay_import_appends:
  assumes "spends_keyed db" and "photonpay_execute env fuel rt cx db = (r, db')"
  shows "core db' = core db \<and> spends_keyed db'
    \<and> (\<exists>new. card_spend_events db' = card_spend_events db @ new
         \<and> list_all (photonpay_spend (rt_column rt) (tk_month (cx_task cx)) (owners db')) new)"
  using photonpay_execute_effect [of rt cx db env fuel] assms by (simp add: has_effect_def imported_def)

theorem photonpay_import_appends_witness:
  "core (snd (photonpay_execute (card_env [card_tx]) 2 card_rt (card_context JNull) card_db)) = core card_db"
  using photonpay_import_appends [of card_db "card_env [card_tx]" 2 card_rt "card_context JNull"]
  by (metis card_db_keyed prod.collapse)

text \<open>
  a historical backfill whose request says \<open>previewOnly\<close> writes nothing, whatever the provider answers.
\<close>

theorem photonpay_preview_writes_nothing:
  assumes "field_of (asRecord (tk_requestPayload (cx_task cx))) ''historicalBackfill'' = JObject kvs"
    and "js_get kvs ''previewOnly'' = JBool True"
  shows "snd (photonpay_execute env fuel rt cx db) = db"
proof -
  have "bw_previewOnly b" if "parsePhotonPayHistoricalBackfillWindow rt (JObject kvs) m = Inr b" for b m
    using that assms(2)
    by (auto simp: parsePhotonPayHistoricalBackfillWindow_def asRecord_def Let_def bind_res_Inr_iff
        split: jsval.splits if_splits prod.splits)
  then have "xw_previewOnly w" if "getPhotonPayExecutionWindow rt (cx_task cx) credential = Inr w" for credential w
    using that assms(1)
    by (auto simp: getPhotonPayExecutionWindow_def Let_def js_truthy_def bind_res_Inr_iff with_modes_def)
  then show ?thesis using preview_execute [of env cx rt db fuel] by (simp add: has_effect_def)
qed

theorem photonpay_preview_writes_nothing_witness:
  "snd (photonpay_execute (card_env [card_tx]) 2 july_rt (card_context (JObject [(''historicalBackfill'', july_request)])) card_db) = card_db"
  by (rule photonpay_preview_writes_nothing [where kvs = "[(''from'', JString ''2026-06-30T16:00:00.000Z''),
        (''to'', JString ''2026-07-02T16:00:00.000Z''), (''previewOnly'', JBool True)]"])
    (simp_all add: card_context_def card_task_def field_of_def asRecord_def js_get_def july_request_def)

section \<open>Reason codes that are not listed\<close>

lemma unlisted_reason: "parseReasonCode (un_reasonCode input) = Inl e \<Longrightarrow> validateRecordInput rt input \<noteq> Inr ev"
  by (simp add: validateRecordInput_def bind_res_Inr_iff split: prod.splits)

lemma unlisted_record:
  assumes "parseReasonCode code = Inl e"
  shows "\<exists>e'. failing (recordFailureUnlessPreview False rt task r code message) db = (Inl e', db)"
proof -
  have "un_reasonCode (photonpay_unmatched rt task r code message) = code" by (simp add: photonpay_unmatched_def)
  then obtain e' where "validateRecordInput rt (photonpay_unmatched rt task r code message) = Inl e'"
    using unlisted_reason assms by (metis sum.exhaust)
  then show ?thesis
    by (simp add: failing_def recordFailureUnlessPreview_def photonpay_recordUnmatched_def recordUnmatchedEvent_def bind_nested)
qed

lemma debit_codes_unlisted:
  "parseReasonCode ''PROVIDER_USD_DEBIT_AMOUNT_MISSING'' = Inl (AppError VALIDATION_ERROR ''reasonCode is invalid.'')"
  "parseReasonCode ''PROVIDER_USD_DEBIT_AMOUNT_INVALID'' = Inl (AppError VALIDATION_ERROR ''reasonCode is invalid.'')"
  "parseReasonCode ''PROVIDER_USD_DEBIT_AMOUNT_MISMATCH'' = Inl (AppError VALIDATION_ERROR ''reasonCode is invalid.'')"
  by code_simp+

lemma bad_debit_throws:
  assumes "ud_issue (px_debit r) \<noteq> None
      \<or> (\<exists>d ev. ud_amount (px_debit r) = Some d \<and> find_spend photonpay external db = Some ev \<and> \<not> sameImportedTransaction ev r employee)"
  shows "\<exists>e. photonpay_owned False rt task r external cardId employee t db = (Inl e, db)"
  using assms
  by (cases "ud_issue (px_debit r)"; cases "ud_amount (px_debit r)")
    (auto simp: photonpay_owned_def Let_def unlisted_record [OF debit_codes_unlisted(1)]
      unlisted_record [OF debit_codes_unlisted(2)] unlisted_record [OF debit_codes_unlisted(3)])

text \<open>
  C36: a settled PhotonPay authorisation whose debit in USD is missing or invalid, or whose event is stored with other values,
  is meant to be recorded as unmatched and the rest of the page to go on. Its reason codes are not in the list
  that recording accepts: the error ends the run, nothing is recorded and no later transaction is imported.
\<close>

theorem unlisted_reason_ends_the_run:
  assumes "normalizePhotonPayTransaction rt raw = Inr r" and "transaction_key rt r \<notin> set (im_seen st)"
    and "isSettledStatus r" and "isAllowedSpendType r"
    and "px_transactionAt r = Some t" and "isInsideRequestAndSettlementWindow t window"
    and "\<not> spared_by_backfill targets r" and "\<not> xw_previewOnly window"
    and "px_externalEventId r = Some external" and "px_cardId r = Some cardId"
    and "spend_owner_of photonpay cardId t db = Spend_owner employee"
    and "ud_issue (px_debit r) \<noteq> None
      \<or> (\<exists>d ev. ud_amount (px_debit r) = Some d \<and> find_spend photonpay external db = Some ev \<and> \<not> sameImportedTransaction ev r employee)"
  shows "\<exists>e. import_batch (photonpay_step task window targets) rt st (raw # rest) db = (Inr (st, Some e), db)"
proof -
  obtain e where "photonpay_owned False rt task r external cardId employee t db = (Inl e, db)"
    using bad_debit_throws [OF assms(12)] by blast
  then have "photonpay_step task window targets rt (im_seen st) raw db = (Inl e, db)"
    using assms by (simp add: photonpay_step_def photonpay_upsertCardSpendEvent_def resolveSpendOwner_def op_bind_def Let_def)
  then show ?thesis by (simp add: op_bind_def op_try_def)
qed

text \<open>A card transaction without the debit, and what it is normalised to.\<close>

definition bare_tx :: json_record where
  "bare_tx =
     [(''transactionId'', JString ''tx-2''), (''cardId'', JString ''c-1''), (''txnDate'', JString ''2026-02-10 08:00:00''),
      (''settleStatus'', JString ''settled''), (''status'', JString ''succeed''), (''transactionType'', JString ''auth'')]"

definition bare_record :: photonpay_tx where
  "bare_record =
     \<lparr>px_externalEventId = Some ''tx-2'', px_cardId = Some ''c-1'', px_cardLast4 = None, px_transactionAt = Some 1770710400000,
      px_amount = Some 0, px_currency = None,
      px_debit = \<lparr>ud_amount = None, ud_signedAmount = None, ud_currency = None, ud_issue = Some Debit_missing\<rparr>,
      px_settledAt = None, px_sourceStatus = Some ''settled|succeed|auth'', px_settleStatus = Some ''settled'',
      px_transactionStatus = Some ''succeed'', px_transactionType = Some ''auth'', px_sourceUpdatedAt = None\<rparr>"

theorem unlisted_reason_ends_the_run_witness:
  "\<exists>e. import_batch (photonpay_step (card_task JNull) card_window None) card_rt \<lparr>im_success = 0, im_failed = 0, im_seen = []\<rparr>
     [bare_tx, card_tx] card_db = (Inr (\<lparr>im_success = 0, im_failed = 0, im_seen = []\<rparr>, Some e), card_db)"
proof (rule unlisted_reason_ends_the_run [where r = bare_record and t = 1770710400000 and external = "''tx-2''"
      and cardId = "''c-1''" and employee = "''e-1''"])
  show "normalizePhotonPayTransaction card_rt bare_tx = Inr bare_record" by code_simp
  show "isSettledStatus bare_record" "isAllowedSpendType bare_record" by code_simp+
  show "isInsideRequestAndSettlementWindow 1770710400000 card_window" by code_simp
  show "spend_owner_of photonpay ''c-1'' 1770710400000 card_db = Spend_owner ''e-1''" by code_simp
qed (simp_all add: bare_record_def card_window_def spared_by_backfill_def)

section \<open>Termination\<close>

text \<open>What the provider does: one of the first \<open>n\<close> pages of a query window is refused, empty or said to be the last.\<close>

definition last_page_within :: "photonpay_client \<Rightarrow> photonpay_credential \<Rightarrow> nat \<Rightarrow> query_window \<Rightarrow> bool" where
  "last_page_within client credential n q \<longleftrightarrow>
     (\<exists>page \<in> {1..n}. case yk_listCardTransactions client credential (qw_from q) (qw_to q) page PHOTONPAY_PAGE_SIZE of
        Inl e \<Rightarrow> True | Inr (raws, has_more) \<Rightarrow> \<not> has_more \<or> raws = [])"

lemma last_page_ends:
  assumes "last_page_within client credential fuel q"
  shows "pages_end (photonpay_pages client credential q) fuel 1"
proof -
  obtain l where l: "l \<in> {1..fuel}" and last: "case yk_listCardTransactions client credential (qw_from q) (qw_to q) l PHOTONPAY_PAGE_SIZE of
      Inl e \<Rightarrow> True | Inr (raws, has_more) \<Rightarrow> \<not> has_more \<or> raws = []"
    using assms unfolding last_page_within_def by blast
  let ?fetch = "photonpay_pages client credential q"
  have stops: "case ?fetch l of Inl e \<Rightarrow> True | Inr (raws, next_page) \<Rightarrow> next_page = None"
    using last by (auto simp: photonpay_pages_def split: sum.splits)
  have goes: "case ?fetch page of Inl e \<Rightarrow> True | Inr (raws, next_page) \<Rightarrow> next_page \<in> {None, Some (page + 1)}" for page
    by (cases "yk_listCardTransactions client credential (qw_from q) (qw_to q) page PHOTONPAY_PAGE_SIZE")
      (auto simp: photonpay_pages_def)
  have "pages_end ?fetch n page" if "page \<le> l" "l < page + n" for n page
    using that
  proof (induction n arbitrary: page)
    case (Suc n)
    then show ?case using stops goes [of page]
      by (cases "page = l") (auto split: sum.split option.split)
  qed simp
  from this [of 1 fuel] l show ?thesis by simp
qed

lemma photonpay_execute_larger:
  assumes "\<And>credential window. parsePhotonPayCredential (nv_number env) (cx_payload cx) = Inr credential \<Longrightarrow>
      getPhotonPayExecutionWindow rt (cx_task cx) credential = Inr window \<Longrightarrow>
      list_all (last_page_within (nv_photonpay env) credential fuel) (query_windows window)"
   and "fuel \<le> larger"
 shows "photonpay_execute env larger rt cx db = photonpay_execute env fuel rt cx db"
proof -
  have run: "photonpay_run env larger rt cx credential window = photonpay_run env fuel rt cx credential window"
    if "parsePhotonPayCredential (nv_number env) (cx_payload cx) = Inr credential"
      "getPhotonPayExecutionWindow rt (cx_task cx) credential = Inr window" for credential window
  proof -
    have "list_all (\<lambda>q. pages_end (photonpay_pages (nv_photonpay env) credential q) fuel 1) (query_windows window)"
      using assms(1) [OF that] by (auto simp: list_all_iff dest!: last_page_ends)
    from import_windows_more [OF this assms(2)] show ?thesis by (simp add: photonpay_run_def)
  qed
  show ?thesis
    unfolding photonpay_execute_def op_bind_def op_lift_def
    by (auto simp: run split: sum.split prod.split)
qed

lemma photonpay_execute_returns:
  assumes "\<And>credential window. parsePhotonPayCredential (nv_number env) (cx_payload cx) = Inr credential \<Longrightarrow>
      getPhotonPayExecutionWindow rt (cx_task cx) credential = Inr window \<Longrightarrow>
      list_all (last_page_within (nv_photonpay env) credential fuel) (query_windows window)"
  shows "fst (photonpay_execute env fuel rt cx db) \<noteq> Inr None"
proof -
  have run: "\<exists>x db'. photonpay_run env fuel rt cx credential window db = (Inr (Some x), db')"
    if "parsePhotonPayCredential (nv_number env) (cx_payload cx) = Inr credential"
      "getPhotonPayExecutionWindow rt (cx_task cx) credential = Inr window" for credential window
  proof -
    have "list_all (\<lambda>q. pages_end (photonpay_pages (nv_photonpay env) credential q) fuel 1) (query_windows window)"
      using assms [OF that] by (auto simp: list_all_iff dest!: last_page_ends)
    from windows_return [OF this] show ?thesis
      by (auto simp: photonpay_run_def op_bind_def op_try_def Let_def split: prod.split sum.split)
  qed
  show ?thesis
    by (auto simp: photonpay_execute_def op_lift_def op_bind_def Let_def unless_preview_def markUntouchedTransactionSync_def
        cards_update_many_def op_modify_def dest: run split: sum.splits option.splits prod.splits)
qed

text \<open>
  C37: a PhotonPay run ends. When, for every query window of the run, the provider refuses one of the first \<open>fuel\<close> pages, answers it
  empty or says that no more come, the run ends, with an error before it starts or with a result; and it does the same with
  any larger bound, so the bound on pages, which the program does not have, is not noticed.
\<close>

theorem photonpay_run_ends:
  assumes "\<And>credential window. parsePhotonPayCredential (nv_number env) (cx_payload cx) = Inr credential \<Longrightarrow>
      getPhotonPayExecutionWindow rt (cx_task cx) credential = Inr window \<Longrightarrow>
      list_all (last_page_within (nv_photonpay env) credential fuel) (query_windows window)"
  shows "fst (photonpay_execute env fuel rt cx db) \<noteq> Inr None
    \<and> (\<forall>larger \<ge> fuel. photonpay_execute env larger rt cx db = photonpay_execute env fuel rt cx db)"
  using photonpay_execute_returns [OF assms] photonpay_execute_larger [OF assms] by blast

text \<open>A provider with two pages: the first is full, the second the last.\<close>

definition two_pages_env :: inventory_env where
  "two_pages_env = (card_env [card_tx])\<lparr>nv_photonpay := (nv_photonpay (card_env [card_tx]))
     \<lparr>yk_listCardTransactions := \<lambda>credential a b page size. Inr ([card_tx], page < 2)\<rparr>\<rparr>"

theorem photonpay_run_ends_witness:
  "fst (photonpay_execute two_pages_env 2 card_rt (card_context JNull) card_db) \<noteq> Inr None
   \<and> photonpay_execute two_pages_env 5 card_rt (card_context JNull) card_db = photonpay_execute two_pages_env 2 card_rt (card_context JNull) card_db"
proof -
  have "list_all (last_page_within (nv_photonpay two_pages_env) credential 2) qs" for credential qs
    by (auto simp: list_all_iff last_page_within_def two_pages_env_def intro!: bexI [of _ 2])
  note ends = photonpay_run_ends [OF this, where db = card_db and rt = card_rt and cx = "card_context JNull"]
  show ?thesis
    by (rule conjI [OF ends [THEN conjunct1] ends [THEN conjunct2, rule_format]]) simp
qed

end
