(* ===== verification/Governance_Properties.thy ===== *)
theory Governance_Properties
  imports Card_Governance Card_Properties
begin

text \<open>
  What the governance of PhotonPay cards keeps. The locale \<open>governance_effect\<close> names the
  writes its handlers are made of; a relation that every such write has is an effect of every handler.
\<close>

section \<open>The writes of governance\<close>

text \<open>A card has an employee and a source exactly when it is matched, and otherwise a reason.\<close>

definition typed_match :: "card_match_status \<Rightarrow> string option \<Rightarrow> card_match_source option \<Rightarrow> string option \<Rightarrow> bool" where
  "typed_match status employee source reason \<longleftrightarrow>
     (if status = CM_matched then employee \<noteq> None \<and> source \<noteq> None \<and> reason = None
      else employee = None \<and> source = None \<and> reason \<noteq> None)"

definition typed_card :: "provider_card \<Rightarrow> bool" where
  "typed_card c \<longleftrightarrow> typed_match (pv_matchStatus c) (pv_employeeId c) (pv_matchSource c) (pv_unmatchedReasonCode c)"

definition typed_result :: "card_match \<Rightarrow> bool" where
  "typed_result m \<longleftrightarrow> typed_match (pm_status m) (pm_employeeId m) (pm_source m) (pm_reasonCode m)"

locale governance_effect = write_effect R for R :: "database \<Rightarrow> database \<Rightarrow> bool" +
  assumes card_write: "typed_match st e so r \<Longrightarrow> has_effect R db (card_set i (rematched rt e st so r))"
    and resolution_write: "has_effect R db (resolution_insert row)"
    and audit_write: "has_effect R db (audit_success input)"
    and alias_insert: "has_effect R db (alias_insert a)"
    and alias_update: "(\<And>a. ea_id (f a) = ea_id a) \<Longrightarrow> has_effect R db (alias_set i f)"
    and exclusion_insert: "has_effect R db (exclusion_insert x)"
    and exclusion_update: "(\<And>x. ax_id (g x) = ax_id x) \<Longrightarrow> has_effect R db (exclusion_set i g)"
begin

lemma reads:
  "has_effect R db (read_basis p rt m)" "has_effect R db (findUnmatchedGroup rt key)" "has_effect R db (find_employee_by v)"
  "has_effect R db (getAlias i)" "has_effect R db (subMappedEmployeeIds rt)" "has_effect R db (find_card_or_throw i)"
  unfolding read_basis_def resolveEffectiveSubIdMappings_def findUnmatchedGroup_def find_employee_by_def getAlias_def
    subMappedEmployeeIds_def find_card_or_throw_def Let_def
  by (auto intro!: bind pure split: option.split list.split)

lemma rematch_card: "typed_result m \<Longrightarrow> has_effect R db (rematch_card rt actor preview x m c s)"
  unfolding rematch_card_def resolve_match_def Let_def typed_result_def
  by (auto intro!: bind pure card_write resolution_write split: option.split)

lemma rematch_each: "(\<And>c. typed_result (decide c)) \<Longrightarrow> has_effect R db (rematch_each actor preview exclusions decide rt cs s)"
proof (induction cs arbitrary: rt s db)
  case Nil
  show ?case using pure(1) by (simp only: rematch_each.simps)
next
  case (Cons c cs)
  then show ?case by (auto intro!: bind rematch_card)
qed

end

lemma typed_unmatched: "s \<noteq> CM_matched \<Longrightarrow> typed_result (unmatched s r)"
  by (simp add: typed_result_def typed_match_def unmatched_def)

lemma typed_validate: "typed_result (validateEmployeeMatch e s a p ids)"
  by (simp add: validateEmployeeMatch_def typed_unmatched) (simp add: typed_result_def typed_match_def)

lemma typed_matchProviderCard: "typed_result (matchProviderCard rt input)"
  by (auto simp: matchProviderCard_def match_by_email_def Let_def typed_unmatched typed_validate split: option.split list.split)

lemma typed_excluded: "typed_result excluded_match"
  by (simp add: typed_result_def typed_match_def excluded_match_def)

lemma typed_rematch: "typed_result (rematch_decision rt basis exclusions c)"
  by (simp add: rematch_decision_def typed_excluded typed_matchProviderCard split: option.split)

lemma typed_decide: "typed_result (decide_card p rt basis safe)"
  by (simp add: decide_card_def typed_excluded typed_matchProviderCard)

context governance_effect
begin

lemma rematch: "has_effect R db (rematchUnmatched rt actor options)"
  unfolding rematchUnmatched_def by (intro bind pure reads rematch_each typed_rematch)

lemma unmatch_each: "has_effect R db (unmatch_each rt email actor resolutionType cs)"
proof (induction cs arbitrary: rt db)
  case Nil
  show ?case using pure(1) by (simp only: unmatch_each.simps)
next
  case (Cons c cs)
  then show ?case by (auto intro!: bind card_write resolution_write simp: typed_match_def)
qed

lemma unmatch: "has_effect R db (unmatchAliasCards rt email actor resolutionType)"
  unfolding unmatchAliasCards_def by (intro bind pure unmatch_each)

lemma change:
  assumes "\<And>a. ea_id (f a) = ea_id a" and "\<And>e db. has_effect R db (on_error e)"
  shows "has_effect R db (change_alias rt actor i email resolutionType on_error f action changed)"
  unfolding change_alias_def alias_audit_def
  by (intro bind pure unmatch catch alias_update assms rematch audit_write)

lemma previews:
  "has_effect R db (previewAlias rt input)" "has_effect R db (previewAliasCorrection rt i input)"
  "has_effect R db (previewDisableAlias i)" "has_effect R db (previewExclusion rt xinput)"
  unfolding previewAlias_def previewAliasCorrection_def previewDisableAlias_def previewExclusion_def Let_def
  by (auto intro!: bind pure reads split: option.split)

lemma creates_alias: "has_effect R db (createAlias rt input actor)"
  unfolding createAlias_def create_alias_row_def throwAliasConflict_def alias_audit_def Let_def
  by (auto intro!: bind pure previews reads transaction catch alias_insert rematch audit_write split: option.split)

lemma corrects_alias: "has_effect R db (correctAlias rt i input actor)"
  unfolding correctAlias_def
  by (auto intro!: bind pure previews reads transaction change simp: corrected_alias_def throwAliasConflict_def)

lemma disables_alias: "has_effect R db (disableAlias rt i confirm actor)"
  unfolding disableAlias_def
  by (auto intro!: bind pure previews reads transaction change simp: disabled_alias_def)

lemma executes_rematch: "has_effect R db (executeRematch rt confirm actor)"
  unfolding executeRematch_def by (auto intro!: bind pure transaction rematch audit_write)

lemma creates_exclusion: "has_effect R db (createExclusion rt xinput actor)"
  unfolding createExclusion_def grant_exclusion_def throwExclusionConflict_def apply_exclusion_def exclusion_audit_def Let_def
  by (auto intro!: bind pure previews reads transaction catch exclusion_insert card_write resolution_write audit_write
      simp: typed_match_def split: option.split)

lemma disables_exclusion: "has_effect R db (disableExclusion rt i confirm actor)"
  unfolding disableExclusion_def readmit_card_def exclusion_audit_def
  by (auto intro!: bind pure reads transaction exclusion_update card_write resolution_write rematch audit_write
      simp: typed_match_def disabled_exclusion_def split: option.split)

lemmas handlers = creates_alias corrects_alias disables_alias executes_rematch creates_exclusion disables_exclusion

end

section \<open>Aliases and exclusions stay disjoint\<close>

definition disjoint_rows :: "('r \<Rightarrow> string) \<Rightarrow> ('r \<Rightarrow> 'r \<Rightarrow> bool) \<Rightarrow> 'r list \<Rightarrow> bool" where
  "disjoint_rows ident overlap rows \<longleftrightarrow> distinct (map ident rows)
     \<and> (\<forall>a \<in> set rows. \<forall>b \<in> set rows. ident a \<noteq> ident b \<longrightarrow> \<not> overlap a b)"

definition aliases_ok :: "database \<Rightarrow> bool" where
  "aliases_ok db \<longleftrightarrow> disjoint_rows ea_id aliases_overlap (email_aliases db)"

definition exclusions_ok :: "database \<Rightarrow> bool" where
  "exclusions_ok db \<longleftrightarrow> disjoint_rows ax_id exclusions_overlap (accounting_exclusions db)"

lemma disjoint_append:
  assumes "disjoint_rows ident overlap rows" "ident r \<notin> ident ` set rows" "\<And>a b. overlap a b = overlap b a"
    and "\<And>a. a \<in> set rows \<Longrightarrow> ident a \<noteq> ident r \<Longrightarrow> \<not> overlap a r"
  shows "disjoint_rows ident overlap (rows @ [r])"
  using assms by (auto simp: disjoint_rows_def)

lemma disjoint_update:
  assumes "disjoint_rows ident overlap rows" "find_row (\<lambda>r. ident r = i) rows = Some r" "\<And>a b. overlap a b = overlap b a"
    and "\<And>a. ident (f a) = ident a" and "\<And>a. a \<in> set rows \<Longrightarrow> ident a \<noteq> i \<Longrightarrow> \<not> overlap a (f r)"
  shows "disjoint_rows ident overlap (update_first (\<lambda>r. ident r = i) f rows)"
proof -
  have ids: "map ident (update_first (\<lambda>r. ident r = i) f rows) = map ident rows"
    using assms(4) by (induction rows) auto
  have mem: "a = f r \<or> (a \<in> set rows \<and> ident a \<noteq> i)" if "a \<in> set (update_first (\<lambda>r. ident r = i) f rows)" for a
    using that assms(1,2)
  proof (induction rows)
    case (Cons x xs)
    then show ?case by (auto simp: disjoint_rows_def image_iff split: if_splits)
  qed simp
  have r: "ident (f r) = i" using assms(4) find_row_Some [OF assms(2)] by simp
  have "\<not> overlap a b" if "a \<in> set (update_first (\<lambda>r. ident r = i) f rows)" "b \<in> set (update_first (\<lambda>r. ident r = i) f rows)"
      "ident a \<noteq> ident b" for a b
    using mem [OF that(1)] mem [OF that(2)] that(3) assms(1,3,5) r by (auto simp: disjoint_rows_def)
  then show ?thesis using assms(1) by (auto simp: disjoint_rows_def ids)
qed

definition cards_typed :: "database \<Rightarrow> bool" where
  "cards_typed db \<longleftrightarrow> list_all typed_card (provider_cards db)"

text \<open>The rest of the database: what governance neither changes nor, but for its own tables, reads.\<close>

definition ungoverned :: "database \<Rightarrow> database" where
  "ungoverned db = db\<lparr>provider_cards := [], email_aliases := [], accounting_exclusions := [], match_resolutions := [], audit_logs := []\<rparr>"

definition governed :: "database \<Rightarrow> database \<Rightarrow> bool" where
  "governed db db' \<longleftrightarrow>
     (aliases_ok db \<longrightarrow> aliases_ok db') \<and> (exclusions_ok db \<longrightarrow> exclusions_ok db') \<and> (cards_typed db \<longrightarrow> cards_typed db')
     \<and> ungoverned db' = ungoverned db \<and> (\<exists>new. match_resolutions db' = match_resolutions db @ new)"

lemma periods_overlap_sym: "periods_overlap p q = periods_overlap q p"
  by (auto simp: periods_overlap_def)

lemma overlap_sym: "aliases_overlap a b = aliases_overlap b a" "exclusions_overlap x y = exclusions_overlap y x"
  using periods_overlap_sym by (auto simp: aliases_overlap_def exclusions_overlap_def)

lemma governed_refl: "governed db db"
  by (simp add: governed_def)

lemma governed_trans: "governed a b \<Longrightarrow> governed b c \<Longrightarrow> governed a c"
  by (auto simp: governed_def)

lemma guarded_effect:
  assumes "\<And>db. snd (g db) = db" and "\<And>db'. g db = (Inr (), db) \<Longrightarrow> has_effect governed db m"
  shows "has_effect governed db (op_bind g (\<lambda>_. m))"
  using assms(1) [of db] assms(2) governed_refl by (auto simp: has_effect_def op_bind_def split: prod.split sum.split)

lemma alias_guard_db: "snd (alias_guard row db) = db"
  by (simp add: alias_guard_def op_bind_assert) (simp add: op_assert_def)

lemma alias_guard_free:
  assumes "alias_guard row db = (Inr (), db)" "a \<in> set (email_aliases db)" "ea_id a \<noteq> ea_id row"
  shows "\<not> aliases_overlap a row"
  using assms by (auto simp: alias_guard_def op_bind_assert list_ex_iff split: if_splits)

lemma exclusion_guard_db: "snd (exclusion_guard row db) = db"
  by (simp add: exclusion_guard_def op_bind_assert) (simp add: op_assert_def)

lemma exclusion_guard_free:
  assumes "exclusion_guard row db = (Inr (), db)" "x \<in> set (accounting_exclusions db)" "ax_id x \<noteq> ax_id row"
  shows "\<not> exclusions_overlap x row"
  using assms by (auto simp: exclusion_guard_def op_bind_assert list_ex_iff op_assert_def split: if_splits)

lemma put_governed:
  "(aliases_ok db \<Longrightarrow> aliases_ok (put_aliases rows db)) \<Longrightarrow> governed db (put_aliases rows db)"
  "(exclusions_ok db \<Longrightarrow> exclusions_ok (put_exclusions xs db)) \<Longrightarrow> governed db (put_exclusions xs db)"
  by (simp_all add: governed_def put_aliases_def put_exclusions_def ungoverned_def aliases_ok_def exclusions_ok_def cards_typed_def)

lemma governed_alias_insert: "has_effect governed db (alias_insert a)"
  unfolding alias_insert_def
proof (rule guarded_effect [OF alias_guard_db])
  fix db assume "alias_guard a db = (Inr (), db)"
  note free = alias_guard_free [OF this]
  have "aliases_ok db \<Longrightarrow> aliases_ok (put_aliases (email_aliases db @ [a]) db)" if "\<not> list_ex (\<lambda>r. same_alias_key r a) (email_aliases db)"
    using that free unfolding aliases_ok_def put_aliases_def
    by (auto simp: list_ex_iff same_alias_key_def overlap_sym(1) intro!: disjoint_append)
  then show "has_effect governed db (table_insert email_aliases put_aliases same_alias_key a)"
    using put_governed(1) governed_refl by (auto simp: has_effect_def table_insert_def)
qed

lemma governed_exclusion_insert: "has_effect governed db (exclusion_insert x)"
  unfolding exclusion_insert_def
proof (rule guarded_effect [OF exclusion_guard_db])
  fix db assume "exclusion_guard x db = (Inr (), db)"
  note free = exclusion_guard_free [OF this]
  have "exclusions_ok db \<Longrightarrow> exclusions_ok (put_exclusions (accounting_exclusions db @ [x]) db)"
    if "\<not> list_ex (\<lambda>r. same_exclusion_key r x) (accounting_exclusions db)"
    using that free unfolding exclusions_ok_def put_exclusions_def
    by (auto simp: list_ex_iff same_exclusion_key_def overlap_sym(2) intro!: disjoint_append)
  then show "has_effect governed db (table_insert accounting_exclusions put_exclusions same_exclusion_key x)"
    using put_governed(2) governed_refl by (auto simp: has_effect_def table_insert_def)
qed

lemma governed_alias_update:
  assumes "\<And>a. ea_id (f a) = ea_id a"
  shows "has_effect governed db (alias_set i f)"
proof (cases "find_row (\<lambda>a. ea_id a = i) (email_aliases db)")
  case None
  then show ?thesis by (simp add: alias_set_def has_effect_def governed_refl)
next
  case (Some a)
  have "has_effect governed db (op_bind (alias_guard (f a)) (\<lambda>_. table_update email_aliases put_aliases same_alias_key ea_id i f))"
  proof (rule guarded_effect [OF alias_guard_db])
    assume g: "alias_guard (f a) db = (Inr (), db)"
    have "ea_id (f a) = i" using assms find_row_Some [OF Some] by simp
    note free = alias_guard_free [OF g, unfolded this]
    have "aliases_ok db \<Longrightarrow> aliases_ok (put_aliases (update_first (\<lambda>a. ea_id a = i) f (email_aliases db)) db)"
      unfolding aliases_ok_def put_aliases_def using free Some assms
      by (auto simp: overlap_sym(1) intro!: disjoint_update)
    then show "has_effect governed db (table_update email_aliases put_aliases same_alias_key ea_id i f)"
      using put_governed(1) governed_refl by (auto simp: has_effect_def table_update_def split: option.split)
  qed
  then show ?thesis using Some by (simp add: alias_set_def has_effect_def)
qed

lemma governed_exclusion_update:
  assumes "\<And>x. ax_id (f x) = ax_id x"
  shows "has_effect governed db (exclusion_set i f)"
proof (cases "find_row (\<lambda>x. ax_id x = i) (accounting_exclusions db)")
  case None
  then show ?thesis by (simp add: exclusion_set_def has_effect_def governed_refl)
next
  case (Some x)
  have "has_effect governed db (op_bind (exclusion_guard (f x)) (\<lambda>_. table_update accounting_exclusions put_exclusions same_exclusion_key ax_id i f))"
  proof (rule guarded_effect [OF exclusion_guard_db])
    assume g: "exclusion_guard (f x) db = (Inr (), db)"
    have "ax_id (f x) = i" using assms find_row_Some [OF Some] by simp
    note free = exclusion_guard_free [OF g, unfolded this]
    have "exclusions_ok db \<Longrightarrow> exclusions_ok (put_exclusions (update_first (\<lambda>x. ax_id x = i) f (accounting_exclusions db)) db)"
      unfolding exclusions_ok_def put_exclusions_def using free Some assms
      by (auto simp: overlap_sym(2) intro!: disjoint_update)
    then show "has_effect governed db (table_update accounting_exclusions put_exclusions same_exclusion_key ax_id i f)"
      using put_governed(2) governed_refl by (auto simp: has_effect_def table_update_def split: option.split)
  qed
  then show ?thesis using Some by (simp add: exclusion_set_def has_effect_def)
qed

lemma list_all_update_first: "list_all P rows \<Longrightarrow> (\<And>r. P (f r)) \<Longrightarrow> list_all P (update_first w f rows)"
  by (induction rows) auto

lemma governed_card_write:
  assumes "typed_match st e so r"
  shows "has_effect governed db (card_set i (rematched rt e st so r))"
proof -
  have "typed_card (rematched rt e st so r c)" for c using assms by (simp add: typed_card_def rematched_def)
  then have "cards_typed db \<Longrightarrow> cards_typed (put_cards (update_first w (rematched rt e st so r) (provider_cards db)) db)" for w
    by (simp add: cards_typed_def put_cards_def list_all_update_first)
  then have "governed db (put_cards (update_first w (rematched rt e st so r) (provider_cards db)) db)" for w
    by (simp add: governed_def) (simp add: put_cards_def ungoverned_def aliases_ok_def exclusions_ok_def)
  then show ?thesis using governed_refl
    by (simp add: has_effect_def card_set_def table_update_def split: option.split)
qed

lemma governed_resolution: "has_effect governed db (resolution_insert row)"
  by (simp add: has_effect_def resolution_insert_def governed_def put_resolutions_def ungoverned_def aliases_ok_def
      exclusions_ok_def cards_typed_def)

lemma governed_audit: "has_effect governed db (audit_success input)"
  by (simp add: has_effect_def audit_success_def audit_write_def governed_def ungoverned_def aliases_ok_def exclusions_ok_def
      cards_typed_def)

interpretation governance: governance_effect governed
  by unfold_locales (auto intro: governed_refl governed_trans governed_card_write governed_resolution governed_alias_insert
      governed_alias_update governed_exclusion_insert governed_exclusion_update
      governed_audit)

section \<open>A sample\<close>

definition open_card :: provider_card where
  "open_card = matched_card\<lparr>pv_employeeId := None, pv_matchStatus := CM_unmatched, pv_matchSource := None,
     pv_unmatchedReasonCode := Some ''EMPLOYEE_WITHOUT_SUB''\<rparr>"

definition sample_alias :: "string \<Rightarrow> int \<Rightarrow> int option \<Rightarrow> email_alias" where
  "sample_alias i start end_time =
     \<lparr>ea_id = i, ea_provider = photonpay, ea_aliasEmailNormalized = ''b@x.io'', ea_employeeId = ''e-1'', ea_status = CS_active,
      ea_validFrom = start, ea_validTo = end_time, ea_reason = None, ea_createdBy = ''u1'', ea_updatedBy = ''u1'', ea_updatedAt = 0\<rparr>"

definition governance_db :: database where
  "governance_db = card_db\<lparr>provider_cards := [open_card],
     email_aliases := [sample_alias ''a-1'' 0 (Some 10), sample_alias ''a-2'' 10 None]\<rparr>"

lemma governance_db_ok: "aliases_ok governance_db" "exclusions_ok governance_db" "cards_typed governance_db"
  by (simp_all add: governance_db_def card_db_def empty_db_def aliases_ok_def exclusions_ok_def cards_typed_def disjoint_rows_def
      sample_alias_def aliases_overlap_def periods_overlap_def alias_period_def open_card_def matched_card_def typed_card_def typed_match_def)

definition exclusion_input :: exclusion_request where
  "exclusion_input = \<lparr>xq_providerCardId = JString ''pc-1'', xq_effectiveFrom = JUndefined, xq_effectiveTo = JUndefined,
     xq_note = JUndefined, xq_confirm = JBool True\<rparr>"

text \<open>The requests that write.\<close>

inductive governance_step :: "database \<Rightarrow> database \<Rightarrow> bool" where
  create_alias: "governance_step db (snd (createAlias rt input actor db))"
| correct_alias: "governance_step db (snd (correctAlias rt i input actor db))"
| disable_alias: "governance_step db (snd (disableAlias rt i confirm actor db))"
| rematch: "governance_step db (snd (executeRematch rt confirm actor db))"
| create_exclusion: "governance_step db (snd (createExclusion rt xinput actor db))"
| disable_exclusion: "governance_step db (snd (disableExclusion rt i confirm actor db))"

lemma governance_step_governed: "governance_step db db' \<Longrightarrow> governed db db'"
  by (induction rule: governance_step.induct) (use governance.handlers in \<open>auto simp: has_effect_def\<close>)

lemma governance_run_governed: "governance_step\<^sup>*\<^sup>* db db' \<Longrightarrow> governed db db'"
  by (induction rule: rtranclp_induct) (auto intro: governed_refl governed_trans governance_step_governed)

text \<open>
  C18: whatever governance requests run, in any order, refused or granted, the active aliases of an email stay disjoint in time, so do the
  active exclusions of a card, the record of resolutions only grows, and no other table of the database
  changes but the cards' and the audit log.
\<close>

theorem governance_keeps_periods_disjoint:
  assumes "governance_step\<^sup>*\<^sup>* db db'" and "aliases_ok db" and "exclusions_ok db"
  shows "aliases_ok db' \<and> exclusions_ok db' \<and> ungoverned db' = ungoverned db
    \<and> (\<exists>new. match_resolutions db' = match_resolutions db @ new)"
  using governance_run_governed [OF assms(1)] assms(2,3) by (simp add: governed_def)

theorem governance_keeps_periods_disjoint_witness:
  "aliases_ok (snd (createExclusion card_rt exclusion_input sample_actor governance_db))"
proof -
  have "governance_step\<^sup>*\<^sup>* governance_db (snd (createExclusion card_rt exclusion_input sample_actor governance_db))"
    by (rule r_into_rtranclp, rule create_exclusion)
  then show ?thesis using governance_keeps_periods_disjoint governance_db_ok by blast
qed

section \<open>One alias at a time\<close>

lemma overlap_at: "alias_applies email t a \<Longrightarrow> alias_applies email t b \<Longrightarrow> aliases_overlap a b"
  by (auto simp: alias_applies_def aliases_overlap_def periods_overlap_def alias_period_def split: option.splits)

lemma filter_at_most_one:
  assumes "distinct (map ident rows)" "\<And>a b. a \<in> set rows \<Longrightarrow> b \<in> set rows \<Longrightarrow> P a \<Longrightarrow> P b \<Longrightarrow> ident a = ident b"
  shows "length (filter P rows) \<le> 1"
  using assms
proof (induction rows)
  case (Cons a rows)
  have "\<not> P b" if "P a" "b \<in> set rows" for b
    using Cons.prems that by (force simp: image_iff)
  then have "P a \<Longrightarrow> filter P rows = []" by (simp add: filter_empty_conv)
  then show ?case using Cons by auto
qed simp

text \<open>
  as long as the aliases are disjoint, at every moment an email has at most one alias in force: matching a card
  with the aliases of the database never ends in the conflict \<open>PROVIDER_EMAIL_ALIAS_AMBIGUOUS\<close>.
\<close>

theorem alias_is_never_ambiguous:
  assumes "aliases_ok db" and "pi_aliases input = Some (filter (alias_in_force t) (email_aliases db))"
  shows "pm_reasonCode (matchProviderCard rt input) \<noteq> Some ''PROVIDER_EMAIL_ALIAS_AMBIGUOUS''
    \<or> pi_forcedReasonCode input = Some ''PROVIDER_EMAIL_ALIAS_AMBIGUOUS''"
proof -
  have "length (alias_matches rt input email) \<le> 1" for email
  proof (cases "pi_provider input = photonpay")
    case True
    have same: "ea_id a = ea_id b" if "a \<in> set (email_aliases db)" "b \<in> set (email_aliases db)"
        "alias_applies email u a" "alias_applies email u b" for a b u
      using that(1,2) overlap_at [OF that(3,4)] assms(1) unfolding aliases_ok_def disjoint_rows_def by blast
    have "length (filter (alias_applies email u) (filter (alias_in_force t) (email_aliases db))) \<le> 1" for u
      unfolding filter_filter
      by (rule filter_at_most_one [where ident = ea_id])
        (use assms(1) same in \<open>auto simp: aliases_ok_def disjoint_rows_def\<close>)
    then show ?thesis using True assms(2) by (simp add: alias_matches_def)
  qed (simp add: alias_matches_def)
  then have one: "\<not> 1 < length (alias_matches rt input email)" for email by (simp add: not_less)
  have v: "pm_reasonCode (validateEmployeeMatch e s a p ids) \<noteq> Some ''PROVIDER_EMAIL_ALIAS_AMBIGUOUS''" for e s a p ids
    by (simp add: validateEmployeeMatch_def)
  have "pm_reasonCode (match_by_email rt input email) \<noteq> Some ''PROVIDER_EMAIL_ALIAS_AMBIGUOUS''" for email
    using one [of email] v by (auto simp: match_by_email_def Let_def split: list.split option.split)
  then show ?thesis by (auto simp: matchProviderCard_def split: option.split list.split)
qed

theorem alias_is_never_ambiguous_witness:
  "pm_reasonCode (matchProviderCard card_rt
     \<lparr>pi_provider = photonpay, pi_email = Some ''b@x.io'', pi_forcedReasonCode = None, pi_employees = employees governance_db,
      pi_aliases = Some (filter (alias_in_force 10) (email_aliases governance_db)), pi_subMappedEmployeeIds = Some [''e-1''],
      pi_matchingAt = Some 10\<rparr>) \<noteq> Some ''PROVIDER_EMAIL_ALIAS_AMBIGUOUS''"
  (is "pm_reasonCode (matchProviderCard card_rt ?input) \<noteq> _")
proof -
  have "pm_reasonCode (matchProviderCard card_rt ?input) \<noteq> Some ''PROVIDER_EMAIL_ALIAS_AMBIGUOUS''
      \<or> pi_forcedReasonCode ?input = Some ''PROVIDER_EMAIL_ALIAS_AMBIGUOUS''"
    by (rule alias_is_never_ambiguous [OF governance_db_ok(1), where t = 10]) simp
  then show ?thesis by simp
qed

section \<open>Types of the cards\<close>

text \<open>The imports and inventory runs, as frames on the databases whose cards are typed.\<close>

definition typed_frame :: "'a handler \<Rightarrow> bool" where
  "typed_frame h \<longleftrightarrow> op_frame (\<lambda>_. ()) {db. cards_typed db} h"

lemma frame_try [frame_intros]: "op_frame v P m \<Longrightarrow> op_frame v P (op_try m)"
  by (auto simp: op_frame_def op_try_def split: prod.split)

lemma frame_typed: "op_frame provider_cards UNIV h \<Longrightarrow> typed_frame h"
  by (simp add: op_frame_def typed_frame_def cards_typed_def)

lemma typed_mark: "typed_card (sync_mark rt s c) = typed_card c"
  by (simp add: sync_mark_def typed_card_def)

lemma typed_marks:
  "typed_frame (markTransactionSync rt p c s)" "typed_frame (markUntouchedTransactionSync rt p t s)"
  unfolding typed_frame_def markTransactionSync_def markUntouchedTransactionSync_def cards_update_many_def
  by (auto intro!: op_frame_modify simp: cards_typed_def put_cards_def list_all_iff update_rows_def typed_mark)

lemma frame_cards: "op_frame provider_cards UNIV h \<Longrightarrow> op_frame (\<lambda>_. ()) {db. cards_typed db} h"
  by (simp add: op_frame_def cards_typed_def)

lemma other_tables:
  "op_frame provider_cards UNIV (recordUnmatchedEvent rt input)" "op_frame provider_cards UNIV (resolveAfterSuccessfulImport rt report)"
  "op_frame provider_cards UNIV (event_insert e)" "op_frame provider_cards UNIV (spend_upsert p i e f)"
  "op_frame provider_cards UNIV (audit_success input')"
  unfolding recordUnmatchedEvent_def resolveAfterSuccessfulImport_def unmatched_insert_def unmatched_set_def event_insert_def spend_upsert_def
  by (auto intro!: frame_intros op_frame_modify split: option.split)
    (simp_all add: op_frame_def table_insert_def table_update_def put_unmatched_def put_spends_def
      audit_success_def audit_write_def looks_past_audit_def split: option.split)

lemmas typed_steps = typed_marks [unfolded typed_frame_def] other_tables [THEN frame_cards]

lemma typed_frame_photonpay: "typed_frame (photonpay_step task window targets rt seen raw)"
  unfolding photonpay_step_def typed_frame_def photonpay_upsertCardSpendEvent_def resolveSpendOwner_def photonpay_owned_def
    photonpay_store_def photonpay_create_def photonpay_recordUnmatched_def recordFailureUnlessPreview_def failing_def unless_preview_def Let_def
  by (auto intro!: frame_intros typed_steps split: option.split spend_owner.split sum.split debit_issue.split)

lemma typed_frame_airwallex: "typed_frame (airwallex_step task window rt seen raw)"
  unfolding airwallex_step_def typed_frame_def airwallex_upsertCardSpendEvent_def resolveSpendOwner_def airwallex_store_def
    airwallex_recordUnmatched_def refuse_write_def Let_def
  by (auto intro!: frame_intros typed_steps split: option.split spend_owner.split)

abbreviation keeps_typed :: "database \<Rightarrow> database \<Rightarrow> bool" where
  "keeps_typed a b \<equiv> (cards_typed a \<longrightarrow> cards_typed b)"

interpretation typed_writes: write_effect keeps_typed
  by unfold_locales auto

lemma typed_effect: "typed_frame h \<Longrightarrow> has_effect keeps_typed db h"
  by (simp add: typed_frame_def op_frame_def has_effect_def)

lemmas typed_mark_effects = typed_marks [THEN typed_effect]

interpretation photonpay_typed: import_effect keeps_typed "photonpay_step task window targets" "\<lambda>_. True"
  for task window targets
  by unfold_locales (simp_all add: typed_effect typed_frame_photonpay)

interpretation airwallex_typed: import_effect keeps_typed "airwallex_step task window" "\<lambda>_. True"
  for task window
  by unfold_locales (simp_all add: typed_effect typed_frame_airwallex)

lemma typed_upsert:
  assumes "typed_card create" "\<And>c. typed_card (update c)"
  shows "has_effect keeps_typed db (card_upsert p i create update)"
  using assms by (simp add: has_effect_def card_upsert_def cards_typed_def put_cards_def list_all_update_first split: option.split)

lemma typed_store: "(\<And>safe. typed_result (decide safe)) \<Longrightarrow> has_effect keeps_typed db (store_cards p decide rt cards)"
proof (induction cards arbitrary: rt db)
  case Nil
  show ?case using typed_writes.pure(1) by (simp only: store_cards.simps)
next
  case (Cons safe cards)
  have "typed_card (new_card rt p safe (decide safe))" "typed_card (stored_fields rt safe (decide safe) c)" for c
    using Cons.prems [of safe] by (simp_all add: typed_result_def typed_card_def new_card_def stored_fields_def)
  then show ?case
    unfolding store_cards.simps store_card_def Let_def
    by (intro typed_writes.bind typed_writes.pure typed_upsert Cons)
qed

lemma typed_inventory: "has_effect keeps_typed db (syncProviderWithPayload env rt p payload m)"
  unfolding syncProviderWithPayload_def load_cards_def loadPhotonPay_def read_basis_def resolveEffectiveSubIdMappings_def Let_def
  by (auto intro!: typed_writes.bind typed_writes.pure typed_store typed_decide split: option.split)

lemma typed_sync: "has_effect keeps_typed db (sync_with_credential env decrypt rt p)"
  unfolding sync_with_credential_def getCardProviderCredentialPayload_def
  by (auto intro!: typed_writes.catch typed_writes.bind typed_writes.pure typed_inventory split: option.split)

lemma typed_photonpay: "has_effect keeps_typed db (photonpay_execute env fuel rt cx)"
  unfolding photonpay_execute_def photonpay_run_def photonpay_prepare_def loadHistoricalBackfillCardSets_def unless_preview_def Let_def
  by (auto intro!: typed_writes.bind typed_writes.attempt typed_writes.pure typed_inventory photonpay_typed.windows
      typed_mark_effects split: option.split sum.split)

lemma typed_airwallex: "has_effect keeps_typed db (airwallex_execute env fuel rt cx)"
  unfolding airwallex_execute_def airwallex_run_def Let_def
  by (auto intro!: typed_writes.bind typed_writes.attempt typed_writes.pure typed_inventory airwallex_typed.pages
      typed_mark_effects split: option.split sum.split)

text \<open>Everything that writes cards.\<close>

inductive card_step :: "database \<Rightarrow> database \<Rightarrow> bool" where
  governs: "governance_step db db' \<Longrightarrow> card_step db db'"
| syncs: "card_step db (snd (syncProvider env decrypt rt p actor db))"
| syncs_all: "card_step db (snd (syncAll env decrypt rt rt' actor db))"
| imports_photonpay: "card_step db (snd (photonpay_execute env fuel rt cx db))"
| imports_airwallex: "card_step db (snd (airwallex_execute env fuel rt cx db))"

lemma typed_audit: "has_effect keeps_typed db (audit_success input)"
  by (rule typed_effect) (simp add: typed_frame_def other_tables(5) [THEN frame_cards])

lemma card_step_typed: "card_step db db' \<Longrightarrow> cards_typed db \<Longrightarrow> cards_typed db'"
proof (induction rule: card_step.induct)
  case (governs db db')
  then show ?case using governance_step_governed by (simp add: governed_def)
next
  case (syncs db env decrypt rt p actor)
  have "has_effect keeps_typed db (syncProvider env decrypt rt p actor)"
    unfolding syncProvider_def by (intro typed_writes.bind typed_writes.pure typed_sync typed_audit)
  then show ?case using syncs by (simp add: has_effect_def)
next
  case (syncs_all db env decrypt rt rt' actor)
  have "has_effect keeps_typed db (syncAll env decrypt rt rt' actor)"
    unfolding syncAll_def by (intro typed_writes.bind typed_writes.pure typed_sync typed_audit)
  then show ?case using syncs_all by (simp add: has_effect_def)
qed (use typed_photonpay typed_airwallex in \<open>auto simp: has_effect_def\<close>)

text \<open>
  C17: every stored card is of one of four forms, whatever syncs, imports and governance requests run: a matched card has an employee and a
  source and no reason; a card that is unmatched, in conflict or excluded has no employee and no source, and has a reason.
\<close>

theorem cards_stay_typed:
  assumes "card_step\<^sup>*\<^sup>* db db'" and "cards_typed db"
  shows "cards_typed db'"
  using assms by (induction rule: rtranclp_induct) (auto dest: card_step_typed)

theorem cards_stay_typed_witness:
  "cards_typed (snd (photonpay_execute (card_env [card_tx]) 2 card_rt (card_context JNull) governance_db))"
  by (rule cards_stay_typed [where db = governance_db], rule r_into_rtranclp, rule imports_photonpay, rule governance_db_ok(3))

lemma reads_only_basis: "snd (read_basis p rt m db) = db"
  unfolding read_basis_def resolveEffectiveSubIdMappings_def by (auto split: option.split)

section \<open>A preview foretells the rematch\<close>

definition decided :: "rematch_stats \<Rightarrow> rematch_stats" where
  "decided s = s\<lparr>rs_changedCount := 0, rs_resolvedExceptionCount := 0\<rparr>"

definition count_card :: "(provider_card \<Rightarrow> card_match) \<Rightarrow> provider_card \<Rightarrow> rematch_stats \<Rightarrow> rematch_stats" where
  "count_card decide c s = incrementRematchStats (decide c) (s\<lparr>rs_processedCount := rs_processedCount s + 1\<rparr>)"

lemma decided_count: "decided (count_card decide c s) = count_card decide c (decided s)"
  by (simp add: decided_def count_card_def incrementRematchStats_def count_match_reason_def count_match_def)

lemma decided_fold: "decided (fold (count_card decide) cs s) = fold (count_card decide) cs (decided s)"
  by (induction cs arbitrary: s) (simp_all add: decided_count)

lemma rematch_card_counts:
  "rematch_card rt actor preview x (decide c) c s db = (Inr s', db') \<Longrightarrow> decided s' = count_card decide c (decided s)"
  unfolding decided_count [symmetric]
  by (auto simp: rematch_card_def resolve_match_def count_card_def op_bind_eq_Inr decided_def resolution_insert_def Let_def
      split: if_splits option.splits)

lemma rematch_each_counts:
  "rematch_each actor preview exclusions decide rt cs s db = (Inr s', db') \<Longrightarrow> decided s' = fold (count_card decide) cs (decided s)"
proof (induction cs arbitrary: rt s db)
  case (Cons c cs)
  then obtain s1 db1 where "rematch_card rt actor preview (exclusions (pv_id c)) (decide c) c s db = (Inr s1, db1)"
      "rematch_each actor preview exclusions decide (ids_from 1 rt) cs s1 db1 = (Inr s', db')"
    by (auto simp: op_bind_eq_Inr)
  then show ?case using Cons.IH rematch_card_counts by fastforce
qed simp

lemma rematch_each_preview: "rematch_each actor True exclusions decide rt cs s db = (Inr (fold (count_card decide) cs s), db)"
  by (induction cs arbitrary: rt s) (simp_all add: rematch_card_def count_card_def Let_def op_bind_def)

text \<open>
  C34: the preview of a rematch writes nothing and foretells its counts: when the rematch then runs on the same database at the same
  moment, it reports the same numbers of cards matched by email, matched by alias, excluded, in conflict and left unmatched.
\<close>

theorem preview_foretells_rematch:
  assumes "executeRematch rt confirm actor db = (Inr s, db')"
  shows "previewRematch rt db = (Inr (decided s), db)"
proof -
  obtain db1 where run: "rematchUnmatched rt (Some actor) \<lparr>ro_emails = None, ro_cardIds = None, ro_preview = False\<rparr> db = (Inr s, db1)"
    using assms by (auto simp: executeRematch_def op_bind_eq_Inr op_transaction_eq_Inr op_lift_def split: if_splits)
  let ?o = "\<lparr>ro_emails = None, ro_cardIds = None, ro_preview = True\<rparr>"
  have cards: "rematch_cards \<lparr>ro_emails = None, ro_cardIds = None, ro_preview = False\<rparr> db = rematch_cards ?o db"
    by (simp add: rematch_cards_def rematch_wanted_def cong: filter_cong)
  obtain basis where basis: "read_basis photonpay rt (currentShanghaiSettlementMonth rt) db = (Inr basis, db)"
      and each: "rematch_each (Some actor) False (exclusion_of (rt_now rt) db) (rematch_decision rt basis (exclusion_of (rt_now rt) db)) rt
        (rematch_cards ?o db) emptyRematchResult db = (Inr s, db1)"
    using run cards reads_only_basis [of photonpay rt "currentShanghaiSettlementMonth rt" db]
    by (auto simp: rematchUnmatched_def op_bind_eq_Inr)
  have "decided s = fold (count_card (rematch_decision rt basis (exclusion_of (rt_now rt) db))) (rematch_cards ?o db) (decided emptyRematchResult)"
    by (rule rematch_each_counts [OF each])
  then show ?thesis
    by (simp add: previewRematch_def rematchUnmatched_def op_bind_Inr [where m = "read_basis photonpay rt (currentShanghaiSettlementMonth rt)", OF basis] rematch_each_preview)
      (simp add: decided_def emptyRematchResult_def)
qed

lemma card_now: "rt_now card_rt = 1772496000000"
  by (simp add: card_rt_def sample_rt_def)

lemma sample_month: "currentShanghaiSettlementMonth card_rt = Some 1772323200000"
  by code_simp

lemma sample_basis:
  "read_basis photonpay card_rt (currentShanghaiSettlementMonth card_rt) governance_db =
     (Inr \<lparr>mb_employees = employees governance_db, mb_mappings = [], mb_aliases = [sample_alias ''a-2'' 10 None], mb_excluded = []\<rparr>,
      governance_db)"
  unfolding sample_month
  by (simp add: read_basis_def card_now resolveEffectiveSubIdMappings_def month_query_def governance_db_def card_db_def empty_db_def
      effective_rows_def latest_by_key_def excluded_card_ids_def alias_in_force_def in_force_def sample_alias_def)

lemma sample_decision:
  "rematch_decision card_rt \<lparr>mb_employees = employees governance_db, mb_mappings = [], mb_aliases = [sample_alias ''a-2'' 10 None],
     mb_excluded = []\<rparr> (\<lambda>_. None) open_card = unmatched CM_unmatched ''EMPLOYEE_WITHOUT_SUB''"
  by code_simp

theorem preview_foretells_rematch_witness:
  "previewRematch card_rt governance_db =
     (Inr (emptyRematchResult\<lparr>rs_processedCount := 1, rs_remainingUnmatched := 1, rs_employeeWithoutSub := 1\<rparr>), governance_db)"
proof -
  have "rematch_cards \<lparr>ro_emails = None, ro_cardIds = None, ro_preview = False\<rparr> governance_db = [open_card]"
    by (simp add: rematch_cards_def rematch_wanted_def governance_db_def open_card_def matched_card_def)
  moreover have "exclusion_of t governance_db = (\<lambda>_. None)" for t
    by (simp add: exclusion_of_def governance_db_def card_db_def empty_db_def fun_eq_iff)
  ultimately have "fst (executeRematch card_rt (JBool True) sample_actor governance_db) =
      Inr (emptyRematchResult\<lparr>rs_processedCount := 1, rs_remainingUnmatched := 1, rs_employeeWithoutSub := 1\<rparr>)"
    using sample_decision
    by (simp add: executeRematch_def assertConfirmed_def rematchUnmatched_def sample_basis op_transaction_def
        op_bind_Inr [where m = "read_basis photonpay card_rt (currentShanghaiSettlementMonth card_rt)", OF sample_basis] bind_nested)
      (simp add: rematch_card_def match_differs_def open_card_def emptyRematchResult_def incrementRematchStats_def
        count_match_def count_match_reason_def unmatched_def Let_def)
  then have "executeRematch card_rt (JBool True) sample_actor governance_db =
      (Inr (emptyRematchResult\<lparr>rs_processedCount := 1, rs_remainingUnmatched := 1, rs_employeeWithoutSub := 1\<rparr>),
       snd (executeRematch card_rt (JBool True) sample_actor governance_db))"
    by (metis prod.collapse)
  from preview_foretells_rematch [OF this] show ?thesis by (simp add: decided_def emptyRematchResult_def)
qed

section \<open>A card out of accounting\<close>

lemma find_row_in_update:
  assumes "\<And>r. p (f r) = p r" "find_row p rows = Some r"
  shows "\<exists>r'. find_row p (update_first w f rows) = Some r' \<and> (r' = r \<or> r' = f r)"
  using assms(2) by (induction rows) (auto simp: assms(1) split: if_splits)

lemma card_set_keeps:
  assumes "card_set i (rematched rt e st so r) db = (Inr c, db')" "find_card p cardId db = Some c0"
  shows "(\<exists>c'. find_card p cardId db' = Some c' \<and> pv_id c' = pv_id c0) \<and> accounting_exclusions db' = accounting_exclusions db"
proof -
  have db': "db' = put_cards (update_first (\<lambda>c. pv_id c = i) (rematched rt e st so r) (provider_cards db)) db"
    using assms(1) by (auto simp: card_set_def table_update_def split: option.splits if_splits)
  have "card_key (rematched rt e st so r c) = card_key c" "pv_id (rematched rt e st so r c) = pv_id c" for c
    by (simp_all add: rematched_def card_key_def)
  then show ?thesis
    using find_row_in_update [of "\<lambda>c. card_key c = (p, cardId)" "rematched rt e st so r" "provider_cards db" c0] assms(2)
    unfolding db' find_card_def put_cards_def by fastforce
qed

lemma apply_exclusion_keeps:
  assumes "apply_exclusion rt actor x c db = (Inr u, db')" "find_card p cardId db = Some c0"
  shows "(\<exists>c'. find_card p cardId db' = Some c' \<and> pv_id c' = pv_id c0) \<and> accounting_exclusions db' = accounting_exclusions db"
  using assms card_set_keeps
  by (auto simp: apply_exclusion_def op_bind_eq_Inr resolution_insert_def put_resolutions_def find_card_def split: if_splits)

lemma exclusion_inserted:
  assumes "op_catch (exclusion_insert row) throwExclusionConflict db = (Inr x, db')"
  shows "x = row \<and> db' = put_exclusions (accounting_exclusions db @ [row]) db"
proof -
  have "exclusion_insert row db = (Inr x, db')"
    using assms by (auto simp: op_catch_def throwExclusionConflict_def split: prod.splits sum.splits)
  moreover have "snd (exclusion_guard row db) = db" by (rule exclusion_guard_db)
  ultimately show ?thesis
    by (auto simp: exclusion_insert_def op_bind_eq_Inr table_insert_def split: if_splits)
qed

lemma preview_exclusion_card:
  "previewExclusion rt input db = (Inr v, db') \<Longrightarrow> db' = db \<and> pv_provider (xp_card v) = photonpay"
  by (auto simp: previewExclusion_def op_bind_eq_Inr op_lift_def Let_def split: option.splits if_splits)

lemma created_exclusion:
  assumes "createExclusion rt input actor db = (Inr (x, False, v), db')"
    and "find_card p cardId db = Some c0"
  shows "pv_provider (xp_card v) = photonpay
    \<and> (\<exists>c'. find_card p cardId db' = Some c' \<and> pv_id c' = pv_id c0)
    \<and> x \<in> set (accounting_exclusions db')
    \<and> ax_providerCardId x = pv_id (xp_card v) \<and> ax_status x = CS_active \<and> exclusion_period x = (xp_effectiveFrom v, xp_effectiveTo v)"
proof -
  obtain remark db0 where "previewExclusion rt input db = (Inr v, db0)"
    and "grant_exclusion rt (xq_effectiveFrom input) actor (pv_id (xp_card v)) (xp_effectiveFrom v, xp_effectiveTo v) remark db0
       = (Inr (x, False), db')"
    using assms(1)
    by (auto simp: createExclusion_def op_bind_eq_Inr op_assert_def op_lift_def op_transaction_eq_Inr split: if_splits)
  then have preview: "previewExclusion rt input db = (Inr v, db)"
    and run: "grant_exclusion rt (xq_effectiveFrom input) actor (pv_id (xp_card v)) (xp_effectiveFrom v, xp_effectiveTo v) remark db
       = (Inr (x, False), db')"
    using preview_exclusion_card by blast+
  let ?row = "exclusion_row rt actor (pv_id (xp_card v)) (xp_effectiveFrom v, xp_effectiveTo v) remark"
  obtain db1 before db2 u where
    ins: "op_catch (exclusion_insert ?row) throwExclusionConflict db = (Inr x, db1)"
    and found: "find_card_or_throw (pv_id (xp_card v)) db1 = (Inr before, db1)"
    and app: "apply_exclusion (ids_from 1 rt) actor x before db1 = (Inr u, db2)"
    and aud: "snd (exclusion_audit actor ''provider_card_accounting_exclusion.create'' (ax_id x)
             [''providerCardDigest'', ''reason'', ''status'', ''effectiveFrom'', ''effectiveTo'', ''note''] db2) = db'"
    using run by (auto simp: grant_exclusion_def op_bind_eq_Inr find_card_or_throw_def split: option.splits)
  note x = exclusion_inserted [OF ins]
  have "find_card p cardId db1 = Some c0" using x assms(2) by (simp add: find_card_def put_exclusions_def)
  note kept = apply_exclusion_keeps [OF app this]
  have same: "provider_cards db' = provider_cards db2" "accounting_exclusions db' = accounting_exclusions db2"
    using aud by (auto simp: exclusion_audit_def audit_success_def audit_write_def)
  have "x \<in> set (accounting_exclusions db')" using same(2) kept x by (simp add: put_exclusions_def)
  moreover have "\<exists>c'. find_card p cardId db' = Some c' \<and> pv_id c' = pv_id c0" using kept same(1) by (simp add: find_card_def)
  ultimately show ?thesis
    using x preview_exclusion_card [OF preview] by (simp add: exclusion_row_def exclusion_period_def)
qed

text \<open>
  C35: from the moment an exclusion is granted, a transaction of the card inside its period belongs to nobody: a PhotonPay import
  counts it as excluded and writes no spend event for it.
\<close>

theorem excluded_card_is_not_imported:
  assumes "createExclusion rt input actor db = (Inr (x, False, v), db')"
    and "find_card photonpay cardId db = Some (xp_card v)"
    and "px_cardId r = Some cardId" and "px_transactionAt r = Some t" and "px_externalEventId r = Some external"
    and "isEffective (xp_effectiveFrom v) (xp_effectiveTo v) t"
  shows "fst (photonpay_upsertCardSpendEvent preview rt' task r db') = Inr Import_excluded
    \<and> card_spend_events (snd (photonpay_upsertCardSpendEvent preview rt' task r db')) = card_spend_events db'"
proof -
  obtain c' where c': "find_card photonpay cardId db' = Some c'" "pv_id c' = pv_id (xp_card v)"
    using created_exclusion [OF assms(1,2)] by blast
  have x: "x \<in> set (accounting_exclusions db')" "ax_providerCardId x = pv_id (xp_card v)" "ax_status x = CS_active"
    "exclusion_period x = (xp_effectiveFrom v, xp_effectiveTo v)"
    using created_exclusion [OF assms(1,2)] by blast+
  have "exclusion_in_force t x" using x assms(6) by (auto simp: exclusion_in_force_def in_force_def isEffective_def exclusion_period_def)
  then have "excluded_at t c' db'" using x c'(2) by (auto simp: excluded_at_def list_ex_iff)
  then have "spend_owner_of photonpay cardId t db' = Excluded_spend ''ADMIN_TEST_CARD'' ''The provider card is excluded from accounting.''"
    using c'(1) by (simp add: spend_owner_of_def)
  then show ?thesis using assms(3-5)
    by (simp add: photonpay_upsertCardSpendEvent_def resolveSpendOwner_def unless_preview_def markTransactionSync_def
        cards_update_many_def put_cards_def)
qed

lemma sample_preview:
  "\<exists>v. previewExclusion card_rt exclusion_input governance_db = (Inr v, governance_db) \<and> xp_card v = open_card
     \<and> xp_effectiveFrom v = 1772496000000 \<and> xp_effectiveTo v = None \<and> xp_existingCardSpendEventCount v = 0"
  by (simp add: exclusion_input_def previewExclusion_def read_period_def governance_parseDate_def is_absent_def card_now
      governance_optionalDate_def assertPeriod_def requireText_def governance_db_def card_db_def empty_db_def open_card_def
      matched_card_def spends_of_def js_trim_def is_js_space_def)

lemma exclusion_fields:
  "assertConfirmed (xq_confirm exclusion_input) = Inr ()" "optionalText (xq_note exclusion_input) f n = Inr None"
  "xq_effectiveFrom exclusion_input = JUndefined"
  by (simp_all add: exclusion_input_def assertConfirmed_def optionalText_def is_absent_def)

lemma sample_grant:
  "\<exists>x db'. grant_exclusion card_rt JUndefined sample_actor ''pc-1'' (1772496000000, None) None governance_db = (Inr (x, False), db')"
  by (simp add: grant_exclusion_def exclusion_insert_def exclusion_guard_def governance_db_def card_db_def empty_db_def open_card_def
      matched_card_def op_catch_def op_bind_def table_insert_def exclusion_row_def find_card_or_throw_def apply_exclusion_def
      card_set_def table_update_def put_exclusions_def put_cards_def exclusion_audit_def audit_success_def audit_write_def resolution_insert_def)

theorem excluded_card_is_not_imported_witness:
  "fst (photonpay_upsertCardSpendEvent False card_rt (card_task JNull) (bare_record\<lparr>px_transactionAt := Some 1772496000000\<rparr>)
     (snd (createExclusion card_rt exclusion_input sample_actor governance_db))) = Inr Import_excluded"
proof -
  obtain v where v: "previewExclusion card_rt exclusion_input governance_db = (Inr v, governance_db)" "xp_card v = open_card"
      "xp_effectiveFrom v = 1772496000000" "xp_effectiveTo v = None" "xp_existingCardSpendEventCount v = 0"
    using sample_preview by blast
  obtain x db' where "grant_exclusion card_rt JUndefined sample_actor ''pc-1'' (1772496000000, None) None governance_db = (Inr (x, False), db')"
    using sample_grant by blast
  moreover have "pv_id open_card = ''pc-1''" by (simp add: open_card_def matched_card_def)
  ultimately have "createExclusion card_rt exclusion_input sample_actor governance_db = (Inr (x, False, v), db')"
    using v by (simp add: createExclusion_def exclusion_fields op_bind_def op_transaction_def)
  then have "createExclusion card_rt exclusion_input sample_actor governance_db
      = (Inr (x, False, v), snd (createExclusion card_rt exclusion_input sample_actor governance_db))"
    by simp
  moreover have "find_card photonpay ''c-1'' governance_db = Some open_card"
    by (simp add: find_card_def governance_db_def card_key_def open_card_def matched_card_def)
  ultimately show ?thesis
    using excluded_card_is_not_imported [of card_rt exclusion_input sample_actor governance_db x v _ "''c-1''"
        "bare_record\<lparr>px_transactionAt := Some 1772496000000\<rparr>" 1772496000000 "''tx-2''" False card_rt "card_task JNull"]
    by (simp add: v(2-4) isEffective_def bare_record_def)
qed

end
