(* ===== verification/Access_Properties.thy ===== *)
theory Access_Properties
  imports Access_Sessions Governance_Properties
begin

text \<open>
  What access control promises: an enabled \<open>super_admin\<close> with the core permissions always remains, a new password ends
  every session for good, a request is admitted only for permissions its administrator has, and nobody
  tries more than five passwords a minute from one address.
\<close>

section \<open>The last super administrator\<close>

definition super_guarded :: "database \<Rightarrow> bool" where
  "super_guarded db \<longleftrightarrow>
     (\<exists>r u. find_row (\<lambda>r. rl_code r = SUPER_ADMIN_CODE) (role_rows db) = Some r \<and> rl_status r = CS_active
        \<and> js_lower (rl_id r) = rl_id r \<and> set CORE_SUPER_PERMISSIONS \<subseteq> pn_code ` set (permissions_of (rl_id r) db)
        \<and> u \<in> set (admin_user_rows db) \<and> um_status u = CS_active \<and> (um_id u, rl_id r) \<in> set (user_role_rows db))"

definition access_ok :: "database \<Rightarrow> bool" where
  "access_ok db \<longleftrightarrow> super_guarded db \<and> distinct (map um_id (admin_user_rows db)) \<and> distinct (map rl_id (role_rows db))
     \<and> distinct (map pn_id (permission_rows db))"

definition guarded :: "database \<Rightarrow> database \<Rightarrow> bool" where
  "guarded a b \<longleftrightarrow> (access_ok a \<longrightarrow> access_ok b)"

interpretation super_guard: write_effect guarded
  by unfold_locales (auto simp: guarded_def)

definition access_tables :: "database \<Rightarrow> admin_user list \<times> role_row list \<times> permission_row list \<times> (string \<times> string) list \<times> (string \<times> string) list" where
  "access_tables db = (admin_user_rows db, role_rows db, permission_rows db, user_role_rows db, role_permission_rows db)"

lemma access_ok_tables:
  assumes "access_tables b = access_tables a"
  shows "access_ok b = access_ok a"
proof -
  have rows: "admin_user_rows b = admin_user_rows a" "role_rows b = role_rows a" "permission_rows b = permission_rows a"
    "user_role_rows b = user_role_rows a" "role_permission_rows b = role_permission_rows a"
    using assms by (simp_all add: access_tables_def)
  show ?thesis unfolding access_ok_def super_guarded_def permissions_of_def permission_ids_of_def rows by (rule refl)
qed

lemma guarded_tables: "access_tables b = access_tables a \<Longrightarrow> guarded a b"
  unfolding guarded_def by (drule access_ok_tables) simp

lemma js_lower_char_again [simp]: "js_lower_char (js_lower_char c) = js_lower_char c"
proof -
  define n where "n = (of_char c :: nat)"
  have "of_char (char_of (n + 32) :: char) = n + 32" if "n \<le> 222" using that by simp
  then show ?thesis unfolding js_lower_char_def n_def [symmetric] Let_def
    by (auto simp: n_def [symmetric] simp del: of_char_of)
qed

lemma js_lower_again [simp]: "js_lower (js_lower s) = js_lower s"
  by (simp add: js_lower_def)

text \<open>Writes that leave the tables of administrators and roles alone.\<close>

lemma table_frames [frame_intros]:
  "looks_past_audit access_tables" "op_frame access_tables UNIV (revoke_where now p)"
  "op_frame access_tables UNIV (session_insert s)" "op_frame access_tables UNIV (touch_session rt s)"
  by (simp add: looks_past_audit_def access_tables_def)
     (auto intro!: frame_intros simp: revoke_where_def session_insert_def touch_session_def put_sessions_def access_tables_def Let_def
        op_frame_modify)

lemma guard_framed: "op_frame access_tables UNIV m \<Longrightarrow> has_effect guarded db m"
  by (erule super_guard.framed) (erule guarded_tables)

lemma guard_basics:
  "has_effect guarded db (revoke_where now p)" "has_effect guarded db (session_insert s)" "has_effect guarded db (touch_session rt s)"
  "has_effect guarded db (audit_success a)" "has_effect guarded db (audit_failure a)"
  by (auto intro!: guard_framed frame_intros)

text \<open>Writes that add rows, or keep what the guard reads.\<close>

lemma guard_admin_insert: "has_effect guarded db (admin_insert u)"
  unfolding has_effect_def guarded_def admin_insert_def table_insert_def put_admins_def access_ok_def super_guarded_def
    permissions_of_def permission_ids_of_def same_admin_def
  by (auto simp: list_ex_iff)

lemma guard_role_insert: "has_effect guarded db (role_insert r)"
  unfolding has_effect_def guarded_def role_insert_def table_insert_def put_roles_def access_ok_def super_guarded_def
    permissions_of_def permission_ids_of_def same_role_def
  by (auto simp: list_ex_iff find_row_append)

lemma user_roles_added:
  assumes "user_roles_createMany i ids db = (Inr x, db')"
  shows "db' = put_user_roles (user_role_rows db @ map (\<lambda>r. (js_lower i, js_lower r)) ids) db"
  using assms by (auto simp: user_roles_createMany_def op_bind_eq_Inr op_assert_def split: if_splits)

lemma guard_user_roles: "has_effect guarded db (user_roles_createMany i ids)"
  unfolding has_effect_def guarded_def user_roles_createMany_def
  by (auto simp: op_assert_def put_user_roles_def access_ok_def super_guarded_def permissions_of_def permission_ids_of_def op_bind_def)

lemma permissions_of_more:
  assumes "set (role_permission_rows a) \<subseteq> set (role_permission_rows b)" "permission_rows b = permission_rows a"
  shows "set (permissions_of r a) \<subseteq> set (permissions_of r b)"
  using assms by (auto simp: permissions_of_def permission_ids_of_def map_filter_def image_iff)

lemma guard_role_permissions: "has_effect guarded db (role_permissions_createMany i ids)"
proof -
  have "guarded db (put_role_permissions (role_permission_rows db @ new) db)" for new
    unfolding guarded_def access_ok_def super_guarded_def
    using permissions_of_more [of db "put_role_permissions (role_permission_rows db @ new) db"]
    by (simp add: put_role_permissions_def) blast
  then show ?thesis
    by (auto simp: has_effect_def role_permissions_createMany_def op_assert_def op_bind_def super_guard.refl)
qed

text \<open>Administrators keep their identifier, and those who hold the role stay enabled.\<close>

lemma admin_set_Inr:
  "admin_set i f db = (Inr x, db') \<Longrightarrow>
   db' = put_admins (update_first (\<lambda>u. um_id u = i) f (admin_user_rows db)) db
   \<and> (\<exists>u. find_row (\<lambda>u. um_id u = i) (admin_user_rows db) = Some u \<and> x = f u)"
  by (auto simp: admin_set_def table_update_def split: option.splits if_splits)

lemma guarded_admins:
  assumes "map um_id rows = map um_id (admin_user_rows db)"
    and "\<And>u. u \<in> set (admin_user_rows db) \<Longrightarrow> um_status u = CS_active \<Longrightarrow> \<exists>v \<in> set rows. um_id v = um_id u \<and> um_status v = CS_active"
  shows "guarded db (put_admins rows db)"
  unfolding guarded_def
proof
  assume ok: "access_ok db"
  then obtain r u where g: "find_row (\<lambda>r. rl_code r = SUPER_ADMIN_CODE) (role_rows db) = Some r" "rl_status r = CS_active"
      "js_lower (rl_id r) = rl_id r" "set CORE_SUPER_PERMISSIONS \<subseteq> pn_code ` set (permissions_of (rl_id r) db)"
      "u \<in> set (admin_user_rows db)" "um_status u = CS_active" "(um_id u, rl_id r) \<in> set (user_role_rows db)"
    by (auto simp: access_ok_def super_guarded_def)
  obtain v where v: "v \<in> set rows" "um_id v = um_id u" "um_status v = CS_active" using assms(2) g(5,6) by blast
  have "super_guarded (put_admins rows db)"
    unfolding super_guarded_def
    by (rule exI [of _ r], rule exI [of _ v])
      (use g v in \<open>simp add: put_admins_def permissions_of_def permission_ids_of_def\<close>)
  then show "access_ok (put_admins rows db)" using ok assms(1) by (simp add: access_ok_def put_admins_def)
qed

lemma guard_admin_set:
  assumes "\<And>u. um_id (f u) = um_id u" "\<And>u. um_status u = CS_active \<Longrightarrow> um_status (f u) = CS_active"
  shows "has_effect guarded db (admin_set i f)"
proof -
  have "guarded db (put_admins (update_first (\<lambda>u. um_id u = i) f (admin_user_rows db)) db)"
  proof (rule guarded_admins)
    show "map um_id (update_first (\<lambda>u. um_id u = i) f (admin_user_rows db)) = map um_id (admin_user_rows db)"
      by (rule map_update_first_same) (rule assms(1))
    fix u assume u: "u \<in> set (admin_user_rows db)" "um_status u = CS_active"
    have "\<exists>v \<in> set (update_first (\<lambda>u. um_id u = i) f rows). um_id v = um_id u \<and> um_status v = CS_active" if "u \<in> set rows" for rows
      using that u(2) assms by (induction rows) auto
    then show "\<exists>v \<in> set (update_first (\<lambda>u. um_id u = i) f (admin_user_rows db)). um_id v = um_id u \<and> um_status v = CS_active"
      using u(1) .
  qed
  then show ?thesis
    by (auto simp: has_effect_def admin_set_def table_update_def super_guard.refl split: option.split)
qed

lemma find_row_updated:
  assumes "\<And>r. p (f r) = p r" "find_row p rows = Some r"
  shows "\<exists>r'. find_row p (update_first q f rows) = Some r' \<and> (r' = r \<or> (r' = f r \<and> find_row q rows = Some r))"
  using assms by (induction rows) (auto split: if_splits)

lemma guard_role_set:
  assumes same: "\<And>r. rl_id (f r) = rl_id r" "\<And>r. rl_code (f r) = rl_code r"
    and active: "\<And>r. find_row (\<lambda>r. rl_id r = i) (role_rows db) = Some r \<Longrightarrow> rl_code r = SUPER_ADMIN_CODE \<Longrightarrow> rl_status r = CS_active
      \<Longrightarrow> rl_status (f r) = CS_active"
  shows "has_effect guarded db (role_set i f)"
proof -
  let ?rows = "update_first (\<lambda>r. rl_id r = i) f (role_rows db)"
  have "guarded db (put_roles ?rows db)"
    unfolding guarded_def
  proof
    assume ok: "access_ok db"
    then obtain r u where g: "find_row (\<lambda>r. rl_code r = SUPER_ADMIN_CODE) (role_rows db) = Some r" "rl_status r = CS_active"
        "js_lower (rl_id r) = rl_id r" "set CORE_SUPER_PERMISSIONS \<subseteq> pn_code ` set (permissions_of (rl_id r) db)"
        "u \<in> set (admin_user_rows db)" "um_status u = CS_active" "(um_id u, rl_id r) \<in> set (user_role_rows db)"
      by (auto simp: access_ok_def super_guarded_def)
    obtain r' where r': "find_row (\<lambda>r. rl_code r = SUPER_ADMIN_CODE) ?rows = Some r'"
        "r' = r \<or> (r' = f r \<and> find_row (\<lambda>r. rl_id r = i) (role_rows db) = Some r)"
      using find_row_updated [where p = "\<lambda>r. rl_code r = SUPER_ADMIN_CODE" and f = f and q = "\<lambda>r. rl_id r = i", OF _ g(1)] same(2)
      by auto
    have "rl_id r' = rl_id r" "rl_status r' = CS_active"
      using r'(2) same active g(1,2) find_row_Some [OF g(1)] by auto
    then have "super_guarded (put_roles ?rows db)"
      unfolding super_guarded_def
      by (intro exI [of _ r'] exI [of _ u]) (use g r'(1) in \<open>simp add: put_roles_def permissions_of_def permission_ids_of_def\<close>)
    moreover have "map rl_id ?rows = map rl_id (role_rows db)" by (rule map_update_first_same) (rule same(1))
    ultimately show "access_ok (put_roles ?rows db)" using ok by (simp add: access_ok_def put_roles_def)
  qed
  then show ?thesis
    by (auto simp: has_effect_def role_set_def table_update_def super_guard.refl split: option.split)
qed

section \<open>The requests keep the guard\<close>

lemma guard_serializable:
  "(\<And>x db'. work db = (Inr x, db') \<Longrightarrow> guarded db db') \<Longrightarrow> has_effect guarded db (serializable env message work)"
  using serializable_Inr [of env message work db] serializable_Inl [of env message work db]
  by (cases "serializable env message work db"; cases "fst (serializable env message work db)")
    (auto simp: has_effect_def super_guard.refl)

lemmas guard_steps = super_guard.get super_guard.lift super_guard.if_else super_guard.option_case super_guard.pure
  guard_basics guard_admin_insert guard_role_insert guard_user_roles guard_role_permissions super_guard.transaction
  super_guard.catch super_guard.bind

lemma guard_reads:
  "has_effect guarded db (requireActiveRoles ids)" "has_effect guarded db requireSuperAdminRole"
  "has_effect guarded db (require_admin i)" "has_effect guarded db (assertAnotherEnabledSuperAdmin i r)"
  "has_effect guarded db (revokeSessions rt i)" "has_effect guarded db (assertUniqueName n x)"
  "has_effect guarded db (requirePermissions ids)" "has_effect guarded db (require_role i)"
  "has_effect guarded db (revokeRoleSessions rt i)" "has_effect guarded db (checked_permissions role p)"
  unfolding requireActiveRoles_def requireSuperAdminRole_def require_admin_def assertAnotherEnabledSuperAdmin_def
    revokeSessions_def assertUniqueName_def requirePermissions_def require_role_def revokeRoleSessions_def checked_permissions_def
  by (intro guard_steps)+

lemma effect_Inr: "has_effect R db m \<Longrightarrow> m db = (Inr x, db') \<Longrightarrow> R db db'"
  by (simp add: has_effect_def)

lemma guard_createAdmin: "has_effect guarded db (createAdmin env rt input actor)"
proof -
  have "has_effect guarded d (create_admin_row rt name email hash ids status actor)" for d name email hash ids status
    unfolding create_admin_row_def by (intro guard_steps guard_reads)
  then show ?thesis unfolding createAdmin_def
    by (intro guard_steps guard_serializable) (rule effect_Inr)
qed

lemma guard_resetPassword: "has_effect guarded db (resetPassword env rt i input actor)"
proof -
  have "has_effect guarded d (reset_password_row rt i hash actor)" for d i hash
    unfolding reset_password_row_def by (intro guard_steps guard_reads guard_admin_set) simp_all
  then show ?thesis unfolding resetPassword_def
    by (intro guard_steps guard_serializable) (rule effect_Inr)
qed

lemma guard_createRole: "has_effect guarded db (createRole env rt input actor)"
proof -
  have "has_effect guarded d (create_role_row env rt name description status ids actor)" for d name description status ids
    unfolding create_role_row_def by (intro guard_steps guard_reads)
  then show ?thesis unfolding createRole_def
    by (intro guard_steps guard_serializable) (rule effect_Inr)
qed

lemma role_permissions_Inr:
  assumes "replace_permissions rt i ids db = (Inr x, db')"
  shows "access_tables db' = access_tables (put_role_permissions
    (filter (\<lambda>y. fst y \<noteq> js_lower i) (role_permission_rows db) @ map (\<lambda>p. (js_lower i, js_lower p)) ids) db)"
proof -
  let ?d = "put_role_permissions (filter (\<lambda>y. fst y \<noteq> js_lower i) (role_permission_rows db) @ map (\<lambda>p. (js_lower i, js_lower p)) ids) db"
  obtain y n where "revokeRoleSessions rt i ?d = (Inr n, db')"
    using assms by (auto simp: replace_permissions_def role_permissions_deleteMany_def role_permissions_createMany_def op_bind_eq_Inr
        op_assert_def put_role_permissions_def split: if_splits)
  moreover have "op_frame access_tables UNIV (revokeRoleSessions rt i)"
    unfolding revokeRoleSessions_def by (intro frame_intros)
  ultimately show ?thesis using op_frameD [of access_tables UNIV "revokeRoleSessions rt i" ?d] by simp
qed

text \<open>The permissions a role has after it was given new ones are the ones that were checked.\<close>

lemma checked_codes:
  assumes "checked_permissions role (Some ids) db = (Inr x, db')" "rl_code role = SUPER_ADMIN_CODE"
  shows "set CORE_SUPER_PERMISSIONS \<subseteq> pn_code ` {p \<in> set (permission_rows db). pn_id p \<in> js_lower ` set ids}"
  using assms by (auto simp: checked_permissions_def requirePermissions_def op_bind_eq_Inr op_assert_def assertCorePermissions_def
      Let_def filter_empty_conv op_lift_def split: if_splits)

lemma find_distinct: "distinct (map g rows) \<Longrightarrow> x \<in> set rows \<Longrightarrow> find_row (\<lambda>r. g r = g x) rows = Some x"
  by (induction rows) force+

lemma permissions_replaced:
  assumes "distinct (map pn_id (permission_rows db))" "role_permission_rows db = others @ map (\<lambda>p. (i, js_lower p)) ids"
  shows "{p \<in> set (permission_rows db). pn_id p \<in> js_lower ` set ids} \<subseteq> set (permissions_of i db)"
proof
  fix p assume p: "p \<in> {p \<in> set (permission_rows db). pn_id p \<in> js_lower ` set ids}"
  then have "pn_id p \<in> set (permission_ids_of i db)" by (auto simp: permission_ids_of_def assms(2) image_iff)
  moreover have "find_row (\<lambda>q. pn_id q = pn_id p) (permission_rows db) = Some p"
    using p find_distinct [OF assms(1)] by simp
  ultimately show "p \<in> set (permissions_of i db)" by (force simp: permissions_of_def map_filter_def)
qed

lemma permissions_of_other:
  assumes "filter (\<lambda>y. fst y = i) (role_permission_rows b) = filter (\<lambda>y. fst y = i) (role_permission_rows a)" "permission_rows b = permission_rows a"
  shows "permissions_of i b = permissions_of i a"
  using assms by (simp add: permissions_of_def permission_ids_of_def)

lemma guard_new_permissions:
  assumes found: "find_role i db = Some role" and checked: "checked_permissions role (Some ids) db = (Inr x, db0)"
    and replaced: "replace_permissions rt i ids db = (Inr y, db')"
  shows "guarded db db'"
  unfolding guarded_def
proof
  assume ok: "access_ok db"
  let ?d = "put_role_permissions (filter (\<lambda>y. fst y \<noteq> js_lower i) (role_permission_rows db) @ map (\<lambda>p. (js_lower i, js_lower p)) ids) db"
  obtain r u where g: "find_row (\<lambda>r. rl_code r = SUPER_ADMIN_CODE) (role_rows db) = Some r" "rl_status r = CS_active"
      "js_lower (rl_id r) = rl_id r" "set CORE_SUPER_PERMISSIONS \<subseteq> pn_code ` set (permissions_of (rl_id r) db)"
      "u \<in> set (admin_user_rows db)" "um_status u = CS_active" "(um_id u, rl_id r) \<in> set (user_role_rows db)"
    using ok by (auto simp: access_ok_def super_guarded_def)
  have "set CORE_SUPER_PERMISSIONS \<subseteq> pn_code ` set (permissions_of (rl_id r) ?d)"
  proof (cases "rl_id r = js_lower i")
    case True
    have "role = r" using found True ok find_row_Some [OF g(1)] find_distinct [of rl_id "role_rows db" r]
      by (simp add: find_role_def access_ok_def)
    then have "rl_code role = SUPER_ADMIN_CODE" using find_row_Some [OF g(1)] by simp
    from checked_codes [OF checked this] show ?thesis
      using permissions_replaced [of ?d "filter (\<lambda>y. fst y \<noteq> js_lower i) (role_permission_rows db)" "js_lower i" ids] ok True
      by (simp add: put_role_permissions_def access_ok_def) blast
  next
    case False
    then have "filter (\<lambda>y. fst y = rl_id r) (role_permission_rows ?d) = filter (\<lambda>y. fst y = rl_id r) (role_permission_rows db)"
      by (auto simp: put_role_permissions_def filter_empty_conv intro!: filter_cong)
    then show ?thesis using g(4) permissions_of_other [of "rl_id r" ?d db] by (simp add: put_role_permissions_def)
  qed
  then have "super_guarded ?d"
    unfolding super_guarded_def by (intro exI [of _ r] exI [of _ u]) (use g in \<open>simp add: put_role_permissions_def\<close>)
  then have "access_ok ?d" using ok by (simp add: access_ok_def put_role_permissions_def)
  then show "access_ok db'" using access_ok_tables [OF role_permissions_Inr [OF replaced]] by simp
qed

text \<open>What the checks of a request say when it goes on.\<close>

lemma passed_checks:
  "require_role i db = (Inr role, d) \<Longrightarrow> d = db \<and> find_role i db = Some role"
  "require_admin i db = (Inr u, d) \<Longrightarrow> d = db \<and> find_admin i db = Some u"
  "requireSuperAdminRole db = (Inr r, d) \<Longrightarrow> d = db \<and> find_row (\<lambda>r. rl_code r = SUPER_ADMIN_CODE) (role_rows db) = Some r"
  "assertUniqueName n ex db = (Inr x, d) \<Longrightarrow> d = db"
  "requireActiveRoles ids db = (Inr rs, d) \<Longrightarrow> d = db"
  "checked_permissions role permissionIds db = (Inr x, d) \<Longrightarrow> d = db"
  "free_name env i role name db = (Inr x, d) \<Longrightarrow> d = db"
  by (auto simp: require_role_def free_name_def require_admin_def requireSuperAdminRole_def assertUniqueName_def requireActiveRoles_def
      checked_permissions_def requirePermissions_def op_bind_eq_Inr op_assert_def op_lift_def op_return_def op_throw_def
      split: option.splits if_splits)

lemma another_super:
  "assertAnotherEnabledSuperAdmin i r db = (Inr x, d) \<Longrightarrow>
   d = db \<and> (\<exists>u \<in> set (admin_user_rows db). um_id u \<noteq> js_lower i \<and> um_status u = CS_active \<and> (um_id u, r) \<in> set (user_role_rows db))"
  by (auto simp: assertAnotherEnabledSuperAdmin_def enabled_with_role_def op_assert_def filter_empty_conv split: if_splits)

lemma role_row_change:
  assumes "role_set (js_lower i) f db = (Inr y, d)" "find_role i db = Some role"
    and "\<And>r. rl_id (f r) = rl_id r" "\<And>r. rl_code (f r) = rl_code r"
    and "rl_code role = SUPER_ADMIN_CODE \<Longrightarrow> rl_status role = CS_active \<Longrightarrow> rl_status (f role) = CS_active"
  shows "guarded db d"
  using guard_role_set [where f = f and i = "js_lower i" and db = db] assms by (auto simp: has_effect_def find_role_def)

lemma guarded_audit: "audit_success a db = (Inr x, d) \<Longrightarrow> guarded db d"
  using guard_basics(4) [of db a] by (simp add: has_effect_def)

text \<open>\<open>ensures Q db m\<close>: when \<open>m\<close> returns, the database satisfies \<open>Q\<close>; the steps of a handler one by one.\<close>

definition ensures :: "(database \<Rightarrow> bool) \<Rightarrow> database \<Rightarrow> 'a handler \<Rightarrow> bool" where
  "ensures Q db m \<longleftrightarrow> (\<forall>x d. m db = (Inr x, d) \<longrightarrow> Q d)"

lemma ensures_bind: "(\<And>x d. m db = (Inr x, d) \<Longrightarrow> ensures Q d (f x)) \<Longrightarrow> ensures Q db (op_bind m f)"
  by (auto simp: ensures_def op_bind_eq_Inr)

lemma ensures_check:
  assumes "\<And>x d. m db = (Inr x, d) \<Longrightarrow> d = db \<and> P x" and "\<And>x. P x \<Longrightarrow> ensures Q db (f x)"
  shows "ensures Q db (op_bind m f)"
  using assms by (auto simp: ensures_def op_bind_eq_Inr)

lemma ensures_skip:
  assumes "\<And>x d. m db = (Inr x, d) \<Longrightarrow> d = db" and "\<And>x. ensures Q db (f x)"
  shows "ensures Q db (op_bind m f)"
  using assms by (auto simp: ensures_def op_bind_eq_Inr)

lemma ensures_get: "ensures Q db (f (g db)) \<Longrightarrow> ensures Q db (op_bind (op_get g) f)"
  by (simp add: ensures_def)

lemma ensures_lift: "(\<And>x. r = Inr x \<Longrightarrow> ensures Q db (f x)) \<Longrightarrow> ensures Q db (op_bind (op_lift r) f)"
  by (cases r) (simp_all add: ensures_def)

lemma ensures_assert: "(c \<Longrightarrow> ensures Q db (f ())) \<Longrightarrow> ensures Q db (op_bind (op_assert c e) f)"
  by (cases c) (simp_all add: ensures_def op_bind_def)

lemma ensures_return: "Q db \<Longrightarrow> ensures Q db (op_return x)"
  by (simp add: ensures_def)

lemma ensures_effect:
  assumes "has_effect guarded d m" "guarded db d" "\<And>x d'. guarded db d' \<Longrightarrow> ensures (guarded db) d' (f x)"
  shows "ensures (guarded db) d (op_bind m f)"
proof (rule ensures_bind)
  fix x d' assume "m d = (Inr x, d')"
  with assms(1) have "guarded d d'" by (simp add: has_effect_def)
  then show "ensures (guarded db) d' (f x)" using assms(2,3) super_guard.trans by blast
qed

lemma permissions_step:
  assumes "find_role i db = Some role" "checked_permissions role permissionIds db = (Inr x, db)"
    and "apply_permissions rt i before permissionIds db = (Inr y, d)"
  shows "guarded db d \<and> find_role i d = Some role"
proof (cases "d = db")
  case False
  then obtain ids where "permissionIds = Some ids" "replace_permissions rt i ids db = (Inr y, d)"
    using assms(3) by (auto simp: apply_permissions_def op_return_def split: option.splits if_splits)
  then show ?thesis using guard_new_permissions [OF assms(1)] role_permissions_Inr [of rt i ids db y d] assms(1,2)
    by (auto simp: access_tables_def find_role_def put_role_permissions_def)
next
  case True
  then show ?thesis using assms(1) super_guard.refl by simp
qed

lemma guard_update_role_row:
  assumes status: "status \<in> {None, Some CS_active, Some CS_disabled}"
  shows "ensures (guarded db) db (update_role_row env rt i name description status permissionIds actor)"
  unfolding update_role_row_def
proof (rule ensures_check [OF passed_checks(1)], assumption, rule ensures_get, rule ensures_skip [OF passed_checks(7)], assumption,
    rule ensures_assert, rule ensures_assert, rule ensures_bind, rule ensures_bind)
  fix role x d y d1
  assume role: "find_role i db = Some role" "\<not> (rl_code role = SUPER_ADMIN_CODE \<and> status = Some CS_disabled)"
    and checked: "checked_permissions role permissionIds db = (Inr x, d)"
    and applied: "apply_permissions rt i (role_dto db role) permissionIds d = (Inr y, d1)"
  have "d = db" using checked by (rule passed_checks(6))
  with permissions_step [OF role(1)] checked applied have d1: "guarded db d1" "find_role i d1 = Some role" by blast+
  show "ensures (guarded db) d1 (write_role rt i name description status (role_dto db role) actor)"
    unfolding write_role_def
    by (intro ensures_effect ensures_get ensures_assert ensures_return guard_role_set guard_basics d1(1))
      (use d1(2) role(2) status in \<open>auto simp: find_role_def or_keep_def\<close>)
qed

text \<open>An administrator is changed: the guard survives when somebody else holds it, or when the changed row still does.\<close>

lemma replaced_roles:
  assumes "replace_roles i ids db = (Inr x, d)"
  shows "d = put_user_roles (filter (\<lambda>y. fst y \<noteq> js_lower i) (user_role_rows db) @ map (\<lambda>r. (js_lower i, js_lower r)) ids) db"
proof -
  have "user_roles_createMany i ids (put_user_roles (filter (\<lambda>y. fst y \<noteq> js_lower i) (user_role_rows db)) db) = (Inr x, d)"
    using assms by (simp add: replace_roles_def user_roles_deleteMany_def)
  from user_roles_added [OF this] show ?thesis by (simp add: put_user_roles_def)
qed

definition keeps_super :: "string \<Rightarrow> role_row \<Rightarrow> (string \<times> string) list \<Rightarrow> (admin_user \<Rightarrow> admin_user) \<Rightarrow> database \<Rightarrow> bool" where
  "keeps_super j r pairs f db \<longleftrightarrow>
     (\<forall>u \<in> set (admin_user_rows db). um_id u = j \<longrightarrow> um_status u = CS_active \<longrightarrow> (j, rl_id r) \<in> set (user_role_rows db) \<longrightarrow>
        js_lower (rl_id r) = rl_id r \<longrightarrow>
        (um_status (f u) = CS_active \<and> (j, rl_id r) \<in> set pairs)
        \<or> (\<exists>v \<in> set (admin_user_rows db). um_id v \<noteq> j \<and> um_status v = CS_active \<and> (um_id v, rl_id r) \<in> set (user_role_rows db)))"

lemma guarded_change:
  assumes same: "\<And>u. um_id (f u) = um_id u"
    and super: "find_row (\<lambda>r. rl_code r = SUPER_ADMIN_CODE) (role_rows db) = Some r"
    and others: "\<And>x. fst x \<noteq> j \<Longrightarrow> x \<in> set (user_role_rows db) \<Longrightarrow> x \<in> set pairs"
    and keeps: "access_ok db \<Longrightarrow> keeps_super j r pairs f db"
  shows "guarded db (put_admins (update_first (\<lambda>u. um_id u = j) f (admin_user_rows db)) (put_user_roles pairs db))"
    (is "guarded db ?d")
  unfolding guarded_def
proof
  assume ok: "access_ok db"
  then obtain u where g: "rl_status r = CS_active" "js_lower (rl_id r) = rl_id r"
      "set CORE_SUPER_PERMISSIONS \<subseteq> pn_code ` set (permissions_of (rl_id r) db)"
      "u \<in> set (admin_user_rows db)" "um_status u = CS_active" "(um_id u, rl_id r) \<in> set (user_role_rows db)"
    using super by (auto simp: access_ok_def super_guarded_def)
  have "\<exists>v. v \<in> set (admin_user_rows ?d) \<and> um_status v = CS_active \<and> (um_id v, rl_id r) \<in> set pairs"
  proof (cases "\<exists>v \<in> set (admin_user_rows db). um_id v \<noteq> j \<and> um_status v = CS_active \<and> (um_id v, rl_id r) \<in> set (user_role_rows db)")
    case True
    then obtain v where v: "v \<in> set (admin_user_rows db)" "um_id v \<noteq> j" "um_status v = CS_active" "(um_id v, rl_id r) \<in> set (user_role_rows db)"
      by blast
    then show ?thesis
      using in_update_first_other [of v "admin_user_rows db" "\<lambda>u. um_id u = j" f] others [of "(um_id v, rl_id r)"]
      by (auto simp: put_admins_def put_user_roles_def)
  next
    case False
    then have j: "um_id u = j" using g by blast
    then have "um_status (f u) = CS_active" "(j, rl_id r) \<in> set pairs" using keeps [OF ok] g False by (auto simp: keeps_super_def)
    moreover have "find_row (\<lambda>v. um_id v = j) (admin_user_rows db) = Some u"
      using ok g(4) j find_distinct [of um_id "admin_user_rows db" u] by (simp add: access_ok_def)
    ultimately show ?thesis
      using in_update_first_hit [of "\<lambda>v. um_id v = j" "admin_user_rows db" u f] same j
      by (auto simp: put_admins_def put_user_roles_def)
  qed
  then obtain v where "v \<in> set (admin_user_rows ?d)" "um_status v = CS_active" "(um_id v, rl_id r) \<in> set pairs" by blast
  then have "super_guarded ?d"
    unfolding super_guarded_def
    by (intro exI [of _ r] exI [of _ v])
      (use g super in \<open>simp add: put_admins_def put_user_roles_def permissions_of_def permission_ids_of_def\<close>)
  moreover have "map um_id (admin_user_rows ?d) = map um_id (admin_user_rows db)"
    unfolding put_admins_def by simp (rule map_update_first_same, rule same)
  ultimately show "access_ok ?d" using ok by (simp add: access_ok_def put_admins_def put_user_roles_def)
qed

text \<open>The roles a caller sees contain the \<open>super_admin\<close> role when the administrator has it.\<close>

lemma sees_super:
  assumes "distinct (map rl_id (role_rows db))" "find_row (\<lambda>r. rl_code r = SUPER_ADMIN_CODE) (role_rows db) = Some r"
    and "(i, rl_id r) \<in> set (user_role_rows db)" "js_lower (rl_id r) = rl_id r"
  shows "rl_id r \<in> set (map rl_id (roles_of i db))"
proof -
  have "find_role (rl_id r) db = Some r"
    using find_distinct [OF assms(1)] find_row_Some [OF assms(2)] assms(4) by (simp add: find_role_def)
  moreover have "rl_id r \<in> set (role_ids_of i db)" using assms(3) by (force simp: role_ids_of_def)
  ultimately show ?thesis by (force simp: roles_of_def map_filter_def)
qed

lemma write_admin_ensures:
  assumes "guarded db (put_admins (update_first (\<lambda>u. um_id u = js_lower i)
      (\<lambda>u. u\<lparr>um_email := (case email of None \<Rightarrow> um_email u | Some e \<Rightarrow> Some e), um_status := or_keep status (um_status u),
         um_updatedAt := rt_now rt\<rparr>) (admin_user_rows d)) d)"
  shows "ensures (guarded db) d (write_admin rt i email status roleChanged before actor)"
  unfolding write_admin_def
proof (rule ensures_bind)
  fix changed d'
  assume "admin_set (js_lower i) (\<lambda>u. u\<lparr>um_email := (case email of None \<Rightarrow> um_email u | Some e \<Rightarrow> Some e),
      um_status := or_keep status (um_status u), um_updatedAt := rt_now rt\<rparr>) d = (Inr changed, d')"
  from admin_set_Inr [OF this] assms have "guarded db d'" by simp
  then show "ensures (guarded db) d' (op_bind (if roleChanged \<or> (sa_status before = CS_active \<and> or_keep status (sa_status before) = CS_disabled)
              then revokeSessions rt i else op_return 0) (\<lambda>_.
     op_bind (op_get (\<lambda>db. toSafeDto db changed)) (\<lambda>updated.
     op_bind (op_assert (changedAdminFields before updated \<noteq> [])
       (AppError CONFLICT ''Administrator already has the requested values.'')) (\<lambda>_.
     op_bind (audit_success (admin_audit actor ''admin_user.update'' i (changedAdminFields before updated))) (\<lambda>_.
     op_return updated)))))"
    by (intro ensures_effect ensures_get ensures_assert ensures_return super_guard.if_else guard_reads guard_basics super_guard.pure)
qed

lemma role_check:
  "(case roleIds of None \<Rightarrow> op_return [] | Some ids \<Rightarrow> requireActiveRoles ids) db = (Inr rs, d) \<Longrightarrow> d = db"
  by (auto simp: op_return_def dest: passed_checks(5) split: option.splits)

lemma other_super_check:
  assumes "(if c then assertAnotherEnabledSuperAdmin i r else op_return ()) db = (Inr x, d)"
  shows "d = db \<and> (c \<longrightarrow> (\<exists>u \<in> set (admin_user_rows db). um_id u \<noteq> js_lower i \<and> um_status u = CS_active \<and> (um_id u, r) \<in> set (user_role_rows db)))"
  using assms another_super [of i r db x d] by (auto simp: op_return_def split: if_splits)

lemma guard_update_admin_row: "ensures (guarded db) db (update_admin_row rt i email roleIds status actor)"
  unfolding update_admin_row_def Let_def
proof (rule ensures_check [OF passed_checks(2)], assumption, rule ensures_get, rule ensures_skip [OF role_check], assumption,
    rule ensures_check [OF passed_checks(3)], assumption, rule ensures_lift, rule ensures_check [OF other_super_check], assumption,
    rule ensures_bind)
  fix user r d and x :: unit
  let ?current = "map so_id (sa_roles (toSafeDto db user))"
  let ?next = "or_keep roleIds ?current"
  let ?f = "\<lambda>u. u\<lparr>um_email := (case email of None \<Rightarrow> um_email u | Some e \<Rightarrow> Some e), um_status := or_keep status (um_status u),
         um_updatedAt := rt_now rt\<rparr>"
  let ?pairs = "if \<not> sameSet ?current ?next
      then filter (\<lambda>y. fst y \<noteq> js_lower i) (user_role_rows db) @ map (\<lambda>r. (js_lower i, js_lower r)) ?next else user_role_rows db"
  assume user: "find_admin i db = Some user" and super: "find_row (\<lambda>r. rl_code r = SUPER_ADMIN_CODE) (role_rows db) = Some r"
    and other: "sa_status (toSafeDto db user) = CS_active \<and> rl_id r \<in> set ?current
        \<and> \<not> (or_keep status (sa_status (toSafeDto db user)) = CS_active \<and> rl_id r \<in> set ?next) \<longrightarrow>
        (\<exists>u \<in> set (admin_user_rows db). um_id u \<noteq> js_lower (sa_id (toSafeDto db user)) \<and> um_status u = CS_active
           \<and> (um_id u, rl_id r) \<in> set (user_role_rows db))"
    and replaced: "(if \<not> sameSet ?current ?next then replace_roles i ?next else op_return ()) db = (Inr x, d)"
  have d: "d = put_user_roles ?pairs db"
    using replaced replaced_roles [of i ?next db x d] by (auto simp: op_return_def put_user_roles_def split: if_splits)
  have uid: "um_id user = js_lower i" using find_row_Some [OF user [unfolded find_admin_def]] by simp
  have current: "?current = map rl_id (roles_of (js_lower i) db)" by (simp add: toSafeDto_def safeRole_def uid)
  have "keeps_super (js_lower i) r ?pairs ?f db" if ok: "access_ok db"
    unfolding keeps_super_def
  proof (intro ballI impI)
    fix u assume u: "u \<in> set (admin_user_rows db)" "um_id u = js_lower i" "um_status u = CS_active"
      "(js_lower i, rl_id r) \<in> set (user_role_rows db)" "js_lower (rl_id r) = rl_id r"
    have "u = user" using u(1,2) user ok find_distinct [of um_id "admin_user_rows db" u] by (simp add: find_admin_def access_ok_def)
    moreover have "rl_id r \<in> set ?current" using sees_super [OF _ super u(4,5)] ok current by (simp add: access_ok_def)
    moreover have "(js_lower i, rl_id r) \<in> set ?pairs" if "rl_id r \<in> set ?next"
      using that u(4,5) by (auto simp: image_iff intro!: bexI [of _ "rl_id r"])
    ultimately show "(um_status (?f u) = CS_active \<and> (js_lower i, rl_id r) \<in> set ?pairs)
        \<or> (\<exists>v \<in> set (admin_user_rows db). um_id v \<noteq> js_lower i \<and> um_status v = CS_active \<and> (um_id v, rl_id r) \<in> set (user_role_rows db))"
      using other u(3) uid by (auto simp: toSafeDto_def)
  qed
  then have "guarded db (put_admins (update_first (\<lambda>u. um_id u = js_lower i) ?f (admin_user_rows d)) d)"
    using guarded_change [of ?f db r "js_lower i" ?pairs] super by (simp add: d put_user_roles_def)
  then show "ensures (guarded db) d
      (write_admin rt i email status (\<not> sameSet ?current ?next) (toSafeDto db user) actor)"
    by (rule write_admin_ensures)
qed

lemma guard_set_enabled_row: "ensures (guarded db) db (set_enabled_row rt i enabled actor)"
  unfolding set_enabled_row_def Let_def
proof (rule ensures_check [OF passed_checks(2)], assumption, rule ensures_assert, rule ensures_assert,
    rule ensures_check [OF passed_checks(3)], assumption, rule ensures_get, rule ensures_check [OF other_super_check], assumption,
    rule ensures_bind)
  fix user r changed d
  let ?status = "if enabled then CS_active else CS_disabled"
  let ?f = "\<lambda>u. u\<lparr>um_status := ?status, um_updatedAt := rt_now rt\<rparr>"
  assume user: "find_admin i db = Some user" and super: "find_row (\<lambda>r. rl_code r = SUPER_ADMIN_CODE) (role_rows db) = Some r"
    and other: "\<not> enabled \<and> rl_id r \<in> set (map rl_id (roles_of (um_id user) db)) \<longrightarrow>
        (\<exists>u \<in> set (admin_user_rows db). um_id u \<noteq> js_lower i \<and> um_status u = CS_active \<and> (um_id u, rl_id r) \<in> set (user_role_rows db))"
    and set: "admin_set (js_lower i) ?f db = (Inr changed, d)"
  have uid: "um_id user = js_lower i" using find_row_Some [OF user [unfolded find_admin_def]] by simp
  have "keeps_super (js_lower i) r (user_role_rows db) ?f db" if ok: "access_ok db"
    using other sees_super [OF _ super, of "js_lower i"] ok uid by (auto simp: keeps_super_def access_ok_def)
  then have "guarded db (put_admins (update_first (\<lambda>u. um_id u = js_lower i) ?f (admin_user_rows db)) (put_user_roles (user_role_rows db) db))"
    by (intro guarded_change [OF _ super]) simp_all
  then have "guarded db d" using admin_set_Inr [OF set] by (simp add: put_user_roles_def)
  then show "ensures (guarded db) d
     (op_bind (if \<not> enabled then revokeSessions rt i else op_return 0) (\<lambda>_.
      op_bind (op_get (\<lambda>db. toSafeDto db changed)) (\<lambda>updated.
      op_bind (audit_success (admin_audit actor (if enabled then ''admin_user.enable'' else ''admin_user.disable'') i [''status''])) (\<lambda>_.
      op_return updated))))"
    by (intro ensures_effect ensures_get ensures_return super_guard.if_else guard_reads guard_basics super_guard.pure)
qed

lemma guard_set_role_enabled_row: "ensures (guarded db) db (set_role_enabled_row rt i enabled actor)"
  unfolding set_role_enabled_row_def Let_def
proof (rule ensures_check [OF passed_checks(1)], assumption, rule ensures_assert, rule ensures_get, rule ensures_assert, rule ensures_assert)
  fix role
  assume role: "find_role i db = Some role" "enabled \<or> rl_code role \<noteq> SUPER_ADMIN_CODE"
  let ?status = "if enabled then CS_active else CS_disabled"
  show "ensures (guarded db) db
     (op_bind (role_set (js_lower i) (\<lambda>r. r\<lparr>rl_status := ?status, rl_updatedAt := rt_now rt\<rparr>)) (\<lambda>changed.
      op_bind (if \<not> enabled then revokeRoleSessions rt i else op_return 0) (\<lambda>_.
      op_bind (op_get (\<lambda>db. role_dto db changed)) (\<lambda>updated.
      op_bind (audit_success (role_audit actor (if enabled then ''role.enable'' else ''role.disable'') i [''status''])) (\<lambda>_.
      op_return updated)))))"
    by (intro ensures_effect ensures_get ensures_return super_guard.if_else guard_role_set guard_reads guard_basics super_guard.pure
        super_guard.refl)
      (use role in \<open>auto simp: find_role_def\<close>)
qed

lemma guard_serializable_row:
  "ensures (guarded db) db work \<Longrightarrow> has_effect guarded db (serializable env message work)"
  by (rule guard_serializable) (simp add: ensures_def)

lemma guard_changed_admins:
  "has_effect guarded db (updateAdmin env rt i input actor)" "has_effect guarded db (setAdminEnabled env rt i enabled actor)"
  "has_effect guarded db (setRoleEnabled env rt i enabled actor)"
  unfolding updateAdmin_def setAdminEnabled_def setRoleEnabled_def
  by (intro guard_steps guard_serializable_row guard_update_admin_row guard_set_enabled_row guard_set_role_enabled_row)+

lemma parsed_status: "if_defined v (\<lambda>v. parse_active_status v field) = Inr status \<Longrightarrow> status \<in> {None, Some CS_active, Some CS_disabled}"
  by (auto simp: if_defined_def parse_active_status_def split: if_splits)

lemma guard_updateRole: "has_effect guarded db (updateRole env rt i input actor)"
  unfolding updateRole_def
  by (intro guard_steps guard_serializable_row guard_update_role_row) (rule parsed_status)

lemma guard_store_password: "has_effect guarded db (store_password rt oldHash passwordHash actor)"
proof -
  have "guarded d (put_admins (update_rows p (\<lambda>u. u\<lparr>um_passwordHash := h, um_updatedAt := t\<rparr>) (admin_user_rows d)) d)" for d p h t
  proof (rule guarded_admins)
    show "map um_id (update_rows p (\<lambda>u. u\<lparr>um_passwordHash := h, um_updatedAt := t\<rparr>) (admin_user_rows d)) = map um_id (admin_user_rows d)"
      by (simp add: update_rows_def)
    fix u assume u: "u \<in> set (admin_user_rows d)" "um_status u = CS_active"
    then show "\<exists>v \<in> set (update_rows p (\<lambda>u. u\<lparr>um_passwordHash := h, um_updatedAt := t\<rparr>) (admin_user_rows d)).
        um_id v = um_id u \<and> um_status v = CS_active"
      unfolding update_rows_def
      by (intro bexI [of _ "if p u then u\<lparr>um_passwordHash := h, um_updatedAt := t\<rparr> else u"]) (auto simp: image_iff)
  qed
  then show ?thesis
    unfolding store_password_def revoke_live_sessions_def by (intro guard_steps) (simp add: has_effect_def)
qed

lemma guard_auth:
  "has_effect guarded db (login env rt ttl input cx)" "has_effect guarded db (logout rt i actor)"
  "has_effect guarded db (changePassword env rt input actor)" "has_effect guarded db (revokeSession rt i c actor)"
  "has_effect guarded db (logoutAll rt actor)" "has_effect guarded db (authenticate rt public h)"
  "has_effect guarded db (check_permissions required anyOf who)"
  unfolding login_def open_session_def logout_def changePassword_def revoke_live_sessions_def revokeSession_def
    logoutAll_def authenticate_def check_permissions_def Let_def
  by (intro guard_steps guard_admin_set guard_store_password; simp)+

lemma step_guarded: "access_step a b \<Longrightarrow> guarded a b"
  by (induction rule: access_step.induct)
    (simp_all add: guard_createAdmin [unfolded has_effect_def] guard_resetPassword [unfolded has_effect_def]
      guard_createRole [unfolded has_effect_def] guard_changed_admins [unfolded has_effect_def]
      guard_updateRole [unfolded has_effect_def] guard_auth [unfolded has_effect_def])

lemma steps_guarded: "access_step\<^sup>*\<^sup>* a b \<Longrightarrow> guarded a b"
  by (induction rule: rtranclp_induct) (auto intro: super_guard.refl super_guard.trans step_guarded)

section \<open>Rate limits\<close>

text \<open>The attempts that are admitted of a series, oldest first.\<close>

fun admitted_logins :: "(int \<times> string) list \<Rightarrow> attempt_log \<Rightarrow> (int \<times> string) list" where
  "admitted_logins [] attempts = []"
| "admitted_logins ((now, ip) # rs) attempts =
     (case login_check now ip attempts of
        (Inr _, attempts') \<Rightarrow> (now, ip) # admitted_logins rs attempts'
      | (Inl _, attempts') \<Rightarrow> admitted_logins rs attempts')"

definition times_of :: "string \<Rightarrow> (int \<times> string) list \<Rightarrow> int list" where
  "times_of ip xs = map fst (filter (\<lambda>x. snd x = ip) xs)"

definition in_window :: "int \<Rightarrow> int list \<Rightarrow> nat" where
  "in_window t ts = length (filter (\<lambda>x. t - LOGIN_WINDOW_MS < x \<and> x \<le> t) ts)"

text \<open>The log holds what was admitted in the last minute.\<close>

definition log_holds :: "int \<Rightarrow> attempt_log \<Rightarrow> (int \<times> string) list \<Rightarrow> bool" where
  "log_holds now attempts past \<longleftrightarrow>
     (\<forall>ip. filter (\<lambda>t. t > now - LOGIN_WINDOW_MS) (log_at attempts ip) = filter (\<lambda>t. t > now - LOGIN_WINDOW_MS) (times_of ip past))
     \<and> (\<forall>ip t. in_window t (times_of ip past) \<le> MAX_LOGIN_ATTEMPTS) \<and> (\<forall>x \<in> set past. fst x \<le> now)"

lemma log_at_set: "log_at (map_set attempts ip ts) ip' = (if ip' = ip then ts else log_at attempts ip')"
  by (simp add: log_at_def map_of_map_set)

lemma times_of_append: "times_of ip (xs @ [(now, ip')]) = times_of ip xs @ (if ip = ip' then [now] else [])"
  by (simp add: times_of_def)

lemma later_filter:
  "now \<le> later \<Longrightarrow> filter (\<lambda>t. t > later - W) (filter (\<lambda>t. t > now - W) ts) = filter (\<lambda>t::int. t > later - W) ts"
  by (induction ts) auto

lemma log_holds_later:
  assumes "log_holds now attempts d" "now \<le> later"
  shows "log_holds later attempts d"
proof -
  have "filter (\<lambda>t. t > later - LOGIN_WINDOW_MS) (log_at attempts ip) = filter (\<lambda>t. t > later - LOGIN_WINDOW_MS) (times_of ip d)" for ip
    using assms later_filter [OF assms(2), of LOGIN_WINDOW_MS] unfolding log_holds_def by metis
  then show ?thesis using assms by (auto simp: log_holds_def)
qed

lemma window_append:
  assumes "length (filter (\<lambda>t. t > now - LOGIN_WINDOW_MS) ts) < MAX_LOGIN_ATTEMPTS" "in_window t ts \<le> MAX_LOGIN_ATTEMPTS"
  shows "in_window t (ts @ [now]) \<le> MAX_LOGIN_ATTEMPTS"
proof (cases "now \<le> t")
  case True
  then have "in_window t ts \<le> length (filter (\<lambda>x. x > now - LOGIN_WINDOW_MS) ts)"
    unfolding in_window_def by (induction ts) auto
  then show ?thesis using assms(1) by (simp add: in_window_def)
qed (use assms(2) in \<open>simp add: in_window_def\<close>)

lemma check_keeps_log:
  assumes "log_holds now attempts d" "login_check now ip attempts = (r, attempts')"
  shows "log_holds now attempts' (case r of Inr _ \<Rightarrow> d @ [(now, ip)] | Inl _ \<Rightarrow> d)"
proof -
  let ?recent = "filter (\<lambda>t. t > now - LOGIN_WINDOW_MS) (log_at attempts ip)"
  have recent: "?recent = filter (\<lambda>t. t > now - LOGIN_WINDOW_MS) (times_of ip d)" using assms(1) by (simp add: log_holds_def)
  show ?thesis
  proof (cases "length ?recent \<ge> MAX_LOGIN_ATTEMPTS")
    case True
    then have "r = Inl (HttpException 429 ''Too many login attempts.'')" "attempts' = map_set attempts ip ?recent"
      using assms(2) by (simp_all add: login_check_def Let_def)
    then show ?thesis using assms(1) by (simp add: log_holds_def log_at_set)
  next
    case False
    then have r: "r = Inr ()" "attempts' = map_set attempts ip (?recent @ [now])"
      using assms(2) by (simp_all add: login_check_def Let_def)
    have "in_window t (times_of ip' (d @ [(now, ip)])) \<le> MAX_LOGIN_ATTEMPTS" for t ip'
      using assms(1) False recent window_append [of now "times_of ip d" t] by (simp add: log_holds_def times_of_append)
    moreover have "filter (\<lambda>t. t > now - LOGIN_WINDOW_MS) (log_at attempts' ip') =
        filter (\<lambda>t. t > now - LOGIN_WINDOW_MS) (times_of ip' (d @ [(now, ip)]))" for ip'
      using assms(1) by (simp add: log_holds_def r log_at_set times_of_append)
    ultimately show ?thesis using assms(1) by (auto simp: log_holds_def r)
  qed
qed

lemma admitted_hold:
  assumes "log_holds now attempts d" "sorted (now # map fst rs)"
  shows "in_window t (times_of ip (d @ admitted_logins rs attempts)) \<le> MAX_LOGIN_ATTEMPTS"
  using assms
proof (induction rs arbitrary: now attempts d)
  case Nil
  then show ?case by (simp add: log_holds_def)
next
  case (Cons x rs)
  obtain now' ip' where x: "x = (now', ip')" by fastforce
  obtain r attempts' where c: "login_check now' ip' attempts = (r, attempts')" by fastforce
  have "log_holds now' attempts d" using Cons.prems log_holds_later by (auto simp: x)
  from check_keeps_log [OF this c] Cons.IH [of now' attempts' "case r of Inr _ \<Rightarrow> d @ [(now', ip')] | Inl _ \<Rightarrow> d"] Cons.prems(2)
  show ?case by (cases r) (simp_all add: x c)
qed

section \<open>Passwords\<close>

lemma js_split_plain: "d \<notin> set s \<Longrightarrow> js_split d (s @ d # t) = s # js_split d t"
  by (induction s) auto

lemma js_split_last: "d \<notin> set s \<Longrightarrow> js_split d s = [s]"
  by (induction s) auto

lemma js_split_four:
  "d \<notin> set a \<Longrightarrow> d \<notin> set b \<Longrightarrow> d \<notin> set c \<Longrightarrow> d \<notin> set e \<Longrightarrow> js_split d (js_join [d] [a, b, c, e]) = [a, b, c, e]"
  by (simp add: js_split_plain js_split_last)

lemma password_constants:
  "CHR ''$'' \<notin> set PASSWORD_VERSION" "CHR ''$'' \<notin> set PASSWORD_PARAMETERS" "parameters_ok PASSWORD_PARAMETERS"
  by (simp_all add: PASSWORD_VERSION_def PASSWORD_PARAMETERS_def parameters_ok_def number_after_def js_starts_with_def is_digit_def
      digits_to_nat_def digit_val_def Let_def)

section \<open>Admission\<close>

lemma touch_keeps:
  "touch_session rt s db = (Inr x, d) \<Longrightarrow> access_tables d = access_tables db"
  using op_frameD [of access_tables UNIV "touch_session rt s" db] table_frames(4) by simp

lemma admitted:
  assumes "authenticate rt False header db = (Inr (Some (a, sid)), d)"
  obtains token s u where "extractBearerToken header = Some token" "live_session rt token db = Some s" "sx_id s = sid"
    "find_admin (sx_adminUserId s) db = Some u" "um_status u = CS_active" "active_roles_of (um_id u) db \<noteq> []"
    "a = toActor db u (active_roles_of (um_id u) db)"
  using assms
  by (auto simp: authenticate_def op_bind_eq_Inr op_assert_def op_throw_def op_return_def split: option.splits if_splits)

lemma granted_permission:
  assumes "p \<in> set (granted_permissions roles db)"
  shows "\<exists>r \<in> set roles. \<exists>q \<in> set (permissions_of (rl_id r) db). pn_code q = p"
  using assms by (auto simp: granted_permissions_def)

lemma permitted:
  assumes "check_permissions required anyOf (Some a) db = (Inr (), d)"
  shows "set required \<subseteq> set (ac_permissions a) \<and> (anyOf = [] \<or> set anyOf \<inter> set (ac_permissions a) \<noteq> {})"
  using assms
  by (auto simp: check_permissions_def missing_permissions_def Let_def op_bind_eq_Inr op_throw_def filter_empty_conv list_ex_iff
      split: if_splits)

section \<open>Ended sessions\<close>

definition sessions_ended :: "string \<Rightarrow> database \<Rightarrow> bool" where
  "sessions_ended i db \<longleftrightarrow> (\<forall>s \<in> set (admin_session_rows db). sx_adminUserId s = js_lower i \<longrightarrow> sx_revokedAt s \<noteq> None)"

lemma ended_by_revoke:
  assumes "\<And>n d. sessions_ended i d \<Longrightarrow> ensures (sessions_ended i) d (f n)"
  shows "ensures (sessions_ended i) db (op_bind (revokeSessions rt i) f)"
proof (rule ensures_bind)
  fix n d assume "revokeSessions rt i db = (Inr n, d)"
  then have "sessions_ended i d"
    unfolding revokeSessions_def sessions_ended_def by (auto dest: revoke_where_rows)
  then show "ensures (sessions_ended i) d (f n)" by (rule assms)
qed

lemma ended_audit: "sessions_ended i db \<Longrightarrow> (\<And>d. sessions_ended i d \<Longrightarrow> ensures (sessions_ended i) d (f ())) \<Longrightarrow>
    ensures (sessions_ended i) db (op_bind (audit_success a) f)"
  by (rule ensures_bind) (auto simp: audit_success_eq sessions_ended_def)

lemma reset_row_ends: "ensures (sessions_ended i) db (reset_password_row rt i hash actor)"
proof -
  have "ensures (sessions_ended i) d (audit_success a)" if "sessions_ended i d" for d a
    using that by (auto simp: ensures_def audit_success_eq sessions_ended_def)
  then show ?thesis
    unfolding reset_password_row_def by (intro ensures_bind ended_by_revoke)
qed

lemma disable_row_ends: "ensures (sessions_ended i) db (set_enabled_row rt i False actor)"
  unfolding set_enabled_row_def Let_def not_False_eq_True if_True
  by (intro ended_by_revoke ended_audit ensures_get ensures_return ensures_bind)

lemma parsed_uuid: "parse_uuid ok (JString i) field = Inr j \<Longrightarrow> j = i"
  by (auto simp: parse_uuid_def split: if_splits)

lemma reset_or_disable_ends:
  assumes "resetPassword env rt i input actor db = (Inr (), a) \<or> setAdminEnabled env rt i False actor db = (Inr view, a)"
  shows "sessions_ended i a"
proof -
  have "ensures (sessions_ended i) db (resetPassword env rt i input actor)"
    unfolding resetPassword_def
    by (intro ensures_lift ensures_assert)
      (use reset_row_ends in \<open>fastforce simp: ensures_def dest: serializable_Inr parsed_uuid\<close>)
  moreover have "ensures (sessions_ended i) db (setAdminEnabled env rt i False actor)"
    unfolding setAdminEnabled_def
    by (intro ensures_lift) (use disable_row_ends in \<open>fastforce simp: ensures_def dest: serializable_Inr parsed_uuid\<close>)
  ultimately show ?thesis using assms by (auto simp: ensures_def)
qed

section \<open>A sample\<close>

text \<open>Two administrators with the role \<open>super_admin\<close>, each with a session; the second identifier differs in its last digit.\<close>

definition FIRST_ADMIN :: string where
  "FIRST_ADMIN = ''00000000-0000-4000-8000-0000000000a1''"

definition SECOND_ADMIN :: string where
  "SECOND_ADMIN = ''00000000-0000-4000-8000-0000000000a2''"

definition sample_admin :: "string \<Rightarrow> string \<Rightarrow> admin_user" where
  "sample_admin i name =
     \<lparr>um_id = i, um_username = name, um_passwordHash = [], um_displayName = name, um_email = None, um_employeeId = None,
      um_status = CS_active, um_lastLoginAt = None, um_createdAt = 0, um_updatedAt = 0\<rparr>"

definition sample_session :: "string \<Rightarrow> string \<Rightarrow> admin_session" where
  "sample_session i token =
     \<lparr>sx_id = token, sx_adminUserId = i, sx_tokenHash = token, sx_expiresAt = 1772499999999, sx_revokedAt = None,
      sx_lastUsedAt = None, sx_ipAddress = None, sx_userAgent = None, sx_createdAt = 0\<rparr>"

definition sample_access_db :: database where
  "sample_access_db = empty_db
     \<lparr>admin_user_rows := [sample_admin FIRST_ADMIN ''root'', sample_admin SECOND_ADMIN ''second''],
      admin_session_rows := [sample_session FIRST_ADMIN ''t1'', sample_session SECOND_ADMIN ''t2''],
      role_rows := [\<lparr>rl_id = ''r1'', rl_code = SUPER_ADMIN_CODE, rl_name = ''root'', rl_description = None, rl_status = CS_active,
        rl_createdAt = 0, rl_updatedAt = 0\<rparr>],
      permission_rows := map (\<lambda>c. \<lparr>pn_id = c, pn_code = c, pn_name = c, pn_description = None\<rparr>) CORE_SUPER_PERMISSIONS,
      user_role_rows := [(FIRST_ADMIN, ''r1''), (SECOND_ADMIN, ''r1'')],
      role_permission_rows := map (\<lambda>c. (''r1'', c)) CORE_SUPER_PERMISSIONS\<rparr>"

definition sample_root :: actor where
  "sample_root = \<lparr>ac_userId = FIRST_ADMIN, ac_roleCode = SUPER_ADMIN_CODE,
     ac_permissions = [''admin_users.manage'', ''admin_users.read'', ''role.manage'', ''role.read'']\<rparr>"

definition two_letters :: "char \<Rightarrow> string" where
  "two_letters c = [char_of (97 + of_char c div 16 :: nat), char_of (97 + of_char c mod 16 :: nat)]"

fun from_letters :: "string \<Rightarrow> string" where
  "from_letters (a # b # s) = char_of ((of_char a - 97) * 16 + (of_char b - 97) :: nat) # from_letters s"
| "from_letters s = []"

definition sample_env :: access_env where
  "sample_env =
     \<lparr>xe_derive = (\<lambda>p s. Some (take 64 (p @ s @ replicate 64 CHR ''x''))), xe_encode = (\<lambda>s. concat (map two_letters s)),
      xe_decode = from_letters, xe_salt = replicate 16 CHR ''s'', xe_token = ''t3'', xe_nfkc = (\<lambda>s. s),
      xe_letter_or_number = (\<lambda>c. is_letter c \<or> is_digit c), xe_unique_target = ''email'', xe_conflicts = 1\<rparr>"

lemma sample_access_ok: "access_ok sample_access_db"
  unfolding access_ok_def super_guarded_def
  by (intro conjI exI [of _ "hd (role_rows sample_access_db)"] exI [of _ "sample_admin FIRST_ADMIN ''root''"]; code_simp)

lemma accounts_disabled: "\<not> isl (fst (setAdminEnabled sample_env sample_rt SECOND_ADMIN False sample_root sample_access_db))"
  by code_simp

lemma sample_admitted: "fst (authenticate sample_rt False (Some ''Bearer t1'') sample_access_db) = Inr (Some (sample_root, ''t1''))"
  by code_simp

abbreviation second_disabled :: database where
  "second_disabled \<equiv> snd (setAdminEnabled sample_env sample_rt SECOND_ADMIN False sample_root sample_access_db)"

abbreviation second_enabled_again :: database where
  "second_enabled_again \<equiv> snd (setAdminEnabled sample_env sample_rt SECOND_ADMIN True sample_root second_disabled)"

lemma sample_second_session:
  "\<exists>s \<in> set (admin_session_rows second_disabled). sx_adminUserId s = js_lower SECOND_ADMIN \<and> sx_tokenHash s = ''t2''"
  by code_simp

lemma sample_token: "extractBearerToken (Some ''Bearer t2'') = Some ''t2'' \<and> hashSessionToken sample_rt ''t2'' = ''t2''"
  by code_simp

text \<open>The service compares the identifiers of the actor and of the path as texts, the database as values: an administrator who
  writes the own identifier in capitals can disable the own account.\<close>

lemma capitals_disable_own_account:
  "isl (fst (setAdminEnabled sample_env sample_rt FIRST_ADMIN False sample_root sample_access_db))
   \<and> \<not> isl (fst (setAdminEnabled sample_env sample_rt ''00000000-0000-4000-8000-0000000000A1'' False sample_root sample_access_db))"
  by code_simp

lemma sample_letters: "from_letters (concat (map two_letters s)) = s" "CHR ''$'' \<notin> set (concat (map two_letters s))"
proof -
  have small: "of_char c div 16 < (16::nat)" "of_char c mod 16 < (16::nat)" for c :: char
    using nat_of_char_less_256 [of c] by (auto simp: less_mult_imp_div_less)
  have shown: "of_char (char_of (97 + n :: nat) :: char) = 97 + n" if "n < 16" for n :: nat using that by simp
  show "from_letters (concat (map two_letters s)) = s"
    by (induction s) (simp_all add: two_letters_def shown small del: of_char_of)
  have dollar: "char_of (97 + n :: nat) \<noteq> CHR ''$''" if "n < 16" for n :: nat
    using shown [OF that] by (auto simp del: of_char_of)
  then have "CHR ''$'' \<notin> set (two_letters c)" for c
    using dollar [OF small(1) [of c]] dollar [OF small(2) [of c], THEN not_sym] by (simp add: two_letters_def del: of_char_of)
  then show "CHR ''$'' \<notin> set (concat (map two_letters s))" by auto
qed

section \<open>Properties\<close>

text \<open>C10: However administrators, roles and sessions are changed, an enabled administrator remains who has an active role
  \<open>super_admin\<close> and with it the core permissions: to read and manage roles and administrators.\<close>

theorem super_admin_always_remains:
  assumes "access_step\<^sup>*\<^sup>* a b" "access_ok a"
  shows "\<exists>u \<in> set (admin_user_rows b). um_status u = CS_active
    \<and> (\<exists>r \<in> set (active_roles_of (um_id u) b). rl_code r = SUPER_ADMIN_CODE)
    \<and> set CORE_SUPER_PERMISSIONS \<subseteq> set (granted_permissions (active_roles_of (um_id u) b) b)"
proof -
  have ok: "access_ok b" using steps_guarded [OF assms(1)] assms(2) by (simp add: guarded_def)
  then obtain r u where g: "find_row (\<lambda>r. rl_code r = SUPER_ADMIN_CODE) (role_rows b) = Some r" "rl_status r = CS_active"
      "js_lower (rl_id r) = rl_id r" "set CORE_SUPER_PERMISSIONS \<subseteq> pn_code ` set (permissions_of (rl_id r) b)"
      "u \<in> set (admin_user_rows b)" "um_status u = CS_active" "(um_id u, rl_id r) \<in> set (user_role_rows b)"
    by (auto simp: access_ok_def super_guarded_def)
  have "find_role (rl_id r) b = Some r"
    using ok find_distinct [of rl_id "role_rows b" r] find_row_Some [OF g(1)] g(3) by (simp add: find_role_def access_ok_def)
  moreover have "rl_id r \<in> set (role_ids_of (um_id u) b)" using g(7) by (force simp: role_ids_of_def)
  ultimately have "r \<in> set (active_roles_of (um_id u) b)"
    using g(2) by (force simp: active_roles_of_def roles_of_def map_filter_def)
  then show ?thesis
    using g(4,5,6) find_row_Some [OF g(1)] by (intro bexI [of _ u] conjI bexI [of _ r]) (auto simp: granted_permissions_def)
qed

theorem super_admin_always_remains_witness:
  "\<exists>u \<in> set (admin_user_rows second_disabled). um_status u = CS_active
    \<and> (\<exists>r \<in> set (active_roles_of (um_id u) second_disabled). rl_code r = SUPER_ADMIN_CODE)
    \<and> set CORE_SUPER_PERMISSIONS \<subseteq> set (granted_permissions (active_roles_of (um_id u) second_disabled) second_disabled)"
  by (rule super_admin_always_remains [OF r_into_rtranclp sample_access_ok]) (rule set_admin_enabled)

text \<open>C12: A request that passes both guards carries the token of a session that is neither revoked nor over, of an enabled
  administrator, and every permission its route requires is one of an active role of that administrator.\<close>

theorem admitted_request_is_authorised:
  assumes "authenticate rt False header db = (Inr (Some (a, sid)), db1)"
    and "check_permissions required anyOf (Some a) db1 = (Inr (), db2)"
  shows "\<exists>token s u. extractBearerToken header = Some token \<and> s \<in> set (admin_session_rows db)
    \<and> sx_tokenHash s = hashSessionToken rt token \<and> sx_revokedAt s = None \<and> sx_expiresAt s > rt_now rt
    \<and> find_admin (sx_adminUserId s) db = Some u \<and> um_status u = CS_active \<and> ac_userId a = um_id u
    \<and> (\<forall>p \<in> set required. \<exists>r \<in> set (active_roles_of (um_id u) db). \<exists>q \<in> set (permissions_of (rl_id r) db). pn_code q = p)"
proof -
  obtain token s u where g: "extractBearerToken header = Some token" "live_session rt token db = Some s"
    "find_admin (sx_adminUserId s) db = Some u" "um_status u = CS_active" "a = toActor db u (active_roles_of (um_id u) db)"
    using admitted [OF assms(1)] by metis
  have "\<forall>p \<in> set required. p \<in> set (granted_permissions (active_roles_of (um_id u) db) db)"
    using permitted [OF assms(2)] g(5) by (auto simp: toActor_def)
  then show ?thesis
    using g find_row_Some [OF g(2) [unfolded live_session_def]] granted_permission
    by (intro exI [of _ token] exI [of _ s] exI [of _ u]) (auto simp: toActor_def)
qed

theorem admitted_request_witness:
  "\<exists>token s u. extractBearerToken (Some ''Bearer t1'') = Some token \<and> s \<in> set (admin_session_rows sample_access_db)
    \<and> sx_tokenHash s = hashSessionToken sample_rt token \<and> sx_revokedAt s = None \<and> sx_expiresAt s > rt_now sample_rt
    \<and> find_admin (sx_adminUserId s) sample_access_db = Some u \<and> um_status u = CS_active \<and> ac_userId sample_root = um_id u
    \<and> (\<forall>p \<in> set [''role.manage'']. \<exists>r \<in> set (active_roles_of (um_id u) sample_access_db).
         \<exists>q \<in> set (permissions_of (rl_id r) sample_access_db). pn_code q = p)"
proof (rule admitted_request_is_authorised)
  show "authenticate sample_rt False (Some ''Bearer t1'') sample_access_db =
      (Inr (Some (sample_root, ''t1'')), snd (authenticate sample_rt False (Some ''Bearer t1'') sample_access_db))"
    using sample_admitted by (simp add: prod_eq_iff)
  show "check_permissions [''role.manage''] [] (Some sample_root) d = (Inr (), d)" for d
    by (simp add: check_permissions_def missing_permissions_def sample_root_def Let_def op_return_def)
qed

text \<open>C11: After the password of an administrator was reset, or the administrator disabled, a token of a session that
  existed then is refused, whatever requests follow.\<close>

theorem reset_ends_sessions_for_good:
  assumes "resetPassword env rt i input actor db = (Inr (), a) \<or> setAdminEnabled env rt i False actor db = (Inr view, a)"
    and "distinct (session_hashes db)" "access_step\<^sup>*\<^sup>* a b"
    and "s \<in> set (admin_session_rows a)" "sx_adminUserId s = js_lower i"
    and "extractBearerToken header = Some token" "hashSessionToken rt' token = sx_tokenHash s"
  shows "authenticate rt' False header b = (Inl INVALID_TOKEN, b)"
proof (rule revoked_token_refused)
  show "sessions_grow a b" by (rule steps_grow [OF assms(3)])
  have "sessions_grow db a"
    using assms(1) grow_admins(3) [of db env rt i input actor] grow_admins(4) [of db env rt i False actor] by (auto simp: has_effect_def)
  then show "distinct (session_hashes a)" using assms(2) by (simp add: sessions_grow_def)
  show "sx_revokedAt s \<noteq> None" using reset_or_disable_ends [OF assms(1)] assms(4,5) by (auto simp: sessions_ended_def)
qed (rule assms)+

theorem reset_ends_sessions_witness:
  "authenticate sample_rt False (Some ''Bearer t2'') second_enabled_again = (Inl INVALID_TOKEN, second_enabled_again)"
proof -
  obtain view where "setAdminEnabled sample_env sample_rt SECOND_ADMIN False sample_root sample_access_db = (Inr view, second_disabled)"
    using accounts_disabled by (metis isl_def obj_sumE prod.collapse)
  moreover obtain s where "s \<in> set (admin_session_rows second_disabled)" "sx_adminUserId s = js_lower SECOND_ADMIN" "sx_tokenHash s = ''t2''"
    using sample_second_session by blast
  moreover have "distinct (session_hashes sample_access_db)" by code_simp
  moreover have "access_step\<^sup>*\<^sup>* second_disabled second_enabled_again" by (rule r_into_rtranclp) (rule set_admin_enabled)
  ultimately show ?thesis using reset_ends_sessions_for_good sample_token by metis
qed

text \<open>C39: Whatever attempts are made, at most five of one address are admitted in any sixty seconds.\<close>

theorem login_attempts_are_limited:
  assumes "sorted (map fst rs)"
  shows "length (filter (\<lambda>x. snd x = ip \<and> t - 60000 < fst x \<and> fst x \<le> t) (admitted_logins rs [])) \<le> 5"
proof (cases rs)
  case (Cons r rest)
  have "log_holds (fst r) [] []"
    by (simp add: log_holds_def log_at_def times_of_def in_window_def)
  moreover have "sorted (fst r # map fst rs)" using assms by (simp add: Cons)
  ultimately have "in_window t (times_of ip (admitted_logins rs [])) \<le> MAX_LOGIN_ATTEMPTS"
    using admitted_hold [of "fst r" "[]" "[]" rs t ip] by simp
  then show ?thesis
    by (simp add: in_window_def times_of_def MAX_LOGIN_ATTEMPTS_def LOGIN_WINDOW_MS_def filter_map o_def conj_commute)
qed simp

theorem login_attempts_witness:
  "length (filter (\<lambda>x. snd x = ''10.0.0.1'' \<and> 59990 - 60000 < fst x \<and> fst x \<le> (59990 :: int))
     (admitted_logins [(0, ''10.0.0.1''), (1, ''10.0.0.1''), (2, ''10.0.0.1''), (3, ''10.0.0.2''), (4, ''10.0.0.1''), (5, ''10.0.0.1''),
        (6, ''10.0.0.1''), (60000, ''10.0.0.1'')] [])) \<le> 5"
  by (rule login_attempts_are_limited) simp

text \<open>C40: A stored password is recognised, and another text only when the derivation gives the same key for it.\<close>

theorem stored_password_is_verified:
  assumes "hashPassword env p = Inr h"
    and "\<And>b. xe_decode env (xe_encode env b) = b" "\<And>b. CHR ''$'' \<notin> set (xe_encode env b)"
    and "length (xe_salt env) = 16" "\<And>q s d. xe_derive env q s = Some d \<Longrightarrow> length d = 64"
    and "\<And>b. b \<noteq> [] \<Longrightarrow> xe_encode env b \<noteq> []"
  shows "verifyPassword env q h \<longleftrightarrow> length q \<le> 256 \<and> xe_derive env q (xe_salt env) = xe_derive env p (xe_salt env)"
proof -
  obtain derived where d: "xe_derive env p (xe_salt env) = Some derived"
    "h = js_join [CHR ''$''] [PASSWORD_VERSION, PASSWORD_PARAMETERS, xe_encode env (xe_salt env), xe_encode env derived]"
    using assms(1) by (auto simp: hashPassword_def bind_res_Inr_iff split: option.splits)
  have "js_split CHR ''$'' h = [PASSWORD_VERSION, PASSWORD_PARAMETERS, xe_encode env (xe_salt env), xe_encode env derived]"
    unfolding d(2) by (rule js_split_four) (simp_all add: password_constants assms(3))
  moreover have "length derived = 64" using assms(5) d(1) by blast
  moreover have "xe_salt env \<noteq> []" "derived \<noteq> []" using assms(4) \<open>length derived = 64\<close> by auto
  ultimately show ?thesis
    using assms(2,4,6) d(1) by (auto simp: verifyPassword_def MAX_PASSWORD_LENGTH_def password_constants(3))
qed

theorem stored_password_witness:
  "\<exists>h. hashPassword sample_env ''correct horse 1'' = Inr h \<and> verifyPassword sample_env ''correct horse 1'' h"
proof -
  have "\<not> isl (hashPassword sample_env ''correct horse 1'')" by code_simp
  then obtain h where h: "hashPassword sample_env ''correct horse 1'' = Inr h" by (metis isl_def obj_sumE)
  have letters: "concat (map two_letters s) \<noteq> []" if "s \<noteq> []" for s using that by (cases s) (simp_all add: two_letters_def)
  have "verifyPassword sample_env q h \<longleftrightarrow> length q \<le> 256 \<and> xe_derive sample_env q (xe_salt sample_env) = xe_derive sample_env ''correct horse 1'' (xe_salt sample_env)" for q
    by (rule stored_password_is_verified [OF h]) (use sample_letters letters in \<open>auto simp: sample_env_def\<close>)
  then show ?thesis using h by auto
qed

end
