(* ===== verification/Service_Frames.thy ===== *)
theory Service_Frames
  imports Import_Properties Access_Properties
begin

text \<open>
  What the services beside the office's leave alone, as \<open>Office_Frames\<close> has it for the office:
  access control, the synchronisation tasks, unmatched rows, the inventory of cards and the four
  imports write their own tables and the audit log, and change no view that looks past those.
\<close>

section \<open>Access control\<close>

lemma op_frame_serializable [frame_intros]:
  assumes "op_frame v UNIV work"
  shows "op_frame v UNIV (serializable env message work)"
proof -
  have "v (snd (serializable env message work db)) = v db" for db
    using attempt_outcome [of MAX_TRANSACTION_ATTEMPTS "xe_conflicts env" message work db]
      op_frameD [OF op_frame_transaction [OF assms], of db]
    by (auto simp: serializable_def)
  then show ?thesis by (simp add: op_frame_def)
qed

locale access_blind =
  fixes v :: "database \<Rightarrow> 'v"
  assumes past: "looks_past_audit v"
    and tables: "v (put_admins r1 db) = v db" "v (put_sessions r2 db) = v db" "v (put_roles r3 db) = v db"
      "v (put_user_roles r4 db) = v db" "v (put_role_permissions r5 db) = v db"
begin

lemma access_writes:
  "op_frame v UNIV (admin_insert u)" "op_frame v UNIV (admin_set i f)" "op_frame v UNIV (role_insert r)"
  "op_frame v UNIV (role_set i g)" "op_frame v UNIV (session_insert s)" "op_frame v UNIV (revoke_where now p)"
  "op_frame v UNIV (touch_session rt s)" "op_frame v UNIV (user_roles_deleteMany i)"
  "op_frame v UNIV (user_roles_createMany i ids)" "op_frame v UNIV (role_permissions_deleteMany i)"
  "op_frame v UNIV (role_permissions_createMany i ids)" "op_frame v UNIV (keep_only_role i j)"
  using tables
  unfolding admin_insert_def admin_set_def role_insert_def role_set_def session_insert_def revoke_where_def touch_session_def
    user_roles_deleteMany_def user_roles_createMany_def role_permissions_deleteMany_def role_permissions_createMany_def
    keep_only_role_def Let_def
  by (auto intro!: frame_intros op_frame_modify)

lemma access_parts:
  "op_frame v UNIV (requireActiveRoles ids)" "op_frame v UNIV requireSuperAdminRole" "op_frame v UNIV (require_admin i)"
  "op_frame v UNIV (assertAnotherEnabledSuperAdmin i r)" "op_frame v UNIV (revokeSessions rt i)"
  "op_frame v UNIV (replace_roles i ids)" "op_frame v UNIV (assertUniqueName n x)" "op_frame v UNIV (requirePermissions ids)"
  "op_frame v UNIV (require_role i)" "op_frame v UNIV (revokeRoleSessions rt i)" "op_frame v UNIV (checked_permissions w p)"
  "op_frame v UNIV (replace_permissions rt i ids)"
  unfolding requireActiveRoles_def requireSuperAdminRole_def require_admin_def assertAnotherEnabledSuperAdmin_def revokeSessions_def
    replace_roles_def assertUniqueName_def requirePermissions_def require_role_def revokeRoleSessions_def checked_permissions_def
    replace_permissions_def
  by (auto intro!: frame_intros access_writes split: option.split)

lemma access_rows:
  "op_frame v UNIV (apply_permissions rt i b p)" "op_frame v UNIV (free_name env i w name)"
  "op_frame v UNIV (provision_row rt pinput hash)"
  unfolding apply_permissions_def free_name_def provision_row_def
  by (auto intro!: frame_intros access_writes access_parts split: option.split)

lemma admin_handlers_frame:
  "op_frame v UNIV (createAdmin env rt input actor)" "op_frame v UNIV (updateAdmin env rt i input actor)"
  "op_frame v UNIV (resetPassword env rt i input actor)" "op_frame v UNIV (setAdminEnabled env rt i enabled actor)"
  "op_frame v UNIV (provisionAdmin env rt pinput)"
  using past
  unfolding createAdmin_def create_admin_row_def updateAdmin_def update_admin_row_def write_admin_def resetPassword_def
    reset_password_row_def setAdminEnabled_def set_enabled_row_def provisionAdmin_def Let_def
  by (auto intro!: frame_intros access_writes access_parts access_rows split: option.split)

lemma role_handlers_frame:
  "op_frame v UNIV (createRole env rt input actor)" "op_frame v UNIV (updateRole env rt i input actor)"
  "op_frame v UNIV (setRoleEnabled env rt i enabled actor)"
  using past
  unfolding createRole_def create_role_row_def updateRole_def update_role_row_def write_role_def setRoleEnabled_def
    set_role_enabled_row_def Let_def
  by (auto intro!: frame_intros access_writes access_parts access_rows split: option.split)

lemma auth_handlers_frame:
  "op_frame v UNIV (login env rt ttl input cx)" "op_frame v UNIV (logout rt i actor)"
  "op_frame v UNIV (changePassword env rt input actor)" "op_frame v UNIV (revokeSession rt i c actor)"
  "op_frame v UNIV (logoutAll rt actor)" "op_frame v UNIV (authenticate rt public h)"
  "op_frame v UNIV (check_permissions required anyOf who)"
  using past tables
  unfolding login_def open_session_def logout_def changePassword_def store_password_def revoke_live_sessions_def revokeSession_def
    logoutAll_def authenticate_def check_permissions_def Let_def
  by (auto intro!: frame_intros op_frame_modify access_writes access_parts split: option.split)

lemma access_step_frame: "access_step db db' \<Longrightarrow> v db' = v db"
  by (induction rule: access_step.induct)
    (simp_all add: admin_handlers_frame [THEN op_frameD] role_handlers_frame [THEN op_frameD] auth_handlers_frame [THEN op_frameD])

end

section \<open>Synchronisation\<close>

text \<open>Tasks, runs of the planner and unmatched rows.\<close>

locale task_blind =
  fixes v :: "database \<Rightarrow> 'v"
  assumes past: "looks_past_audit v"
    and tables: "v (put_tasks r1 db) = v db" "v (db\<lparr>planning_runs := r2\<rparr>) = v db" "v (put_unmatched r3 db) = v db"
begin

lemma task_writes:
  "op_frame v UNIV (task_insert t)" "op_frame v UNIV (task_update_many p f)" "op_frame v UNIV (task_update p f)"
  "op_frame v UNIV (run_upsert new g)" "op_frame v UNIV (run_update m g)" "op_frame v UNIV (unmatched_set i h)"
  using tables unfolding task_insert_def unmatched_set_def
  by (auto intro!: frame_intros)
    (auto simp: op_frame_def task_update_many_def task_update_def run_upsert_def run_update_def split: option.split)

lemma task_checks:
  "op_frame v UNIV (assertUnlocked task actor)" "op_frame v UNIV (credential_check a b c d task)"
  "op_frame v UNIV (loadTaskOrThrow i)" "op_frame v UNIV (execute_failure actor i m e)"
  "op_frame v UNIV (auditFailureUnlessMonthLocked actor action e)" "op_frame v UNIV (claim_audit claim)"
  "op_frame v UNIV (getCredentialPayload decrypt task)"
  using past
  unfolding assertUnlocked_def credential_check_def loadTaskOrThrow_def execute_failure_def auditFailureUnlessMonthLocked_def
    claim_audit_def getCredentialPayload_def getAffiliateAccountCredentialPayload_def getCardProviderCredentialPayload_def
  by (auto intro!: frame_intros split: option.split app_exception.split)

lemma create_candidates_frame: "op_frame v UNIV (create_candidates rt m actor trigger cs)"
proof (induction rt m actor trigger cs rule: create_candidates.induct)
  case (1 rt m actor trigger)
  show ?case by (simp only: create_candidates.simps op_frame_pure)
qed (auto intro!: frame_intros task_writes)

lemma task_handlers_frame:
  "op_frame v UNIV (createAffiliateIncome rt input actor)" "op_frame v UNIV (createCardSpend rt provider body actor)"
  "op_frame v UNIV (generatePlan rt month_text planner trigger)" "op_frame v UNIV (requestRetry rt n i reason actor)"
  "op_frame v UNIV (cancelTask rt n i reason actor)" "op_frame v UNIV (ignoreEvent rt i note actor)"
  "op_frame v UNIV (resolveEvent rt i employee note actor)"
  using past
  unfolding createAffiliateIncome_def createCardSpend_def create_card_task_def generatePlan_def plan_month_def requestRetry_def
    assertHasActiveCredential_def retry_update_def cancelTask_def cancel_update_def ignoreEvent_def resolveEvent_def getForUpdate_def Let_def
  by (auto intro!: frame_intros task_writes task_checks create_candidates_frame split: option.split app_exception.split prod.split)

lemma planner_frame: "op_frame v UNIV (checkPlanner conf rt)"
  unfolding checkPlanner_def claimRun_def
  by (auto intro!: frame_intros task_writes task_handlers_frame(3) split: option.split)

lemma execution_frames:
  assumes "\<And>key cx. op_frame v UNIV (adapters key cx)"
  shows "op_frame v UNIV (executeTask rt decrypt adapters i actor)"
    and "op_frame v UNIV (poll config rt owner held decrypt adapters message)"
proof -
  have body: "op_frame v UNIV (execute_body rt decrypt adapters task actor)" for task
    using past assms unfolding execute_body_def requireActiveCredential_def start_update_def finish_update_def
    by (auto intro!: frame_intros task_writes task_checks)
  show "op_frame v UNIV (executeTask rt decrypt adapters i actor)"
    unfolding executeTask_def by (auto intro!: frame_intros body task_checks split: option.split)
  have ends: "op_frame v UNIV (finishSuccess rt owner claim x)" "op_frame v UNIV (finishFailure config rt owner claim c m y)"
    for claim x c m y
    using past unfolding finishSuccess_def finishFailure_def Let_def by (auto intro!: frame_intros task_writes)
  have "op_frame v UNIV (run_claim config rt owner decrypt adapters claim)" for claim
    using assms unfolding run_claim_def by (auto intro!: frame_intros ends task_checks split: option.split)
  moreover have "op_frame v UNIV (claimTasks config now owner held)" for now
    using tables unfolding claimTasks_def by (auto intro!: frame_intros op_frame_modify task_checks)
  ultimately show "op_frame v UNIV (poll config rt owner held decrypt adapters message)"
    unfolding poll_def executeClaim_def by (auto intro!: frame_intros ends)
qed

end

section \<open>Cards\<close>

text \<open>The inventory of cards, and the steps of an import page by page.\<close>

lemma import_batch_frame:
  assumes "\<And>rt seen raw. op_frame v UNIV (step rt seen raw)"
  shows "op_frame v UNIV (import_batch step rt st raws)"
proof (induction raws arbitrary: rt st)
  case Nil
  show ?case by (simp only: import_batch.simps op_frame_pure)
qed (auto intro!: frame_intros assms split: sum.split)

lemma import_pages_frame:
  assumes "\<And>rt seen raw. op_frame v UNIV (step rt seen raw)"
  shows "op_frame v UNIV (import_pages fetch step fuel rt st page)"
proof (induction fuel arbitrary: rt st page)
  case 0
  show ?case by (simp only: import_pages.simps op_frame_pure)
qed (auto intro!: frame_intros import_batch_frame assms simp: Let_def split: sum.split option.split prod.split)

lemma import_windows_frame:
  assumes "\<And>rt seen raw. op_frame v UNIV (step rt seen raw)"
  shows "op_frame v UNIV (import_windows fetches step fuel rt st qs)"
proof (induction qs arbitrary: rt st)
  case Nil
  show ?case by (simp only: import_windows.simps op_frame_pure)
qed (auto intro!: frame_intros import_pages_frame assms split: option.split prod.split)

locale card_blind =
  fixes v :: "database \<Rightarrow> 'v"
  assumes past: "looks_past_audit v" and cards: "v (put_cards rows db) = v db"
begin

lemma inventory_frame: "op_frame v UNIV (syncProviderWithPayload env rt p payload m)"
proof -
  have "v b = v a" if "inventory_only a b" for a b
    using that cards [of "[]" a] cards [of "[]" b] by (simp add: inventory_only_def put_cards_def)
  then show ?thesis using inventory_effect by (auto simp: op_frame_def has_effect_def)
qed

lemma inventory_handlers_frame:
  "op_frame v UNIV (syncProvider env decrypt rt p actor)" "op_frame v UNIV (syncAll env decrypt rt rt' actor)"
  using past unfolding syncProvider_def syncAll_def sync_with_credential_def getCardProviderCredentialPayload_def
  by (auto intro!: frame_intros inventory_frame split: option.split)

lemma mark_frames:
  "op_frame v UNIV (markTransactionSync rt p c s)" "op_frame v UNIV (markUntouchedTransactionSync rt p t s)"
  using cards unfolding markTransactionSync_def markUntouchedTransactionSync_def cards_update_many_def
  by (auto intro!: op_frame_modify)

end

section \<open>Imports\<close>

locale spend_import_blind = card_blind v + unmatched_blind v for v :: "database \<Rightarrow> 'v" +
  assumes events: "v (Card_Spend.put_spends rows db) = v db"
begin

lemma spend_writes:
  "op_frame v UNIV (event_insert e)" "op_frame v UNIV (spend_upsert p x c u)"
  "op_frame v UNIV (resolveSpendOwner p cardId t)"
  using events unfolding event_insert_def resolveSpendOwner_def
  by (auto intro!: frame_intros) (auto simp: spend_upsert_def intro!: op_frame_modify split: option.split)

lemmas spend_frames = spend_writes mark_frames unmatched_frames inventory_frame

lemma spend_owner_frame:
  "(\<And>i. op_frame v UNIV (f i)) \<Longrightarrow> (\<And>c d. op_frame v UNIV (g c d)) \<Longrightarrow> (\<And>c d. op_frame v UNIV (h c d)) \<Longrightarrow>
   op_frame v UNIV (case x of Spend_owner i \<Rightarrow> f i | Excluded_spend c d \<Rightarrow> g c d | No_owner c d \<Rightarrow> h c d)"
  by (cases x) simp_all

lemma photonpay_frame: "op_frame v UNIV (photonpay_execute env fuel rt cx)"
proof -
  have failure: "op_frame v UNIV (recordFailureUnlessPreview preview rt task r code message)" for preview rt task r code message
    unfolding recordFailureUnlessPreview_def photonpay_recordUnmatched_def by (auto intro!: frame_intros spend_frames)
  have unless: "op_frame v UNIV m \<Longrightarrow> op_frame v UNIV (unless_preview preview m)" for preview m
    unfolding unless_preview_def by (auto intro!: frame_intros)
  have store: "op_frame v UNIV (photonpay_store rt task r external cardId employee t debit)"
    for rt task r external cardId employee t debit
    unfolding photonpay_store_def photonpay_create_def failing_def photonpay_recordUnmatched_def
    by (auto intro!: frame_intros spend_frames split: option.split sum.split)
  have owned: "op_frame v UNIV (photonpay_owned preview rt task r external cardId employee t)"
    for preview rt task r external cardId employee t
    unfolding photonpay_owned_def failing_def Let_def
    by (auto intro!: frame_intros failure store split: option.split)
  have upsert: "op_frame v UNIV (photonpay_upsertCardSpendEvent preview rt task r)" for preview rt task r
    unfolding photonpay_upsertCardSpendEvent_def failing_def Let_def
    by (auto intro!: frame_intros failure unless owned spend_frames spend_owner_frame split: option.split)
  have step: "op_frame v UNIV (photonpay_step task window targets rt seen raw)" for task window targets rt seen raw
    unfolding photonpay_step_def Let_def by (auto intro!: frame_intros failure upsert split: option.split)
  have "op_frame v UNIV (photonpay_prepare env rt cx window)" for window
    unfolding photonpay_prepare_def loadHistoricalBackfillCardSets_def Let_def
    by (auto intro!: frame_intros unless spend_frames)
  then show ?thesis
    unfolding photonpay_execute_def photonpay_run_def Let_def
    by (auto intro!: frame_intros unless spend_frames import_windows_frame step split: option.split sum.split)
qed

lemma airwallex_frame: "op_frame v UNIV (airwallex_execute env fuel rt cx)"
proof -
  have unmatched: "op_frame v UNIV (airwallex_recordUnmatched rt task r code message)" for rt task r code message
    unfolding airwallex_recordUnmatched_def refuse_write_def by (auto intro!: frame_intros spend_frames)
  have upsert: "op_frame v UNIV (airwallex_upsertCardSpendEvent rt task r)" for rt task r
    unfolding airwallex_upsertCardSpendEvent_def airwallex_store_def Let_def
    by (auto intro!: frame_intros unmatched spend_frames spend_owner_frame split: option.split)
  have step: "op_frame v UNIV (airwallex_step task window rt seen raw)" for task window rt seen raw
    unfolding airwallex_step_def by (auto intro!: frame_intros unmatched upsert split: option.split)
  show ?thesis
    unfolding airwallex_execute_def airwallex_run_def Let_def
    by (auto intro!: frame_intros spend_frames import_pages_frame step split: option.split sum.split)
qed

end

end
