(* ===== verification/Month_Safety.thy ===== *)
theory Month_Safety
  imports Locked_Months Service_Frames
begin

text \<open>
  What a locked month keeps whatever the program does: every handler of every service and every
  import as one step relation, each step labelled with what it is. The settlement of the month, its
  details and nearly all the rows it was computed from never change; the steps that do change its
  losses, incomes and card events are named by the properties.
\<close>

section \<open>The books\<close>

text \<open>The tables a settlement is made of, those that imports write apart.\<close>

definition ledger where
  "ledger db = (settlements db, settlement_details db, manual_card_spends db, card_fee_rates db, exchange_rates db,
     historical_profits db, performance_groups db, group_members db, salary_items db, sub_mappings db, card_bindings db)"

definition beside_incomes where
  "beside_incomes db = (ledger db, card_spend_events db)"

definition beside_events where
  "beside_events db = (ledger db, income_records db)"

definition books where
  "books db = (ledger db, income_records db, card_spend_events db)"

lemmas book_parts = ledger_def beside_incomes_def beside_events_def books_def

text \<open>The scope of a month without the three tables a locked month does not protect from every writer.\<close>

definition closed_scope :: "int \<Rightarrow> database \<Rightarrow> month_view" where
  "closed_scope m db = (month_scope m db)\<lparr>mv_historical := [], mv_incomes := [], mv_card_events := []\<rparr>"

lemma locked_by_closed_scope:
  assumes "closed_scope m db' = closed_scope m db" "month_locked m db"
  shows "month_locked m db'"
proof -
  have "mv_settlements (month_scope m db') = mv_settlements (closed_scope m db')"
    "mv_settlements (month_scope m db) = mv_settlements (closed_scope m db)"
    by (simp_all add: closed_scope_def)
  then have "mv_settlements (month_scope m db') = mv_settlements (month_scope m db)" by (simp only: assms(1))
  then show ?thesis using assms(2) by (simp add: month_locked_def find_settlement_view)
qed

lemma ledger_kept:
  assumes "ledger db' = ledger db"
  shows "closed_scope m db' = closed_scope m db" "mv_historical (month_scope m db') = mv_historical (month_scope m db)"
    "office_ok db' = office_ok db"
  using assms invariant_rows [of db' db]
  by (simp_all add: ledger_def closed_scope_def month_scope_def office_ok_def settled_rows_def group_rows_def)

interpretation books_access: access_blind books
  by unfold_locales
    (simp_all add: looks_past_audit_def book_parts put_admins_def put_sessions_def put_roles_def put_user_roles_def
      put_role_permissions_def)

interpretation books_tasks: task_blind books
  by unfold_locales (simp_all add: looks_past_audit_def book_parts put_tasks_def put_unmatched_def)

interpretation books_cards: card_blind books
  by unfold_locales (simp_all add: looks_past_audit_def book_parts put_cards_def)

interpretation ledger_tasks: task_blind ledger
  by unfold_locales (simp_all add: looks_past_audit_def book_parts put_tasks_def put_unmatched_def)

interpretation aside_incomes: income_import_blind beside_incomes
  by unfold_locales (simp_all add: looks_past_audit_def book_parts put_incomes_def put_unmatched_def)

interpretation aside_events: spend_import_blind beside_events
  by unfold_locales
    (simp_all add: looks_past_audit_def book_parts put_cards_def put_unmatched_def Card_Spend.put_spends_def)

section \<open>Everything the program does\<close>

text \<open>
  The adapters the executor is given: whatever they return, they leave the database as a run of one
  of the four imports does.
\<close>

definition program_adapters :: "adapters \<Rightarrow> bool" where
  "program_adapters adapters \<longleftrightarrow> (\<forall>key cx db. \<exists>cake en everflow cards fuel rt.
     snd (adapters key cx db) \<in> {snd (cake_execute cake rt cx db), snd (everflow_execute en everflow rt cx db),
       snd (photonpay_execute cards fuel rt cx db), snd (airwallex_execute cards fuel rt cx db)})"

lemma adapters_keep_ledger:
  assumes "program_adapters adapters"
  shows "op_frame ledger UNIV (adapters key cx)"
proof -
  have "ledger (snd (adapters key cx db)) = ledger db" for db
  proof -
    obtain cake en everflow cards fuel rt where run:
      "snd (adapters key cx db) \<in> {snd (cake_execute cake rt cx db), snd (everflow_execute en everflow rt cx db),
       snd (photonpay_execute cards fuel rt cx db), snd (airwallex_execute cards fuel rt cx db)}"
      using assms unfolding program_adapters_def by meson
    note kept = aside_incomes.income_adapters_frame [THEN op_frameD, OF UNIV_I] aside_events.photonpay_frame [THEN op_frameD, OF UNIV_I]
      aside_events.airwallex_frame [THEN op_frameD, OF UNIV_I]
    show ?thesis
      using run kept(1) [of cake rt cx db] kept(2) [of en everflow rt cx db] kept(3) [of cards fuel rt cx db]
        kept(4) [of cards fuel rt cx db]
      by (auto simp: beside_incomes_def beside_events_def)
  qed
  then show ?thesis by (simp add: op_frame_def)
qed

text \<open>
  What a step is, as far as a month can notice. The last rule is for reads and for what is not
  modelled (credentials, alerts), which writes none of the tables of \<open>books\<close>.
\<close>

datatype month_event =
    Entered
  | Rolled int
  | Drafted
  | Income_run
  | Spend_run provider int
  | Hand_run "int option"
  | Worker_run

inductive month_step :: "int \<Rightarrow> month_event \<Rightarrow> database \<Rightarrow> database \<Rightarrow> bool" for m where
  office: "office_step m db db' \<Longrightarrow> month_step m Entered db db'"
| lock_month: "fresh_profit_ids rt db \<Longrightarrow> month_step m (Rolled k) db (snd (lockSettlement rt k actor reason db))"
| draft: "month_step m Drafted db (snd (saveDraft rt ai actor db))"
| cake: "month_step m Income_run db (snd (cake_execute cake_env rt cx db))"
| everflow: "month_step m Income_run db (snd (everflow_execute en everflow_env rt cx db))"
| photonpay: "month_step m (Spend_run photonpay (tk_month (cx_task cx))) db (snd (photonpay_execute env fuel rt cx db))"
| airwallex: "month_step m (Spend_run airwallex (tk_month (cx_task cx))) db (snd (airwallex_execute env fuel rt cx db))"
| hand_run: "program_adapters adapters \<Longrightarrow>
     month_step m (Hand_run (map_option tk_month (find_task i db))) db (snd (executeTask rt decrypt adapters i actor db))"
| worker_run: "program_adapters adapters \<Longrightarrow>
     month_step m Worker_run db (snd (poll config rt owner held decrypt adapters prisma_message db))"
| income_task: "month_step m Entered db (snd (createAffiliateIncome rt input actor db))"
| card_task: "month_step m Entered db (snd (createCardSpend rt provider body actor db))"
| plan_month: "month_step m Entered db (snd (generatePlan rt month_text planner trigger db))"
| check_planner: "month_step m Entered db (snd (checkPlanner conf rt db))"
| retry: "month_step m Entered db (snd (requestRetry rt n i why actor db))"
| cancel: "month_step m Entered db (snd (cancelTask rt n i why actor db))"
| ignore_event: "month_step m Entered db (snd (ignoreEvent rt i note_text actor db))"
| resolve_event: "month_step m Entered db (snd (resolveEvent rt i employee note_text actor db))"
| sync_cards: "month_step m Entered db (snd (syncProvider env decrypt rt p actor db))"
| sync_all_cards: "month_step m Entered db (snd (syncAll env decrypt rt rt' actor db))"
| govern: "governance_step db db' \<Longrightarrow> month_step m Entered db db'"
| access: "access_step db db' \<Longrightarrow> month_step m Entered db db'"
| provision: "month_step m Entered db (snd (provisionAdmin access rt pinput db))"
| elsewhere: "books db' = books db \<Longrightarrow> month_step m Entered db db'"

inductive month_trace :: "int \<Rightarrow> month_event list \<Rightarrow> database \<Rightarrow> database \<Rightarrow> bool" for m where
  trace_done: "month_trace m [] db db"
| trace_more: "month_step m ev db db1 \<Longrightarrow> month_trace m evs db1 db2 \<Longrightarrow> month_trace m (ev # evs) db db2"

section \<open>What a step changes\<close>

fun rolls_into :: "int \<Rightarrow> month_event \<Rightarrow> bool" where
  "rolls_into m (Rolled k) = (nextSettlementMonth k = Some m)"
| "rolls_into m ev = False"

text \<open>A task of the locked month is refused by the executor; a task of another month may touch a record moved into \<open>m\<close>.\<close>

fun writes_incomes :: "int \<Rightarrow> month_event \<Rightarrow> bool" where
  "writes_incomes m Drafted = True"
| "writes_incomes m Income_run = True"
| "writes_incomes m (Hand_run k) = (k \<noteq> None \<and> k \<noteq> Some m)"
| "writes_incomes m Worker_run = True"
| "writes_incomes m ev = False"

fun rewrites_events :: "int \<Rightarrow> month_event \<Rightarrow> bool" where
  "rewrites_events m (Spend_run p k) = (p = airwallex)"
| "rewrites_events m (Hand_run k) = (k \<noteq> None \<and> k \<noteq> Some m)"
| "rewrites_events m Worker_run = True"
| "rewrites_events m ev = False"

fun appends_events :: "int \<Rightarrow> month_event \<Rightarrow> bool" where
  "appends_events m (Spend_run p k) = (k = m)"
| "appends_events m ev = False"

definition kept_by :: "int \<Rightarrow> month_event list \<Rightarrow> database \<Rightarrow> database \<Rightarrow> bool" where
  "kept_by m evs db db' \<longleftrightarrow> office_ok db' \<and> closed_scope m db' = closed_scope m db
     \<and> (list_ex (rolls_into m) evs \<or> mv_historical (month_scope m db') = mv_historical (month_scope m db))
     \<and> (list_ex (writes_incomes m) evs \<or> mv_incomes (month_scope m db') = mv_incomes (month_scope m db))
     \<and> (list_ex (rewrites_events m) evs
        \<or> (\<exists>new. mv_card_events (month_scope m db') = mv_card_events (month_scope m db) @ new
             \<and> (list_ex (appends_events m) evs \<or> new = [])))"

lemma kept_Nil: "office_ok db \<Longrightarrow> kept_by m [] db db"
  by (simp add: kept_by_def)

lemma kept_Cons: "kept_by m [ev] a b \<Longrightarrow> kept_by m evs b c \<Longrightarrow> kept_by m (ev # evs) a c"
  unfolding kept_by_def by auto

lemma books_kept:
  assumes "office_ok db"
  shows "books db' = books db \<Longrightarrow> kept_by m [ev] db db'"
    and "beside_incomes db' = beside_incomes db \<Longrightarrow> writes_incomes m ev \<Longrightarrow> kept_by m [ev] db db'"
    and "beside_events db' = beside_events db \<Longrightarrow> rewrites_events m ev \<Longrightarrow> kept_by m [ev] db db'"
    and "ledger db' = ledger db \<Longrightarrow> writes_incomes m ev \<Longrightarrow> rewrites_events m ev \<Longrightarrow> kept_by m [ev] db db'"
  using assms ledger_kept [of db' db]
  by (simp_all add: kept_by_def books_def beside_incomes_def beside_events_def) (simp_all add: month_scope_def)

lemma scope_kept: "office_ok db' \<Longrightarrow> month_scope m db' = month_scope m db \<Longrightarrow> kept_by m [ev] db db'"
  by (simp add: kept_by_def closed_scope_def)

lemma lock_kept:
  assumes "office_ok db" "fresh_profit_ids rt db" "month_locked m db"
  shows "kept_by m [Rolled k] db (snd (lockSettlement rt k actor reason db))"
  using lock_keeps_office [OF assms(1,2), of k actor reason] lock_rows [OF assms(1,2), of k actor reason] assms(3)
  by (auto simp: kept_by_def closed_scope_def month_scope_def month_losses_def)

lemma photonpay_kept:
  assumes "office_ok db"
  shows "kept_by m [Spend_run photonpay (tk_month (cx_task cx))] db (snd (photonpay_execute env fuel rt cx db))"
proof -
  let ?k = "tk_month (cx_task cx)" and ?db = "snd (photonpay_execute env fuel rt cx db)"
  obtain new where new: "card_spend_events ?db = card_spend_events db @ new"
    "list_all (photonpay_spend (rt_column rt) ?k (owners ?db)) new"
    using photonpay_execute_effect [of rt cx db env fuel] by (auto simp: has_effect_def imported_def)
  have "\<forall>e \<in> set new. ce_month e = ?k" using new(2) by (auto simp: list_all_iff photonpay_spend_def)
  then have "filter (\<lambda>e. ce_month e = m) new = []" if "?k \<noteq> m" using that by (auto simp: filter_empty_conv)
  then have events: "\<exists>new. mv_card_events (month_scope m ?db) = mv_card_events (month_scope m db) @ new \<and> (?k = m \<or> new = [])"
    using new(1) by (auto simp: month_scope_def)
  have "ledger ?db = ledger db" "income_records ?db = income_records db"
    using op_frameD [OF aside_events.photonpay_frame UNIV_I, of env fuel rt cx db] by (simp_all add: beside_events_def)
  then show ?thesis
    using assms events ledger_kept [of ?db db] by (simp add: kept_by_def) (simp add: month_scope_def)
qed

text \<open>The executor does not run a task of a locked month.\<close>

lemma hand_run_refused:
  assumes "month_locked m db" "find_task i db = Some task" "tk_month task = m"
  shows "books (snd (executeTask rt decrypt adapters i actor db)) = books db"
proof -
  have audit: "books (db\<lparr>audit_logs := logs\<rparr>) = books db" for logs by (simp add: book_parts)
  have failure: "books (snd ((execute_failure actor i x e :: sync_task_row handler) db')) = books db'" for x e and db' :: database
    using op_frameD [OF books_tasks.task_checks(4) UNIV_I] .
  have "\<exists>e logs. execute_body rt decrypt adapters task actor db = (Inl e, db\<lparr>audit_logs := logs\<rparr>)"
  proof (cases "assertPermission task actor")
    case (Inl e)
    then show ?thesis by (auto simp: execute_body_def intro!: exI [of _ "audit_logs db"])
  next
    case (Inr u)
    show ?thesis
    proof (cases "assertExecutableStatus task")
      case (Inl e)
      then show ?thesis using Inr by (auto simp: execute_body_def intro!: exI [of _ "audit_logs db"])
    next
      case (Inr v)
      then show ?thesis
        using \<open>assertPermission task actor = Inr u\<close> assms(1,3)
        by (auto simp: execute_body_def guarded_bind assertWritable_eq)
    qed
  qed
  then show ?thesis
    using assms(2) failure audit by (auto simp: executeTask_def op_catch_def)
qed

lemma hand_run_kept:
  assumes "office_ok db" "month_locked m db" "program_adapters adapters"
  shows "kept_by m [Hand_run (map_option tk_month (find_task i db))] db (snd (executeTask rt decrypt adapters i actor db))"
proof (cases "find_task i db")
  case None
  have "books (snd (executeTask rt decrypt adapters i actor db)) = books db"
    using op_frameD [OF books_tasks.task_checks(4) UNIV_I] None by (simp add: executeTask_def)
  then show ?thesis by (rule books_kept(1) [OF assms(1)])
next
  case (Some task)
  show ?thesis
  proof (cases "tk_month task = m")
    case True
    then show ?thesis using books_kept(1) [OF assms(1) hand_run_refused [OF assms(2) Some]] by simp
  next
    case False
    have "ledger (snd (executeTask rt decrypt adapters i actor db)) = ledger db"
      using op_frameD [OF ledger_tasks.execution_frames(1) [OF adapters_keep_ledger [OF assms(3)]] UNIV_I] .
    then show ?thesis using books_kept(4) [OF assms(1)] Some False by simp
  qed
qed

lemma quiet_steps:
  "books (snd (createAffiliateIncome rt input actor db)) = books db"
  "books (snd (createCardSpend rt provider body actor db)) = books db"
  "books (snd (generatePlan rt month_text planner trigger db)) = books db"
  "books (snd (requestRetry rt n i why actor db)) = books db"
  "books (snd (cancelTask rt n i why actor db)) = books db"
  "books (snd (ignoreEvent rt i note_text actor db)) = books db"
  "books (snd (resolveEvent rt i employee note_text actor db)) = books db"
  "books (snd (checkPlanner conf rt db)) = books db"
  "books (snd (syncProvider env decrypt rt p actor db)) = books db"
  "books (snd (syncAll env decrypt rt rt' actor db)) = books db"
  "books (snd (provisionAdmin access rt pinput db)) = books db"
  by (rule op_frameD [OF _ UNIV_I], rule books_tasks.task_handlers_frame books_tasks.planner_frame
      books_cards.inventory_handlers_frame books_access.admin_handlers_frame)+

lemma governance_books: "governance_step db db' \<Longrightarrow> books db' = books db"
  using governance_step_governed [of db db'] by (cases db; cases db') (auto simp: governed_def ungoverned_def book_parts)

lemma month_step_kept:
  assumes "month_step m ev db db'" "office_ok db" "four_digit_year m" "month_locked m db"
  shows "kept_by m [ev] db db'"
  using assms(1)
proof cases
  case office
  then show ?thesis using step_safe [OF _ assms(2-4)] scope_kept by blast
next
  case (lock_month rt k actor reason)
  then show ?thesis using lock_kept [OF assms(2) _ assms(4)] by simp
next
  case (draft rt ai actor)
  have "beside_incomes db' = beside_incomes db"
    unfolding draft by (rule op_frameD [OF income_handlers_frame(5) UNIV_I])
      (simp_all add: looks_past_audit_def book_parts put_incomes_def)
  then show ?thesis using books_kept(2) [OF assms(2)] draft by simp
next
  case (cake cake_env rt cx)
  then show ?thesis
    using books_kept(2) [OF assms(2) op_frameD [OF aside_incomes.income_adapters_frame(1) UNIV_I]] by simp
next
  case (everflow en everflow_env rt cx)
  then show ?thesis
    using books_kept(2) [OF assms(2) op_frameD [OF aside_incomes.income_adapters_frame(2) UNIV_I]] by simp
next
  case (photonpay cx env fuel rt)
  then show ?thesis using photonpay_kept [OF assms(2)] by simp
next
  case (airwallex cx env fuel rt)
  then show ?thesis
    using books_kept(3) [OF assms(2) op_frameD [OF aside_events.airwallex_frame UNIV_I]] by simp
next
  case (hand_run adapters i rt decrypt actor)
  then show ?thesis using hand_run_kept [OF assms(2,4)] by simp
next
  case (worker_run adapters config rt owner held decrypt prisma_message)
  have "ledger db' = ledger db"
    unfolding worker_run(2)
    by (rule op_frameD [OF ledger_tasks.execution_frames(2) [OF adapters_keep_ledger [OF worker_run(3)]] UNIV_I])
  then show ?thesis using books_kept(4) [OF assms(2)] worker_run by simp
next
  case govern
  then show ?thesis using books_kept(1) [OF assms(2) governance_books] by simp
next
  case access
  then show ?thesis using books_kept(1) [OF assms(2) books_access.access_step_frame] by simp
qed (auto intro!: books_kept(1) [OF assms(2)] quiet_steps)

lemma month_trace_kept:
  assumes "month_trace m evs db db'" "office_ok db" "four_digit_year m" "month_locked m db"
  shows "kept_by m evs db db'"
  using assms(1,2,4)
proof (induction rule: month_trace.induct)
  case (trace_done db)
  then show ?case by (simp add: kept_Nil)
next
  case (trace_more ev db db1 evs db2)
  have first: "kept_by m [ev] db db1" using month_step_kept trace_more.hyps(1) trace_more.prems assms(3) by blast
  then have "office_ok db1" "closed_scope m db1 = closed_scope m db" by (simp_all add: kept_by_def)
  then show ?case
    using kept_Cons [OF first trace_more.IH] locked_by_closed_scope trace_more.prems(2) by blast
qed

section \<open>Properties\<close>

text \<open>
  C1: What a locked month keeps. Whatever handlers of whatever services run after the lock, and
  whatever imports, in any order and number: the month stays locked, and its settlement, the
  details, its manual spends, rates, groups, members, salary items, mappings and bindings stay
  exactly as they were. Its losses change only by the lock of the month before it; its incomes only
  by a draft of an adjustment or an import of income (handlers of manual income and confirmations
  leave them alone, and the executor refuses a task of the month itself); its card events are only
  rewritten by an Airwallex import, and a PhotonPay import appends to them if it is one of this
  month. The rows linked by keys are linked (\<open>office_ok\<close>, which every step keeps and the empty database
  has) and the month is of a year of four digits.
\<close>

theorem locked_month_changes_only_through_gaps:
  assumes "month_trace m evs db db'" and "month_locked m db" and "office_ok db" and "four_digit_year m"
  shows "month_locked m db' \<and> office_ok db' \<and> closed_scope m db' = closed_scope m db
    \<and> (list_ex (rolls_into m) evs \<or> mv_historical (month_scope m db') = mv_historical (month_scope m db))
    \<and> (list_ex (writes_incomes m) evs \<or> mv_incomes (month_scope m db') = mv_incomes (month_scope m db))
    \<and> (list_ex (rewrites_events m) evs
       \<or> (\<exists>new. mv_card_events (month_scope m db') = mv_card_events (month_scope m db) @ new
            \<and> (list_ex (appends_events m) evs \<or> new = [])))"
  using month_trace_kept [OF assms(1,3,4,2)] locked_by_closed_scope [OF _ assms(2)] unfolding kept_by_def by blast

lemma office_ok_empty: "office_ok empty_db"
  by (simp add: office_ok_def settled_def settlements_ok_def details_linked_def losses_identified_def groups_linked_def
      mappings_ok_def bindings_ok_def ids_of_def empty_db_def)

section \<open>A concrete month\<close>

text \<open>
  March is locked. February is locked after it, which adds a loss to March, and a task is asked to
  run again.
\<close>

theorem locked_month_changes_only_through_gaps_witness:
  "\<exists>db1 db2. db1 = snd (lockSettlement sample_rt FEB_2026 sample_actor None (sample_office_db []))
     \<and> db2 = snd (requestRetry sample_rt 3 ''t1'' JUndefined sample_actor db1)
     \<and> month_locked MAR_2026 db2 \<and> closed_scope MAR_2026 db2 = closed_scope MAR_2026 (sample_office_db [])
     \<and> mv_settlements (closed_scope MAR_2026 db2) = [sample_march]
     \<and> mv_incomes (month_scope MAR_2026 db2) = mv_incomes (month_scope MAR_2026 (sample_office_db []))"
proof -
  let ?db = "sample_office_db []"
  let ?db1 = "snd (lockSettlement sample_rt FEB_2026 sample_actor None ?db)"
  let ?db2 = "snd (requestRetry sample_rt 3 ''t1'' JUndefined sample_actor ?db1)"
  have "fresh_profit_ids sample_rt ?db"
    using sample_fresh_inj by (simp add: fresh_profit_ids_def sample_office_db_def ids_of_def)
  then have trace: "month_trace MAR_2026 [Rolled FEB_2026, Entered] ?db ?db2"
    by (rule trace_more [OF lock_month trace_more [OF retry trace_done]])
  have "mv_settlements (closed_scope MAR_2026 ?db) = [sample_march]"
    using sample_months(1)
    by (simp add: closed_scope_def month_scope_def sample_office_db_def sample_march_def sample_settlement_def)
  moreover note locked_month_changes_only_through_gaps
    [OF trace sample_office_settlements(2) sample_office_ok sample_months(2)]
  ultimately show ?thesis by (intro exI [of _ ?db1] exI [of _ ?db2]) simp
qed

end
