(* ===== verification/Reconciliation.thy ===== *)
theory Reconciliation
  imports Month_Table Audit_Sanitizer Provider_Cards
begin

text \<open>
  \<open>sync-reconciliation.service.ts\<close>: the incomes and card spends of a month as the providers reported them, their totals,
  the part that has no employee yet, and the raw profit of every employee. Everything here reads only.

  The environment holds what the platform decides: reading a number from text and printing one, the order of names, and
  when a row was last written, which the tables do not keep. Creation times are left out of the answers; rows are in the
  order of their creation. Totals stay numbers here where the program prints them.
\<close>

record reconciliation_env =
  ev_number :: "string \<Rightarrow> rat option"
  ev_show_number :: "rat \<Rightarrow> string"
  ev_collate :: "string \<Rightarrow> string"
  ev_updatedAt :: "string \<Rightarrow> int"

definition AFFILIATE_SOURCES :: "string list" where
  "AFFILIATE_SOURCES = [''everflow'', ''cake'']"

section \<open>Fields of a query\<close>

definition parseRequiredMonth :: "runtime \<Rightarrow> jsval \<Rightarrow> int outcome" where
  "parseRequiredMonth rt v =
     bind_res (requireNonBlank v ''settlementMonth'') (\<lambda>s. parseMonthStart rt (JString s) ''settlementMonth'')"

definition js_to_number :: "reconciliation_env \<Rightarrow> jsval \<Rightarrow> rat option" where
  "js_to_number ev v =
     (case v of
        JNum x \<Rightarrow> Some x
      | JString s \<Rightarrow>
          (if js_trim s = [] then Some 0
           else if list_all is_digit (js_trim s) then Some (of_nat (digits_to_nat (js_trim s))) else ev_number ev s)
      | _ \<Rightarrow> None)"

definition page_number :: "reconciliation_env \<Rightarrow> jsval \<Rightarrow> nat \<Rightarrow> nat \<Rightarrow> nat \<Rightarrow> nat outcome" where
  "page_number ev v fallback low high =
     (if is_absent v then Inr fallback
      else let bad = Inl (AppError VALIDATION_ERROR (''pagination value must be an integer between '' @ nat_string low @ '' and ''
                       @ nat_string high @ ''.''))
           in case js_to_number ev v of
                None \<Rightarrow> bad
              | Some x \<Rightarrow>
                  (if of_int \<lfloor>x\<rfloor> \<noteq> x \<or> x < of_nat low \<or> of_nat high < x then bad else Inr (nat \<lfloor>x\<rfloor>)))"

definition page_query :: "reconciliation_env \<Rightarrow> jsval \<Rightarrow> jsval \<Rightarrow> (nat \<times> nat) outcome" where
  "page_query ev page pageSize =
     bind_res (page_number ev page 1 1 100000) (\<lambda>p.
     bind_res (page_number ev pageSize 50 1 500) (\<lambda>n. Inr (p, n)))"

definition optionalString :: "jsval \<Rightarrow> string option" where
  "optionalString v = (case v of JString s \<Rightarrow> (if js_trim s = [] then None else Some (js_trim s)) | _ \<Rightarrow> None)"

definition optional_provider :: "jsval \<Rightarrow> provider option outcome" where
  "optional_provider v =
     (case optionalString v of
        None \<Rightarrow> Inr None
      | Some s \<Rightarrow>
          (if s = ''airwallex'' then Inr (Some airwallex) else if s = ''photonpay'' then Inr (Some photonpay)
           else Inl (AppError VALIDATION_ERROR ''provider must be airwallex or photonpay.'')))"

section \<open>Values kept from the provider\<close>

definition secret_words :: "string list" where
  "secret_words = [''apikey'', ''token'', ''secret'', ''clientid'', ''merchantid'', ''authorization'', ''signature'', ''password'',
     ''encryptedpayload'']"

definition reads_secret_field :: "string \<Rightarrow> bool" where
  "reads_secret_field key \<longleftrightarrow> list_ex (js_includes (js_lower key)) secret_words"

text \<open>The first of the keys that is present and not null; \<open>null\<close> when there is none or the value is no object.\<close>

definition safeRawValue :: "jsval \<Rightarrow> string list \<Rightarrow> jsval" where
  "safeRawValue raw keys =
     (case raw of
        JObject kvs \<Rightarrow>
          (case filter (\<lambda>v. v \<noteq> JUndefined \<and> v \<noteq> JNull) (map (js_get kvs) (filter (\<lambda>k. \<not> reads_secret_field k) keys)) of
             [] \<Rightarrow> JNull | v # _ \<Rightarrow> v)
      | _ \<Rightarrow> JNull)"

definition safeRawString :: "reconciliation_env \<Rightarrow> jsval \<Rightarrow> string list \<Rightarrow> string option" where
  "safeRawString ev raw keys =
     (case safeRawValue raw keys of
        JString s \<Rightarrow> (if js_trim s = [] then None else Some (js_trim s))
      | JNum x \<Rightarrow> Some (ev_show_number ev x)
      | JBool b \<Rightarrow> Some (if b then ''true'' else ''false'')
      | _ \<Rightarrow> None)"

text \<open>Seconds or milliseconds; a \<open>Date\<close> of a number drops the fraction and is invalid beyond 8.64e15.\<close>

definition date_of_number :: "rat \<Rightarrow> js_date" where
  "date_of_number x =
     (let t = (if x > 100000000000 then x else x * 1000)
      in if \<bar>t\<bar> > 8640000000000000 then None else Some (if t < 0 then \<lceil>t\<rceil> else \<lfloor>t\<rfloor>))"

definition safeRawDate :: "runtime \<Rightarrow> jsval \<Rightarrow> string list \<Rightarrow> string option" where
  "safeRawDate rt raw keys =
     (case safeRawValue raw keys of
        JNum x \<Rightarrow> map_option iso_string (date_of_number x)
      | JString s \<Rightarrow>
          (if js_trim s = [] then None
           else case js_parse_date rt s of None \<Rightarrow> Some (js_trim s) | Some t \<Rightarrow> Some (iso_string t))
      | _ \<Rightarrow> None)"

definition reconciled_platform :: "string \<Rightarrow> string option" where
  "reconciled_platform v =
     (let n = js_lower (js_trim v) in if n = ''everflow'' \<or> n = ''cake'' then Some n else None)"

definition EVENT_KEYS :: "string list" where
  "EVENT_KEYS = [''event_time'', ''eventTime'', ''conversion_date'', ''conversionDate'', ''conversion_time'', ''conversionTime'']"

definition CONVERSION_KEYS :: "string list" where
  "CONVERSION_KEYS = [''conversion_date'', ''conversionDate'', ''conversion_unix_timestamp'', ''conversion_time'', ''conversionTime'',
     ''event_time'', ''eventTime'']"

definition OCCURRED_KEYS :: "string list" where
  "OCCURRED_KEYS = [''conversion_date'', ''conversionDate'', ''conversion_time'', ''conversionTime'', ''event_time'', ''eventTime'']"

definition STATUS_KEYS :: "string list" where
  "STATUS_KEYS = [''disposition'', ''status'', ''conversion_status'', ''conversionStatus'']"

section \<open>Affiliate income\<close>

definition income_wanted :: "int \<Rightarrow> string option \<Rightarrow> string option \<Rightarrow> string option \<Rightarrow> income_record \<Rightarrow> bool" where
  "income_wanted m account employeeId subId r \<longleftrightarrow>
     ir_month r = m \<and> ir_source r \<in> set AFFILIATE_SOURCES
     \<and> (account = None \<or> ir_affiliateAccountId r = account) \<and> (employeeId = None \<or> ir_employeeId r = employeeId)
     \<and> (subId = None \<or> ir_subValue r = subId)"

definition account_of_income :: "database \<Rightarrow> income_record \<Rightarrow> affiliate_account option" where
  "account_of_income db r =
     (case ir_affiliateAccountId r of None \<Rightarrow> None | Some i \<Rightarrow> find_row (\<lambda>a. aa_id a = i) (affiliate_accounts db))"

definition employee_of :: "database \<Rightarrow> string option \<Rightarrow> employee option" where
  "employee_of db i = (case i of None \<Rightarrow> None | Some e \<Rightarrow> find_row (\<lambda>x. em_id x = e) (employees db))"

definition income_platform :: "database \<Rightarrow> income_record \<Rightarrow> string option" where
  "income_platform db r =
     reconciled_platform (case account_of_income db r of Some a \<Rightarrow> aa_platform a | None \<Rightarrow> ir_source r)"

definition account_label :: "database \<Rightarrow> income_record \<Rightarrow> string option" where
  "account_label db r =
     (case account_of_income db r of
        None \<Rightarrow> None | Some a \<Rightarrow> Some (case aa_accountName a of Some n \<Rightarrow> n | None \<Rightarrow> aa_accountCode a))"

record income_item =
  ig_id :: string
  ig_settlementMonth :: string
  ig_affiliateAccountId :: "string option"
  ig_affiliateAccountName :: "string option"
  ig_affiliateAccountCode :: "string option"
  ig_platform :: "string option"
  ig_thirdPartyConversionId :: "string option"
  ig_subId :: "string option"
  ig_subField :: "string option"
  ig_employeeId :: "string option"
  ig_employeeName :: "string option"
  ig_revenueUsd :: string
  ig_conversionTime :: "string option"
  ig_eventTime :: "string option"
  ig_rawStatus :: "string option"
  ig_importedBy :: "string option"

definition income_item_of :: "reconciliation_env \<Rightarrow> runtime \<Rightarrow> database \<Rightarrow> income_record \<Rightarrow> income_item" where
  "income_item_of ev rt db r =
     \<lparr>ig_id = ir_id r, ig_settlementMonth = formatMonth (ir_month r), ig_affiliateAccountId = ir_affiliateAccountId r,
      ig_affiliateAccountName = account_label db r, ig_affiliateAccountCode = map_option aa_accountCode (account_of_income db r),
      ig_platform = income_platform db r, ig_thirdPartyConversionId = ir_externalRecordId r, ig_subId = ir_subValue r,
      ig_subField = ir_subField r, ig_employeeId = ir_employeeId r,
      ig_employeeName = map_option em_name (employee_of db (ir_employeeId r)),
      ig_revenueUsd = rt_show_decimal rt (ir_incomeUsd r), ig_conversionTime = safeRawDate rt (ir_rawData r) CONVERSION_KEYS,
      ig_eventTime = safeRawDate rt (ir_rawData r) EVENT_KEYS, ig_rawStatus = safeRawString ev (ir_rawData r) STATUS_KEYS,
      ig_importedBy = ir_importedBy r\<rparr>"

text \<open>Totals over every row of the query, on whatever page; the difference is taken in the decimal library.\<close>

record totals =
  tt_total :: rat
  tt_matched :: rat
  tt_unmatched :: rat
  tt_count :: nat
  tt_matchedCount :: nat
  tt_unmatchedCount :: nat

definition totals_of :: "runtime \<Rightarrow> ('r \<Rightarrow> rat) \<Rightarrow> ('r \<Rightarrow> string option) \<Rightarrow> 'r list \<Rightarrow> totals" where
  "totals_of rt amount owner rows =
     (let owned = filter (\<lambda>r. owner r \<noteq> None) rows;
          total = sum_list (map amount rows); matched = sum_list (map amount owned)
      in \<lparr>tt_total = total, tt_matched = matched, tt_unmatched = dec_minus (rt_round rt) total matched,
          tt_count = length rows, tt_matchedCount = length owned, tt_unmatchedCount = length rows - length owned\<rparr>)"

record 'i reconciliation_page =
  rq_items :: "'i list"
  rq_total :: nat
  rq_page :: nat
  rq_pageSize :: nat
  rq_summary :: totals

definition page_rows :: "nat \<Rightarrow> nat \<Rightarrow> 'r list \<Rightarrow> 'r list" where
  "page_rows page pageSize rows = take pageSize (drop ((page - 1) * pageSize) (rev rows))"

definition affiliateIncome ::
  "reconciliation_env \<Rightarrow> runtime \<Rightarrow> json_record \<Rightarrow> income_item reconciliation_page handler" where
  "affiliateIncome ev rt query =
     op_bind (op_lift (parseRequiredMonth rt (js_get query ''settlementMonth''))) (\<lambda>m.
     op_bind (op_lift (page_query ev (js_get query ''page'') (js_get query ''pageSize''))) (\<lambda>(page, pageSize).
     op_get (\<lambda>db.
       let rows = filter (income_wanted m (optionalString (js_get query ''affiliateAccountId''))
                    (optionalString (js_get query ''employeeId'')) (optionalString (js_get query ''subId''))) (income_records db)
       in \<lparr>rq_items = map (income_item_of ev rt db) (page_rows page pageSize rows), rq_total = length rows, rq_page = page,
           rq_pageSize = pageSize, rq_summary = totals_of rt ir_incomeUsd ir_employeeId rows\<rparr>)))"

section \<open>The export of the incomes\<close>

definition formatGmt8DateTime :: "js_date \<Rightarrow> string" where
  "formatGmt8DateTime d =
     (case d of
        None \<Rightarrow> []
      | Some t \<Rightarrow>
          map (\<lambda>c. if c = CHR ''T'' then CHR '' '' else c) (take 19 (iso_string (t + 8 * 60 * 60 * 1000))) @ '' +08:00'')"

definition payout_headers :: "string list" where
  "payout_headers =
     [''<platform>'', ''<affiliate account name>'', ''Affiliate ID/<account code>'', ''<settlement month>'', ''external conversion ID'',
      ''sales/conversion time GMT+8'', ''SUB<field>'', ''SUB<value>'', ''Revenue USD'', ''disposition/status'', ''<matched employee>'',
      ''<match status>'', ''<last synchronised>'']"

definition or_blank :: "string option \<Rightarrow> string" where
  "or_blank v = (case v of None \<Rightarrow> [] | Some s \<Rightarrow> s)"

definition payout_row :: "reconciliation_env \<Rightarrow> runtime \<Rightarrow> database \<Rightarrow> income_record \<Rightarrow> string list" where
  "payout_row ev rt db r =
     (let account = account_of_income db r; employee = employee_of db (ir_employeeId r);
          occurredAt = safeRawDate rt (ir_rawData r) OCCURRED_KEYS;
          syncedAt = (case safeRawDate rt (ir_rawData r) [''synced_at'', ''syncedAt''] of
            Some s \<Rightarrow> s | None \<Rightarrow> iso_string (ev_updatedAt ev (ir_id r)))
      in [or_blank (income_platform db r), or_blank (case account of None \<Rightarrow> None | Some a \<Rightarrow> aa_accountName a),
          or_blank (map_option aa_accountCode account), take 7 (formatMonth (ir_month r)), or_blank (ir_externalRecordId r),
          (case occurredAt of None \<Rightarrow> [] | Some s \<Rightarrow> formatGmt8DateTime (js_parse_date rt s)),
          or_blank (ir_subField r), or_blank (ir_subValue r), rt_show_decimal rt (ir_incomeUsd r),
          or_blank (safeRawString ev (ir_rawData r) STATUS_KEYS),
          (case employee of None \<Rightarrow> [] | Some e \<Rightarrow> em_name e @ '' ('' @ em_id e @ '')''),
          (if employee = None then ''unmatched'' else ''matched''), formatGmt8DateTime (js_parse_date rt syncedAt)])"

definition EXPORT_LIMIT :: nat where
  "EXPORT_LIMIT = 50000"

text \<open>The byte order mark is the marker \<open><BOM>\<close> here; the answer also names the file and counts the rows.\<close>

definition exportAffiliatePayoutCsv ::
  "reconciliation_env \<Rightarrow> runtime \<Rightarrow> json_record \<Rightarrow> (string \<times> string \<times> nat) handler" where
  "exportAffiliatePayoutCsv ev rt query =
     op_bind (op_lift (parseRequiredMonth rt (js_get query ''settlementMonth''))) (\<lambda>m.
     op_get (\<lambda>db.
       let records = take EXPORT_LIMIT (filter (income_wanted m (optionalString (js_get query ''affiliateAccountId''))
                    (optionalString (js_get query ''employeeId'')) (optionalString (js_get query ''subId''))) (income_records db));
           rows = payout_headers # map (payout_row ev rt db) records
       in (''<BOM>'' @ js_join [CHR 0x0D, CHR 0x0A] (map (\<lambda>row. js_join '','' (map csvSafeCell row)) rows),
           ''affiliate-payout-'' @ take 7 (formatMonth m) @ ''.csv'', length records)))"

section \<open>Card spends\<close>

definition card_last4 :: "reconciliation_env \<Rightarrow> jsval \<Rightarrow> string option" where
  "card_last4 ev raw = safeRawString ev raw [''cardLast4'', ''card_last4'', ''last4'', ''card_number_last4'']"

definition card_email :: "reconciliation_env \<Rightarrow> jsval \<Rightarrow> string option" where
  "card_email ev raw = safeRawString ev raw [''cardEmail'', ''card_email'', ''email'', ''holderEmail'', ''holder_email'']"

record spend_item =
  sg_id :: string
  sg_settlementMonth :: string
  sg_provider :: provider
  sg_employeeId :: "string option"
  sg_employeeName :: "string option"
  sg_cardId :: string
  sg_cardLast4 :: "string option"
  sg_cardEmail :: "string option"
  sg_transactionId :: "string option"
  sg_transactionAt :: int
  sg_settledAt :: "int option"
  sg_amountUsd :: string
  sg_status :: common_status
  sg_settleStatus :: "string option"
  sg_importedBy :: "string option"

text \<open>The creation time, the last resort of \<open>settledAt\<close>, is not kept.\<close>

definition spend_item_of :: "reconciliation_env \<Rightarrow> runtime \<Rightarrow> database \<Rightarrow> card_spend_event \<Rightarrow> spend_item" where
  "spend_item_of ev rt db e =
     \<lparr>sg_id = ce_id e, sg_settlementMonth = formatMonth (ce_month e), sg_provider = ce_provider e, sg_employeeId = ce_employeeId e,
      sg_employeeName = map_option em_name (employee_of db (ce_employeeId e)), sg_cardId = ce_cardId e,
      sg_cardLast4 = card_last4 ev (ce_rawData e), sg_cardEmail = card_email ev (ce_rawData e),
      sg_transactionId = ce_externalEventId e, sg_transactionAt = ce_transactionAt e,
      sg_settledAt = (case ce_settledAt e of Some t \<Rightarrow> Some t | None \<Rightarrow> ce_sourceUpdatedAt e),
      sg_amountUsd = rt_show_decimal rt (ce_spendUsd e), sg_status = ce_status e, sg_settleStatus = ce_sourceStatus e,
      sg_importedBy = ce_importedBy e\<rparr>"

definition spend_wanted :: "int \<Rightarrow> provider option \<Rightarrow> string option \<Rightarrow> card_spend_event \<Rightarrow> bool" where
  "spend_wanted m p employeeId e \<longleftrightarrow>
     ce_month e = m \<and> (p = None \<or> p = Some (ce_provider e)) \<and> (employeeId = None \<or> ce_employeeId e = employeeId)"

definition reconcile_cardSpend ::
  "reconciliation_env \<Rightarrow> runtime \<Rightarrow> json_record \<Rightarrow> spend_item reconciliation_page handler" where
  "reconcile_cardSpend ev rt query =
     op_bind (op_lift (parseRequiredMonth rt (js_get query ''settlementMonth''))) (\<lambda>m.
     op_bind (op_lift (page_query ev (js_get query ''page'') (js_get query ''pageSize''))) (\<lambda>(page, pageSize).
     op_bind (op_lift (optional_provider (js_get query ''provider''))) (\<lambda>p.
     op_get (\<lambda>db.
       let rows = filter (spend_wanted m p (optionalString (js_get query ''employeeId''))) (card_spend_events db)
       in \<lparr>rq_items = map (spend_item_of ev rt db) (page_rows page pageSize rows), rq_total = length rows, rq_page = page,
           rq_pageSize = pageSize, rq_summary = totals_of rt ce_spendUsd ce_employeeId rows\<rparr>))))"

section \<open>The month of every employee\<close>

text \<open>\<open>groupBy\<close> with a sum, and the map built of its rows.\<close>

definition grouped_sums :: "('r \<Rightarrow> string option) \<Rightarrow> ('r \<Rightarrow> rat) \<Rightarrow> 'r list \<Rightarrow> (string \<times> rat) list" where
  "grouped_sums owner amount rows =
     map (\<lambda>e. (e, sum_list (map amount (filter (\<lambda>r. owner r = Some e) rows)))) (sort (js_dedup (List.map_filter owner rows)))"

definition decimalMap :: "(string \<times> rat) list \<Rightarrow> (string \<times> rat) list" where
  "decimalMap groups = foldl (\<lambda>m (e, x). if e = [] then m else map_set m e x) [] groups"

definition month_incomes :: "int \<Rightarrow> database \<Rightarrow> income_record list" where
  "month_incomes m db = filter (\<lambda>r. ir_month r = m \<and> ir_source r \<in> set AFFILIATE_SOURCES) (income_records db)"

definition month_spends :: "int \<Rightarrow> database \<Rightarrow> card_spend_event list" where
  "month_spends m db = filter (\<lambda>e. ce_month e = m) (card_spend_events db)"

definition month_manual :: "int \<Rightarrow> database \<Rightarrow> manual_card_spend list" where
  "month_manual m db = filter (\<lambda>s. mc_month s = m \<and> mc_status s = SS_confirmed) (manual_card_spends db)"

record employee_summary =
  eg_employeeId :: string
  eg_employeeName :: "string option"
  eg_affiliateRevenueUsd :: rat
  eg_apiCardSpendUsd :: rat
  eg_manualCardSpendUsd :: rat
  eg_rawGrossProfitUsd :: rat
  eg_warnings :: "string list"

definition sum_for :: "(string \<times> rat) list \<Rightarrow> string \<Rightarrow> rat" where
  "sum_for m e = (case map_of m e of None \<Rightarrow> 0 | Some x \<Rightarrow> x)"

definition summary_row ::
  "runtime \<Rightarrow> employee list \<Rightarrow> (string \<times> rat) list \<Rightarrow> (string \<times> rat) list \<Rightarrow> (string \<times> rat) list \<Rightarrow> string list \<Rightarrow> string \<Rightarrow> employee_summary" where
  "summary_row rt people incomes apiSpends manualSpends warnings e =
     (let revenue = sum_for incomes e; api = sum_for apiSpends e; manual = sum_for manualSpends e
      in \<lparr>eg_employeeId = e, eg_employeeName = map_option em_name (find_row (\<lambda>x. em_id x = e) people),
          eg_affiliateRevenueUsd = revenue, eg_apiCardSpendUsd = api, eg_manualCardSpendUsd = manual,
          eg_rawGrossProfitUsd = dec_minus (rt_round rt) (dec_minus (rt_round rt) revenue api) manual, eg_warnings = warnings\<rparr>)"

definition summary_employees :: "employee list \<Rightarrow> (string \<times> rat) list list \<Rightarrow> string list" where
  "summary_employees people maps = js_dedup (map em_id people @ concat (map (map fst) maps))"

definition shown_name :: "employee list \<Rightarrow> string \<Rightarrow> string" where
  "shown_name people e = (case find_row (\<lambda>x. em_id x = e) people of None \<Rightarrow> e | Some x \<Rightarrow> em_name x)"

definition monthlyEmployeeSummary :: "reconciliation_env \<Rightarrow> runtime \<Rightarrow> json_record \<Rightarrow> employee_summary list handler" where
  "monthlyEmployeeSummary ev rt query =
     op_bind (op_lift (parseRequiredMonth rt (js_get query ''settlementMonth''))) (\<lambda>m.
     op_get (\<lambda>db.
       let people = sort_key em_name (filter (\<lambda>e. em_status e = CS_active) (employees db));
           incomes = decimalMap (grouped_sums ir_employeeId ir_incomeUsd (month_incomes m db));
           apiSpends = decimalMap (grouped_sums ce_employeeId ce_spendUsd (month_spends m db));
           manualSpends = decimalMap (grouped_sums (\<lambda>s. Some (mc_employeeId s)) mc_actualSpendUsd (month_manual m db));
           warnings = (if list_ex (\<lambda>r. ir_employeeId r = None) (month_incomes m db) then [''missingSubMapping''] else [])
             @ (if list_ex (\<lambda>e. ce_employeeId e = None) (month_spends m db) then [''missingCardMapping''] else [])
       in map (summary_row rt people incomes apiSpends manualSpends warnings)
            (sort_key (\<lambda>e. ev_collate ev (shown_name people e)) (summary_employees people [incomes, apiSpends, manualSpends]))))"

section \<open>What has no employee\<close>

record unmatched_income_item =
  uh_reason :: string
  uh_income :: income_record
  uh_settlementMonth :: string
  uh_accountName :: "string option"
  uh_platform :: "string option"
  uh_revenueUsd :: string

record unmatched_spend_item =
  uj_reason :: string
  uj_event :: card_spend_event
  uj_settlementMonth :: string
  uj_cardLast4 :: "string option"
  uj_cardEmail :: "string option"
  uj_amountUsd :: string

definition listUnmatchedRows ::
  "reconciliation_env \<Rightarrow> runtime \<Rightarrow> json_record \<Rightarrow> (unmatched_income_item list \<times> unmatched_spend_item list) handler" where
  "listUnmatchedRows ev rt query =
     op_bind (op_lift (parseRequiredMonth rt (js_get query ''settlementMonth''))) (\<lambda>m.
     let kind = (case js_get query ''type'' of JUndefined \<Rightarrow> JString ''all'' | JNull \<Rightarrow> JString ''all'' | v \<Rightarrow> v)
     in op_bind (op_assert (kind \<in> set [JString ''affiliate_income'', JString ''card_spend'', JString ''all''])
          (AppError VALIDATION_ERROR ''type must be affiliate_income, card_spend, or all.'')) (\<lambda>_.
        op_get (\<lambda>db.
          (map (\<lambda>r. \<lparr>uh_reason = (if ir_subValue r = None \<or> ir_subValue r = Some [] then ''SUB_ID_MISSING'' else ''SUB_ID_NOT_MAPPED''),
               uh_income = r, uh_settlementMonth = formatMonth (ir_month r), uh_accountName = account_label db r,
               uh_platform = income_platform db r, uh_revenueUsd = rt_show_decimal rt (ir_incomeUsd r)\<rparr>)
             (if kind = JString ''card_spend'' then [] else rev (filter (\<lambda>r. ir_employeeId r = None) (month_incomes m db))),
           map (\<lambda>e. \<lparr>uj_reason = (if ce_cardId e = [] then ''CARD_ID_MISSING'' else ''CARD_NOT_MAPPED''),
               uj_event = e, uj_settlementMonth = formatMonth (ce_month e), uj_cardLast4 = card_last4 ev (ce_rawData e),
               uj_cardEmail = card_email ev (ce_rawData e), uj_amountUsd = rt_show_decimal rt (ce_spendUsd e)\<rparr>)
             (if kind = JString ''affiliate_income'' then [] else rev (filter (\<lambda>e. ce_employeeId e = None) (month_spends m db)))))))"

end
