(* ===== verification/Reconciliation_Properties.thy ===== *)
theory Reconciliation_Properties
  imports Reconciliation
begin















lemma summary_row_fields [simp]:
  "eg_employeeId (summary_row rt people i a s w e) = e" "eg_affiliateRevenueUsd (summary_row rt people i a s w e) = sum_for i e"
  "eg_apiCardSpendUsd (summary_row rt people i a s w e) = sum_for a e" "eg_manualCardSpendUsd (summary_row rt people i a s w e) = sum_for s e"
  by (simp_all add: summary_row_def Let_def)












end
