(* ===== verification/Spec2Isabelle.thy ===== *)
theory Spec2Isabelle
  imports
  Calculator_Properties Finalization_Properties Settlement_Lifecycle Monthly_Rates
  Historical_Profits Manual_Card_Spend Salary_Items Manual_Income Performance_Groups
  Employees Card_Bindings Card_Matching Cake_Adjustments Office_Frames Locked_Months Service_Frames Month_Safety
  Unmatched_Events Import_Properties Governance_Properties Access_Properties Reconciliation_Properties
begin

text \<open>
  A verification development of the salary backend (\<open>apps/api/src\<close>): what the monthly
  settlement of salaries computes, and what the services around it keep of the database.

  \<^bold>\<open>The program.\<close> Employees earn income (imported, entered or adjusted by hand) and spend on
  cards. For each settlement month an administrator enters rates, groups, salary items and
  corrections; a settlement is generated from the confirmed rows of the month, confirmed,
  exported and locked. A locked month must not change any more; the losses of its employees
  are carried to the next month. Income and card spend are imported by synchronisation tasks,
  planned by a scheduler and run by an executor or by hand. Every handler writes to the audit
  log; administrators, roles and sessions decide who may call which handler.

  \<^bold>\<open>The model.\<close> A handler is a function from the database to a thrown exception or a result,
  and the new database (\<open>Salary_Prelude\<close>): writes made before a throw stay, unless they are
  inside a transaction (\<open>op_transaction\<close>). The database is the record of its tables (\<open>Schema\<close>,
  after \<open>prisma/schema.prisma\<close>); a table is the list of its rows in order of insertion, and the
  unique indexes are checked by the inserts and updates (\<open>Month_Table\<close>). Exceptions carry the
  codes of \<open>App_Error\<close>. JavaScript values, texts and dates are modelled in \<open>Js_Value\<close>,
  \<open>Salary_Prelude\<close> and \<open>Js_Date\<close> as far as the services use them. Amounts are rational numbers,
  rounded where the decimal library or a numeric column rounds.

  \<^bold>\<open>Parameters.\<close> What is outside the repository is an argument. The record \<open>runtime\<close> holds the
  decimal library's rounding and the column rounding, the parser and printer of decimals, the date
  parser of the engine for formats other than the ISO ones, clock, identifiers and digest;
  \<open>access_env\<close> key derivation, text coding, random bytes and the serialization conflicts a
  transaction meets; \<open>reconciliation_env\<close> number parsing, collation and the time of the last write;
  \<open>income_env\<close> and \<open>inventory_env\<close> the answers of the providers, one function of the requests made.
  Laws a theorem needs are hypotheses (\<open>decimal_rounding\<close>, \<open>column_rounding\<close>), interpreted on the
  two roundings of \<open>Decimal_Lib\<close> and used with a concrete runtime (\<open>Sample_Runtime\<close>) in the witnesses.

  \<^bold>\<open>Settlement\<close> (\<open>settlement/\<close>, \<open>month-lock/\<close>, \<open>audit/\<close>).
  \<^item> \<open>Settlement_Calculator\<close> is \<open>settlement-calculator.service.ts\<close>; \<open>Calculator_Properties\<close> shows that
    the accumulated maps are sums over rows, that a carryover loses no loss, that a group's profit
    is conserved up to rounding, and that salaries grow with the profit.
  \<^item> \<open>Settlement_Preflight\<close>, \<open>Settlement_Generation\<close>, \<open>Settlement_Finalization\<close> and \<open>Settlement_Month\<close>
    are the services of the same names. \<open>Settlement_Generation\<close> also shows what a failing and a
    successful generation leave; \<open>Finalization_Properties\<close> the roll-forward and the export read
    back; \<open>Settlement_Lifecycle\<close> the status machine.
  \<^item> \<open>Month_Lock\<close> and \<open>Audit_Sanitizer\<close> are the month lock, the audit log and its redaction.
    \<open>Locked_Months\<close> composes the handlers of the office into \<open>office_step\<close>, which keeps the scope of a
    locked month. \<open>Month_Safety\<close> composes every handler and import of the program into \<open>month_step\<close>,
    each step with its kind, and shows what a locked month keeps whatever runs, and which kinds of
    steps may change its losses (the lock of the month before, a theorem of \<open>Locked_Months\<close>), its
    incomes (drafts of adjustments, imports) and its card events (imports). \<open>Service_Frames\<close> says what
    the services beside the office's leave alone.

  \<^bold>\<open>Entries of a month\<close> (\<open>base-data/\<close> and one directory per service). \<open>Base_Data\<close> holds the parsers,
  \<open>Monthly_Rates\<close>, \<open>Historical_Profits\<close>, \<open>Manual_Card_Spend\<close>, \<open>Manual_Income\<close>, \<open>Salary_Items\<close>,
  \<open>Performance_Groups\<close>, \<open>Employees\<close>, \<open>Sub_Id_Mappings\<close>, \<open>Card_Bindings\<close>, \<open>Cake_Metadata\<close> and
  \<open>Cake_Adjustments\<close> the services. Each theory has the handlers in the order of its file, the
  facts on the months they freeze, and the invariant of its table; \<open>Office_Frames\<close> says which
  tables a handler leaves alone.

  \<^bold>\<open>Synchronisation\<close> (\<open>sync-tasks/\<close>, \<open>sync-unmatched-events/\<close>, \<open>sync-reconciliation/\<close>).
  \<^item> \<open>Sync_Tasks\<close>, \<open>Sync_Operations\<close>, \<open>Sync_Execution\<close>, \<open>Sync_Auto_Execution\<close> and \<open>Sync_Planning\<close> are
    the services around a task. \<open>Sync_Lifecycle\<close> is the abstract machine of a task and the
    program's steps at the granularity of its transactions, in any interleaving; \<open>Sync_Properties\<close>
    shows the simulation, the exclusive lease and the liveness of planned tasks.
  \<^item> \<open>Sub_Revenue\<close>, \<open>Cake_Sync\<close> and \<open>Everflow_Sync\<close> are the adapters of income; \<open>Import_Effect\<close> states
    what one row may do, \<open>Import_Properties\<close> what an import leaves of a month: the last total of a key
    decides, for the key of revenue without a sub id is also the key of a sub id \<open>(blank)\<close>.
  \<^item> \<open>Photonpay_Windows\<close>, \<open>Card_Spend\<close>, \<open>Airwallex_Sync\<close> and \<open>Photonpay_Sync\<close> are the adapters of card
    spend, \<open>Provider_Errors\<close>, \<open>Provider_Cards\<close>, \<open>Card_Matching\<close> and \<open>Card_Inventory\<close> the inventory of
    the cards; \<open>Card_Effects\<close> and \<open>Card_Properties\<close> show what a run may write.
  \<^item> \<open>Card_Governance\<close> is \<open>photonpay-card-governance.service.ts\<close> with the triggers of its migration;
    \<open>Governance_Properties\<close> shows disjoint periods, typed cards and previews that foretell.
  \<^item> \<open>Unmatched_Events\<close> holds the rows nobody could be found for; \<open>Reconciliation\<close> and
    \<open>Reconciliation_Properties\<close> the views of a month and the completeness of its summary.

  \<^bold>\<open>Access\<close> (\<open>auth/\<close>, \<open>admin-users/\<close>, \<open>roles/\<close>). \<open>Access_Model\<close>, \<open>Admin_Users\<close>, \<open>Access_Roles\<close> and
  \<open>Auth_Service\<close> are the services, guards and limiters. \<open>Access_Sessions\<close> composes them into
  \<open>access_step\<close>; \<open>Access_Properties\<close> shows that a super administrator remains, that ended sessions
  stay ended, and that an admitted request is authorised.

  \<^bold>\<open>Interfaces.\<close>
  \<^item> \<open>write_guard\<close>: what a service may rely on when it asks for the lock of a month; interpreted on
    \<open>assertWritable\<close>.
  \<^item> \<open>keyed_table\<close> and its extension \<open>month_table\<close>: rows by identifier, and by month; interpreted on
    the tables of the entry services.
  \<^item> \<open>audit_blind\<close>: a view of the database that looks past the audit log; interpreted on the four
    views of \<open>Locked_Months\<close>. In the same way \<open>access_blind\<close>, \<open>task_blind\<close>, \<open>card_blind\<close> and
    \<open>unmatched_blind\<close> look past the tables of access control, tasks, cards and unmatched rows, and
    \<open>income_import_blind\<close> and \<open>spend_import_blind\<close> past what an import writes; interpreted on the views
    of \<open>Month_Safety\<close> and on the tasks.
  \<^item> \<open>month_import\<close>: one row of a monthly report; interpreted on both income adapters.
  \<^item> \<open>write_effect\<close>, extended by \<open>import_effect\<close> (one transaction of a card run) and \<open>governance_effect\<close>
    (the elementary writes of governance): a reflexive and transitive effect which every step has.
    The interpretations are what may be appended by an import, what a preview writes (nothing), the
    typing of cards, the periods, the sessions and the last super administrator.

  \<^bold>\<open>Bounds and fuel.\<close> Pages of card transactions are read while the provider says there are more,
  so that loop has fuel; \<open>None\<close> is a run not ended within it, and \<open>photonpay_run_ends\<close> shows that a run
  returns when the provider has a last page within the fuel in each window, and that more fuel does
  not change it. The retries of serializable
  transactions are bounded as in the code. Everything else is total by structural recursion or a
  measure. Times are milliseconds and integers; a lease, a limiter window and a session compare them
  as the code does.

  \<^bold>\<open>Not modelled.\<close> Foreign keys and the ranges of columns, but for those of settlement details;
  lengths of columns, creation times, the JSON
  payloads of audit rows and task results, details of errors, delays and the token caches of the
  provider clients; alerts and notifications, the encryption and editing of credentials, the queries
  and exports of the audit log, backup, health, release gate and dashboard, which only report;
  controllers (but the ones of \<open>auth\<close>) and modules, which only call the services; the web application
  and the deployment scripts.
\<close>

end
